(* ===== verification/Prelude.thy ===== *)
theory Prelude
  imports Main "HOL-Library.Word"
begin

text \<open>
  Shared types and lemmas of the development: the fixed-width integers of the firmware as
  words, byte strings, the C array idioms (\<open>memcpy\<close> slices, big- and little-endian
  accumulation loops), and differences of wrapping millisecond clocks.

  A C array of bytes is a list of 8-bit words; a slice \<open>a + k\<close> of length \<open>n\<close> is
  \<open>take n (drop k a)\<close>. A C string is the list of its characters without the final NUL.
\<close>

unbundle bit_operations_syntax

named_theorems frame_simps \<open>fields that an operation leaves alone\<close>

type_synonym u8 = "8 word"
type_synonym u16 = "16 word"
type_synonym u32 = "32 word"
type_synonym u64 = "64 word"
type_synonym i16 = "16 word"
type_synonym i32 = "32 word"
type_synonym bytes = "u8 list"

section \<open>Bytes and characters\<close>

lemma unat_u8_less [simp]: "unat (b :: u8) < 256"
  using unsigned_less [of b, where ?'a = nat] by simp

lemma unat_u32_less [simp]: "unat (w :: u32) < 4294967296"
  using unsigned_less [of w, where ?'a = nat] by simp

lemma unat_u8_le: "unat (b :: u8) \<le> 255"
  using unat_u8_less [of b] by linarith

definition bytes_of :: "string \<Rightarrow> bytes" where
  "bytes_of s = map of_char s"

definition string_of :: "bytes \<Rightarrow> string" where
  "string_of bs = map (\<lambda>b. char_of (unat b)) bs"

lemma length_bytes_of [simp]: "length (bytes_of s) = length s"
  by (simp add: bytes_of_def)

lemma length_string_of [simp]: "length (string_of bs) = length bs"
  by (simp add: string_of_def)

definition slice :: "nat \<Rightarrow> nat \<Rightarrow> 'a list \<Rightarrow> 'a list" where
  "slice k n xs = take n (drop k xs)"

lemma length_slice [simp]: "k + n \<le> length xs \<Longrightarrow> length (slice k n xs) = n"
  by (simp add: slice_def)

text \<open>The accumulation loop \<open>v = (v << 8) | b\<close> over bytes, most significant first.\<close>

definition be32 :: "bytes \<Rightarrow> u32" where
  "be32 bs = foldl (\<lambda>v b. push_bit 8 v OR ucast b) 0 bs"

definition le32 :: "bytes \<Rightarrow> u32" where
  "le32 bs = be32 (rev bs)"

fun be_nat :: "bytes \<Rightarrow> nat" where
  "be_nat [] = 0"
| "be_nat (b # bs) = unat b * 256 ^ length bs + be_nat bs"

lemma be_nat_append: "be_nat (xs @ ys) = be_nat xs * 256 ^ length ys + be_nat ys"
  by (induction xs) (simp_all add: power_add algebra_simps)

lemma be_nat_bound: "be_nat bs < 256 ^ length bs"
proof (induction bs)
  case Nil
  then show ?case by simp
next
  case (Cons b bs)
  have "unat b * 256 ^ length bs \<le> 255 * 256 ^ length bs"
    by (rule mult_le_mono1) (rule unat_u8_le)
  with Cons show ?case by (simp only: be_nat.simps length_Cons power_Suc)
qed

lemma shift_or_byte:
  fixes v :: u32 and b :: u8
  assumes "unat v < 2 ^ 24"
  shows "unat (push_bit 8 v OR ucast b) = unat v * 256 + unat b"
proof -
  have disj: "push_bit 8 v AND (ucast b :: u32) = 0"
    by (rule bit_word_eqI) (auto simp: bit_simps dest: bit_imp_le_length)
  have "push_bit 8 v OR ucast b = push_bit 8 v + (ucast b :: u32)"
    using disj by (simp add: disjunctive_add_eq_or)
  moreover have "push_bit 8 v = v * 256"
    by (simp add: push_bit_eq_mult)
  moreover have "unat (v * 256) = unat v * 256"
    using assms by (simp add: unat_word_ariths)
  moreover have "unat (ucast b :: u32) = unat b"
    by (simp add: unsigned_ucast_eq take_bit_eq_mod less_trans [OF unat_u8_less])
  moreover have "unat v * 256 + unat b < 4294967296"
    using assms unat_u8_le [of b] by simp
  ultimately show ?thesis
    by (simp add: unat_word_ariths)
qed

lemma be32_value:
  assumes "length bs \<le> 4"
  shows "unat (be32 bs) = be_nat bs"
  using assms
proof (induction bs rule: rev_induct)
  case Nil
  then show ?case by (simp add: be32_def)
next
  case (snoc b bs)
  from snoc have IH: "unat (be32 bs) = be_nat bs" by simp
  have "be_nat bs < 256 ^ length bs" by (rule be_nat_bound)
  also have "(256::nat) ^ length bs \<le> 256 ^ 3"
    using snoc.prems by (intro power_increasing) auto
  finally have "unat (be32 bs) < 2 ^ 24" using IH by simp
  then have "unat (be32 (bs @ [b])) = unat (be32 bs) * 256 + unat b"
    unfolding be32_def by (simp add: shift_or_byte)
  with IH show ?case by (simp add: be_nat_append)
qed

section \<open>Wrapping clocks\<close>

text \<open>
  The firmware measures durations as \<open>now - then\<close> on unsigned 32-bit milliseconds. As
  long as less than \<open>2 ^ 32\<close> ms (49.7 days) really passed, the difference is the elapsed
  time, also across the wrap of the counter.
\<close>

lemma clock_difference:
  fixes t0 :: u32
  assumes "d < 2 ^ 32"
  shows "unat ((t0 + of_nat d) - t0) = d"
  using assms by (simp add: unat_of_nat take_bit_eq_mod)

end
