(* ===== verification/Ota_Primitives.thy ===== *)
theory Ota_Primitives
  imports Prelude
begin

text \<open>
  The small routines of \<open>firmware/housepanel-giga/ota_protocol.cpp\<close> and
  \<open>ota_update.cpp\<close> that the receiver is built from: the constant-time comparison,
  the hexadecimal codec of keys and nonces, and the 128-bit AES counter.
\<close>

section \<open>Constant-time comparison\<close>

definition ct_equal :: "bytes \<Rightarrow> bytes \<Rightarrow> nat \<Rightarrow> bool" where
  "ct_equal a b n = (foldl (\<lambda>difference i. difference OR (a ! i XOR b ! i)) 0 [0..<n] = 0)"

lemma or_eq_zero_iff: "(x OR y = 0) \<longleftrightarrow> (x = 0 \<and> y = 0)" for x y :: "'w::len word"
  by (auto simp: bit_eq_iff bit_simps)

lemma xor_eq_zero_iff: "(x XOR y = 0) \<longleftrightarrow> x = y" for x y :: "'w::len word"
  by (auto simp: bit_eq_iff bit_simps)

lemma foldl_or_zero:
  "(foldl (\<lambda>d i. d OR f i) d0 is = (0 :: 'w::len word)) \<longleftrightarrow> d0 = 0 \<and> (\<forall>i \<in> set is. f i = 0)"
  by (induction "is" arbitrary: d0) (auto simp: or_eq_zero_iff)

text \<open>The difference accumulator is zero exactly when the two arrays agree.\<close>

lemma ct_equal_iff:
  assumes "n \<le> length a" and "n \<le> length b"
  shows "ct_equal a b n \<longleftrightarrow> take n a = take n b"
proof -
  have "ct_equal a b n \<longleftrightarrow> (\<forall>i < n. a ! i = b ! i)"
    by (auto simp: ct_equal_def foldl_or_zero xor_eq_zero_iff)
  also have "\<dots> \<longleftrightarrow> take n a = take n b"
    using assms by (auto simp: list_eq_iff_nth_eq)
  finally show ?thesis .
qed

section \<open>Hexadecimal keys and nonces\<close>

text \<open>\<open>hex\<close>: the value of a lower-case hexadecimal digit, or -1.\<close>

definition hex :: "char \<Rightarrow> int" where
  "hex c = (let code = of_char c in
     if 48 \<le> code \<and> code \<le> 57 then code - 48
     else if 97 \<le> code \<and> code \<le> 102 then code - 97 + 10
     else -1)"

text \<open>The digit pairs of a key, up to the first pair that is not hexadecimal.\<close>

fun hex_pairs :: "string \<Rightarrow> bytes option" where
  "hex_pairs (c # d # s) =
     (if hex c < 0 \<or> hex d < 0 then None
      else case hex_pairs s of None \<Rightarrow> None
        | Some bs \<Rightarrow> Some (word_of_int (hex c * 16 + hex d) # bs))"
| "hex_pairs _ = Some []"

text \<open>\<open>to_hex\<close> of \<open>ota_update.cpp\<close>.\<close>

definition hex_digit :: "nat \<Rightarrow> char" where
  "hex_digit n = ''0123456789abcdef'' ! n"

fun to_hex :: "bytes \<Rightarrow> string" where
  "to_hex [] = []"
| "to_hex (b # bs) = hex_digit (unat (drop_bit 4 b)) # hex_digit (unat (b AND 15)) # to_hex bs"

lemma length_to_hex [simp]: "length (to_hex bs) = 2 * length bs"
  by (induction bs) simp_all

lemma hex_pairs_length: "hex_pairs s = Some bs \<Longrightarrow> length bs = length s div 2"
  by (induction s arbitrary: bs rule: hex_pairs.induct) (auto split: if_splits option.splits)

lemma hex_hex_digit: "n < 16 \<Longrightarrow> hex (hex_digit n) = int n"
proof -
  have "\<forall>k \<in> set [0..<16]. hex (hex_digit k) = int k"
    by (simp add: upt_rec [of _ 16] hex_digit_def hex_def)
  then show "n < 16 \<Longrightarrow> hex (hex_digit n) = int n" by simp
qed

lemma nibbles_of_byte:
  fixes b :: u8
  shows "unat (drop_bit 4 b) = unat b div 16" and "unat (b AND 15) = unat b mod 16"
proof -
  show "unat (drop_bit 4 b) = unat b div 16"
    by (simp only: unsigned_drop_bit_eq) (simp add: drop_bit_eq_div take_bit_eq_mod)
  have "b AND 15 = take_bit 4 b"
    by (simp add: take_bit_eq_mask mask_eq_decr_exp)
  then show "unat (b AND 15) = unat b mod 16"
    by (simp only: unsigned_take_bit_eq) (simp add: take_bit_eq_mod)
qed

text \<open>Reading back the hexadecimal form of any byte string gives the bytes.\<close>

lemma hex_pairs_to_hex: "hex_pairs (to_hex bs) = Some bs"
proof (induction bs)
  case Nil
  then show ?case by simp
next
  case (Cons b bs)
  have hi: "unat b div 16 < 16" and lo: "unat b mod 16 < 16"
    using unat_u8_le [of b] by simp_all
  have "int (unat b div 16) * 16 + int (unat b mod 16) = int (unat b)"
    by (metis div_mult_mod_eq of_nat_add of_nat_mult of_nat_numeral)
  then have "word_of_int (int (unat b div 16) * 16 + int (unat b mod 16)) = b"
    by simp
  with Cons hi lo show ?case
    by (simp add: nibbles_of_byte hex_hex_digit)
qed

section \<open>The AES counter\<close>

text \<open>\<open>for (int j = 15; j >= 0; --j) if (++_counter[j]) break;\<close> from index \<open>j\<close> down.\<close>

fun incr_from :: "nat \<Rightarrow> bytes \<Rightarrow> bytes" where
  "incr_from j counter =
     (let counter' = counter[j := counter ! j + 1] in
      if counter' ! j \<noteq> 0 then counter'
      else case j of 0 \<Rightarrow> counter' | Suc k \<Rightarrow> incr_from k counter')"

declare incr_from.simps [simp del]

lemma length_incr_from [simp]: "length (incr_from j c) = length c"
proof (induction j arbitrary: c)
  case 0
  show ?case by (subst incr_from.simps) (simp add: Let_def)
next
  case (Suc j)
  then show ?case by (subst incr_from.simps) (simp add: Let_def)
qed

lemma unat_incr_u8: "unat (b + 1 :: u8) = (if unat b = 255 then 0 else unat b + 1)"
proof (cases "unat b = 255")
  case True
  then show ?thesis by (simp add: unat_word_ariths)
next
  case False
  with unat_u8_le [of b] have "unat b + 1 < 256" by linarith
  with False show ?thesis by (simp add: unat_word_ariths)
qed

lemma incr_u8_eq_zero: "b + 1 = (0 :: u8) \<longleftrightarrow> unat b = 255"
proof -
  have "b + 1 = 0 \<longleftrightarrow> unat (b + 1) = 0" by (simp only: unat_eq_0)
  then show ?thesis by (simp add: unat_incr_u8)
qed

lemma incr_from_snoc:
  assumes "j < length c"
  shows "incr_from j (c @ r) = incr_from j c @ r"
  using assms
proof (induction j arbitrary: c)
  case 0
  then show ?case
    by (simp add: incr_from.simps [of 0] Let_def nth_append list_update_append)
next
  case (Suc j)
  then have "incr_from j (c[Suc j := c ! Suc j + 1] @ r) =
      incr_from j (c[Suc j := c ! Suc j + 1]) @ r"
    by (intro Suc.IH) simp
  with Suc.prems show ?case
    by (simp only: incr_from.simps [of "Suc j"] Let_def nth_append list_update_append
        length_append if_True nat.case length_list_update) simp
qed

text \<open>
  As a big-endian number the whole counter is incremented by one, wrapping at the end of
  its range: the loop is the standard CTR-mode counter.
\<close>

lemma incr_from_value:
  "length c = Suc j \<Longrightarrow> be_nat (incr_from j c) = (be_nat c + 1) mod 256 ^ Suc j"
proof (induction j arbitrary: c)
  case 0
  then obtain b where "c = [b]" by (cases c) auto
  then show ?case
    using unat_u8_le [of b]
    by (simp add: incr_from.simps [of 0] Let_def unat_incr_u8 incr_u8_eq_zero)
next
  case (Suc j)
  define d b where "d = butlast c" and "b = last c"
  have c: "c = d @ [b]" and len: "length d = Suc j"
    using Suc.prems by (auto simp: d_def b_def intro: append_butlast_last_id [symmetric])
  have cval: "be_nat c = be_nat d * 256 + unat b"
    by (simp add: c be_nat_append)
  show ?case
  proof (cases "unat b = 255")
    case False
    then have nz: "b + 1 \<noteq> 0"
      by (simp add: incr_u8_eq_zero)
    then have "be_nat (incr_from (Suc j) c) = be_nat d * 256 + (unat b + 1)"
      using len False
      by (simp add: incr_from.simps [of "Suc j"] Let_def c nth_append list_update_append
          be_nat_append unat_incr_u8)
    moreover have "be_nat c + 1 < 256 ^ Suc (Suc j)"
      using be_nat_bound [of d] len False unat_u8_le [of b] cval by simp
    ultimately show ?thesis by (simp add: cval)
  next
    case True
    then have z: "b + 1 = 0"
      by (simp add: incr_u8_eq_zero)
    then have "incr_from (Suc j) c = incr_from j d @ [0]"
      using len
      by (simp add: incr_from.simps [of "Suc j"] Let_def c nth_append list_update_append
          incr_from_snoc)
    then have "be_nat (incr_from (Suc j) c) = (be_nat d + 1) mod 256 ^ Suc j * 256"
      using Suc.IH [of d] len by (simp add: be_nat_append)
    also have "\<dots> = ((be_nat d + 1) * 256) mod (256 ^ Suc j * 256)"
      by (rule mult_mod_left)
    also have "(be_nat d + 1) * 256 = be_nat c + 1"
      using True cval by simp
    finally show ?thesis
      by (simp add: power_Suc2 [of 256 "Suc j"])
  qed
qed

end
