(* ===== verification/Ota_Receiver.thy ===== *)
theory Ota_Receiver
  imports Ota_Primitives
begin

text \<open>
  \<open>class OtaReceiver\<close> of \<open>firmware/housepanel-giga/ota_protocol.h\<close> and
  \<open>ota_protocol.cpp\<close>: the authenticated, encrypted firmware envelope. The record
  \<open>receiver\<close> has the class's private fields; each method is a function on it. The Mbed TLS
  calls are a parameter (\<open>mbedtls\<close>, one field per function, \<open>None\<close> for a
  non-zero return), and so is the storage behind the virtual class \<open>OtaSink\<close>
  (\<open>sink_ops\<close>, on an arbitrary storage state).
\<close>

section \<open>What the receiver calls\<close>

record ('a, 'h) mbedtls =
  md_hmac :: "bytes \<Rightarrow> bytes \<Rightarrow> bytes option"
  aes_init :: 'a
  aes_setkey_enc :: "bytes \<Rightarrow> 'a option"
  aes_crypt_ecb :: "'a \<Rightarrow> bytes \<Rightarrow> bytes option"
  sha256_init :: 'h
  sha256_starts :: "'h option"
  sha256_update :: "'h \<Rightarrow> bytes \<Rightarrow> 'h option"
  sha256_finish :: "'h \<Rightarrow> bytes option"

record 's sink_ops =
  sk_begin :: "'s \<Rightarrow> bool \<times> 's"
  sk_write :: "bytes \<Rightarrow> 's \<Rightarrow> bool \<times> 's"
  sk_finish :: "'s \<Rightarrow> bool \<times> 's"
  sk_abort :: "'s \<Rightarrow> 's"

section \<open>The receiver and its methods\<close>

record ('a, 'h) receiver =
  rx_key :: bytes
  rx_nonce :: bytes
  rx_plain_digest :: bytes
  rx_wire_digest :: bytes
  rx_counter :: bytes
  rx_stream :: bytes
  rx_vectors :: bytes
  rx_vector_size :: nat
  rx_panel :: u8
  rx_remaining :: u32
  rx_image_size :: u32
  rx_offset :: nat
  rx_matched :: nat
  rx_identity :: "bytes option"
  rx_sink :: bool
  rx_configured :: bool
  rx_issued :: bool
  rx_identity_found :: bool
  rx_complete :: bool
  rx_aes :: 'a
  rx_plain :: 'h
  rx_wire :: 'h

definition OTA_HEADER_SIZE :: nat where
  "OTA_HEADER_SIZE = 141"

definition OTA_MAX_IMAGE :: u32 where
  "OTA_MAX_IMAGE = 0x08180000 - 0x08040000"

definition ota_new :: "('a, 'h) mbedtls \<Rightarrow> ('a, 'h) receiver" where
  "ota_new M = \<lparr>rx_key = replicate 32 0, rx_nonce = replicate 32 0,
     rx_plain_digest = replicate 32 0, rx_wire_digest = replicate 32 0,
     rx_counter = replicate 16 0, rx_stream = replicate 16 0, rx_vectors = replicate 8 0,
     rx_vector_size = 0, rx_panel = 0, rx_remaining = 0, rx_image_size = 0,
     rx_offset = 0, rx_matched = 0, rx_identity = None, rx_sink = False,
     rx_configured = False, rx_issued = False, rx_identity_found = False,
     rx_complete = False, rx_aes = aes_init M, rx_plain = sha256_init M, rx_wire = sha256_init M\<rparr>"

text \<open>
  \<open>configure\<close>; a null pointer is \<open>None\<close>. The key bytes before the first bad digit pair
  have been stored when the loop returns early, which \<open>hex_prefix\<close> gives.
\<close>

fun hex_prefix :: "string \<Rightarrow> bytes" where
  "hex_prefix (c # d # s) =
     (if hex c < 0 \<or> hex d < 0 then [] else word_of_int (hex c * 16 + hex d) # hex_prefix s)"
| "hex_prefix _ = []"

definition ota_configure ::
  "string option \<Rightarrow> u8 \<Rightarrow> bytes option \<Rightarrow> ('a, 'h) receiver \<Rightarrow> bool \<times> ('a, 'h) receiver" where
  "ota_configure key_hex panel identity r0 =
    (let r = r0\<lparr>rx_configured := False\<rparr> in
     case key_hex of None \<Rightarrow> (False, r) | Some hexkey \<Rightarrow>
       if length hexkey \<noteq> 64 \<or> (panel \<noteq> 1 \<and> panel \<noteq> 2) \<or> identity = None \<or> identity = Some []
       then (False, r)
       else case hex_pairs hexkey of
         None \<Rightarrow> (False, r\<lparr>rx_key := hex_prefix hexkey @ drop (length (hex_prefix hexkey)) (rx_key r)\<rparr>)
       | Some key \<Rightarrow>
           if foldl (OR) 0 key = 0 then (False, r\<lparr>rx_key := key\<rparr>)
           else (True, r\<lparr>rx_key := key, rx_panel := panel, rx_identity := identity,
                         rx_configured := True\<rparr>))"

definition ota_challenge :: "bytes \<Rightarrow> ('a, 'h) receiver \<Rightarrow> ('a, 'h) receiver" where
  "ota_challenge nonce r = r\<lparr>rx_nonce := nonce, rx_issued := rx_configured r\<rparr>"

definition auth_label :: bytes where
  "auth_label = bytes_of ''housepanel-ota-authentication-v1''"

definition enc_label :: bytes where
  "enc_label = bytes_of ''housepanel-ota-encryption-v1''"

definition ota_sign :: "('a, 'h) mbedtls \<Rightarrow> bytes \<Rightarrow> ('a, 'h) receiver \<Rightarrow> bytes option" where
  "ota_sign M data r =
    (if \<not> rx_configured r then None
     else case md_hmac M (rx_key r) auth_label of None \<Rightarrow> None
       | Some auth_key \<Rightarrow> md_hmac M auth_key data)"

definition ota_abort :: "'s sink_ops \<Rightarrow> ('a, 'h) receiver \<Rightarrow> 's \<Rightarrow> ('a, 'h) receiver \<times> 's" where
  "ota_abort K r s =
    (r\<lparr>rx_sink := False, rx_remaining := 0, rx_complete := False\<rparr>,
     if rx_sink r then sk_abort K s else s)"

text \<open>\<open>{ abort(); return false; }\<close>\<close>

definition ota_fail :: "'s sink_ops \<Rightarrow> ('a, 'h) receiver \<Rightarrow> 's \<Rightarrow> bool \<times> ('a, 'h) receiver \<times> 's" where
  "ota_fail K r s = (False, ota_abort K r s)"

definition update_magic :: bytes where
  "update_magic = bytes_of ''HPOTA1U'' @ [10]"

definition header_size :: "bytes \<Rightarrow> u32" where
  "header_size header = be32 (slice 9 4 header)"

text \<open>
  \<open>begin\<close> in three parts: the checks up to the authentication tag, the preparation of the
  decryption and digest contexts, and the storage.
\<close>

definition begin_checks :: "('a, 'h) mbedtls \<Rightarrow> bytes \<Rightarrow> ('a, 'h) receiver \<Rightarrow> bool" where
  "begin_checks M header r =
    (if rx_sink r \<or> \<not> rx_issued r \<or> take 8 header \<noteq> update_magic \<or> header ! 8 \<noteq> rx_panel r \<or>
        \<not> ct_equal (drop 13 header) (rx_nonce r) 32 then False
     else if header_size header < 256 \<or> header_size header > OTA_MAX_IMAGE then False
     else case md_hmac M (rx_key r) auth_label of None \<Rightarrow> False | Some auth_key \<Rightarrow>
       case md_hmac M auth_key (take (OTA_HEADER_SIZE - 32) header) of None \<Rightarrow> False | Some tag \<Rightarrow>
         ct_equal tag (drop (OTA_HEADER_SIZE - 32) header) 32)"

definition begin_setup :: "('a, 'h) mbedtls \<Rightarrow> bytes \<Rightarrow> ('a, 'h) receiver \<Rightarrow> bool \<times> ('a, 'h) receiver" where
  "begin_setup M header r1 =
    (case md_hmac M (rx_key r1) enc_label of None \<Rightarrow> (False, r1) | Some enc_key \<Rightarrow>
     case aes_setkey_enc M enc_key of None \<Rightarrow> (False, r1) | Some ctx \<Rightarrow>
     let r2 = r1\<lparr>rx_aes := ctx, rx_counter := take 16 (rx_nonce r1), rx_stream := replicate 16 0,
           rx_plain_digest := slice 45 32 header, rx_wire_digest := slice 77 32 header,
           rx_remaining := header_size header, rx_image_size := header_size header,
           rx_offset := 0, rx_matched := 0, rx_vector_size := 0,
           rx_complete := False, rx_identity_found := False\<rparr> in
     case sha256_starts M of None \<Rightarrow> (False, r2)
     | Some h \<Rightarrow> (True, r2\<lparr>rx_plain := h, rx_wire := h, rx_sink := True\<rparr>))"

definition ota_begin ::
  "('a, 'h) mbedtls \<Rightarrow> 's sink_ops \<Rightarrow> bytes \<Rightarrow> ('a, 'h) receiver \<Rightarrow> 's \<Rightarrow>
     bool \<times> ('a, 'h) receiver \<times> 's" where
  "ota_begin M K header r s =
    (if \<not> begin_checks M header r then (False, r, s)
     else case begin_setup M header (r\<lparr>rx_issued := False\<rparr>) of (False, r1) \<Rightarrow> (False, r1, s)
     | (True, r1) \<Rightarrow>
         (case sk_begin K s of (True, s1) \<Rightarrow> (True, r1, s1) | (False, s1) \<Rightarrow> ota_fail K r1 s1))"

text \<open>The decryption loop of \<open>feed\<close>: AES-CTR over the ECB primitive.\<close>

definition next_block :: "('a, 'h) mbedtls \<Rightarrow> ('a, 'h) receiver \<Rightarrow> ('a, 'h) receiver option" where
  "next_block M r =
    (if rx_offset r = 0 then
       (case aes_crypt_ecb M (rx_aes r) (rx_counter r) of None \<Rightarrow> None
        | Some block \<Rightarrow> Some (r\<lparr>rx_stream := block, rx_counter := incr_from 15 (rx_counter r)\<rparr>))
     else Some r)"

fun ctr_crypt ::
  "('a, 'h) mbedtls \<Rightarrow> bytes \<Rightarrow> ('a, 'h) receiver \<Rightarrow> bytes option \<times> ('a, 'h) receiver" where
  "ctr_crypt M [] r = (Some [], r)"
| "ctr_crypt M (d # ds) r =
    (case next_block M r of None \<Rightarrow> (None, r)
     | Some r1 \<Rightarrow>
        (case ctr_crypt M ds (r1\<lparr>rx_offset := (rx_offset r1 + 1) mod 16\<rparr>) of
           (None, r2) \<Rightarrow> (None, r2)
         | (Some ps, r2) \<Rightarrow> (Some ((d XOR rx_stream r1 ! rx_offset r1) # ps), r2)))"

text \<open>The first eight bytes of the image: initial stack pointer and reset vector.\<close>

fun collect_vectors :: "bytes \<Rightarrow> ('a, 'h) receiver \<Rightarrow> ('a, 'h) receiver" where
  "collect_vectors [] r = r"
| "collect_vectors (d # ds) r =
    (if rx_vector_size r < 8
     then collect_vectors ds (r\<lparr>rx_vectors := (rx_vectors r)[rx_vector_size r := d],
                                rx_vector_size := rx_vector_size r + 1\<rparr>)
     else r)"

definition vectors_rejected :: "bytes \<Rightarrow> u32 \<Rightarrow> bool" where
  "vectors_rejected vectors image_size =
    (let stack = le32 (take 4 vectors); reset = le32 (slice 4 4 vectors) in
     stack \<le> 0x24000000 \<or> stack > 0x24080000 \<or> stack AND 7 \<noteq> 0 \<or> reset AND 1 = 0 \<or>
     reset < 0x08040000 \<or> reset \<ge> 0x08040000 + image_size)"

text \<open>The running search for the panel's identity string in the decrypted image.\<close>

definition cstr_at :: "bytes \<Rightarrow> nat \<Rightarrow> u8" where
  "cstr_at s i = (if i < length s then s ! i else 0)"

definition match_step :: "bytes \<Rightarrow> nat \<Rightarrow> u8 \<Rightarrow> nat" where
  "match_step identity matched d =
    (if d = cstr_at identity matched then matched + 1
     else if d = cstr_at identity 0 then 1 else 0)"

fun scan_identity :: "bytes \<Rightarrow> bytes \<Rightarrow> nat \<Rightarrow> bool \<Rightarrow> nat \<times> bool" where
  "scan_identity identity [] matched found = (matched, found)"
| "scan_identity identity (d # ds) matched found =
    (if found then (matched, found)
     else let m = match_step identity matched d
          in scan_identity identity ds m (cstr_at identity m = 0))"

definition ota_finish ::
  "('a, 'h) mbedtls \<Rightarrow> 's sink_ops \<Rightarrow> ('a, 'h) receiver \<Rightarrow> 's \<Rightarrow> bool \<times> ('a, 'h) receiver \<times> 's" where
  "ota_finish M K r s =
    (case sha256_finish M (rx_plain r) of None \<Rightarrow> ota_fail K r s | Some plain \<Rightarrow>
     case sha256_finish M (rx_wire r) of None \<Rightarrow> ota_fail K r s | Some wire \<Rightarrow>
     if \<not> ct_equal plain (rx_plain_digest r) 32 \<or> \<not> ct_equal wire (rx_wire_digest r) 32 \<or>
        \<not> rx_identity_found r then ota_fail K r s
     else case sk_finish K s of
         (False, s1) \<Rightarrow> ota_fail K r s1
       | (True, s1) \<Rightarrow> (True, r\<lparr>rx_sink := False, rx_complete := True\<rparr>, s1))"

text \<open>
  \<open>feed\<close>: \<open>feed_decode\<close> is its computation on the chunk, down to the identity search, with
  the decrypted bytes or \<open>None\<close> for one of its early returns; the storage comes after it.
\<close>

definition feed_decode ::
  "('a, 'h) mbedtls \<Rightarrow> bytes \<Rightarrow> ('a, 'h) receiver \<Rightarrow> bytes option \<times> ('a, 'h) receiver" where
  "feed_decode M data r =
    (case sha256_update M (rx_wire r) data of None \<Rightarrow> (None, r) | Some wire \<Rightarrow>
     case ctr_crypt M data (r\<lparr>rx_wire := wire\<rparr>) of (None, r1) \<Rightarrow> (None, r1)
     | (Some plain, r1) \<Rightarrow>
     case sha256_update M (rx_plain r1) plain of None \<Rightarrow> (None, r1) | Some h \<Rightarrow>
     let r2 = collect_vectors plain (r1\<lparr>rx_plain := h\<rparr>) in
     if rx_vector_size r2 = 8 \<and> vectors_rejected (rx_vectors r2) (rx_image_size r2) then (None, r2)
     else let (m, found) = scan_identity (case_option [] id (rx_identity r2)) plain
                 (rx_matched r2) (rx_identity_found r2)
          in (Some plain, r2\<lparr>rx_matched := m, rx_identity_found := found\<rparr>))"

definition ota_feed ::
  "('a, 'h) mbedtls \<Rightarrow> 's sink_ops \<Rightarrow> bytes \<Rightarrow> ('a, 'h) receiver \<Rightarrow> 's \<Rightarrow>
     bool \<times> ('a, 'h) receiver \<times> 's" where
  "ota_feed M K data r s =
    (if \<not> rx_sink r \<or> data = [] \<or> length data > unat (rx_remaining r) then ota_fail K r s
     else case feed_decode M data r of (None, r1) \<Rightarrow> ota_fail K r1 s
     | (Some plain, r1) \<Rightarrow>
     case sk_write K plain s of (False, s1) \<Rightarrow> ota_fail K r1 s1
     | (True, s1) \<Rightarrow>
       let r2 = r1\<lparr>rx_remaining := rx_remaining r1 - of_nat (length data)\<rparr> in
       if rx_remaining r2 = 0 then ota_finish M K r2 s1 else (True, r2, s1))"

end
