(* ===== verification/Ota_Stream.thy ===== *)
theory Ota_Stream
  imports Ota_Receiver "HOL-Library.Sublist"
begin

text \<open>
  The streaming parts of \<open>OtaReceiver::feed\<close> against their specifications: the
  decryption loop is AES-CTR (and so is its own inverse and indifferent to chunk borders),
  and the identity matcher finds the identity string exactly when the image contains it.
\<close>

section \<open>Decryption is counter mode\<close>

text \<open>Key stream byte \<open>n\<close>: byte \<open>n mod 16\<close> of the encrypted counter \<open>iv + n div 16\<close>.\<close>

definition ctr_value :: "bytes \<Rightarrow> nat \<Rightarrow> bytes" where
  "ctr_value iv k = (incr_from 15 ^^ k) iv"

definition keystream :: "('a, 'h) mbedtls \<Rightarrow> 'a \<Rightarrow> bytes \<Rightarrow> nat \<Rightarrow> u8 option" where
  "keystream M ctx iv n =
     map_option (\<lambda>block. block ! (n mod 16)) (aes_crypt_ecb M ctx (ctr_value iv (n div 16)))"

fun ctr_spec :: "('a, 'h) mbedtls \<Rightarrow> 'a \<Rightarrow> bytes \<Rightarrow> nat \<Rightarrow> bytes \<Rightarrow> bytes option" where
  "ctr_spec M ctx iv n [] = Some []"
| "ctr_spec M ctx iv n (d # ds) =
    (case keystream M ctx iv n of None \<Rightarrow> None
     | Some k \<Rightarrow> (case ctr_spec M ctx iv (Suc n) ds of None \<Rightarrow> None | Some ps \<Rightarrow> Some ((d XOR k) # ps)))"

text \<open>The receiver's counter, offset and stream block after \<open>n\<close> bytes.\<close>

definition ctr_state :: "('a, 'h) mbedtls \<Rightarrow> bytes \<Rightarrow> nat \<Rightarrow> ('a, 'h) receiver \<Rightarrow> bool" where
  "ctr_state M iv n r \<longleftrightarrow>
     rx_offset r = n mod 16 \<and> rx_counter r = ctr_value iv ((n + 15) div 16) \<and>
     (n mod 16 \<noteq> 0 \<longrightarrow> aes_crypt_ecb M (rx_aes r) (ctr_value iv (n div 16)) = Some (rx_stream r))"

lemma length_ctr_value [simp]: "length (ctr_value iv k) = length iv"
  by (induction k) (simp_all add: ctr_value_def)

lemma ctr_value_Suc: "ctr_value iv (Suc k) = incr_from 15 (ctr_value iv k)"
  by (simp add: ctr_value_def)

text \<open>As a number the counter block is \<open>iv + k\<close>, on 128 bits.\<close>

lemma incr_from_iterated:
  assumes "length iv = Suc j"
  shows "be_nat ((incr_from j ^^ k) iv) = (be_nat iv + k) mod 256 ^ Suc j"
proof (induction k)
  case 0
  show ?case using be_nat_bound [of iv] assms by (simp del: power_Suc)
next
  case (Suc k)
  have "length ((incr_from j ^^ k) iv) = Suc j"
    by (induction k) (simp_all add: assms)
  then have "be_nat ((incr_from j ^^ Suc k) iv) = (be_nat ((incr_from j ^^ k) iv) + 1) mod 256 ^ Suc j"
    by (simp add: incr_from_value del: power_Suc)
  with Suc show ?case by (simp add: mod_Suc_eq del: power_Suc)
qed

lemma ctr_value_number:
  "length iv = 16 \<Longrightarrow> be_nat (ctr_value iv k) = (be_nat iv + k) mod 2 ^ 128"
  using incr_from_iterated [of iv 15 k] by (simp add: ctr_value_def)

text \<open>One byte: the block is refreshed at a block border and the state moves on by one.\<close>

lemma next_block_ctr_state:
  assumes "ctr_state M iv n r"
  shows "next_block M r = None \<longleftrightarrow> keystream M (rx_aes r) iv n = None"
    and "next_block M r = Some r1 \<Longrightarrow>
      keystream M (rx_aes r) iv n = Some (rx_stream r1 ! rx_offset r1) \<and>
      rx_aes r1 = rx_aes r \<and> rx_offset r1 = n mod 16 \<and>
      ctr_state M iv (Suc n) (r1\<lparr>rx_offset := (rx_offset r1 + 1) mod 16\<rparr>)"
proof -
  define q where "q = n div 16"
  have n: "n = 16 * q + n mod 16" and small: "n mod 16 < 16" by (simp_all add: q_def)
  have border: "(n + 15) div 16 = q" "Suc (n + 15) div 16 = Suc q" if "n mod 16 = 0"
    using n that by linarith+
  have inner: "(n + 15) div 16 = Suc q" "Suc (n + 15) div 16 = Suc q" if "n mod 16 \<noteq> 0"
    using n small that by linarith+
  have wrap: "Suc n div 16 = q" if "Suc n mod 16 \<noteq> 0"
    using that q_def by (simp add: div_Suc)
  show "next_block M r = None \<longleftrightarrow> keystream M (rx_aes r) iv n = None"
    using assms border(1) inner(1)
    by (cases "n mod 16 = 0")
      (auto simp: next_block_def ctr_state_def keystream_def q_def [symmetric] split: option.splits)
  assume nb: "next_block M r = Some r1"
  show "keystream M (rx_aes r) iv n = Some (rx_stream r1 ! rx_offset r1) \<and>
      rx_aes r1 = rx_aes r \<and> rx_offset r1 = n mod 16 \<and>
      ctr_state M iv (Suc n) (r1\<lparr>rx_offset := (rx_offset r1 + 1) mod 16\<rparr>)"
  proof (cases "n mod 16 = 0")
    case True
    with assms nb border wrap show ?thesis
      by (auto simp: next_block_def ctr_state_def keystream_def ctr_value_Suc mod_Suc_eq
          q_def [symmetric] split: option.splits)
  next
    case False
    with assms nb inner wrap show ?thesis
      by (auto simp: next_block_def ctr_state_def keystream_def mod_Suc_eq q_def [symmetric]
          split: option.splits)
  qed
qed

lemma ctr_crypt_correct:
  assumes "ctr_state M iv n r"
  shows "fst (ctr_crypt M data r) = ctr_spec M (rx_aes r) iv n data \<and>
    rx_aes (snd (ctr_crypt M data r)) = rx_aes r \<and>
    (fst (ctr_crypt M data r) \<noteq> None \<longrightarrow> ctr_state M iv (n + length data) (snd (ctr_crypt M data r)))"
  using assms
proof (induction data arbitrary: n r)
  case Nil
  then show ?case by simp
next
  case (Cons d ds)
  show ?case
  proof (cases "next_block M r")
    case None
    then show ?thesis using next_block_ctr_state(1) [OF Cons.prems] by simp
  next
    case (Some r1)
    note step = next_block_ctr_state(2) [OF Cons.prems Some]
    then have "ctr_state M iv (Suc n) (r1\<lparr>rx_offset := (rx_offset r1 + 1) mod 16\<rparr>)" by blast
    note IH = Cons.IH [OF this]
    obtain p r2 where rec: "ctr_crypt M ds (r1\<lparr>rx_offset := (rx_offset r1 + 1) mod 16\<rparr>) = (p, r2)"
      by (cases "ctr_crypt M ds (r1\<lparr>rx_offset := (rx_offset r1 + 1) mod 16\<rparr>)")
    then show ?thesis
      using IH step by (cases "ctr_spec M (rx_aes r) iv (Suc n) ds") (auto simp: Some)
  qed
qed

lemma ctr_spec_length: "ctr_spec M ctx iv n data = Some ps \<Longrightarrow> length ps = length data"
  by (induction data arbitrary: n ps) (auto split: option.splits)

lemma ctr_spec_append:
  "ctr_spec M ctx iv n (xs @ ys) =
    (case ctr_spec M ctx iv n xs of None \<Rightarrow> None
     | Some ps \<Rightarrow> (case ctr_spec M ctx iv (n + length xs) ys of None \<Rightarrow> None | Some qs \<Rightarrow> Some (ps @ qs)))"
  by (induction xs arbitrary: n) (auto split: option.splits)

lemma ctr_spec_involution:
  "ctr_spec M ctx iv n data = Some ps \<Longrightarrow> ctr_spec M ctx iv n ps = Some data"
  by (induction data arbitrary: n ps) (auto simp: xor.assoc split: option.splits)

section \<open>The identity search\<close>

text \<open>
  \<open>identity\<close> is a C string: nothing in it is NUL. The matcher keeps the length of a
  prefix of the identity that ends the bytes seen so far.
\<close>

definition cstring :: "bytes \<Rightarrow> bool" where
  "cstring s \<longleftrightarrow> s \<noteq> [] \<and> 0 \<notin> set s"

definition ends_in_prefix :: "bytes \<Rightarrow> nat \<Rightarrow> bytes \<Rightarrow> bool" where
  "ends_in_prefix identity m seen \<longleftrightarrow> m \<le> length identity \<and> suffix (take m identity) seen"

lemma cstr_at_zero_iff: "cstring s \<Longrightarrow> cstr_at s i = 0 \<longleftrightarrow> length s \<le> i"
  by (auto simp: cstr_at_def cstring_def in_set_conv_nth)

lemma match_step_sound:
  assumes "cstring identity" and "ends_in_prefix identity m seen" and "m < length identity"
  shows "ends_in_prefix identity (match_step identity m d) (seen @ [d])"
proof (cases "d = cstr_at identity m")
  case True
  with assms have "take (Suc m) identity = take m identity @ [d]"
    by (simp add: cstr_at_def take_Suc_conv_app_nth)
  with assms True show ?thesis
    by (simp add: match_step_def ends_in_prefix_def)
next
  case False
  have "take (Suc 0) identity = [identity ! 0]"
    using assms(1) by (cases identity) (auto simp: cstring_def)
  with assms False show ?thesis
    by (auto simp: match_step_def ends_in_prefix_def cstring_def cstr_at_def suffix_def
        intro: exI [of _ seen])
qed

text \<open>Soundness holds for any identity: what is reported as found is in the data.\<close>

lemma scan_identity_sound:
  assumes "cstring identity" and "ends_in_prefix identity m seen" and "m < length identity"
    and "scan_identity identity data m False = (m', found)"
  shows "if found then sublist identity (seen @ data)
         else m' < length identity \<and> ends_in_prefix identity m' (seen @ data)"
  using assms
proof (induction data arbitrary: m seen)
  case Nil
  then show ?case by auto
next
  case (Cons d ds)
  define k where "k = match_step identity m d"
  have inv: "ends_in_prefix identity k (seen @ [d])"
    unfolding k_def by (rule match_step_sound) (use Cons.prems in auto)
  show ?case
  proof (cases "length identity \<le> k")
    case True
    with inv have "suffix identity (seen @ [d])"
      by (simp add: ends_in_prefix_def)
    then have "sublist identity (seen @ d # ds)"
      by (metis append_Cons append_Nil append_assoc sublist_append_rightI sublist_order.order_trans
          suffix_imp_sublist)
    moreover have "scan_identity identity (d # ds) m False = (k, True)"
      using True Cons.prems(1) by (cases ds) (simp_all add: Let_def k_def [symmetric] cstr_at_zero_iff)
    ultimately show ?thesis using Cons.prems(4) by simp
  next
    case False
    then have "scan_identity identity ds k False = (m', found)"
      using Cons.prems by (simp add: Let_def k_def [symmetric] cstr_at_zero_iff)
    from Cons.IH [OF Cons.prems(1) inv _ this] False show ?thesis by (cases found) simp_all
  qed
qed

text \<open>
  Completeness needs the identity's first byte to occur in it only once (the identity
  strings of both panels start with the only \<open>H\<close> in them): after a mismatch no shorter
  prefix can still be open. The matcher then tracks the longest prefix.
\<close>

definition unique_head :: "bytes \<Rightarrow> bool" where
  "unique_head s \<longleftrightarrow> (case s of [] \<Rightarrow> False | c # cs \<Rightarrow> c \<notin> set cs)"

lemma unique_head_nth: "unique_head s \<Longrightarrow> 0 < i \<Longrightarrow> i < length s \<Longrightarrow> s ! i \<noteq> s ! 0"
  by (cases i) (auto simp: unique_head_def split: list.splits dest: nth_mem)

text \<open>Every prefix of the identity that ends the bytes seen so far is empty or the tracked one.\<close>

definition tracks_all :: "bytes \<Rightarrow> nat \<Rightarrow> bytes \<Rightarrow> bool" where
  "tracks_all identity m seen \<longleftrightarrow>
     (\<forall>k. 0 < k \<longrightarrow> k \<le> length identity \<longrightarrow> suffix (take k identity) seen \<longrightarrow> k = m)"

lemma match_step_complete:
  assumes "cstring identity" and uh: "unique_head identity" and tr: "tracks_all identity m seen"
    and ep: "ends_in_prefix identity m seen" and m: "m < length identity"
  shows "tracks_all identity (match_step identity m d) (seen @ [d])"
  unfolding tracks_all_def
proof (intro allI impI)
  fix k
  assume k: "0 < k" "k \<le> length identity" and suf: "suffix (take k identity) (seen @ [d])"
  from k obtain j where j: "k = Suc j" by (cases k) auto
  have split: "take k identity = take j identity @ [identity ! j]"
    using j k by (simp add: take_Suc_conv_app_nth)
  from suf have d: "d = identity ! j" and sufj: "suffix (take j identity) seen"
    by (auto simp: split suffix_def)
  show "k = match_step identity m d"
  proof (cases "j = 0")
    case True
    then have "d = identity ! 0" using d by simp
    moreover have "0 < m \<Longrightarrow> identity ! m \<noteq> identity ! 0"
      using unique_head_nth [OF uh] m by simp
    ultimately show ?thesis
      using True j m assms(1)
      by (cases "m = 0") (simp_all add: match_step_def cstr_at_def cstring_def)
  next
    case False
    then have "j = m"
      using tr sufj k j by (simp add: tracks_all_def)
    then show ?thesis using d j m by (simp add: match_step_def cstr_at_def)
  qed
qed

lemma scan_identity_complete:
  assumes "cstring identity" and "unique_head identity" and "tracks_all identity m seen"
    and "ends_in_prefix identity m seen" and "m < length identity"
    and "scan_identity identity data m False = (m', False)" and "\<not> sublist identity seen"
  shows "\<not> sublist identity (seen @ data) \<and> tracks_all identity m' (seen @ data)"
  using assms
proof (induction data arbitrary: m seen)
  case Nil
  then show ?case by simp
next
  case (Cons d ds)
  define k where "k = match_step identity m d"
  have inv: "ends_in_prefix identity k (seen @ [d])"
    unfolding k_def by (rule match_step_sound) (use Cons.prems in auto)
  have tr: "tracks_all identity k (seen @ [d])"
    unfolding k_def by (rule match_step_complete) (use Cons.prems in auto)
  have lt: "k < length identity"
  proof (rule ccontr)
    assume "\<not> k < length identity"
    then have "scan_identity identity (d # ds) m False = (k, True)"
      using Cons.prems(1) by (cases ds) (simp_all add: Let_def k_def [symmetric] cstr_at_zero_iff)
    with Cons.prems(6) show False by simp
  qed
  then have rest: "scan_identity identity ds k False = (m', False)"
    using Cons.prems(1,6) by (simp add: Let_def k_def [symmetric] cstr_at_zero_iff)
  have "\<not> sublist identity (seen @ [d])"
  proof
    assume "sublist identity (seen @ [d])"
    then have "suffix identity (seen @ [d])"
      using Cons.prems(7) by (simp only: sublist_snoc) blast
    then have "length identity = k"
      using tr Cons.prems(1) by (simp add: tracks_all_def cstring_def)
    with lt show False by simp
  qed
  with Cons.IH [OF Cons.prems(1,2) tr inv lt rest] show ?case by simp
qed

lemma scan_from_start: "ends_in_prefix identity 0 []" "tracks_all identity 0 []"
  by (auto simp: ends_in_prefix_def tracks_all_def)

text \<open>Feeding in two chunks is feeding at once.\<close>

lemma scan_identity_append:
  "scan_identity identity (xs @ ys) m f =
    (case scan_identity identity xs m f of (m', f') \<Rightarrow> scan_identity identity ys m' f')"
proof (induction xs arbitrary: m f)
  case Nil
  then show ?case by simp
next
  case (Cons x xs)
  have found: "scan_identity identity ys' m' True = (m', True)" for ys' m'
    by (cases ys') simp_all
  show ?case by (simp add: Cons Let_def found)
qed

end
