(* ===== verification/Ota_Session.thy ===== *)
theory Ota_Session
  imports Ota_Stream
begin

text \<open>
  A whole transfer: what the storage behind \<open>class OtaSink\<close> promises (the locale
  \<open>ota_sink\<close>), the invariant that ties the receiver's fields to the bytes received so far,
  and what it means that an image is verified. Everything about the storage is proved
  inside the locale, from its laws only.
\<close>

section \<open>What is left alone\<close>

lemma next_block_frame:
  "next_block M r = Some r1 \<Longrightarrow> \<exists>a b. r1 = r\<lparr>rx_stream := a, rx_counter := b\<rparr>"
  by (cases r) (auto simp: next_block_def split: if_splits option.splits)

lemma ctr_crypt_frame:
  "\<exists>a b c. snd (ctr_crypt M data r) = r\<lparr>rx_stream := a, rx_counter := b, rx_offset := c\<rparr>"
proof (induction data arbitrary: r)
  case Nil
  show ?case by (rule exI [of _ "rx_stream r"], rule exI [of _ "rx_counter r"],
      rule exI [of _ "rx_offset r"]) simp
next
  case (Cons d ds)
  show ?case
  proof (cases "next_block M r")
    case None
    then show ?thesis
      by (intro exI [of _ "rx_stream r"] exI [of _ "rx_counter r"] exI [of _ "rx_offset r"]) simp
  next
    case (Some r1)
    from next_block_frame [OF this] obtain a b where
      r1: "r1 = r\<lparr>rx_stream := a, rx_counter := b\<rparr>" by blast
    obtain p r2 where rec: "ctr_crypt M ds (r1\<lparr>rx_offset := (rx_offset r1 + 1) mod 16\<rparr>) = (p, r2)"
      by (cases "ctr_crypt M ds (r1\<lparr>rx_offset := (rx_offset r1 + 1) mod 16\<rparr>)")
    with Cons.IH [of "r1\<lparr>rx_offset := (rx_offset r1 + 1) mod 16\<rparr>"] obtain a' b' c' where
      "r2 = r1\<lparr>rx_offset := (rx_offset r1 + 1) mod 16, rx_stream := a', rx_counter := b', rx_offset := c'\<rparr>"
      by auto
    then have "r2 = r\<lparr>rx_stream := a', rx_counter := b', rx_offset := c'\<rparr>"
      by (simp add: r1)
    moreover have "snd (ctr_crypt M (d # ds) r) = r2"
      by (cases p) (use rec Some in simp_all)
    ultimately show ?thesis by blast
  qed
qed

fun fill_vectors :: "bytes \<Rightarrow> bytes \<Rightarrow> nat \<Rightarrow> bytes \<times> nat" where
  "fill_vectors [] vs n = (vs, n)"
| "fill_vectors (d # ds) vs n = (if n < 8 then fill_vectors ds (vs[n := d]) (n + 1) else (vs, n))"

lemma collect_vectors_eq:
  "collect_vectors data r =
    r\<lparr>rx_vectors := fst (fill_vectors data (rx_vectors r) (rx_vector_size r)),
      rx_vector_size := snd (fill_vectors data (rx_vectors r) (rx_vector_size r))\<rparr>"
  by (induction data arbitrary: r) simp_all

text \<open>After any chunks the first bytes of the image are in \<open>_vectors\<close>, eight at most.\<close>

lemma fill_vectors_take:
  assumes "length vs = 8" and "n = min 8 (length seen)" and "take n vs = take 8 seen"
    and "fill_vectors data vs n = (vs', n')"
  shows "length vs' = 8 \<and> n' = min 8 (length (seen @ data)) \<and> take n' vs' = take 8 (seen @ data)"
  using assms
proof (induction data arbitrary: vs n seen)
  case Nil
  then show ?case by simp
next
  case (Cons d ds)
  show ?case
  proof (cases "n < 8")
    case False
    with Cons.prems show ?thesis by auto
  next
    case True
    then have n: "n = length seen" using Cons.prems(2) by simp
    have "take (Suc n) (vs[n := d]) = take 8 (seen @ [d])"
      using Cons.prems True n by (simp add: take_Suc_conv_app_nth)
    moreover have "fill_vectors ds (vs[n := d]) (Suc n) = (vs', n')"
      using Cons.prems(4) by (simp only: fill_vectors.simps True if_True Suc_eq_plus1)
    moreover have "Suc n = min 8 (length (seen @ [d]))" using n True by simp
    ultimately show ?thesis
      using Cons.IH [of "vs[n := d]" "Suc n" "seen @ [d]"] Cons.prems(1)
      by (simp only: length_list_update append.assoc append.simps)
  qed
qed

section \<open>Digests and authentication\<close>

text \<open>
  \<open>sha_ctx M h m\<close>: the context \<open>h\<close> was started and has absorbed the message \<open>m\<close>. The
  documented behaviour of the streaming interface is \<open>sha_streams M H\<close>: finishing such
  a context gives the digest \<open>H m\<close>. \<open>mbedtls_sizes\<close> says how long the outputs are.
\<close>

inductive sha_ctx :: "('a, 'h) mbedtls \<Rightarrow> 'h \<Rightarrow> bytes \<Rightarrow> bool" for M where
  started: "sha256_starts M = Some h \<Longrightarrow> sha_ctx M h []"
| updated: "sha_ctx M h m \<Longrightarrow> sha256_update M h d = Some h' \<Longrightarrow> sha_ctx M h' (m @ d)"

definition sha_streams :: "('a, 'h) mbedtls \<Rightarrow> (bytes \<Rightarrow> bytes) \<Rightarrow> bool" where
  "sha_streams M H \<longleftrightarrow> (\<forall>h m dig. sha_ctx M h m \<longrightarrow> sha256_finish M h = Some dig \<longrightarrow> dig = H m)"

definition mbedtls_sizes :: "('a, 'h) mbedtls \<Rightarrow> bool" where
  "mbedtls_sizes M \<longleftrightarrow>
     (\<forall>k d t. md_hmac M k d = Some t \<longrightarrow> length t = 32) \<and>
     (\<forall>c b t. aes_crypt_ecb M c b = Some t \<longrightarrow> length t = 16) \<and>
     (\<forall>h t. sha256_finish M h = Some t \<longrightarrow> length t = 32)"

text \<open>The header carries a valid tag under the panel's key and names this panel.\<close>

definition header_authentic :: "('a, 'h) mbedtls \<Rightarrow> bytes \<Rightarrow> u8 \<Rightarrow> bytes \<Rightarrow> bool" where
  "header_authentic M key panel header \<longleftrightarrow>
     length header = OTA_HEADER_SIZE \<and> take 8 header = update_magic \<and> header ! 8 = panel \<and>
     256 \<le> unat (header_size header) \<and> unat (header_size header) \<le> unat OTA_MAX_IMAGE \<and>
     (\<exists>auth_key. md_hmac M key auth_label = Some auth_key \<and>
        md_hmac M auth_key (take (OTA_HEADER_SIZE - 32) header) =
          Some (drop (OTA_HEADER_SIZE - 32) header))"

text \<open>
  The image \<open>p\<close> is what an authentic header announced: the decryption of wire bytes with
  the header's nonce, with both digests, the announced length, the panel's identity inside
  and acceptable vectors.
\<close>

definition verified_image ::
  "('a, 'h) mbedtls \<Rightarrow> (bytes \<Rightarrow> bytes) \<Rightarrow> bytes \<Rightarrow> u8 \<Rightarrow> bytes \<Rightarrow> bytes \<Rightarrow> bytes \<Rightarrow> bytes \<Rightarrow> bool" where
  "verified_image M H key panel identity header wire p \<longleftrightarrow>
     header_authentic M key panel header \<and>
     length p = unat (header_size header) \<and> length wire = length p \<and>
     H p = slice 45 32 header \<and> H wire = slice 77 32 header \<and>
     (\<exists>enc_key ctx. md_hmac M key enc_label = Some enc_key \<and> aes_setkey_enc M enc_key = Some ctx \<and>
        ctr_spec M ctx (slice 13 16 header) 0 wire = Some p) \<and>
     sublist identity p \<and> \<not> vectors_rejected (take 8 p) (header_size header)"

section \<open>The invariant of a transfer\<close>

definition rx_wf :: "('a, 'h) receiver \<Rightarrow> bool" where
  "rx_wf r \<longleftrightarrow> length (rx_nonce r) = 32 \<and> length (rx_vectors r) = 8 \<and>
     (rx_issued r \<longrightarrow> rx_configured r) \<and>
     (rx_configured r \<longrightarrow> (\<exists>identity. rx_identity r = Some identity \<and> cstring identity))"

definition transfer :: "('a, 'h) mbedtls \<Rightarrow> bytes \<Rightarrow> bytes \<Rightarrow> bytes \<Rightarrow> ('a, 'h) receiver \<Rightarrow> bool" where
  "transfer M header wire p r \<longleftrightarrow>
     rx_sink r \<and> header_authentic M (rx_key r) (rx_panel r) header \<and>
     rx_plain_digest r = slice 45 32 header \<and> rx_wire_digest r = slice 77 32 header \<and>
     rx_image_size r = header_size header \<and>
     unat (rx_remaining r) + length wire = unat (header_size header) \<and>
     sha_ctx M (rx_wire r) wire \<and> sha_ctx M (rx_plain r) p \<and>
     (\<exists>enc_key. md_hmac M (rx_key r) enc_label = Some enc_key \<and> aes_setkey_enc M enc_key = Some (rx_aes r)) \<and>
     ctr_state M (slice 13 16 header) (length wire) r \<and>
     ctr_spec M (rx_aes r) (slice 13 16 header) 0 wire = Some p \<and>
     rx_vector_size r = min 8 (length p) \<and> take (rx_vector_size r) (rx_vectors r) = take 8 p \<and>
     (8 \<le> length p \<longrightarrow> \<not> vectors_rejected (take 8 p) (header_size header)) \<and>
     (\<exists>identity. rx_identity r = Some identity \<and> cstring identity \<and>
        (if rx_identity_found r then sublist identity p
         else rx_matched r < length identity \<and> ends_in_prefix identity (rx_matched r) p))"

definition same_setup :: "('a, 'h) receiver \<Rightarrow> ('a, 'h) receiver \<Rightarrow> bool" where
  "same_setup r r1 \<longleftrightarrow> rx_key r1 = rx_key r \<and> rx_panel r1 = rx_panel r \<and> rx_identity r1 = rx_identity r \<and>
     rx_configured r1 = rx_configured r \<and> rx_nonce r1 = rx_nonce r"

text \<open>What passing the checks of \<open>begin\<close> means, and what its preparation leaves.\<close>

lemma begin_checks_authentic:
  assumes "begin_checks M header r" and "mbedtls_sizes M" and "length header = OTA_HEADER_SIZE"
    and "length (rx_nonce r) = 32"
  shows "header_authentic M (rx_key r) (rx_panel r) header" and "rx_issued r" and "\<not> rx_sink r"
    and "rx_nonce r = slice 13 32 header"
proof -
  from assms(1) obtain auth_key tag where
    keys: "md_hmac M (rx_key r) auth_label = Some auth_key"
      "md_hmac M auth_key (take (OTA_HEADER_SIZE - 32) header) = Some tag"
      "ct_equal tag (drop (OTA_HEADER_SIZE - 32) header) 32"
    and magic: "take 8 header = update_magic" "header ! 8 = rx_panel r"
    and eq: "ct_equal (drop 13 header) (rx_nonce r) 32"
    and bounds: "\<not> header_size header < 256" "\<not> header_size header > OTA_MAX_IMAGE"
    by (auto simp: begin_checks_def split: if_splits option.splits)
  have "length tag = 32" using assms(2) keys(2) by (auto simp: mbedtls_sizes_def)
  then have tag: "tag = drop (OTA_HEADER_SIZE - 32) header"
    using keys(3) assms(3) by (simp add: ct_equal_iff OTA_HEADER_SIZE_def)
  from bounds have "256 \<le> unat (header_size header) \<and> unat (header_size header) \<le> unat OTA_MAX_IMAGE"
    by (simp add: word_less_nat_alt not_less)
  with keys(1,2) tag magic assms(3) show "header_authentic M (rx_key r) (rx_panel r) header"
    by (auto simp: header_authentic_def)
  show "rx_nonce r = slice 13 32 header"
    using eq assms(3,4) by (simp add: ct_equal_iff slice_def OTA_HEADER_SIZE_def)
  show "rx_issued r" "\<not> rx_sink r"
    using assms(1) by (auto simp: begin_checks_def split: if_splits)
qed

lemma begin_setup_cases:
  assumes "begin_setup M header r = (ok, r1)"
  shows "same_setup r r1 \<and> rx_issued r1 = rx_issued r \<and> rx_vectors r1 = rx_vectors r \<and>
    (\<not> ok \<longrightarrow> rx_sink r1 = rx_sink r)"
  using assms by (auto simp: begin_setup_def same_setup_def Let_def split: option.splits)

lemma begin_setup_transfer:
  assumes "begin_setup M header r = (True, r1)" and "header_authentic M (rx_key r) (rx_panel r) header"
    and "rx_identity r = Some identity" and "cstring identity" and "rx_nonce r = slice 13 32 header"
  shows "transfer M header [] [] r1"
proof -
  have "take 16 (slice 13 32 header) = slice 13 16 header"
    by (simp add: slice_def)
  with assms show ?thesis
    using scan_from_start(1) [of identity]
    by (auto simp: begin_setup_def transfer_def ctr_state_def ctr_value_def cstring_def Let_def
        split: option.splits intro: sha_ctx.started)
qed

text \<open>One chunk: the computation of \<open>feed\<close> moves the transfer on by the chunk's bytes.\<close>

lemma feed_decode_success:
  assumes "feed_decode M data r = (Some plain, r1)"
  obtains wire h a b c where "sha256_update M (rx_wire r) data = Some wire"
    and "ctr_crypt M data (r\<lparr>rx_wire := wire\<rparr>) =
      (Some plain, r\<lparr>rx_wire := wire, rx_stream := a, rx_counter := b, rx_offset := c\<rparr>)"
    and "sha256_update M (rx_plain r) plain = Some h"
    and "r1 = r\<lparr>rx_wire := wire, rx_stream := a, rx_counter := b, rx_offset := c, rx_plain := h,
      rx_vectors := fst (fill_vectors plain (rx_vectors r) (rx_vector_size r)),
      rx_vector_size := snd (fill_vectors plain (rx_vectors r) (rx_vector_size r)),
      rx_matched := fst (scan_identity (case_option [] id (rx_identity r)) plain (rx_matched r) (rx_identity_found r)),
      rx_identity_found := snd (scan_identity (case_option [] id (rx_identity r)) plain (rx_matched r) (rx_identity_found r))\<rparr>"
    and "rx_vector_size r1 = 8 \<Longrightarrow> \<not> vectors_rejected (rx_vectors r1) (rx_image_size r)"
proof -
  from assms obtain wire where wire: "sha256_update M (rx_wire r) data = Some wire"
    by (auto simp: feed_decode_def split: option.splits)
  obtain p r2 where cc: "ctr_crypt M data (r\<lparr>rx_wire := wire\<rparr>) = (p, r2)"
    by (cases "ctr_crypt M data (r\<lparr>rx_wire := wire\<rparr>)")
  moreover obtain a b c where
    "snd (ctr_crypt M data (r\<lparr>rx_wire := wire\<rparr>)) =
      r\<lparr>rx_wire := wire, rx_stream := a, rx_counter := b, rx_offset := c\<rparr>"
    using ctr_crypt_frame [of M data "r\<lparr>rx_wire := wire\<rparr>"] by blast
  ultimately have r2: "r2 = r\<lparr>rx_wire := wire, rx_stream := a, rx_counter := b, rx_offset := c\<rparr>"
    by simp
  from assms wire cc have p: "p = Some plain"
    by (auto simp: feed_decode_def Let_def split: option.splits if_splits prod.splits)
  from assms wire cc p r2 obtain h where h: "sha256_update M (rx_plain r) plain = Some h"
    by (auto simp: feed_decode_def split: option.splits)
  show thesis
    by (rule that [OF wire _ h, where a = a and b = b and c = c])
      (use assms wire cc p r2 h in \<open>auto simp: feed_decode_def collect_vectors_eq Let_def
         split: if_splits prod.splits\<close>)
qed

lemma feed_decode_frame:
  "feed_decode M data r = (p, r1) \<Longrightarrow> same_setup r r1 \<and> rx_issued r1 = rx_issued r \<and>
     rx_sink r1 = rx_sink r \<and> (length (rx_vectors r) = 8 \<longrightarrow> length (rx_vectors r1) = 8) \<and>
     rx_remaining r1 = rx_remaining r \<and> rx_complete r1 = rx_complete r"
proof -
  assume fd: "feed_decode M data r = (p, r1)"
  have len: "length (fst (fill_vectors ds vs n)) = length vs" for ds vs n
    by (induction ds arbitrary: vs n) simp_all
  show ?thesis
  proof (cases "sha256_update M (rx_wire r) data")
    case None
    then show ?thesis using fd by (auto simp: feed_decode_def same_setup_def)
  next
    case (Some wire)
    obtain a b c where
      frame: "snd (ctr_crypt M data (r\<lparr>rx_wire := wire\<rparr>)) =
        r\<lparr>rx_wire := wire, rx_stream := a, rx_counter := b, rx_offset := c\<rparr>"
      using ctr_crypt_frame [of M data "r\<lparr>rx_wire := wire\<rparr>"] by blast
    then have "ctr_crypt M data (r\<lparr>rx_wire := wire\<rparr>) =
      (fst (ctr_crypt M data (r\<lparr>rx_wire := wire\<rparr>)),
       r\<lparr>rx_wire := wire, rx_stream := a, rx_counter := b, rx_offset := c\<rparr>)"
      by (simp add: prod_eq_iff)
    with fd Some show ?thesis
      by (cases "fst (ctr_crypt M data (r\<lparr>rx_wire := wire\<rparr>))")
        (auto simp: feed_decode_def same_setup_def collect_vectors_eq Let_def len
          split: option.splits if_splits prod.splits)
  qed
qed

lemma feed_decode_transfer:
  assumes tr: "transfer M header wire p r" and fd: "feed_decode M data r = (Some plain, r1)"
    and len: "length data \<le> unat (rx_remaining r)" and vs: "length (rx_vectors r) = 8"
  shows "transfer M header (wire @ data) (p @ plain)
    (r1\<lparr>rx_remaining := rx_remaining r1 - of_nat (length data)\<rparr>)"
proof -
  obtain w h a b c where
    w: "sha256_update M (rx_wire r) data = Some w"
    and cc: "ctr_crypt M data (r\<lparr>rx_wire := w\<rparr>) =
      (Some plain, r\<lparr>rx_wire := w, rx_stream := a, rx_counter := b, rx_offset := c\<rparr>)"
    and h: "sha256_update M (rx_plain r) plain = Some h"
    and r1: "r1 = r\<lparr>rx_wire := w, rx_stream := a, rx_counter := b, rx_offset := c, rx_plain := h,
      rx_vectors := fst (fill_vectors plain (rx_vectors r) (rx_vector_size r)),
      rx_vector_size := snd (fill_vectors plain (rx_vectors r) (rx_vector_size r)),
      rx_matched := fst (scan_identity (case_option [] id (rx_identity r)) plain (rx_matched r) (rx_identity_found r)),
      rx_identity_found := snd (scan_identity (case_option [] id (rx_identity r)) plain (rx_matched r) (rx_identity_found r))\<rparr>"
    and vok: "rx_vector_size r1 = 8 \<Longrightarrow> \<not> vectors_rejected (rx_vectors r1) (rx_image_size r)"
    by (rule feed_decode_success [OF fd]) (rule that; assumption)
  let ?iv = "slice 13 16 header"
  from tr have cs: "ctr_state M ?iv (length wire) (r\<lparr>rx_wire := w\<rparr>)"
    by (simp add: transfer_def ctr_state_def)
  note crypt = ctr_crypt_correct [OF cs, of data, unfolded cc]
  then have plain: "ctr_spec M (rx_aes r) ?iv (length wire) data = Some plain"
    and cs1: "ctr_state M ?iv (length (wire @ data)) r1"
    by (simp_all add: ctr_state_def r1)
  have spec: "ctr_spec M (rx_aes r) ?iv 0 (wire @ data) = Some (p @ plain)"
    using tr plain by (simp add: transfer_def ctr_spec_append)
  have vec: "length (rx_vectors r1) = 8 \<and> rx_vector_size r1 = min 8 (length (p @ plain)) \<and>
      take (rx_vector_size r1) (rx_vectors r1) = take 8 (p @ plain)"
  proof (rule fill_vectors_take [OF vs])
    show "rx_vector_size r = min 8 (length p)" and "take (rx_vector_size r) (rx_vectors r) = take 8 p"
      using tr unfolding transfer_def by blast+
    show "fill_vectors plain (rx_vectors r) (rx_vector_size r) = (rx_vectors r1, rx_vector_size r1)"
      by (simp add: r1)
  qed
  have vecok: "8 \<le> length (p @ plain) \<longrightarrow> \<not> vectors_rejected (take 8 (p @ plain)) (header_size header)"
  proof
    assume "8 \<le> length (p @ plain)"
    then have "rx_vector_size r1 = 8" using vec by simp
    moreover from this have "take 8 (p @ plain) = rx_vectors r1"
      using vec by (metis order_refl take_all_iff)
    ultimately show "\<not> vectors_rejected (take 8 (p @ plain)) (header_size header)"
      using vok tr by (simp add: transfer_def)
  qed
  obtain identity where id: "rx_identity r = Some identity" "cstring identity"
    and found: "if rx_identity_found r then sublist identity p
         else rx_matched r < length identity \<and> ends_in_prefix identity (rx_matched r) p"
    using tr by (auto simp: transfer_def)
  have scan: "if rx_identity_found r1 then sublist identity (p @ plain)
         else rx_matched r1 < length identity \<and> ends_in_prefix identity (rx_matched r1) (p @ plain)"
  proof (cases "rx_identity_found r")
    case True
    then have "sublist identity (p @ plain)"
      using found by (meson sublist_append_rightI sublist_order.order_trans)
    moreover have "rx_identity_found r1"
      using True id by (cases plain) (simp_all add: r1)
    ultimately show ?thesis by simp
  next
    case False
    then show ?thesis
      using scan_identity_sound [OF id(2), of "rx_matched r" p plain "rx_matched r1" "rx_identity_found r1"]
        found id by (simp add: r1)
  qed
  have rem: "unat (rx_remaining r1 - of_nat (length data)) + length (wire @ data) = unat (header_size header)"
  proof -
    have "length data < 2 ^ 32" using le_less_trans [OF len unat_u32_less] by simp
    then have "unat (of_nat (length data) :: u32) = length data"
      by (simp add: unat_of_nat take_bit_eq_mod)
    then have "unat (rx_remaining r - of_nat (length data)) = unat (rx_remaining r) - length data"
      using len by (simp add: unat_sub_if')
    then show ?thesis using len tr by (simp add: transfer_def r1)
  qed
  show ?thesis
    unfolding transfer_def
  proof (intro conjI)
    show "sha_ctx M (rx_wire (r1\<lparr>rx_remaining := rx_remaining r1 - of_nat (length data)\<rparr>)) (wire @ data)"
      using tr w by (auto simp: transfer_def r1 intro: sha_ctx.updated)
    show "sha_ctx M (rx_plain (r1\<lparr>rx_remaining := rx_remaining r1 - of_nat (length data)\<rparr>)) (p @ plain)"
      using tr h by (auto simp: transfer_def r1 intro: sha_ctx.updated)
    have sel: "rx_vector_size (r1\<lparr>rx_remaining := n\<rparr>) = rx_vector_size r1"
      "rx_vectors (r1\<lparr>rx_remaining := n\<rparr>) = rx_vectors r1" for n by simp_all
    show "take (rx_vector_size (r1\<lparr>rx_remaining := rx_remaining r1 - of_nat (length data)\<rparr>))
        (rx_vectors (r1\<lparr>rx_remaining := rx_remaining r1 - of_nat (length data)\<rparr>)) = take 8 (p @ plain)"
      unfolding sel using vec by blast
    show "ctr_state M ?iv (length (wire @ data)) (r1\<lparr>rx_remaining := rx_remaining r1 - of_nat (length data)\<rparr>)"
      using cs1 by (simp add: ctr_state_def)
    show "\<exists>identity. rx_identity (r1\<lparr>rx_remaining := rx_remaining r1 - of_nat (length data)\<rparr>) = Some identity \<and>
        cstring identity \<and>
        (if rx_identity_found (r1\<lparr>rx_remaining := rx_remaining r1 - of_nat (length data)\<rparr>)
         then sublist identity (p @ plain)
         else rx_matched (r1\<lparr>rx_remaining := rx_remaining r1 - of_nat (length data)\<rparr>) < length identity \<and>
           ends_in_prefix identity (rx_matched (r1\<lparr>rx_remaining := rx_remaining r1 - of_nat (length data)\<rparr>)) (p @ plain))"
      using scan id r1 by (intro exI [of _ identity]) auto
  qed (use tr spec vec vecok rem in \<open>simp_all add: transfer_def r1\<close>)
qed

end
