(* ===== verification/Ota_Sink.thy ===== *)
theory Ota_Sink
  imports Ota_Session
begin

text \<open>
  The contract of the virtual class \<open>OtaSink\<close> as a locale, and what the receiver
  guarantees on top of it: the installed image is only ever replaced by a verified one.
  The operations of the receiver are collected in \<open>rx_op\<close>, so that a property of every
  sequence of calls is an induction over a list of operations.
\<close>

datatype rx_op = Challenge bytes | Begin bytes | Feed bytes | Abort

fun rx_step :: "('a, 'h) mbedtls \<Rightarrow> 's sink_ops \<Rightarrow> rx_op \<Rightarrow> ('a, 'h) receiver \<times> 's \<Rightarrow> ('a, 'h) receiver \<times> 's" where
  "rx_step M K (Challenge nonce) (r, s) = (ota_challenge nonce r, s)"
| "rx_step M K (Begin header) (r, s) = snd (ota_begin M K header r s)"
| "rx_step M K (Feed data) (r, s) = snd (ota_feed M K data r s)"
| "rx_step M K Abort (r, s) = ota_abort K r s"

fun rx_run :: "('a, 'h) mbedtls \<Rightarrow> 's sink_ops \<Rightarrow> rx_op list \<Rightarrow> ('a, 'h) receiver \<times> 's \<Rightarrow> ('a, 'h) receiver \<times> 's" where
  "rx_run M K [] c = c"
| "rx_run M K (e # es) c = rx_run M K es (rx_step M K e c)"

text \<open>The sizes of the C arrays: nonces of 32 bytes, headers of \<open>OTA_HEADER_SIZE\<close>.\<close>

fun op_sizes :: "rx_op \<Rightarrow> bool" where
  "op_sizes (Challenge nonce) = (length nonce = 32)"
| "op_sizes (Begin header) = (length header = OTA_HEADER_SIZE)"
| "op_sizes _ = True"

section \<open>The storage contract\<close>

locale ota_sink =
  fixes K :: "'s sink_ops"
    and staged :: "'s \<Rightarrow> bytes option"
    and installed :: "'s \<Rightarrow> bytes option"
  assumes begin_stages: "sk_begin K s = (True, s') \<Longrightarrow> staged s' = Some []"
    and begin_keeps: "sk_begin K s = (ok, s') \<Longrightarrow> installed s' = installed s"
    and write_stages: "sk_write K d s = (True, s') \<Longrightarrow> staged s = Some xs \<Longrightarrow> staged s' = Some (xs @ d)"
    and write_keeps: "sk_write K d s = (ok, s') \<Longrightarrow> installed s' = installed s"
    and finish_installs: "sk_finish K s = (True, s') \<Longrightarrow> staged s = Some xs \<Longrightarrow> installed s' = Some xs"
    and finish_fails: "sk_finish K s = (False, s') \<Longrightarrow> installed s' = installed s \<or> installed s' = None"
    and abort_keeps: "installed (sk_abort K s) = installed s"
begin

lemma abort_installed: "ota_abort K r s = (r1, s1) \<Longrightarrow> installed s1 = installed s"
  by (auto simp: ota_abort_def abort_keeps)

lemma fail_installed: "ota_fail K r s = (ok, r1, s1) \<Longrightarrow> installed s1 = installed s \<and> \<not> ok \<and> \<not> rx_sink r1"
  by (auto simp: ota_fail_def ota_abort_def abort_keeps)

lemma begin_installed:
  "ota_begin M K header r s = (ok, r1, s1) \<Longrightarrow> installed s1 = installed s"
  by (auto simp: ota_begin_def split: if_splits prod.splits bool.splits
      dest!: begin_keeps fail_installed)

lemma begin_staged:
  assumes "ota_begin M K header r s = (True, r1, s1)"
  shows "begin_checks M header r" and "begin_setup M header (r\<lparr>rx_issued := False\<rparr>) = (True, r1)"
    and "staged s1 = Some []"
  using assms
  by (auto simp: ota_begin_def split: if_splits prod.splits bool.splits
      dest: begin_stages fail_installed)

text \<open>Starting a transfer.\<close>

lemma begin_transfer:
  assumes "ota_begin M K header r s = (True, r1, s1)" and "rx_wf r" and "mbedtls_sizes M"
    and "length header = OTA_HEADER_SIZE"
  shows "transfer M header [] [] r1"
proof -
  note b = begin_staged [OF assms(1)]
  have nonce: "length (rx_nonce r) = 32" using assms(2) by (simp add: rx_wf_def)
  note auth = begin_checks_authentic [OF b(1) assms(3,4) nonce]
  from auth(2) assms(2) obtain identity where "rx_identity r = Some identity" "cstring identity"
    by (auto simp: rx_wf_def)
  with auth(1,4) show ?thesis
    by (intro begin_setup_transfer [OF b(2)]) simp_all
qed

text \<open>The last step: only a verified image reaches \<open>finish\<close>.\<close>

lemma finish_verified:
  assumes "ota_finish M K r s = (ok, r1, s1)" and tr: "transfer M header wire p r"
    and "rx_remaining r = 0" and "staged s = Some p" and H: "sha_streams M H" and sz: "mbedtls_sizes M"
  shows "(\<not> ok \<and> \<not> rx_sink r1 \<and> installed s1 = installed s) \<or>
    (\<exists>identity. rx_identity r = Some identity \<and>
       verified_image M H (rx_key r) (rx_panel r) identity header wire p \<and>
       (ok \<and> rx_complete r1 \<and> \<not> rx_sink r1 \<and> installed s1 = Some p \<or>
        \<not> ok \<and> \<not> rx_sink r1 \<and> (installed s1 = installed s \<or> installed s1 = None)))"
proof (cases "\<exists>plain wire'. sha256_finish M (rx_plain r) = Some plain \<and> sha256_finish M (rx_wire r) = Some wire' \<and>
    ct_equal plain (rx_plain_digest r) 32 \<and> ct_equal wire' (rx_wire_digest r) 32 \<and> rx_identity_found r")
  case False
  then have "ota_finish M K r s = ota_fail K r s"
    by (auto simp: ota_finish_def split: option.splits)
  with assms(1) show ?thesis using fail_installed [of r s ok r1 s1] by auto
next
  case True
  then obtain plain wire' where dig: "sha256_finish M (rx_plain r) = Some plain"
      "sha256_finish M (rx_wire r) = Some wire'" "ct_equal plain (rx_plain_digest r) 32"
      "ct_equal wire' (rx_wire_digest r) 32" and found: "rx_identity_found r"
    by blast
  have hdr: "length header = 141" using tr by (simp add: transfer_def header_authentic_def OTA_HEADER_SIZE_def)
  have "length plain = 32" "length wire' = 32" using dig(1,2) sz by (auto simp: mbedtls_sizes_def)
  with dig(3,4) tr hdr have "plain = slice 45 32 header" "wire' = slice 77 32 header"
    by (simp_all add: transfer_def ct_equal_iff)
  moreover have "plain = H p" "wire' = H wire"
    using dig(1,2) H tr by (auto simp: sha_streams_def transfer_def)
  ultimately have digests: "H p = slice 45 32 header" "H wire = slice 77 32 header" by simp_all
  have len: "length wire = unat (header_size header)" "length p = length wire"
    using tr assms(3) ctr_spec_length [of M "rx_aes r" "slice 13 16 header" 0 wire p]
    by (simp_all add: transfer_def)
  obtain identity where id: "rx_identity r = Some identity" "sublist identity p"
    using tr found by (auto simp: transfer_def)
  have "8 \<le> length p" using len tr by (simp add: transfer_def header_authentic_def)
  then have ver: "verified_image M H (rx_key r) (rx_panel r) identity header wire p"
    using tr digests len id by (auto simp: verified_image_def transfer_def)
  have "ota_finish M K r s = (case sk_finish K s of (False, s1) \<Rightarrow> ota_fail K r s1
       | (True, s1) \<Rightarrow> (True, r\<lparr>rx_sink := False, rx_complete := True\<rparr>, s1))"
    using dig found by (simp add: ota_finish_def)
  then show ?thesis
    using assms(1,4) ver id finish_installs [of s _ p] finish_fails [of s] fail_installed [of r _ ok r1 s1]
    by (auto split: prod.splits bool.splits)
qed

text \<open>One chunk.\<close>

lemma feed_transfer:
  assumes "ota_feed M K data r s = (ok, r1, s1)" and tr: "transfer M header wire p r"
    and st: "staged s = Some p" and vs: "length (rx_vectors r) = 8"
    and H: "sha_streams M H" and sz: "mbedtls_sizes M"
  shows "(\<not> ok \<and> \<not> rx_sink r1 \<and> installed s1 = installed s) \<or>
    (\<exists>plain. ok \<and> rx_sink r1 \<and> transfer M header (wire @ data) (p @ plain) r1 \<and>
       staged s1 = Some (p @ plain) \<and> installed s1 = installed s) \<or>
    (\<exists>plain identity. rx_identity r = Some identity \<and>
       verified_image M H (rx_key r) (rx_panel r) identity header (wire @ data) (p @ plain) \<and>
       (ok \<and> rx_complete r1 \<and> \<not> rx_sink r1 \<and> installed s1 = Some (p @ plain) \<or>
        \<not> ok \<and> \<not> rx_sink r1 \<and> (installed s1 = installed s \<or> installed s1 = None)))"
proof (cases "\<not> rx_sink r \<or> data = [] \<or> length data > unat (rx_remaining r)")
  case True
  with assms(1) show ?thesis using fail_installed [of r s ok r1 s1] by (auto simp: ota_feed_def)
next
  case False
  then have len: "length data \<le> unat (rx_remaining r)" by simp
  obtain q r2 where fd: "feed_decode M data r = (q, r2)" by (cases "feed_decode M data r")
  show ?thesis
  proof (cases q)
    case None
    with assms(1) False fd show ?thesis
      using fail_installed [of r2 s ok r1 s1] by (auto simp: ota_feed_def)
  next
    case (Some plain)
    obtain wok s2 where w: "sk_write K plain s = (wok, s2)" by (cases "sk_write K plain s")
    note keep = write_keeps [OF w]
    show ?thesis
    proof (cases wok)
      case False
      with assms(1) \<open>\<not> (_ \<or> _)\<close> fd Some w keep show ?thesis
        using fail_installed [of r2 s2 ok r1 s1] by (auto simp: ota_feed_def)
    next
      case True
      define r3 where "r3 = r2\<lparr>rx_remaining := rx_remaining r2 - of_nat (length data)\<rparr>"
      have tr3: "transfer M header (wire @ data) (p @ plain) r3"
        unfolding r3_def by (rule feed_decode_transfer [OF tr fd [unfolded Some] len vs])
      have st2: "staged s2 = Some (p @ plain)" using write_stages [OF _ st] w True by simp
      have same: "rx_key r3 = rx_key r" "rx_panel r3 = rx_panel r" "rx_identity r3 = rx_identity r"
        using feed_decode_frame [OF fd] by (simp_all add: r3_def same_setup_def)
      have res: "(if rx_remaining r3 = 0 then ota_finish M K r3 s2 else (True, r3, s2)) = (ok, r1, s1)"
        using assms(1) \<open>\<not> (_ \<or> _)\<close> fd Some w True by (simp add: ota_feed_def r3_def Let_def split: if_splits)
      show ?thesis
      proof (cases "rx_remaining r3 = 0")
        case True
        with res have "ota_finish M K r3 s2 = (ok, r1, s1)" by simp
        from finish_verified [OF this tr3 True st2 H sz] keep same show ?thesis by auto
      next
        case False
        with res tr3 st2 keep show ?thesis by (auto simp: transfer_def)
      qed
    qed
  qed
qed

end

section \<open>Every sequence of calls\<close>

definition rx_inv :: "('a, 'h) mbedtls \<Rightarrow> ('s \<Rightarrow> bytes option) \<Rightarrow> ('a, 'h) receiver \<Rightarrow> 's \<Rightarrow> bool" where
  "rx_inv M staged r s \<longleftrightarrow> rx_wf r \<and>
     (rx_sink r \<longrightarrow> (\<exists>header wire p. transfer M header wire p r \<and> staged s = Some p))"

definition safe_change ::
  "('a, 'h) mbedtls \<Rightarrow> (bytes \<Rightarrow> bytes) \<Rightarrow> ('a, 'h) receiver \<Rightarrow> bytes option \<Rightarrow> bytes option \<Rightarrow> bool" where
  "safe_change M H r old new \<longleftrightarrow> new = old \<or>
     (\<exists>identity header wire p. rx_identity r = Some identity \<and>
        verified_image M H (rx_key r) (rx_panel r) identity header wire p \<and> (new = Some p \<or> new = None))"

definition same_owner :: "('a, 'h) receiver \<Rightarrow> ('a, 'h) receiver \<Rightarrow> bool" where
  "same_owner r r1 \<longleftrightarrow> rx_key r1 = rx_key r \<and> rx_panel r1 = rx_panel r \<and> rx_identity r1 = rx_identity r \<and>
     rx_configured r1 = rx_configured r"

lemma same_setup_owner: "same_setup r r1 \<Longrightarrow> same_owner r r1"
  by (simp add: same_setup_def same_owner_def)

lemma safe_change_trans:
  "safe_change M H r a b \<Longrightarrow> same_owner r r1 \<Longrightarrow> safe_change M H r1 b c \<Longrightarrow> safe_change M H r a c"
  by (auto simp: safe_change_def same_owner_def)

lemma rx_wf_frame:
  "rx_wf r \<Longrightarrow> same_setup r r1 \<Longrightarrow> length (rx_vectors r1) = 8 \<Longrightarrow> (rx_issued r1 \<longrightarrow> rx_issued r) \<Longrightarrow> rx_wf r1"
  by (auto simp: rx_wf_def same_setup_def)

lemma ota_abort_frame:
  "ota_abort K r s = (r1, s1) \<Longrightarrow> same_setup r r1 \<and> rx_issued r1 = rx_issued r \<and> rx_vectors r1 = rx_vectors r \<and>
     \<not> rx_sink r1 \<and> \<not> rx_complete r1"
  by (auto simp: ota_abort_def same_setup_def)

lemma ota_fail_frame:
  "ota_fail K r s = (ok, r1, s1) \<Longrightarrow> same_setup r r1 \<and> rx_issued r1 = rx_issued r \<and> rx_vectors r1 = rx_vectors r \<and>
     \<not> rx_sink r1 \<and> \<not> rx_complete r1 \<and> \<not> ok"
  using ota_abort_frame [of K r s r1 s1] by (auto simp: ota_fail_def)

lemma ota_begin_frame:
  assumes "ota_begin M K header r s = (ok, r1, s1)"
  shows "same_setup r r1 \<and> rx_vectors r1 = rx_vectors r \<and> (rx_issued r1 \<longrightarrow> rx_issued r) \<and>
    (ok \<longrightarrow> \<not> rx_issued r1) \<and> (\<not> ok \<longrightarrow> rx_sink r1 = rx_sink r)"
proof (cases "begin_checks M header r")
  case False
  with assms show ?thesis by (auto simp: ota_begin_def same_setup_def)
next
  case True
  then have nosink: "\<not> rx_sink r" by (auto simp: begin_checks_def split: if_splits)
  obtain b r2 where bs: "begin_setup M header (r\<lparr>rx_issued := False\<rparr>) = (b, r2)"
    by (cases "begin_setup M header (r\<lparr>rx_issued := False\<rparr>)")
  from begin_setup_cases [OF this] assms True bs nosink show ?thesis
    by (auto simp: ota_begin_def same_setup_def split: bool.splits prod.splits dest!: ota_fail_frame)
qed

lemma ota_feed_frame:
  assumes "ota_feed M K data r s = (ok, r1, s1)"
  shows "same_setup r r1 \<and> rx_issued r1 = rx_issued r \<and> (length (rx_vectors r) = 8 \<longrightarrow> length (rx_vectors r1) = 8)"
proof (cases "\<not> rx_sink r \<or> data = [] \<or> length data > unat (rx_remaining r)")
  case True
  with assms show ?thesis by (auto simp: ota_feed_def dest!: ota_fail_frame)
next
  case False
  obtain q r2 where fd: "feed_decode M data r = (q, r2)" by (cases "feed_decode M data r")
  note frame = feed_decode_frame [OF this]
  have finish: "ota_finish M K r' s' = (ok, r1, s1) \<Longrightarrow>
      same_setup r' r1 \<and> rx_issued r1 = rx_issued r' \<and> rx_vectors r1 = rx_vectors r'" for r' s'
    by (auto simp: ota_finish_def same_setup_def split: option.splits if_splits prod.splits bool.splits
        dest!: ota_fail_frame)
  show ?thesis
  proof (cases q)
    case None
    then have "ota_fail K r2 s = (ok, r1, s1)" using assms False fd by (simp add: ota_feed_def)
    from ota_fail_frame [OF this] frame show ?thesis by (auto simp: same_setup_def)
  next
    case (Some plain)
    obtain w s2 where w: "sk_write K plain s = (w, s2)" by (cases "sk_write K plain s")
    define r3 where "r3 = r2\<lparr>rx_remaining := rx_remaining r2 - of_nat (length data)\<rparr>"
    have r3: "same_setup r r3" "rx_issued r3 = rx_issued r" "rx_vectors r3 = rx_vectors r2"
      using frame by (simp_all add: r3_def same_setup_def)
    have "(if w then if rx_remaining r3 = 0 then ota_finish M K r3 s2 else (True, r3, s2) else ota_fail K r2 s2) = (ok, r1, s1)"
      using assms False fd Some w by (auto simp: ota_feed_def r3_def Let_def split: bool.splits if_splits)
    then consider "ota_fail K r2 s2 = (ok, r1, s1)" | "ota_finish M K r3 s2 = (ok, r1, s1)" | "r1 = r3"
      by (auto split: if_splits)
    then show ?thesis
    proof cases
      case 1
      from ota_fail_frame [OF this] frame show ?thesis by (auto simp: same_setup_def)
    next
      case 2
      from finish [OF this] r3 frame show ?thesis by (auto simp: same_setup_def)
    next
      case 3
      with r3 frame show ?thesis by simp
    qed
  qed
qed

lemma challenge_fields [frame_simps]:
  "rx_sink (ota_challenge nonce r) = rx_sink r" "rx_key (ota_challenge nonce r) = rx_key r"
  "rx_panel (ota_challenge nonce r) = rx_panel r" "rx_plain_digest (ota_challenge nonce r) = rx_plain_digest r"
  "rx_wire_digest (ota_challenge nonce r) = rx_wire_digest r"
  "rx_image_size (ota_challenge nonce r) = rx_image_size r"
  "rx_remaining (ota_challenge nonce r) = rx_remaining r" "rx_wire (ota_challenge nonce r) = rx_wire r"
  "rx_plain (ota_challenge nonce r) = rx_plain r" "rx_aes (ota_challenge nonce r) = rx_aes r"
  "rx_offset (ota_challenge nonce r) = rx_offset r" "rx_counter (ota_challenge nonce r) = rx_counter r"
  "rx_stream (ota_challenge nonce r) = rx_stream r" "rx_vectors (ota_challenge nonce r) = rx_vectors r"
  "rx_vector_size (ota_challenge nonce r) = rx_vector_size r"
  "rx_identity (ota_challenge nonce r) = rx_identity r"
  "rx_identity_found (ota_challenge nonce r) = rx_identity_found r"
  "rx_matched (ota_challenge nonce r) = rx_matched r"
  by (simp_all add: ota_challenge_def)

lemma transfer_challenge: "transfer M header wire p r \<Longrightarrow> transfer M header wire p (ota_challenge nonce r)"
  unfolding transfer_def ctr_state_def frame_simps .

lemma rx_inv_challenge:
  assumes "rx_inv M st r s" and "length nonce = 32"
  shows "rx_inv M st (ota_challenge nonce r) s"
proof -
  have "rx_wf (ota_challenge nonce r)"
    using assms by (simp add: rx_inv_def rx_wf_def ota_challenge_def)
  moreover have "rx_sink (ota_challenge nonce r) = rx_sink r"
    by (simp add: ota_challenge_def)
  ultimately show ?thesis
    using assms(1) transfer_challenge unfolding rx_inv_def by metis
qed

context ota_sink
begin

lemma step_safe:
  assumes inv: "rx_inv M staged r s" and sizes: "op_sizes e" and step: "rx_step M K e (r, s) = (r1, s1)"
    and H: "sha_streams M H" and sz: "mbedtls_sizes M"
  shows "rx_inv M staged r1 s1 \<and> same_owner r r1 \<and> safe_change M H r (installed s) (installed s1)"
proof -
  have wf0: "rx_wf r" using inv by (simp add: rx_inv_def)
  show ?thesis
  proof (cases e)
  case (Challenge nonce)
  then have "r1 = ota_challenge nonce r" and "s1 = s" and "length nonce = 32"
    using step sizes by simp_all
  with rx_inv_challenge [OF inv] show ?thesis
    by (simp add: same_owner_def safe_change_def ota_challenge_def)
next
  case (Begin header)
  then obtain ok where b: "ota_begin M K header r s = (ok, r1, s1)"
    using step by (cases "ota_begin M K header r s") auto
  note frame = ota_begin_frame [OF b]
  have wf: "rx_wf r1"
    by (rule rx_wf_frame [OF wf0]) (use wf0 frame in \<open>simp_all add: rx_wf_def\<close>)
  have "rx_sink r1 \<longrightarrow> (\<exists>header wire p. transfer M header wire p r1 \<and> staged s1 = Some p)"
  proof (cases ok)
    case True
    then have b': "ota_begin M K header r s = (True, r1, s1)" using b by simp
    have "transfer M header [] [] r1"
      by (rule begin_transfer [OF b' _ sz]) (use inv sizes Begin in \<open>simp_all add: rx_inv_def\<close>)
    with begin_staged(3) [OF b'] show ?thesis by blast
  next
    case False
    show ?thesis
    proof
      assume sink: "rx_sink r1"
      then have "\<not> begin_checks M header r"
        using frame False by (auto simp: begin_checks_def)
      then have "r1 = r \<and> s1 = s" using b by (simp add: ota_begin_def)
      with inv sink show "\<exists>header wire p. transfer M header wire p r1 \<and> staged s1 = Some p"
        by (auto simp: rx_inv_def)
    qed
  qed
  with wf frame begin_installed [OF b] show ?thesis
    by (simp add: rx_inv_def same_setup_owner safe_change_def)
next
  case (Feed data)
  then obtain ok where f: "ota_feed M K data r s = (ok, r1, s1)"
    using step by (cases "ota_feed M K data r s") auto
  note frame = ota_feed_frame [OF f]
  have wf: "rx_wf r1"
    by (rule rx_wf_frame [OF wf0]) (use wf0 frame in \<open>simp_all add: rx_wf_def\<close>)
  show ?thesis
  proof (cases "rx_sink r")
    case False
    then have "ota_fail K r s = (ok, r1, s1)" using f by (simp add: ota_feed_def)
    with fail_installed [OF this] wf frame show ?thesis
      by (simp add: rx_inv_def same_setup_owner safe_change_def)
  next
    case True
    then obtain header wire p where tr: "transfer M header wire p r" and st: "staged s = Some p"
      using inv by (auto simp: rx_inv_def)
    have vs: "length (rx_vectors r) = 8" using inv by (simp add: rx_inv_def rx_wf_def)
    from feed_transfer [OF f tr st vs H sz] wf frame show ?thesis
      by (auto simp: rx_inv_def same_setup_owner safe_change_def)
  qed
next
  case Abort
  then have a: "ota_abort K r s = (r1, s1)" using step by simp
  note frame = ota_abort_frame [OF a]
  have "rx_wf r1"
    by (rule rx_wf_frame [OF wf0]) (use wf0 frame in \<open>simp_all add: rx_wf_def\<close>)
  with frame abort_installed [OF a] show ?thesis
    by (simp add: rx_inv_def same_setup_owner safe_change_def)
  qed
qed

lemma run_safe:
  assumes "rx_inv M staged r s" and "\<forall>e \<in> set es. op_sizes e" and "rx_run M K es (r, s) = (r1, s1)"
    and H: "sha_streams M H" and sz: "mbedtls_sizes M"
  shows "rx_inv M staged r1 s1 \<and> same_owner r r1 \<and> safe_change M H r (installed s) (installed s1)"
  using assms(1,2,3)
proof (induction es arbitrary: r s)
  case Nil
  then show ?case by (simp add: same_owner_def safe_change_def)
next
  case (Cons e es)
  obtain r2 s2 where step: "rx_step M K e (r, s) = (r2, s2)" by (cases "rx_step M K e (r, s)")
  have first: "rx_inv M staged r2 s2 \<and> same_owner r r2 \<and> safe_change M H r (installed s) (installed s2)"
    by (rule step_safe [OF Cons.prems(1) _ step H sz]) (use Cons.prems(2) in simp)
  have "rx_inv M staged r1 s1 \<and> same_owner r2 r1 \<and> safe_change M H r2 (installed s2) (installed s1)"
    by (rule Cons.IH) (use Cons.prems first step in simp_all)
  with first show ?case by (auto intro: safe_change_trans simp: same_owner_def)
qed

end

end
