(* ===== verification/Ota_Liveness.thy ===== *)
theory Ota_Liveness
  imports Ota_Sink
begin

text \<open>
  The other direction of the receiver's contract: a package that is what an authentic header
  announces is accepted chunk by chunk, however it is cut, and ends up installed, when the
  Mbed TLS calls and the storage do not fail. The storage's side is the locale
  \<open>reliable_sink\<close>, an extension of \<open>ota_sink\<close>.
\<close>

definition mbedtls_total :: "('a, 'h) mbedtls \<Rightarrow> bool" where
  "mbedtls_total M \<longleftrightarrow>
     (\<forall>k d. md_hmac M k d \<noteq> None) \<and> (\<forall>k. aes_setkey_enc M k \<noteq> None) \<and>
     (\<forall>c b. aes_crypt_ecb M c b \<noteq> None) \<and> sha256_starts M \<noteq> None \<and>
     (\<forall>h d. sha256_update M h d \<noteq> None) \<and> (\<forall>h. sha256_finish M h \<noteq> None)"

lemma mbedtls_totalD:
  assumes "mbedtls_total M"
  shows "\<exists>t. md_hmac M k d = Some t" and "\<exists>c. aes_setkey_enc M k = Some c"
    and "\<exists>t. aes_crypt_ecb M c b = Some t" and "\<exists>h. sha256_starts M = Some h"
    and "\<exists>h'. sha256_update M h d = Some h'" and "\<exists>t. sha256_finish M h = Some t"
  using assms by (simp_all add: mbedtls_total_def)

fun feed_all ::
  "('a, 'h) mbedtls \<Rightarrow> 's sink_ops \<Rightarrow> bytes list \<Rightarrow> ('a, 'h) receiver \<Rightarrow> 's \<Rightarrow>
     bool \<times> ('a, 'h) receiver \<times> 's" where
  "feed_all M K [] r s = (True, r, s)"
| "feed_all M K (c # cs) r s =
    (case ota_feed M K c r s of (False, r1, s1) \<Rightarrow> (False, r1, s1)
     | (True, r1, s1) \<Rightarrow> feed_all M K cs r1 s1)"

text \<open>The search has not missed anything yet.\<close>

definition search_exact :: "bytes \<Rightarrow> ('a, 'h) receiver \<Rightarrow> bytes \<Rightarrow> bool" where
  "search_exact identity r p \<longleftrightarrow> rx_identity r = Some identity \<and>
     (\<not> rx_identity_found r \<longrightarrow> tracks_all identity (rx_matched r) p \<and> \<not> sublist identity p)"

lemma ctr_crypt_total:
  assumes "mbedtls_total M"
  shows "\<exists>ps r1. ctr_crypt M data r = (Some ps, r1)"
proof (induction data arbitrary: r)
  case Nil
  then show ?case by simp
next
  case (Cons d ds)
  have "next_block M r \<noteq> None"
    using mbedtls_totalD(3) [OF assms, of "rx_aes r" "rx_counter r"]
    by (auto simp: next_block_def)
  then obtain r1 where nb: "next_block M r = Some r1" by auto
  obtain ps r2 where "ctr_crypt M ds (r1\<lparr>rx_offset := (rx_offset r1 + 1) mod 16\<rparr>) = (Some ps, r2)"
    using Cons.IH by blast
  with nb show ?case by simp
qed

text \<open>The computation of \<open>feed\<close> succeeds on a chunk of a good package.\<close>

lemma feed_decode_total:
  assumes tot: "mbedtls_total M" and tr: "transfer M header wire p r"
    and vs: "length (rx_vectors r) = 8"
    and image: "ctr_spec M (rx_aes r) (slice 13 16 header) 0 (wire @ data @ rest) = Some q"
    and good: "\<not> vectors_rejected (take 8 q) (header_size header)"
  shows "\<exists>plain r1. feed_decode M data r = (Some plain, r1)"
proof -
  obtain w where w: "sha256_update M (rx_wire r) data = Some w"
    using mbedtls_totalD(5) [OF tot] by blast
  obtain plain r1 where cc: "ctr_crypt M data (r\<lparr>rx_wire := w\<rparr>) = (Some plain, r1)"
    using ctr_crypt_total [OF tot] by blast
  obtain a b c where r1: "r1 = r\<lparr>rx_wire := w, rx_stream := a, rx_counter := b, rx_offset := c\<rparr>"
    using ctr_crypt_frame [of M data "r\<lparr>rx_wire := w\<rparr>"] cc by auto
  obtain h where h: "sha256_update M (rx_plain r1) plain = Some h"
    using mbedtls_totalD(5) [OF tot] by blast
  define vs' n' where "vs' = fst (fill_vectors plain (rx_vectors r) (rx_vector_size r))"
    and "n' = snd (fill_vectors plain (rx_vectors r) (rx_vector_size r))"
  let ?iv = "slice 13 16 header"
  have cs: "ctr_state M ?iv (length wire) (r\<lparr>rx_wire := w\<rparr>)"
    using tr by (simp add: transfer_def ctr_state_def)
  have plain: "ctr_spec M (rx_aes r) ?iv (length wire) data = Some plain"
    using ctr_crypt_correct [OF cs, of data, unfolded cc] by simp
  have p: "ctr_spec M (rx_aes r) ?iv 0 wire = Some p" using tr by (simp add: transfer_def)
  from image p plain obtain q' where q: "q = p @ plain @ q'"
    by (auto simp: ctr_spec_append split: option.splits)
  have vec: "length vs' = 8 \<and> n' = min 8 (length (p @ plain)) \<and> take n' vs' = take 8 (p @ plain)"
  proof (rule fill_vectors_take [OF vs])
    show "rx_vector_size r = min 8 (length p)" and "take (rx_vector_size r) (rx_vectors r) = take 8 p"
      using tr unfolding transfer_def by blast+
    show "fill_vectors plain (rx_vectors r) (rx_vector_size r) = (vs', n')"
      by (simp add: vs'_def n'_def)
  qed
  have "n' = 8 \<Longrightarrow> \<not> vectors_rejected vs' (header_size header)"
  proof -
    assume n8: "n' = 8"
    then have "8 \<le> length (p @ plain)" using vec by simp
    then have "take 8 q = take 8 (p @ plain)" by (simp add: q)
    also have "\<dots> = vs'" using vec n8 by (metis order_refl take_all_iff)
    finally show ?thesis using good by simp
  qed
  then show ?thesis
    using w cc h r1 tr
    by (auto simp: feed_decode_def collect_vectors_eq vs'_def n'_def transfer_def Let_def
        split: prod.splits)
qed

text \<open>The search stays exact over a chunk.\<close>

lemma feed_decode_search:
  assumes tr: "transfer M header wire p r" and se: "search_exact identity r p" and uh: "unique_head identity"
    and fd: "feed_decode M data r = (Some plain, r1)"
  shows "search_exact identity r1 (p @ plain)"
proof (cases "rx_identity_found r")
  case True
  have "scan_identity i ds m True = (m, True)" for i ds m by (cases ds) simp_all
  with True have "rx_identity_found r1" "rx_identity r1 = rx_identity r"
    by (auto intro: feed_decode_success [OF fd])
  with se show ?thesis by (simp add: search_exact_def)
next
  case False
  have id: "rx_identity r = Some identity" "cstring identity" "rx_matched r < length identity"
      "ends_in_prefix identity (rx_matched r) p" "tracks_all identity (rx_matched r) p" "\<not> sublist identity p"
    using tr se False by (auto simp: transfer_def search_exact_def)
  have "rx_identity r1 = rx_identity r" and
    "scan_identity identity plain (rx_matched r) False = (rx_matched r1, rx_identity_found r1)"
    by (auto intro: feed_decode_success [OF fd] simp: id False)
  with scan_identity_complete [OF id(2) uh id(5,4,3)] id show ?thesis
    by (auto simp: search_exact_def)
qed

locale reliable_sink = ota_sink K staged installed
  for K :: "'s sink_ops" and staged :: "'s \<Rightarrow> bytes option" and installed :: "'s \<Rightarrow> bytes option" +
  fixes healthy :: "'s \<Rightarrow> bool"
  assumes begin_reliable: "healthy s \<Longrightarrow> \<exists>s'. sk_begin K s = (True, s') \<and> healthy s'"
    and write_reliable: "healthy s \<Longrightarrow> staged s \<noteq> None \<Longrightarrow> \<exists>s'. sk_write K d s = (True, s') \<and> healthy s'"
    and finish_reliable: "healthy s \<Longrightarrow> staged s \<noteq> None \<Longrightarrow> \<exists>s'. sk_finish K s = (True, s')"
begin

text \<open>One chunk of a good package is accepted; the last one completes the transfer.\<close>

lemma feed_accepts:
  assumes tot: "mbedtls_total M" and H: "sha_streams M H" and sz: "mbedtls_sizes M"
    and tr: "transfer M header wire p r" and vs: "length (rx_vectors r) = 8"
    and st: "staged s = Some p" and hl: "healthy s"
    and se: "search_exact identity r p" and uh: "unique_head identity"
    and image: "ctr_spec M (rx_aes r) (slice 13 16 header) 0 (wire @ data @ rest) = Some q"
    and ver: "verified_image M H (rx_key r) (rx_panel r) identity header (wire @ data @ rest) q"
    and ne: "data \<noteq> []"
  shows "\<exists>r1 s1 plain. ota_feed M K data r s = (True, r1, s1) \<and>
    (if rest = [] then rx_complete r1 \<and> installed s1 = Some q
     else transfer M header (wire @ data) (p @ plain) r1 \<and> staged s1 = Some (p @ plain) \<and>
       healthy s1 \<and> search_exact identity r1 (p @ plain) \<and> length (rx_vectors r1) = 8 \<and>
       rx_aes r1 = rx_aes r \<and> rx_key r1 = rx_key r \<and> rx_panel r1 = rx_panel r)"
proof -
  obtain plain r1 where fd: "feed_decode M data r = (Some plain, r1)"
    using feed_decode_total [OF tot tr vs image] ver by (auto simp: verified_image_def)
  have total: "length wire + length data + length rest = unat (header_size header)"
    using ver by (auto simp: verified_image_def)
  have rem: "unat (rx_remaining r) + length wire = unat (header_size header)" and sink: "rx_sink r"
    using tr by (simp_all add: transfer_def)
  have len: "length data \<le> unat (rx_remaining r)" using total rem by linarith
  obtain s2 where w: "sk_write K plain s = (True, s2)" and hl2: "healthy s2"
    using write_reliable [OF hl, of plain] st by auto
  define r3 where "r3 = r1\<lparr>rx_remaining := rx_remaining r1 - of_nat (length data)\<rparr>"
  have tr3: "transfer M header (wire @ data) (p @ plain) r3"
    unfolding r3_def by (rule feed_decode_transfer [OF tr fd len vs])
  have st2: "staged s2 = Some (p @ plain)" by (rule write_stages [OF w st])
  have se3: "search_exact identity r3 (p @ plain)"
    using feed_decode_search [OF tr se uh fd] by (simp add: search_exact_def r3_def)
  note frame = feed_decode_frame [OF fd]
  have same: "rx_key r3 = rx_key r" "rx_panel r3 = rx_panel r" "length (rx_vectors r3) = 8"
    using frame vs by (simp_all add: r3_def same_setup_def)
  have aes: "rx_aes r3 = rx_aes r"
    unfolding r3_def by (auto intro: feed_decode_success [OF fd])
  have res: "ota_feed M K data r s =
      (if rx_remaining r3 = 0 then ota_finish M K r3 s2 else (True, r3, s2))"
    using sink ne len fd w by (simp add: ota_feed_def r3_def Let_def)
  have rem3: "unat (rx_remaining r3) = length rest"
    using tr3 total by (simp add: transfer_def)
  show ?thesis
  proof (cases "rest = []")
    case False
    then have "rx_remaining r3 \<noteq> 0" using rem3 by auto
    with False res tr3 st2 hl2 se3 same aes show ?thesis by auto
  next
    case True
    then have zero: "rx_remaining r3 = 0" using rem3 by (simp add: unat_eq_0)
    have q: "q = p @ plain"
      using tr3 image True aes by (simp add: transfer_def)
    have "sublist identity (p @ plain)" using ver q by (simp add: verified_image_def)
    then have found: "rx_identity_found r3" using se3 by (auto simp: search_exact_def)
    obtain dp dw where dig: "sha256_finish M (rx_plain r3) = Some dp" "sha256_finish M (rx_wire r3) = Some dw"
      using mbedtls_totalD(6) [OF tot] by blast
    have "dp = H (p @ plain)" "dw = H (wire @ data)"
      using dig H tr3 by (auto simp: sha_streams_def transfer_def)
    then have "dp = slice 45 32 header" "dw = slice 77 32 header"
      using ver True q by (auto simp: verified_image_def)
    then have cmp: "ct_equal dp (rx_plain_digest r3) 32" "ct_equal dw (rx_wire_digest r3) 32"
      using tr3 dig sz by (auto simp: transfer_def mbedtls_sizes_def ct_equal_iff)
    obtain s3 where fin: "sk_finish K s2 = (True, s3)"
      using finish_reliable [OF hl2] st2 by auto
    have "ota_finish M K r3 s2 = (True, r3\<lparr>rx_sink := False, rx_complete := True\<rparr>, s3)"
      using dig cmp found fin by (simp add: ota_finish_def)
    with res zero True q finish_installs [OF fin st2] show ?thesis by auto
  qed
qed

text \<open>A whole package, in any chunks.\<close>

lemma feed_all_accepts:
  assumes tot: "mbedtls_total M" and H: "sha_streams M H" and sz: "mbedtls_sizes M"
    and "transfer M header wire p r" and "length (rx_vectors r) = 8"
    and "staged s = Some p" and "healthy s"
    and "search_exact identity r p" and uh: "unique_head identity"
    and "ctr_spec M (rx_aes r) (slice 13 16 header) 0 (wire @ concat chunks) = Some q"
    and "verified_image M H (rx_key r) (rx_panel r) identity header (wire @ concat chunks) q"
    and "\<forall>c \<in> set chunks. c \<noteq> []" and "chunks \<noteq> []"
  shows "\<exists>r1 s1. feed_all M K chunks r s = (True, r1, s1) \<and> rx_complete r1 \<and> installed s1 = Some q"
  using assms(4-8,10-13)
proof (induction chunks arbitrary: wire p r s)
  case Nil
  then show ?case by simp
next
  case (Cons c cs)
  have "\<exists>r1 s1 plain. ota_feed M K c r s = (True, r1, s1) \<and>
    (if concat cs = [] then rx_complete r1 \<and> installed s1 = Some q
     else transfer M header (wire @ c) (p @ plain) r1 \<and> staged s1 = Some (p @ plain) \<and>
       healthy s1 \<and> search_exact identity r1 (p @ plain) \<and> length (rx_vectors r1) = 8 \<and>
       rx_aes r1 = rx_aes r \<and> rx_key r1 = rx_key r \<and> rx_panel r1 = rx_panel r)"
    by (rule feed_accepts [OF tot H sz Cons.prems(1-5) uh]) (use Cons.prems in simp_all)
  then obtain r1 s1 plain where f: "ota_feed M K c r s = (True, r1, s1)" and
    nxt: "if concat cs = [] then rx_complete r1 \<and> installed s1 = Some q
     else transfer M header (wire @ c) (p @ plain) r1 \<and> staged s1 = Some (p @ plain) \<and>
       healthy s1 \<and> search_exact identity r1 (p @ plain) \<and> length (rx_vectors r1) = 8 \<and>
       rx_aes r1 = rx_aes r \<and> rx_key r1 = rx_key r \<and> rx_panel r1 = rx_panel r"
    by blast
  show ?case
  proof (cases cs)
    case Nil
    with f nxt show ?thesis by simp
  next
    case (Cons d ds)
    then have "concat cs \<noteq> []" using Cons.prems(8) by auto
    with nxt have "\<exists>r2 s2. feed_all M K cs r1 s1 = (True, r2, s2) \<and> rx_complete r2 \<and> installed s2 = Some q"
      using Cons.prems Cons by (intro Cons.IH [of "wire @ c" "p @ plain"]) auto
    with f show ?thesis by simp
  qed
qed

text \<open>The header of a good package is accepted.\<close>

lemma begin_accepts:
  assumes tot: "mbedtls_total M" and sz: "mbedtls_sizes M"
    and wf: "rx_wf r" and idle: "\<not> rx_sink r" "rx_issued r" and hl: "healthy s"
    and id: "rx_identity r = Some identity" "cstring identity"
    and nonce: "slice 13 32 header = rx_nonce r"
    and ver: "verified_image M H (rx_key r) (rx_panel r) identity header wire q"
  shows "\<exists>r1 s1. ota_begin M K header r s = (True, r1, s1) \<and> transfer M header [] [] r1 \<and>
    length (rx_vectors r1) = 8 \<and> staged s1 = Some [] \<and> healthy s1 \<and> search_exact identity r1 [] \<and>
    ctr_spec M (rx_aes r1) (slice 13 16 header) 0 wire = Some q \<and> rx_key r1 = rx_key r \<and> rx_panel r1 = rx_panel r"
proof -
  from ver obtain auth_key enc_key ctx where auth: "header_authentic M (rx_key r) (rx_panel r) header"
    and keys: "md_hmac M (rx_key r) enc_label = Some enc_key" "aes_setkey_enc M enc_key = Some ctx"
    and spec: "ctr_spec M ctx (slice 13 16 header) 0 wire = Some q"
    by (auto simp: verified_image_def)
  have hdr: "length header = 141" using auth by (simp add: header_authentic_def OTA_HEADER_SIZE_def)
  have "begin_checks M header r"
  proof -
    have "ct_equal (drop 13 header) (rx_nonce r) 32"
      using nonce wf hdr by (simp add: ct_equal_iff rx_wf_def slice_def)
    moreover have "256 \<le> header_size header" "header_size header \<le> OTA_MAX_IMAGE"
      using auth by (simp_all add: header_authentic_def word_le_nat_alt)
    ultimately show ?thesis
      using idle auth hdr
      by (auto simp: begin_checks_def header_authentic_def not_less ct_equal_iff OTA_HEADER_SIZE_def)
  qed
  moreover obtain r1 where bs: "begin_setup M header (r\<lparr>rx_issued := False\<rparr>) = (True, r1)"
    and aes: "rx_aes r1 = ctx" and srch: "rx_matched r1 = 0" "\<not> rx_identity_found r1"
    using keys mbedtls_totalD(4) [OF tot] by (auto simp: begin_setup_def Let_def)
  moreover obtain s1 where sb: "sk_begin K s = (True, s1)" and hl1: "healthy s1"
    using begin_reliable [OF hl] by blast
  ultimately have b: "ota_begin M K header r s = (True, r1, s1)" by (simp add: ota_begin_def)
  have frame: "same_setup r r1" "length (rx_vectors r1) = 8"
    using begin_setup_cases [OF bs] wf by (simp_all add: same_setup_def rx_wf_def)
  have tr: "transfer M header [] [] r1"
    by (rule begin_transfer [OF b wf sz]) (simp add: hdr OTA_HEADER_SIZE_def)
  have "0 < length identity" using id(2) by (simp add: cstring_def)
  then have "search_exact identity r1 []"
    using id frame(1) srch scan_from_start(2) [of identity]
    by (auto simp: search_exact_def same_setup_def cstring_def)
  with b tr frame begin_staged(3) [OF b] hl1 spec aes show ?thesis by (auto simp: same_setup_def)
qed

lemma package_installs:
  assumes tot: "mbedtls_total M" and H: "sha_streams M H" and sz: "mbedtls_sizes M"
    and wf: "rx_wf r" and idle: "\<not> rx_sink r" "rx_issued r" and hl: "healthy s"
    and id: "rx_identity r = Some identity" "cstring identity" and uh: "unique_head identity"
    and nonce: "slice 13 32 header = rx_nonce r"
    and ver: "verified_image M H (rx_key r) (rx_panel r) identity header (concat chunks) q"
    and ch: "\<forall>c \<in> set chunks. c \<noteq> []"
  shows "\<exists>r1 s1 r2 s2. ota_begin M K header r s = (True, r1, s1) \<and>
    feed_all M K chunks r1 s1 = (True, r2, s2) \<and> rx_complete r2 \<and> installed s2 = Some q"
proof -
  obtain r1 s1 where b: "ota_begin M K header r s = (True, r1, s1)" and tr: "transfer M header [] [] r1"
    and rest: "length (rx_vectors r1) = 8" "staged s1 = Some []" "healthy s1" "search_exact identity r1 []"
    "ctr_spec M (rx_aes r1) (slice 13 16 header) 0 (concat chunks) = Some q" "rx_key r1 = rx_key r" "rx_panel r1 = rx_panel r"
    using begin_accepts [OF tot sz wf idle hl id nonce ver] by blast
  have "chunks \<noteq> []"
    using ver by (auto simp: verified_image_def header_authentic_def)
  with feed_all_accepts [OF tot H sz tr rest(1-4) uh] rest(5-7) ver ch b
  show ?thesis by auto
qed

end

end
