(* ===== verification/File_Sink.thy ===== *)
theory File_Sink
  imports Ota_Liveness
begin

text \<open>
  \<open>class FileSink\<close> of \<open>firmware/housepanel-giga/ota_update.cpp\<close>: the staging of an image on
  the FAT partition. The state has the open handle, the contents of \<open>/fs/UPDATE.PART\<close> and
  \<open>/fs/UPDATE.BIN\<close>, and a script of the outcomes of the next file system calls (a call
  past its end succeeds): \<open>Io_fail k\<close> makes the call fail, a write after \<open>k\<close> bytes, a flush
  or close with only \<open>k\<close> bytes of the file on the medium.
\<close>

section \<open>The class\<close>

datatype io = Io_ok | Io_fail nat

record file_sink =
  fs_open :: bool
  fs_part :: "bytes option"
  fs_bin :: "bytes option"
  fs_faults :: "io list"

definition next_io :: "file_sink \<Rightarrow> io \<times> file_sink" where
  "next_io f = (case fs_faults f of [] \<Rightarrow> (Io_ok, f) | x # xs \<Rightarrow> (x, f\<lparr>fs_faults := xs\<rparr>))"

text \<open>\<open>file = fopen("/fs/UPDATE.PART", "wb"); return file != nullptr;\<close>\<close>

definition file_begin :: "file_sink \<Rightarrow> bool \<times> file_sink" where
  "file_begin f = (case next_io f of
       (Io_ok, f1) \<Rightarrow> (True, f1\<lparr>fs_open := True, fs_part := Some []\<rparr>)
     | (Io_fail _, f1) \<Rightarrow> (False, f1\<lparr>fs_open := False\<rparr>))"

definition file_write :: "bytes \<Rightarrow> file_sink \<Rightarrow> bool \<times> file_sink" where
  "file_write data f =
    (if \<not> fs_open f then (False, f)
     else case next_io f of
       (Io_ok, f1) \<Rightarrow> (True, f1\<lparr>fs_part := map_option (\<lambda>xs. xs @ data) (fs_part f1)\<rparr>)
     | (Io_fail k, f1) \<Rightarrow>
         (k \<ge> length data, f1\<lparr>fs_part := map_option (\<lambda>xs. xs @ take k data) (fs_part f1)\<rparr>))"

text \<open>\<open>fflush\<close> and \<open>fclose\<close>: whether the call returned 0.\<close>

definition file_sync :: "file_sink \<Rightarrow> bool \<times> file_sink" where
  "file_sync f = (case next_io f of
       (Io_ok, f1) \<Rightarrow> (True, f1)
     | (Io_fail k, f1) \<Rightarrow> (False, f1\<lparr>fs_part := map_option (take k) (fs_part f1)\<rparr>))"

text \<open>
  \<open>remove("/fs/UPDATE.BIN") != 0 && errno != ENOENT\<close>: the first component says that the old
  file is gone or was not there.
\<close>

definition remove_bin :: "file_sink \<Rightarrow> bool \<times> file_sink" where
  "remove_bin f = (case next_io f of
       (Io_ok, f1) \<Rightarrow> (True, f1\<lparr>fs_bin := None\<rparr>)
     | (Io_fail _, f1) \<Rightarrow> (False, f1))"

definition rename_part :: "file_sink \<Rightarrow> bool \<times> file_sink" where
  "rename_part f = (case next_io f of
       (Io_ok, f1) \<Rightarrow> (case fs_part f1 of None \<Rightarrow> (False, f1)
          | Some staged \<Rightarrow> (True, f1\<lparr>fs_part := None, fs_bin := Some staged\<rparr>))
     | (Io_fail _, f1) \<Rightarrow> (False, f1))"

definition remove_part :: "file_sink \<Rightarrow> file_sink" where
  "remove_part f = (case next_io f of (Io_ok, f1) \<Rightarrow> f1\<lparr>fs_part := None\<rparr> | (Io_fail _, f1) \<Rightarrow> f1)"

definition file_finish :: "file_sink \<Rightarrow> bool \<times> file_sink" where
  "file_finish f =
    (if \<not> fs_open f then (False, f)
     else let (flushed, f1) = file_sync f; (closed, f2) = file_sync f1; f3 = f2\<lparr>fs_open := False\<rparr> in
       if \<not> flushed \<or> \<not> closed then (False, f3)
       else let (gone, f4) = remove_bin f3 in if \<not> gone then (False, f4) else rename_part f4)"

definition file_abort :: "file_sink \<Rightarrow> file_sink" where
  "file_abort f = (let f1 = (if fs_open f then snd (file_sync f) else f)
                   in remove_part (f1\<lparr>fs_open := False\<rparr>))"

definition file_ops :: "file_sink sink_ops" where
  "file_ops = \<lparr>sk_begin = file_begin, sk_write = file_write, sk_finish = file_finish, sk_abort = file_abort\<rparr>"

text \<open>What is being staged: the contents of \<open>UPDATE.PART\<close> while the handle is open.\<close>

definition file_staged :: "file_sink \<Rightarrow> bytes option" where
  "file_staged f = (if fs_open f then fs_part f else None)"

section \<open>The contract holds\<close>

lemma next_io_fields:
  "next_io f = (x, f1) \<Longrightarrow> fs_open f1 = fs_open f \<and> fs_part f1 = fs_part f \<and> fs_bin f1 = fs_bin f"
  by (auto simp: next_io_def split: list.splits)

lemma file_sync_fields:
  "file_sync f = (ok, f1) \<Longrightarrow> fs_open f1 = fs_open f \<and> fs_bin f1 = fs_bin f \<and> (ok \<longrightarrow> fs_part f1 = fs_part f)"
  by (auto simp: file_sync_def split: prod.splits io.splits dest!: next_io_fields)

lemma file_finish_fields:
  assumes "file_finish f = (ok, f1)"
  shows "(ok \<longrightarrow> fs_open f \<and> fs_bin f1 = fs_part f \<and> fs_part f \<noteq> None) \<and>
    (\<not> ok \<longrightarrow> fs_bin f1 = fs_bin f \<or> fs_bin f1 = None)"
proof (cases "fs_open f")
  case False
  with assms show ?thesis by (simp add: file_finish_def)
next
  case True
  obtain fl f2 where s1: "file_sync f = (fl, f2)" by (cases "file_sync f")
  obtain cl f3 where s2: "file_sync f2 = (cl, f3)" by (cases "file_sync f2")
  obtain gn f4 where s3: "remove_bin (f3\<lparr>fs_open := False\<rparr>) = (gn, f4)"
    by (cases "remove_bin (f3\<lparr>fs_open := False\<rparr>)")
  have gone: "fs_part f4 = fs_part f3 \<and> (if gn then fs_bin f4 = None else fs_bin f4 = fs_bin f3)"
    using s3 by (auto simp: remove_bin_def split: prod.splits io.splits dest!: next_io_fields)
  have rename: "rename_part f4 = (ok, f1) \<Longrightarrow>
      (if ok then fs_bin f1 = fs_part f4 \<and> fs_part f4 \<noteq> None else fs_bin f1 = fs_bin f4)"
    by (auto simp: rename_part_def split: prod.splits io.splits option.splits dest!: next_io_fields)
  show ?thesis
    using assms True s1 s2 s3 gone file_sync_fields [OF s1] file_sync_fields [OF s2] rename
    by (auto simp: file_finish_def Let_def split: if_splits)
qed

lemma file_abort_bin: "fs_bin (file_abort f) = fs_bin f"
proof -
  have part: "fs_bin (remove_part f') = fs_bin f'" for f'
    by (auto simp: remove_part_def split: prod.splits io.splits dest!: next_io_fields)
  have "fs_bin (snd (file_sync f)) = fs_bin f"
    using file_sync_fields [of f "fst (file_sync f)" "snd (file_sync f)"] by simp
  then show ?thesis by (simp add: file_abort_def part Let_def)
qed

interpretation fs: ota_sink file_ops file_staged fs_bin
proof (unfold_locales, goal_cases)
  case (1 s s')
  then show ?case
    by (auto simp: file_ops_def file_begin_def file_staged_def split: prod.splits io.splits)
next
  case (2 s ok s')
  then show ?case
    by (auto simp: file_ops_def file_begin_def split: prod.splits io.splits dest!: next_io_fields)
next
  case (3 d s s' xs)
  then show ?case
    by (auto simp: file_ops_def file_write_def file_staged_def split: if_splits prod.splits io.splits
        dest!: next_io_fields)
next
  case (4 d s ok s')
  then show ?case
    by (auto simp: file_ops_def file_write_def split: if_splits prod.splits io.splits
        dest!: next_io_fields)
next
  case (5 s s' xs)
  then show ?case
    using file_finish_fields [of s True s'] by (auto simp: file_ops_def file_staged_def split: if_splits)
next
  case (6 s s')
  then show ?case using file_finish_fields [of s False s'] by (simp add: file_ops_def)
next
  case (7 s)
  show ?case by (simp add: file_ops_def file_abort_bin)
qed

text \<open>Without faults ahead, every call of the storage succeeds.\<close>

definition file_healthy :: "file_sink \<Rightarrow> bool" where
  "file_healthy f \<longleftrightarrow> fs_faults f = []"

interpretation fsr: reliable_sink file_ops file_staged fs_bin file_healthy
proof (unfold_locales, goal_cases)
  case (1 s)
  then show ?case by (simp add: file_ops_def file_begin_def file_healthy_def next_io_def)
next
  case (2 s d)
  then show ?case
    by (auto simp: file_ops_def file_write_def file_healthy_def file_staged_def next_io_def
        split: if_splits)
next
  case (3 s)
  then show ?case
    by (auto simp: file_ops_def file_finish_def file_sync_def remove_bin_def rename_part_def
        file_healthy_def file_staged_def next_io_def split: if_splits)
qed

end
