(* ===== verification/Ota_Properties.thy ===== *)
theory Ota_Properties
  imports File_Sink
begin

text \<open>
  The properties of the firmware receiver on its file storage, with the concrete Mbed TLS
  instance that their witnesses run on.
\<close>

section \<open>A concrete instance for the witnesses\<close>

text \<open>
  Checksums in place of the real primitives: 32 copies of the sum of all bytes as digest and
  tag, and a block function whose key stream is zero, so that a package's wire bytes are its
  image.
\<close>

definition sample_digest :: "bytes \<Rightarrow> bytes" where
  "sample_digest m = replicate 32 (sum_list m)"

definition sample_mbedtls :: "(u8, u8) mbedtls" where
  "sample_mbedtls = \<lparr>md_hmac = (\<lambda>k d. Some (replicate 32 (sum_list k + sum_list d))),
     aes_init = 0, aes_setkey_enc = (\<lambda>k. Some (sum_list k)),
     aes_crypt_ecb = (\<lambda>k b. Some (replicate 16 0)),
     sha256_init = 0, sha256_starts = Some 0,
     sha256_update = (\<lambda>h d. Some (h + sum_list d)),
     sha256_finish = (\<lambda>h. Some (replicate 32 h))\<rparr>"

lemma sample_sizes: "mbedtls_sizes sample_mbedtls"
  by (auto simp: mbedtls_sizes_def sample_mbedtls_def)

lemma sample_total: "mbedtls_total sample_mbedtls"
  by (simp add: mbedtls_total_def sample_mbedtls_def)

lemma sample_ctx: "sha_ctx sample_mbedtls h m \<Longrightarrow> h = sum_list m"
proof (induction rule: sha_ctx.induct)
  case (started h)
  then show ?case by (simp add: sample_mbedtls_def)
next
  case (updated h m d h')
  then show ?case by (simp add: sample_mbedtls_def)
qed

lemma sample_streams: "sha_streams sample_mbedtls sample_digest"
  unfolding sha_streams_def
proof (intro allI impI)
  fix h m dig
  assume "sha_ctx sample_mbedtls h m" and "sha256_finish sample_mbedtls h = Some dig"
  then show "dig = sample_digest m"
    using sample_ctx [of h m] by (simp add: sample_mbedtls_def sample_digest_def)
qed

lemma sample_ctr: "ctr_spec sample_mbedtls ctx iv n data = Some data"
proof (induction data arbitrary: n)
  case Nil
  then show ?case by simp
next
  case (Cons d ds)
  have "keystream sample_mbedtls ctx iv n = Some 0"
    by (simp add: keystream_def sample_mbedtls_def)
  with Cons show ?case by simp
qed

text \<open>The key is 31 zero bytes and a one, the nonce is 1 to 32.\<close>

definition sample_identity :: bytes where
  "sample_identity = bytes_of ''HousePanel identity:primary:housepanel:end''"

definition sample_key :: bytes where
  "sample_key = replicate 31 0 @ [1]"

definition sample_nonce :: bytes where
  "sample_nonce = map of_nat [1..<33]"

definition sample_receiver :: "(u8, u8) receiver" where
  "sample_receiver = snd (ota_configure (Some (to_hex sample_key)) 1 (Some sample_identity) (ota_new sample_mbedtls))"

text \<open>
  An image of 256 bytes: initial stack 0x24000008, reset vector 0x08040041, the identity,
  zeros; and its header.
\<close>

definition sample_image :: bytes where
  "sample_image = [8, 0, 0, 0x24, 0x41, 0, 4, 8] @ sample_identity @ replicate 206 0"

definition sample_body :: bytes where
  "sample_body = update_magic @ [1] @ [0, 0, 1, 0] @ sample_nonce @ sample_digest sample_image @
     sample_digest sample_image"

definition sample_header :: bytes where
  "sample_header = sample_body @ replicate 32 (sum_list (replicate 32 (1 + sum_list auth_label)) + sum_list sample_body)"

definition sample_file :: file_sink where
  "sample_file = \<lparr>fs_open = False, fs_part = None, fs_bin = Some [1], fs_faults = []\<rparr>"

lemma sample_configured:
  "ota_configure (Some (to_hex sample_key)) 1 (Some sample_identity) (ota_new sample_mbedtls) = (True, sample_receiver)"
  "rx_key sample_receiver = sample_key" "rx_panel sample_receiver = 1"
  "rx_identity sample_receiver = Some sample_identity" "rx_configured sample_receiver"
  "\<not> rx_sink sample_receiver" "length (rx_vectors sample_receiver) = 8"
proof -
  have len: "length (to_hex sample_key) = 64" and any: "foldl (OR) 0 sample_key \<noteq> 0"
    by (simp_all add: sample_key_def foldl_conv_fold numeral_eq_Suc)
  have id: "sample_identity \<noteq> []" by (simp add: sample_identity_def bytes_of_def)
  have keylen: "length sample_key = 32" by (simp add: sample_key_def)
  note eval = ota_configure_def hex_pairs_to_hex len keylen any id Let_def
  show "ota_configure (Some (to_hex sample_key)) 1 (Some sample_identity) (ota_new sample_mbedtls) = (True, sample_receiver)"
    "rx_key sample_receiver = sample_key" "rx_panel sample_receiver = 1"
    "rx_identity sample_receiver = Some sample_identity" "rx_configured sample_receiver"
    "\<not> rx_sink sample_receiver" "length (rx_vectors sample_receiver) = 8"
    by (simp_all add: sample_receiver_def eval) (simp_all add: ota_new_def)
qed

lemma sample_identity_facts: "cstring sample_identity" "unique_head sample_identity" "length sample_identity = 42"
proof -
  show "cstring sample_identity" by (simp add: sample_identity_def bytes_of_def cstring_def)
  show "unique_head sample_identity"
    by (simp add: sample_identity_def bytes_of_def unique_head_def)
  show "length sample_identity = 42" by (simp add: sample_identity_def)
qed

lemma sample_verified:
  "verified_image sample_mbedtls sample_digest sample_key 1 sample_identity sample_header sample_image sample_image"
proof -
  have len: "length sample_nonce = 32" "length update_magic = 8" "length sample_image = 256"
    by (simp_all add: sample_nonce_def update_magic_def sample_image_def sample_identity_facts)
  have body: "length sample_body = 109" by (simp add: sample_body_def sample_digest_def len)
  have size: "header_size sample_header = 256"
    by (simp add: header_size_def slice_def sample_header_def sample_body_def len be32_def)
  have slices: "slice 45 32 sample_header = sample_digest sample_image"
    "slice 77 32 sample_header = sample_digest sample_image"
    by (simp_all add: slice_def sample_header_def sample_body_def len sample_digest_def)
  have auth: "header_authentic sample_mbedtls sample_key 1 sample_header"
    unfolding header_authentic_def
  proof (intro conjI exI)
    show "take 8 sample_header = update_magic" "sample_header ! 8 = 1"
      by (simp_all add: sample_header_def sample_body_def len nth_append)
    show "length sample_header = OTA_HEADER_SIZE" by (simp add: sample_header_def body OTA_HEADER_SIZE_def)
    show "md_hmac sample_mbedtls sample_key auth_label = Some (replicate 32 (1 + sum_list auth_label))"
      by (simp add: sample_mbedtls_def sample_key_def sum_list_replicate)
    show "md_hmac sample_mbedtls (replicate 32 (1 + sum_list auth_label)) (take (OTA_HEADER_SIZE - 32) sample_header) =
      Some (drop (OTA_HEADER_SIZE - 32) sample_header)"
      by (simp add: sample_mbedtls_def OTA_HEADER_SIZE_def sample_header_def body)
  qed (simp_all add: size OTA_MAX_IMAGE_def)
  have "sublist sample_identity sample_image"
    by (simp only: sample_image_def) blast
  moreover have "\<not> vectors_rejected (take 8 sample_image) 256"
    by (simp add: sample_image_def vectors_rejected_def slice_def le32_def be32_def)
  ultimately show ?thesis
    using auth size slices by (simp add: verified_image_def len sample_ctr) (simp add: sample_mbedtls_def)
qed

section \<open>From configuration on\<close>

lemma ota_new_configured:
  assumes "ota_configure (Some hexkey) panel (Some identity) (ota_new M) = (True, r0)" and "cstring identity"
  shows "rx_wf r0" and "\<not> rx_sink r0" and "rx_identity r0 = Some identity" and "rx_panel r0 = panel"
    and "rx_inv M st r0 s"
proof -
  have r0: "rx_nonce r0 = replicate 32 0" "rx_vectors r0 = replicate 8 0" "\<not> rx_issued r0" "\<not> rx_sink r0"
    "rx_identity r0 = Some identity" "rx_panel r0 = panel"
    using assms(1) by (auto simp: ota_configure_def ota_new_def Let_def split: if_splits option.splits)
  then show "rx_wf r0" "\<not> rx_sink r0" "rx_identity r0 = Some identity" "rx_panel r0 = panel" "rx_inv M st r0 s"
    using assms(2) by (simp_all add: rx_wf_def rx_inv_def)
qed



text \<open>The sample session: the challenge, the header and the image in two chunks.\<close>

definition sample_issued :: "(u8, u8) receiver" where
  "sample_issued = ota_challenge sample_nonce sample_receiver"

lemma sample_issued_facts: "rx_wf sample_issued" "\<not> rx_sink sample_issued" "rx_issued sample_issued"
  "rx_identity sample_issued = Some sample_identity" "rx_key sample_issued = sample_key"
  "rx_panel sample_issued = 1" "rx_nonce sample_issued = sample_nonce"
  "slice 13 32 sample_header = sample_nonce"
proof -
  show "rx_wf sample_issued" "\<not> rx_sink sample_issued" "rx_issued sample_issued"
    "rx_identity sample_issued = Some sample_identity" "rx_key sample_issued = sample_key"
    "rx_panel sample_issued = 1" "rx_nonce sample_issued = sample_nonce"
    using sample_configured sample_identity_facts
    by (simp_all add: sample_issued_def ota_challenge_def rx_wf_def sample_nonce_def)
  show "slice 13 32 sample_header = sample_nonce"
    by (simp add: slice_def sample_header_def sample_body_def sample_nonce_def update_magic_def)
qed

definition sample_chunks :: "bytes list" where
  "sample_chunks = [take 100 sample_image, drop 100 sample_image]"

lemma sample_chunks_facts: "concat sample_chunks = sample_image" "\<forall>c \<in> set sample_chunks. c \<noteq> []"
proof -
  show "concat sample_chunks = sample_image" by (simp add: sample_chunks_def)
  have "length sample_image = 256" by (simp add: sample_image_def sample_identity_facts)
  then show "\<forall>c \<in> set sample_chunks. c \<noteq> []" by (auto simp: sample_chunks_def)
qed


lemma sample_session:
  "fs_bin (snd (rx_run sample_mbedtls file_ops (Challenge sample_nonce # Begin sample_header # map Feed sample_chunks)
     (sample_receiver, sample_file))) = Some sample_image"
proof -
  have fa: "feed_all M K cs r s = (True, r2, s2) \<Longrightarrow> rx_run M K (map Feed cs) (r, s) = (r2, s2)" for M K cs r s r2 s2
    by (induction cs arbitrary: r s) (auto split: prod.splits bool.splits)
  have "file_healthy sample_file" by (simp add: file_healthy_def sample_file_def)
  then obtain r1 f1 r2 f2 where
    b: "ota_begin sample_mbedtls file_ops sample_header sample_issued sample_file = (True, r1, f1)"
    and fe: "feed_all sample_mbedtls file_ops sample_chunks r1 f1 = (True, r2, f2)"
    and bin: "fs_bin f2 = Some sample_image"
    using fsr.package_installs [OF sample_total sample_streams sample_sizes sample_issued_facts(1,2,3) _
        sample_issued_facts(4) sample_identity_facts(1,2), where header = sample_header and chunks = sample_chunks
          and s = sample_file and q = sample_image]
    by (auto simp: sample_issued_facts sample_chunks_facts sample_verified)
  then show ?thesis using b bin fa [OF fe] by (simp add: sample_issued_def)
qed


end
