(* ===== verification/Ota_Guarantees.thy ===== *)
theory Ota_Guarantees
  imports Ota_Properties
begin

text \<open>
  Further properties of the receiver: challenges are used once, forged headers leave no
  trace, the invariant of its fields, the exactness of its routines, and the file storage.
\<close>

section \<open>Challenges and headers\<close>

lemma rx_step_not_issued:
  assumes "\<not> rx_issued r" and "\<And>nonce. e \<noteq> Challenge nonce" and "rx_step M K e (r, s) = (r1, s1)"
  shows "\<not> rx_issued r1"
proof (cases e)
  case (Begin header)
  obtain ok where "ota_begin M K header r s = (ok, r1, s1)"
    using assms(3) Begin by (cases "ota_begin M K header r s") auto
  from ota_begin_frame [OF this] assms(1) show ?thesis by blast
next
  case (Feed data)
  obtain ok where "ota_feed M K data r s = (ok, r1, s1)"
    using assms(3) Feed by (cases "ota_feed M K data r s") auto
  from ota_feed_frame [OF this] assms(1) show ?thesis by blast
next
  case Abort
  with assms(3) have "ota_abort K r s = (r1, s1)" by simp
  from ota_abort_frame [OF this] assms(1) show ?thesis by blast
qed (use assms(2) in blast)

lemma rx_run_not_issued:
  "\<not> rx_issued r \<Longrightarrow> \<forall>nonce. Challenge nonce \<notin> set es \<Longrightarrow> rx_run M K es (r, s) = (r1, s1) \<Longrightarrow> \<not> rx_issued r1"
proof (induction es arbitrary: r s)
  case (Cons e es)
  obtain r2 s2 where step: "rx_step M K e (r, s) = (r2, s2)" by (cases "rx_step M K e (r, s)")
  have "\<not> rx_issued r2"
    by (rule rx_step_not_issued [OF Cons.prems(1) _ step]) (use Cons.prems(2) in auto)
  then show ?case by (rule Cons.IH) (use Cons.prems step in auto)
qed simp

text \<open>
  (C13) A challenge authorises one transfer: after \<open>begin\<close> has accepted a header, no header
  is accepted again, whatever else happens, until a new challenge is issued. Neither the
  accepted header nor any other can be replayed.
\<close>

theorem ota_challenge_single_use:
  assumes "ota_begin M K header r s = (True, r1, s1)"
    and "\<forall>nonce. Challenge nonce \<notin> set es" and "rx_run M K es (r1, s1) = (r2, s2)"
  shows "ota_begin M K header' r2 s2 = (False, r2, s2)"
proof -
  have "\<not> rx_issued r1" using ota_begin_frame [OF assms(1)] by simp
  then have "\<not> rx_issued r2" by (rule rx_run_not_issued) (use assms in auto)
  then show ?thesis by (simp add: ota_begin_def begin_checks_def)
qed

theorem ota_challenge_single_use_witness:
  "\<exists>r1 f1. ota_begin sample_mbedtls file_ops sample_header sample_issued sample_file = (True, r1, f1) \<and>
     ota_begin sample_mbedtls file_ops sample_header (fst (ota_abort file_ops r1 f1)) (snd (ota_abort file_ops r1 f1)) =
       (False, ota_abort file_ops r1 f1)"
proof -
  have "file_healthy sample_file" by (simp add: file_healthy_def sample_file_def)
  then obtain r1 f1 where b: "ota_begin sample_mbedtls file_ops sample_header sample_issued sample_file = (True, r1, f1)"
    using fsr.package_installs [OF sample_total sample_streams sample_sizes sample_issued_facts(1,2,3) _
        sample_issued_facts(4) sample_identity_facts(1,2), where header = sample_header and chunks = sample_chunks
          and s = sample_file and q = sample_image]
    by (auto simp: sample_issued_facts sample_chunks_facts sample_verified)
  have "rx_run sample_mbedtls file_ops [Abort] (r1, f1) =
      (fst (ota_abort file_ops r1 f1), snd (ota_abort file_ops r1 f1))"
    by simp
  from ota_challenge_single_use [OF b _ this] b show ?thesis by auto
qed

lemma sample_lengths: "length sample_nonce = 32" "length sample_header = OTA_HEADER_SIZE"
  by (simp_all add: sample_header_def sample_body_def sample_nonce_def update_magic_def sample_digest_def
      OTA_HEADER_SIZE_def)

text \<open>
  (C14) A header that is not authentic (wrong tag, panel, magic or size), or that answers another
  challenge, is refused without any effect: the receiver, its open challenge and the storage are
  exactly as before, so forged headers cannot use up the operator's challenge.
\<close>

theorem ota_forged_header_no_effect:
  assumes "mbedtls_sizes M" and "length header = OTA_HEADER_SIZE" and "length (rx_nonce r) = 32"
    and "\<not> header_authentic M (rx_key r) (rx_panel r) header \<or> slice 13 32 header \<noteq> rx_nonce r"
  shows "ota_begin M K header r s = (False, r, s)"
  using begin_checks_authentic [OF _ assms(1-3)] assms(4) by (auto simp: ota_begin_def)

theorem ota_forged_header_no_effect_witness:
  "ota_begin sample_mbedtls file_ops (take 140 sample_header @ [sample_header ! 140 + 1]) sample_receiver sample_file =
     (False, sample_receiver, sample_file)"
proof (rule ota_forged_header_no_effect [OF sample_sizes])
  show "length (take 140 sample_header @ [sample_header ! 140 + 1]) = OTA_HEADER_SIZE"
    by (simp add: sample_lengths OTA_HEADER_SIZE_def)
  show nonce: "length (rx_nonce sample_receiver) = 32"
    using ota_new_configured(1) [OF sample_configured(1) sample_identity_facts(1)] by (simp add: rx_wf_def)
  have "rx_nonce sample_receiver = replicate 32 0"
    by (simp add: sample_receiver_def ota_configure_def ota_new_def Let_def split: option.splits)
  moreover have "slice 13 32 (take 140 sample_header @ [sample_header ! 140 + 1]) = sample_nonce"
    by (simp add: slice_def sample_header_def sample_body_def sample_nonce_def update_magic_def sample_digest_def)
  ultimately show "\<not> header_authentic sample_mbedtls (rx_key sample_receiver) (rx_panel sample_receiver)
      (take 140 sample_header @ [sample_header ! 140 + 1]) \<or>
    slice 13 32 (take 140 sample_header @ [sample_header ! 140 + 1]) \<noteq> rx_nonce sample_receiver"
    by (simp add: sample_nonce_def numeral_eq_Suc)
qed

text \<open>
  (C15) The receiver's invariant: from the configured state on, every sequence of calls keeps the
  array sizes, the rule that a challenge needs a configuration, and, while a transfer is open, the
  whole relation between the fields (counter, offset, digests, remaining size, first vectors,
  identity match) and the bytes received and staged so far.
\<close>

theorem ota_receiver_invariant:
  assumes "rx_inv M file_staged r f" and "\<forall>e \<in> set es. op_sizes e"
    and "sha_streams M H" and "mbedtls_sizes M"
  shows "case rx_run M file_ops es (r, f) of (r1, f1) \<Rightarrow> rx_inv M file_staged r1 f1 \<and> rx_key r1 = rx_key r"
proof (cases "rx_run M file_ops es (r, f)")
  case (Pair r1 f1)
  from fs.run_safe [OF assms(1,2) Pair assms(3,4)] show ?thesis
    by (simp only: Pair prod.case same_owner_def simp_thms)
qed

theorem ota_receiver_invariant_witness:
  "case rx_run sample_mbedtls file_ops [Challenge sample_nonce, Begin sample_header, Feed [8, 0], Abort]
       (sample_receiver, sample_file)
   of (r1, f1) \<Rightarrow> rx_inv sample_mbedtls file_staged r1 f1 \<and> rx_key r1 = rx_key sample_receiver"
proof -
  have sizes: "\<forall>e \<in> set [Challenge sample_nonce, Begin sample_header, Feed [8, 0], Abort]. op_sizes e"
    by (simp add: sample_lengths)
  show ?thesis
    by (rule ota_receiver_invariant [OF ota_new_configured(5) [OF sample_configured(1) sample_identity_facts(1)]
        sizes sample_streams sample_sizes])
qed

section \<open>Exactness of the routines\<close>



text \<open>
  The counter increment of the decryption loop, read as a big-endian number, is addition of
  one modulo \<open>2 ^ 128\<close> for every 16-byte counter, carries included.
\<close>

theorem ota_counter_increments:
  assumes "length counter = 16"
  shows "be_nat (incr_from 15 counter) = (be_nat counter + 1) mod 2 ^ 128"
  using incr_from_value [of counter 15] assms by simp

theorem ota_counter_increments_witness:
  "be_nat (incr_from 15 (replicate 16 255)) = (be_nat (replicate 16 255) + 1) mod 2 ^ 128"
  by (rule ota_counter_increments) simp

text \<open>
  (C29) The streaming identity search is exact when the identity's first byte occurs in it
  once: over the whole image it reports the identity found if and only if the identity is a
  contiguous part of the image. (For other identities a reported identity is in the image still,
  but an occurrence may be missed.)
\<close>

theorem ota_identity_search_exact:
  assumes "cstring identity" and "unique_head identity"
  shows "snd (scan_identity identity img 0 False) \<longleftrightarrow> sublist identity img"
proof -
  obtain m found where scan: "scan_identity identity img 0 False = (m, found)"
    by (cases "scan_identity identity img 0 False")
  have pos: "0 < length identity" and nil: "\<not> sublist identity []"
    using assms(1) by (auto simp: cstring_def)
  show ?thesis
    using scan_identity_sound [OF assms(1) scan_from_start(1) pos scan]
      scan_identity_complete [OF assms scan_from_start(2,1) pos _ nil, of img m] scan
    by (cases found) auto
qed

theorem ota_identity_search_exact_witness:
  "snd (scan_identity sample_identity sample_image 0 False) \<longleftrightarrow> sublist sample_identity sample_image"
  by (rule ota_identity_search_exact) (simp_all add: sample_identity_facts)


text \<open>
  The comparison without early exit decides equality of the first \<open>n\<close> bytes.
\<close>

theorem ota_constant_time_comparison:
  assumes "n \<le> length a" and "n \<le> length b"
  shows "ct_equal a b n \<longleftrightarrow> take n a = take n b"
  by (rule ct_equal_iff [OF assms])

theorem ota_constant_time_comparison_witness:
  "ct_equal [1, 2, 3] [1, 2, 4] 2 \<and> \<not> ct_equal [1, 2, 3] [1, 2, 4] 3"
  using ota_constant_time_comparison [of 2 "[1, 2, 3]" "[1, 2, 4]"]
    ota_constant_time_comparison [of 3 "[1, 2, 3]" "[1, 2, 4]"]
  by (simp add: numeral_eq_Suc)

section \<open>Configuration\<close>

lemma fold_or_eq_zero: "foldl (OR) d0 bs = (0 :: u8) \<longleftrightarrow> d0 = 0 \<and> (\<forall>b \<in> set bs. b = 0)"
  by (induction bs arbitrary: d0) (auto simp: or_eq_zero_iff)

text \<open>
  (C31) The key round trip: a receiver configured with the hexadecimal form of any 32-byte key
  that is not all zero, for panel 1 or 2 and a non-empty identity, is configured and holds exactly
  that key; the all-zero key is refused and leaves the receiver unconfigured.
\<close>

theorem ota_configure_roundtrip:
  assumes "length key = 32" and "panel = 1 \<or> panel = 2" and "identity \<noteq> []"
  shows "let (ok, r1) = ota_configure (Some (to_hex key)) panel (Some identity) r in
    ok = (key \<noteq> replicate 32 0) \<and> rx_configured r1 = ok \<and> rx_key r1 = key \<and>
    (ok \<longrightarrow> rx_panel r1 = panel \<and> rx_identity r1 = Some identity)"
proof -
  have zero: "foldl (OR) 0 key = 0 \<longleftrightarrow> key = replicate 32 0"
    using assms(1) by (auto simp: fold_or_eq_zero intro: replicate_eqI)
  show ?thesis
    using assms by (auto simp: ota_configure_def hex_pairs_to_hex zero Let_def)
qed

theorem ota_configure_roundtrip_witness:
  "let (ok, r1) = ota_configure (Some (to_hex (replicate 32 7))) 2 (Some [72]) (ota_new sample_mbedtls) in
    ok = (replicate 32 7 \<noteq> replicate 32 (0 :: u8)) \<and> rx_configured r1 = ok \<and> rx_key r1 = replicate 32 7 \<and>
    (ok \<longrightarrow> rx_panel r1 = 2 \<and> rx_identity r1 = Some [72])"
  by (rule ota_configure_roundtrip) simp_all

section \<open>The storage\<close>

text \<open>
  (C17) Committing the staged file: when \<open>FileSink::finish\<close> reports success, \<open>UPDATE.BIN\<close> is
  exactly what was staged; when it reports failure, \<open>UPDATE.BIN\<close> is the old file or, after a
  failed rename, absent, but never a partial image.
\<close>

theorem file_finish_commits:
  "case file_finish f of (ok, f1) \<Rightarrow>
     if ok then fs_open f \<and> fs_part f \<noteq> None \<and> fs_bin f1 = fs_part f
     else fs_bin f1 = fs_bin f \<or> fs_bin f1 = None"
proof (cases "file_finish f")
  case (Pair ok f1)
  from file_finish_fields [OF Pair] Pair show ?thesis by (auto split: if_splits)
qed

end
