(* ===== verification/Ota_Server.thy ===== *)
theory Ota_Server
  imports File_Sink
begin

text \<open>
  The update server of \<open>firmware/housepanel-giga/ota_update.cpp\<close>: \<open>ota_init\<close> and
  \<open>ota_loop\<close> with the replies and the authenticated status query. The record \<open>server\<close> has the
  file's static variables, the receiver and the file storage among them; each call of
  \<open>ota_loop\<close> gets the answers of the network, the random generator and the updater, and the
  readings of \<open>millis\<close> at its call sites, in a \<open>loop_env\<close>. A step is \<open>None\<close> when it would
  store outside \<open>header\<close>.
\<close>

section \<open>State and environment\<close>

datatype after_reply = After_Close | After_Receive | After_Install

record ota_config =
  cf_key_hex :: string
  cf_panel_id :: bytes
  cf_hostname :: bytes
  cf_firmware :: bytes
  cf_revision :: bytes
  cf_interface :: bytes

definition ota_identity :: "ota_config \<Rightarrow> bytes" where
  "ota_identity cf = bytes_of ''HousePanel identity:'' @ cf_panel_id cf @ bytes_of '':'' @
     cf_hostname cf @ bytes_of '':end''"

record ('a, 'h) server =
  sv_rx :: "('a, 'h) receiver"
  sv_file :: file_sink
  sv_peer :: bool
  sv_header :: bytes
  sv_nonce :: bytes
  sv_boot_id :: bytes
  sv_nonce_hex :: bytes
  sv_header_size :: nat
  sv_ready :: bool
  sv_listening :: bool
  sv_receiving :: bool
  sv_nonce_valid :: bool
  sv_querying :: bool
  sv_connected_at :: u32
  sv_progress_at :: u32
  sv_challenge_at :: u32
  sv_listen_attempt_at :: u32
  sv_reply_buffer :: bytes
  sv_reply_size :: nat
  sv_reply_offset :: nat
  sv_reply_started :: u32
  sv_after_reply :: after_reply
  sv_reason :: bytes

definition server_boot :: "('a, 'h) mbedtls \<Rightarrow> file_sink \<Rightarrow> ('a, 'h) server" where
  "server_boot M f = \<lparr>sv_rx = ota_new M, sv_file = f, sv_peer = False,
     sv_header = replicate OTA_HEADER_SIZE 0, sv_nonce = replicate 32 0, sv_boot_id = [], sv_nonce_hex = [],
     sv_header_size = 0, sv_ready = False, sv_listening = False, sv_receiving = False,
     sv_nonce_valid = False, sv_querying = False, sv_connected_at = 0, sv_progress_at = 0,
     sv_challenge_at = 0, sv_listen_attempt_at = 0, sv_reply_buffer = replicate 640 0,
     sv_reply_size = 0, sv_reply_offset = 0, sv_reply_started = 0, sv_after_reply = After_Close,
     sv_reason = bytes_of ''not_initialized''\<rparr>"

text \<open>A result of \<open>trng_get_bytes\<close>: its return value and the bytes it stored.\<close>

type_synonym trng_result = "int \<times> bytes"

datatype accept_error = Accept_ok | Accept_would_block | Accept_failed
datatype send_result = Send_would_block | Send_failed | Send_count nat
datatype recv_result = Recv_would_block | Recv_failed | Recv_data bytes

record loop_env =
  en_wifi :: bool
  en_t_attempt :: u32
  en_t_listen :: u32
  en_open_ok :: bool
  en_bind_ok :: bool
  en_listen_ok :: bool
  en_accept_error :: accept_error
  en_accept_socket :: bool
  en_t_accept :: u32
  en_t_now :: u32
  en_t_flush :: u32
  en_send :: send_result
  en_t_flushed :: u32
  en_update_ok :: bool
  en_recv :: recv_result
  en_trng :: trng_result
  en_t_challenge :: u32
  en_t_reply :: u32

text \<open>
  What a call does outside: bytes sent to the peer, \<open>updater.update()\<close> with the contents of
  \<open>UPDATE.BIN\<close> it finds, \<open>updater.reset()\<close>.
\<close>

datatype ota_event = Sent bytes | Updated "bytes option" | Restarted

section \<open>Operations\<close>

definition random_bytes :: "trng_result \<Rightarrow> bytes \<Rightarrow> bool \<times> bytes" where
  "random_bytes tr out = (case tr of (result, bs) \<Rightarrow>
     let out1 = take (length out) bs @ drop (length bs) out in
     (result = 0 \<and> length bs = length out \<and> foldl (OR) 0 out1 \<noteq> 0, out1))"

definition close_peer :: "('a, 'h) server \<Rightarrow> ('a, 'h) server" where
  "close_peer s = (case ota_abort file_ops (sv_rx s) (sv_file s) of (r, f) \<Rightarrow>
     s\<lparr>sv_rx := r, sv_file := f, sv_peer := False, sv_receiving := False, sv_querying := False,
       sv_header_size := 0, sv_reply_size := 0, sv_reply_offset := 0\<rparr>)"

definition reply :: "u32 \<Rightarrow> bytes \<Rightarrow> after_reply \<Rightarrow> bytes \<Rightarrow> ('a, 'h) server \<Rightarrow> ('a, 'h) server" where
  "reply now first action extra s =
    (if sv_reply_size s \<noteq> 0 \<or> length first + length extra > 640 then close_peer s
     else s\<lparr>sv_reply_buffer := first @ extra @ drop (length first + length extra) (sv_reply_buffer s),
            sv_reply_size := length first + length extra, sv_reply_offset := 0,
            sv_reply_started := now, sv_after_reply := action\<rparr>)"

definition flush_reply :: "loop_env \<Rightarrow> ('a, 'h) server \<Rightarrow> ota_event list \<times> ('a, 'h) server" where
  "flush_reply en s =
    (if en_t_flush en - sv_reply_started s \<ge> 2000 then ([], close_peer s)
     else case en_send en of Send_would_block \<Rightarrow> ([], s)
     | Send_failed \<Rightarrow> ([], close_peer s)
     | Send_count n \<Rightarrow>
       if n = 0 \<or> n > sv_reply_size s - sv_reply_offset s then ([], close_peer s)
       else
         let sent = [Sent (slice (sv_reply_offset s) n (sv_reply_buffer s))];
             s1 = s\<lparr>sv_reply_offset := sv_reply_offset s + n\<rparr> in
         if sv_reply_offset s1 \<noteq> sv_reply_size s1 then (sent, s1)
         else
           let s2 = s1\<lparr>sv_reply_size := 0, sv_reply_offset := 0, sv_progress_at := en_t_flushed en\<rparr> in
           if sv_after_reply s = After_Receive then (sent, s2)
           else
             let s3 = close_peer s2 in
             if sv_after_reply s = After_Install
             then (sent @ [Updated (fs_bin (sv_file s3))] @ (if en_update_ok en then [Restarted] else []), s3)
             else (sent, s3))"

definition quoted :: "string \<Rightarrow> bytes \<Rightarrow> bytes" where
  "quoted key val = bytes_of [CHR 0x22] @ bytes_of key @ bytes_of [CHR 0x22, CHR 0x3A, CHR 0x22] @ val @
     bytes_of [CHR 0x22]"

definition status_text :: "ota_config \<Rightarrow> ('a, 'h) server \<Rightarrow> bytes" where
  "status_text cf s = take 511
    (bytes_of [CHR 0x7B, CHR 0x22] @ bytes_of ''protocol'' @ bytes_of [CHR 0x22, CHR 0x3A] @ bytes_of ''1,'' @
     quoted ''panel_id'' (cf_panel_id cf) @ bytes_of '','' @ quoted ''hostname'' (cf_hostname cf) @ bytes_of '','' @
     quoted ''firmware'' (cf_firmware cf) @ bytes_of '','' @ quoted ''revision'' (cf_revision cf) @ bytes_of '','' @
     quoted ''interface'' (cf_interface cf) @ bytes_of '','' @ quoted ''identity'' (ota_identity cf) @ bytes_of '','' @
     quoted ''boot_id'' (sv_boot_id s) @ bytes_of '','' @
     bytes_of [CHR 0x22] @ bytes_of ''ready'' @ bytes_of [CHR 0x22, CHR 0x3A] @
       (if sv_nonce_valid s then bytes_of ''true'' else bytes_of ''false'') @ bytes_of '','' @
     quoted ''reason'' (sv_reason s) @ bytes_of '','' @ quoted ''challenge'' (sv_nonce_hex s) @ bytes_of '','' @
     quoted ''request_nonce'' (bytes_of (to_hex (slice 8 32 (sv_header s)))) @ bytes_of [CHR 0x7D, CHR 0x0A])"

text \<open>\<open>status\<close>: a new challenge, then the signed description of the panel.\<close>

definition new_challenge :: "loop_env \<Rightarrow> ('a, 'h) server \<Rightarrow> ('a, 'h) server" where
  "new_challenge en s =
    (case (if sv_ready s then random_bytes (en_trng en) (sv_nonce s) else (False, sv_nonce s)) of
       (True, nonce) \<Rightarrow> s\<lparr>sv_nonce := nonce, sv_nonce_valid := True, sv_nonce_hex := bytes_of (to_hex nonce),
            sv_rx := ota_challenge nonce (sv_rx s), sv_challenge_at := en_t_challenge en\<rparr>
     | (False, nonce) \<Rightarrow> s\<lparr>sv_nonce := nonce, sv_nonce_valid := False, sv_nonce_hex := []\<rparr>)"

definition ota_status :: "('a, 'h) mbedtls \<Rightarrow> ota_config \<Rightarrow> loop_env \<Rightarrow> ('a, 'h) server \<Rightarrow> ('a, 'h) server" where
  "ota_status M cf en s =
    (let s1 = new_challenge en s; response = status_text cf s1 in
     case ota_sign M response (sv_rx s1) of
       Some tag \<Rightarrow> reply (en_t_reply en) response After_Close (bytes_of (to_hex tag) @ [10]) s1
     | None \<Rightarrow> close_peer s1)"

text \<open>The bytes of a literal without its quotes written out.\<close>

definition ok_false :: bytes where
  "ok_false = bytes_of [CHR 0x7B, CHR 0x22] @ bytes_of ''ok'' @ bytes_of [CHR 0x22, CHR 0x3A] @
     bytes_of ''false'' @ bytes_of [CHR 0x7D, CHR 0x0A]"

definition ok_true :: bytes where
  "ok_true = bytes_of [CHR 0x7B, CHR 0x22] @ bytes_of ''ok'' @ bytes_of [CHR 0x22, CHR 0x3A] @
     bytes_of ''true'' @ bytes_of [CHR 0x7D, CHR 0x0A]"

definition accepted_true :: bytes where
  "accepted_true = bytes_of [CHR 0x7B, CHR 0x22] @ bytes_of ''accepted'' @ bytes_of [CHR 0x22, CHR 0x3A] @
     bytes_of ''true'' @ bytes_of [CHR 0x7D, CHR 0x0A]"

definition query_magic :: bytes where
  "query_magic = bytes_of ''HPOTA1S'' @ [10]"

text \<open>A complete header; \<open>body_too\<close> says that body bytes arrived with it.\<close>

definition header_complete ::
  "('a, 'h) mbedtls \<Rightarrow> loop_env \<Rightarrow> bool \<Rightarrow> ('a, 'h) server \<Rightarrow> ('a, 'h) server" where
  "header_complete M en body_too s =
    (if \<not> sv_nonce_valid s \<or> en_t_now en - sv_challenge_at s > 60000
     then reply (en_t_reply en) ok_false After_Close [] s
     else case ota_begin M file_ops (sv_header s) (sv_rx s) (sv_file s) of (ok, r, f) \<Rightarrow>
       let s1 = s\<lparr>sv_rx := r, sv_file := f\<rparr> in
       if \<not> ok then reply (en_t_reply en) ok_false After_Close [] s1
       else let s2 = s1\<lparr>sv_nonce_valid := False, sv_receiving := True\<rparr> in
         if body_too then close_peer s2 else reply (en_t_reply en) accepted_true After_Receive [] s2)"

text \<open>
  One byte of the header loop: the flag says that the call returns. \<open>None\<close> would be a store
  past the end of \<open>header\<close>.
\<close>

definition header_byte ::
  "('a, 'h) mbedtls \<Rightarrow> ota_config \<Rightarrow> loop_env \<Rightarrow> bool \<Rightarrow> u8 \<Rightarrow> ('a, 'h) server \<Rightarrow> (bool \<times> ('a, 'h) server) option" where
  "header_byte M cf en body_too b s =
    (if sv_header_size s \<ge> length (sv_header s) then None
     else
       let s1 = s\<lparr>sv_header := (sv_header s)[sv_header_size s := b], sv_header_size := sv_header_size s + 1\<rparr>;
           s2 = (if sv_header_size s1 = 8 then s1\<lparr>sv_querying := (take 8 (sv_header s1) = query_magic)\<rparr> else s1) in
       if sv_header_size s2 = 8 \<and> \<not> sv_querying s2 \<and> take 8 (sv_header s2) \<noteq> update_magic
       then Some (True, close_peer s2)
       else if sv_querying s2 \<and> sv_header_size s2 = 40 then Some (True, ota_status M cf en s2)
       else if sv_header_size s2 = OTA_HEADER_SIZE then Some (True, header_complete M en body_too s2)
       else Some (False, s2))"

fun header_loop ::
  "('a, 'h) mbedtls \<Rightarrow> ota_config \<Rightarrow> loop_env \<Rightarrow> bytes \<Rightarrow> ('a, 'h) server \<Rightarrow>
     (bool \<times> bytes \<times> ('a, 'h) server) option" where
  "header_loop M cf en [] s = Some (False, [], s)"
| "header_loop M cf en (b # bs) s =
    (if sv_receiving s then Some (False, b # bs, s)
     else case header_byte M cf en (bs \<noteq> []) b s of None \<Rightarrow> None
     | Some (True, s1) \<Rightarrow> Some (True, bs, s1)
     | Some (False, s1) \<Rightarrow> header_loop M cf en bs s1)"

definition body_chunk ::
  "('a, 'h) mbedtls \<Rightarrow> loop_env \<Rightarrow> bytes \<Rightarrow> ('a, 'h) server \<Rightarrow> ('a, 'h) server" where
  "body_chunk M en data s =
    (case ota_feed M file_ops data (sv_rx s) (sv_file s) of (ok, r, f) \<Rightarrow>
     let s1 = s\<lparr>sv_rx := r, sv_file := f\<rparr> in
     if \<not> ok then reply (en_t_reply en) ok_false After_Close [] s1
     else let s2 = s1\<lparr>sv_progress_at := en_t_now en\<rparr> in
       if rx_complete r then reply (en_t_reply en) ok_true After_Install [] s2 else s2)"

definition receive_chunk ::
  "('a, 'h) mbedtls \<Rightarrow> ota_config \<Rightarrow> loop_env \<Rightarrow> bytes \<Rightarrow> ('a, 'h) server \<Rightarrow> ('a, 'h) server option" where
  "receive_chunk M cf en data s =
    (case header_loop M cf en data (s\<lparr>sv_progress_at := en_t_now en\<rparr>) of None \<Rightarrow> None
     | Some (True, _, s1) \<Rightarrow> Some s1
     | Some (False, rest, s1) \<Rightarrow> Some (if sv_receiving s1 \<and> rest \<noteq> [] then body_chunk M en rest s1 else s1))"

text \<open>The part of \<open>ota_loop\<close> from line 209 on, with a peer.\<close>

definition serve_peer ::
  "('a, 'h) mbedtls \<Rightarrow> ota_config \<Rightarrow> loop_env \<Rightarrow> ('a, 'h) server \<Rightarrow> (ota_event list \<times> ('a, 'h) server) option" where
  "serve_peer M cf en s =
    (if en_t_now en - sv_connected_at s > 180000 \<or> en_t_now en - sv_progress_at s > 5000
     then Some ([], close_peer s)
     else if sv_reply_size s \<noteq> 0 then Some (flush_reply en s)
     else case en_recv en of Recv_would_block \<Rightarrow> Some ([], s)
     | Recv_failed \<Rightarrow> Some ([], close_peer s)
     | Recv_data data \<Rightarrow>
         if data = [] then Some ([], close_peer s)
         else map_option (Pair []) (receive_chunk M cf en data s))"

text \<open>Opening the listening socket: whether the call goes on, and the state.\<close>

definition listen_step :: "loop_env \<Rightarrow> ('a, 'h) server \<Rightarrow> bool \<times> ('a, 'h) server" where
  "listen_step en s =
    (if sv_listening s then (True, s)
     else if sv_listen_attempt_at s \<noteq> 0 \<and> en_t_attempt en - sv_listen_attempt_at s < 5000 then (False, s)
     else let s1 = s\<lparr>sv_listen_attempt_at := en_t_listen en\<rparr> in
       if \<not> en_open_ok en then (False, s1)
       else if \<not> en_bind_ok en \<or> \<not> en_listen_ok en then (False, s1)
       else (True, s1\<lparr>sv_listening := True\<rparr>))"

definition accept_step :: "loop_env \<Rightarrow> ('a, 'h) server \<Rightarrow> bool \<times> ('a, 'h) server" where
  "accept_step en s =
    (if sv_peer s then (True, s)
     else let s1 = s\<lparr>sv_peer := en_accept_socket en\<rparr> in
       if en_accept_error en \<noteq> Accept_ok \<or> \<not> sv_peer s1 then
         (let s2 = close_peer s1 in
          (False, if en_accept_error en \<noteq> Accept_would_block then s2\<lparr>sv_listening := False\<rparr> else s2))
       else (True, s1\<lparr>sv_connected_at := en_t_accept en, sv_progress_at := en_t_accept en\<rparr>))"

definition ota_loop ::
  "('a, 'h) mbedtls \<Rightarrow> ota_config \<Rightarrow> loop_env \<Rightarrow> ('a, 'h) server \<Rightarrow> (ota_event list \<times> ('a, 'h) server) option" where
  "ota_loop M cf en s =
    (if \<not> sv_ready s then Some ([], s)
     else if \<not> en_wifi en then
       Some ([], (if sv_peer s then close_peer s else s)\<lparr>sv_listening := False\<rparr>)
     else case listen_step en s of (False, s1) \<Rightarrow> Some ([], s1)
     | (True, s1) \<Rightarrow>
       (case accept_step en s1 of (False, s2) \<Rightarrow> Some ([], s2)
        | (True, s2) \<Rightarrow> serve_peer M cf en s2))"

section \<open>Start-up\<close>

record boot_env =
  be_trng :: trng_result
  be_ota_capable :: bool
  be_partition_init :: int
  be_partition_start :: u64
  be_partition_stop :: u64
  be_partition_type :: u8
  be_mount_ok :: bool

definition panel_number :: "bytes \<Rightarrow> u8" where
  "panel_number panel_id =
    (if panel_id = bytes_of ''primary'' then 1 else if panel_id = bytes_of ''panel-2'' then 2 else 0)"

definition layout_ok :: "boot_env \<Rightarrow> bool" where
  "layout_ok be \<longleftrightarrow> be_partition_start be = 1024 * 1024 \<and> be_partition_stop be = 6 * 1024 * 1024 \<and>
     be_partition_type be = 0x0b"

definition ota_init ::
  "('a, 'h) mbedtls \<Rightarrow> ota_config \<Rightarrow> boot_env \<Rightarrow> ('a, 'h) server \<Rightarrow> ('a, 'h) server" where
  "ota_init M cf be s =
    (case ota_configure (Some (cf_key_hex cf)) (panel_number (cf_panel_id cf)) (Some (ota_identity cf)) (sv_rx s) of
       (False, r) \<Rightarrow> s\<lparr>sv_rx := r, sv_reason := bytes_of ''key_not_provisioned''\<rparr>
     | (True, r) \<Rightarrow>
       let s1 = s\<lparr>sv_rx := r\<rparr> in
       case random_bytes (be_trng be) (replicate 16 0) of
         (False, _) \<Rightarrow> s1\<lparr>sv_reason := bytes_of ''entropy_unavailable''\<rparr>
       | (True, boot) \<Rightarrow>
         let s2 = s1\<lparr>sv_boot_id := bytes_of (to_hex boot)\<rparr> in
         if \<not> be_ota_capable be then s2\<lparr>sv_reason := bytes_of ''bootloader_not_ota_capable''\<rparr>
         else if be_partition_init be \<noteq> 0 then s2\<lparr>sv_reason := bytes_of ''partition_not_ready''\<rparr>
         else if \<not> layout_ok be then s2\<lparr>sv_reason := bytes_of ''partition_layout_mismatch''\<rparr>
         else if \<not> be_mount_ok be then s2\<lparr>sv_reason := bytes_of ''storage_not_ready''\<rparr>
         else s2\<lparr>sv_ready := True, sv_reason := bytes_of ''ready''\<rparr>)"

text \<open>Successive calls of \<open>ota_loop\<close>, with all their events.\<close>

fun server_run ::
  "('a, 'h) mbedtls \<Rightarrow> ota_config \<Rightarrow> loop_env list \<Rightarrow> ('a, 'h) server \<Rightarrow> (ota_event list \<times> ('a, 'h) server) option" where
  "server_run M cf [] s = Some ([], s)"
| "server_run M cf (en # ens) s =
    (case ota_loop M cf en s of None \<Rightarrow> None | Some (evs, s1) \<Rightarrow>
       map_option (\<lambda>(evs', s2). (evs @ evs', s2)) (server_run M cf ens s1))"

end
