(* ===== verification/Ota_Server_Safety.thy ===== *)
theory Ota_Server_Safety
  imports Ota_Server
begin

text \<open>
  The invariant of the update server and its preservation by every operation: array bounds, the
  reply buffer, the receiver's own invariant, and the rule that the reply after which the
  firmware is switched is only ever pending over a verified \<open>UPDATE.BIN\<close>.
\<close>

section \<open>Facts of the receiver\<close>

lemma ota_begin_complete:
  assumes "ota_begin M K header r s = (ok, r1, s1)" and "rx_sink r \<longrightarrow> \<not> rx_complete r"
  shows "rx_sink r1 \<longrightarrow> \<not> rx_complete r1"
proof (cases "begin_checks M header r")
  case False
  with assms show ?thesis by (simp add: ota_begin_def)
next
  case True
  then have nosink: "\<not> rx_sink r" by (auto simp: begin_checks_def split: if_splits)
  obtain b r2 where bs: "begin_setup M header (r\<lparr>rx_issued := False\<rparr>) = (b, r2)"
    by (cases "begin_setup M header (r\<lparr>rx_issued := False\<rparr>)")
  have "rx_sink r2 \<longrightarrow> \<not> rx_complete r2"
    using bs nosink by (auto simp: begin_setup_def Let_def split: option.splits)
  with assms(1) True bs show ?thesis
    by (auto simp: ota_begin_def split: bool.splits prod.splits dest!: ota_fail_frame)
qed

lemma ota_feed_complete:
  assumes "ota_feed M K data r s = (ok, r1, s1)" and "rx_sink r \<longrightarrow> \<not> rx_complete r"
  shows "rx_sink r1 \<longrightarrow> \<not> rx_complete r1"
proof (cases "\<not> rx_sink r \<or> data = [] \<or> length data > unat (rx_remaining r)")
  case True
  with assms show ?thesis by (auto simp: ota_feed_def dest!: ota_fail_frame)
next
  case False
  obtain q r2 where fd: "feed_decode M data r = (q, r2)" by (cases "feed_decode M data r")
  note frame = feed_decode_frame [OF fd]
  have finish: "ota_finish M K r' s' = (ok, r1, s1) \<Longrightarrow> \<not> rx_sink r1" for r' s'
    by (auto simp: ota_finish_def split: option.splits if_splits prod.splits bool.splits
        dest!: ota_fail_frame)
  show ?thesis
    using assms False fd frame
    by (auto simp: ota_feed_def Let_def split: option.splits if_splits prod.splits bool.splits
        dest!: ota_fail_frame finish)
qed

text \<open>A chunk that completes the transfer has installed a verified image.\<close>

lemma ota_feed_verified:
  assumes "ota_feed M file_ops data r f = (True, r1, f1)" and "rx_complete r1"
    and "rx_inv M file_staged r f" and "rx_sink r \<longrightarrow> \<not> rx_complete r"
    and "sha_streams M H" and "mbedtls_sizes M"
  shows "\<exists>identity header wire p. rx_identity r = Some identity \<and>
    verified_image M H (rx_key r) (rx_panel r) identity header wire p \<and> fs_bin f1 = Some p"
proof -
  have sink: "rx_sink r" using assms(1) by (auto simp: ota_feed_def ota_fail_def split: if_splits)
  then obtain header wire p where "transfer M header wire p r" "file_staged f = Some p"
    using assms(3) by (auto simp: rx_inv_def)
  moreover have "length (rx_vectors r) = 8" using assms(3) by (simp add: rx_inv_def rx_wf_def)
  ultimately show ?thesis
    using fs.feed_transfer [OF assms(1) _ _ _ assms(5,6)] ota_feed_complete [OF assms(1,4)] assms(2)
    by (metis (no_types, lifting))
qed

section \<open>The invariant\<close>

text \<open>The panel's key, number and identity stay fixed.\<close>

type_synonym owner = "bytes \<times> u8 \<times> bytes"

definition owned_by :: "owner \<Rightarrow> ('a, 'h) receiver \<Rightarrow> bool" where
  "owned_by own r \<longleftrightarrow> (rx_key r, rx_panel r) = (fst own, fst (snd own)) \<and> rx_identity r = Some (snd (snd own))"

definition holds_verified ::
  "('a, 'h) mbedtls \<Rightarrow> (bytes \<Rightarrow> bytes) \<Rightarrow> owner \<Rightarrow> bytes option \<Rightarrow> bool" where
  "holds_verified M H own bin \<longleftrightarrow>
     (case own of (key, panel, identity) \<Rightarrow>
        \<exists>header wire p. verified_image M H key panel identity header wire p \<and> bin = Some p)"

definition server_core :: "('a, 'h) mbedtls \<Rightarrow> owner \<Rightarrow> ('a, 'h) server \<Rightarrow> bool" where
  "server_core M own s \<longleftrightarrow>
     length (sv_header s) = OTA_HEADER_SIZE \<and> length (sv_nonce s) = 32 \<and> length (sv_reply_buffer s) = 640 \<and>
     rx_inv M file_staged (sv_rx s) (sv_file s) \<and> (rx_sink (sv_rx s) \<longrightarrow> \<not> rx_complete (sv_rx s)) \<and>
     owned_by own (sv_rx s)"

definition server_inv :: "('a, 'h) mbedtls \<Rightarrow> (bytes \<Rightarrow> bytes) \<Rightarrow> owner \<Rightarrow> ('a, 'h) server \<Rightarrow> bool" where
  "server_inv M H own s \<longleftrightarrow> server_core M own s \<and>
     (sv_reply_size s \<noteq> 0 \<longrightarrow> sv_reply_size s \<le> 640 \<and> sv_reply_offset s < sv_reply_size s) \<and>
     (sv_reply_size s = 0 \<and> \<not> sv_receiving s \<longrightarrow>
        sv_header_size s < OTA_HEADER_SIZE \<and> (sv_querying s \<longrightarrow> sv_header_size s < 40)) \<and>
     (\<not> sv_peer s \<longrightarrow> \<not> sv_receiving s \<and> \<not> sv_querying s \<and> sv_reply_size s = 0 \<and> sv_header_size s = 0 \<and>
        \<not> rx_sink (sv_rx s)) \<and>
     (sv_reply_size s \<noteq> 0 \<and> sv_after_reply s = After_Receive \<longrightarrow> sv_receiving s) \<and>
     (sv_reply_size s \<noteq> 0 \<and> sv_after_reply s = After_Install \<longrightarrow> holds_verified M H own (fs_bin (sv_file s)))"

lemma server_inv_core: "server_inv M H own s \<Longrightarrow> server_core M own s"
  by (simp add: server_inv_def)

text \<open>The receiver's steps inside the server.\<close>

lemma core_step:
  assumes "server_core M own s" and "rx_step M file_ops e (sv_rx s, sv_file s) = (r, f)" and "op_sizes e"
    and "rx_sink r \<longrightarrow> \<not> rx_complete r" and "sha_streams M H" and "mbedtls_sizes M"
  shows "server_core M own (s\<lparr>sv_rx := r, sv_file := f\<rparr>)"
  using fs.step_safe [OF _ assms(3,2,5,6)] assms(1,4)
  by (simp add: server_core_def owned_by_def same_owner_def)

lemma close_peer_inv:
  assumes "server_core M own s" and "sha_streams M H" and "mbedtls_sizes M"
  shows "server_inv M H own (close_peer s) \<and> \<not> sv_peer (close_peer s) \<and>
    fs_bin (sv_file (close_peer s)) = fs_bin (sv_file s)"
proof -
  obtain r f where a: "ota_abort file_ops (sv_rx s) (sv_file s) = (r, f)"
    by (cases "ota_abort file_ops (sv_rx s) (sv_file s)")
  note frame = ota_abort_frame [OF a]
  have "server_core M own (s\<lparr>sv_rx := r, sv_file := f\<rparr>)"
    by (rule core_step [OF assms(1), of Abort]) (use a frame assms in simp_all)
  then show ?thesis
    using frame fs.abort_installed [OF a]
    by (simp add: server_inv_def server_core_def close_peer_def a OTA_HEADER_SIZE_def)
qed

lemma reply_inv:
  assumes "server_core M own s" and "sv_peer s" and "t @ extra \<noteq> []"
    and "action = After_Receive \<longrightarrow> sv_receiving s"
    and "action = After_Install \<longrightarrow> holds_verified M H own (fs_bin (sv_file s))"
    and "sha_streams M H" and "mbedtls_sizes M"
  shows "server_inv M H own (reply now t action extra s)"
proof (cases "sv_reply_size s \<noteq> 0 \<or> length t + length extra > 640")
  case True
  with close_peer_inv [OF assms(1,6,7)] show ?thesis by (simp add: reply_def)
next
  case False
  moreover have "length t + length extra \<noteq> 0" using assms(3) by simp
  ultimately show ?thesis
    using assms(1,2,4,5) by (auto simp: reply_def server_inv_def server_core_def)
qed

section \<open>Replies and the status query\<close>

lemma flush_reply_inv:
  assumes "server_inv M H own s" and "sv_peer s" and "sv_reply_size s \<noteq> 0"
    and "sha_streams M H" and "mbedtls_sizes M" and "flush_reply en s = (evs, s1)"
  shows "server_inv M H own s1 \<and> (\<forall>b. Updated b \<in> set evs \<longrightarrow> holds_verified M H own b)"
proof -
  have close: "server_inv M H own (close_peer s') \<and> fs_bin (sv_file (close_peer s')) = fs_bin (sv_file s')"
    if "server_core M own s'" for s'
    using close_peer_inv [OF that assms(4,5)] by simp
  have core: "server_core M own s" by (rule server_inv_core [OF assms(1)])
  define k where "k n = s\<lparr>sv_reply_offset := sv_reply_offset s + n\<rparr>" for n
  define e where "e = s\<lparr>sv_reply_size := 0, sv_reply_offset := 0, sv_progress_at := en_t_flushed en\<rparr>"
  have core_e: "server_core M own e"
    using core by (simp add: server_core_def e_def)
  have file_e: "sv_file e = sv_file s" by (simp add: e_def)
  have keep: "server_inv M H own (k n)" if "n \<le> sv_reply_size s - sv_reply_offset s" "sv_reply_offset s + n \<noteq> sv_reply_size s" for n
    using assms(1,3) that by (auto simp: server_inv_def server_core_def k_def)
  have receive: "server_inv M H own e" if "sv_after_reply s = After_Receive"
    using assms(1-3) that core_e by (auto simp: server_inv_def e_def)
  have install: "holds_verified M H own (fs_bin (sv_file s))" if "sv_after_reply s = After_Install"
    using assms(1,3) that by (simp add: server_inv_def)
  show ?thesis
  proof (cases "2000 \<le> en_t_flush en - sv_reply_started s")
    case True
    with assms(6) close [OF core] show ?thesis by (auto simp: flush_reply_def)
  next
    case fresh: False
    show ?thesis
    proof (cases "en_send en")
      case Send_would_block
      with fresh assms(1,6) show ?thesis by (auto simp: flush_reply_def)
    next
      case Send_failed
      with fresh assms(6) close [OF core] show ?thesis by (auto simp: flush_reply_def)
    next
      case (Send_count n)
      show ?thesis
      proof (cases "n = 0 \<or> n > sv_reply_size s - sv_reply_offset s")
        case True
        with fresh Send_count assms(6) close [OF core] show ?thesis by (auto simp: flush_reply_def)
      next
        case False
        then have flush: "flush_reply en s = (let sent = [Sent (slice (sv_reply_offset s) n (sv_reply_buffer s))] in
            if sv_reply_offset s + n \<noteq> sv_reply_size s then (sent, k n)
            else if sv_after_reply s = After_Receive then (sent, e)
            else if sv_after_reply s = After_Install
              then (sent @ [Updated (fs_bin (sv_file (close_peer e)))] @ (if en_update_ok en then [Restarted] else []),
                    close_peer e)
            else (sent, close_peer e))"
          using fresh Send_count by (simp add: flush_reply_def k_def e_def Let_def)
        show ?thesis
          using flush [symmetric] assms(6) keep [of n] receive install close [OF core_e] False file_e
          by (auto simp: Let_def split: if_splits)
      qed
    qed
  qed
qed

lemma new_challenge_core:
  assumes "server_core M own s" and "sha_streams M H" and "mbedtls_sizes M"
  shows "server_core M own (new_challenge en s)"
proof -
  obtain ok nonce where draw: "(if sv_ready s then random_bytes (en_trng en) (sv_nonce s) else (False, sv_nonce s)) = (ok, nonce)"
    by (cases "if sv_ready s then random_bytes (en_trng en) (sv_nonce s) else (False, sv_nonce s)")
  have len: "length nonce = 32"
    using draw assms(1) by (auto simp: random_bytes_def server_core_def Let_def split: if_splits prod.splits)
  have "server_core M own (s\<lparr>sv_rx := ota_challenge nonce (sv_rx s), sv_file := sv_file s\<rparr>)" if ok
    by (rule core_step [OF assms(1), of "Challenge nonce"])
      (use len that assms in \<open>simp_all add: server_core_def frame_simps\<close>, simp add: ota_challenge_def)
  with draw len assms(1) show ?thesis
    by (cases ok) (simp_all add: new_challenge_def server_core_def)
qed

lemma new_challenge_frame [frame_simps]:
  "sv_peer (new_challenge en s) = sv_peer s" "sv_file (new_challenge en s) = sv_file s"
  "sv_receiving (new_challenge en s) = sv_receiving s"
  by (auto simp: new_challenge_def split: prod.splits bool.splits)

lemma status_inv:
  assumes "server_core M own s" and "sv_peer s" and "sha_streams M H" and "mbedtls_sizes M"
  shows "server_inv M H own (ota_status M cf en s)"
proof -
  note core = new_challenge_core [OF assms(1,3,4), of en]
  show ?thesis
    using reply_inv [OF core _ _ _ _ assms(3,4)] close_peer_inv [OF core assms(3,4)] assms(2)
    by (auto simp: ota_status_def Let_def frame_simps split: option.splits)
qed

section \<open>The header and the body\<close>

lemma server_step:
  assumes "server_core M own s" and "rx_step M file_ops e (sv_rx s, sv_file s) = (r, f)"
    and "e = Begin header \<and> ota_begin M file_ops header (sv_rx s) (sv_file s) = (ok, r, f) \<and> length header = OTA_HEADER_SIZE \<or>
      e = Feed data \<and> ota_feed M file_ops data (sv_rx s) (sv_file s) = (ok, r, f)"
    and "sha_streams M H" and "mbedtls_sizes M"
  shows "server_core M own (s\<lparr>sv_rx := r, sv_file := f\<rparr>)"
proof (rule core_step [OF assms(1,2) _ _ assms(4,5)])
  show "op_sizes e" using assms(3) by auto
  have "rx_sink (sv_rx s) \<longrightarrow> \<not> rx_complete (sv_rx s)" using assms(1) by (simp add: server_core_def)
  with assms(3) show "rx_sink r \<longrightarrow> \<not> rx_complete r"
    using ota_begin_complete [of M file_ops header "sv_rx s" "sv_file s" ok r f]
      ota_feed_complete [of M file_ops data "sv_rx s" "sv_file s" ok r f] by auto
qed

lemma header_complete_inv:
  assumes "server_core M own s" and "sv_peer s" and "sha_streams M H" and "mbedtls_sizes M"
  shows "server_inv M H own (header_complete M en body_too s)"
proof -
  have texts: "ok_false \<noteq> []" "accepted_true \<noteq> []" by (simp_all add: ok_false_def accepted_true_def bytes_of_def)
  obtain ok r f where b: "ota_begin M file_ops (sv_header s) (sv_rx s) (sv_file s) = (ok, r, f)"
    by (cases "ota_begin M file_ops (sv_header s) (sv_rx s) (sv_file s)")
  define s1 where "s1 = s\<lparr>sv_rx := r, sv_file := f\<rparr>"
  define s2 where "s2 = s1\<lparr>sv_nonce_valid := False, sv_receiving := True\<rparr>"
  have core1: "server_core M own s1"
    unfolding s1_def
    by (rule server_step [OF assms(1), of "Begin (sv_header s)" _ _ "sv_header s" ok "[]"])
      (use b assms in \<open>simp_all add: server_core_def\<close>)
  then have core2: "server_core M own s2" by (simp add: server_core_def s2_def)
  have peer: "sv_peer s1" "sv_peer s2" "sv_receiving s2" using assms(2) by (simp_all add: s1_def s2_def)
  have "header_complete M en body_too s =
    (if \<not> sv_nonce_valid s \<or> en_t_now en - sv_challenge_at s > 60000 then reply (en_t_reply en) ok_false After_Close [] s
     else if \<not> ok then reply (en_t_reply en) ok_false After_Close [] s1
     else if body_too then close_peer s2 else reply (en_t_reply en) accepted_true After_Receive [] s2)"
    by (simp add: header_complete_def b s1_def s2_def Let_def)
  moreover have "server_inv M H own (reply (en_t_reply en) ok_false After_Close [] s)"
    by (rule reply_inv [OF assms(1,2) _ _ _ assms(3,4)]) (simp_all add: texts)
  moreover have "server_inv M H own (reply (en_t_reply en) ok_false After_Close [] s1)"
    by (rule reply_inv [OF core1 peer(1) _ _ _ assms(3,4)]) (simp_all add: texts)
  moreover have "server_inv M H own (reply (en_t_reply en) accepted_true After_Receive [] s2)"
    by (rule reply_inv [OF core2 peer(2) _ _ _ assms(3,4)]) (simp_all add: texts peer)
  ultimately show ?thesis
    using close_peer_inv [OF core2 assms(3,4)] by simp
qed

text \<open>While a header is being read: no reply is pending and there is room for a byte.\<close>

definition reading :: "('a, 'h) server \<Rightarrow> bool" where
  "reading s \<longleftrightarrow> sv_peer s \<and> sv_reply_size s = 0 \<and> \<not> sv_receiving s"

lemma header_byte_inv:
  assumes "server_inv M H own s" and "reading s" and "sha_streams M H" and "mbedtls_sizes M"
  shows "\<exists>stop s1. header_byte M cf en body_too b s = Some (stop, s1) \<and> server_inv M H own s1 \<and>
    (\<not> stop \<longrightarrow> reading s1)"
proof -
  define s1 where "s1 = s\<lparr>sv_header := (sv_header s)[sv_header_size s := b], sv_header_size := sv_header_size s + 1\<rparr>"
  define s2 where "s2 = (if sv_header_size s1 = 8 then s1\<lparr>sv_querying := (take 8 (sv_header s1) = query_magic)\<rparr> else s1)"
  have room: "sv_header_size s < OTA_HEADER_SIZE" "sv_querying s \<longrightarrow> sv_header_size s < 40"
    "length (sv_header s) = OTA_HEADER_SIZE"
    using assms(1,2) by (auto simp: server_inv_def reading_def server_core_def)
  have core: "server_core M own s2" and peer: "sv_peer s2" "sv_reply_size s2 = 0" "\<not> sv_receiving s2"
    using assms(1,2) by (simp_all add: server_inv_def server_core_def reading_def s1_def s2_def)
  have eq: "header_byte M cf en body_too b s =
       (if sv_header_size s2 = 8 \<and> \<not> sv_querying s2 \<and> take 8 (sv_header s2) \<noteq> update_magic
        then Some (True, close_peer s2)
        else if sv_querying s2 \<and> sv_header_size s2 = 40 then Some (True, ota_status M cf en s2)
        else if sv_header_size s2 = OTA_HEADER_SIZE then Some (True, header_complete M en body_too s2)
        else Some (False, s2))"
    using room unfolding header_byte_def s1_def [symmetric] Let_def s2_def [symmetric] by simp
  have size: "sv_header_size s2 \<le> OTA_HEADER_SIZE" "sv_querying s2 \<longrightarrow> sv_header_size s2 \<le> 40"
    using room by (auto simp: s1_def s2_def)
  have "server_inv M H own s2" if "sv_header_size s2 \<noteq> OTA_HEADER_SIZE" "sv_querying s2 \<longrightarrow> sv_header_size s2 \<noteq> 40"
    using that size core peer by (auto simp: server_inv_def)
  then show ?thesis
    unfolding eq reading_def
    using close_peer_inv [OF core assms(3,4)] status_inv [OF core peer(1) assms(3,4)]
      header_complete_inv [OF core peer(1) assms(3,4)] peer
    by (auto split: if_splits)
qed

lemma header_loop_inv:
  assumes "server_inv M H own s" and "sv_peer s" and "sv_reply_size s = 0"
    and "sha_streams M H" and "mbedtls_sizes M"
  shows "\<exists>stop rest s1. header_loop M cf en bs s = Some (stop, rest, s1) \<and> server_inv M H own s1 \<and>
    (\<not> stop \<longrightarrow> sv_peer s1 \<and> sv_reply_size s1 = 0)"
  using assms(1-3)
proof (induction bs arbitrary: s)
  case (Cons b bs)
  show ?case
  proof (cases "sv_receiving s")
    case True
    with Cons.prems show ?thesis by (simp add: exI [of _ False])
  next
    case False
    then have "reading s" using Cons.prems by (simp add: reading_def)
    from header_byte_inv [OF Cons.prems(1) this assms(4,5)]
    obtain stop s1 where hb: "header_byte M cf en (bs \<noteq> []) b s = Some (stop, s1)"
      "server_inv M H own s1" "\<not> stop \<longrightarrow> reading s1"
      by blast
    show ?thesis
    proof (cases stop)
      case True
      with False hb show ?thesis by (intro exI [of _ True] exI [of _ bs] exI [of _ s1]) simp
    next
      case nostop: False
      with Cons.IH [OF hb(2)] hb(3) False hb(1) show ?thesis by (simp add: reading_def)
    qed
  qed
qed (simp add: exI [of _ False])

lemma body_chunk_inv:
  assumes "server_inv M H own s" and "sv_peer s" and "sv_reply_size s = 0" and "sv_receiving s"
    and "sha_streams M H" and "mbedtls_sizes M"
  shows "server_inv M H own (body_chunk M en data s)"
proof -
  have texts: "ok_false \<noteq> []" "ok_true \<noteq> []" by (simp_all add: ok_false_def ok_true_def bytes_of_def)
  note core = server_inv_core [OF assms(1)]
  obtain ok r f where fd: "ota_feed M file_ops data (sv_rx s) (sv_file s) = (ok, r, f)"
    by (cases "ota_feed M file_ops data (sv_rx s) (sv_file s)")
  define s1 where "s1 = s\<lparr>sv_rx := r, sv_file := f\<rparr>"
  define s2 where "s2 = s1\<lparr>sv_progress_at := en_t_now en\<rparr>"
  have core1: "server_core M own s1"
    unfolding s1_def
    by (rule server_step [OF core, of "Feed data" _ _ "[]" ok data]) (use fd assms in simp_all)
  then have core2: "server_core M own s2" by (simp add: server_core_def s2_def)
  have peer: "sv_peer s1" "sv_peer s2" using assms(2) by (simp_all add: s1_def s2_def)
  have eq: "body_chunk M en data s =
    (if \<not> ok then reply (en_t_reply en) ok_false After_Close [] s1
     else if rx_complete r then reply (en_t_reply en) ok_true After_Install [] s2 else s2)"
    by (simp add: body_chunk_def fd s1_def s2_def Let_def)
  have failed: "server_inv M H own (reply (en_t_reply en) ok_false After_Close [] s1)"
    by (rule reply_inv [OF core1 peer(1) _ _ _ assms(5,6)]) (simp_all add: texts)
  have done_: "server_inv M H own (reply (en_t_reply en) ok_true After_Install [] s2)" if "ok" "rx_complete r"
  proof (rule reply_inv [OF core2 peer(2) _ _ _ assms(5,6)])
    have "\<exists>identity header wire p. rx_identity (sv_rx s) = Some identity \<and>
      verified_image M H (rx_key (sv_rx s)) (rx_panel (sv_rx s)) identity header wire p \<and> fs_bin f = Some p"
      by (rule ota_feed_verified [OF _ that(2) _ _ assms(5,6)])
        (use fd that(1) core in \<open>auto simp: server_core_def\<close>)
    then show "After_Install = After_Install \<longrightarrow> holds_verified M H own (fs_bin (sv_file s2))"
      using core by (cases own) (auto simp: holds_verified_def server_core_def owned_by_def s1_def s2_def)
  qed (simp_all add: texts)
  have going: "server_inv M H own s2"
    using core2 peer assms(3,4) by (simp add: server_inv_def s1_def s2_def)
  from failed done_ going show ?thesis by (simp add: eq)
qed

section \<open>The loop\<close>

lemma progress_inv: "server_inv M H own s \<Longrightarrow> server_inv M H own (s\<lparr>sv_progress_at := t\<rparr>)"
  by (simp add: server_inv_def server_core_def)

lemma listening_inv:
  "server_inv M H own (s\<lparr>sv_listening := b\<rparr>) = server_inv M H own s"
  "server_inv M H own (s\<lparr>sv_listen_attempt_at := t\<rparr>) = server_inv M H own s"
  by (simp_all add: server_inv_def server_core_def)

lemma receive_chunk_inv:
  assumes "server_inv M H own s" and "sv_peer s" and "sv_reply_size s = 0"
    and "sha_streams M H" and "mbedtls_sizes M"
  shows "\<exists>s1. receive_chunk M cf en data s = Some s1 \<and> server_inv M H own s1"
proof -
  have "\<exists>stop rest s1. header_loop M cf en data (s\<lparr>sv_progress_at := en_t_now en\<rparr>) = Some (stop, rest, s1) \<and>
      server_inv M H own s1 \<and> (\<not> stop \<longrightarrow> sv_peer s1 \<and> sv_reply_size s1 = 0)"
    by (rule header_loop_inv [OF progress_inv [OF assms(1)] _ _ assms(4,5)]) (use assms(2,3) in simp_all)
  then obtain stop rest s1 where hl: "header_loop M cf en data (s\<lparr>sv_progress_at := en_t_now en\<rparr>) = Some (stop, rest, s1)"
    "server_inv M H own s1" "\<not> stop \<longrightarrow> sv_peer s1 \<and> sv_reply_size s1 = 0"
    by blast
  have "server_inv M H own (body_chunk M en rest s1)" if "\<not> stop" "sv_receiving s1"
    by (rule body_chunk_inv [OF hl(2) _ _ that(2) assms(4,5)]) (use hl that in simp_all)
  with hl show ?thesis by (cases stop) (simp_all add: receive_chunk_def)
qed

lemma serve_peer_inv:
  assumes "server_inv M H own s" and "sv_peer s" and "sha_streams M H" and "mbedtls_sizes M"
  shows "\<exists>evs s1. serve_peer M cf en s = Some (evs, s1) \<and> server_inv M H own s1 \<and>
    (\<forall>b. Updated b \<in> set evs \<longrightarrow> holds_verified M H own b)"
proof -
  note close = close_peer_inv [OF server_inv_core [OF assms(1)] assms(3,4)]
  have flush: "server_inv M H own (snd (flush_reply en s)) \<and>
      (\<forall>b. Updated b \<in> set (fst (flush_reply en s)) \<longrightarrow> holds_verified M H own b)" if "sv_reply_size s \<noteq> 0"
    by (rule flush_reply_inv [OF assms(1,2) that assms(3,4)]) simp
  have chunk: "\<exists>s1. receive_chunk M cf en data s = Some s1 \<and> server_inv M H own s1"
    if "sv_reply_size s = 0" for data
    by (rule receive_chunk_inv [OF assms(1,2) that assms(3,4)])
  consider "en_t_now en - sv_connected_at s > 180000 \<or> en_t_now en - sv_progress_at s > 5000"
    | "\<not> (en_t_now en - sv_connected_at s > 180000 \<or> en_t_now en - sv_progress_at s > 5000)" "sv_reply_size s \<noteq> 0"
    | "\<not> (en_t_now en - sv_connected_at s > 180000 \<or> en_t_now en - sv_progress_at s > 5000)" "sv_reply_size s = 0"
    by blast
  then show ?thesis
  proof cases
    case 1
    then have "serve_peer M cf en s = Some ([], close_peer s)" by (simp only: serve_peer_def if_True)
    with close show ?thesis by simp
  next
    case 2
    then have "serve_peer M cf en s = Some (flush_reply en s)" by (simp only: serve_peer_def if_False if_True not_False_eq_True)
    with flush 2 show ?thesis by (cases "flush_reply en s") simp
  next
    case 3
    then have "serve_peer M cf en s = (case en_recv en of Recv_would_block \<Rightarrow> Some ([], s)
       | Recv_failed \<Rightarrow> Some ([], close_peer s)
       | Recv_data data \<Rightarrow> if data = [] then Some ([], close_peer s)
           else map_option (Pair []) (receive_chunk M cf en data s))"
      by (simp only: serve_peer_def if_False not_True_eq_False simp_thms)
    with close assms(1) chunk [OF 3(2)] show ?thesis by (auto split: recv_result.splits)
  qed
qed

lemma listen_step_inv:
  assumes "server_inv M H own s" and "listen_step en s = (go, s1)"
  shows "server_inv M H own s1" and "sv_peer s1 = sv_peer s"
  using assms by (auto simp: listen_step_def Let_def listening_inv split: if_splits)

lemma accept_step_inv:
  assumes "server_inv M H own s" and "accept_step en s = (go, s1)" and "sha_streams M H" and "mbedtls_sizes M"
  shows "server_inv M H own s1 \<and> (go \<longrightarrow> sv_peer s1)"
proof (cases "sv_peer s")
  case True
  with assms show ?thesis by (simp add: accept_step_def)
next
  case False
  define s' where "s' = s\<lparr>sv_peer := en_accept_socket en\<rparr>"
  have core: "server_core M own s'" using assms(1) by (simp add: server_inv_def server_core_def s'_def)
  note close = close_peer_inv [OF core assms(3,4)]
  have closed: "server_inv M H own ((close_peer s')\<lparr>sv_listening := False\<rparr>)"
    using close by (simp add: listening_inv)
  have new: "server_inv M H own (s'\<lparr>sv_connected_at := t, sv_progress_at := t\<rparr>)" if "sv_peer s'" for t
    using assms(1) that False by (simp add: server_inv_def server_core_def s'_def OTA_HEADER_SIZE_def)
  show ?thesis
    using assms(2) False closed close new
    by (auto simp: accept_step_def s'_def [symmetric] Let_def split: if_splits)
qed

lemma ota_loop_inv:
  assumes "server_inv M H own s" and "sha_streams M H" and "mbedtls_sizes M"
  shows "\<exists>evs s1. ota_loop M cf en s = Some (evs, s1) \<and> server_inv M H own s1 \<and>
    (\<forall>b. Updated b \<in> set evs \<longrightarrow> holds_verified M H own b)"
proof -
  note close = close_peer_inv [OF server_inv_core [OF assms(1)] assms(2,3)]
  obtain go s1 where l: "listen_step en s = (go, s1)" by (cases "listen_step en s")
  note li = listen_step_inv [OF assms(1) l]
  obtain go2 s2 where a: "accept_step en s1 = (go2, s2)" by (cases "accept_step en s1")
  note ac = accept_step_inv [OF li(1) a assms(2,3)]
  have "server_inv M H own ((if sv_peer s then close_peer s else s)\<lparr>sv_listening := False\<rparr>)"
    using close assms(1) by (simp add: listening_inv)
  moreover have "go2 \<Longrightarrow> \<exists>evs s3. serve_peer M cf en s2 = Some (evs, s3) \<and> server_inv M H own s3 \<and>
    (\<forall>b. Updated b \<in> set evs \<longrightarrow> holds_verified M H own b)"
    using serve_peer_inv [OF _ _ assms(2,3), of own s2 cf en] ac by blast
  ultimately show ?thesis
    using assms(1) li ac by (cases go; cases go2) (simp_all add: ota_loop_def l a)
qed

lemma server_run_inv:
  assumes "server_inv M H own s" and "sha_streams M H" and "mbedtls_sizes M"
  shows "\<exists>evs s1. server_run M cf ens s = Some (evs, s1) \<and> server_inv M H own s1 \<and>
    (\<forall>b. Updated b \<in> set evs \<longrightarrow> holds_verified M H own b)"
  using assms(1)
proof (induction ens arbitrary: s)
  case (Cons en ens)
  obtain evs s1 where one: "ota_loop M cf en s = Some (evs, s1)" "server_inv M H own s1"
    "\<forall>b. Updated b \<in> set evs \<longrightarrow> holds_verified M H own b"
    using ota_loop_inv [OF Cons.prems assms(2,3)] by blast
  from Cons.IH [OF one(2)] one show ?case by fastforce
qed simp

end
