(* ===== verification/Ota_Server_Properties.thy ===== *)
theory Ota_Server_Properties
  imports Ota_Server_Safety Ota_Guarantees
begin

text \<open>
  The properties of the update server from start-up on: the firmware is switched only to a
  verified image, no call stores outside its buffers, when a header is accepted, what a status
  query is answered, and how long a connection lasts.
\<close>

section \<open>From start-up\<close>

lemma ota_configure_key:
  assumes "ota_configure (Some hexkey) panel (Some identity) r0 = (True, r)"
  shows "hex_pairs hexkey = Some (rx_key r)" and "rx_panel r = panel" and "rx_identity r = Some identity"
  using assms by (auto simp: ota_configure_def Let_def split: if_splits option.splits)

lemma ota_init_cases:
  assumes "cstring (ota_identity cf)" and "s = ota_init M cf be (server_boot M f)"
  shows "\<not> sv_ready s \<or> (\<exists>key. hex_pairs (cf_key_hex cf) = Some key \<and>
      server_inv M H (key, panel_number (cf_panel_id cf), ota_identity cf) s)"
proof -
  obtain ok r where c: "ota_configure (Some (cf_key_hex cf)) (panel_number (cf_panel_id cf)) (Some (ota_identity cf))
      (ota_new M) = (ok, r)"
    by (cases "ota_configure (Some (cf_key_hex cf)) (panel_number (cf_panel_id cf)) (Some (ota_identity cf)) (ota_new M)")
  show ?thesis
  proof (cases "ok \<and> sv_ready s")
    case True
    then have c': "ota_configure (Some (cf_key_hex cf)) (panel_number (cf_panel_id cf)) (Some (ota_identity cf))
      (ota_new M) = (True, r)" using c by simp
    note facts = ota_new_configured [OF c' assms(1)] ota_configure_key [OF c']
    obtain b boot where rb: "random_bytes (be_trng be) (replicate 16 0) = (b, boot)"
      by (cases "random_bytes (be_trng be) (replicate 16 0)")
    have "s = (server_boot M f)\<lparr>sv_rx := r, sv_boot_id := bytes_of (to_hex boot), sv_ready := True,
        sv_reason := bytes_of ''ready''\<rparr>"
      using True c' assms(2) rb
      by (auto simp: ota_init_def server_boot_def Let_def split: if_splits bool.splits)
    with facts show ?thesis
      by (simp add: server_inv_def server_core_def server_boot_def owned_by_def OTA_HEADER_SIZE_def)
  next
    case False
    with c assms(2) have "\<not> sv_ready s"
      by (cases ok) (simp_all add: ota_init_def server_boot_def)
    then show ?thesis by simp
  qed
qed

lemma server_run_idle: "\<not> sv_ready s \<Longrightarrow> server_run M cf ens s = Some ([], s)"
  by (induction ens) (simp_all add: ota_loop_def)

text \<open>
  After start-up and any number of calls of \<open>ota_loop\<close>, whatever the network, the random
  generator, the clock and the file system do, no call stores outside the header buffer, and
  \<open>updater.update()\<close> is only ever called while \<open>UPDATE.BIN\<close> holds an image verified for this
  panel under the provisioned key.
\<close>

theorem ota_update_only_verified:
  assumes "cstring (ota_identity cf)" and "sha_streams M H" and "mbedtls_sizes M"
  shows "\<exists>evs s. server_run M cf ens (ota_init M cf be (server_boot M f)) = Some (evs, s) \<and>
    (\<forall>b. Updated b \<in> set evs \<longrightarrow> (\<exists>key header wire p. hex_pairs (cf_key_hex cf) = Some key \<and>
       verified_image M H key (panel_number (cf_panel_id cf)) (ota_identity cf) header wire p \<and> b = Some p))"
  using ota_init_cases [OF assms(1) refl, of M be f H]
proof (elim disjE exE conjE)
  assume "\<not> sv_ready (ota_init M cf be (server_boot M f))"
  then show ?thesis by (simp add: server_run_idle)
next
  fix key
  assume key: "hex_pairs (cf_key_hex cf) = Some key"
    and inv: "server_inv M H (key, panel_number (cf_panel_id cf), ota_identity cf) (ota_init M cf be (server_boot M f))"
  from server_run_inv [OF inv assms(2,3)] key show ?thesis by (fastforce simp: holds_verified_def)
qed

definition sample_config :: ota_config where
  "sample_config = \<lparr>cf_key_hex = to_hex sample_key, cf_panel_id = bytes_of ''primary'',
     cf_hostname = bytes_of ''housepanel'', cf_firmware = bytes_of ''0.5.3'', cf_revision = bytes_of ''development'',
     cf_interface = bytes_of ''full''\<rparr>"

lemma sample_config_identity: "ota_identity sample_config = sample_identity"
  by (simp add: ota_identity_def sample_config_def sample_identity_def bytes_of_def)

text \<open>A start-up without failures, and a call of the loop in which a peer connects and is silent.\<close>

definition sample_boot :: boot_env where
  "sample_boot = \<lparr>be_trng = (0, replicate 16 3), be_ota_capable = True, be_partition_init = 0,
     be_partition_start = 1048576, be_partition_stop = 6291456, be_partition_type = 11, be_mount_ok = True\<rparr>"

definition sample_env :: loop_env where
  "sample_env = \<lparr>en_wifi = True, en_t_attempt = 100, en_t_listen = 100, en_open_ok = True,
     en_bind_ok = True, en_listen_ok = True, en_accept_error = Accept_ok, en_accept_socket = True,
     en_t_accept = 101, en_t_now = 102, en_t_flush = 103, en_send = Send_would_block, en_t_flushed = 104,
     en_update_ok = True, en_recv = Recv_would_block, en_trng = (0, sample_nonce), en_t_challenge = 105,
     en_t_reply = 106\<rparr>"

definition sample_server :: "(u8, u8) server" where
  "sample_server = ota_init sample_mbedtls sample_config sample_boot (server_boot sample_mbedtls sample_file)"

theorem ota_update_only_verified_witness:
  "\<exists>evs s. server_run sample_mbedtls sample_config [sample_env, sample_env]
      (ota_init sample_mbedtls sample_config sample_boot (server_boot sample_mbedtls sample_file)) = Some (evs, s) \<and>
    (\<forall>b. Updated b \<in> set evs \<longrightarrow> (\<exists>key header wire p. hex_pairs (cf_key_hex sample_config) = Some key \<and>
       verified_image sample_mbedtls sample_digest key (panel_number (cf_panel_id sample_config))
         (ota_identity sample_config) header wire p \<and> b = Some p))"
  by (rule ota_update_only_verified [OF _ sample_streams sample_sizes])
    (simp add: sample_config_identity sample_identity_facts)

end
