(* ===== verification/Ota_Server_Guarantees.thy ===== *)
theory Ota_Server_Guarantees
  imports Ota_Server_Properties
begin

text \<open>
  Further properties of the update server: the window in which a header is accepted, the
  answer to a status query, and the deadlines of a connection.
\<close>

section \<open>When a header is accepted\<close>

text \<open>Reading header bytes touches only the header buffer until the header is complete.\<close>

definition same_but_header :: "('a, 'h) server \<Rightarrow> ('a, 'h) server \<Rightarrow> bool" where
  "same_but_header s s1 \<longleftrightarrow> sv_rx s1 = sv_rx s \<and> sv_file s1 = sv_file s \<and>
     sv_nonce_valid s1 = sv_nonce_valid s \<and> sv_challenge_at s1 = sv_challenge_at s"

lemma closed_not_receiving: "\<not> sv_receiving (close_peer s)"
  by (simp add: close_peer_def split: prod.splits)

lemma reply_receiving: "sv_receiving (reply t a b c s) \<Longrightarrow> sv_receiving s"
  by (auto simp: reply_def closed_not_receiving split: if_splits)

lemma reply_frame: "sv_receiving (reply t a b c s) \<Longrightarrow> sv_header (reply t a b c s) = sv_header s"
  by (auto simp: reply_def closed_not_receiving split: if_splits)

lemma header_complete_receiving:
  assumes "sv_receiving (header_complete M en body_too s)" and "\<not> sv_receiving s"
  shows "sv_nonce_valid s \<and> en_t_now en - sv_challenge_at s \<le> 60000 \<and> begin_checks M (sv_header s) (sv_rx s) \<and>
    sv_header (header_complete M en body_too s) = sv_header s"
proof -
  obtain ok r f where b: "ota_begin M file_ops (sv_header s) (sv_rx s) (sv_file s) = (ok, r, f)"
    by (cases "ota_begin M file_ops (sv_header s) (sv_rx s) (sv_file s)")
  have "begin_checks M (sv_header s) (sv_rx s)" if ok
    using b that by (auto simp: ota_begin_def split: if_splits)
  with assms b show ?thesis
    by (auto simp: header_complete_def Let_def closed_not_receiving split: if_splits
        dest!: reply_receiving simp: reply_frame)
qed

lemma header_loop_receiving:
  assumes "header_loop M cf en bs s = Some (stop, rest, s1)" and "\<not> sv_receiving s" and "sv_receiving s1"
  shows "sv_nonce_valid s \<and> en_t_now en - sv_challenge_at s \<le> 60000 \<and> begin_checks M (sv_header s1) (sv_rx s) \<and> stop"
  using assms(1,2)
proof (induction bs arbitrary: s)
  case Nil
  with assms(3) show ?case by simp
next
  case (Cons b bs)
  from Cons.prems obtain stop1 s2 where hb: "header_byte M cf en (bs \<noteq> []) b s = Some (stop1, s2)"
    by (auto split: option.splits prod.splits)
  show ?case
  proof (cases stop1)
    case False
    with hb have "same_but_header s s2 \<and> \<not> sv_receiving s2"
      using Cons.prems(2) by (auto simp: header_byte_def same_but_header_def Let_def split: if_splits)
    moreover have "header_loop M cf en bs s2 = Some (stop, rest, s1)" using Cons.prems False hb by simp
    ultimately show ?thesis using Cons.IH [of s2] by (simp add: same_but_header_def)
  next
    case True
    then have "s1 = s2" "stop" using Cons.prems hb by auto
    with assms(3) have rec: "sv_receiving s2" by simp
    have status: "\<not> sv_receiving (ota_status M cf en s')" if "\<not> sv_receiving s'" for s'
      using that reply_receiving closed_not_receiving
      by (fastforce simp: ota_status_def Let_def frame_simps split: option.splits)
    show ?thesis
      using hb True rec Cons.prems(2) \<open>s1 = s2\<close> \<open>stop\<close>
      by (auto simp: header_byte_def Let_def closed_not_receiving status split: if_splits
          dest!: header_complete_receiving)
  qed
qed

lemma connect_frame:
  assumes "listen_step en s = (True, s1)" and "accept_step en s1 = (True, s2)"
  shows "same_but_header s s2 \<and> sv_receiving s2 = sv_receiving s \<and>
    (sv_listening s \<and> sv_peer s \<longrightarrow> s2 = s)"
  using assms by (auto simp: listen_step_def accept_step_def Let_def same_but_header_def split: if_splits)

lemma listen_accept_stop:
  assumes "listen_step en s = (False, s1) \<or> listen_step en s = (True, s1) \<and> accept_step en s1 = (False, s2)"
  shows "(sv_receiving s1 \<longrightarrow> sv_receiving s) \<and>
    (listen_step en s = (True, s1) \<longrightarrow> \<not> sv_receiving s2 \<and> \<not> sv_peer s)"
  using assms
  by (auto simp: listen_step_def accept_step_def Let_def closed_not_receiving split: if_splits)

lemma flush_receiving: "sv_receiving (snd (flush_reply en s)) \<Longrightarrow> sv_receiving s"
  by (auto simp: flush_reply_def Let_def closed_not_receiving split: if_splits send_result.splits)

lemma serve_receiving:
  assumes "serve_peer M cf en s = Some (evs, s1)" and "\<not> sv_receiving s" and "sv_receiving s1"
  shows "sv_nonce_valid s \<and> en_t_now en - sv_challenge_at s \<le> 60000 \<and> begin_checks M (sv_header s1) (sv_rx s)"
proof -
  obtain data where "receive_chunk M cf en data s = Some s1"
    using assms flush_receiving [of en s]
    by (auto simp: serve_peer_def closed_not_receiving split: if_splits recv_result.splits)
  then obtain stop rest s2 where hl: "header_loop M cf en data (s\<lparr>sv_progress_at := en_t_now en\<rparr>) = Some (stop, rest, s2)"
    "s1 = (if \<not> stop \<and> sv_receiving s2 \<and> rest \<noteq> [] then body_chunk M en rest s2 else s2)"
    by (auto simp: receive_chunk_def split: option.splits prod.splits bool.splits)
  show ?thesis
  proof (cases "sv_receiving s2")
    case True
    with header_loop_receiving [OF hl(1)] assms(2) hl(2) show ?thesis by simp
  next
    case False
    with hl(2) assms(3) show ?thesis by simp
  qed
qed

text \<open>
  (C18) A firmware body is only ever received after a header that was accepted in the window: when a
  call of \<open>ota_loop\<close> starts a transfer, the last status query had issued a challenge not yet used,
  at most 60 seconds before, and the header read is authentic under this panel's key and answers
  exactly that challenge.
\<close>

theorem ota_accepts_in_window:
  assumes "ota_loop M cf en s = Some (evs, s1)" and "server_inv M H own s" and "sha_streams M H" and "mbedtls_sizes M"
    and "\<not> sv_receiving s" and "sv_receiving s1"
  shows "sv_nonce_valid s \<and> en_t_now en - sv_challenge_at s \<le> 60000 \<and> rx_issued (sv_rx s) \<and>
    header_authentic M (rx_key (sv_rx s)) (rx_panel (sv_rx s)) (sv_header s1) \<and>
    slice 13 32 (sv_header s1) = rx_nonce (sv_rx s)"
proof -
  obtain go t1 where l: "listen_step en s = (go, t1)" by (cases "listen_step en s")
  obtain go2 t2 where a: "accept_step en t1 = (go2, t2)" by (cases "accept_step en t1")
  have "go \<and> go2 \<and> sv_ready s \<and> en_wifi en"
    using assms(1,5,6) l a listen_accept_stop [of en s t1 t2]
    by (cases go; cases go2) (auto simp: ota_loop_def closed_not_receiving split: if_splits)
  then have serve: "serve_peer M cf en t2 = Some (evs, s1)" and conn: "same_but_header s t2 \<and> sv_receiving t2 = sv_receiving s"
    using assms(1) l a connect_frame [of en s t1 t2] by (simp_all add: ota_loop_def)
  have inv1: "server_inv M H own s1"
    using ota_loop_inv [OF assms(2-4), of cf en] assms(1) by simp
  have checks: "sv_nonce_valid s \<and> en_t_now en - sv_challenge_at s \<le> 60000 \<and> begin_checks M (sv_header s1) (sv_rx s)"
    using serve_receiving [OF serve] conn assms(5,6) by (simp add: same_but_header_def)
  have "length (sv_header s1) = OTA_HEADER_SIZE" "length (rx_nonce (sv_rx s)) = 32"
    using inv1 assms(2) by (simp_all add: server_inv_def server_core_def rx_inv_def rx_wf_def)
  with checks begin_checks_authentic [of M "sv_header s1" "sv_rx s"] assms(4) show ?thesis by simp
qed

text \<open>A server that has read all but the last byte of the sample header.\<close>

definition sample_waiting :: "(u8, u8) server" where
  "sample_waiting = (server_boot sample_mbedtls sample_file)\<lparr>sv_rx := sample_issued, sv_peer := True,
     sv_ready := True, sv_listening := True, sv_nonce := sample_nonce, sv_nonce_valid := True,
     sv_challenge_at := 100, sv_header := take 140 sample_header @ [0], sv_header_size := 140\<rparr>"

definition sample_last_byte :: loop_env where
  "sample_last_byte = sample_env\<lparr>en_recv := Recv_data [sample_header ! 140]\<rparr>"

lemma sample_waiting_inv:
  "server_inv sample_mbedtls H (sample_key, 1, sample_identity) sample_waiting"
proof -
  have "rx_inv sample_mbedtls file_staged sample_issued sample_file"
    unfolding sample_issued_def
    by (rule rx_inv_challenge [OF ota_new_configured(5) [OF sample_configured(1) sample_identity_facts(1)]])
      (simp add: sample_lengths)
  then show ?thesis
    using sample_issued_facts
    by (simp add: server_inv_def server_core_def sample_waiting_def server_boot_def owned_by_def
        sample_lengths OTA_HEADER_SIZE_def)
qed

lemma sample_begin:
  "\<exists>r1 f1. ota_begin sample_mbedtls file_ops sample_header sample_issued sample_file = (True, r1, f1)"
proof -
  have "file_healthy sample_file" by (simp add: file_healthy_def sample_file_def)
  then show ?thesis
    using fsr.package_installs [OF sample_total sample_streams sample_sizes sample_issued_facts(1,2,3) _
        sample_issued_facts(4) sample_identity_facts(1,2), where header = sample_header and chunks = sample_chunks
          and s = sample_file and q = sample_image]
    by (auto simp: sample_issued_facts sample_chunks_facts sample_verified)
qed

lemma sample_accepts:
  "\<exists>s1. ota_loop sample_mbedtls sample_config sample_last_byte sample_waiting = Some ([], s1) \<and> sv_receiving s1"
proof -
  obtain r1 f1 where b: "ota_begin sample_mbedtls file_ops sample_header sample_issued sample_file = (True, r1, f1)"
    using sample_begin by blast
  have len: "length sample_header = 141" by (simp add: sample_lengths OTA_HEADER_SIZE_def)
  have whole: "(take 140 sample_header @ [0])[140 := sample_header ! 140] = sample_header"
    using len by (simp add: list_update_append take_Suc_conv_app_nth [of 140 sample_header, symmetric])
  show ?thesis
    using b len
    by (simp add: ota_loop_def listen_step_def accept_step_def serve_peer_def receive_chunk_def header_byte_def
        header_complete_def reply_def sample_waiting_def sample_last_byte_def sample_env_def server_boot_def
        whole OTA_HEADER_SIZE_def Let_def accepted_true_def)
qed

theorem ota_accepts_in_window_witness:
  "header_authentic sample_mbedtls sample_key 1 sample_header \<and> sv_nonce_valid sample_waiting"
proof -
  obtain s1 where s1: "ota_loop sample_mbedtls sample_config sample_last_byte sample_waiting = Some ([], s1)" "sv_receiving s1"
    using sample_accepts by blast
  have "\<not> sv_receiving sample_waiting" by (simp add: sample_waiting_def server_boot_def)
  from ota_accepts_in_window [OF s1(1) sample_waiting_inv sample_streams sample_sizes this s1(2)]
  show ?thesis using sample_verified by (simp add: verified_image_def)
qed

section \<open>Deadlines\<close>

text \<open>
  (C23) A connection cannot hold the update server: a call that finds a peer leaves it connected
  only while the WiFi is up, the connection is at most 180 seconds old and made progress within the
  last 5 seconds, and a reply that was pending before the call was started less than 2 seconds
  before it.
\<close>

theorem ota_peer_deadlines:
  assumes "ota_loop M cf en s = Some (evs, s1)" and "sv_ready s" and "sv_listening s" and "sv_peer s" and "sv_peer s1"
  shows "en_wifi en \<and> en_t_now en - sv_connected_at s \<le> 180000 \<and> en_t_now en - sv_progress_at s \<le> 5000 \<and>
    (sv_reply_size s \<noteq> 0 \<longrightarrow> en_t_flush en - sv_reply_started s < 2000)"
proof -
  have closed: "\<not> sv_peer (close_peer s')" for s' :: "('a, 'b) server"
    by (simp add: close_peer_def split: prod.splits)
  have wifi: "en_wifi en" using assms by (auto simp: ota_loop_def closed split: if_splits)
  then have "serve_peer M cf en s = Some (evs, s1)"
    using assms by (simp add: ota_loop_def listen_step_def accept_step_def)
  with wifi closed assms(5) show ?thesis
    by (auto simp: serve_peer_def flush_reply_def not_le split: if_splits)
qed

theorem ota_peer_deadlines_witness:
  "en_t_now sample_env - sv_connected_at sample_waiting \<le> 180000"
proof -
  have "ota_loop sample_mbedtls sample_config sample_env sample_waiting = Some ([], sample_waiting)"
    by (simp add: ota_loop_def listen_step_def accept_step_def serve_peer_def sample_waiting_def sample_env_def
        server_boot_def)
  from ota_peer_deadlines [OF this] show ?thesis by (simp add: sample_waiting_def)
qed

section \<open>The status query\<close>

text \<open>The state after a status query was answered.\<close>

definition challenged :: "loop_env \<Rightarrow> bytes \<Rightarrow> ('a, 'h) server \<Rightarrow> ('a, 'h) server" where
  "challenged en nonce s = s\<lparr>sv_nonce := nonce, sv_nonce_valid := True, sv_nonce_hex := bytes_of (to_hex nonce),
     sv_rx := ota_challenge nonce (sv_rx s), sv_challenge_at := en_t_challenge en\<rparr>"

lemma new_challenge_state:
  assumes "length (sv_nonce s) = 32" and "sv_ready s"
    and "en_trng en = (0, nonce)" and "length nonce = 32" and "nonce \<noteq> replicate 32 0"
  shows "new_challenge en s = challenged en nonce s"
proof -
  have "foldl (OR) 0 nonce \<noteq> 0"
    using assms(4,5) by (auto simp: fold_or_eq_zero intro: replicate_eqI)
  then have "random_bytes (en_trng en) (sv_nonce s) = (True, nonce)"
    using assms by (simp add: random_bytes_def Let_def)
  then show ?thesis by (simp add: new_challenge_def challenged_def assms(2))
qed

lemma ota_status_state:
  assumes "new_challenge en s = challenged en nonce s" and "sv_reply_size s = 0" and "mbedtls_sizes M"
    and "rx_configured (sv_rx s)" and "md_hmac M (rx_key (sv_rx s)) auth_label = Some auth_key"
    and "md_hmac M auth_key (status_text cf (challenged en nonce s)) = Some tag"
  shows "ota_status M cf en s = (challenged en nonce s)\<lparr>
      sv_reply_buffer := (status_text cf (challenged en nonce s) @ bytes_of (to_hex tag) @ [10]) @
        drop (length (status_text cf (challenged en nonce s)) + 65) (sv_reply_buffer s),
      sv_reply_size := length (status_text cf (challenged en nonce s)) + 65, sv_reply_offset := 0,
      sv_reply_started := en_t_reply en, sv_after_reply := After_Close\<rparr> \<and>
    length (status_text cf (challenged en nonce s)) \<le> 511 \<and> length tag = 32"
proof -
  define s' where "s' = challenged en nonce s"
  have keeps: "rx_configured (sv_rx s')" "rx_key (sv_rx s') = rx_key (sv_rx s)" "sv_reply_size s' = 0"
    "sv_reply_buffer s' = sv_reply_buffer s"
    using assms(2,4) by (simp_all add: s'_def challenged_def ota_challenge_def)
  have sign: "ota_sign M (status_text cf s') (sv_rx s') = Some tag"
    using keeps(1,2) assms(5,6) by (simp add: ota_sign_def s'_def [symmetric])
  have tlen: "length tag = 32" using assms(3,6) by (auto simp: mbedtls_sizes_def)
  have slen: "length (status_text cf s') \<le> 511"
    unfolding status_text_def length_take by (rule min.cobounded2)
  have "ota_status M cf en s = reply (en_t_reply en) (status_text cf s') After_Close (bytes_of (to_hex tag) @ [10]) s'"
    by (simp add: ota_status_def assms(1) s'_def [symmetric] sign)
  with keeps slen tlen show ?thesis unfolding s'_def [symmetric] by (simp add: reply_def)
qed

text \<open>
  A complete status query is answered with a fresh challenge and a signed description: the
  reply is the status text followed by the 64 hexadecimal digits of its authentication tag and a
  newline, always fits the reply buffer, and when the panel is ready and the generator delivers 32
  bytes that are not all zero these become the receiver's open challenge.
\<close>

theorem ota_status_reply:
  assumes "server_inv M H own s" and "sv_peer s" and "sv_reply_size s = 0" and "mbedtls_sizes M"
    and "en_trng en = (0, nonce)" and "length nonce = 32" and "nonce \<noteq> replicate 32 0"
    and "sv_ready s" and "rx_configured (sv_rx s)"
    and "md_hmac M (rx_key (sv_rx s)) auth_label = Some auth_key"
    and "md_hmac M auth_key (status_text cf (new_challenge en s)) = Some tag"
  shows "let s1 = ota_status M cf en s; text = status_text cf (new_challenge en s) in
    take (sv_reply_size s1) (sv_reply_buffer s1) = text @ bytes_of (to_hex tag) @ [10] \<and>
    sv_reply_size s1 \<le> 576 \<and> sv_after_reply s1 = After_Close \<and>
    rx_nonce (sv_rx s1) = nonce \<and> rx_issued (sv_rx s1) \<and> sv_nonce_valid s1 \<and>
    sv_challenge_at s1 = en_t_challenge en"
proof -
  have "length (sv_nonce s) = 32" using assms(1) by (simp add: server_inv_def server_core_def)
  from new_challenge_state [OF this assms(8,5-7)] have n: "new_challenge en s = challenged en nonce s" .
  from ota_status_state [OF n assms(3,4,9,10) assms(11) [unfolded n]] assms(9) show ?thesis
    unfolding Let_def n by (simp add: challenged_def ota_challenge_def)
qed

theorem ota_status_reply_witness:
  "sv_reply_size (ota_status sample_mbedtls sample_config sample_env sample_waiting) \<le> 576 \<and>
   rx_nonce (sv_rx (ota_status sample_mbedtls sample_config sample_env sample_waiting)) = sample_nonce"
proof -
  let ?t = "status_text sample_config (new_challenge sample_env sample_waiting)"
  have key: "rx_key (sv_rx sample_waiting) = sample_key" "rx_configured (sv_rx sample_waiting)"
    using sample_issued_facts sample_configured
    by (simp_all add: sample_waiting_def sample_issued_def ota_challenge_def)
  have "sample_nonce ! 0 = 1" by (simp add: sample_nonce_def)
  then have nz: "sample_nonce \<noteq> replicate 32 0" by (metis nth_replicate zero_less_numeral zero_neq_one)
  have sign: "md_hmac sample_mbedtls (rx_key (sv_rx sample_waiting)) auth_label =
      Some (replicate 32 (sum_list sample_key + sum_list auth_label))"
    "md_hmac sample_mbedtls (replicate 32 (sum_list sample_key + sum_list auth_label)) ?t =
      Some (replicate 32 (sum_list (replicate 32 (sum_list sample_key + sum_list auth_label)) + sum_list ?t))"
    by (simp_all only: key) (simp_all add: sample_mbedtls_def)
  have env: "en_trng sample_env = (0, sample_nonce)" by (simp add: sample_env_def)
  have st: "sv_peer sample_waiting" "sv_reply_size sample_waiting = 0" "sv_ready sample_waiting"
    by (simp_all add: sample_waiting_def server_boot_def)
  from ota_status_reply [OF sample_waiting_inv st(1,2) sample_sizes env sample_lengths(1) nz st(3) key(2) sign]
  show ?thesis by (simp add: Let_def)
qed

end
