(* ===== verification/Ota_Server_Phases.thy ===== *)
theory Ota_Server_Phases
  imports Ota_Server_Guarantees
begin

text \<open>
  The phases of a session with the update server, over any number of calls of \<open>ota_loop\<close> in which no
  deadline passes: a status query or an update header that arrives in any pieces, a reply that is
  taken away in any pieces, and the body of an image in any pieces.
\<close>

section \<open>Calls with a peer\<close>

definition served :: "('a, 'h) server \<Rightarrow> bool" where
  "served s \<longleftrightarrow> sv_ready s \<and> sv_listening s \<and> sv_peer s"

definition in_time :: "loop_env \<Rightarrow> ('a, 'h) server \<Rightarrow> bool" where
  "in_time en s \<longleftrightarrow> en_wifi en \<and> (let s1 = snd (accept_step en s) in
     en_t_now en - sv_connected_at s1 \<le> 180000 \<and> en_t_now en - sv_progress_at s1 \<le> 5000) \<and>
     (sv_reply_size s \<noteq> 0 \<longrightarrow> en_t_flush en - sv_reply_started s < 2000)"

text \<open>No deadline passes in a sequence of calls.\<close>

fun on_time :: "('a, 'h) mbedtls \<Rightarrow> ota_config \<Rightarrow> loop_env list \<Rightarrow> ('a, 'h) server \<Rightarrow> bool" where
  "on_time M cf [] s = True"
| "on_time M cf (en # ens) s \<longleftrightarrow> in_time en s \<and>
     (case ota_loop M cf en s of None \<Rightarrow> False | Some (evs, s1) \<Rightarrow> on_time M cf ens s1)"

lemma ota_loop_served:
  "served s \<Longrightarrow> in_time en s \<Longrightarrow> ota_loop M cf en s =
    (if sv_reply_size s \<noteq> 0 then Some (flush_reply en s)
     else case en_recv en of Recv_would_block \<Rightarrow> Some ([], s)
     | Recv_failed \<Rightarrow> Some ([], close_peer s)
     | Recv_data data \<Rightarrow>
         if data = [] then Some ([], close_peer s) else map_option (Pair []) (receive_chunk M cf en data s))"
proof -
  assume s: "served s" and t: "in_time en s"
  then have "ota_loop M cf en s = serve_peer M cf en s"
    by (simp add: ota_loop_def listen_step_def accept_step_def served_def in_time_def)
  moreover have "(en_t_now en - sv_connected_at s > 180000 \<or> en_t_now en - sv_progress_at s > 5000) = False"
    using s t by (simp add: in_time_def accept_step_def served_def not_less)
  ultimately show ?thesis by (simp only: serve_peer_def if_False)
qed

lemma server_run_append:
  assumes "server_run M cf ens s = Some (evs, s1)" and "server_run M cf ens' s1 = Some (evs', s2)"
  shows "server_run M cf (ens @ ens') s = Some (evs @ evs', s2)"
  using assms
proof (induction ens arbitrary: s evs)
  case (Cons en ens)
  from Cons.prems(1) obtain evs0 s0 evs3 where "ota_loop M cf en s = Some (evs0, s0)"
    "server_run M cf ens s0 = Some (evs3, s1)" "evs = evs0 @ evs3"
    by (auto split: option.splits)
  with Cons.IH [of s0 evs3] Cons.prems(2) show ?case by simp
qed simp

lemma on_time_append:
  "on_time M cf (ens @ ens') s \<Longrightarrow> on_time M cf ens s \<and>
   (\<forall>evs s1. server_run M cf ens s = Some (evs, s1) \<longrightarrow> on_time M cf ens' s1)"
  by (induction ens arbitrary: s) (auto split: option.splits)

text \<open>A call that finds no peer and accepts one goes on as if the peer had been there.\<close>

definition accepted :: "loop_env \<Rightarrow> ('a, 'h) server \<Rightarrow> ('a, 'h) server" where
  "accepted en s = s\<lparr>sv_peer := True, sv_connected_at := en_t_accept en, sv_progress_at := en_t_accept en\<rparr>"

definition connects :: "loop_env \<Rightarrow> ('a, 'h) server \<Rightarrow> bool" where
  "connects en s \<longleftrightarrow> sv_ready s \<and> sv_listening s \<and> \<not> sv_peer s \<and> en_accept_error en = Accept_ok \<and> en_accept_socket en"

lemma connects_served: "connects en s \<Longrightarrow> served (accepted en s)"
  by (simp add: connects_def accepted_def served_def)

lemma connects_accepts:
  assumes "connects en s"
  shows "accept_step en s = (True, accepted en s)" "accept_step en (accepted en s) = (True, accepted en s)"
    "listen_step en s = (True, s)" "listen_step en (accepted en s) = (True, accepted en s)"
  using assms by (simp_all add: connects_def accept_step_def accepted_def listen_step_def)

lemma connects_loop: "connects en s \<Longrightarrow> en_wifi en \<Longrightarrow> ota_loop M cf en s = ota_loop M cf en (accepted en s)"
proof -
  assume c: "connects en s" "en_wifi en"
  then have "sv_ready s" "sv_ready (accepted en s)" by (simp_all add: connects_def accepted_def)
  with c(2) show ?thesis by (simp add: ota_loop_def connects_accepts [OF c(1)])
qed

lemma connects_run:
  assumes "connects en s" and "en_wifi en"
  shows "server_run M cf (en # ens) s = server_run M cf (en # ens) (accepted en s)"
    and "sv_reply_size s = 0 \<Longrightarrow> on_time M cf (en # ens) s = on_time M cf (en # ens) (accepted en s)"
  using connects_loop [OF assms, of M cf] connects_accepts [OF assms(1)]
  by (simp_all add: in_time_def) (simp add: accepted_def)

section \<open>The header\<close>

text \<open>
  A status query or an update: how long its header is, how it starts, and a server that has the first
  \<open>k\<close> bytes of it.
\<close>

definition head_size :: "bool \<Rightarrow> nat" where
  "head_size query = (if query then 40 else OTA_HEADER_SIZE)"

definition head_magic :: "bool \<Rightarrow> bytes" where
  "head_magic query = (if query then query_magic else update_magic)"

definition header_at :: "bool \<Rightarrow> bytes \<Rightarrow> nat \<Rightarrow> ('a, 'h) server \<Rightarrow> bool" where
  "header_at query header k s \<longleftrightarrow> sv_header_size s = k \<and> take k (sv_header s) = take k header \<and>
     length (sv_header s) = 141 \<and> \<not> sv_receiving s \<and> sv_querying s = (query \<and> 8 \<le> k)"

definition with_header :: "bool \<Rightarrow> bytes \<Rightarrow> nat \<Rightarrow> ('a, 'h) server \<Rightarrow> ('a, 'h) server" where
  "with_header query h k s = s\<lparr>sv_header := h, sv_header_size := k, sv_querying := (query \<and> 8 \<le> k)\<rparr>"

definition head_done ::
  "('a, 'h) mbedtls \<Rightarrow> ota_config \<Rightarrow> loop_env \<Rightarrow> bool \<Rightarrow> bool \<Rightarrow> ('a, 'h) server \<Rightarrow> ('a, 'h) server" where
  "head_done M cf en query body_too s = (if query then ota_status M cf en s else header_complete M en body_too s)"

lemma head_size_bounds: "8 < head_size query" "head_size query \<le> 141"
  by (simp_all add: head_size_def OTA_HEADER_SIZE_def)

lemma magics_differ: "update_magic \<noteq> query_magic"
  by (simp add: update_magic_def query_magic_def bytes_of_def)

lemma header_byte_reads:
  assumes at: "header_at query header k s" and k: "k < head_size query" and len: "length header = head_size query"
    and magic: "take 8 header = head_magic query"
  shows "\<exists>h. header_byte M cf en body_too (header ! k) s =
      (if Suc k = head_size query then Some (True, head_done M cf en query body_too (with_header query h (Suc k) s))
       else Some (False, with_header query h (Suc k) s)) \<and> take (Suc k) h = take (Suc k) header \<and> length h = 141"
proof -
  define h where "h = (sv_header s)[k := header ! k]"
  have at': "sv_header_size s = k" "sv_querying s = (query \<and> 8 \<le> k)" "length (sv_header s) = 141"
    "take k (sv_header s) = take k header"
    using at by (simp_all add: header_at_def)
  have k141: "k < 141" using k head_size_bounds(2) [of query] by simp
  have h: "take (Suc k) h = take (Suc k) header" "length h = 141"
    using at' k k141 len by (simp_all add: h_def take_Suc_conv_app_nth)
  define s0 where "s0 = s\<lparr>sv_header := h, sv_header_size := Suc k\<rparr>"
  define s1 where "s1 = with_header query h (Suc k) s"
  have step: "s\<lparr>sv_header := (sv_header s)[sv_header_size s := header ! k], sv_header_size := sv_header_size s + 1\<rparr> = s0"
    by (simp add: s0_def h_def at'(1))
  have magic_h: "Suc k = 8 \<Longrightarrow> take 8 h = head_magic query" using h(1) magic by simp
  have is_query: "head_magic query = query_magic \<longleftrightarrow> query" using magics_differ by (simp add: head_magic_def)
  have query: "(if sv_header_size s0 = 8 then s0\<lparr>sv_querying := (take 8 (sv_header s0) = query_magic)\<rparr> else s0) = s1"
  proof (cases "Suc k = 8")
    case True
    then show ?thesis using magic_h is_query by (simp add: s0_def s1_def with_header_def)
  next
    case False
    then have "sv_querying s = (query \<and> 8 \<le> Suc k)" using at'(2) by auto
    then have "s0 = s1" by (cases s) (simp add: s0_def s1_def with_header_def)
    moreover have "sv_header_size s0 \<noteq> 8" using False by (simp add: s0_def)
    ultimately show ?thesis by (simp only: if_False)
  qed
  have fields: "sv_header s1 = h" "sv_header_size s1 = Suc k" "sv_querying s1 = (query \<and> 8 \<le> Suc k)"
    by (simp_all add: s1_def with_header_def)
  have room: "\<not> sv_header_size s \<ge> length (sv_header s)" using at' k141 by simp
  have good: "\<not> (Suc k = 8 \<and> \<not> (query \<and> 8 \<le> Suc k) \<and> take 8 h \<noteq> update_magic)"
    using magic_h by (auto simp: head_magic_def)
  have "header_byte M cf en body_too (header ! k) s =
      (if Suc k = head_size query then Some (True, head_done M cf en query body_too s1) else Some (False, s1))"
    using room good k unfolding header_byte_def step Let_def query fields
    by (cases query) (auto simp: head_size_def head_done_def OTA_HEADER_SIZE_def)
  with h show ?thesis unfolding s1_def by blast
qed

lemma with_header_twice [simp]: "with_header query h k (with_header query h' k' s) = with_header query h k s"
  by (simp add: with_header_def)

lemma header_at_with:
  "header_at query header k s \<Longrightarrow> take n h = take n header \<Longrightarrow> length h = 141 \<Longrightarrow>
   header_at query header n (with_header query h n s)"
  by (simp add: header_at_def with_header_def)

lemma header_loop_reads:
  assumes "header_at query header k s" and "k + length d \<le> head_size query" and "k < head_size query"
    and "d = take (length d) (drop k header)" and "length header = head_size query" and "take 8 header = head_magic query"
  shows "\<exists>h. take (k + length d) h = take (k + length d) header \<and> length h = 141 \<and>
    header_loop M cf en d s =
      (if k + length d = head_size query
       then Some (True, [], head_done M cf en query False (with_header query h (head_size query) s))
       else Some (False, [], with_header query h (k + length d) s))"
  using assms(1-4)
proof (induction d arbitrary: k s)
  case Nil
  then have "with_header query (sv_header s) k s = s" by (cases s) (simp add: with_header_def header_at_def)
  with Nil show ?case by (intro exI [of _ "sv_header s"]) (simp add: header_at_def)
next
  case (Cons b d)
  have b: "b = header ! k" "d = take (length d) (drop (Suc k) header)"
    using Cons.prems(3,4) assms(5) by (auto simp: Cons_nth_drop_Suc [symmetric])
  obtain h where r: "header_byte M cf en (d \<noteq> []) (header ! k) s =
      (if Suc k = head_size query then Some (True, head_done M cf en query (d \<noteq> []) (with_header query h (Suc k) s))
       else Some (False, with_header query h (Suc k) s))" and h: "take (Suc k) h = take (Suc k) header" "length h = 141"
    using header_byte_reads [OF Cons.prems(1,3) assms(5,6), of M cf en "d \<noteq> []"] by blast
  have quiet: "\<not> sv_receiving s" using Cons.prems(1) by (simp add: header_at_def)
  show ?case
  proof (cases "Suc k = head_size query")
    case True
    then have "length d = 0" using Cons.prems(2) unfolding list.size by linarith
    then have "d = []" by simp
    with True r quiet b(1) h show ?thesis by (intro exI [of _ h]) simp
  next
    case False
    have at: "header_at query header (Suc k) (with_header query h (Suc k) s)" by (rule header_at_with [OF Cons.prems(1) h])
    from Cons.IH [OF at _ _ b(2), unfolded with_header_twice] False Cons.prems(2,3) obtain h2 where
      "take (Suc k + length d) h2 = take (Suc k + length d) header" "length h2 = 141"
      "header_loop M cf en d (with_header query h (Suc k) s) =
        (if Suc k + length d = head_size query
         then Some (True, [], head_done M cf en query False (with_header query h2 (head_size query) s))
         else Some (False, [], with_header query h2 (Suc k + length d) s))"
      by auto
    with False r quiet b(1) show ?thesis by (intro exI [of _ h2]) simp
  qed
qed

text \<open>The header in any pieces: the last one completes it.\<close>

definition delivers :: "loop_env list \<Rightarrow> bytes list \<Rightarrow> bool" where
  "delivers ens ds \<longleftrightarrow> list_all2 (\<lambda>en d. en_recv en = Recv_data d \<and> d \<noteq> []) ens ds"

lemma header_phase:
  assumes "delivers ens ds" and "on_time M cf ens s" and "served s" and "sv_reply_size s = 0" and "ds \<noteq> []"
    and "header_at query header k s" and "concat ds = drop k header"
    and "length header = head_size query" and "take 8 header = head_magic query"
  shows "\<exists>h t. take (head_size query) h = header \<and> length h = 141 \<and> server_run M cf ens s =
    Some ([], head_done M cf (last ens) query False (with_header query h (head_size query) (s\<lparr>sv_progress_at := t\<rparr>)))"
  using assms(1-7)
proof (induction ens arbitrary: ds s k)
  case Nil
  then show ?case by (simp add: delivers_def)
next
  case (Cons en ens)
  let ?n = "head_size query"
  from Cons.prems(1) obtain d ds' where ds: "ds = d # ds'" "en_recv en = Recv_data d" "d \<noteq> []" "delivers ens ds'"
    by (auto simp: delivers_def list_all2_Cons1)
  have all: "d @ concat ds' = drop k header" using Cons.prems(7) ds(1) by simp
  have len: "length d + length (concat ds') = ?n - k"
    using arg_cong [OF all, of length] assms(8) by simp
  moreover have "0 < length d" using ds(3) by simp
  ultimately have k: "k < ?n" "k + length d \<le> ?n" by linarith+
  have d: "d = take (length d) (drop k header)" by (simp flip: all)
  define s0 where "s0 = s\<lparr>sv_progress_at := en_t_now en\<rparr>"
  have at: "header_at query header k s0" using Cons.prems(6) by (simp add: s0_def header_at_def)
  obtain h where h: "take (k + length d) h = take (k + length d) header" "length h = 141" and
    r: "header_loop M cf en d s0 =
      (if k + length d = ?n then Some (True, [], head_done M cf en query False (with_header query h ?n s0))
       else Some (False, [], with_header query h (k + length d) s0))"
    using header_loop_reads [OF at k(2,1) d assms(8,9)] by blast
  have step: "ota_loop M cf en s = map_option (Pair []) (receive_chunk M cf en d s)"
    using ota_loop_served [OF Cons.prems(3), of en M cf] Cons.prems(2,4) ds(2,3) by simp
  show ?case
  proof (cases "k + length d = ?n")
    case True
    then have "length (concat ds') = 0" using len by linarith
    then have "concat ds' = []" by (simp only: length_0_conv)
    then have "ens = []" using ds(4) by (cases ds') (auto simp: delivers_def list_all2_Cons2)
    moreover have "receive_chunk M cf en d s = Some (head_done M cf en query False (with_header query h ?n s0))"
      using r True by (simp add: receive_chunk_def s0_def)
    moreover have "take ?n h = header" using h(1) True assms(8) by simp
    ultimately show ?thesis using step h(2) by (auto simp: s0_def)
  next
    case False
    define s1 where "s1 = with_header query h (k + length d) s0"
    have at1: "header_at query header (k + length d) s1" unfolding s1_def by (rule header_at_with [OF at h])
    have "receive_chunk M cf en d s = Some s1"
      using r False at1 by (simp add: receive_chunk_def s0_def s1_def [unfolded s0_def, symmetric] header_at_def)
    then have loop: "ota_loop M cf en s = Some ([], s1)" using step by simp
    have "ds' \<noteq> []" using len False k(2) by auto
    moreover have "concat ds' = drop (k + length d) header"
      using arg_cong [OF all, of "drop (length d)"] by (simp add: add.commute)
    moreover have "served s1" "sv_reply_size s1 = 0" using Cons.prems(3,4) by (simp_all add: s1_def s0_def with_header_def served_def)
    moreover have "on_time M cf ens s1" using Cons.prems(2) loop by simp
    ultimately obtain h1 t where "take ?n h1 = header" "length h1 = 141" "server_run M cf ens s1 =
        Some ([], head_done M cf (last ens) query False (with_header query h1 ?n (s1\<lparr>sv_progress_at := t\<rparr>)))"
      using Cons.IH [OF ds(4), of s1 "k + length d"] at1 by blast
    moreover have "with_header query h1 ?n (s1\<lparr>sv_progress_at := t\<rparr>) = with_header query h1 ?n (s\<lparr>sv_progress_at := t\<rparr>)"
      by (simp add: s1_def s0_def with_header_def)
    moreover have "ens \<noteq> []" using \<open>ds' \<noteq> []\<close> ds(4) by (auto simp: delivers_def)
    ultimately show ?thesis using loop by auto
  qed
qed

section \<open>Replies\<close>

text \<open>Sends that take a reply away in any pieces.\<close>

definition flushes :: "loop_env list \<Rightarrow> nat list \<Rightarrow> bool" where
  "flushes ens ns \<longleftrightarrow> list_all2 (\<lambda>en n. en_send en = Send_count n \<and> 0 < n) ens ns"

lemma close_peer_bin: "fs_bin (sv_file (close_peer s)) = fs_bin (sv_file s)"
  using file_abort_bin by (auto simp: close_peer_def ota_abort_def file_ops_def)

text \<open>The bytes that the peer gets.\<close>

definition sent :: "ota_event list \<Rightarrow> bytes" where
  "sent evs = concat (map (\<lambda>e. case e of Sent d \<Rightarrow> d | _ \<Rightarrow> []) evs)"

lemma sent_simps [simp]:
  "sent [] = []" "sent (Sent d # evs) = d @ sent evs" "sent (Updated b # evs) = sent evs" "sent (Restarted # evs) = sent evs"
  "sent (evs @ evs') = sent evs @ sent evs'"
  by (simp_all add: sent_def)

lemma slice_slice: "slice k n xs @ slice (k + n) m xs = slice k (n + m) xs"
  by (simp add: slice_def take_add add.commute [of k n])

lemma flush_phase:
  assumes "flushes ens ns" and "on_time M cf ens s" and "served s"
    and "sv_reply_size s \<noteq> 0" and "sv_reply_offset s + sum_list ns = sv_reply_size s" and "ns \<noteq> []"
  shows "\<exists>evs s1 t. server_run M cf ens s = Some (evs, s1) \<and>
    sent evs = slice (sv_reply_offset s) (sv_reply_size s - sv_reply_offset s) (sv_reply_buffer s) \<and>
    (let s2 = s\<lparr>sv_reply_size := 0, sv_reply_offset := 0, sv_progress_at := t\<rparr> in
     s1 = (if sv_after_reply s = After_Receive then s2 else close_peer s2)) \<and>
    (sv_after_reply s = After_Install \<longrightarrow> Updated (fs_bin (sv_file s)) \<in> set evs)"
  using assms
proof (induction ens arbitrary: ns s)
  case Nil
  from Nil.prems(1,6) show ?case by (simp add: flushes_def)
next
  case (Cons en ens)
  from Cons.prems(1) obtain n ns' where ns: "ns = n # ns'" "en_send en = Send_count n" "0 < n" "flushes ens ns'"
    by (auto simp: flushes_def list_all2_Cons1)
  have loop: "ota_loop M cf en s = Some (flush_reply en s)"
    using ota_loop_served [OF Cons.prems(3), of en M cf] Cons.prems(2,4) by simp
  have late: "\<not> 2000 \<le> en_t_flush en - sv_reply_started s"
    using Cons.prems(2,4) by (simp add: in_time_def not_le)
  show ?case
  proof (cases ns')
    case Nil
    then have "ens = []" using ns(4) by (simp add: flushes_def)
    have n: "sv_reply_offset s + n = sv_reply_size s" "\<not> n > sv_reply_size s - sv_reply_offset s"
      "sv_reply_size s - sv_reply_offset s = n"
      using Cons.prems(5) ns(1) Nil by simp_all
    obtain evs s1 where f: "flush_reply en s = (evs, s1)" by (cases "flush_reply en s")
    let ?s2 = "s\<lparr>sv_reply_size := 0, sv_reply_offset := 0, sv_progress_at := en_t_flushed en\<rparr>"
    have "s1 = (if sv_after_reply s = After_Receive then ?s2 else close_peer ?s2)"
      "sent evs = slice (sv_reply_offset s) n (sv_reply_buffer s)"
      "sv_after_reply s = After_Install \<longrightarrow> Updated (fs_bin (sv_file s)) \<in> set evs"
      using f late ns(2,3) n(1,2) by (auto simp: flush_reply_def Let_def close_peer_bin split: if_splits)
    then show ?thesis
      using loop f \<open>ens = []\<close> n(3) by (intro exI [of _ evs] exI [of _ s1] exI [of _ "en_t_flushed en"]) (simp add: Let_def)
  next
    case (Cons m ms)
    have "0 < sum_list ns'" using ns(4) Cons by (auto simp: flushes_def list_all2_Cons2)
    then have n: "sv_reply_offset s + n < sv_reply_size s" using Cons.prems(5) ns(1) by simp
    define s1 where "s1 = s\<lparr>sv_reply_offset := sv_reply_offset s + n\<rparr>"
    have f: "flush_reply en s = ([Sent (slice (sv_reply_offset s) n (sv_reply_buffer s))], s1)"
      using late ns(2,3) n by (simp add: flush_reply_def Let_def s1_def)
    have "served s1" "sv_reply_size s1 \<noteq> 0" "sv_reply_offset s1 + sum_list ns' = sv_reply_size s1"
      using Cons.prems(3-5) ns(1) by (simp_all add: s1_def served_def)
    moreover have "on_time M cf ens s1" using Cons.prems(2) loop f by simp
    ultimately obtain evs s2 t where r: "server_run M cf ens s1 = Some (evs, s2)"
      "sent evs = slice (sv_reply_offset s1) (sv_reply_size s1 - sv_reply_offset s1) (sv_reply_buffer s1)"
      "let s3 = s1\<lparr>sv_reply_size := 0, sv_reply_offset := 0, sv_progress_at := t\<rparr> in
        s2 = (if sv_after_reply s1 = After_Receive then s3 else close_peer s3)"
      "sv_after_reply s1 = After_Install \<longrightarrow> Updated (fs_bin (sv_file s1)) \<in> set evs"
      using Cons.IH [OF ns(4), of s1] Cons by auto
    have "n + (sv_reply_size s - (sv_reply_offset s + n)) = sv_reply_size s - sv_reply_offset s" using n by simp
    then have "sent (Sent (slice (sv_reply_offset s) n (sv_reply_buffer s)) # evs) =
        slice (sv_reply_offset s) (sv_reply_size s - sv_reply_offset s) (sv_reply_buffer s)"
      using r(2) slice_slice [of "sv_reply_offset s" n "sv_reply_buffer s"] by (simp add: s1_def)
    then show ?thesis
      using loop f r(1,3,4)
      by (intro exI [of _ "Sent (slice (sv_reply_offset s) n (sv_reply_buffer s)) # evs"] exI [of _ s2] exI [of _ t])
        (simp add: s1_def Let_def)
  qed
qed

section \<open>The body\<close>

text \<open>A server in the middle of a good transfer.\<close>

definition body_at ::
  "('a, 'h) mbedtls \<Rightarrow> bytes \<Rightarrow> bytes \<Rightarrow> bytes \<times> u8 \<Rightarrow> bytes \<Rightarrow> bytes \<Rightarrow> bytes \<Rightarrow> ('a, 'h) server \<Rightarrow> bool" where
  "body_at M header identity own whole q wire s \<longleftrightarrow> served s \<and> sv_receiving s \<and> sv_reply_size s = 0 \<and>
     length (sv_reply_buffer s) = 640 \<and> \<not> rx_complete (sv_rx s) \<and> (rx_key (sv_rx s), rx_panel (sv_rx s)) = own \<and>
     (\<exists>p. transfer M header wire p (sv_rx s) \<and> length (rx_vectors (sv_rx s)) = 8 \<and>
        file_staged (sv_file s) = Some p \<and> file_healthy (sv_file s) \<and> search_exact identity (sv_rx s) p) \<and>
     ctr_spec M (rx_aes (sv_rx s)) (slice 13 16 header) 0 whole = Some q"

definition install_pending :: "bytes \<Rightarrow> ('a, 'h) server \<Rightarrow> bool" where
  "install_pending q s \<longleftrightarrow> served s \<and> sv_reply_size s = length ok_true \<and> sv_reply_offset s = 0 \<and>
     sv_after_reply s = After_Install \<and> fs_bin (sv_file s) = Some q \<and>
     take (length ok_true) (sv_reply_buffer s) = ok_true"

lemma body_chunk_accepts:
  assumes tot: "mbedtls_total M" and H: "sha_streams M H" and sz: "mbedtls_sizes M" and uh: "unique_head identity"
    and at: "body_at M header identity own (wire @ d @ rest) q wire s" and "d \<noteq> []"
    and ver: "verified_image M H (fst own) (snd own) identity header (wire @ d @ rest) q"
  shows "if rest = [] then install_pending q (body_chunk M en d s)
    else body_at M header identity own (wire @ d @ rest) q (wire @ d) (body_chunk M en d s)"
proof -
  obtain p where p: "transfer M header wire p (sv_rx s)" "length (rx_vectors (sv_rx s)) = 8"
    "file_staged (sv_file s) = Some p" "file_healthy (sv_file s)" "search_exact identity (sv_rx s) p"
    and spec: "ctr_spec M (rx_aes (sv_rx s)) (slice 13 16 header) 0 (wire @ d @ rest) = Some q"
    using at by (auto simp: body_at_def)
  have own: "verified_image M H (rx_key (sv_rx s)) (rx_panel (sv_rx s)) identity header (wire @ d @ rest) q"
    using at ver by (auto simp: body_at_def)
  obtain r f plain where fed: "ota_feed M file_ops d (sv_rx s) (sv_file s) = (True, r, f)" and
    nxt: "if rest = [] then rx_complete r \<and> fs_bin f = Some q
     else transfer M header (wire @ d) (p @ plain) r \<and> file_staged f = Some (p @ plain) \<and>
       file_healthy f \<and> search_exact identity r (p @ plain) \<and> length (rx_vectors r) = 8 \<and>
       rx_aes r = rx_aes (sv_rx s) \<and> rx_key r = rx_key (sv_rx s) \<and> rx_panel r = rx_panel (sv_rx s)"
    using fsr.feed_accepts [OF tot H sz p uh spec own assms(6)] by blast
  have ok: "length ok_true \<le> 640" "length ok_true \<noteq> 0" by (simp_all add: ok_true_def)
  show ?thesis
  proof (cases "rest = []")
    case True
    with fed nxt ok at show ?thesis
      by (simp add: body_chunk_def reply_def install_pending_def body_at_def served_def Let_def)
  next
    case False
    have "\<not> rx_complete (sv_rx s)" using at by (simp add: body_at_def)
    moreover have "rx_sink r" using nxt False by (simp add: transfer_def)
    ultimately have running: "\<not> rx_complete r" using ota_feed_complete [OF fed] by simp
    then have "body_chunk M en d s = s\<lparr>sv_rx := r, sv_file := f, sv_progress_at := en_t_now en\<rparr>"
      using fed by (simp add: body_chunk_def Let_def)
    with False nxt at spec running show ?thesis
      by (simp add: body_at_def served_def)
  qed
qed

lemma body_phase:
  assumes "mbedtls_total M" and "sha_streams M H" and "mbedtls_sizes M" and "unique_head identity"
    and "delivers ens ds" and "on_time M cf ens s" and "ds \<noteq> []"
    and "body_at M header identity own (wire @ concat ds) q wire s"
    and "verified_image M H (fst own) (snd own) identity header (wire @ concat ds) q"
  shows "\<exists>s1. server_run M cf ens s = Some ([], s1) \<and> install_pending q s1"
  using assms(5-9)
proof (induction ens arbitrary: ds s wire)
  case Nil
  then show ?case by (simp add: delivers_def)
next
  case (Cons en ens)
  from Cons.prems(1) obtain d ds' where ds: "ds = d # ds'" "en_recv en = Recv_data d" "d \<noteq> []" "delivers ens ds'"
    by (auto simp: delivers_def list_all2_Cons1)
  have at: "served s" "sv_receiving s" "sv_reply_size s = 0" using Cons.prems(4) by (simp_all add: body_at_def)
  define s0 where "s0 = s\<lparr>sv_progress_at := en_t_now en\<rparr>"
  have at0: "body_at M header identity own (wire @ d @ concat ds') q wire s0"
    using Cons.prems(4) ds(1) by (auto simp: body_at_def s0_def served_def)
  have "receive_chunk M cf en d s = Some (body_chunk M en d s0)"
    using ds(3) at(2) by (cases d) (simp_all add: receive_chunk_def s0_def)
  then have loop: "ota_loop M cf en s = Some ([], body_chunk M en d s0)"
    using ota_loop_served [OF at(1), of en M cf] Cons.prems(2) at(3) ds(2,3) by simp
  have ver: "verified_image M H (fst own) (snd own) identity header (wire @ d @ concat ds') q"
    using Cons.prems(5) ds(1) by simp
  note chunk = body_chunk_accepts [OF assms(1-4) at0 ds(3) ver, of en]
  show ?case
  proof (cases ds')
    case Nil
    then have "ens = []" using ds(4) by (simp add: delivers_def)
    with chunk Nil loop show ?thesis by simp
  next
    case (Cons c cs)
    then have more: "concat ds' \<noteq> []" using ds(4) by (auto simp: delivers_def list_all2_Cons2)
    have "on_time M cf ens (body_chunk M en d s0)" using Cons.prems(2) loop by simp
    moreover have "body_at M header identity own ((wire @ d) @ concat ds') q (wire @ d) (body_chunk M en d s0)"
      using chunk more by simp
    ultimately obtain s1 where "server_run M cf ens (body_chunk M en d s0) = Some ([], s1)" "install_pending q s1"
      using Cons.IH [OF ds(4), of "body_chunk M en d s0" "wire @ d"] ver Cons by auto
    with loop show ?thesis by simp
  qed
qed

section \<open>The whole upload\<close>

lemma header_complete_accepts:
  assumes "ota_begin M file_ops (sv_header s) (sv_rx s) (sv_file s) = (True, r, f)"
    and "sv_nonce_valid s" and "en_t_now en - sv_challenge_at s \<le> 60000" and "sv_reply_size s = 0"
  shows "header_complete M en False s =
    s\<lparr>sv_rx := r, sv_file := f, sv_nonce_valid := False, sv_receiving := True,
      sv_reply_buffer := accepted_true @ drop (length accepted_true) (sv_reply_buffer s),
      sv_reply_size := length accepted_true, sv_reply_offset := 0, sv_reply_started := en_t_reply en,
      sv_after_reply := After_Receive\<rparr>"
proof -
  have "length accepted_true \<le> 640" by (simp add: accepted_true_def)
  with assms show ?thesis by (simp add: header_complete_def reply_def not_less Let_def)
qed

end
