(* ===== verification/Ota_Server_Liveness.thy ===== *)
theory Ota_Server_Liveness
  imports Ota_Server_Phases
begin

text \<open>
  A whole session over the socket: a status query that opens a challenge, then an update in a second
  connection; as long as no deadline of the server passes and Mbed TLS and the files report no
  failure, the image is installed.
\<close>

section \<open>The upload\<close>

lemma upload_installs:
  assumes "mbedtls_total M" and "sha_streams M H" and "mbedtls_sizes M" and "unique_head identity"
    and inv: "server_inv M H (key, panel, identity) s" and "served s" and "sv_reply_size s = 0" and "sv_header_size s = 0"
    and "\<not> sv_receiving s" and "\<not> sv_querying s" and "sv_nonce_valid s" and "rx_issued (sv_rx s)"
    and "\<not> rx_sink (sv_rx s)" and "fs_faults (sv_file s) = []"
    and "slice 13 32 header = rx_nonce (sv_rx s)"
    and "verified_image M H key panel identity header (concat body) p"
    and "concat head = header" and "delivers e1 head" and "flushes e2 ns" and "sum_list ns = length accepted_true"
    and "delivers e3 body" and "flushes e4 ms" and "sum_list ms = length ok_true"
    and "on_time M cf (e1 @ e2 @ e3 @ e4) s" and "en_t_now (last e1) - sv_challenge_at s \<le> 60000"
  shows "\<exists>evs s1. server_run M cf (e1 @ e2 @ e3 @ e4) s = Some (evs, s1) \<and>
    sent evs = accepted_true @ ok_true \<and> Updated (Some p) \<in> set evs"
proof -
  have core: "length (sv_header s) = 141" "length (sv_reply_buffer s) = 640" "rx_wf (sv_rx s)"
    "rx_key (sv_rx s) = key" "rx_panel (sv_rx s) = panel" "rx_identity (sv_rx s) = Some identity"
    using inv by (simp_all add: server_inv_def server_core_def owned_by_def rx_inv_def OTA_HEADER_SIZE_def)
  have id: "cstring identity" using core(3,6) assms(12) by (simp add: rx_wf_def)
  have auth: "length header = 141" "take 8 header = update_magic"
    using assms(16) by (auto simp: verified_image_def header_authentic_def OTA_HEADER_SIZE_def)
  have "file_healthy (sv_file s)" using assms(14) by (simp add: file_healthy_def)
  have ver: "verified_image M H (rx_key (sv_rx s)) (rx_panel (sv_rx s)) identity header (concat body) p"
    using assms(16) core(4,5) by simp
  obtain r f where begun: "ota_begin M file_ops header (sv_rx s) (sv_file s) = (True, r, f)"
    "transfer M header [] [] r" "length (rx_vectors r) = 8" "file_staged f = Some []" "file_healthy f"
    "search_exact identity r []" "ctr_spec M (rx_aes r) (slice 13 16 header) 0 (concat body) = Some p"
    "rx_key r = key" "rx_panel r = panel"
    using fsr.begin_accepts [OF assms(1,3) core(3) assms(13,12) \<open>file_healthy (sv_file s)\<close> core(6) id assms(15) ver]
      core(4,5) by auto
  have running: "\<not> rx_complete r"
    using ota_begin_complete [OF begun(1)] assms(13) begun(2) by (simp add: transfer_def)
  have "head \<noteq> []" "body \<noteq> []"
    using assms(16,17) auth(1) by (auto simp: verified_image_def header_authentic_def)
  note time1 = on_time_append [OF assms(24)]
  have "header_at False header 0 s" using assms(8-10) core(1) by (simp add: header_at_def)
  then obtain h t where h: "take 141 h = header" "length h = 141" and "server_run M cf e1 s =
      Some ([], header_complete M (last e1) False (with_header False h 141 (s\<lparr>sv_progress_at := t\<rparr>)))"
    using header_phase [OF assms(18) conjunct1 [OF time1] assms(6,7) \<open>head \<noteq> []\<close>, of False header 0] assms(17) auth
    by (auto simp: head_size_def head_magic_def head_done_def OTA_HEADER_SIZE_def)
  then have run1: "server_run M cf e1 s =
      Some ([], header_complete M (last e1) False (with_header False header 141 (s\<lparr>sv_progress_at := t\<rparr>)))" by simp
  define s1 where "s1 = header_complete M (last e1) False (with_header False header 141 (s\<lparr>sv_progress_at := t\<rparr>))"
  have s1: "s1 = s\<lparr>sv_header := header, sv_header_size := 141, sv_querying := False, sv_progress_at := t, sv_rx := r, sv_file := f,
      sv_nonce_valid := False, sv_receiving := True,
      sv_reply_buffer := accepted_true @ drop (length accepted_true) (sv_reply_buffer s),
      sv_reply_size := length accepted_true, sv_reply_offset := 0, sv_reply_started := en_t_reply (last e1),
      sv_after_reply := After_Receive\<rparr>"
    using begun(1) assms(7,11,25) by (simp add: s1_def header_complete_accepts with_header_def)
  have time2: "on_time M cf (e2 @ e3 @ e4) s1" using time1 run1 by (simp add: s1_def)
  have replies: "length accepted_true \<noteq> 0" "length ok_true \<noteq> 0" "length accepted_true \<le> 640"
    by (simp_all add: accepted_true_def ok_true_def)
  have "ns \<noteq> []" "ms \<noteq> []" using assms(20,23) replies by auto
  have served1: "served s1" using assms(6) by (simp add: s1 served_def)
  from flush_phase [OF assms(19) conjunct1 [OF on_time_append [OF time2]] served1 _ _ \<open>ns \<noteq> []\<close>]
  obtain evs2 s2 u where run2: "server_run M cf e2 s1 = Some (evs2, s2)"
    and s2: "s2 = s1\<lparr>sv_reply_size := 0, sv_reply_offset := 0, sv_progress_at := u\<rparr>" "sent evs2 = accepted_true"
    using assms(20) replies(1) by (auto simp: s1 slice_def)
  have time3: "on_time M cf (e3 @ e4) s2" using on_time_append [OF time2] run2 by blast
  have "body_at M header identity (key, panel) ([] @ concat body) p [] s2"
    using begun(2-9) running served1 core(2) replies(3) by (simp add: body_at_def s2(1) s1 served_def)
  then obtain s3 where run3: "server_run M cf e3 s2 = Some ([], s3)" and pending: "install_pending p s3"
    using body_phase [OF assms(1-4,21) conjunct1 [OF on_time_append [OF time3]] \<open>body \<noteq> []\<close>, of header "(key, panel)" "[]" p]
      assms(16) by auto
  have time4: "on_time M cf e4 s3" using on_time_append [OF time3] run3 by blast
  obtain evs4 s4 where run4: "server_run M cf e4 s3 = Some (evs4, s4)" "Updated (Some p) \<in> set evs4" "sent evs4 = ok_true"
    using flush_phase [OF assms(22) time4 _ _ _ \<open>ms \<noteq> []\<close>] pending assms(23) replies(2)
    by (auto simp: install_pending_def slice_def)
  from server_run_append [OF run3 run4(1)] server_run_append [OF run2]
  have "server_run M cf (e2 @ e3 @ e4) s1 = Some (evs2 @ [] @ evs4, s4)" by blast
  from server_run_append [OF run1 [folded s1_def] this] run4(2,3) s2(2) show ?thesis by auto
qed

section \<open>The status query\<close>

lemma status_text_cong:
  assumes "sv_boot_id s = sv_boot_id s'" and "sv_nonce_valid s = sv_nonce_valid s'" and "sv_reason s = sv_reason s'"
    and "sv_nonce_hex s = sv_nonce_hex s'" and "slice 8 32 (sv_header s) = slice 8 32 (sv_header s')"
  shows "status_text cf s = status_text cf s'"
  using assms by (simp add: status_text_def)

lemma length_query_magic: "length query_magic = 8"
  by (simp add: query_magic_def)

text \<open>The status that answers a request, as a text.\<close>

definition answer_text :: "ota_config \<Rightarrow> bytes \<Rightarrow> bytes \<Rightarrow> ('a, 'h) server \<Rightarrow> bytes" where
  "answer_text cf nonce request s = status_text cf (s\<lparr>sv_nonce_valid := True,
     sv_nonce_hex := bytes_of (to_hex nonce), sv_header := query_magic @ request\<rparr>)"

lemma query_answered:
  assumes "mbedtls_sizes M" and inv: "server_inv M H (key, panel, identity) s"
    and "served s" and "sv_reply_size s = 0" and "sv_header_size s = 0" and "\<not> sv_receiving s" and "\<not> sv_querying s"
    and "rx_configured (sv_rx s)" and "\<not> rx_sink (sv_rx s)"
    and "concat qs = query_magic @ request" and "length request = 32" and "delivers q1 qs"
    and "en_trng (last q1) = (0, nonce)" and "length nonce = 32" and "nonce \<noteq> replicate 32 0"
    and "md_hmac M key auth_label = Some auth_key" and "md_hmac M auth_key (answer_text cf nonce request s) = Some tag"
    and "flushes q2 ks" and "sum_list ks = length (answer_text cf nonce request s) + 65" and "on_time M cf (q1 @ q2) s"
  shows "\<exists>evs s1. server_run M cf (q1 @ q2) s = Some (evs, s1) \<and>
    sent evs = answer_text cf nonce request s @ bytes_of (to_hex tag) @ [10] \<and>
    sv_ready s1 \<and> sv_listening s1 \<and> \<not> sv_peer s1 \<and> sv_nonce_valid s1 \<and> sv_challenge_at s1 = en_t_challenge (last q1) \<and>
    rx_issued (sv_rx s1) \<and> rx_nonce (sv_rx s1) = nonce \<and> sv_file s1 = sv_file s"
proof -
  let ?text = "answer_text cf nonce request s"
  have core: "length (sv_header s) = 141" "length (sv_nonce s) = 32" "length (sv_reply_buffer s) = 640" "rx_key (sv_rx s) = key"
    using inv by (simp_all add: server_inv_def server_core_def owned_by_def OTA_HEADER_SIZE_def)
  have "qs \<noteq> []" using assms(10) length_query_magic by auto
  have at: "header_at True (query_magic @ request) 0 s" using assms(5-7) core(1) by (simp add: header_at_def)
  note time = on_time_append [OF assms(20)]
  obtain h t where h: "take 40 h = query_magic @ request" "length h = 141" and
    run1: "server_run M cf q1 s = Some ([], ota_status M cf (last q1) (with_header True h 40 (s\<lparr>sv_progress_at := t\<rparr>)))"
    using header_phase [OF assms(12) conjunct1 [OF time] assms(3,4) \<open>qs \<noteq> []\<close> at] assms(10,11)
    by (auto simp: head_size_def head_magic_def head_done_def length_query_magic)
  define b where "b = with_header True h 40 (s\<lparr>sv_progress_at := t\<rparr>)"
  have b: "length (sv_nonce b) = 32" "sv_ready b" "sv_reply_size b = 0" "rx_configured (sv_rx b)" "rx_key (sv_rx b) = key"
    "sv_reply_buffer b = sv_reply_buffer s" "sv_file b = sv_file s" "\<not> rx_sink (sv_rx b)" "served b"
    using assms(3,4,8,9) core(2,4) by (simp_all add: b_def with_header_def served_def)
  have "slice 8 32 h = request"
  proof -
    have "slice 8 32 h = drop 8 (take 40 h)" by (simp add: slice_def take_drop)
    then show ?thesis using h(1) length_query_magic by simp
  qed
  then have said: "status_text cf (challenged (last q1) nonce b) = ?text"
    unfolding answer_text_def using assms(11) length_query_magic
    by (intro status_text_cong) (simp_all add: challenged_def b_def with_header_def, simp add: slice_def)
  have fresh: "new_challenge (last q1) b = challenged (last q1) nonce b"
    by (rule new_challenge_state [OF b(1,2) assms(13-15)])
  define s1 where "s1 = ota_status M cf (last q1) b"
  have "md_hmac M (rx_key (sv_rx b)) auth_label = Some auth_key" using assms(16) b(5) by simp
  from ota_status_state [OF fresh b(3) assms(1) b(4) this assms(17) [folded said]]
  have s1: "s1 = (challenged (last q1) nonce b)\<lparr>
      sv_reply_buffer := (?text @ bytes_of (to_hex tag) @ [10]) @ drop (length ?text + 65) (sv_reply_buffer s),
      sv_reply_size := length ?text + 65, sv_reply_offset := 0,
      sv_reply_started := en_t_reply (last q1), sv_after_reply := After_Close\<rparr>" and tag: "length tag = 32"
    unfolding said s1_def b(6) by simp_all
  have time2: "on_time M cf q2 s1" using time run1 by (simp add: s1_def b_def)
  have "ks \<noteq> []" using assms(19) by auto
  have st: "served s1" "sv_reply_size s1 \<noteq> 0" "sv_reply_offset s1 + sum_list ks = sv_reply_size s1"
    using assms(19) b(9) by (simp_all add: s1 challenged_def served_def)
  from flush_phase [OF assms(18) time2 st \<open>ks \<noteq> []\<close>] obtain evs s2 u where run2: "server_run M cf q2 s1 = Some (evs, s2)"
    and ev: "sent evs = slice 0 (length ?text + 65) (sv_reply_buffer s1)"
    and s2: "s2 = close_peer (s1\<lparr>sv_reply_size := 0, sv_reply_offset := 0, sv_progress_at := u\<rparr>)"
    by (auto simp: s1 Let_def)
  have "sent evs = ?text @ bytes_of (to_hex tag) @ [10]" using tag by (simp add: ev s1 slice_def)
  moreover have "server_run M cf (q1 @ q2) s = Some (evs, s2)"
    using server_run_append [OF run1 [folded b_def s1_def] run2] by simp
  moreover have "sv_ready s2 \<and> sv_listening s2 \<and> \<not> sv_peer s2 \<and> sv_nonce_valid s2 \<and> sv_challenge_at s2 = en_t_challenge (last q1) \<and>
    rx_issued (sv_rx s2) \<and> rx_nonce (sv_rx s2) = nonce \<and> sv_file s2 = sv_file s"
    using b(4,7,8,9) by (simp add: s2 s1 close_peer_def ota_abort_def challenged_def ota_challenge_def served_def)
  ultimately show ?thesis by blast
qed

section \<open>A whole session\<close>


section \<open>A clock that stands still\<close>

text \<open>Calls that all happen at the same time are in time; used for the sample upload.\<close>

definition clocks_at :: "u32 \<Rightarrow> ('a, 'h) server \<Rightarrow> bool" where
  "clocks_at t s \<longleftrightarrow> sv_connected_at s = t \<and> sv_progress_at s = t \<and> sv_reply_started s = t"

definition env_at :: "u32 \<Rightarrow> loop_env \<Rightarrow> bool" where
  "env_at t en \<longleftrightarrow> en_wifi en \<and> en_t_now en = t \<and> en_t_flush en = t \<and> en_t_flushed en = t \<and> en_t_reply en = t \<and>
     en_t_accept en = t"

lemma clocks_close [simp]: "clocks_at t (close_peer s) = clocks_at t s"
  by (simp add: close_peer_def clocks_at_def split: prod.split)

lemma clocks_reply: "clocks_at t s \<Longrightarrow> clocks_at t (reply t first action extra s)"
  by (cases "sv_reply_size s \<noteq> 0 \<or> length first + length extra > 640") (simp_all add: reply_def, simp add: clocks_at_def)

lemma clocks_flush: "clocks_at t s \<Longrightarrow> env_at t en \<Longrightarrow> clocks_at t (snd (flush_reply en s))"
proof -
  assume "clocks_at t s" "env_at t en"
  then have "clocks_at t (s\<lparr>sv_reply_offset := n\<rparr>)"
    "clocks_at t (s\<lparr>sv_reply_size := 0, sv_reply_offset := 0, sv_progress_at := en_t_flushed en\<rparr>)" for n
    by (simp_all add: clocks_at_def env_at_def)
  with \<open>clocks_at t s\<close> show ?thesis
    by (auto simp: flush_reply_def Let_def split: send_result.split)
qed

lemma clocks_status: "clocks_at t s \<Longrightarrow> env_at t en \<Longrightarrow> clocks_at t (ota_status M cf en s)"
proof -
  assume "clocks_at t s" "env_at t en"
  moreover from this(1) have "clocks_at t (new_challenge en s)"
    by (simp add: new_challenge_def clocks_at_def split: prod.split bool.split)
  ultimately show ?thesis
    by (simp add: ota_status_def clocks_reply env_at_def Let_def split: option.split)
qed

lemma clocks_header_complete: "clocks_at t s \<Longrightarrow> env_at t en \<Longrightarrow> clocks_at t (header_complete M en body_too s)"
proof -
  assume c: "clocks_at t s" "env_at t en"
  obtain ok r f where b: "ota_begin M file_ops (sv_header s) (sv_rx s) (sv_file s) = (ok, r, f)"
    by (cases "ota_begin M file_ops (sv_header s) (sv_rx s) (sv_file s)")
  have "clocks_at t (s\<lparr>sv_rx := r, sv_file := f\<rparr>)"
    "clocks_at t (s\<lparr>sv_rx := r, sv_file := f, sv_nonce_valid := False, sv_receiving := True\<rparr>)"
    using c(1) by (simp_all add: clocks_at_def)
  with c b show ?thesis by (simp add: header_complete_def clocks_reply env_at_def Let_def)
qed

lemma clocks_header_loop:
  "clocks_at t s \<Longrightarrow> env_at t en \<Longrightarrow> header_loop M cf en bs s = Some (stop, rest, s1) \<Longrightarrow> clocks_at t s1"
proof (induction bs arbitrary: s)
  case Nil
  then show ?case by simp
next
  case (Cons b bs)
  have "clocks_at t s2" if "header_byte M cf en (bs \<noteq> []) b s = Some (stop2, s2)" for stop2 s2
  proof -
    have "clocks_at t (s\<lparr>sv_header := h, sv_header_size := k\<rparr>)" "clocks_at t (s\<lparr>sv_header := h, sv_header_size := k, sv_querying := q\<rparr>)"
      for h k q using Cons.prems(1) by (simp_all add: clocks_at_def)
    with that Cons.prems(2) show ?thesis
      by (auto simp: header_byte_def Let_def clocks_status clocks_header_complete split: if_splits)
  qed
  with Cons show ?case by (auto split: if_splits option.splits prod.splits bool.splits)
qed

lemma clocks_body: "clocks_at t s \<Longrightarrow> env_at t en \<Longrightarrow> clocks_at t (body_chunk M en data s)"
proof -
  assume c: "clocks_at t s" "env_at t en"
  obtain ok r f where b: "ota_feed M file_ops data (sv_rx s) (sv_file s) = (ok, r, f)"
    by (cases "ota_feed M file_ops data (sv_rx s) (sv_file s)")
  have "clocks_at t (s\<lparr>sv_rx := r, sv_file := f\<rparr>)" "clocks_at t (s\<lparr>sv_rx := r, sv_file := f, sv_progress_at := t\<rparr>)"
    using c(1) by (simp_all add: clocks_at_def)
  with c b show ?thesis by (simp add: body_chunk_def clocks_reply env_at_def Let_def)
qed

lemma clocks_receive:
  assumes "clocks_at t s" and "env_at t en" and "receive_chunk M cf en data s = Some s1"
  shows "clocks_at t s1"
proof -
  have "clocks_at t (s\<lparr>sv_progress_at := en_t_now en\<rparr>)" using assms(1,2) by (simp add: clocks_at_def env_at_def)
  from clocks_header_loop [OF this assms(2)] assms(2,3) show ?thesis
    by (auto simp: receive_chunk_def split: option.splits prod.splits bool.splits if_splits intro: clocks_body)
qed

lemma clocks_serve:
  assumes "clocks_at t s" and "env_at t en" and "serve_peer M cf en s = Some (evs, s1)"
  shows "clocks_at t s1"
  using assms clocks_flush [OF assms(1,2)] clocks_receive [OF assms(1,2)]
  by (auto simp: serve_peer_def split: if_splits recv_result.splits dest: arg_cong [of _ _ snd])

lemma clocks_listen: "clocks_at t s \<Longrightarrow> clocks_at t (snd (listen_step en s))"
  by (simp add: listen_step_def Let_def clocks_at_def)

lemma clocks_accept: "clocks_at t s \<Longrightarrow> env_at t en \<Longrightarrow> clocks_at t (snd (accept_step en s))"
  by (simp add: accept_step_def Let_def close_peer_def clocks_at_def env_at_def split: prod.split)

lemma clocks_loop:
  assumes "clocks_at t s" and "env_at t en" and "ota_loop M cf en s = Some (evs, s1)"
  shows "clocks_at t s1"
proof -
  obtain go u1 where l: "listen_step en s = (go, u1)" by (cases "listen_step en s")
  obtain go2 u2 where a: "accept_step en u1 = (go2, u2)" by (cases "accept_step en u1")
  have "clocks_at t u1" using clocks_listen [OF assms(1), of en] l by simp
  moreover from clocks_accept [OF this assms(2)] a have "clocks_at t u2" by simp
  moreover have "en_wifi en" using assms(2) by (simp add: env_at_def)
  ultimately show ?thesis
    using assms(1,3) l a clocks_serve [OF \<open>clocks_at t u2\<close> assms(2)]
    by (auto simp: ota_loop_def split: if_splits bool.splits)
qed

lemma still_on_time:
  assumes "sha_streams M H" and "mbedtls_sizes M" and "\<forall>en \<in> set ens. env_at t en"
    and "clocks_at t s" and "server_inv M H own s"
  shows "on_time M cf ens s"
  using assms(3-5)
proof (induction ens arbitrary: s)
  case (Cons en ens)
  obtain evs s1 where one: "ota_loop M cf en s = Some (evs, s1)" "server_inv M H own s1"
    using ota_loop_inv [OF Cons.prems(3) assms(1,2), of cf en] by blast
  have en: "env_at t en" using Cons.prems(1) by simp
  have "clocks_at t s1" by (rule clocks_loop [OF Cons.prems(2) en one(1)])
  moreover have "in_time en s"
    using en Cons.prems(2) clocks_accept [OF Cons.prems(2) en] by (simp add: in_time_def env_at_def clocks_at_def Let_def)
  ultimately show ?case using Cons.IH [of s1] Cons.prems(1) one by simp
qed simp

text \<open>The sample server listens with no peer; the calls of the sample session.\<close>

definition sample_idle :: "(u8, u8) server" where
  "sample_idle = sample_waiting\<lparr>sv_peer := False, sv_header := replicate 141 0, sv_header_size := 0\<rparr>"

definition sample_still :: loop_env where
  "sample_still = sample_env\<lparr>en_t_now := 0, en_t_flush := 0, en_t_flushed := 0, en_t_reply := 0, en_t_accept := 0,
     en_t_challenge := 0\<rparr>"

definition sample_receives :: "bytes list \<Rightarrow> loop_env list" where
  "sample_receives ds = map (\<lambda>d. sample_still\<lparr>en_recv := Recv_data d\<rparr>) ds"

definition sample_sends :: "nat list \<Rightarrow> loop_env list" where
  "sample_sends ns = map (\<lambda>n. sample_still\<lparr>en_send := Send_count n\<rparr>) ns"

lemma sample_receives_delivers: "\<forall>d \<in> set ds. d \<noteq> [] \<Longrightarrow> delivers (sample_receives ds) ds"
  by (simp add: delivers_def sample_receives_def list_all2_conv_all_nth)

lemma sample_sends_flushes: "\<forall>n \<in> set ns. 0 < n \<Longrightarrow> flushes (sample_sends ns) ns"
  by (simp add: flushes_def sample_sends_def list_all2_conv_all_nth)

lemma sample_still_at: "\<forall>en \<in> set (sample_receives ds) \<union> set (sample_sends ns). env_at 0 en"
  by (auto simp: sample_receives_def sample_sends_def sample_still_def sample_env_def env_at_def)

lemma sample_receives_ends:
  "en_accept_error (hd (sample_receives (d # ds))) = Accept_ok" "en_accept_socket (hd (sample_receives (d # ds)))"
  "en_trng (last (sample_receives [d, d'])) = (0, sample_nonce)" "en_t_challenge (last (sample_receives [d, d'])) = 0"
  "en_t_now (last (sample_receives [d, d'])) = 0"
  by (simp_all add: sample_receives_def sample_still_def sample_env_def)

lemma sample_idle_facts:
  "connects (hd (sample_receives (d # ds))) sample_idle" "sv_rx sample_idle = sample_issued" "sv_file sample_idle = sample_file"
  "clocks_at 0 sample_idle"
  using sample_receives_ends(1,2) [of d ds]
  by (simp_all add: sample_idle_def sample_waiting_def server_boot_def connects_def clocks_at_def)

lemma sample_idle_inv: "server_inv sample_mbedtls sample_digest (sample_key, 1, sample_identity) sample_idle"
  using sample_waiting_inv [of sample_digest] sample_issued_facts(2)
  by (simp add: server_inv_def server_core_def sample_idle_def OTA_HEADER_SIZE_def sample_waiting_def server_boot_def)

definition sample_session :: "loop_env list" where
  "sample_session =
     (sample_receives [query_magic, sample_nonce] @
      sample_sends [10, length (answer_text sample_config sample_nonce sample_nonce sample_idle) + 55]) @
     sample_receives [take 50 sample_header, drop 50 sample_header] @ sample_sends [3, length accepted_true - 3] @
     sample_receives sample_chunks @ sample_sends [length ok_true]"


end
