(* ===== verification/Smooth_Text.thy ===== *)
theory Smooth_Text
  imports Prelude
begin

text \<open>
  The text renderer of \<open>firmware/giga-filament/giga-filament.ino\<close>: \<open>SmoothGlyph\<close> and
  \<open>SmoothFont\<close> of \<open>smooth_font.h\<close>, \<open>findGlyph\<close> and \<open>drawText\<close>. A font's pixels are 4-bit
  coverages, two to a byte. A run of \<open>drawText\<close> is the list of its \<open>display.set\<close> calls, or
  \<open>None\<close> when it would read past the pixel array. Pen positions are \<open>int\<close>s: the texts drawn
  have at most 31 characters, far from the bounds of the C type.
\<close>

section \<open>Glyphs and fonts\<close>

record smooth_glyph =
  sg_code :: u8
  sg_left :: int
  sg_top :: int
  sg_width :: nat
  sg_height :: nat
  sg_advance :: nat
  sg_offset :: nat

record smooth_font =
  sf_glyphs :: "smooth_glyph list"
  sf_pixels :: "u8 list"
  sf_count :: nat
  sf_ascent :: nat

definition findGlyph :: "smooth_font \<Rightarrow> u8 \<Rightarrow> smooth_glyph option" where
  "findGlyph font code = List.find (\<lambda>g. sg_code g = code) (take (sf_count font) (sf_glyphs font))"

section \<open>Drawing\<close>

type_synonym set_call = "int \<times> int \<times> u32 \<times> u32 \<times> u32"

definition pixel_alpha :: "smooth_font \<Rightarrow> smooth_glyph \<Rightarrow> nat \<Rightarrow> u32 option" where
  "pixel_alpha font g index =
    (if sg_offset g + index div 2 < length (sf_pixels font) then
       let packed = sf_pixels font ! (sg_offset g + index div 2) in
       Some (if odd index then ucast (packed AND 15) else ucast (drop_bit 4 packed))
     else None)"

definition shade :: "u32 \<Rightarrow> nat \<Rightarrow> u32 \<Rightarrow> u32" where
  "shade color bits alpha = (drop_bit bits color AND 255) * alpha div 15"

definition on_screen :: "int \<Rightarrow> int \<Rightarrow> bool" where
  "on_screen px py \<longleftrightarrow> 0 \<le> px \<and> px < 800 \<and> 0 \<le> py \<and> py < 480"

definition draw_cell ::
  "smooth_font \<Rightarrow> u32 \<Rightarrow> int \<Rightarrow> int \<Rightarrow> smooth_glyph \<Rightarrow> nat \<Rightarrow> nat \<Rightarrow> set_call list option" where
  "draw_cell font color x y g row col =
    (case pixel_alpha font g (row * sg_width g + col) of None \<Rightarrow> None | Some alpha \<Rightarrow>
     let px = x + sg_left g + int col; py = y + int (sf_ascent font) + sg_top g + int row in
     Some (if alpha \<noteq> 0 \<and> on_screen px py
           then [(px, py, shade color 16 alpha, shade color 8 alpha, shade color 0 alpha)] else []))"

text \<open>The calls of a sequence of loop bodies, up to the first invalid read.\<close>

fun in_sequence :: "'a list option list \<Rightarrow> 'a list option" where
  "in_sequence [] = Some []"
| "in_sequence (None # _) = None"
| "in_sequence (Some xs # rest) = map_option (\<lambda>ys. xs @ ys) (in_sequence rest)"

definition draw_glyph ::
  "smooth_font \<Rightarrow> u32 \<Rightarrow> int \<Rightarrow> int \<Rightarrow> smooth_glyph \<Rightarrow> set_call list option" where
  "draw_glyph font color x y g =
    in_sequence [draw_cell font color x y g row col. row \<leftarrow> [0..<sg_height g], col \<leftarrow> [0..<sg_width g]]"

fun draw_from :: "smooth_font \<Rightarrow> u32 \<Rightarrow> int \<Rightarrow> int \<Rightarrow> u8 list \<Rightarrow> set_call list option" where
  "draw_from font color x y [] = Some []"
| "draw_from font color x y (p # ps) =
    (case findGlyph font p of None \<Rightarrow> draw_from font color x y ps
     | Some g \<Rightarrow> in_sequence [draw_glyph font color x y g,
                              draw_from font color (x + int (sg_advance g)) y ps])"

fun text_width :: "smooth_font \<Rightarrow> u8 list \<Rightarrow> int" where
  "text_width font [] = 0"
| "text_width font (p # ps) =
    (case findGlyph font p of None \<Rightarrow> 0 | Some g \<Rightarrow> int (sg_advance g)) + text_width font ps"

definition drawText ::
  "smooth_font \<Rightarrow> u8 list \<Rightarrow> int \<Rightarrow> int \<Rightarrow> u32 \<Rightarrow> set_call list option" where
  "drawText font text center y color =
    draw_from font color (center - text_width font text div 2) y text"

section \<open>What a drawing is\<close>

text \<open>The glyphs of a text with their pen positions.\<close>

fun layout :: "smooth_font \<Rightarrow> int \<Rightarrow> u8 list \<Rightarrow> (smooth_glyph \<times> int) list" where
  "layout font x [] = []"
| "layout font x (p # ps) =
    (case findGlyph font p of None \<Rightarrow> layout font x ps
     | Some g \<Rightarrow> (g, x) # layout font (x + int (sg_advance g)) ps)"

text \<open>The coverage (0 to 15) of a cell of a glyph, and the pixels a placed glyph sets.\<close>

definition coverage :: "smooth_font \<Rightarrow> smooth_glyph \<Rightarrow> nat \<Rightarrow> nat \<Rightarrow> nat" where
  "coverage font g row col =
    (let packed = unat (sf_pixels font ! (sg_offset g + (row * sg_width g + col) div 2)) in
     if odd (row * sg_width g + col) then packed mod 16 else packed div 16)"

definition glyph_pixels :: "smooth_font \<Rightarrow> u32 \<Rightarrow> int \<Rightarrow> smooth_glyph \<times> int \<Rightarrow> set_call set" where
  "glyph_pixels font color y placed =
    (case placed of (g, x) \<Rightarrow>
     {(px, py, shade color 16 a, shade color 8 a, shade color 0 a) | px py a row col.
        row < sg_height g \<and> col < sg_width g \<and> a = of_nat (coverage font g row col) \<and>
        coverage font g row col \<noteq> 0 \<and>
        px = x + sg_left g + int col \<and> py = y + int (sf_ascent font) + sg_top g + int row \<and>
        on_screen px py})"

text \<open>Every glyph's coverages lie inside the pixel array, and the count is right.\<close>

definition glyph_ok :: "nat \<Rightarrow> smooth_glyph \<Rightarrow> bool" where
  "glyph_ok n g \<longleftrightarrow> sg_offset g + (sg_width g * sg_height g + 1) div 2 \<le> n"

definition font_ok :: "smooth_font \<Rightarrow> bool" where
  "font_ok font \<longleftrightarrow> sf_count font = length (sf_glyphs font) \<and>
     (\<forall>g \<in> set (sf_glyphs font). glyph_ok (length (sf_pixels font)) g)"

text \<open>
  The layout of a generated table: the glyphs' data follow one another without gap or overlap
  from byte \<open>k\<close> to the end, and no code is listed twice.
\<close>

fun tiles :: "nat \<Rightarrow> smooth_glyph list \<Rightarrow> nat \<Rightarrow> bool" where
  "tiles k [] n = (k = n)"
| "tiles k (g # gs) n = (sg_offset g = k \<and> tiles (k + (sg_width g * sg_height g + 1) div 2) gs n)"

definition font_tiled :: "smooth_font \<Rightarrow> bool" where
  "font_tiled font \<longleftrightarrow> sf_count font = length (sf_glyphs font) \<and>
     distinct (map sg_code (sf_glyphs font)) \<and> tiles 0 (sf_glyphs font) (length (sf_pixels font))"

lemma tiles_bounds: "tiles k gs n \<Longrightarrow> k \<le> n \<and> (\<forall>g \<in> set gs. glyph_ok n g)"
proof (induction gs arbitrary: k)
  case (Cons g gs)
  from Cons.IH [of "k + (sg_width g * sg_height g + 1) div 2"] Cons.prems show ?case
    by (auto simp: glyph_ok_def)
qed simp

lemma font_tiled_ok: "font_tiled font \<Longrightarrow> font_ok font"
  using tiles_bounds by (auto simp: font_tiled_def font_ok_def)

section \<open>The renderer draws exactly the layout\<close>

lemma in_sequence_Some:
  "(\<And>x. x \<in> set xs \<Longrightarrow> x \<noteq> None) \<Longrightarrow> \<exists>ys. in_sequence xs = Some ys \<and> set ys = (\<Union>x \<in> set xs. set (the x))"
proof (induction xs)
  case (Cons x xs)
  have "\<exists>ys. in_sequence xs = Some ys \<and> set ys = (\<Union>x \<in> set xs. set (the x))"
    by (rule Cons.IH) (use Cons.prems in simp)
  then obtain ys where "in_sequence xs = Some ys" "set ys = (\<Union>x \<in> set xs. set (the x))" by blast
  moreover obtain zs where "x = Some zs" using Cons.prems [of x] by auto
  ultimately show ?case by simp
qed simp

lemma findGlyph_ok:
  assumes "font_ok font" and "findGlyph font code = Some g"
  shows "glyph_ok (length (sf_pixels font)) g" and "sg_code g = code"
proof -
  have "g \<in> set (sf_glyphs font)" and "sg_code g = code"
    using assms(2) by (auto simp: findGlyph_def find_Some_iff dest: in_set_takeD [OF nth_mem, of _ "sf_count font"])
  with assms(1) show "glyph_ok (length (sf_pixels font)) g" "sg_code g = code"
    by (auto simp: font_ok_def)
qed

lemma cell_index: "row < h \<Longrightarrow> col < w \<Longrightarrow> (row * w + col) div 2 < (w * h + 1) div (2 :: nat)"
proof -
  assume "row < h" and "col < w"
  have "row * w + col < (row + 1) * w" using \<open>col < w\<close> by simp
  also have "\<dots> \<le> h * w" using \<open>row < h\<close> by (intro mult_right_mono) simp_all
  finally show ?thesis by (simp add: mult.commute)
qed

lemma nibble: "unat (ucast (b AND 15) :: u32) = unat b mod 16" "unat (ucast (drop_bit 4 b) :: u32) = unat b div 16"
  for b :: u8
proof -
  have "b AND 15 = take_bit 4 b" by (simp add: take_bit_eq_mask mask_eq_decr_exp)
  then have low: "unat (b AND 15) = unat b mod 16"
    by (simp only: unsigned_take_bit_eq) (simp add: take_bit_eq_mod)
  have high: "unat (drop_bit 4 b) = unat b div 16"
    by (simp only: unsigned_drop_bit_eq) (simp add: drop_bit_eq_div take_bit_eq_mod)
  have up: "unat (ucast c :: u32) = unat c" for c :: u8
    by (simp add: unsigned_ucast_eq take_bit_eq_mod less_trans [OF unat_u8_less])
  show "unat (ucast (b AND 15) :: u32) = unat b mod 16" "unat (ucast (drop_bit 4 b) :: u32) = unat b div 16"
    by (simp_all only: up low high)
qed

lemma pixel_alpha_coverage:
  assumes "glyph_ok (length (sf_pixels font)) g" and "row < sg_height g" and "col < sg_width g"
  shows "pixel_alpha font g (row * sg_width g + col) = Some (of_nat (coverage font g row col))"
proof -
  have "sg_offset g + (row * sg_width g + col) div 2 < length (sf_pixels font)"
    using cell_index [OF assms(2,3)] assms(1) by (simp add: glyph_ok_def)
  then show ?thesis
    by (simp add: pixel_alpha_def coverage_def Let_def flip: nibble)
qed

lemma coverage_le: "coverage font g row col \<le> 15"
proof -
  have "unat b div 16 \<le> 15" "unat b mod 16 \<le> 15" for b :: u8
    using unat_u8_less [of b] by (linarith, simp)
  then show ?thesis by (simp add: coverage_def Let_def)
qed

lemma draw_glyph_exact:
  assumes "glyph_ok (length (sf_pixels font)) g"
  shows "\<exists>calls. draw_glyph font color x y g = Some calls \<and> set calls = glyph_pixels font color y (g, x)"
proof -
  let ?a = "\<lambda>row col. of_nat (coverage font g row col) :: u32"
  have zero: "?a row col = 0 \<longleftrightarrow> coverage font g row col = 0" for row col
    using coverage_le [of font g row col] by (simp add: word_of_nat_eq_0_iff) (use dvd_imp_le in fastforce)
  have cell: "draw_cell font color x y g row col =
      Some (if coverage font g row col \<noteq> 0 \<and> on_screen (x + sg_left g + int col) (y + int (sf_ascent font) + sg_top g + int row)
        then [(x + sg_left g + int col, y + int (sf_ascent font) + sg_top g + int row,
          shade color 16 (?a row col), shade color 8 (?a row col), shade color 0 (?a row col))] else [])"
    if "row < sg_height g" "col < sg_width g" for row col
    by (simp add: draw_cell_def pixel_alpha_coverage [OF assms that] zero Let_def)
  let ?cells = "[draw_cell font color x y g row col. row \<leftarrow> [0..<sg_height g], col \<leftarrow> [0..<sg_width g]]"
  have cells: "set ?cells = {draw_cell font color x y g row col |row col. row < sg_height g \<and> col < sg_width g}"
    by auto blast
  have "\<exists>calls. in_sequence ?cells = Some calls \<and> set calls = (\<Union>c \<in> set ?cells. set (the c))"
    by (rule in_sequence_Some) (auto simp: cells cell)
  moreover have "(\<Union>c \<in> set ?cells. set (the c)) = glyph_pixels font color y (g, x)"
    unfolding cells glyph_pixels_def by (auto simp: cell split: if_splits) (rule exI, rule conjI, intro exI conjI, rule refl, auto simp: cell)
  ultimately show ?thesis by (simp add: draw_glyph_def)
qed

lemma draw_from_exact:
  assumes "font_ok font"
  shows "\<exists>calls. draw_from font color x y chars = Some calls \<and>
    set calls = (\<Union>placed \<in> set (layout font x chars). glyph_pixels font color y placed)"
proof (induction chars arbitrary: x)
  case (Cons p ps)
  show ?case
  proof (cases "findGlyph font p")
    case None
    with Cons show ?thesis by simp
  next
    case (Some g)
    obtain here where "draw_glyph font color x y g = Some here" "set here = glyph_pixels font color y (g, x)"
      using draw_glyph_exact [OF findGlyph_ok(1) [OF assms Some]] by blast
    moreover obtain rest where "draw_from font color (x + int (sg_advance g)) y ps = Some rest"
      "set rest = (\<Union>placed \<in> set (layout font (x + int (sg_advance g)) ps). glyph_pixels font color y placed)"
      using Cons.IH by blast
    ultimately show ?thesis using Some by simp
  qed
qed simp

lemma shade_le: "a \<le> 15 \<Longrightarrow> shade color bits (of_nat a) \<le> 255"
proof -
  assume "a \<le> 15"
  let ?c = "drop_bit bits color AND 255"
  have c: "unat ?c \<le> 255"
  proof -
    have "?c = take_bit 8 (drop_bit bits color)" by (simp add: take_bit_eq_mask mask_eq_decr_exp)
    then show ?thesis
      by (simp only: unsigned_take_bit_eq) (simp add: take_bit_eq_mod)
  qed
  have "unat ?c * a \<le> 255 * 15" using c \<open>a \<le> 15\<close> by (rule mult_le_mono)
  moreover have "unat (?c * of_nat a) = unat ?c * a"
    using calculation \<open>a \<le> 15\<close> by (simp add: unat_word_ariths unat_of_nat)
  ultimately have "unat (?c * of_nat a div 15) \<le> 255"
    by (simp add: unat_div)
  then show ?thesis by (simp add: shade_def word_le_nat_alt)
qed

lemma glyph_pixels_bounds:
  "(px, py, r, g, b) \<in> glyph_pixels font color y placed \<Longrightarrow> on_screen px py \<and> r \<le> 255 \<and> g \<le> 255 \<and> b \<le> 255"
  by (auto simp: glyph_pixels_def shade_le coverage_le)

end
