(* ===== verification/Lato_Clock.thy ===== *)
theory Lato_Clock
  imports Smooth_Text
begin

text \<open>
  \<open>firmware/giga-filament/smooth_font.h\<close>: the font of the clock digits (Lato Light, 104 px). The
  pixel array is kept with one row of the list per line of the source, in blocks of at most
  148 lines.
\<close>

definition clockFontPixels_1 :: "u8 list list" where
  "clockFontPixels_1 = [
    [0,0,0,12,255,255,255,255,255,255,255,255,255,255,255,245,0,0,0,0,0,0,12,255,255,255,255,255,255,255,255,255],
    [255,255,245,0,0,0,0,0,0,12,255,255,255,255,255,255,255,255,255,255,255,245,0,0,0,0,0,0,12,255,255,255],
    [255,255,255,255,255,255,255,255,245,0,0,0,0,0,0,0,0,0,0,0,0,0,0,0,0,0,0,0,0,0,0,0],
    [0,0,0,0,0,0,0,0,0,0,0,0,0,0,0,0,0,0,0,0,0,0,0,0,0,0,0,0,0,0,0,0],
    [0,0,0,0,0,0,0,0,0,0,0,0,0,0,0,0,0,0,0,0,0,0,0,0,0,0,0,0,0,0,0,0],
    [0,0,0,0,0,0,0,0,0,0,0,0,0,0,0,0,0,0,0,0,0,0,0,0,0,0,0,0,0,0,0,0],
    [0,0,0,0,0,0,0,0,0,0,0,0,0,0,0,0,0,0,0,0,0,0,0,0,0,0,0,0,0,0,0,0],
    [0,0,0,0,0,0,0,0,0,0,0,0,0,0,0,0,0,0,0,0,0,0,0,0,0,0,0,0,0,0,0,0],
    [0,0,0,0,0,0,0,0,0,0,0,0,0,0,0,0,0,0,0,0,0,0,0,0,0,0,0,0,0,0,0,0],
    [0,0,0,0,0,0,0,0,0,0,0,0,0,0,0,0,0,0,0,0,0,0,0,0,0,0,0,0,0,0,0,0],
    [0,0,0,0,0,0,0,0,0,0,0,0,0,0,0,0,0,0,0,0,0,0,0,0,0,0,0,0,0,0,0,0],
    [0,0,0,0,0,0,0,0,0,0,0,0,0,0,0,0,0,0,0,0,0,0,0,0,0,0,0,0,0,0,0,0],
    [0,0,0,0,0,0,0,0,0,0,0,0,0,0,0,0,0,0,0,0,0,0,0,0,0,0,0,0,0,0,0,0],
    [0,0,0,0,0,0,0,0,0,0,0,0,0,0,0,0,0,0,0,0,0,0,0,0,0,0,0,0,0,0,0,0],
    [0,0,0,0,0,0,0,0,0,0,0,0,0,0,0,0,0,0,0,0,0,0,0,0,0,0,0,0,0,0,0,0],
    [0,0,0,0,0,0,0,0,0,0,0,0,0,0,0,0,0,0,0,0,0,0,0,0,0,0,0,0,0,0,0,0],
    [0,0,0,0,0,0,0,0,0,0,0,0,0,0,0,0,0,0,0,0,0,0,0,0,0,0,0,0,0,0,0,0],
    [0,0,0,0,0,0,0,0,0,0,0,0,0,0,0,0,0,0,0,0,0,0,0,0,0,0,0,0,0,0,0,0],
    [0,0,0,0,0,0,0,0,0,0,0,0,0,0,0,0,0,0,0,0,0,0,0,0,0,0,0,0,0,0,0,0],
    [0,0,0,0,0,0,0,0,0,0,0,0,0,0,0,0,0,0,0,0,0,0,0,0,0,0,0,0,0,0,1,88],
    [189,239,254,219,150,32,0,0,0,0,0,0,0,0,0,0,0,0,0,0,0,0,0,0,0,0,0,22,191,255,255,255],
    [255,255,255,252,113,0,0,0,0,0,0,0,0,0,0,0,0,0,0,0,0,0,0,0,24,239,255,255,255,255,255,255],
    [255,255,255,146,0,0,0,0,0,0,0,0,0,0,0,0,0,0,0,0,0,5,239,255,255,255,255,255,255,255,255,255],
    [255,254,128,0,0,0,0,0,0,0,0,0,0,0,0,0,0,0,1,175,255,255,255,233,99,17,1,53,141,255,255,255],
    [252,32,0,0,0,0,0,0,0,0,0,0,0,0,0,0,45,255,255,255,164,0,0,0,0,0,0,57,239,255,255,228],
    [0,0,0,0,0,0,0,0,0,0,0,0,0,2,223,255,255,195,0,0,0,0,0,0,0,0,42,255,255,255,80,0],
    [0,0,0,0,0,0,0,0,0,0,0,46,255,255,247,0,0,0,0,0,0,0,0,0,0,78,255,255,244,0,0,0],
    [0,0,0,0,0,0,0,0,1,207,255,255,64,0,0,0,0,0,0,0,0,0,0,2,223,255,254,48,0,0,0,0],
    [0,0,0,0,0,0,10,255,255,244,0,0,0,0,0,0,0,0,0,0,0,0,45,255,255,209,0,0,0,0,0,0],
    [0,0,0,0,111,255,255,80,0,0,0,0,0,0,0,0,0,0,0,0,2,239,255,249,0,0,0,0,0,0,0,0],
    [0,2,239,255,249,0,0,0,0,0,0,0,0,0,0,0,0,0,0,95,255,255,64,0,0,0,0,0,0,0,0,9],
    [255,255,208,0,0,0,0,0,0,0,0,0,0,0,0,0,0,10,255,255,208,0,0,0,0,0,0,0,0,47,255,255],
    [64,0,0,0,0,0,0,0,0,0,0,0,0,0,0,1,239,255,246,0,0,0,0,0,0,0,0,175,255,250,0,0],
    [0,0,0,0,0,0,0,0,0,0,0,0,0,0,127,255,254,16,0,0,0,0,0,0,2,255,255,243,0,0,0,0],
    [0,0,0,0,0,0,0,0,0,0,0,0,30,255,255,96,0,0,0,0,0,0,8,255,255,160,0,0,0,0,0,0],
    [0,0,0,0,0,0,0,0,0,0,7,255,255,192,0,0,0,0,0,0,14,255,255,64,0,0,0,0,0,0,0,0],
    [0,0,0,0,0,0,0,0,1,255,255,243,0,0,0,0,0,0,95,255,253,0,0,0,0,0,0,0,0,0,0,0],
    [0,0,0,0,0,0,0,175,255,249,0,0,0,0,0,0,175,255,248,0,0,0,0,0,0,0,0,0,0,0,0,0],
    [0,0,0,0,0,79,255,254,0,0,0,0,0,0,239,255,243,0,0,0,0,0,0,0,0,0,0,0,0,0,0,0],
    [0,0,0,14,255,255,64,0,0,0,0,4,255,255,208,0,0,0,0,0,0,0,0,0,0,0,0,0,0,0,0,0],
    [0,10,255,255,128,0,0,0,0,8,255,255,144,0,0,0,0,0,0,0,0,0,0,0,0,0,0,0,0,0,0,6],
    [255,255,192,0,0,0,0,11,255,255,96,0,0,0,0,0,0,0,0,0,0,0,0,0,0,0,0,0,0,2,255,255],
    [241,0,0,0,0,14,255,255,32,0,0,0,0,0,0,0,0,0,0,0,0,0,0,0,0,0,0,0,239,255,244,0],
    [0,0,0,47,255,254,0,0,0,0,0,0,0,0,0,0,0,0,0,0,0,0,0,0,0,0,191,255,247,0,0,0],
    [0,95,255,251,0,0,0,0,0,0,0,0,0,0,0,0,0,0,0,0,0,0,0,0,143,255,249,0,0,0,0,127],
    [255,249,0,0,0,0,0,0,0,0,0,0,0,0,0,0,0,0,0,0,0,0,111,255,252,0,0,0,0,159,255,247],
    [0,0,0,0,0,0,0,0,0,0,0,0,0,0,0,0,0,0,0,0,79,255,254,0,0,0,0,191,255,245,0,0],
    [0,0,0,0,0,0,0,0,0,0,0,0,0,0,0,0,0,0,47,255,255,16,0,0,0,223,255,244,0,0,0,0],
    [0,0,0,0,0,0,0,0,0,0,0,0,0,0,0,0,15,255,255,32,0,0,0,239,255,242,0,0,0,0,0,0],
    [0,0,0,0,0,0,0,0,0,0,0,0,0,0,14,255,255,64,0,0,0,255,255,241,0,0,0,0,0,0,0,0],
    [0,0,0,0,0,0,0,0,0,0,0,0,13,255,255,80,0,0,1,255,255,240,0,0,0,0,0,0,0,0,0,0],
    [0,0,0,0,0,0,0,0,0,0,12,255,255,96,0,0,2,255,255,240,0,0,0,0,0,0,0,0,0,0,0,0],
    [0,0,0,0,0,0,0,0,11,255,255,96,0,0,2,255,255,224,0,0,0,0,0,0,0,0,0,0,0,0,0,0],
    [0,0,0,0,0,0,11,255,255,112,0,0,2,255,255,224,0,0,0,0,0,0,0,0,0,0,0,0,0,0,0,0],
    [0,0,0,0,11,255,255,112,0,0,3,255,255,224,0,0,0,0,0,0,0,0,0,0,0,0,0,0,0,0,0,0],
    [0,0,10,255,255,128,0,0,3,255,255,224,0,0,0,0,0,0,0,0,0,0,0,0,0,0,0,0,0,0,0,0],
    [10,255,255,128,0,0,2,255,255,224,0,0,0,0,0,0,0,0,0,0,0,0,0,0,0,0,0,0,0,0,11,255],
    [255,112,0,0,2,255,255,224,0,0,0,0,0,0,0,0,0,0,0,0,0,0,0,0,0,0,0,0,11,255,255,112],
    [0,0,2,255,255,240,0,0,0,0,0,0,0,0,0,0,0,0,0,0,0,0,0,0,0,0,11,255,255,96,0,0],
    [1,255,255,240,0,0,0,0,0,0,0,0,0,0,0,0,0,0,0,0,0,0,0,0,12,255,255,96,0,0,0,255],
    [255,241,0,0,0,0,0,0,0,0,0,0,0,0,0,0,0,0,0,0,0,0,13,255,255,80,0,0,0,239,255,242],
    [0,0,0,0,0,0,0,0,0,0,0,0,0,0,0,0,0,0,0,0,14,255,255,64,0,0,0,223,255,244,0,0],
    [0,0,0,0,0,0,0,0,0,0,0,0,0,0,0,0,0,0,15,255,255,32,0,0,0,191,255,245,0,0,0,0],
    [0,0,0,0,0,0,0,0,0,0,0,0,0,0,0,0,47,255,255,16,0,0,0,159,255,247,0,0,0,0,0,0],
    [0,0,0,0,0,0,0,0,0,0,0,0,0,0,79,255,254,0,0,0,0,127,255,249,0,0,0,0,0,0,0,0],
    [0,0,0,0,0,0,0,0,0,0,0,0,111,255,252,0,0,0,0,95,255,251,0,0,0,0,0,0,0,0,0,0],
    [0,0,0,0,0,0,0,0,0,0,143,255,249,0,0,0,0,47,255,254,0,0,0,0,0,0,0,0,0,0,0,0],
    [0,0,0,0,0,0,0,0,191,255,247,0,0,0,0,14,255,255,32,0,0,0,0,0,0,0,0,0,0,0,0,0],
    [0,0,0,0,0,0,239,255,244,0,0,0,0,11,255,255,80,0,0,0,0,0,0,0,0,0,0,0,0,0,0,0],
    [0,0,0,2,255,255,241,0,0,0,0,8,255,255,144,0,0,0,0,0,0,0,0,0,0,0,0,0,0,0,0,0],
    [0,6,255,255,192,0,0,0,0,4,255,255,208,0,0,0,0,0,0,0,0,0,0,0,0,0,0,0,0,0,0,10],
    [255,255,128,0,0,0,0,0,239,255,243,0,0,0,0,0,0,0,0,0,0,0,0,0,0,0,0,0,0,14,255,255],
    [64,0,0,0,0,0,175,255,247,0,0,0,0,0,0,0,0,0,0,0,0,0,0,0,0,0,0,79,255,254,0,0],
    [0,0,0,0,95,255,253,0,0,0,0,0,0,0,0,0,0,0,0,0,0,0,0,0,0,175,255,249,0,0,0,0],
    [0,0,14,255,255,64,0,0,0,0,0,0,0,0,0,0,0,0,0,0,0,0,1,239,255,243,0,0,0,0,0,0],
    [8,255,255,160,0,0,0,0,0,0,0,0,0,0,0,0,0,0,0,0,6,255,255,192,0,0,0,0,0,0,2,255],
    [255,242,0,0,0,0,0,0,0,0,0,0,0,0,0,0,0,0,13,255,255,96,0,0,0,0,0,0,0,175,255,249],
    [0,0,0,0,0,0,0,0,0,0,0,0,0,0,0,0,111,255,254,16,0,0,0,0,0,0,0,63,255,255,48,0],
    [0,0,0,0,0,0,0,0,0,0,0,0,0,1,239,255,246,0,0,0,0,0,0,0,0,9,255,255,192,0,0,0],
    [0,0,0,0,0,0,0,0,0,0,0,9,255,255,208,0,0,0,0,0,0,0,0,2,239,255,248,0,0,0,0,0],
    [0,0,0,0,0,0,0,0,0,79,255,255,64,0,0,0,0,0,0,0,0,0,111,255,255,80,0,0,0,0,0,0],
    [0,0,0,0,0,0,2,239,255,249,0,0,0,0,0,0,0,0,0,0,10,255,255,227,0,0,0,0,0,0,0,0],
    [0,0,0,0,29,255,255,209,0,0,0,0,0,0,0,0,0,0,1,207,255,254,64,0,0,0,0,0,0,0,0,0],
    [0,2,223,255,254,48,0,0,0,0,0,0,0,0,0,0,0,46,255,255,246,0,0,0,0,0,0,0,0,0,0,78],
    [255,255,244,0,0,0,0,0,0,0,0,0,0,0,0,2,223,255,255,179,0,0,0,0,0,0,0,0,25,255,255,255],
    [80,0,0,0,0,0,0,0,0,0,0,0,0,0,45,255,255,255,164,0,0,0,0,0,0,40,239,255,255,228,0,0],
    [0,0,0,0,0,0,0,0,0,0,0,0,1,175,255,255,255,217,99,16,1,37,140,255,255,255,252,32,0,0,0,0],
    [0,0,0,0,0,0,0,0,0,0,0,6,239,255,255,255,255,255,255,255,255,255,255,255,128,0,0,0,0,0,0,0],
    [0,0,0,0,0,0,0,0,0,0,24,239,255,255,255,255,255,255,255,255,255,162,0,0,0,0,0,0,0,0,0,0],
    [0,0,0,0,0,0,0,0,0,22,207,255,255,255,255,255,255,253,113,0,0,0,0,0,0,0,0,0,0,0,0,0],
    [0,0,0,0,0,0,0,0,1,88,189,239,254,219,150,32,0,0,0,0,0,0,0,0,0,0,0,0,0,0,0,0],
    [0,0,0,0,0,0,0,0,0,0,10,255,252,0,0,0,0,0,0,0,0,0,0,0,0,0,0,0,0,0,0,0],
    [0,0,0,0,0,0,0,1,191,255,252,0,0,0,0,0,0,0,0,0,0,0,0,0,0,0,0,0,0,0,0,0],
    [0,0,0,0,0,28,255,255,252,0,0,0,0,0,0,0,0,0,0,0,0,0,0,0,0,0,0,0,0,0,0,0],
    [0,0,2,223,255,255,252,0,0,0,0,0,0,0,0,0,0,0,0,0,0,0,0,0,0,0,0,0,0,0,0,0],
    [62,255,255,255,252,0,0,0,0,0,0,0,0,0,0,0,0,0,0,0,0,0,0,0,0,0,0,0,0,4,239,255],
    [255,255,252,0,0,0,0,0,0,0,0,0,0,0,0,0,0,0,0,0,0,0,0,0,0,0,0,111,255,255,255,255],
    [252,0,0,0,0,0,0,0,0,0,0,0,0,0,0,0,0,0,0,0,0,0,0,0,7,255,255,255,143,255,252,0],
    [0,0,0,0,0,0,0,0,0,0,0,0,0,0,0,0,0,0,0,0,0,0,159,255,255,245,47,255,252,0,0,0],
    [0,0,0,0,0,0,0,0,0,0,0,0,0,0,0,0,0,0,0,10,255,255,254,48,63,255,252,0,0,0,0,0],
    [0,0,0,0,0,0,0,0,0,0,0,0,0,0,0,0,1,191,255,255,210,0,63,255,252,0,0,0,0,0,0,0],
    [0,0,0,0,0,0,0,0,0,0,0,0,0,0,44,255,255,252,16,0,63,255,252,0,0,0,0,0,0,0,0,0],
    [0,0,0,0,0,0,0,0,0,0,0,2,223,255,255,177,0,0,63,255,252,0,0,0,0,0,0,0,0,0,0,0],
    [0,0,0,0,0,0,0,0,0,62,255,255,249,0,0,0,63,255,252,0,0,0,0,0,0,0,0,0,0,0,0,0],
    [0,0,0,0,0,0,5,239,255,255,112,0,0,0,63,255,252,0,0,0,0,0,0,0,0,0,0,0,0,0,0,0],
    [0,0,0,0,111,255,255,246,0,0,0,0,63,255,252,0,0,0,0,0,0,0,0,0,0,0,0,0,0,0,0,0],
    [0,7,255,255,254,64,0,0,0,0,63,255,252,0,0,0,0,0,0,0,0,0,0,0,0,0,0,0,0,0,0,159],
    [255,255,211,0,0,0,0,0,63,255,252,0,0,0,0,0,0,0,0,0,0,0,0,0,0,0,0,0,10,255,255,252],
    [32,0,0,0,0,0,63,255,252,0,0,0,0,0,0,0,0,0,0,0,0,0,0,0,0,0,46,255,255,177,0,0],
    [0,0,0,0,63,255,252,0,0,0,0,0,0,0,0,0,0,0,0,0,0,0,0,0,6,255,250,0,0,0,0,0],
    [0,0,63,255,252,0,0,0,0,0,0,0,0,0,0,0,0,0,0,0,0,0,0,124,112,0,0,0,0,0,0,0],
    [63,255,252,0,0,0,0,0,0,0,0,0,0,0,0,0,0,0,0,0,0,0,0,0,0,0,0,0,0,0,63,255],
    [252,0,0,0,0,0,0,0,0,0,0,0,0,0,0,0,0,0,0,0,0,0,0,0,0,0,0,0,63,255,252,0],
    [0,0,0,0,0,0,0,0,0,0,0,0,0,0,0,0,0,0,0,0,0,0,0,0,0,0,63,255,252,0,0,0],
    [0,0,0,0,0,0,0,0,0,0,0,0,0,0,0,0,0,0,0,0,0,0,0,0,63,255,252,0,0,0,0,0],
    [0,0,0,0,0,0,0,0,0,0,0,0,0,0,0,0,0,0,0,0,0,0,63,255,252,0,0,0,0,0,0,0],
    [0,0,0,0,0,0,0,0,0,0,0,0,0,0,0,0,0,0,0,0,63,255,252,0,0,0,0,0,0,0,0,0],
    [0,0,0,0,0,0,0,0,0,0,0,0,0,0,0,0,0,0,63,255,252,0,0,0,0,0,0,0,0,0,0,0],
    [0,0,0,0,0,0,0,0,0,0,0,0,0,0,0,0,63,255,252,0,0,0,0,0,0,0,0,0,0,0,0,0],
    [0,0,0,0,0,0,0,0,0,0,0,0,0,0,63,255,252,0,0,0,0,0,0,0,0,0,0,0,0,0,0,0],
    [0,0,0,0,0,0,0,0,0,0,0,0,63,255,252,0,0,0,0,0,0,0,0,0,0,0,0,0,0,0,0,0],
    [0,0,0,0,0,0,0,0,0,0,63,255,252,0,0,0,0,0,0,0,0,0,0,0,0,0,0,0,0,0,0,0],
    [0,0,0,0,0,0,0,0,63,255,252,0,0,0,0,0,0,0,0,0,0,0,0,0,0,0,0,0,0,0,0,0],
    [0,0,0,0,0,0,63,255,252,0,0,0,0,0,0,0,0,0,0,0,0,0,0,0,0,0,0,0,0,0,0,0],
    [0,0,0,0,63,255,252,0,0,0,0,0,0,0,0,0,0,0,0,0,0,0,0,0,0,0,0,0,0,0,0,0],
    [0,0,63,255,252,0,0,0,0,0,0,0,0,0,0,0,0,0,0,0,0,0,0,0,0,0,0,0,0,0,0,0],
    [63,255,252,0,0,0,0,0,0,0,0,0,0,0,0,0,0,0,0,0,0,0,0,0,0,0,0,0,0,0,63,255],
    [252,0,0,0,0,0,0,0,0,0,0,0,0,0,0,0,0,0,0,0,0,0,0,0,0,0,0,0,63,255,252,0],
    [0,0,0,0,0,0,0,0,0,0,0,0,0,0,0,0,0,0,0,0,0,0,0,0,0,0,63,255,252,0,0,0],
    [0,0,0,0,0,0,0,0,0,0,0,0,0,0,0,0,0,0,0,0,0,0,0,0,63,255,252,0,0,0,0,0],
    [0,0,0,0,0,0,0,0,0,0,0,0,0,0,0,0,0,0,0,0,0,0,63,255,252,0,0,0,0,0,0,0],
    [0,0,0,0,0,0,0,0,0,0,0,0,0,0,0,0,0,0,0,0,63,255,252,0,0,0,0,0,0,0,0,0],
    [0,0,0,0,0,0,0,0,0,0,0,0,0,0,0,0,0,0,63,255,252,0,0,0,0,0,0,0,0,0,0,0],
    [0,0,0,0,0,0,0,0,0,0,0,0,0,0,0,0,63,255,252,0,0,0,0,0,0,0,0,0,0,0,0,0],
    [0,0,0,0,0,0,0,0,0,0,0,0,0,0,63,255,252,0,0,0,0,0,0,0,0,0,0,0,0,0,0,0],
    [0,0,0,0,0,0,0,0,0,0,0,0,63,255,252,0,0,0,0,0,0,0,0,0,0,0,0,0,0,0,0,0],
    [0,0,0,0,0,0,0,0,0,0,63,255,252,0,0,0,0,0,0,0,0,0,0,0,0,0,0,0,0,0,0,0],
    [0,0,0,0,0,0,0,0,63,255,252,0,0,0,0,0,0,0,0,0,0,0,0,0,0,0,0,0,0,0,0,0],
    [0,0,0,0,0,0,63,255,252,0,0,0,0,0,0,0,0,0,0,0,0,0,0,0,0,0,0,0,0,0,0,0],
    [0,0,0,0,63,255,252,0,0,0,0,0,0,0,0,0,0,0,0,0,0,0,0,0,0,0,0,0,0,0,0,0],
    [0,0,63,255,252,0,0,0,0,0,0,0,0,0,0,0,0,0,0,0,0,0,0,0,0,0,0,0,0,0,0,0],
    [63,255,252,0,0,0,0,0,0,0,0,0,0,0,0,0,0,0,0,0,0,0,0,0,0,0,0,0,0,0,63,255],
    [252,0,0,0,0,0,0,0,0,0,0,0,0,0,0,0,0,0,0,0,0,0,0,0,0,0,0,0,63,255,252,0],
    [0,0,0,0,0,0,0,0,0,0,0,0,0,0,0,0,0,0,0,0,0,0,0,0,0,0,63,255,252,0,0,0],
    [0,0,0,0,0,0,0,0,0,0,0,0,0,0,0,0,0,0,0,0,0,0,0,0,63,255,252,0,0,0,0,0],
    [0,0,0,0,0,0,0,0,0,0,0,0,0,0,0,0,0,0,0,0,0,0,63,255,252,0,0,0,0,0,0,0],
    [0,0,0,0,0,0,0,0,0,0,0,0,0,0,0,0,0,0,0,0,63,255,252,0,0,0,0,0,0,0,0,0],
    [0,0,0,0,0,0,0,0,0,0,0,0,0,0,0,0,0,0,63,255,252,0,0,0,0,0,0,0,0,0,0,0]]"

lemma clockFontPixels_1_length: "length (concat clockFontPixels_1) = 4736"
  by (simp add: clockFontPixels_1_def)

definition clockFontPixels_2 :: "u8 list list" where
  "clockFontPixels_2 = [
    [0,0,0,0,0,0,0,0,0,0,0,0,0,0,0,0,63,255,252,0,0,0,0,0,0,0,0,0,0,0,0,0],
    [0,0,0,0,0,0,0,0,0,0,0,0,0,0,63,255,252,0,0,0,0,0,0,0,0,0,0,0,0,0,0,0],
    [0,0,0,0,0,0,0,0,0,0,0,0,63,255,252,0,0,0,0,0,0,0,0,0,0,0,0,0,0,0,0,0],
    [0,0,0,0,0,0,0,0,0,0,63,255,252,0,0,0,0,0,0,0,0,0,0,0,0,0,0,0,0,0,0,0],
    [0,0,0,0,0,0,0,0,63,255,252,0,0,0,0,0,0,0,0,0,0,0,0,0,0,0,0,0,0,0,0,0],
    [0,0,0,0,0,0,63,255,252,0,0,0,0,0,0,0,0,0,0,0,0,0,0,0,0,0,0,0,0,0,0,0],
    [0,0,0,0,63,255,252,0,0,0,0,0,0,0,0,0,0,0,0,0,0,0,0,0,0,0,0,0,0,0,0,0],
    [0,0,63,255,252,0,0,0,0,0,0,0,0,0,0,0,0,0,0,0,0,0,0,0,0,0,0,0,0,0,0,0],
    [63,255,252,0,0,0,0,0,0,0,0,0,0,0,0,0,0,0,0,0,0,2,255,255,255,255,255,255,255,255,255,255],
    [255,255,255,255,255,255,255,255,253,0,0,0,0,0,0,0,0,0,0,2,255,255,255,255,255,255,255,255,255,255,255,255],
    [255,255,255,255,255,255,253,0,0,0,0,0,0,0,0,0,0,2,255,255,255,255,255,255,255,255,255,255,255,255,255,255],
    [255,255,255,255,253,0,0,0,0,0,0,0,0,0,0,2,255,255,255,255,255,255,255,255,255,255,255,255,255,255,255,255],
    [255,255,253,0,0,0,0,0,0,0,0,0,0,0,0,0,0,0,1,72,172,238,254,236,184,81,0,0,0,0,0,0],
    [0,0,0,0,0,0,0,0,0,0,0,0,0,0,0,5,191,255,255,255,255,255,255,255,198,16,0,0,0,0,0,0],
    [0,0,0,0,0,0,0,0,0,0,0,0,7,239,255,255,255,255,255,255,255,255,255,232,16,0,0,0,0,0,0,0],
    [0,0,0,0,0,0,0,0,0,4,223,255,255,255,255,255,255,255,255,255,255,255,230,0,0,0,0,0,0,0,0,0],
    [0,0,0,0,0,0,0,143,255,255,255,234,99,17,1,36,123,239,255,255,255,161,0,0,0,0,0,0,0,0,0,0],
    [0,0,0,0,27,255,255,255,213,0,0,0,0,0,0,6,207,255,255,252,16,0,0,0,0,0,0,0,0,0,0,0],
    [0,1,191,255,255,229,0,0,0,0,0,0,0,0,5,239,255,255,193,0,0,0,0,0,0,0,0,0,0,0,0,10],
    [255,255,251,16,0,0,0,0,0,0,0,0,0,27,255,255,251,0,0,0,0,0,0,0,0,0,0,0,0,127,255,255],
    [144,0,0,0,0,0,0,0,0,0,0,0,175,255,255,112,0,0,0,0,0,0,0,0,0,0,3,255,255,250,0,0],
    [0,0,0,0,0,0,0,0,0,0,11,255,255,226,0,0,0,0,0,0,0,0,0,0,12,255,255,176,0,0,0,0],
    [0,0,0,0,0,0,0,0,1,239,255,249,0,0,0,0,0,0,0,0,0,0,95,255,254,32,0,0,0,0,0,0],
    [0,0,0,0,0,0,0,111,255,255,32,0,0,0,0,0,0,0,0,0,223,255,246,0,0,0,0,0,0,0,0,0],
    [0,0,0,0,0,13,255,255,112,0,0,0,0,0,0,0,0,4,255,255,208,0,0,0,0,0,0,0,0,0,0,0],
    [0,0,0,7,255,255,192,0,0,0,0,0,0,0,0,10,255,255,96,0,0,0,0,0,0,0,0,0,0,0,0,0],
    [0,2,255,255,241,0,0,0,0,0,0,0,0,31,255,254,16,0,0,0,0,0,0,0,0,0,0,0,0,0,0,0],
    [223,255,245,0,0,0,0,0,0,0,0,95,255,250,0,0,0,0,0,0,0,0,0,0,0,0,0,0,0,0,175,255],
    [247,0,0,0,0,0,0,0,0,159,255,246,0,0,0,0,0,0,0,0,0,0,0,0,0,0,0,0,143,255,249,0],
    [0,0,0,0,0,0,0,207,255,242,0,0,0,0,0,0,0,0,0,0,0,0,0,0,0,0,111,255,250,0,0,0],
    [0,0,0,0,0,255,255,208,0,0,0,0,0,0,0,0,0,0,0,0,0,0,0,0,111,255,251,0,0,0,0,0],
    [0,0,2,223,255,80,0,0,0,0,0,0,0,0,0,0,0,0,0,0,0,0,111,255,251,0,0,0,0,0,0,0],
    [0,1,33,0,0,0,0,0,0,0,0,0,0,0,0,0,0,0,0,0,111,255,250,0,0,0,0,0,0,0,0,0],
    [0,0,0,0,0,0,0,0,0,0,0,0,0,0,0,0,0,0,143,255,249,0,0,0,0,0,0,0,0,0,0,0],
    [0,0,0,0,0,0,0,0,0,0,0,0,0,0,0,0,175,255,247,0,0,0,0,0,0,0,0,0,0,0,0,0],
    [0,0,0,0,0,0,0,0,0,0,0,0,0,0,207,255,245,0,0,0,0,0,0,0,0,0,0,0,0,0,0,0],
    [0,0,0,0,0,0,0,0,0,0,0,1,255,255,242,0,0,0,0,0,0,0,0,0,0,0,0,0,0,0,0,0],
    [0,0,0,0,0,0,0,0,0,5,255,255,224,0,0,0,0,0,0,0,0,0,0,0,0,0,0,0,0,0,0,0],
    [0,0,0,0,0,0,0,11,255,255,144,0,0,0,0,0,0,0,0,0,0,0,0,0,0,0,0,0,0,0,0,0],
    [0,0,0,0,0,47,255,255,64,0,0,0,0,0,0,0,0,0,0,0,0,0,0,0,0,0,0,0,0,0,0,0],
    [0,0,0,143,255,252,0,0,0,0,0,0,0,0,0,0,0,0,0,0,0,0,0,0,0,0,0,0,0,0,0,0],
    [1,239,255,246,0,0,0,0,0,0,0,0,0,0,0,0,0,0,0,0,0,0,0,0,0,0,0,0,0,0,9,255],
    [255,225,0,0,0,0,0,0,0,0,0,0,0,0,0,0,0,0,0,0,0,0,0,0,0,0,0,0,47,255,255,96],
    [0,0,0,0,0,0,0,0,0,0,0,0,0,0,0,0,0,0,0,0,0,0,0,0,0,0,191,255,252,0,0,0],
    [0,0,0,0,0,0,0,0,0,0,0,0,0,0,0,0,0,0,0,0,0,0,0,7,255,255,244,0,0,0,0,0],
    [0,0,0,0,0,0,0,0,0,0,0,0,0,0,0,0,0,0,0,0,0,47,255,255,144,0,0,0,0,0,0,0],
    [0,0,0,0,0,0,0,0,0,0,0,0,0,0,0,0,0,0,1,207,255,253,16,0,0,0,0,0,0,0,0,0],
    [0,0,0,0,0,0,0,0,0,0,0,0,0,0,0,0,10,255,255,243,0,0,0,0,0,0,0,0,0,0,0,0],
    [0,0,0,0,0,0,0,0,0,0,0,0,0,0,127,255,255,96,0,0,0,0,0,0,0,0,0,0,0,0,0,0],
    [0,0,0,0,0,0,0,0,0,0,0,5,255,255,249,0,0,0,0,0,0,0,0,0,0,0,0,0,0,0,0,0],
    [0,0,0,0,0,0,0,0,0,79,255,255,176,0,0,0,0,0,0,0,0,0,0,0,0,0,0,0,0,0,0,0],
    [0,0,0,0,0,0,3,239,255,252,16,0,0,0,0,0,0,0,0,0,0,0,0,0,0,0,0,0,0,0,0,0],
    [0,0,0,0,46,255,255,209,0,0,0,0,0,0,0,0,0,0,0,0,0,0,0,0,0,0,0,0,0,0,0,0],
    [0,2,223,255,253,32,0,0,0,0,0,0,0,0,0,0,0,0,0,0,0,0,0,0,0,0,0,0,0,0,0,29],
    [255,255,226,0,0,0,0,0,0,0,0,0,0,0,0,0,0,0,0,0,0,0,0,0,0,0,0,0,1,207,255,254],
    [48,0,0,0,0,0,0,0,0,0,0,0,0,0,0,0,0,0,0,0,0,0,0,0,0,0,28,255,255,227,0,0],
    [0,0,0,0,0,0,0,0,0,0,0,0,0,0,0,0,0,0,0,0,0,0,0,1,207,255,254,64,0,0,0,0],
    [0,0,0,0,0,0,0,0,0,0,0,0,0,0,0,0,0,0,0,0,0,27,255,255,244,0,0,0,0,0,0,0],
    [0,0,0,0,0,0,0,0,0,0,0,0,0,0,0,0,0,0,1,191,255,255,64,0,0,0,0,0,0,0,0,0],
    [0,0,0,0,0,0,0,0,0,0,0,0,0,0,0,0,11,255,255,245,0,0,0,0,0,0,0,0,0,0,0,0],
    [0,0,0,0,0,0,0,0,0,0,0,0,0,0,191,255,255,80,0,0,0,0,0,0,0,0,0,0,0,0,0,0],
    [0,0,0,0,0,0,0,0,0,0,0,10,255,255,246,0,0,0,0,0,0,0,0,0,0,0,0,0,0,0,0,0],
    [0,0,0,0,0,0,0,0,0,175,255,255,96,0,0,0,0,0,0,0,0,0,0,0,0,0,0,0,0,0,0,0],
    [0,0,0,0,0,0,10,255,255,247,0,0,0,0,0,0,0,0,0,0,0,0,0,0,0,0,0,0,0,0,0,0],
    [0,0,0,0,159,255,255,112,0,0,0,0,0,0,0,0,0,0,0,0,0,0,0,0,0,0,0,0,0,0,0,0],
    [0,9,255,255,248,0,0,0,0,0,0,0,0,0,0,0,0,0,0,0,0,0,0,0,0,0,0,0,0,0,0,143],
    [255,255,144,0,0,0,0,0,0,0,0,0,0,0,0,0,0,0,0,0,0,0,0,0,0,0,0,0,8,255,255,249],
    [0,0,0,0,0,0,0,0,0,0,0,0,0,0,0,0,0,0,0,0,0,0,0,0,0,0,143,255,255,160,0,0],
    [0,0,0,0,0,0,0,0,0,0,0,0,0,0,0,0,0,0,0,0,0,0,0,7,255,255,250,0,0,0,0,0],
    [0,0,0,0,0,0,0,0,0,0,0,0,0,0,0,0,0,0,0,0,0,127,255,255,160,0,0,0,0,0,0,0],
    [0,0,0,0,0,0,0,0,0,0,0,0,0,0,0,0,0,0,6,255,255,251,0,0,0,0,0,0,0,0,0,0],
    [0,0,0,0,0,0,0,0,0,0,0,0,0,0,0,0,111,255,255,177,0,0,0,0,0,0,0,0,0,0,0,0],
    [0,0,0,0,0,0,0,0,0,0,0,0,0,6,255,255,252,16,0,0,0,0,0,0,0,0,0,0,0,0,0,0],
    [0,0,0,0,0,0,0,0,0,0,0,95,255,255,193,0,0,0,0,0,0,0,0,0,0,0,0,0,0,0,0,0],
    [0,0,0,0,0,0,0,0,5,255,255,252,16,0,0,0,0,0,0,0,0,0,0,0,0,0,0,0,0,0,0,0],
    [0,0,0,0,0,0,95,255,255,209,0,0,0,0,0,0,0,0,0,0,0,0,0,0,0,0,0,0,0,0,0,0],
    [0,0,0,4,255,255,253,32,0,0,0,0,0,0,0,0,0,0,0,0,0,0,0,0,0,0,0,0,0,0,0,0],
    [0,79,255,255,210,0,0,0,0,0,0,0,0,0,0,0,0,0,0,0,0,0,0,0,0,0,0,0,0,0,4,239],
    [255,254,32,0,0,0,0,0,0,0,0,0,0,0,0,0,0,0,0,0,0,0,0,0,0,0,0,0,62,255,255,248],
    [138,205,239,255,255,255,255,255,255,255,255,255,255,255,255,255,255,255,255,194,0,0,0,0,0,0,207,255,255,255,255,255],
    [255,255,255,255,255,255,255,255,255,255,255,255,255,255,255,255,255,246,0,0,0,0,0,0,255,255,255,255,255,255,255,255],
    [255,255,255,255,255,255,255,255,255,255,255,255,255,255,255,247,0,0,0,0,0,0,255,255,255,255,255,255,255,255,255,255],
    [255,255,255,255,255,255,255,255,255,255,255,255,255,247,0,0,0,0,0,0,0,0,0,0,0,0,0,0,1,71,172,222],
    [255,237,185,99,0,0,0,0,0,0,0,0,0,0,0,0,0,0,0,0,0,0,0,0,0,22,191,255,255,255,255,255],
    [255,255,233,48,0,0,0,0,0,0,0,0,0,0,0,0,0,0,0,0,0,0,24,239,255,255,255,255,255,255,255,255],
    [255,251,64,0,0,0,0,0,0,0,0,0,0,0,0,0,0,0,0,6,239,255,255,255,255,255,255,255,255,255,255,255],
    [250,16,0,0,0,0,0,0,0,0,0,0,0,0,0,0,1,175,255,255,255,234,116,33,1,35,105,223,255,255,255,211],
    [0,0,0,0,0,0,0,0,0,0,0,0,0,0,28,255,255,255,214,16,0,0,0,0,0,3,159,255,255,254,64,0],
    [0,0,0,0,0,0,0,0,0,0,0,1,223,255,255,229,0,0,0,0,0,0,0,0,2,175,255,255,243,0,0,0],
    [0,0,0,0,0,0,0,0,0,12,255,255,250,16,0,0,0,0,0,0,0,0,0,6,255,255,254,16,0,0,0,0],
    [0,0,0,0,0,0,0,159,255,255,128,0,0,0,0,0,0,0,0,0,0,0,95,255,255,176,0,0,0,0,0,0],
    [0,0,0,0,4,255,255,248,0,0,0,0,0,0,0,0,0,0,0,0,7,255,255,245,0,0,0,0,0,0,0,0],
    [0,0,13,255,255,160,0,0,0,0,0,0,0,0,0,0,0,0,0,191,255,252,0,0,0,0,0,0,0,0,0,0],
    [111,255,254,16,0,0,0,0,0,0,0,0,0,0,0,0,0,63,255,255,64,0,0,0,0,0,0,0,0,0,223,255],
    [244,0,0,0,0,0,0,0,0,0,0,0,0,0,0,10,255,255,144,0,0,0,0,0,0,0,0,5,255,255,192,0],
    [0,0,0,0,0,0,0,0,0,0,0,0,0,4,255,255,208,0,0,0,0,0,0,0,0,10,255,255,80,0,0,0],
    [0,0,0,0,0,0,0,0,0,0,0,0,239,255,242,0,0,0,0,0,0,0,0,14,255,254,0,0,0,0,0,0],
    [0,0,0,0,0,0,0,0,0,0,191,255,244,0,0,0,0,0,0,0,0,79,255,250,0,0,0,0,0,0,0,0],
    [0,0,0,0,0,0,0,0,159,255,246,0,0,0,0,0,0,0,0,127,255,246,0,0,0,0,0,0,0,0,0,0],
    [0,0,0,0,0,0,127,255,247,0,0,0,0,0,0,0,0,175,255,241,0,0,0,0,0,0,0,0,0,0,0,0],
    [0,0,0,0,111,255,248,0,0,0,0,0,0,0,0,157,255,128,0,0,0,0,0,0,0,0,0,0,0,0,0,0],
    [0,0,111,255,248,0,0,0,0,0,0,0,0,0,17,0,0,0,0,0,0,0,0,0,0,0,0,0,0,0,0,0],
    [111,255,247,0,0,0,0,0,0,0,0,0,0,0,0,0,0,0,0,0,0,0,0,0,0,0,0,0,0,0,143,255],
    [245,0,0,0,0,0,0,0,0,0,0,0,0,0,0,0,0,0,0,0,0,0,0,0,0,0,0,0,175,255,243,0],
    [0,0,0,0,0,0,0,0,0,0,0,0,0,0,0,0,0,0,0,0,0,0,0,0,0,0,223,255,224,0,0,0],
    [0,0,0,0,0,0,0,0,0,0,0,0,0,0,0,0,0,0,0,0,0,0,0,3,255,255,160,0,0,0,0,0],
    [0,0,0,0,0,0,0,0,0,0,0,0,0,0,0,0,0,0,0,0,0,8,255,255,80,0,0,0,0,0,0,0],
    [0,0,0,0,0,0,0,0,0,0,0,0,0,0,0,0,0,0,0,30,255,253,0,0,0,0,0,0,0,0,0,0],
    [0,0,0,0,0,0,0,0,0,0,0,0,0,0,0,0,0,159,255,246,0,0,0,0,0,0,0,0,0,0,0,0],
    [0,0,0,0,0,0,0,0,0,0,0,0,0,0,5,255,255,192,0,0,0,0,0,0,0,0,0,0,0,0,0,0],
    [0,0,0,0,0,0,0,0,0,0,0,0,62,255,254,32,0,0,0,0,0,0,0,0,0,0,0,0,0,0,0,0],
    [0,0,0,0,0,0,0,0,0,4,239,255,245,0,0,0,0,0,0,0,0,0,0,0,0,0,0,0,0,0,0,0],
    [0,0,0,0,0,0,1,143,255,255,64,0,0,0,0,0,0,0,0,0,0,0,0,0,0,0,0,0,0,0,0,0],
    [0,0,0,0,109,255,255,228,0,0,0,0,0,0,0,0,0,0,0,0,0,0,0,0,0,0,0,0,0,0,0,0],
    [2,141,255,255,250,16,0,0,0,0,0,0,0,0,0,0,0,0,0,0,0,0,0,0,0,0,0,17,52,121,223,255],
    [255,251,64,0,0,0,0,0,0,0,0,0,0,0,0,0,0,0,0,0,0,0,0,0,12,255,255,255,255,255,233,48],
    [0,0,0,0,0,0,0,0,0,0,0,0,0,0,0,0,0,0,0,0,0,0,12,255,255,255,255,251,64,0,0,0],
    [0,0,0,0,0,0,0,0,0,0,0,0,0,0,0,0,0,0,0,0,12,255,255,255,255,255,254,181,0,0,0,0],
    [0,0,0,0,0,0,0,0,0,0,0,0,0,0,0,0,0,0,12,255,255,255,255,255,255,255,232,16,0,0,0,0],
    [0,0,0,0,0,0,0,0,0,0,0,0,0,0,0,0,0,17,35,71,156,255,255,255,255,230,0,0,0,0,0,0],
    [0,0,0,0,0,0,0,0,0,0,0,0,0,0,0,0,0,0,0,21,175,255,255,255,177,0,0,0,0,0,0,0],
    [0,0,0,0,0,0,0,0,0,0,0,0,0,0,0,0,0,0,1,126,255,255,253,32,0,0,0,0,0,0,0,0],
    [0,0,0,0,0,0,0,0,0,0,0,0,0,0,0,0,0,1,159,255,255,210,0,0,0,0,0,0,0,0,0,0],
    [0,0,0,0,0,0,0,0,0,0,0,0,0,0,0,0,5,255,255,252,16,0,0,0,0,0,0,0,0,0,0,0],
    [0,0,0,0,0,0,0,0,0,0,0,0,0,0,0,79,255,255,144,0,0,0,0,0,0,0,0,0,0,0,0,0],
    [0,0,0,0,0,0,0,0,0,0,0,0,0,6,255,255,243,0,0,0,0,0,0,0,0,0,0,0,0,0,0,0],
    [0,0,0,0,0,0,0,0,0,0,0,0,175,255,250,0,0,0,0,0,0,0,0,0,0,0,0,0,0,0,0,0],
    [0,0,0,0,0,0,0,0,0,0,47,255,255,32,0,0,0,0,0,0,0,0,0,0,0,0,0,0,0,0,0,0],
    [0,0,0,0,0,0,0,0,10,255,255,112,0,0,0,0,0,0,0,0,0,0,0,0,0,0,0,0,0,0,0,0],
    [0,0,0,0,0,0,5,255,255,176,0,0,0,0,0,0,0,0,0,0,0,0,0,0,0,0,0,0,0,0,0,0],
    [0,0,0,0,1,255,255,240,0,0,0,0,0,0,0,0,0,0,0,0,0,0,0,0,0,0,0,0,0,0,0,0],
    [0,0,0,223,255,242,0,0,0,0,0,0,0,0,0,0,0,0,0,0,0,0,0,0,0,0,0,0,0,0,0,0],
    [0,191,255,244,0,0,0,0,0,0,0,0,0,0,0,0,0,0,0,0,0,0,0,0,0,0,0,0,0,0,0,159],
    [255,245,0,0,0,0,0,0,0,0,0,0,0,0,0,0,0,0,0,0,0,0,0,0,0,0,0,0,0,143,255,246],
    [0,0,0,0,0,0,0,0,0,0,0,0,0,0,0,0,0,0,0,0,0,0,0,0,0,0,0,143,255,245,0,0],
    [0,0,0,0,23,187,32,0,0,0,0,0,0,0,0,0,0,0,0,0,0,0,0,0,0,159,255,245,0,0,0,0],
    [0,2,255,255,192,0,0,0,0,0,0,0,0,0,0,0,0,0,0,0,0,0,0,191,255,243,0,0,0,0,0,0],
    [223,255,242,0,0,0,0,0,0,0,0,0,0,0,0,0,0,0,0,0,0,239,255,241,0,0,0,0,0,0,143,255],
    [248,0,0,0,0,0,0,0,0,0,0,0,0,0,0,0,0,0,3,255,255,208,0,0,0,0,0,0,63,255,253,0],
    [0,0,0,0,0,0,0,0,0,0,0,0,0,0,0,0,8,255,255,144,0,0,0,0,0,0,12,255,255,80,0,0],
    [0,0,0,0,0,0,0,0,0,0,0,0,0,0,30,255,255,64,0,0,0,0,0,0,6,255,255,192,0,0,0,0],
    [0,0,0,0,0,0,0,0,0,0,0,0,127,255,253,0,0,0,0,0,0,0,1,239,255,246,0,0,0,0,0,0],
    [0,0,0,0,0,0,0,0,0,1,239,255,246,0,0,0,0,0,0,0,0,143,255,254,32,0,0,0,0,0,0,0],
    [0,0,0,0,0,0,0,10,255,255,208,0,0,0,0,0,0,0,0,30,255,255,176,0,0,0,0,0,0,0,0,0],
    [0,0,0,0,0,127,255,255,80,0,0,0,0,0,0,0,0,6,255,255,249,0,0,0,0,0,0,0,0,0,0,0],
    [0,0,6,255,255,250,0,0,0,0,0,0,0,0,0,0,191,255,255,144,0,0,0,0,0,0,0,0,0,0,0,0],
    [127,255,255,209,0,0,0,0,0,0,0,0,0,0,29,255,255,251,16,0,0,0,0,0,0,0,0,0,0,26,255,255],
    [254,32,0,0,0,0,0,0,0,0,0,0,2,239,255,255,231,0,0,0,0,0,0,0,0,0,6,239,255,255,226,0]]"

lemma clockFontPixels_2_length: "length (concat clockFontPixels_2) = 4736"
  by (simp add: clockFontPixels_2_def)

definition clockFontPixels_3 :: "u8 list list" where
  "clockFontPixels_3 = [
    [0,0,0,0,0,0,0,0,0,0,0,45,255,255,255,215,32,0,0,0,0,0,0,23,223,255,255,252,32,0,0,0],
    [0,0,0,0,0,0,0,0,0,1,191,255,255,255,252,133,49,0,1,53,123,255,255,255,255,145,0,0,0,0,0,0],
    [0,0,0,0,0,0,0,0,6,239,255,255,255,255,255,255,255,255,255,255,255,255,196,0,0,0,0,0,0,0,0,0],
    [0,0,0,0,0,0,0,24,239,255,255,255,255,255,255,255,255,255,255,197,0,0,0,0,0,0,0,0,0,0,0,0],
    [0,0,0,0,0,0,22,191,255,255,255,255,255,255,255,254,148,0,0,0,0,0,0,0,0,0,0,0,0,0,0,0],
    [0,0,0,0,0,1,71,171,222,239,254,219,150,48,0,0,0,0,0,0,0,0,0,0,0,0,0,0,0,0,0,0],
    [0,0,0,0,0,0,0,0,0,0,0,0,79,255,248,0,0,0,0,0,0,0,0,0,0,0,0,0,0,0,0,0],
    [0,0,0,0,0,0,0,0,0,2,239,255,248,0,0,0,0,0,0,0,0,0,0,0,0,0,0,0,0,0,0,0],
    [0,0,0,0,0,0,0,11,255,255,248,0,0,0,0,0,0,0,0,0,0,0,0,0,0,0,0,0,0,0,0,0],
    [0,0,0,0,0,143,255,255,248,0,0,0,0,0,0,0,0,0,0,0,0,0,0,0,0,0,0,0,0,0,0,0],
    [0,0,4,255,255,255,248,0,0,0,0,0,0,0,0,0,0,0,0,0,0,0,0,0,0,0,0,0,0,0,0,0],
    [46,255,255,255,248,0,0,0,0,0,0,0,0,0,0,0,0,0,0,0,0,0,0,0,0,0,0,0,0,0,191,255],
    [253,255,248,0,0,0,0,0,0,0,0,0,0,0,0,0,0,0,0,0,0,0,0,0,0,0,0,8,255,255,154,255],
    [248,0,0,0,0,0,0,0,0,0,0,0,0,0,0,0,0,0,0,0,0,0,0,0,0,79,255,252,27,255,248,0],
    [0,0,0,0,0,0,0,0,0,0,0,0,0,0,0,0,0,0,0,0,0,0,2,239,255,226,12,255,248,0,0,0],
    [0,0,0,0,0,0,0,0,0,0,0,0,0,0,0,0,0,0,0,0,11,255,255,80,13,255,248,0,0,0,0,0],
    [0,0,0,0,0,0,0,0,0,0,0,0,0,0,0,0,0,0,143,255,249,0,13,255,248,0,0,0,0,0,0,0],
    [0,0,0,0,0,0,0,0,0,0,0,0,0,0,0,4,255,255,193,0,13,255,248,0,0,0,0,0,0,0,0,0],
    [0,0,0,0,0,0,0,0,0,0,0,0,0,46,255,254,32,0,13,255,248,0,0,0,0,0,0,0,0,0,0,0],
    [0,0,0,0,0,0,0,0,0,0,0,191,255,246,0,0,13,255,248,0,0,0,0,0,0,0,0,0,0,0,0,0],
    [0,0,0,0,0,0,0,0,8,255,255,144,0,0,13,255,248,0,0,0,0,0,0,0,0,0,0,0,0,0,0,0],
    [0,0,0,0,0,0,79,255,253,16,0,0,13,255,248,0,0,0,0,0,0,0,0,0,0,0,0,0,0,0,0,0],
    [0,0,0,2,239,255,227,0,0,0,13,255,248,0,0,0,0,0,0,0,0,0,0,0,0,0,0,0,0,0,0,0],
    [0,11,255,255,96,0,0,0,13,255,248,0,0,0,0,0,0,0,0,0,0,0,0,0,0,0,0,0,0,0,0,143],
    [255,250,0,0,0,0,13,255,248,0,0,0,0,0,0,0,0,0,0,0,0,0,0,0,0,0,0,0,4,255,255,209],
    [0,0,0,0,13,255,248,0,0,0,0,0,0,0,0,0,0,0,0,0,0,0,0,0,0,0,46,255,254,48,0,0],
    [0,0,13,255,248,0,0,0,0,0,0,0,0,0,0,0,0,0,0,0,0,0,0,0,191,255,246,0,0,0,0,0],
    [13,255,248,0,0,0,0,0,0,0,0,0,0,0,0,0,0,0,0,0,0,8,255,255,160,0,0,0,0,0,13,255],
    [248,0,0,0,0,0,0,0,0,0,0,0,0,0,0,0,0,0,0,79,255,253,16,0,0,0,0,0,13,255,248,0],
    [0,0,0,0,0,0,0,0,0,0,0,0,0,0,0,0,2,239,255,243,0,0,0,0,0,0,13,255,248,0,0,0],
    [0,0,0,0,0,0,0,0,0,0,0,0,0,0,11,255,255,96,0,0,0,0,0,0,13,255,248,0,0,0,0,0],
    [0,0,0,0,0,0,0,0,0,0,0,0,143,255,250,0,0,0,0,0,0,0,13,255,248,0,0,0,0,0,0,0],
    [0,0,0,0,0,0,0,0,0,4,255,255,209,0,0,0,0,0,0,0,13,255,248,0,0,0,0,0,0,0,0,0],
    [0,0,0,0,0,0,0,46,255,255,48,0,0,0,0,0,0,0,13,255,248,0,0,0,0,0,0,0,0,0,0,0],
    [0,0,0,0,0,191,255,246,0,0,0,0,0,0,0,0,13,255,248,0,0,0,0,0,0,0,0,0,0,0,0,0],
    [0,0,8,255,255,160,0,0,0,0,0,0,0,0,13,255,248,0,0,0,0,0,0,0,0,0,0,0,0,0,0,0],
    [79,255,253,16,0,0,0,0,0,0,0,0,13,255,248,0,0,0,0,0,0,0,0,0,0,0,0,0,0,2,239,255],
    [243,0,0,0,0,0,0,0,0,0,13,255,248,0,0,0,0,0,0,0,0,0,0,0,0,0,0,12,255,255,96,0],
    [0,0,0,0,0,0,0,0,13,255,248,0,0,0,0,0,0,0,0,0,0,0,0,0,0,143,255,250,0,0,0,0],
    [0,0,0,0,0,0,13,255,248,0,0,0,0,0,0,0,0,0,0,0,0,0,4,255,255,209,0,0,0,0,0,0],
    [0,0,0,0,13,255,248,0,0,0,0,0,0,0,0,0,0,0,0,0,46,255,255,48,0,0,0,0,0,0,0,0],
    [0,0,13,255,248,0,0,0,0,0,0,0,0,0,0,0,0,0,207,255,247,0,0,0,0,0,0,0,0,0,0,0],
    [13,255,248,0,0,0,0,0,0,0,0,0,0,0,0,8,255,255,160,0,0,0,0,0,0,0,0,0,0,0,13,255],
    [248,0,0,0,0,0,0,0,0,0,0,0,0,79,255,253,16,0,0,0,0,0,0,0,0,0,0,0,13,255,248,0],
    [0,0,0,0,0,0,0,0,0,0,2,239,255,243,0,0,0,0,0,0,0,0,0,0,0,0,13,255,248,0,0,0],
    [0,0,0,0,0,0,0,0,12,255,255,112,0,0,0,0,0,0,0,0,0,0,0,0,13,255,248,0,0,0,0,0],
    [0,0,0,0,0,0,143,255,251,0,0,0,0,0,0,0,0,0,0,0,0,0,13,255,248,0,0,0,0,0,0,0],
    [0,0,0,4,255,255,209,0,0,0,0,0,0,0,0,0,0,0,0,0,13,255,248,0,0,0,0,0,0,0,0,0],
    [0,46,255,255,48,0,0,0,0,0,0,0,0,0,0,0,0,0,13,255,248,0,0,0,0,0,0,0,0,0,0,207],
    [255,247,0,0,0,0,0,0,0,0,0,0,0,0,0,0,13,255,248,0,0,0,0,0,0,0,0,0,8,255,255,176],
    [0,0,0,0,0,0,0,0,0,0,0,0,0,0,13,255,248,0,0,0,0,0,0,0,0,0,79,255,253,16,0,0],
    [0,0,0,0,0,0,0,0,0,0,0,0,13,255,248,0,0,0,0,0,0,0,0,0,207,255,255,255,255,255,255,255],
    [255,255,255,255,255,255,255,255,255,255,255,255,255,255,255,255,255,255,255,240,0,0,175,255,255,255,255,255,255,255,255,255],
    [255,255,255,255,255,255,255,255,255,255,255,255,255,255,255,255,255,240,0,0,127,255,255,255,255,255,255,255,255,255,255,255],
    [255,255,255,255,255,255,255,255,255,255,255,255,255,255,255,240,0,0,28,255,255,255,255,255,255,255,255,255,255,255,255,255],
    [255,255,255,255,255,255,255,255,255,255,255,255,255,160,0,0,0,0,0,0,0,0,0,0,0,0,0,0,0,0,0,0],
    [0,0,13,255,248,0,0,0,0,0,0,0,0,0,0,0,0,0,0,0,0,0,0,0,0,0,0,0,0,0,0,0],
    [13,255,248,0,0,0,0,0,0,0,0,0,0,0,0,0,0,0,0,0,0,0,0,0,0,0,0,0,0,0,13,255],
    [248,0,0,0,0,0,0,0,0,0,0,0,0,0,0,0,0,0,0,0,0,0,0,0,0,0,0,0,13,255,248,0],
    [0,0,0,0,0,0,0,0,0,0,0,0,0,0,0,0,0,0,0,0,0,0,0,0,0,0,13,255,248,0,0,0],
    [0,0,0,0,0,0,0,0,0,0,0,0,0,0,0,0,0,0,0,0,0,0,0,0,13,255,248,0,0,0,0,0],
    [0,0,0,0,0,0,0,0,0,0,0,0,0,0,0,0,0,0,0,0,0,0,13,255,248,0,0,0,0,0,0,0],
    [0,0,0,0,0,0,0,0,0,0,0,0,0,0,0,0,0,0,0,0,13,255,248,0,0,0,0,0,0,0,0,0],
    [0,0,0,0,0,0,0,0,0,0,0,0,0,0,0,0,0,0,13,255,248,0,0,0,0,0,0,0,0,0,0,0],
    [0,0,0,0,0,0,0,0,0,0,0,0,0,0,0,0,13,255,248,0,0,0,0,0,0,0,0,0,0,0,0,0],
    [0,0,0,0,0,0,0,0,0,0,0,0,0,0,13,255,248,0,0,0,0,0,0,0,0,0,0,0,0,0,0,0],
    [0,0,0,0,0,0,0,0,0,0,0,0,13,255,248,0,0,0,0,0,0,0,0,0,0,0,0,0,0,0,0,0],
    [0,0,0,0,0,0,0,0,0,0,13,255,248,0,0,0,0,0,0,0,0,0,0,0,0,0,0,0,0,0,0,0],
    [0,0,0,0,0,0,0,0,13,255,248,0,0,0,0,0,0,0,0,0,0,0,0,0,0,0,0,0,0,0,0,0],
    [0,0,0,0,0,0,13,255,248,0,0,0,0,0,0,0,0,0,0,0,0,0,0,0,0,0,0,0,0,0,0,0],
    [0,0,0,0,13,255,248,0,0,0,0,0,0,0,0,0,0,0,0,0,0,0,0,0,0,0,0,0,0,0,0,0],
    [0,0,13,255,248,0,0,0,0,0,0,0,0,0,0,0,0,0,0,0,0,0,0,0,0,0,0,0,0,0,0,0],
    [13,255,248,0,0,0,0,0,0,0,0,0,0,0,0,0,0,0,0,0,0,0,0,0,0,0,0,0,0,0,13,255],
    [248,0,0,0,0,0,0,0,0,0,0,0,0,0,0,0,0,0,0,0,0,0,0,0,0,0,0,0,13,255,248,0],
    [0,0,0,0,0,0,0,0,0,0,0,0,0,0,0,0,0,0,0,0,0,0,0,0,0,0,13,255,248,0,0,0],
    [0,0,0,0,0,0,0,0,0,0,0,0,0,63,255,255,255,255,255,255,255,255,255,255,255,255,255,255,255,255,0,0],
    [0,0,0,0,0,0,0,0,0,0,0,95,255,255,255,255,255,255,255,255,255,255,255,255,255,255,255,255,0,0,0,0],
    [0,0,0,0,0,0,0,0,0,143,255,255,255,255,255,255,255,255,255,255,255,255,255,255,255,253,0,0,0,0,0,0],
    [0,0,0,0,0,0,0,191,255,255,255,255,255,255,255,255,255,255,255,255,255,255,254,195,0,0,0,0,0,0,0,0],
    [0,0,0,0,0,223,255,96,0,0,0,0,0,0,0,0,0,0,0,0,0,0,0,0,0,0,0,0,0,0,0,0],
    [0,0,1,255,255,48,0,0,0,0,0,0,0,0,0,0,0,0,0,0,0,0,0,0,0,0,0,0,0,0,0,0],
    [3,255,255,16,0,0,0,0,0,0,0,0,0,0,0,0,0,0,0,0,0,0,0,0,0,0,0,0,0,0,6,255],
    [253,0,0,0,0,0,0,0,0,0,0,0,0,0,0,0,0,0,0,0,0,0,0,0,0,0,0,0,8,255,251,0],
    [0,0,0,0,0,0,0,0,0,0,0,0,0,0,0,0,0,0,0,0,0,0,0,0,0,0,11,255,248,0,0,0],
    [0,0,0,0,0,0,0,0,0,0,0,0,0,0,0,0,0,0,0,0,0,0,0,0,14,255,246,0,0,0,0,0],
    [0,0,0,0,0,0,0,0,0,0,0,0,0,0,0,0,0,0,0,0,0,0,31,255,243,0,0,0,0,0,0,0],
    [0,0,0,0,0,0,0,0,0,0,0,0,0,0,0,0,0,0,0,0,79,255,241,0,0,0,0,0,0,0,0,0],
    [0,0,0,0,0,0,0,0,0,0,0,0,0,0,0,0,0,0,111,255,208,0,0,0,0,0,0,0,0,0,0,0],
    [0,0,0,0,0,0,0,0,0,0,0,0,0,0,0,0,159,255,176,0,0,0,0,0,0,0,0,0,0,0,0,0],
    [0,0,0,0,0,0,0,0,0,0,0,0,0,0,207,255,128,0,0,0,0,0,0,0,0,0,0,0,0,0,0,0],
    [0,0,0,0,0,0,0,0,0,0,0,0,239,255,80,0,0,0,0,0,0,0,0,0,0,0,0,0,0,0,0,0],
    [0,0,0,0,0,0,0,0,0,2,255,255,48,0,0,0,0,0,0,0,0,0,0,0,0,0,0,0,0,0,0,0],
    [0,0,0,0,0,0,0,4,255,255,0,0,0,0,0,0,0,0,0,0,0,0,0,0,0,0,0,0,0,0,0,0],
    [0,0,0,0,0,7,255,253,0,0,0,0,0,0,0,0,0,0,0,0,0,0,0,0,0,0,0,0,0,0,0,0],
    [0,0,0,9,255,250,0,0,0,0,0,0,0,0,0,0,0,0,0,0,0,0,0,0,0,0,0,0,0,0,0,0],
    [0,12,255,248,0,0,0,0,0,0,0,0,0,0,0,0,0,0,0,0,0,0,0,0,0,0,0,0,0,0,0,14],
    [255,245,0,0,0,0,0,0,0,0,0,0,0,0,0,0,0,0,0,0,0,0,0,0,0,0,0,0,0,47,255,243],
    [0,0,0,0,0,0,0,0,0,0,0,0,0,0,0,0,0,0,0,0,0,0,0,0,0,0,0,95,255,240,0,0],
    [0,0,0,0,0,0,0,0,0,0,0,0,0,0,0,0,0,0,0,0,0,0,0,0,0,127,255,208,0,0,0,0],
    [0,0,0,0,0,0,0,0,0,0,0,0,0,0,0,0,0,0,0,0,0,0,0,175,255,160,0,0,0,0,0,0],
    [0,0,0,0,0,0,0,0,0,0,0,0,0,0,0,0,0,0,0,0,0,207,255,112,0,0,0,0,0,0,0,0],
    [0,0,0,0,0,0,0,0,0,0,0,0,0,0,0,0,0,0,0,255,255,80,1,70,154,205,238,255,237,202,116,16],
    [0,0,0,0,0,0,0,0,0,0,0,0,0,0,0,0,3,255,255,138,223,255,255,255,255,255,255,255,255,251,97,0],
    [0,0,0,0,0,0,0,0,0,0,0,0,0,0,5,255,255,255,255,255,255,255,255,255,255,255,255,255,254,146,0,0],
    [0,0,0,0,0,0,0,0,0,0,0,0,8,255,255,255,255,255,255,255,255,255,255,255,255,255,255,255,128,0,0,0],
    [0,0,0,0,0,0,0,0,0,0,10,255,255,255,254,184,100,33,16,1,36,105,207,255,255,255,252,48,0,0,0,0],
    [0,0,0,0,0,0,0,0,4,174,254,149,32,0,0,0,0,0,0,0,2,125,255,255,255,228,0,0,0,0,0,0],
    [0,0,0,0,0,0,0,0,32,0,0,0,0,0,0,0,0,0,0,0,110,255,255,255,80,0,0,0,0,0,0,0],
    [0,0,0,0,0,0,0,0,0,0,0,0,0,0,0,0,0,0,1,175,255,255,227,0,0,0,0,0,0,0,0,0],
    [0,0,0,0,0,0,0,0,0,0,0,0,0,0,0,0,0,7,255,255,253,16,0,0,0,0,0,0,0,0,0,0],
    [0,0,0,0,0,0,0,0,0,0,0,0,0,0,0,0,127,255,255,160,0,0,0,0,0,0,0,0,0,0,0,0],
    [0,0,0,0,0,0,0,0,0,0,0,0,0,0,9,255,255,243,0,0,0,0,0,0,0,0,0,0,0,0,0,0],
    [0,0,0,0,0,0,0,0,0,0,0,0,1,223,255,251,0,0,0,0,0,0,0,0,0,0,0,0,0,0,0,0],
    [0,0,0,0,0,0,0,0,0,0,0,95,255,255,32,0,0,0,0,0,0,0,0,0,0,0,0,0,0,0,0,0],
    [0,0,0,0,0,0,0,0,0,12,255,255,128,0,0,0,0,0,0,0,0,0,0,0,0,0,0,0,0,0,0,0],
    [0,0,0,0,0,0,0,6,255,255,208,0,0,0,0,0,0,0,0,0,0,0,0,0,0,0,0,0,0,0,0,0],
    [0,0,0,0,0,1,255,255,242,0,0,0,0,0,0,0,0,0,0,0,0,0,0,0,0,0,0,0,0,0,0,0],
    [0,0,0,0,207,255,246,0,0,0,0,0,0,0,0,0,0,0,0,0,0,0,0,0,0,0,0,0,0,0,0,0],
    [0,0,159,255,249,0,0,0,0,0,0,0,0,0,0,0,0,0,0,0,0,0,0,0,0,0,0,0,0,0,0,0],
    [111,255,251,0,0,0,0,0,0,0,0,0,0,0,0,0,0,0,0,0,0,0,0,0,0,0,0,0,0,0,79,255],
    [252,0,0,0,0,0,0,0,0,0,0,0,0,0,0,0,0,0,0,0,0,0,0,0,0,0,0,0,47,255,253,0],
    [0,0,0,0,0,0,0,0,0,0,0,0,0,0,0,0,0,0,0,0,0,0,0,0,0,0,47,255,254,0,0,0],
    [0,0,0,0,0,0,0,0,0,0,0,0,0,0,0,0,0,0,0,0,0,0,0,0,47,255,254,0,0,0,0,0],
    [0,0,0,0,0,0,0,0,0,0,0,0,0,0,0,0,0,0,0,0,0,0,47,255,253,0,0,0,0,0,0,0],
    [0,0,0,0,0,0,0,0,0,0,0,0,0,0,0,0,0,0,0,0,63,255,253,0,0,0,0,0,0,0,0,0],
    [0,0,0,0,0,0,0,0,0,0,0,0,0,0,0,0,0,0,95,255,251,0,0,0,0,0,0,0,0,0,0,0],
    [0,0,0,0,0,0,0,0,0,0,0,0,0,0,0,0,111,255,249,0,0,0,0,0,0,0,0,0,0,0,0,0],
    [0,0,0,0,0,0,0,0,0,0,0,0,0,0,159,255,247,0,0,0,0,0,0,0,0,0,0,0,0,0,0,0],
    [0,0,0,0,0,0,0,0,0,0,0,0,223,255,243,0,0,0,0,0,0,0,0,0,0,0,0,0,0,0,0,0],
    [0,0,0,0,0,0,0,0,0,2,255,255,224,0,0,0,0,0,0,0,0,0,0,0,0,0,0,0,0,0,0,0],
    [0,0,0,0,0,0,0,7,255,255,160,0,0,0,0,0,0,0,0,0,0,0,0,0,0,0,0,0,0,0,0,0],
    [0,0,0,0,0,12,255,255,80,0,0,0,0,0,0,0,0,0,0,0,0,0,0,0,0,0,0,0,0,0,0,0],
    [0,0,0,79,255,254,0,0,0,0,0,0,0,0,0,0,0,0,0,0,0,0,0,0,0,0,0,0,0,0,0,0],
    [0,207,255,247,0,0,0,0,0,0,0,0,0,0,0,0,0,0,0,0,0,0,0,0,0,0,0,0,0,0,6,255],
    [255,225,0,0,0,0,0,0,0,0,0,0,0,0,0,0,0,0,0,0,0,0,0,0,0,0,0,0,46,255,255,80],
    [0,0,0,0,0,0,0,0,0,0,0,0,0,0,0,0,0,0,0,0,0,0,0,0,0,1,207,255,251,0,0,0],
    [0,0,0,0,0,0,0,0,0,0,0,0,0,0,0,0,0,0,0,0,0,0,0,28,255,255,225,0,0,0,0,0],
    [0,0,0,0,0,27,251,48,0,0,0,0,0,0,0,0,0,0,0,0,2,207,255,255,48,0,0,0,0,0,0,0],
    [0,0,0,159,255,249,32,0,0,0,0,0,0,0,0,0,0,0,94,255,255,244,0,0,0,0,0,0,0,0,0,0],
    [5,255,255,255,249,48,0,0,0,0,0,0,0,0,0,59,255,255,254,64,0,0,0,0,0,0,0,0,0,0,0,143],
    [255,255,255,251,97,0,0,0,0,0,0,1,91,255,255,255,211,0,0,0,0,0,0,0,0,0,0,0,0,3,207,255],
    [255,255,255,201,99,33,0,18,71,190,255,255,255,250,16,0,0,0,0,0,0,0,0,0,0,0,0,0,5,223,255,255],
    [255,255,255,255,255,255,255,255,255,255,252,64,0,0,0,0,0,0,0,0,0,0,0,0,0,0,0,5,191,255,255,255],
    [255,255,255,255,255,255,255,252,80,0,0,0,0,0,0,0,0,0,0,0,0,0,0,0,0,0,2,107,255,255,255,255],
    [255,255,255,255,216,48,0,0,0,0,0,0,0,0,0,0,0,0,0,0,0,0,0,0,0,0,3,105,189,238,254,237],
    [185,98,0,0,0,0,0,0,0,0,0,0,0,0,0,0,0,0,0,0,0,0,0,0,0,0,0,0,0,0,0,0],
    [0,25,239,255,243,0,0,0,0,0,0,0,0,0,0,0,0,0,0,0,0,0,0,0,0,0,0,0,0,0,0,191],
    [255,255,96,0,0,0,0,0,0,0,0,0,0,0,0,0,0,0,0,0,0,0,0,0,0,0,0,0,7,255,255,250]]"

lemma clockFontPixels_3_length: "length (concat clockFontPixels_3) = 4736"
  by (simp add: clockFontPixels_3_def)

definition clockFontPixels_4 :: "u8 list list" where
  "clockFontPixels_4 = [
    [0,0,0,0,0,0,0,0,0,0,0,0,0,0,0,0,0,0,0,0,0,0,0,0,0,0,63,255,255,209,0,0],
    [0,0,0,0,0,0,0,0,0,0,0,0,0,0,0,0,0,0,0,0,0,0,0,1,223,255,255,48,0,0,0,0],
    [0,0,0,0,0,0,0,0,0,0,0,0,0,0,0,0,0,0,0,0,0,10,255,255,246,0,0,0,0,0,0,0],
    [0,0,0,0,0,0,0,0,0,0,0,0,0,0,0,0,0,0,0,111,255,255,160,0,0,0,0,0,0,0,0,0],
    [0,0,0,0,0,0,0,0,0,0,0,0,0,0,0,0,3,239,255,253,16,0,0,0,0,0,0,0,0,0,0,0],
    [0,0,0,0,0,0,0,0,0,0,0,0,0,0,29,255,255,243,0,0,0,0,0,0,0,0,0,0,0,0,0,0],
    [0,0,0,0,0,0,0,0,0,0,0,0,159,255,255,112,0,0,0,0,0,0,0,0,0,0,0,0,0,0,0,0],
    [0,0,0,0,0,0,0,0,0,5,255,255,250,0,0,0,0,0,0,0,0,0,0,0,0,0,0,0,0,0,0,0],
    [0,0,0,0,0,0,0,46,255,255,209,0,0,0,0,0,0,0,0,0,0,0,0,0,0,0,0,0,0,0,0,0],
    [0,0,0,0,0,207,255,255,48,0,0,0,0,0,0,0,0,0,0,0,0,0,0,0,0,0,0,0,0,0,0,0],
    [0,0,8,255,255,247,0,0,0,0,0,0,0,0,0,0,0,0,0,0,0,0,0,0,0,0,0,0,0,0,0,0],
    [79,255,255,176,0,0,0,0,0,0,0,0,0,0,0,0,0,0,0,0,0,0,0,0,0,0,0,0,0,2,239,255],
    [253,16,0,0,0,0,0,0,0,0,0,0,0,0,0,0,0,0,0,0,0,0,0,0,0,0,0,11,255,255,243,0],
    [0,0,0,0,0,0,0,0,0,0,0,0,0,0,0,0,0,0,0,0,0,0,0,0,0,143,255,255,112,0,0,0],
    [0,0,0,0,0,0,0,0,0,0,0,0,0,0,0,0,0,0,0,0,0,0,4,255,255,251,0,0,0,0,0,0],
    [0,0,0,0,0,0,0,0,0,0,0,0,0,0,0,0,0,0,0,0,29,255,255,209,0,0,0,0,0,0,0,0],
    [0,0,0,0,0,0,0,0,0,0,0,0,0,0,0,0,0,0,191,255,255,64,0,0,0,0,0,0,0,0,0,0],
    [0,0,0,0,0,0,0,0,0,0,0,0,0,0,0,7,255,255,247,0,0,0,0,0,0,0,0,0,0,0,0,0],
    [0,0,0,0,0,0,0,0,0,0,0,0,0,63,255,255,176,0,0,0,0,0,0,0,0,0,0,0,0,0,0,0],
    [0,0,0,0,0,0,0,0,0,0,1,223,255,254,16,0,0,0,0,0,0,0,0,0,0,0,0,0,0,0,0,0],
    [0,0,0,0,0,0,0,0,10,255,255,244,0,0,0,0,0,0,0,0,0,0,0,0,0,0,0,0,0,0,0,0],
    [0,0,0,0,0,0,111,255,255,112,0,0,0,0,0,0,0,0,0,0,0,0,0,0,0,0,0,0,0,0,0,0],
    [0,0,0,2,239,255,251,0,0,0,0,0,0,0,0,0,0,0,0,0,0,0,0,0,0,0,0,0,0,0,0,0],
    [0,28,255,255,225,0,0,0,0,0,0,0,0,0,0,0,0,0,0,0,0,0,0,0,0,0,0,0,0,0,0,159],
    [255,255,64,0,0,0,0,0,0,0,0,0,0,0,0,0,0,0,0,0,0,0,0,0,0,0,0,0,4,255,255,248],
    [0,0,0,0,0,0,0,0,0,0,0,0,0,0,0,0,0,0,0,0,0,0,0,0,0,0,30,255,255,176,0,0],
    [38,156,222,254,237,184,81,0,0,0,0,0,0,0,0,0,0,0,0,0,0,0,0,0,175,255,254,32,1,125,255,255],
    [255,255,255,255,255,182,0,0,0,0,0,0,0,0,0,0,0,0,0,0,0,5,255,255,245,1,159,255,255,255,255,255],
    [255,255,255,255,231,0,0,0,0,0,0,0,0,0,0,0,0,0,0,30,255,255,144,110,255,255,255,255,255,255,255,255],
    [255,255,255,212,0,0,0,0,0,0,0,0,0,0,0,0,0,159,255,254,43,255,255,252,133,49,16,18,70,157,255,255],
    [255,255,128,0,0,0,0,0,0,0,0,0,0,0,3,255,255,247,223,255,215,16,0,0,0,0,0,0,58,255,255,255],
    [250,16,0,0,0,0,0,0,0,0,0,0,11,255,255,205,255,230,0,0,0,0,0,0,0,0,0,42,255,255,255,176],
    [0,0,0,0,0,0,0,0,0,0,79,255,255,255,249,16,0,0,0,0,0,0,0,0,0,0,94,255,255,250,0,0],
    [0,0,0,0,0,0,0,0,191,255,255,255,96,0,0,0,0,0,0,0,0,0,0,0,3,223,255,255,96,0,0,0],
    [0,0,0,0,0,3,255,255,255,228,0,0,0,0,0,0,0,0,0,0,0,0,0,46,255,255,226,0,0,0,0,0],
    [0,0,0,10,255,255,255,80,0,0,0,0,0,0,0,0,0,0,0,0,0,3,255,255,250,0,0,0,0,0,0,0],
    [0,30,255,255,247,0,0,0,0,0,0,0,0,0,0,0,0,0,0,0,127,255,255,32,0,0,0,0,0,0,0,111],
    [255,255,192,0,0,0,0,0,0,0,0,0,0,0,0,0,0,0,13,255,255,144,0,0,0,0,0,0,0,191,255,255],
    [48,0,0,0,0,0,0,0,0,0,0,0,0,0,0,0,6,255,255,225,0,0,0,0,0,0,0,239,255,250,0,0],
    [0,0,0,0,0,0,0,0,0,0,0,0,0,0,0,239,255,245,0,0,0,0,0,0,4,255,255,243,0,0,0,0],
    [0,0,0,0,0,0,0,0,0,0,0,0,0,159,255,250,0,0,0,0,0,0,7,255,255,208,0,0,0,0,0,0],
    [0,0,0,0,0,0,0,0,0,0,0,79,255,253,0,0,0,0,0,0,10,255,255,128,0,0,0,0,0,0,0,0],
    [0,0,0,0,0,0,0,0,0,31,255,255,16,0,0,0,0,0,12,255,255,64,0,0,0,0,0,0,0,0,0,0],
    [0,0,0,0,0,0,0,12,255,255,48,0,0,0,0,0,13,255,255,32,0,0,0,0,0,0,0,0,0,0,0,0],
    [0,0,0,0,0,10,255,255,80,0,0,0,0,0,14,255,255,0,0,0,0,0,0,0,0,0,0,0,0,0,0,0],
    [0,0,0,9,255,255,96,0,0,0,0,0,13,255,254,0,0,0,0,0,0,0,0,0,0,0,0,0,0,0,0,0],
    [0,8,255,255,96,0,0,0,0,0,13,255,254,0,0,0,0,0,0,0,0,0,0,0,0,0,0,0,0,0,0,8],
    [255,255,96,0,0,0,0,0,12,255,254,0,0,0,0,0,0,0,0,0,0,0,0,0,0,0,0,0,0,8,255,255],
    [80,0,0,0,0,0,10,255,255,16,0,0,0,0,0,0,0,0,0,0,0,0,0,0,0,0,0,9,255,255,64,0],
    [0,0,0,0,9,255,255,32,0,0,0,0,0,0,0,0,0,0,0,0,0,0,0,0,0,11,255,255,32,0,0,0],
    [0,0,6,255,255,80,0,0,0,0,0,0,0,0,0,0,0,0,0,0,0,0,0,14,255,255,0,0,0,0,0,0],
    [3,255,255,128,0,0,0,0,0,0,0,0,0,0,0,0,0,0,0,0,0,47,255,252,0,0,0,0,0,0,0,239],
    [255,192,0,0,0,0,0,0,0,0,0,0,0,0,0,0,0,0,0,111,255,248,0,0,0,0,0,0,0,175,255,242],
    [0,0,0,0,0,0,0,0,0,0,0,0,0,0,0,0,0,191,255,244,0,0,0,0,0,0,0,95,255,248,0,0],
    [0,0,0,0,0,0,0,0,0,0,0,0,0,0,3,255,255,208,0,0,0,0,0,0,0,30,255,254,16,0,0,0],
    [0,0,0,0,0,0,0,0,0,0,0,0,10,255,255,112,0,0,0,0,0,0,0,8,255,255,128,0,0,0,0,0],
    [0,0,0,0,0,0,0,0,0,0,63,255,254,16,0,0,0,0,0,0,0,2,255,255,242,0,0,0,0,0,0,0],
    [0,0,0,0,0,0,0,1,223,255,247,0,0,0,0,0,0,0,0,0,143,255,252,16,0,0,0,0,0,0,0,0],
    [0,0,0,0,0,10,255,255,208,0,0,0,0,0,0,0,0,0,29,255,255,160,0,0,0,0,0,0,0,0,0,0],
    [0,0,0,143,255,255,48,0,0,0,0,0,0,0,0,0,4,255,255,250,0,0,0,0,0,0,0,0,0,0,0,0],
    [9,255,255,247,0,0,0,0,0,0,0,0,0,0,0,111,255,255,194,0,0,0,0,0,0,0,0,0,0,2,207,255],
    [255,128,0,0,0,0,0,0,0,0,0,0,0,8,255,255,254,96,0,0,0,0,0,0,0,0,1,143,255,255,249,0],
    [0,0,0,0,0,0,0,0,0,0,0,0,127,255,255,253,97,0,0,0,0,0,0,3,142,255,255,255,112,0,0,0],
    [0,0,0,0,0,0,0,0,0,0,5,239,255,255,255,183,66,16,1,36,105,223,255,255,255,212,0,0,0,0,0,0],
    [0,0,0,0,0,0,0,0,0,42,255,255,255,255,255,255,255,255,255,255,255,255,249,16,0,0,0,0,0,0,0,0],
    [0,0,0,0,0,0,0,0,75,255,255,255,255,255,255,255,255,255,255,249,32,0,0,0,0,0,0,0,0,0,0,0],
    [0,0,0,0,0,0,0,57,239,255,255,255,255,255,255,255,199,16,0,0,0,0,0,0,0,0,0,0,0,0,0,0],
    [0,0,0,0,0,0,3,105,189,239,254,236,168,81,0,0,0,0,0,0,0,0,0,0,0,0,0,0,143,255,255,255],
    [255,255,255,255,255,255,255,255,255,255,255,255,255,255,255,255,255,255,255,255,247,0,0,0,0,0,143,255,255,255,255,255],
    [255,255,255,255,255,255,255,255,255,255,255,255,255,255,255,255,255,255,247,0,0,0,0,0,127,255,255,255,255,255,255,255],
    [255,255,255,255,255,255,255,255,255,255,255,255,255,255,255,255,246,0,0,0,0,0,62,255,255,255,255,255,255,255,255,255],
    [255,255,255,255,255,255,255,255,255,255,255,255,255,255,244,0,0,0,0,0,0,0,0,0,0,0,0,0,0,0,0,0],
    [0,0,0,0,0,0,0,0,0,2,239,255,208,0,0,0,0,0,0,0,0,0,0,0,0,0,0,0,0,0,0,0],
    [0,0,0,0,0,0,0,11,255,255,96,0,0,0,0,0,0,0,0,0,0,0,0,0,0,0,0,0,0,0,0,0],
    [0,0,0,0,0,79,255,253,0,0,0,0,0,0,0,0,0,0,0,0,0,0,0,0,0,0,0,0,0,0,0,0],
    [0,0,0,207,255,246,0,0,0,0,0,0,0,0,0,0,0,0,0,0,0,0,0,0,0,0,0,0,0,0,0,0],
    [4,255,255,208,0,0,0,0,0,0,0,0,0,0,0,0,0,0,0,0,0,0,0,0,0,0,0,0,0,0,12,255],
    [255,96,0,0,0,0,0,0,0,0,0,0,0,0,0,0,0,0,0,0,0,0,0,0,0,0,0,0,95,255,253,0],
    [0,0,0,0,0,0,0,0,0,0,0,0,0,0,0,0,0,0,0,0,0,0,0,0,0,0,207,255,246,0,0,0],
    [0,0,0,0,0,0,0,0,0,0,0,0,0,0,0,0,0,0,0,0,0,0,0,5,255,255,208,0,0,0,0,0],
    [0,0,0,0,0,0,0,0,0,0,0,0,0,0,0,0,0,0,0,0,0,12,255,255,96,0,0,0,0,0,0,0],
    [0,0,0,0,0,0,0,0,0,0,0,0,0,0,0,0,0,0,0,95,255,253,0,0,0,0,0,0,0,0,0,0],
    [0,0,0,0,0,0,0,0,0,0,0,0,0,0,0,0,0,207,255,246,0,0,0,0,0,0,0,0,0,0,0,0],
    [0,0,0,0,0,0,0,0,0,0,0,0,0,0,5,255,255,208,0,0,0,0,0,0,0,0,0,0,0,0,0,0],
    [0,0,0,0,0,0,0,0,0,0,0,0,12,255,255,96,0,0,0,0,0,0,0,0,0,0,0,0,0,0,0,0],
    [0,0,0,0,0,0,0,0,0,0,95,255,253,0,0,0,0,0,0,0,0,0,0,0,0,0,0,0,0,0,0,0],
    [0,0,0,0,0,0,0,0,207,255,246,0,0,0,0,0,0,0,0,0,0,0,0,0,0,0,0,0,0,0,0,0],
    [0,0,0,0,0,5,255,255,208,0,0,0,0,0,0,0,0,0,0,0,0,0,0,0,0,0,0,0,0,0,0,0],
    [0,0,0,13,255,255,96,0,0,0,0,0,0,0,0,0,0,0,0,0,0,0,0,0,0,0,0,0,0,0,0,0],
    [0,95,255,253,0,0,0,0,0,0,0,0,0,0,0,0,0,0,0,0,0,0,0,0,0,0,0,0,0,0,0,223],
    [255,246,0,0,0,0,0,0,0,0,0,0,0,0,0,0,0,0,0,0,0,0,0,0,0,0,0,0,5,255,255,208],
    [0,0,0,0,0,0,0,0,0,0,0,0,0,0,0,0,0,0,0,0,0,0,0,0,0,0,13,255,255,96,0,0],
    [0,0,0,0,0,0,0,0,0,0,0,0,0,0,0,0,0,0,0,0,0,0,0,0,95,255,253,0,0,0,0,0],
    [0,0,0,0,0,0,0,0,0,0,0,0,0,0,0,0,0,0,0,0,0,0,223,255,246,0,0,0,0,0,0,0],
    [0,0,0,0,0,0,0,0,0,0,0,0,0,0,0,0,0,0,0,6,255,255,208,0,0,0,0,0,0,0,0,0],
    [0,0,0,0,0,0,0,0,0,0,0,0,0,0,0,0,0,13,255,255,96,0,0,0,0,0,0,0,0,0,0,0],
    [0,0,0,0,0,0,0,0,0,0,0,0,0,0,0,111,255,253,0,0,0,0,0,0,0,0,0,0,0,0,0,0],
    [0,0,0,0,0,0,0,0,0,0,0,0,0,223,255,246,0,0,0,0,0,0,0,0,0,0,0,0,0,0,0,0],
    [0,0,0,0,0,0,0,0,0,0,6,255,255,208,0,0,0,0,0,0,0,0,0,0,0,0,0,0,0,0,0,0],
    [0,0,0,0,0,0,0,0,13,255,255,96,0,0,0,0,0,0,0,0,0,0,0,0,0,0,0,0,0,0,0,0],
    [0,0,0,0,0,0,111,255,253,0,0,0,0,0,0,0,0,0,0,0,0,0,0,0,0,0,0,0,0,0,0,0],
    [0,0,0,0,223,255,246,0,0,0,0,0,0,0,0,0,0,0,0,0,0,0,0,0,0,0,0,0,0,0,0,0],
    [0,6,255,255,208,0,0,0,0,0,0,0,0,0,0,0,0,0,0,0,0,0,0,0,0,0,0,0,0,0,0,13],
    [255,255,96,0,0,0,0,0,0,0,0,0,0,0,0,0,0,0,0,0,0,0,0,0,0,0,0,0,0,111,255,253],
    [0,0,0,0,0,0,0,0,0,0,0,0,0,0,0,0,0,0,0,0,0,0,0,0,0,0,0,223,255,246,0,0],
    [0,0,0,0,0,0,0,0,0,0,0,0,0,0,0,0,0,0,0,0,0,0,0,0,6,255,255,208,0,0,0,0],
    [0,0,0,0,0,0,0,0,0,0,0,0,0,0,0,0,0,0,0,0,0,0,13,255,255,96,0,0,0,0,0,0],
    [0,0,0,0,0,0,0,0,0,0,0,0,0,0,0,0,0,0,0,0,111,255,253,0,0,0,0,0,0,0,0,0],
    [0,0,0,0,0,0,0,0,0,0,0,0,0,0,0,0,0,0,223,255,246,0,0,0,0,0,0,0,0,0,0,0],
    [0,0,0,0,0,0,0,0,0,0,0,0,0,0,0,6,255,255,208,0,0,0,0,0,0,0,0,0,0,0,0,0],
    [0,0,0,0,0,0,0,0,0,0,0,0,0,13,255,255,96,0,0,0,0,0,0,0,0,0,0,0,0,0,0,0],
    [0,0,0,0,0,0,0,0,0,0,0,127,255,253,0,0,0,0,0,0,0,0,0,0,0,0,0,0,0,0,0,0],
    [0,0,0,0,0,0,0,0,1,239,255,246,0,0,0,0,0,0,0,0,0,0,0,0,0,0,0,0,0,0,0,0],
    [0,0,0,0,0,0,7,255,255,208,0,0,0,0,0,0,0,0,0,0,0,0,0,0,0,0,0,0,0,0,0,0],
    [0,0,0,0,30,255,255,96,0,0,0,0,0,0,0,0,0,0,0,0,0,0,0,0,0,0,0,0,0,0,0,0],
    [0,0,127,255,253,0,0,0,0,0,0,0,0,0,0,0,0,0,0,0,0,0,0,0,0,0,0,0,0,0,0,1],
    [239,255,246,0,0,0,0,0,0,0,0,0,0,0,0,0,0,0,0,0,0,0,0,0,0,0,0,0,0,7,255,255],
    [208,0,0,0,0,0,0,0,0,0,0,0,0,0,0,0,0,0,0,0,0,0,0,0,0,0,0,30,255,255,96,0],
    [0,0,0,0,0,0,0,0,0,0,0,0,0,0,0,0,0,0,0,0,0,0,0,0,0,127,255,253,0,0,0,0],
    [0,0,0,0,0,0,0,0,0,0,0,0,0,0,0,0,0,0,0,0,0,0,1,239,255,246,0,0,0,0,0,0],
    [0,0,0,0,0,0,0,0,0,0,0,0,0,0,0,0,0,0,0,0,7,255,255,208,0,0,0,0,0,0,0,0],
    [0,0,0,0,0,0,0,0,0,0,0,0,0,0,0,0,0,0,30,255,255,96,0,0,0,0,0,0,0,0,0,0],
    [0,0,0,0,0,0,0,0,0,0,0,0,0,0,0,0,127,255,253,0,0,0,0,0,0,0,0,0,0,0,0,0],
    [0,0,0,0,0,0,0,0,0,0,0,0,0,1,239,255,246,0,0,0,0,0,0,0,0,0,0,0,0,0,0,0],
    [0,0,0,0,0,0,0,0,0,0,0,7,255,255,208,0,0,0,0,0,0,0,0,0,0,0,0,0,0,0,0,0],
    [0,0,0,0,0,0,0,0,0,30,255,255,96,0,0,0,0,0,0,0,0,0,0,0,0,0,0,0,0,0,0,0],
    [0,0,0,0,0,0,0,127,255,253,0,0,0,0,0,0,0,0,0,0,0,0,0,0,0,0,0,0,0,0,0,0],
    [0,0,0,0,1,239,255,246,0,0,0,0,0,0,0,0,0,0,0,0,0,0,0,0,0,0,0,0,0,0,0,0],
    [0,0,7,255,255,208,0,0,0,0,0,0,0,0,0,0,0,0,0,0,0,0,0,0,0,0,0,0,0,0,0,0],
    [30,255,255,96,0,0,0,0,0,0,0,0,0,0,0,0,0,0,0,0,0,0,0,0,0,0,0,0,0,0,143,255],
    [253,0,0,0,0,0,0,0,0,0,0,0,0,0,0,0,0,0,0,0,0,0,0,0,0,0,0,1,239,255,246,0],
    [0,0,0,0,0,0,0,0,0,0,0,0,0,0,0,0,0,0,0,0,0,0,0,0,0,8,255,255,208,0,0,0],
    [0,0,0,0,0,0,0,0,0,0,0,0,0,0,0,0,0,0,0,0,0,0,0,30,255,255,96,0,0,0,0,0],
    [0,0,0,0,0,0,0,0,0,0,0,0,0,0,0,0,0,0,0,0,0,143,255,253,0,0,0,0,0,0,0,0],
    [0,0,0,0,0,0,0,0,0,0,0,0,0,0,0,0,0,0,1,239,255,246,0,0,0,0,0,0,0,0,0,0],
    [0,0,0,0,0,0,0,0,0,0,0,0,0,0,0,0,8,255,255,208,0,0,0,0,0,0,0,0,0,0,0,0],
    [0,0,0,0,0,0,0,0,0,0,0,0,0,0,30,255,235,32,0,0,0,0,0,0,0,0,0,0,0,0,0,0],
    [0,0,0,0,0,0,0,0,0,0,0,0,0,0,0,0,3,105,189,239,254,220,167,65,0,0,0,0,0,0,0,0],
    [0,0,0,0,0,0,0,0,0,0,0,0,0,40,223,255,255,255,255,255,255,254,165,0,0,0,0,0,0,0,0,0],
    [0,0,0,0,0,0,0,0,0,0,59,255,255,255,255,255,255,255,255,255,255,214,0,0,0,0,0,0,0,0,0,0],
    [0,0,0,0,0,0,0,25,255,255,255,255,255,255,255,255,255,255,255,255,195,0,0,0,0,0,0,0,0,0,0,0],
    [0,0,0,0,3,223,255,255,255,184,83,16,1,36,122,239,255,255,255,112,0,0,0,0,0,0,0,0,0,0,0,0],
    [0,0,94,255,255,254,129,0,0,0,0,0,0,6,223,255,255,249,0,0,0,0,0,0,0,0,0,0,0,0,0,4],
    [255,255,255,129,0,0,0,0,0,0,0,0,6,239,255,255,160,0,0,0,0,0,0,0,0,0,0,0,0,46,255,255],
    [228,0,0,0,0,0,0,0,0,0,0,44,255,255,247,0,0,0,0,0,0,0,0,0,0,0,0,207,255,253,32,0],
    [0,0,0,0,0,0,0,0,0,0,175,255,255,64,0,0,0,0,0,0,0,0,0,0,7,255,255,226,0,0,0,0],
    [0,0,0,0,0,0,0,0,11,255,255,208,0,0,0,0,0,0,0,0,0,0,30,255,255,64,0,0,0,0,0,0],
    [0,0,0,0,0,0,2,239,255,246,0,0,0,0,0,0,0,0,0,0,143,255,250,0,0,0,0,0,0,0,0,0]]"

lemma clockFontPixels_4_length: "length (concat clockFontPixels_4) = 4736"
  by (simp add: clockFontPixels_4_def)

definition clockFontPixels_5 :: "u8 list list" where
  "clockFontPixels_5 = [
    [0,0,0,0,0,111,255,253,0,0,0,0,0,0,0,0,0,0,239,255,242,0,0,0,0,0,0,0,0,0,0,0],
    [0,0,0,13,255,255,64,0,0,0,0,0,0,0,0,4,255,255,176,0,0,0,0,0,0,0,0,0,0,0,0,0],
    [0,7,255,255,144,0,0,0,0,0,0,0,0,8,255,255,96,0,0,0,0,0,0,0,0,0,0,0,0,0,0,2],
    [255,255,208,0,0,0,0,0,0,0,0,11,255,255,32,0,0,0,0,0,0,0,0,0,0,0,0,0,0,0,223,255],
    [242,0,0,0,0,0,0,0,0,14,255,254,0,0,0,0,0,0,0,0,0,0,0,0,0,0,0,0,175,255,244,0],
    [0,0,0,0,0,0,0,15,255,253,0,0,0,0,0,0,0,0,0,0,0,0,0,0,0,0,143,255,245,0,0,0],
    [0,0,0,0,0,31,255,252,0,0,0,0,0,0,0,0,0,0,0,0,0,0,0,0,127,255,246,0,0,0,0,0],
    [0,0,0,31,255,251,0,0,0,0,0,0,0,0,0,0,0,0,0,0,0,0,127,255,246,0,0,0,0,0,0,0],
    [0,15,255,252,0,0,0,0,0,0,0,0,0,0,0,0,0,0,0,0,143,255,245,0,0,0,0,0,0,0,0,14],
    [255,254,0,0,0,0,0,0,0,0,0,0,0,0,0,0,0,0,175,255,244,0,0,0,0,0,0,0,0,13,255,255],
    [16,0,0,0,0,0,0,0,0,0,0,0,0,0,0,0,191,255,241,0,0,0,0,0,0,0,0,9,255,255,64,0],
    [0,0,0,0,0,0,0,0,0,0,0,0,0,0,255,255,208,0,0,0,0,0,0,0,0,6,255,255,128,0,0,0],
    [0,0,0,0,0,0,0,0,0,0,0,4,255,255,144,0,0,0,0,0,0,0,0,2,255,255,192,0,0,0,0,0],
    [0,0,0,0,0,0,0,0,0,8,255,255,64,0,0,0,0,0,0,0,0,0,191,255,243,0,0,0,0,0,0,0],
    [0,0,0,0,0,0,0,30,255,253,0,0,0,0,0,0,0,0,0,0,79,255,251,0,0,0,0,0,0,0,0,0],
    [0,0,0,0,0,127,255,246,0,0,0,0,0,0,0,0,0,0,11,255,255,80,0,0,0,0,0,0,0,0,0,0],
    [0,0,2,239,255,192,0,0,0,0,0,0,0,0,0,0,3,255,255,226,0,0,0,0,0,0,0,0,0,0,0,0],
    [28,255,255,48,0,0,0,0,0,0,0,0,0,0,0,127,255,253,32,0,0,0,0,0,0,0,0,0,0,0,191,255],
    [245,0,0,0,0,0,0,0,0,0,0,0,0,9,255,255,211,0,0,0,0,0,0,0,0,0,0,27,255,255,112,0],
    [0,0,0,0,0,0,0,0,0,0,0,0,159,255,255,128,0,0,0,0,0,0,0,0,5,239,255,230,0,0,0,0],
    [0,0,0,0,0,0,0,0,0,0,6,255,255,253,113,0,0,0,0,0,0,5,207,255,253,48,0,0,0,0,0,0],
    [0,0,0,0,0,0,0,0,0,60,255,255,255,183,66,16,1,36,106,239,255,254,96,0,0,0,0,0,0,0,0,0],
    [0,0,0,0,0,0,0,0,92,255,255,255,255,255,255,255,255,255,252,113,0,0,0,0,0,0,0,0,0,0,0,0],
    [0,0,0,0,0,0,0,57,255,255,255,255,255,255,255,255,163,0,0,0,0,0,0,0,0,0,0,0,0,0,0,0],
    [0,0,0,0,21,174,255,255,255,255,255,255,255,255,255,233,48,0,0,0,0,0,0,0,0,0,0,0,0,0,0,0],
    [0,41,239,255,255,255,255,255,255,255,255,255,255,255,251,64,0,0,0,0,0,0,0,0,0,0,0,0,0,0,25,255],
    [255,255,253,167,67,33,1,36,105,207,255,255,255,249,16,0,0,0,0,0,0,0,0,0,0,0,0,5,239,255,255,216],
    [32,0,0,0,0,0,0,1,108,255,255,255,228,0,0,0,0,0,0,0,0,0,0,0,0,143,255,255,230,0,0,0],
    [0,0,0,0,0,0,0,76,255,255,255,80,0,0,0,0,0,0,0,0,0,0,9,255,255,250,16,0,0,0,0,0],
    [0,0,0,0,0,0,111,255,255,246,0,0,0,0,0,0,0,0,0,0,159,255,255,96,0,0,0,0,0,0,0,0],
    [0,0,0,0,3,239,255,255,48,0,0,0,0,0,0,0,0,5,255,255,246,0,0,0,0,0,0,0,0,0,0,0],
    [0,0,0,46,255,255,209,0,0,0,0,0,0,0,0,46,255,255,128,0,0,0,0,0,0,0,0,0,0,0,0,0],
    [0,4,255,255,249,0,0,0,0,0,0,0,0,159,255,252,0,0,0,0,0,0,0,0,0,0,0,0,0,0,0,0],
    [127,255,255,16,0,0,0,0,0,0,1,255,255,243,0,0,0,0,0,0,0,0,0,0,0,0,0,0,0,0,13,255],
    [255,128,0,0,0,0,0,0,8,255,255,176,0,0,0,0,0,0,0,0,0,0,0,0,0,0,0,0,6,255,255,224],
    [0,0,0,0,0,0,13,255,255,80,0,0,0,0,0,0,0,0,0,0,0,0,0,0,0,0,0,239,255,244,0,0],
    [0,0,0,0,47,255,255,16,0,0,0,0,0,0,0,0,0,0,0,0,0,0,0,0,0,175,255,248,0,0,0,0],
    [0,0,111,255,251,0,0,0,0,0,0,0,0,0,0,0,0,0,0,0,0,0,0,111,255,251,0,0,0,0,0,0],
    [143,255,249,0,0,0,0,0,0,0,0,0,0,0,0,0,0,0,0,0,0,79,255,253,0,0,0,0,0,0,175,255],
    [247,0,0,0,0,0,0,0,0,0,0,0,0,0,0,0,0,0,0,47,255,255,0,0,0,0,0,0,191,255,246,0],
    [0,0,0,0,0,0,0,0,0,0,0,0,0,0,0,0,0,31,255,255,16,0,0,0,0,0,191,255,245,0,0,0],
    [0,0,0,0,0,0,0,0,0,0,0,0,0,0,0,15,255,255,16,0,0,0,0,0,191,255,246,0,0,0,0,0],
    [0,0,0,0,0,0,0,0,0,0,0,0,0,31,255,255,0,0,0,0,0,0,175,255,247,0,0,0,0,0,0,0],
    [0,0,0,0,0,0,0,0,0,0,0,47,255,255,0,0,0,0,0,0,159,255,249,0,0,0,0,0,0,0,0,0],
    [0,0,0,0,0,0,0,0,0,79,255,253,0,0,0,0,0,0,127,255,251,0,0,0,0,0,0,0,0,0,0,0],
    [0,0,0,0,0,0,0,127,255,251,0,0,0,0,0,0,79,255,255,16,0,0,0,0,0,0,0,0,0,0,0,0],
    [0,0,0,0,0,175,255,248,0,0,0,0,0,0,14,255,255,80,0,0,0,0,0,0,0,0,0,0,0,0,0,0],
    [0,0,1,255,255,244,0,0,0,0,0,0,10,255,255,176,0,0,0,0,0,0,0,0,0,0,0,0,0,0,0,0],
    [7,255,255,224,0,0,0,0,0,0,4,255,255,244,0,0,0,0,0,0,0,0,0,0,0,0,0,0,0,0,30,255],
    [255,128,0,0,0,0,0,0,0,207,255,253,0,0,0,0,0,0,0,0,0,0,0,0,0,0,0,0,159,255,254,32],
    [0,0,0,0,0,0,0,79,255,255,144,0,0,0,0,0,0,0,0,0,0,0,0,0,0,4,255,255,248,0,0,0],
    [0,0,0,0,0,10,255,255,247,0,0,0,0,0,0,0,0,0,0,0,0,0,0,62,255,255,209,0,0,0,0,0],
    [0,0,0,1,223,255,255,128,0,0,0,0,0,0,0,0,0,0,0,0,4,239,255,255,48,0,0,0,0,0,0,0],
    [0,0,62,255,255,250,16,0,0,0,0,0,0,0,0,0,0,1,159,255,255,246,0,0,0,0,0,0,0,0,0,0],
    [4,239,255,255,231,16,0,0,0,0,0,0,0,0,0,93,255,255,255,112,0,0,0,0,0,0,0,0,0,0,0,62],
    [255,255,255,232,32,0,0,0,0,0,0,1,125,255,255,255,246,0,0,0,0,0,0,0,0,0,0,0,0,1,191,255],
    [255,255,253,150,66,16,1,35,88,207,255,255,255,253,48,0,0,0,0,0,0,0,0,0,0,0,0,0,6,239,255,255],
    [255,255,255,255,255,255,255,255,255,255,254,128,0,0,0,0,0,0,0,0,0,0,0,0,0,0,0,23,223,255,255,255],
    [255,255,255,255,255,255,255,254,129,0,0,0,0,0,0,0,0,0,0,0,0,0,0,0,0,0,4,157,255,255,255,255],
    [255,255,255,255,234,80,0,0,0,0,0,0,0,0,0,0,0,0,0,0,0,0,0,0,0,0,37,138,206,239,254,237],
    [185,99,0,0,0,0,0,0,0,0,0,0,0,0,0,0,0,0,0,0,0,0,0,0,2,89,189,239,254,220,167,48],
    [0,0,0,0,0,0,0,0,0,0,0,0,0,0,0,0,0,0,0,0,0,39,207,255,255,255,255,255,255,254,147,0],
    [0,0,0,0,0,0,0,0,0,0,0,0,0,0,0,0,0,0,42,255,255,255,255,255,255,255,255,255,255,179,0,0],
    [0,0,0,0,0,0,0,0,0,0,0,0,0,0,0,25,255,255,255,255,255,255,255,255,255,255,255,255,145,0,0,0],
    [0,0,0,0,0,0,0,0,0,0,0,0,4,223,255,255,255,184,83,16,1,36,139,255,255,255,253,48,0,0,0,0],
    [0,0,0,0,0,0,0,0,0,0,111,255,255,253,97,0,0,0,0,0,0,40,239,255,255,228,0,0,0,0,0,0],
    [0,0,0,0,0,0,0,8,255,255,254,96,0,0,0,0,0,0,0,0,25,255,255,255,80,0,0,0,0,0,0,0],
    [0,0,0,0,0,127,255,255,177,0,0,0,0,0,0,0,0,0,0,77,255,255,227,0,0,0,0,0,0,0,0,0],
    [0,0,5,255,255,248,0,0,0,0,0,0,0,0,0,0,0,2,223,255,253,16,0,0,0,0,0,0,0,0,0,0],
    [46,255,255,128,0,0,0,0,0,0,0,0,0,0,0,0,29,255,255,160,0,0,0,0,0,0,0,0,0,0,191,255],
    [250,0,0,0,0,0,0,0,0,0,0,0,0,0,2,239,255,244,0,0,0,0,0,0,0,0,0,6,255,255,209,0],
    [0,0,0,0,0,0,0,0,0,0,0,0,0,111,255,252,0,0,0,0,0,0,0,0,0,13,255,255,64,0,0,0],
    [0,0,0,0,0,0,0,0,0,0,0,12,255,255,64,0,0,0,0,0,0,0,0,95,255,251,0,0,0,0,0,0],
    [0,0,0,0,0,0,0,0,0,4,255,255,176,0,0,0,0,0,0,0,0,191,255,244,0,0,0,0,0,0,0,0],
    [0,0,0,0,0,0,0,0,207,255,241,0,0,0,0,0,0,0,2,255,255,208,0,0,0,0,0,0,0,0,0,0],
    [0,0,0,0,0,0,127,255,246,0,0,0,0,0,0,0,6,255,255,144,0,0,0,0,0,0,0,0,0,0,0,0],
    [0,0,0,0,47,255,250,0,0,0,0,0,0,0,10,255,255,80,0,0,0,0,0,0,0,0,0,0,0,0,0,0],
    [0,0,13,255,253,0,0,0,0,0,0,0,13,255,255,32,0,0,0,0,0,0,0,0,0,0,0,0,0,0,0,0],
    [10,255,255,16,0,0,0,0,0,0,15,255,254,0,0,0,0,0,0,0,0,0,0,0,0,0,0,0,0,0,8,255],
    [255,48,0,0,0,0,0,0,31,255,253,0,0,0,0,0,0,0,0,0,0,0,0,0,0,0,0,0,6,255,255,80],
    [0,0,0,0,0,0,47,255,252,0,0,0,0,0,0,0,0,0,0,0,0,0,0,0,0,0,5,255,255,96,0,0],
    [0,0,0,0,63,255,252,0,0,0,0,0,0,0,0,0,0,0,0,0,0,0,0,0,5,255,255,112,0,0,0,0],
    [0,0,47,255,253,0,0,0,0,0,0,0,0,0,0,0,0,0,0,0,0,0,5,255,255,112,0,0,0,0,0,0],
    [47,255,254,0,0,0,0,0,0,0,0,0,0,0,0,0,0,0,0,0,7,255,255,96,0,0,0,0,0,0,15,255],
    [255,16,0,0,0,0,0,0,0,0,0,0,0,0,0,0,0,0,9,255,255,80,0,0,0,0,0,0,13,255,255,48],
    [0,0,0,0,0,0,0,0,0,0,0,0,0,0,0,0,13,255,255,64,0,0,0,0,0,0,11,255,255,96,0,0],
    [0,0,0,0,0,0,0,0,0,0,0,0,0,0,47,255,255,16,0,0,0,0,0,0,8,255,255,160,0,0,0,0],
    [0,0,0,0,0,0,0,0,0,0,0,0,127,255,254,0,0,0,0,0,0,0,4,255,255,225,0,0,0,0,0,0],
    [0,0,0,0,0,0,0,0,0,0,223,255,250,0,0,0,0,0,0,0,0,239,255,246,0,0,0,0,0,0,0,0],
    [0,0,0,0,0,0,0,6,255,255,246,0,0,0,0,0,0,0,0,159,255,253,0,0,0,0,0,0,0,0,0,0],
    [0,0,0,0,0,29,255,255,241,0,0,0,0,0,0,0,0,47,255,255,96,0,0,0,0,0,0,0,0,0,0,0],
    [0,0,0,159,255,255,160,0,0,0,0,0,0,0,0,10,255,255,226,0,0,0,0,0,0,0,0,0,0,0,0,0],
    [6,255,255,255,64,0,0,0,0,0,0,0,0,2,239,255,252,16,0,0,0,0,0,0,0,0,0,0,0,0,95,255],
    [255,253,0,0,0,0,0,0,0,0,0,0,127,255,255,177,0,0,0,0,0,0,0,0,0,0,0,6,255,255,255,246],
    [0,0,0,0,0,0,0,0,0,0,11,255,255,252,32,0,0,0,0,0,0,0,0,0,1,159,255,255,255,208,0,0],
    [0,0,0,0,0,0,0,0,1,207,255,255,231,0,0,0,0,0,0,0,0,0,93,255,251,255,255,80,0,0,0,0],
    [0,0,0,0,0,0,0,28,255,255,255,214,16,0,0,0,0,0,1,108,255,255,140,255,252,0,0,0,0,0,0,0],
    [0,0,0,0,0,1,175,255,255,255,251,116,33,0,18,71,190,255,255,229,143,255,243,0,0,0,0,0,0,0,0,0],
    [0,0,0,0,6,239,255,255,255,255,255,255,255,255,255,255,251,35,255,255,144,0,0,0,0,0,0,0,0,0,0,0],
    [0,0,0,41,255,255,255,255,255,255,255,255,255,252,80,29,255,253,16,0,0,0,0,0,0,0,0,0,0,0,0,0],
    [0,0,40,223,255,255,255,255,255,255,234,64,0,159,255,245,0,0,0,0,0,0,0,0,0,0,0,0,0,0,0,0],
    [0,3,106,205,239,254,202,132,0,0,4,255,255,160,0,0,0,0,0,0,0,0,0,0,0,0,0,0,0,0,0,0],
    [0,0,0,0,0,0,0,0,29,255,254,16,0,0,0,0,0,0,0,0,0,0,0,0,0,0,0,0,0,0,0,0],
    [0,0,0,0,0,0,175,255,245,0,0,0,0,0,0,0,0,0,0,0,0,0,0,0,0,0,0,0,0,0,0,0],
    [0,0,0,6,255,255,160,0,0,0,0,0,0,0,0,0,0,0,0,0,0,0,0,0,0,0,0,0,0,0,0,0],
    [0,46,255,254,16,0,0,0,0,0,0,0,0,0,0,0,0,0,0,0,0,0,0,0,0,0,0,0,0,0,0,207],
    [255,244,0,0,0,0,0,0,0,0,0,0,0,0,0,0,0,0,0,0,0,0,0,0,0,0,0,0,8,255,255,144],
    [0,0,0,0,0,0,0,0,0,0,0,0,0,0,0,0,0,0,0,0,0,0,0,0,0,0,79,255,253,16,0,0],
    [0,0,0,0,0,0,0,0,0,0,0,0,0,0,0,0,0,0,0,0,0,0,0,1,239,255,244,0,0,0,0,0],
    [0,0,0,0,0,0,0,0,0,0,0,0,0,0,0,0,0,0,0,0,0,11,255,255,144,0,0,0,0,0,0,0],
    [0,0,0,0,0,0,0,0,0,0,0,0,0,0,0,0,0,0,0,127,255,253,16,0,0,0,0,0,0,0,0,0],
    [0,0,0,0,0,0,0,0,0,0,0,0,0,0,0,0,3,255,255,244,0,0,0,0,0,0,0,0,0,0,0,0],
    [0,0,0,0,0,0,0,0,0,0,0,0,0,0,29,255,255,128,0,0,0,0,0,0,0,0,0,0,0,0,0,0],
    [0,0,0,0,0,0,0,0,0,0,0,0,159,255,253,16,0,0,0,0,0,0,0,0,0,0,0,0,0,0,0,0],
    [0,0,0,0,0,0,0,0,0,5,255,255,243,0,0,0,0,0,0,0,0,0,0,0,0,0,0,0,0,0,0,0],
    [0,0,0,0,0,0,0,46,255,255,128,0,0,0,0,0,0,0,0,0,0,0,0,0,0,0,0,0,0,0,0,0],
    [0,0,0,0,0,191,255,252,0,0,0,0,0,0,0,0,0,0,0,0,0,0,0,0,0,0,0,0,0,0,0,0],
    [0,0,7,255,255,243,0,0,0,0,0,0,0,0,0,0,0,0,0,0,0,0,0,0,0,0,0,0,0,0,0,0],
    [63,255,255,128,0,0,0,0,0,0,0,0,0,0,0,0,0,0,0,0,0,0,0,0,0,0,0,0,0,1,223,255],
    [252,0,0,0,0,0,0,0,0,0,0,0,0,0,0,0,0,0,0,0,0,0,0,0,0,0,0,9,255,255,243,0],
    [0,0,0,0,0,0,0,0,0,0,0,0,0,0,0,0,0,0,0,0,0,0,0,0,0,95,255,255,112,0,0,0],
    [0,0,0,0,0,0,0,0,0,0,0,0,0,0,0,0,0,0,0,0,0,0,2,239,255,252,0,0,0,0,0,0],
    [0,0,0,0,0,0,0,0,0,0,0,0,0,0,0,0,0,0,0,0,12,255,255,242,0,0,0,0,0,0,0,0],
    [0,0,0,0,0,0,0,0,0,0,0,0,0,0,0,0,0,0,143,255,255,112,0,0,0,0,0,0,0,0,0,0],
    [0,0,0,0,0,0,0,0,0,0,0,0,0,0,0,3,255,255,251,0,0,0,0,0,0,0,0,0,0,0,0,0],
    [0,0,0,0,0,0,0,0,0,0,0,0,0,29,255,255,226,0,0,0,0,0,0,0,0,0,0,0,0,0,0,0],
    [0,0,0,0,0,0,0,0,0,0,0,175,255,255,96,0,0,0,0,0,0,0,0,0,0,0,0,0,0,0,0,0],
    [0,0,0,0,0,0,0,0,6,255,255,251,0,0,0,0,0,0,0,0,0,0,0,0,0,0,0,0,0,0,0,0],
    [0,0,0,0,0,0,46,255,255,226,0,0,0,0,0,0,0,0,0,0,0,0,0,0,0,0,0,0,0,0,0,0],
    [0,0,0,0,207,255,255,96,0,0,0,0,0,0,0,0,0,0,0,0,0,0,0,0,0,0,0,0,0,0,0,0],
    [0,8,255,255,215,0,0,0,0,0,0,0,0,0,0,0,0,0,0,0,0,0,0,0,0,0,0,1,141,253,112,0],
    [0,0,0,0,0,0,0,1,223,255,255,177,0,0,0,0,0,0,0,0,175,255,255,255,128,0,0,0,0,0,0,0],
    [47,255,255,255,254,16,0,0,0,0,0,0,5,255,255,255,255,243,0,0,0,0,0,0,0,95,255,255,255,255,48,0],
    [0,0,0,0,0,2,255,255,255,255,241,0,0,0,0,0,0,0,11,255,255,255,249,0,0,0,0,0,0,0,0,45],
    [255,255,252,16,0,0,0,0,0,0,0,0,25,223,216,16,0,0,0,0,0,0,0,0,0,0,0,0,0,0,0,0],
    [0,0,0,0,0,0,0,0,0,0,0,0,0,0,0,0,0,0,0,0,0,0,0,0,0,0,0,0,0,0,0,0],
    [0,0,0,0,0,0,0,0,0,0,0,0,0,0,0,0,0,0,0,0,0,0,0,0,0,0,0,0,0,0,0,0],
    [0,0,0,0,0,0,0,0,0,0,0,0,0,0,0,0,0,0,0,0,0,0,0,0,0,0,0,0,0,0,0,0],
    [0,0,0,0,0,0,0,0,0,0,0,0,0,0,0,0,0,0,0,0,0,0,0,0,0,0,0,0,0,0,0,0],
    [0,0,0,0,0,0,0,0,0,0,0,0,0,0,0,0,0,0,0,0,0,0,0,0,0,0,0,0,0,0,0,0],
    [0,0,0,0,0,0,0,0,0,0,0,0,0,0,0,0,0,0,0,0,0,0,0,0,0,0,0,0,0,0,0,0],
    [0,0,0,0,0,0,0,0,0,0,0,0,0,0,0,0,0,0,0,0,0,0,0,0,0,0,0,0,0,0,0,0],
    [0,0,0,0,0,0,0,0,0,0,0,0,0,0,0,0,0,0,0,0,0,0,0,0,0,0,0,0,0,0,0,0],
    [0,0,0,0,0,0,0,0,0,0,0,0,0,0,0,0,0,0,0,0,0,0,0,0,0,0,0,0,0,0,0,0],
    [0,0,0,0,0,0,0,0,0,0,0,0,0,0,0,0,0,0,0,0,0,0,0,0,0,0,0,0,0,0,0,0],
    [0,0,0,0,0,0,0,0,0,0,0,0,0,0,0,0,0,0,0,0,0,0,0,0,0,0,0,0,0,0,0,0],
    [0,0,0,0,0,0,0,0,0,0,0,0,0,0,0,0,0,0,0,0,0,0,0,0,0,0,0,0,24,223,215,0],
    [0,0,0,0,0,0,0,0,29,255,255,251,16,0,0,0,0,0,0,0,10,255,255,255,248,0,0,0,0,0,0,0]]"

lemma clockFontPixels_5_length: "length (concat clockFontPixels_5) = 4736"
  by (simp add: clockFontPixels_5_def)

definition clockFontPixels_6 :: "u8 list list" where
  "clockFontPixels_6 = [
    [2,255,255,255,255,225,0,0,0,0,0,0,0,95,255,255,255,255,48,0,0,0,0,0,0,5,255,255,255,255,243,0],
    [0,0,0,0,0,0,47,255,255,255,255,16,0,0,0,0,0,0,0,191,255,255,255,144,0,0,0,0,0,0,0,2],
    [223,255,255,193,0,0,0,0,0,0,0,0,1,157,253,129,0,0,0,0,0]]"

lemma clockFontPixels_6_length: "length (concat clockFontPixels_6) = 85"
  by (simp add: clockFontPixels_6_def)

definition clockFontPixels :: "u8 list" where
  "clockFontPixels = concat clockFontPixels_1 @ concat clockFontPixels_2 @ concat clockFontPixels_3 @ concat clockFontPixels_4 @ concat clockFontPixels_5 @ concat clockFontPixels_6"

lemma clockFontPixels_length: "length clockFontPixels = 23765"
  by (simp add: clockFontPixels_def clockFontPixels_1_length clockFontPixels_2_length clockFontPixels_3_length clockFontPixels_4_length clockFontPixels_5_length clockFontPixels_6_length)

definition clockFontGlyphs :: "smooth_glyph list" where
  "clockFontGlyphs = map (\<lambda>(code, left, top, width, height, advance, offset).
      \<lparr>sg_code = code, sg_left = left, sg_top = top, sg_width = width, sg_height = height,
       sg_advance = advance, sg_offset = offset\<rparr>) [
    (45, 0, -33, 38, 33, 38, 0),
    (48, 0, -75, 60, 76, 60, 627),
    (49, 0, -74, 60, 74, 60, 2907),
    (50, 0, -75, 60, 75, 60, 5127),
    (51, 0, -75, 60, 76, 60, 7377),
    (52, 0, -74, 60, 74, 60, 9657),
    (53, 0, -74, 60, 75, 60, 11877),
    (54, 0, -74, 60, 75, 60, 14127),
    (55, 0, -74, 60, 74, 60, 16377),
    (56, 0, -75, 60, 76, 60, 18597),
    (57, 0, -75, 60, 75, 60, 20877),
    (58, 0, -50, 25, 51, 25, 23127)]"

definition clockFont :: smooth_font where
  "clockFont = \<lparr>sf_glyphs = clockFontGlyphs, sf_pixels = clockFontPixels, sf_count = 12, sf_ascent = 103\<rparr>"

lemma clockFont_tiled: "font_tiled clockFont"
  by (simp add: font_tiled_def clockFont_def clockFontGlyphs_def clockFontPixels_length)

lemma clockFont_codes: "map sg_code (sf_glyphs clockFont) = [45, 48, 49, 50, 51, 52, 53, 54, 55, 56, 57, 58]" "sf_count clockFont = length (sf_glyphs clockFont)"
  by (simp_all add: clockFont_def clockFontGlyphs_def)

end
