(* ===== verification/Lato_Value.thy ===== *)
theory Lato_Value
  imports Smooth_Text
begin

text \<open>
  \<open>firmware/giga-filament/smooth_font.h\<close>: the font of the temperature and humidity values (Lato Regular, 72 px). The
  pixel array is kept with one row of the list per line of the source, in blocks of at most
  148 lines.
\<close>

definition valueFontPixels_1 :: "u8 list list" where
  "valueFontPixels_1 = [
    [0,0,0,0,0,72,205,254,201,64,0,0,0,0,0,0,0,0,0,0,0,0,0,0,0,0,0,0,0,0,0,0],
    [0,60,255,255,255,255,253,64,0,0,0,0,0,0,0,0,0,0,0,60,255,255,160,0,0,0,0,0,0,7,255,255],
    [255,255,255,255,248,0,0,0,0,0,0,0,0,0,0,2,239,255,253,16,0,0,0,0,0,0,127,255,255,255,255,255],
    [255,255,144,0,0,0,0,0,0,0,0,0,12,255,255,243,0,0,0,0,0,0,4,255,255,253,98,1,92,255,255,246],
    [0,0,0,0,0,0,0,0,0,143,255,255,112,0,0,0,0,0,0,13,255,255,160,0,0,0,143,255,254,32,0,0],
    [0,0,0,0,0,4,255,255,251,0,0,0,0,0,0,0,111,255,253,0,0,0,0,11,255,255,128,0,0,0,0,0],
    [0,0,30,255,255,209,0,0,0,0,0,0,0,207,255,245,0,0,0,0,2,255,255,225,0,0,0,0,0,0,0,191],
    [255,255,64,0,0,0,0,0,0,2,255,255,224,0,0,0,0,0,191,255,244,0,0,0,0,0,0,7,255,255,247,0],
    [0,0,0,0,0,0,6,255,255,144,0,0,0,0,0,111,255,248,0,0,0,0,0,0,79,255,255,176,0,0,0,0],
    [0,0,0,9,255,255,96,0,0,0,0,0,63,255,251,0,0,0,0,0,1,223,255,254,16,0,0,0,0,0,0,0],
    [10,255,255,64,0,0,0,0,0,31,255,253,0,0,0,0,0,11,255,255,244,0,0,0,0,0,0,0,0,11,255,255],
    [48,0,0,0,0,0,15,255,254,0,0,0,0,0,127,255,255,128,0,0,0,0,0,0,0,0,12,255,255,48,0,0],
    [0,0,0,15,255,254,0,0,0,0,3,255,255,252,0,0,0,0,0,0,0,0,0,12,255,255,48,0,0,0,0,0],
    [15,255,254,0,0,0,0,29,255,255,226,0,0,0,0,0,0,0,0,0,10,255,255,64,0,0,0,0,0,31,255,253],
    [0,0,0,0,175,255,255,80,0,0,0,0,0,0,0,0,0,9,255,255,96,0,0,0,0,0,63,255,251,0,0,0],
    [6,255,255,249,0,0,0,0,0,0,0,0,0,0,6,255,255,144,0,0,0,0,0,111,255,248,0,0,0,63,255,255],
    [192,0,0,0,0,0,0,0,0,0,0,2,255,255,208,0,0,0,0,0,175,255,244,0,0,1,223,255,254,32,0,0],
    [0,0,0,0,0,0,0,0,0,223,255,244,0,0,0,0,1,255,255,224,0,0,10,255,255,245,0,0,0,0,0,0],
    [0,0,0,0,0,0,111,255,252,0,0,0,0,10,255,255,112,0,0,111,255,255,144,0,0,0,0,0,0,0,0,0],
    [0,0,0,30,255,255,144,0,0,0,127,255,254,16,0,2,239,255,252,16,0,0,0,0,0,0,0,0,0,0,0,0],
    [4,255,255,252,82,1,91,255,255,244,0,0,28,255,255,226,0,0,0,0,0,0,0,0,0,0,0,0,0,0,143,255],
    [255,255,255,255,255,255,112,0,0,159,255,255,96,0,0,0,0,0,0,0,0,0,0,0,0,0,0,7,255,255,255,255],
    [255,255,246,0,0,5,255,255,250,0,0,0,0,0,0,0,0,0,0,0,0,0,0,0,0,60,255,255,255,255,251,48],
    [0,0,46,255,255,209,0,0,0,0,0,0,0,0,0,0,0,0,0,0,0,0,0,72,206,254,200,48,0,0,0,207],
    [255,255,48,0,0,0,0,0,0,0,0,0,0,0,0,0,0,0,0,0,0,0,0,0,0,0,0,9,255,255,246,0],
    [0,0,0,0,0,0,0,0,0,0,0,0,0,0,0,0,0,0,0,0,0,0,0,0,95,255,255,160,0,0,0,22],
    [189,238,219,114,0,0,0,0,0,0,0,0,0,0,0,0,0,0,0,0,2,239,255,253,16,0,0,24,255,255,255,255],
    [255,162,0,0,0,0,0,0,0,0,0,0,0,0,0,0,0,12,255,255,243,0,0,2,223,255,255,255,255,255,254,64],
    [0,0,0,0,0,0,0,0,0,0,0,0,0,0,143,255,255,112,0,0,46,255,255,255,255,255,255,255,244,0,0,0],
    [0,0,0,0,0,0,0,0,0,0,4,255,255,251,0,0,0,207,255,255,131,17,55,239,255,254,32,0,0,0,0,0],
    [0,0,0,0,0,0,0,30,255,255,209,0,0,7,255,255,227,0,0,0,28,255,255,176,0,0,0,0,0,0,0,0],
    [0,0,0,0,191,255,255,64,0,0,30,255,255,64,0,0,0,2,239,255,243,0,0,0,0,0,0,0,0,0,0,0],
    [7,255,255,247,0,0,0,111,255,251,0,0,0,0,0,127,255,249,0,0,0,0,0,0,0,0,0,0,0,79,255,255],
    [176,0,0,0,175,255,245,0,0,0,0,0,47,255,254,0,0,0,0,0,0,0,0,0,0,1,223,255,254,16,0,0],
    [0,239,255,241,0,0,0,0,0,12,255,255,32,0,0,0,0,0,0,0,0,0,11,255,255,244,0,0,0,1,255,255],
    [224,0,0,0,0,0,9,255,255,80,0,0,0,0,0,0,0,0,0,127,255,255,128,0,0,0,2,255,255,192,0,0],
    [0,0,0,8,255,255,96,0,0,0,0,0,0,0,0,3,255,255,252,0,0,0,0,4,255,255,176,0,0,0,0,0],
    [7,255,255,112,0,0,0,0,0,0,0,0,29,255,255,226,0,0,0,0,4,255,255,176,0,0,0,0,0,7,255,255],
    [128,0,0,0,0,0,0,0,0,175,255,255,80,0,0,0,0,3,255,255,192,0,0,0,0,0,8,255,255,96,0,0],
    [0,0,0,0,0,6,255,255,249,0,0,0,0,0,2,255,255,208,0,0,0,0,0,9,255,255,80,0,0,0,0,0],
    [0,0,63,255,255,192,0,0,0,0,0,0,239,255,241,0,0,0,0,0,12,255,255,48,0,0,0,0,0,0,1,223],
    [255,254,32,0,0,0,0,0,0,175,255,245,0,0,0,0,0,31,255,253,0,0,0,0,0,0,0,10,255,255,245,0],
    [0,0,0,0,0,0,111,255,250,0,0,0,0,0,127,255,249,0,0,0,0,0,0,0,111,255,255,144,0,0,0,0],
    [0,0,0,30,255,255,64,0,0,0,1,239,255,242,0,0,0,0,0,0,2,239,255,252,16,0,0,0,0,0,0,0],
    [8,255,255,226,0,0,0,28,255,255,160,0,0,0,0,0,0,28,255,255,226,0,0,0,0,0,0,0,0,0,207,255],
    [255,131,17,39,239,255,253,16,0,0,0,0,0,0,159,255,255,96,0,0,0,0,0,0,0,0,0,46,255,255,255,255],
    [255,255,255,227,0,0,0,0,0,0,5,255,255,250,0,0,0,0,0,0,0,0,0,0,2,223,255,255,255,255,255,253],
    [48,0,0,0,0,0,0,46,255,255,160,0,0,0,0,0,0,0,0,0,0,0,24,255,255,255,255,255,129,0,0,0],
    [0,0,0,0,0,0,0,0,0,0,0,0,0,0,0,0,0,0,0,0,22,189,238,219,98,0,0,0,0,0,0,0],
    [143,255,255,255,255,255,255,255,255,64,0,0,0,8,255,255,255,255,255,255,255,255,244,0,0,0,0,143,255,255,255,255],
    [255,255,255,255,64,0,0,0,8,255,255,255,255,255,255,255,255,244,0,0,0,0,143,255,255,255,255,255,255,255,255,64],
    [0,0,0,0,0,0,0,0,0,0,0,0,0,0,0,0,0,0,0,0,0,0,0,0,0,0,0,0,0,0,0,0],
    [0,0,0,0,0,0,0,0,0,0,0,0,0,0,0,0,0,0,0,0,0,0,0,0,0,0,0,0,0,0,0,0],
    [0,0,0,0,0,0,0,0,0,0,0,0,0,0,0,0,0,0,0,0,0,0,0,0,0,0,0,0,0,0,0,0],
    [0,0,0,0,0,0,0,0,0,0,0,0,0,0,0,0,0,0,0,0,0,0,0,0,0,0,0,0,0,0,0,0],
    [0,0,0,0,0,0,0,0,0,0,0,0,0,0,0,0,0,0,0,0,0,0,0,0,0,0,0,0,0,0,0,0],
    [0,0,0,0,0,0,0,0,0,0,0,0,0,0,0,0,0,0,0,0,0,0,0,0,0,0,0,0,0,0,0,0],
    [0,0,0,0,0,0,0,0,0,0,0,0,0,0,0,0,0,0,0,0,0,0,0,0,0,0,0,0,0,0,0,0],
    [0,0,0,0,0,0,0,0,0,0,0,0,0,0,0,0,0,0,0,0,0,0,0,0,0,0,0,0,0,0,0,0],
    [0,0,0,0,0,125,253,112,0,0,0,0,0,207,255,255,176,0,0,0,0,127,255,255,255,112,0,0,0,13,255,255],
    [255,253,0,0,0,0,255,255,255,255,240,0,0,0,13,255,255,255,253,0,0,0,0,143,255,255,255,128,0,0,0,0],
    [207,255,255,193,0,0,0,0,1,141,253,129,0,0,0,0,0,0,0,0,0,0,2,122,206,254,236,149,16,0,0,0],
    [0,0,0,0,0,0,0,0,0,0,5,207,255,255,255,255,255,250,48,0,0,0,0,0,0,0,0,0,0,0,3,207],
    [255,255,255,255,255,255,255,250,16,0,0,0,0,0,0,0,0,0,0,127,255,255,255,255,255,255,255,255,255,228,0,0],
    [0,0,0,0,0,0,0,8,255,255,255,255,255,255,255,255,255,255,255,80,0,0,0,0,0,0,0,0,143,255,255,255],
    [233,82,1,38,191,255,255,255,244,0,0,0,0,0,0,0,5,255,255,255,249,16,0,0,0,3,207,255,255,254,32,0],
    [0,0,0,0,0,46,255,255,255,96,0,0,0,0,0,10,255,255,255,176,0,0,0,0,0,0,175,255,255,246,0,0],
    [0,0,0,0,0,175,255,255,246,0,0,0,0,0,3,255,255,255,160,0,0,0,0,0,0,0,29,255,255,254,16,0],
    [0,0,0,11,255,255,254,16,0,0,0,0,0,0,0,5,255,255,255,112,0,0,0,0,47,255,255,248,0,0,0,0],
    [0,0,0,0,0,207,255,255,208,0,0,0,0,159,255,255,241,0,0,0,0,0,0,0,0,0,95,255,255,244,0,0],
    [0,0,239,255,255,160,0,0,0,0,0,0,0,0,0,14,255,255,250,0,0,0,4,255,255,255,80,0,0,0,0,0],
    [0,0,0,0,10,255,255,254,0,0,0,8,255,255,255,16,0,0,0,0,0,0,0,0,0,5,255,255,255,64,0,0],
    [11,255,255,252,0,0,0,0,0,0,0,0,0,0,1,255,255,255,112,0,0,15,255,255,249,0,0,0,0,0,0,0],
    [0,0,0,0,223,255,255,176,0,0,47,255,255,246,0,0,0,0,0,0,0,0,0,0,0,175,255,255,224,0,0,95],
    [255,255,244,0,0,0,0,0,0,0,0,0,0,0,143,255,255,241,0,0,127,255,255,242,0,0,0,0,0,0,0,0],
    [0,0,0,111,255,255,243,0,0,159,255,255,240,0,0,0,0,0,0,0,0,0,0,0,95,255,255,245,0,0,175,255],
    [255,224,0,0,0,0,0,0,0,0,0,0,0,63,255,255,246,0,0,191,255,255,208,0,0,0,0,0,0,0,0,0],
    [0,0,47,255,255,247,0,0,207,255,255,192,0,0,0,0,0,0,0,0,0,0,0,47,255,255,248,0,0,207,255,255],
    [192,0,0,0,0,0,0,0,0,0,0,0,31,255,255,248,0,0,207,255,255,192,0,0,0,0,0,0,0,0,0,0],
    [0,31,255,255,249,0,0,223,255,255,192,0,0,0,0,0,0,0,0,0,0,0,31,255,255,249,0,0,207,255,255,192],
    [0,0,0,0,0,0,0,0,0,0,0,31,255,255,248,0,0,207,255,255,192,0,0,0,0,0,0,0,0,0,0,0],
    [47,255,255,248,0,0,191,255,255,208,0,0,0,0,0,0,0,0,0,0,0,47,255,255,247,0,0,175,255,255,224,0],
    [0,0,0,0,0,0,0,0,0,0,63,255,255,246,0,0,159,255,255,240,0,0,0,0,0,0,0,0,0,0,0,95],
    [255,255,245,0,0,127,255,255,242,0,0,0,0,0,0,0,0,0,0,0,111,255,255,243,0,0,95,255,255,244,0,0],
    [0,0,0,0,0,0,0,0,0,143,255,255,241,0,0,63,255,255,246,0,0,0,0,0,0,0,0,0,0,0,175,255],
    [255,224,0,0,15,255,255,249,0,0,0,0,0,0,0,0,0,0,0,223,255,255,176,0,0,12,255,255,252,0,0,0],
    [0,0,0,0,0,0,0,1,255,255,255,128,0,0,8,255,255,255,16,0,0,0,0,0,0,0,0,0,5,255,255,255],
    [64,0,0,4,255,255,255,80,0,0,0,0,0,0,0,0,0,10,255,255,254,16,0,0,0,239,255,255,160,0,0,0],
    [0,0,0,0,0,0,14,255,255,250,0,0,0,0,159,255,255,241,0,0,0,0,0,0,0,0,0,95,255,255,245,0],
    [0,0,0,63,255,255,247,0,0,0,0,0,0,0,0,0,207,255,255,208,0,0,0,0,11,255,255,254,16,0,0,0],
    [0,0,0,0,5,255,255,255,112,0,0,0,0,4,255,255,255,160,0,0,0,0,0,0,0,29,255,255,254,16,0,0],
    [0,0,0,191,255,255,246,0,0,0,0,0,0,0,175,255,255,246,0,0,0,0,0,0,46,255,255,255,80,0,0,0],
    [0,0,10,255,255,255,192,0,0,0,0,0,0,6,255,255,255,249,16,0,0,0,3,207,255,255,254,32,0,0,0,0],
    [0,0,0,143,255,255,255,233,66,1,38,191,255,255,255,244,0,0,0,0,0,0,0,0,9,255,255,255,255,255,255,255],
    [255,255,255,255,80,0,0,0,0,0,0,0,0,0,127,255,255,255,255,255,255,255,255,255,228,0,0,0,0,0,0,0],
    [0,0,0,3,207,255,255,255,255,255,255,255,250,16,0,0,0,0,0,0,0,0,0,0,0,5,207,255,255,255,255,255],
    [250,48,0,0,0,0,0,0,0,0,0,0,0,0,0,2,122,222,255,236,149,16,0,0,0,0,0,0,0,0,0,0],
    [0,0,0,0,0,0,0,95,255,255,128,0,0,0,0,0,0,0,0,0,0,0,0,0,0,0,0,6,255,255,255,128],
    [0,0,0,0,0,0,0,0,0,0,0,0,0,0,0,0,143,255,255,255,128,0,0,0,0,0,0,0,0,0,0,0],
    [0,0,0,0,10,255,255,255,255,128,0,0,0,0,0,0,0,0,0,0,0,0,0,0,1,191,255,255,255,255,128,0],
    [0,0,0,0,0,0,0,0,0,0,0,0,0,45,255,255,255,255,255,128,0,0,0,0,0,0,0,0,0,0,0,0],
    [0,3,239,255,255,255,255,255,128,0,0,0,0,0,0,0,0,0,0,0,0,0,78,255,255,255,255,255,255,128,0,0],
    [0,0,0,0,0,0,0,0,0,0,6,255,255,255,255,239,255,255,128,0,0,0,0,0,0,0,0,0,0,0,0,143],
    [255,255,255,228,223,255,255,128,0,0,0,0,0,0,0,0,0,0,0,9,255,255,255,253,32,239,255,255,128,0,0,0],
    [0,0,0,0,0,0,0,1,191,255,255,255,193,0,239,255,255,128,0,0,0,0,0,0,0,0,0,0,44,255,255,255],
    [250,0,0,239,255,255,128,0,0,0,0,0,0,0,0,0,0,223,255,255,255,128,0,0,239,255,255,128,0,0,0,0],
    [0,0,0,0,0,0,111,255,255,246,0,0,0,239,255,255,128,0,0,0,0,0,0,0,0,0,0,10,255,254,64,0],
    [0,0,239,255,255,128,0,0,0,0,0,0,0,0,0,0,1,191,210,0,0,0,0,239,255,255,128,0,0,0,0,0],
    [0,0,0,0,0,0,1,0,0,0,0,0,239,255,255,128,0,0,0,0,0,0,0,0,0,0,0,0,0,0,0,0],
    [0,239,255,255,128,0,0,0,0,0,0,0,0,0,0,0,0,0,0,0,0,0,239,255,255,128,0,0,0,0,0,0],
    [0,0,0,0,0,0,0,0,0,0,0,239,255,255,128,0,0,0,0,0,0,0,0,0,0,0,0,0,0,0,0,0],
    [239,255,255,128,0,0,0,0,0,0,0,0,0,0,0,0,0,0,0,0,0,239,255,255,128,0,0,0,0,0,0,0],
    [0,0,0,0,0,0,0,0,0,0,239,255,255,128,0,0,0,0,0,0,0,0,0,0,0,0,0,0,0,0,0,239],
    [255,255,128,0,0,0,0,0,0,0,0,0,0,0,0,0,0,0,0,0,239,255,255,128,0,0,0,0,0,0,0,0],
    [0,0,0,0,0,0,0,0,0,239,255,255,128,0,0,0,0,0,0,0,0,0,0,0,0,0,0,0,0,0,239,255],
    [255,128,0,0,0,0,0,0,0,0,0,0,0,0,0,0,0,0,0,239,255,255,128,0,0,0,0,0,0,0,0,0],
    [0,0,0,0,0,0,0,0,239,255,255,128,0,0,0,0,0,0,0,0,0,0,0,0,0,0,0,0,0,239,255,255],
    [128,0,0,0,0,0,0,0,0,0,0,0,0,0,0,0,0,0,239,255,255,128,0,0,0,0,0,0,0,0,0,0],
    [0,0,0,0,0,0,0,239,255,255,128,0,0,0,0,0,0,0,0,0,0,0,0,0,0,0,0,0,239,255,255,128],
    [0,0,0,0,0,0,0,0,0,0,0,0,0,0,0,0,0,239,255,255,128,0,0,0,0,0,0,0,0,0,0,0],
    [0,0,0,0,0,0,239,255,255,128,0,0,0,0,0,0,0,0,0,0,0,0,0,0,0,0,0,239,255,255,128,0],
    [0,0,0,0,0,0,0,0,0,0,0,0,0,0,0,0,239,255,255,128,0,0,0,0,0,0,0,0,0,0,0,0],
    [0,0,0,0,0,239,255,255,128,0,0,0,0,0,0,0,0,0,0,0,0,0,0,0,0,0,239,255,255,128,0,0],
    [0,0,0,0,0,0,0,0,0,0,0,0,0,0,0,239,255,255,128,0,0,0,0,0,0,0,0,0,0,0,0,0],
    [0,0,0,0,239,255,255,128,0,0,0,0,0,0,0,0,0,0,0,0,0,0,0,0,0,239,255,255,128,0,0,0],
    [0,0,0,0,0,0,0,0,0,0,0,0,0,0,239,255,255,128,0,0,0,0,0,0,0,0,0,0,0,0,0,0],
    [0,0,0,239,255,255,128,0,0,0,0,0,0,0,0,0,0,0,0,0,0,0,0,0,239,255,255,128,0,0,0,0],
    [0,0,0,0,0,0,0,0,0,0,0,0,0,239,255,255,128,0,0,0,0,0,0,0,0,0,0,0,15,255,255,255],
    [255,255,255,255,255,255,255,255,255,255,160,0,0,0,0,0,0,15,255,255,255,255,255,255,255,255,255,255,255,255,255,160],
    [0,0,0,0,0,0,15,255,255,255,255,255,255,255,255,255,255,255,255,255,160,0,0,0,0,0,0,15,255,255,255,255],
    [255,255,255,255,255,255,255,255,255,160,0,0,0,0,0,0,15,255,255,255,255,255,255,255,255,255,255,255,255,255,160,0],
    [0,0,0,0,0,0,0,0,2,105,205,239,236,183,48,0,0,0,0,0,0,0,0,0,0,0,0,0,5,207,255,255],
    [255,255,255,254,113,0,0,0,0,0,0,0,0,0,0,0,4,223,255,255,255,255,255,255,255,254,112,0,0,0,0,0],
    [0,0,0,0,0,143,255,255,255,255,255,255,255,255,255,251,16,0,0,0,0,0,0,0,0,10,255,255,255,255,255,255],
    [255,255,255,255,255,193,0,0,0,0,0,0,0,0,175,255,255,255,233,66,17,37,158,255,255,255,251,0,0,0,0,0],
    [0,0,7,255,255,255,248,16,0,0,0,1,143,255,255,255,112,0,0,0,0,0,0,46,255,255,254,64,0,0,0,0],
    [0,5,255,255,255,225,0,0,0,0,0,0,175,255,255,244,0,0,0,0,0,0,0,127,255,255,249,0,0,0,0,0],
    [2,255,255,255,112,0,0,0,0,0,0,0,13,255,255,254,16,0,0,0,0,8,255,255,254,0,0,0,0,0,0,0],
    [0,7,255,255,255,64,0,0,0,0,13,255,255,247,0,0,0,0,0,0,0,0,2,255,255,255,128,0,0,0,0,47],
    [255,255,243,0,0,0,0,0,0,0,0,0,239,255,255,160,0,0,0,0,95,255,255,192,0,0,0,0,0,0,0,0],
    [0,223,255,255,176,0,0,0,0,74,223,254,48,0,0,0,0,0,0,0,0,0,207,255,255,192,0,0,0,0,0,1],
    [16,0,0,0,0,0,0,0,0,0,0,223,255,255,176,0,0,0,0,0,0,0,0,0,0,0,0,0,0,0,0,0],
    [239,255,255,160,0,0,0,0,0,0,0,0,0,0,0,0,0,0,0,0,3,255,255,255,128,0,0,0,0,0,0,0],
    [0,0,0,0,0,0,0,0,0,6,255,255,255,80,0,0,0,0,0,0,0,0,0,0,0,0,0,0,0,0,12,255],
    [255,255,16,0,0,0,0,0,0,0,0,0,0,0,0,0,0,0,0,47,255,255,251,0,0,0,0,0,0,0,0,0],
    [0,0,0,0,0,0,0,0,175,255,255,245,0,0,0,0,0,0,0,0,0,0,0,0,0,0,0,0,3,255,255,255],
    [208,0,0,0,0,0,0,0,0,0,0,0,0,0,0,0,0,12,255,255,255,80,0,0,0,0,0,0,0,0,0,0],
    [0,0,0,0,0,0,127,255,255,252,0,0,0,0,0,0,0,0,0,0,0,0,0,0,0,0,3,255,255,255,243,0]]"

lemma valueFontPixels_1_length: "length (concat valueFontPixels_1) = 4736"
  by (simp add: valueFontPixels_1_def)

definition valueFontPixels_2 :: "u8 list list" where
  "valueFontPixels_2 = [
    [0,0,0,0,0,0,0,0,0,0,0,0,0,0,0,46,255,255,255,112,0,0,0,0,0,0,0,0,0,0,0,0],
    [0,0,0,1,207,255,255,250,0,0,0,0,0,0,0,0,0,0,0,0,0,0,0,0,11,255,255,255,193,0,0,0],
    [0,0,0,0,0,0,0,0,0,0,0,0,0,175,255,255,253,32,0,0,0,0,0,0,0,0,0,0,0,0,0,0],
    [0,9,255,255,255,226,0,0,0,0,0,0,0,0,0,0,0,0,0,0,0,0,143,255,255,254,48,0,0,0,0,0],
    [0,0,0,0,0,0,0,0,0,0,7,255,255,255,228,0,0,0,0,0,0,0,0,0,0,0,0,0,0,0,0,127],
    [255,255,255,64,0,0,0,0,0,0,0,0,0,0,0,0,0,0,0,6,255,255,255,245,0,0,0,0,0,0,0,0],
    [0,0,0,0,0,0,0,0,111,255,255,255,80,0,0,0,0,0,0,0,0,0,0,0,0,0,0,0,6,255,255,255],
    [246,0,0,0,0,0,0,0,0,0,0,0,0,0,0,0,0,95,255,255,255,112,0,0,0,0,0,0,0,0,0,0],
    [0,0,0,0,0,5,255,255,255,247,0,0,0,0,0,0,0,0,0,0,0,0,0,0,0,0,79,255,255,255,128,0],
    [0,0,0,0,0,0,0,0,0,0,0,0,0,0,4,255,255,255,248,0,0,0,0,0,0,0,0,0,0,0,0,0],
    [0,0,0,78,255,255,255,144,0,0,0,0,0,0,0,0,0,0,0,0,0,0,0,3,239,255,255,249,0,0,0,0],
    [0,0,0,0,0,0,0,0,0,0,0,0,62,255,255,255,160,0,0,0,0,0,0,0,0,0,0,0,0,0,0,0],
    [3,239,255,255,250,0,0,0,0,0,0,0,0,0,0,0,0,0,0,0,0,46,255,255,255,176,0,0,0,0,0,0],
    [0,0,0,0,0,0,0,0,0,2,239,255,255,251,16,0,0,0,0,0,0,0,0,0,0,0,0,0,0,0,45,255],
    [255,255,214,155,222,255,255,255,255,255,255,255,255,255,194,0,0,0,0,223,255,255,255,255,255,255,255,255,255,255,255,255],
    [255,255,255,250,0,0,0,6,255,255,255,255,255,255,255,255,255,255,255,255,255,255,255,255,252,0,0,0,9,255,255,255],
    [255,255,255,255,255,255,255,255,255,255,255,255,255,252,0,0,0,9,255,255,255,255,255,255,255,255,255,255,255,255,255,255],
    [255,255,252,0,0,0,9,255,255,255,255,255,255,255,255,255,255,255,255,255,255,255,255,252,0,0,0,0,0,0,0,0],
    [0,2,105,205,239,237,184,65,0,0,0,0,0,0,0,0,0,0,0,0,0,22,207,255,255,255,255,255,254,130,0,0],
    [0,0,0,0,0,0,0,0,0,5,239,255,255,255,255,255,255,255,255,128,0,0,0,0,0,0,0,0,0,1,191,255],
    [255,255,255,255,255,255,255,255,251,16,0,0,0,0,0,0,0,0,29,255,255,255,255,255,255,255,255,255,255,255,209,0],
    [0,0,0,0,0,0,1,207,255,255,255,233,82,16,36,142,255,255,255,251,0,0,0,0,0,0,0,9,255,255,255,249],
    [16,0,0,0,1,143,255,255,255,112,0,0,0,0,0,0,63,255,255,255,80,0,0,0,0,0,5,255,255,255,225,0],
    [0,0,0,0,0,175,255,255,244,0,0,0,0,0,0,0,127,255,255,248,0,0,0,0,0,1,255,255,255,128,0,0],
    [0,0,0,0,0,13,255,255,253,0,0,0,0,0,7,255,255,254,16,0,0,0,0,0,0,0,6,255,255,255,32,0],
    [0,0,0,11,255,255,249,0,0,0,0,0,0,0,0,2,255,255,255,80,0,0,0,0,14,255,255,244,0,0,0,0],
    [0,0,0,0,0,223,255,255,112,0,0,0,0,63,255,255,192,0,0,0,0,0,0,0,0,0,207,255,255,128,0,0],
    [0,0,3,88,152,32,0,0,0,0,0,0,0,0,0,191,255,255,128,0,0,0,0,0,0,0,0,0,0,0,0,0],
    [0,0,0,0,191,255,255,112,0,0,0,0,0,0,0,0,0,0,0,0,0,0,0,0,0,207,255,255,96,0,0,0],
    [0,0,0,0,0,0,0,0,0,0,0,0,0,0,239,255,255,48,0,0,0,0,0,0,0,0,0,0,0,0,0,0],
    [0,0,4,255,255,255,0,0,0,0,0,0,0,0,0,0,0,0,0,0,0,0,0,10,255,255,250,0,0,0,0,0],
    [0,0,0,0,0,0,0,0,0,0,0,0,47,255,255,244,0,0,0,0,0,0,0,0,0,0,0,0,0,0,0,0],
    [1,223,255,255,176,0,0,0,0,0,0,0,0,0,0,0,0,0,0,0,0,60,255,255,254,32,0,0,0,0,0,0],
    [0,0,0,0,0,0,0,0,0,40,255,255,255,227,0,0,0,0,0,0,0,0,0,0,0,0,0,1,36,123,255,255],
    [255,253,48,0,0,0,0,0,0,0,0,0,0,0,0,0,223,255,255,255,255,255,129,0,0,0,0,0,0,0,0,0],
    [0,0,0,0,0,223,255,255,255,254,113,0,0,0,0,0,0,0,0,0,0,0,0,0,0,0,223,255,255,255,255,216],
    [32,0,0,0,0,0,0,0,0,0,0,0,0,0,0,223,255,255,255,255,255,250,32,0,0,0,0,0,0,0,0,0],
    [0,0,0,0,223,255,255,255,255,255,255,230,0,0,0,0,0,0,0,0,0,0,0,0,0,1,18,71,174,255,255,255],
    [255,112,0,0,0,0,0,0,0,0,0,0,0,0,0,0,0,0,92,255,255,255,246,0,0,0,0,0,0,0,0,0],
    [0,0,0,0,0,0,0,0,143,255,255,254,32,0,0,0,0,0,0,0,0,0,0,0,0,0,0,0,0,7,255,255],
    [255,144,0,0,0,0,0,0,0,0,0,0,0,0,0,0,0,0,0,207,255,255,225,0,0,0,0,0,0,0,0,0],
    [0,0,0,0,0,0,0,0,95,255,255,244,0,0,0,0,0,0,0,0,0,0,0,0,0,0,0,0,0,31,255,255],
    [248,0,0,0,0,0,0,0,0,0,0,0,0,0,0,0,0,0,13,255,255,249,0,0,0,0,0,0,0,0,0,0],
    [0,0,0,0,0,0,0,11,255,255,251,0,0,0,0,0,52,16,0,0,0,0,0,0,0,0,0,0,11,255,255,251],
    [0,0,0,1,125,255,227,0,0,0,0,0,0,0,0,0,0,12,255,255,250,0,0,0,11,255,255,251,0,0,0,0],
    [0,0,0,0,0,0,14,255,255,248,0,0,0,6,255,255,255,64,0,0,0,0,0,0,0,0,0,79,255,255,245,0],
    [0,0,1,239,255,255,176,0,0,0,0,0,0,0,0,0,191,255,255,241,0,0,0,0,143,255,255,246,0,0,0,0],
    [0,0,0,0,5,255,255,255,160,0,0,0,0,47,255,255,254,48,0,0,0,0,0,0,0,46,255,255,255,48,0,0],
    [0,0,8,255,255,255,228,0,0,0,0,0,0,4,239,255,255,249,0,0,0,0,0,0,223,255,255,255,129,0,0,0],
    [0,1,143,255,255,255,209,0,0,0,0,0,0,62,255,255,255,254,148,33,1,53,174,255,255,255,254,48,0,0,0,0],
    [0,0,4,239,255,255,255,255,255,255,255,255,255,255,255,227,0,0,0,0,0,0,0,0,61,255,255,255,255,255,255,255],
    [255,255,255,252,32,0,0,0,0,0,0,0,0,1,159,255,255,255,255,255,255,255,255,254,112,0,0,0,0,0,0,0],
    [0,0,0,2,158,255,255,255,255,255,255,253,97,0,0,0,0,0,0,0,0,0,0,0,0,1,88,189,239,255,236,167],
    [48,0,0,0,0,0,0,0,0,0,0,0,0,0,0,0,0,0,0,0,7,255,255,253,0,0,0,0,0,0,0,0],
    [0,0,0,0,0,0,0,0,0,63,255,255,253,0,0,0,0,0,0,0,0,0,0,0,0,0,0,0,0,1,223,255],
    [255,253,0,0,0,0,0,0,0,0,0,0,0,0,0,0,0,0,11,255,255,255,253,0,0,0,0,0,0,0,0,0],
    [0,0,0,0,0,0,0,127,255,255,255,253,0,0,0,0,0,0,0,0,0,0,0,0,0,0,0,4,255,255,255,255],
    [253,0,0,0,0,0,0,0,0,0,0,0,0,0,0,0,29,255,255,255,255,253,0,0,0,0,0,0,0,0,0,0],
    [0,0,0,0,0,191,255,255,223,255,253,0,0,0,0,0,0,0,0,0,0,0,0,0,0,7,255,255,251,143,255,253],
    [0,0,0,0,0,0,0,0,0,0,0,0,0,0,79,255,255,226,175,255,253,0,0,0,0,0,0,0,0,0,0,0],
    [0,0,1,239,255,255,64,175,255,253,0,0,0,0,0,0,0,0,0,0,0,0,0,11,255,255,248,0,191,255,253,0],
    [0,0,0,0,0,0,0,0,0,0,0,0,143,255,255,192,0,191,255,253,0,0,0,0,0,0,0,0,0,0,0,0],
    [4,255,255,254,32,0,191,255,253,0,0,0,0,0,0,0,0,0,0,0,0,30,255,255,245,0,0,191,255,253,0,0],
    [0,0,0,0,0,0,0,0,0,0,191,255,255,144,0,0,191,255,253,0,0,0,0,0,0,0,0,0,0,0,8,255],
    [255,253,16,0,0,191,255,253,0,0,0,0,0,0,0,0,0,0,0,79,255,255,243,0,0,0,191,255,253,0,0,0],
    [0,0,0,0,0,0,0,2,239,255,255,96,0,0,0,191,255,253,0,0,0,0,0,0,0,0,0,0,11,255,255,250],
    [0,0,0,0,191,255,253,0,0,0,0,0,0,0,0,0,0,143,255,255,209,0,0,0,0,191,255,253,0,0,0,0],
    [0,0,0,0,0,4,255,255,255,64,0,0,0,0,191,255,253,0,0,0,0,0,0,0,0,0,46,255,255,247,0,0],
    [0,0,0,191,255,253,0,0,0,0,0,0,0,0,0,207,255,255,176,0,0,0,0,0,191,255,253,0,0,0,0,0],
    [0,0,0,8,255,255,254,16,0,0,0,0,0,191,255,253,0,0,0,0,0,0,0,0,95,255,255,244,0,0,0,0],
    [0,0,191,255,253,0,0,0,0,0,0,0,2,239,255,255,128,0,0,0,0,0,0,191,255,253,0,0,0,0,0,0],
    [0,12,255,255,252,0,0,0,0,0,0,0,191,255,253,0,0,0,0,0,0,0,159,255,255,226,0,0,0,0,0,0],
    [0,191,255,253,0,0,0,0,0,0,5,255,255,255,80,0,0,0,0,0,0,0,191,255,253,0,0,0,0,0,0,46],
    [255,255,249,0,0,0,0,0,0,0,0,191,255,253,0,0,0,0,0,0,207,255,255,209,0,0,0,0,0,0,0,0],
    [191,255,253,0,0,0,0,0,9,255,255,255,48,0,0,0,0,0,0,0,0,191,255,253,0,0,0,0,0,31,255,255],
    [255,255,255,255,255,255,255,255,255,255,255,255,255,255,255,255,251,0,14,255,255,255,255,255,255,255,255,255,255,255,255,255],
    [255,255,255,255,255,251,0,11,255,255,255,255,255,255,255,255,255,255,255,255,255,255,255,255,255,255,251,0,8,255,255,255],
    [255,255,255,255,255,255,255,255,255,255,255,255,255,255,255,250,0,1,191,255,255,255,255,255,255,255,255,255,255,255,255,255],
    [255,255,255,255,229,0,0,0,0,0,0,0,0,0,0,0,0,0,0,191,255,253,0,0,0,0,0,0,0,0,0,0],
    [0,0,0,0,0,0,0,0,191,255,253,0,0,0,0,0,0,0,0,0,0,0,0,0,0,0,0,0,0,191,255,253],
    [0,0,0,0,0,0,0,0,0,0,0,0,0,0,0,0,0,0,191,255,253,0,0,0,0,0,0,0,0,0,0,0],
    [0,0,0,0,0,0,0,191,255,253,0,0,0,0,0,0,0,0,0,0,0,0,0,0,0,0,0,0,191,255,253,0],
    [0,0,0,0,0,0,0,0,0,0,0,0,0,0,0,0,0,191,255,253,0,0,0,0,0,0,0,0,0,0,0,0],
    [0,0,0,0,0,0,191,255,253,0,0,0,0,0,0,0,0,0,0,0,0,0,0,0,0,0,0,191,255,253,0,0],
    [0,0,0,0,0,0,0,0,0,0,0,0,0,0,0,0,191,255,253,0,0,0,0,0,0,0,0,0,0,0,0,0],
    [0,0,0,0,0,191,255,253,0,0,0,0,0,0,0,0,0,0,0,0,0,0,0,0,0,0,191,255,253,0,0,0],
    [0,0,0,0,0,0,0,0,0,0,0,0,0,0,0,191,255,253,0,0,0,0,0,0,0,0,0,0,0,0,0,0],
    [0,0,0,0,191,255,253,0,0,0,0,0,0,0,0,0,0,63,255,255,255,255,255,255,255,255,255,255,255,245,0,0],
    [0,0,0,0,0,0,95,255,255,255,255,255,255,255,255,255,255,255,245,0,0,0,0,0,0,0,0,143,255,255,255,255],
    [255,255,255,255,255,255,255,245,0,0,0,0,0,0,0,0,175,255,255,255,255,255,255,255,255,255,255,255,244,0,0,0],
    [0,0,0,0,0,207,255,255,255,255,255,255,255,255,255,255,255,208,0,0,0,0,0,0,0,0,255,255,255,255,255,255],
    [255,255,255,255,255,235,32,0,0,0,0,0,0,0,2,255,255,245,0,0,0,0,0,0,0,0,0,0,0,0,0,0],
    [0,0,0,5,255,255,242,0,0,0,0,0,0,0,0,0,0,0,0,0,0,0,0,0,7,255,255,240,0,0,0,0],
    [0,0,0,0,0,0,0,0,0,0,0,0,0,10,255,255,208,0,0,0,0,0,0,0,0,0,0,0,0,0,0,0],
    [0,0,12,255,255,160,0,0,0,0,0,0,0,0,0,0,0,0,0,0,0,0,0,14,255,255,128,0,0,0,0,0],
    [0,0,0,0,0,0,0,0,0,0,0,0,47,255,255,80,0,0,0,0,0,0,0,0,0,0,0,0,0,0,0,0],
    [0,79,255,255,48,0,0,0,0,0,0,0,0,0,0,0,0,0,0,0,0,0,127,255,255,16,0,0,0,0,0,0],
    [0,0,0,0,0,0,0,0,0,0,0,159,255,253,0,0,0,0,0,0,0,0,0,0,0,0,0,0,0,0,0,0],
    [207,255,251,0,0,0,0,0,0,0,0,0,0,0,0,0,0,0,0,0,0,239,255,248,0,0,0,0,0,0,0,0],
    [0,0,0,0,0,0,0,0,0,2,255,255,246,0,0,0,0,0,0,0,0,0,0,0,0,0,0,0,0,0,4,255],
    [255,244,0,0,0,0,0,0,0,0,0,0,0,0,0,0,0,0,0,6,255,255,245,104,188,222,254,236,167,48,0,0],
    [0,0,0,0,0,0,0,0,9,255,255,255,255,255,255,255,255,255,253,97,0,0,0,0,0,0,0,0,0,11,255,255],
    [255,255,255,255,255,255,255,255,253,80,0,0,0,0,0,0,0,0,14,255,255,255,255,255,255,255,255,255,255,255,250,16],
    [0,0,0,0,0,0,0,31,255,255,255,255,255,255,255,255,255,255,255,255,193,0,0,0,0,0,0,0,26,239,255,252],
    [133,49,0,19,89,239,255,255,255,251,0,0,0,0,0,0,0,0,4,134,16,0,0,0,0,0,6,239,255,255,255,112],
    [0,0,0,0,0,0,0,0,0,0,0,0,0,0,0,0,44,255,255,255,226,0,0,0,0,0,0,0,0,0,0,0],
    [0,0,0,0,0,1,207,255,255,248,0,0,0,0,0,0,0,0,0,0,0,0,0,0,0,0,0,47,255,255,254,0],
    [0,0,0,0,0,0,0,0,0,0,0,0,0,0,0,0,9,255,255,255,64,0,0,0,0,0,0,0,0,0,0,0],
    [0,0,0,0,0,3,255,255,255,128,0,0,0,0,0,0,0,0,0,0,0,0,0,0,0,0,0,239,255,255,176,0],
    [0,0,0,0,0,0,0,0,0,0,0,0,0,0,0,0,175,255,255,208,0,0,0,0,0,0,0,0,0,0,0,0],
    [0,0,0,0,0,159,255,255,224,0,0,0,0,0,0,0,0,0,0,0,0,0,0,0,0,0,143,255,255,224,0,0],
    [0,0,0,0,0,0,0,0,0,0,0,0,0,0,0,159,255,255,208,0,0,0,0,0,0,0,0,0,0,0,0,0],
    [0,0,0,0,175,255,255,192,0,0,0,0,0,0,0,0,0,0,0,0,0,0,0,0,0,207,255,255,160,0,0,0],
    [0,0,0,0,0,0,0,0,0,0,0,0,0,1,255,255,255,112,0,0,0,0,0,0,0,0,0,0,0,0,0,0],
    [0,0,4,255,255,255,64,0,0,0,0,0,0,0,0,0,0,0,0,0,0,0,0,11,255,255,254,0,0,0,0,0],
    [0,0,0,0,0,0,0,0,0,0,0,0,63,255,255,248,0,0,0,0,0,0,0,0,0,0,0,0,0,0,0,0],
    [1,207,255,255,242,0,0,0,0,0,0,57,113,0,0,0,0,0,0,0,0,10,255,255,255,128,0,0,0,0,0,2],
    [239,254,96,0,0,0,0,0,0,1,191,255,255,253,16,0,0,0,0,0,12,255,255,252,80,0,0,0,0,0,93,255],
    [255,255,243,0,0,0,0,0,0,143,255,255,255,254,149,33,1,36,141,255,255,255,255,64,0,0,0,0,0,0,127,255],
    [255,255,255,255,255,255,255,255,255,255,255,228,0,0,0,0,0,0,0,3,207,255,255,255,255,255,255,255,255,255,255,252],
    [32,0,0,0,0,0,0,0,0,5,207,255,255,255,255,255,255,255,255,254,112,0,0,0,0,0,0,0,0,0,0,4],
    [174,255,255,255,255,255,255,252,97,0,0,0,0,0,0,0,0,0,0,0,0,0,71,172,238,254,236,150,32,0,0,0],
    [0,0,0,0,0,0,0,0,0,0,0,0,0,0,0,0,0,108,255,255,253,16,0,0,0,0,0,0,0,0,0,0],
    [0,0,0,0,0,10,255,255,255,244,0,0,0,0,0,0,0,0,0,0,0,0,0,0,0,0,111,255,255,255,112,0],
    [0,0,0,0,0,0,0,0,0,0,0,0,0,0,3,255,255,255,251,0,0,0,0,0,0,0,0,0,0,0,0,0],
    [0,0,0,29,255,255,255,209,0,0,0,0,0,0,0,0,0,0,0,0,0,0,0,0,159,255,255,255,48,0,0,0],
    [0,0,0,0,0,0,0,0,0,0,0,0,5,255,255,255,247,0,0,0,0,0,0,0,0,0,0,0,0,0,0,0],
    [0,46,255,255,255,160,0,0,0,0,0,0,0,0,0,0,0,0,0,0,0,0,207,255,255,253,16,0,0,0,0,0],
    [0,0,0,0,0,0,0,0,0,0,8,255,255,255,243,0,0,0,0,0,0,0,0,0,0,0,0,0,0,0,0,79],
    [255,255,255,96,0,0,0,0,0,0,0,0,0,0,0,0,0,0,0,1,239,255,255,250,0,0,0,0,0,0,0,0],
    [0,0,0,0,0,0,0,0,11,255,255,255,209,0,0,0,0,0,0,0,0,0,0,0,0,0,0,0,0,127,255,255],
    [255,48,0,0,0,0,0,0,0,0,0,0,0,0,0,0,0,3,255,255,255,246,0,0,0,0,0,0,0,0,0,0],
    [0,0,0,0,0,0,29,255,255,255,160,0,0,0,0,0,0,0,0,0,0,0,0,0,0,0,0,175,255,255,253,16],
    [0,0,0,0,0,0,0,0,0,0,0,0,0,0,0,6,255,255,255,243,0,0,0,0,0,0,0,0,0,0,0,0],
    [0,0,0,0,63,255,255,255,96,0,0,0,0,0,0,0,0,0,0,0,0,0,0,0,1,223,255,255,250,0,0,0],
    [0,0,0,0,0,0,0,0,0,0,0,0,0,9,255,255,255,209,0,0,0,0,0,0,0,0,0,0,0,0,0,0],
    [0,0,79,255,255,255,48,72,189,239,237,183,48,0,0,0,0,0,0,0,0,0,1,223,255,255,247,125,255,255,255,255],
    [255,253,96,0,0,0,0,0,0,0,0,8,255,255,255,237,255,255,255,255,255,255,255,253,64,0,0,0,0,0,0,0],
    [47,255,255,255,255,255,255,255,255,255,255,255,255,247,0,0,0,0,0,0,0,159,255,255,255,255,255,255,255,255,255,255],
    [255,255,255,128,0,0,0,0,0,1,255,255,255,255,255,233,82,16,35,123,255,255,255,255,246,0,0,0,0,0,8,255],
    [255,255,255,231,16,0,0,0,0,42,255,255,255,255,32,0,0,0,0,13,255,255,255,253,32,0,0,0,0,0,0,111],
    [255,255,255,160,0,0,0,0,63,255,255,255,193,0,0,0,0,0,0,0,6,255,255,255,244,0,0,0,0,127,255,255],
    [254,32,0,0,0,0,0,0,0,0,159,255,255,250,0,0,0,0,191,255,255,247,0,0,0,0,0,0,0,0,0,30],
    [255,255,254,0,0,0,0,223,255,255,224,0,0,0,0,0,0,0,0,0,9,255,255,255,64,0,0,0,255,255,255,144],
    [0,0,0,0,0,0,0,0,0,4,255,255,255,96,0,0,1,255,255,255,80,0,0,0,0,0,0,0,0,0,0,255],
    [255,255,128,0,0,1,255,255,255,32,0,0,0,0,0,0,0,0,0,0,239,255,255,144,0,0,1,255,255,255,16,0],
    [0,0,0,0,0,0,0,0,0,207,255,255,144,0,0,0,255,255,255,16,0,0,0,0,0,0,0,0,0,0,207,255],
    [255,144,0,0,0,223,255,255,48,0,0,0,0,0,0,0,0,0,0,239,255,255,112,0,0,0,191,255,255,80,0,0]]"

lemma valueFontPixels_2_length: "length (concat valueFontPixels_2) = 4736"
  by (simp add: valueFontPixels_2_def)

definition valueFontPixels_3 :: "u8 list list" where
  "valueFontPixels_3 = [
    [0,0,0,0,0,0,0,1,255,255,255,80,0,0,0,127,255,255,128,0,0,0,0,0,0,0,0,0,5,255,255,255],
    [16,0,0,0,63,255,255,208,0,0,0,0,0,0,0,0,0,10,255,255,252,0,0,0,0,13,255,255,244,0,0,0],
    [0,0,0,0,0,0,63,255,255,247,0,0,0,0,8,255,255,252,0,0,0,0,0,0,0,0,0,191,255,255,225,0],
    [0,0,0,1,239,255,255,128,0,0,0,0,0,0,0,9,255,255,255,128,0,0,0,0,0,127,255,255,248,0,0,0],
    [0,0,0,1,175,255,255,253,16,0,0,0,0,0,12,255,255,255,179,0,0,0,0,0,93,255,255,255,243,0,0,0],
    [0,0,0,2,239,255,255,255,183,50,1,36,141,255,255,255,255,80,0,0,0,0,0,0,0,62,255,255,255,255,255,255],
    [255,255,255,255,255,229,0,0,0,0,0,0,0,0,2,207,255,255,255,255,255,255,255,255,255,253,48,0,0,0,0,0],
    [0,0,0,0,24,255,255,255,255,255,255,255,255,254,129,0,0,0,0,0,0,0,0,0,0,0,40,239,255,255,255,255],
    [255,254,129,0,0,0,0,0,0,0,0,0,0,0,0,0,4,139,222,255,237,184,64,0,0,0,0,0,0,0,0,2],
    [255,255,255,255,255,255,255,255,255,255,255,255,255,255,255,255,255,224,0,0,2,255,255,255,255,255,255,255,255,255,255,255],
    [255,255,255,255,255,255,224,0,0,2,255,255,255,255,255,255,255,255,255,255,255,255,255,255,255,255,255,224,0,0,2,255],
    [255,255,255,255,255,255,255,255,255,255,255,255,255,255,255,255,208,0,0,1,255,255,255,255,255,255,255,255,255,255,255,255],
    [255,255,255,255,255,176,0,0,0,143,255,255,255,255,255,255,255,255,255,255,255,255,255,255,255,255,96,0,0,0,0,0],
    [0,0,0,0,0,0,0,0,0,0,0,1,239,255,254,16,0,0,0,0,0,0,0,0,0,0,0,0,0,0,0,0],
    [11,255,255,248,0,0,0,0,0,0,0,0,0,0,0,0,0,0,0,0,0,95,255,255,225,0,0,0,0,0,0,0],
    [0,0,0,0,0,0,0,0,0,0,223,255,255,128,0,0,0,0,0,0,0,0,0,0,0,0,0,0,0,0,6,255],
    [255,254,16,0,0,0,0,0,0,0,0,0,0,0,0,0,0,0,0,13,255,255,248,0,0,0,0,0,0,0,0,0],
    [0,0,0,0,0,0,0,0,111,255,255,241,0,0,0,0,0,0,0,0,0,0,0,0,0,0,0,0,0,223,255,255],
    [144,0,0,0,0,0,0,0,0,0,0,0,0,0,0,0,0,6,255,255,255,32,0,0,0,0,0,0,0,0,0,0],
    [0,0,0,0,0,0,13,255,255,249,0,0,0,0,0,0,0,0,0,0,0,0,0,0,0,0,0,111,255,255,242,0],
    [0,0,0,0,0,0,0,0,0,0,0,0,0,0,0,0,223,255,255,144,0,0,0,0,0,0,0,0,0,0,0,0],
    [0,0,0,0,6,255,255,255,32,0,0,0,0,0,0,0,0,0,0,0,0,0,0,0,0,13,255,255,249,0,0,0],
    [0,0,0,0,0,0,0,0,0,0,0,0,0,0,127,255,255,242,0,0,0,0,0,0,0,0,0,0,0,0,0,0],
    [0,0,1,239,255,255,144,0,0,0,0,0,0,0,0,0,0,0,0,0,0,0,0,7,255,255,255,32,0,0,0,0],
    [0,0,0,0,0,0,0,0,0,0,0,0,30,255,255,250,0,0,0,0,0,0,0,0,0,0,0,0,0,0,0,0],
    [0,127,255,255,242,0,0,0,0,0,0,0,0,0,0,0,0,0,0,0,0,1,239,255,255,160,0,0,0,0,0,0],
    [0,0,0,0,0,0,0,0,0,0,7,255,255,255,48,0,0,0,0,0,0,0,0,0,0,0,0,0,0,0,0,30],
    [255,255,250,0,0,0,0,0,0,0,0,0,0,0,0,0,0,0,0,0,127,255,255,243,0,0,0,0,0,0,0,0],
    [0,0,0,0,0,0,0,0,1,239,255,255,160,0,0,0,0,0,0,0,0,0,0,0,0,0,0,0,0,7,255,255],
    [255,48,0,0,0,0,0,0,0,0,0,0,0,0,0,0,0,0,30,255,255,251,0,0,0,0,0,0,0,0,0,0],
    [0,0,0,0,0,0,0,143,255,255,243,0,0,0,0,0,0,0,0,0,0,0,0,0,0,0,0,1,239,255,255,176],
    [0,0,0,0,0,0,0,0,0,0,0,0,0,0,0,0,8,255,255,255,48,0,0,0,0,0,0,0,0,0,0,0],
    [0,0,0,0,0,30,255,255,251,0,0,0,0,0,0,0,0,0,0,0,0,0,0,0,0,0,143,255,255,244,0,0],
    [0,0,0,0,0,0,0,0,0,0,0,0,0,0,1,239,255,255,176,0,0,0,0,0,0,0,0,0,0,0,0,0],
    [0,0,0,8,255,255,255,64,0,0,0,0,0,0,0,0,0,0,0,0,0,0,0,0,30,255,255,252,0,0,0,0],
    [0,0,0,0,0,0,0,0,0,0,0,0,0,143,255,255,244,0,0,0,0,0,0,0,0,0,0,0,0,0,0,0],
    [0,1,239,255,255,192,0,0,0,0,0,0,0,0,0,0,0,0,0,0,0,0,8,255,255,255,64,0,0,0,0,0],
    [0,0,0,0,0,0,0,0,0,0,0,30,255,255,252,0,0,0,0,0,0,0,0,0,0,0,0,0,0,0,0,0],
    [159,255,255,245,0,0,0,0,0,0,0,0,0,0,0,0,0,0,0,0,2,255,255,255,192,0,0,0,0,0,0,0],
    [0,0,0,0,0,0,0,0,0,9,255,255,255,80,0,0,0,0,0,0,0,0,0,0,0,0,0,0,0,0,47,255],
    [255,252,0,0,0,0,0,0,0,0,0,0,0,0,0,0,0,0,0,159,255,255,245,0,0,0,0,0,0,0,0,0],
    [0,0,0,0,0,0,0,2,255,255,255,192,0,0,0,0,0,0,0,0,0,0,0,0,0,0,0,0,9,255,255,255],
    [48,0,0,0,0,0,0,0,0,0,0,0,0,0,0,0,0,47,255,254,196,0,0,0,0,0,0,0,0,0,0,0],
    [0,0,0,0,0,0,0,0,0,3,139,222,255,236,167,32,0,0,0,0,0,0,0,0,0,0,0,0,0,22,223,255],
    [255,255,255,255,252,80,0,0,0,0,0,0,0,0,0,0,0,5,239,255,255,255,255,255,255,255,253,64,0,0,0,0],
    [0,0,0,0,0,0,159,255,255,255,255,255,255,255,255,255,247,0,0,0,0,0,0,0,0,0,11,255,255,255,255,255],
    [255,255,255,255,255,255,144,0,0,0,0,0,0,0,0,175,255,255,255,216,66,1,37,158,255,255,255,247,0,0,0,0],
    [0,0,0,6,255,255,255,247,0,0,0,0,1,159,255,255,255,64,0,0,0,0,0,0,30,255,255,254,64,0,0,0],
    [0,0,6,255,255,255,192,0,0,0,0,0,0,143,255,255,245,0,0,0,0,0,0,0,159,255,255,245,0,0,0,0],
    [0,0,239,255,255,160,0,0,0,0,0,0,0,14,255,255,251,0,0,0,0,0,3,255,255,255,64,0,0,0,0,0],
    [0,0,7,255,255,255,16,0,0,0,0,7,255,255,254,0,0,0,0,0,0,0,0,3,255,255,255,64,0,0,0,0],
    [9,255,255,251,0,0,0,0,0,0,0,0,0,239,255,255,96,0,0,0,0,10,255,255,249,0,0,0,0,0,0,0],
    [0,0,223,255,255,112,0,0,0,0,10,255,255,249,0,0,0,0,0,0,0,0,0,207,255,255,96,0,0,0,0,9],
    [255,255,250,0,0,0,0,0,0,0,0,0,223,255,255,80,0,0,0,0,8,255,255,252,0,0,0,0,0,0,0,0],
    [0,255,255,255,48,0,0,0,0,5,255,255,254,0,0,0,0,0,0,0,0,3,255,255,255,16,0,0,0,0,1,255],
    [255,255,80,0,0,0,0,0,0,0,8,255,255,251,0,0,0,0,0,0,191,255,255,176,0,0,0,0,0,0,0,30],
    [255,255,245,0,0,0,0,0,0,79,255,255,245,0,0,0,0,0,0,0,159,255,255,192,0,0,0,0,0,0,11,255],
    [255,254,64,0,0,0,0,0,7,255,255,255,48,0,0,0,0,0,0,1,223,255,255,231,0,0,0,0,1,159,255,255],
    [246,0,0,0,0,0,0,0,0,61,255,255,255,216,66,1,36,158,255,255,255,80,0,0,0,0,0,0,0,0,2,191],
    [255,255,255,255,255,255,255,255,255,195,0,0,0,0,0,0,0,0,0,0,6,223,255,255,255,255,255,255,255,197,0,0],
    [0,0,0,0,0,0,0,0,0,0,93,255,255,255,255,255,255,255,250,64,0,0,0,0,0,0,0,0,0,1,126,255],
    [255,255,255,255,255,255,255,255,252,64,0,0,0,0,0,0,0,0,77,255,255,255,255,255,255,255,255,255,255,255,248,0],
    [0,0,0,0,0,0,7,255,255,255,255,182,49,1,36,124,255,255,255,255,160,0,0,0,0,0,0,127,255,255,255,146],
    [0,0,0,0,0,60,255,255,255,249,0,0,0,0,0,4,255,255,255,245,0,0,0,0,0,0,0,143,255,255,255,64],
    [0,0,0,0,29,255,255,255,64,0,0,0,0,0,0,0,8,255,255,255,208,0,0,0,0,111,255,255,249,0,0,0],
    [0,0,0,0,0,0,207,255,255,244,0,0,0,0,207,255,255,225,0,0,0,0,0,0,0,0,0,79,255,255,250,0],
    [0,0,1,255,255,255,160,0,0,0,0,0,0,0,0,0,14,255,255,253,0,0,0,4,255,255,255,96,0,0,0,0],
    [0,0,0,0,0,10,255,255,255,16,0,0,6,255,255,255,64,0,0,0,0,0,0,0,0,0,8,255,255,255,32,0],
    [0,7,255,255,255,32,0,0,0,0,0,0,0,0,0,6,255,255,255,48,0,0,8,255,255,255,32,0,0,0,0,0],
    [0,0,0,0,6,255,255,255,64,0,0,7,255,255,255,48,0,0,0,0,0,0,0,0,0,7,255,255,255,48,0,0],
    [5,255,255,255,96,0,0,0,0,0,0,0,0,0,9,255,255,255,16,0,0,3,255,255,255,160,0,0,0,0,0,0],
    [0,0,0,14,255,255,253,0,0,0,0,239,255,255,225,0,0,0,0,0,0,0,0,0,79,255,255,249,0,0,0,0],
    [159,255,255,249,0,0,0,0,0,0,0,0,0,207,255,255,244,0,0,0,0,63,255,255,255,80,0,0,0,0,0,0],
    [0,8,255,255,255,192,0,0,0,0,10,255,255,255,229,0,0,0,0,0,0,0,143,255,255,255,64,0,0,0,0,1],
    [239,255,255,255,146,0,0,0,0,0,76,255,255,255,250,0,0,0,0,0,0,79,255,255,255,255,166,50,1,36,124,255],
    [255,255,255,193,0,0,0,0,0,0,4,239,255,255,255,255,255,255,255,255,255,255,255,252,16,0,0,0,0,0,0,0],
    [60,255,255,255,255,255,255,255,255,255,255,255,145,0,0,0,0,0,0,0,0,0,126,255,255,255,255,255,255,255,255,255],
    [212,0,0,0,0,0,0,0,0,0,0,1,108,255,255,255,255,255,255,255,180,0,0,0,0,0,0,0,0,0,0,0],
    [0,0,38,156,222,255,237,185,81,0,0,0,0,0,0,0,0,0,0,0,0,0,0,3,123,222,255,236,166,32,0,0],
    [0,0,0,0,0,0,0,0,0,0,0,7,223,255,255,255,255,255,251,64,0,0,0,0,0,0,0,0,0,0,0,6],
    [223,255,255,255,255,255,255,255,251,48,0,0,0,0,0,0,0,0,0,1,175,255,255,255,255,255,255,255,255,255,229,0],
    [0,0,0,0,0,0,0,0,45,255,255,255,255,255,255,255,255,255,255,255,112,0,0,0,0,0,0,0,1,223,255,255],
    [255,216,66,1,37,175,255,255,255,245,0,0,0,0,0,0,0,11,255,255,255,213,0,0,0,0,2,175,255,255,254,48],
    [0,0,0,0,0,0,143,255,255,251,16,0,0,0,0,0,6,255,255,255,192,0,0,0,0,0,2,255,255,255,192,0],
    [0,0,0,0,0,0,127,255,255,245,0,0,0,0,0,9,255,255,254,32,0,0,0,0,0,0,0,11,255,255,252,0],
    [0,0,0,0,31,255,255,247,0,0,0,0,0,0,0,0,3,255,255,255,48,0,0,0,0,111,255,255,225,0,0,0],
    [0,0,0,0,0,0,191,255,255,128,0,0,0,0,191,255,255,160,0,0,0,0,0,0,0,0,0,111,255,255,192,0],
    [0,0,0,239,255,255,112,0,0,0,0,0,0,0,0,0,47,255,255,240,0,0,0,1,255,255,255,80,0,0,0,0],
    [0,0,0,0,0,15,255,255,242,0,0,0,2,255,255,255,48,0,0,0,0,0,0,0,0,0,14,255,255,243,0,0],
    [0,3,255,255,255,48,0,0,0,0,0,0,0,0,0,14,255,255,244,0,0,0,3,255,255,255,64,0,0,0,0,0],
    [0,0,0,0,15,255,255,244,0,0,0,2,255,255,255,96,0,0,0,0,0,0,0,0,0,47,255,255,243,0,0,0],
    [0,255,255,255,144,0,0,0,0,0,0,0,0,0,111,255,255,242,0,0,0,0,223,255,255,208,0,0,0,0,0,0],
    [0,0,0,191,255,255,224,0,0,0,0,159,255,255,244,0,0,0,0,0,0,0,0,3,255,255,255,192,0,0,0,0],
    [95,255,255,251,0,0,0,0,0,0,0,0,12,255,255,255,128,0,0,0,0,13,255,255,255,112,0,0,0,0,0,0],
    [0,159,255,255,255,64,0,0,0,0,6,255,255,255,245,0,0,0,0,0,0,9,255,255,255,253,0,0,0,0,0,0],
    [223,255,255,255,145,0,0,0,0,3,207,255,255,255,248,0,0,0,0,0,0,62,255,255,255,254,149,33,2,55,191,255],
    [255,255,255,242,0,0,0,0,0,0,5,255,255,255,255,255,255,255,255,255,255,255,255,255,144,0,0,0,0,0,0,0],
    [111,255,255,255,255,255,255,255,255,255,255,255,255,32,0,0,0,0,0,0,0,3,223,255,255,255,255,255,255,255,170,255],
    [255,248,0,0,0,0,0,0,0,0,0,6,223,255,255,255,255,255,180,95,255,255,209,0,0,0,0,0,0,0,0,0],
    [0,3,139,222,254,202,98,2,239,255,255,64,0,0,0,0,0,0,0,0,0,0,0,0,0,0,0,0,12,255,255,249],
    [0,0,0,0,0,0,0,0,0,0,0,0,0,0,0,0,0,159,255,255,209,0,0,0,0,0,0,0,0,0,0,0],
    [0,0,0,0,0,5,255,255,255,64,0,0,0,0,0,0,0,0,0,0,0,0,0,0,0,0,46,255,255,249,0,0],
    [0,0,0,0,0,0,0,0,0,0,0,0,0,0,1,223,255,255,209,0,0,0,0,0,0,0,0,0,0,0,0,0],
    [0,0,0,10,255,255,255,48,0,0,0,0,0,0,0,0,0,0,0,0,0,0,0,0,111,255,255,248,0,0,0,0],
    [0,0,0,0,0,0,0,0,0,0,0,0,3,255,255,255,192,0,0,0,0,0,0,0,0,0,0,0,0,0,0,0],
    [0,29,255,255,255,48,0,0,0,0,0,0,0,0,0,0,0,0,0,0,0,0,191,255,255,247,0,0,0,0,0,0],
    [0,0,0,0,0,0,0,0,0,0,7,255,255,255,192,0,0,0,0,0,0,0,0,0,0,0,0,0,0,0,0,79],
    [255,255,254,32,0,0,0,0,0,0,0,0,0,0,0,0,0,0,0,2,239,255,255,247,0,0,0,0,0,0,0,0],
    [0,0,0,0,0,0,0,0,11,255,255,255,176,0,0,0,0,0,0,0,0,0,0,0,0,0,0,0,0,143,255,255],
    [254,32,0,0,0,0,0,0,0,0,0,0,0,0,0,0,0,5,255,255,255,246,0,0,0,0,0,0,0,0,0,0],
    [0,0,0,0,0,0,46,255,255,255,176,0,0,0,0,0,0,0,0,0,0,0,0,0,0,0,0,207,255,255,254,16],
    [0,0,0,0,0,0,0,0,0,0,0,0,0,0,0,9,255,255,255,245,0,0,0,0,0,0,0,0,0,0,0,0],
    [0,0,0,0,111,255,255,255,160,0,0,0,0,0,0,0,0,0,0,0,0,0,0,0,3,239,255,255,215,0,0,0],
    [0,0,0,0,0,0,0,0,0,0,0,0,0,0,0,0,0,0,0,1,88,172,238,254,237,185,98,0,0,0,0,0],
    [0,0,0,0,0,0,0,0,0,0,22,207,255,255,255,255,255,255,255,216,48,0,0,0,0,0,0,0,0,0,0,0],
    [0,41,255,255,255,255,255,255,255,255,255,255,251,48,0,0,0,0,0,0,0,0,0,0,24,255,255,255,255,255,255,255],
    [255,255,255,255,255,250,32,0,0,0,0,0,0,0,0,3,223,255,255,255,255,255,255,255,255,255,255,255,255,255,229,0],
    [0,0,0,0,0,0,0,111,255,255,255,255,255,255,255,255,255,255,255,255,255,255,255,144,0,0,0,0,0,0,8,255],
    [255,255,255,255,234,116,33,0,19,88,223,255,255,255,255,248,0,0,0,0,0,0,143,255,255,255,255,214,16,0,0,0],
    [0,0,3,159,255,255,255,226,0,0,0,0,0,6,255,255,255,255,230,0,0,0,0,0,0,0,0,2,175,255,255,96],
    [0,0,0,0,0,63,255,255,255,251,16,0,0,0,0,0,0,0,0,0,5,239,251,0,0,0,0,0,1,223,255,255],
    [255,160,0,0,0,0,0,0,0,0,0,0,0,24,129,0,0,0,0,0,8,255,255,255,250,0,0,0,0,0,0,0],
    [0,0,0,0,0,0,0,0,0,0,0,0,47,255,255,255,193,0,0,0,0,0,0,0,0,0,0,0,0,0,0,0],
    [0,0,0,0,175,255,255,255,48,0,0,0,0,0,0,0,0,0,0,0,0,0,0,0,0,0,0,2,255,255,255,248],
    [0,0,0,0,0,0,0,0,0,0,0,0,0,0,0,0,0,0,0,8,255,255,255,225,0,0,0,0,0,0,0,0],
    [0,0,0,0,0,0,0,0,0,0,0,13,255,255,255,128,0,0,0,0,0,0,0,0,0,0,0,0,0,0,0,0],
    [0,0,0,63,255,255,255,32,0,0,0,0,0,0,0,0,0,0,0,0,0,0,0,0,0,0,0,143,255,255,252,0],
    [0,0,0,0,0,0,0,0,0,0,0,0,0,0,0,0,0,0,0,191,255,255,247,0,0,0,0,0,0,0,0,0],
    [0,0,0,0,0,0,0,0,0,0,0,239,255,255,244,0,0,0,0,0,0,0,0,0,0,0,0,0,0,0,0,0],
    [0,0,2,255,255,255,241,0,0,0,0,0,0,0,0,0,0,0,0,0,0,0,0,0,0,0,4,255,255,255,208,0],
    [0,0,0,0,0,0,0,0,0,0,0,0,0,0,0,0,0,0,6,255,255,255,176,0,0,0,0,0,0,0,0,0],
    [0,0,0,0,0,0,0,0,0,0,7,255,255,255,160,0,0,0,0,0,0,0,0,0,0,0,0,0,0,0,0,0],
    [0,0,8,255,255,255,144,0,0,0,0,0,0,0,0,0,0,0,0,0,0,0,0,0,0,0,8,255,255,255,128,0],
    [0,0,0,0,0,0,0,0,0,0,0,0,0,0,0,0,0,0,8,255,255,255,128,0,0,0,0,0,0,0,0,0],
    [0,0,0,0,0,0,0,0,0,0,8,255,255,255,144,0,0,0,0,0,0,0,0,0,0,0,0,0,0,0,0,0],
    [0,0,7,255,255,255,160,0,0,0,0,0,0,0,0,0,0,0,0,0,0,0,0,0,0,0,6,255,255,255,176,0],
    [0,0,0,0,0,0,0,0,0,0,0,0,0,0,0,0,0,0,4,255,255,255,208,0,0,0,0,0,0,0,0,0],
    [0,0,0,0,0,0,0,0,0,0,2,255,255,255,241,0,0,0,0,0,0,0,0,0,0,0,0,0,0,0,0,0],
    [0,0,0,239,255,255,244,0,0,0,0,0,0,0,0,0,0,0,0,0,0,0,0,0,0,0,0,207,255,255,248,0],
    [0,0,0,0,0,0,0,0,0,0,0,0,0,0,0,0,0,0,0,143,255,255,252,0,0,0,0,0,0,0,0,0],
    [0,0,0,0,0,0,0,0,0,0,0,79,255,255,255,48,0,0,0,0,0,0,0,0,0,0,0,0,0,0,0,0],
    [0,0,0,14,255,255,255,144,0,0,0,0,0,0,0,0,0,0,0,0,0,0,0,0,0,0,0,9,255,255,255,225],
    [0,0,0,0,0,0,0,0,0,0,0,0,0,0,0,0,0,0,0,3,255,255,255,249,0,0,0,0,0,0,0,0],
    [0,0,0,0,0,0,0,0,0,0,0,0,191,255,255,255,48,0,0,0,0,0,0,0,0,0,0,0,0,0,0,0],
    [0,0,0,0,79,255,255,255,209,0,0,0,0,0,0,0,0,0,0,0,0,0,0,0,0,0,0,0,11,255,255,255],
    [251,0,0,0,0,0,0,0,0,0,0,0,0,0,82,0,0,0,0,0,2,239,255,255,255,160,0,0,0,0,0,0],
    [0,0,0,0,0,27,254,48,0,0,0,0,0,111,255,255,255,252,32,0,0,0,0,0,0,0,0,0,2,207,255,226],
    [0,0,0,0,0,10,255,255,255,255,230,0,0,0,0,0,0,0,0,0,110,255,255,253,16,0,0,0,0,1,207,255]]"

lemma valueFontPixels_3_length: "length (concat valueFontPixels_3) = 4736"
  by (simp add: valueFontPixels_3_def)

definition valueFontPixels_4 :: "u8 list list" where
  "valueFontPixels_4 = [
    [255,255,255,197,16,0,0,0,0,0,1,109,255,255,255,255,64,0,0,0,0,0,28,255,255,255,255,255,234,100,33,0],
    [18,71,174,255,255,255,255,245,0,0,0,0,0,0,1,191,255,255,255,255,255,255,255,255,255,255,255,255,255,255,254,64],
    [0,0,0,0,0,0,0,8,255,255,255,255,255,255,255,255,255,255,255,255,255,255,194,0,0,0,0,0,0,0,0,0],
    [60,255,255,255,255,255,255,255,255,255,255,255,255,248,0,0,0,0,0,0,0,0,0,0,0,93,255,255,255,255,255,255],
    [255,255,255,255,249,32,0,0,0,0,0,0,0,0,0,0,0,0,73,239,255,255,255,255,255,255,255,199,16,0,0,0],
    [0,0,0,0,0,0,0,0,0,0,0,3,121,205,239,254,220,168,81,0,0,0,0,0,0,0,0,0,111,255,255,255],
    [255,255,255,255,255,255,255,255,255,255,255,255,96,0,0,0,6,255,255,255,255,255,255,255,255,255,255,255,255,255,255,255],
    [246,0,0,0,0,111,255,255,255,255,255,255,255,255,255,255,255,255,255,255,255,96,0,0,0,6,255,255,255,255,255,255],
    [255,255,255,255,255,255,255,255,255,246,0,0,0,0,111,255,255,255,255,255,255,255,255,255,255,255,255,255,255,255,96,0],
    [0,0,6,255,255,255,144,0,0,0,0,0,0,0,0,0,0,0,0,0,0,0,0,111,255,255,249,0,0,0,0,0],
    [0,0,0,0,0,0,0,0,0,0,0,6,255,255,255,144,0,0,0,0,0,0,0,0,0,0,0,0,0,0,0,0],
    [111,255,255,249,0,0,0,0,0,0,0,0,0,0,0,0,0,0,0,0,6,255,255,255,144,0,0,0,0,0,0,0],
    [0,0,0,0,0,0,0,0,0,111,255,255,249,0,0,0,0,0,0,0,0,0,0,0,0,0,0,0,0,6,255,255],
    [255,144,0,0,0,0,0,0,0,0,0,0,0,0,0,0,0,0,111,255,255,249,0,0,0,0,0,0,0,0,0,0],
    [0,0,0,0,0,0,6,255,255,255,144,0,0,0,0,0,0,0,0,0,0,0,0,0,0,0,0,111,255,255,249,0],
    [0,0,0,0,0,0,0,0,0,0,0,0,0,0,0,6,255,255,255,144,0,0,0,0,0,0,0,0,0,0,0,0],
    [0,0,0,0,111,255,255,249,0,0,0,0,0,0,0,0,0,0,0,0,0,0,0,0,6,255,255,255,144,0,0,0],
    [0,0,0,0,0,0,0,0,0,0,0,0,0,111,255,255,249,0,0,0,0,0,0,0,0,0,0,0,0,0,0,0],
    [0,6,255,255,255,144,0,0,0,0,0,0,0,0,0,0,0,0,0,0,0,0,111,255,255,249,0,0,0,0,0,0],
    [0,0,0,0,0,0,0,0,0,0,6,255,255,255,144,0,0,0,0,0,0,0,0,0,0,0,0,0,0,0,0,111],
    [255,255,249,0,0,0,0,0,0,0,0,0,0,0,0,0,0,0,0,6,255,255,255,144,0,0,0,0,0,0,0,0],
    [0,0,0,0,0,0,0,0,111,255,255,249,0,0,0,0,0,0,0,0,0,0,0,0,0,0,0,0,6,255,255,255],
    [255,255,255,255,255,255,255,255,255,255,252,0,0,0,0,0,0,111,255,255,255,255,255,255,255,255,255,255,255,255,255,192],
    [0,0,0,0,0,6,255,255,255,255,255,255,255,255,255,255,255,255,255,252,0,0,0,0,0,0,111,255,255,255,255,255],
    [255,255,255,255,255,255,255,255,192,0,0,0,0,0,6,255,255,255,255,255,255,255,255,255,255,255,255,255,252,0,0,0],
    [0,0,0,111,255,255,249,0,0,0,0,0,0,0,0,0,0,0,0,0,0,0,0,6,255,255,255,144,0,0,0,0],
    [0,0,0,0,0,0,0,0,0,0,0,0,111,255,255,249,0,0,0,0,0,0,0,0,0,0,0,0,0,0,0,0],
    [6,255,255,255,144,0,0,0,0,0,0,0,0,0,0,0,0,0,0,0,0,111,255,255,249,0,0,0,0,0,0,0],
    [0,0,0,0,0,0,0,0,0,6,255,255,255,144,0,0,0,0,0,0,0,0,0,0,0,0,0,0,0,0,111,255],
    [255,249,0,0,0,0,0,0,0,0,0,0,0,0,0,0,0,0,6,255,255,255,144,0,0,0,0,0,0,0,0,0],
    [0,0,0,0,0,0,0,111,255,255,249,0,0,0,0,0,0,0,0,0,0,0,0,0,0,0,0,6,255,255,255,144],
    [0,0,0,0,0,0,0,0,0,0,0,0,0,0,0,0,111,255,255,249,0,0,0,0,0,0,0,0,0,0,0,0],
    [0,0,0,0,6,255,255,255,144,0,0,0,0,0,0,0,0,0,0,0,0,0,0,0,0,111,255,255,249,0,0,0],
    [0,0,0,0,0,0,0,0,0,0,0,0,0,6,255,255,255,144,0,0,0,0,0,0,0,0,0,0,0,0,0,0],
    [0,0,111,255,255,249,0,0,0,0,0,0,0,0,0,0,0,0,0,0,0,0,6,255,255,255,144,0,0,0,0,0],
    [0,0,0,0,0,0,0,0,0,0,0,111,255,255,249,0,0,0,0,0,0,0,0,0,0,0,0,0,0,0,0,6],
    [255,255,255,144,0,0,0,0,0,0,0,0,0,0,0,0,0,0,0,0,111,255,255,249,0,0,0,0,0,0,0,0],
    [0,0,0,0,0,0,0,0,6,255,255,255,144,0,0,0,0,0,0,0,0,0,0,0,0,0,0,0,0,111,255,255],
    [249,0,0,0,0,0,0,0,0,0,0,0,0,0,0,0,0,6,255,255,255,144,0,0,0,0,0,0,0,0,0,0],
    [0,0,0,0,0,0,0,0,39,189,238,218,97,0,0,0,0,0,0,0,0,0,41,255,255,255,255,255,129,0,0,0],
    [0,0,0,0,4,239,255,255,255,255,255,253,48,0,0,0,0,0,0,111,255,255,255,255,255,255,255,228,0,0,0,0],
    [0,4,255,255,255,255,255,255,255,255,254,32,0,0,0,0,30,255,255,253,98,17,55,239,255,255,192,0,0,0,0,127],
    [255,255,112,0,0,0,25,255,255,245,0,0,0,0,239,255,246,0,0,0,0,0,159,255,252,0,0,0,4,255,255,160],
    [0,0,0,0,0,13,255,255,32,0,0,8,255,255,48,0,0,0,0,0,6,255,255,96,0,0,10,255,254,0,0,0],
    [0,0,0,2,255,255,128,0,0,11,255,252,0,0,0,0,0,0,0,255,255,144,0,0,11,255,252,0,0,0,0,0],
    [0,0,255,255,144,0,0,10,255,254,0,0,0,0,0,0,2,255,255,128,0,0,8,255,255,48,0,0,0,0,0,6],
    [255,255,96,0,0,4,255,255,160,0,0,0,0,0,13,255,255,32,0,0,0,239,255,246,0,0,0,0,0,159,255,252],
    [0,0,0,0,127,255,255,112,0,0,0,25,255,255,245,0,0,0,0,29,255,255,252,98,17,55,223,255,255,192,0,0],
    [0,0,3,255,255,255,255,255,255,255,255,254,32,0,0,0,0,0,95,255,255,255,255,255,255,255,227,0,0,0,0,0],
    [0,4,239,255,255,255,255,255,253,32,0,0,0,0,0,0,0,25,255,255,255,255,254,129,0,0,0,0,0,0,0,0],
    [0,39,189,238,218,97,0,0,0,0,0,0,0,0,0,0,0,0,0,0,0,0,0,0,0,0,0,0,0,0,0,0],
    [0,0,0,0,0,0,0,0,0,0,0,0,0,0,0,0,0,0,0,0,0,0,0,0,0,0,0,0,0,0,0,0],
    [0,0,0,0,0,0,0,0,0,0,0,0,0,0,0,0,0,0,0,0,0,0,0,0,0,0,0,0,0,0,0,0],
    [0,0,0,0,0,0,0,0,0,0,0,0,0,0,0,0,0,0,0,0,0,0,0,0,0,0,0,0,0,0,0,0],
    [0,0,0,0,0,0,0,0,0,0,0,0,0,0,0,0,0,0,0,0,0,0,0,0,0,0,0,0,0,0,0,0],
    [0,0,0,0,0,0,0,0,0,0,0,0,0,0,0,0,0,0,0,0,0,0,0,0,0,0,0,0,0,0,0,0],
    [0,0,0,0,0,0,0,0,0,0,0,0,0,0,0,0,0,0,0,0,0,0,0,0,0,0,0,0,0,0,0,0],
    [0,0,0,0,0,0,0,0,0,0,0,0,0,0,0,0,0,0,0,0,0,0,0,0,0,0,0,0,0,0,0,0],
    [0,0,0,0,0,0,0,0,0,0,0,0,0,0,0,0,0,0,0,0,0,0,0,0,0,0,0,0,0,0,0,0],
    [0,0,0,0,0,0,0,0,0,0,0,0,0,0,0,0,0,0,0,0,0,0,0,0,0,0,0,0,0,0,0,0],
    [0,0,0,0,0,0,0,0,0,0,0,0,0,0,0,0,0,0,0,0,0,0,0,0,0,0,0,0,0,0,0,0],
    [0,0,0,0,0,0,0,0,0,0,0,0,0,0,0,0,0,0,0,0,0,0,0,0,0,0,0,0,0,0,0,0],
    [0,0,0,0,0,0,0,0,0,0,0,0,0,0,0,0,0,0,0,0,0,0,0,0,0,0,0,0,0,0,0,0],
    [0,0,0,0,0,0,0,0,0,0,0,0,0,0,0,0,0,0,0,0,0,0,0,0,0,0,0,0,0,0]]"

lemma valueFontPixels_4_length: "length (concat valueFontPixels_4) = 2046"
  by (simp add: valueFontPixels_4_def)

definition valueFontPixels :: "u8 list" where
  "valueFontPixels = concat valueFontPixels_1 @ concat valueFontPixels_2 @ concat valueFontPixels_3 @ concat valueFontPixels_4"

lemma valueFontPixels_length: "length valueFontPixels = 16254"
  by (simp add: valueFontPixels_def valueFontPixels_1_length valueFontPixels_2_length valueFontPixels_3_length valueFontPixels_4_length)

definition valueFontGlyphs :: "smooth_glyph list" where
  "valueFontGlyphs = map (\<lambda>(code, left, top, width, height, advance, offset).
      \<lparr>sg_code = code, sg_left = left, sg_top = top, sg_width = width, sg_height = height,
       sg_advance = advance, sg_offset = offset\<rparr>) [
    (32, 0, 0, 18, 0, 18, 0),
    (37, 0, -53, 58, 54, 58, 0),
    (45, 0, -24, 27, 24, 27, 1566),
    (46, 0, -8, 17, 9, 17, 1890),
    (48, 0, -53, 42, 54, 42, 1967),
    (49, 0, -52, 42, 52, 42, 3101),
    (50, 0, -53, 42, 53, 42, 4193),
    (51, 0, -53, 42, 54, 42, 5306),
    (52, 0, -52, 42, 52, 42, 6440),
    (53, 0, -52, 42, 53, 42, 7532),
    (54, 0, -52, 42, 53, 42, 8645),
    (55, 0, -52, 42, 52, 42, 9758),
    (56, 0, -53, 42, 54, 42, 10850),
    (57, 0, -53, 42, 53, 42, 11984),
    (67, 0, -53, 48, 54, 48, 13097),
    (70, 0, -52, 41, 52, 41, 14393),
    (176, 0, -53, 30, 53, 30, 15459)]"

definition valueFont :: smooth_font where
  "valueFont = \<lparr>sf_glyphs = valueFontGlyphs, sf_pixels = valueFontPixels, sf_count = 17, sf_ascent = 72\<rparr>"

lemma valueFont_tiled: "font_tiled valueFont"
  by (simp add: font_tiled_def valueFont_def valueFontGlyphs_def valueFontPixels_length)

lemma valueFont_codes: "map sg_code (sf_glyphs valueFont) = [32, 37, 45, 46, 48, 49, 50, 51, 52, 53, 54, 55, 56, 57, 67, 70, 176]" "sf_count valueFont = length (sf_glyphs valueFont)"
  by (simp_all add: valueFont_def valueFontGlyphs_def)

end
