(* ===== verification/Lato_Small.thy ===== *)
theory Lato_Small
  imports Smooth_Text
begin

text \<open>
  \<open>firmware/giga-filament/smooth_font.h\<close>: the font of the date and the section labels and the font of the connection status line (Lato Regular, 22 px). The
  pixel array is kept with one row of the list per line of the source, in blocks of at most
  148 lines.
\<close>

definition labelFontPixels_1 :: "u8 list list" where
  "labelFontPixels_1 = [
    [8,255,255,246,0,143,255,255,96,0,0,0,0,0,0,0,0,0,0,0,0,0,0,0,0,0,0,0,0,0,0,0],
    [0,0,0,0,0,0,124,238,198,0,0,0,28,255,255,255,177,0,0,191,213,17,110,250,0,5,255,32,0,4,255,48],
    [11,249,0,0,0,175,144,14,244,0,0,0,95,208,47,241,0,0,0,47,241,63,240,0,0,0,31,242,79,224,0,0],
    [0,15,243,63,240,0,0,0,31,242,47,241,0,0,0,47,241,14,244,0,0,0,95,208,11,249,0,0,0,175,144,5],
    [255,32,0,4,255,64,0,191,213,17,110,250,0,0,28,255,255,255,177,0,0,0,124,238,198,0,0,0,0,0,127,192],
    [0,0,0,0,10,255,192,0,0,0,1,207,239,192,0,0,0,61,251,111,192,0,0,0,207,144,95,192,0,0,0,37],
    [0,95,192,0,0,0,0,0,95,192,0,0,0,0,0,95,192,0,0,0,0,0,95,192,0,0,0,0,0,95,192,0],
    [0,0,0,0,95,192,0,0,0,0,0,95,192,0,0,0,0,0,95,192,0,0,0,0,0,95,192,0,0,0,0,0],
    [95,192,0,0,0,15,255,255,255,255,48,0,15,255,255,255,255,48,0,0,124,239,200,16,0,0,28,255,255,255,210,0],
    [0,175,213,17,94,251,0,2,255,32,0,5,255,32,6,250,0,0,0,255,64,0,16,0,0,1,255,48,0,0,0,0],
    [4,254,0,0,0,0,0,11,246,0,0,0,0,0,127,176,0,0,0,0,6,253,16,0,0,0,0,111,210,0,0,0],
    [0,7,253,32,0,0,0,0,127,210,0,0,0,0,7,253,32,0,0,0,0,143,210,0,0,0,0,7,255,222,255,255],
    [255,112,13,255,255,255,255,255,144,0,0,91,239,216,16,0,0,10,255,255,255,227,0,0,127,230,17,77,252,0,1,239],
    [48,0,2,255,32,5,251,0,0,0,239,32,0,33,0,0,3,253,0,0,0,0,2,109,244,0,0,0,0,255,251,32],
    [0,0,0,0,255,255,177,0,0,0,0,2,92,253,0,0,0,0,0,1,223,80,0,0,0,0,0,175,128,9,211,0],
    [0,0,175,128,9,251,0,0,2,239,64,2,239,179,1,94,252,0,0,79,255,255,255,210,0,0,3,157,254,199,16,0],
    [0,0,0,0,191,144,0,0,0,0,7,255,144,0,0,0,0,63,239,144,0,0,0,1,222,111,144,0,0,0,10,246],
    [79,144,0,0,0,111,160,79,144,0,0,3,237,16,79,144,0,0,28,243,0,79,144,0,0,159,96,0,79,144,0,5],
    [250,0,0,79,144,0,46,209,0,0,79,144,0,159,255,255,255,255,255,244,127,255,255,255,255,255,243,0,0,0,0,79],
    [144,0,0,0,0,0,79,144,0,0,0,0,0,79,144,0,0,0,0,0,79,144,0,0,7,255,255,255,252,0,0,9],
    [255,255,255,248,0,0,12,241,0,0,0,0,0,14,208,0,0,0,0,0,47,160,0,0,0,0,0,95,112,0,0,0],
    [0,0,127,222,254,199,16,0,0,175,255,255,255,193,0,0,54,65,2,126,250,0,0,0,0,0,5,255,16,0,0,0],
    [0,0,239,64,0,0,0,0,0,223,64,0,0,0,0,1,255,32,0,16,0,0,9,252,0,4,251,65,3,175,244,0],
    [3,223,255,255,255,96,0,0,23,206,253,146,0,0,0,0,0,4,223,80,0,0,0,0,30,248,0,0,0,0,0,191],
    [160,0,0,0,0,8,252,16,0,0,0,0,79,210,0,0,0,0,2,238,48,0,0,0,0,12,250,207,235,64,0,0],
    [127,255,255,255,247,0,1,239,213,17,76,255,48,6,254,32,0,1,223,144,9,248,0,0,0,111,192,10,246,0,0,0],
    [79,208,9,248,0,0,0,111,176,5,254,16,0,1,223,96,0,223,196,17,93,253,0,0,61,255,255,255,210,0,0,1],
    [140,238,199,16,0,11,255,255,255,255,255,240,9,255,255,255,255,255,208,0,0,0,0,0,159,112,0,0,0,0,2,254],
    [16,0,0,0,0,10,247,0,0,0,0,0,63,225,0,0,0,0,0,175,112,0,0,0,0,3,254,16,0,0,0,0],
    [11,247,0,0,0,0,0,79,225,0,0,0,0,0,191,112,0,0,0,0,4,254,16,0,0,0,0,12,247,0,0,0],
    [0,0,95,225,0,0,0,0,0,207,112,0,0,0,0,5,254,16,0,0,0,0,13,229,0,0,0,0,0,1,141,254],
    [199,16,0,0,45,255,255,255,209,0,0,207,212,17,93,250,0,2,255,32,0,3,255,16,3,254,0,0,0,255,32,1],
    [239,32,0,3,254,0,0,127,212,17,93,248,0,0,6,239,255,255,128,0,0,26,255,255,253,96,0,1,223,180,17,76],
    [250,0,8,252,0,0,1,223,80,11,246,0,0,0,143,160,12,247,0,0,0,143,176,10,252,0,0,1,223,128,3,255],
    [180,17,76,255,48,0,111,255,255,255,246,0,0,3,157,255,217,32,0,0,1,140,238,198,0,0,0,61,255,255,255,193],
    [0,1,223,196,17,93,250,0,6,253,16,0,2,239,32,10,247,0,0,0,191,80,11,247,0,0,0,191,96,9,252,0],
    [0,2,255,80,3,255,163,18,109,255,16,0,143,255,255,255,250,0,0,5,190,235,143,242,0,0,0,0,1,239,112,0],
    [0,0,0,11,252,0,0,0,0,0,127,226,0,0,0,0,4,255,80,0,0,0,0,29,250,0,0,0,0,0,191,209],
    [0,0,0,0,7,254,48,0,0,0,0,0,0,79,247,0,0,0,0,0,0,10,255,208,0,0,0,0,0,1,255,223],
    [80,0,0,0,0,0,127,200,251,0,0,0,0,0,13,246,63,242,0,0,0,0,4,255,16,207,128,0,0,0,0,175],
    [160,6,254,0,0,0,0,31,244,0,30,245,0,0,0,7,253,0,0,175,176,0,0,0,223,112,0,4,255,32,0,0],
    [79,242,0,0,13,248,0,0,11,255,255,255,255,255,224,0,2,255,255,255,255,255,255,80,0,143,225,0,0,0,12,251],
    [0,13,249,0,0,0,0,95,242,5,255,32,0,0,0,0,223,128,191,144,0,0,0,0,6,254,16,0,207,255,255,237],
    [147,0,0,0,207,255,255,255,255,112,0,0,207,128,0,20,207,243,0,0,207,128,0,0,29,249,0,0,207,128,0,0],
    [10,251,0,0,207,128,0,0,10,249,0,0,207,128,0,0,30,244,0,0,207,128,0,21,207,128,0,0,207,255,255,255],
    [229,0,0,0,207,255,255,255,254,128,0,0,207,128,0,2,110,250,0,0,207,128,0,0,4,255,32,0,207,128,0,0],
    [0,255,64,0,207,128,0,0,4,255,32,0,207,128,0,2,110,252,0,0,207,255,255,255,255,210,0,0,207,255,255,254],
    [182,0,0,0,207,255,255,254,200,48,0,0,0,207,255,255,255,255,249,16,0,0,207,128,0,1,74,255,193,0,0,207],
    [128,0,0,0,78,250,0,0,207,128,0,0,0,6,255,48,0,207,128,0,0,0,0,223,144,0,207,128,0,0,0,0],
    [143,208,0,207,128,0,0,0,0,95,240,0,207,128,0,0,0,0,95,241,0,207,128,0,0,0,0,95,240,0,207,128],
    [0,0,0,0,143,208,0,207,128,0,0,0,0,223,144,0,207,128,0,0,0,6,255,48,0,207,128,0,0,0,78,250],
    [0,0,207,128,0,1,73,255,193,0,0,207,255,255,255,255,250,16,0,0,207,255,255,254,200,48,0,0,0,207,255,255],
    [255,255,192,0,207,255,255,255,255,192,0,207,128,0,0,0,0,0,207,128,0,0,0,0,0,207,128,0,0,0,0,0],
    [207,128,0,0,0,0,0,207,128,0,0,0,0,0,207,128,0,0,0,0,0,207,255,255,255,243,0,0,207,255,255,255],
    [243,0,0,207,128,0,0,0,0,0,207,128,0,0,0,0,0,207,128,0,0,0,0,0,207,128,0,0,0,0,0,207],
    [128,0,0,0,0,0,207,255,255,255,255,192,0,207,255,255,255,255,192,0,207,255,255,255,255,192,0,207,255,255,255,255],
    [192,0,207,128,0,0,0,0,0,207,128,0,0,0,0,0,207,128,0,0,0,0,0,207,128,0,0,0,0,0,207,128],
    [0,0,0,0,0,207,128,0,0,0,0,0,207,255,255,255,249,0,0,207,255,255,255,249,0,0,207,128,0,0,0,0],
    [0,207,128,0,0,0,0,0,207,128,0,0,0,0,0,207,128,0,0,0,0,0,207,128,0,0,0,0,0,207,128,0],
    [0,0,0,0,207,128,0,0,0,0,0,207,128,0,0,0,3,255,32,0,207,128,0,0,0,3,255,32,0,207,128,0],
    [0,0,3,255,32,0,207,128,0,0,0,3,255,32,0,207,128,0,0,0,3,255,32,0,207,128,0,0,0,3,255,32],
    [0,207,128,0,0,0,3,255,32,0,207,128,0,0,0,3,255,32,0,207,255,255,255,255,255,255,32,0,207,255,255,255],
    [255,255,255,32,0,207,128,0,0,0,3,255,32,0,207,128,0,0,0,3,255,32,0,207,128,0,0,0,3,255,32,0],
    [207,128,0,0,0,3,255,32,0,207,128,0,0,0,3,255,32,0,207,128,0,0,0,3,255,32,0,207,128,0,0,0],
    [3,255,32,0,207,128,0,12,248,0,0,207,128,0,12,248,0,0,207,128,0,12,248,0,0,207,128,0,12,248,0,0],
    [207,128,0,12,248,0,0,207,128,0,12,248,0,0,207,128,0,12,248,0,0,207,128,0,12,248,0,0,207,128,0,0],
    [207,128,0,0,0,0,207,128,0,0,0,0,207,128,0,0,0,0,207,128,0,0,0,0,207,128,0,0,0,0,207,128],
    [0,0,0,0,207,128,0,0,0,0,207,128,0,0,0,0,207,128,0,0,0,0,207,128,0,0,0,0,207,128,0,0],
    [0,0,207,128,0,0,0,0,207,128,0,0,0,0,207,128,0,0,0,0,207,128,0,0,0,0,207,255,255,255,254,0],
    [207,255,255,255,254,0,207,176,0,0,0,0,0,7,255,16,0,207,245,0,0,0,0,0,30,255,16,0,207,253,0,0],
    [0,0,0,159,255,16,0,207,239,112,0,0,0,3,254,239,16,0,207,111,225,0,0,0,11,246,239,16,0,207,74,249],
    [0,0,0,79,208,239,16,0,207,66,239,48,0,0,207,80,239,16,0,207,64,143,176,0,6,252,0,239,16,0,207,64],
    [29,245,0,30,244,0,239,16,0,207,64,6,253,0,143,160,0,239,16,0,207,64,0,207,114,239,32,0,239,16,0,207],
    [64,0,79,233,249,0,0,239,16,0,207,64,0,10,255,225,0,0,239,16,0,207,64,0,2,255,112,0,0,239,16,0],
    [207,64,0,0,87,0,0,0,239,16,0,207,64,0,0,0,0,0,0,239,16,0,207,64,0,0,0,0,0,0,239,16],
    [0,206,64,0,0,0,0,239,32,0,207,226,0,0,0,0,239,32,0,207,252,0,0,0,0,239,32,0,207,239,144,0],
    [0,0,239,32,0,207,110,245,0,0,0,239,32,0,207,70,254,32,0,0,239,32,0,207,64,159,209,0,0,239,32,0],
    [207,64,12,250,0,0,239,32,0,207,64,2,239,96,0,239,32,0,207,64,0,95,243,0,239,32,0,207,64,0,8,253],
    [16,239,32,0,207,64,0,0,191,176,239,32,0,207,64,0,0,30,247,223,32,0,207,64,0,0,4,255,255,32,0,207],
    [64,0,0,0,127,255,32,0,207,64,0,0,0,10,255,32,0,207,64,0,0,0,1,207,32,0,0,1,123,239,236,130],
    [0,0,0,0,7,239,255,255,255,249,0,0,0,9,255,181,32,20,175,251,0,0,6,255,112,0,0,0,79,249,0,1],
    [239,144,0,0,0,0,111,243,0,111,241,0,0,0,0,0,223,144,10,251,0,0,0,0,0,8,253,0,207,144,0,0],
    [0,0,0,111,240,13,248,0,0,0,0,0,5,255,16,207,144,0,0,0,0,0,111,240,10,251,0,0,0,0,0,8],
    [253,0,111,241,0,0,0,0,0,223,144,1,239,144,0,0,0,0,111,243,0,6,255,112,0,0,0,78,249,0,0,9],
    [255,181,16,20,175,252,16,0,0,7,239,255,255,255,249,0,0,0,0,1,123,239,236,130,0,0,0,0,207,255,255,235],
    [113,0,0,207,255,255,255,253,48,0,207,128,0,38,239,208,0,207,128,0,0,63,246,0,207,128,0,0,12,249,0,207],
    [128,0,0,10,250,0,207,128,0,0,12,249,0,207,128,0,0,79,245,0,207,128,1,56,255,192,0,207,255,255,255,252],
    [16,0,207,255,255,235,96,0,0,207,128,0,0,0,0,0,207,128,0,0,0,0,0,207,128,0,0,0,0,0,207,128],
    [0,0,0,0,0,207,128,0,0,0,0,0,207,128,0,0,0,0,0,207,255,255,235,113,0,0,12,255,255,255,255,210],
    [0,0,207,128,0,38,239,192,0,12,248,0,0,4,255,48,0,207,128,0,0,14,245,0,12,248,0,0,0,255,64,0],
    [207,128,0,0,111,225,0,12,248,0,19,143,247,0,0,207,255,255,255,246,0,0,12,255,255,255,145,0,0,0,207,128],
    [25,254,32,0,0,12,248,0,12,252,0,0,0,207,128,0,46,248,0,0,12,248,0,0,95,245,0,0,207,128,0,0],
    [159,226,0,12,248,0,0,0,207,192,0,207,128,0,0,2,223,128,175,255,255,255,255,255,252,175,255,255,255,255,255,252],
    [0,0,1,255,64,0,0,0,0,1,255,64,0,0,0,0,1,255,64,0,0,0,0,1,255,64,0,0,0,0,1,255],
    [64,0,0,0,0,1,255,64,0,0,0,0,1,255,64,0,0,0,0,1,255,64,0,0,0,0,1,255,64,0,0,0],
    [0,1,255,64,0,0,0,0,1,255,64,0,0,0,0,1,255,64,0,0,0,0,1,255,64,0,0,0,0,1,255,64],
    [0,0,0,0,1,255,64,0,0,0,255,64,0,0,0,10,250,0,0,255,64,0,0,0,10,250,0,0,255,64,0,0],
    [0,10,250,0,0,255,64,0,0,0,10,250,0,0,255,64,0,0,0,10,250,0,0,255,64,0,0,0,10,250,0,0],
    [255,64,0,0,0,10,250,0,0,255,64,0,0,0,10,250,0,0,255,64,0,0,0,10,250,0,0,255,64,0,0,0],
    [10,250,0,0,255,80,0,0,0,10,250,0,0,223,112,0,0,0,12,248,0,0,175,176,0,0,0,47,245,0,0,79],
    [246,0,0,0,191,208,0,0,10,255,147,1,76,255,64,0,0,0,159,255,255,255,229,0,0,0,0,4,173,254,200,16],
    [0,0,63,247,0,0,0,0,191,176,7,255,48,0,0,6,254,32,0,207,192,0,0,46,246,0,0,46,247,0,0,191],
    [160,0,0,6,255,48,7,254,16,0,0,0,191,192,63,244,0,0,0,0,46,247,207,144,0,0,0,0,6,255,253,16],
    [0,0,0,0,1,239,250,0,0,0,0,0,10,252,255,80,0,0,0,0,95,242,159,225,0,0,0,2,239,112,29,250],
    [0,0,0,11,252,0,4,255,80,0,0,111,226,0,0,175,225,0,2,239,96,0,0,30,250,0,11,251,0,0,0,5],
    [255,80,111,226,0,0,0,0,175,225,175,192,0,0,0,0,207,162,239,112,0,0,0,127,225,6,254,16,0,0,46,246],
    [0,12,250,0,0,10,252,0,0,63,243,0,4,255,48,0,0,159,192,0,207,128,0,0,1,239,96,127,209,0,0,0],
    [5,254,46,245,0,0,0,0,11,252,251,0,0,0,0,0,47,254,32,0,0,0,0,0,175,160,0,0,0,0,0,10],
    [250,0,0,0,0,0,0,175,160,0,0,0,0,0,10,250,0,0,0,0,0,0,175,160,0,0,0,0,0,10,250,0],
    [0,0,0,0,0,175,160,0,0,0]]"

lemma labelFontPixels_1_length: "length (concat labelFontPixels_1) = 3498"
  by (simp add: labelFontPixels_1_def)

definition labelFontPixels :: "u8 list" where
  "labelFontPixels = concat labelFontPixels_1"

lemma labelFontPixels_length: "length labelFontPixels = 3498"
  by (simp add: labelFontPixels_def labelFontPixels_1_length)

definition labelFontGlyphs :: "smooth_glyph list" where
  "labelFontGlyphs = map (\<lambda>(code, left, top, width, height, advance, offset).
      \<lparr>sg_code = code, sg_left = left, sg_top = top, sg_width = width, sg_height = height,
       sg_advance = advance, sg_offset = offset\<rparr>) [
    (32, 0, 0, 6, 0, 6, 0),
    (45, 0, -8, 9, 8, 9, 0),
    (48, 0, -17, 14, 17, 14, 36),
    (49, 0, -17, 14, 17, 14, 155),
    (50, 0, -17, 14, 17, 14, 274),
    (51, 0, -17, 14, 17, 14, 393),
    (52, 0, -17, 14, 17, 14, 512),
    (53, 0, -17, 14, 17, 14, 631),
    (54, 0, -17, 14, 17, 14, 750),
    (55, 0, -17, 14, 17, 14, 869),
    (56, 0, -17, 14, 17, 14, 988),
    (57, 0, -17, 14, 17, 14, 1107),
    (65, 0, -17, 17, 17, 16, 1226),
    (66, 0, -17, 16, 17, 16, 1371),
    (68, 0, -17, 18, 17, 18, 1507),
    (69, 0, -17, 14, 17, 14, 1660),
    (70, 0, -17, 14, 17, 14, 1779),
    (72, 0, -17, 18, 17, 18, 1898),
    (73, 0, -17, 7, 17, 7, 2051),
    (76, 0, -17, 12, 17, 12, 2111),
    (77, 0, -17, 22, 17, 22, 2213),
    (78, 0, -17, 18, 17, 18, 2400),
    (79, 0, -17, 19, 17, 19, 2553),
    (80, 0, -17, 14, 17, 14, 2715),
    (82, 0, -17, 15, 17, 15, 2834),
    (84, 0, -17, 14, 17, 14, 2962),
    (85, 0, -17, 18, 17, 18, 3081),
    (88, 0, -17, 16, 17, 16, 3234),
    (89, 0, -17, 15, 17, 15, 3370)]"

definition labelFont :: smooth_font where
  "labelFont = \<lparr>sf_glyphs = labelFontGlyphs, sf_pixels = labelFontPixels, sf_count = 29, sf_ascent = 24\<rparr>"

lemma labelFont_tiled: "font_tiled labelFont"
  by (simp add: font_tiled_def labelFont_def labelFontGlyphs_def labelFontPixels_length)

lemma labelFont_codes: "map sg_code (sf_glyphs labelFont) = [32, 45, 48, 49, 50, 51, 52, 53, 54, 55, 56, 57, 65, 66, 68, 69, 70, 72, 73, 76, 77, 78, 79, 80, 82, 84, 85, 88, 89]" "sf_count labelFont = length (sf_glyphs labelFont)"
  by (simp_all add: labelFont_def labelFontGlyphs_def)

definition statusFontPixels_1 :: "u8 list list" where
  "statusFontPixels_1 = [
    [7,234,0,126,160,0,0,6,173,254,199,16,0,0,61,255,255,255,254,64,0,62,253,98,1,57,250,0,13,251,16,0],
    [0,1,0,6,254,16,0,0,0,0,0,175,128,0,0,0,0,0,13,245,0,0,0,0,0,0,239,64,0,0,0,0],
    [0,13,245,0,0,0,0,0,0,191,128,0,0,0,0,0,6,254,16,0,0,0,0,0,29,251,16,0,0,2,48,0],
    [79,253,98,1,56,254,16,0,78,255,255,255,254,64,0,0,23,190,254,199,16,0,0,255,32,0,0,0,15,242,0,0],
    [0,0,255,32,0,0,0,15,242,0,0,0,0,255,32,0,0,0,15,242,0,0,0,0,255,32,0,0,0,15,242,0],
    [0,0,0,255,32,0,0,0,15,242,0,0,0,0,255,32,0,0,0,15,242,0,0,0,0,255,32,0,0,0,15,255],
    [255,255,254,0,255,255,255,255,224,127,192,0,0,0,143,112,0,0,0,223,66,255,32,0,0,14,253,0,0,0,79,224],
    [13,247,0,0,4,255,243,0,0,9,249,0,143,192,0,0,175,175,128,0,0,223,64,3,255,16,0,30,210,254,0,0],
    [63,224,0,13,246,0,5,248,11,244,0,8,249,0,0,143,176,0,191,48,111,144,0,207,80,0,3,255,16,31,192,1],
    [254,0,47,224,0,0,13,245,6,247,0,10,245,7,250,0,0,0,143,160,207,32,0,95,160,191,80,0,0,3,254,47],
    [176,0,0,239,47,225,0,0,0,13,250,246,0,0,9,250,250,0,0,0,0,143,255,16,0,0,79,255,80,0,0,0],
    [3,255,176,0,0,0,239,225,0,0,0,0,13,245,0,0,0,9,250,0,0,0,0,41,223,232,0,0,78,255,255,251],
    [0,6,215,33,78,243,0,0,0,0,143,96,0,0,0,6,247,0,2,123,222,255,128,6,252,98,22,248,2,252,0,0],
    [111,128,63,160,0,9,248,1,238,48,58,239,128,3,190,236,97,232,0,0,5,190,236,80,0,9,255,255,255,112,5,255],
    [114,19,149,0,207,112,0,0,0,15,241,0,0,0,1,254,0,0,0,0,15,241,0,0,0,0,207,112,0,0,0,6],
    [255,114,19,169,0,10,255,255,255,96,0,6,207,235,64,0,0,0,0,0,63,192,0,0,0,0,63,192,0,0,0,0],
    [63,192,0,0,0,0,63,192,0,0,0,0,63,192,0,6,207,216,63,192,0,175,255,255,207,192,5,255,114,20,207,192],
    [11,247,0,0,63,192,14,242,0,0,63,192,15,240,0,0,63,192,15,241,0,0,63,192,13,245,0,0,79,192,8,253],
    [65,22,239,192,1,223,255,255,79,192,0,42,238,179,13,192,0,5,190,252,112,0,0,159,255,255,251,0,6,253,65,20],
    [207,96,12,242,0,0,47,160,15,255,255,255,255,176,31,208,0,0,0,0,15,241,0,0,0,0,11,249,0,0,0,0],
    [5,255,130,18,126,64,0,159,255,255,254,48,0,5,190,253,129,0,0,4,190,230,0,63,255,246,0,175,162,0,0,191],
    [48,0,127,255,255,246,94,255,255,246,0,191,64,0,0,191,64,0,0,191,64,0,0,191,64,0,0,191,64,0,0,191],
    [64,0,0,191,64,0,0,191,64,0,0,191,64,0,0,42,223,255,255,224,46,255,255,255,253,10,249,32,42,248,16,191],
    [16,0,63,128,8,249,32,42,247,0,27,255,255,253,16,0,142,223,217,32,0,63,96,0,0,0,6,249,32,0,0,0],
    [63,255,255,236,112,2,191,255,255,255,129,234,16,0,22,251,79,179,16,19,159,113,223,255,255,255,177,1,124,239,235,96],
    [0,7,248,0,0,0,0,7,248,0,0,0,0,7,248,0,0,0,0,7,248,0,0,0,0,7,248,0,0,0,0,7],
    [248,25,238,179,0,7,249,207,255,254,32,7,255,163,3,223,128,7,250,0,0,95,176,7,248,0,0,47,192,7,248,0],
    [0,47,192,7,248,0,0,47,192,7,248,0,0,47,192,7,248,0,0,47,192,7,248,0,0,47,192,7,248,0,0,47],
    [192,7,235,0,126,176,0,0,0,0,0,0,0,0,95,144,5,249,0,95,144,5,249,0,95,144,5,249,0,95,144,5],
    [249,0,95,144,5,249,0,95,144,7,243,92,255,179,0,7,252,255,255,254,32,7,255,163,3,223,128,7,250,0,0,95],
    [176,7,248,0,0,47,192,7,248,0,0,47,192,7,248,0,0,47,192,7,248,0,0,47,192,7,248,0,0,47,192,7],
    [248,0,0,47,192,7,248,0,0,47,192,0,5,190,253,129,0,0,159,255,255,254,32,5,254,114,19,207,192,12,246,0],
    [0,30,244,15,241,0,0,9,247,31,240,0,0,8,248,15,241,0,0,9,247,12,246,0,0,30,244,5,254,98,19,207],
    [192,0,159,255,255,254,32,0,5,190,253,145,0,7,243,76,250,7,248,255,251,7,255,162,0,7,253,0,0,7,248,0],
    [0,7,248,0,0,7,248,0,0,7,248,0,0,7,248,0,0,7,248,0,0,7,248,0,0,0,92,238,163,0,7,255],
    [255,254,48,14,247,17,72,16,12,224,0,0,0,4,234,48,0,0,0,23,189,146,0,0,0,1,174,48,0,0,0,79],
    [144,10,130,2,191,128,28,255,255,254,32,1,141,253,146,0,0,23,16,0,0,95,48,0,0,127,48,0,0,159,48,0],
    [109,255,255,246,127,255,255,246,0,207,48,0,0,207,48,0,0,207,48,0,0,207,48,0,0,207,48,0,0,207,48,0],
    [0,191,112,65,0,143,255,247,0,26,238,145,143,112,0,0,30,208,47,208,0,0,127,112,11,244,0,0,223,16,5,250],
    [0,4,250,0,0,223,16,10,244,0,0,127,112,31,192,0,0,31,208,127,96,0,0,10,244,222,16,0,0,4,251,249],
    [0,0,0,0,207,243,0,0,0,0,111,192,0,0]]"

lemma statusFontPixels_1_length: "length (concat statusFontPixels_1) = 1294"
  by (simp add: statusFontPixels_1_def)

definition statusFontPixels :: "u8 list" where
  "statusFontPixels = concat statusFontPixels_1"

lemma statusFontPixels_length: "length statusFontPixels = 1294"
  by (simp add: statusFontPixels_def statusFontPixels_1_length)

definition statusFontGlyphs :: "smooth_glyph list" where
  "statusFontGlyphs = map (\<lambda>(code, left, top, width, height, advance, offset).
      \<lparr>sg_code = code, sg_left = left, sg_top = top, sg_width = width, sg_height = height,
       sg_advance = advance, sg_offset = offset\<rparr>) [
    (32, 0, 0, 6, 0, 6, 0),
    (46, 0, -2, 5, 2, 5, 0),
    (67, 0, -15, 15, 15, 15, 5),
    (76, 0, -15, 11, 15, 11, 118),
    (87, 0, -15, 23, 15, 23, 201),
    (97, 0, -11, 11, 11, 11, 374),
    (99, 0, -11, 11, 11, 10, 435),
    (100, 0, -16, 12, 16, 12, 496),
    (101, 0, -11, 12, 11, 12, 592),
    (102, 0, -15, 8, 15, 8, 658),
    (103, 0, -11, 11, 15, 11, 718),
    (104, 0, -16, 12, 16, 12, 801),
    (105, 0, -16, 5, 16, 5, 897),
    (110, 0, -11, 12, 11, 12, 937),
    (111, 0, -11, 12, 11, 12, 1003),
    (114, 0, -11, 8, 11, 8, 1069),
    (115, 0, -11, 10, 11, 10, 1113),
    (116, 0, -15, 8, 15, 8, 1168),
    (118, 0, -11, 12, 11, 11, 1228)]"

definition statusFont :: smooth_font where
  "statusFont = \<lparr>sf_glyphs = statusFontGlyphs, sf_pixels = statusFontPixels, sf_count = 19, sf_ascent = 22\<rparr>"

lemma statusFont_tiled: "font_tiled statusFont"
  by (simp add: font_tiled_def statusFont_def statusFontGlyphs_def statusFontPixels_length)

lemma statusFont_codes: "map sg_code (sf_glyphs statusFont) = [32, 46, 67, 76, 87, 97, 99, 100, 101, 102, 103, 104, 105, 110, 111, 114, 115, 116, 118]" "sf_count statusFont = length (sf_glyphs statusFont)"
  by (simp_all add: statusFont_def statusFontGlyphs_def)

end
