(* ===== verification/Montserrat_Signs.thy ===== *)
theory Montserrat_Signs
  imports Prelude
begin

text \<open>
  \<open>firmware/housepanel-giga/montserrat_96.c\<close>: the bitmaps of the glyphs U+0020 to U+002F. Each glyph is
  a list with one row per line of the source; a glyph of more than 148 lines is split in parts.
\<close>

definition glyph_U0020 :: "u8 list list" where
  "glyph_U0020 = []"

lemma glyph_U0020_length: "length (concat glyph_U0020) = 0"
  by (simp add: glyph_U0020_def)

definition glyph_U0021 :: "u8 list list" where
  "glyph_U0021 = [
    [0x5, 0xaa, 0xaa, 0xaa, 0xaa, 0xaa, 0x30, 0x7],
    [0xff, 0xff, 0xff, 0xff, 0xff, 0x40, 0x6, 0xff],
    [0xff, 0xff, 0xff, 0xff, 0x40, 0x6, 0xff, 0xff],
    [0xff, 0xff, 0xff, 0x30, 0x5, 0xff, 0xff, 0xff],
    [0xff, 0xff, 0x20, 0x5, 0xff, 0xff, 0xff, 0xff],
    [0xff, 0x20, 0x4, 0xff, 0xff, 0xff, 0xff, 0xff],
    [0x10, 0x3, 0xff, 0xff, 0xff, 0xff, 0xff, 0x0],
    [0x3, 0xff, 0xff, 0xff, 0xff, 0xff, 0x0, 0x2],
    [0xff, 0xff, 0xff, 0xff, 0xff, 0x0, 0x2, 0xff],
    [0xff, 0xff, 0xff, 0xfe, 0x0, 0x1, 0xff, 0xff],
    [0xff, 0xff, 0xfe, 0x0, 0x0, 0xff, 0xff, 0xff],
    [0xff, 0xfd, 0x0, 0x0, 0xff, 0xff, 0xff, 0xff],
    [0xfd, 0x0, 0x0, 0xff, 0xff, 0xff, 0xff, 0xfc],
    [0x0, 0x0, 0xff, 0xff, 0xff, 0xff, 0xfb, 0x0],
    [0x0, 0xef, 0xff, 0xff, 0xff, 0xfb, 0x0, 0x0],
    [0xdf, 0xff, 0xff, 0xff, 0xfa, 0x0, 0x0, 0xdf],
    [0xff, 0xff, 0xff, 0xf9, 0x0, 0x0, 0xcf, 0xff],
    [0xff, 0xff, 0xf9, 0x0, 0x0, 0xcf, 0xff, 0xff],
    [0xff, 0xf8, 0x0, 0x0, 0xbf, 0xff, 0xff, 0xff],
    [0xf7, 0x0, 0x0, 0xaf, 0xff, 0xff, 0xff, 0xf7],
    [0x0, 0x0, 0xaf, 0xff, 0xff, 0xff, 0xf6, 0x0],
    [0x0, 0x9f, 0xff, 0xff, 0xff, 0xf6, 0x0, 0x0],
    [0x9f, 0xff, 0xff, 0xff, 0xf5, 0x0, 0x0, 0x8f],
    [0xff, 0xff, 0xff, 0xf4, 0x0, 0x0, 0x7f, 0xff],
    [0xff, 0xff, 0xf4, 0x0, 0x0, 0x7f, 0xff, 0xff],
    [0xff, 0xf3, 0x0, 0x0, 0x6f, 0xff, 0xff, 0xff],
    [0xf2, 0x0, 0x0, 0x5f, 0xff, 0xff, 0xff, 0xf2],
    [0x0, 0x0, 0x5f, 0xff, 0xff, 0xff, 0xf1, 0x0],
    [0x0, 0x4f, 0xff, 0xff, 0xff, 0xf0, 0x0, 0x0],
    [0x4f, 0xff, 0xff, 0xff, 0xf0, 0x0, 0x0, 0x3f],
    [0xff, 0xff, 0xff, 0xf0, 0x0, 0x0, 0x2f, 0xff],
    [0xff, 0xff, 0xe0, 0x0, 0x0, 0x2f, 0xff, 0xff],
    [0xff, 0xe0, 0x0, 0x0, 0x1f, 0xff, 0xff, 0xff],
    [0xd0, 0x0, 0x0, 0x1f, 0xff, 0xff, 0xff, 0xd0],
    [0x0, 0x0, 0xf, 0xff, 0xff, 0xff, 0xc0, 0x0],
    [0x0, 0xf, 0xff, 0xff, 0xff, 0xb0, 0x0, 0x0],
    [0xf, 0xff, 0xff, 0xff, 0xb0, 0x0, 0x0, 0xe],
    [0xff, 0xff, 0xff, 0xa0, 0x0, 0x0, 0xe, 0xff],
    [0xff, 0xff, 0x90, 0x0, 0x0, 0xd, 0xff, 0xff],
    [0xff, 0x90, 0x0, 0x0, 0xc, 0xff, 0xff, 0xff],
    [0x80, 0x0, 0x0, 0x0, 0x0, 0x0, 0x0, 0x0],
    [0x0, 0x0, 0x0, 0x0, 0x0, 0x0, 0x0, 0x0],
    [0x0, 0x0, 0x0, 0x0, 0x0, 0x0, 0x0, 0x0],
    [0x0, 0x0, 0x0, 0x0, 0x0, 0x0, 0x0, 0x0],
    [0x0, 0x0, 0x0, 0x0, 0x0, 0x0, 0x0, 0x0],
    [0x0, 0x0, 0x0, 0x0, 0x0, 0x0, 0x0, 0x0],
    [0x0, 0x0, 0x0, 0x0, 0x0, 0x0, 0x0, 0x0],
    [0x0, 0x0, 0x0, 0x0, 0x0, 0x0, 0x0, 0x0],
    [0x0, 0x0, 0x0, 0x38, 0xaa, 0x83, 0x0, 0x0],
    [0x0, 0x1b, 0xff, 0xff, 0xff, 0xa0, 0x0, 0x1],
    [0xdf, 0xff, 0xff, 0xff, 0xfb, 0x0, 0xa, 0xff],
    [0xff, 0xff, 0xff, 0xff, 0x60, 0x1f, 0xff, 0xff],
    [0xff, 0xff, 0xff, 0xc0, 0x4f, 0xff, 0xff, 0xff],
    [0xff, 0xff, 0xf0, 0x5f, 0xff, 0xff, 0xff, 0xff],
    [0xff, 0xf1, 0x4f, 0xff, 0xff, 0xff, 0xff, 0xff],
    [0xf0, 0xf, 0xff, 0xff, 0xff, 0xff, 0xff, 0xb0],
    [0x8, 0xff, 0xff, 0xff, 0xff, 0xff, 0x40, 0x0],
    [0xbf, 0xff, 0xff, 0xff, 0xf8, 0x0, 0x0, 0x8],
    [0xff, 0xff, 0xfe, 0x60, 0x0, 0x0, 0x0, 0x15],
    [0x77, 0x40, 0x0, 0x0]]"

lemma glyph_U0021_length: "length (concat glyph_U0021) = 476"
  by (simp add: glyph_U0021_def)

definition glyph_U0022 :: "u8 list list" where
  "glyph_U0022 = [
    [0xbc, 0xcc, 0xcc, 0xcc, 0x10, 0x0, 0x0, 0x0],
    [0x6, 0xcc, 0xcc, 0xcc, 0xc5, 0xef, 0xff, 0xff],
    [0xff, 0x10, 0x0, 0x0, 0x0, 0x8, 0xff, 0xff],
    [0xff, 0xf7, 0xef, 0xff, 0xff, 0xff, 0x0, 0x0],
    [0x0, 0x0, 0x8, 0xff, 0xff, 0xff, 0xf6, 0xef],
    [0xff, 0xff, 0xff, 0x0, 0x0, 0x0, 0x0, 0x8],
    [0xff, 0xff, 0xff, 0xf6, 0xdf, 0xff, 0xff, 0xff],
    [0x0, 0x0, 0x0, 0x0, 0x7, 0xff, 0xff, 0xff],
    [0xf5, 0xdf, 0xff, 0xff, 0xff, 0x0, 0x0, 0x0],
    [0x0, 0x7, 0xff, 0xff, 0xff, 0xf5, 0xdf, 0xff],
    [0xff, 0xff, 0x0, 0x0, 0x0, 0x0, 0x7, 0xff],
    [0xff, 0xff, 0xf5, 0xcf, 0xff, 0xff, 0xfe, 0x0],
    [0x0, 0x0, 0x0, 0x6, 0xff, 0xff, 0xff, 0xf4],
    [0xcf, 0xff, 0xff, 0xfe, 0x0, 0x0, 0x0, 0x0],
    [0x6, 0xff, 0xff, 0xff, 0xf4, 0xbf, 0xff, 0xff],
    [0xfd, 0x0, 0x0, 0x0, 0x0, 0x5, 0xff, 0xff],
    [0xff, 0xf3, 0xbf, 0xff, 0xff, 0xfd, 0x0, 0x0],
    [0x0, 0x0, 0x5, 0xff, 0xff, 0xff, 0xf3, 0xbf],
    [0xff, 0xff, 0xfd, 0x0, 0x0, 0x0, 0x0, 0x5],
    [0xff, 0xff, 0xff, 0xf3, 0xaf, 0xff, 0xff, 0xfc],
    [0x0, 0x0, 0x0, 0x0, 0x4, 0xff, 0xff, 0xff],
    [0xf2, 0xaf, 0xff, 0xff, 0xfc, 0x0, 0x0, 0x0],
    [0x0, 0x4, 0xff, 0xff, 0xff, 0xf2, 0xaf, 0xff],
    [0xff, 0xfb, 0x0, 0x0, 0x0, 0x0, 0x4, 0xff],
    [0xff, 0xff, 0xf1, 0x9f, 0xff, 0xff, 0xfb, 0x0],
    [0x0, 0x0, 0x0, 0x3, 0xff, 0xff, 0xff, 0xf1],
    [0x9f, 0xff, 0xff, 0xfa, 0x0, 0x0, 0x0, 0x0],
    [0x3, 0xff, 0xff, 0xff, 0xf0, 0x9f, 0xff, 0xff],
    [0xfa, 0x0, 0x0, 0x0, 0x0, 0x3, 0xff, 0xff],
    [0xff, 0xf0, 0x8f, 0xff, 0xff, 0xfa, 0x0, 0x0],
    [0x0, 0x0, 0x2, 0xff, 0xff, 0xff, 0xf0, 0x8f],
    [0xff, 0xff, 0xf9, 0x0, 0x0, 0x0, 0x0, 0x2],
    [0xff, 0xff, 0xff, 0xf0, 0x8f, 0xff, 0xff, 0xf9],
    [0x0, 0x0, 0x0, 0x0, 0x2, 0xff, 0xff, 0xff],
    [0xf0, 0x7f, 0xff, 0xff, 0xf8, 0x0, 0x0, 0x0],
    [0x0, 0x1, 0xff, 0xff, 0xff, 0xe0, 0x7f, 0xff],
    [0xff, 0xf8, 0x0, 0x0, 0x0, 0x0, 0x1, 0xff],
    [0xff, 0xff, 0xe0, 0x6f, 0xff, 0xff, 0xf8, 0x0],
    [0x0, 0x0, 0x0, 0x0, 0xff, 0xff, 0xff, 0xe0],
    [0x6f, 0xff, 0xff, 0xf7, 0x0, 0x0, 0x0, 0x0],
    [0x0, 0xff, 0xff, 0xff, 0xd0, 0x6f, 0xff, 0xff],
    [0xf7, 0x0, 0x0, 0x0, 0x0, 0x0, 0xff, 0xff],
    [0xff, 0xd0]]"

lemma glyph_U0022_length: "length (concat glyph_U0022) = 338"
  by (simp add: glyph_U0022_def)

definition glyph_U0023_a :: "u8 list list" where
  "glyph_U0023_a = [
    [0x0, 0x0, 0x0, 0x0, 0x0, 0x0, 0x0, 0x0],
    [0x0, 0x0, 0x78, 0x88, 0x88, 0x60, 0x0, 0x0],
    [0x0, 0x0, 0x0, 0x0, 0x0, 0x0, 0x8, 0x88],
    [0x88, 0x85, 0x0, 0x0, 0x0, 0x0, 0x0, 0x0],
    [0x0, 0x0, 0x0, 0x0, 0x0, 0x0, 0x0, 0x0],
    [0x0, 0xf, 0xff, 0xff, 0xfc, 0x0, 0x0, 0x0],
    [0x0, 0x0, 0x0, 0x0, 0x0, 0x3, 0xff, 0xff],
    [0xff, 0xa0, 0x0, 0x0, 0x0, 0x0, 0x0, 0x0],
    [0x0, 0x0, 0x0, 0x0, 0x0, 0x0, 0x0, 0x0],
    [0x2, 0xff, 0xff, 0xff, 0xa0, 0x0, 0x0, 0x0],
    [0x0, 0x0, 0x0, 0x0, 0x0, 0x5f, 0xff, 0xff],
    [0xf8, 0x0, 0x0, 0x0, 0x0, 0x0, 0x0, 0x0],
    [0x0, 0x0, 0x0, 0x0, 0x0, 0x0, 0x0, 0x0],
    [0x4f, 0xff, 0xff, 0xf8, 0x0, 0x0, 0x0, 0x0],
    [0x0, 0x0, 0x0, 0x0, 0x7, 0xff, 0xff, 0xff],
    [0x60, 0x0, 0x0, 0x0, 0x0, 0x0, 0x0, 0x0],
    [0x0, 0x0, 0x0, 0x0, 0x0, 0x0, 0x0, 0x6],
    [0xff, 0xff, 0xff, 0x60, 0x0, 0x0, 0x0, 0x0],
    [0x0, 0x0, 0x0, 0x0, 0x9f, 0xff, 0xff, 0xf3],
    [0x0, 0x0, 0x0, 0x0, 0x0, 0x0, 0x0, 0x0],
    [0x0, 0x0, 0x0, 0x0, 0x0, 0x0, 0x0, 0x8f],
    [0xff, 0xff, 0xf4, 0x0, 0x0, 0x0, 0x0, 0x0],
    [0x0, 0x0, 0x0, 0xb, 0xff, 0xff, 0xff, 0x10],
    [0x0, 0x0, 0x0, 0x0, 0x0, 0x0, 0x0, 0x0],
    [0x0, 0x0, 0x0, 0x0, 0x0, 0x0, 0xb, 0xff],
    [0xff, 0xff, 0x10, 0x0, 0x0, 0x0, 0x0, 0x0],
    [0x0, 0x0, 0x0, 0xdf, 0xff, 0xff, 0xf0, 0x0],
    [0x0, 0x0, 0x0, 0x0, 0x0, 0x0, 0x0, 0x0],
    [0x0, 0x0, 0x0, 0x0, 0x0, 0x0, 0xdf, 0xff],
    [0xff, 0xf0, 0x0, 0x0, 0x0, 0x0, 0x0, 0x0],
    [0x0, 0x0, 0xf, 0xff, 0xff, 0xfd, 0x0, 0x0],
    [0x0, 0x0, 0x0, 0x0, 0x0, 0x0, 0x0, 0x0],
    [0x0, 0x0, 0x0, 0x0, 0x0, 0xf, 0xff, 0xff],
    [0xfd, 0x0, 0x0, 0x0, 0x0, 0x0, 0x0, 0x0],
    [0x0, 0x1, 0xff, 0xff, 0xff, 0xb0, 0x0, 0x0],
    [0x0, 0x0, 0x0, 0x0, 0x0, 0x0, 0x0, 0x0],
    [0x0, 0x0, 0x0, 0x0, 0x1, 0xff, 0xff, 0xff],
    [0xb0, 0x0, 0x0, 0x0, 0x0, 0x0, 0x0, 0x0],
    [0x0, 0x3f, 0xff, 0xff, 0xf9, 0x0, 0x0, 0x0],
    [0x0, 0x0, 0x0, 0x0, 0x0, 0x0, 0x0, 0x0],
    [0x0, 0x0, 0x0, 0x0, 0x3f, 0xff, 0xff, 0xf9],
    [0x0, 0x0, 0x0, 0x0, 0x0, 0x0, 0x0, 0x0],
    [0x5, 0xff, 0xff, 0xff, 0x70, 0x0, 0x0, 0x0],
    [0x0, 0x0, 0x0, 0x0, 0x0, 0x0, 0x0, 0x0],
    [0x0, 0x0, 0x0, 0x5, 0xff, 0xff, 0xff, 0x70],
    [0x0, 0x0, 0x0, 0x0, 0x0, 0x0, 0x0, 0x0],
    [0x7f, 0xff, 0xff, 0xf5, 0x0, 0x0, 0x0, 0x0],
    [0x0, 0x0, 0x0, 0x0, 0x0, 0x0, 0x0, 0x0],
    [0x0, 0x0, 0x0, 0x7f, 0xff, 0xff, 0xf5, 0x0],
    [0x0, 0x0, 0x0, 0x0, 0x0, 0x0, 0x0, 0x9],
    [0xff, 0xff, 0xff, 0x30, 0x0, 0x0, 0x0, 0x0],
    [0x0, 0x0, 0x0, 0x0, 0x0, 0x0, 0x0, 0x0],
    [0x0, 0x0, 0x9, 0xff, 0xff, 0xff, 0x30, 0x0],
    [0x0, 0x0, 0x0, 0x0, 0x0, 0x0, 0x0, 0xbf],
    [0xff, 0xff, 0xf1, 0x0, 0x0, 0x0, 0x0, 0x0],
    [0x0, 0x0, 0x0, 0x0, 0x0, 0x0, 0x0, 0x0],
    [0x0, 0x0, 0xbf, 0xff, 0xff, 0xf1, 0x0, 0x0],
    [0x0, 0x0, 0x0, 0x0, 0x0, 0x0, 0xd, 0xff],
    [0xff, 0xff, 0x0, 0x0, 0x0, 0x0, 0x0, 0x0],
    [0x0, 0x0, 0x0, 0x0, 0x0, 0x0, 0x0, 0x0],
    [0x0, 0xd, 0xff, 0xff, 0xff, 0x0, 0x0, 0x0],
    [0x0, 0x0, 0x0, 0x0, 0x0, 0x0, 0xff, 0xff],
    [0xff, 0xd0, 0x0, 0x0, 0x0, 0x0, 0x0, 0x0],
    [0x0, 0x0, 0x0, 0x0, 0x0, 0x0, 0x0, 0x0],
    [0x0, 0xff, 0xff, 0xff, 0xd0, 0x0, 0x0, 0x0],
    [0x0, 0x0, 0x0, 0x0, 0x0, 0x1f, 0xff, 0xff],
    [0xfb, 0x0, 0x0, 0x0, 0x0, 0x0, 0x0, 0x0],
    [0x0, 0x5f, 0xff, 0xff, 0xff, 0xff, 0xff, 0xff],
    [0xff, 0xff, 0xff, 0xff, 0xff, 0xff, 0xff, 0xff],
    [0xff, 0xff, 0xff, 0xff, 0xff, 0xff, 0xff, 0xff],
    [0xff, 0xff, 0xff, 0xff, 0xff, 0xff, 0xfd, 0x0],
    [0x5, 0xff, 0xff, 0xff, 0xff, 0xff, 0xff, 0xff],
    [0xff, 0xff, 0xff, 0xff, 0xff, 0xff, 0xff, 0xff],
    [0xff, 0xff, 0xff, 0xff, 0xff, 0xff, 0xff, 0xff],
    [0xff, 0xff, 0xff, 0xff, 0xff, 0xff, 0xe0, 0x0],
    [0x5f, 0xff, 0xff, 0xff, 0xff, 0xff, 0xff, 0xff],
    [0xff, 0xff, 0xff, 0xff, 0xff, 0xff, 0xff, 0xff],
    [0xff, 0xff, 0xff, 0xff, 0xff, 0xff, 0xff, 0xff],
    [0xff, 0xff, 0xff, 0xff, 0xff, 0xfe, 0x0, 0x5],
    [0xff, 0xff, 0xff, 0xff, 0xff, 0xff, 0xff, 0xff],
    [0xff, 0xff, 0xff, 0xff, 0xff, 0xff, 0xff, 0xff],
    [0xff, 0xff, 0xff, 0xff, 0xff, 0xff, 0xff, 0xff],
    [0xff, 0xff, 0xff, 0xff, 0xff, 0xe0, 0x0, 0x5f],
    [0xff, 0xff, 0xff, 0xff, 0xff, 0xff, 0xff, 0xff],
    [0xff, 0xff, 0xff, 0xff, 0xff, 0xff, 0xff, 0xff],
    [0xff, 0xff, 0xff, 0xff, 0xff, 0xff, 0xff, 0xff],
    [0xff, 0xff, 0xff, 0xff, 0xfe, 0x0, 0x5, 0xff],
    [0xff, 0xff, 0xff, 0xff, 0xff, 0xff, 0xff, 0xff],
    [0xff, 0xff, 0xff, 0xff, 0xff, 0xff, 0xff, 0xff],
    [0xff, 0xff, 0xff, 0xff, 0xff, 0xff, 0xff, 0xff],
    [0xff, 0xff, 0xff, 0xff, 0xe0, 0x0, 0x5f, 0xff],
    [0xff, 0xff, 0xff, 0xff, 0xff, 0xff, 0xff, 0xff],
    [0xff, 0xff, 0xff, 0xff, 0xff, 0xff, 0xff, 0xff],
    [0xff, 0xff, 0xff, 0xff, 0xff, 0xff, 0xff, 0xff],
    [0xff, 0xff, 0xff, 0xfe, 0x0, 0x0, 0x0, 0x0],
    [0x0, 0x0, 0x0, 0x0, 0xf, 0xff, 0xff, 0xfd],
    [0x0, 0x0, 0x0, 0x0, 0x0, 0x0, 0x0, 0x0],
    [0x1, 0xff, 0xff, 0xff, 0xb0, 0x0, 0x0, 0x0],
    [0x0, 0x0, 0x0, 0x0, 0x0, 0x0, 0x0, 0x0],
    [0x0, 0x0, 0x0, 0x1, 0xff, 0xff, 0xff, 0xb0],
    [0x0, 0x0, 0x0, 0x0, 0x0, 0x0, 0x0, 0x0],
    [0x3f, 0xff, 0xff, 0xf9, 0x0, 0x0, 0x0, 0x0],
    [0x0, 0x0, 0x0, 0x0, 0x0, 0x0, 0x0, 0x0],
    [0x0, 0x0, 0x0, 0x3f, 0xff, 0xff, 0xf9, 0x0],
    [0x0, 0x0, 0x0, 0x0, 0x0, 0x0, 0x0, 0x5],
    [0xff, 0xff, 0xff, 0x70, 0x0, 0x0, 0x0, 0x0],
    [0x0, 0x0, 0x0, 0x0, 0x0, 0x0, 0x0, 0x0],
    [0x0, 0x0, 0x5, 0xff, 0xff, 0xff, 0x70, 0x0],
    [0x0, 0x0, 0x0, 0x0, 0x0, 0x0, 0x0, 0x7f],
    [0xff, 0xff, 0xf5, 0x0, 0x0, 0x0, 0x0, 0x0],
    [0x0, 0x0, 0x0, 0x0, 0x0, 0x0, 0x0, 0x0],
    [0x0, 0x0, 0x7f, 0xff, 0xff, 0xf5, 0x0, 0x0],
    [0x0, 0x0, 0x0, 0x0, 0x0, 0x0, 0x9, 0xff],
    [0xff, 0xff, 0x30, 0x0, 0x0, 0x0, 0x0, 0x0],
    [0x0, 0x0, 0x0, 0x0, 0x0, 0x0, 0x0, 0x0],
    [0x0, 0x9, 0xff, 0xff, 0xff, 0x30, 0x0, 0x0],
    [0x0, 0x0, 0x0, 0x0, 0x0, 0x0, 0xbf, 0xff],
    [0xff, 0xf1, 0x0, 0x0, 0x0, 0x0, 0x0, 0x0],
    [0x0, 0x0, 0x0, 0x0, 0x0, 0x0, 0x0, 0x0],
    [0x0, 0xbf, 0xff, 0xff, 0xf1, 0x0, 0x0, 0x0],
    [0x0, 0x0, 0x0, 0x0, 0x0, 0xd, 0xff, 0xff],
    [0xff, 0x0, 0x0, 0x0, 0x0, 0x0, 0x0, 0x0],
    [0x0, 0x0, 0x0, 0x0, 0x0, 0x0, 0x0, 0x0],
    [0xd, 0xff, 0xff, 0xff, 0x0, 0x0, 0x0, 0x0],
    [0x0, 0x0, 0x0, 0x0, 0x0, 0xff, 0xff, 0xff],
    [0xd0, 0x0, 0x0, 0x0, 0x0, 0x0, 0x0, 0x0],
    [0x0, 0x0, 0x0, 0x0, 0x0, 0x0, 0x0, 0x0],
    [0xff, 0xff, 0xff, 0xd0, 0x0, 0x0, 0x0, 0x0],
    [0x0, 0x0, 0x0, 0x0, 0x1f, 0xff, 0xff, 0xfc],
    [0x0, 0x0, 0x0, 0x0, 0x0, 0x0, 0x0, 0x0],
    [0x0, 0x0, 0x0, 0x0, 0x0, 0x0, 0x0, 0x1f],
    [0xff, 0xff, 0xfb, 0x0, 0x0, 0x0, 0x0, 0x0],
    [0x0, 0x0, 0x0, 0x3, 0xff, 0xff, 0xff, 0xa0],
    [0x0, 0x0, 0x0, 0x0, 0x0, 0x0, 0x0, 0x0],
    [0x0, 0x0, 0x0, 0x0, 0x0, 0x0, 0x3, 0xff],
    [0xff, 0xff, 0x90, 0x0, 0x0, 0x0, 0x0, 0x0],
    [0x0, 0x0, 0x0, 0x4f, 0xff, 0xff, 0xf8, 0x0],
    [0x0, 0x0, 0x0, 0x0, 0x0, 0x0, 0x0, 0x0],
    [0x0, 0x0, 0x0, 0x0, 0x0, 0x0, 0x5f, 0xff],
    [0xff, 0xf7, 0x0, 0x0, 0x0, 0x0, 0x0, 0x0],
    [0x0, 0x0, 0x6, 0xff, 0xff, 0xff, 0x60, 0x0],
    [0x0, 0x0, 0x0, 0x0, 0x0, 0x0, 0x0, 0x0],
    [0x0, 0x0, 0x0, 0x0, 0x0, 0x7, 0xff, 0xff],
    [0xff, 0x50, 0x0, 0x0, 0x0, 0x0, 0x0, 0x0],
    [0x0, 0x0, 0x8f, 0xff, 0xff, 0xf4, 0x0, 0x0],
    [0x0, 0x0, 0x0, 0x0, 0x0, 0x0, 0x0, 0x0],
    [0x0, 0x0, 0x0, 0x0, 0x0, 0x9f, 0xff, 0xff],
    [0xf3, 0x0, 0x0, 0x0, 0x0, 0x0, 0x0, 0x0]]"

lemma glyph_U0023_a_length: "length (concat glyph_U0023_a) = 1184"
  by (simp add: glyph_U0023_a_def)

definition glyph_U0023_b :: "u8 list list" where
  "glyph_U0023_b = [
    [0x0, 0xa, 0xff, 0xff, 0xff, 0x20, 0x0, 0x0],
    [0x0, 0x0, 0x0, 0x0, 0x0, 0x0, 0x0, 0x0],
    [0x0, 0x0, 0x0, 0x0, 0xb, 0xff, 0xff, 0xff],
    [0x10, 0x0, 0x0, 0x0, 0x0, 0x0, 0x0, 0x0],
    [0x0, 0xcf, 0xff, 0xff, 0xf0, 0x0, 0x0, 0x0],
    [0x0, 0x0, 0x0, 0x0, 0x0, 0x0, 0x0, 0x0],
    [0x0, 0x0, 0x0, 0x0, 0xdf, 0xff, 0xff, 0xf0],
    [0x0, 0x0, 0x0, 0x0, 0x0, 0x0, 0x0, 0x0],
    [0xe, 0xff, 0xff, 0xfe, 0x0, 0x0, 0x0, 0x0],
    [0x0, 0x0, 0x0, 0x0, 0x0, 0x0, 0x0, 0x0],
    [0x0, 0x0, 0x0, 0xf, 0xff, 0xff, 0xfd, 0x0],
    [0x0, 0x0, 0x0, 0x0, 0x0, 0x0, 0x0, 0x0],
    [0xff, 0xff, 0xff, 0xc0, 0x0, 0x0, 0x0, 0x0],
    [0x0, 0x0, 0x0, 0x0, 0x0, 0x0, 0x0, 0x0],
    [0x0, 0x0, 0x1, 0xff, 0xff, 0xff, 0xb0, 0x0],
    [0x0, 0x0, 0x0, 0x0, 0x0, 0x0, 0x0, 0x2f],
    [0xff, 0xff, 0xfa, 0x0, 0x0, 0x0, 0x0, 0x0],
    [0x0, 0x0, 0x0, 0x0, 0x0, 0x0, 0x0, 0x0],
    [0x0, 0x0, 0x3f, 0xff, 0xff, 0xf9, 0x0, 0x0],
    [0x0, 0x0, 0x0, 0x0, 0x0, 0x0, 0x4, 0xff],
    [0xff, 0xff, 0x80, 0x0, 0x0, 0x0, 0x0, 0x0],
    [0x0, 0x0, 0x6, 0xff, 0xff, 0xff, 0xff, 0xff],
    [0xff, 0xff, 0xff, 0xff, 0xff, 0xff, 0xff, 0xff],
    [0xff, 0xff, 0xff, 0xff, 0xff, 0xff, 0xff, 0xff],
    [0xff, 0xff, 0xff, 0xff, 0xff, 0xff, 0xff, 0xff],
    [0xd0, 0x0, 0x6f, 0xff, 0xff, 0xff, 0xff, 0xff],
    [0xff, 0xff, 0xff, 0xff, 0xff, 0xff, 0xff, 0xff],
    [0xff, 0xff, 0xff, 0xff, 0xff, 0xff, 0xff, 0xff],
    [0xff, 0xff, 0xff, 0xff, 0xff, 0xff, 0xff, 0xfd],
    [0x0, 0x6, 0xff, 0xff, 0xff, 0xff, 0xff, 0xff],
    [0xff, 0xff, 0xff, 0xff, 0xff, 0xff, 0xff, 0xff],
    [0xff, 0xff, 0xff, 0xff, 0xff, 0xff, 0xff, 0xff],
    [0xff, 0xff, 0xff, 0xff, 0xff, 0xff, 0xff, 0xd0],
    [0x0, 0x6f, 0xff, 0xff, 0xff, 0xff, 0xff, 0xff],
    [0xff, 0xff, 0xff, 0xff, 0xff, 0xff, 0xff, 0xff],
    [0xff, 0xff, 0xff, 0xff, 0xff, 0xff, 0xff, 0xff],
    [0xff, 0xff, 0xff, 0xff, 0xff, 0xff, 0xfd, 0x0],
    [0x6, 0xff, 0xff, 0xff, 0xff, 0xff, 0xff, 0xff],
    [0xff, 0xff, 0xff, 0xff, 0xff, 0xff, 0xff, 0xff],
    [0xff, 0xff, 0xff, 0xff, 0xff, 0xff, 0xff, 0xff],
    [0xff, 0xff, 0xff, 0xff, 0xff, 0xff, 0xd0, 0x0],
    [0x6f, 0xff, 0xff, 0xff, 0xff, 0xff, 0xff, 0xff],
    [0xff, 0xff, 0xff, 0xff, 0xff, 0xff, 0xff, 0xff],
    [0xff, 0xff, 0xff, 0xff, 0xff, 0xff, 0xff, 0xff],
    [0xff, 0xff, 0xff, 0xff, 0xff, 0xfd, 0x0, 0x6],
    [0xff, 0xff, 0xff, 0xff, 0xff, 0xff, 0xff, 0xff],
    [0xff, 0xff, 0xff, 0xff, 0xff, 0xff, 0xff, 0xff],
    [0xff, 0xff, 0xff, 0xff, 0xff, 0xff, 0xff, 0xff],
    [0xff, 0xff, 0xff, 0xff, 0xff, 0xc0, 0x0, 0x0],
    [0x0, 0x0, 0x0, 0x0, 0x0, 0x3, 0xff, 0xff],
    [0xff, 0x90, 0x0, 0x0, 0x0, 0x0, 0x0, 0x0],
    [0x0, 0x0, 0x4f, 0xff, 0xff, 0xf8, 0x0, 0x0],
    [0x0, 0x0, 0x0, 0x0, 0x0, 0x0, 0x0, 0x0],
    [0x0, 0x0, 0x0, 0x0, 0x0, 0x5f, 0xff, 0xff],
    [0xf7, 0x0, 0x0, 0x0, 0x0, 0x0, 0x0, 0x0],
    [0x0, 0x6, 0xff, 0xff, 0xff, 0x60, 0x0, 0x0],
    [0x0, 0x0, 0x0, 0x0, 0x0, 0x0, 0x0, 0x0],
    [0x0, 0x0, 0x0, 0x0, 0x7, 0xff, 0xff, 0xff],
    [0x50, 0x0, 0x0, 0x0, 0x0, 0x0, 0x0, 0x0],
    [0x0, 0x8f, 0xff, 0xff, 0xf4, 0x0, 0x0, 0x0],
    [0x0, 0x0, 0x0, 0x0, 0x0, 0x0, 0x0, 0x0],
    [0x0, 0x0, 0x0, 0x0, 0x9f, 0xff, 0xff, 0xf3],
    [0x0, 0x0, 0x0, 0x0, 0x0, 0x0, 0x0, 0x0],
    [0xa, 0xff, 0xff, 0xff, 0x20, 0x0, 0x0, 0x0],
    [0x0, 0x0, 0x0, 0x0, 0x0, 0x0, 0x0, 0x0],
    [0x0, 0x0, 0x0, 0xb, 0xff, 0xff, 0xff, 0x10],
    [0x0, 0x0, 0x0, 0x0, 0x0, 0x0, 0x0, 0x0],
    [0xcf, 0xff, 0xff, 0xf0, 0x0, 0x0, 0x0, 0x0],
    [0x0, 0x0, 0x0, 0x0, 0x0, 0x0, 0x0, 0x0],
    [0x0, 0x0, 0x0, 0xdf, 0xff, 0xff, 0xf0, 0x0],
    [0x0, 0x0, 0x0, 0x0, 0x0, 0x0, 0x0, 0xe],
    [0xff, 0xff, 0xfe, 0x0, 0x0, 0x0, 0x0, 0x0],
    [0x0, 0x0, 0x0, 0x0, 0x0, 0x0, 0x0, 0x0],
    [0x0, 0x0, 0xf, 0xff, 0xff, 0xfd, 0x0, 0x0],
    [0x0, 0x0, 0x0, 0x0, 0x0, 0x0, 0x0, 0xff],
    [0xff, 0xff, 0xc0, 0x0, 0x0, 0x0, 0x0, 0x0],
    [0x0, 0x0, 0x0, 0x0, 0x0, 0x0, 0x0, 0x0],
    [0x0, 0x1, 0xff, 0xff, 0xff, 0xb0, 0x0, 0x0],
    [0x0, 0x0, 0x0, 0x0, 0x0, 0x0, 0x2f, 0xff],
    [0xff, 0xfa, 0x0, 0x0, 0x0, 0x0, 0x0, 0x0],
    [0x0, 0x0, 0x0, 0x0, 0x0, 0x0, 0x0, 0x0],
    [0x0, 0x3f, 0xff, 0xff, 0xf9, 0x0, 0x0, 0x0],
    [0x0, 0x0, 0x0, 0x0, 0x0, 0x4, 0xff, 0xff],
    [0xff, 0x80, 0x0, 0x0, 0x0, 0x0, 0x0, 0x0],
    [0x0, 0x0, 0x0, 0x0, 0x0, 0x0, 0x0, 0x0],
    [0x5, 0xff, 0xff, 0xff, 0x70, 0x0, 0x0, 0x0],
    [0x0, 0x0, 0x0, 0x0, 0x0, 0x6f, 0xff, 0xff],
    [0xf6, 0x0, 0x0, 0x0, 0x0, 0x0, 0x0, 0x0],
    [0x0, 0x0, 0x0, 0x0, 0x0, 0x0, 0x0, 0x0],
    [0x7f, 0xff, 0xff, 0xf5, 0x0, 0x0, 0x0, 0x0],
    [0x0, 0x0, 0x0, 0x0, 0x8, 0xff, 0xff, 0xff],
    [0x40, 0x0, 0x0, 0x0, 0x0, 0x0, 0x0, 0x0],
    [0x0, 0x0, 0x0, 0x0, 0x0, 0x0, 0x0, 0x9],
    [0xff, 0xff, 0xff, 0x30, 0x0, 0x0, 0x0, 0x0],
    [0x0, 0x0, 0x0, 0x0, 0xaf, 0xff, 0xff, 0xf2],
    [0x0, 0x0, 0x0, 0x0, 0x0, 0x0, 0x0, 0x0],
    [0x0, 0x0, 0x0, 0x0, 0x0, 0x0, 0x0, 0xbf],
    [0xff, 0xff, 0xf1, 0x0, 0x0, 0x0, 0x0, 0x0],
    [0x0, 0x0, 0x0, 0xc, 0xff, 0xff, 0xff, 0x0],
    [0x0, 0x0, 0x0, 0x0, 0x0, 0x0, 0x0, 0x0],
    [0x0, 0x0, 0x0, 0x0, 0x0, 0x0, 0xd, 0xff],
    [0xff, 0xff, 0x0, 0x0, 0x0, 0x0, 0x0, 0x0],
    [0x0, 0x0, 0x0, 0xef, 0xff, 0xff, 0xe0, 0x0],
    [0x0, 0x0, 0x0, 0x0, 0x0, 0x0, 0x0, 0x0],
    [0x0, 0x0, 0x0, 0x0, 0x0, 0x0, 0xff, 0xff],
    [0xff, 0xd0, 0x0, 0x0, 0x0, 0x0, 0x0, 0x0],
    [0x0, 0x0, 0xf, 0xff, 0xff, 0xfc, 0x0, 0x0],
    [0x0, 0x0, 0x0, 0x0, 0x0, 0x0, 0x0, 0x0],
    [0x0, 0x0, 0x0, 0x0, 0x0, 0x1f, 0xff, 0xff],
    [0xfb, 0x0, 0x0, 0x0, 0x0, 0x0, 0x0, 0x0],
    [0x0, 0x2, 0xff, 0xff, 0xff, 0xa0, 0x0, 0x0],
    [0x0, 0x0, 0x0, 0x0, 0x0, 0x0, 0x0, 0x0],
    [0x0, 0x0, 0x0, 0x0, 0x3, 0xff, 0xff, 0xff],
    [0x90, 0x0, 0x0, 0x0, 0x0, 0x0, 0x0, 0x0],
    [0x0, 0x4f, 0xff, 0xff, 0xf8, 0x0, 0x0, 0x0],
    [0x0, 0x0, 0x0, 0x0, 0x0, 0x0, 0x0]]"

lemma glyph_U0023_b_length: "length (concat glyph_U0023_b) = 927"
  by (simp add: glyph_U0023_b_def)

definition glyph_U0024_a :: "u8 list list" where
  "glyph_U0024_a = [
    [0x0, 0x0, 0x0, 0x0, 0x0, 0x0, 0x0, 0x0],
    [0x0, 0x0, 0x0, 0x0, 0xbf, 0xff, 0xff, 0x60],
    [0x0, 0x0, 0x0, 0x0, 0x0, 0x0, 0x0, 0x0],
    [0x0, 0x0, 0x0, 0x0, 0x0, 0x0, 0x0, 0x0],
    [0x0, 0x0, 0x0, 0x0, 0x0, 0x0, 0xb, 0xff],
    [0xff, 0xf6, 0x0, 0x0, 0x0, 0x0, 0x0, 0x0],
    [0x0, 0x0, 0x0, 0x0, 0x0, 0x0, 0x0, 0x0],
    [0x0, 0x0, 0x0, 0x0, 0x0, 0x0, 0x0, 0x0],
    [0x0, 0xbf, 0xff, 0xff, 0x60, 0x0, 0x0, 0x0],
    [0x0, 0x0, 0x0, 0x0, 0x0, 0x0, 0x0, 0x0],
    [0x0, 0x0, 0x0, 0x0, 0x0, 0x0, 0x0, 0x0],
    [0x0, 0x0, 0x0, 0xb, 0xff, 0xff, 0xf6, 0x0],
    [0x0, 0x0, 0x0, 0x0, 0x0, 0x0, 0x0, 0x0],
    [0x0, 0x0, 0x0, 0x0, 0x0, 0x0, 0x0, 0x0],
    [0x0, 0x0, 0x0, 0x0, 0x0, 0x0, 0xbf, 0xff],
    [0xff, 0x60, 0x0, 0x0, 0x0, 0x0, 0x0, 0x0],
    [0x0, 0x0, 0x0, 0x0, 0x0, 0x0, 0x0, 0x0],
    [0x0, 0x0, 0x0, 0x0, 0x0, 0x0, 0x0, 0x0],
    [0xb, 0xff, 0xff, 0xf6, 0x0, 0x0, 0x0, 0x0],
    [0x0, 0x0, 0x0, 0x0, 0x0, 0x0, 0x0, 0x0],
    [0x0, 0x0, 0x0, 0x0, 0x0, 0x0, 0x0, 0x0],
    [0x0, 0x0, 0x0, 0xbf, 0xff, 0xff, 0x60, 0x0],
    [0x0, 0x0, 0x0, 0x0, 0x0, 0x0, 0x0, 0x0],
    [0x0, 0x0, 0x0, 0x0, 0x0, 0x0, 0x0, 0x0],
    [0x0, 0x0, 0x0, 0x0, 0x0, 0xb, 0xff, 0xff],
    [0xf6, 0x0, 0x0, 0x0, 0x0, 0x0, 0x0, 0x0],
    [0x0, 0x0, 0x0, 0x0, 0x0, 0x0, 0x0, 0x0],
    [0x0, 0x0, 0x0, 0x0, 0x0, 0x0, 0x0, 0x0],
    [0xbf, 0xff, 0xff, 0x60, 0x0, 0x0, 0x0, 0x0],
    [0x0, 0x0, 0x0, 0x0, 0x0, 0x0, 0x0, 0x0],
    [0x0, 0x0, 0x0, 0x0, 0x0, 0x0, 0x0, 0x0],
    [0x0, 0x0, 0xb, 0xff, 0xff, 0xf6, 0x0, 0x0],
    [0x0, 0x0, 0x0, 0x0, 0x0, 0x0, 0x0, 0x0],
    [0x0, 0x0, 0x0, 0x0, 0x0, 0x0, 0x0, 0x0],
    [0x0, 0x0, 0x0, 0x0, 0x13, 0xcf, 0xff, 0xff],
    [0x93, 0x32, 0x0, 0x0, 0x0, 0x0, 0x0, 0x0],
    [0x0, 0x0, 0x0, 0x0, 0x0, 0x0, 0x0, 0x0],
    [0x0, 0x0, 0x0, 0x0, 0x26, 0x9c, 0xff, 0xff],
    [0xff, 0xff, 0xff, 0xff, 0xff, 0xec, 0x96, 0x20],
    [0x0, 0x0, 0x0, 0x0, 0x0, 0x0, 0x0, 0x0],
    [0x0, 0x0, 0x0, 0x0, 0x0, 0x28, 0xdf, 0xff],
    [0xff, 0xff, 0xff, 0xff, 0xff, 0xff, 0xff, 0xff],
    [0xff, 0xff, 0xd9, 0x30, 0x0, 0x0, 0x0, 0x0],
    [0x0, 0x0, 0x0, 0x0, 0x0, 0x0, 0x3, 0xbf],
    [0xff, 0xff, 0xff, 0xff, 0xff, 0xff, 0xff, 0xff],
    [0xff, 0xff, 0xff, 0xff, 0xff, 0xff, 0xd7, 0x10],
    [0x0, 0x0, 0x0, 0x0, 0x0, 0x0, 0x0, 0x0],
    [0x1b, 0xff, 0xff, 0xff, 0xff, 0xff, 0xff, 0xff],
    [0xff, 0xff, 0xff, 0xff, 0xff, 0xff, 0xff, 0xff],
    [0xff, 0xff, 0x81, 0x0, 0x0, 0x0, 0x0, 0x0],
    [0x0, 0x0, 0x5f, 0xff, 0xff, 0xff, 0xff, 0xff],
    [0xff, 0xff, 0xff, 0xff, 0xff, 0xff, 0xff, 0xff],
    [0xff, 0xff, 0xff, 0xff, 0xff, 0xf7, 0x0, 0x0],
    [0x0, 0x0, 0x0, 0x0, 0x8f, 0xff, 0xff, 0xff],
    [0xff, 0xff, 0xff, 0xff, 0xff, 0xff, 0xff, 0xff],
    [0xff, 0xff, 0xff, 0xff, 0xff, 0xff, 0xff, 0xff],
    [0xfa, 0x0, 0x0, 0x0, 0x0, 0x0, 0x9f, 0xff],
    [0xff, 0xff, 0xff, 0xff, 0xff, 0xff, 0xff, 0xff],
    [0xff, 0xff, 0xff, 0xff, 0xff, 0xff, 0xff, 0xff],
    [0xff, 0xff, 0xff, 0x70, 0x0, 0x0, 0x0, 0x0],
    [0x7f, 0xff, 0xff, 0xff, 0xff, 0xff, 0xff, 0xff],
    [0xff, 0xff, 0xff, 0xff, 0xff, 0xff, 0xff, 0xff],
    [0xff, 0xff, 0xff, 0xff, 0xff, 0xf1, 0x0, 0x0],
    [0x0, 0x0, 0x4f, 0xff, 0xff, 0xff, 0xff, 0xff],
    [0xff, 0xe9, 0x52, 0xb, 0xff, 0xff, 0xf6, 0x1],
    [0x34, 0x7a, 0xef, 0xff, 0xff, 0xff, 0xff, 0xf9],
    [0x0, 0x0, 0x0, 0x0, 0xd, 0xff, 0xff, 0xff],
    [0xff, 0xff, 0xfc, 0x40, 0x0, 0x0, 0xbf, 0xff],
    [0xff, 0x60, 0x0, 0x0, 0x0, 0x38, 0xdf, 0xff],
    [0xff, 0xff, 0x30, 0x0, 0x0, 0x0, 0x7, 0xff],
    [0xff, 0xff, 0xff, 0xff, 0xe5, 0x0, 0x0, 0x0],
    [0xb, 0xff, 0xff, 0xf6, 0x0, 0x0, 0x0, 0x0],
    [0x0, 0x4b, 0xff, 0xff, 0xc0, 0x0, 0x0, 0x0],
    [0x0, 0xef, 0xff, 0xff, 0xff, 0xff, 0xd1, 0x0],
    [0x0, 0x0, 0x0, 0xbf, 0xff, 0xff, 0x60, 0x0],
    [0x0, 0x0, 0x0, 0x0, 0x3, 0xbf, 0xf6, 0x0],
    [0x0, 0x0, 0x0, 0x6f, 0xff, 0xff, 0xff, 0xff],
    [0xe2, 0x0, 0x0, 0x0, 0x0, 0xb, 0xff, 0xff],
    [0xf6, 0x0, 0x0, 0x0, 0x0, 0x0, 0x0, 0x0],
    [0x4c, 0x0, 0x0, 0x0, 0x0, 0xb, 0xff, 0xff],
    [0xff, 0xff, 0xf5, 0x0, 0x0, 0x0, 0x0, 0x0],
    [0xbf, 0xff, 0xff, 0x60, 0x0, 0x0, 0x0, 0x0],
    [0x0, 0x0, 0x0, 0x0, 0x0, 0x0, 0x0, 0x0],
    [0xff, 0xff, 0xff, 0xff, 0xfc, 0x0, 0x0, 0x0],
    [0x0, 0x0, 0xb, 0xff, 0xff, 0xf6, 0x0, 0x0],
    [0x0, 0x0, 0x0, 0x0, 0x0, 0x0, 0x0, 0x0],
    [0x0, 0x0, 0x2f, 0xff, 0xff, 0xff, 0xff, 0x60],
    [0x0, 0x0, 0x0, 0x0, 0x0, 0xbf, 0xff, 0xff],
    [0x60, 0x0, 0x0, 0x0, 0x0, 0x0, 0x0, 0x0],
    [0x0, 0x0, 0x0, 0x0, 0x5, 0xff, 0xff, 0xff],
    [0xff, 0xf2, 0x0, 0x0, 0x0, 0x0, 0x0, 0xb],
    [0xff, 0xff, 0xf6, 0x0, 0x0, 0x0, 0x0, 0x0],
    [0x0, 0x0, 0x0, 0x0, 0x0, 0x0, 0x0, 0x6f],
    [0xff, 0xff, 0xff, 0xff, 0x0, 0x0, 0x0, 0x0],
    [0x0, 0x0, 0xbf, 0xff, 0xff, 0x60, 0x0, 0x0],
    [0x0, 0x0, 0x0, 0x0, 0x0, 0x0, 0x0, 0x0],
    [0x0, 0x6, 0xff, 0xff, 0xff, 0xff, 0xf0, 0x0],
    [0x0, 0x0, 0x0, 0x0, 0xb, 0xff, 0xff, 0xf6],
    [0x0, 0x0, 0x0, 0x0, 0x0, 0x0, 0x0, 0x0],
    [0x0, 0x0, 0x0, 0x0, 0x6f, 0xff, 0xff, 0xff],
    [0xff, 0x10, 0x0, 0x0, 0x0, 0x0, 0x0, 0xbf],
    [0xff, 0xff, 0x60, 0x0, 0x0, 0x0, 0x0, 0x0],
    [0x0, 0x0, 0x0, 0x0, 0x0, 0x0, 0x5, 0xff],
    [0xff, 0xff, 0xff, 0xf4, 0x0, 0x0, 0x0, 0x0],
    [0x0, 0xb, 0xff, 0xff, 0xf6, 0x0, 0x0, 0x0],
    [0x0, 0x0, 0x0, 0x0, 0x0, 0x0, 0x0, 0x0],
    [0x0, 0x3f, 0xff, 0xff, 0xff, 0xff, 0xa0, 0x0],
    [0x0, 0x0, 0x0, 0x0, 0xbf, 0xff, 0xff, 0x60],
    [0x0, 0x0, 0x0, 0x0, 0x0, 0x0, 0x0, 0x0],
    [0x0, 0x0, 0x0, 0x0, 0xff, 0xff, 0xff, 0xff],
    [0xff, 0x30, 0x0, 0x0, 0x0, 0x0, 0xb, 0xff],
    [0xff, 0xf6, 0x0, 0x0, 0x0, 0x0, 0x0, 0x0],
    [0x0, 0x0, 0x0, 0x0, 0x0, 0x0, 0xc, 0xff],
    [0xff, 0xff, 0xff, 0xfd, 0x10, 0x0, 0x0, 0x0],
    [0x0, 0xbf, 0xff, 0xff, 0x60, 0x0, 0x0, 0x0],
    [0x0, 0x0, 0x0, 0x0, 0x0, 0x0, 0x0, 0x0],
    [0x0, 0x7f, 0xff, 0xff, 0xff, 0xff, 0xfe, 0x30],
    [0x0, 0x0, 0x0, 0xb, 0xff, 0xff, 0xf6, 0x0],
    [0x0, 0x0, 0x0, 0x0, 0x0, 0x0, 0x0, 0x0],
    [0x0, 0x0, 0x0, 0x1, 0xff, 0xff, 0xff, 0xff],
    [0xff, 0xff, 0x81, 0x0, 0x0, 0x0, 0xbf, 0xff],
    [0xff, 0x60, 0x0, 0x0, 0x0, 0x0, 0x0, 0x0],
    [0x0, 0x0, 0x0, 0x0, 0x0, 0x0, 0x9, 0xff],
    [0xff, 0xff, 0xff, 0xff, 0xff, 0xf8, 0x20, 0x0],
    [0xb, 0xff, 0xff, 0xf6, 0x0, 0x0, 0x0, 0x0],
    [0x0, 0x0, 0x0, 0x0, 0x0, 0x0, 0x0, 0x0],
    [0x0, 0x1e, 0xff, 0xff, 0xff, 0xff, 0xff, 0xff],
    [0xff, 0xc6, 0x10, 0xbf, 0xff, 0xff, 0x60, 0x0],
    [0x0, 0x0, 0x0, 0x0, 0x0, 0x0, 0x0, 0x0],
    [0x0, 0x0, 0x0, 0x0, 0x4f, 0xff, 0xff, 0xff],
    [0xff, 0xff, 0xff, 0xff, 0xff, 0xde, 0xff, 0xff],
    [0xf6, 0x0, 0x0, 0x0, 0x0, 0x0, 0x0, 0x0],
    [0x0, 0x0, 0x0, 0x0, 0x0, 0x0, 0x0, 0x5f],
    [0xff, 0xff, 0xff, 0xff, 0xff, 0xff, 0xff, 0xff],
    [0xff, 0xff, 0xff, 0x60, 0x0, 0x0, 0x0, 0x0],
    [0x0, 0x0, 0x0, 0x0, 0x0, 0x0, 0x0, 0x0],
    [0x0, 0x0, 0x5f, 0xff, 0xff, 0xff, 0xff, 0xff],
    [0xff, 0xff, 0xff, 0xff, 0xff, 0xff, 0xc8, 0x40],
    [0x0, 0x0, 0x0, 0x0, 0x0, 0x0, 0x0, 0x0],
    [0x0, 0x0, 0x0, 0x0, 0x0, 0x3e, 0xff, 0xff],
    [0xff, 0xff, 0xff, 0xff, 0xff, 0xff, 0xff, 0xff],
    [0xff, 0xff, 0xfb, 0x61, 0x0, 0x0, 0x0, 0x0],
    [0x0, 0x0, 0x0, 0x0, 0x0, 0x0, 0x0, 0x0],
    [0x9, 0xff, 0xff, 0xff, 0xff, 0xff, 0xff, 0xff],
    [0xff, 0xff, 0xff, 0xff, 0xff, 0xff, 0xfc, 0x61],
    [0x0, 0x0, 0x0, 0x0, 0x0, 0x0, 0x0, 0x0],
    [0x0, 0x0, 0x0, 0x2, 0xaf, 0xff, 0xff, 0xff],
    [0xff, 0xff, 0xff, 0xff, 0xff, 0xff, 0xff, 0xff]]"

lemma glyph_U0024_a_length: "length (concat glyph_U0024_a) = 1184"
  by (simp add: glyph_U0024_a_def)

definition glyph_U0024_b :: "u8 list list" where
  "glyph_U0024_b = [
    [0xff, 0xff, 0xfa, 0x30, 0x0, 0x0, 0x0, 0x0],
    [0x0, 0x0, 0x0, 0x0, 0x0, 0x0, 0x0, 0x18],
    [0xef, 0xff, 0xff, 0xff, 0xff, 0xff, 0xff, 0xff],
    [0xff, 0xff, 0xff, 0xff, 0xff, 0xff, 0xb3, 0x0],
    [0x0, 0x0, 0x0, 0x0, 0x0, 0x0, 0x0, 0x0],
    [0x0, 0x0, 0x0, 0x39, 0xef, 0xff, 0xff, 0xff],
    [0xff, 0xff, 0xff, 0xff, 0xff, 0xff, 0xff, 0xff],
    [0xff, 0xf9, 0x0, 0x0, 0x0, 0x0, 0x0, 0x0],
    [0x0, 0x0, 0x0, 0x0, 0x0, 0x0, 0x0, 0x27],
    [0xcf, 0xff, 0xff, 0xff, 0xff, 0xff, 0xff, 0xff],
    [0xff, 0xff, 0xff, 0xff, 0xfd, 0x10, 0x0, 0x0],
    [0x0, 0x0, 0x0, 0x0, 0x0, 0x0, 0x0, 0x0],
    [0x0, 0x0, 0x0, 0x4, 0xdf, 0xff, 0xff, 0xff],
    [0xff, 0xff, 0xff, 0xff, 0xff, 0xff, 0xff, 0xfe],
    [0x20, 0x0, 0x0, 0x0, 0x0, 0x0, 0x0, 0x0],
    [0x0, 0x0, 0x0, 0x0, 0x0, 0x0, 0xb, 0xff],
    [0xff, 0xff, 0xff, 0xff, 0xff, 0xff, 0xff, 0xff],
    [0xff, 0xff, 0xfe, 0x20, 0x0, 0x0, 0x0, 0x0],
    [0x0, 0x0, 0x0, 0x0, 0x0, 0x0, 0x0, 0x0],
    [0x0, 0xbf, 0xff, 0xff, 0x75, 0xae, 0xff, 0xff],
    [0xff, 0xff, 0xff, 0xff, 0xff, 0xfd, 0x0, 0x0],
    [0x0, 0x0, 0x0, 0x0, 0x0, 0x0, 0x0, 0x0],
    [0x0, 0x0, 0x0, 0xb, 0xff, 0xff, 0xf6, 0x0],
    [0x5, 0xaf, 0xff, 0xff, 0xff, 0xff, 0xff, 0xff],
    [0xf9, 0x0, 0x0, 0x0, 0x0, 0x0, 0x0, 0x0],
    [0x0, 0x0, 0x0, 0x0, 0x0, 0x0, 0xbf, 0xff],
    [0xff, 0x60, 0x0, 0x0, 0x29, 0xff, 0xff, 0xff],
    [0xff, 0xff, 0xff, 0xf2, 0x0, 0x0, 0x0, 0x0],
    [0x0, 0x0, 0x0, 0x0, 0x0, 0x0, 0x0, 0x0],
    [0xb, 0xff, 0xff, 0xf6, 0x0, 0x0, 0x0, 0x2],
    [0xaf, 0xff, 0xff, 0xff, 0xff, 0xff, 0x90, 0x0],
    [0x0, 0x0, 0x0, 0x0, 0x0, 0x0, 0x0, 0x0],
    [0x0, 0x0, 0x0, 0xbf, 0xff, 0xff, 0x60, 0x0],
    [0x0, 0x0, 0x0, 0x6f, 0xff, 0xff, 0xff, 0xff],
    [0xfe, 0x0, 0x0, 0x0, 0x0, 0x0, 0x0, 0x0],
    [0x0, 0x0, 0x0, 0x0, 0x0, 0xb, 0xff, 0xff],
    [0xf6, 0x0, 0x0, 0x0, 0x0, 0x0, 0x6f, 0xff],
    [0xff, 0xff, 0xff, 0xf2, 0x0, 0x0, 0x0, 0x0],
    [0x0, 0x0, 0x0, 0x0, 0x0, 0x0, 0x0, 0x0],
    [0xbf, 0xff, 0xff, 0x60, 0x0, 0x0, 0x0, 0x0],
    [0x0, 0xbf, 0xff, 0xff, 0xff, 0xff, 0x60, 0x0],
    [0x0, 0x0, 0x0, 0x0, 0x0, 0x0, 0x0, 0x0],
    [0x0, 0x0, 0xb, 0xff, 0xff, 0xf6, 0x0, 0x0],
    [0x0, 0x0, 0x0, 0x4, 0xff, 0xff, 0xff, 0xff],
    [0xf8, 0x0, 0x0, 0x0, 0x0, 0x0, 0x0, 0x0],
    [0x0, 0x0, 0x0, 0x0, 0x0, 0xbf, 0xff, 0xff],
    [0x60, 0x0, 0x0, 0x0, 0x0, 0x0, 0xf, 0xff],
    [0xff, 0xff, 0xff, 0x90, 0x0, 0x0, 0x0, 0x0],
    [0x0, 0x0, 0x0, 0x0, 0x0, 0x0, 0x0, 0xb],
    [0xff, 0xff, 0xf6, 0x0, 0x0, 0x0, 0x0, 0x0],
    [0x0, 0xdf, 0xff, 0xff, 0xff, 0xfa, 0x0, 0x0],
    [0x0, 0x0, 0x0, 0x0, 0x0, 0x0, 0x0, 0x0],
    [0x0, 0x0, 0xbf, 0xff, 0xff, 0x60, 0x0, 0x0],
    [0x0, 0x0, 0x0, 0xc, 0xff, 0xff, 0xff, 0xff],
    [0xa0, 0x0, 0x0, 0x0, 0x0, 0x0, 0x0, 0x0],
    [0x0, 0x0, 0x0, 0x0, 0xb, 0xff, 0xff, 0xf6],
    [0x0, 0x0, 0x0, 0x0, 0x0, 0x0, 0xdf, 0xff],
    [0xff, 0xff, 0xf9, 0x0, 0x0, 0x0, 0x0, 0x0],
    [0x0, 0x0, 0x0, 0x0, 0x0, 0x0, 0x0, 0xbf],
    [0xff, 0xff, 0x60, 0x0, 0x0, 0x0, 0x0, 0x0],
    [0xf, 0xff, 0xff, 0xff, 0xff, 0x70, 0x0, 0xa],
    [0x30, 0x0, 0x0, 0x0, 0x0, 0x0, 0x0, 0x0],
    [0x0, 0xb, 0xff, 0xff, 0xf6, 0x0, 0x0, 0x0],
    [0x0, 0x0, 0x5, 0xff, 0xff, 0xff, 0xff, 0xf4],
    [0x0, 0x4, 0xff, 0x60, 0x0, 0x0, 0x0, 0x0],
    [0x0, 0x0, 0x0, 0x0, 0xbf, 0xff, 0xff, 0x60],
    [0x0, 0x0, 0x0, 0x0, 0x0, 0xcf, 0xff, 0xff],
    [0xff, 0xff, 0x0, 0x0, 0xbf, 0xff, 0xb1, 0x0],
    [0x0, 0x0, 0x0, 0x0, 0x0, 0x0, 0xb, 0xff],
    [0xff, 0xf6, 0x0, 0x0, 0x0, 0x0, 0x0, 0x6f],
    [0xff, 0xff, 0xff, 0xff, 0xb0, 0x0, 0x3f, 0xff],
    [0xff, 0xf7, 0x0, 0x0, 0x0, 0x0, 0x0, 0x0],
    [0x0, 0xbf, 0xff, 0xff, 0x60, 0x0, 0x0, 0x0],
    [0x0, 0x4f, 0xff, 0xff, 0xff, 0xff, 0xf5, 0x0],
    [0xb, 0xff, 0xff, 0xff, 0xfe, 0x71, 0x0, 0x0],
    [0x0, 0x0, 0x0, 0xb, 0xff, 0xff, 0xf6, 0x0],
    [0x0, 0x0, 0x0, 0x6f, 0xff, 0xff, 0xff, 0xff],
    [0xfd, 0x0, 0x2, 0xff, 0xff, 0xff, 0xff, 0xff],
    [0xf9, 0x40, 0x0, 0x0, 0x0, 0x0, 0xbf, 0xff],
    [0xff, 0x60, 0x0, 0x0, 0x4, 0xcf, 0xff, 0xff],
    [0xff, 0xff, 0xff, 0x50, 0x0, 0xaf, 0xff, 0xff],
    [0xff, 0xff, 0xff, 0xff, 0xea, 0x62, 0x0, 0x0],
    [0xb, 0xff, 0xff, 0xf6, 0x0, 0x3, 0x7d, 0xff],
    [0xff, 0xff, 0xff, 0xff, 0xff, 0xa0, 0x0, 0xc],
    [0xff, 0xff, 0xff, 0xff, 0xff, 0xff, 0xff, 0xff],
    [0xff, 0xdb, 0xba, 0xef, 0xff, 0xff, 0xba, 0xcf],
    [0xff, 0xff, 0xff, 0xff, 0xff, 0xff, 0xff, 0xd1],
    [0x0, 0x0, 0xa, 0xff, 0xff, 0xff, 0xff, 0xff],
    [0xff, 0xff, 0xff, 0xff, 0xff, 0xff, 0xff, 0xff],
    [0xff, 0xff, 0xff, 0xff, 0xff, 0xff, 0xff, 0xff],
    [0xff, 0xe2, 0x0, 0x0, 0x0, 0x6, 0xff, 0xff],
    [0xff, 0xff, 0xff, 0xff, 0xff, 0xff, 0xff, 0xff],
    [0xff, 0xff, 0xff, 0xff, 0xff, 0xff, 0xff, 0xff],
    [0xff, 0xff, 0xff, 0xe2, 0x0, 0x0, 0x0, 0x0],
    [0x2, 0xbf, 0xff, 0xff, 0xff, 0xff, 0xff, 0xff],
    [0xff, 0xff, 0xff, 0xff, 0xff, 0xff, 0xff, 0xff],
    [0xff, 0xff, 0xff, 0xff, 0xff, 0xc1, 0x0, 0x0],
    [0x0, 0x0, 0x0, 0x0, 0x3b, 0xff, 0xff, 0xff],
    [0xff, 0xff, 0xff, 0xff, 0xff, 0xff, 0xff, 0xff],
    [0xff, 0xff, 0xff, 0xff, 0xff, 0xff, 0xff, 0x70],
    [0x0, 0x0, 0x0, 0x0, 0x0, 0x0, 0x0, 0x3],
    [0x9f, 0xff, 0xff, 0xff, 0xff, 0xff, 0xff, 0xff],
    [0xff, 0xff, 0xff, 0xff, 0xff, 0xff, 0xff, 0xff],
    [0xf9, 0x10, 0x0, 0x0, 0x0, 0x0, 0x0, 0x0],
    [0x0, 0x0, 0x0, 0x16, 0xbf, 0xff, 0xff, 0xff],
    [0xff, 0xff, 0xff, 0xff, 0xff, 0xff, 0xff, 0xff],
    [0xff, 0xfe, 0x81, 0x0, 0x0, 0x0, 0x0, 0x0],
    [0x0, 0x0, 0x0, 0x0, 0x0, 0x0, 0x0, 0x4],
    [0x8b, 0xef, 0xff, 0xff, 0xff, 0xff, 0xff, 0xff],
    [0xff, 0xff, 0xfb, 0x83, 0x0, 0x0, 0x0, 0x0],
    [0x0, 0x0, 0x0, 0x0, 0x0, 0x0, 0x0, 0x0],
    [0x0, 0x0, 0x0, 0x0, 0x13, 0x56, 0x67, 0xdf],
    [0xff, 0xff, 0xc9, 0x75, 0x20, 0x0, 0x0, 0x0],
    [0x0, 0x0, 0x0, 0x0, 0x0, 0x0, 0x0, 0x0],
    [0x0, 0x0, 0x0, 0x0, 0x0, 0x0, 0x0, 0x0],
    [0x0, 0xb, 0xff, 0xff, 0xf6, 0x0, 0x0, 0x0],
    [0x0, 0x0, 0x0, 0x0, 0x0, 0x0, 0x0, 0x0],
    [0x0, 0x0, 0x0, 0x0, 0x0, 0x0, 0x0, 0x0],
    [0x0, 0x0, 0x0, 0x0, 0xbf, 0xff, 0xff, 0x60],
    [0x0, 0x0, 0x0, 0x0, 0x0, 0x0, 0x0, 0x0],
    [0x0, 0x0, 0x0, 0x0, 0x0, 0x0, 0x0, 0x0],
    [0x0, 0x0, 0x0, 0x0, 0x0, 0x0, 0xb, 0xff],
    [0xff, 0xf6, 0x0, 0x0, 0x0, 0x0, 0x0, 0x0],
    [0x0, 0x0, 0x0, 0x0, 0x0, 0x0, 0x0, 0x0],
    [0x0, 0x0, 0x0, 0x0, 0x0, 0x0, 0x0, 0x0],
    [0x0, 0xbf, 0xff, 0xff, 0x60, 0x0, 0x0, 0x0],
    [0x0, 0x0, 0x0, 0x0, 0x0, 0x0, 0x0, 0x0],
    [0x0, 0x0, 0x0, 0x0, 0x0, 0x0, 0x0, 0x0],
    [0x0, 0x0, 0x0, 0xb, 0xff, 0xff, 0xf6, 0x0],
    [0x0, 0x0, 0x0, 0x0, 0x0, 0x0, 0x0, 0x0],
    [0x0, 0x0, 0x0, 0x0, 0x0, 0x0, 0x0, 0x0],
    [0x0, 0x0, 0x0, 0x0, 0x0, 0x0, 0xbf, 0xff],
    [0xff, 0x60, 0x0, 0x0, 0x0, 0x0, 0x0, 0x0],
    [0x0, 0x0, 0x0, 0x0, 0x0, 0x0, 0x0, 0x0],
    [0x0, 0x0, 0x0, 0x0, 0x0, 0x0, 0x0, 0x0],
    [0xb, 0xff, 0xff, 0xf6, 0x0, 0x0, 0x0, 0x0],
    [0x0, 0x0, 0x0, 0x0, 0x0, 0x0, 0x0, 0x0],
    [0x0, 0x0, 0x0, 0x0, 0x0, 0x0, 0x0, 0x0],
    [0x0, 0x0, 0x0, 0xbf, 0xff, 0xff, 0x60, 0x0],
    [0x0, 0x0, 0x0, 0x0, 0x0, 0x0, 0x0, 0x0],
    [0x0, 0x0, 0x0, 0x0, 0x0, 0x0, 0x0, 0x0],
    [0x0, 0x0, 0x0, 0x0, 0x0, 0xb, 0xff, 0xff],
    [0xf6, 0x0, 0x0, 0x0, 0x0, 0x0, 0x0, 0x0],
    [0x0, 0x0, 0x0, 0x0, 0x0, 0x0, 0x0, 0x0],
    [0x0, 0x0, 0x0, 0x0, 0x0, 0x0, 0x0, 0x0],
    [0xbf, 0xff, 0xff, 0x60, 0x0, 0x0, 0x0, 0x0],
    [0x0, 0x0, 0x0, 0x0, 0x0, 0x0, 0x0, 0x0],
    [0x0, 0x0, 0x0, 0x0, 0x0, 0x0, 0x0, 0x0]]"

lemma glyph_U0024_b_length: "length (concat glyph_U0024_b) = 1184"
  by (simp add: glyph_U0024_b_def)

definition glyph_U0024_c :: "u8 list list" where
  "glyph_U0024_c = [
    [0x0, 0x0, 0x5, 0x88, 0x88, 0x83, 0x0, 0x0],
    [0x0, 0x0, 0x0, 0x0, 0x0, 0x0, 0x0, 0x0],
    [0x0]]"

lemma glyph_U0024_c_length: "length (concat glyph_U0024_c) = 17"
  by (simp add: glyph_U0024_c_def)

definition glyph_U0025_a :: "u8 list list" where
  "glyph_U0025_a = [
    [0x0, 0x0, 0x0, 0x0, 0x0, 0x0, 0x3, 0x56],
    [0x65, 0x41, 0x0, 0x0, 0x0, 0x0, 0x0, 0x0],
    [0x0, 0x0, 0x0, 0x0, 0x0, 0x0, 0x0, 0x0],
    [0x0, 0x0, 0x0, 0x0, 0x0, 0x0, 0x0, 0x0],
    [0x0, 0x0, 0x0, 0x0, 0x0, 0x0, 0x0, 0x0],
    [0x0, 0x0, 0x6, 0xcf, 0xff, 0xff, 0xff, 0xfd],
    [0x82, 0x0, 0x0, 0x0, 0x0, 0x0, 0x0, 0x0],
    [0x0, 0x0, 0x0, 0x0, 0x0, 0x0, 0x0, 0x0],
    [0x0, 0x7, 0xdd, 0xdd, 0xdd, 0xb0, 0x0, 0x0],
    [0x0, 0x0, 0x0, 0x0, 0x0, 0x0, 0x0, 0x7e],
    [0xff, 0xff, 0xff, 0xff, 0xff, 0xff, 0xfa, 0x10],
    [0x0, 0x0, 0x0, 0x0, 0x0, 0x0, 0x0, 0x0],
    [0x0, 0x0, 0x0, 0x0, 0x0, 0x0, 0x3, 0xff],
    [0xff, 0xff, 0xf3, 0x0, 0x0, 0x0, 0x0, 0x0],
    [0x0, 0x0, 0x0, 0x1, 0xcf, 0xff, 0xff, 0xff],
    [0xff, 0xff, 0xff, 0xff, 0xff, 0x50, 0x0, 0x0],
    [0x0, 0x0, 0x0, 0x0, 0x0, 0x0, 0x0, 0x0],
    [0x0, 0x0, 0x0, 0x0, 0xdf, 0xff, 0xff, 0xf7],
    [0x0, 0x0, 0x0, 0x0, 0x0, 0x0, 0x0, 0x0],
    [0x2, 0xef, 0xff, 0xff, 0xff, 0xff, 0xff, 0xff],
    [0xff, 0xff, 0xff, 0x60, 0x0, 0x0, 0x0, 0x0],
    [0x0, 0x0, 0x0, 0x0, 0x0, 0x0, 0x0, 0x0],
    [0x0, 0x9f, 0xff, 0xff, 0xfc, 0x0, 0x0, 0x0],
    [0x0, 0x0, 0x0, 0x0, 0x0, 0x1, 0xef, 0xff],
    [0xff, 0xff, 0xff, 0xff, 0xff, 0xff, 0xff, 0xff],
    [0xff, 0x60, 0x0, 0x0, 0x0, 0x0, 0x0, 0x0],
    [0x0, 0x0, 0x0, 0x0, 0x0, 0x0, 0x4f, 0xff],
    [0xff, 0xff, 0x20, 0x0, 0x0, 0x0, 0x0, 0x0],
    [0x0, 0x0, 0x0, 0xcf, 0xff, 0xff, 0xff, 0xc7],
    [0x21, 0x2, 0x4a, 0xff, 0xff, 0xff, 0xff, 0x30],
    [0x0, 0x0, 0x0, 0x0, 0x0, 0x0, 0x0, 0x0],
    [0x0, 0x0, 0x0, 0x1e, 0xff, 0xff, 0xff, 0x60],
    [0x0, 0x0, 0x0, 0x0, 0x0, 0x0, 0x0, 0x0],
    [0x8f, 0xff, 0xff, 0xff, 0x60, 0x0, 0x0, 0x0],
    [0x2, 0xbf, 0xff, 0xff, 0xfd, 0x0, 0x0, 0x0],
    [0x0, 0x0, 0x0, 0x0, 0x0, 0x0, 0x0, 0x0],
    [0xa, 0xff, 0xff, 0xff, 0xb0, 0x0, 0x0, 0x0],
    [0x0, 0x0, 0x0, 0x0, 0x0, 0x1f, 0xff, 0xff],
    [0xff, 0x30, 0x0, 0x0, 0x0, 0x0, 0x0, 0xbf],
    [0xff, 0xff, 0xf7, 0x0, 0x0, 0x0, 0x0, 0x0],
    [0x0, 0x0, 0x0, 0x0, 0x0, 0x5, 0xff, 0xff],
    [0xff, 0xf1, 0x0, 0x0, 0x0, 0x0, 0x0, 0x0],
    [0x0, 0x0, 0x9, 0xff, 0xff, 0xff, 0x50, 0x0],
    [0x0, 0x0, 0x0, 0x0, 0x0, 0xdf, 0xff, 0xff],
    [0xe0, 0x0, 0x0, 0x0, 0x0, 0x0, 0x0, 0x0],
    [0x0, 0x0, 0x1, 0xef, 0xff, 0xff, 0xf5, 0x0],
    [0x0, 0x0, 0x0, 0x0, 0x0, 0x0, 0x0, 0x0],
    [0xff, 0xff, 0xff, 0xb0, 0x0, 0x0, 0x0, 0x0],
    [0x0, 0x0, 0x3, 0xff, 0xff, 0xff, 0x50, 0x0],
    [0x0, 0x0, 0x0, 0x0, 0x0, 0x0, 0x0, 0x0],
    [0xbf, 0xff, 0xff, 0xfa, 0x0, 0x0, 0x0, 0x0],
    [0x0, 0x0, 0x0, 0x0, 0x0, 0x6f, 0xff, 0xff],
    [0xf2, 0x0, 0x0, 0x0, 0x0, 0x0, 0x0, 0x0],
    [0xb, 0xff, 0xff, 0xfb, 0x0, 0x0, 0x0, 0x0],
    [0x0, 0x0, 0x0, 0x0, 0x0, 0x6f, 0xff, 0xff],
    [0xfe, 0x10, 0x0, 0x0, 0x0, 0x0, 0x0, 0x0],
    [0x0, 0x0, 0xa, 0xff, 0xff, 0xfc, 0x0, 0x0],
    [0x0, 0x0, 0x0, 0x0, 0x0, 0x0, 0x5f, 0xff],
    [0xff, 0xf0, 0x0, 0x0, 0x0, 0x0, 0x0, 0x0],
    [0x0, 0x0, 0x2f, 0xff, 0xff, 0xff, 0x40, 0x0],
    [0x0, 0x0, 0x0, 0x0, 0x0, 0x0, 0x0, 0x0],
    [0xef, 0xff, 0xff, 0x70, 0x0, 0x0, 0x0, 0x0],
    [0x0, 0x0, 0x0, 0x0, 0xff, 0xff, 0xff, 0x30],
    [0x0, 0x0, 0x0, 0x0, 0x0, 0x0, 0x0, 0xc],
    [0xff, 0xff, 0xff, 0xa0, 0x0, 0x0, 0x0, 0x0],
    [0x0, 0x0, 0x0, 0x0, 0x0, 0x1f, 0xff, 0xff],
    [0xf3, 0x0, 0x0, 0x0, 0x0, 0x0, 0x0, 0x0],
    [0x0, 0xd, 0xff, 0xff, 0xf6, 0x0, 0x0, 0x0],
    [0x0, 0x0, 0x0, 0x0, 0x7, 0xff, 0xff, 0xff],
    [0xe0, 0x0, 0x0, 0x0, 0x0, 0x0, 0x0, 0x0],
    [0x0, 0x0, 0x3, 0xff, 0xff, 0xff, 0x0, 0x0],
    [0x0, 0x0, 0x0, 0x0, 0x0, 0x0, 0x0, 0xaf],
    [0xff, 0xff, 0x80, 0x0, 0x0, 0x0, 0x0, 0x0],
    [0x0, 0x2, 0xff, 0xff, 0xff, 0xf4, 0x0, 0x0],
    [0x0, 0x0, 0x0, 0x0, 0x0, 0x0, 0x0, 0x0],
    [0x5f, 0xff, 0xff, 0xe0, 0x0, 0x0, 0x0, 0x0],
    [0x0, 0x0, 0x0, 0x0, 0x8, 0xff, 0xff, 0xfa],
    [0x0, 0x0, 0x0, 0x0, 0x0, 0x0, 0x0, 0xcf],
    [0xff, 0xff, 0xf9, 0x0, 0x0, 0x0, 0x0, 0x0],
    [0x0, 0x0, 0x0, 0x0, 0x0, 0x6, 0xff, 0xff],
    [0xfd, 0x0, 0x0, 0x0, 0x0, 0x0, 0x0, 0x0],
    [0x0, 0x0, 0x7f, 0xff, 0xff, 0xb0, 0x0, 0x0],
    [0x0, 0x0, 0x0, 0x0, 0x8f, 0xff, 0xff, 0xfd],
    [0x0, 0x0, 0x0, 0x0, 0x0, 0x0, 0x0, 0x0],
    [0x0, 0x0, 0x0, 0x7f, 0xff, 0xff, 0xd0, 0x0],
    [0x0, 0x0, 0x0, 0x0, 0x0, 0x0, 0x0, 0x6],
    [0xff, 0xff, 0xfb, 0x0, 0x0, 0x0, 0x0, 0x0],
    [0x0, 0x3f, 0xff, 0xff, 0xff, 0x30, 0x0, 0x0],
    [0x0, 0x0, 0x0, 0x0, 0x0, 0x0, 0x0, 0x0],
    [0x6, 0xff, 0xff, 0xfd, 0x0, 0x0, 0x0, 0x0],
    [0x0, 0x0, 0x0, 0x0, 0x0, 0x6f, 0xff, 0xff],
    [0xb0, 0x0, 0x0, 0x0, 0x0, 0x0, 0xd, 0xff],
    [0xff, 0xff, 0x80, 0x0, 0x0, 0x0, 0x0, 0x0],
    [0x0, 0x0, 0x0, 0x0, 0x0, 0x0, 0x6f, 0xff],
    [0xff, 0xe0, 0x0, 0x0, 0x0, 0x0, 0x0, 0x0],
    [0x0, 0x0, 0x7, 0xff, 0xff, 0xfb, 0x0, 0x0],
    [0x0, 0x0, 0x0, 0x9, 0xff, 0xff, 0xff, 0xc0],
    [0x0, 0x0, 0x0, 0x0, 0x0, 0x0, 0x0, 0x0],
    [0x0, 0x0, 0x0, 0x4, 0xff, 0xff, 0xff, 0x0],
    [0x0, 0x0, 0x0, 0x0, 0x0, 0x0, 0x0, 0x0],
    [0x8f, 0xff, 0xff, 0x90, 0x0, 0x0, 0x0, 0x0],
    [0x4, 0xff, 0xff, 0xff, 0xf2, 0x0, 0x0, 0x0],
    [0x0, 0x0, 0x0, 0x0, 0x0, 0x0, 0x0, 0x0],
    [0x0, 0x3f, 0xff, 0xff, 0xf1, 0x0, 0x0, 0x0],
    [0x0, 0x0, 0x0, 0x0, 0x0, 0xb, 0xff, 0xff],
    [0xf7, 0x0, 0x0, 0x0, 0x0, 0x0, 0xef, 0xff],
    [0xff, 0xf7, 0x0, 0x0, 0x0, 0x0, 0x0, 0x0],
    [0x0, 0x0, 0x0, 0x0, 0x0, 0x0, 0x0, 0xff],
    [0xff, 0xff, 0x50, 0x0, 0x0, 0x0, 0x0, 0x0],
    [0x0, 0x0, 0x0, 0xef, 0xff, 0xff, 0x50, 0x0],
    [0x0, 0x0, 0x0, 0xaf, 0xff, 0xff, 0xfc, 0x0],
    [0x0, 0x0, 0x0, 0x0, 0x0, 0x0, 0x0, 0x0],
    [0x0, 0x0, 0x0, 0x0, 0xd, 0xff, 0xff, 0xf9],
    [0x0, 0x0, 0x0, 0x0, 0x0, 0x0, 0x0, 0x0],
    [0x2f, 0xff, 0xff, 0xf2, 0x0, 0x0, 0x0, 0x0],
    [0x5f, 0xff, 0xff, 0xff, 0x20, 0x0, 0x0, 0x0],
    [0x0, 0x0, 0x0, 0x0, 0x0, 0x0, 0x0, 0x0],
    [0x0, 0x0, 0x8f, 0xff, 0xff, 0xe0, 0x0, 0x0],
    [0x0, 0x0, 0x0, 0x0, 0x0, 0x8, 0xff, 0xff],
    [0xfd, 0x0, 0x0, 0x0, 0x0, 0x1e, 0xff, 0xff],
    [0xff, 0x60, 0x0, 0x0, 0x0, 0x0, 0x0, 0x0],
    [0x0, 0x0, 0x0, 0x0, 0x0, 0x0, 0x0, 0x3],
    [0xff, 0xff, 0xff, 0x50, 0x0, 0x0, 0x0, 0x0],
    [0x0, 0x0, 0x0, 0xef, 0xff, 0xff, 0x90, 0x0],
    [0x0, 0x0, 0xb, 0xff, 0xff, 0xff, 0xb0, 0x0],
    [0x0, 0x0, 0x0, 0x0, 0x0, 0x0, 0x0, 0x0],
    [0x0, 0x0, 0x0, 0x0, 0x0, 0xd, 0xff, 0xff],
    [0xfe, 0x0, 0x0, 0x0, 0x0, 0x0, 0x0, 0x0],
    [0x7f, 0xff, 0xff, 0xf2, 0x0, 0x0, 0x0, 0x6],
    [0xff, 0xff, 0xff, 0xe1, 0x0, 0x0, 0x0, 0x0],
    [0x0, 0x0, 0x0, 0x0, 0x0, 0x0, 0x0, 0x0],
    [0x0, 0x0, 0x0, 0x6f, 0xff, 0xff, 0xfa, 0x0],
    [0x0, 0x0, 0x0, 0x0, 0x0, 0x3f, 0xff, 0xff],
    [0xfb, 0x0, 0x0, 0x0, 0x1, 0xff, 0xff, 0xff],
    [0xf5, 0x0, 0x0, 0x0, 0x0, 0x0, 0x0, 0x0],
    [0x0, 0x0, 0x0, 0x0, 0x0, 0x0, 0x0, 0x0],
    [0x0, 0xdf, 0xff, 0xff, 0xf9, 0x0, 0x0, 0x0],
    [0x0, 0x0, 0x3e, 0xff, 0xff, 0xff, 0x30, 0x0],
    [0x0, 0x0, 0xbf, 0xff, 0xff, 0xfa, 0x0, 0x0],
    [0x0, 0x0, 0x0, 0x0, 0x0, 0x0, 0x0, 0x0],
    [0x0, 0x0, 0x0, 0x0, 0x0, 0x0, 0x3, 0xff],
    [0xff, 0xff, 0xfc, 0x30, 0x0, 0x0, 0x1, 0x8f],
    [0xff, 0xff, 0xff, 0x90, 0x0, 0x0, 0x0, 0x6f],
    [0xff, 0xff, 0xfe, 0x10, 0x0, 0x0, 0x0, 0x0],
    [0x0, 0x0, 0x0, 0x0, 0x0, 0x0, 0x0, 0x0],
    [0x0, 0x0, 0x0, 0x0, 0x7, 0xff, 0xff, 0xff],
    [0xff, 0xd9, 0x77, 0x8b, 0xff, 0xff, 0xff, 0xff],
    [0xd0, 0x0, 0x0, 0x0, 0x2f, 0xff, 0xff, 0xff]]"

lemma glyph_U0025_a_length: "length (concat glyph_U0025_a) = 1184"
  by (simp add: glyph_U0025_a_def)

definition glyph_U0025_b :: "u8 list list" where
  "glyph_U0025_b = [
    [0x40, 0x0, 0x0, 0x0, 0x0, 0x0, 0x0, 0x0],
    [0x0, 0x0, 0x0, 0x0, 0x0, 0x0, 0x0, 0x0],
    [0x0, 0x0, 0x9, 0xff, 0xff, 0xff, 0xff, 0xff],
    [0xff, 0xff, 0xff, 0xff, 0xff, 0xe1, 0x0, 0x0],
    [0x0, 0xc, 0xff, 0xff, 0xff, 0x90, 0x0, 0x0],
    [0x0, 0x0, 0x2, 0x7b, 0xdf, 0xff, 0xec, 0x94],
    [0x0, 0x0, 0x0, 0x0, 0x0, 0x0, 0x0, 0x0],
    [0x9, 0xff, 0xff, 0xff, 0xff, 0xff, 0xff, 0xff],
    [0xff, 0xff, 0xd2, 0x0, 0x0, 0x0, 0x7, 0xff],
    [0xff, 0xff, 0xd0, 0x0, 0x0, 0x0, 0x0, 0x4c],
    [0xff, 0xff, 0xff, 0xff, 0xff, 0xfe, 0x80, 0x0],
    [0x0, 0x0, 0x0, 0x0, 0x0, 0x0, 0x5, 0xef],
    [0xff, 0xff, 0xff, 0xff, 0xff, 0xff, 0xff, 0xa0],
    [0x0, 0x0, 0x0, 0x3, 0xff, 0xff, 0xff, 0xf3],
    [0x0, 0x0, 0x0, 0x1, 0xaf, 0xff, 0xff, 0xff],
    [0xff, 0xff, 0xff, 0xff, 0xe4, 0x0, 0x0, 0x0],
    [0x0, 0x0, 0x0, 0x0, 0x1, 0x8f, 0xff, 0xff],
    [0xff, 0xff, 0xff, 0xfb, 0x30, 0x0, 0x0, 0x0],
    [0x0, 0xdf, 0xff, 0xff, 0xf8, 0x0, 0x0, 0x0],
    [0x2, 0xef, 0xff, 0xff, 0xff, 0xff, 0xff, 0xff],
    [0xff, 0xff, 0xf7, 0x0, 0x0, 0x0, 0x0, 0x0],
    [0x0, 0x0, 0x0, 0x5, 0x9c, 0xef, 0xff, 0xda],
    [0x72, 0x0, 0x0, 0x0, 0x0, 0x0, 0x8f, 0xff],
    [0xff, 0xfd, 0x0, 0x0, 0x0, 0x2, 0xef, 0xff],
    [0xff, 0xff, 0xff, 0xff, 0xff, 0xff, 0xff, 0xff],
    [0xf8, 0x0, 0x0, 0x0, 0x0, 0x0, 0x0, 0x0],
    [0x0, 0x0, 0x0, 0x0, 0x0, 0x0, 0x0, 0x0],
    [0x0, 0x0, 0x0, 0x3f, 0xff, 0xff, 0xff, 0x20],
    [0x0, 0x0, 0x1, 0xdf, 0xff, 0xff, 0xff, 0xfb],
    [0x97, 0x8a, 0xef, 0xff, 0xff, 0xff, 0xf6, 0x0],
    [0x0, 0x0, 0x0, 0x0, 0x0, 0x0, 0x0, 0x0],
    [0x0, 0x0, 0x0, 0x0, 0x0, 0x0, 0x0, 0x0],
    [0xd, 0xff, 0xff, 0xff, 0x70, 0x0, 0x0, 0x0],
    [0xaf, 0xff, 0xff, 0xff, 0x71, 0x0, 0x0, 0x0],
    [0x4d, 0xff, 0xff, 0xff, 0xf2, 0x0, 0x0, 0x0],
    [0x0, 0x0, 0x0, 0x0, 0x0, 0x0, 0x0, 0x0],
    [0x0, 0x0, 0x0, 0x0, 0x0, 0x9, 0xff, 0xff],
    [0xff, 0xc0, 0x0, 0x0, 0x0, 0x4f, 0xff, 0xff],
    [0xfe, 0x20, 0x0, 0x0, 0x0, 0x0, 0xa, 0xff],
    [0xff, 0xff, 0xc0, 0x0, 0x0, 0x0, 0x0, 0x0],
    [0x0, 0x0, 0x0, 0x0, 0x0, 0x0, 0x0, 0x0],
    [0x0, 0x0, 0x4, 0xff, 0xff, 0xff, 0xf2, 0x0],
    [0x0, 0x0, 0xc, 0xff, 0xff, 0xff, 0x20, 0x0],
    [0x0, 0x0, 0x0, 0x0, 0xb, 0xff, 0xff, 0xff],
    [0x40, 0x0, 0x0, 0x0, 0x0, 0x0, 0x0, 0x0],
    [0x0, 0x0, 0x0, 0x0, 0x0, 0x0, 0x0, 0x1],
    [0xef, 0xff, 0xff, 0xf6, 0x0, 0x0, 0x0, 0x4],
    [0xff, 0xff, 0xff, 0x60, 0x0, 0x0, 0x0, 0x0],
    [0x0, 0x0, 0x1f, 0xff, 0xff, 0xfc, 0x0, 0x0],
    [0x0, 0x0, 0x0, 0x0, 0x0, 0x0, 0x0, 0x0],
    [0x0, 0x0, 0x0, 0x0, 0x0, 0xaf, 0xff, 0xff],
    [0xfb, 0x0, 0x0, 0x0, 0x0, 0xaf, 0xff, 0xff],
    [0xd0, 0x0, 0x0, 0x0, 0x0, 0x0, 0x0, 0x0],
    [0x7f, 0xff, 0xff, 0xf2, 0x0, 0x0, 0x0, 0x0],
    [0x0, 0x0, 0x0, 0x0, 0x0, 0x0, 0x0, 0x0],
    [0x0, 0x0, 0x5f, 0xff, 0xff, 0xfe, 0x10, 0x0],
    [0x0, 0x0, 0xe, 0xff, 0xff, 0xf6, 0x0, 0x0],
    [0x0, 0x0, 0x0, 0x0, 0x0, 0x0, 0xff, 0xff],
    [0xff, 0x70, 0x0, 0x0, 0x0, 0x0, 0x0, 0x0],
    [0x0, 0x0, 0x0, 0x0, 0x0, 0x0, 0x0, 0x1e],
    [0xff, 0xff, 0xff, 0x50, 0x0, 0x0, 0x0, 0x3],
    [0xff, 0xff, 0xff, 0x10, 0x0, 0x0, 0x0, 0x0],
    [0x0, 0x0, 0x0, 0xa, 0xff, 0xff, 0xfb, 0x0],
    [0x0, 0x0, 0x0, 0x0, 0x0, 0x0, 0x0, 0x0],
    [0x0, 0x0, 0x0, 0x0, 0xb, 0xff, 0xff, 0xff],
    [0xa0, 0x0, 0x0, 0x0, 0x0, 0x6f, 0xff, 0xff],
    [0xd0, 0x0, 0x0, 0x0, 0x0, 0x0, 0x0, 0x0],
    [0x0, 0x6f, 0xff, 0xff, 0xe0, 0x0, 0x0, 0x0],
    [0x0, 0x0, 0x0, 0x0, 0x0, 0x0, 0x0, 0x0],
    [0x0, 0x6, 0xff, 0xff, 0xff, 0xe1, 0x0, 0x0],
    [0x0, 0x0, 0x9, 0xff, 0xff, 0xfa, 0x0, 0x0],
    [0x0, 0x0, 0x0, 0x0, 0x0, 0x0, 0x3, 0xff],
    [0xff, 0xff, 0x10, 0x0, 0x0, 0x0, 0x0, 0x0],
    [0x0, 0x0, 0x0, 0x0, 0x0, 0x0, 0x2, 0xff],
    [0xff, 0xff, 0xf4, 0x0, 0x0, 0x0, 0x0, 0x0],
    [0xaf, 0xff, 0xff, 0x70, 0x0, 0x0, 0x0, 0x0],
    [0x0, 0x0, 0x0, 0x0, 0xf, 0xff, 0xff, 0xf3],
    [0x0, 0x0, 0x0, 0x0, 0x0, 0x0, 0x0, 0x0],
    [0x0, 0x0, 0x0, 0x0, 0xcf, 0xff, 0xff, 0xf9],
    [0x0, 0x0, 0x0, 0x0, 0x0, 0xc, 0xff, 0xff],
    [0xf6, 0x0, 0x0, 0x0, 0x0, 0x0, 0x0, 0x0],
    [0x0, 0x0, 0xff, 0xff, 0xff, 0x40, 0x0, 0x0],
    [0x0, 0x0, 0x0, 0x0, 0x0, 0x0, 0x0, 0x0],
    [0x0, 0x7f, 0xff, 0xff, 0xfd, 0x0, 0x0, 0x0],
    [0x0, 0x0, 0x0, 0xcf, 0xff, 0xff, 0x50, 0x0],
    [0x0, 0x0, 0x0, 0x0, 0x0, 0x0, 0x0, 0xe],
    [0xff, 0xff, 0xf5, 0x0, 0x0, 0x0, 0x0, 0x0],
    [0x0, 0x0, 0x0, 0x0, 0x0, 0x0, 0x2f, 0xff],
    [0xff, 0xff, 0x30, 0x0, 0x0, 0x0, 0x0, 0x0],
    [0xd, 0xff, 0xff, 0xf5, 0x0, 0x0, 0x0, 0x0],
    [0x0, 0x0, 0x0, 0x0, 0x0, 0xef, 0xff, 0xff],
    [0x50, 0x0, 0x0, 0x0, 0x0, 0x0, 0x0, 0x0],
    [0x0, 0x0, 0x0, 0xd, 0xff, 0xff, 0xff, 0x80],
    [0x0, 0x0, 0x0, 0x0, 0x0, 0x0, 0xcf, 0xff],
    [0xff, 0x60, 0x0, 0x0, 0x0, 0x0, 0x0, 0x0],
    [0x0, 0x0, 0xe, 0xff, 0xff, 0xf5, 0x0, 0x0],
    [0x0, 0x0, 0x0, 0x0, 0x0, 0x0, 0x0, 0x0],
    [0x8, 0xff, 0xff, 0xff, 0xd0, 0x0, 0x0, 0x0],
    [0x0, 0x0, 0x0, 0xb, 0xff, 0xff, 0xf6, 0x0],
    [0x0, 0x0, 0x0, 0x0, 0x0, 0x0, 0x0, 0x0],
    [0xff, 0xff, 0xff, 0x40, 0x0, 0x0, 0x0, 0x0],
    [0x0, 0x0, 0x0, 0x0, 0x0, 0x3, 0xff, 0xff],
    [0xff, 0xf3, 0x0, 0x0, 0x0, 0x0, 0x0, 0x0],
    [0x0, 0xaf, 0xff, 0xff, 0x80, 0x0, 0x0, 0x0],
    [0x0, 0x0, 0x0, 0x0, 0x0, 0x1f, 0xff, 0xff],
    [0xf2, 0x0, 0x0, 0x0, 0x0, 0x0, 0x0, 0x0],
    [0x0, 0x0, 0x0, 0xdf, 0xff, 0xff, 0xf7, 0x0],
    [0x0, 0x0, 0x0, 0x0, 0x0, 0x0, 0x7, 0xff],
    [0xff, 0xfb, 0x0, 0x0, 0x0, 0x0, 0x0, 0x0],
    [0x0, 0x0, 0x4, 0xff, 0xff, 0xff, 0x0, 0x0],
    [0x0, 0x0, 0x0, 0x0, 0x0, 0x0, 0x0, 0x0],
    [0x9f, 0xff, 0xff, 0xfc, 0x0, 0x0, 0x0, 0x0],
    [0x0, 0x0, 0x0, 0x0, 0x5f, 0xff, 0xff, 0xe0],
    [0x0, 0x0, 0x0, 0x0, 0x0, 0x0, 0x0, 0x0],
    [0x8f, 0xff, 0xff, 0xd0, 0x0, 0x0, 0x0, 0x0],
    [0x0, 0x0, 0x0, 0x0, 0x0, 0x4f, 0xff, 0xff],
    [0xff, 0x20, 0x0, 0x0, 0x0, 0x0, 0x0, 0x0],
    [0x0, 0x1, 0xff, 0xff, 0xff, 0x30, 0x0, 0x0],
    [0x0, 0x0, 0x0, 0x0, 0x0, 0xd, 0xff, 0xff],
    [0xf9, 0x0, 0x0, 0x0, 0x0, 0x0, 0x0, 0x0],
    [0x0, 0x0, 0x1e, 0xff, 0xff, 0xff, 0x60, 0x0],
    [0x0, 0x0, 0x0, 0x0, 0x0, 0x0, 0x0, 0xc],
    [0xff, 0xff, 0xf9, 0x0, 0x0, 0x0, 0x0, 0x0],
    [0x0, 0x0, 0x3, 0xff, 0xff, 0xff, 0x50, 0x0],
    [0x0, 0x0, 0x0, 0x0, 0x0, 0x0, 0x0, 0xa],
    [0xff, 0xff, 0xff, 0xb0, 0x0, 0x0, 0x0, 0x0],
    [0x0, 0x0, 0x0, 0x0, 0x0, 0x7f, 0xff, 0xff],
    [0xf2, 0x0, 0x0, 0x0, 0x0, 0x0, 0x0, 0x0],
    [0xbf, 0xff, 0xff, 0xe0, 0x0, 0x0, 0x0, 0x0],
    [0x0, 0x0, 0x0, 0x0, 0x5, 0xff, 0xff, 0xff],
    [0xf1, 0x0, 0x0, 0x0, 0x0, 0x0, 0x0, 0x0],
    [0x0, 0x0, 0x1, 0xff, 0xff, 0xff, 0xb0, 0x0],
    [0x0, 0x0, 0x0, 0x0, 0x0, 0x5f, 0xff, 0xff],
    [0xf8, 0x0, 0x0, 0x0, 0x0, 0x0, 0x0, 0x0],
    [0x0, 0x1, 0xef, 0xff, 0xff, 0xf5, 0x0, 0x0],
    [0x0, 0x0, 0x0, 0x0, 0x0, 0x0, 0x0, 0x0],
    [0x9, 0xff, 0xff, 0xff, 0x90, 0x0, 0x0, 0x0],
    [0x0, 0x0, 0x3f, 0xff, 0xff, 0xff, 0x10, 0x0],
    [0x0, 0x0, 0x0, 0x0, 0x0, 0x0, 0x0, 0xbf],
    [0xff, 0xff, 0xfa, 0x0, 0x0, 0x0, 0x0, 0x0],
    [0x0, 0x0, 0x0, 0x0, 0x0, 0x0, 0x1e, 0xff],
    [0xff, 0xff, 0xa1, 0x0, 0x0, 0x0, 0x0, 0x6f],
    [0xff, 0xff, 0xff, 0x70, 0x0, 0x0, 0x0, 0x0],
    [0x0, 0x0, 0x0, 0x0, 0x6f, 0xff, 0xff, 0xfe],
    [0x10, 0x0, 0x0, 0x0, 0x0, 0x0, 0x0, 0x0],
    [0x0, 0x0, 0x0, 0x0, 0x5f, 0xff, 0xff, 0xff],
    [0xe8, 0x30, 0x0, 0x26, 0xcf, 0xff, 0xff, 0xff],
    [0xc0, 0x0, 0x0, 0x0, 0x0, 0x0, 0x0, 0x0]]"

lemma glyph_U0025_b_length: "length (concat glyph_U0025_b) = 1184"
  by (simp add: glyph_U0025_b_def)

definition glyph_U0025_c :: "u8 list list" where
  "glyph_U0025_c = [
    [0x0, 0x2f, 0xff, 0xff, 0xff, 0x40, 0x0, 0x0],
    [0x0, 0x0, 0x0, 0x0, 0x0, 0x0, 0x0, 0x0],
    [0x0, 0x0, 0x8f, 0xff, 0xff, 0xff, 0xff, 0xff],
    [0xff, 0xff, 0xff, 0xff, 0xff, 0xe1, 0x0, 0x0],
    [0x0, 0x0, 0x0, 0x0, 0x0, 0x0, 0xc, 0xff],
    [0xff, 0xff, 0x90, 0x0, 0x0, 0x0, 0x0, 0x0],
    [0x0, 0x0, 0x0, 0x0, 0x0, 0x0, 0x0, 0x0],
    [0x9f, 0xff, 0xff, 0xff, 0xff, 0xff, 0xff, 0xff],
    [0xff, 0xff, 0xe2, 0x0, 0x0, 0x0, 0x0, 0x0],
    [0x0, 0x0, 0x0, 0x7, 0xff, 0xff, 0xff, 0xe0],
    [0x0, 0x0, 0x0, 0x0, 0x0, 0x0, 0x0, 0x0],
    [0x0, 0x0, 0x0, 0x0, 0x0, 0x0, 0x7f, 0xff],
    [0xff, 0xff, 0xff, 0xff, 0xff, 0xff, 0xff, 0xc1],
    [0x0, 0x0, 0x0, 0x0, 0x0, 0x0, 0x0, 0x0],
    [0x2, 0xff, 0xff, 0xff, 0xf4, 0x0, 0x0, 0x0],
    [0x0, 0x0, 0x0, 0x0, 0x0, 0x0, 0x0, 0x0],
    [0x0, 0x0, 0x0, 0x0, 0x3c, 0xff, 0xff, 0xff],
    [0xff, 0xff, 0xff, 0xff, 0x70, 0x0, 0x0, 0x0],
    [0x0, 0x0, 0x0, 0x0, 0x0, 0x0, 0xcf, 0xff],
    [0xff, 0xf8, 0x0, 0x0, 0x0, 0x0, 0x0, 0x0],
    [0x0, 0x0, 0x0, 0x0, 0x0, 0x0, 0x0, 0x0],
    [0x0, 0x0, 0x4, 0xaf, 0xff, 0xff, 0xff, 0xff],
    [0xc7, 0x10, 0x0, 0x0, 0x0, 0x0, 0x0, 0x0],
    [0x0, 0x0, 0x0, 0x0, 0x0, 0x0, 0x0, 0x0],
    [0x0, 0x0, 0x0, 0x0, 0x0, 0x0, 0x0, 0x0],
    [0x0, 0x0, 0x0, 0x0, 0x0, 0x0, 0x0, 0x0],
    [0x0, 0x3, 0x57, 0x77, 0x64, 0x10, 0x0, 0x0],
    [0x0, 0x0, 0x0, 0x0]]"

lemma glyph_U0025_c_length: "length (concat glyph_U0025_c) = 220"
  by (simp add: glyph_U0025_c_def)

definition glyph_U0026_a :: "u8 list list" where
  "glyph_U0026_a = [
    [0x0, 0x0, 0x0, 0x0, 0x0, 0x0, 0x0, 0x0],
    [0x0, 0x0, 0x2, 0x57, 0x9a, 0xa9, 0x87, 0x63],
    [0x0, 0x0, 0x0, 0x0, 0x0, 0x0, 0x0, 0x0],
    [0x0, 0x0, 0x0, 0x0, 0x0, 0x0, 0x0, 0x0],
    [0x0, 0x0, 0x0, 0x0, 0x0, 0x0, 0x0, 0x5],
    [0xbf, 0xff, 0xff, 0xff, 0xff, 0xff, 0xff, 0xb5],
    [0x0, 0x0, 0x0, 0x0, 0x0, 0x0, 0x0, 0x0],
    [0x0, 0x0, 0x0, 0x0, 0x0, 0x0, 0x0, 0x0],
    [0x0, 0x0, 0x0, 0x0, 0x0, 0x7e, 0xff, 0xff],
    [0xff, 0xff, 0xff, 0xff, 0xff, 0xff, 0xfe, 0x80],
    [0x0, 0x0, 0x0, 0x0, 0x0, 0x0, 0x0, 0x0],
    [0x0, 0x0, 0x0, 0x0, 0x0, 0x0, 0x0, 0x0],
    [0x0, 0x0, 0x4, 0xef, 0xff, 0xff, 0xff, 0xff],
    [0xff, 0xff, 0xff, 0xff, 0xff, 0xff, 0xd3, 0x0],
    [0x0, 0x0, 0x0, 0x0, 0x0, 0x0, 0x0, 0x0],
    [0x0, 0x0, 0x0, 0x0, 0x0, 0x0, 0x0, 0x0],
    [0x8, 0xff, 0xff, 0xff, 0xff, 0xff, 0xff, 0xff],
    [0xff, 0xff, 0xff, 0xff, 0xff, 0xf6, 0x0, 0x0],
    [0x0, 0x0, 0x0, 0x0, 0x0, 0x0, 0x0, 0x0],
    [0x0, 0x0, 0x0, 0x0, 0x0, 0x0, 0x9, 0xff],
    [0xff, 0xff, 0xff, 0xff, 0xff, 0xff, 0xff, 0xff],
    [0xff, 0xff, 0xff, 0xff, 0xf5, 0x0, 0x0, 0x0],
    [0x0, 0x0, 0x0, 0x0, 0x0, 0x0, 0x0, 0x0],
    [0x0, 0x0, 0x0, 0x0, 0x8, 0xff, 0xff, 0xff],
    [0xff, 0xff, 0xff, 0xff, 0xff, 0xff, 0xff, 0xff],
    [0xff, 0xff, 0xff, 0xf2, 0x0, 0x0, 0x0, 0x0],
    [0x0, 0x0, 0x0, 0x0, 0x0, 0x0, 0x0, 0x0],
    [0x0, 0x0, 0x3, 0xff, 0xff, 0xff, 0xff, 0xff],
    [0xfa, 0x62, 0x10, 0x1, 0x48, 0xef, 0xff, 0xff],
    [0xff, 0xff, 0xc0, 0x0, 0x0, 0x0, 0x0, 0x0],
    [0x0, 0x0, 0x0, 0x0, 0x0, 0x0, 0x0, 0x0],
    [0x0, 0xdf, 0xff, 0xff, 0xff, 0xff, 0xa1, 0x0],
    [0x0, 0x0, 0x0, 0x0, 0x7f, 0xff, 0xff, 0xff],
    [0xff, 0x40, 0x0, 0x0, 0x0, 0x0, 0x0, 0x0],
    [0x0, 0x0, 0x0, 0x0, 0x0, 0x0, 0x0, 0x4f],
    [0xff, 0xff, 0xff, 0xff, 0x70, 0x0, 0x0, 0x0],
    [0x0, 0x0, 0x0, 0x4f, 0xff, 0xff, 0xff, 0xfa],
    [0x0, 0x0, 0x0, 0x0, 0x0, 0x0, 0x0, 0x0],
    [0x0, 0x0, 0x0, 0x0, 0x0, 0xa, 0xff, 0xff],
    [0xff, 0xff, 0x80, 0x0, 0x0, 0x0, 0x0, 0x0],
    [0x0, 0x0, 0x7f, 0xff, 0xff, 0xff, 0xf0, 0x0],
    [0x0, 0x0, 0x0, 0x0, 0x0, 0x0, 0x0, 0x0],
    [0x0, 0x0, 0x0, 0x0, 0xff, 0xff, 0xff, 0xff],
    [0xe0, 0x0, 0x0, 0x0, 0x0, 0x0, 0x0, 0x0],
    [0x0, 0xef, 0xff, 0xff, 0xff, 0x20, 0x0, 0x0],
    [0x0, 0x0, 0x0, 0x0, 0x0, 0x0, 0x0, 0x0],
    [0x0, 0x0, 0x2f, 0xff, 0xff, 0xff, 0xf8, 0x0],
    [0x0, 0x0, 0x0, 0x0, 0x0, 0x0, 0x0, 0x9],
    [0xff, 0xff, 0xff, 0xf5, 0x0, 0x0, 0x0, 0x0],
    [0x0, 0x0, 0x0, 0x0, 0x0, 0x0, 0x0, 0x0],
    [0x5, 0xff, 0xff, 0xff, 0xff, 0x40, 0x0, 0x0],
    [0x0, 0x0, 0x0, 0x0, 0x0, 0x0, 0x7f, 0xff],
    [0xff, 0xff, 0x60, 0x0, 0x0, 0x0, 0x0, 0x0],
    [0x0, 0x0, 0x0, 0x0, 0x0, 0x0, 0x0, 0x6f],
    [0xff, 0xff, 0xff, 0xf2, 0x0, 0x0, 0x0, 0x0],
    [0x0, 0x0, 0x0, 0x0, 0x6, 0xff, 0xff, 0xff],
    [0xf6, 0x0, 0x0, 0x0, 0x0, 0x0, 0x0, 0x0],
    [0x0, 0x0, 0x0, 0x0, 0x0, 0x6, 0xff, 0xff],
    [0xff, 0xff, 0x20, 0x0, 0x0, 0x0, 0x0, 0x0],
    [0x0, 0x0, 0x0, 0x7f, 0xff, 0xff, 0xff, 0x50],
    [0x0, 0x0, 0x0, 0x0, 0x0, 0x0, 0x0, 0x0],
    [0x0, 0x0, 0x0, 0x0, 0x5f, 0xff, 0xff, 0xff],
    [0xf3, 0x0, 0x0, 0x0, 0x0, 0x0, 0x0, 0x0],
    [0x0, 0xb, 0xff, 0xff, 0xff, 0xf3, 0x0, 0x0],
    [0x0, 0x0, 0x0, 0x0, 0x0, 0x0, 0x0, 0x0],
    [0x0, 0x0, 0x4, 0xff, 0xff, 0xff, 0xff, 0x70],
    [0x0, 0x0, 0x0, 0x0, 0x0, 0x0, 0x0, 0x1],
    [0xff, 0xff, 0xff, 0xff, 0x0, 0x0, 0x0, 0x0],
    [0x0, 0x0, 0x0, 0x0, 0x0, 0x0, 0x0, 0x0],
    [0x0, 0x1f, 0xff, 0xff, 0xff, 0xfc, 0x0, 0x0],
    [0x0, 0x0, 0x0, 0x0, 0x0, 0x0, 0x9f, 0xff],
    [0xff, 0xff, 0xb0, 0x0, 0x0, 0x0, 0x0, 0x0],
    [0x0, 0x0, 0x0, 0x0, 0x0, 0x0, 0x0, 0x0],
    [0xdf, 0xff, 0xff, 0xff, 0xf3, 0x0, 0x0, 0x0],
    [0x0, 0x0, 0x0, 0x0, 0x5f, 0xff, 0xff, 0xff],
    [0xf6, 0x0, 0x0, 0x0, 0x0, 0x0, 0x0, 0x0],
    [0x0, 0x0, 0x0, 0x0, 0x0, 0x0, 0x8, 0xff],
    [0xff, 0xff, 0xff, 0xc0, 0x0, 0x0, 0x0, 0x0],
    [0x0, 0x0, 0x4f, 0xff, 0xff, 0xff, 0xfe, 0x0],
    [0x0, 0x0, 0x0, 0x0, 0x0, 0x0, 0x0, 0x0],
    [0x0, 0x0, 0x0, 0x0, 0x0, 0x2f, 0xff, 0xff],
    [0xff, 0xff, 0x70, 0x0, 0x0, 0x0, 0x0, 0x0],
    [0x5f, 0xff, 0xff, 0xff, 0xff, 0x60, 0x0, 0x0],
    [0x0, 0x0, 0x0, 0x0, 0x0, 0x0, 0x0, 0x0],
    [0x0, 0x0, 0x0, 0x0, 0xaf, 0xff, 0xff, 0xff],
    [0xff, 0x40, 0x0, 0x0, 0x0, 0x0, 0x9f, 0xff],
    [0xff, 0xff, 0xff, 0xb0, 0x0, 0x0, 0x0, 0x0],
    [0x0, 0x0, 0x0, 0x0, 0x0, 0x0, 0x0, 0x0],
    [0x0, 0x0, 0x2, 0xff, 0xff, 0xff, 0xff, 0xfe],
    [0x20, 0x0, 0x0, 0x3, 0xdf, 0xff, 0xff, 0xff],
    [0xff, 0xd1, 0x0, 0x0, 0x0, 0x0, 0x0, 0x0],
    [0x0, 0x0, 0x0, 0x0, 0x0, 0x0, 0x0, 0x0],
    [0x0, 0x8, 0xff, 0xff, 0xff, 0xff, 0xfd, 0x10],
    [0x0, 0x8, 0xff, 0xff, 0xff, 0xff, 0xff, 0xe2],
    [0x0, 0x0, 0x0, 0x0, 0x0, 0x0, 0x0, 0x0],
    [0x0, 0x0, 0x0, 0x0, 0x0, 0x0, 0x0, 0x0],
    [0xc, 0xff, 0xff, 0xff, 0xff, 0xfd, 0x10, 0x5e],
    [0xff, 0xff, 0xff, 0xff, 0xff, 0xd2, 0x0, 0x0],
    [0x0, 0x0, 0x0, 0x0, 0x0, 0x0, 0x0, 0x0],
    [0x0, 0x0, 0x0, 0x0, 0x0, 0x0, 0x0, 0x2e],
    [0xff, 0xff, 0xff, 0xff, 0xfc, 0xbf, 0xff, 0xff],
    [0xff, 0xff, 0xff, 0xc1, 0x0, 0x0, 0x0, 0x0],
    [0x0, 0x0, 0x0, 0x0, 0x0, 0x0, 0x0, 0x0],
    [0x0, 0x0, 0x0, 0x0, 0x0, 0x0, 0x3f, 0xff],
    [0xff, 0xff, 0xff, 0xff, 0xff, 0xff, 0xff, 0xff],
    [0xff, 0x90, 0x0, 0x0, 0x0, 0x0, 0x0, 0x0],
    [0x0, 0x0, 0x0, 0x0, 0x0, 0x0, 0x0, 0x0],
    [0x0, 0x0, 0x0, 0x0, 0x0, 0x5f, 0xff, 0xff],
    [0xff, 0xff, 0xff, 0xff, 0xff, 0xff, 0xfe, 0x50],
    [0x0, 0x0, 0x0, 0x0, 0x0, 0x0, 0x0, 0x0],
    [0x0, 0x0, 0x0, 0x0, 0x0, 0x0, 0x0, 0x0],
    [0x0, 0x0, 0x0, 0x0, 0x6f, 0xff, 0xff, 0xff],
    [0xff, 0xff, 0xff, 0xff, 0xfa, 0x10, 0x0, 0x0],
    [0x0, 0x0, 0x0, 0x0, 0x0, 0x0, 0x0, 0x0],
    [0x0, 0x0, 0x0, 0x0, 0x0, 0x0, 0x0, 0x0],
    [0x0, 0x0, 0x0, 0xaf, 0xff, 0xff, 0xff, 0xff],
    [0xff, 0xff, 0xe5, 0x0, 0x0, 0x0, 0x0, 0x0],
    [0x0, 0x0, 0x0, 0x0, 0x0, 0x0, 0x0, 0x0],
    [0x0, 0x0, 0x0, 0x0, 0x0, 0x0, 0x0, 0x0],
    [0x2, 0xbf, 0xff, 0xff, 0xff, 0xff, 0xff, 0xff],
    [0x90, 0x0, 0x0, 0x0, 0x0, 0x0, 0x0, 0x0],
    [0x0, 0x0, 0x0, 0x0, 0x0, 0x0, 0x0, 0x0],
    [0x0, 0x0, 0x0, 0x0, 0x0, 0x0, 0x8, 0xff],
    [0xff, 0xff, 0xff, 0xff, 0xff, 0xff, 0xfd, 0x10],
    [0x0, 0x0, 0x0, 0x0, 0x0, 0x0, 0x0, 0x0],
    [0x0, 0x0, 0x0, 0x0, 0x0, 0x0, 0x0, 0x0],
    [0x0, 0x0, 0x0, 0x0, 0x3d, 0xff, 0xff, 0xff],
    [0xff, 0xff, 0xff, 0xff, 0xff, 0xfd, 0x10, 0x0],
    [0x0, 0x0, 0x0, 0x0, 0x0, 0x0, 0x0, 0x0],
    [0x0, 0x0, 0x0, 0x0, 0x0, 0x0, 0x0, 0x0],
    [0x0, 0x0, 0x7f, 0xff, 0xff, 0xff, 0xff, 0xff],
    [0xff, 0xff, 0xff, 0xff, 0xfd, 0x10, 0x0, 0x0],
    [0x0, 0x0, 0x0, 0x0, 0x0, 0x0, 0x0, 0x0],
    [0x0, 0x0, 0x0, 0x0, 0x0, 0x0, 0x0, 0x1],
    [0xbf, 0xff, 0xff, 0xff, 0xff, 0xff, 0xdf, 0xff],
    [0xff, 0xff, 0xff, 0xfd, 0x10, 0x0, 0x0, 0x0],
    [0x0, 0x0, 0x0, 0x0, 0x0, 0x0, 0x0, 0x0],
    [0x0, 0x0, 0x0, 0x0, 0x0, 0x3, 0xef, 0xff],
    [0xff, 0xff, 0xff, 0xfe, 0x50, 0x6f, 0xff, 0xff],
    [0xff, 0xff, 0xfd, 0x10, 0x0, 0x0, 0x0, 0x0],
    [0x0, 0x0, 0x3, 0xc6, 0x10, 0x0, 0x0, 0x0],
    [0x0, 0x0, 0x0, 0x4, 0xff, 0xff, 0xff, 0xff],
    [0xff, 0xf8, 0x0, 0x0, 0x6f, 0xff, 0xff, 0xff],
    [0xff, 0xfd, 0x10, 0x0, 0x0, 0x0, 0x0, 0x0],
    [0x0, 0x7f, 0xff, 0xc7, 0x20, 0x0, 0x0, 0x0],
    [0x0, 0x4, 0xff, 0xff, 0xff, 0xff, 0xff, 0xd3],
    [0x0, 0x0, 0x0, 0x6f, 0xff, 0xff, 0xff, 0xff],
    [0xfd, 0x10, 0x0, 0x0, 0x0, 0x0, 0x0, 0xb]]"

lemma glyph_U0026_a_length: "length (concat glyph_U0026_a) = 1184"
  by (simp add: glyph_U0026_a_def)

definition glyph_U0026_b :: "u8 list list" where
  "glyph_U0026_b = [
    [0xff, 0xff, 0xff, 0xd1, 0x0, 0x0, 0x0, 0x3],
    [0xff, 0xff, 0xff, 0xff, 0xff, 0x90, 0x0, 0x0],
    [0x0, 0x0, 0x6f, 0xff, 0xff, 0xff, 0xff, 0xfd],
    [0x10, 0x0, 0x0, 0x0, 0x0, 0x0, 0xef, 0xff],
    [0xff, 0xff, 0x0, 0x0, 0x0, 0x1, 0xef, 0xff],
    [0xff, 0xff, 0xff, 0x60, 0x0, 0x0, 0x0, 0x0],
    [0x0, 0x6f, 0xff, 0xff, 0xff, 0xff, 0xfd, 0x10],
    [0x0, 0x0, 0x0, 0x0, 0x3f, 0xff, 0xff, 0xff],
    [0xc0, 0x0, 0x0, 0x0, 0xbf, 0xff, 0xff, 0xff],
    [0xff, 0x40, 0x0, 0x0, 0x0, 0x0, 0x0, 0x0],
    [0x6f, 0xff, 0xff, 0xff, 0xff, 0xfd, 0x10, 0x0],
    [0x0, 0x0, 0x8, 0xff, 0xff, 0xff, 0xf8, 0x0],
    [0x0, 0x0, 0x6f, 0xff, 0xff, 0xff, 0xff, 0x50],
    [0x0, 0x0, 0x0, 0x0, 0x0, 0x0, 0x0, 0x5f],
    [0xff, 0xff, 0xff, 0xff, 0xfd, 0x20, 0x0, 0x0],
    [0x0, 0xdf, 0xff, 0xff, 0xff, 0x40, 0x0, 0x0],
    [0xe, 0xff, 0xff, 0xff, 0xff, 0x80, 0x0, 0x0],
    [0x0, 0x0, 0x0, 0x0, 0x0, 0x0, 0x5f, 0xff],
    [0xff, 0xff, 0xff, 0xfe, 0x20, 0x0, 0x0, 0x3f],
    [0xff, 0xff, 0xff, 0xe0, 0x0, 0x0, 0x5, 0xff],
    [0xff, 0xff, 0xff, 0xd0, 0x0, 0x0, 0x0, 0x0],
    [0x0, 0x0, 0x0, 0x0, 0x0, 0x5f, 0xff, 0xff],
    [0xff, 0xff, 0xfe, 0x20, 0x0, 0x9, 0xff, 0xff],
    [0xff, 0xf9, 0x0, 0x0, 0x0, 0xcf, 0xff, 0xff],
    [0xff, 0xf6, 0x0, 0x0, 0x0, 0x0, 0x0, 0x0],
    [0x0, 0x0, 0x0, 0x0, 0x5f, 0xff, 0xff, 0xff],
    [0xff, 0xfe, 0x20, 0x0, 0xff, 0xff, 0xff, 0xff],
    [0x40, 0x0, 0x0, 0xf, 0xff, 0xff, 0xff, 0xff],
    [0x0, 0x0, 0x0, 0x0, 0x0, 0x0, 0x0, 0x0],
    [0x0, 0x0, 0x0, 0x5f, 0xff, 0xff, 0xff, 0xff],
    [0xfe, 0x20, 0x7f, 0xff, 0xff, 0xff, 0xe0, 0x0],
    [0x0, 0x4, 0xff, 0xff, 0xff, 0xff, 0xb0, 0x0],
    [0x0, 0x0, 0x0, 0x0, 0x0, 0x0, 0x0, 0x0],
    [0x0, 0x0, 0x5f, 0xff, 0xff, 0xff, 0xff, 0xfe],
    [0x3e, 0xff, 0xff, 0xff, 0xf8, 0x0, 0x0, 0x0],
    [0x7f, 0xff, 0xff, 0xff, 0xf7, 0x0, 0x0, 0x0],
    [0x0, 0x0, 0x0, 0x0, 0x0, 0x0, 0x0, 0x0],
    [0x0, 0x5f, 0xff, 0xff, 0xff, 0xff, 0xff, 0xff],
    [0xff, 0xff, 0xff, 0x10, 0x0, 0x0, 0x9, 0xff],
    [0xff, 0xff, 0xff, 0x60, 0x0, 0x0, 0x0, 0x0],
    [0x0, 0x0, 0x0, 0x0, 0x0, 0x0, 0x0, 0x0],
    [0x5f, 0xff, 0xff, 0xff, 0xff, 0xff, 0xff, 0xff],
    [0xff, 0xa0, 0x0, 0x0, 0x0, 0xaf, 0xff, 0xff],
    [0xff, 0xf5, 0x0, 0x0, 0x0, 0x0, 0x0, 0x0],
    [0x0, 0x0, 0x0, 0x0, 0x0, 0x0, 0x0, 0x4f],
    [0xff, 0xff, 0xff, 0xff, 0xff, 0xff, 0xff, 0xf3],
    [0x0, 0x0, 0x0, 0xa, 0xff, 0xff, 0xff, 0xff],
    [0x70, 0x0, 0x0, 0x0, 0x0, 0x0, 0x0, 0x0],
    [0x0, 0x0, 0x0, 0x0, 0x0, 0x0, 0x4f, 0xff],
    [0xff, 0xff, 0xff, 0xff, 0xff, 0xfa, 0x0, 0x0],
    [0x0, 0x0, 0x9f, 0xff, 0xff, 0xff, 0xfa, 0x0],
    [0x0, 0x0, 0x0, 0x0, 0x0, 0x0, 0x0, 0x0],
    [0x0, 0x0, 0x0, 0x0, 0x0, 0x4f, 0xff, 0xff],
    [0xff, 0xff, 0xff, 0xff, 0x10, 0x0, 0x0, 0x0],
    [0x7, 0xff, 0xff, 0xff, 0xff, 0xe0, 0x0, 0x0],
    [0x0, 0x0, 0x0, 0x0, 0x0, 0x0, 0x0, 0x0],
    [0x0, 0x0, 0x0, 0x0, 0x4f, 0xff, 0xff, 0xff],
    [0xff, 0xff, 0x90, 0x0, 0x0, 0x0, 0x0, 0x4f],
    [0xff, 0xff, 0xff, 0xff, 0x60, 0x0, 0x0, 0x0],
    [0x0, 0x0, 0x0, 0x0, 0x0, 0x0, 0x0, 0x0],
    [0x0, 0x0, 0x0, 0x7f, 0xff, 0xff, 0xff, 0xff],
    [0xff, 0x30, 0x0, 0x0, 0x0, 0x0, 0xff, 0xff],
    [0xff, 0xff, 0xfe, 0x10, 0x0, 0x0, 0x0, 0x0],
    [0x0, 0x0, 0x0, 0x0, 0x0, 0x0, 0x0, 0x0],
    [0x0, 0x4f, 0xff, 0xff, 0xff, 0xff, 0xff, 0xff],
    [0x30, 0x0, 0x0, 0x0, 0xa, 0xff, 0xff, 0xff],
    [0xff, 0xfd, 0x10, 0x0, 0x0, 0x0, 0x0, 0x0],
    [0x0, 0x0, 0x0, 0x0, 0x0, 0x0, 0x0, 0x7f],
    [0xff, 0xff, 0xff, 0xff, 0xff, 0xff, 0xff, 0x30],
    [0x0, 0x0, 0x0, 0x3f, 0xff, 0xff, 0xff, 0xff],
    [0xfd, 0x20, 0x0, 0x0, 0x0, 0x0, 0x0, 0x0],
    [0x0, 0x0, 0x0, 0x0, 0x2, 0xbf, 0xff, 0xff],
    [0xff, 0xff, 0xff, 0xff, 0xff, 0xff, 0x30, 0x0],
    [0x0, 0x0, 0xbf, 0xff, 0xff, 0xff, 0xff, 0xff],
    [0x80, 0x0, 0x0, 0x0, 0x0, 0x0, 0x0, 0x0],
    [0x0, 0x0, 0x29, 0xff, 0xff, 0xff, 0xff, 0xff],
    [0xff, 0xff, 0xff, 0xff, 0xff, 0x40, 0x0, 0x0],
    [0x2, 0xff, 0xff, 0xff, 0xff, 0xff, 0xff, 0xe8],
    [0x20, 0x0, 0x0, 0x0, 0x0, 0x0, 0x0, 0x5],
    [0xbf, 0xff, 0xff, 0xff, 0xff, 0xff, 0xff, 0xff],
    [0xff, 0xff, 0xff, 0xff, 0x40, 0x0, 0x0, 0x5],
    [0xff, 0xff, 0xff, 0xff, 0xff, 0xff, 0xff, 0xda],
    [0x74, 0x32, 0x22, 0x34, 0x69, 0xcf, 0xff, 0xff],
    [0xff, 0xff, 0xff, 0xff, 0xf9, 0x3e, 0xff, 0xff],
    [0xff, 0xff, 0xff, 0x40, 0x0, 0x0, 0x7, 0xff],
    [0xff, 0xff, 0xff, 0xff, 0xff, 0xff, 0xff, 0xff],
    [0xff, 0xff, 0xff, 0xff, 0xff, 0xff, 0xff, 0xff],
    [0xff, 0xff, 0xf7, 0x0, 0x3e, 0xff, 0xff, 0xff],
    [0xff, 0xff, 0x40, 0x0, 0x0, 0x7, 0xff, 0xff],
    [0xff, 0xff, 0xff, 0xff, 0xff, 0xff, 0xff, 0xff],
    [0xff, 0xff, 0xff, 0xff, 0xff, 0xff, 0xff, 0xff],
    [0xe4, 0x0, 0x0, 0x2e, 0xff, 0xff, 0xff, 0xff],
    [0xff, 0x20, 0x0, 0x0, 0x4, 0xef, 0xff, 0xff],
    [0xff, 0xff, 0xff, 0xff, 0xff, 0xff, 0xff, 0xff],
    [0xff, 0xff, 0xff, 0xff, 0xff, 0xff, 0xb1, 0x0],
    [0x0, 0x0, 0x2e, 0xff, 0xff, 0xff, 0xff, 0xb0],
    [0x0, 0x0, 0x0, 0x1, 0xaf, 0xff, 0xff, 0xff],
    [0xff, 0xff, 0xff, 0xff, 0xff, 0xff, 0xff, 0xff],
    [0xff, 0xff, 0xff, 0xfd, 0x40, 0x0, 0x0, 0x0],
    [0x0, 0x2e, 0xff, 0xff, 0xff, 0xd0, 0x0, 0x0],
    [0x0, 0x0, 0x0, 0x3b, 0xff, 0xff, 0xff, 0xff],
    [0xff, 0xff, 0xff, 0xff, 0xff, 0xff, 0xff, 0xff],
    [0xff, 0xc5, 0x0, 0x0, 0x0, 0x0, 0x0, 0x0],
    [0x2e, 0xff, 0xff, 0xe1, 0x0, 0x0, 0x0, 0x0],
    [0x0, 0x0, 0x3, 0x9e, 0xff, 0xff, 0xff, 0xff],
    [0xff, 0xff, 0xff, 0xff, 0xff, 0xff, 0xe9, 0x30],
    [0x0, 0x0, 0x0, 0x0, 0x0, 0x0, 0x0, 0x2e],
    [0xff, 0xf3, 0x0, 0x0, 0x0, 0x0, 0x0, 0x0],
    [0x0, 0x0, 0x4, 0x8b, 0xff, 0xff, 0xff, 0xff],
    [0xff, 0xff, 0xfe, 0xb7, 0x30, 0x0, 0x0, 0x0],
    [0x0, 0x0, 0x0, 0x0, 0x0, 0x0, 0x2e, 0xf5],
    [0x0, 0x0, 0x0, 0x0, 0x0, 0x0, 0x0, 0x0],
    [0x0, 0x0, 0x0, 0x13, 0x56, 0x77, 0x76, 0x65],
    [0x31, 0x0, 0x0, 0x0, 0x0, 0x0, 0x0, 0x0],
    [0x0, 0x0, 0x0, 0x0, 0x0, 0x26, 0x0, 0x0],
    [0x0]]"

lemma glyph_U0026_b_length: "length (concat glyph_U0026_b) = 921"
  by (simp add: glyph_U0026_b_def)

definition glyph_U0027 :: "u8 list list" where
  "glyph_U0027 = [
    [0xbc, 0xcc, 0xcc, 0xcc, 0x1e, 0xff, 0xff, 0xff],
    [0xf1, 0xef, 0xff, 0xff, 0xff, 0xe, 0xff, 0xff],
    [0xff, 0xf0, 0xdf, 0xff, 0xff, 0xff, 0xd, 0xff],
    [0xff, 0xff, 0xf0, 0xdf, 0xff, 0xff, 0xff, 0xc],
    [0xff, 0xff, 0xff, 0xe0, 0xcf, 0xff, 0xff, 0xfe],
    [0xb, 0xff, 0xff, 0xff, 0xd0, 0xbf, 0xff, 0xff],
    [0xfd, 0xb, 0xff, 0xff, 0xff, 0xd0, 0xaf, 0xff],
    [0xff, 0xfc, 0xa, 0xff, 0xff, 0xff, 0xc0, 0xaf],
    [0xff, 0xff, 0xfb, 0x9, 0xff, 0xff, 0xff, 0xb0],
    [0x9f, 0xff, 0xff, 0xfa, 0x9, 0xff, 0xff, 0xff],
    [0xa0, 0x8f, 0xff, 0xff, 0xfa, 0x8, 0xff, 0xff],
    [0xff, 0x90, 0x8f, 0xff, 0xff, 0xf9, 0x7, 0xff],
    [0xff, 0xff, 0x80, 0x7f, 0xff, 0xff, 0xf8, 0x6],
    [0xff, 0xff, 0xff, 0x80, 0x6f, 0xff, 0xff, 0xf7],
    [0x6, 0xff, 0xff, 0xff, 0x70]]"

lemma glyph_U0027_length: "length (concat glyph_U0027) = 117"
  by (simp add: glyph_U0027_def)

definition glyph_U0028 :: "u8 list list" where
  "glyph_U0028 = [
    [0x0, 0x0, 0x0, 0x0, 0x0, 0xb, 0xff, 0xff],
    [0xff, 0xff, 0x10, 0x0, 0x0, 0x0, 0x0, 0x5],
    [0xff, 0xff, 0xff, 0xff, 0x70, 0x0, 0x0, 0x0],
    [0x0, 0x0, 0xdf, 0xff, 0xff, 0xff, 0xe0, 0x0],
    [0x0, 0x0, 0x0, 0x0, 0x7f, 0xff, 0xff, 0xff],
    [0xf6, 0x0, 0x0, 0x0, 0x0, 0x0, 0x1f, 0xff],
    [0xff, 0xff, 0xfd, 0x0, 0x0, 0x0, 0x0, 0x0],
    [0x8, 0xff, 0xff, 0xff, 0xff, 0x60, 0x0, 0x0],
    [0x0, 0x0, 0x0, 0xef, 0xff, 0xff, 0xff, 0xe0],
    [0x0, 0x0, 0x0, 0x0, 0x0, 0x7f, 0xff, 0xff],
    [0xff, 0xf7, 0x0, 0x0, 0x0, 0x0, 0x0, 0xe],
    [0xff, 0xff, 0xff, 0xff, 0x10, 0x0, 0x0, 0x0],
    [0x0, 0x6, 0xff, 0xff, 0xff, 0xff, 0x90, 0x0],
    [0x0, 0x0, 0x0, 0x0, 0xcf, 0xff, 0xff, 0xff],
    [0xf2, 0x0, 0x0, 0x0, 0x0, 0x0, 0x2f, 0xff],
    [0xff, 0xff, 0xfd, 0x0, 0x0, 0x0, 0x0, 0x0],
    [0x8, 0xff, 0xff, 0xff, 0xff, 0x70, 0x0, 0x0],
    [0x0, 0x0, 0x0, 0xef, 0xff, 0xff, 0xff, 0xf1],
    [0x0, 0x0, 0x0, 0x0, 0x0, 0x4f, 0xff, 0xff],
    [0xff, 0xfb, 0x0, 0x0, 0x0, 0x0, 0x0, 0x9],
    [0xff, 0xff, 0xff, 0xff, 0x60, 0x0, 0x0, 0x0],
    [0x0, 0x0, 0xdf, 0xff, 0xff, 0xff, 0xf1, 0x0],
    [0x0, 0x0, 0x0, 0x0, 0x2f, 0xff, 0xff, 0xff],
    [0xfc, 0x0, 0x0, 0x0, 0x0, 0x0, 0x7, 0xff],
    [0xff, 0xff, 0xff, 0x80, 0x0, 0x0, 0x0, 0x0],
    [0x0, 0xcf, 0xff, 0xff, 0xff, 0xf3, 0x0, 0x0],
    [0x0, 0x0, 0x0, 0xf, 0xff, 0xff, 0xff, 0xfe],
    [0x0, 0x0, 0x0, 0x0, 0x0, 0x3, 0xff, 0xff],
    [0xff, 0xff, 0xb0, 0x0, 0x0, 0x0, 0x0, 0x0],
    [0x7f, 0xff, 0xff, 0xff, 0xf7, 0x0, 0x0, 0x0],
    [0x0, 0x0, 0xa, 0xff, 0xff, 0xff, 0xff, 0x40],
    [0x0, 0x0, 0x0, 0x0, 0x0, 0xef, 0xff, 0xff],
    [0xff, 0xf1, 0x0, 0x0, 0x0, 0x0, 0x0, 0x2f],
    [0xff, 0xff, 0xff, 0xfd, 0x0, 0x0, 0x0, 0x0],
    [0x0, 0x4, 0xff, 0xff, 0xff, 0xff, 0xa0, 0x0],
    [0x0, 0x0, 0x0, 0x0, 0x7f, 0xff, 0xff, 0xff],
    [0xf8, 0x0, 0x0, 0x0, 0x0, 0x0, 0x9, 0xff],
    [0xff, 0xff, 0xff, 0x50, 0x0, 0x0, 0x0, 0x0],
    [0x0, 0xcf, 0xff, 0xff, 0xff, 0xf3, 0x0, 0x0],
    [0x0, 0x0, 0x0, 0xe, 0xff, 0xff, 0xff, 0xff],
    [0x10, 0x0, 0x0, 0x0, 0x0, 0x1, 0xff, 0xff],
    [0xff, 0xff, 0xe0, 0x0, 0x0, 0x0, 0x0, 0x0],
    [0x3f, 0xff, 0xff, 0xff, 0xfc, 0x0, 0x0, 0x0],
    [0x0, 0x0, 0x4, 0xff, 0xff, 0xff, 0xff, 0xb0],
    [0x0, 0x0, 0x0, 0x0, 0x0, 0x5f, 0xff, 0xff],
    [0xff, 0xfa, 0x0, 0x0, 0x0, 0x0, 0x0, 0x7],
    [0xff, 0xff, 0xff, 0xff, 0x80, 0x0, 0x0, 0x0],
    [0x0, 0x0, 0x8f, 0xff, 0xff, 0xff, 0xf7, 0x0],
    [0x0, 0x0, 0x0, 0x0, 0xa, 0xff, 0xff, 0xff],
    [0xff, 0x50, 0x0, 0x0, 0x0, 0x0, 0x0, 0xbf],
    [0xff, 0xff, 0xff, 0xf4, 0x0, 0x0, 0x0, 0x0],
    [0x0, 0xb, 0xff, 0xff, 0xff, 0xff, 0x40, 0x0],
    [0x0, 0x0, 0x0, 0x0, 0xcf, 0xff, 0xff, 0xff],
    [0xf3, 0x0, 0x0, 0x0, 0x0, 0x0, 0xc, 0xff],
    [0xff, 0xff, 0xff, 0x30, 0x0, 0x0, 0x0, 0x0],
    [0x0, 0xdf, 0xff, 0xff, 0xff, 0xf3, 0x0, 0x0],
    [0x0, 0x0, 0x0, 0xd, 0xff, 0xff, 0xff, 0xff],
    [0x20, 0x0, 0x0, 0x0, 0x0, 0x0, 0xdf, 0xff],
    [0xff, 0xff, 0xf2, 0x0, 0x0, 0x0, 0x0, 0x0],
    [0xd, 0xff, 0xff, 0xff, 0xff, 0x20, 0x0, 0x0],
    [0x0, 0x0, 0x0, 0xdf, 0xff, 0xff, 0xff, 0xf3],
    [0x0, 0x0, 0x0, 0x0, 0x0, 0xc, 0xff, 0xff],
    [0xff, 0xff, 0x30, 0x0, 0x0, 0x0, 0x0, 0x0],
    [0xcf, 0xff, 0xff, 0xff, 0xf3, 0x0, 0x0, 0x0],
    [0x0, 0x0, 0xb, 0xff, 0xff, 0xff, 0xff, 0x40],
    [0x0, 0x0, 0x0, 0x0, 0x0, 0xbf, 0xff, 0xff],
    [0xff, 0xf4, 0x0, 0x0, 0x0, 0x0, 0x0, 0xa],
    [0xff, 0xff, 0xff, 0xff, 0x50, 0x0, 0x0, 0x0],
    [0x0, 0x0, 0x8f, 0xff, 0xff, 0xff, 0xf7, 0x0],
    [0x0, 0x0, 0x0, 0x0, 0x7, 0xff, 0xff, 0xff],
    [0xff, 0x80, 0x0, 0x0, 0x0, 0x0, 0x0, 0x5f],
    [0xff, 0xff, 0xff, 0xfa, 0x0, 0x0, 0x0, 0x0],
    [0x0, 0x4, 0xff, 0xff, 0xff, 0xff, 0xb0, 0x0],
    [0x0, 0x0, 0x0, 0x0, 0x3f, 0xff, 0xff, 0xff],
    [0xfc, 0x0, 0x0, 0x0, 0x0, 0x0, 0x1, 0xff],
    [0xff, 0xff, 0xff, 0xe0, 0x0, 0x0, 0x0, 0x0],
    [0x0, 0xe, 0xff, 0xff, 0xff, 0xff, 0x10, 0x0],
    [0x0, 0x0, 0x0, 0x0, 0xcf, 0xff, 0xff, 0xff],
    [0xf3, 0x0, 0x0, 0x0, 0x0, 0x0, 0x9, 0xff],
    [0xff, 0xff, 0xff, 0x50, 0x0, 0x0, 0x0, 0x0],
    [0x0, 0x7f, 0xff, 0xff, 0xff, 0xf8, 0x0, 0x0],
    [0x0, 0x0, 0x0, 0x4, 0xff, 0xff, 0xff, 0xff],
    [0xa0, 0x0, 0x0, 0x0, 0x0, 0x0, 0x1f, 0xff],
    [0xff, 0xff, 0xfd, 0x0, 0x0, 0x0, 0x0, 0x0],
    [0x0, 0xef, 0xff, 0xff, 0xff, 0xf1, 0x0, 0x0],
    [0x0, 0x0, 0x0, 0xa, 0xff, 0xff, 0xff, 0xff],
    [0x40, 0x0, 0x0, 0x0, 0x0, 0x0, 0x7f, 0xff],
    [0xff, 0xff, 0xf7, 0x0, 0x0, 0x0, 0x0, 0x0],
    [0x3, 0xff, 0xff, 0xff, 0xff, 0xb0, 0x0, 0x0],
    [0x0, 0x0, 0x0, 0xf, 0xff, 0xff, 0xff, 0xfe],
    [0x0, 0x0, 0x0, 0x0, 0x0, 0x0, 0xbf, 0xff],
    [0xff, 0xff, 0xf3, 0x0, 0x0, 0x0, 0x0, 0x0],
    [0x6, 0xff, 0xff, 0xff, 0xff, 0x80, 0x0, 0x0],
    [0x0, 0x0, 0x0, 0x2f, 0xff, 0xff, 0xff, 0xfc],
    [0x0, 0x0, 0x0, 0x0, 0x0, 0x0, 0xdf, 0xff],
    [0xff, 0xff, 0xf1, 0x0, 0x0, 0x0, 0x0, 0x0],
    [0x8, 0xff, 0xff, 0xff, 0xff, 0x60, 0x0, 0x0],
    [0x0, 0x0, 0x0, 0x3f, 0xff, 0xff, 0xff, 0xfb],
    [0x0, 0x0, 0x0, 0x0, 0x0, 0x0, 0xdf, 0xff],
    [0xff, 0xff, 0xf1, 0x0, 0x0, 0x0, 0x0, 0x0],
    [0x7, 0xff, 0xff, 0xff, 0xff, 0x70, 0x0, 0x0],
    [0x0, 0x0, 0x0, 0x1f, 0xff, 0xff, 0xff, 0xfd],
    [0x0, 0x0, 0x0, 0x0, 0x0, 0x0, 0xbf, 0xff],
    [0xff, 0xff, 0xf2, 0x0, 0x0, 0x0, 0x0, 0x0],
    [0x5, 0xff, 0xff, 0xff, 0xff, 0x90, 0x0, 0x0],
    [0x0, 0x0, 0x0, 0xd, 0xff, 0xff, 0xff, 0xff],
    [0x10, 0x0, 0x0, 0x0, 0x0, 0x0, 0x6f, 0xff],
    [0xff, 0xff, 0xf7, 0x0, 0x0, 0x0, 0x0, 0x0],
    [0x0, 0xef, 0xff, 0xff, 0xff, 0xe0, 0x0, 0x0],
    [0x0, 0x0, 0x0, 0x7, 0xff, 0xff, 0xff, 0xff],
    [0x60, 0x0, 0x0, 0x0, 0x0, 0x0, 0x1e, 0xff],
    [0xff, 0xff, 0xfd, 0x0, 0x0, 0x0, 0x0, 0x0],
    [0x0, 0x7f, 0xff, 0xff, 0xff, 0xf6, 0x0, 0x0],
    [0x0, 0x0, 0x0, 0x0, 0xdf, 0xff, 0xff, 0xff],
    [0xe0, 0x0, 0x0, 0x0, 0x0, 0x0, 0x4, 0xff],
    [0xff, 0xff, 0xff, 0x70, 0x0, 0x0, 0x0, 0x0],
    [0x0, 0xb, 0xff, 0xff, 0xff, 0xff, 0x10]]"

lemma glyph_U0028_length: "length (concat glyph_U0028) = 935"
  by (simp add: glyph_U0028_def)

definition glyph_U0029 :: "u8 list list" where
  "glyph_U0029 = [
    [0xaf, 0xff, 0xff, 0xff, 0xf2, 0x0, 0x0, 0x0],
    [0x0, 0x0, 0x2, 0xff, 0xff, 0xff, 0xff, 0xb0],
    [0x0, 0x0, 0x0, 0x0, 0x0, 0x9, 0xff, 0xff],
    [0xff, 0xff, 0x40, 0x0, 0x0, 0x0, 0x0, 0x0],
    [0x1f, 0xff, 0xff, 0xff, 0xfd, 0x0, 0x0, 0x0],
    [0x0, 0x0, 0x0, 0x8f, 0xff, 0xff, 0xff, 0xf6],
    [0x0, 0x0, 0x0, 0x0, 0x0, 0x1, 0xff, 0xff],
    [0xff, 0xff, 0xe0, 0x0, 0x0, 0x0, 0x0, 0x0],
    [0x9, 0xff, 0xff, 0xff, 0xff, 0x60, 0x0, 0x0],
    [0x0, 0x0, 0x0, 0x2f, 0xff, 0xff, 0xff, 0xfd],
    [0x0, 0x0, 0x0, 0x0, 0x0, 0x0, 0xbf, 0xff],
    [0xff, 0xff, 0xf5, 0x0, 0x0, 0x0, 0x0, 0x0],
    [0x4, 0xff, 0xff, 0xff, 0xff, 0xc0, 0x0, 0x0],
    [0x0, 0x0, 0x0, 0xd, 0xff, 0xff, 0xff, 0xff],
    [0x30, 0x0, 0x0, 0x0, 0x0, 0x0, 0x7f, 0xff],
    [0xff, 0xff, 0xf9, 0x0, 0x0, 0x0, 0x0, 0x0],
    [0x1, 0xff, 0xff, 0xff, 0xff, 0xe0, 0x0, 0x0],
    [0x0, 0x0, 0x0, 0xb, 0xff, 0xff, 0xff, 0xff],
    [0x50, 0x0, 0x0, 0x0, 0x0, 0x0, 0x5f, 0xff],
    [0xff, 0xff, 0xfb, 0x0, 0x0, 0x0, 0x0, 0x0],
    [0x0, 0xff, 0xff, 0xff, 0xff, 0xf0, 0x0, 0x0],
    [0x0, 0x0, 0x0, 0xb, 0xff, 0xff, 0xff, 0xff],
    [0x40, 0x0, 0x0, 0x0, 0x0, 0x0, 0x6f, 0xff],
    [0xff, 0xff, 0xf9, 0x0, 0x0, 0x0, 0x0, 0x0],
    [0x2, 0xff, 0xff, 0xff, 0xff, 0xe0, 0x0, 0x0],
    [0x0, 0x0, 0x0, 0xd, 0xff, 0xff, 0xff, 0xff],
    [0x30, 0x0, 0x0, 0x0, 0x0, 0x0, 0x8f, 0xff],
    [0xff, 0xff, 0xf7, 0x0, 0x0, 0x0, 0x0, 0x0],
    [0x5, 0xff, 0xff, 0xff, 0xff, 0xa0, 0x0, 0x0],
    [0x0, 0x0, 0x0, 0x1f, 0xff, 0xff, 0xff, 0xfe],
    [0x0, 0x0, 0x0, 0x0, 0x0, 0x0, 0xef, 0xff],
    [0xff, 0xff, 0xf2, 0x0, 0x0, 0x0, 0x0, 0x0],
    [0xa, 0xff, 0xff, 0xff, 0xff, 0x50, 0x0, 0x0],
    [0x0, 0x0, 0x0, 0x7f, 0xff, 0xff, 0xff, 0xf9],
    [0x0, 0x0, 0x0, 0x0, 0x0, 0x4, 0xff, 0xff],
    [0xff, 0xff, 0xc0, 0x0, 0x0, 0x0, 0x0, 0x0],
    [0x1f, 0xff, 0xff, 0xff, 0xfe, 0x0, 0x0, 0x0],
    [0x0, 0x0, 0x0, 0xff, 0xff, 0xff, 0xff, 0xf1],
    [0x0, 0x0, 0x0, 0x0, 0x0, 0xc, 0xff, 0xff],
    [0xff, 0xff, 0x30, 0x0, 0x0, 0x0, 0x0, 0x0],
    [0xaf, 0xff, 0xff, 0xff, 0xf6, 0x0, 0x0, 0x0],
    [0x0, 0x0, 0x8, 0xff, 0xff, 0xff, 0xff, 0x80],
    [0x0, 0x0, 0x0, 0x0, 0x0, 0x5f, 0xff, 0xff],
    [0xff, 0xfa, 0x0, 0x0, 0x0, 0x0, 0x0, 0x4],
    [0xff, 0xff, 0xff, 0xff, 0xb0, 0x0, 0x0, 0x0],
    [0x0, 0x0, 0x3f, 0xff, 0xff, 0xff, 0xfd, 0x0],
    [0x0, 0x0, 0x0, 0x0, 0x1, 0xff, 0xff, 0xff],
    [0xff, 0xe0, 0x0, 0x0, 0x0, 0x0, 0x0, 0xf],
    [0xff, 0xff, 0xff, 0xff, 0x0, 0x0, 0x0, 0x0],
    [0x0, 0x0, 0xff, 0xff, 0xff, 0xff, 0xf1, 0x0],
    [0x0, 0x0, 0x0, 0x0, 0xd, 0xff, 0xff, 0xff],
    [0xff, 0x20, 0x0, 0x0, 0x0, 0x0, 0x0, 0xdf],
    [0xff, 0xff, 0xff, 0xf2, 0x0, 0x0, 0x0, 0x0],
    [0x0, 0xd, 0xff, 0xff, 0xff, 0xff, 0x30, 0x0],
    [0x0, 0x0, 0x0, 0x0, 0xcf, 0xff, 0xff, 0xff],
    [0xf3, 0x0, 0x0, 0x0, 0x0, 0x0, 0xc, 0xff],
    [0xff, 0xff, 0xff, 0x40, 0x0, 0x0, 0x0, 0x0],
    [0x0, 0xbf, 0xff, 0xff, 0xff, 0xf4, 0x0, 0x0],
    [0x0, 0x0, 0x0, 0xb, 0xff, 0xff, 0xff, 0xff],
    [0x50, 0x0, 0x0, 0x0, 0x0, 0x0, 0xbf, 0xff],
    [0xff, 0xff, 0xf4, 0x0, 0x0, 0x0, 0x0, 0x0],
    [0xc, 0xff, 0xff, 0xff, 0xff, 0x40, 0x0, 0x0],
    [0x0, 0x0, 0x0, 0xcf, 0xff, 0xff, 0xff, 0xf3],
    [0x0, 0x0, 0x0, 0x0, 0x0, 0xd, 0xff, 0xff],
    [0xff, 0xff, 0x30, 0x0, 0x0, 0x0, 0x0, 0x0],
    [0xdf, 0xff, 0xff, 0xff, 0xf2, 0x0, 0x0, 0x0],
    [0x0, 0x0, 0xd, 0xff, 0xff, 0xff, 0xff, 0x20],
    [0x0, 0x0, 0x0, 0x0, 0x0, 0xff, 0xff, 0xff],
    [0xff, 0xf1, 0x0, 0x0, 0x0, 0x0, 0x0, 0xf],
    [0xff, 0xff, 0xff, 0xff, 0x0, 0x0, 0x0, 0x0],
    [0x0, 0x1, 0xff, 0xff, 0xff, 0xff, 0xe0, 0x0],
    [0x0, 0x0, 0x0, 0x0, 0x3f, 0xff, 0xff, 0xff],
    [0xfd, 0x0, 0x0, 0x0, 0x0, 0x0, 0x4, 0xff],
    [0xff, 0xff, 0xff, 0xb0, 0x0, 0x0, 0x0, 0x0],
    [0x0, 0x5f, 0xff, 0xff, 0xff, 0xfa, 0x0, 0x0],
    [0x0, 0x0, 0x0, 0x8, 0xff, 0xff, 0xff, 0xff],
    [0x80, 0x0, 0x0, 0x0, 0x0, 0x0, 0xaf, 0xff],
    [0xff, 0xff, 0xf5, 0x0, 0x0, 0x0, 0x0, 0x0],
    [0xc, 0xff, 0xff, 0xff, 0xff, 0x30, 0x0, 0x0],
    [0x0, 0x0, 0x0, 0xff, 0xff, 0xff, 0xff, 0xf0],
    [0x0, 0x0, 0x0, 0x0, 0x0, 0x1f, 0xff, 0xff],
    [0xff, 0xfe, 0x0, 0x0, 0x0, 0x0, 0x0, 0x4],
    [0xff, 0xff, 0xff, 0xff, 0xb0, 0x0, 0x0, 0x0],
    [0x0, 0x0, 0x7f, 0xff, 0xff, 0xff, 0xf8, 0x0],
    [0x0, 0x0, 0x0, 0x0, 0xa, 0xff, 0xff, 0xff],
    [0xff, 0x50, 0x0, 0x0, 0x0, 0x0, 0x0, 0xef],
    [0xff, 0xff, 0xff, 0xf1, 0x0, 0x0, 0x0, 0x0],
    [0x0, 0x1f, 0xff, 0xff, 0xff, 0xfe, 0x0, 0x0],
    [0x0, 0x0, 0x0, 0x5, 0xff, 0xff, 0xff, 0xff],
    [0xa0, 0x0, 0x0, 0x0, 0x0, 0x0, 0x8f, 0xff],
    [0xff, 0xff, 0xf7, 0x0, 0x0, 0x0, 0x0, 0x0],
    [0xd, 0xff, 0xff, 0xff, 0xff, 0x20, 0x0, 0x0],
    [0x0, 0x0, 0x2, 0xff, 0xff, 0xff, 0xff, 0xd0],
    [0x0, 0x0, 0x0, 0x0, 0x0, 0x6f, 0xff, 0xff],
    [0xff, 0xf9, 0x0, 0x0, 0x0, 0x0, 0x0, 0xb],
    [0xff, 0xff, 0xff, 0xff, 0x40, 0x0, 0x0, 0x0],
    [0x0, 0x0, 0xff, 0xff, 0xff, 0xff, 0xf0, 0x0],
    [0x0, 0x0, 0x0, 0x0, 0x5f, 0xff, 0xff, 0xff],
    [0xfa, 0x0, 0x0, 0x0, 0x0, 0x0, 0xb, 0xff],
    [0xff, 0xff, 0xff, 0x40, 0x0, 0x0, 0x0, 0x0],
    [0x1, 0xff, 0xff, 0xff, 0xff, 0xe0, 0x0, 0x0],
    [0x0, 0x0, 0x0, 0x7f, 0xff, 0xff, 0xff, 0xf8],
    [0x0, 0x0, 0x0, 0x0, 0x0, 0xd, 0xff, 0xff],
    [0xff, 0xff, 0x20, 0x0, 0x0, 0x0, 0x0, 0x4],
    [0xff, 0xff, 0xff, 0xff, 0xc0, 0x0, 0x0, 0x0],
    [0x0, 0x0, 0xbf, 0xff, 0xff, 0xff, 0xf5, 0x0],
    [0x0, 0x0, 0x0, 0x0, 0x2f, 0xff, 0xff, 0xff],
    [0xfd, 0x0, 0x0, 0x0, 0x0, 0x0, 0x9, 0xff],
    [0xff, 0xff, 0xff, 0x50, 0x0, 0x0, 0x0, 0x0],
    [0x1, 0xff, 0xff, 0xff, 0xff, 0xe0, 0x0, 0x0],
    [0x0, 0x0, 0x0, 0x8f, 0xff, 0xff, 0xff, 0xf6],
    [0x0, 0x0, 0x0, 0x0, 0x0, 0x1f, 0xff, 0xff],
    [0xff, 0xfd, 0x0, 0x0, 0x0, 0x0, 0x0, 0x9],
    [0xff, 0xff, 0xff, 0xff, 0x40, 0x0, 0x0, 0x0],
    [0x0, 0x2, 0xff, 0xff, 0xff, 0xff, 0xa0, 0x0],
    [0x0, 0x0, 0x0, 0x0, 0xaf, 0xff, 0xff, 0xff],
    [0xf2, 0x0, 0x0, 0x0, 0x0, 0x0, 0x0]]"

lemma glyph_U0029_length: "length (concat glyph_U0029) = 935"
  by (simp add: glyph_U0029_def)

definition glyph_U002A :: "u8 list list" where
  "glyph_U002A = [
    [0x0, 0x0, 0x0, 0x0, 0x0, 0x0, 0x0, 0x6],
    [0x99, 0x99, 0x90, 0x0, 0x0, 0x0, 0x0, 0x0],
    [0x0, 0x0, 0x0, 0x0, 0x0, 0x0, 0x0, 0x0],
    [0x0, 0xa, 0xff, 0xff, 0xf1, 0x0, 0x0, 0x0],
    [0x0, 0x0, 0x0, 0x0, 0x0, 0x0, 0x0, 0x0],
    [0x0, 0x0, 0x0, 0xa, 0xff, 0xff, 0xf1, 0x0],
    [0x0, 0x0, 0x0, 0x0, 0x0, 0x0, 0x0, 0x0],
    [0x0, 0x0, 0x0, 0x0, 0x0, 0xa, 0xff, 0xff],
    [0xf0, 0x0, 0x0, 0x0, 0x0, 0x0, 0x0, 0x0],
    [0x0, 0x0, 0x0, 0x0, 0x0, 0x0, 0x0, 0xa],
    [0xff, 0xff, 0xf0, 0x0, 0x0, 0x0, 0x0, 0x0],
    [0x0, 0x0, 0x0, 0x0, 0x0, 0x0, 0x0, 0x0],
    [0x0, 0xa, 0xff, 0xff, 0xf0, 0x0, 0x0, 0x0],
    [0x0, 0x0, 0x0, 0x0, 0x0, 0x2, 0x10, 0x0],
    [0x0, 0x0, 0x0, 0xa, 0xff, 0xff, 0xf0, 0x0],
    [0x0, 0x0, 0x0, 0x0, 0x30, 0x0, 0x0, 0xb],
    [0xf7, 0x0, 0x0, 0x0, 0x0, 0xa, 0xff, 0xff],
    [0xf0, 0x0, 0x0, 0x0, 0x0, 0x3c, 0xf2, 0x0],
    [0x0, 0x4f, 0xff, 0xd4, 0x0, 0x0, 0x0, 0x9],
    [0xff, 0xff, 0xf0, 0x0, 0x0, 0x0, 0x1a, 0xff],
    [0xfa, 0x0, 0x0, 0xdf, 0xff, 0xff, 0xb2, 0x0],
    [0x0, 0x9, 0xff, 0xff, 0xf0, 0x0, 0x0, 0x7],
    [0xff, 0xff, 0xff, 0x30, 0x6, 0xff, 0xff, 0xff],
    [0xff, 0x80, 0x0, 0x9, 0xff, 0xff, 0xf0, 0x0],
    [0x5, 0xdf, 0xff, 0xff, 0xff, 0xc0, 0xe, 0xff],
    [0xff, 0xff, 0xff, 0xfe, 0x60, 0x9, 0xff, 0xff],
    [0xf0, 0x2, 0xbf, 0xff, 0xff, 0xff, 0xff, 0xf5],
    [0x3, 0xcf, 0xff, 0xff, 0xff, 0xff, 0xfc, 0x39],
    [0xff, 0xff, 0xf1, 0x9f, 0xff, 0xff, 0xff, 0xff],
    [0xff, 0x70, 0x0, 0x5, 0xdf, 0xff, 0xff, 0xff],
    [0xff, 0xfe, 0xff, 0xff, 0xfe, 0xff, 0xff, 0xff],
    [0xff, 0xff, 0x91, 0x0, 0x0, 0x0, 0x6, 0xef],
    [0xff, 0xff, 0xff, 0xff, 0xff, 0xff, 0xff, 0xff],
    [0xff, 0xff, 0xff, 0xa2, 0x0, 0x0, 0x0, 0x0],
    [0x0, 0x8, 0xff, 0xff, 0xff, 0xff, 0xff, 0xff],
    [0xff, 0xff, 0xff, 0xff, 0xc3, 0x0, 0x0, 0x0],
    [0x0, 0x0, 0x0, 0x0, 0x19, 0xff, 0xff, 0xff],
    [0xff, 0xff, 0xff, 0xff, 0xff, 0xd5, 0x0, 0x0],
    [0x0, 0x0, 0x0, 0x0, 0x0, 0x0, 0x0, 0x2b],
    [0xff, 0xff, 0xff, 0xff, 0xff, 0xff, 0xe6, 0x0],
    [0x0, 0x0, 0x0, 0x0, 0x0, 0x0, 0x0, 0x0],
    [0x0, 0x5, 0xef, 0xff, 0xff, 0xff, 0xff, 0xff],
    [0xa1, 0x0, 0x0, 0x0, 0x0, 0x0, 0x0, 0x0],
    [0x0, 0x0, 0x4, 0xcf, 0xff, 0xff, 0xff, 0xff],
    [0xff, 0xff, 0xff, 0x80, 0x0, 0x0, 0x0, 0x0],
    [0x0, 0x0, 0x0, 0x2, 0xbf, 0xff, 0xff, 0xff],
    [0xff, 0xff, 0xff, 0xff, 0xff, 0xfe, 0x60, 0x0],
    [0x0, 0x0, 0x0, 0x0, 0x1, 0x9f, 0xff, 0xff],
    [0xff, 0xff, 0xff, 0xff, 0xff, 0xff, 0xff, 0xff],
    [0xfd, 0x40, 0x0, 0x0, 0x0, 0x0, 0x7f, 0xff],
    [0xff, 0xff, 0xff, 0xff, 0xff, 0xff, 0xff, 0xff],
    [0xff, 0xff, 0xff, 0xfb, 0x20, 0x0, 0x0, 0x5e],
    [0xff, 0xff, 0xff, 0xff, 0xff, 0x9a, 0xff, 0xff],
    [0xf5, 0xef, 0xff, 0xff, 0xff, 0xff, 0xf9, 0x10],
    [0xc, 0xff, 0xff, 0xff, 0xff, 0xff, 0xb2, 0x9],
    [0xff, 0xff, 0xf0, 0x7, 0xff, 0xff, 0xff, 0xff],
    [0xff, 0xf4, 0xa, 0xff, 0xff, 0xff, 0xff, 0xd5],
    [0x0, 0x9, 0xff, 0xff, 0xf0, 0x0, 0x1a, 0xff],
    [0xff, 0xff, 0xff, 0xf1, 0x1, 0xff, 0xff, 0xff],
    [0xf7, 0x0, 0x0, 0x9, 0xff, 0xff, 0xf0, 0x0],
    [0x0, 0x3d, 0xff, 0xff, 0xff, 0x70, 0x0, 0x8f],
    [0xff, 0xfa, 0x10, 0x0, 0x0, 0x9, 0xff, 0xff],
    [0xf0, 0x0, 0x0, 0x0, 0x6e, 0xff, 0xfd, 0x0],
    [0x0, 0xe, 0xfc, 0x30, 0x0, 0x0, 0x0, 0xa],
    [0xff, 0xff, 0xf0, 0x0, 0x0, 0x0, 0x1, 0x9f],
    [0xf5, 0x0, 0x0, 0x5, 0x60, 0x0, 0x0, 0x0],
    [0x0, 0xa, 0xff, 0xff, 0xf0, 0x0, 0x0, 0x0],
    [0x0, 0x2, 0x80, 0x0, 0x0, 0x0, 0x0, 0x0],
    [0x0, 0x0, 0x0, 0xa, 0xff, 0xff, 0xf0, 0x0],
    [0x0, 0x0, 0x0, 0x0, 0x0, 0x0, 0x0, 0x0],
    [0x0, 0x0, 0x0, 0x0, 0x0, 0xa, 0xff, 0xff],
    [0xf0, 0x0, 0x0, 0x0, 0x0, 0x0, 0x0, 0x0],
    [0x0, 0x0, 0x0, 0x0, 0x0, 0x0, 0x0, 0xa],
    [0xff, 0xff, 0xf0, 0x0, 0x0, 0x0, 0x0, 0x0],
    [0x0, 0x0, 0x0, 0x0, 0x0, 0x0, 0x0, 0x0],
    [0x0, 0xa, 0xff, 0xff, 0xf0, 0x0, 0x0, 0x0],
    [0x0, 0x0, 0x0, 0x0, 0x0, 0x0, 0x0, 0x0],
    [0x0, 0x0, 0x0, 0xa, 0xff, 0xff, 0xf1, 0x0],
    [0x0, 0x0, 0x0, 0x0, 0x0, 0x0, 0x0, 0x0],
    [0x0, 0x0, 0x0, 0x0, 0x0, 0xa, 0xff, 0xff],
    [0xf1, 0x0, 0x0, 0x0, 0x0, 0x0, 0x0, 0x0]]"

lemma glyph_U002A_length: "length (concat glyph_U002A) = 648"
  by (simp add: glyph_U002A_def)

definition glyph_U002B :: "u8 list list" where
  "glyph_U002B = [
    [0x0, 0x0, 0x0, 0x0, 0x0, 0x0, 0x0, 0x0],
    [0x1, 0xcc, 0xcc, 0xcc, 0xcb, 0x0, 0x0, 0x0],
    [0x0, 0x0, 0x0, 0x0, 0x0, 0x0, 0x0, 0x0],
    [0x0, 0x0, 0x0, 0x0, 0x0, 0x0, 0x1, 0xff],
    [0xff, 0xff, 0xff, 0x0, 0x0, 0x0, 0x0, 0x0],
    [0x0, 0x0, 0x0, 0x0, 0x0, 0x0, 0x0, 0x0],
    [0x0, 0x0, 0x0, 0x0, 0x1, 0xff, 0xff, 0xff],
    [0xff, 0x0, 0x0, 0x0, 0x0, 0x0, 0x0, 0x0],
    [0x0, 0x0, 0x0, 0x0, 0x0, 0x0, 0x0, 0x0],
    [0x0, 0x0, 0x1, 0xff, 0xff, 0xff, 0xff, 0x0],
    [0x0, 0x0, 0x0, 0x0, 0x0, 0x0, 0x0, 0x0],
    [0x0, 0x0, 0x0, 0x0, 0x0, 0x0, 0x0, 0x0],
    [0x1, 0xff, 0xff, 0xff, 0xff, 0x0, 0x0, 0x0],
    [0x0, 0x0, 0x0, 0x0, 0x0, 0x0, 0x0, 0x0],
    [0x0, 0x0, 0x0, 0x0, 0x0, 0x0, 0x1, 0xff],
    [0xff, 0xff, 0xff, 0x0, 0x0, 0x0, 0x0, 0x0],
    [0x0, 0x0, 0x0, 0x0, 0x0, 0x0, 0x0, 0x0],
    [0x0, 0x0, 0x0, 0x0, 0x1, 0xff, 0xff, 0xff],
    [0xff, 0x0, 0x0, 0x0, 0x0, 0x0, 0x0, 0x0],
    [0x0, 0x0, 0x0, 0x0, 0x0, 0x0, 0x0, 0x0],
    [0x0, 0x0, 0x1, 0xff, 0xff, 0xff, 0xff, 0x0],
    [0x0, 0x0, 0x0, 0x0, 0x0, 0x0, 0x0, 0x0],
    [0x0, 0x0, 0x0, 0x0, 0x0, 0x0, 0x0, 0x0],
    [0x1, 0xff, 0xff, 0xff, 0xff, 0x0, 0x0, 0x0],
    [0x0, 0x0, 0x0, 0x0, 0x0, 0x0, 0x0, 0x0],
    [0x0, 0x0, 0x0, 0x0, 0x0, 0x0, 0x1, 0xff],
    [0xff, 0xff, 0xff, 0x0, 0x0, 0x0, 0x0, 0x0],
    [0x0, 0x0, 0x0, 0x0, 0x0, 0x0, 0x0, 0x0],
    [0x0, 0x0, 0x0, 0x0, 0x1, 0xff, 0xff, 0xff],
    [0xff, 0x0, 0x0, 0x0, 0x0, 0x0, 0x0, 0x0],
    [0x0, 0x0, 0x0, 0x0, 0x0, 0x0, 0x0, 0x0],
    [0x0, 0x0, 0x1, 0xff, 0xff, 0xff, 0xff, 0x0],
    [0x0, 0x0, 0x0, 0x0, 0x0, 0x0, 0x0, 0x0],
    [0x0, 0x0, 0x0, 0x0, 0x0, 0x0, 0x0, 0x0],
    [0x1, 0xff, 0xff, 0xff, 0xff, 0x0, 0x0, 0x0],
    [0x0, 0x0, 0x0, 0x0, 0x0, 0x0, 0x0, 0x0],
    [0x0, 0x0, 0x0, 0x0, 0x0, 0x0, 0x1, 0xff],
    [0xff, 0xff, 0xff, 0x0, 0x0, 0x0, 0x0, 0x0],
    [0x0, 0x0, 0x0, 0x0, 0x0, 0x0, 0x0, 0x0],
    [0x0, 0x0, 0x0, 0x0, 0x1, 0xff, 0xff, 0xff],
    [0xff, 0x0, 0x0, 0x0, 0x0, 0x0, 0x0, 0x0],
    [0x0, 0x0, 0x0, 0x0, 0x0, 0x0, 0x0, 0x0],
    [0x0, 0x0, 0x1, 0xff, 0xff, 0xff, 0xff, 0x0],
    [0x0, 0x0, 0x0, 0x0, 0x0, 0x0, 0x0, 0x0],
    [0x0, 0x0, 0x0, 0x0, 0x0, 0x0, 0x0, 0x0],
    [0x1, 0xff, 0xff, 0xff, 0xff, 0x0, 0x0, 0x0],
    [0x0, 0x0, 0x0, 0x0, 0x0, 0x0, 0x48, 0x88],
    [0x88, 0x88, 0x88, 0x88, 0x88, 0x88, 0x89, 0xff],
    [0xff, 0xff, 0xff, 0x88, 0x88, 0x88, 0x88, 0x88],
    [0x88, 0x88, 0x88, 0x83, 0x9f, 0xff, 0xff, 0xff],
    [0xff, 0xff, 0xff, 0xff, 0xff, 0xff, 0xff, 0xff],
    [0xff, 0xff, 0xff, 0xff, 0xff, 0xff, 0xff, 0xff],
    [0xff, 0xf7, 0x9f, 0xff, 0xff, 0xff, 0xff, 0xff],
    [0xff, 0xff, 0xff, 0xff, 0xff, 0xff, 0xff, 0xff],
    [0xff, 0xff, 0xff, 0xff, 0xff, 0xff, 0xff, 0xf7],
    [0x9f, 0xff, 0xff, 0xff, 0xff, 0xff, 0xff, 0xff],
    [0xff, 0xff, 0xff, 0xff, 0xff, 0xff, 0xff, 0xff],
    [0xff, 0xff, 0xff, 0xff, 0xff, 0xf7, 0x9f, 0xff],
    [0xff, 0xff, 0xff, 0xff, 0xff, 0xff, 0xff, 0xff],
    [0xff, 0xff, 0xff, 0xff, 0xff, 0xff, 0xff, 0xff],
    [0xff, 0xff, 0xff, 0xf7, 0x9f, 0xff, 0xff, 0xff],
    [0xff, 0xff, 0xff, 0xff, 0xff, 0xff, 0xff, 0xff],
    [0xff, 0xff, 0xff, 0xff, 0xff, 0xff, 0xff, 0xff],
    [0xff, 0xf7, 0x9f, 0xff, 0xff, 0xff, 0xff, 0xff],
    [0xff, 0xff, 0xff, 0xff, 0xff, 0xff, 0xff, 0xff],
    [0xff, 0xff, 0xff, 0xff, 0xff, 0xff, 0xff, 0xf7],
    [0x9f, 0xff, 0xff, 0xff, 0xff, 0xff, 0xff, 0xff],
    [0xff, 0xff, 0xff, 0xff, 0xff, 0xff, 0xff, 0xff],
    [0xff, 0xff, 0xff, 0xff, 0xff, 0xf7, 0x0, 0x0],
    [0x0, 0x0, 0x0, 0x0, 0x0, 0x0, 0x1, 0xff],
    [0xff, 0xff, 0xff, 0x0, 0x0, 0x0, 0x0, 0x0],
    [0x0, 0x0, 0x0, 0x0, 0x0, 0x0, 0x0, 0x0],
    [0x0, 0x0, 0x0, 0x0, 0x1, 0xff, 0xff, 0xff],
    [0xff, 0x0, 0x0, 0x0, 0x0, 0x0, 0x0, 0x0],
    [0x0, 0x0, 0x0, 0x0, 0x0, 0x0, 0x0, 0x0],
    [0x0, 0x0, 0x1, 0xff, 0xff, 0xff, 0xff, 0x0],
    [0x0, 0x0, 0x0, 0x0, 0x0, 0x0, 0x0, 0x0],
    [0x0, 0x0, 0x0, 0x0, 0x0, 0x0, 0x0, 0x0],
    [0x1, 0xff, 0xff, 0xff, 0xff, 0x0, 0x0, 0x0],
    [0x0, 0x0, 0x0, 0x0, 0x0, 0x0, 0x0, 0x0],
    [0x0, 0x0, 0x0, 0x0, 0x0, 0x0, 0x1, 0xff],
    [0xff, 0xff, 0xff, 0x0, 0x0, 0x0, 0x0, 0x0],
    [0x0, 0x0, 0x0, 0x0, 0x0, 0x0, 0x0, 0x0],
    [0x0, 0x0, 0x0, 0x0, 0x1, 0xff, 0xff, 0xff],
    [0xff, 0x0, 0x0, 0x0, 0x0, 0x0, 0x0, 0x0],
    [0x0, 0x0, 0x0, 0x0, 0x0, 0x0, 0x0, 0x0],
    [0x0, 0x0, 0x1, 0xff, 0xff, 0xff, 0xff, 0x0],
    [0x0, 0x0, 0x0, 0x0, 0x0, 0x0, 0x0, 0x0],
    [0x0, 0x0, 0x0, 0x0, 0x0, 0x0, 0x0, 0x0],
    [0x1, 0xff, 0xff, 0xff, 0xff, 0x0, 0x0, 0x0],
    [0x0, 0x0, 0x0, 0x0, 0x0, 0x0, 0x0, 0x0],
    [0x0, 0x0, 0x0, 0x0, 0x0, 0x0, 0x1, 0xff],
    [0xff, 0xff, 0xff, 0x0, 0x0, 0x0, 0x0, 0x0],
    [0x0, 0x0, 0x0, 0x0, 0x0, 0x0, 0x0, 0x0],
    [0x0, 0x0, 0x0, 0x0, 0x1, 0xff, 0xff, 0xff],
    [0xff, 0x0, 0x0, 0x0, 0x0, 0x0, 0x0, 0x0],
    [0x0, 0x0, 0x0, 0x0, 0x0, 0x0, 0x0, 0x0],
    [0x0, 0x0, 0x1, 0xff, 0xff, 0xff, 0xff, 0x0],
    [0x0, 0x0, 0x0, 0x0, 0x0, 0x0, 0x0, 0x0],
    [0x0, 0x0, 0x0, 0x0, 0x0, 0x0, 0x0, 0x0],
    [0x1, 0xff, 0xff, 0xff, 0xff, 0x0, 0x0, 0x0],
    [0x0, 0x0, 0x0, 0x0, 0x0, 0x0, 0x0, 0x0],
    [0x0, 0x0, 0x0, 0x0, 0x0, 0x0, 0x1, 0xff],
    [0xff, 0xff, 0xff, 0x0, 0x0, 0x0, 0x0, 0x0],
    [0x0, 0x0, 0x0, 0x0, 0x0, 0x0, 0x0, 0x0],
    [0x0, 0x0, 0x0, 0x0, 0x1, 0xff, 0xff, 0xff],
    [0xff, 0x0, 0x0, 0x0, 0x0, 0x0, 0x0, 0x0],
    [0x0, 0x0, 0x0, 0x0, 0x0, 0x0, 0x0, 0x0],
    [0x0, 0x0, 0x1, 0xff, 0xff, 0xff, 0xff, 0x0],
    [0x0, 0x0, 0x0, 0x0, 0x0, 0x0, 0x0, 0x0],
    [0x0, 0x0, 0x0, 0x0, 0x0, 0x0, 0x0, 0x0],
    [0x1, 0xff, 0xff, 0xff, 0xff, 0x0, 0x0, 0x0],
    [0x0, 0x0, 0x0, 0x0, 0x0, 0x0, 0x0, 0x0],
    [0x0, 0x0, 0x0, 0x0, 0x0, 0x0, 0x1, 0xff],
    [0xff, 0xff, 0xff, 0x0, 0x0, 0x0, 0x0, 0x0],
    [0x0, 0x0, 0x0, 0x0]]"

lemma glyph_U002B_length: "length (concat glyph_U002B) = 924"
  by (simp add: glyph_U002B_def)

definition glyph_U002C :: "u8 list list" where
  "glyph_U002C = [
    [0x0, 0x0, 0x26, 0x88, 0x61, 0x0, 0x0, 0x0],
    [0x9, 0xff, 0xff, 0xff, 0x80, 0x0, 0x0, 0xcf],
    [0xff, 0xff, 0xff, 0xfa, 0x0, 0x8, 0xff, 0xff],
    [0xff, 0xff, 0xff, 0x60, 0xf, 0xff, 0xff, 0xff],
    [0xff, 0xff, 0xd0, 0x3f, 0xff, 0xff, 0xff, 0xff],
    [0xff, 0xf2, 0x5f, 0xff, 0xff, 0xff, 0xff, 0xff],
    [0xf3, 0x5f, 0xff, 0xff, 0xff, 0xff, 0xff, 0xf3],
    [0x3f, 0xff, 0xff, 0xff, 0xff, 0xff, 0xf2, 0xd],
    [0xff, 0xff, 0xff, 0xff, 0xff, 0xf0, 0x4, 0xff],
    [0xff, 0xff, 0xff, 0xff, 0xb0, 0x0, 0x6f, 0xff],
    [0xff, 0xff, 0xff, 0x60, 0x0, 0x3, 0xcf, 0xff],
    [0xff, 0xff, 0x10, 0x0, 0x0, 0x8f, 0xff, 0xff],
    [0xfb, 0x0, 0x0, 0x0, 0xcf, 0xff, 0xff, 0xf6],
    [0x0, 0x0, 0x0, 0xff, 0xff, 0xff, 0xf1, 0x0],
    [0x0, 0x4, 0xff, 0xff, 0xff, 0xb0, 0x0, 0x0],
    [0x8, 0xff, 0xff, 0xff, 0x50, 0x0, 0x0, 0xc],
    [0xff, 0xff, 0xff, 0x0, 0x0, 0x0, 0xf, 0xff],
    [0xff, 0xfa, 0x0, 0x0, 0x0, 0x4f, 0xff, 0xff],
    [0xf5, 0x0, 0x0, 0x0, 0x8f, 0xff, 0xff, 0xf0],
    [0x0, 0x0, 0x0, 0xcf, 0xff, 0xff, 0xa0, 0x0],
    [0x0, 0x0, 0xff, 0xff, 0xff, 0x50, 0x0, 0x0],
    [0x4, 0xff, 0xff, 0xff, 0x0, 0x0, 0x0, 0x8],
    [0xff, 0xff, 0xfa, 0x0, 0x0, 0x0, 0xc, 0xff],
    [0xff, 0xf4, 0x0, 0x0, 0x0]]"

lemma glyph_U002C_length: "length (concat glyph_U002C) = 189"
  by (simp add: glyph_U002C_def)

definition glyph_U002D :: "u8 list list" where
  "glyph_U002D = [
    [0x7e, 0xee, 0xee, 0xee, 0xee, 0xee, 0xee, 0xee],
    [0xee, 0xee, 0xee, 0xee, 0xee, 0x48, 0xff, 0xff],
    [0xff, 0xff, 0xff, 0xff, 0xff, 0xff, 0xff, 0xff],
    [0xff, 0xff, 0xf4, 0x8f, 0xff, 0xff, 0xff, 0xff],
    [0xff, 0xff, 0xff, 0xff, 0xff, 0xff, 0xff, 0xff],
    [0x48, 0xff, 0xff, 0xff, 0xff, 0xff, 0xff, 0xff],
    [0xff, 0xff, 0xff, 0xff, 0xff, 0xf4, 0x8f, 0xff],
    [0xff, 0xff, 0xff, 0xff, 0xff, 0xff, 0xff, 0xff],
    [0xff, 0xff, 0xff, 0x48, 0xff, 0xff, 0xff, 0xff],
    [0xff, 0xff, 0xff, 0xff, 0xff, 0xff, 0xff, 0xff],
    [0xf4, 0x8f, 0xff, 0xff, 0xff, 0xff, 0xff, 0xff],
    [0xff, 0xff, 0xff, 0xff, 0xff, 0xff, 0x48, 0xff],
    [0xff, 0xff, 0xff, 0xff, 0xff, 0xff, 0xff, 0xff],
    [0xff, 0xff, 0xff, 0xf4]]"

lemma glyph_U002D_length: "length (concat glyph_U002D) = 108"
  by (simp add: glyph_U002D_def)

definition glyph_U002E :: "u8 list list" where
  "glyph_U002E = [
    [0x0, 0x0, 0x16, 0x88, 0x51, 0x0, 0x0, 0x0],
    [0x9, 0xff, 0xff, 0xff, 0x70, 0x0, 0x0, 0xcf],
    [0xff, 0xff, 0xff, 0xfa, 0x0, 0x9, 0xff, 0xff],
    [0xff, 0xff, 0xff, 0x60, 0x2f, 0xff, 0xff, 0xff],
    [0xff, 0xff, 0xd0, 0x6f, 0xff, 0xff, 0xff, 0xff],
    [0xff, 0xf2, 0x8f, 0xff, 0xff, 0xff, 0xff, 0xff],
    [0xf3, 0x8f, 0xff, 0xff, 0xff, 0xff, 0xff, 0xf3],
    [0x6f, 0xff, 0xff, 0xff, 0xff, 0xff, 0xf1, 0x1f],
    [0xff, 0xff, 0xff, 0xff, 0xff, 0xc0, 0x9, 0xff],
    [0xff, 0xff, 0xff, 0xff, 0x40, 0x0, 0xbf, 0xff],
    [0xff, 0xff, 0xf7, 0x0, 0x0, 0x8, 0xff, 0xff],
    [0xfe, 0x50, 0x0, 0x0, 0x0, 0x15, 0x77, 0x40],
    [0x0, 0x0]]"

lemma glyph_U002E_length: "length (concat glyph_U002E) = 98"
  by (simp add: glyph_U002E_def)

definition glyph_U002F_a :: "u8 list list" where
  "glyph_U002F_a = [
    [0x0, 0x0, 0x0, 0x0, 0x0, 0x0, 0x0, 0x0],
    [0x0, 0x0, 0x0, 0x0, 0x0, 0x0, 0x0, 0x3],
    [0xff, 0xff, 0xff, 0xff, 0x20, 0x0, 0x0, 0x0],
    [0x0, 0x0, 0x0, 0x0, 0x0, 0x0, 0x0, 0x0],
    [0x0, 0x0, 0x0, 0x0, 0x8f, 0xff, 0xff, 0xff],
    [0xd0, 0x0, 0x0, 0x0, 0x0, 0x0, 0x0, 0x0],
    [0x0, 0x0, 0x0, 0x0, 0x0, 0x0, 0x0, 0x0],
    [0xe, 0xff, 0xff, 0xff, 0xf7, 0x0, 0x0, 0x0],
    [0x0, 0x0, 0x0, 0x0, 0x0, 0x0, 0x0, 0x0],
    [0x0, 0x0, 0x0, 0x0, 0x4, 0xff, 0xff, 0xff],
    [0xff, 0x10, 0x0, 0x0, 0x0, 0x0, 0x0, 0x0],
    [0x0, 0x0, 0x0, 0x0, 0x0, 0x0, 0x0, 0x0],
    [0x0, 0x9f, 0xff, 0xff, 0xff, 0xc0, 0x0, 0x0],
    [0x0, 0x0, 0x0, 0x0, 0x0, 0x0, 0x0, 0x0],
    [0x0, 0x0, 0x0, 0x0, 0x0, 0xe, 0xff, 0xff],
    [0xff, 0xf6, 0x0, 0x0, 0x0, 0x0, 0x0, 0x0],
    [0x0, 0x0, 0x0, 0x0, 0x0, 0x0, 0x0, 0x0],
    [0x0, 0x4, 0xff, 0xff, 0xff, 0xff, 0x10, 0x0],
    [0x0, 0x0, 0x0, 0x0, 0x0, 0x0, 0x0, 0x0],
    [0x0, 0x0, 0x0, 0x0, 0x0, 0x0, 0xaf, 0xff],
    [0xff, 0xff, 0xb0, 0x0, 0x0, 0x0, 0x0, 0x0],
    [0x0, 0x0, 0x0, 0x0, 0x0, 0x0, 0x0, 0x0],
    [0x0, 0x0, 0xf, 0xff, 0xff, 0xff, 0xf5, 0x0],
    [0x0, 0x0, 0x0, 0x0, 0x0, 0x0, 0x0, 0x0],
    [0x0, 0x0, 0x0, 0x0, 0x0, 0x0, 0x5, 0xff],
    [0xff, 0xff, 0xff, 0x0, 0x0, 0x0, 0x0, 0x0],
    [0x0, 0x0, 0x0, 0x0, 0x0, 0x0, 0x0, 0x0],
    [0x0, 0x0, 0x0, 0xbf, 0xff, 0xff, 0xff, 0xa0],
    [0x0, 0x0, 0x0, 0x0, 0x0, 0x0, 0x0, 0x0],
    [0x0, 0x0, 0x0, 0x0, 0x0, 0x0, 0x0, 0x1f],
    [0xff, 0xff, 0xff, 0xf4, 0x0, 0x0, 0x0, 0x0],
    [0x0, 0x0, 0x0, 0x0, 0x0, 0x0, 0x0, 0x0],
    [0x0, 0x0, 0x0, 0x6, 0xff, 0xff, 0xff, 0xfe],
    [0x0, 0x0, 0x0, 0x0, 0x0, 0x0, 0x0, 0x0],
    [0x0, 0x0, 0x0, 0x0, 0x0, 0x0, 0x0, 0x0],
    [0xcf, 0xff, 0xff, 0xff, 0x90, 0x0, 0x0, 0x0],
    [0x0, 0x0, 0x0, 0x0, 0x0, 0x0, 0x0, 0x0],
    [0x0, 0x0, 0x0, 0x0, 0x1f, 0xff, 0xff, 0xff],
    [0xf3, 0x0, 0x0, 0x0, 0x0, 0x0, 0x0, 0x0],
    [0x0, 0x0, 0x0, 0x0, 0x0, 0x0, 0x0, 0x0],
    [0x7, 0xff, 0xff, 0xff, 0xfe, 0x0, 0x0, 0x0],
    [0x0, 0x0, 0x0, 0x0, 0x0, 0x0, 0x0, 0x0],
    [0x0, 0x0, 0x0, 0x0, 0x0, 0xdf, 0xff, 0xff],
    [0xff, 0x80, 0x0, 0x0, 0x0, 0x0, 0x0, 0x0],
    [0x0, 0x0, 0x0, 0x0, 0x0, 0x0, 0x0, 0x0],
    [0x0, 0x2f, 0xff, 0xff, 0xff, 0xf2, 0x0, 0x0],
    [0x0, 0x0, 0x0, 0x0, 0x0, 0x0, 0x0, 0x0],
    [0x0, 0x0, 0x0, 0x0, 0x0, 0x8, 0xff, 0xff],
    [0xff, 0xfd, 0x0, 0x0, 0x0, 0x0, 0x0, 0x0],
    [0x0, 0x0, 0x0, 0x0, 0x0, 0x0, 0x0, 0x0],
    [0x0, 0x0, 0xdf, 0xff, 0xff, 0xff, 0x70, 0x0],
    [0x0, 0x0, 0x0, 0x0, 0x0, 0x0, 0x0, 0x0],
    [0x0, 0x0, 0x0, 0x0, 0x0, 0x0, 0x3f, 0xff],
    [0xff, 0xff, 0xf2, 0x0, 0x0, 0x0, 0x0, 0x0],
    [0x0, 0x0, 0x0, 0x0, 0x0, 0x0, 0x0, 0x0],
    [0x0, 0x0, 0x9, 0xff, 0xff, 0xff, 0xfc, 0x0],
    [0x0, 0x0, 0x0, 0x0, 0x0, 0x0, 0x0, 0x0],
    [0x0, 0x0, 0x0, 0x0, 0x0, 0x0, 0x0, 0xef],
    [0xff, 0xff, 0xff, 0x60, 0x0, 0x0, 0x0, 0x0],
    [0x0, 0x0, 0x0, 0x0, 0x0, 0x0, 0x0, 0x0],
    [0x0, 0x0, 0x0, 0x4f, 0xff, 0xff, 0xff, 0xf1],
    [0x0, 0x0, 0x0, 0x0, 0x0, 0x0, 0x0, 0x0],
    [0x0, 0x0, 0x0, 0x0, 0x0, 0x0, 0x0, 0xa],
    [0xff, 0xff, 0xff, 0xfb, 0x0, 0x0, 0x0, 0x0],
    [0x0, 0x0, 0x0, 0x0, 0x0, 0x0, 0x0, 0x0],
    [0x0, 0x0, 0x0, 0x0, 0xff, 0xff, 0xff, 0xff],
    [0x50, 0x0, 0x0, 0x0, 0x0, 0x0, 0x0, 0x0],
    [0x0, 0x0, 0x0, 0x0, 0x0, 0x0, 0x0, 0x0],
    [0x5f, 0xff, 0xff, 0xff, 0xf0, 0x0, 0x0, 0x0],
    [0x0, 0x0, 0x0, 0x0, 0x0, 0x0, 0x0, 0x0],
    [0x0, 0x0, 0x0, 0x0, 0xb, 0xff, 0xff, 0xff],
    [0xfa, 0x0, 0x0, 0x0, 0x0, 0x0, 0x0, 0x0],
    [0x0, 0x0, 0x0, 0x0, 0x0, 0x0, 0x0, 0x0],
    [0x1, 0xff, 0xff, 0xff, 0xff, 0x40, 0x0, 0x0],
    [0x0, 0x0, 0x0, 0x0, 0x0, 0x0, 0x0, 0x0],
    [0x0, 0x0, 0x0, 0x0, 0x0, 0x6f, 0xff, 0xff],
    [0xff, 0xe0, 0x0, 0x0, 0x0, 0x0, 0x0, 0x0],
    [0x0, 0x0, 0x0, 0x0, 0x0, 0x0, 0x0, 0x0],
    [0x0, 0xc, 0xff, 0xff, 0xff, 0xf9, 0x0, 0x0],
    [0x0, 0x0, 0x0, 0x0, 0x0, 0x0, 0x0, 0x0],
    [0x0, 0x0, 0x0, 0x0, 0x0, 0x1, 0xff, 0xff],
    [0xff, 0xff, 0x40, 0x0, 0x0, 0x0, 0x0, 0x0],
    [0x0, 0x0, 0x0, 0x0, 0x0, 0x0, 0x0, 0x0],
    [0x0, 0x0, 0x7f, 0xff, 0xff, 0xff, 0xe0, 0x0],
    [0x0, 0x0, 0x0, 0x0, 0x0, 0x0, 0x0, 0x0],
    [0x0, 0x0, 0x0, 0x0, 0x0, 0x0, 0xc, 0xff],
    [0xff, 0xff, 0xf8, 0x0, 0x0, 0x0, 0x0, 0x0],
    [0x0, 0x0, 0x0, 0x0, 0x0, 0x0, 0x0, 0x0],
    [0x0, 0x0, 0x2, 0xff, 0xff, 0xff, 0xff, 0x30],
    [0x0, 0x0, 0x0, 0x0, 0x0, 0x0, 0x0, 0x0],
    [0x0, 0x0, 0x0, 0x0, 0x0, 0x0, 0x0, 0x8f],
    [0xff, 0xff, 0xff, 0xd0, 0x0, 0x0, 0x0, 0x0],
    [0x0, 0x0, 0x0, 0x0, 0x0, 0x0, 0x0, 0x0],
    [0x0, 0x0, 0x0, 0xd, 0xff, 0xff, 0xff, 0xf7],
    [0x0, 0x0, 0x0, 0x0, 0x0, 0x0, 0x0, 0x0],
    [0x0, 0x0, 0x0, 0x0, 0x0, 0x0, 0x0, 0x3],
    [0xff, 0xff, 0xff, 0xff, 0x20, 0x0, 0x0, 0x0],
    [0x0, 0x0, 0x0, 0x0, 0x0, 0x0, 0x0, 0x0],
    [0x0, 0x0, 0x0, 0x0, 0x9f, 0xff, 0xff, 0xff],
    [0xc0, 0x0, 0x0, 0x0, 0x0, 0x0, 0x0, 0x0],
    [0x0, 0x0, 0x0, 0x0, 0x0, 0x0, 0x0, 0x0],
    [0xe, 0xff, 0xff, 0xff, 0xf6, 0x0, 0x0, 0x0],
    [0x0, 0x0, 0x0, 0x0, 0x0, 0x0, 0x0, 0x0],
    [0x0, 0x0, 0x0, 0x0, 0x4, 0xff, 0xff, 0xff],
    [0xff, 0x10, 0x0, 0x0, 0x0, 0x0, 0x0, 0x0],
    [0x0, 0x0, 0x0, 0x0, 0x0, 0x0, 0x0, 0x0],
    [0x0, 0x9f, 0xff, 0xff, 0xff, 0xb0, 0x0, 0x0],
    [0x0, 0x0, 0x0, 0x0, 0x0, 0x0, 0x0, 0x0],
    [0x0, 0x0, 0x0, 0x0, 0x0, 0xf, 0xff, 0xff],
    [0xff, 0xf6, 0x0, 0x0, 0x0, 0x0, 0x0, 0x0],
    [0x0, 0x0, 0x0, 0x0, 0x0, 0x0, 0x0, 0x0],
    [0x0, 0x5, 0xff, 0xff, 0xff, 0xff, 0x0, 0x0],
    [0x0, 0x0, 0x0, 0x0, 0x0, 0x0, 0x0, 0x0],
    [0x0, 0x0, 0x0, 0x0, 0x0, 0x0, 0xaf, 0xff],
    [0xff, 0xff, 0xa0, 0x0, 0x0, 0x0, 0x0, 0x0],
    [0x0, 0x0, 0x0, 0x0, 0x0, 0x0, 0x0, 0x0],
    [0x0, 0x0, 0xf, 0xff, 0xff, 0xff, 0xf5, 0x0],
    [0x0, 0x0, 0x0, 0x0, 0x0, 0x0, 0x0, 0x0],
    [0x0, 0x0, 0x0, 0x0, 0x0, 0x0, 0x6, 0xff],
    [0xff, 0xff, 0xff, 0x0, 0x0, 0x0, 0x0, 0x0],
    [0x0, 0x0, 0x0, 0x0, 0x0, 0x0, 0x0, 0x0],
    [0x0, 0x0, 0x0, 0xbf, 0xff, 0xff, 0xff, 0x90],
    [0x0, 0x0, 0x0, 0x0, 0x0, 0x0, 0x0, 0x0],
    [0x0, 0x0, 0x0, 0x0, 0x0, 0x0, 0x0, 0x1f],
    [0xff, 0xff, 0xff, 0xf4, 0x0, 0x0, 0x0, 0x0],
    [0x0, 0x0, 0x0, 0x0, 0x0, 0x0, 0x0, 0x0],
    [0x0, 0x0, 0x0, 0x7, 0xff, 0xff, 0xff, 0xfe],
    [0x0, 0x0, 0x0, 0x0, 0x0, 0x0, 0x0, 0x0],
    [0x0, 0x0, 0x0, 0x0, 0x0, 0x0, 0x0, 0x0],
    [0xcf, 0xff, 0xff, 0xff, 0x90, 0x0, 0x0, 0x0],
    [0x0, 0x0, 0x0, 0x0, 0x0, 0x0, 0x0, 0x0],
    [0x0, 0x0, 0x0, 0x0, 0x2f, 0xff, 0xff, 0xff],
    [0xf3, 0x0, 0x0, 0x0, 0x0, 0x0, 0x0, 0x0],
    [0x0, 0x0, 0x0, 0x0, 0x0, 0x0, 0x0, 0x0],
    [0x7, 0xff, 0xff, 0xff, 0xfd, 0x0, 0x0, 0x0],
    [0x0, 0x0, 0x0, 0x0, 0x0, 0x0, 0x0, 0x0],
    [0x0, 0x0, 0x0, 0x0, 0x0, 0xdf, 0xff, 0xff],
    [0xff, 0x80, 0x0, 0x0, 0x0, 0x0, 0x0, 0x0],
    [0x0, 0x0, 0x0, 0x0, 0x0, 0x0, 0x0, 0x0],
    [0x0, 0x3f, 0xff, 0xff, 0xff, 0xf2, 0x0, 0x0],
    [0x0, 0x0, 0x0, 0x0, 0x0, 0x0, 0x0, 0x0],
    [0x0, 0x0, 0x0, 0x0, 0x0, 0x8, 0xff, 0xff],
    [0xff, 0xfc, 0x0, 0x0, 0x0, 0x0, 0x0, 0x0],
    [0x0, 0x0, 0x0, 0x0, 0x0, 0x0, 0x0, 0x0],
    [0x0, 0x0, 0xef, 0xff, 0xff, 0xff, 0x70, 0x0],
    [0x0, 0x0, 0x0, 0x0, 0x0, 0x0, 0x0, 0x0],
    [0x0, 0x0, 0x0, 0x0, 0x0, 0x0, 0x4f, 0xff],
    [0xff, 0xff, 0xf1, 0x0, 0x0, 0x0, 0x0, 0x0]]"

lemma glyph_U002F_a_length: "length (concat glyph_U002F_a) = 1184"
  by (simp add: glyph_U002F_a_def)

definition glyph_U002F_b :: "u8 list list" where
  "glyph_U002F_b = [
    [0x0, 0x0, 0x0, 0x0, 0x0, 0x0, 0x0, 0x0],
    [0x0, 0x0, 0x9, 0xff, 0xff, 0xff, 0xfb, 0x0],
    [0x0, 0x0, 0x0, 0x0, 0x0, 0x0, 0x0, 0x0],
    [0x0, 0x0, 0x0, 0x0, 0x0, 0x0, 0x0, 0xef],
    [0xff, 0xff, 0xff, 0x60, 0x0, 0x0, 0x0, 0x0],
    [0x0, 0x0, 0x0, 0x0, 0x0, 0x0, 0x0, 0x0],
    [0x0, 0x0, 0x0, 0x4f, 0xff, 0xff, 0xff, 0xf1],
    [0x0, 0x0, 0x0, 0x0, 0x0, 0x0, 0x0, 0x0],
    [0x0, 0x0, 0x0, 0x0, 0x0, 0x0, 0x0, 0xa],
    [0xff, 0xff, 0xff, 0xfb, 0x0, 0x0, 0x0, 0x0],
    [0x0, 0x0, 0x0, 0x0, 0x0, 0x0, 0x0, 0x0],
    [0x0, 0x0, 0x0, 0x0, 0xff, 0xff, 0xff, 0xff],
    [0x50, 0x0, 0x0, 0x0, 0x0, 0x0, 0x0, 0x0],
    [0x0, 0x0, 0x0, 0x0, 0x0, 0x0, 0x0, 0x0],
    [0x5f, 0xff, 0xff, 0xff, 0xf0, 0x0, 0x0, 0x0],
    [0x0, 0x0, 0x0, 0x0, 0x0, 0x0, 0x0, 0x0],
    [0x0, 0x0, 0x0, 0x0, 0xb, 0xff, 0xff, 0xff],
    [0xfa, 0x0, 0x0, 0x0, 0x0, 0x0, 0x0, 0x0],
    [0x0, 0x0, 0x0, 0x0, 0x0, 0x0, 0x0, 0x0],
    [0x1, 0xff, 0xff, 0xff, 0xff, 0x40, 0x0, 0x0],
    [0x0, 0x0, 0x0, 0x0, 0x0, 0x0, 0x0, 0x0],
    [0x0, 0x0, 0x0, 0x0, 0x0, 0x6f, 0xff, 0xff],
    [0xff, 0xe0, 0x0, 0x0, 0x0, 0x0, 0x0, 0x0],
    [0x0, 0x0, 0x0, 0x0, 0x0, 0x0, 0x0, 0x0],
    [0x0, 0xc, 0xff, 0xff, 0xff, 0xf9, 0x0, 0x0],
    [0x0, 0x0, 0x0, 0x0, 0x0, 0x0, 0x0, 0x0],
    [0x0, 0x0, 0x0, 0x0, 0x0, 0x2, 0xff, 0xff],
    [0xff, 0xff, 0x30, 0x0, 0x0, 0x0, 0x0, 0x0],
    [0x0, 0x0, 0x0, 0x0, 0x0, 0x0, 0x0, 0x0],
    [0x0, 0x0, 0x7f, 0xff, 0xff, 0xff, 0xd0, 0x0],
    [0x0, 0x0, 0x0, 0x0, 0x0, 0x0, 0x0, 0x0],
    [0x0, 0x0, 0x0, 0x0, 0x0, 0x0, 0xd, 0xff],
    [0xff, 0xff, 0xf8, 0x0, 0x0, 0x0, 0x0, 0x0],
    [0x0, 0x0, 0x0, 0x0, 0x0, 0x0, 0x0, 0x0],
    [0x0, 0x0, 0x2, 0xff, 0xff, 0xff, 0xff, 0x20],
    [0x0, 0x0, 0x0, 0x0, 0x0, 0x0, 0x0, 0x0],
    [0x0, 0x0, 0x0, 0x0, 0x0, 0x0, 0x0, 0x8f],
    [0xff, 0xff, 0xff, 0xd0, 0x0, 0x0, 0x0, 0x0],
    [0x0, 0x0, 0x0, 0x0, 0x0, 0x0, 0x0, 0x0],
    [0x0, 0x0, 0x0, 0xe, 0xff, 0xff, 0xff, 0xf7],
    [0x0, 0x0, 0x0, 0x0, 0x0, 0x0, 0x0, 0x0],
    [0x0, 0x0, 0x0, 0x0, 0x0, 0x0, 0x0, 0x3],
    [0xff, 0xff, 0xff, 0xff, 0x10, 0x0, 0x0, 0x0],
    [0x0, 0x0, 0x0, 0x0, 0x0, 0x0, 0x0, 0x0],
    [0x0, 0x0, 0x0, 0x0, 0x9f, 0xff, 0xff, 0xff],
    [0xc0, 0x0, 0x0, 0x0, 0x0, 0x0, 0x0, 0x0],
    [0x0, 0x0, 0x0, 0x0, 0x0, 0x0, 0x0, 0x0],
    [0xe, 0xff, 0xff, 0xff, 0xf6, 0x0, 0x0, 0x0],
    [0x0, 0x0, 0x0, 0x0, 0x0, 0x0, 0x0, 0x0],
    [0x0, 0x0, 0x0, 0x0, 0x4, 0xff, 0xff, 0xff],
    [0xff, 0x10, 0x0, 0x0, 0x0, 0x0, 0x0, 0x0],
    [0x0, 0x0, 0x0, 0x0, 0x0, 0x0, 0x0, 0x0],
    [0x0, 0xaf, 0xff, 0xff, 0xff, 0xb0, 0x0, 0x0],
    [0x0, 0x0, 0x0, 0x0, 0x0, 0x0, 0x0, 0x0],
    [0x0, 0x0, 0x0, 0x0, 0x0, 0xf, 0xff, 0xff],
    [0xff, 0xf5, 0x0, 0x0, 0x0, 0x0, 0x0, 0x0],
    [0x0, 0x0, 0x0, 0x0, 0x0, 0x0, 0x0, 0x0],
    [0x0, 0x5, 0xff, 0xff, 0xff, 0xff, 0x0, 0x0],
    [0x0, 0x0, 0x0, 0x0, 0x0, 0x0, 0x0, 0x0],
    [0x0, 0x0, 0x0, 0x0, 0x0, 0x0, 0xbf, 0xff],
    [0xff, 0xff, 0xa0, 0x0, 0x0, 0x0, 0x0, 0x0],
    [0x0, 0x0, 0x0, 0x0, 0x0, 0x0, 0x0, 0x0],
    [0x0, 0x0, 0x1f, 0xff, 0xff, 0xff, 0xf4, 0x0],
    [0x0, 0x0, 0x0, 0x0, 0x0, 0x0, 0x0, 0x0],
    [0x0, 0x0, 0x0, 0x0, 0x0, 0x0, 0x6, 0xff],
    [0xff, 0xff, 0xfe, 0x0, 0x0, 0x0, 0x0, 0x0],
    [0x0, 0x0, 0x0, 0x0, 0x0, 0x0, 0x0, 0x0],
    [0x0, 0x0, 0x0, 0xcf, 0xff, 0xff, 0xff, 0x90],
    [0x0, 0x0, 0x0, 0x0, 0x0, 0x0, 0x0, 0x0],
    [0x0, 0x0, 0x0, 0x0, 0x0, 0x0, 0x0, 0x1f],
    [0xff, 0xff, 0xff, 0xf3, 0x0, 0x0, 0x0, 0x0],
    [0x0, 0x0, 0x0, 0x0, 0x0, 0x0, 0x0, 0x0],
    [0x0, 0x0, 0x0, 0x7, 0xff, 0xff, 0xff, 0xfe],
    [0x0, 0x0, 0x0, 0x0, 0x0, 0x0, 0x0, 0x0],
    [0x0, 0x0, 0x0, 0x0, 0x0, 0x0, 0x0, 0x0],
    [0xcf, 0xff, 0xff, 0xff, 0x80, 0x0, 0x0, 0x0],
    [0x0, 0x0, 0x0, 0x0, 0x0, 0x0, 0x0, 0x0],
    [0x0, 0x0, 0x0, 0x0, 0x2f, 0xff, 0xff, 0xff],
    [0xf2, 0x0, 0x0, 0x0, 0x0, 0x0, 0x0, 0x0],
    [0x0, 0x0, 0x0, 0x0, 0x0, 0x0, 0x0, 0x0],
    [0x8, 0xff, 0xff, 0xff, 0xfd, 0x0, 0x0, 0x0],
    [0x0, 0x0, 0x0, 0x0, 0x0, 0x0, 0x0, 0x0],
    [0x0, 0x0, 0x0, 0x0, 0x0]]"

lemma glyph_U002F_b_length: "length (concat glyph_U002F_b) = 661"
  by (simp add: glyph_U002F_b_def)

text \<open>The bitmaps of these glyphs, in the order of the table.\<close>

definition bitmaps_signs :: "bytes list" where
  "bitmaps_signs = [
    concat glyph_U0020,
    concat glyph_U0021,
    concat glyph_U0022,
    concat glyph_U0023_a @ concat glyph_U0023_b,
    concat glyph_U0024_a @ concat glyph_U0024_b @ concat glyph_U0024_c,
    concat glyph_U0025_a @ concat glyph_U0025_b @ concat glyph_U0025_c,
    concat glyph_U0026_a @ concat glyph_U0026_b,
    concat glyph_U0027,
    concat glyph_U0028,
    concat glyph_U0029,
    concat glyph_U002A,
    concat glyph_U002B,
    concat glyph_U002C,
    concat glyph_U002D,
    concat glyph_U002E,
    concat glyph_U002F_a @ concat glyph_U002F_b]"

lemma bitmaps_signs_lengths: "map length bitmaps_signs = [0, 476, 338, 2111, 2385, 2588, 2105, 117, 935, 935, 648, 924, 189, 108, 98, 1845]"
  by (simp add: bitmaps_signs_def
    glyph_U0020_length
    glyph_U0021_length
    glyph_U0022_length
    glyph_U0023_a_length glyph_U0023_b_length
    glyph_U0024_a_length glyph_U0024_b_length glyph_U0024_c_length
    glyph_U0025_a_length glyph_U0025_b_length glyph_U0025_c_length
    glyph_U0026_a_length glyph_U0026_b_length
    glyph_U0027_length
    glyph_U0028_length
    glyph_U0029_length
    glyph_U002A_length
    glyph_U002B_length
    glyph_U002C_length
    glyph_U002D_length
    glyph_U002E_length
    glyph_U002F_a_length glyph_U002F_b_length)

end
