(* ===== verification/Montserrat_Digits.thy ===== *)
theory Montserrat_Digits
  imports Prelude
begin

text \<open>
  \<open>firmware/housepanel-giga/montserrat_96.c\<close>: the bitmaps of the glyphs U+0030 to U+003A. Each glyph is
  a list with one row per line of the source; a glyph of more than 148 lines is split in parts.
\<close>

definition glyph_U0030_a :: "u8 list list" where
  "glyph_U0030_a = [
    [0x0, 0x0, 0x0, 0x0, 0x0, 0x0, 0x0, 0x0],
    [0x0, 0x0, 0x3, 0x79, 0xcd, 0xff, 0xff, 0xec],
    [0xa7, 0x30, 0x0, 0x0, 0x0, 0x0, 0x0, 0x0],
    [0x0, 0x0, 0x0, 0x0, 0x0, 0x0, 0x0, 0x0],
    [0x0, 0x0, 0x0, 0x0, 0x0, 0x4a, 0xff, 0xff],
    [0xff, 0xff, 0xff, 0xff, 0xff, 0xff, 0xa4, 0x0],
    [0x0, 0x0, 0x0, 0x0, 0x0, 0x0, 0x0, 0x0],
    [0x0, 0x0, 0x0, 0x0, 0x0, 0x0, 0x0, 0x0],
    [0x6d, 0xff, 0xff, 0xff, 0xff, 0xff, 0xff, 0xff],
    [0xff, 0xff, 0xff, 0xd6, 0x0, 0x0, 0x0, 0x0],
    [0x0, 0x0, 0x0, 0x0, 0x0, 0x0, 0x0, 0x0],
    [0x0, 0x0, 0x0, 0x4d, 0xff, 0xff, 0xff, 0xff],
    [0xff, 0xff, 0xff, 0xff, 0xff, 0xff, 0xff, 0xff],
    [0xd4, 0x0, 0x0, 0x0, 0x0, 0x0, 0x0, 0x0],
    [0x0, 0x0, 0x0, 0x0, 0x0, 0x0, 0x9, 0xff],
    [0xff, 0xff, 0xff, 0xff, 0xff, 0xff, 0xff, 0xff],
    [0xff, 0xff, 0xff, 0xff, 0xff, 0xa0, 0x0, 0x0],
    [0x0, 0x0, 0x0, 0x0, 0x0, 0x0, 0x0, 0x0],
    [0x0, 0x2, 0xcf, 0xff, 0xff, 0xff, 0xff, 0xff],
    [0xff, 0xff, 0xff, 0xff, 0xff, 0xff, 0xff, 0xff],
    [0xff, 0xfd, 0x20, 0x0, 0x0, 0x0, 0x0, 0x0],
    [0x0, 0x0, 0x0, 0x0, 0x0, 0x3e, 0xff, 0xff],
    [0xff, 0xff, 0xff, 0xff, 0xff, 0xff, 0xff, 0xff],
    [0xff, 0xff, 0xff, 0xff, 0xff, 0xff, 0xf3, 0x0],
    [0x0, 0x0, 0x0, 0x0, 0x0, 0x0, 0x0, 0x0],
    [0x3, 0xff, 0xff, 0xff, 0xff, 0xff, 0xff, 0xff],
    [0xff, 0xff, 0xff, 0xff, 0xff, 0xff, 0xff, 0xff],
    [0xff, 0xff, 0xff, 0x30, 0x0, 0x0, 0x0, 0x0],
    [0x0, 0x0, 0x0, 0x0, 0x2e, 0xff, 0xff, 0xff],
    [0xff, 0xff, 0xff, 0xff, 0xda, 0x98, 0x89, 0xad],
    [0xff, 0xff, 0xff, 0xff, 0xff, 0xff, 0xff, 0xe2],
    [0x0, 0x0, 0x0, 0x0, 0x0, 0x0, 0x0, 0x0],
    [0xef, 0xff, 0xff, 0xff, 0xff, 0xff, 0xfc, 0x61],
    [0x0, 0x0, 0x0, 0x0, 0x16, 0xcf, 0xff, 0xff],
    [0xff, 0xff, 0xff, 0xfe, 0x10, 0x0, 0x0, 0x0],
    [0x0, 0x0, 0x0, 0xa, 0xff, 0xff, 0xff, 0xff],
    [0xff, 0xfd, 0x40, 0x0, 0x0, 0x0, 0x0, 0x0],
    [0x0, 0x4, 0xdf, 0xff, 0xff, 0xff, 0xff, 0xff],
    [0xa0, 0x0, 0x0, 0x0, 0x0, 0x0, 0x0, 0x5f],
    [0xff, 0xff, 0xff, 0xff, 0xff, 0x90, 0x0, 0x0],
    [0x0, 0x0, 0x0, 0x0, 0x0, 0x0, 0x8, 0xff],
    [0xff, 0xff, 0xff, 0xff, 0xf6, 0x0, 0x0, 0x0],
    [0x0, 0x0, 0x1, 0xff, 0xff, 0xff, 0xff, 0xff],
    [0xf6, 0x0, 0x0, 0x0, 0x0, 0x0, 0x0, 0x0],
    [0x0, 0x0, 0x0, 0x5f, 0xff, 0xff, 0xff, 0xff],
    [0xff, 0x10, 0x0, 0x0, 0x0, 0x0, 0x9, 0xff],
    [0xff, 0xff, 0xff, 0xff, 0x60, 0x0, 0x0, 0x0],
    [0x0, 0x0, 0x0, 0x0, 0x0, 0x0, 0x0, 0x5],
    [0xff, 0xff, 0xff, 0xff, 0xff, 0x90, 0x0, 0x0],
    [0x0, 0x0, 0x2f, 0xff, 0xff, 0xff, 0xff, 0xf8],
    [0x0, 0x0, 0x0, 0x0, 0x0, 0x0, 0x0, 0x0],
    [0x0, 0x0, 0x0, 0x0, 0x8f, 0xff, 0xff, 0xff],
    [0xff, 0xf2, 0x0, 0x0, 0x0, 0x0, 0xaf, 0xff],
    [0xff, 0xff, 0xff, 0xc0, 0x0, 0x0, 0x0, 0x0],
    [0x0, 0x0, 0x0, 0x0, 0x0, 0x0, 0x0, 0x0],
    [0xc, 0xff, 0xff, 0xff, 0xff, 0xfa, 0x0, 0x0],
    [0x0, 0x1, 0xff, 0xff, 0xff, 0xff, 0xff, 0x20],
    [0x0, 0x0, 0x0, 0x0, 0x0, 0x0, 0x0, 0x0],
    [0x0, 0x0, 0x0, 0x0, 0x2, 0xff, 0xff, 0xff],
    [0xff, 0xff, 0x10, 0x0, 0x0, 0x7, 0xff, 0xff],
    [0xff, 0xff, 0xf9, 0x0, 0x0, 0x0, 0x0, 0x0],
    [0x0, 0x0, 0x0, 0x0, 0x0, 0x0, 0x0, 0x0],
    [0x0, 0x8f, 0xff, 0xff, 0xff, 0xff, 0x70, 0x0],
    [0x0, 0xd, 0xff, 0xff, 0xff, 0xff, 0xf1, 0x0],
    [0x0, 0x0, 0x0, 0x0, 0x0, 0x0, 0x0, 0x0],
    [0x0, 0x0, 0x0, 0x0, 0x0, 0x1f, 0xff, 0xff],
    [0xff, 0xff, 0xd0, 0x0, 0x0, 0x3f, 0xff, 0xff],
    [0xff, 0xff, 0xa0, 0x0, 0x0, 0x0, 0x0, 0x0],
    [0x0, 0x0, 0x0, 0x0, 0x0, 0x0, 0x0, 0x0],
    [0x0, 0x9, 0xff, 0xff, 0xff, 0xff, 0xf3, 0x0],
    [0x0, 0x8f, 0xff, 0xff, 0xff, 0xff, 0x30, 0x0],
    [0x0, 0x0, 0x0, 0x0, 0x0, 0x0, 0x0, 0x0],
    [0x0, 0x0, 0x0, 0x0, 0x0, 0x3, 0xff, 0xff],
    [0xff, 0xff, 0xf8, 0x0, 0x0, 0xcf, 0xff, 0xff],
    [0xff, 0xfe, 0x0, 0x0, 0x0, 0x0, 0x0, 0x0],
    [0x0, 0x0, 0x0, 0x0, 0x0, 0x0, 0x0, 0x0],
    [0x0, 0x0, 0xef, 0xff, 0xff, 0xff, 0xfc, 0x0],
    [0x0, 0xff, 0xff, 0xff, 0xff, 0xf9, 0x0, 0x0],
    [0x0, 0x0, 0x0, 0x0, 0x0, 0x0, 0x0, 0x0],
    [0x0, 0x0, 0x0, 0x0, 0x0, 0x0, 0x9f, 0xff],
    [0xff, 0xff, 0xff, 0x10, 0x4, 0xff, 0xff, 0xff],
    [0xff, 0xf5, 0x0, 0x0, 0x0, 0x0, 0x0, 0x0],
    [0x0, 0x0, 0x0, 0x0, 0x0, 0x0, 0x0, 0x0],
    [0x0, 0x0, 0x5f, 0xff, 0xff, 0xff, 0xff, 0x50],
    [0x8, 0xff, 0xff, 0xff, 0xff, 0xf2, 0x0, 0x0],
    [0x0, 0x0, 0x0, 0x0, 0x0, 0x0, 0x0, 0x0],
    [0x0, 0x0, 0x0, 0x0, 0x0, 0x0, 0x1f, 0xff],
    [0xff, 0xff, 0xff, 0x80, 0xa, 0xff, 0xff, 0xff],
    [0xff, 0xe0, 0x0, 0x0, 0x0, 0x0, 0x0, 0x0],
    [0x0, 0x0, 0x0, 0x0, 0x0, 0x0, 0x0, 0x0],
    [0x0, 0x0, 0xe, 0xff, 0xff, 0xff, 0xff, 0xb0],
    [0xc, 0xff, 0xff, 0xff, 0xff, 0xc0, 0x0, 0x0],
    [0x0, 0x0, 0x0, 0x0, 0x0, 0x0, 0x0, 0x0],
    [0x0, 0x0, 0x0, 0x0, 0x0, 0x0, 0xb, 0xff],
    [0xff, 0xff, 0xff, 0xd0, 0xf, 0xff, 0xff, 0xff],
    [0xff, 0xa0, 0x0, 0x0, 0x0, 0x0, 0x0, 0x0],
    [0x0, 0x0, 0x0, 0x0, 0x0, 0x0, 0x0, 0x0],
    [0x0, 0x0, 0x9, 0xff, 0xff, 0xff, 0xff, 0xf0],
    [0x1f, 0xff, 0xff, 0xff, 0xff, 0x70, 0x0, 0x0],
    [0x0, 0x0, 0x0, 0x0, 0x0, 0x0, 0x0, 0x0],
    [0x0, 0x0, 0x0, 0x0, 0x0, 0x0, 0x7, 0xff],
    [0xff, 0xff, 0xff, 0xf1, 0x3f, 0xff, 0xff, 0xff],
    [0xff, 0x60, 0x0, 0x0, 0x0, 0x0, 0x0, 0x0],
    [0x0, 0x0, 0x0, 0x0, 0x0, 0x0, 0x0, 0x0],
    [0x0, 0x0, 0x6, 0xff, 0xff, 0xff, 0xff, 0xf3],
    [0x3f, 0xff, 0xff, 0xff, 0xff, 0x50, 0x0, 0x0],
    [0x0, 0x0, 0x0, 0x0, 0x0, 0x0, 0x0, 0x0],
    [0x0, 0x0, 0x0, 0x0, 0x0, 0x0, 0x4, 0xff],
    [0xff, 0xff, 0xff, 0xf4, 0x4f, 0xff, 0xff, 0xff],
    [0xff, 0x40, 0x0, 0x0, 0x0, 0x0, 0x0, 0x0],
    [0x0, 0x0, 0x0, 0x0, 0x0, 0x0, 0x0, 0x0],
    [0x0, 0x0, 0x3, 0xff, 0xff, 0xff, 0xff, 0xf4],
    [0x5f, 0xff, 0xff, 0xff, 0xff, 0x30, 0x0, 0x0],
    [0x0, 0x0, 0x0, 0x0, 0x0, 0x0, 0x0, 0x0],
    [0x0, 0x0, 0x0, 0x0, 0x0, 0x0, 0x3, 0xff],
    [0xff, 0xff, 0xff, 0xf5, 0x5f, 0xff, 0xff, 0xff],
    [0xff, 0x30, 0x0, 0x0, 0x0, 0x0, 0x0, 0x0],
    [0x0, 0x0, 0x0, 0x0, 0x0, 0x0, 0x0, 0x0],
    [0x0, 0x0, 0x3, 0xff, 0xff, 0xff, 0xff, 0xf6],
    [0x6f, 0xff, 0xff, 0xff, 0xff, 0x30, 0x0, 0x0],
    [0x0, 0x0, 0x0, 0x0, 0x0, 0x0, 0x0, 0x0],
    [0x0, 0x0, 0x0, 0x0, 0x0, 0x0, 0x2, 0xff],
    [0xff, 0xff, 0xff, 0xf6, 0x5f, 0xff, 0xff, 0xff],
    [0xff, 0x30, 0x0, 0x0, 0x0, 0x0, 0x0, 0x0],
    [0x0, 0x0, 0x0, 0x0, 0x0, 0x0, 0x0, 0x0],
    [0x0, 0x0, 0x3, 0xff, 0xff, 0xff, 0xff, 0xf5],
    [0x4f, 0xff, 0xff, 0xff, 0xff, 0x40, 0x0, 0x0],
    [0x0, 0x0, 0x0, 0x0, 0x0, 0x0, 0x0, 0x0],
    [0x0, 0x0, 0x0, 0x0, 0x0, 0x0, 0x3, 0xff],
    [0xff, 0xff, 0xff, 0xf5, 0x4f, 0xff, 0xff, 0xff],
    [0xff, 0x40, 0x0, 0x0, 0x0, 0x0, 0x0, 0x0],
    [0x0, 0x0, 0x0, 0x0, 0x0, 0x0, 0x0, 0x0],
    [0x0, 0x0, 0x4, 0xff, 0xff, 0xff, 0xff, 0xf4],
    [0x3f, 0xff, 0xff, 0xff, 0xff, 0x50, 0x0, 0x0],
    [0x0, 0x0, 0x0, 0x0, 0x0, 0x0, 0x0, 0x0],
    [0x0, 0x0, 0x0, 0x0, 0x0, 0x0, 0x5, 0xff],
    [0xff, 0xff, 0xff, 0xf3, 0x2f, 0xff, 0xff, 0xff],
    [0xff, 0x70, 0x0, 0x0, 0x0, 0x0, 0x0, 0x0],
    [0x0, 0x0, 0x0, 0x0, 0x0, 0x0, 0x0, 0x0],
    [0x0, 0x0, 0x6, 0xff, 0xff, 0xff, 0xff, 0xf2],
    [0xf, 0xff, 0xff, 0xff, 0xff, 0x80, 0x0, 0x0],
    [0x0, 0x0, 0x0, 0x0, 0x0, 0x0, 0x0, 0x0],
    [0x0, 0x0, 0x0, 0x0, 0x0, 0x0, 0x8, 0xff],
    [0xff, 0xff, 0xff, 0xf0, 0xe, 0xff, 0xff, 0xff],
    [0xff, 0xb0, 0x0, 0x0, 0x0, 0x0, 0x0, 0x0],
    [0x0, 0x0, 0x0, 0x0, 0x0, 0x0, 0x0, 0x0],
    [0x0, 0x0, 0xa, 0xff, 0xff, 0xff, 0xff, 0xe0],
    [0xb, 0xff, 0xff, 0xff, 0xff, 0xd0, 0x0, 0x0]]"

lemma glyph_U0030_a_length: "length (concat glyph_U0030_a) = 1184"
  by (simp add: glyph_U0030_a_def)

definition glyph_U0030_b :: "u8 list list" where
  "glyph_U0030_b = [
    [0x0, 0x0, 0x0, 0x0, 0x0, 0x0, 0x0, 0x0],
    [0x0, 0x0, 0x0, 0x0, 0x0, 0x0, 0xd, 0xff],
    [0xff, 0xff, 0xff, 0xc0, 0x9, 0xff, 0xff, 0xff],
    [0xff, 0xf0, 0x0, 0x0, 0x0, 0x0, 0x0, 0x0],
    [0x0, 0x0, 0x0, 0x0, 0x0, 0x0, 0x0, 0x0],
    [0x0, 0x0, 0xf, 0xff, 0xff, 0xff, 0xff, 0x90],
    [0x6, 0xff, 0xff, 0xff, 0xff, 0xf3, 0x0, 0x0],
    [0x0, 0x0, 0x0, 0x0, 0x0, 0x0, 0x0, 0x0],
    [0x0, 0x0, 0x0, 0x0, 0x0, 0x0, 0x3f, 0xff],
    [0xff, 0xff, 0xff, 0x70, 0x2, 0xff, 0xff, 0xff],
    [0xff, 0xf7, 0x0, 0x0, 0x0, 0x0, 0x0, 0x0],
    [0x0, 0x0, 0x0, 0x0, 0x0, 0x0, 0x0, 0x0],
    [0x0, 0x0, 0x7f, 0xff, 0xff, 0xff, 0xff, 0x30],
    [0x0, 0xef, 0xff, 0xff, 0xff, 0xfc, 0x0, 0x0],
    [0x0, 0x0, 0x0, 0x0, 0x0, 0x0, 0x0, 0x0],
    [0x0, 0x0, 0x0, 0x0, 0x0, 0x0, 0xbf, 0xff],
    [0xff, 0xff, 0xfe, 0x0, 0x0, 0xaf, 0xff, 0xff],
    [0xff, 0xff, 0x10, 0x0, 0x0, 0x0, 0x0, 0x0],
    [0x0, 0x0, 0x0, 0x0, 0x0, 0x0, 0x0, 0x0],
    [0x0, 0x1, 0xff, 0xff, 0xff, 0xff, 0xfb, 0x0],
    [0x0, 0x6f, 0xff, 0xff, 0xff, 0xff, 0x70, 0x0],
    [0x0, 0x0, 0x0, 0x0, 0x0, 0x0, 0x0, 0x0],
    [0x0, 0x0, 0x0, 0x0, 0x0, 0x6, 0xff, 0xff],
    [0xff, 0xff, 0xf6, 0x0, 0x0, 0x1f, 0xff, 0xff],
    [0xff, 0xff, 0xd0, 0x0, 0x0, 0x0, 0x0, 0x0],
    [0x0, 0x0, 0x0, 0x0, 0x0, 0x0, 0x0, 0x0],
    [0x0, 0xd, 0xff, 0xff, 0xff, 0xff, 0xf1, 0x0],
    [0x0, 0xa, 0xff, 0xff, 0xff, 0xff, 0xf5, 0x0],
    [0x0, 0x0, 0x0, 0x0, 0x0, 0x0, 0x0, 0x0],
    [0x0, 0x0, 0x0, 0x0, 0x0, 0x4f, 0xff, 0xff],
    [0xff, 0xff, 0xa0, 0x0, 0x0, 0x4, 0xff, 0xff],
    [0xff, 0xff, 0xfd, 0x0, 0x0, 0x0, 0x0, 0x0],
    [0x0, 0x0, 0x0, 0x0, 0x0, 0x0, 0x0, 0x0],
    [0x0, 0xcf, 0xff, 0xff, 0xff, 0xff, 0x40, 0x0],
    [0x0, 0x0, 0xdf, 0xff, 0xff, 0xff, 0xff, 0x70],
    [0x0, 0x0, 0x0, 0x0, 0x0, 0x0, 0x0, 0x0],
    [0x0, 0x0, 0x0, 0x0, 0x7, 0xff, 0xff, 0xff],
    [0xff, 0xfe, 0x0, 0x0, 0x0, 0x0, 0x6f, 0xff],
    [0xff, 0xff, 0xff, 0xf2, 0x0, 0x0, 0x0, 0x0],
    [0x0, 0x0, 0x0, 0x0, 0x0, 0x0, 0x0, 0x0],
    [0x2f, 0xff, 0xff, 0xff, 0xff, 0xf6, 0x0, 0x0],
    [0x0, 0x0, 0xd, 0xff, 0xff, 0xff, 0xff, 0xfd],
    [0x10, 0x0, 0x0, 0x0, 0x0, 0x0, 0x0, 0x0],
    [0x0, 0x0, 0x0, 0x1, 0xdf, 0xff, 0xff, 0xff],
    [0xff, 0xd0, 0x0, 0x0, 0x0, 0x0, 0x4, 0xff],
    [0xff, 0xff, 0xff, 0xff, 0xc1, 0x0, 0x0, 0x0],
    [0x0, 0x0, 0x0, 0x0, 0x0, 0x0, 0x0, 0xc],
    [0xff, 0xff, 0xff, 0xff, 0xff, 0x50, 0x0, 0x0],
    [0x0, 0x0, 0x0, 0xbf, 0xff, 0xff, 0xff, 0xff],
    [0xfd, 0x20, 0x0, 0x0, 0x0, 0x0, 0x0, 0x0],
    [0x0, 0x0, 0x1, 0xcf, 0xff, 0xff, 0xff, 0xff],
    [0xfb, 0x0, 0x0, 0x0, 0x0, 0x0, 0x0, 0x1e],
    [0xff, 0xff, 0xff, 0xff, 0xff, 0xe5, 0x0, 0x0],
    [0x0, 0x0, 0x0, 0x0, 0x0, 0x0, 0x5e, 0xff],
    [0xff, 0xff, 0xff, 0xff, 0xe1, 0x0, 0x0, 0x0],
    [0x0, 0x0, 0x0, 0x4, 0xff, 0xff, 0xff, 0xff],
    [0xff, 0xff, 0xc4, 0x0, 0x0, 0x0, 0x0, 0x0],
    [0x0, 0x4c, 0xff, 0xff, 0xff, 0xff, 0xff, 0xff],
    [0x50, 0x0, 0x0, 0x0, 0x0, 0x0, 0x0, 0x0],
    [0x8f, 0xff, 0xff, 0xff, 0xff, 0xff, 0xff, 0xe9],
    [0x52, 0x10, 0x0, 0x25, 0x9d, 0xff, 0xff, 0xff],
    [0xff, 0xff, 0xff, 0xf9, 0x0, 0x0, 0x0, 0x0],
    [0x0, 0x0, 0x0, 0x0, 0x9, 0xff, 0xff, 0xff],
    [0xff, 0xff, 0xff, 0xff, 0xff, 0xff, 0xff, 0xff],
    [0xff, 0xff, 0xff, 0xff, 0xff, 0xff, 0xff, 0xa0],
    [0x0, 0x0, 0x0, 0x0, 0x0, 0x0, 0x0, 0x0],
    [0x0, 0xaf, 0xff, 0xff, 0xff, 0xff, 0xff, 0xff],
    [0xff, 0xff, 0xff, 0xff, 0xff, 0xff, 0xff, 0xff],
    [0xff, 0xff, 0xfa, 0x0, 0x0, 0x0, 0x0, 0x0],
    [0x0, 0x0, 0x0, 0x0, 0x0, 0x9, 0xff, 0xff],
    [0xff, 0xff, 0xff, 0xff, 0xff, 0xff, 0xff, 0xff],
    [0xff, 0xff, 0xff, 0xff, 0xff, 0xff, 0x90, 0x0],
    [0x0, 0x0, 0x0, 0x0, 0x0, 0x0, 0x0, 0x0],
    [0x0, 0x0, 0x5f, 0xff, 0xff, 0xff, 0xff, 0xff],
    [0xff, 0xff, 0xff, 0xff, 0xff, 0xff, 0xff, 0xff],
    [0xff, 0xf5, 0x0, 0x0, 0x0, 0x0, 0x0, 0x0],
    [0x0, 0x0, 0x0, 0x0, 0x0, 0x0, 0x2, 0xcf],
    [0xff, 0xff, 0xff, 0xff, 0xff, 0xff, 0xff, 0xff],
    [0xff, 0xff, 0xff, 0xff, 0xfc, 0x20, 0x0, 0x0],
    [0x0, 0x0, 0x0, 0x0, 0x0, 0x0, 0x0, 0x0],
    [0x0, 0x0, 0x0, 0x6, 0xef, 0xff, 0xff, 0xff],
    [0xff, 0xff, 0xff, 0xff, 0xff, 0xff, 0xff, 0xfe],
    [0x60, 0x0, 0x0, 0x0, 0x0, 0x0, 0x0, 0x0],
    [0x0, 0x0, 0x0, 0x0, 0x0, 0x0, 0x0, 0x0],
    [0x6, 0xcf, 0xff, 0xff, 0xff, 0xff, 0xff, 0xff],
    [0xff, 0xff, 0xfc, 0x60, 0x0, 0x0, 0x0, 0x0],
    [0x0, 0x0, 0x0, 0x0, 0x0, 0x0, 0x0, 0x0],
    [0x0, 0x0, 0x0, 0x0, 0x0, 0x2, 0x7b, 0xff],
    [0xff, 0xff, 0xff, 0xff, 0xff, 0xb7, 0x20, 0x0],
    [0x0, 0x0, 0x0, 0x0, 0x0, 0x0, 0x0, 0x0],
    [0x0, 0x0, 0x0, 0x0, 0x0, 0x0, 0x0, 0x0],
    [0x0, 0x0, 0x0, 0x2, 0x46, 0x77, 0x77, 0x64],
    [0x20, 0x0, 0x0, 0x0, 0x0, 0x0, 0x0, 0x0],
    [0x0, 0x0, 0x0, 0x0]]"

lemma glyph_U0030_b_length: "length (concat glyph_U0030_b) = 748"
  by (simp add: glyph_U0030_b_def)

definition glyph_U0031 :: "u8 list list" where
  "glyph_U0031 = [
    [0x3f, 0xff, 0xff, 0xff, 0xff, 0xff, 0xff, 0xff],
    [0xff, 0xff, 0xff, 0xff, 0xf7, 0x3f, 0xff, 0xff],
    [0xff, 0xff, 0xff, 0xff, 0xff, 0xff, 0xff, 0xff],
    [0xff, 0xf7, 0x3f, 0xff, 0xff, 0xff, 0xff, 0xff],
    [0xff, 0xff, 0xff, 0xff, 0xff, 0xff, 0xf7, 0x3f],
    [0xff, 0xff, 0xff, 0xff, 0xff, 0xff, 0xff, 0xff],
    [0xff, 0xff, 0xff, 0xf7, 0x3f, 0xff, 0xff, 0xff],
    [0xff, 0xff, 0xff, 0xff, 0xff, 0xff, 0xff, 0xff],
    [0xf7, 0x3f, 0xff, 0xff, 0xff, 0xff, 0xff, 0xff],
    [0xff, 0xff, 0xff, 0xff, 0xff, 0xf7, 0x3f, 0xff],
    [0xff, 0xff, 0xff, 0xff, 0xff, 0xff, 0xff, 0xff],
    [0xff, 0xff, 0xf7, 0x3f, 0xff, 0xff, 0xff, 0xff],
    [0xff, 0xff, 0xff, 0xff, 0xff, 0xff, 0xff, 0xf7],
    [0x14, 0x44, 0x44, 0x44, 0x44, 0x44, 0x44, 0x45],
    [0xff, 0xff, 0xff, 0xff, 0xf7, 0x0, 0x0, 0x0],
    [0x0, 0x0, 0x0, 0x0, 0x1, 0xff, 0xff, 0xff],
    [0xff, 0xf7, 0x0, 0x0, 0x0, 0x0, 0x0, 0x0],
    [0x0, 0x1, 0xff, 0xff, 0xff, 0xff, 0xf7, 0x0],
    [0x0, 0x0, 0x0, 0x0, 0x0, 0x0, 0x1, 0xff],
    [0xff, 0xff, 0xff, 0xf7, 0x0, 0x0, 0x0, 0x0],
    [0x0, 0x0, 0x0, 0x1, 0xff, 0xff, 0xff, 0xff],
    [0xf7, 0x0, 0x0, 0x0, 0x0, 0x0, 0x0, 0x0],
    [0x1, 0xff, 0xff, 0xff, 0xff, 0xf7, 0x0, 0x0],
    [0x0, 0x0, 0x0, 0x0, 0x0, 0x1, 0xff, 0xff],
    [0xff, 0xff, 0xf7, 0x0, 0x0, 0x0, 0x0, 0x0],
    [0x0, 0x0, 0x1, 0xff, 0xff, 0xff, 0xff, 0xf7],
    [0x0, 0x0, 0x0, 0x0, 0x0, 0x0, 0x0, 0x1],
    [0xff, 0xff, 0xff, 0xff, 0xf7, 0x0, 0x0, 0x0],
    [0x0, 0x0, 0x0, 0x0, 0x1, 0xff, 0xff, 0xff],
    [0xff, 0xf7, 0x0, 0x0, 0x0, 0x0, 0x0, 0x0],
    [0x0, 0x1, 0xff, 0xff, 0xff, 0xff, 0xf7, 0x0],
    [0x0, 0x0, 0x0, 0x0, 0x0, 0x0, 0x1, 0xff],
    [0xff, 0xff, 0xff, 0xf7, 0x0, 0x0, 0x0, 0x0],
    [0x0, 0x0, 0x0, 0x1, 0xff, 0xff, 0xff, 0xff],
    [0xf7, 0x0, 0x0, 0x0, 0x0, 0x0, 0x0, 0x0],
    [0x1, 0xff, 0xff, 0xff, 0xff, 0xf7, 0x0, 0x0],
    [0x0, 0x0, 0x0, 0x0, 0x0, 0x1, 0xff, 0xff],
    [0xff, 0xff, 0xf7, 0x0, 0x0, 0x0, 0x0, 0x0],
    [0x0, 0x0, 0x1, 0xff, 0xff, 0xff, 0xff, 0xf7],
    [0x0, 0x0, 0x0, 0x0, 0x0, 0x0, 0x0, 0x1],
    [0xff, 0xff, 0xff, 0xff, 0xf7, 0x0, 0x0, 0x0],
    [0x0, 0x0, 0x0, 0x0, 0x1, 0xff, 0xff, 0xff],
    [0xff, 0xf7, 0x0, 0x0, 0x0, 0x0, 0x0, 0x0],
    [0x0, 0x1, 0xff, 0xff, 0xff, 0xff, 0xf7, 0x0],
    [0x0, 0x0, 0x0, 0x0, 0x0, 0x0, 0x1, 0xff],
    [0xff, 0xff, 0xff, 0xf7, 0x0, 0x0, 0x0, 0x0],
    [0x0, 0x0, 0x0, 0x1, 0xff, 0xff, 0xff, 0xff],
    [0xf7, 0x0, 0x0, 0x0, 0x0, 0x0, 0x0, 0x0],
    [0x1, 0xff, 0xff, 0xff, 0xff, 0xf7, 0x0, 0x0],
    [0x0, 0x0, 0x0, 0x0, 0x0, 0x1, 0xff, 0xff],
    [0xff, 0xff, 0xf7, 0x0, 0x0, 0x0, 0x0, 0x0],
    [0x0, 0x0, 0x1, 0xff, 0xff, 0xff, 0xff, 0xf7],
    [0x0, 0x0, 0x0, 0x0, 0x0, 0x0, 0x0, 0x1],
    [0xff, 0xff, 0xff, 0xff, 0xf7, 0x0, 0x0, 0x0],
    [0x0, 0x0, 0x0, 0x0, 0x1, 0xff, 0xff, 0xff],
    [0xff, 0xf7, 0x0, 0x0, 0x0, 0x0, 0x0, 0x0],
    [0x0, 0x1, 0xff, 0xff, 0xff, 0xff, 0xf7, 0x0],
    [0x0, 0x0, 0x0, 0x0, 0x0, 0x0, 0x1, 0xff],
    [0xff, 0xff, 0xff, 0xf7, 0x0, 0x0, 0x0, 0x0],
    [0x0, 0x0, 0x0, 0x1, 0xff, 0xff, 0xff, 0xff],
    [0xf7, 0x0, 0x0, 0x0, 0x0, 0x0, 0x0, 0x0],
    [0x1, 0xff, 0xff, 0xff, 0xff, 0xf7, 0x0, 0x0],
    [0x0, 0x0, 0x0, 0x0, 0x0, 0x1, 0xff, 0xff],
    [0xff, 0xff, 0xf7, 0x0, 0x0, 0x0, 0x0, 0x0],
    [0x0, 0x0, 0x1, 0xff, 0xff, 0xff, 0xff, 0xf7],
    [0x0, 0x0, 0x0, 0x0, 0x0, 0x0, 0x0, 0x1],
    [0xff, 0xff, 0xff, 0xff, 0xf7, 0x0, 0x0, 0x0],
    [0x0, 0x0, 0x0, 0x0, 0x1, 0xff, 0xff, 0xff],
    [0xff, 0xf7, 0x0, 0x0, 0x0, 0x0, 0x0, 0x0],
    [0x0, 0x1, 0xff, 0xff, 0xff, 0xff, 0xf7, 0x0],
    [0x0, 0x0, 0x0, 0x0, 0x0, 0x0, 0x1, 0xff],
    [0xff, 0xff, 0xff, 0xf7, 0x0, 0x0, 0x0, 0x0],
    [0x0, 0x0, 0x0, 0x1, 0xff, 0xff, 0xff, 0xff],
    [0xf7, 0x0, 0x0, 0x0, 0x0, 0x0, 0x0, 0x0],
    [0x1, 0xff, 0xff, 0xff, 0xff, 0xf7, 0x0, 0x0],
    [0x0, 0x0, 0x0, 0x0, 0x0, 0x1, 0xff, 0xff],
    [0xff, 0xff, 0xf7, 0x0, 0x0, 0x0, 0x0, 0x0],
    [0x0, 0x0, 0x1, 0xff, 0xff, 0xff, 0xff, 0xf7],
    [0x0, 0x0, 0x0, 0x0, 0x0, 0x0, 0x0, 0x1],
    [0xff, 0xff, 0xff, 0xff, 0xf7, 0x0, 0x0, 0x0],
    [0x0, 0x0, 0x0, 0x0, 0x1, 0xff, 0xff, 0xff],
    [0xff, 0xf7, 0x0, 0x0, 0x0, 0x0, 0x0, 0x0],
    [0x0, 0x1, 0xff, 0xff, 0xff, 0xff, 0xf7, 0x0],
    [0x0, 0x0, 0x0, 0x0, 0x0, 0x0, 0x1, 0xff],
    [0xff, 0xff, 0xff, 0xf7, 0x0, 0x0, 0x0, 0x0],
    [0x0, 0x0, 0x0, 0x1, 0xff, 0xff, 0xff, 0xff],
    [0xf7, 0x0, 0x0, 0x0, 0x0, 0x0, 0x0, 0x0],
    [0x1, 0xff, 0xff, 0xff, 0xff, 0xf7, 0x0, 0x0],
    [0x0, 0x0, 0x0, 0x0, 0x0, 0x1, 0xff, 0xff],
    [0xff, 0xff, 0xf7, 0x0, 0x0, 0x0, 0x0, 0x0],
    [0x0, 0x0, 0x1, 0xff, 0xff, 0xff, 0xff, 0xf7],
    [0x0, 0x0, 0x0, 0x0, 0x0, 0x0, 0x0, 0x1],
    [0xff, 0xff, 0xff, 0xff, 0xf7, 0x0, 0x0, 0x0],
    [0x0, 0x0, 0x0, 0x0, 0x1, 0xff, 0xff, 0xff],
    [0xff, 0xf7, 0x0, 0x0, 0x0, 0x0, 0x0, 0x0],
    [0x0, 0x1, 0xff, 0xff, 0xff, 0xff, 0xf7, 0x0],
    [0x0, 0x0, 0x0, 0x0, 0x0, 0x0, 0x1, 0xff],
    [0xff, 0xff, 0xff, 0xf7, 0x0, 0x0, 0x0, 0x0],
    [0x0, 0x0, 0x0, 0x1, 0xff, 0xff, 0xff, 0xff],
    [0xf7, 0x0, 0x0, 0x0, 0x0, 0x0, 0x0, 0x0],
    [0x1, 0xff, 0xff, 0xff, 0xff, 0xf7, 0x0, 0x0],
    [0x0, 0x0, 0x0, 0x0, 0x0, 0x1, 0xff, 0xff],
    [0xff, 0xff, 0xf7, 0x0, 0x0, 0x0, 0x0, 0x0],
    [0x0, 0x0, 0x1, 0xff, 0xff, 0xff, 0xff, 0xf7],
    [0x0, 0x0, 0x0, 0x0, 0x0, 0x0, 0x0, 0x1],
    [0xff, 0xff, 0xff, 0xff, 0xf7, 0x0, 0x0, 0x0],
    [0x0, 0x0, 0x0, 0x0, 0x1, 0xff, 0xff, 0xff],
    [0xff, 0xf7, 0x0, 0x0, 0x0, 0x0, 0x0, 0x0],
    [0x0, 0x1, 0xff, 0xff, 0xff, 0xff, 0xf7]]"

lemma glyph_U0031_length: "length (concat glyph_U0031) = 871"
  by (simp add: glyph_U0031_def)

definition glyph_U0032_a :: "u8 list list" where
  "glyph_U0032_a = [
    [0x0, 0x0, 0x0, 0x0, 0x0, 0x0, 0x0, 0x0],
    [0x0, 0x1, 0x35, 0x66, 0x77, 0x66, 0x43, 0x10],
    [0x0, 0x0, 0x0, 0x0, 0x0, 0x0, 0x0, 0x0],
    [0x0, 0x0, 0x0, 0x0, 0x0, 0x0, 0x0, 0x0],
    [0x1, 0x59, 0xdf, 0xff, 0xff, 0xff, 0xff, 0xff],
    [0xff, 0xeb, 0x72, 0x0, 0x0, 0x0, 0x0, 0x0],
    [0x0, 0x0, 0x0, 0x0, 0x0, 0x0, 0x0, 0x0],
    [0x1, 0x7d, 0xff, 0xff, 0xff, 0xff, 0xff, 0xff],
    [0xff, 0xff, 0xff, 0xff, 0xfd, 0x71, 0x0, 0x0],
    [0x0, 0x0, 0x0, 0x0, 0x0, 0x0, 0x0, 0x0],
    [0x0, 0x4b, 0xff, 0xff, 0xff, 0xff, 0xff, 0xff],
    [0xff, 0xff, 0xff, 0xff, 0xff, 0xff, 0xff, 0xf8],
    [0x10, 0x0, 0x0, 0x0, 0x0, 0x0, 0x0, 0x0],
    [0x0, 0x4, 0xcf, 0xff, 0xff, 0xff, 0xff, 0xff],
    [0xff, 0xff, 0xff, 0xff, 0xff, 0xff, 0xff, 0xff],
    [0xff, 0xfe, 0x50, 0x0, 0x0, 0x0, 0x0, 0x0],
    [0x0, 0x0, 0x1a, 0xff, 0xff, 0xff, 0xff, 0xff],
    [0xff, 0xff, 0xff, 0xff, 0xff, 0xff, 0xff, 0xff],
    [0xff, 0xff, 0xff, 0xff, 0x90, 0x0, 0x0, 0x0],
    [0x0, 0x0, 0x0, 0x4e, 0xff, 0xff, 0xff, 0xff],
    [0xff, 0xff, 0xff, 0xff, 0xff, 0xff, 0xff, 0xff],
    [0xff, 0xff, 0xff, 0xff, 0xff, 0xff, 0xb0, 0x0],
    [0x0, 0x0, 0x0, 0x0, 0x7f, 0xff, 0xff, 0xff],
    [0xff, 0xff, 0xff, 0xff, 0xff, 0xff, 0xff, 0xff],
    [0xff, 0xff, 0xff, 0xff, 0xff, 0xff, 0xff, 0xff],
    [0xb0, 0x0, 0x0, 0x0, 0x0, 0xaf, 0xff, 0xff],
    [0xff, 0xff, 0xff, 0xff, 0xff, 0xff, 0xff, 0xff],
    [0xff, 0xff, 0xff, 0xff, 0xff, 0xff, 0xff, 0xff],
    [0xff, 0xff, 0x90, 0x0, 0x0, 0x0, 0x9f, 0xff],
    [0xff, 0xff, 0xff, 0xff, 0xff, 0xff, 0xc8, 0x53],
    [0x11, 0x0, 0x12, 0x36, 0x9d, 0xff, 0xff, 0xff],
    [0xff, 0xff, 0xff, 0xff, 0x40, 0x0, 0x0, 0x6f],
    [0xff, 0xff, 0xff, 0xff, 0xff, 0xff, 0xb5, 0x0],
    [0x0, 0x0, 0x0, 0x0, 0x0, 0x0, 0x3, 0x9f],
    [0xff, 0xff, 0xff, 0xff, 0xff, 0xfd, 0x0, 0x0],
    [0x0, 0x9f, 0xff, 0xff, 0xff, 0xff, 0xfa, 0x20],
    [0x0, 0x0, 0x0, 0x0, 0x0, 0x0, 0x0, 0x0],
    [0x0, 0x3c, 0xff, 0xff, 0xff, 0xff, 0xff, 0xf6],
    [0x0, 0x0, 0x0, 0x7f, 0xff, 0xff, 0xff, 0xd3],
    [0x0, 0x0, 0x0, 0x0, 0x0, 0x0, 0x0, 0x0],
    [0x0, 0x0, 0x0, 0xb, 0xff, 0xff, 0xff, 0xff],
    [0xff, 0xc0, 0x0, 0x0, 0x0, 0x5f, 0xff, 0xff],
    [0xa0, 0x0, 0x0, 0x0, 0x0, 0x0, 0x0, 0x0],
    [0x0, 0x0, 0x0, 0x0, 0x0, 0xc, 0xff, 0xff],
    [0xff, 0xff, 0xff, 0x20, 0x0, 0x0, 0x0, 0x3e],
    [0xff, 0x80, 0x0, 0x0, 0x0, 0x0, 0x0, 0x0],
    [0x0, 0x0, 0x0, 0x0, 0x0, 0x0, 0x0, 0x2f],
    [0xff, 0xff, 0xff, 0xff, 0xf6, 0x0, 0x0, 0x0],
    [0x0, 0x2d, 0x90, 0x0, 0x0, 0x0, 0x0, 0x0],
    [0x0, 0x0, 0x0, 0x0, 0x0, 0x0, 0x0, 0x0],
    [0x0, 0x9f, 0xff, 0xff, 0xff, 0xff, 0xa0, 0x0],
    [0x0, 0x0, 0x0, 0x0, 0x0, 0x0, 0x0, 0x0],
    [0x0, 0x0, 0x0, 0x0, 0x0, 0x0, 0x0, 0x0],
    [0x0, 0x0, 0x3, 0xff, 0xff, 0xff, 0xff, 0xfc],
    [0x0, 0x0, 0x0, 0x0, 0x0, 0x0, 0x0, 0x0],
    [0x0, 0x0, 0x0, 0x0, 0x0, 0x0, 0x0, 0x0],
    [0x0, 0x0, 0x0, 0x0, 0xe, 0xff, 0xff, 0xff],
    [0xff, 0xe0, 0x0, 0x0, 0x0, 0x0, 0x0, 0x0],
    [0x0, 0x0, 0x0, 0x0, 0x0, 0x0, 0x0, 0x0],
    [0x0, 0x0, 0x0, 0x0, 0x0, 0x0, 0xcf, 0xff],
    [0xff, 0xff, 0xfe, 0x0, 0x0, 0x0, 0x0, 0x0],
    [0x0, 0x0, 0x0, 0x0, 0x0, 0x0, 0x0, 0x0],
    [0x0, 0x0, 0x0, 0x0, 0x0, 0x0, 0x0, 0xb],
    [0xff, 0xff, 0xff, 0xff, 0xe0, 0x0, 0x0, 0x0],
    [0x0, 0x0, 0x0, 0x0, 0x0, 0x0, 0x0, 0x0],
    [0x0, 0x0, 0x0, 0x0, 0x0, 0x0, 0x0, 0x0],
    [0x0, 0xaf, 0xff, 0xff, 0xff, 0xfe, 0x0, 0x0],
    [0x0, 0x0, 0x0, 0x0, 0x0, 0x0, 0x0, 0x0],
    [0x0, 0x0, 0x0, 0x0, 0x0, 0x0, 0x0, 0x0],
    [0x0, 0x0, 0xb, 0xff, 0xff, 0xff, 0xff, 0xd0],
    [0x0, 0x0, 0x0, 0x0, 0x0, 0x0, 0x0, 0x0],
    [0x0, 0x0, 0x0, 0x0, 0x0, 0x0, 0x0, 0x0],
    [0x0, 0x0, 0x0, 0x0, 0xef, 0xff, 0xff, 0xff],
    [0xfa, 0x0, 0x0, 0x0, 0x0, 0x0, 0x0, 0x0],
    [0x0, 0x0, 0x0, 0x0, 0x0, 0x0, 0x0, 0x0],
    [0x0, 0x0, 0x0, 0x0, 0x0, 0x1f, 0xff, 0xff],
    [0xff, 0xff, 0x80, 0x0, 0x0, 0x0, 0x0, 0x0],
    [0x0, 0x0, 0x0, 0x0, 0x0, 0x0, 0x0, 0x0],
    [0x0, 0x0, 0x0, 0x0, 0x0, 0x0, 0x5, 0xff],
    [0xff, 0xff, 0xff, 0xf5, 0x0, 0x0, 0x0, 0x0],
    [0x0, 0x0, 0x0, 0x0, 0x0, 0x0, 0x0, 0x0],
    [0x0, 0x0, 0x0, 0x0, 0x0, 0x0, 0x0, 0x0],
    [0xbf, 0xff, 0xff, 0xff, 0xff, 0x0, 0x0, 0x0],
    [0x0, 0x0, 0x0, 0x0, 0x0, 0x0, 0x0, 0x0],
    [0x0, 0x0, 0x0, 0x0, 0x0, 0x0, 0x0, 0x0],
    [0x0, 0x2f, 0xff, 0xff, 0xff, 0xff, 0xb0, 0x0],
    [0x0, 0x0, 0x0, 0x0, 0x0, 0x0, 0x0, 0x0],
    [0x0, 0x0, 0x0, 0x0, 0x0, 0x0, 0x0, 0x0],
    [0x0, 0x0, 0x9, 0xff, 0xff, 0xff, 0xff, 0xf5],
    [0x0, 0x0, 0x0, 0x0, 0x0, 0x0, 0x0, 0x0],
    [0x0, 0x0, 0x0, 0x0, 0x0, 0x0, 0x0, 0x0],
    [0x0, 0x0, 0x0, 0x3, 0xff, 0xff, 0xff, 0xff],
    [0xfe, 0x0, 0x0, 0x0, 0x0, 0x0, 0x0, 0x0],
    [0x0, 0x0, 0x0, 0x0, 0x0, 0x0, 0x0, 0x0],
    [0x0, 0x0, 0x0, 0x0, 0x0, 0xdf, 0xff, 0xff],
    [0xff, 0xff, 0x80, 0x0, 0x0, 0x0, 0x0, 0x0],
    [0x0, 0x0, 0x0, 0x0, 0x0, 0x0, 0x0, 0x0],
    [0x0, 0x0, 0x0, 0x0, 0x0, 0x0, 0xaf, 0xff],
    [0xff, 0xff, 0xff, 0xe0, 0x0, 0x0, 0x0, 0x0],
    [0x0, 0x0, 0x0, 0x0, 0x0, 0x0, 0x0, 0x0],
    [0x0, 0x0, 0x0, 0x0, 0x0, 0x0, 0x0, 0x7f],
    [0xff, 0xff, 0xff, 0xff, 0xf5, 0x0, 0x0, 0x0],
    [0x0, 0x0, 0x0, 0x0, 0x0, 0x0, 0x0, 0x0],
    [0x0, 0x0, 0x0, 0x0, 0x0, 0x0, 0x0, 0x0],
    [0x5f, 0xff, 0xff, 0xff, 0xff, 0xfa, 0x0, 0x0],
    [0x0, 0x0, 0x0, 0x0, 0x0, 0x0, 0x0, 0x0],
    [0x0, 0x0, 0x0, 0x0, 0x0, 0x0, 0x0, 0x0],
    [0x0, 0x5f, 0xff, 0xff, 0xff, 0xff, 0xfd, 0x10],
    [0x0, 0x0, 0x0, 0x0, 0x0, 0x0, 0x0, 0x0],
    [0x0, 0x0, 0x0, 0x0, 0x0, 0x0, 0x0, 0x0],
    [0x0, 0x0, 0x5f, 0xff, 0xff, 0xff, 0xff, 0xff],
    [0x30, 0x0, 0x0, 0x0, 0x0, 0x0, 0x0, 0x0],
    [0x0, 0x0, 0x0, 0x0, 0x0, 0x0, 0x0, 0x0],
    [0x0, 0x0, 0x0, 0x5f, 0xff, 0xff, 0xff, 0xff],
    [0xff, 0x50, 0x0, 0x0, 0x0, 0x0, 0x0, 0x0],
    [0x0, 0x0, 0x0, 0x0, 0x0, 0x0, 0x0, 0x0],
    [0x0, 0x0, 0x0, 0x0, 0x5f, 0xff, 0xff, 0xff],
    [0xff, 0xff, 0x60, 0x0, 0x0, 0x0, 0x0, 0x0],
    [0x0, 0x0, 0x0, 0x0, 0x0, 0x0, 0x0, 0x0],
    [0x0, 0x0, 0x0, 0x0, 0x0, 0x6f, 0xff, 0xff],
    [0xff, 0xff, 0xff, 0x70, 0x0, 0x0, 0x0, 0x0],
    [0x0, 0x0, 0x0, 0x0, 0x0, 0x0, 0x0, 0x0],
    [0x0, 0x0, 0x0, 0x0, 0x0, 0x0, 0x7f, 0xff],
    [0xff, 0xff, 0xff, 0xff, 0x80, 0x0, 0x0, 0x0],
    [0x0, 0x0, 0x0, 0x0, 0x0, 0x0, 0x0, 0x0],
    [0x0, 0x0, 0x0, 0x0, 0x0, 0x0, 0x0, 0x7f],
    [0xff, 0xff, 0xff, 0xff, 0xff, 0x80, 0x0, 0x0],
    [0x0, 0x0, 0x0, 0x0, 0x0, 0x0, 0x0, 0x0],
    [0x0, 0x0, 0x0, 0x0, 0x0, 0x0, 0x0, 0x0],
    [0x8f, 0xff, 0xff, 0xff, 0xff, 0xff, 0x70, 0x0],
    [0x0, 0x0, 0x0, 0x0, 0x0, 0x0, 0x0, 0x0],
    [0x0, 0x0, 0x0, 0x0, 0x0, 0x0, 0x0, 0x0],
    [0x0, 0x9f, 0xff, 0xff, 0xff, 0xff, 0xff, 0x60],
    [0x0, 0x0, 0x0, 0x0, 0x0, 0x0, 0x0, 0x0],
    [0x0, 0x0, 0x0, 0x0, 0x0, 0x0, 0x0, 0x0],
    [0x0, 0x0, 0x9f, 0xff, 0xff, 0xff, 0xff, 0xff],
    [0x60, 0x0, 0x0, 0x0, 0x0, 0x0, 0x0, 0x0],
    [0x0, 0x0, 0x0, 0x0, 0x0, 0x0, 0x0, 0x0],
    [0x0, 0x0, 0x0, 0xaf, 0xff, 0xff, 0xff, 0xff],
    [0xff, 0x50, 0x0, 0x0, 0x0, 0x0, 0x0, 0x0],
    [0x0, 0x0, 0x0, 0x0, 0x0, 0x0, 0x0, 0x0],
    [0x0, 0x0, 0x0, 0x0, 0xaf, 0xff, 0xff, 0xff],
    [0xff, 0xff, 0x40, 0x0, 0x0, 0x0, 0x0, 0x0],
    [0x0, 0x0, 0x0, 0x0, 0x0, 0x0, 0x0, 0x0],
    [0x0, 0x0, 0x0, 0x0, 0x0, 0xbf, 0xff, 0xff],
    [0xff, 0xff, 0xff, 0x40, 0x0, 0x0, 0x0, 0x0],
    [0x0, 0x0, 0x0, 0x0, 0x0, 0x0, 0x0, 0x0],
    [0x0, 0x0, 0x0, 0x0, 0x0, 0x0, 0xbf, 0xff]]"

lemma glyph_U0032_a_length: "length (concat glyph_U0032_a) = 1184"
  by (simp add: glyph_U0032_a_def)

definition glyph_U0032_b :: "u8 list list" where
  "glyph_U0032_b = [
    [0xff, 0xff, 0xff, 0xff, 0x30, 0x0, 0x0, 0x0],
    [0x0, 0x0, 0x0, 0x0, 0x0, 0x0, 0x0, 0x0],
    [0x0, 0x0, 0x0, 0x0, 0x0, 0x0, 0x0, 0xcf],
    [0xff, 0xff, 0xff, 0xff, 0xfe, 0x30, 0x0, 0x0],
    [0x0, 0x0, 0x0, 0x0, 0x0, 0x0, 0x0, 0x0],
    [0x0, 0x0, 0x0, 0x0, 0x0, 0x0, 0x0, 0x1],
    [0xcf, 0xff, 0xff, 0xff, 0xff, 0xfe, 0x20, 0x0],
    [0x0, 0x0, 0x0, 0x0, 0x0, 0x0, 0x0, 0x0],
    [0x0, 0x0, 0x0, 0x0, 0x0, 0x0, 0x0, 0x0],
    [0x1, 0xdf, 0xff, 0xff, 0xff, 0xff, 0xfe, 0x20],
    [0x0, 0x0, 0x0, 0x0, 0x0, 0x0, 0x0, 0x0],
    [0x0, 0x0, 0x0, 0x0, 0x0, 0x0, 0x0, 0x0],
    [0x0, 0x1, 0xdf, 0xff, 0xff, 0xff, 0xff, 0xfd],
    [0x20, 0x0, 0x0, 0x0, 0x0, 0x0, 0x0, 0x0],
    [0x0, 0x0, 0x0, 0x0, 0x0, 0x0, 0x0, 0x0],
    [0x0, 0x0, 0x2, 0xdf, 0xff, 0xff, 0xff, 0xff],
    [0xfd, 0x10, 0x0, 0x0, 0x0, 0x0, 0x0, 0x0],
    [0x0, 0x0, 0x0, 0x0, 0x0, 0x0, 0x0, 0x0],
    [0x0, 0x0, 0x0, 0x2, 0xef, 0xff, 0xff, 0xff],
    [0xff, 0xfd, 0x10, 0x0, 0x0, 0x0, 0x0, 0x0],
    [0x0, 0x0, 0x0, 0x0, 0x0, 0x0, 0x0, 0x0],
    [0x0, 0x0, 0x0, 0x0, 0x2, 0xef, 0xff, 0xff],
    [0xff, 0xff, 0xfc, 0x10, 0x0, 0x0, 0x0, 0x0],
    [0x0, 0x0, 0x0, 0x0, 0x0, 0x0, 0x0, 0x0],
    [0x0, 0x0, 0x0, 0x0, 0x0, 0x3, 0xef, 0xff],
    [0xff, 0xff, 0xff, 0xfc, 0x0, 0x0, 0x0, 0x0],
    [0x0, 0x0, 0x0, 0x0, 0x0, 0x0, 0x0, 0x0],
    [0x0, 0x0, 0x0, 0x0, 0x0, 0x0, 0x3, 0xff],
    [0xff, 0xff, 0xff, 0xff, 0xfb, 0x0, 0x0, 0x0],
    [0x0, 0x0, 0x0, 0x0, 0x0, 0x0, 0x0, 0x0],
    [0x0, 0x0, 0x0, 0x0, 0x0, 0x0, 0x0, 0x4],
    [0xff, 0xff, 0xff, 0xff, 0xff, 0xfb, 0x0, 0x0],
    [0x0, 0x0, 0x0, 0x0, 0x0, 0x0, 0x0, 0x0],
    [0x0, 0x0, 0x0, 0x0, 0x0, 0x0, 0x0, 0x0],
    [0x4, 0xff, 0xff, 0xff, 0xff, 0xff, 0xfa, 0x0],
    [0x0, 0x0, 0x0, 0x0, 0x0, 0x0, 0x0, 0x0],
    [0x0, 0x0, 0x0, 0x0, 0x0, 0x0, 0x0, 0x0],
    [0x0, 0x5, 0xff, 0xff, 0xff, 0xff, 0xff, 0xf9],
    [0x0, 0x0, 0x0, 0x0, 0x0, 0x0, 0x0, 0x0],
    [0x0, 0x0, 0x0, 0x0, 0x0, 0x0, 0x0, 0x0],
    [0x0, 0x0, 0x5, 0xff, 0xff, 0xff, 0xff, 0xff],
    [0xfd, 0x44, 0x44, 0x44, 0x44, 0x44, 0x44, 0x44],
    [0x44, 0x44, 0x44, 0x44, 0x44, 0x44, 0x44, 0x44],
    [0x44, 0x44, 0x0, 0x6, 0xff, 0xff, 0xff, 0xff],
    [0xff, 0xff, 0xff, 0xff, 0xff, 0xff, 0xff, 0xff],
    [0xff, 0xff, 0xff, 0xff, 0xff, 0xff, 0xff, 0xff],
    [0xff, 0xff, 0xff, 0xd0, 0x5, 0xff, 0xff, 0xff],
    [0xff, 0xff, 0xff, 0xff, 0xff, 0xff, 0xff, 0xff],
    [0xff, 0xff, 0xff, 0xff, 0xff, 0xff, 0xff, 0xff],
    [0xff, 0xff, 0xff, 0xff, 0xfd, 0x0, 0x7f, 0xff],
    [0xff, 0xff, 0xff, 0xff, 0xff, 0xff, 0xff, 0xff],
    [0xff, 0xff, 0xff, 0xff, 0xff, 0xff, 0xff, 0xff],
    [0xff, 0xff, 0xff, 0xff, 0xff, 0xff, 0xd0, 0x7],
    [0xff, 0xff, 0xff, 0xff, 0xff, 0xff, 0xff, 0xff],
    [0xff, 0xff, 0xff, 0xff, 0xff, 0xff, 0xff, 0xff],
    [0xff, 0xff, 0xff, 0xff, 0xff, 0xff, 0xff, 0xfd],
    [0x0, 0x7f, 0xff, 0xff, 0xff, 0xff, 0xff, 0xff],
    [0xff, 0xff, 0xff, 0xff, 0xff, 0xff, 0xff, 0xff],
    [0xff, 0xff, 0xff, 0xff, 0xff, 0xff, 0xff, 0xff],
    [0xff, 0xd0, 0x7, 0xff, 0xff, 0xff, 0xff, 0xff],
    [0xff, 0xff, 0xff, 0xff, 0xff, 0xff, 0xff, 0xff],
    [0xff, 0xff, 0xff, 0xff, 0xff, 0xff, 0xff, 0xff],
    [0xff, 0xff, 0xfd, 0x0, 0x7f, 0xff, 0xff, 0xff],
    [0xff, 0xff, 0xff, 0xff, 0xff, 0xff, 0xff, 0xff],
    [0xff, 0xff, 0xff, 0xff, 0xff, 0xff, 0xff, 0xff],
    [0xff, 0xff, 0xff, 0xff, 0xd0, 0x7, 0xff, 0xff],
    [0xff, 0xff, 0xff, 0xff, 0xff, 0xff, 0xff, 0xff],
    [0xff, 0xff, 0xff, 0xff, 0xff, 0xff, 0xff, 0xff],
    [0xff, 0xff, 0xff, 0xff, 0xff, 0xfd]]"

lemma glyph_U0032_b_length: "length (concat glyph_U0032_b) = 550"
  by (simp add: glyph_U0032_b_def)

definition glyph_U0033_a :: "u8 list list" where
  "glyph_U0033_a = [
    [0x0, 0x7, 0xff, 0xff, 0xff, 0xff, 0xff, 0xff],
    [0xff, 0xff, 0xff, 0xff, 0xff, 0xff, 0xff, 0xff],
    [0xff, 0xff, 0xff, 0xff, 0xff, 0xff, 0xff, 0xfe],
    [0x0, 0x0, 0x0, 0x7f, 0xff, 0xff, 0xff, 0xff],
    [0xff, 0xff, 0xff, 0xff, 0xff, 0xff, 0xff, 0xff],
    [0xff, 0xff, 0xff, 0xff, 0xff, 0xff, 0xff, 0xff],
    [0xff, 0xe0, 0x0, 0x0, 0x7, 0xff, 0xff, 0xff],
    [0xff, 0xff, 0xff, 0xff, 0xff, 0xff, 0xff, 0xff],
    [0xff, 0xff, 0xff, 0xff, 0xff, 0xff, 0xff, 0xff],
    [0xff, 0xff, 0xfe, 0x0, 0x0, 0x0, 0x7f, 0xff],
    [0xff, 0xff, 0xff, 0xff, 0xff, 0xff, 0xff, 0xff],
    [0xff, 0xff, 0xff, 0xff, 0xff, 0xff, 0xff, 0xff],
    [0xff, 0xff, 0xff, 0xff, 0xe0, 0x0, 0x0, 0x7],
    [0xff, 0xff, 0xff, 0xff, 0xff, 0xff, 0xff, 0xff],
    [0xff, 0xff, 0xff, 0xff, 0xff, 0xff, 0xff, 0xff],
    [0xff, 0xff, 0xff, 0xff, 0xff, 0xfe, 0x0, 0x0],
    [0x0, 0x7f, 0xff, 0xff, 0xff, 0xff, 0xff, 0xff],
    [0xff, 0xff, 0xff, 0xff, 0xff, 0xff, 0xff, 0xff],
    [0xff, 0xff, 0xff, 0xff, 0xff, 0xff, 0xff, 0xe0],
    [0x0, 0x0, 0x7, 0xff, 0xff, 0xff, 0xff, 0xff],
    [0xff, 0xff, 0xff, 0xff, 0xff, 0xff, 0xff, 0xff],
    [0xff, 0xff, 0xff, 0xff, 0xff, 0xff, 0xff, 0xff],
    [0xfc, 0x0, 0x0, 0x0, 0x7f, 0xff, 0xff, 0xff],
    [0xff, 0xff, 0xff, 0xff, 0xff, 0xff, 0xff, 0xff],
    [0xff, 0xff, 0xff, 0xff, 0xff, 0xff, 0xff, 0xff],
    [0xff, 0xfe, 0x20, 0x0, 0x0, 0x2, 0x44, 0x44],
    [0x44, 0x44, 0x44, 0x44, 0x44, 0x44, 0x44, 0x44],
    [0x44, 0x44, 0x44, 0x44, 0x44, 0x49, 0xff, 0xff],
    [0xff, 0xff, 0xff, 0x40, 0x0, 0x0, 0x0, 0x0],
    [0x0, 0x0, 0x0, 0x0, 0x0, 0x0, 0x0, 0x0],
    [0x0, 0x0, 0x0, 0x0, 0x0, 0x0, 0x2, 0xef],
    [0xff, 0xff, 0xff, 0xff, 0x70, 0x0, 0x0, 0x0],
    [0x0, 0x0, 0x0, 0x0, 0x0, 0x0, 0x0, 0x0],
    [0x0, 0x0, 0x0, 0x0, 0x0, 0x0, 0x0, 0x0],
    [0xdf, 0xff, 0xff, 0xff, 0xff, 0xa0, 0x0, 0x0],
    [0x0, 0x0, 0x0, 0x0, 0x0, 0x0, 0x0, 0x0],
    [0x0, 0x0, 0x0, 0x0, 0x0, 0x0, 0x0, 0x0],
    [0x0, 0xbf, 0xff, 0xff, 0xff, 0xff, 0xc0, 0x0],
    [0x0, 0x0, 0x0, 0x0, 0x0, 0x0, 0x0, 0x0],
    [0x0, 0x0, 0x0, 0x0, 0x0, 0x0, 0x0, 0x0],
    [0x0, 0x0, 0x8f, 0xff, 0xff, 0xff, 0xff, 0xe1],
    [0x0, 0x0, 0x0, 0x0, 0x0, 0x0, 0x0, 0x0],
    [0x0, 0x0, 0x0, 0x0, 0x0, 0x0, 0x0, 0x0],
    [0x0, 0x0, 0x0, 0x5f, 0xff, 0xff, 0xff, 0xff],
    [0xf3, 0x0, 0x0, 0x0, 0x0, 0x0, 0x0, 0x0],
    [0x0, 0x0, 0x0, 0x0, 0x0, 0x0, 0x0, 0x0],
    [0x0, 0x0, 0x0, 0x0, 0x3f, 0xff, 0xff, 0xff],
    [0xff, 0xf5, 0x0, 0x0, 0x0, 0x0, 0x0, 0x0],
    [0x0, 0x0, 0x0, 0x0, 0x0, 0x0, 0x0, 0x0],
    [0x0, 0x0, 0x0, 0x0, 0x0, 0x1e, 0xff, 0xff],
    [0xff, 0xff, 0xf8, 0x0, 0x0, 0x0, 0x0, 0x0],
    [0x0, 0x0, 0x0, 0x0, 0x0, 0x0, 0x0, 0x0],
    [0x0, 0x0, 0x0, 0x0, 0x0, 0x0, 0xc, 0xff],
    [0xff, 0xff, 0xff, 0xfb, 0x0, 0x0, 0x0, 0x0],
    [0x0, 0x0, 0x0, 0x0, 0x0, 0x0, 0x0, 0x0],
    [0x0, 0x0, 0x0, 0x0, 0x0, 0x0, 0x0, 0xa],
    [0xff, 0xff, 0xff, 0xff, 0xfd, 0x10, 0x0, 0x0],
    [0x0, 0x0, 0x0, 0x0, 0x0, 0x0, 0x0, 0x0],
    [0x0, 0x0, 0x0, 0x0, 0x0, 0x0, 0x0, 0x0],
    [0x7, 0xff, 0xff, 0xff, 0xff, 0xff, 0x20, 0x0],
    [0x0, 0x0, 0x0, 0x0, 0x0, 0x0, 0x0, 0x0],
    [0x0, 0x0, 0x0, 0x0, 0x0, 0x0, 0x0, 0x0],
    [0x0, 0x4, 0xff, 0xff, 0xff, 0xff, 0xff, 0x40],
    [0x0, 0x0, 0x0, 0x0, 0x0, 0x0, 0x0, 0x0],
    [0x0, 0x0, 0x0, 0x0, 0x0, 0x0, 0x0, 0x0],
    [0x0, 0x0, 0x2, 0xff, 0xff, 0xff, 0xff, 0xff],
    [0x70, 0x0, 0x0, 0x0, 0x0, 0x0, 0x0, 0x0],
    [0x0, 0x0, 0x0, 0x0, 0x0, 0x0, 0x0, 0x0],
    [0x0, 0x0, 0x0, 0x1, 0xdf, 0xff, 0xff, 0xff],
    [0xff, 0xa0, 0x0, 0x0, 0x0, 0x0, 0x0, 0x0],
    [0x0, 0x0, 0x0, 0x0, 0x0, 0x0, 0x0, 0x0],
    [0x0, 0x0, 0x0, 0x0, 0x0, 0xbf, 0xff, 0xff],
    [0xff, 0xff, 0xc0, 0x0, 0x0, 0x0, 0x0, 0x0],
    [0x0, 0x0, 0x0, 0x0, 0x0, 0x0, 0x0, 0x0],
    [0x0, 0x0, 0x0, 0x0, 0x0, 0x0, 0x9f, 0xff],
    [0xff, 0xff, 0xff, 0xe1, 0x0, 0x0, 0x0, 0x0],
    [0x0, 0x0, 0x0, 0x0, 0x0, 0x0, 0x0, 0x0],
    [0x0, 0x0, 0x0, 0x0, 0x0, 0x0, 0x0, 0x6f],
    [0xff, 0xff, 0xff, 0xff, 0xf3, 0x0, 0x0, 0x0],
    [0x0, 0x0, 0x0, 0x0, 0x0, 0x0, 0x0, 0x0],
    [0x0, 0x0, 0x0, 0x0, 0x0, 0x0, 0x0, 0x0],
    [0x3f, 0xff, 0xff, 0xff, 0xff, 0xf6, 0x0, 0x0],
    [0x0, 0x0, 0x0, 0x0, 0x0, 0x0, 0x0, 0x0],
    [0x0, 0x0, 0x0, 0x0, 0x0, 0x0, 0x0, 0x0],
    [0x0, 0x1e, 0xff, 0xff, 0xff, 0xff, 0xf9, 0x0],
    [0x0, 0x0, 0x0, 0x0, 0x0, 0x0, 0x0, 0x0],
    [0x0, 0x0, 0x0, 0x0, 0x0, 0x0, 0x0, 0x0],
    [0x0, 0x0, 0xc, 0xff, 0xff, 0xff, 0xff, 0xfc],
    [0x0, 0x0, 0x0, 0x0, 0x0, 0x0, 0x0, 0x0],
    [0x0, 0x0, 0x0, 0x0, 0x0, 0x0, 0x0, 0x0],
    [0x0, 0x0, 0x0, 0xa, 0xff, 0xff, 0xff, 0xff],
    [0xff, 0xfd, 0xb8, 0x51, 0x0, 0x0, 0x0, 0x0],
    [0x0, 0x0, 0x0, 0x0, 0x0, 0x0, 0x0, 0x0],
    [0x0, 0x0, 0x0, 0x0, 0x0, 0xff, 0xff, 0xff],
    [0xff, 0xff, 0xff, 0xff, 0xff, 0xfd, 0x82, 0x0],
    [0x0, 0x0, 0x0, 0x0, 0x0, 0x0, 0x0, 0x0],
    [0x0, 0x0, 0x0, 0x0, 0x0, 0x0, 0xf, 0xff],
    [0xff, 0xff, 0xff, 0xff, 0xff, 0xff, 0xff, 0xff],
    [0xfc, 0x40, 0x0, 0x0, 0x0, 0x0, 0x0, 0x0],
    [0x0, 0x0, 0x0, 0x0, 0x0, 0x0, 0x0, 0x0],
    [0xff, 0xff, 0xff, 0xff, 0xff, 0xff, 0xff, 0xff],
    [0xff, 0xff, 0xff, 0xc3, 0x0, 0x0, 0x0, 0x0],
    [0x0, 0x0, 0x0, 0x0, 0x0, 0x0, 0x0, 0x0],
    [0x0, 0xf, 0xff, 0xff, 0xff, 0xff, 0xff, 0xff],
    [0xff, 0xff, 0xff, 0xff, 0xff, 0xf7, 0x0, 0x0],
    [0x0, 0x0, 0x0, 0x0, 0x0, 0x0, 0x0, 0x0],
    [0x0, 0x0, 0x0, 0xff, 0xff, 0xff, 0xff, 0xff],
    [0xff, 0xff, 0xff, 0xff, 0xff, 0xff, 0xff, 0xfb],
    [0x0, 0x0, 0x0, 0x0, 0x0, 0x0, 0x0, 0x0],
    [0x0, 0x0, 0x0, 0x0, 0xf, 0xff, 0xff, 0xff],
    [0xff, 0xff, 0xff, 0xff, 0xff, 0xff, 0xff, 0xff],
    [0xff, 0xfb, 0x0, 0x0, 0x0, 0x0, 0x0, 0x0],
    [0x0, 0x0, 0x0, 0x0, 0x0, 0x0, 0x89, 0x99],
    [0x99, 0x9a, 0xbc, 0xef, 0xff, 0xff, 0xff, 0xff],
    [0xff, 0xff, 0xff, 0xfa, 0x0, 0x0, 0x0, 0x0],
    [0x0, 0x0, 0x0, 0x0, 0x0, 0x0, 0x0, 0x0],
    [0x0, 0x0, 0x0, 0x0, 0x0, 0x14, 0x9e, 0xff],
    [0xff, 0xff, 0xff, 0xff, 0xff, 0xf6, 0x0, 0x0],
    [0x0, 0x0, 0x0, 0x0, 0x0, 0x0, 0x0, 0x0],
    [0x0, 0x0, 0x0, 0x0, 0x0, 0x0, 0x0, 0x0],
    [0x4, 0xcf, 0xff, 0xff, 0xff, 0xff, 0xff, 0xf1],
    [0x0, 0x0, 0x0, 0x0, 0x0, 0x0, 0x0, 0x0],
    [0x0, 0x0, 0x0, 0x0, 0x0, 0x0, 0x0, 0x0],
    [0x0, 0x0, 0x0, 0x6f, 0xff, 0xff, 0xff, 0xff],
    [0xff, 0xa0, 0x0, 0x0, 0x0, 0x0, 0x0, 0x0],
    [0x0, 0x0, 0x0, 0x0, 0x0, 0x0, 0x0, 0x0],
    [0x0, 0x0, 0x0, 0x0, 0x0, 0x3e, 0xff, 0xff],
    [0xff, 0xff, 0xff, 0x20, 0x0, 0x0, 0x0, 0x0],
    [0x0, 0x0, 0x0, 0x0, 0x0, 0x0, 0x0, 0x0],
    [0x0, 0x0, 0x0, 0x0, 0x0, 0x0, 0x0, 0x3f],
    [0xff, 0xff, 0xff, 0xff, 0xf8, 0x0, 0x0, 0x0],
    [0x0, 0x0, 0x0, 0x0, 0x0, 0x0, 0x0, 0x0],
    [0x0, 0x0, 0x0, 0x0, 0x0, 0x0, 0x0, 0x0],
    [0x0, 0x7f, 0xff, 0xff, 0xff, 0xff, 0xd0, 0x0],
    [0x0, 0x0, 0x0, 0x0, 0x0, 0x0, 0x0, 0x0],
    [0x0, 0x0, 0x0, 0x0, 0x0, 0x0, 0x0, 0x0],
    [0x0, 0x0, 0x0, 0xef, 0xff, 0xff, 0xff, 0xff],
    [0x10, 0x0, 0x0, 0x0, 0x0, 0x0, 0x0, 0x0],
    [0x0, 0x0, 0x0, 0x0, 0x0, 0x0, 0x0, 0x0],
    [0x0, 0x0, 0x0, 0x0, 0x9, 0xff, 0xff, 0xff],
    [0xff, 0xf4, 0x0, 0x0, 0x0, 0x0, 0x0, 0x0],
    [0x0, 0x0, 0x0, 0x0, 0x0, 0x0, 0x0, 0x0],
    [0x0, 0x0, 0x0, 0x0, 0x0, 0x0, 0x4f, 0xff],
    [0xff, 0xff, 0xff, 0x60, 0x0, 0x0, 0x0, 0x0],
    [0x0, 0x0, 0x0, 0x0, 0x0, 0x0, 0x0, 0x0],
    [0x0, 0x0, 0x0, 0x0, 0x0, 0x0, 0x0, 0x2],
    [0xff, 0xff, 0xff, 0xff, 0xf8, 0x0, 0x0, 0x0],
    [0x0, 0x0, 0x0, 0x0, 0x0, 0x0, 0x0, 0x0]]"

lemma glyph_U0033_a_length: "length (concat glyph_U0033_a) = 1184"
  by (simp add: glyph_U0033_a_def)

definition glyph_U0033_b :: "u8 list list" where
  "glyph_U0033_b = [
    [0x0, 0x0, 0x0, 0x0, 0x0, 0x0, 0x0, 0x0],
    [0x0, 0xf, 0xff, 0xff, 0xff, 0xff, 0x90, 0x0],
    [0x0, 0x0, 0x0, 0x0, 0x0, 0x0, 0x0, 0x0],
    [0x0, 0x0, 0x0, 0x0, 0x0, 0x0, 0x0, 0x0],
    [0x0, 0x0, 0x0, 0xff, 0xff, 0xff, 0xff, 0xf9],
    [0x0, 0x0, 0x0, 0x0, 0x0, 0x0, 0x0, 0x0],
    [0x0, 0x0, 0x0, 0x0, 0x0, 0x0, 0x0, 0x0],
    [0x0, 0x0, 0x0, 0x0, 0x1f, 0xff, 0xff, 0xff],
    [0xff, 0x70, 0x0, 0x0, 0x0, 0x0, 0x0, 0x0],
    [0x0, 0x0, 0x0, 0x0, 0x0, 0x0, 0x0, 0x0],
    [0x0, 0x0, 0x0, 0x0, 0x0, 0x3, 0xff, 0xff],
    [0xff, 0xff, 0xf6, 0x0, 0x0, 0x0, 0x0, 0x0],
    [0x0, 0x0, 0x0, 0x0, 0x0, 0x0, 0x0, 0x0],
    [0x0, 0x0, 0x0, 0x0, 0x0, 0x0, 0x0, 0x7f],
    [0xff, 0xff, 0xff, 0xff, 0x40, 0x0, 0x0, 0x0],
    [0x0, 0x0, 0x0, 0x0, 0x0, 0x0, 0x0, 0x0],
    [0x0, 0x0, 0x0, 0x0, 0x0, 0x0, 0x0, 0x0],
    [0xc, 0xff, 0xff, 0xff, 0xff, 0xf1, 0x0, 0x0],
    [0x7a, 0x0, 0x0, 0x0, 0x0, 0x0, 0x0, 0x0],
    [0x0, 0x0, 0x0, 0x0, 0x0, 0x0, 0x0, 0x0],
    [0x0, 0x4, 0xff, 0xff, 0xff, 0xff, 0xfd, 0x0],
    [0x0, 0x1f, 0xfc, 0x20, 0x0, 0x0, 0x0, 0x0],
    [0x0, 0x0, 0x0, 0x0, 0x0, 0x0, 0x0, 0x0],
    [0x0, 0x0, 0x0, 0xdf, 0xff, 0xff, 0xff, 0xff],
    [0x80, 0x0, 0xa, 0xff, 0xff, 0x60, 0x0, 0x0],
    [0x0, 0x0, 0x0, 0x0, 0x0, 0x0, 0x0, 0x0],
    [0x0, 0x0, 0x0, 0x0, 0xaf, 0xff, 0xff, 0xff],
    [0xff, 0xf2, 0x0, 0x3, 0xff, 0xff, 0xff, 0xd5],
    [0x0, 0x0, 0x0, 0x0, 0x0, 0x0, 0x0, 0x0],
    [0x0, 0x0, 0x0, 0x0, 0x0, 0xbf, 0xff, 0xff],
    [0xff, 0xff, 0xfb, 0x0, 0x0, 0xdf, 0xff, 0xff],
    [0xff, 0xfd, 0x71, 0x0, 0x0, 0x0, 0x0, 0x0],
    [0x0, 0x0, 0x0, 0x0, 0x0, 0x5, 0xef, 0xff],
    [0xff, 0xff, 0xff, 0xff, 0x30, 0x0, 0x6f, 0xff],
    [0xff, 0xff, 0xff, 0xff, 0xfb, 0x61, 0x0, 0x0],
    [0x0, 0x0, 0x0, 0x0, 0x0, 0x0, 0x6c, 0xff],
    [0xff, 0xff, 0xff, 0xff, 0xff, 0xa0, 0x0, 0x1e],
    [0xff, 0xff, 0xff, 0xff, 0xff, 0xff, 0xff, 0xfd],
    [0xa7, 0x53, 0x10, 0x0, 0x1, 0x25, 0x8b, 0xff],
    [0xff, 0xff, 0xff, 0xff, 0xff, 0xff, 0xd0, 0x0],
    [0x4, 0xff, 0xff, 0xff, 0xff, 0xff, 0xff, 0xff],
    [0xff, 0xff, 0xff, 0xff, 0xff, 0xff, 0xff, 0xff],
    [0xff, 0xff, 0xff, 0xff, 0xff, 0xff, 0xff, 0xf3],
    [0x0, 0x0, 0x3, 0xef, 0xff, 0xff, 0xff, 0xff],
    [0xff, 0xff, 0xff, 0xff, 0xff, 0xff, 0xff, 0xff],
    [0xff, 0xff, 0xff, 0xff, 0xff, 0xff, 0xff, 0xff],
    [0xf4, 0x0, 0x0, 0x0, 0x1, 0xaf, 0xff, 0xff],
    [0xff, 0xff, 0xff, 0xff, 0xff, 0xff, 0xff, 0xff],
    [0xff, 0xff, 0xff, 0xff, 0xff, 0xff, 0xff, 0xff],
    [0xff, 0xe3, 0x0, 0x0, 0x0, 0x0, 0x0, 0x4d],
    [0xff, 0xff, 0xff, 0xff, 0xff, 0xff, 0xff, 0xff],
    [0xff, 0xff, 0xff, 0xff, 0xff, 0xff, 0xff, 0xff],
    [0xff, 0xff, 0xc1, 0x0, 0x0, 0x0, 0x0, 0x0],
    [0x0, 0x5, 0xdf, 0xff, 0xff, 0xff, 0xff, 0xff],
    [0xff, 0xff, 0xff, 0xff, 0xff, 0xff, 0xff, 0xff],
    [0xff, 0xff, 0xff, 0x70, 0x0, 0x0, 0x0, 0x0],
    [0x0, 0x0, 0x0, 0x0, 0x4a, 0xff, 0xff, 0xff],
    [0xff, 0xff, 0xff, 0xff, 0xff, 0xff, 0xff, 0xff],
    [0xff, 0xff, 0xff, 0xf9, 0x10, 0x0, 0x0, 0x0],
    [0x0, 0x0, 0x0, 0x0, 0x0, 0x0, 0x1, 0x6b],
    [0xff, 0xff, 0xff, 0xff, 0xff, 0xff, 0xff, 0xff],
    [0xff, 0xff, 0xff, 0xfd, 0x60, 0x0, 0x0, 0x0],
    [0x0, 0x0, 0x0, 0x0, 0x0, 0x0, 0x0, 0x0],
    [0x0, 0x0, 0x37, 0xad, 0xff, 0xff, 0xff, 0xff],
    [0xff, 0xff, 0xff, 0xda, 0x62, 0x0, 0x0, 0x0],
    [0x0, 0x0, 0x0, 0x0, 0x0, 0x0, 0x0, 0x0],
    [0x0, 0x0, 0x0, 0x0, 0x0, 0x0, 0x23, 0x56],
    [0x77, 0x77, 0x65, 0x42, 0x0, 0x0, 0x0, 0x0],
    [0x0, 0x0, 0x0, 0x0, 0x0, 0x0]]"

lemma glyph_U0033_b_length: "length (concat glyph_U0033_b) = 550"
  by (simp add: glyph_U0033_b_def)

definition glyph_U0034_a :: "u8 list list" where
  "glyph_U0034_a = [
    [0x0, 0x0, 0x0, 0x0, 0x0, 0x0, 0x0, 0x0],
    [0x0, 0x0, 0x0, 0x0, 0x0, 0x0, 0x0, 0x0],
    [0x0, 0x17, 0x88, 0x88, 0x88, 0x88, 0x81, 0x0],
    [0x0, 0x0, 0x0, 0x0, 0x0, 0x0, 0x0, 0x0],
    [0x0, 0x0, 0x0, 0x0, 0x0, 0x0, 0x0, 0x0],
    [0x0, 0x0, 0x0, 0x0, 0x0, 0x0, 0x0, 0xc],
    [0xff, 0xff, 0xff, 0xff, 0xf9, 0x0, 0x0, 0x0],
    [0x0, 0x0, 0x0, 0x0, 0x0, 0x0, 0x0, 0x0],
    [0x0, 0x0, 0x0, 0x0, 0x0, 0x0, 0x0, 0x0],
    [0x0, 0x0, 0x0, 0x0, 0x0, 0x8, 0xff, 0xff],
    [0xff, 0xff, 0xfc, 0x0, 0x0, 0x0, 0x0, 0x0],
    [0x0, 0x0, 0x0, 0x0, 0x0, 0x0, 0x0, 0x0],
    [0x0, 0x0, 0x0, 0x0, 0x0, 0x0, 0x0, 0x0],
    [0x0, 0x0, 0x0, 0x5, 0xff, 0xff, 0xff, 0xff],
    [0xfe, 0x20, 0x0, 0x0, 0x0, 0x0, 0x0, 0x0],
    [0x0, 0x0, 0x0, 0x0, 0x0, 0x0, 0x0, 0x0],
    [0x0, 0x0, 0x0, 0x0, 0x0, 0x0, 0x0, 0x0],
    [0x0, 0x2, 0xff, 0xff, 0xff, 0xff, 0xff, 0x40],
    [0x0, 0x0, 0x0, 0x0, 0x0, 0x0, 0x0, 0x0],
    [0x0, 0x0, 0x0, 0x0, 0x0, 0x0, 0x0, 0x0],
    [0x0, 0x0, 0x0, 0x0, 0x0, 0x0, 0x0, 0x0],
    [0xdf, 0xff, 0xff, 0xff, 0xff, 0x70, 0x0, 0x0],
    [0x0, 0x0, 0x0, 0x0, 0x0, 0x0, 0x0, 0x0],
    [0x0, 0x0, 0x0, 0x0, 0x0, 0x0, 0x0, 0x0],
    [0x0, 0x0, 0x0, 0x0, 0x0, 0x0, 0xaf, 0xff],
    [0xff, 0xff, 0xff, 0xb0, 0x0, 0x0, 0x0, 0x0],
    [0x0, 0x0, 0x0, 0x0, 0x0, 0x0, 0x0, 0x0],
    [0x0, 0x0, 0x0, 0x0, 0x0, 0x0, 0x0, 0x0],
    [0x0, 0x0, 0x0, 0x0, 0x7f, 0xff, 0xff, 0xff],
    [0xff, 0xd1, 0x0, 0x0, 0x0, 0x0, 0x0, 0x0],
    [0x0, 0x0, 0x0, 0x0, 0x0, 0x0, 0x0, 0x0],
    [0x0, 0x0, 0x0, 0x0, 0x0, 0x0, 0x0, 0x0],
    [0x0, 0x0, 0x4f, 0xff, 0xff, 0xff, 0xff, 0xf3],
    [0x0, 0x0, 0x0, 0x0, 0x0, 0x0, 0x0, 0x0],
    [0x0, 0x0, 0x0, 0x0, 0x0, 0x0, 0x0, 0x0],
    [0x0, 0x0, 0x0, 0x0, 0x0, 0x0, 0x0, 0x0],
    [0x1e, 0xff, 0xff, 0xff, 0xff, 0xf6, 0x0, 0x0],
    [0x0, 0x0, 0x0, 0x0, 0x0, 0x0, 0x0, 0x0],
    [0x0, 0x0, 0x0, 0x0, 0x0, 0x0, 0x0, 0x0],
    [0x0, 0x0, 0x0, 0x0, 0x0, 0x0, 0xc, 0xff],
    [0xff, 0xff, 0xff, 0xf9, 0x0, 0x0, 0x0, 0x0],
    [0x0, 0x0, 0x0, 0x0, 0x0, 0x0, 0x0, 0x0],
    [0x0, 0x0, 0x0, 0x0, 0x0, 0x0, 0x0, 0x0],
    [0x0, 0x0, 0x0, 0x0, 0x9, 0xff, 0xff, 0xff],
    [0xff, 0xfc, 0x0, 0x0, 0x0, 0x0, 0x0, 0x0],
    [0x0, 0x0, 0x0, 0x0, 0x0, 0x0, 0x0, 0x0],
    [0x0, 0x0, 0x0, 0x0, 0x0, 0x0, 0x0, 0x0],
    [0x0, 0x0, 0x6, 0xff, 0xff, 0xff, 0xff, 0xfe],
    [0x10, 0x0, 0x0, 0x0, 0x0, 0x0, 0x0, 0x0],
    [0x0, 0x0, 0x0, 0x0, 0x0, 0x0, 0x0, 0x0],
    [0x0, 0x0, 0x0, 0x0, 0x0, 0x0, 0x0, 0x0],
    [0x3, 0xff, 0xff, 0xff, 0xff, 0xff, 0x40, 0x0],
    [0x0, 0x0, 0x0, 0x0, 0x0, 0x0, 0x0, 0x0],
    [0x0, 0x0, 0x0, 0x0, 0x0, 0x0, 0x0, 0x0],
    [0x0, 0x0, 0x0, 0x0, 0x0, 0x0, 0x1, 0xef],
    [0xff, 0xff, 0xff, 0xff, 0x70, 0x0, 0x0, 0x0],
    [0x0, 0x0, 0x0, 0x0, 0x0, 0x0, 0x0, 0x0],
    [0x0, 0x0, 0x0, 0x0, 0x0, 0x0, 0x0, 0x0],
    [0x0, 0x0, 0x0, 0x0, 0x0, 0xbf, 0xff, 0xff],
    [0xff, 0xff, 0xb0, 0x0, 0x0, 0x0, 0x0, 0x0],
    [0x0, 0x0, 0x0, 0x0, 0x0, 0x0, 0x0, 0x0],
    [0x0, 0x0, 0x0, 0x0, 0x0, 0x0, 0x0, 0x0],
    [0x0, 0x0, 0x0, 0x8f, 0xff, 0xff, 0xff, 0xff],
    [0xd1, 0x0, 0x0, 0x0, 0x0, 0x0, 0x0, 0x0],
    [0x0, 0x0, 0x0, 0x0, 0x0, 0x0, 0x0, 0x0],
    [0x0, 0x0, 0x0, 0x0, 0x0, 0x0, 0x0, 0x0],
    [0x0, 0x5f, 0xff, 0xff, 0xff, 0xff, 0xf3, 0x0],
    [0x0, 0x0, 0x0, 0x0, 0x0, 0x0, 0x0, 0x0],
    [0x0, 0x0, 0x0, 0x0, 0x0, 0x0, 0x0, 0x0],
    [0x0, 0x0, 0x0, 0x0, 0x0, 0x0, 0x0, 0x2f],
    [0xff, 0xff, 0xff, 0xff, 0xf5, 0x0, 0x0, 0x0],
    [0x0, 0x0, 0x0, 0x0, 0x0, 0x0, 0x0, 0x0],
    [0x0, 0x0, 0x0, 0x0, 0x0, 0x0, 0x0, 0x0],
    [0x0, 0x0, 0x0, 0x0, 0x0, 0xd, 0xff, 0xff],
    [0xff, 0xff, 0xf9, 0x0, 0x0, 0x0, 0x0, 0x0],
    [0x0, 0x0, 0x0, 0x0, 0x0, 0x0, 0x0, 0x0],
    [0x0, 0x0, 0x0, 0x0, 0x0, 0x0, 0x0, 0x0],
    [0x0, 0x0, 0x0, 0xa, 0xff, 0xff, 0xff, 0xff],
    [0xfc, 0x0, 0x0, 0x0, 0x0, 0x0, 0x0, 0x0],
    [0x0, 0x0, 0x0, 0x0, 0x0, 0x0, 0x0, 0x0],
    [0x0, 0x0, 0x0, 0x0, 0x0, 0x0, 0x0, 0x0],
    [0x0, 0x7, 0xff, 0xff, 0xff, 0xff, 0xfe, 0x10],
    [0x0, 0x0, 0x0, 0x0, 0x0, 0x0, 0x0, 0x0],
    [0x0, 0x0, 0x0, 0x0, 0x0, 0x0, 0x0, 0x0],
    [0x0, 0x0, 0x0, 0x0, 0x0, 0x0, 0x0, 0x4],
    [0xff, 0xff, 0xff, 0xff, 0xff, 0x40, 0x0, 0x0],
    [0x0, 0x0, 0x0, 0x0, 0x0, 0x0, 0x0, 0x0],
    [0x0, 0x0, 0x0, 0x0, 0x0, 0x0, 0x0, 0x0],
    [0x0, 0x0, 0x0, 0x0, 0x0, 0x1, 0xef, 0xff],
    [0xff, 0xff, 0xff, 0x70, 0x0, 0x0, 0x0, 0x0],
    [0x0, 0x0, 0x0, 0x0, 0x0, 0x0, 0x0, 0x0],
    [0x0, 0x0, 0x0, 0x0, 0x0, 0x0, 0x0, 0x0],
    [0x0, 0x0, 0x0, 0x0, 0xcf, 0xff, 0xff, 0xff],
    [0xff, 0xb0, 0x0, 0x0, 0x0, 0x0, 0x0, 0x0],
    [0x0, 0x0, 0x0, 0x0, 0x0, 0x0, 0x0, 0x0],
    [0x0, 0x0, 0x0, 0x0, 0x0, 0x0, 0x0, 0x0],
    [0x0, 0x0, 0x9f, 0xff, 0xff, 0xff, 0xff, 0xd0],
    [0x0, 0x0, 0x0, 0x0, 0x0, 0x0, 0x0, 0x0],
    [0x0, 0x0, 0x0, 0x0, 0x0, 0x0, 0x0, 0x0],
    [0x0, 0x0, 0x0, 0x0, 0x0, 0x0, 0x0, 0x0],
    [0x6f, 0xff, 0xff, 0xff, 0xff, 0xf2, 0x0, 0x0],
    [0x0, 0x0, 0x0, 0x0, 0x0, 0x0, 0x0, 0x0],
    [0x0, 0x0, 0x0, 0x0, 0x0, 0x0, 0x0, 0x0],
    [0x0, 0x0, 0x0, 0x0, 0x0, 0x0, 0x3f, 0xff],
    [0xff, 0xff, 0xff, 0xf5, 0x0, 0x0, 0x0, 0x0],
    [0x0, 0x0, 0x0, 0x0, 0x0, 0x0, 0x0, 0x0],
    [0x0, 0x0, 0x0, 0x0, 0x0, 0x0, 0x0, 0x0],
    [0x0, 0x0, 0x0, 0x0, 0x1d, 0xff, 0xff, 0xff],
    [0xff, 0xf9, 0x0, 0x0, 0x0, 0x0, 0x0, 0x0],
    [0x0, 0xbf, 0xff, 0xff, 0xff, 0xf4, 0x0, 0x0],
    [0x0, 0x0, 0x0, 0x0, 0x0, 0x0, 0x0, 0x0],
    [0x0, 0x0, 0xb, 0xff, 0xff, 0xff, 0xff, 0xfc],
    [0x0, 0x0, 0x0, 0x0, 0x0, 0x0, 0x0, 0xb],
    [0xff, 0xff, 0xff, 0xff, 0x40, 0x0, 0x0, 0x0],
    [0x0, 0x0, 0x0, 0x0, 0x0, 0x0, 0x0, 0x0],
    [0x8, 0xff, 0xff, 0xff, 0xff, 0xfe, 0x10, 0x0],
    [0x0, 0x0, 0x0, 0x0, 0x0, 0x0, 0xbf, 0xff],
    [0xff, 0xff, 0xf4, 0x0, 0x0, 0x0, 0x0, 0x0],
    [0x0, 0x0, 0x0, 0x0, 0x0, 0x0, 0x4, 0xff],
    [0xff, 0xff, 0xff, 0xff, 0x40, 0x0, 0x0, 0x0],
    [0x0, 0x0, 0x0, 0x0, 0xb, 0xff, 0xff, 0xff],
    [0xff, 0x40, 0x0, 0x0, 0x0, 0x0, 0x0, 0x0],
    [0x0, 0x0, 0x0, 0x0, 0x2, 0xff, 0xff, 0xff],
    [0xff, 0xff, 0x70, 0x0, 0x0, 0x0, 0x0, 0x0],
    [0x0, 0x0, 0x0, 0xbf, 0xff, 0xff, 0xff, 0xf4],
    [0x0, 0x0, 0x0, 0x0, 0x0, 0x0, 0x0, 0x0],
    [0x0, 0x0, 0x0, 0xdf, 0xff, 0xff, 0xff, 0xff],
    [0xb0, 0x0, 0x0, 0x0, 0x0, 0x0, 0x0, 0x0],
    [0x0, 0xb, 0xff, 0xff, 0xff, 0xff, 0x40, 0x0],
    [0x0, 0x0, 0x0, 0x0, 0x0, 0x0, 0x0, 0x0],
    [0x0, 0xaf, 0xff, 0xff, 0xff, 0xff, 0xd0, 0x0],
    [0x0, 0x0, 0x0, 0x0, 0x0, 0x0, 0x0, 0x0],
    [0xbf, 0xff, 0xff, 0xff, 0xf4, 0x0, 0x0, 0x0],
    [0x0, 0x0, 0x0, 0x0, 0x0, 0x0, 0x0, 0x7f],
    [0xff, 0xff, 0xff, 0xff, 0xf2, 0x0, 0x0, 0x0],
    [0x0, 0x0, 0x0, 0x0, 0x0, 0x0, 0xb, 0xff],
    [0xff, 0xff, 0xff, 0x40, 0x0, 0x0, 0x0, 0x0],
    [0x0, 0x0, 0x0, 0x0, 0x0, 0x3f, 0xff, 0xff],
    [0xff, 0xff, 0xf5, 0x0, 0x0, 0x0, 0x0, 0x0],
    [0x0, 0x0, 0x0, 0x0, 0x0, 0xbf, 0xff, 0xff],
    [0xff, 0xf4, 0x0, 0x0, 0x0, 0x0, 0x0, 0x0],
    [0x0, 0x0, 0x0, 0x1e, 0xff, 0xff, 0xff, 0xff],
    [0xf9, 0x0, 0x0, 0x0, 0x0, 0x0, 0x0, 0x0],
    [0x0, 0x0, 0x0, 0xb, 0xff, 0xff, 0xff, 0xff],
    [0x40, 0x0, 0x0, 0x0, 0x0, 0x0, 0x0, 0x0],
    [0x0, 0xc, 0xff, 0xff, 0xff, 0xff, 0xfc, 0x0],
    [0x0, 0x0, 0x0, 0x0, 0x0, 0x0, 0x0, 0x0],
    [0x0, 0x0, 0xbf, 0xff, 0xff, 0xff, 0xf4, 0x0]]"

lemma glyph_U0034_a_length: "length (concat glyph_U0034_a) = 1184"
  by (simp add: glyph_U0034_a_def)

definition glyph_U0034_b :: "u8 list list" where
  "glyph_U0034_b = [
    [0x0, 0x0, 0x0, 0x0, 0x0, 0x0, 0x0, 0x9],
    [0xff, 0xff, 0xff, 0xff, 0xfe, 0x10, 0x0, 0x0],
    [0x0, 0x0, 0x0, 0x0, 0x0, 0x0, 0x0, 0x0],
    [0xb, 0xff, 0xff, 0xff, 0xff, 0x40, 0x0, 0x0],
    [0x0, 0x0, 0x0, 0x0, 0x0, 0x5, 0xff, 0xff],
    [0xff, 0xff, 0xff, 0x40, 0x0, 0x0, 0x0, 0x0],
    [0x0, 0x0, 0x0, 0x0, 0x0, 0x0, 0x0, 0xbf],
    [0xff, 0xff, 0xff, 0xf4, 0x0, 0x0, 0x0, 0x0],
    [0x0, 0x0, 0x0, 0x2, 0xff, 0xff, 0xff, 0xff],
    [0xff, 0x70, 0x0, 0x0, 0x0, 0x0, 0x0, 0x0],
    [0x0, 0x0, 0x0, 0x0, 0x0, 0xb, 0xff, 0xff],
    [0xff, 0xff, 0x40, 0x0, 0x0, 0x0, 0x0, 0x0],
    [0x0, 0x1, 0xdf, 0xff, 0xff, 0xff, 0xff, 0xc3],
    [0x33, 0x33, 0x33, 0x33, 0x33, 0x33, 0x33, 0x33],
    [0x33, 0x33, 0x33, 0x33, 0xcf, 0xff, 0xff, 0xff],
    [0xf7, 0x33, 0x33, 0x33, 0x33, 0x33, 0x33, 0x0],
    [0xbf, 0xff, 0xff, 0xff, 0xff, 0xff, 0xff, 0xff],
    [0xff, 0xff, 0xff, 0xff, 0xff, 0xff, 0xff, 0xff],
    [0xff, 0xff, 0xff, 0xff, 0xff, 0xff, 0xff, 0xff],
    [0xff, 0xff, 0xff, 0xff, 0xff, 0xf1, 0x5f, 0xff],
    [0xff, 0xff, 0xff, 0xff, 0xff, 0xff, 0xff, 0xff],
    [0xff, 0xff, 0xff, 0xff, 0xff, 0xff, 0xff, 0xff],
    [0xff, 0xff, 0xff, 0xff, 0xff, 0xff, 0xff, 0xff],
    [0xff, 0xff, 0xff, 0xff, 0x15, 0xff, 0xff, 0xff],
    [0xff, 0xff, 0xff, 0xff, 0xff, 0xff, 0xff, 0xff],
    [0xff, 0xff, 0xff, 0xff, 0xff, 0xff, 0xff, 0xff],
    [0xff, 0xff, 0xff, 0xff, 0xff, 0xff, 0xff, 0xff],
    [0xff, 0xff, 0xf1, 0x5f, 0xff, 0xff, 0xff, 0xff],
    [0xff, 0xff, 0xff, 0xff, 0xff, 0xff, 0xff, 0xff],
    [0xff, 0xff, 0xff, 0xff, 0xff, 0xff, 0xff, 0xff],
    [0xff, 0xff, 0xff, 0xff, 0xff, 0xff, 0xff, 0xff],
    [0xff, 0x15, 0xff, 0xff, 0xff, 0xff, 0xff, 0xff],
    [0xff, 0xff, 0xff, 0xff, 0xff, 0xff, 0xff, 0xff],
    [0xff, 0xff, 0xff, 0xff, 0xff, 0xff, 0xff, 0xff],
    [0xff, 0xff, 0xff, 0xff, 0xff, 0xff, 0xff, 0xf1],
    [0x5f, 0xff, 0xff, 0xff, 0xff, 0xff, 0xff, 0xff],
    [0xff, 0xff, 0xff, 0xff, 0xff, 0xff, 0xff, 0xff],
    [0xff, 0xff, 0xff, 0xff, 0xff, 0xff, 0xff, 0xff],
    [0xff, 0xff, 0xff, 0xff, 0xff, 0xff, 0x15, 0xff],
    [0xff, 0xff, 0xff, 0xff, 0xff, 0xff, 0xff, 0xff],
    [0xff, 0xff, 0xff, 0xff, 0xff, 0xff, 0xff, 0xff],
    [0xff, 0xff, 0xff, 0xff, 0xff, 0xff, 0xff, 0xff],
    [0xff, 0xff, 0xff, 0xff, 0xf1, 0x5f, 0xff, 0xff],
    [0xff, 0xff, 0xff, 0xff, 0xff, 0xff, 0xff, 0xff],
    [0xff, 0xff, 0xff, 0xff, 0xff, 0xff, 0xff, 0xff],
    [0xff, 0xff, 0xff, 0xff, 0xff, 0xff, 0xff, 0xff],
    [0xff, 0xff, 0xff, 0x10, 0x0, 0x0, 0x0, 0x0],
    [0x0, 0x0, 0x0, 0x0, 0x0, 0x0, 0x0, 0x0],
    [0x0, 0x0, 0x0, 0x0, 0x0, 0x0, 0xf, 0xff],
    [0xff, 0xff, 0xff, 0x40, 0x0, 0x0, 0x0, 0x0],
    [0x0, 0x0, 0x0, 0x0, 0x0, 0x0, 0x0, 0x0],
    [0x0, 0x0, 0x0, 0x0, 0x0, 0x0, 0x0, 0x0],
    [0x0, 0x0, 0x0, 0x0, 0x0, 0xff, 0xff, 0xff],
    [0xff, 0xf4, 0x0, 0x0, 0x0, 0x0, 0x0, 0x0],
    [0x0, 0x0, 0x0, 0x0, 0x0, 0x0, 0x0, 0x0],
    [0x0, 0x0, 0x0, 0x0, 0x0, 0x0, 0x0, 0x0],
    [0x0, 0x0, 0x0, 0xf, 0xff, 0xff, 0xff, 0xff],
    [0x40, 0x0, 0x0, 0x0, 0x0, 0x0, 0x0, 0x0],
    [0x0, 0x0, 0x0, 0x0, 0x0, 0x0, 0x0, 0x0],
    [0x0, 0x0, 0x0, 0x0, 0x0, 0x0, 0x0, 0x0],
    [0x0, 0x0, 0xff, 0xff, 0xff, 0xff, 0xf4, 0x0],
    [0x0, 0x0, 0x0, 0x0, 0x0, 0x0, 0x0, 0x0],
    [0x0, 0x0, 0x0, 0x0, 0x0, 0x0, 0x0, 0x0],
    [0x0, 0x0, 0x0, 0x0, 0x0, 0x0, 0x0, 0x0],
    [0xf, 0xff, 0xff, 0xff, 0xff, 0x40, 0x0, 0x0],
    [0x0, 0x0, 0x0, 0x0, 0x0, 0x0, 0x0, 0x0],
    [0x0, 0x0, 0x0, 0x0, 0x0, 0x0, 0x0, 0x0],
    [0x0, 0x0, 0x0, 0x0, 0x0, 0x0, 0x0, 0xff],
    [0xff, 0xff, 0xff, 0xf4, 0x0, 0x0, 0x0, 0x0],
    [0x0, 0x0, 0x0, 0x0, 0x0, 0x0, 0x0, 0x0],
    [0x0, 0x0, 0x0, 0x0, 0x0, 0x0, 0x0, 0x0],
    [0x0, 0x0, 0x0, 0x0, 0x0, 0xf, 0xff, 0xff],
    [0xff, 0xff, 0x40, 0x0, 0x0, 0x0, 0x0, 0x0],
    [0x0, 0x0, 0x0, 0x0, 0x0, 0x0, 0x0, 0x0],
    [0x0, 0x0, 0x0, 0x0, 0x0, 0x0, 0x0, 0x0],
    [0x0, 0x0, 0x0, 0x0, 0xff, 0xff, 0xff, 0xff],
    [0xf4, 0x0, 0x0, 0x0, 0x0, 0x0, 0x0, 0x0],
    [0x0, 0x0, 0x0, 0x0, 0x0, 0x0, 0x0, 0x0],
    [0x0, 0x0, 0x0, 0x0, 0x0, 0x0, 0x0, 0x0],
    [0x0, 0x0, 0xf, 0xff, 0xff, 0xff, 0xff, 0x40],
    [0x0, 0x0, 0x0, 0x0, 0x0, 0x0, 0x0, 0x0],
    [0x0, 0x0, 0x0, 0x0, 0x0, 0x0, 0x0, 0x0],
    [0x0, 0x0, 0x0, 0x0, 0x0, 0x0, 0x0, 0x0],
    [0x0, 0xff, 0xff, 0xff, 0xff, 0xf4, 0x0, 0x0],
    [0x0, 0x0, 0x0, 0x0, 0x0, 0x0, 0x0, 0x0],
    [0x0, 0x0, 0x0, 0x0, 0x0, 0x0, 0x0, 0x0],
    [0x0, 0x0, 0x0, 0x0, 0x0, 0x0, 0x0, 0xf],
    [0xff, 0xff, 0xff, 0xff, 0x40, 0x0, 0x0, 0x0],
    [0x0, 0x0, 0x0, 0x0, 0x0, 0x0, 0x0, 0x0],
    [0x0, 0x0, 0x0, 0x0, 0x0, 0x0, 0x0, 0x0],
    [0x0, 0x0, 0x0, 0x0, 0x0, 0x0, 0xff, 0xff],
    [0xff, 0xff, 0xf4, 0x0, 0x0, 0x0, 0x0, 0x0],
    [0x0, 0x0, 0x0, 0x0, 0x0, 0x0, 0x0, 0x0],
    [0x0, 0x0, 0x0, 0x0, 0x0, 0x0, 0x0, 0x0],
    [0x0, 0x0, 0x0, 0x0, 0xf, 0xff, 0xff, 0xff],
    [0xff, 0x40, 0x0, 0x0, 0x0, 0x0, 0x0, 0x0],
    [0x0, 0x0, 0x0, 0x0, 0x0, 0x0, 0x0, 0x0],
    [0x0, 0x0, 0x0, 0x0, 0x0, 0x0, 0x0, 0x0],
    [0x0, 0x0, 0x0, 0xff, 0xff, 0xff, 0xff, 0xf4],
    [0x0, 0x0, 0x0, 0x0, 0x0, 0x0, 0x0, 0x0],
    [0x0, 0x0, 0x0, 0x0, 0x0, 0x0, 0x0, 0x0],
    [0x0, 0x0, 0x0, 0x0, 0x0, 0x0, 0x0, 0x0],
    [0x0, 0xf, 0xff, 0xff, 0xff, 0xff, 0x40, 0x0],
    [0x0, 0x0, 0x0, 0x0, 0x0, 0x0, 0x0, 0x0],
    [0x0, 0x0, 0x0, 0x0, 0x0, 0x0, 0x0, 0x0],
    [0x0, 0x0, 0x0, 0x0, 0x0, 0x0, 0x0, 0x0],
    [0xff, 0xff, 0xff, 0xff, 0xf4, 0x0, 0x0, 0x0],
    [0x0, 0x0, 0x0, 0x0]]"

lemma glyph_U0034_b_length: "length (concat glyph_U0034_b) = 860"
  by (simp add: glyph_U0034_b_def)

definition glyph_U0035_a :: "u8 list list" where
  "glyph_U0035_a = [
    [0x0, 0x0, 0x0, 0x0, 0xf, 0xff, 0xff, 0xff],
    [0xff, 0xff, 0xff, 0xff, 0xff, 0xff, 0xff, 0xff],
    [0xff, 0xff, 0xff, 0xff, 0xff, 0xff, 0xff, 0xf0],
    [0x0, 0x0, 0x0, 0x0, 0x0, 0x1, 0xff, 0xff],
    [0xff, 0xff, 0xff, 0xff, 0xff, 0xff, 0xff, 0xff],
    [0xff, 0xff, 0xff, 0xff, 0xff, 0xff, 0xff, 0xff],
    [0xff, 0x0, 0x0, 0x0, 0x0, 0x0, 0x0, 0x2f],
    [0xff, 0xff, 0xff, 0xff, 0xff, 0xff, 0xff, 0xff],
    [0xff, 0xff, 0xff, 0xff, 0xff, 0xff, 0xff, 0xff],
    [0xff, 0xff, 0xf0, 0x0, 0x0, 0x0, 0x0, 0x0],
    [0x4, 0xff, 0xff, 0xff, 0xff, 0xff, 0xff, 0xff],
    [0xff, 0xff, 0xff, 0xff, 0xff, 0xff, 0xff, 0xff],
    [0xff, 0xff, 0xff, 0xff, 0x0, 0x0, 0x0, 0x0],
    [0x0, 0x0, 0x6f, 0xff, 0xff, 0xff, 0xff, 0xff],
    [0xff, 0xff, 0xff, 0xff, 0xff, 0xff, 0xff, 0xff],
    [0xff, 0xff, 0xff, 0xff, 0xff, 0xf0, 0x0, 0x0],
    [0x0, 0x0, 0x0, 0x7, 0xff, 0xff, 0xff, 0xff],
    [0xff, 0xff, 0xff, 0xff, 0xff, 0xff, 0xff, 0xff],
    [0xff, 0xff, 0xff, 0xff, 0xff, 0xff, 0xff, 0x0],
    [0x0, 0x0, 0x0, 0x0, 0x0, 0x9f, 0xff, 0xff],
    [0xff, 0xff, 0xff, 0xff, 0xff, 0xff, 0xff, 0xff],
    [0xff, 0xff, 0xff, 0xff, 0xff, 0xff, 0xff, 0xff],
    [0xf0, 0x0, 0x0, 0x0, 0x0, 0x0, 0xa, 0xff],
    [0xff, 0xff, 0xff, 0xff, 0xff, 0xff, 0xff, 0xff],
    [0xff, 0xff, 0xff, 0xff, 0xff, 0xff, 0xff, 0xff],
    [0xff, 0xff, 0x0, 0x0, 0x0, 0x0, 0x0, 0x0],
    [0xcf, 0xff, 0xff, 0xff, 0xf5, 0x44, 0x44, 0x44],
    [0x44, 0x44, 0x44, 0x44, 0x44, 0x44, 0x44, 0x44],
    [0x44, 0x44, 0x44, 0x40, 0x0, 0x0, 0x0, 0x0],
    [0x0, 0xe, 0xff, 0xff, 0xff, 0xff, 0x0, 0x0],
    [0x0, 0x0, 0x0, 0x0, 0x0, 0x0, 0x0, 0x0],
    [0x0, 0x0, 0x0, 0x0, 0x0, 0x0, 0x0, 0x0],
    [0x0, 0x0, 0x0, 0xff, 0xff, 0xff, 0xff, 0xe0],
    [0x0, 0x0, 0x0, 0x0, 0x0, 0x0, 0x0, 0x0],
    [0x0, 0x0, 0x0, 0x0, 0x0, 0x0, 0x0, 0x0],
    [0x0, 0x0, 0x0, 0x0, 0x1f, 0xff, 0xff, 0xff],
    [0xfd, 0x0, 0x0, 0x0, 0x0, 0x0, 0x0, 0x0],
    [0x0, 0x0, 0x0, 0x0, 0x0, 0x0, 0x0, 0x0],
    [0x0, 0x0, 0x0, 0x0, 0x0, 0x3, 0xff, 0xff],
    [0xff, 0xff, 0xb0, 0x0, 0x0, 0x0, 0x0, 0x0],
    [0x0, 0x0, 0x0, 0x0, 0x0, 0x0, 0x0, 0x0],
    [0x0, 0x0, 0x0, 0x0, 0x0, 0x0, 0x0, 0x4f],
    [0xff, 0xff, 0xff, 0xf9, 0x0, 0x0, 0x0, 0x0],
    [0x0, 0x0, 0x0, 0x0, 0x0, 0x0, 0x0, 0x0],
    [0x0, 0x0, 0x0, 0x0, 0x0, 0x0, 0x0, 0x0],
    [0x6, 0xff, 0xff, 0xff, 0xff, 0x80, 0x0, 0x0],
    [0x0, 0x0, 0x0, 0x0, 0x0, 0x0, 0x0, 0x0],
    [0x0, 0x0, 0x0, 0x0, 0x0, 0x0, 0x0, 0x0],
    [0x0, 0x0, 0x7f, 0xff, 0xff, 0xff, 0xf6, 0x0],
    [0x0, 0x0, 0x0, 0x0, 0x0, 0x0, 0x0, 0x0],
    [0x0, 0x0, 0x0, 0x0, 0x0, 0x0, 0x0, 0x0],
    [0x0, 0x0, 0x0, 0x9, 0xff, 0xff, 0xff, 0xff],
    [0x50, 0x0, 0x0, 0x0, 0x0, 0x0, 0x0, 0x0],
    [0x0, 0x0, 0x0, 0x0, 0x0, 0x0, 0x0, 0x0],
    [0x0, 0x0, 0x0, 0x0, 0x0, 0xbf, 0xff, 0xff],
    [0xff, 0xf3, 0x0, 0x0, 0x0, 0x0, 0x0, 0x0],
    [0x0, 0x0, 0x0, 0x0, 0x0, 0x0, 0x0, 0x0],
    [0x0, 0x0, 0x0, 0x0, 0x0, 0x0, 0xc, 0xff],
    [0xff, 0xff, 0xff, 0x20, 0x0, 0x0, 0x0, 0x0],
    [0x0, 0x0, 0x0, 0x0, 0x0, 0x0, 0x0, 0x0],
    [0x0, 0x0, 0x0, 0x0, 0x0, 0x0, 0x0, 0x0],
    [0xef, 0xff, 0xff, 0xff, 0xf0, 0x0, 0x0, 0x0],
    [0x0, 0x0, 0x0, 0x0, 0x0, 0x0, 0x0, 0x0],
    [0x0, 0x0, 0x0, 0x0, 0x0, 0x0, 0x0, 0x0],
    [0x0, 0xf, 0xff, 0xff, 0xff, 0xfe, 0x0, 0x0],
    [0x0, 0x0, 0x0, 0x0, 0x0, 0x0, 0x0, 0x0],
    [0x0, 0x0, 0x0, 0x0, 0x0, 0x0, 0x0, 0x0],
    [0x0, 0x0, 0x1, 0xff, 0xff, 0xff, 0xff, 0xd0],
    [0x0, 0x0, 0x0, 0x0, 0x0, 0x0, 0x0, 0x0],
    [0x0, 0x0, 0x0, 0x0, 0x0, 0x0, 0x0, 0x0],
    [0x0, 0x0, 0x0, 0x0, 0x3f, 0xff, 0xff, 0xff],
    [0xfb, 0x0, 0x0, 0x0, 0x0, 0x0, 0x0, 0x0],
    [0x0, 0x0, 0x0, 0x0, 0x0, 0x0, 0x0, 0x0],
    [0x0, 0x0, 0x0, 0x0, 0x0, 0x4, 0xff, 0xff],
    [0xff, 0xff, 0xa0, 0x0, 0x0, 0x0, 0x0, 0x0],
    [0x0, 0x0, 0x0, 0x0, 0x0, 0x0, 0x0, 0x0],
    [0x0, 0x0, 0x0, 0x0, 0x0, 0x0, 0x0, 0x6f],
    [0xff, 0xff, 0xff, 0xf8, 0x0, 0x0, 0x0, 0x0],
    [0x0, 0x0, 0x0, 0x0, 0x0, 0x0, 0x0, 0x0],
    [0x0, 0x0, 0x0, 0x0, 0x0, 0x0, 0x0, 0x0],
    [0x8, 0xff, 0xff, 0xff, 0xff, 0x60, 0x0, 0x0],
    [0x0, 0x0, 0x0, 0x0, 0x0, 0x0, 0x0, 0x0],
    [0x0, 0x0, 0x0, 0x0, 0x0, 0x0, 0x0, 0x0],
    [0x0, 0x0, 0x9f, 0xff, 0xff, 0xff, 0xf8, 0x44],
    [0x44, 0x44, 0x44, 0x43, 0x31, 0x0, 0x0, 0x0],
    [0x0, 0x0, 0x0, 0x0, 0x0, 0x0, 0x0, 0x0],
    [0x0, 0x0, 0x0, 0xb, 0xff, 0xff, 0xff, 0xff],
    [0xff, 0xff, 0xff, 0xff, 0xff, 0xff, 0xff, 0xfd],
    [0xa8, 0x51, 0x0, 0x0, 0x0, 0x0, 0x0, 0x0],
    [0x0, 0x0, 0x0, 0x0, 0x0, 0xdf, 0xff, 0xff],
    [0xff, 0xff, 0xff, 0xff, 0xff, 0xff, 0xff, 0xff],
    [0xff, 0xff, 0xff, 0xfe, 0x94, 0x0, 0x0, 0x0],
    [0x0, 0x0, 0x0, 0x0, 0x0, 0x0, 0xe, 0xff],
    [0xff, 0xff, 0xff, 0xff, 0xff, 0xff, 0xff, 0xff],
    [0xff, 0xff, 0xff, 0xff, 0xff, 0xff, 0xfe, 0x81],
    [0x0, 0x0, 0x0, 0x0, 0x0, 0x0, 0x0, 0x0],
    [0xff, 0xff, 0xff, 0xff, 0xff, 0xff, 0xff, 0xff],
    [0xff, 0xff, 0xff, 0xff, 0xff, 0xff, 0xff, 0xff],
    [0xff, 0xf8, 0x0, 0x0, 0x0, 0x0, 0x0, 0x0],
    [0x0, 0x1f, 0xff, 0xff, 0xff, 0xff, 0xff, 0xff],
    [0xff, 0xff, 0xff, 0xff, 0xff, 0xff, 0xff, 0xff],
    [0xff, 0xff, 0xff, 0xfe, 0x40, 0x0, 0x0, 0x0],
    [0x0, 0x0, 0x3, 0xff, 0xff, 0xff, 0xff, 0xff],
    [0xff, 0xff, 0xff, 0xff, 0xff, 0xff, 0xff, 0xff],
    [0xff, 0xff, 0xff, 0xff, 0xff, 0xff, 0x70, 0x0],
    [0x0, 0x0, 0x0, 0x0, 0x5f, 0xff, 0xff, 0xff],
    [0xff, 0xff, 0xff, 0xff, 0xff, 0xff, 0xff, 0xff],
    [0xff, 0xff, 0xff, 0xff, 0xff, 0xff, 0xff, 0xff],
    [0x80, 0x0, 0x0, 0x0, 0x0, 0x6, 0xff, 0xff],
    [0xff, 0xff, 0xff, 0xff, 0xff, 0xff, 0xff, 0xff],
    [0xff, 0xff, 0xff, 0xff, 0xff, 0xff, 0xff, 0xff],
    [0xff, 0xff, 0x70, 0x0, 0x0, 0x0, 0x0, 0x0],
    [0x0, 0x0, 0x0, 0x0, 0x0, 0x0, 0x0, 0x0],
    [0x1, 0x24, 0x57, 0xad, 0xff, 0xff, 0xff, 0xff],
    [0xff, 0xff, 0xff, 0xff, 0x40, 0x0, 0x0, 0x0],
    [0x0, 0x0, 0x0, 0x0, 0x0, 0x0, 0x0, 0x0],
    [0x0, 0x0, 0x0, 0x0, 0x0, 0x1, 0x5a, 0xff],
    [0xff, 0xff, 0xff, 0xff, 0xff, 0xfe, 0x10, 0x0],
    [0x0, 0x0, 0x0, 0x0, 0x0, 0x0, 0x0, 0x0],
    [0x0, 0x0, 0x0, 0x0, 0x0, 0x0, 0x0, 0x0],
    [0x1, 0x8f, 0xff, 0xff, 0xff, 0xff, 0xff, 0xf8],
    [0x0, 0x0, 0x0, 0x0, 0x0, 0x0, 0x0, 0x0],
    [0x0, 0x0, 0x0, 0x0, 0x0, 0x0, 0x0, 0x0],
    [0x0, 0x0, 0x0, 0x2c, 0xff, 0xff, 0xff, 0xff],
    [0xff, 0xf1, 0x0, 0x0, 0x0, 0x0, 0x0, 0x0],
    [0x0, 0x0, 0x0, 0x0, 0x0, 0x0, 0x0, 0x0],
    [0x0, 0x0, 0x0, 0x0, 0x0, 0xb, 0xff, 0xff],
    [0xff, 0xff, 0xff, 0x70, 0x0, 0x0, 0x0, 0x0],
    [0x0, 0x0, 0x0, 0x0, 0x0, 0x0, 0x0, 0x0],
    [0x0, 0x0, 0x0, 0x0, 0x0, 0x0, 0x0, 0xd],
    [0xff, 0xff, 0xff, 0xff, 0xfd, 0x0, 0x0, 0x0],
    [0x0, 0x0, 0x0, 0x0, 0x0, 0x0, 0x0, 0x0],
    [0x0, 0x0, 0x0, 0x0, 0x0, 0x0, 0x0, 0x0],
    [0x0, 0x4f, 0xff, 0xff, 0xff, 0xff, 0xf1, 0x0],
    [0x0, 0x0, 0x0, 0x0, 0x0, 0x0, 0x0, 0x0],
    [0x0, 0x0, 0x0, 0x0, 0x0, 0x0, 0x0, 0x0],
    [0x0, 0x0, 0x0, 0xcf, 0xff, 0xff, 0xff, 0xff],
    [0x50, 0x0, 0x0, 0x0, 0x0, 0x0, 0x0, 0x0],
    [0x0, 0x0, 0x0, 0x0, 0x0, 0x0, 0x0, 0x0],
    [0x0, 0x0, 0x0, 0x0, 0x6, 0xff, 0xff, 0xff],
    [0xff, 0xf7, 0x0, 0x0, 0x0, 0x0, 0x0, 0x0],
    [0x0, 0x0, 0x0, 0x0, 0x0, 0x0, 0x0, 0x0],
    [0x0, 0x0, 0x0, 0x0, 0x0, 0x0, 0x2f, 0xff],
    [0xff, 0xff, 0xff, 0xa0, 0x0, 0x0, 0x0, 0x0],
    [0x0, 0x0, 0x0, 0x0, 0x0, 0x0, 0x0, 0x0],
    [0x0, 0x0, 0x0, 0x0, 0x0, 0x0, 0x0, 0x0],
    [0xff, 0xff, 0xff, 0xff, 0xfb, 0x0, 0x0, 0x0],
    [0x0, 0x0, 0x0, 0x0, 0x0, 0x0, 0x0, 0x0]]"

lemma glyph_U0035_a_length: "length (concat glyph_U0035_a) = 1184"
  by (simp add: glyph_U0035_a_def)

definition glyph_U0035_b :: "u8 list list" where
  "glyph_U0035_b = [
    [0x0, 0x0, 0x0, 0x0, 0x0, 0x0, 0x0, 0x0],
    [0x0, 0xe, 0xff, 0xff, 0xff, 0xff, 0xb0, 0x0],
    [0x0, 0x0, 0x0, 0x0, 0x0, 0x0, 0x0, 0x0],
    [0x0, 0x0, 0x0, 0x0, 0x0, 0x0, 0x0, 0x0],
    [0x0, 0x0, 0x0, 0xef, 0xff, 0xff, 0xff, 0xfb],
    [0x0, 0x0, 0x0, 0x0, 0x0, 0x0, 0x0, 0x0],
    [0x0, 0x0, 0x0, 0x0, 0x0, 0x0, 0x0, 0x0],
    [0x0, 0x0, 0x0, 0x0, 0xf, 0xff, 0xff, 0xff],
    [0xff, 0xa0, 0x0, 0x0, 0x0, 0x0, 0x0, 0x0],
    [0x0, 0x0, 0x0, 0x0, 0x0, 0x0, 0x0, 0x0],
    [0x0, 0x0, 0x0, 0x0, 0x0, 0x1, 0xff, 0xff],
    [0xff, 0xff, 0xf9, 0x0, 0x0, 0x0, 0x0, 0x0],
    [0x0, 0x0, 0x0, 0x0, 0x0, 0x0, 0x0, 0x0],
    [0x0, 0x0, 0x0, 0x0, 0x0, 0x0, 0x0, 0x5f],
    [0xff, 0xff, 0xff, 0xff, 0x60, 0x0, 0x0, 0x0],
    [0x0, 0x0, 0x0, 0x0, 0x0, 0x0, 0x0, 0x0],
    [0x0, 0x0, 0x0, 0x0, 0x0, 0x0, 0x0, 0x0],
    [0xa, 0xff, 0xff, 0xff, 0xff, 0xf3, 0x0, 0x0],
    [0x5b, 0x0, 0x0, 0x0, 0x0, 0x0, 0x0, 0x0],
    [0x0, 0x0, 0x0, 0x0, 0x0, 0x0, 0x0, 0x0],
    [0x0, 0x2, 0xff, 0xff, 0xff, 0xff, 0xff, 0x0],
    [0x0, 0xd, 0xfd, 0x20, 0x0, 0x0, 0x0, 0x0],
    [0x0, 0x0, 0x0, 0x0, 0x0, 0x0, 0x0, 0x0],
    [0x0, 0x0, 0x0, 0xcf, 0xff, 0xff, 0xff, 0xff],
    [0xa0, 0x0, 0x7, 0xff, 0xff, 0x80, 0x0, 0x0],
    [0x0, 0x0, 0x0, 0x0, 0x0, 0x0, 0x0, 0x0],
    [0x0, 0x0, 0x0, 0x0, 0x9f, 0xff, 0xff, 0xff],
    [0xff, 0xf4, 0x0, 0x1, 0xff, 0xff, 0xff, 0xe6],
    [0x0, 0x0, 0x0, 0x0, 0x0, 0x0, 0x0, 0x0],
    [0x0, 0x0, 0x0, 0x0, 0x0, 0x9f, 0xff, 0xff],
    [0xff, 0xff, 0xfd, 0x0, 0x0, 0xaf, 0xff, 0xff],
    [0xff, 0xfe, 0x71, 0x0, 0x0, 0x0, 0x0, 0x0],
    [0x0, 0x0, 0x0, 0x0, 0x0, 0x4, 0xdf, 0xff],
    [0xff, 0xff, 0xff, 0xff, 0x50, 0x0, 0x4f, 0xff],
    [0xff, 0xff, 0xff, 0xff, 0xfb, 0x61, 0x0, 0x0],
    [0x0, 0x0, 0x0, 0x0, 0x0, 0x0, 0x5b, 0xff],
    [0xff, 0xff, 0xff, 0xff, 0xff, 0xc0, 0x0, 0xd],
    [0xff, 0xff, 0xff, 0xff, 0xff, 0xff, 0xff, 0xfe],
    [0xa7, 0x53, 0x10, 0x0, 0x1, 0x25, 0x8b, 0xff],
    [0xff, 0xff, 0xff, 0xff, 0xff, 0xff, 0xf2, 0x0],
    [0x2, 0xef, 0xff, 0xff, 0xff, 0xff, 0xff, 0xff],
    [0xff, 0xff, 0xff, 0xff, 0xff, 0xff, 0xff, 0xff],
    [0xff, 0xff, 0xff, 0xff, 0xff, 0xff, 0xff, 0xf5],
    [0x0, 0x0, 0x2, 0xdf, 0xff, 0xff, 0xff, 0xff],
    [0xff, 0xff, 0xff, 0xff, 0xff, 0xff, 0xff, 0xff],
    [0xff, 0xff, 0xff, 0xff, 0xff, 0xff, 0xff, 0xff],
    [0xf6, 0x0, 0x0, 0x0, 0x0, 0x8f, 0xff, 0xff],
    [0xff, 0xff, 0xff, 0xff, 0xff, 0xff, 0xff, 0xff],
    [0xff, 0xff, 0xff, 0xff, 0xff, 0xff, 0xff, 0xff],
    [0xff, 0xf6, 0x0, 0x0, 0x0, 0x0, 0x0, 0x2c],
    [0xff, 0xff, 0xff, 0xff, 0xff, 0xff, 0xff, 0xff],
    [0xff, 0xff, 0xff, 0xff, 0xff, 0xff, 0xff, 0xff],
    [0xff, 0xff, 0xe3, 0x0, 0x0, 0x0, 0x0, 0x0],
    [0x0, 0x4, 0xbf, 0xff, 0xff, 0xff, 0xff, 0xff],
    [0xff, 0xff, 0xff, 0xff, 0xff, 0xff, 0xff, 0xff],
    [0xff, 0xff, 0xff, 0x91, 0x0, 0x0, 0x0, 0x0],
    [0x0, 0x0, 0x0, 0x0, 0x39, 0xef, 0xff, 0xff],
    [0xff, 0xff, 0xff, 0xff, 0xff, 0xff, 0xff, 0xff],
    [0xff, 0xff, 0xff, 0xfb, 0x20, 0x0, 0x0, 0x0],
    [0x0, 0x0, 0x0, 0x0, 0x0, 0x0, 0x0, 0x59],
    [0xef, 0xff, 0xff, 0xff, 0xff, 0xff, 0xff, 0xff],
    [0xff, 0xff, 0xff, 0xfe, 0x82, 0x0, 0x0, 0x0],
    [0x0, 0x0, 0x0, 0x0, 0x0, 0x0, 0x0, 0x0],
    [0x0, 0x0, 0x26, 0x9c, 0xff, 0xff, 0xff, 0xff],
    [0xff, 0xff, 0xff, 0xeb, 0x73, 0x0, 0x0, 0x0],
    [0x0, 0x0, 0x0, 0x0, 0x0, 0x0, 0x0, 0x0],
    [0x0, 0x0, 0x0, 0x0, 0x0, 0x0, 0x13, 0x56],
    [0x67, 0x77, 0x65, 0x42, 0x0, 0x0, 0x0, 0x0],
    [0x0, 0x0, 0x0, 0x0, 0x0, 0x0]]"

lemma glyph_U0035_b_length: "length (concat glyph_U0035_b) = 550"
  by (simp add: glyph_U0035_b_def)

definition glyph_U0036_a :: "u8 list list" where
  "glyph_U0036_a = [
    [0x0, 0x0, 0x0, 0x0, 0x0, 0x0, 0x0, 0x0],
    [0x0, 0x0, 0x0, 0x0, 0x36, 0x8b, 0xce, 0xff],
    [0xff, 0xed, 0xca, 0x85, 0x20, 0x0, 0x0, 0x0],
    [0x0, 0x0, 0x0, 0x0, 0x0, 0x0, 0x0, 0x0],
    [0x0, 0x0, 0x0, 0x0, 0x1, 0x6b, 0xff, 0xff],
    [0xff, 0xff, 0xff, 0xff, 0xff, 0xff, 0xff, 0xfc],
    [0x72, 0x0, 0x0, 0x0, 0x0, 0x0, 0x0, 0x0],
    [0x0, 0x0, 0x0, 0x0, 0x0, 0x0, 0x4b, 0xff],
    [0xff, 0xff, 0xff, 0xff, 0xff, 0xff, 0xff, 0xff],
    [0xff, 0xff, 0xff, 0xfc, 0x60, 0x0, 0x0, 0x0],
    [0x0, 0x0, 0x0, 0x0, 0x0, 0x0, 0x0, 0x5],
    [0xdf, 0xff, 0xff, 0xff, 0xff, 0xff, 0xff, 0xff],
    [0xff, 0xff, 0xff, 0xff, 0xff, 0xff, 0xff, 0xe6],
    [0x0, 0x0, 0x0, 0x0, 0x0, 0x0, 0x0, 0x0],
    [0x0, 0x2c, 0xff, 0xff, 0xff, 0xff, 0xff, 0xff],
    [0xff, 0xff, 0xff, 0xff, 0xff, 0xff, 0xff, 0xff],
    [0xff, 0xff, 0xc0, 0x0, 0x0, 0x0, 0x0, 0x0],
    [0x0, 0x0, 0x0, 0x6f, 0xff, 0xff, 0xff, 0xff],
    [0xff, 0xff, 0xff, 0xff, 0xff, 0xff, 0xff, 0xff],
    [0xff, 0xff, 0xff, 0xff, 0xf5, 0x0, 0x0, 0x0],
    [0x0, 0x0, 0x0, 0x0, 0x0, 0xbf, 0xff, 0xff],
    [0xff, 0xff, 0xff, 0xff, 0xff, 0xff, 0xff, 0xff],
    [0xff, 0xff, 0xff, 0xff, 0xff, 0xff, 0xfd, 0x0],
    [0x0, 0x0, 0x0, 0x0, 0x0, 0x0, 0x1, 0xcf],
    [0xff, 0xff, 0xff, 0xff, 0xff, 0xff, 0xff, 0xff],
    [0xff, 0xff, 0xff, 0xff, 0xff, 0xff, 0xff, 0xff],
    [0xff, 0x50, 0x0, 0x0, 0x0, 0x0, 0x0, 0x0],
    [0x2, 0xdf, 0xff, 0xff, 0xff, 0xff, 0xff, 0xff],
    [0xff, 0xda, 0x86, 0x44, 0x34, 0x45, 0x69, 0xcf],
    [0xff, 0xff, 0xff, 0xd0, 0x0, 0x0, 0x0, 0x0],
    [0x0, 0x0, 0x1, 0xdf, 0xff, 0xff, 0xff, 0xff],
    [0xff, 0xff, 0xb6, 0x10, 0x0, 0x0, 0x0, 0x0],
    [0x0, 0x0, 0x3, 0x9e, 0xff, 0xf5, 0x0, 0x0],
    [0x0, 0x0, 0x0, 0x0, 0x0, 0xbf, 0xff, 0xff],
    [0xff, 0xff, 0xff, 0xfa, 0x20, 0x0, 0x0, 0x0],
    [0x0, 0x0, 0x0, 0x0, 0x0, 0x0, 0x5, 0xed],
    [0x0, 0x0, 0x0, 0x0, 0x0, 0x0, 0x0, 0x8f],
    [0xff, 0xff, 0xff, 0xff, 0xff, 0xc3, 0x0, 0x0],
    [0x0, 0x0, 0x0, 0x0, 0x0, 0x0, 0x0, 0x0],
    [0x0, 0x0, 0x20, 0x0, 0x0, 0x0, 0x0, 0x0],
    [0x0, 0x4f, 0xff, 0xff, 0xff, 0xff, 0xff, 0x90],
    [0x0, 0x0, 0x0, 0x0, 0x0, 0x0, 0x0, 0x0],
    [0x0, 0x0, 0x0, 0x0, 0x0, 0x0, 0x0, 0x0],
    [0x0, 0x0, 0x0, 0xe, 0xff, 0xff, 0xff, 0xff],
    [0xff, 0x60, 0x0, 0x0, 0x0, 0x0, 0x0, 0x0],
    [0x0, 0x0, 0x0, 0x0, 0x0, 0x0, 0x0, 0x0],
    [0x0, 0x0, 0x0, 0x0, 0x0, 0x8, 0xff, 0xff],
    [0xff, 0xff, 0xff, 0x60, 0x0, 0x0, 0x0, 0x0],
    [0x0, 0x0, 0x0, 0x0, 0x0, 0x0, 0x0, 0x0],
    [0x0, 0x0, 0x0, 0x0, 0x0, 0x0, 0x0, 0x2],
    [0xff, 0xff, 0xff, 0xff, 0xff, 0x80, 0x0, 0x0],
    [0x0, 0x0, 0x0, 0x0, 0x0, 0x0, 0x0, 0x0],
    [0x0, 0x0, 0x0, 0x0, 0x0, 0x0, 0x0, 0x0],
    [0x0, 0x0, 0x9f, 0xff, 0xff, 0xff, 0xff, 0xb0],
    [0x0, 0x0, 0x0, 0x0, 0x0, 0x0, 0x0, 0x0],
    [0x0, 0x0, 0x0, 0x0, 0x0, 0x0, 0x0, 0x0],
    [0x0, 0x0, 0x0, 0x0, 0x1f, 0xff, 0xff, 0xff],
    [0xff, 0xf2, 0x0, 0x0, 0x0, 0x0, 0x0, 0x0],
    [0x0, 0x0, 0x0, 0x0, 0x0, 0x0, 0x0, 0x0],
    [0x0, 0x0, 0x0, 0x0, 0x0, 0x0, 0x7, 0xff],
    [0xff, 0xff, 0xff, 0xf7, 0x0, 0x0, 0x0, 0x0],
    [0x0, 0x0, 0x0, 0x0, 0x0, 0x0, 0x0, 0x0],
    [0x0, 0x0, 0x0, 0x0, 0x0, 0x0, 0x0, 0x0],
    [0x0, 0xdf, 0xff, 0xff, 0xff, 0xfe, 0x0, 0x0],
    [0x0, 0x0, 0x0, 0x0, 0x0, 0x0, 0x0, 0x0],
    [0x0, 0x0, 0x0, 0x0, 0x0, 0x0, 0x0, 0x0],
    [0x0, 0x0, 0x0, 0x3f, 0xff, 0xff, 0xff, 0xff],
    [0x80, 0x0, 0x0, 0x0, 0x0, 0x0, 0x0, 0x0],
    [0x0, 0x0, 0x0, 0x0, 0x0, 0x0, 0x0, 0x0],
    [0x0, 0x0, 0x0, 0x0, 0x0, 0x8, 0xff, 0xff],
    [0xff, 0xff, 0xf2, 0x0, 0x0, 0x0, 0x0, 0x0],
    [0x0, 0x0, 0x0, 0x0, 0x0, 0x0, 0x0, 0x0],
    [0x0, 0x0, 0x0, 0x0, 0x0, 0x0, 0x0, 0x0],
    [0xcf, 0xff, 0xff, 0xff, 0xfc, 0x0, 0x0, 0x0],
    [0x0, 0x0, 0x0, 0x0, 0x0, 0x0, 0x0, 0x0],
    [0x0, 0x0, 0x0, 0x0, 0x0, 0x0, 0x0, 0x0],
    [0x0, 0x0, 0x1f, 0xff, 0xff, 0xff, 0xff, 0x70],
    [0x0, 0x0, 0x0, 0x0, 0x0, 0x0, 0x0, 0x0],
    [0x0, 0x0, 0x0, 0x0, 0x0, 0x0, 0x0, 0x0],
    [0x0, 0x0, 0x0, 0x0, 0x5, 0xff, 0xff, 0xff],
    [0xff, 0xf3, 0x0, 0x0, 0x0, 0x0, 0x0, 0x0],
    [0x0, 0x0, 0x0, 0x0, 0x0, 0x0, 0x0, 0x0],
    [0x0, 0x0, 0x0, 0x0, 0x0, 0x0, 0x0, 0x8f],
    [0xff, 0xff, 0xff, 0xff, 0x0, 0x0, 0x0, 0x0],
    [0x0, 0x0, 0x0, 0x0, 0x0, 0x0, 0x0, 0x0],
    [0x0, 0x0, 0x0, 0x0, 0x0, 0x0, 0x0, 0x0],
    [0x0, 0xa, 0xff, 0xff, 0xff, 0xff, 0xc0, 0x0],
    [0x0, 0x0, 0x0, 0x0, 0x0, 0x0, 0x0, 0x0],
    [0x0, 0x0, 0x0, 0x0, 0x0, 0x0, 0x0, 0x0],
    [0x0, 0x0, 0x0, 0x0, 0xcf, 0xff, 0xff, 0xff],
    [0xfa, 0x0, 0x0, 0x0, 0x0, 0x0, 0x0, 0x14],
    [0x69, 0x9a, 0xba, 0xa9, 0x74, 0x20, 0x0, 0x0],
    [0x0, 0x0, 0x0, 0x0, 0x0, 0x0, 0xf, 0xff],
    [0xff, 0xff, 0xff, 0x80, 0x0, 0x0, 0x0, 0x0],
    [0x59, 0xef, 0xff, 0xff, 0xff, 0xff, 0xff, 0xff],
    [0xea, 0x60, 0x0, 0x0, 0x0, 0x0, 0x0, 0x0],
    [0x1, 0xff, 0xff, 0xff, 0xff, 0xf6, 0x0, 0x0],
    [0x0, 0x19, 0xef, 0xff, 0xff, 0xff, 0xff, 0xff],
    [0xff, 0xff, 0xff, 0xff, 0xf9, 0x30, 0x0, 0x0],
    [0x0, 0x0, 0x0, 0x2f, 0xff, 0xff, 0xff, 0xff],
    [0x40, 0x0, 0x1, 0x9f, 0xff, 0xff, 0xff, 0xff],
    [0xff, 0xff, 0xff, 0xff, 0xff, 0xff, 0xff, 0xff],
    [0xa2, 0x0, 0x0, 0x0, 0x0, 0x3, 0xff, 0xff],
    [0xff, 0xff, 0xf4, 0x0, 0x4, 0xef, 0xff, 0xff],
    [0xff, 0xff, 0xff, 0xff, 0xff, 0xff, 0xff, 0xff],
    [0xff, 0xff, 0xff, 0xf6, 0x0, 0x0, 0x0, 0x0],
    [0x4f, 0xff, 0xff, 0xff, 0xff, 0x30, 0x7, 0xff],
    [0xff, 0xff, 0xff, 0xff, 0xff, 0xff, 0xff, 0xff],
    [0xff, 0xff, 0xff, 0xff, 0xff, 0xff, 0xfa, 0x0],
    [0x0, 0x0, 0x5, 0xff, 0xff, 0xff, 0xff, 0xf3],
    [0x8, 0xff, 0xff, 0xff, 0xff, 0xff, 0xff, 0xff],
    [0xff, 0xff, 0xff, 0xff, 0xff, 0xff, 0xff, 0xff],
    [0xff, 0xfc, 0x0, 0x0, 0x0, 0x5f, 0xff, 0xff],
    [0xff, 0xff, 0x37, 0xff, 0xff, 0xff, 0xff, 0xff],
    [0xff, 0xff, 0xff, 0xff, 0xff, 0xff, 0xff, 0xff],
    [0xff, 0xff, 0xff, 0xff, 0xfc, 0x0, 0x0, 0x6],
    [0xff, 0xff, 0xff, 0xff, 0xf8, 0xff, 0xff, 0xff],
    [0xff, 0xff, 0xfc, 0x74, 0x21, 0x0, 0x12, 0x47],
    [0xbf, 0xff, 0xff, 0xff, 0xff, 0xff, 0xff, 0xfa],
    [0x0, 0x0, 0x5f, 0xff, 0xff, 0xff, 0xff, 0xff],
    [0xff, 0xff, 0xff, 0xfe, 0x71, 0x0, 0x0, 0x0],
    [0x0, 0x0, 0x0, 0x6, 0xcf, 0xff, 0xff, 0xff],
    [0xff, 0xff, 0xf6, 0x0, 0x5, 0xff, 0xff, 0xff],
    [0xff, 0xff, 0xff, 0xff, 0xff, 0xf8, 0x0, 0x0],
    [0x0, 0x0, 0x0, 0x0, 0x0, 0x0, 0x0, 0x6f],
    [0xff, 0xff, 0xff, 0xff, 0xff, 0xe1, 0x0, 0x4f],
    [0xff, 0xff, 0xff, 0xff, 0xff, 0xff, 0xff, 0xe4],
    [0x0, 0x0, 0x0, 0x0, 0x0, 0x0, 0x0, 0x0],
    [0x0, 0x0, 0x1c, 0xff, 0xff, 0xff, 0xff, 0xff],
    [0x80, 0x3, 0xff, 0xff, 0xff, 0xff, 0xff, 0xff],
    [0xff, 0xe2, 0x0, 0x0, 0x0, 0x0, 0x0, 0x0],
    [0x0, 0x0, 0x0, 0x0, 0x0, 0xc, 0xff, 0xff],
    [0xff, 0xff, 0xff, 0x10, 0x2f, 0xff, 0xff, 0xff],
    [0xff, 0xff, 0xff, 0xf3, 0x0, 0x0, 0x0, 0x0],
    [0x0, 0x0, 0x0, 0x0, 0x0, 0x0, 0x0, 0x0],
    [0x1e, 0xff, 0xff, 0xff, 0xff, 0xf6, 0x0, 0xff],
    [0xff, 0xff, 0xff, 0xff, 0xff, 0xf6, 0x0, 0x0],
    [0x0, 0x0, 0x0, 0x0, 0x0, 0x0, 0x0, 0x0],
    [0x0, 0x0, 0x0, 0x4f, 0xff, 0xff, 0xff, 0xff],
    [0xc0, 0xf, 0xff, 0xff, 0xff, 0xff, 0xff, 0xfd],
    [0x0, 0x0, 0x0, 0x0, 0x0, 0x0, 0x0, 0x0],
    [0x0, 0x0, 0x0, 0x0, 0x0, 0x0, 0xcf, 0xff],
    [0xff, 0xff, 0xff, 0x0, 0xcf, 0xff, 0xff, 0xff],
    [0xff, 0xff, 0x60, 0x0, 0x0, 0x0, 0x0, 0x0],
    [0x0, 0x0, 0x0, 0x0, 0x0, 0x0, 0x0, 0x0],
    [0x5, 0xff, 0xff, 0xff, 0xff, 0xf3, 0xa, 0xff],
    [0xff, 0xff, 0xff, 0xff, 0xf0, 0x0, 0x0, 0x0],
    [0x0, 0x0, 0x0, 0x0, 0x0, 0x0, 0x0, 0x0]]"

lemma glyph_U0036_a_length: "length (concat glyph_U0036_a) = 1184"
  by (simp add: glyph_U0036_a_def)

definition glyph_U0036_b :: "u8 list list" where
  "glyph_U0036_b = [
    [0x0, 0x0, 0x0, 0x1f, 0xff, 0xff, 0xff, 0xff],
    [0x60, 0x7f, 0xff, 0xff, 0xff, 0xff, 0xfc, 0x0],
    [0x0, 0x0, 0x0, 0x0, 0x0, 0x0, 0x0, 0x0],
    [0x0, 0x0, 0x0, 0x0, 0x0, 0x0, 0xdf, 0xff],
    [0xff, 0xff, 0xf8, 0x4, 0xff, 0xff, 0xff, 0xff],
    [0xff, 0x90, 0x0, 0x0, 0x0, 0x0, 0x0, 0x0],
    [0x0, 0x0, 0x0, 0x0, 0x0, 0x0, 0x0, 0x0],
    [0xb, 0xff, 0xff, 0xff, 0xff, 0x90, 0xf, 0xff],
    [0xff, 0xff, 0xff, 0xf8, 0x0, 0x0, 0x0, 0x0],
    [0x0, 0x0, 0x0, 0x0, 0x0, 0x0, 0x0, 0x0],
    [0x0, 0x0, 0x0, 0xbf, 0xff, 0xff, 0xff, 0xf9],
    [0x0, 0xcf, 0xff, 0xff, 0xff, 0xff, 0x80, 0x0],
    [0x0, 0x0, 0x0, 0x0, 0x0, 0x0, 0x0, 0x0],
    [0x0, 0x0, 0x0, 0x0, 0x0, 0xb, 0xff, 0xff],
    [0xff, 0xff, 0x90, 0x7, 0xff, 0xff, 0xff, 0xff],
    [0xfa, 0x0, 0x0, 0x0, 0x0, 0x0, 0x0, 0x0],
    [0x0, 0x0, 0x0, 0x0, 0x0, 0x0, 0x0, 0x0],
    [0xcf, 0xff, 0xff, 0xff, 0xf8, 0x0, 0x2f, 0xff],
    [0xff, 0xff, 0xff, 0xc0, 0x0, 0x0, 0x0, 0x0],
    [0x0, 0x0, 0x0, 0x0, 0x0, 0x0, 0x0, 0x0],
    [0x0, 0x0, 0xe, 0xff, 0xff, 0xff, 0xff, 0x60],
    [0x0, 0xcf, 0xff, 0xff, 0xff, 0xff, 0x10, 0x0],
    [0x0, 0x0, 0x0, 0x0, 0x0, 0x0, 0x0, 0x0],
    [0x0, 0x0, 0x0, 0x0, 0x2, 0xff, 0xff, 0xff],
    [0xff, 0xf3, 0x0, 0x6, 0xff, 0xff, 0xff, 0xff],
    [0xf6, 0x0, 0x0, 0x0, 0x0, 0x0, 0x0, 0x0],
    [0x0, 0x0, 0x0, 0x0, 0x0, 0x0, 0x0, 0x7f],
    [0xff, 0xff, 0xff, 0xff, 0x0, 0x0, 0xe, 0xff],
    [0xff, 0xff, 0xff, 0xd0, 0x0, 0x0, 0x0, 0x0],
    [0x0, 0x0, 0x0, 0x0, 0x0, 0x0, 0x0, 0x0],
    [0x0, 0xd, 0xff, 0xff, 0xff, 0xff, 0xc0, 0x0],
    [0x0, 0x7f, 0xff, 0xff, 0xff, 0xff, 0x70, 0x0],
    [0x0, 0x0, 0x0, 0x0, 0x0, 0x0, 0x0, 0x0],
    [0x0, 0x0, 0x0, 0x6, 0xff, 0xff, 0xff, 0xff],
    [0xf7, 0x0, 0x0, 0x0, 0xef, 0xff, 0xff, 0xff],
    [0xff, 0x40, 0x0, 0x0, 0x0, 0x0, 0x0, 0x0],
    [0x0, 0x0, 0x0, 0x0, 0x0, 0x2, 0xff, 0xff],
    [0xff, 0xff, 0xff, 0x10, 0x0, 0x0, 0x5, 0xff],
    [0xff, 0xff, 0xff, 0xff, 0x30, 0x0, 0x0, 0x0],
    [0x0, 0x0, 0x0, 0x0, 0x0, 0x0, 0x0, 0x2],
    [0xef, 0xff, 0xff, 0xff, 0xff, 0x90, 0x0, 0x0],
    [0x0, 0xc, 0xff, 0xff, 0xff, 0xff, 0xff, 0x60],
    [0x0, 0x0, 0x0, 0x0, 0x0, 0x0, 0x0, 0x0],
    [0x0, 0x4, 0xef, 0xff, 0xff, 0xff, 0xff, 0xf1],
    [0x0, 0x0, 0x0, 0x0, 0x1e, 0xff, 0xff, 0xff],
    [0xff, 0xff, 0xb2, 0x0, 0x0, 0x0, 0x0, 0x0],
    [0x0, 0x0, 0x0, 0x8, 0xff, 0xff, 0xff, 0xff],
    [0xff, 0xf7, 0x0, 0x0, 0x0, 0x0, 0x0, 0x4f],
    [0xff, 0xff, 0xff, 0xff, 0xff, 0xfb, 0x40, 0x0],
    [0x0, 0x0, 0x0, 0x0, 0x2, 0x8f, 0xff, 0xff],
    [0xff, 0xff, 0xff, 0xfb, 0x0, 0x0, 0x0, 0x0],
    [0x0, 0x0, 0x6f, 0xff, 0xff, 0xff, 0xff, 0xff],
    [0xff, 0xfb, 0x86, 0x44, 0x34, 0x57, 0xae, 0xff],
    [0xff, 0xff, 0xff, 0xff, 0xff, 0xfe, 0x10, 0x0],
    [0x0, 0x0, 0x0, 0x0, 0x0, 0x7f, 0xff, 0xff],
    [0xff, 0xff, 0xff, 0xff, 0xff, 0xff, 0xff, 0xff],
    [0xff, 0xff, 0xff, 0xff, 0xff, 0xff, 0xff, 0xfe],
    [0x20, 0x0, 0x0, 0x0, 0x0, 0x0, 0x0, 0x0],
    [0x5f, 0xff, 0xff, 0xff, 0xff, 0xff, 0xff, 0xff],
    [0xff, 0xff, 0xff, 0xff, 0xff, 0xff, 0xff, 0xff],
    [0xff, 0xfe, 0x20, 0x0, 0x0, 0x0, 0x0, 0x0],
    [0x0, 0x0, 0x0, 0x3e, 0xff, 0xff, 0xff, 0xff],
    [0xff, 0xff, 0xff, 0xff, 0xff, 0xff, 0xff, 0xff],
    [0xff, 0xff, 0xff, 0xfb, 0x10, 0x0, 0x0, 0x0],
    [0x0, 0x0, 0x0, 0x0, 0x0, 0x0, 0x9, 0xff],
    [0xff, 0xff, 0xff, 0xff, 0xff, 0xff, 0xff, 0xff],
    [0xff, 0xff, 0xff, 0xff, 0xff, 0xf7, 0x0, 0x0],
    [0x0, 0x0, 0x0, 0x0, 0x0, 0x0, 0x0, 0x0],
    [0x0, 0x2, 0xaf, 0xff, 0xff, 0xff, 0xff, 0xff],
    [0xff, 0xff, 0xff, 0xff, 0xff, 0xff, 0xff, 0x91],
    [0x0, 0x0, 0x0, 0x0, 0x0, 0x0, 0x0, 0x0],
    [0x0, 0x0, 0x0, 0x0, 0x0, 0x28, 0xef, 0xff],
    [0xff, 0xff, 0xff, 0xff, 0xff, 0xff, 0xff, 0xff],
    [0xe7, 0x10, 0x0, 0x0, 0x0, 0x0, 0x0, 0x0],
    [0x0, 0x0, 0x0, 0x0, 0x0, 0x0, 0x0, 0x0],
    [0x0, 0x38, 0xbf, 0xff, 0xff, 0xff, 0xff, 0xff],
    [0xff, 0xc7, 0x30, 0x0, 0x0, 0x0, 0x0, 0x0],
    [0x0, 0x0, 0x0, 0x0, 0x0, 0x0, 0x0, 0x0],
    [0x0, 0x0, 0x0, 0x0, 0x0, 0x1, 0x35, 0x67],
    [0x77, 0x65, 0x41, 0x0, 0x0, 0x0, 0x0, 0x0],
    [0x0, 0x0, 0x0, 0x0, 0x0]]"

lemma glyph_U0036_b_length: "length (concat glyph_U0036_b) = 645"
  by (simp add: glyph_U0036_b_def)

definition glyph_U0037_a :: "u8 list list" where
  "glyph_U0037_a = [
    [0x2f, 0xff, 0xff, 0xff, 0xff, 0xff, 0xff, 0xff],
    [0xff, 0xff, 0xff, 0xff, 0xff, 0xff, 0xff, 0xff],
    [0xff, 0xff, 0xff, 0xff, 0xff, 0xff, 0xff, 0xff],
    [0xff, 0xf9, 0x2f, 0xff, 0xff, 0xff, 0xff, 0xff],
    [0xff, 0xff, 0xff, 0xff, 0xff, 0xff, 0xff, 0xff],
    [0xff, 0xff, 0xff, 0xff, 0xff, 0xff, 0xff, 0xff],
    [0xff, 0xff, 0xff, 0xf9, 0x2f, 0xff, 0xff, 0xff],
    [0xff, 0xff, 0xff, 0xff, 0xff, 0xff, 0xff, 0xff],
    [0xff, 0xff, 0xff, 0xff, 0xff, 0xff, 0xff, 0xff],
    [0xff, 0xff, 0xff, 0xff, 0xff, 0xf9, 0x2f, 0xff],
    [0xff, 0xff, 0xff, 0xff, 0xff, 0xff, 0xff, 0xff],
    [0xff, 0xff, 0xff, 0xff, 0xff, 0xff, 0xff, 0xff],
    [0xff, 0xff, 0xff, 0xff, 0xff, 0xff, 0xff, 0xf9],
    [0x2f, 0xff, 0xff, 0xff, 0xff, 0xff, 0xff, 0xff],
    [0xff, 0xff, 0xff, 0xff, 0xff, 0xff, 0xff, 0xff],
    [0xff, 0xff, 0xff, 0xff, 0xff, 0xff, 0xff, 0xff],
    [0xff, 0xf9, 0x2f, 0xff, 0xff, 0xff, 0xff, 0xff],
    [0xff, 0xff, 0xff, 0xff, 0xff, 0xff, 0xff, 0xff],
    [0xff, 0xff, 0xff, 0xff, 0xff, 0xff, 0xff, 0xff],
    [0xff, 0xff, 0xff, 0xf9, 0x2f, 0xff, 0xff, 0xff],
    [0xff, 0xff, 0xff, 0xff, 0xff, 0xff, 0xff, 0xff],
    [0xff, 0xff, 0xff, 0xff, 0xff, 0xff, 0xff, 0xff],
    [0xff, 0xff, 0xff, 0xff, 0xff, 0xf8, 0x2f, 0xff],
    [0xff, 0xff, 0xff, 0xff, 0xff, 0xff, 0xff, 0xff],
    [0xff, 0xff, 0xff, 0xff, 0xff, 0xff, 0xff, 0xff],
    [0xff, 0xff, 0xff, 0xff, 0xff, 0xff, 0xff, 0xf1],
    [0x2f, 0xff, 0xff, 0xff, 0xff, 0x54, 0x44, 0x44],
    [0x44, 0x44, 0x44, 0x44, 0x44, 0x44, 0x44, 0x44],
    [0x44, 0x44, 0x44, 0x44, 0x8f, 0xff, 0xff, 0xff],
    [0xff, 0xa0, 0x2f, 0xff, 0xff, 0xff, 0xff, 0x10],
    [0x0, 0x0, 0x0, 0x0, 0x0, 0x0, 0x0, 0x0],
    [0x0, 0x0, 0x0, 0x0, 0x0, 0x0, 0xbf, 0xff],
    [0xff, 0xff, 0xff, 0x30, 0x2f, 0xff, 0xff, 0xff],
    [0xff, 0x10, 0x0, 0x0, 0x0, 0x0, 0x0, 0x0],
    [0x0, 0x0, 0x0, 0x0, 0x0, 0x0, 0x0, 0x3],
    [0xff, 0xff, 0xff, 0xff, 0xfc, 0x0, 0x2f, 0xff],
    [0xff, 0xff, 0xff, 0x10, 0x0, 0x0, 0x0, 0x0],
    [0x0, 0x0, 0x0, 0x0, 0x0, 0x0, 0x0, 0x0],
    [0x0, 0xa, 0xff, 0xff, 0xff, 0xff, 0xf4, 0x0],
    [0x2f, 0xff, 0xff, 0xff, 0xff, 0x10, 0x0, 0x0],
    [0x0, 0x0, 0x0, 0x0, 0x0, 0x0, 0x0, 0x0],
    [0x0, 0x0, 0x0, 0x1f, 0xff, 0xff, 0xff, 0xff],
    [0xd0, 0x0, 0x2f, 0xff, 0xff, 0xff, 0xff, 0x10],
    [0x0, 0x0, 0x0, 0x0, 0x0, 0x0, 0x0, 0x0],
    [0x0, 0x0, 0x0, 0x0, 0x0, 0x8f, 0xff, 0xff],
    [0xff, 0xff, 0x60, 0x0, 0x2f, 0xff, 0xff, 0xff],
    [0xff, 0x10, 0x0, 0x0, 0x0, 0x0, 0x0, 0x0],
    [0x0, 0x0, 0x0, 0x0, 0x0, 0x0, 0x0, 0xff],
    [0xff, 0xff, 0xff, 0xfe, 0x0, 0x0, 0x2f, 0xff],
    [0xff, 0xff, 0xff, 0x10, 0x0, 0x0, 0x0, 0x0],
    [0x0, 0x0, 0x0, 0x0, 0x0, 0x0, 0x0, 0x0],
    [0x7, 0xff, 0xff, 0xff, 0xff, 0xf8, 0x0, 0x0],
    [0x2f, 0xff, 0xff, 0xff, 0xff, 0x10, 0x0, 0x0],
    [0x0, 0x0, 0x0, 0x0, 0x0, 0x0, 0x0, 0x0],
    [0x0, 0x0, 0xe, 0xff, 0xff, 0xff, 0xff, 0xf1],
    [0x0, 0x0, 0x2f, 0xff, 0xff, 0xff, 0xff, 0x10],
    [0x0, 0x0, 0x0, 0x0, 0x0, 0x0, 0x0, 0x0],
    [0x0, 0x0, 0x0, 0x0, 0x5f, 0xff, 0xff, 0xff],
    [0xff, 0x90, 0x0, 0x0, 0x2f, 0xff, 0xff, 0xff],
    [0xff, 0x10, 0x0, 0x0, 0x0, 0x0, 0x0, 0x0],
    [0x0, 0x0, 0x0, 0x0, 0x0, 0x0, 0xcf, 0xff],
    [0xff, 0xff, 0xff, 0x20, 0x0, 0x0, 0x2f, 0xff],
    [0xff, 0xff, 0xff, 0x10, 0x0, 0x0, 0x0, 0x0],
    [0x0, 0x0, 0x0, 0x0, 0x0, 0x0, 0x0, 0x4],
    [0xff, 0xff, 0xff, 0xff, 0xfb, 0x0, 0x0, 0x0],
    [0x4, 0x44, 0x44, 0x44, 0x44, 0x0, 0x0, 0x0],
    [0x0, 0x0, 0x0, 0x0, 0x0, 0x0, 0x0, 0x0],
    [0x0, 0xb, 0xff, 0xff, 0xff, 0xff, 0xf4, 0x0],
    [0x0, 0x0, 0x0, 0x0, 0x0, 0x0, 0x0, 0x0],
    [0x0, 0x0, 0x0, 0x0, 0x0, 0x0, 0x0, 0x0],
    [0x0, 0x0, 0x0, 0x2f, 0xff, 0xff, 0xff, 0xff],
    [0xd0, 0x0, 0x0, 0x0, 0x0, 0x0, 0x0, 0x0],
    [0x0, 0x0, 0x0, 0x0, 0x0, 0x0, 0x0, 0x0],
    [0x0, 0x0, 0x0, 0x0, 0x0, 0xaf, 0xff, 0xff],
    [0xff, 0xff, 0x50, 0x0, 0x0, 0x0, 0x0, 0x0],
    [0x0, 0x0, 0x0, 0x0, 0x0, 0x0, 0x0, 0x0],
    [0x0, 0x0, 0x0, 0x0, 0x0, 0x0, 0x1, 0xff],
    [0xff, 0xff, 0xff, 0xfe, 0x0, 0x0, 0x0, 0x0],
    [0x0, 0x0, 0x0, 0x0, 0x0, 0x0, 0x0, 0x0],
    [0x0, 0x0, 0x0, 0x0, 0x0, 0x0, 0x0, 0x0],
    [0x8, 0xff, 0xff, 0xff, 0xff, 0xf7, 0x0, 0x0],
    [0x0, 0x0, 0x0, 0x0, 0x0, 0x0, 0x0, 0x0],
    [0x0, 0x0, 0x0, 0x0, 0x0, 0x0, 0x0, 0x0],
    [0x0, 0x0, 0xe, 0xff, 0xff, 0xff, 0xff, 0xf1],
    [0x0, 0x0, 0x0, 0x0, 0x0, 0x0, 0x0, 0x0],
    [0x0, 0x0, 0x0, 0x0, 0x0, 0x0, 0x0, 0x0],
    [0x0, 0x0, 0x0, 0x0, 0x7f, 0xff, 0xff, 0xff],
    [0xff, 0x90, 0x0, 0x0, 0x0, 0x0, 0x0, 0x0],
    [0x0, 0x0, 0x0, 0x0, 0x0, 0x0, 0x0, 0x0],
    [0x0, 0x0, 0x0, 0x0, 0x0, 0x0, 0xdf, 0xff],
    [0xff, 0xff, 0xff, 0x20, 0x0, 0x0, 0x0, 0x0],
    [0x0, 0x0, 0x0, 0x0, 0x0, 0x0, 0x0, 0x0],
    [0x0, 0x0, 0x0, 0x0, 0x0, 0x0, 0x0, 0x5],
    [0xff, 0xff, 0xff, 0xff, 0xfa, 0x0, 0x0, 0x0],
    [0x0, 0x0, 0x0, 0x0, 0x0, 0x0, 0x0, 0x0],
    [0x0, 0x0, 0x0, 0x0, 0x0, 0x0, 0x0, 0x0],
    [0x0, 0xc, 0xff, 0xff, 0xff, 0xff, 0xf3, 0x0],
    [0x0, 0x0, 0x0, 0x0, 0x0, 0x0, 0x0, 0x0],
    [0x0, 0x0, 0x0, 0x0, 0x0, 0x0, 0x0, 0x0],
    [0x0, 0x0, 0x0, 0x3f, 0xff, 0xff, 0xff, 0xff],
    [0xc0, 0x0, 0x0, 0x0, 0x0, 0x0, 0x0, 0x0],
    [0x0, 0x0, 0x0, 0x0, 0x0, 0x0, 0x0, 0x0],
    [0x0, 0x0, 0x0, 0x0, 0x0, 0xbf, 0xff, 0xff],
    [0xff, 0xff, 0x50, 0x0, 0x0, 0x0, 0x0, 0x0],
    [0x0, 0x0, 0x0, 0x0, 0x0, 0x0, 0x0, 0x0],
    [0x0, 0x0, 0x0, 0x0, 0x0, 0x0, 0x2, 0xff],
    [0xff, 0xff, 0xff, 0xfd, 0x0, 0x0, 0x0, 0x0],
    [0x0, 0x0, 0x0, 0x0, 0x0, 0x0, 0x0, 0x0],
    [0x0, 0x0, 0x0, 0x0, 0x0, 0x0, 0x0, 0x0],
    [0x9, 0xff, 0xff, 0xff, 0xff, 0xf7, 0x0, 0x0],
    [0x0, 0x0, 0x0, 0x0, 0x0, 0x0, 0x0, 0x0],
    [0x0, 0x0, 0x0, 0x0, 0x0, 0x0, 0x0, 0x0],
    [0x0, 0x0, 0x1f, 0xff, 0xff, 0xff, 0xff, 0xf0],
    [0x0, 0x0, 0x0, 0x0, 0x0, 0x0, 0x0, 0x0],
    [0x0, 0x0, 0x0, 0x0, 0x0, 0x0, 0x0, 0x0],
    [0x0, 0x0, 0x0, 0x0, 0x8f, 0xff, 0xff, 0xff],
    [0xff, 0x80, 0x0, 0x0, 0x0, 0x0, 0x0, 0x0],
    [0x0, 0x0, 0x0, 0x0, 0x0, 0x0, 0x0, 0x0],
    [0x0, 0x0, 0x0, 0x0, 0x0, 0x0, 0xef, 0xff],
    [0xff, 0xff, 0xff, 0x10, 0x0, 0x0, 0x0, 0x0],
    [0x0, 0x0, 0x0, 0x0, 0x0, 0x0, 0x0, 0x0],
    [0x0, 0x0, 0x0, 0x0, 0x0, 0x0, 0x0, 0x6],
    [0xff, 0xff, 0xff, 0xff, 0xfa, 0x0, 0x0, 0x0],
    [0x0, 0x0, 0x0, 0x0, 0x0, 0x0, 0x0, 0x0],
    [0x0, 0x0, 0x0, 0x0, 0x0, 0x0, 0x0, 0x0],
    [0x0, 0xd, 0xff, 0xff, 0xff, 0xff, 0xf3, 0x0],
    [0x0, 0x0, 0x0, 0x0, 0x0, 0x0, 0x0, 0x0],
    [0x0, 0x0, 0x0, 0x0, 0x0, 0x0, 0x0, 0x0],
    [0x0, 0x0, 0x0, 0x5f, 0xff, 0xff, 0xff, 0xff],
    [0xb0, 0x0, 0x0, 0x0, 0x0, 0x0, 0x0, 0x0],
    [0x0, 0x0, 0x0, 0x0, 0x0, 0x0, 0x0, 0x0],
    [0x0, 0x0, 0x0, 0x0, 0x0, 0xcf, 0xff, 0xff],
    [0xff, 0xff, 0x40, 0x0, 0x0, 0x0, 0x0, 0x0],
    [0x0, 0x0, 0x0, 0x0, 0x0, 0x0, 0x0, 0x0],
    [0x0, 0x0, 0x0, 0x0, 0x0, 0x0, 0x3, 0xff],
    [0xff, 0xff, 0xff, 0xfd, 0x0, 0x0, 0x0, 0x0],
    [0x0, 0x0, 0x0, 0x0, 0x0, 0x0, 0x0, 0x0],
    [0x0, 0x0, 0x0, 0x0, 0x0, 0x0, 0x0, 0x0],
    [0xa, 0xff, 0xff, 0xff, 0xff, 0xf6, 0x0, 0x0],
    [0x0, 0x0, 0x0, 0x0, 0x0, 0x0, 0x0, 0x0],
    [0x0, 0x0, 0x0, 0x0, 0x0, 0x0, 0x0, 0x0],
    [0x0, 0x0, 0x2f, 0xff, 0xff, 0xff, 0xff, 0xe0],
    [0x0, 0x0, 0x0, 0x0, 0x0, 0x0, 0x0, 0x0],
    [0x0, 0x0, 0x0, 0x0, 0x0, 0x0, 0x0, 0x0],
    [0x0, 0x0, 0x0, 0x0, 0x9f, 0xff, 0xff, 0xff],
    [0xff, 0x80, 0x0, 0x0, 0x0, 0x0, 0x0, 0x0],
    [0x0, 0x0, 0x0, 0x0, 0x0, 0x0, 0x0, 0x0],
    [0x0, 0x0, 0x0, 0x0, 0x0, 0x1, 0xff, 0xff]]"

lemma glyph_U0037_a_length: "length (concat glyph_U0037_a) = 1184"
  by (simp add: glyph_U0037_a_def)

definition glyph_U0037_b :: "u8 list list" where
  "glyph_U0037_b = [
    [0xff, 0xff, 0xff, 0x10, 0x0, 0x0, 0x0, 0x0],
    [0x0, 0x0, 0x0, 0x0, 0x0, 0x0, 0x0, 0x0],
    [0x0, 0x0, 0x0, 0x0, 0x0, 0x0, 0x0, 0x7],
    [0xff, 0xff, 0xff, 0xff, 0xf9, 0x0, 0x0, 0x0],
    [0x0, 0x0, 0x0, 0x0, 0x0, 0x0, 0x0, 0x0],
    [0x0, 0x0, 0x0, 0x0, 0x0, 0x0, 0x0, 0x0],
    [0x0, 0xe, 0xff, 0xff, 0xff, 0xff, 0xf2, 0x0],
    [0x0, 0x0, 0x0, 0x0, 0x0, 0x0, 0x0, 0x0],
    [0x0, 0x0, 0x0, 0x0, 0x0, 0x0, 0x0, 0x0],
    [0x0, 0x0, 0x0, 0x6f, 0xff, 0xff, 0xff, 0xff],
    [0xb0, 0x0, 0x0, 0x0, 0x0, 0x0, 0x0, 0x0],
    [0x0, 0x0, 0x0, 0x0, 0x0, 0x0, 0x0, 0x0],
    [0x0, 0x0, 0x0, 0x0, 0x0, 0xdf, 0xff, 0xff],
    [0xff, 0xff, 0x40, 0x0, 0x0, 0x0, 0x0, 0x0],
    [0x0, 0x0, 0x0, 0x0, 0x0, 0x0, 0x0, 0x0],
    [0x0, 0x0, 0x0, 0x0, 0x0, 0x0, 0x4, 0xff],
    [0xff, 0xff, 0xff, 0xfc, 0x0, 0x0, 0x0, 0x0],
    [0x0, 0x0, 0x0, 0x0, 0x0, 0x0, 0x0, 0x0],
    [0x0, 0x0, 0x0, 0x0, 0x0, 0x0, 0x0, 0x0],
    [0xc, 0xff, 0xff, 0xff, 0xff, 0xf5, 0x0, 0x0],
    [0x0, 0x0, 0x0, 0x0, 0x0, 0x0, 0x0, 0x0],
    [0x0, 0x0, 0x0, 0x0, 0x0, 0x0, 0x0, 0x0],
    [0x0, 0x0, 0x3f, 0xff, 0xff, 0xff, 0xff, 0xe0],
    [0x0, 0x0, 0x0, 0x0, 0x0, 0x0, 0x0, 0x0],
    [0x0, 0x0, 0x0, 0x0, 0x0, 0x0, 0x0, 0x0],
    [0x0, 0x0, 0x0, 0x0, 0xaf, 0xff, 0xff, 0xff],
    [0xff, 0x70, 0x0, 0x0, 0x0, 0x0, 0x0, 0x0],
    [0x0, 0x0, 0x0, 0x0, 0x0, 0x0, 0x0, 0x0],
    [0x0, 0x0, 0x0, 0x0, 0x0, 0x2, 0xff, 0xff],
    [0xff, 0xff, 0xff, 0x10, 0x0, 0x0, 0x0, 0x0],
    [0x0, 0x0, 0x0, 0x0, 0x0, 0x0, 0x0, 0x0],
    [0x0, 0x0, 0x0, 0x0, 0x0, 0x0, 0x0, 0x9],
    [0xff, 0xff, 0xff, 0xff, 0xf9, 0x0, 0x0, 0x0],
    [0x0, 0x0, 0x0, 0x0, 0x0, 0x0, 0x0, 0x0],
    [0x0, 0x0, 0x0, 0x0, 0x0, 0x0, 0x0, 0x0],
    [0x0, 0x1f, 0xff, 0xff, 0xff, 0xff, 0xf2, 0x0],
    [0x0, 0x0, 0x0, 0x0, 0x0, 0x0, 0x0, 0x0],
    [0x0, 0x0, 0x0, 0x0, 0x0, 0x0, 0x0, 0x0],
    [0x0, 0x0, 0x0, 0x7f, 0xff, 0xff, 0xff, 0xff],
    [0xa0, 0x0, 0x0, 0x0, 0x0, 0x0, 0x0, 0x0],
    [0x0, 0x0, 0x0, 0x0, 0x0, 0x0, 0x0, 0x0],
    [0x0, 0x0, 0x0, 0x0, 0x0, 0xef, 0xff, 0xff],
    [0xff, 0xff, 0x30, 0x0, 0x0, 0x0, 0x0, 0x0],
    [0x0, 0x0, 0x0, 0x0, 0x0, 0x0, 0x0, 0x0],
    [0x0, 0x0, 0x0, 0x0, 0x0, 0x0, 0x6, 0xff],
    [0xff, 0xff, 0xff, 0xfc, 0x0, 0x0, 0x0, 0x0],
    [0x0, 0x0, 0x0, 0x0, 0x0, 0x0, 0x0, 0x0],
    [0x0, 0x0, 0x0, 0x0, 0x0, 0x0, 0x0, 0x0],
    [0xd, 0xff, 0xff, 0xff, 0xff, 0xf5, 0x0, 0x0],
    [0x0, 0x0, 0x0, 0x0, 0x0, 0x0, 0x0, 0x0],
    [0x0, 0x0, 0x0, 0x0, 0x0, 0x0, 0x0, 0x0],
    [0x0, 0x0, 0x4f, 0xff, 0xff, 0xff, 0xff, 0xd0],
    [0x0, 0x0, 0x0, 0x0, 0x0, 0x0, 0x0, 0x0],
    [0x0, 0x0, 0x0, 0x0, 0x0, 0x0, 0x0, 0x0],
    [0x0, 0x0, 0x0, 0x0, 0xbf, 0xff, 0xff, 0xff],
    [0xff, 0x60, 0x0, 0x0, 0x0, 0x0, 0x0, 0x0],
    [0x0, 0x0, 0x0, 0x0, 0x0, 0x0, 0x0, 0x0],
    [0x0, 0x0, 0x0, 0x0, 0x0, 0x3, 0xff, 0xff],
    [0xff, 0xff, 0xfe, 0x0, 0x0, 0x0, 0x0, 0x0],
    [0x0, 0x0, 0x0, 0x0, 0x0, 0x0, 0x0, 0x0],
    [0x0, 0x0, 0x0, 0x0, 0x0, 0x0, 0x0, 0xa],
    [0xff, 0xff, 0xff, 0xff, 0xf8, 0x0, 0x0, 0x0],
    [0x0, 0x0, 0x0, 0x0, 0x0, 0x0, 0x0, 0x0],
    [0x0, 0x0, 0x0, 0x0, 0x0, 0x0, 0x0, 0x0],
    [0x0, 0x1f, 0xff, 0xff, 0xff, 0xff, 0xf1, 0x0],
    [0x0, 0x0, 0x0, 0x0, 0x0, 0x0, 0x0, 0x0],
    [0x0, 0x0, 0x0, 0x0, 0x0, 0x0, 0x0, 0x0],
    [0x0, 0x0, 0x0, 0x8f, 0xff, 0xff, 0xff, 0xff],
    [0xa0, 0x0, 0x0, 0x0, 0x0, 0x0, 0x0, 0x0],
    [0x0, 0x0, 0x0, 0x0, 0x0, 0x0]]"

lemma glyph_U0037_b_length: "length (concat glyph_U0037_b) = 558"
  by (simp add: glyph_U0037_b_def)

definition glyph_U0038_a :: "u8 list list" where
  "glyph_U0038_a = [
    [0x0, 0x0, 0x0, 0x0, 0x0, 0x0, 0x0, 0x0],
    [0x0, 0x1, 0x35, 0x79, 0xaa, 0xbb, 0xaa, 0x97],
    [0x53, 0x0, 0x0, 0x0, 0x0, 0x0, 0x0, 0x0],
    [0x0, 0x0, 0x0, 0x0, 0x0, 0x0, 0x0, 0x0],
    [0x0, 0x0, 0x0, 0x59, 0xdf, 0xff, 0xff, 0xff],
    [0xff, 0xff, 0xff, 0xff, 0xfc, 0x83, 0x0, 0x0],
    [0x0, 0x0, 0x0, 0x0, 0x0, 0x0, 0x0, 0x0],
    [0x0, 0x0, 0x0, 0x0, 0x3, 0xaf, 0xff, 0xff],
    [0xff, 0xff, 0xff, 0xff, 0xff, 0xff, 0xff, 0xff],
    [0xff, 0xe8, 0x10, 0x0, 0x0, 0x0, 0x0, 0x0],
    [0x0, 0x0, 0x0, 0x0, 0x0, 0x0, 0x3, 0xbf],
    [0xff, 0xff, 0xff, 0xff, 0xff, 0xff, 0xff, 0xff],
    [0xff, 0xff, 0xff, 0xff, 0xff, 0xfa, 0x20, 0x0],
    [0x0, 0x0, 0x0, 0x0, 0x0, 0x0, 0x0, 0x0],
    [0x0, 0x9f, 0xff, 0xff, 0xff, 0xff, 0xff, 0xff],
    [0xff, 0xff, 0xff, 0xff, 0xff, 0xff, 0xff, 0xff],
    [0xff, 0xf7, 0x0, 0x0, 0x0, 0x0, 0x0, 0x0],
    [0x0, 0x0, 0x0, 0x3e, 0xff, 0xff, 0xff, 0xff],
    [0xff, 0xff, 0xff, 0xff, 0xff, 0xff, 0xff, 0xff],
    [0xff, 0xff, 0xff, 0xff, 0xff, 0xc1, 0x0, 0x0],
    [0x0, 0x0, 0x0, 0x0, 0x0, 0x4, 0xff, 0xff],
    [0xff, 0xff, 0xff, 0xff, 0xff, 0xff, 0xff, 0xff],
    [0xff, 0xff, 0xff, 0xff, 0xff, 0xff, 0xff, 0xff],
    [0xfe, 0x20, 0x0, 0x0, 0x0, 0x0, 0x0, 0x0],
    [0x3f, 0xff, 0xff, 0xff, 0xff, 0xff, 0xff, 0xff],
    [0xff, 0xff, 0xff, 0xff, 0xff, 0xff, 0xff, 0xff],
    [0xff, 0xff, 0xff, 0xff, 0xe1, 0x0, 0x0, 0x0],
    [0x0, 0x0, 0x2, 0xef, 0xff, 0xff, 0xff, 0xff],
    [0xff, 0xff, 0xd9, 0x63, 0x21, 0x0, 0x12, 0x47],
    [0xae, 0xff, 0xff, 0xff, 0xff, 0xff, 0xff, 0xfd],
    [0x0, 0x0, 0x0, 0x0, 0x0, 0xc, 0xff, 0xff],
    [0xff, 0xff, 0xff, 0xff, 0x93, 0x0, 0x0, 0x0],
    [0x0, 0x0, 0x0, 0x0, 0x4b, 0xff, 0xff, 0xff],
    [0xff, 0xff, 0xff, 0x90, 0x0, 0x0, 0x0, 0x0],
    [0x5f, 0xff, 0xff, 0xff, 0xff, 0xff, 0xb2, 0x0],
    [0x0, 0x0, 0x0, 0x0, 0x0, 0x0, 0x0, 0x0],
    [0x4d, 0xff, 0xff, 0xff, 0xff, 0xff, 0xf3, 0x0],
    [0x0, 0x0, 0x0, 0xdf, 0xff, 0xff, 0xff, 0xff],
    [0xf7, 0x0, 0x0, 0x0, 0x0, 0x0, 0x0, 0x0],
    [0x0, 0x0, 0x0, 0x0, 0x9f, 0xff, 0xff, 0xff],
    [0xff, 0xfb, 0x0, 0x0, 0x0, 0x4, 0xff, 0xff],
    [0xff, 0xff, 0xff, 0x70, 0x0, 0x0, 0x0, 0x0],
    [0x0, 0x0, 0x0, 0x0, 0x0, 0x0, 0x0, 0x9],
    [0xff, 0xff, 0xff, 0xff, 0xff, 0x10, 0x0, 0x0],
    [0xa, 0xff, 0xff, 0xff, 0xff, 0xfb, 0x0, 0x0],
    [0x0, 0x0, 0x0, 0x0, 0x0, 0x0, 0x0, 0x0],
    [0x0, 0x0, 0x0, 0xcf, 0xff, 0xff, 0xff, 0xff],
    [0x70, 0x0, 0x0, 0xe, 0xff, 0xff, 0xff, 0xff],
    [0xf1, 0x0, 0x0, 0x0, 0x0, 0x0, 0x0, 0x0],
    [0x0, 0x0, 0x0, 0x0, 0x0, 0x0, 0x3f, 0xff],
    [0xff, 0xff, 0xff, 0xb0, 0x0, 0x0, 0x1f, 0xff],
    [0xff, 0xff, 0xff, 0xb0, 0x0, 0x0, 0x0, 0x0],
    [0x0, 0x0, 0x0, 0x0, 0x0, 0x0, 0x0, 0x0],
    [0x0, 0xc, 0xff, 0xff, 0xff, 0xff, 0xe0, 0x0],
    [0x0, 0x3f, 0xff, 0xff, 0xff, 0xff, 0x60, 0x0],
    [0x0, 0x0, 0x0, 0x0, 0x0, 0x0, 0x0, 0x0],
    [0x0, 0x0, 0x0, 0x0, 0x7, 0xff, 0xff, 0xff],
    [0xff, 0xf0, 0x0, 0x0, 0x4f, 0xff, 0xff, 0xff],
    [0xff, 0x40, 0x0, 0x0, 0x0, 0x0, 0x0, 0x0],
    [0x0, 0x0, 0x0, 0x0, 0x0, 0x0, 0x0, 0x4],
    [0xff, 0xff, 0xff, 0xff, 0xf2, 0x0, 0x0, 0x5f],
    [0xff, 0xff, 0xff, 0xff, 0x20, 0x0, 0x0, 0x0],
    [0x0, 0x0, 0x0, 0x0, 0x0, 0x0, 0x0, 0x0],
    [0x0, 0x0, 0x3, 0xff, 0xff, 0xff, 0xff, 0xf2],
    [0x0, 0x0, 0x5f, 0xff, 0xff, 0xff, 0xff, 0x20],
    [0x0, 0x0, 0x0, 0x0, 0x0, 0x0, 0x0, 0x0],
    [0x0, 0x0, 0x0, 0x0, 0x0, 0x4, 0xff, 0xff],
    [0xff, 0xff, 0xf2, 0x0, 0x0, 0x4f, 0xff, 0xff],
    [0xff, 0xff, 0x40, 0x0, 0x0, 0x0, 0x0, 0x0],
    [0x0, 0x0, 0x0, 0x0, 0x0, 0x0, 0x0, 0x0],
    [0x5, 0xff, 0xff, 0xff, 0xff, 0xf1, 0x0, 0x0],
    [0x2f, 0xff, 0xff, 0xff, 0xff, 0x70, 0x0, 0x0],
    [0x0, 0x0, 0x0, 0x0, 0x0, 0x0, 0x0, 0x0],
    [0x0, 0x0, 0x0, 0x8, 0xff, 0xff, 0xff, 0xff],
    [0xe0, 0x0, 0x0, 0xe, 0xff, 0xff, 0xff, 0xff],
    [0xc0, 0x0, 0x0, 0x0, 0x0, 0x0, 0x0, 0x0],
    [0x0, 0x0, 0x0, 0x0, 0x0, 0x0, 0xd, 0xff],
    [0xff, 0xff, 0xff, 0xb0, 0x0, 0x0, 0xa, 0xff],
    [0xff, 0xff, 0xff, 0xf2, 0x0, 0x0, 0x0, 0x0],
    [0x0, 0x0, 0x0, 0x0, 0x0, 0x0, 0x0, 0x0],
    [0x0, 0x4f, 0xff, 0xff, 0xff, 0xff, 0x70, 0x0],
    [0x0, 0x5, 0xff, 0xff, 0xff, 0xff, 0xfc, 0x0],
    [0x0, 0x0, 0x0, 0x0, 0x0, 0x0, 0x0, 0x0],
    [0x0, 0x0, 0x0, 0x0, 0xdf, 0xff, 0xff, 0xff],
    [0xff, 0x10, 0x0, 0x0, 0x0, 0xef, 0xff, 0xff],
    [0xff, 0xff, 0x90, 0x0, 0x0, 0x0, 0x0, 0x0],
    [0x0, 0x0, 0x0, 0x0, 0x0, 0x0, 0xa, 0xff],
    [0xff, 0xff, 0xff, 0xfa, 0x0, 0x0, 0x0, 0x0],
    [0x6f, 0xff, 0xff, 0xff, 0xff, 0xf9, 0x0, 0x0],
    [0x0, 0x0, 0x0, 0x0, 0x0, 0x0, 0x0, 0x0],
    [0x0, 0xbf, 0xff, 0xff, 0xff, 0xff, 0xf2, 0x0],
    [0x0, 0x0, 0x0, 0xc, 0xff, 0xff, 0xff, 0xff],
    [0xff, 0xd4, 0x0, 0x0, 0x0, 0x0, 0x0, 0x0],
    [0x0, 0x0, 0x0, 0x6e, 0xff, 0xff, 0xff, 0xff],
    [0xff, 0x80, 0x0, 0x0, 0x0, 0x0, 0x1, 0xef],
    [0xff, 0xff, 0xff, 0xff, 0xff, 0xb6, 0x0, 0x0],
    [0x0, 0x0, 0x0, 0x0, 0x2, 0x7d, 0xff, 0xff],
    [0xff, 0xff, 0xff, 0xfb, 0x0, 0x0, 0x0, 0x0],
    [0x0, 0x0, 0x2e, 0xff, 0xff, 0xff, 0xff, 0xff],
    [0xff, 0xfd, 0xa7, 0x65, 0x44, 0x56, 0x7a, 0xdf],
    [0xff, 0xff, 0xff, 0xff, 0xff, 0xff, 0xc0, 0x0],
    [0x0, 0x0, 0x0, 0x0, 0x0, 0x2, 0xdf, 0xff],
    [0xff, 0xff, 0xff, 0xff, 0xff, 0xff, 0xff, 0xff],
    [0xff, 0xff, 0xff, 0xff, 0xff, 0xff, 0xff, 0xff],
    [0xfb, 0x0, 0x0, 0x0, 0x0, 0x0, 0x0, 0x0],
    [0x0, 0xa, 0xff, 0xff, 0xff, 0xff, 0xff, 0xff],
    [0xff, 0xff, 0xff, 0xff, 0xff, 0xff, 0xff, 0xff],
    [0xff, 0xff, 0xff, 0x70, 0x0, 0x0, 0x0, 0x0],
    [0x0, 0x0, 0x0, 0x0, 0x0, 0x4c, 0xff, 0xff],
    [0xff, 0xff, 0xff, 0xff, 0xff, 0xff, 0xff, 0xff],
    [0xff, 0xff, 0xff, 0xff, 0xff, 0xa2, 0x0, 0x0],
    [0x0, 0x0, 0x0, 0x0, 0x0, 0x0, 0x0, 0x0],
    [0x3a, 0xff, 0xff, 0xff, 0xff, 0xff, 0xff, 0xff],
    [0xff, 0xff, 0xff, 0xff, 0xff, 0xff, 0xff, 0xff],
    [0x81, 0x0, 0x0, 0x0, 0x0, 0x0, 0x0, 0x0],
    [0x0, 0x0, 0x3c, 0xff, 0xff, 0xff, 0xff, 0xff],
    [0xff, 0xff, 0xff, 0xff, 0xff, 0xff, 0xff, 0xff],
    [0xff, 0xff, 0xff, 0xff, 0xa1, 0x0, 0x0, 0x0],
    [0x0, 0x0, 0x0, 0x0, 0x9, 0xff, 0xff, 0xff],
    [0xff, 0xff, 0xff, 0xff, 0xff, 0xff, 0xff, 0xff],
    [0xff, 0xff, 0xff, 0xff, 0xff, 0xff, 0xff, 0xff],
    [0x60, 0x0, 0x0, 0x0, 0x0, 0x0, 0x2, 0xdf],
    [0xff, 0xff, 0xff, 0xff, 0xff, 0xff, 0xff, 0xff],
    [0xff, 0xff, 0xff, 0xff, 0xff, 0xff, 0xff, 0xff],
    [0xff, 0xff, 0xff, 0xfa, 0x0, 0x0, 0x0, 0x0],
    [0x0, 0x3e, 0xff, 0xff, 0xff, 0xff, 0xff, 0xff],
    [0xfd, 0xa7, 0x42, 0x21, 0x0, 0x12, 0x35, 0x8b],
    [0xff, 0xff, 0xff, 0xff, 0xff, 0xff, 0xff, 0xc0],
    [0x0, 0x0, 0x0, 0x2, 0xef, 0xff, 0xff, 0xff],
    [0xff, 0xff, 0xe8, 0x30, 0x0, 0x0, 0x0, 0x0],
    [0x0, 0x0, 0x0, 0x5, 0xaf, 0xff, 0xff, 0xff],
    [0xff, 0xff, 0xfb, 0x0, 0x0, 0x0, 0xd, 0xff],
    [0xff, 0xff, 0xff, 0xff, 0xf8, 0x0, 0x0, 0x0],
    [0x0, 0x0, 0x0, 0x0, 0x0, 0x0, 0x0, 0x2],
    [0xaf, 0xff, 0xff, 0xff, 0xff, 0xff, 0x90, 0x0],
    [0x0, 0x7f, 0xff, 0xff, 0xff, 0xff, 0xfc, 0x10],
    [0x0, 0x0, 0x0, 0x0, 0x0, 0x0, 0x0, 0x0],
    [0x0, 0x0, 0x0, 0x4, 0xef, 0xff, 0xff, 0xff],
    [0xff, 0xf4, 0x0, 0x1, 0xff, 0xff, 0xff, 0xff],
    [0xff, 0xb0, 0x0, 0x0, 0x0, 0x0, 0x0, 0x0],
    [0x0, 0x0, 0x0, 0x0, 0x0, 0x0, 0x0, 0x1d],
    [0xff, 0xff, 0xff, 0xff, 0xfd, 0x0, 0x8, 0xff],
    [0xff, 0xff, 0xff, 0xfd, 0x0, 0x0, 0x0, 0x0],
    [0x0, 0x0, 0x0, 0x0, 0x0, 0x0, 0x0, 0x0],
    [0x0, 0x0, 0x2, 0xff, 0xff, 0xff, 0xff, 0xff],
    [0x40, 0xe, 0xff, 0xff, 0xff, 0xff, 0xf3, 0x0],
    [0x0, 0x0, 0x0, 0x0, 0x0, 0x0, 0x0, 0x0],
    [0x0, 0x0, 0x0, 0x0, 0x0, 0x0, 0x6f, 0xff]]"

lemma glyph_U0038_a_length: "length (concat glyph_U0038_a) = 1184"
  by (simp add: glyph_U0038_a_def)

definition glyph_U0038_b :: "u8 list list" where
  "glyph_U0038_b = [
    [0xff, 0xff, 0xff, 0xb0, 0x3f, 0xff, 0xff, 0xff],
    [0xff, 0xa0, 0x0, 0x0, 0x0, 0x0, 0x0, 0x0],
    [0x0, 0x0, 0x0, 0x0, 0x0, 0x0, 0x0, 0x0],
    [0x0, 0xd, 0xff, 0xff, 0xff, 0xff, 0xf0, 0x6f],
    [0xff, 0xff, 0xff, 0xff, 0x40, 0x0, 0x0, 0x0],
    [0x0, 0x0, 0x0, 0x0, 0x0, 0x0, 0x0, 0x0],
    [0x0, 0x0, 0x0, 0x0, 0x7, 0xff, 0xff, 0xff],
    [0xff, 0xf3, 0x9f, 0xff, 0xff, 0xff, 0xff, 0x0],
    [0x0, 0x0, 0x0, 0x0, 0x0, 0x0, 0x0, 0x0],
    [0x0, 0x0, 0x0, 0x0, 0x0, 0x0, 0x0, 0x3],
    [0xff, 0xff, 0xff, 0xff, 0xf6, 0xaf, 0xff, 0xff],
    [0xff, 0xfe, 0x0, 0x0, 0x0, 0x0, 0x0, 0x0],
    [0x0, 0x0, 0x0, 0x0, 0x0, 0x0, 0x0, 0x0],
    [0x0, 0x0, 0x1, 0xff, 0xff, 0xff, 0xff, 0xf7],
    [0xbf, 0xff, 0xff, 0xff, 0xfd, 0x0, 0x0, 0x0],
    [0x0, 0x0, 0x0, 0x0, 0x0, 0x0, 0x0, 0x0],
    [0x0, 0x0, 0x0, 0x0, 0x0, 0x0, 0xff, 0xff],
    [0xff, 0xff, 0xf8, 0xbf, 0xff, 0xff, 0xff, 0xfd],
    [0x0, 0x0, 0x0, 0x0, 0x0, 0x0, 0x0, 0x0],
    [0x0, 0x0, 0x0, 0x0, 0x0, 0x0, 0x0, 0x0],
    [0x0, 0xff, 0xff, 0xff, 0xff, 0xf8, 0xaf, 0xff],
    [0xff, 0xff, 0xff, 0x0, 0x0, 0x0, 0x0, 0x0],
    [0x0, 0x0, 0x0, 0x0, 0x0, 0x0, 0x0, 0x0],
    [0x0, 0x0, 0x0, 0x2, 0xff, 0xff, 0xff, 0xff],
    [0xf7, 0x9f, 0xff, 0xff, 0xff, 0xff, 0x20, 0x0],
    [0x0, 0x0, 0x0, 0x0, 0x0, 0x0, 0x0, 0x0],
    [0x0, 0x0, 0x0, 0x0, 0x0, 0x0, 0x5, 0xff],
    [0xff, 0xff, 0xff, 0xf6, 0x7f, 0xff, 0xff, 0xff],
    [0xff, 0x70, 0x0, 0x0, 0x0, 0x0, 0x0, 0x0],
    [0x0, 0x0, 0x0, 0x0, 0x0, 0x0, 0x0, 0x0],
    [0x0, 0xa, 0xff, 0xff, 0xff, 0xff, 0xf4, 0x3f],
    [0xff, 0xff, 0xff, 0xff, 0xd0, 0x0, 0x0, 0x0],
    [0x0, 0x0, 0x0, 0x0, 0x0, 0x0, 0x0, 0x0],
    [0x0, 0x0, 0x0, 0x0, 0x1f, 0xff, 0xff, 0xff],
    [0xff, 0xf0, 0xf, 0xff, 0xff, 0xff, 0xff, 0xf6],
    [0x0, 0x0, 0x0, 0x0, 0x0, 0x0, 0x0, 0x0],
    [0x0, 0x0, 0x0, 0x0, 0x0, 0x0, 0x0, 0xaf],
    [0xff, 0xff, 0xff, 0xff, 0xc0, 0x9, 0xff, 0xff],
    [0xff, 0xff, 0xff, 0x20, 0x0, 0x0, 0x0, 0x0],
    [0x0, 0x0, 0x0, 0x0, 0x0, 0x0, 0x0, 0x0],
    [0x0, 0x6, 0xff, 0xff, 0xff, 0xff, 0xff, 0x60],
    [0x3, 0xff, 0xff, 0xff, 0xff, 0xff, 0xe2, 0x0],
    [0x0, 0x0, 0x0, 0x0, 0x0, 0x0, 0x0, 0x0],
    [0x0, 0x0, 0x0, 0x0, 0x5f, 0xff, 0xff, 0xff],
    [0xff, 0xff, 0x0, 0x0, 0xbf, 0xff, 0xff, 0xff],
    [0xff, 0xff, 0x50, 0x0, 0x0, 0x0, 0x0, 0x0],
    [0x0, 0x0, 0x0, 0x0, 0x0, 0x0, 0x8, 0xff],
    [0xff, 0xff, 0xff, 0xff, 0xf7, 0x0, 0x0, 0x1f],
    [0xff, 0xff, 0xff, 0xff, 0xff, 0xfc, 0x30, 0x0],
    [0x0, 0x0, 0x0, 0x0, 0x0, 0x0, 0x0, 0x0],
    [0x6, 0xef, 0xff, 0xff, 0xff, 0xff, 0xff, 0xd0],
    [0x0, 0x0, 0x6, 0xff, 0xff, 0xff, 0xff, 0xff],
    [0xff, 0xfc, 0x71, 0x0, 0x0, 0x0, 0x0, 0x0],
    [0x0, 0x0, 0x39, 0xef, 0xff, 0xff, 0xff, 0xff],
    [0xff, 0xff, 0x30, 0x0, 0x0, 0x0, 0x8f, 0xff],
    [0xff, 0xff, 0xff, 0xff, 0xff, 0xff, 0xeb, 0x86],
    [0x54, 0x34, 0x45, 0x69, 0xcf, 0xff, 0xff, 0xff],
    [0xff, 0xff, 0xff, 0xff, 0xf5, 0x0, 0x0, 0x0],
    [0x0, 0xa, 0xff, 0xff, 0xff, 0xff, 0xff, 0xff],
    [0xff, 0xff, 0xff, 0xff, 0xff, 0xff, 0xff, 0xff],
    [0xff, 0xff, 0xff, 0xff, 0xff, 0xff, 0xff, 0x70],
    [0x0, 0x0, 0x0, 0x0, 0x0, 0x7f, 0xff, 0xff],
    [0xff, 0xff, 0xff, 0xff, 0xff, 0xff, 0xff, 0xff],
    [0xff, 0xff, 0xff, 0xff, 0xff, 0xff, 0xff, 0xff],
    [0xff, 0xf5, 0x0, 0x0, 0x0, 0x0, 0x0, 0x0],
    [0x4, 0xef, 0xff, 0xff, 0xff, 0xff, 0xff, 0xff],
    [0xff, 0xff, 0xff, 0xff, 0xff, 0xff, 0xff, 0xff],
    [0xff, 0xff, 0xff, 0xfc, 0x30, 0x0, 0x0, 0x0],
    [0x0, 0x0, 0x0, 0x0, 0x9, 0xff, 0xff, 0xff],
    [0xff, 0xff, 0xff, 0xff, 0xff, 0xff, 0xff, 0xff],
    [0xff, 0xff, 0xff, 0xff, 0xff, 0xff, 0x70, 0x0],
    [0x0, 0x0, 0x0, 0x0, 0x0, 0x0, 0x0, 0x0],
    [0x19, 0xff, 0xff, 0xff, 0xff, 0xff, 0xff, 0xff],
    [0xff, 0xff, 0xff, 0xff, 0xff, 0xff, 0xff, 0xfe],
    [0x70, 0x0, 0x0, 0x0, 0x0, 0x0, 0x0, 0x0],
    [0x0, 0x0, 0x0, 0x0, 0x16, 0xbf, 0xff, 0xff],
    [0xff, 0xff, 0xff, 0xff, 0xff, 0xff, 0xff, 0xff],
    [0xff, 0xfa, 0x50, 0x0, 0x0, 0x0, 0x0, 0x0],
    [0x0, 0x0, 0x0, 0x0, 0x0, 0x0, 0x0, 0x0],
    [0x1, 0x58, 0xbe, 0xff, 0xff, 0xff, 0xff, 0xff],
    [0xff, 0xff, 0xea, 0x74, 0x0, 0x0, 0x0, 0x0],
    [0x0, 0x0, 0x0, 0x0, 0x0, 0x0, 0x0, 0x0],
    [0x0, 0x0, 0x0, 0x0, 0x0, 0x0, 0x12, 0x46],
    [0x67, 0x77, 0x76, 0x54, 0x20, 0x0, 0x0, 0x0],
    [0x0, 0x0, 0x0, 0x0, 0x0, 0x0, 0x0]]"

lemma glyph_U0038_b_length: "length (concat glyph_U0038_b) = 679"
  by (simp add: glyph_U0038_b_def)

definition glyph_U0039_a :: "u8 list list" where
  "glyph_U0039_a = [
    [0x0, 0x0, 0x0, 0x0, 0x0, 0x0, 0x0, 0x0],
    [0x0, 0x24, 0x79, 0xaa, 0xbb, 0xa9, 0x75, 0x30],
    [0x0, 0x0, 0x0, 0x0, 0x0, 0x0, 0x0, 0x0],
    [0x0, 0x0, 0x0, 0x0, 0x0, 0x0, 0x0, 0x0],
    [0x0, 0x0, 0x5a, 0xef, 0xff, 0xff, 0xff, 0xff],
    [0xff, 0xff, 0xfc, 0x83, 0x0, 0x0, 0x0, 0x0],
    [0x0, 0x0, 0x0, 0x0, 0x0, 0x0, 0x0, 0x0],
    [0x0, 0x0, 0x0, 0x29, 0xff, 0xff, 0xff, 0xff],
    [0xff, 0xff, 0xff, 0xff, 0xff, 0xff, 0xfd, 0x81],
    [0x0, 0x0, 0x0, 0x0, 0x0, 0x0, 0x0, 0x0],
    [0x0, 0x0, 0x0, 0x0, 0x1, 0xaf, 0xff, 0xff],
    [0xff, 0xff, 0xff, 0xff, 0xff, 0xff, 0xff, 0xff],
    [0xff, 0xff, 0xf8, 0x0, 0x0, 0x0, 0x0, 0x0],
    [0x0, 0x0, 0x0, 0x0, 0x0, 0x0, 0x7, 0xff],
    [0xff, 0xff, 0xff, 0xff, 0xff, 0xff, 0xff, 0xff],
    [0xff, 0xff, 0xff, 0xff, 0xff, 0xfe, 0x50, 0x0],
    [0x0, 0x0, 0x0, 0x0, 0x0, 0x0, 0x0, 0x0],
    [0x1b, 0xff, 0xff, 0xff, 0xff, 0xff, 0xff, 0xff],
    [0xff, 0xff, 0xff, 0xff, 0xff, 0xff, 0xff, 0xff],
    [0xff, 0x90, 0x0, 0x0, 0x0, 0x0, 0x0, 0x0],
    [0x0, 0x0, 0x1d, 0xff, 0xff, 0xff, 0xff, 0xff],
    [0xff, 0xff, 0xff, 0xff, 0xff, 0xff, 0xff, 0xff],
    [0xff, 0xff, 0xff, 0xff, 0xc1, 0x0, 0x0, 0x0],
    [0x0, 0x0, 0x0, 0x0, 0x1d, 0xff, 0xff, 0xff],
    [0xff, 0xff, 0xff, 0xff, 0xff, 0xff, 0xff, 0xff],
    [0xff, 0xff, 0xff, 0xff, 0xff, 0xff, 0xff, 0xd1],
    [0x0, 0x0, 0x0, 0x0, 0x0, 0x0, 0xc, 0xff],
    [0xff, 0xff, 0xff, 0xff, 0xff, 0xfb, 0x74, 0x21],
    [0x0, 0x12, 0x47, 0xbf, 0xff, 0xff, 0xff, 0xff],
    [0xff, 0xff, 0xc0, 0x0, 0x0, 0x0, 0x0, 0x0],
    [0x9, 0xff, 0xff, 0xff, 0xff, 0xff, 0xfe, 0x71],
    [0x0, 0x0, 0x0, 0x0, 0x0, 0x0, 0x5, 0xcf],
    [0xff, 0xff, 0xff, 0xff, 0xff, 0xb0, 0x0, 0x0],
    [0x0, 0x0, 0x4, 0xff, 0xff, 0xff, 0xff, 0xff],
    [0xf8, 0x0, 0x0, 0x0, 0x0, 0x0, 0x0, 0x0],
    [0x0, 0x0, 0x5e, 0xff, 0xff, 0xff, 0xff, 0xff],
    [0x70, 0x0, 0x0, 0x0, 0x0, 0xdf, 0xff, 0xff],
    [0xff, 0xff, 0xe4, 0x0, 0x0, 0x0, 0x0, 0x0],
    [0x0, 0x0, 0x0, 0x0, 0x0, 0x1b, 0xff, 0xff],
    [0xff, 0xff, 0xff, 0x20, 0x0, 0x0, 0x0, 0x6f],
    [0xff, 0xff, 0xff, 0xff, 0xf2, 0x0, 0x0, 0x0],
    [0x0, 0x0, 0x0, 0x0, 0x0, 0x0, 0x0, 0x0],
    [0xa, 0xff, 0xff, 0xff, 0xff, 0xfc, 0x0, 0x0],
    [0x0, 0xd, 0xff, 0xff, 0xff, 0xff, 0xf4, 0x0],
    [0x0, 0x0, 0x0, 0x0, 0x0, 0x0, 0x0, 0x0],
    [0x0, 0x0, 0x0, 0xc, 0xff, 0xff, 0xff, 0xff],
    [0xf5, 0x0, 0x0, 0x2, 0xff, 0xff, 0xff, 0xff],
    [0xfa, 0x0, 0x0, 0x0, 0x0, 0x0, 0x0, 0x0],
    [0x0, 0x0, 0x0, 0x0, 0x0, 0x0, 0x1f, 0xff],
    [0xff, 0xff, 0xff, 0xd0, 0x0, 0x0, 0x8f, 0xff],
    [0xff, 0xff, 0xff, 0x20, 0x0, 0x0, 0x0, 0x0],
    [0x0, 0x0, 0x0, 0x0, 0x0, 0x0, 0x0, 0x0],
    [0x0, 0x8f, 0xff, 0xff, 0xff, 0xff, 0x40, 0x0],
    [0xb, 0xff, 0xff, 0xff, 0xff, 0xb0, 0x0, 0x0],
    [0x0, 0x0, 0x0, 0x0, 0x0, 0x0, 0x0, 0x0],
    [0x0, 0x0, 0x0, 0x1, 0xff, 0xff, 0xff, 0xff],
    [0xfc, 0x0, 0x0, 0xff, 0xff, 0xff, 0xff, 0xf6],
    [0x0, 0x0, 0x0, 0x0, 0x0, 0x0, 0x0, 0x0],
    [0x0, 0x0, 0x0, 0x0, 0x0, 0x0, 0xb, 0xff],
    [0xff, 0xff, 0xff, 0xf1, 0x0, 0x1f, 0xff, 0xff],
    [0xff, 0xff, 0x30, 0x0, 0x0, 0x0, 0x0, 0x0],
    [0x0, 0x0, 0x0, 0x0, 0x0, 0x0, 0x0, 0x0],
    [0x0, 0x7f, 0xff, 0xff, 0xff, 0xff, 0x70, 0x3],
    [0xff, 0xff, 0xff, 0xff, 0xf1, 0x0, 0x0, 0x0],
    [0x0, 0x0, 0x0, 0x0, 0x0, 0x0, 0x0, 0x0],
    [0x0, 0x0, 0x0, 0x4, 0xff, 0xff, 0xff, 0xff],
    [0xfc, 0x0, 0x4f, 0xff, 0xff, 0xff, 0xff, 0x0],
    [0x0, 0x0, 0x0, 0x0, 0x0, 0x0, 0x0, 0x0],
    [0x0, 0x0, 0x0, 0x0, 0x0, 0x0, 0x3f, 0xff],
    [0xff, 0xff, 0xff, 0xf1, 0x4, 0xff, 0xff, 0xff],
    [0xff, 0xf0, 0x0, 0x0, 0x0, 0x0, 0x0, 0x0],
    [0x0, 0x0, 0x0, 0x0, 0x0, 0x0, 0x0, 0x0],
    [0x3, 0xff, 0xff, 0xff, 0xff, 0xff, 0x40, 0x4f],
    [0xff, 0xff, 0xff, 0xff, 0x10, 0x0, 0x0, 0x0],
    [0x0, 0x0, 0x0, 0x0, 0x0, 0x0, 0x0, 0x0],
    [0x0, 0x0, 0x0, 0x4f, 0xff, 0xff, 0xff, 0xff],
    [0xf8, 0x3, 0xff, 0xff, 0xff, 0xff, 0xf3, 0x0],
    [0x0, 0x0, 0x0, 0x0, 0x0, 0x0, 0x0, 0x0],
    [0x0, 0x0, 0x0, 0x0, 0x0, 0x7, 0xff, 0xff],
    [0xff, 0xff, 0xff, 0xb0, 0x1f, 0xff, 0xff, 0xff],
    [0xff, 0x60, 0x0, 0x0, 0x0, 0x0, 0x0, 0x0],
    [0x0, 0x0, 0x0, 0x0, 0x0, 0x0, 0x0, 0x0],
    [0xbf, 0xff, 0xff, 0xff, 0xff, 0xfe, 0x0, 0xef],
    [0xff, 0xff, 0xff, 0xfb, 0x0, 0x0, 0x0, 0x0],
    [0x0, 0x0, 0x0, 0x0, 0x0, 0x0, 0x0, 0x0],
    [0x0, 0x0, 0x1f, 0xff, 0xff, 0xff, 0xff, 0xff],
    [0xf1, 0xb, 0xff, 0xff, 0xff, 0xff, 0xf1, 0x0],
    [0x0, 0x0, 0x0, 0x0, 0x0, 0x0, 0x0, 0x0],
    [0x0, 0x0, 0x0, 0x0, 0x8, 0xff, 0xff, 0xff],
    [0xff, 0xff, 0xff, 0x30, 0x7f, 0xff, 0xff, 0xff],
    [0xff, 0x90, 0x0, 0x0, 0x0, 0x0, 0x0, 0x0],
    [0x0, 0x0, 0x0, 0x0, 0x0, 0x0, 0x2, 0xff],
    [0xff, 0xff, 0xff, 0xff, 0xff, 0xf4, 0x1, 0xff],
    [0xff, 0xff, 0xff, 0xff, 0x40, 0x0, 0x0, 0x0],
    [0x0, 0x0, 0x0, 0x0, 0x0, 0x0, 0x0, 0x0],
    [0x0, 0xdf, 0xff, 0xff, 0xff, 0xff, 0xff, 0xff],
    [0x60, 0xb, 0xff, 0xff, 0xff, 0xff, 0xfe, 0x20],
    [0x0, 0x0, 0x0, 0x0, 0x0, 0x0, 0x0, 0x0],
    [0x0, 0x0, 0x0, 0xbf, 0xff, 0xff, 0xff, 0xff],
    [0xff, 0xff, 0xf7, 0x0, 0x3f, 0xff, 0xff, 0xff],
    [0xff, 0xfe, 0x40, 0x0, 0x0, 0x0, 0x0, 0x0],
    [0x0, 0x0, 0x0, 0x0, 0x1, 0xcf, 0xff, 0xff],
    [0xff, 0xff, 0xff, 0xff, 0xff, 0x80, 0x0, 0xbf],
    [0xff, 0xff, 0xff, 0xff, 0xff, 0x80, 0x0, 0x0],
    [0x0, 0x0, 0x0, 0x0, 0x0, 0x0, 0x6, 0xef],
    [0xff, 0xff, 0xff, 0xff, 0xff, 0xff, 0xff, 0xf9],
    [0x0, 0x2, 0xff, 0xff, 0xff, 0xff, 0xff, 0xff],
    [0xe7, 0x10, 0x0, 0x0, 0x0, 0x0, 0x0, 0x0],
    [0x6d, 0xff, 0xff, 0xff, 0xff, 0xff, 0xff, 0xff],
    [0xff, 0xff, 0x90, 0x0, 0x5, 0xff, 0xff, 0xff],
    [0xff, 0xff, 0xff, 0xff, 0xc8, 0x52, 0x10, 0x0],
    [0x14, 0x6b, 0xff, 0xff, 0xff, 0xff, 0xff, 0xf9],
    [0xff, 0xff, 0xff, 0xff, 0xf9, 0x0, 0x0, 0x9],
    [0xff, 0xff, 0xff, 0xff, 0xff, 0xff, 0xff, 0xff],
    [0xff, 0xff, 0xff, 0xff, 0xff, 0xff, 0xff, 0xff],
    [0xff, 0xfc, 0xf, 0xff, 0xff, 0xff, 0xff, 0x90],
    [0x0, 0x0, 0x9, 0xff, 0xff, 0xff, 0xff, 0xff],
    [0xff, 0xff, 0xff, 0xff, 0xff, 0xff, 0xff, 0xff],
    [0xff, 0xff, 0xff, 0xfc, 0x10, 0xff, 0xff, 0xff],
    [0xff, 0xf8, 0x0, 0x0, 0x0, 0x7, 0xff, 0xff],
    [0xff, 0xff, 0xff, 0xff, 0xff, 0xff, 0xff, 0xff],
    [0xff, 0xff, 0xff, 0xff, 0xff, 0xfb, 0x0, 0xf],
    [0xff, 0xff, 0xff, 0xff, 0x70, 0x0, 0x0, 0x0],
    [0x4, 0xef, 0xff, 0xff, 0xff, 0xff, 0xff, 0xff],
    [0xff, 0xff, 0xff, 0xff, 0xff, 0xff, 0xff, 0xf7],
    [0x0, 0x0, 0xff, 0xff, 0xff, 0xff, 0xf7, 0x0],
    [0x0, 0x0, 0x0, 0x0, 0x8f, 0xff, 0xff, 0xff],
    [0xff, 0xff, 0xff, 0xff, 0xff, 0xff, 0xff, 0xff],
    [0xff, 0xb2, 0x0, 0x0, 0x1f, 0xff, 0xff, 0xff],
    [0xff, 0x60, 0x0, 0x0, 0x0, 0x0, 0x0, 0x18],
    [0xef, 0xff, 0xff, 0xff, 0xff, 0xff, 0xff, 0xff],
    [0xff, 0xff, 0xfa, 0x30, 0x0, 0x0, 0x3, 0xff],
    [0xff, 0xff, 0xff, 0xf4, 0x0, 0x0, 0x0, 0x0],
    [0x0, 0x0, 0x0, 0x59, 0xdf, 0xff, 0xff, 0xff],
    [0xff, 0xff, 0xff, 0xeb, 0x61, 0x0, 0x0, 0x0],
    [0x0, 0x4f, 0xff, 0xff, 0xff, 0xff, 0x20, 0x0],
    [0x0, 0x0, 0x0, 0x0, 0x0, 0x0, 0x0, 0x14],
    [0x69, 0x9a, 0xba, 0xa9, 0x75, 0x20, 0x0, 0x0],
    [0x0, 0x0, 0x0, 0x6, 0xff, 0xff, 0xff, 0xff],
    [0xf0, 0x0, 0x0, 0x0, 0x0, 0x0, 0x0, 0x0],
    [0x0, 0x0, 0x0, 0x0, 0x0, 0x0, 0x0, 0x0],
    [0x0, 0x0, 0x0, 0x0, 0x0, 0x0, 0x9f, 0xff],
    [0xff, 0xff, 0xfd, 0x0, 0x0, 0x0, 0x0, 0x0],
    [0x0, 0x0, 0x0, 0x0, 0x0, 0x0, 0x0, 0x0],
    [0x0, 0x0, 0x0, 0x0, 0x0, 0x0, 0x0, 0x0],
    [0xc, 0xff, 0xff, 0xff, 0xff, 0xa0, 0x0, 0x0],
    [0x0, 0x0, 0x0, 0x0, 0x0, 0x0, 0x0, 0x0],
    [0x0, 0x0, 0x0, 0x0, 0x0, 0x0, 0x0, 0x0]]"

lemma glyph_U0039_a_length: "length (concat glyph_U0039_a) = 1184"
  by (simp add: glyph_U0039_a_def)

definition glyph_U0039_b :: "u8 list list" where
  "glyph_U0039_b = [
    [0x0, 0x0, 0x0, 0xff, 0xff, 0xff, 0xff, 0xf7],
    [0x0, 0x0, 0x0, 0x0, 0x0, 0x0, 0x0, 0x0],
    [0x0, 0x0, 0x0, 0x0, 0x0, 0x0, 0x0, 0x0],
    [0x0, 0x0, 0x0, 0x0, 0x0, 0x4f, 0xff, 0xff],
    [0xff, 0xff, 0x20, 0x0, 0x0, 0x0, 0x0, 0x0],
    [0x0, 0x0, 0x0, 0x0, 0x0, 0x0, 0x0, 0x0],
    [0x0, 0x0, 0x0, 0x0, 0x0, 0x0, 0x0, 0x9],
    [0xff, 0xff, 0xff, 0xff, 0xe0, 0x0, 0x0, 0x0],
    [0x0, 0x0, 0x0, 0x0, 0x0, 0x0, 0x0, 0x0],
    [0x0, 0x0, 0x0, 0x0, 0x0, 0x0, 0x0, 0x0],
    [0x0, 0x0, 0xff, 0xff, 0xff, 0xff, 0xfa, 0x0],
    [0x0, 0x0, 0x0, 0x0, 0x0, 0x0, 0x0, 0x0],
    [0x0, 0x0, 0x0, 0x0, 0x0, 0x0, 0x0, 0x0],
    [0x0, 0x0, 0x0, 0x0, 0x6f, 0xff, 0xff, 0xff],
    [0xff, 0x50, 0x0, 0x0, 0x0, 0x0, 0x0, 0x0],
    [0x0, 0x0, 0x0, 0x0, 0x0, 0x0, 0x0, 0x0],
    [0x0, 0x0, 0x0, 0x0, 0x0, 0x0, 0xd, 0xff],
    [0xff, 0xff, 0xff, 0xe0, 0x0, 0x0, 0x0, 0x0],
    [0x0, 0x0, 0x0, 0x0, 0x0, 0x0, 0x0, 0x0],
    [0x0, 0x0, 0x0, 0x0, 0x0, 0x0, 0x0, 0x0],
    [0x6, 0xff, 0xff, 0xff, 0xff, 0xf8, 0x0, 0x0],
    [0x0, 0x0, 0x0, 0x0, 0x0, 0x0, 0x0, 0x0],
    [0x0, 0x0, 0x0, 0x0, 0x0, 0x0, 0x0, 0x0],
    [0x0, 0x0, 0x1, 0xef, 0xff, 0xff, 0xff, 0xff],
    [0x10, 0x0, 0x0, 0x0, 0x0, 0x0, 0x0, 0x0],
    [0x0, 0x0, 0x0, 0x0, 0x0, 0x0, 0x0, 0x0],
    [0x0, 0x0, 0x0, 0x0, 0x0, 0xbf, 0xff, 0xff],
    [0xff, 0xff, 0xa0, 0x0, 0x0, 0x0, 0x0, 0x0],
    [0x0, 0x0, 0x0, 0x0, 0x0, 0x0, 0x0, 0x0],
    [0x0, 0x0, 0x0, 0x0, 0x0, 0x0, 0x0, 0x8f],
    [0xff, 0xff, 0xff, 0xff, 0xf1, 0x0, 0x0, 0x0],
    [0x0, 0x0, 0x0, 0x0, 0x0, 0x0, 0x0, 0x0],
    [0x0, 0x0, 0x0, 0x0, 0x0, 0x0, 0x0, 0x0],
    [0x0, 0x7f, 0xff, 0xff, 0xff, 0xff, 0xf7, 0x0],
    [0x0, 0x0, 0x0, 0x0, 0x0, 0x0, 0x0, 0x0],
    [0x0, 0x0, 0x0, 0x0, 0x0, 0x0, 0x0, 0x0],
    [0x0, 0x0, 0x0, 0x8f, 0xff, 0xff, 0xff, 0xff],
    [0xfd, 0x0, 0x0, 0x0, 0x0, 0x0, 0x0, 0x0],
    [0x0, 0x0, 0x0, 0x0, 0x0, 0x0, 0x0, 0x0],
    [0x0, 0x0, 0x0, 0x0, 0x1, 0xcf, 0xff, 0xff],
    [0xff, 0xff, 0xff, 0x30, 0x0, 0x0, 0x0, 0x0],
    [0x0, 0x0, 0x57, 0x0, 0x0, 0x0, 0x0, 0x0],
    [0x0, 0x0, 0x0, 0x0, 0x0, 0x0, 0x7, 0xff],
    [0xff, 0xff, 0xff, 0xff, 0xff, 0x60, 0x0, 0x0],
    [0x0, 0x0, 0x0, 0x0, 0xd, 0xfe, 0x71, 0x0],
    [0x0, 0x0, 0x0, 0x0, 0x0, 0x0, 0x0, 0x1],
    [0x7e, 0xff, 0xff, 0xff, 0xff, 0xff, 0xff, 0x90],
    [0x0, 0x0, 0x0, 0x0, 0x0, 0x0, 0x5, 0xff],
    [0xff, 0xfc, 0x74, 0x20, 0x0, 0x0, 0x0, 0x0],
    [0x14, 0x7c, 0xff, 0xff, 0xff, 0xff, 0xff, 0xff],
    [0xff, 0xb0, 0x0, 0x0, 0x0, 0x0, 0x0, 0x0],
    [0x0, 0xdf, 0xff, 0xff, 0xff, 0xff, 0xfd, 0xdc],
    [0xbb, 0xcd, 0xff, 0xff, 0xff, 0xff, 0xff, 0xff],
    [0xff, 0xff, 0xff, 0xa0, 0x0, 0x0, 0x0, 0x0],
    [0x0, 0x0, 0x0, 0x5f, 0xff, 0xff, 0xff, 0xff],
    [0xff, 0xff, 0xff, 0xff, 0xff, 0xff, 0xff, 0xff],
    [0xff, 0xff, 0xff, 0xff, 0xff, 0x90, 0x0, 0x0],
    [0x0, 0x0, 0x0, 0x0, 0x0, 0xd, 0xff, 0xff],
    [0xff, 0xff, 0xff, 0xff, 0xff, 0xff, 0xff, 0xff],
    [0xff, 0xff, 0xff, 0xff, 0xff, 0xff, 0xff, 0x70],
    [0x0, 0x0, 0x0, 0x0, 0x0, 0x0, 0x0, 0x5],
    [0xff, 0xff, 0xff, 0xff, 0xff, 0xff, 0xff, 0xff],
    [0xff, 0xff, 0xff, 0xff, 0xff, 0xff, 0xff, 0xff],
    [0xfc, 0x20, 0x0, 0x0, 0x0, 0x0, 0x0, 0x0],
    [0x0, 0x0, 0x9f, 0xff, 0xff, 0xff, 0xff, 0xff],
    [0xff, 0xff, 0xff, 0xff, 0xff, 0xff, 0xff, 0xff],
    [0xff, 0xff, 0xe6, 0x0, 0x0, 0x0, 0x0, 0x0],
    [0x0, 0x0, 0x0, 0x0, 0x0, 0x5c, 0xff, 0xff],
    [0xff, 0xff, 0xff, 0xff, 0xff, 0xff, 0xff, 0xff],
    [0xff, 0xff, 0xff, 0xfd, 0x60, 0x0, 0x0, 0x0],
    [0x0, 0x0, 0x0, 0x0, 0x0, 0x0, 0x0, 0x0],
    [0x3, 0x9e, 0xff, 0xff, 0xff, 0xff, 0xff, 0xff],
    [0xff, 0xff, 0xff, 0xff, 0xfe, 0xa4, 0x0, 0x0],
    [0x0, 0x0, 0x0, 0x0, 0x0, 0x0, 0x0, 0x0],
    [0x0, 0x0, 0x0, 0x0, 0x3, 0x7a, 0xdf, 0xff],
    [0xff, 0xff, 0xff, 0xff, 0xff, 0xeb, 0x84, 0x0],
    [0x0, 0x0, 0x0, 0x0, 0x0, 0x0, 0x0, 0x0],
    [0x0, 0x0, 0x0, 0x0, 0x0, 0x0, 0x0, 0x0],
    [0x0, 0x2, 0x45, 0x66, 0x77, 0x65, 0x43, 0x10],
    [0x0, 0x0, 0x0, 0x0, 0x0, 0x0, 0x0, 0x0],
    [0x0, 0x0, 0x0, 0x0, 0x0]]"

lemma glyph_U0039_b_length: "length (concat glyph_U0039_b) = 645"
  by (simp add: glyph_U0039_b_def)

definition glyph_U003A :: "u8 list list" where
  "glyph_U003A = [
    [0x0, 0x1, 0x8d, 0xff, 0xc7, 0x0, 0x0, 0x0],
    [0x4e, 0xff, 0xff, 0xff, 0xe2, 0x0, 0x3, 0xff],
    [0xff, 0xff, 0xff, 0xfe, 0x10, 0xd, 0xff, 0xff],
    [0xff, 0xff, 0xff, 0x90, 0x4f, 0xff, 0xff, 0xff],
    [0xff, 0xff, 0xf0, 0x7f, 0xff, 0xff, 0xff, 0xff],
    [0xff, 0xf3, 0x8f, 0xff, 0xff, 0xff, 0xff, 0xff],
    [0xf4, 0x7f, 0xff, 0xff, 0xff, 0xff, 0xff, 0xf3],
    [0x4f, 0xff, 0xff, 0xff, 0xff, 0xff, 0xf0, 0xd],
    [0xff, 0xff, 0xff, 0xff, 0xff, 0x90, 0x4, 0xff],
    [0xff, 0xff, 0xff, 0xfe, 0x10, 0x0, 0x5f, 0xff],
    [0xff, 0xff, 0xd2, 0x0, 0x0, 0x2, 0x9e, 0xff],
    [0xd8, 0x0, 0x0, 0x0, 0x0, 0x0, 0x0, 0x0],
    [0x0, 0x0, 0x0, 0x0, 0x0, 0x0, 0x0, 0x0],
    [0x0, 0x0, 0x0, 0x0, 0x0, 0x0, 0x0, 0x0],
    [0x0, 0x0, 0x0, 0x0, 0x0, 0x0, 0x0, 0x0],
    [0x0, 0x0, 0x0, 0x0, 0x0, 0x0, 0x0, 0x0],
    [0x0, 0x0, 0x0, 0x0, 0x0, 0x0, 0x0, 0x0],
    [0x0, 0x0, 0x0, 0x0, 0x0, 0x0, 0x0, 0x0],
    [0x0, 0x0, 0x0, 0x0, 0x0, 0x0, 0x0, 0x0],
    [0x0, 0x0, 0x0, 0x0, 0x0, 0x0, 0x0, 0x0],
    [0x0, 0x0, 0x0, 0x0, 0x0, 0x0, 0x0, 0x0],
    [0x0, 0x0, 0x0, 0x0, 0x0, 0x0, 0x0, 0x0],
    [0x0, 0x0, 0x0, 0x0, 0x0, 0x0, 0x0, 0x0],
    [0x0, 0x0, 0x0, 0x0, 0x0, 0x0, 0x0, 0x0],
    [0x0, 0x0, 0x0, 0x0, 0x0, 0x0, 0x0, 0x0],
    [0x0, 0x0, 0x0, 0x0, 0x0, 0x0, 0x0, 0x0],
    [0x0, 0x0, 0x0, 0x0, 0x0, 0x0, 0x0, 0x0],
    [0x0, 0x0, 0x0, 0x0, 0x0, 0x0, 0x0, 0x0],
    [0x0, 0x0, 0x0, 0x0, 0x0, 0x0, 0x0, 0x0],
    [0x0, 0x0, 0x0, 0x0, 0x0, 0x0, 0x0, 0x0],
    [0x0, 0x0, 0x0, 0x0, 0x0, 0x0, 0x0, 0x0],
    [0x0, 0x0, 0x0, 0x0, 0x0, 0x0, 0x0, 0x0],
    [0x0, 0x0, 0x0, 0x0, 0x0, 0x0, 0x0, 0x0],
    [0x0, 0x0, 0x0, 0x0, 0x16, 0x88, 0x51, 0x0],
    [0x0, 0x0, 0x9, 0xff, 0xff, 0xff, 0x70, 0x0],
    [0x0, 0xcf, 0xff, 0xff, 0xff, 0xfa, 0x0, 0x9],
    [0xff, 0xff, 0xff, 0xff, 0xff, 0x60, 0x2f, 0xff],
    [0xff, 0xff, 0xff, 0xff, 0xd0, 0x6f, 0xff, 0xff],
    [0xff, 0xff, 0xff, 0xf2, 0x8f, 0xff, 0xff, 0xff],
    [0xff, 0xff, 0xf3, 0x8f, 0xff, 0xff, 0xff, 0xff],
    [0xff, 0xf3, 0x6f, 0xff, 0xff, 0xff, 0xff, 0xff],
    [0xf1, 0x1f, 0xff, 0xff, 0xff, 0xff, 0xff, 0xc0],
    [0x9, 0xff, 0xff, 0xff, 0xff, 0xff, 0x40, 0x0],
    [0xbf, 0xff, 0xff, 0xff, 0xf7, 0x0, 0x0, 0x8],
    [0xff, 0xff, 0xfe, 0x50, 0x0, 0x0, 0x0, 0x15],
    [0x77, 0x40, 0x0, 0x0]]"

lemma glyph_U003A_length: "length (concat glyph_U003A) = 364"
  by (simp add: glyph_U003A_def)

text \<open>The bitmaps of these glyphs, in the order of the table.\<close>

definition bitmaps_digits :: "bytes list" where
  "bitmaps_digits = [
    concat glyph_U0030_a @ concat glyph_U0030_b,
    concat glyph_U0031,
    concat glyph_U0032_a @ concat glyph_U0032_b,
    concat glyph_U0033_a @ concat glyph_U0033_b,
    concat glyph_U0034_a @ concat glyph_U0034_b,
    concat glyph_U0035_a @ concat glyph_U0035_b,
    concat glyph_U0036_a @ concat glyph_U0036_b,
    concat glyph_U0037_a @ concat glyph_U0037_b,
    concat glyph_U0038_a @ concat glyph_U0038_b,
    concat glyph_U0039_a @ concat glyph_U0039_b,
    concat glyph_U003A]"

lemma bitmaps_digits_lengths: "map length bitmaps_digits = [1932, 871, 1734, 1734, 2044, 1734, 1829, 1742, 1863, 1829, 364]"
  by (simp add: bitmaps_digits_def
    glyph_U0030_a_length glyph_U0030_b_length
    glyph_U0031_length
    glyph_U0032_a_length glyph_U0032_b_length
    glyph_U0033_a_length glyph_U0033_b_length
    glyph_U0034_a_length glyph_U0034_b_length
    glyph_U0035_a_length glyph_U0035_b_length
    glyph_U0036_a_length glyph_U0036_b_length
    glyph_U0037_a_length glyph_U0037_b_length
    glyph_U0038_a_length glyph_U0038_b_length
    glyph_U0039_a_length glyph_U0039_b_length
    glyph_U003A_length)

end
