(* ===== verification/Montserrat_AD.thy ===== *)
theory Montserrat_AD
  imports Prelude
begin

text \<open>
  \<open>firmware/housepanel-giga/montserrat_96.c\<close>: the bitmaps of the glyphs U+003B to U+0044. Each glyph is
  a list with one row per line of the source; a glyph of more than 148 lines is split in parts.
\<close>

definition glyph_U003B :: "u8 list list" where
  "glyph_U003B = [
    [0x0, 0x1, 0x8d, 0xff, 0xc7, 0x0, 0x0, 0x0],
    [0x4e, 0xff, 0xff, 0xff, 0xe2, 0x0, 0x3, 0xff],
    [0xff, 0xff, 0xff, 0xfe, 0x10, 0xd, 0xff, 0xff],
    [0xff, 0xff, 0xff, 0x90, 0x4f, 0xff, 0xff, 0xff],
    [0xff, 0xff, 0xf0, 0x7f, 0xff, 0xff, 0xff, 0xff],
    [0xff, 0xf3, 0x8f, 0xff, 0xff, 0xff, 0xff, 0xff],
    [0xf4, 0x7f, 0xff, 0xff, 0xff, 0xff, 0xff, 0xf3],
    [0x4f, 0xff, 0xff, 0xff, 0xff, 0xff, 0xf0, 0xd],
    [0xff, 0xff, 0xff, 0xff, 0xff, 0x90, 0x4, 0xff],
    [0xff, 0xff, 0xff, 0xfe, 0x10, 0x0, 0x5f, 0xff],
    [0xff, 0xff, 0xd2, 0x0, 0x0, 0x2, 0x9e, 0xff],
    [0xd8, 0x0, 0x0, 0x0, 0x0, 0x0, 0x0, 0x0],
    [0x0, 0x0, 0x0, 0x0, 0x0, 0x0, 0x0, 0x0],
    [0x0, 0x0, 0x0, 0x0, 0x0, 0x0, 0x0, 0x0],
    [0x0, 0x0, 0x0, 0x0, 0x0, 0x0, 0x0, 0x0],
    [0x0, 0x0, 0x0, 0x0, 0x0, 0x0, 0x0, 0x0],
    [0x0, 0x0, 0x0, 0x0, 0x0, 0x0, 0x0, 0x0],
    [0x0, 0x0, 0x0, 0x0, 0x0, 0x0, 0x0, 0x0],
    [0x0, 0x0, 0x0, 0x0, 0x0, 0x0, 0x0, 0x0],
    [0x0, 0x0, 0x0, 0x0, 0x0, 0x0, 0x0, 0x0],
    [0x0, 0x0, 0x0, 0x0, 0x0, 0x0, 0x0, 0x0],
    [0x0, 0x0, 0x0, 0x0, 0x0, 0x0, 0x0, 0x0],
    [0x0, 0x0, 0x0, 0x0, 0x0, 0x0, 0x0, 0x0],
    [0x0, 0x0, 0x0, 0x0, 0x0, 0x0, 0x0, 0x0],
    [0x0, 0x0, 0x0, 0x0, 0x0, 0x0, 0x0, 0x0],
    [0x0, 0x0, 0x0, 0x0, 0x0, 0x0, 0x0, 0x0],
    [0x0, 0x0, 0x0, 0x0, 0x0, 0x0, 0x0, 0x0],
    [0x0, 0x0, 0x0, 0x0, 0x0, 0x0, 0x0, 0x0],
    [0x0, 0x0, 0x0, 0x0, 0x0, 0x0, 0x0, 0x0],
    [0x0, 0x0, 0x0, 0x0, 0x0, 0x0, 0x0, 0x0],
    [0x0, 0x0, 0x0, 0x0, 0x0, 0x0, 0x0, 0x0],
    [0x0, 0x0, 0x0, 0x0, 0x0, 0x0, 0x0, 0x0],
    [0x0, 0x0, 0x0, 0x0, 0x0, 0x0, 0x0, 0x0],
    [0x0, 0x0, 0x0, 0x0, 0x26, 0x88, 0x61, 0x0],
    [0x0, 0x0, 0x9, 0xff, 0xff, 0xff, 0x80, 0x0],
    [0x0, 0xcf, 0xff, 0xff, 0xff, 0xfa, 0x0, 0x8],
    [0xff, 0xff, 0xff, 0xff, 0xff, 0x60, 0xf, 0xff],
    [0xff, 0xff, 0xff, 0xff, 0xd0, 0x3f, 0xff, 0xff],
    [0xff, 0xff, 0xff, 0xf2, 0x5f, 0xff, 0xff, 0xff],
    [0xff, 0xff, 0xf3, 0x5f, 0xff, 0xff, 0xff, 0xff],
    [0xff, 0xf3, 0x3f, 0xff, 0xff, 0xff, 0xff, 0xff],
    [0xf2, 0xd, 0xff, 0xff, 0xff, 0xff, 0xff, 0xf0],
    [0x4, 0xff, 0xff, 0xff, 0xff, 0xff, 0xb0, 0x0],
    [0x6f, 0xff, 0xff, 0xff, 0xff, 0x60, 0x0, 0x3],
    [0xcf, 0xff, 0xff, 0xff, 0x10, 0x0, 0x0, 0x8f],
    [0xff, 0xff, 0xfb, 0x0, 0x0, 0x0, 0xcf, 0xff],
    [0xff, 0xf6, 0x0, 0x0, 0x0, 0xff, 0xff, 0xff],
    [0xf1, 0x0, 0x0, 0x4, 0xff, 0xff, 0xff, 0xb0],
    [0x0, 0x0, 0x8, 0xff, 0xff, 0xff, 0x50, 0x0],
    [0x0, 0xc, 0xff, 0xff, 0xff, 0x0, 0x0, 0x0],
    [0xf, 0xff, 0xff, 0xfa, 0x0, 0x0, 0x0, 0x4f],
    [0xff, 0xff, 0xf5, 0x0, 0x0, 0x0, 0x8f, 0xff],
    [0xff, 0xf0, 0x0, 0x0, 0x0, 0xcf, 0xff, 0xff],
    [0xa0, 0x0, 0x0, 0x0, 0xff, 0xff, 0xff, 0x50],
    [0x0, 0x0, 0x4, 0xff, 0xff, 0xff, 0x0, 0x0],
    [0x0, 0x8, 0xff, 0xff, 0xfa, 0x0, 0x0, 0x0],
    [0xc, 0xff, 0xff, 0xf4, 0x0, 0x0, 0x0]]"

lemma glyph_U003B_length: "length (concat glyph_U003B) = 455"
  by (simp add: glyph_U003B_def)

definition glyph_U003C :: "u8 list list" where
  "glyph_U003C = [
    [0x0, 0x0, 0x0, 0x0, 0x0, 0x0, 0x0, 0x0],
    [0x0, 0x0, 0x0, 0x0, 0x0, 0x0, 0x0, 0x0],
    [0x0, 0x0, 0x0, 0x0, 0x0, 0x1, 0x0, 0x0],
    [0x0, 0x0, 0x0, 0x0, 0x0, 0x0, 0x0, 0x0],
    [0x0, 0x0, 0x0, 0x0, 0x0, 0x0, 0x0, 0x0],
    [0x0, 0x0, 0x39, 0xf7, 0x0, 0x0, 0x0, 0x0],
    [0x0, 0x0, 0x0, 0x0, 0x0, 0x0, 0x0, 0x0],
    [0x0, 0x0, 0x0, 0x0, 0x0, 0x0, 0x0, 0x6c],
    [0xff, 0xf7, 0x0, 0x0, 0x0, 0x0, 0x0, 0x0],
    [0x0, 0x0, 0x0, 0x0, 0x0, 0x0, 0x0, 0x0],
    [0x0, 0x0, 0x0, 0x3, 0x9f, 0xff, 0xff, 0xf7],
    [0x0, 0x0, 0x0, 0x0, 0x0, 0x0, 0x0, 0x0],
    [0x0, 0x0, 0x0, 0x0, 0x0, 0x0, 0x0, 0x0],
    [0x17, 0xdf, 0xff, 0xff, 0xff, 0xf7, 0x0, 0x0],
    [0x0, 0x0, 0x0, 0x0, 0x0, 0x0, 0x0, 0x0],
    [0x0, 0x0, 0x0, 0x0, 0x0, 0x4a, 0xff, 0xff],
    [0xff, 0xff, 0xff, 0xf7, 0x0, 0x0, 0x0, 0x0],
    [0x0, 0x0, 0x0, 0x0, 0x0, 0x0, 0x0, 0x0],
    [0x0, 0x1, 0x7d, 0xff, 0xff, 0xff, 0xff, 0xff],
    [0xff, 0xf7, 0x0, 0x0, 0x0, 0x0, 0x0, 0x0],
    [0x0, 0x0, 0x0, 0x0, 0x0, 0x0, 0x4, 0xbf],
    [0xff, 0xff, 0xff, 0xff, 0xff, 0xff, 0xff, 0xf7],
    [0x0, 0x0, 0x0, 0x0, 0x0, 0x0, 0x0, 0x0],
    [0x0, 0x0, 0x0, 0x28, 0xef, 0xff, 0xff, 0xff],
    [0xff, 0xff, 0xff, 0xff, 0xff, 0xe4, 0x0, 0x0],
    [0x0, 0x0, 0x0, 0x0, 0x0, 0x0, 0x0, 0x0],
    [0x5b, 0xff, 0xff, 0xff, 0xff, 0xff, 0xff, 0xff],
    [0xff, 0xff, 0xb5, 0x0, 0x0, 0x0, 0x0, 0x0],
    [0x0, 0x0, 0x0, 0x0, 0x2, 0x8e, 0xff, 0xff],
    [0xff, 0xff, 0xff, 0xff, 0xff, 0xff, 0xfd, 0x71],
    [0x0, 0x0, 0x0, 0x0, 0x0, 0x0, 0x0, 0x0],
    [0x0, 0x6, 0xcf, 0xff, 0xff, 0xff, 0xff, 0xff],
    [0xff, 0xff, 0xff, 0xf9, 0x30, 0x0, 0x0, 0x0],
    [0x0, 0x0, 0x0, 0x0, 0x0, 0x0, 0x39, 0xff],
    [0xff, 0xff, 0xff, 0xff, 0xff, 0xff, 0xff, 0xff],
    [0xc6, 0x0, 0x0, 0x0, 0x0, 0x0, 0x0, 0x0],
    [0x0, 0x0, 0x0, 0x6c, 0xff, 0xff, 0xff, 0xff],
    [0xff, 0xff, 0xff, 0xff, 0xfe, 0x82, 0x0, 0x0],
    [0x0, 0x0, 0x0, 0x0, 0x0, 0x0, 0x0, 0x3],
    [0xaf, 0xff, 0xff, 0xff, 0xff, 0xff, 0xff, 0xff],
    [0xff, 0xfb, 0x40, 0x0, 0x0, 0x0, 0x0, 0x0],
    [0x0, 0x0, 0x0, 0x0, 0x17, 0xdf, 0xff, 0xff],
    [0xff, 0xff, 0xff, 0xff, 0xff, 0xff, 0xd7, 0x10],
    [0x0, 0x0, 0x0, 0x0, 0x0, 0x0, 0x0, 0x0],
    [0x0, 0x4a, 0xff, 0xff, 0xff, 0xff, 0xff, 0xff],
    [0xff, 0xff, 0xff, 0x93, 0x0, 0x0, 0x0, 0x0],
    [0x0, 0x0, 0x0, 0x0, 0x0, 0x0, 0x5e, 0xff],
    [0xff, 0xff, 0xff, 0xff, 0xff, 0xff, 0xff, 0xfc],
    [0x50, 0x0, 0x0, 0x0, 0x0, 0x0, 0x0, 0x0],
    [0x0, 0x0, 0x0, 0x0, 0x9f, 0xff, 0xff, 0xff],
    [0xff, 0xff, 0xff, 0xff, 0xe8, 0x20, 0x0, 0x0],
    [0x0, 0x0, 0x0, 0x0, 0x0, 0x0, 0x0, 0x0],
    [0x0, 0x0, 0x9f, 0xff, 0xff, 0xff, 0xff, 0xff],
    [0xff, 0xa4, 0x0, 0x0, 0x0, 0x0, 0x0, 0x0],
    [0x0, 0x0, 0x0, 0x0, 0x0, 0x0, 0x0, 0x0],
    [0x9f, 0xff, 0xff, 0xff, 0xff, 0xfd, 0x71, 0x0],
    [0x0, 0x0, 0x0, 0x0, 0x0, 0x0, 0x0, 0x0],
    [0x0, 0x0, 0x0, 0x0, 0x0, 0x0, 0x9f, 0xff],
    [0xff, 0xff, 0xfd, 0x30, 0x0, 0x0, 0x0, 0x0],
    [0x0, 0x0, 0x0, 0x0, 0x0, 0x0, 0x0, 0x0],
    [0x0, 0x0, 0x0, 0x0, 0x9f, 0xff, 0xff, 0xff],
    [0xff, 0xe8, 0x20, 0x0, 0x0, 0x0, 0x0, 0x0],
    [0x0, 0x0, 0x0, 0x0, 0x0, 0x0, 0x0, 0x0],
    [0x0, 0x0, 0x9f, 0xff, 0xff, 0xff, 0xff, 0xff],
    [0xfc, 0x60, 0x0, 0x0, 0x0, 0x0, 0x0, 0x0],
    [0x0, 0x0, 0x0, 0x0, 0x0, 0x0, 0x0, 0x0],
    [0x9f, 0xff, 0xff, 0xff, 0xff, 0xff, 0xff, 0xff],
    [0xa3, 0x0, 0x0, 0x0, 0x0, 0x0, 0x0, 0x0],
    [0x0, 0x0, 0x0, 0x0, 0x0, 0x0, 0x7f, 0xff],
    [0xff, 0xff, 0xff, 0xff, 0xff, 0xff, 0xff, 0xd7],
    [0x10, 0x0, 0x0, 0x0, 0x0, 0x0, 0x0, 0x0],
    [0x0, 0x0, 0x0, 0x0, 0x2, 0x8e, 0xff, 0xff],
    [0xff, 0xff, 0xff, 0xff, 0xff, 0xff, 0xfb, 0x50],
    [0x0, 0x0, 0x0, 0x0, 0x0, 0x0, 0x0, 0x0],
    [0x0, 0x0, 0x0, 0x0, 0x5b, 0xff, 0xff, 0xff],
    [0xff, 0xff, 0xff, 0xff, 0xff, 0xfe, 0x92, 0x0],
    [0x0, 0x0, 0x0, 0x0, 0x0, 0x0, 0x0, 0x0],
    [0x0, 0x0, 0x0, 0x18, 0xef, 0xff, 0xff, 0xff],
    [0xff, 0xff, 0xff, 0xff, 0xff, 0xc6, 0x10, 0x0],
    [0x0, 0x0, 0x0, 0x0, 0x0, 0x0, 0x0, 0x0],
    [0x0, 0x0, 0x4, 0xaf, 0xff, 0xff, 0xff, 0xff],
    [0xff, 0xff, 0xff, 0xff, 0xfa, 0x40, 0x0, 0x0],
    [0x0, 0x0, 0x0, 0x0, 0x0, 0x0, 0x0, 0x0],
    [0x0, 0x1, 0x7d, 0xff, 0xff, 0xff, 0xff, 0xff],
    [0xff, 0xff, 0xff, 0xfd, 0x71, 0x0, 0x0, 0x0],
    [0x0, 0x0, 0x0, 0x0, 0x0, 0x0, 0x0, 0x0],
    [0x0, 0x4a, 0xff, 0xff, 0xff, 0xff, 0xff, 0xff],
    [0xff, 0xff, 0xff, 0xb5, 0x0, 0x0, 0x0, 0x0],
    [0x0, 0x0, 0x0, 0x0, 0x0, 0x0, 0x0, 0x0],
    [0x16, 0xdf, 0xff, 0xff, 0xff, 0xff, 0xff, 0xff],
    [0xff, 0xff, 0xe9, 0x30, 0x0, 0x0, 0x0, 0x0],
    [0x0, 0x0, 0x0, 0x0, 0x0, 0x0, 0x0, 0x3],
    [0x9f, 0xff, 0xff, 0xff, 0xff, 0xff, 0xff, 0xff],
    [0xff, 0xfd, 0x61, 0x0, 0x0, 0x0, 0x0, 0x0],
    [0x0, 0x0, 0x0, 0x0, 0x0, 0x0, 0x0, 0x6c],
    [0xff, 0xff, 0xff, 0xff, 0xff, 0xff, 0xff, 0xff],
    [0xff, 0xa2, 0x0, 0x0, 0x0, 0x0, 0x0, 0x0],
    [0x0, 0x0, 0x0, 0x0, 0x0, 0x0, 0x29, 0xef],
    [0xff, 0xff, 0xff, 0xff, 0xff, 0xff, 0xff, 0xf7],
    [0x0, 0x0, 0x0, 0x0, 0x0, 0x0, 0x0, 0x0],
    [0x0, 0x0, 0x0, 0x0, 0x0, 0x5, 0xcf, 0xff],
    [0xff, 0xff, 0xff, 0xff, 0xff, 0xf7, 0x0, 0x0],
    [0x0, 0x0, 0x0, 0x0, 0x0, 0x0, 0x0, 0x0],
    [0x0, 0x0, 0x0, 0x0, 0x2, 0x8e, 0xff, 0xff],
    [0xff, 0xff, 0xff, 0xf7, 0x0, 0x0, 0x0, 0x0],
    [0x0, 0x0, 0x0, 0x0, 0x0, 0x0, 0x0, 0x0],
    [0x0, 0x0, 0x0, 0x0, 0x5b, 0xff, 0xff, 0xff],
    [0xff, 0xf7, 0x0, 0x0, 0x0, 0x0, 0x0, 0x0],
    [0x0, 0x0, 0x0, 0x0, 0x0, 0x0, 0x0, 0x0],
    [0x0, 0x0, 0x0, 0x17, 0xef, 0xff, 0xff, 0xf7],
    [0x0, 0x0, 0x0, 0x0, 0x0, 0x0, 0x0, 0x0],
    [0x0, 0x0, 0x0, 0x0, 0x0, 0x0, 0x0, 0x0],
    [0x0, 0x0, 0x4, 0xaf, 0xff, 0xf7, 0x0, 0x0],
    [0x0, 0x0, 0x0, 0x0, 0x0, 0x0, 0x0, 0x0],
    [0x0, 0x0, 0x0, 0x0, 0x0, 0x0, 0x0, 0x0],
    [0x0, 0x1, 0x7d, 0xf7, 0x0, 0x0, 0x0, 0x0],
    [0x0, 0x0, 0x0, 0x0, 0x0, 0x0, 0x0, 0x0],
    [0x0, 0x0, 0x0, 0x0, 0x0, 0x0, 0x0, 0x0],
    [0x0, 0x33]]"

lemma glyph_U003C_length: "length (concat glyph_U003C) = 946"
  by (simp add: glyph_U003C_def)

definition glyph_U003D :: "u8 list list" where
  "glyph_U003D = [
    [0x9f, 0xff, 0xff, 0xff, 0xff, 0xff, 0xff, 0xff],
    [0xff, 0xff, 0xff, 0xff, 0xff, 0xff, 0xff, 0xff],
    [0xff, 0xff, 0xff, 0xff, 0xff, 0xf7, 0x9f, 0xff],
    [0xff, 0xff, 0xff, 0xff, 0xff, 0xff, 0xff, 0xff],
    [0xff, 0xff, 0xff, 0xff, 0xff, 0xff, 0xff, 0xff],
    [0xff, 0xff, 0xff, 0xf7, 0x9f, 0xff, 0xff, 0xff],
    [0xff, 0xff, 0xff, 0xff, 0xff, 0xff, 0xff, 0xff],
    [0xff, 0xff, 0xff, 0xff, 0xff, 0xff, 0xff, 0xff],
    [0xff, 0xf7, 0x9f, 0xff, 0xff, 0xff, 0xff, 0xff],
    [0xff, 0xff, 0xff, 0xff, 0xff, 0xff, 0xff, 0xff],
    [0xff, 0xff, 0xff, 0xff, 0xff, 0xff, 0xff, 0xf7],
    [0x9f, 0xff, 0xff, 0xff, 0xff, 0xff, 0xff, 0xff],
    [0xff, 0xff, 0xff, 0xff, 0xff, 0xff, 0xff, 0xff],
    [0xff, 0xff, 0xff, 0xff, 0xff, 0xf7, 0x9f, 0xff],
    [0xff, 0xff, 0xff, 0xff, 0xff, 0xff, 0xff, 0xff],
    [0xff, 0xff, 0xff, 0xff, 0xff, 0xff, 0xff, 0xff],
    [0xff, 0xff, 0xff, 0xf7, 0x9f, 0xff, 0xff, 0xff],
    [0xff, 0xff, 0xff, 0xff, 0xff, 0xff, 0xff, 0xff],
    [0xff, 0xff, 0xff, 0xff, 0xff, 0xff, 0xff, 0xff],
    [0xff, 0xf7, 0x48, 0x88, 0x88, 0x88, 0x88, 0x88],
    [0x88, 0x88, 0x88, 0x88, 0x88, 0x88, 0x88, 0x88],
    [0x88, 0x88, 0x88, 0x88, 0x88, 0x88, 0x88, 0x83],
    [0x0, 0x0, 0x0, 0x0, 0x0, 0x0, 0x0, 0x0],
    [0x0, 0x0, 0x0, 0x0, 0x0, 0x0, 0x0, 0x0],
    [0x0, 0x0, 0x0, 0x0, 0x0, 0x0, 0x0, 0x0],
    [0x0, 0x0, 0x0, 0x0, 0x0, 0x0, 0x0, 0x0],
    [0x0, 0x0, 0x0, 0x0, 0x0, 0x0, 0x0, 0x0],
    [0x0, 0x0, 0x0, 0x0, 0x0, 0x0, 0x0, 0x0],
    [0x0, 0x0, 0x0, 0x0, 0x0, 0x0, 0x0, 0x0],
    [0x0, 0x0, 0x0, 0x0, 0x0, 0x0, 0x0, 0x0],
    [0x0, 0x0, 0x0, 0x0, 0x0, 0x0, 0x0, 0x0],
    [0x0, 0x0, 0x0, 0x0, 0x0, 0x0, 0x0, 0x0],
    [0x0, 0x0, 0x0, 0x0, 0x0, 0x0, 0x0, 0x0],
    [0x0, 0x0, 0x0, 0x0, 0x0, 0x0, 0x0, 0x0],
    [0x0, 0x0, 0x0, 0x0, 0x0, 0x0, 0x0, 0x0],
    [0x0, 0x0, 0x0, 0x0, 0x0, 0x0, 0x0, 0x0],
    [0x0, 0x0, 0x0, 0x0, 0x0, 0x0, 0x0, 0x0],
    [0x0, 0x0, 0x0, 0x0, 0x0, 0x0, 0x0, 0x0],
    [0x0, 0x0, 0x0, 0x0, 0x0, 0x0, 0x0, 0x0],
    [0x0, 0x0, 0x0, 0x0, 0x0, 0x0, 0x0, 0x0],
    [0x0, 0x0, 0x0, 0x0, 0x0, 0x0, 0x0, 0x0],
    [0x0, 0x0, 0x0, 0x0, 0x0, 0x0, 0x0, 0x0],
    [0x0, 0x0, 0x0, 0x0, 0x0, 0x0, 0x0, 0x0],
    [0x0, 0x0, 0x0, 0x0, 0x0, 0x0, 0x0, 0x0],
    [0x0, 0x0, 0x0, 0x0, 0x0, 0x0, 0x0, 0x0],
    [0x0, 0x0, 0x0, 0x0, 0x0, 0x0, 0x0, 0x0],
    [0x0, 0x0, 0x0, 0x0, 0x0, 0x0, 0x0, 0x0],
    [0x0, 0x0, 0x0, 0x0, 0x0, 0x0, 0x0, 0x0],
    [0x0, 0x0, 0x0, 0x0, 0x0, 0x0, 0x0, 0x0],
    [0x0, 0x0, 0x0, 0x0, 0x0, 0x0, 0x0, 0x0],
    [0x0, 0x0, 0x0, 0x0, 0x0, 0x0, 0x0, 0x0],
    [0x0, 0x0, 0x0, 0x0, 0x0, 0x0, 0x0, 0x0],
    [0x0, 0x0, 0x0, 0x0, 0x0, 0x0, 0x0, 0x0],
    [0x0, 0x0, 0x0, 0x0, 0x0, 0x0, 0x0, 0x0],
    [0x0, 0x0, 0x0, 0x0, 0x0, 0x0, 0x0, 0x0],
    [0x0, 0x0, 0x0, 0x0, 0x0, 0x0, 0x0, 0x0],
    [0x0, 0x0, 0x0, 0x0, 0x0, 0x0, 0x0, 0x0],
    [0x0, 0x0, 0x0, 0x0, 0x0, 0x0, 0x0, 0x0],
    [0x0, 0x0, 0x0, 0x0, 0x0, 0x0, 0x0, 0x0],
    [0x0, 0x0, 0x0, 0x0, 0x0, 0x0, 0x0, 0x0],
    [0x0, 0x0, 0x0, 0x0, 0x48, 0x88, 0x88, 0x88],
    [0x88, 0x88, 0x88, 0x88, 0x88, 0x88, 0x88, 0x88],
    [0x88, 0x88, 0x88, 0x88, 0x88, 0x88, 0x88, 0x88],
    [0x88, 0x83, 0x9f, 0xff, 0xff, 0xff, 0xff, 0xff],
    [0xff, 0xff, 0xff, 0xff, 0xff, 0xff, 0xff, 0xff],
    [0xff, 0xff, 0xff, 0xff, 0xff, 0xff, 0xff, 0xf7],
    [0x9f, 0xff, 0xff, 0xff, 0xff, 0xff, 0xff, 0xff],
    [0xff, 0xff, 0xff, 0xff, 0xff, 0xff, 0xff, 0xff],
    [0xff, 0xff, 0xff, 0xff, 0xff, 0xf7, 0x9f, 0xff],
    [0xff, 0xff, 0xff, 0xff, 0xff, 0xff, 0xff, 0xff],
    [0xff, 0xff, 0xff, 0xff, 0xff, 0xff, 0xff, 0xff],
    [0xff, 0xff, 0xff, 0xf7, 0x9f, 0xff, 0xff, 0xff],
    [0xff, 0xff, 0xff, 0xff, 0xff, 0xff, 0xff, 0xff],
    [0xff, 0xff, 0xff, 0xff, 0xff, 0xff, 0xff, 0xff],
    [0xff, 0xf7, 0x9f, 0xff, 0xff, 0xff, 0xff, 0xff],
    [0xff, 0xff, 0xff, 0xff, 0xff, 0xff, 0xff, 0xff],
    [0xff, 0xff, 0xff, 0xff, 0xff, 0xff, 0xff, 0xf7],
    [0x9f, 0xff, 0xff, 0xff, 0xff, 0xff, 0xff, 0xff],
    [0xff, 0xff, 0xff, 0xff, 0xff, 0xff, 0xff, 0xff],
    [0xff, 0xff, 0xff, 0xff, 0xff, 0xf7, 0x9f, 0xff],
    [0xff, 0xff, 0xff, 0xff, 0xff, 0xff, 0xff, 0xff],
    [0xff, 0xff, 0xff, 0xff, 0xff, 0xff, 0xff, 0xff],
    [0xff, 0xff, 0xff, 0xf7]]"

lemma glyph_U003D_length: "length (concat glyph_U003D) = 660"
  by (simp add: glyph_U003D_def)

definition glyph_U003E :: "u8 list list" where
  "glyph_U003E = [
    [0x20, 0x0, 0x0, 0x0, 0x0, 0x0, 0x0, 0x0],
    [0x0, 0x0, 0x0, 0x0, 0x0, 0x0, 0x0, 0x0],
    [0x0, 0x0, 0x0, 0x0, 0x0, 0x0, 0x9e, 0x82],
    [0x0, 0x0, 0x0, 0x0, 0x0, 0x0, 0x0, 0x0],
    [0x0, 0x0, 0x0, 0x0, 0x0, 0x0, 0x0, 0x0],
    [0x0, 0x0, 0x0, 0x0, 0x9f, 0xff, 0xb5, 0x0],
    [0x0, 0x0, 0x0, 0x0, 0x0, 0x0, 0x0, 0x0],
    [0x0, 0x0, 0x0, 0x0, 0x0, 0x0, 0x0, 0x0],
    [0x0, 0x0, 0x9f, 0xff, 0xff, 0xe9, 0x20, 0x0],
    [0x0, 0x0, 0x0, 0x0, 0x0, 0x0, 0x0, 0x0],
    [0x0, 0x0, 0x0, 0x0, 0x0, 0x0, 0x0, 0x0],
    [0x9f, 0xff, 0xff, 0xff, 0xfc, 0x60, 0x0, 0x0],
    [0x0, 0x0, 0x0, 0x0, 0x0, 0x0, 0x0, 0x0],
    [0x0, 0x0, 0x0, 0x0, 0x0, 0x0, 0x9f, 0xff],
    [0xff, 0xff, 0xff, 0xff, 0x93, 0x0, 0x0, 0x0],
    [0x0, 0x0, 0x0, 0x0, 0x0, 0x0, 0x0, 0x0],
    [0x0, 0x0, 0x0, 0x0, 0x9f, 0xff, 0xff, 0xff],
    [0xff, 0xff, 0xff, 0xd6, 0x10, 0x0, 0x0, 0x0],
    [0x0, 0x0, 0x0, 0x0, 0x0, 0x0, 0x0, 0x0],
    [0x0, 0x0, 0x9f, 0xff, 0xff, 0xff, 0xff, 0xff],
    [0xff, 0xff, 0xfa, 0x40, 0x0, 0x0, 0x0, 0x0],
    [0x0, 0x0, 0x0, 0x0, 0x0, 0x0, 0x0, 0x0],
    [0x6f, 0xff, 0xff, 0xff, 0xff, 0xff, 0xff, 0xff],
    [0xff, 0xfd, 0x71, 0x0, 0x0, 0x0, 0x0, 0x0],
    [0x0, 0x0, 0x0, 0x0, 0x0, 0x0, 0x0, 0x5c],
    [0xff, 0xff, 0xff, 0xff, 0xff, 0xff, 0xff, 0xff],
    [0xff, 0xa4, 0x0, 0x0, 0x0, 0x0, 0x0, 0x0],
    [0x0, 0x0, 0x0, 0x0, 0x0, 0x0, 0x28, 0xef],
    [0xff, 0xff, 0xff, 0xff, 0xff, 0xff, 0xff, 0xff],
    [0xe8, 0x10, 0x0, 0x0, 0x0, 0x0, 0x0, 0x0],
    [0x0, 0x0, 0x0, 0x0, 0x0, 0x4, 0xaf, 0xff],
    [0xff, 0xff, 0xff, 0xff, 0xff, 0xff, 0xff, 0xfb],
    [0x50, 0x0, 0x0, 0x0, 0x0, 0x0, 0x0, 0x0],
    [0x0, 0x0, 0x0, 0x0, 0x1, 0x6c, 0xff, 0xff],
    [0xff, 0xff, 0xff, 0xff, 0xff, 0xff, 0xfe, 0x82],
    [0x0, 0x0, 0x0, 0x0, 0x0, 0x0, 0x0, 0x0],
    [0x0, 0x0, 0x0, 0x0, 0x39, 0xef, 0xff, 0xff],
    [0xff, 0xff, 0xff, 0xff, 0xff, 0xff, 0xc5, 0x0],
    [0x0, 0x0, 0x0, 0x0, 0x0, 0x0, 0x0, 0x0],
    [0x0, 0x0, 0x0, 0x5, 0xbf, 0xff, 0xff, 0xff],
    [0xff, 0xff, 0xff, 0xff, 0xff, 0xe9, 0x30, 0x0],
    [0x0, 0x0, 0x0, 0x0, 0x0, 0x0, 0x0, 0x0],
    [0x0, 0x0, 0x1, 0x7d, 0xff, 0xff, 0xff, 0xff],
    [0xff, 0xff, 0xff, 0xff, 0xfc, 0x60, 0x0, 0x0],
    [0x0, 0x0, 0x0, 0x0, 0x0, 0x0, 0x0, 0x0],
    [0x0, 0x0, 0x4a, 0xff, 0xff, 0xff, 0xff, 0xff],
    [0xff, 0xff, 0xff, 0xff, 0x93, 0x0, 0x0, 0x0],
    [0x0, 0x0, 0x0, 0x0, 0x0, 0x0, 0x0, 0x0],
    [0x0, 0x6, 0xcf, 0xff, 0xff, 0xff, 0xff, 0xff],
    [0xff, 0xff, 0xff, 0xd3, 0x0, 0x0, 0x0, 0x0],
    [0x0, 0x0, 0x0, 0x0, 0x0, 0x0, 0x0, 0x0],
    [0x2, 0x8e, 0xff, 0xff, 0xff, 0xff, 0xff, 0xff],
    [0xff, 0xf7, 0x0, 0x0, 0x0, 0x0, 0x0, 0x0],
    [0x0, 0x0, 0x0, 0x0, 0x0, 0x0, 0x0, 0x0],
    [0x4b, 0xff, 0xff, 0xff, 0xff, 0xff, 0xff, 0xf7],
    [0x0, 0x0, 0x0, 0x0, 0x0, 0x0, 0x0, 0x0],
    [0x0, 0x0, 0x0, 0x0, 0x0, 0x0, 0x0, 0x17],
    [0xdf, 0xff, 0xff, 0xff, 0xff, 0xf7, 0x0, 0x0],
    [0x0, 0x0, 0x0, 0x0, 0x0, 0x0, 0x0, 0x0],
    [0x0, 0x0, 0x0, 0x0, 0x0, 0x0, 0x3, 0xdf],
    [0xff, 0xff, 0xff, 0xf7, 0x0, 0x0, 0x0, 0x0],
    [0x0, 0x0, 0x0, 0x0, 0x0, 0x0, 0x0, 0x0],
    [0x0, 0x0, 0x0, 0x2, 0x8e, 0xff, 0xff, 0xff],
    [0xff, 0xf7, 0x0, 0x0, 0x0, 0x0, 0x0, 0x0],
    [0x0, 0x0, 0x0, 0x0, 0x0, 0x0, 0x0, 0x0],
    [0x6, 0xcf, 0xff, 0xff, 0xff, 0xff, 0xff, 0xf7],
    [0x0, 0x0, 0x0, 0x0, 0x0, 0x0, 0x0, 0x0],
    [0x0, 0x0, 0x0, 0x0, 0x0, 0x4a, 0xff, 0xff],
    [0xff, 0xff, 0xff, 0xff, 0xff, 0xf7, 0x0, 0x0],
    [0x0, 0x0, 0x0, 0x0, 0x0, 0x0, 0x0, 0x0],
    [0x0, 0x1, 0x7d, 0xff, 0xff, 0xff, 0xff, 0xff],
    [0xff, 0xff, 0xff, 0xf5, 0x0, 0x0, 0x0, 0x0],
    [0x0, 0x0, 0x0, 0x0, 0x0, 0x0, 0x5, 0xbf],
    [0xff, 0xff, 0xff, 0xff, 0xff, 0xff, 0xff, 0xff],
    [0xe7, 0x10, 0x0, 0x0, 0x0, 0x0, 0x0, 0x0],
    [0x0, 0x0, 0x0, 0x39, 0xff, 0xff, 0xff, 0xff],
    [0xff, 0xff, 0xff, 0xff, 0xff, 0xa4, 0x0, 0x0],
    [0x0, 0x0, 0x0, 0x0, 0x0, 0x0, 0x0, 0x1],
    [0x7d, 0xff, 0xff, 0xff, 0xff, 0xff, 0xff, 0xff],
    [0xff, 0xfd, 0x71, 0x0, 0x0, 0x0, 0x0, 0x0],
    [0x0, 0x0, 0x0, 0x0, 0x4, 0xaf, 0xff, 0xff],
    [0xff, 0xff, 0xff, 0xff, 0xff, 0xff, 0xfa, 0x30],
    [0x0, 0x0, 0x0, 0x0, 0x0, 0x0, 0x0, 0x0],
    [0x0, 0x28, 0xef, 0xff, 0xff, 0xff, 0xff, 0xff],
    [0xff, 0xff, 0xff, 0xc6, 0x10, 0x0, 0x0, 0x0],
    [0x0, 0x0, 0x0, 0x0, 0x0, 0x0, 0x6c, 0xff],
    [0xff, 0xff, 0xff, 0xff, 0xff, 0xff, 0xff, 0xff],
    [0x93, 0x0, 0x0, 0x0, 0x0, 0x0, 0x0, 0x0],
    [0x0, 0x0, 0x3, 0xaf, 0xff, 0xff, 0xff, 0xff],
    [0xff, 0xff, 0xff, 0xff, 0xfc, 0x60, 0x0, 0x0],
    [0x0, 0x0, 0x0, 0x0, 0x0, 0x0, 0x0, 0x17],
    [0xdf, 0xff, 0xff, 0xff, 0xff, 0xff, 0xff, 0xff],
    [0xff, 0xe8, 0x20, 0x0, 0x0, 0x0, 0x0, 0x0],
    [0x0, 0x0, 0x0, 0x0, 0x3b, 0xff, 0xff, 0xff],
    [0xff, 0xff, 0xff, 0xff, 0xff, 0xff, 0xb5, 0x0],
    [0x0, 0x0, 0x0, 0x0, 0x0, 0x0, 0x0, 0x0],
    [0x0, 0x0, 0x9f, 0xff, 0xff, 0xff, 0xff, 0xff],
    [0xff, 0xff, 0xfe, 0x82, 0x0, 0x0, 0x0, 0x0],
    [0x0, 0x0, 0x0, 0x0, 0x0, 0x0, 0x0, 0x0],
    [0x9f, 0xff, 0xff, 0xff, 0xff, 0xff, 0xff, 0xfb],
    [0x40, 0x0, 0x0, 0x0, 0x0, 0x0, 0x0, 0x0],
    [0x0, 0x0, 0x0, 0x0, 0x0, 0x0, 0x9f, 0xff],
    [0xff, 0xff, 0xff, 0xff, 0xd7, 0x10, 0x0, 0x0],
    [0x0, 0x0, 0x0, 0x0, 0x0, 0x0, 0x0, 0x0],
    [0x0, 0x0, 0x0, 0x0, 0x9f, 0xff, 0xff, 0xff],
    [0xff, 0xa4, 0x0, 0x0, 0x0, 0x0, 0x0, 0x0],
    [0x0, 0x0, 0x0, 0x0, 0x0, 0x0, 0x0, 0x0],
    [0x0, 0x0, 0x9f, 0xff, 0xff, 0xfd, 0x71, 0x0],
    [0x0, 0x0, 0x0, 0x0, 0x0, 0x0, 0x0, 0x0],
    [0x0, 0x0, 0x0, 0x0, 0x0, 0x0, 0x0, 0x0],
    [0x9f, 0xff, 0xfa, 0x30, 0x0, 0x0, 0x0, 0x0],
    [0x0, 0x0, 0x0, 0x0, 0x0, 0x0, 0x0, 0x0],
    [0x0, 0x0, 0x0, 0x0, 0x0, 0x0, 0x9f, 0xc6],
    [0x0, 0x0, 0x0, 0x0, 0x0, 0x0, 0x0, 0x0],
    [0x0, 0x0, 0x0, 0x0, 0x0, 0x0, 0x0, 0x0],
    [0x0, 0x0, 0x0, 0x0, 0x43, 0x0, 0x0, 0x0],
    [0x0, 0x0, 0x0, 0x0, 0x0, 0x0, 0x0, 0x0],
    [0x0, 0x0, 0x0, 0x0, 0x0, 0x0, 0x0, 0x0],
    [0x0, 0x0]]"

lemma glyph_U003E_length: "length (concat glyph_U003E) = 946"
  by (simp add: glyph_U003E_def)

definition glyph_U003F_a :: "u8 list list" where
  "glyph_U003F_a = [
    [0x0, 0x0, 0x0, 0x0, 0x0, 0x0, 0x0, 0x0],
    [0x3, 0x68, 0xac, 0xde, 0xff, 0xff, 0xed, 0xb9],
    [0x63, 0x0, 0x0, 0x0, 0x0, 0x0, 0x0, 0x0],
    [0x0, 0x0, 0x0, 0x0, 0x0, 0x0, 0x0, 0x16],
    [0xbe, 0xff, 0xff, 0xff, 0xff, 0xff, 0xff, 0xff],
    [0xff, 0xff, 0xb6, 0x10, 0x0, 0x0, 0x0, 0x0],
    [0x0, 0x0, 0x0, 0x0, 0x0, 0x0, 0x5, 0xbf],
    [0xff, 0xff, 0xff, 0xff, 0xff, 0xff, 0xff, 0xff],
    [0xff, 0xff, 0xff, 0xff, 0xa2, 0x0, 0x0, 0x0],
    [0x0, 0x0, 0x0, 0x0, 0x0, 0x0, 0x5d, 0xff],
    [0xff, 0xff, 0xff, 0xff, 0xff, 0xff, 0xff, 0xff],
    [0xff, 0xff, 0xff, 0xff, 0xff, 0xf9, 0x10, 0x0],
    [0x0, 0x0, 0x0, 0x0, 0x0, 0x3, 0xdf, 0xff],
    [0xff, 0xff, 0xff, 0xff, 0xff, 0xff, 0xff, 0xff],
    [0xff, 0xff, 0xff, 0xff, 0xff, 0xff, 0xfe, 0x40],
    [0x0, 0x0, 0x0, 0x0, 0x0, 0x8, 0xff, 0xff],
    [0xff, 0xff, 0xff, 0xff, 0xff, 0xff, 0xff, 0xff],
    [0xff, 0xff, 0xff, 0xff, 0xff, 0xff, 0xff, 0xff],
    [0x70, 0x0, 0x0, 0x0, 0x0, 0x1d, 0xff, 0xff],
    [0xff, 0xff, 0xff, 0xff, 0xff, 0xff, 0xff, 0xff],
    [0xff, 0xff, 0xff, 0xff, 0xff, 0xff, 0xff, 0xff],
    [0xff, 0x70, 0x0, 0x0, 0x0, 0x3e, 0xff, 0xff],
    [0xff, 0xff, 0xff, 0xff, 0xff, 0xff, 0xff, 0xff],
    [0xff, 0xff, 0xff, 0xff, 0xff, 0xff, 0xff, 0xff],
    [0xff, 0xff, 0x50, 0x0, 0x0, 0x3f, 0xff, 0xff],
    [0xff, 0xff, 0xff, 0xff, 0xff, 0xea, 0x75, 0x32],
    [0x22, 0x34, 0x59, 0xcf, 0xff, 0xff, 0xff, 0xff],
    [0xff, 0xff, 0xff, 0x20, 0x0, 0x2e, 0xff, 0xff],
    [0xff, 0xff, 0xff, 0xff, 0xd8, 0x20, 0x0, 0x0],
    [0x0, 0x0, 0x0, 0x0, 0x17, 0xef, 0xff, 0xff],
    [0xff, 0xff, 0xff, 0xfa, 0x0, 0xd, 0xff, 0xff],
    [0xff, 0xff, 0xff, 0xfd, 0x50, 0x0, 0x0, 0x0],
    [0x0, 0x0, 0x0, 0x0, 0x0, 0x0, 0x9f, 0xff],
    [0xff, 0xff, 0xff, 0xff, 0xf2, 0x0, 0x3d, 0xff],
    [0xff, 0xff, 0xff, 0xf7, 0x0, 0x0, 0x0, 0x0],
    [0x0, 0x0, 0x0, 0x0, 0x0, 0x0, 0x0, 0x5f],
    [0xff, 0xff, 0xff, 0xff, 0xff, 0x90, 0x0, 0x9],
    [0xff, 0xff, 0xff, 0xe3, 0x0, 0x0, 0x0, 0x0],
    [0x0, 0x0, 0x0, 0x0, 0x0, 0x0, 0x0, 0x0],
    [0x5f, 0xff, 0xff, 0xff, 0xff, 0xfd, 0x0, 0x0],
    [0x4, 0xef, 0xff, 0xd1, 0x0, 0x0, 0x0, 0x0],
    [0x0, 0x0, 0x0, 0x0, 0x0, 0x0, 0x0, 0x0],
    [0x0, 0xaf, 0xff, 0xff, 0xff, 0xff, 0xf1, 0x0],
    [0x0, 0x1, 0xbf, 0xd1, 0x0, 0x0, 0x0, 0x0],
    [0x0, 0x0, 0x0, 0x0, 0x0, 0x0, 0x0, 0x0],
    [0x0, 0x1, 0xff, 0xff, 0xff, 0xff, 0xff, 0x40],
    [0x0, 0x0, 0x0, 0x62, 0x0, 0x0, 0x0, 0x0],
    [0x0, 0x0, 0x0, 0x0, 0x0, 0x0, 0x0, 0x0],
    [0x0, 0x0, 0xb, 0xff, 0xff, 0xff, 0xff, 0xf6],
    [0x0, 0x0, 0x0, 0x0, 0x0, 0x0, 0x0, 0x0],
    [0x0, 0x0, 0x0, 0x0, 0x0, 0x0, 0x0, 0x0],
    [0x0, 0x0, 0x0, 0x6f, 0xff, 0xff, 0xff, 0xff],
    [0x70, 0x0, 0x0, 0x0, 0x0, 0x0, 0x0, 0x0],
    [0x0, 0x0, 0x0, 0x0, 0x0, 0x0, 0x0, 0x0],
    [0x0, 0x0, 0x0, 0x5, 0xff, 0xff, 0xff, 0xff],
    [0xf7, 0x0, 0x0, 0x0, 0x0, 0x0, 0x0, 0x0],
    [0x0, 0x0, 0x0, 0x0, 0x0, 0x0, 0x0, 0x0],
    [0x0, 0x0, 0x0, 0x0, 0x3f, 0xff, 0xff, 0xff],
    [0xff, 0x60, 0x0, 0x0, 0x0, 0x0, 0x0, 0x0],
    [0x0, 0x0, 0x0, 0x0, 0x0, 0x0, 0x0, 0x0],
    [0x0, 0x0, 0x0, 0x0, 0x4, 0xff, 0xff, 0xff],
    [0xff, 0xf5, 0x0, 0x0, 0x0, 0x0, 0x0, 0x0],
    [0x0, 0x0, 0x0, 0x0, 0x0, 0x0, 0x0, 0x0],
    [0x0, 0x0, 0x0, 0x0, 0x0, 0x6f, 0xff, 0xff],
    [0xff, 0xff, 0x30, 0x0, 0x0, 0x0, 0x0, 0x0],
    [0x0, 0x0, 0x0, 0x0, 0x0, 0x0, 0x0, 0x0],
    [0x0, 0x0, 0x0, 0x0, 0x0, 0xa, 0xff, 0xff],
    [0xff, 0xff, 0xf0, 0x0, 0x0, 0x0, 0x0, 0x0],
    [0x0, 0x0, 0x0, 0x0, 0x0, 0x0, 0x0, 0x0],
    [0x0, 0x0, 0x0, 0x0, 0x0, 0x0, 0xff, 0xff],
    [0xff, 0xff, 0xfb, 0x0, 0x0, 0x0, 0x0, 0x0],
    [0x0, 0x0, 0x0, 0x0, 0x0, 0x0, 0x0, 0x0],
    [0x0, 0x0, 0x0, 0x0, 0x0, 0x0, 0x7f, 0xff],
    [0xff, 0xff, 0xff, 0x60, 0x0, 0x0, 0x0, 0x0],
    [0x0, 0x0, 0x0, 0x0, 0x0, 0x0, 0x0, 0x0],
    [0x0, 0x0, 0x0, 0x0, 0x0, 0x0, 0x2f, 0xff],
    [0xff, 0xff, 0xff, 0xe0, 0x0, 0x0, 0x0, 0x0],
    [0x0, 0x0, 0x0, 0x0, 0x0, 0x0, 0x0, 0x0],
    [0x0, 0x0, 0x0, 0x0, 0x0, 0x0, 0x1d, 0xff],
    [0xff, 0xff, 0xff, 0xf7, 0x0, 0x0, 0x0, 0x0],
    [0x0, 0x0, 0x0, 0x0, 0x0, 0x0, 0x0, 0x0],
    [0x0, 0x0, 0x0, 0x0, 0x0, 0x0, 0xc, 0xff],
    [0xff, 0xff, 0xff, 0xfe, 0x0, 0x0, 0x0, 0x0],
    [0x0, 0x0, 0x0, 0x0, 0x0, 0x0, 0x0, 0x0],
    [0x0, 0x0, 0x0, 0x0, 0x0, 0x0, 0xb, 0xff],
    [0xff, 0xff, 0xff, 0xff, 0x40, 0x0, 0x0, 0x0],
    [0x0, 0x0, 0x0, 0x0, 0x0, 0x0, 0x0, 0x0],
    [0x0, 0x0, 0x0, 0x0, 0x0, 0x0, 0xb, 0xff],
    [0xff, 0xff, 0xff, 0xff, 0x80, 0x0, 0x0, 0x0],
    [0x0, 0x0, 0x0, 0x0, 0x0, 0x0, 0x0, 0x0],
    [0x0, 0x0, 0x0, 0x0, 0x0, 0x0, 0x1c, 0xff],
    [0xff, 0xff, 0xff, 0xff, 0xa0, 0x0, 0x0, 0x0],
    [0x0, 0x0, 0x0, 0x0, 0x0, 0x0, 0x0, 0x0],
    [0x0, 0x0, 0x0, 0x0, 0x0, 0x0, 0x2d, 0xff],
    [0xff, 0xff, 0xff, 0xff, 0xb0, 0x0, 0x0, 0x0],
    [0x0, 0x0, 0x0, 0x0, 0x0, 0x0, 0x0, 0x0],
    [0x0, 0x0, 0x0, 0x0, 0x0, 0x0, 0x2e, 0xff],
    [0xff, 0xff, 0xff, 0xff, 0xb0, 0x0, 0x0, 0x0],
    [0x0, 0x0, 0x0, 0x0, 0x0, 0x0, 0x0, 0x0],
    [0x0, 0x0, 0x0, 0x0, 0x0, 0x0, 0x3e, 0xff],
    [0xff, 0xff, 0xff, 0xff, 0xa0, 0x0, 0x0, 0x0],
    [0x0, 0x0, 0x0, 0x0, 0x0, 0x0, 0x0, 0x0],
    [0x0, 0x0, 0x0, 0x0, 0x0, 0x0, 0x3f, 0xff],
    [0xff, 0xff, 0xff, 0xff, 0x90, 0x0, 0x0, 0x0],
    [0x0, 0x0, 0x0, 0x0, 0x0, 0x0, 0x0, 0x0],
    [0x0, 0x0, 0x0, 0x0, 0x0, 0x0, 0x3f, 0xff],
    [0xff, 0xff, 0xff, 0xff, 0x80, 0x0, 0x0, 0x0],
    [0x0, 0x0, 0x0, 0x0, 0x0, 0x0, 0x0, 0x0],
    [0x0, 0x0, 0x0, 0x0, 0x0, 0x0, 0x1e, 0xff],
    [0xff, 0xff, 0xff, 0xff, 0x70, 0x0, 0x0, 0x0],
    [0x0, 0x0, 0x0, 0x0, 0x0, 0x0, 0x0, 0x0],
    [0x0, 0x0, 0x0, 0x0, 0x0, 0x0, 0xc, 0xff],
    [0xff, 0xff, 0xff, 0xff, 0x70, 0x0, 0x0, 0x0],
    [0x0, 0x0, 0x0, 0x0, 0x0, 0x0, 0x0, 0x0],
    [0x0, 0x0, 0x0, 0x0, 0x0, 0x0, 0x7, 0xff],
    [0xff, 0xff, 0xff, 0xff, 0x80, 0x0, 0x0, 0x0],
    [0x0, 0x0, 0x0, 0x0, 0x0, 0x0, 0x0, 0x0],
    [0x0, 0x0, 0x0, 0x0, 0x0, 0x0, 0x1, 0xff],
    [0xff, 0xff, 0xff, 0xff, 0xa0, 0x0, 0x0, 0x0],
    [0x0, 0x0, 0x0, 0x0, 0x0, 0x0, 0x0, 0x0],
    [0x0, 0x0, 0x0, 0x0, 0x0, 0x0, 0x0, 0x8f],
    [0xff, 0xff, 0xff, 0xff, 0xd0, 0x0, 0x0, 0x0],
    [0x0, 0x0, 0x0, 0x0, 0x0, 0x0, 0x0, 0x0],
    [0x0, 0x0, 0x0, 0x0, 0x0, 0x0, 0x0, 0xf],
    [0xff, 0xff, 0xff, 0xff, 0xf2, 0x0, 0x0, 0x0],
    [0x0, 0x0, 0x0, 0x0, 0x0, 0x0, 0x0, 0x0],
    [0x0, 0x0, 0x0, 0x0, 0x0, 0x0, 0x0, 0x5],
    [0xff, 0xff, 0xff, 0xff, 0xf9, 0x0, 0x0, 0x0],
    [0x0, 0x0, 0x0, 0x0, 0x0, 0x0, 0x0, 0x0],
    [0x0, 0x0, 0x0, 0x0, 0x0, 0x0, 0x0, 0x0],
    [0x9f, 0xff, 0xff, 0xff, 0xff, 0x30, 0x0, 0x0],
    [0x0, 0x0, 0x0, 0x0, 0x0, 0x0, 0x0, 0x0],
    [0x0, 0x0, 0x0, 0x0, 0x0, 0x0, 0x0, 0x0],
    [0xd, 0xff, 0xff, 0xff, 0xff, 0xe0, 0x0, 0x0],
    [0x0, 0x0, 0x0, 0x0, 0x0, 0x0, 0x0, 0x0],
    [0x0, 0x0, 0x0, 0x0, 0x0, 0x0, 0x0, 0x0],
    [0x0, 0xff, 0xff, 0xff, 0xff, 0xfa, 0x0, 0x0],
    [0x0, 0x0, 0x0, 0x0, 0x0, 0x0, 0x0, 0x0],
    [0x0, 0x0, 0x0, 0x0, 0x0, 0x0, 0x0, 0x0],
    [0x0, 0xf, 0xff, 0xff, 0xff, 0xff, 0x90, 0x0],
    [0x0, 0x0, 0x0, 0x0, 0x0, 0x0, 0x0, 0x0],
    [0x0, 0x0, 0x0, 0x0, 0x0, 0x0, 0x0, 0x0],
    [0x0, 0x1, 0xcc, 0xcc, 0xcc, 0xcc, 0xc6, 0x0],
    [0x0, 0x0, 0x0, 0x0, 0x0, 0x0, 0x0, 0x0],
    [0x0, 0x0, 0x0, 0x0, 0x0, 0x0, 0x0, 0x0],
    [0x0, 0x0, 0x0, 0x0, 0x0, 0x0, 0x0, 0x0],
    [0x0, 0x0, 0x0, 0x0, 0x0, 0x0, 0x0, 0x0],
    [0x0, 0x0, 0x0, 0x0, 0x0, 0x0, 0x0, 0x0]]"

lemma glyph_U003F_a_length: "length (concat glyph_U003F_a) = 1184"
  by (simp add: glyph_U003F_a_def)

definition glyph_U003F_b :: "u8 list list" where
  "glyph_U003F_b = [
    [0x0, 0x0, 0x0, 0x0, 0x0, 0x0, 0x0, 0x0],
    [0x0, 0x0, 0x0, 0x0, 0x0, 0x0, 0x0, 0x0],
    [0x0, 0x0, 0x0, 0x0, 0x0, 0x0, 0x0, 0x0],
    [0x0, 0x0, 0x0, 0x0, 0x0, 0x0, 0x0, 0x0],
    [0x0, 0x0, 0x0, 0x0, 0x0, 0x0, 0x0, 0x0],
    [0x0, 0x0, 0x0, 0x0, 0x0, 0x0, 0x0, 0x0],
    [0x0, 0x0, 0x0, 0x0, 0x0, 0x0, 0x0, 0x0],
    [0x0, 0x0, 0x0, 0x0, 0x0, 0x0, 0x0, 0x0],
    [0x0, 0x0, 0x0, 0x0, 0x0, 0x0, 0x0, 0x0],
    [0x0, 0x0, 0x0, 0x0, 0x0, 0x0, 0x0, 0x0],
    [0x0, 0x0, 0x0, 0x0, 0x0, 0x0, 0x0, 0x0],
    [0x0, 0x0, 0x0, 0x0, 0x0, 0x0, 0x0, 0x0],
    [0x0, 0x0, 0x0, 0x0, 0x0, 0x0, 0x0, 0x0],
    [0x0, 0x0, 0x0, 0x0, 0x0, 0x0, 0x0, 0x0],
    [0x0, 0x0, 0x0, 0x0, 0x0, 0x0, 0x0, 0x0],
    [0x0, 0x0, 0x0, 0x0, 0x0, 0x0, 0x0, 0x0],
    [0x0, 0x0, 0x0, 0x0, 0x0, 0x0, 0x0, 0x0],
    [0x0, 0x0, 0x0, 0x0, 0x0, 0x0, 0x0, 0x0],
    [0x0, 0x0, 0x0, 0x0, 0x0, 0x0, 0x0, 0x0],
    [0x0, 0x0, 0x0, 0x0, 0x0, 0x0, 0x0, 0x0],
    [0x0, 0x0, 0x0, 0x0, 0x0, 0x0, 0x0, 0x0],
    [0x0, 0x0, 0x0, 0x0, 0x0, 0x0, 0x0, 0x0],
    [0x0, 0x0, 0x0, 0x0, 0x0, 0x0, 0x0, 0x0],
    [0x0, 0x0, 0x0, 0x0, 0x0, 0x0, 0x0, 0x0],
    [0x0, 0x0, 0x0, 0x0, 0x0, 0x0, 0x0, 0x0],
    [0x49, 0xaa, 0x72, 0x0, 0x0, 0x0, 0x0, 0x0],
    [0x0, 0x0, 0x0, 0x0, 0x0, 0x0, 0x0, 0x0],
    [0x0, 0x0, 0x0, 0x0, 0x0, 0x0, 0x0, 0x2],
    [0xdf, 0xff, 0xff, 0xf8, 0x0, 0x0, 0x0, 0x0],
    [0x0, 0x0, 0x0, 0x0, 0x0, 0x0, 0x0, 0x0],
    [0x0, 0x0, 0x0, 0x0, 0x0, 0x0, 0x0, 0x2],
    [0xef, 0xff, 0xff, 0xff, 0xf8, 0x0, 0x0, 0x0],
    [0x0, 0x0, 0x0, 0x0, 0x0, 0x0, 0x0, 0x0],
    [0x0, 0x0, 0x0, 0x0, 0x0, 0x0, 0x0, 0x0],
    [0xbf, 0xff, 0xff, 0xff, 0xff, 0xf3, 0x0, 0x0],
    [0x0, 0x0, 0x0, 0x0, 0x0, 0x0, 0x0, 0x0],
    [0x0, 0x0, 0x0, 0x0, 0x0, 0x0, 0x0, 0x0],
    [0x2f, 0xff, 0xff, 0xff, 0xff, 0xff, 0x90, 0x0],
    [0x0, 0x0, 0x0, 0x0, 0x0, 0x0, 0x0, 0x0],
    [0x0, 0x0, 0x0, 0x0, 0x0, 0x0, 0x0, 0x0],
    [0x5, 0xff, 0xff, 0xff, 0xff, 0xff, 0xfd, 0x0],
    [0x0, 0x0, 0x0, 0x0, 0x0, 0x0, 0x0, 0x0],
    [0x0, 0x0, 0x0, 0x0, 0x0, 0x0, 0x0, 0x0],
    [0x0, 0x6f, 0xff, 0xff, 0xff, 0xff, 0xff, 0xe0],
    [0x0, 0x0, 0x0, 0x0, 0x0, 0x0, 0x0, 0x0],
    [0x0, 0x0, 0x0, 0x0, 0x0, 0x0, 0x0, 0x0],
    [0x0, 0x5, 0xff, 0xff, 0xff, 0xff, 0xff, 0xfc],
    [0x0, 0x0, 0x0, 0x0, 0x0, 0x0, 0x0, 0x0],
    [0x0, 0x0, 0x0, 0x0, 0x0, 0x0, 0x0, 0x0],
    [0x0, 0x0, 0x1f, 0xff, 0xff, 0xff, 0xff, 0xff],
    [0x80, 0x0, 0x0, 0x0, 0x0, 0x0, 0x0, 0x0],
    [0x0, 0x0, 0x0, 0x0, 0x0, 0x0, 0x0, 0x0],
    [0x0, 0x0, 0x0, 0x9f, 0xff, 0xff, 0xff, 0xff],
    [0xf1, 0x0, 0x0, 0x0, 0x0, 0x0, 0x0, 0x0],
    [0x0, 0x0, 0x0, 0x0, 0x0, 0x0, 0x0, 0x0],
    [0x0, 0x0, 0x0, 0x0, 0xdf, 0xff, 0xff, 0xff],
    [0xf5, 0x0, 0x0, 0x0, 0x0, 0x0, 0x0, 0x0],
    [0x0, 0x0, 0x0, 0x0, 0x0, 0x0, 0x0, 0x0],
    [0x0, 0x0, 0x0, 0x0, 0x0, 0x9f, 0xff, 0xff],
    [0xd4, 0x0, 0x0, 0x0, 0x0, 0x0, 0x0, 0x0],
    [0x0, 0x0, 0x0, 0x0, 0x0, 0x0, 0x0, 0x0],
    [0x0, 0x0, 0x0, 0x0, 0x0, 0x0, 0x15, 0x77],
    [0x40, 0x0, 0x0, 0x0, 0x0, 0x0, 0x0, 0x0],
    [0x0, 0x0, 0x0]]"

lemma glyph_U003F_b_length: "length (concat glyph_U003F_b) = 507"
  by (simp add: glyph_U003F_b_def)

definition glyph_U0040_a :: "u8 list list" where
  "glyph_U0040_a = [
    [0x0, 0x0, 0x0, 0x0, 0x0, 0x0, 0x0, 0x0],
    [0x0, 0x0, 0x0, 0x0, 0x0, 0x0, 0x0, 0x0],
    [0x0, 0x0, 0x36, 0x8a, 0xbd, 0xee, 0xff, 0xff],
    [0xee, 0xcb, 0x97, 0x53, 0x0, 0x0, 0x0, 0x0],
    [0x0, 0x0, 0x0, 0x0, 0x0, 0x0, 0x0, 0x0],
    [0x0, 0x0, 0x0, 0x0, 0x0, 0x0, 0x0, 0x0],
    [0x0, 0x0, 0x0, 0x0, 0x0, 0x0, 0x0, 0x0],
    [0x0, 0x0, 0x0, 0x0, 0x0, 0x16, 0xad, 0xff],
    [0xff, 0xff, 0xff, 0xff, 0xff, 0xff, 0xff, 0xff],
    [0xff, 0xff, 0xc9, 0x51, 0x0, 0x0, 0x0, 0x0],
    [0x0, 0x0, 0x0, 0x0, 0x0, 0x0, 0x0, 0x0],
    [0x0, 0x0, 0x0, 0x0, 0x0, 0x0, 0x0, 0x0],
    [0x0, 0x0, 0x0, 0x0, 0x0, 0x0, 0x0, 0x0],
    [0x0, 0x28, 0xdf, 0xff, 0xff, 0xff, 0xff, 0xff],
    [0xff, 0xff, 0xff, 0xff, 0xff, 0xff, 0xff, 0xff],
    [0xff, 0xfc, 0x61, 0x0, 0x0, 0x0, 0x0, 0x0],
    [0x0, 0x0, 0x0, 0x0, 0x0, 0x0, 0x0, 0x0],
    [0x0, 0x0, 0x0, 0x0, 0x0, 0x0, 0x0, 0x0],
    [0x0, 0x0, 0x0, 0x0, 0x0, 0x6, 0xdf, 0xff],
    [0xff, 0xff, 0xff, 0xff, 0xff, 0xff, 0xff, 0xff],
    [0xff, 0xff, 0xff, 0xff, 0xff, 0xff, 0xff, 0xff],
    [0xfb, 0x40, 0x0, 0x0, 0x0, 0x0, 0x0, 0x0],
    [0x0, 0x0, 0x0, 0x0, 0x0, 0x0, 0x0, 0x0],
    [0x0, 0x0, 0x0, 0x0, 0x0, 0x0, 0x0, 0x0],
    [0x0, 0x1, 0x8f, 0xff, 0xff, 0xff, 0xff, 0xff],
    [0xff, 0xff, 0xff, 0xff, 0xff, 0xff, 0xff, 0xff],
    [0xff, 0xff, 0xff, 0xff, 0xff, 0xff, 0xff, 0xe6],
    [0x0, 0x0, 0x0, 0x0, 0x0, 0x0, 0x0, 0x0],
    [0x0, 0x0, 0x0, 0x0, 0x0, 0x0, 0x0, 0x0],
    [0x0, 0x0, 0x0, 0x0, 0x0, 0x0, 0x18, 0xff],
    [0xff, 0xff, 0xff, 0xff, 0xff, 0xff, 0xff, 0xff],
    [0xff, 0xff, 0xff, 0xff, 0xff, 0xff, 0xff, 0xff],
    [0xff, 0xff, 0xff, 0xff, 0xff, 0xfe, 0x60, 0x0],
    [0x0, 0x0, 0x0, 0x0, 0x0, 0x0, 0x0, 0x0],
    [0x0, 0x0, 0x0, 0x0, 0x0, 0x0, 0x0, 0x0],
    [0x0, 0x0, 0x0, 0x6e, 0xff, 0xff, 0xff, 0xff],
    [0xff, 0xff, 0xff, 0xff, 0xdb, 0x97, 0x65, 0x54],
    [0x45, 0x56, 0x89, 0xbd, 0xff, 0xff, 0xff, 0xff],
    [0xff, 0xff, 0xff, 0xff, 0xd4, 0x0, 0x0, 0x0],
    [0x0, 0x0, 0x0, 0x0, 0x0, 0x0, 0x0, 0x0],
    [0x0, 0x0, 0x0, 0x0, 0x0, 0x0, 0x0, 0x2],
    [0xcf, 0xff, 0xff, 0xff, 0xff, 0xff, 0xff, 0xea],
    [0x63, 0x0, 0x0, 0x0, 0x0, 0x0, 0x0, 0x0],
    [0x0, 0x0, 0x36, 0xae, 0xff, 0xff, 0xff, 0xff],
    [0xff, 0xff, 0xfa, 0x10, 0x0, 0x0, 0x0, 0x0],
    [0x0, 0x0, 0x0, 0x0, 0x0, 0x0, 0x0, 0x0],
    [0x0, 0x0, 0x0, 0x0, 0x7, 0xff, 0xff, 0xff],
    [0xff, 0xff, 0xff, 0xe8, 0x30, 0x0, 0x0, 0x0],
    [0x0, 0x0, 0x0, 0x0, 0x0, 0x0, 0x0, 0x0],
    [0x0, 0x3, 0x8e, 0xff, 0xff, 0xff, 0xff, 0xff],
    [0xfe, 0x40, 0x0, 0x0, 0x0, 0x0, 0x0, 0x0],
    [0x0, 0x0, 0x0, 0x0, 0x0, 0x0, 0x0, 0x0],
    [0x0, 0x1b, 0xff, 0xff, 0xff, 0xff, 0xff, 0xfb],
    [0x40, 0x0, 0x0, 0x0, 0x0, 0x0, 0x0, 0x0],
    [0x0, 0x0, 0x0, 0x0, 0x0, 0x0, 0x0, 0x0],
    [0x4, 0xbf, 0xff, 0xff, 0xff, 0xff, 0xff, 0x70],
    [0x0, 0x0, 0x0, 0x0, 0x0, 0x0, 0x0, 0x0],
    [0x0, 0x0, 0x0, 0x0, 0x0, 0x0, 0x2d, 0xff],
    [0xff, 0xff, 0xff, 0xff, 0xa2, 0x0, 0x0, 0x0],
    [0x0, 0x0, 0x0, 0x0, 0x0, 0x0, 0x0, 0x0],
    [0x0, 0x0, 0x0, 0x0, 0x0, 0x0, 0x0, 0x2a],
    [0xff, 0xff, 0xff, 0xff, 0xff, 0xa0, 0x0, 0x0],
    [0x0, 0x0, 0x0, 0x0, 0x0, 0x0, 0x0, 0x0],
    [0x0, 0x0, 0x0, 0x3e, 0xff, 0xff, 0xff, 0xff],
    [0xfd, 0x30, 0x0, 0x0, 0x0, 0x0, 0x0, 0x0],
    [0x0, 0x0, 0x0, 0x0, 0x0, 0x0, 0x0, 0x0],
    [0x0, 0x0, 0x0, 0x0, 0x0, 0x3, 0xcf, 0xff],
    [0xff, 0xff, 0xff, 0xc1, 0x0, 0x0, 0x0, 0x0],
    [0x0, 0x0, 0x0, 0x0, 0x0, 0x0, 0x0, 0x0],
    [0x3f, 0xff, 0xff, 0xff, 0xff, 0xf7, 0x0, 0x0],
    [0x0, 0x0, 0x0, 0x0, 0x0, 0x0, 0x0, 0x0],
    [0x0, 0x0, 0x0, 0x0, 0x0, 0x0, 0x0, 0x0],
    [0x0, 0x0, 0x0, 0x0, 0x6f, 0xff, 0xff, 0xff],
    [0xff, 0xc1, 0x0, 0x0, 0x0, 0x0, 0x0, 0x0],
    [0x0, 0x0, 0x0, 0x0, 0x0, 0x3f, 0xff, 0xff],
    [0xff, 0xff, 0xc1, 0x0, 0x0, 0x0, 0x0, 0x0],
    [0x0, 0x0, 0x0, 0x0, 0x0, 0x0, 0x0, 0x0],
    [0x0, 0x0, 0x0, 0x0, 0x0, 0x0, 0x0, 0x0],
    [0x0, 0x0, 0x1b, 0xff, 0xff, 0xff, 0xff, 0xc0],
    [0x0, 0x0, 0x0, 0x0, 0x0, 0x0, 0x0, 0x0],
    [0x0, 0x0, 0x2f, 0xff, 0xff, 0xff, 0xff, 0x90],
    [0x0, 0x0, 0x0, 0x0, 0x0, 0x0, 0x0, 0x0],
    [0x0, 0x0, 0x0, 0x0, 0x0, 0x0, 0x0, 0x0],
    [0x0, 0x0, 0x0, 0x0, 0x0, 0x0, 0x0, 0x0],
    [0x9, 0xff, 0xff, 0xff, 0xff, 0xb0, 0x0, 0x0],
    [0x0, 0x0, 0x0, 0x0, 0x0, 0x0, 0x0, 0x1d],
    [0xff, 0xff, 0xff, 0xff, 0x70, 0x0, 0x0, 0x0],
    [0x0, 0x0, 0x0, 0x0, 0x0, 0x0, 0x0, 0x0],
    [0x0, 0x0, 0x0, 0x0, 0x0, 0x0, 0x0, 0x0],
    [0x0, 0x0, 0x0, 0x0, 0x0, 0x0, 0x6, 0xff],
    [0xff, 0xff, 0xff, 0x90, 0x0, 0x0, 0x0, 0x0],
    [0x0, 0x0, 0x0, 0x0, 0xb, 0xff, 0xff, 0xff],
    [0xff, 0x40, 0x0, 0x0, 0x0, 0x0, 0x0, 0x0],
    [0x0, 0x0, 0x0, 0x0, 0x0, 0x0, 0x0, 0x0],
    [0x0, 0x0, 0x0, 0x0, 0x0, 0x0, 0x0, 0x0],
    [0x0, 0x0, 0x0, 0x0, 0x4, 0xff, 0xff, 0xff],
    [0xff, 0x60, 0x0, 0x0, 0x0, 0x0, 0x0, 0x0],
    [0x0, 0x7, 0xff, 0xff, 0xff, 0xff, 0x50, 0x0],
    [0x0, 0x0, 0x0, 0x0, 0x0, 0x0, 0x0, 0x0],
    [0x0, 0x0, 0x0, 0x0, 0x0, 0x0, 0x0, 0x0],
    [0x0, 0x0, 0x0, 0x0, 0x0, 0x0, 0x0, 0x0],
    [0x0, 0x0, 0x4, 0xff, 0xff, 0xff, 0xff, 0x20],
    [0x0, 0x0, 0x0, 0x0, 0x0, 0x0, 0x3, 0xff],
    [0xff, 0xff, 0xff, 0x60, 0x0, 0x0, 0x0, 0x0],
    [0x0, 0x0, 0x0, 0x0, 0x0, 0x0, 0x0, 0x0],
    [0x0, 0x0, 0x0, 0x0, 0x0, 0x0, 0x0, 0x0],
    [0x0, 0x0, 0x0, 0x0, 0x0, 0x0, 0x0, 0x0],
    [0x5, 0xff, 0xff, 0xff, 0xfc, 0x0, 0x0, 0x0],
    [0x0, 0x0, 0x0, 0x0, 0xdf, 0xff, 0xff, 0xff],
    [0x80, 0x0, 0x0, 0x0, 0x0, 0x0, 0x0, 0x0],
    [0x0, 0x0, 0x0, 0x36, 0x9c, 0xde, 0xff, 0xed],
    [0xb9, 0x61, 0x0, 0x0, 0x0, 0x0, 0x0, 0x6a],
    [0xaa, 0xaa, 0xaa, 0x70, 0x0, 0x0, 0x7, 0xff],
    [0xff, 0xff, 0xf7, 0x0, 0x0, 0x0, 0x0, 0x0],
    [0x0, 0x7f, 0xff, 0xff, 0xff, 0xb0, 0x0, 0x0],
    [0x0, 0x0, 0x0, 0x0, 0x0, 0x0, 0x0, 0x39],
    [0xef, 0xff, 0xff, 0xff, 0xff, 0xff, 0xff, 0xfd],
    [0x71, 0x0, 0x0, 0x0, 0xa, 0xff, 0xff, 0xff],
    [0xfb, 0x0, 0x0, 0x0, 0xb, 0xff, 0xff, 0xff],
    [0xf1, 0x0, 0x0, 0x0, 0x0, 0x0, 0x1f, 0xff],
    [0xff, 0xff, 0xf1, 0x0, 0x0, 0x0, 0x0, 0x0],
    [0x0, 0x0, 0x0, 0x3, 0xbf, 0xff, 0xff, 0xff],
    [0xff, 0xff, 0xff, 0xff, 0xff, 0xff, 0xf9, 0x10],
    [0x0, 0x0, 0xaf, 0xff, 0xff, 0xff, 0xb0, 0x0],
    [0x0, 0x0, 0x1e, 0xff, 0xff, 0xff, 0x90, 0x0],
    [0x0, 0x0, 0x0, 0x9, 0xff, 0xff, 0xff, 0xf6],
    [0x0, 0x0, 0x0, 0x0, 0x0, 0x0, 0x0, 0x0],
    [0x1b, 0xff, 0xff, 0xff, 0xff, 0xff, 0xff, 0xff],
    [0xff, 0xff, 0xff, 0xff, 0xff, 0x70, 0x0, 0xa],
    [0xff, 0xff, 0xff, 0xfb, 0x0, 0x0, 0x0, 0x0],
    [0x5f, 0xff, 0xff, 0xff, 0x20, 0x0, 0x0, 0x0],
    [0x1, 0xff, 0xff, 0xff, 0xfb, 0x0, 0x0, 0x0],
    [0x0, 0x0, 0x0, 0x0, 0x0, 0x5e, 0xff, 0xff],
    [0xff, 0xff, 0xff, 0xff, 0xff, 0xff, 0xff, 0xff],
    [0xff, 0xff, 0xff, 0xc1, 0x0, 0xaf, 0xff, 0xff],
    [0xff, 0xb0, 0x0, 0x0, 0x0, 0x0, 0xaf, 0xff],
    [0xff, 0xfa, 0x0, 0x0, 0x0, 0x0, 0x8f, 0xff],
    [0xff, 0xff, 0x20, 0x0, 0x0, 0x0, 0x0, 0x0],
    [0x0, 0x0, 0x8f, 0xff, 0xff, 0xff, 0xff, 0xff],
    [0xff, 0xff, 0xff, 0xff, 0xff, 0xff, 0xff, 0xff],
    [0xff, 0xd2, 0xa, 0xff, 0xff, 0xff, 0xfb, 0x0],
    [0x0, 0x0, 0x0, 0x2, 0xff, 0xff, 0xff, 0xf1],
    [0x0, 0x0, 0x0, 0xf, 0xff, 0xff, 0xff, 0x90],
    [0x0, 0x0, 0x0, 0x0, 0x0, 0x0, 0x0, 0x9f],
    [0xff, 0xff, 0xff, 0xff, 0xff, 0xff, 0xff, 0xff],
    [0xff, 0xff, 0xff, 0xff, 0xff, 0xff, 0xff, 0xe1],
    [0xaf, 0xff, 0xff, 0xff, 0xb0, 0x0, 0x0, 0x0],
    [0x0, 0x9, 0xff, 0xff, 0xff, 0x80, 0x0, 0x0]]"

lemma glyph_U0040_a_length: "length (concat glyph_U0040_a) = 1184"
  by (simp add: glyph_U0040_a_def)

definition glyph_U0040_b :: "u8 list list" where
  "glyph_U0040_b = [
    [0x6, 0xff, 0xff, 0xff, 0xf2, 0x0, 0x0, 0x0],
    [0x0, 0x0, 0x0, 0x0, 0x9f, 0xff, 0xff, 0xff],
    [0xff, 0xff, 0xff, 0xeb, 0x86, 0x55, 0x68, 0xad],
    [0xff, 0xff, 0xff, 0xff, 0xff, 0xca, 0xff, 0xff],
    [0xff, 0xfb, 0x0, 0x0, 0x0, 0x0, 0x0, 0x2f],
    [0xff, 0xff, 0xfe, 0x0, 0x0, 0x0, 0xcf, 0xff],
    [0xff, 0xfa, 0x0, 0x0, 0x0, 0x0, 0x0, 0x0],
    [0x0, 0x6f, 0xff, 0xff, 0xff, 0xff, 0xff, 0xf9],
    [0x30, 0x0, 0x0, 0x0, 0x0, 0x2, 0x7e, 0xff],
    [0xff, 0xff, 0xff, 0xff, 0xff, 0xff, 0xff, 0xb0],
    [0x0, 0x0, 0x0, 0x0, 0x0, 0xaf, 0xff, 0xff],
    [0xf4, 0x0, 0x0, 0x2f, 0xff, 0xff, 0xff, 0x30],
    [0x0, 0x0, 0x0, 0x0, 0x0, 0x0, 0x2f, 0xff],
    [0xff, 0xff, 0xff, 0xff, 0x91, 0x0, 0x0, 0x0],
    [0x0, 0x0, 0x0, 0x0, 0x7, 0xff, 0xff, 0xff],
    [0xff, 0xff, 0xff, 0xff, 0xfb, 0x0, 0x0, 0x0],
    [0x0, 0x0, 0x4, 0xff, 0xff, 0xff, 0x90, 0x0],
    [0x7, 0xff, 0xff, 0xff, 0xd0, 0x0, 0x0, 0x0],
    [0x0, 0x0, 0x0, 0xc, 0xff, 0xff, 0xff, 0xff],
    [0xfe, 0x30, 0x0, 0x0, 0x0, 0x0, 0x0, 0x0],
    [0x0, 0x0, 0x2, 0xcf, 0xff, 0xff, 0xff, 0xff],
    [0xff, 0xff, 0xb0, 0x0, 0x0, 0x0, 0x0, 0x0],
    [0xe, 0xff, 0xff, 0xfe, 0x0, 0x0, 0xbf, 0xff],
    [0xff, 0xf8, 0x0, 0x0, 0x0, 0x0, 0x0, 0x0],
    [0x6, 0xff, 0xff, 0xff, 0xff, 0xfd, 0x10, 0x0],
    [0x0, 0x0, 0x0, 0x0, 0x0, 0x0, 0x0, 0x0],
    [0x0, 0xaf, 0xff, 0xff, 0xff, 0xff, 0xff, 0xfb],
    [0x0, 0x0, 0x0, 0x0, 0x0, 0x0, 0x9f, 0xff],
    [0xff, 0xf3, 0x0, 0xf, 0xff, 0xff, 0xff, 0x30],
    [0x0, 0x0, 0x0, 0x0, 0x0, 0x0, 0xef, 0xff],
    [0xff, 0xff, 0xfe, 0x10, 0x0, 0x0, 0x0, 0x0],
    [0x0, 0x0, 0x0, 0x0, 0x0, 0x0, 0x0, 0xbf],
    [0xff, 0xff, 0xff, 0xff, 0xff, 0xb0, 0x0, 0x0],
    [0x0, 0x0, 0x0, 0x4, 0xff, 0xff, 0xff, 0x70],
    [0x3, 0xff, 0xff, 0xff, 0xe0, 0x0, 0x0, 0x0],
    [0x0, 0x0, 0x0, 0x6f, 0xff, 0xff, 0xff, 0xff],
    [0x30, 0x0, 0x0, 0x0, 0x0, 0x0, 0x0, 0x0],
    [0x0, 0x0, 0x0, 0x0, 0x0, 0xdf, 0xff, 0xff],
    [0xff, 0xff, 0xfb, 0x0, 0x0, 0x0, 0x0, 0x0],
    [0x0, 0xf, 0xff, 0xff, 0xfa, 0x0, 0x7f, 0xff],
    [0xff, 0xfb, 0x0, 0x0, 0x0, 0x0, 0x0, 0x0],
    [0xd, 0xff, 0xff, 0xff, 0xff, 0x70, 0x0, 0x0],
    [0x0, 0x0, 0x0, 0x0, 0x0, 0x0, 0x0, 0x0],
    [0x0, 0x0, 0x3, 0xff, 0xff, 0xff, 0xff, 0xff],
    [0xb0, 0x0, 0x0, 0x0, 0x0, 0x0, 0x0, 0xcf],
    [0xff, 0xff, 0xd0, 0xa, 0xff, 0xff, 0xff, 0x70],
    [0x0, 0x0, 0x0, 0x0, 0x0, 0x3, 0xff, 0xff],
    [0xff, 0xff, 0xe0, 0x0, 0x0, 0x0, 0x0, 0x0],
    [0x0, 0x0, 0x0, 0x0, 0x0, 0x0, 0x0, 0x0],
    [0x9, 0xff, 0xff, 0xff, 0xff, 0xfb, 0x0, 0x0],
    [0x0, 0x0, 0x0, 0x0, 0x9, 0xff, 0xff, 0xff],
    [0x0, 0xcf, 0xff, 0xff, 0xf4, 0x0, 0x0, 0x0],
    [0x0, 0x0, 0x0, 0x8f, 0xff, 0xff, 0xff, 0xf6],
    [0x0, 0x0, 0x0, 0x0, 0x0, 0x0, 0x0, 0x0],
    [0x0, 0x0, 0x0, 0x0, 0x0, 0x0, 0x2f, 0xff],
    [0xff, 0xff, 0xff, 0xb0, 0x0, 0x0, 0x0, 0x0],
    [0x0, 0x0, 0x6f, 0xff, 0xff, 0xf3, 0xf, 0xff],
    [0xff, 0xff, 0x10, 0x0, 0x0, 0x0, 0x0, 0x0],
    [0xd, 0xff, 0xff, 0xff, 0xff, 0x0, 0x0, 0x0],
    [0x0, 0x0, 0x0, 0x0, 0x0, 0x0, 0x0, 0x0],
    [0x0, 0x0, 0x0, 0x0, 0xbf, 0xff, 0xff, 0xff],
    [0xfb, 0x0, 0x0, 0x0, 0x0, 0x0, 0x0, 0x4],
    [0xff, 0xff, 0xff, 0x51, 0xff, 0xff, 0xff, 0xf0],
    [0x0, 0x0, 0x0, 0x0, 0x0, 0x0, 0xff, 0xff],
    [0xff, 0xff, 0xa0, 0x0, 0x0, 0x0, 0x0, 0x0],
    [0x0, 0x0, 0x0, 0x0, 0x0, 0x0, 0x0, 0x0],
    [0x0, 0x5, 0xff, 0xff, 0xff, 0xff, 0xb0, 0x0],
    [0x0, 0x0, 0x0, 0x0, 0x0, 0x2f, 0xff, 0xff],
    [0xf6, 0x2f, 0xff, 0xff, 0xfd, 0x0, 0x0, 0x0],
    [0x0, 0x0, 0x0, 0x3f, 0xff, 0xff, 0xff, 0xf6],
    [0x0, 0x0, 0x0, 0x0, 0x0, 0x0, 0x0, 0x0],
    [0x0, 0x0, 0x0, 0x0, 0x0, 0x0, 0x0, 0x1f],
    [0xff, 0xff, 0xff, 0xfb, 0x0, 0x0, 0x0, 0x0],
    [0x0, 0x0, 0x0, 0xff, 0xff, 0xff, 0x84, 0xff],
    [0xff, 0xff, 0xc0, 0x0, 0x0, 0x0, 0x0, 0x0],
    [0x6, 0xff, 0xff, 0xff, 0xff, 0x30, 0x0, 0x0],
    [0x0, 0x0, 0x0, 0x0, 0x0, 0x0, 0x0, 0x0],
    [0x0, 0x0, 0x0, 0x0, 0x0, 0xdf, 0xff, 0xff],
    [0xff, 0xb0, 0x0, 0x0, 0x0, 0x0, 0x0, 0x0],
    [0xf, 0xff, 0xff, 0xf9, 0x5f, 0xff, 0xff, 0xfb],
    [0x0, 0x0, 0x0, 0x0, 0x0, 0x0, 0x8f, 0xff],
    [0xff, 0xff, 0xf0, 0x0, 0x0, 0x0, 0x0, 0x0],
    [0x0, 0x0, 0x0, 0x0, 0x0, 0x0, 0x0, 0x0],
    [0x0, 0x0, 0xb, 0xff, 0xff, 0xff, 0xfb, 0x0],
    [0x0, 0x0, 0x0, 0x0, 0x0, 0x0, 0xef, 0xff],
    [0xff, 0x95, 0xff, 0xff, 0xff, 0xa0, 0x0, 0x0],
    [0x0, 0x0, 0x0, 0x9, 0xff, 0xff, 0xff, 0xfe],
    [0x0, 0x0, 0x0, 0x0, 0x0, 0x0, 0x0, 0x0],
    [0x0, 0x0, 0x0, 0x0, 0x0, 0x0, 0x0, 0x0],
    [0x8f, 0xff, 0xff, 0xff, 0xb0, 0x0, 0x0, 0x0],
    [0x0, 0x0, 0x0, 0xe, 0xff, 0xff, 0xfa, 0x6f],
    [0xff, 0xff, 0xf9, 0x0, 0x0, 0x0, 0x0, 0x0],
    [0x0, 0xaf, 0xff, 0xff, 0xff, 0xd0, 0x0, 0x0],
    [0x0, 0x0, 0x0, 0x0, 0x0, 0x0, 0x0, 0x0],
    [0x0, 0x0, 0x0, 0x0, 0x0, 0x8, 0xff, 0xff],
    [0xff, 0xfb, 0x0, 0x0, 0x0, 0x0, 0x0, 0x0],
    [0x0, 0xef, 0xff, 0xff, 0xa6, 0xff, 0xff, 0xff],
    [0x90, 0x0, 0x0, 0x0, 0x0, 0x0, 0xb, 0xff],
    [0xff, 0xff, 0xfd, 0x0, 0x0, 0x0, 0x0, 0x0],
    [0x0, 0x0, 0x0, 0x0, 0x0, 0x0, 0x0, 0x0],
    [0x0, 0x0, 0x0, 0x7f, 0xff, 0xff, 0xff, 0xb0],
    [0x0, 0x0, 0x0, 0x0, 0x0, 0x0, 0xe, 0xff],
    [0xff, 0xf9, 0x5f, 0xff, 0xff, 0xfa, 0x0, 0x0],
    [0x0, 0x0, 0x0, 0x0, 0xaf, 0xff, 0xff, 0xff],
    [0xd0, 0x0, 0x0, 0x0, 0x0, 0x0, 0x0, 0x0],
    [0x0, 0x0, 0x0, 0x0, 0x0, 0x0, 0x0, 0x0],
    [0x7, 0xff, 0xff, 0xff, 0xfb, 0x0, 0x0, 0x0],
    [0x0, 0x0, 0x0, 0x0, 0xef, 0xff, 0xff, 0x95],
    [0xff, 0xff, 0xff, 0xa0, 0x0, 0x0, 0x0, 0x0],
    [0x0, 0x9, 0xff, 0xff, 0xff, 0xfe, 0x0, 0x0],
    [0x0, 0x0, 0x0, 0x0, 0x0, 0x0, 0x0, 0x0],
    [0x0, 0x0, 0x0, 0x0, 0x0, 0x0, 0x8f, 0xff],
    [0xff, 0xff, 0xb0, 0x0, 0x0, 0x0, 0x0, 0x0],
    [0x0, 0xf, 0xff, 0xff, 0xf8, 0x4f, 0xff, 0xff],
    [0xfb, 0x0, 0x0, 0x0, 0x0, 0x0, 0x0, 0x9f],
    [0xff, 0xff, 0xff, 0xf0, 0x0, 0x0, 0x0, 0x0],
    [0x0, 0x0, 0x0, 0x0, 0x0, 0x0, 0x0, 0x0],
    [0x0, 0x0, 0x0, 0x9, 0xff, 0xff, 0xff, 0xfb],
    [0x0, 0x0, 0x0, 0x0, 0x0, 0x0, 0x0, 0xff],
    [0xff, 0xff, 0x73, 0xff, 0xff, 0xff, 0xd0, 0x0],
    [0x0, 0x0, 0x0, 0x0, 0x7, 0xff, 0xff, 0xff],
    [0xff, 0x10, 0x0, 0x0, 0x0, 0x0, 0x0, 0x0],
    [0x0, 0x0, 0x0, 0x0, 0x0, 0x0, 0x0, 0x0],
    [0x0, 0xcf, 0xff, 0xff, 0xff, 0xb0, 0x0, 0x0],
    [0x0, 0x0, 0x0, 0x0, 0x1f, 0xff, 0xff, 0xf6],
    [0x1f, 0xff, 0xff, 0xfe, 0x0, 0x0, 0x0, 0x0],
    [0x0, 0x0, 0x4f, 0xff, 0xff, 0xff, 0xf5, 0x0],
    [0x0, 0x0, 0x0, 0x0, 0x0, 0x0, 0x0, 0x0],
    [0x0, 0x0, 0x0, 0x0, 0x0, 0x0, 0xf, 0xff],
    [0xff, 0xff, 0xfb, 0x0, 0x0, 0x0, 0x0, 0x0],
    [0x0, 0x3, 0xff, 0xff, 0xff, 0x40, 0xff, 0xff],
    [0xff, 0xf1, 0x0, 0x0, 0x0, 0x0, 0x0, 0x1],
    [0xff, 0xff, 0xff, 0xff, 0x80, 0x0, 0x0, 0x0],
    [0x0, 0x0, 0x0, 0x0, 0x0, 0x0, 0x0, 0x0],
    [0x0, 0x0, 0x0, 0x3, 0xff, 0xff, 0xff, 0xff],
    [0xb0, 0x0, 0x0, 0x0, 0x0, 0x0, 0x0, 0x5f],
    [0xff, 0xff, 0xf2, 0xd, 0xff, 0xff, 0xff, 0x30],
    [0x0, 0x0, 0x0, 0x0, 0x0, 0xe, 0xff, 0xff],
    [0xff, 0xfd, 0x0, 0x0, 0x0, 0x0, 0x0, 0x0],
    [0x0, 0x0, 0x0, 0x0, 0x0, 0x0, 0x0, 0x0],
    [0x0, 0x8f, 0xff, 0xff, 0xff, 0xfb, 0x0, 0x0],
    [0x0, 0x0, 0x0, 0x0, 0x8, 0xff, 0xff, 0xff],
    [0x0, 0xbf, 0xff, 0xff, 0xf6, 0x0, 0x0, 0x0],
    [0x0, 0x0, 0x0, 0xaf, 0xff, 0xff, 0xff, 0xf3],
    [0x0, 0x0, 0x0, 0x0, 0x0, 0x0, 0x0, 0x0],
    [0x0, 0x0, 0x0, 0x0, 0x0, 0x0, 0xe, 0xff],
    [0xff, 0xff, 0xff, 0xb0, 0x0, 0x0, 0x0, 0x0],
    [0x0, 0x0, 0xbf, 0xff, 0xff, 0xd0, 0x8, 0xff]]"

lemma glyph_U0040_b_length: "length (concat glyph_U0040_b) = 1184"
  by (simp add: glyph_U0040_b_def)

definition glyph_U0040_c :: "u8 list list" where
  "glyph_U0040_c = [
    [0xff, 0xff, 0x90, 0x0, 0x0, 0x0, 0x0, 0x0],
    [0x5, 0xff, 0xff, 0xff, 0xff, 0xa0, 0x0, 0x0],
    [0x0, 0x0, 0x0, 0x0, 0x0, 0x0, 0x0, 0x0],
    [0x0, 0x0, 0x0, 0x5, 0xff, 0xff, 0xff, 0xff],
    [0xfb, 0x0, 0x0, 0x0, 0x0, 0x0, 0x0, 0xe],
    [0xff, 0xff, 0xfa, 0x0, 0x4f, 0xff, 0xff, 0xfd],
    [0x0, 0x0, 0x0, 0x0, 0x0, 0x0, 0xf, 0xff],
    [0xff, 0xff, 0xff, 0x30, 0x0, 0x0, 0x0, 0x0],
    [0x0, 0x0, 0x0, 0x0, 0x0, 0x0, 0x0, 0x0],
    [0x0, 0xef, 0xff, 0xff, 0xff, 0xff, 0xb0, 0x0],
    [0x0, 0x0, 0x0, 0x0, 0x3, 0xff, 0xff, 0xff],
    [0x60, 0x1, 0xff, 0xff, 0xff, 0xf2, 0x0, 0x0],
    [0x0, 0x0, 0x0, 0x0, 0x9f, 0xff, 0xff, 0xff],
    [0xfc, 0x0, 0x0, 0x0, 0x0, 0x0, 0x0, 0x0],
    [0x0, 0x0, 0x0, 0x0, 0x0, 0x0, 0x8f, 0xff],
    [0xff, 0xff, 0xff, 0xfb, 0x0, 0x0, 0x0, 0x0],
    [0x0, 0x0, 0x8f, 0xff, 0xff, 0xf2, 0x0, 0xd],
    [0xff, 0xff, 0xff, 0x60, 0x0, 0x0, 0x0, 0x0],
    [0x0, 0x2, 0xff, 0xff, 0xff, 0xff, 0xf8, 0x0],
    [0x0, 0x0, 0x0, 0x0, 0x0, 0x0, 0x0, 0x0],
    [0x0, 0x0, 0x0, 0x5f, 0xff, 0xff, 0xff, 0xff],
    [0xff, 0xc0, 0x0, 0x0, 0x0, 0x0, 0x0, 0xe],
    [0xff, 0xff, 0xfd, 0x0, 0x0, 0x8f, 0xff, 0xff],
    [0xfb, 0x0, 0x0, 0x0, 0x0, 0x0, 0x0, 0xa],
    [0xff, 0xff, 0xff, 0xff, 0xf7, 0x0, 0x0, 0x0],
    [0x0, 0x0, 0x0, 0x0, 0x0, 0x0, 0x0, 0x0],
    [0x3f, 0xff, 0xff, 0xff, 0xff, 0xff, 0xfe, 0x0],
    [0x0, 0x0, 0x0, 0x0, 0x5, 0xff, 0xff, 0xff],
    [0x80, 0x0, 0x3, 0xff, 0xff, 0xff, 0xf1, 0x0],
    [0x0, 0x0, 0x0, 0x0, 0x0, 0x1f, 0xff, 0xff],
    [0xff, 0xff, 0xf7, 0x0, 0x0, 0x0, 0x0, 0x0],
    [0x0, 0x0, 0x0, 0x0, 0x0, 0x4f, 0xff, 0xff],
    [0xff, 0xff, 0xff, 0xff, 0xf2, 0x0, 0x0, 0x0],
    [0x0, 0x0, 0xdf, 0xff, 0xff, 0xf2, 0x0, 0x0],
    [0xe, 0xff, 0xff, 0xff, 0x80, 0x0, 0x0, 0x0],
    [0x0, 0x0, 0x0, 0x6f, 0xff, 0xff, 0xff, 0xff],
    [0xfb, 0x10, 0x0, 0x0, 0x0, 0x0, 0x0, 0x0],
    [0x0, 0x0, 0x8f, 0xff, 0xff, 0xff, 0xff, 0xff],
    [0xff, 0xff, 0x90, 0x0, 0x0, 0x0, 0x0, 0x9f],
    [0xff, 0xff, 0xfb, 0x0, 0x0, 0x0, 0x8f, 0xff],
    [0xff, 0xfe, 0x0, 0x0, 0x0, 0x0, 0x0, 0x0],
    [0x0, 0xbf, 0xff, 0xff, 0xff, 0xff, 0xff, 0x70],
    [0x0, 0x0, 0x0, 0x0, 0x0, 0x0, 0x6, 0xdf],
    [0xff, 0xff, 0xff, 0xee, 0xff, 0xff, 0xff, 0xff],
    [0x40, 0x0, 0x0, 0x0, 0x7f, 0xff, 0xff, 0xff],
    [0x40, 0x0, 0x0, 0x2, 0xff, 0xff, 0xff, 0xf6],
    [0x0, 0x0, 0x0, 0x0, 0x0, 0x0, 0x0, 0xdf],
    [0xff, 0xff, 0xff, 0xff, 0xff, 0xfa, 0x51, 0x0],
    [0x0, 0x0, 0x14, 0x9e, 0xff, 0xff, 0xff, 0xff],
    [0xf3, 0xaf, 0xff, 0xff, 0xff, 0xff, 0x70, 0x0],
    [0x3, 0xbf, 0xff, 0xff, 0xff, 0xb0, 0x0, 0x0],
    [0x0, 0xb, 0xff, 0xff, 0xff, 0xe0, 0x0, 0x0],
    [0x0, 0x0, 0x0, 0x0, 0x2, 0xef, 0xff, 0xff],
    [0xff, 0xff, 0xff, 0xff, 0xff, 0xdc, 0xcd, 0xef],
    [0xff, 0xff, 0xff, 0xff, 0xff, 0xf7, 0x5, 0xff],
    [0xff, 0xff, 0xff, 0xff, 0xfd, 0xce, 0xff, 0xff],
    [0xff, 0xff, 0xf2, 0x0, 0x0, 0x0, 0x0, 0x4f],
    [0xff, 0xff, 0xff, 0x70, 0x0, 0x0, 0x0, 0x0],
    [0x0, 0x0, 0x2, 0xdf, 0xff, 0xff, 0xff, 0xff],
    [0xff, 0xff, 0xff, 0xff, 0xff, 0xff, 0xff, 0xff],
    [0xff, 0xff, 0xf8, 0x0, 0xe, 0xff, 0xff, 0xff],
    [0xff, 0xff, 0xff, 0xff, 0xff, 0xff, 0xff, 0xf6],
    [0x0, 0x0, 0x0, 0x0, 0x0, 0xcf, 0xff, 0xff],
    [0xff, 0x20, 0x0, 0x0, 0x0, 0x0, 0x0, 0x0],
    [0x1, 0xcf, 0xff, 0xff, 0xff, 0xff, 0xff, 0xff],
    [0xff, 0xff, 0xff, 0xff, 0xff, 0xff, 0xff, 0xf7],
    [0x0, 0x0, 0x6f, 0xff, 0xff, 0xff, 0xff, 0xff],
    [0xff, 0xff, 0xff, 0xff, 0xf9, 0x0, 0x0, 0x0],
    [0x0, 0x0, 0x4, 0xff, 0xff, 0xff, 0xfc, 0x0],
    [0x0, 0x0, 0x0, 0x0, 0x0, 0x0, 0x0, 0x7f],
    [0xff, 0xff, 0xff, 0xff, 0xff, 0xff, 0xff, 0xff],
    [0xff, 0xff, 0xff, 0xff, 0xe4, 0x0, 0x0, 0x0],
    [0xbf, 0xff, 0xff, 0xff, 0xff, 0xff, 0xff, 0xff],
    [0xff, 0xfa, 0x0, 0x0, 0x0, 0x0, 0x0, 0x0],
    [0xb, 0xff, 0xff, 0xff, 0xf7, 0x0, 0x0, 0x0],
    [0x0, 0x0, 0x0, 0x0, 0x0, 0x2b, 0xff, 0xff],
    [0xff, 0xff, 0xff, 0xff, 0xff, 0xff, 0xff, 0xff],
    [0xff, 0x91, 0x0, 0x0, 0x0, 0x0, 0xbf, 0xff],
    [0xff, 0xff, 0xff, 0xff, 0xff, 0xff, 0xf8, 0x0],
    [0x0, 0x0, 0x0, 0x0, 0x0, 0x0, 0x2f, 0xff],
    [0xff, 0xff, 0xf3, 0x0, 0x0, 0x0, 0x0, 0x0],
    [0x0, 0x0, 0x0, 0x3, 0xbf, 0xff, 0xff, 0xff],
    [0xff, 0xff, 0xff, 0xff, 0xff, 0xf9, 0x20, 0x0],
    [0x0, 0x0, 0x0, 0x0, 0x8f, 0xff, 0xff, 0xff],
    [0xff, 0xff, 0xff, 0xd4, 0x0, 0x0, 0x0, 0x0],
    [0x0, 0x0, 0x0, 0x0, 0x7f, 0xff, 0xff, 0xff],
    [0xe2, 0x0, 0x0, 0x0, 0x0, 0x0, 0x0, 0x0],
    [0x0, 0x0, 0x16, 0xbe, 0xff, 0xff, 0xff, 0xff],
    [0xff, 0xea, 0x50, 0x0, 0x0, 0x0, 0x0, 0x0],
    [0x0, 0x0, 0x29, 0xef, 0xff, 0xff, 0xff, 0xfb],
    [0x50, 0x0, 0x0, 0x0, 0x0, 0x0, 0x0, 0x0],
    [0x0, 0x0, 0xcf, 0xff, 0xff, 0xff, 0xd1, 0x0],
    [0x0, 0x0, 0x0, 0x0, 0x0, 0x0, 0x0, 0x0],
    [0x0, 0x1, 0x45, 0x67, 0x76, 0x53, 0x10, 0x0],
    [0x0, 0x0, 0x0, 0x0, 0x0, 0x0, 0x0, 0x0],
    [0x0, 0x25, 0x67, 0x76, 0x30, 0x0, 0x0, 0x0],
    [0x0, 0x0, 0x0, 0x0, 0x0, 0x0, 0x0, 0x2],
    [0xff, 0xff, 0xff, 0xff, 0xc0, 0x0, 0x0, 0x0],
    [0x0, 0x0, 0x0, 0x0, 0x0, 0x0, 0x0, 0x0],
    [0x0, 0x0, 0x0, 0x0, 0x0, 0x0, 0x0, 0x0],
    [0x0, 0x0, 0x0, 0x0, 0x0, 0x0, 0x0, 0x0],
    [0x0, 0x0, 0x0, 0x0, 0x0, 0x0, 0x0, 0x0],
    [0x0, 0x0, 0x0, 0x0, 0x0, 0x5, 0xff, 0xff],
    [0xff, 0xff, 0xc1, 0x0, 0x0, 0x0, 0x0, 0x0],
    [0x0, 0x0, 0x0, 0x0, 0x0, 0x0, 0x0, 0x0],
    [0x0, 0x0, 0x0, 0x0, 0x0, 0x0, 0x0, 0x0],
    [0x0, 0x0, 0x0, 0x0, 0x0, 0x0, 0x0, 0x0],
    [0x0, 0x0, 0x0, 0x0, 0x0, 0x0, 0x0, 0x0],
    [0x0, 0x0, 0x0, 0x8, 0xff, 0xff, 0xff, 0xff],
    [0xe3, 0x0, 0x0, 0x0, 0x0, 0x0, 0x0, 0x0],
    [0x0, 0x0, 0x0, 0x0, 0x0, 0x0, 0x0, 0x0],
    [0x0, 0x0, 0x0, 0x0, 0x0, 0x0, 0x0, 0x0],
    [0x0, 0x0, 0x0, 0x0, 0x0, 0x0, 0x0, 0x0],
    [0x0, 0x0, 0x0, 0x0, 0x0, 0x0, 0x0, 0x0],
    [0x0, 0xa, 0xff, 0xff, 0xff, 0xff, 0xf4, 0x0],
    [0x0, 0x0, 0x0, 0x0, 0x0, 0x0, 0x0, 0x0],
    [0x0, 0x0, 0x0, 0x0, 0x0, 0x0, 0x0, 0x0],
    [0x0, 0x0, 0x0, 0x0, 0x0, 0x0, 0x0, 0x0],
    [0x0, 0x0, 0x0, 0x0, 0x0, 0x0, 0x0, 0x0],
    [0x0, 0x0, 0x0, 0x0, 0x0, 0x0, 0x0, 0xa],
    [0xff, 0xff, 0xff, 0xff, 0xf9, 0x10, 0x0, 0x0],
    [0x0, 0x0, 0x0, 0x0, 0x0, 0x0, 0x0, 0x0],
    [0x0, 0x0, 0x0, 0x0, 0x0, 0x0, 0x0, 0x0],
    [0x0, 0x0, 0x0, 0x0, 0x0, 0x0, 0x0, 0x0],
    [0x0, 0x0, 0x0, 0x0, 0x0, 0x0, 0x0, 0x0],
    [0x0, 0x0, 0x0, 0x0, 0x0, 0xa, 0xff, 0xff],
    [0xff, 0xff, 0xfe, 0x50, 0x0, 0x0, 0x0, 0x0],
    [0x0, 0x0, 0x0, 0x0, 0x0, 0x0, 0x0, 0x0],
    [0x0, 0x0, 0x0, 0x0, 0x0, 0x0, 0x0, 0x0],
    [0x0, 0x0, 0x0, 0x0, 0x0, 0x0, 0x0, 0x0],
    [0x0, 0x0, 0x0, 0x0, 0x0, 0x0, 0x0, 0x0],
    [0x0, 0x0, 0x0, 0x9, 0xff, 0xff, 0xff, 0xff],
    [0xff, 0xb2, 0x0, 0x0, 0x0, 0x0, 0x0, 0x0],
    [0x0, 0x0, 0x0, 0x0, 0x0, 0x0, 0x0, 0x0],
    [0x0, 0x0, 0x0, 0x0, 0x0, 0x0, 0x0, 0x0],
    [0x0, 0x0, 0x0, 0x0, 0x0, 0x0, 0x0, 0x0],
    [0x0, 0x0, 0x0, 0x0, 0x0, 0x0, 0x0, 0x0],
    [0x0, 0x7, 0xff, 0xff, 0xff, 0xff, 0xff, 0xfa],
    [0x30, 0x0, 0x0, 0x0, 0x0, 0x0, 0x0, 0x0],
    [0x0, 0x0, 0x0, 0x0, 0x0, 0x0, 0x0, 0x0],
    [0x0, 0x39, 0x20, 0x0, 0x0, 0x0, 0x0, 0x0],
    [0x0, 0x0, 0x0, 0x0, 0x0, 0x0, 0x0, 0x0],
    [0x0, 0x0, 0x0, 0x0, 0x0, 0x0, 0x0, 0x4],
    [0xef, 0xff, 0xff, 0xff, 0xff, 0xff, 0xc6, 0x10],
    [0x0, 0x0, 0x0, 0x0, 0x0, 0x0, 0x0, 0x0],
    [0x0, 0x0, 0x0, 0x0, 0x0, 0x6, 0xcf, 0xf8],
    [0x0, 0x0, 0x0, 0x0, 0x0, 0x0, 0x0, 0x0],
    [0x0, 0x0, 0x0, 0x0, 0x0, 0x0, 0x0, 0x0]]"

lemma glyph_U0040_c_length: "length (concat glyph_U0040_c) = 1184"
  by (simp add: glyph_U0040_c_def)

definition glyph_U0040_d :: "u8 list list" where
  "glyph_U0040_d = [
    [0x0, 0x0, 0x0, 0x0, 0x0, 0x1, 0xaf, 0xff],
    [0xff, 0xff, 0xff, 0xff, 0xff, 0xb7, 0x20, 0x0],
    [0x0, 0x0, 0x0, 0x0, 0x0, 0x0, 0x0, 0x0],
    [0x0, 0x37, 0xcf, 0xff, 0xff, 0xe0, 0x0, 0x0],
    [0x0, 0x0, 0x0, 0x0, 0x0, 0x0, 0x0, 0x0],
    [0x0, 0x0, 0x0, 0x0, 0x0, 0x0, 0x0, 0x0],
    [0x0, 0x0, 0x0, 0x0, 0x5e, 0xff, 0xff, 0xff],
    [0xff, 0xff, 0xff, 0xff, 0xeb, 0x86, 0x32, 0x0],
    [0x0, 0x0, 0x0, 0x12, 0x47, 0x9c, 0xff, 0xff],
    [0xff, 0xff, 0xff, 0x40, 0x0, 0x0, 0x0, 0x0],
    [0x0, 0x0, 0x0, 0x0, 0x0, 0x0, 0x0, 0x0],
    [0x0, 0x0, 0x0, 0x0, 0x0, 0x0, 0x0, 0x0],
    [0x0, 0x0, 0x8, 0xff, 0xff, 0xff, 0xff, 0xff],
    [0xff, 0xff, 0xff, 0xff, 0xff, 0xfe, 0xee, 0xef],
    [0xff, 0xff, 0xff, 0xff, 0xff, 0xff, 0xff, 0xff],
    [0xf9, 0x0, 0x0, 0x0, 0x0, 0x0, 0x0, 0x0],
    [0x0, 0x0, 0x0, 0x0, 0x0, 0x0, 0x0, 0x0],
    [0x0, 0x0, 0x0, 0x0, 0x0, 0x0, 0x0, 0x0],
    [0x2, 0x9f, 0xff, 0xff, 0xff, 0xff, 0xff, 0xff],
    [0xff, 0xff, 0xff, 0xff, 0xff, 0xff, 0xff, 0xff],
    [0xff, 0xff, 0xff, 0xff, 0xff, 0xff, 0xf0, 0x0],
    [0x0, 0x0, 0x0, 0x0, 0x0, 0x0, 0x0, 0x0],
    [0x0, 0x0, 0x0, 0x0, 0x0, 0x0, 0x0, 0x0],
    [0x0, 0x0, 0x0, 0x0, 0x0, 0x0, 0x0, 0x28],
    [0xef, 0xff, 0xff, 0xff, 0xff, 0xff, 0xff, 0xff],
    [0xff, 0xff, 0xff, 0xff, 0xff, 0xff, 0xff, 0xff],
    [0xff, 0xff, 0xff, 0xd5, 0x0, 0x0, 0x0, 0x0],
    [0x0, 0x0, 0x0, 0x0, 0x0, 0x0, 0x0, 0x0],
    [0x0, 0x0, 0x0, 0x0, 0x0, 0x0, 0x0, 0x0],
    [0x0, 0x0, 0x0, 0x0, 0x0, 0x0, 0x6b, 0xff],
    [0xff, 0xff, 0xff, 0xff, 0xff, 0xff, 0xff, 0xff],
    [0xff, 0xff, 0xff, 0xff, 0xff, 0xff, 0xff, 0xf9],
    [0x30, 0x0, 0x0, 0x0, 0x0, 0x0, 0x0, 0x0],
    [0x0, 0x0, 0x0, 0x0, 0x0, 0x0, 0x0, 0x0],
    [0x0, 0x0, 0x0, 0x0, 0x0, 0x0, 0x0, 0x0],
    [0x0, 0x0, 0x0, 0x0, 0x1, 0x6a, 0xef, 0xff],
    [0xff, 0xff, 0xff, 0xff, 0xff, 0xff, 0xff, 0xff],
    [0xff, 0xff, 0xff, 0xd9, 0x40, 0x0, 0x0, 0x0],
    [0x0, 0x0, 0x0, 0x0, 0x0, 0x0, 0x0, 0x0],
    [0x0, 0x0, 0x0, 0x0, 0x0, 0x0, 0x0, 0x0],
    [0x0, 0x0, 0x0, 0x0, 0x0, 0x0, 0x0, 0x0],
    [0x0, 0x0, 0x0, 0x0, 0x36, 0x9c, 0xef, 0xff],
    [0xff, 0xff, 0xff, 0xff, 0xff, 0xff, 0xdb, 0x85],
    [0x10, 0x0, 0x0, 0x0, 0x0, 0x0, 0x0, 0x0],
    [0x0, 0x0, 0x0, 0x0, 0x0, 0x0, 0x0, 0x0],
    [0x0, 0x0, 0x0, 0x0, 0x0, 0x0, 0x0, 0x0],
    [0x0, 0x0, 0x0, 0x0, 0x0, 0x0, 0x0, 0x0],
    [0x0, 0x0, 0x0, 0x0, 0x2, 0x45, 0x67, 0x77],
    [0x77, 0x65, 0x32, 0x0, 0x0, 0x0, 0x0, 0x0],
    [0x0, 0x0, 0x0, 0x0, 0x0, 0x0, 0x0, 0x0],
    [0x0, 0x0, 0x0, 0x0, 0x0, 0x0, 0x0]]"

lemma glyph_U0040_d_length: "length (concat glyph_U0040_d) = 407"
  by (simp add: glyph_U0040_d_def)

definition glyph_U0041_a :: "u8 list list" where
  "glyph_U0041_a = [
    [0x0, 0x0, 0x0, 0x0, 0x0, 0x0, 0x0, 0x0],
    [0x0, 0x0, 0x0, 0x0, 0x0, 0x0, 0x0, 0x6],
    [0x88, 0x88, 0x88, 0x88, 0x70, 0x0, 0x0, 0x0],
    [0x0, 0x0, 0x0, 0x0, 0x0, 0x0, 0x0, 0x0],
    [0x0, 0x0, 0x0, 0x0, 0x0, 0x0, 0x0, 0x0],
    [0x0, 0x0, 0x0, 0x0, 0x0, 0x0, 0x0, 0x0],
    [0x0, 0x0, 0x0, 0x2f, 0xff, 0xff, 0xff, 0xff],
    [0xf4, 0x0, 0x0, 0x0, 0x0, 0x0, 0x0, 0x0],
    [0x0, 0x0, 0x0, 0x0, 0x0, 0x0, 0x0, 0x0],
    [0x0, 0x0, 0x0, 0x0, 0x0, 0x0, 0x0, 0x0],
    [0x0, 0x0, 0x0, 0x0, 0x0, 0x0, 0x0, 0x9f],
    [0xff, 0xff, 0xff, 0xff, 0xfc, 0x0, 0x0, 0x0],
    [0x0, 0x0, 0x0, 0x0, 0x0, 0x0, 0x0, 0x0],
    [0x0, 0x0, 0x0, 0x0, 0x0, 0x0, 0x0, 0x0],
    [0x0, 0x0, 0x0, 0x0, 0x0, 0x0, 0x0, 0x0],
    [0x0, 0x0, 0x1, 0xff, 0xff, 0xff, 0xff, 0xff],
    [0xff, 0x30, 0x0, 0x0, 0x0, 0x0, 0x0, 0x0],
    [0x0, 0x0, 0x0, 0x0, 0x0, 0x0, 0x0, 0x0],
    [0x0, 0x0, 0x0, 0x0, 0x0, 0x0, 0x0, 0x0],
    [0x0, 0x0, 0x0, 0x0, 0x0, 0x0, 0x7, 0xff],
    [0xff, 0xff, 0xff, 0xff, 0xff, 0xa0, 0x0, 0x0],
    [0x0, 0x0, 0x0, 0x0, 0x0, 0x0, 0x0, 0x0],
    [0x0, 0x0, 0x0, 0x0, 0x0, 0x0, 0x0, 0x0],
    [0x0, 0x0, 0x0, 0x0, 0x0, 0x0, 0x0, 0x0],
    [0x0, 0x0, 0xe, 0xff, 0xff, 0xff, 0xff, 0xff],
    [0xff, 0xf2, 0x0, 0x0, 0x0, 0x0, 0x0, 0x0],
    [0x0, 0x0, 0x0, 0x0, 0x0, 0x0, 0x0, 0x0],
    [0x0, 0x0, 0x0, 0x0, 0x0, 0x0, 0x0, 0x0],
    [0x0, 0x0, 0x0, 0x0, 0x0, 0x0, 0x6f, 0xff],
    [0xff, 0xff, 0xff, 0xff, 0xff, 0xf9, 0x0, 0x0],
    [0x0, 0x0, 0x0, 0x0, 0x0, 0x0, 0x0, 0x0],
    [0x0, 0x0, 0x0, 0x0, 0x0, 0x0, 0x0, 0x0],
    [0x0, 0x0, 0x0, 0x0, 0x0, 0x0, 0x0, 0x0],
    [0x0, 0x0, 0xdf, 0xff, 0xff, 0xff, 0xff, 0xff],
    [0xff, 0xff, 0x10, 0x0, 0x0, 0x0, 0x0, 0x0],
    [0x0, 0x0, 0x0, 0x0, 0x0, 0x0, 0x0, 0x0],
    [0x0, 0x0, 0x0, 0x0, 0x0, 0x0, 0x0, 0x0],
    [0x0, 0x0, 0x0, 0x0, 0x0, 0x5, 0xff, 0xff],
    [0xff, 0xff, 0xff, 0xff, 0xff, 0xff, 0x80, 0x0],
    [0x0, 0x0, 0x0, 0x0, 0x0, 0x0, 0x0, 0x0],
    [0x0, 0x0, 0x0, 0x0, 0x0, 0x0, 0x0, 0x0],
    [0x0, 0x0, 0x0, 0x0, 0x0, 0x0, 0x0, 0x0],
    [0x0, 0xc, 0xff, 0xff, 0xff, 0xff, 0xff, 0xff],
    [0xff, 0xff, 0xe0, 0x0, 0x0, 0x0, 0x0, 0x0],
    [0x0, 0x0, 0x0, 0x0, 0x0, 0x0, 0x0, 0x0],
    [0x0, 0x0, 0x0, 0x0, 0x0, 0x0, 0x0, 0x0],
    [0x0, 0x0, 0x0, 0x0, 0x0, 0x3f, 0xff, 0xff],
    [0xff, 0xfe, 0xdf, 0xff, 0xff, 0xff, 0xf6, 0x0],
    [0x0, 0x0, 0x0, 0x0, 0x0, 0x0, 0x0, 0x0],
    [0x0, 0x0, 0x0, 0x0, 0x0, 0x0, 0x0, 0x0],
    [0x0, 0x0, 0x0, 0x0, 0x0, 0x0, 0x0, 0x0],
    [0x0, 0xbf, 0xff, 0xff, 0xff, 0xf7, 0x6f, 0xff],
    [0xff, 0xff, 0xfe, 0x0, 0x0, 0x0, 0x0, 0x0],
    [0x0, 0x0, 0x0, 0x0, 0x0, 0x0, 0x0, 0x0],
    [0x0, 0x0, 0x0, 0x0, 0x0, 0x0, 0x0, 0x0],
    [0x0, 0x0, 0x0, 0x0, 0x2, 0xff, 0xff, 0xff],
    [0xff, 0xf1, 0xe, 0xff, 0xff, 0xff, 0xff, 0x50],
    [0x0, 0x0, 0x0, 0x0, 0x0, 0x0, 0x0, 0x0],
    [0x0, 0x0, 0x0, 0x0, 0x0, 0x0, 0x0, 0x0],
    [0x0, 0x0, 0x0, 0x0, 0x0, 0x0, 0x0, 0x0],
    [0x9, 0xff, 0xff, 0xff, 0xff, 0x90, 0x8, 0xff],
    [0xff, 0xff, 0xff, 0xc0, 0x0, 0x0, 0x0, 0x0],
    [0x0, 0x0, 0x0, 0x0, 0x0, 0x0, 0x0, 0x0],
    [0x0, 0x0, 0x0, 0x0, 0x0, 0x0, 0x0, 0x0],
    [0x0, 0x0, 0x0, 0x0, 0x1f, 0xff, 0xff, 0xff],
    [0xff, 0x20, 0x1, 0xff, 0xff, 0xff, 0xff, 0xf4],
    [0x0, 0x0, 0x0, 0x0, 0x0, 0x0, 0x0, 0x0],
    [0x0, 0x0, 0x0, 0x0, 0x0, 0x0, 0x0, 0x0],
    [0x0, 0x0, 0x0, 0x0, 0x0, 0x0, 0x0, 0x0],
    [0x8f, 0xff, 0xff, 0xff, 0xfb, 0x0, 0x0, 0xaf],
    [0xff, 0xff, 0xff, 0xfb, 0x0, 0x0, 0x0, 0x0],
    [0x0, 0x0, 0x0, 0x0, 0x0, 0x0, 0x0, 0x0],
    [0x0, 0x0, 0x0, 0x0, 0x0, 0x0, 0x0, 0x0],
    [0x0, 0x0, 0x0, 0x0, 0xef, 0xff, 0xff, 0xff],
    [0xf4, 0x0, 0x0, 0x2f, 0xff, 0xff, 0xff, 0xff],
    [0x30, 0x0, 0x0, 0x0, 0x0, 0x0, 0x0, 0x0],
    [0x0, 0x0, 0x0, 0x0, 0x0, 0x0, 0x0, 0x0],
    [0x0, 0x0, 0x0, 0x0, 0x0, 0x0, 0x0, 0x7],
    [0xff, 0xff, 0xff, 0xff, 0xd0, 0x0, 0x0, 0xb],
    [0xff, 0xff, 0xff, 0xff, 0xa0, 0x0, 0x0, 0x0],
    [0x0, 0x0, 0x0, 0x0, 0x0, 0x0, 0x0, 0x0],
    [0x0, 0x0, 0x0, 0x0, 0x0, 0x0, 0x0, 0x0],
    [0x0, 0x0, 0x0, 0xe, 0xff, 0xff, 0xff, 0xff],
    [0x60, 0x0, 0x0, 0x4, 0xff, 0xff, 0xff, 0xff],
    [0xf1, 0x0, 0x0, 0x0, 0x0, 0x0, 0x0, 0x0],
    [0x0, 0x0, 0x0, 0x0, 0x0, 0x0, 0x0, 0x0],
    [0x0, 0x0, 0x0, 0x0, 0x0, 0x0, 0x0, 0x5f],
    [0xff, 0xff, 0xff, 0xfe, 0x0, 0x0, 0x0, 0x0],
    [0xdf, 0xff, 0xff, 0xff, 0xf9, 0x0, 0x0, 0x0],
    [0x0, 0x0, 0x0, 0x0, 0x0, 0x0, 0x0, 0x0],
    [0x0, 0x0, 0x0, 0x0, 0x0, 0x0, 0x0, 0x0],
    [0x0, 0x0, 0x0, 0xcf, 0xff, 0xff, 0xff, 0xf8],
    [0x0, 0x0, 0x0, 0x0, 0x6f, 0xff, 0xff, 0xff],
    [0xff, 0x10, 0x0, 0x0, 0x0, 0x0, 0x0, 0x0],
    [0x0, 0x0, 0x0, 0x0, 0x0, 0x0, 0x0, 0x0],
    [0x0, 0x0, 0x0, 0x0, 0x0, 0x0, 0x4, 0xff],
    [0xff, 0xff, 0xff, 0xf1, 0x0, 0x0, 0x0, 0x0],
    [0xe, 0xff, 0xff, 0xff, 0xff, 0x70, 0x0, 0x0],
    [0x0, 0x0, 0x0, 0x0, 0x0, 0x0, 0x0, 0x0],
    [0x0, 0x0, 0x0, 0x0, 0x0, 0x0, 0x0, 0x0],
    [0x0, 0x0, 0xb, 0xff, 0xff, 0xff, 0xff, 0x90],
    [0x0, 0x0, 0x0, 0x0, 0x8, 0xff, 0xff, 0xff],
    [0xff, 0xe0, 0x0, 0x0, 0x0, 0x0, 0x0, 0x0],
    [0x0, 0x0, 0x0, 0x0, 0x0, 0x0, 0x0, 0x0],
    [0x0, 0x0, 0x0, 0x0, 0x0, 0x0, 0x2f, 0xff],
    [0xff, 0xff, 0xff, 0x20, 0x0, 0x0, 0x0, 0x0],
    [0x1, 0xff, 0xff, 0xff, 0xff, 0xf6, 0x0, 0x0],
    [0x0, 0x0, 0x0, 0x0, 0x0, 0x0, 0x0, 0x0],
    [0x0, 0x0, 0x0, 0x0, 0x0, 0x0, 0x0, 0x0],
    [0x0, 0x0, 0xaf, 0xff, 0xff, 0xff, 0xfb, 0x0],
    [0x0, 0x0, 0x0, 0x0, 0x0, 0xaf, 0xff, 0xff],
    [0xff, 0xfd, 0x0, 0x0, 0x0, 0x0, 0x0, 0x0],
    [0x0, 0x0, 0x0, 0x0, 0x0, 0x0, 0x0, 0x0],
    [0x0, 0x0, 0x0, 0x0, 0x0, 0x1, 0xff, 0xff],
    [0xff, 0xff, 0xf4, 0x0, 0x0, 0x0, 0x0, 0x0],
    [0x0, 0x3f, 0xff, 0xff, 0xff, 0xff, 0x50, 0x0],
    [0x0, 0x0, 0x0, 0x0, 0x0, 0x0, 0x0, 0x0],
    [0x0, 0x0, 0x0, 0x0, 0x0, 0x0, 0x0, 0x0],
    [0x0, 0x8, 0xff, 0xff, 0xff, 0xff, 0xd0, 0x0],
    [0x0, 0x0, 0x0, 0x0, 0x0, 0xc, 0xff, 0xff],
    [0xff, 0xff, 0xc0, 0x0, 0x0, 0x0, 0x0, 0x0],
    [0x0, 0x0, 0x0, 0x0, 0x0, 0x0, 0x0, 0x0],
    [0x0, 0x0, 0x0, 0x0, 0x0, 0x1f, 0xff, 0xff],
    [0xff, 0xff, 0x60, 0x0, 0x0, 0x0, 0x0, 0x0],
    [0x0, 0x5, 0xff, 0xff, 0xff, 0xff, 0xf3, 0x0],
    [0x0, 0x0, 0x0, 0x0, 0x0, 0x0, 0x0, 0x0],
    [0x0, 0x0, 0x0, 0x0, 0x0, 0x0, 0x0, 0x0],
    [0x0, 0x7f, 0xff, 0xff, 0xff, 0xfe, 0x0, 0x0],
    [0x0, 0x0, 0x0, 0x0, 0x0, 0x0, 0xdf, 0xff],
    [0xff, 0xff, 0xfb, 0x0, 0x0, 0x0, 0x0, 0x0],
    [0x0, 0x0, 0x0, 0x0, 0x0, 0x0, 0x0, 0x0],
    [0x0, 0x0, 0x0, 0x0, 0x0, 0xef, 0xff, 0xff],
    [0xff, 0xf8, 0x0, 0x0, 0x0, 0x0, 0x0, 0x0],
    [0x0, 0x0, 0x7f, 0xff, 0xff, 0xff, 0xff, 0x20],
    [0x0, 0x0, 0x0, 0x0, 0x0, 0x0, 0x0, 0x0],
    [0x0, 0x0, 0x0, 0x0, 0x0, 0x0, 0x0, 0x0],
    [0x6, 0xff, 0xff, 0xff, 0xff, 0xf1, 0x0, 0x0],
    [0x0, 0x0, 0x0, 0x0, 0x0, 0x0, 0xf, 0xff],
    [0xff, 0xff, 0xff, 0x90, 0x0, 0x0, 0x0, 0x0],
    [0x0, 0x0, 0x0, 0x0, 0x0, 0x0, 0x0, 0x0],
    [0x0, 0x0, 0x0, 0x0, 0xd, 0xff, 0xff, 0xff],
    [0xff, 0xa0, 0x0, 0x0, 0x0, 0x0, 0x0, 0x0],
    [0x0, 0x0, 0x8, 0xff, 0xff, 0xff, 0xff, 0xf1],
    [0x0, 0x0, 0x0, 0x0, 0x0, 0x0, 0x0, 0x0],
    [0x0, 0x0, 0x0, 0x0, 0x0, 0x0, 0x0, 0x0],
    [0x4f, 0xff, 0xff, 0xff, 0xff, 0x30, 0x0, 0x0],
    [0x0, 0x0, 0x0, 0x0, 0x0, 0x0, 0x1, 0xff],
    [0xff, 0xff, 0xff, 0xf8, 0x0, 0x0, 0x0, 0x0]]"

lemma glyph_U0041_a_length: "length (concat glyph_U0041_a) = 1184"
  by (simp add: glyph_U0041_a_def)

definition glyph_U0041_b :: "u8 list list" where
  "glyph_U0041_b = [
    [0x0, 0x0, 0x0, 0x0, 0x0, 0x0, 0x0, 0x0],
    [0x0, 0x0, 0x0, 0x0, 0xcf, 0xff, 0xff, 0xff],
    [0xfb, 0x0, 0x0, 0x0, 0x0, 0x0, 0x0, 0x0],
    [0x0, 0x0, 0x0, 0xaf, 0xff, 0xff, 0xff, 0xff],
    [0x0, 0x0, 0x0, 0x0, 0x0, 0x0, 0x0, 0x0],
    [0x0, 0x0, 0x0, 0x0, 0x0, 0x0, 0x0, 0x3],
    [0xff, 0xff, 0xff, 0xff, 0xf4, 0x0, 0x0, 0x0],
    [0x0, 0x0, 0x0, 0x0, 0x0, 0x0, 0x0, 0x3f],
    [0xff, 0xff, 0xff, 0xff, 0x70, 0x0, 0x0, 0x0],
    [0x0, 0x0, 0x0, 0x0, 0x0, 0x0, 0x0, 0x0],
    [0x0, 0x0, 0x0, 0xa, 0xff, 0xff, 0xff, 0xff],
    [0xd0, 0x0, 0x0, 0x0, 0x0, 0x0, 0x0, 0x0],
    [0x0, 0x0, 0x0, 0xc, 0xff, 0xff, 0xff, 0xff],
    [0xe0, 0x0, 0x0, 0x0, 0x0, 0x0, 0x0, 0x0],
    [0x0, 0x0, 0x0, 0x0, 0x0, 0x0, 0x0, 0x2f],
    [0xff, 0xff, 0xff, 0xff, 0x60, 0x0, 0x0, 0x0],
    [0x0, 0x0, 0x0, 0x0, 0x0, 0x0, 0x0, 0x5],
    [0xff, 0xff, 0xff, 0xff, 0xf5, 0x0, 0x0, 0x0],
    [0x0, 0x0, 0x0, 0x0, 0x0, 0x0, 0x0, 0x0],
    [0x0, 0x0, 0x0, 0x9f, 0xff, 0xff, 0xff, 0xfe],
    [0x0, 0x0, 0x0, 0x0, 0x0, 0x0, 0x0, 0x0],
    [0x0, 0x0, 0x0, 0x0, 0xef, 0xff, 0xff, 0xff],
    [0xfd, 0x0, 0x0, 0x0, 0x0, 0x0, 0x0, 0x0],
    [0x0, 0x0, 0x0, 0x0, 0x0, 0x0, 0x1, 0xff],
    [0xff, 0xff, 0xff, 0xf8, 0x0, 0x0, 0x0, 0x0],
    [0x0, 0x0, 0x0, 0x0, 0x0, 0x0, 0x0, 0x0],
    [0x7f, 0xff, 0xff, 0xff, 0xff, 0x40, 0x0, 0x0],
    [0x0, 0x0, 0x0, 0x0, 0x0, 0x0, 0x0, 0x0],
    [0x0, 0x0, 0x8, 0xff, 0xff, 0xff, 0xff, 0xf1],
    [0x0, 0x0, 0x0, 0x0, 0x0, 0x0, 0x0, 0x0],
    [0x0, 0x0, 0x0, 0x0, 0x1f, 0xff, 0xff, 0xff],
    [0xff, 0xb0, 0x0, 0x0, 0x0, 0x0, 0x0, 0x0],
    [0x0, 0x0, 0x0, 0x0, 0x0, 0x0, 0xe, 0xff],
    [0xff, 0xff, 0xff, 0xa0, 0x0, 0x0, 0x0, 0x0],
    [0x0, 0x0, 0x0, 0x0, 0x0, 0x0, 0x0, 0x0],
    [0x9, 0xff, 0xff, 0xff, 0xff, 0xf3, 0x0, 0x0],
    [0x0, 0x0, 0x0, 0x0, 0x0, 0x0, 0x0, 0x0],
    [0x0, 0x0, 0x6f, 0xff, 0xff, 0xff, 0xff, 0x30],
    [0x0, 0x0, 0x0, 0x0, 0x0, 0x0, 0x0, 0x0],
    [0x0, 0x0, 0x0, 0x0, 0x2, 0xff, 0xff, 0xff],
    [0xff, 0xfa, 0x0, 0x0, 0x0, 0x0, 0x0, 0x0],
    [0x0, 0x0, 0x0, 0x0, 0x0, 0x0, 0xdf, 0xff],
    [0xff, 0xff, 0xfc, 0x0, 0x0, 0x0, 0x0, 0x0],
    [0x0, 0x0, 0x0, 0x0, 0x0, 0x0, 0x0, 0x0],
    [0x0, 0xbf, 0xff, 0xff, 0xff, 0xff, 0x20, 0x0],
    [0x0, 0x0, 0x0, 0x0, 0x0, 0x0, 0x0, 0x0],
    [0x0, 0x5, 0xff, 0xff, 0xff, 0xff, 0xff, 0xff],
    [0xff, 0xff, 0xff, 0xff, 0xff, 0xff, 0xff, 0xff],
    [0xff, 0xff, 0xff, 0xff, 0xff, 0xff, 0xff, 0xff],
    [0xff, 0xff, 0x90, 0x0, 0x0, 0x0, 0x0, 0x0],
    [0x0, 0x0, 0x0, 0x0, 0x0, 0xc, 0xff, 0xff],
    [0xff, 0xff, 0xff, 0xff, 0xff, 0xff, 0xff, 0xff],
    [0xff, 0xff, 0xff, 0xff, 0xff, 0xff, 0xff, 0xff],
    [0xff, 0xff, 0xff, 0xff, 0xff, 0xff, 0xf1, 0x0],
    [0x0, 0x0, 0x0, 0x0, 0x0, 0x0, 0x0, 0x0],
    [0x0, 0x4f, 0xff, 0xff, 0xff, 0xff, 0xff, 0xff],
    [0xff, 0xff, 0xff, 0xff, 0xff, 0xff, 0xff, 0xff],
    [0xff, 0xff, 0xff, 0xff, 0xff, 0xff, 0xff, 0xff],
    [0xff, 0xff, 0xf8, 0x0, 0x0, 0x0, 0x0, 0x0],
    [0x0, 0x0, 0x0, 0x0, 0x0, 0xbf, 0xff, 0xff],
    [0xff, 0xff, 0xff, 0xff, 0xff, 0xff, 0xff, 0xff],
    [0xff, 0xff, 0xff, 0xff, 0xff, 0xff, 0xff, 0xff],
    [0xff, 0xff, 0xff, 0xff, 0xff, 0xff, 0xfe, 0x0],
    [0x0, 0x0, 0x0, 0x0, 0x0, 0x0, 0x0, 0x0],
    [0x2, 0xff, 0xff, 0xff, 0xff, 0xff, 0xff, 0xff],
    [0xff, 0xff, 0xff, 0xff, 0xff, 0xff, 0xff, 0xff],
    [0xff, 0xff, 0xff, 0xff, 0xff, 0xff, 0xff, 0xff],
    [0xff, 0xff, 0xff, 0x60, 0x0, 0x0, 0x0, 0x0],
    [0x0, 0x0, 0x0, 0x0, 0xa, 0xff, 0xff, 0xff],
    [0xff, 0xff, 0xff, 0xff, 0xff, 0xff, 0xff, 0xff],
    [0xff, 0xff, 0xff, 0xff, 0xff, 0xff, 0xff, 0xff],
    [0xff, 0xff, 0xff, 0xff, 0xff, 0xff, 0xff, 0xd0],
    [0x0, 0x0, 0x0, 0x0, 0x0, 0x0, 0x0, 0x0],
    [0x1f, 0xff, 0xff, 0xff, 0xff, 0xff, 0xff, 0xff],
    [0xff, 0xff, 0xff, 0xff, 0xff, 0xff, 0xff, 0xff],
    [0xff, 0xff, 0xff, 0xff, 0xff, 0xff, 0xff, 0xff],
    [0xff, 0xff, 0xff, 0xf5, 0x0, 0x0, 0x0, 0x0],
    [0x0, 0x0, 0x0, 0x0, 0x8f, 0xff, 0xff, 0xff],
    [0xff, 0xaa, 0xaa, 0xaa, 0xaa, 0xaa, 0xaa, 0xaa],
    [0xaa, 0xaa, 0xaa, 0xaa, 0xaa, 0xaa, 0xaa, 0xaa],
    [0xaa, 0xaa, 0xaa, 0xff, 0xff, 0xff, 0xff, 0xfc],
    [0x0, 0x0, 0x0, 0x0, 0x0, 0x0, 0x0, 0x0],
    [0xff, 0xff, 0xff, 0xff, 0xfc, 0x0, 0x0, 0x0],
    [0x0, 0x0, 0x0, 0x0, 0x0, 0x0, 0x0, 0x0],
    [0x0, 0x0, 0x0, 0x0, 0x0, 0x0, 0x0, 0xbf],
    [0xff, 0xff, 0xff, 0xff, 0x40, 0x0, 0x0, 0x0],
    [0x0, 0x0, 0x0, 0x7, 0xff, 0xff, 0xff, 0xff],
    [0xf5, 0x0, 0x0, 0x0, 0x0, 0x0, 0x0, 0x0],
    [0x0, 0x0, 0x0, 0x0, 0x0, 0x0, 0x0, 0x0],
    [0x0, 0x0, 0x0, 0x4f, 0xff, 0xff, 0xff, 0xff],
    [0xb0, 0x0, 0x0, 0x0, 0x0, 0x0, 0x0, 0xe],
    [0xff, 0xff, 0xff, 0xff, 0xe0, 0x0, 0x0, 0x0],
    [0x0, 0x0, 0x0, 0x0, 0x0, 0x0, 0x0, 0x0],
    [0x0, 0x0, 0x0, 0x0, 0x0, 0x0, 0x0, 0xd],
    [0xff, 0xff, 0xff, 0xff, 0xf2, 0x0, 0x0, 0x0],
    [0x0, 0x0, 0x0, 0x5f, 0xff, 0xff, 0xff, 0xff],
    [0x70, 0x0, 0x0, 0x0, 0x0, 0x0, 0x0, 0x0],
    [0x0, 0x0, 0x0, 0x0, 0x0, 0x0, 0x0, 0x0],
    [0x0, 0x0, 0x0, 0x5, 0xff, 0xff, 0xff, 0xff],
    [0xfa, 0x0, 0x0, 0x0, 0x0, 0x0, 0x0, 0xdf],
    [0xff, 0xff, 0xff, 0xfe, 0x0, 0x0, 0x0, 0x0],
    [0x0, 0x0, 0x0, 0x0, 0x0, 0x0, 0x0, 0x0],
    [0x0, 0x0, 0x0, 0x0, 0x0, 0x0, 0x0, 0x0],
    [0xef, 0xff, 0xff, 0xff, 0xff, 0x10, 0x0, 0x0],
    [0x0, 0x0, 0x4, 0xff, 0xff, 0xff, 0xff, 0xf8],
    [0x0, 0x0, 0x0, 0x0, 0x0, 0x0, 0x0, 0x0],
    [0x0, 0x0, 0x0, 0x0, 0x0, 0x0, 0x0, 0x0],
    [0x0, 0x0, 0x0, 0x0, 0x7f, 0xff, 0xff, 0xff],
    [0xff, 0x80, 0x0, 0x0, 0x0, 0x0, 0xb, 0xff],
    [0xff, 0xff, 0xff, 0xf1, 0x0, 0x0, 0x0, 0x0],
    [0x0, 0x0, 0x0, 0x0, 0x0, 0x0, 0x0, 0x0],
    [0x0, 0x0, 0x0, 0x0, 0x0, 0x0, 0x0, 0x0],
    [0xf, 0xff, 0xff, 0xff, 0xff, 0xf1, 0x0, 0x0],
    [0x0, 0x0, 0x3f, 0xff, 0xff, 0xff, 0xff, 0xa0],
    [0x0, 0x0, 0x0, 0x0, 0x0, 0x0, 0x0, 0x0],
    [0x0, 0x0, 0x0, 0x0, 0x0, 0x0, 0x0, 0x0],
    [0x0, 0x0, 0x0, 0x0, 0x8, 0xff, 0xff, 0xff],
    [0xff, 0xf7, 0x0, 0x0, 0x0, 0x0, 0xaf, 0xff],
    [0xff, 0xff, 0xff, 0x20, 0x0, 0x0, 0x0, 0x0],
    [0x0, 0x0, 0x0, 0x0, 0x0, 0x0, 0x0, 0x0],
    [0x0, 0x0, 0x0, 0x0, 0x0, 0x0, 0x0, 0x0],
    [0x1, 0xff, 0xff, 0xff, 0xff, 0xfe, 0x0, 0x0],
    [0x0, 0x2, 0xff, 0xff, 0xff, 0xff, 0xfb, 0x0],
    [0x0, 0x0, 0x0, 0x0, 0x0, 0x0, 0x0, 0x0],
    [0x0, 0x0, 0x0, 0x0, 0x0, 0x0, 0x0, 0x0],
    [0x0, 0x0, 0x0, 0x0, 0x0, 0xaf, 0xff, 0xff],
    [0xff, 0xff, 0x60, 0x0, 0x0, 0x9, 0xff, 0xff],
    [0xff, 0xff, 0xf4, 0x0, 0x0, 0x0, 0x0, 0x0],
    [0x0, 0x0, 0x0, 0x0, 0x0, 0x0, 0x0, 0x0],
    [0x0, 0x0, 0x0, 0x0, 0x0, 0x0, 0x0, 0x0],
    [0x0, 0x3f, 0xff, 0xff, 0xff, 0xff, 0xd0, 0x0],
    [0x0, 0x1f, 0xff, 0xff, 0xff, 0xff, 0xd0, 0x0],
    [0x0, 0x0, 0x0, 0x0, 0x0, 0x0, 0x0, 0x0],
    [0x0, 0x0, 0x0, 0x0, 0x0, 0x0, 0x0, 0x0],
    [0x0, 0x0, 0x0, 0x0, 0x0, 0xc, 0xff, 0xff],
    [0xff, 0xff, 0xf4, 0x0, 0x0, 0x7f, 0xff, 0xff],
    [0xff, 0xff, 0x60, 0x0, 0x0, 0x0, 0x0, 0x0],
    [0x0, 0x0, 0x0, 0x0, 0x0, 0x0, 0x0, 0x0],
    [0x0, 0x0, 0x0, 0x0, 0x0, 0x0, 0x0, 0x0],
    [0x0, 0x4, 0xff, 0xff, 0xff, 0xff, 0xfc, 0x0],
    [0x0, 0xef, 0xff, 0xff, 0xff, 0xfe, 0x0, 0x0],
    [0x0, 0x0, 0x0, 0x0, 0x0, 0x0, 0x0, 0x0],
    [0x0, 0x0, 0x0, 0x0, 0x0, 0x0, 0x0, 0x0],
    [0x0, 0x0, 0x0, 0x0, 0x0, 0x0, 0xdf, 0xff],
    [0xff, 0xff, 0xff, 0x30, 0x6, 0xff, 0xff, 0xff],
    [0xff, 0xf7, 0x0, 0x0, 0x0, 0x0, 0x0, 0x0],
    [0x0, 0x0, 0x0, 0x0, 0x0, 0x0, 0x0, 0x0],
    [0x0, 0x0, 0x0, 0x0, 0x0, 0x0, 0x0, 0x0]]"

lemma glyph_U0041_b_length: "length (concat glyph_U0041_b) = 1184"
  by (simp add: glyph_U0041_b_def)

definition glyph_U0041_c :: "u8 list list" where
  "glyph_U0041_c = [
    [0x0, 0x0, 0x6f, 0xff, 0xff, 0xff, 0xff, 0xa0],
    [0xd, 0xff, 0xff, 0xff, 0xff, 0xf1, 0x0, 0x0],
    [0x0, 0x0, 0x0, 0x0, 0x0, 0x0, 0x0, 0x0],
    [0x0, 0x0, 0x0, 0x0, 0x0, 0x0, 0x0, 0x0],
    [0x0, 0x0, 0x0, 0x0, 0x0, 0x0, 0xe, 0xff],
    [0xff, 0xff, 0xff, 0xf2]]"

lemma glyph_U0041_c_length: "length (concat glyph_U0041_c) = 44"
  by (simp add: glyph_U0041_c_def)

definition glyph_U0042_a :: "u8 list list" where
  "glyph_U0042_a = [
    [0xab, 0xbb, 0xbb, 0xbb, 0xbb, 0xbb, 0xbb, 0xbb],
    [0xbb, 0xbb, 0xbb, 0xbb, 0xbb, 0xbb, 0xbb, 0xba],
    [0xa9, 0x87, 0x42, 0x0, 0x0, 0x0, 0x0, 0x0],
    [0x0, 0x0, 0x0, 0x0, 0x0, 0xef, 0xff, 0xff],
    [0xff, 0xff, 0xff, 0xff, 0xff, 0xff, 0xff, 0xff],
    [0xff, 0xff, 0xff, 0xff, 0xff, 0xff, 0xff, 0xff],
    [0xfc, 0x84, 0x0, 0x0, 0x0, 0x0, 0x0, 0x0],
    [0x0, 0x0, 0xef, 0xff, 0xff, 0xff, 0xff, 0xff],
    [0xff, 0xff, 0xff, 0xff, 0xff, 0xff, 0xff, 0xff],
    [0xff, 0xff, 0xff, 0xff, 0xff, 0xff, 0xff, 0xe8],
    [0x20, 0x0, 0x0, 0x0, 0x0, 0x0, 0x0, 0xef],
    [0xff, 0xff, 0xff, 0xff, 0xff, 0xff, 0xff, 0xff],
    [0xff, 0xff, 0xff, 0xff, 0xff, 0xff, 0xff, 0xff],
    [0xff, 0xff, 0xff, 0xff, 0xff, 0xfa, 0x20, 0x0],
    [0x0, 0x0, 0x0, 0x0, 0xef, 0xff, 0xff, 0xff],
    [0xff, 0xff, 0xff, 0xff, 0xff, 0xff, 0xff, 0xff],
    [0xff, 0xff, 0xff, 0xff, 0xff, 0xff, 0xff, 0xff],
    [0xff, 0xff, 0xff, 0xf7, 0x0, 0x0, 0x0, 0x0],
    [0x0, 0xef, 0xff, 0xff, 0xff, 0xff, 0xff, 0xff],
    [0xff, 0xff, 0xff, 0xff, 0xff, 0xff, 0xff, 0xff],
    [0xff, 0xff, 0xff, 0xff, 0xff, 0xff, 0xff, 0xff],
    [0xff, 0xb1, 0x0, 0x0, 0x0, 0x0, 0xef, 0xff],
    [0xff, 0xff, 0xff, 0xff, 0xff, 0xff, 0xff, 0xff],
    [0xff, 0xff, 0xff, 0xff, 0xff, 0xff, 0xff, 0xff],
    [0xff, 0xff, 0xff, 0xff, 0xff, 0xff, 0xfd, 0x10],
    [0x0, 0x0, 0x0, 0xef, 0xff, 0xff, 0xff, 0xff],
    [0xff, 0xff, 0xff, 0xff, 0xff, 0xff, 0xff, 0xff],
    [0xff, 0xff, 0xff, 0xff, 0xff, 0xff, 0xff, 0xff],
    [0xff, 0xff, 0xff, 0xff, 0xd0, 0x0, 0x0, 0x0],
    [0xef, 0xff, 0xff, 0xff, 0xfb, 0x0, 0x0, 0x0],
    [0x0, 0x0, 0x0, 0x0, 0x0, 0x0, 0x0, 0x1],
    [0x24, 0x79, 0xdf, 0xff, 0xff, 0xff, 0xff, 0xff],
    [0xff, 0xfa, 0x0, 0x0, 0x0, 0xef, 0xff, 0xff],
    [0xff, 0xfb, 0x0, 0x0, 0x0, 0x0, 0x0, 0x0],
    [0x0, 0x0, 0x0, 0x0, 0x0, 0x0, 0x0, 0x3],
    [0x8f, 0xff, 0xff, 0xff, 0xff, 0xff, 0xff, 0x40],
    [0x0, 0x0, 0xef, 0xff, 0xff, 0xff, 0xfb, 0x0],
    [0x0, 0x0, 0x0, 0x0, 0x0, 0x0, 0x0, 0x0],
    [0x0, 0x0, 0x0, 0x0, 0x0, 0x1, 0x9f, 0xff],
    [0xff, 0xff, 0xff, 0xff, 0xd0, 0x0, 0x0, 0xef],
    [0xff, 0xff, 0xff, 0xfb, 0x0, 0x0, 0x0, 0x0],
    [0x0, 0x0, 0x0, 0x0, 0x0, 0x0, 0x0, 0x0],
    [0x0, 0x0, 0x0, 0x6, 0xff, 0xff, 0xff, 0xff],
    [0xff, 0xf3, 0x0, 0x0, 0xef, 0xff, 0xff, 0xff],
    [0xfb, 0x0, 0x0, 0x0, 0x0, 0x0, 0x0, 0x0],
    [0x0, 0x0, 0x0, 0x0, 0x0, 0x0, 0x0, 0x0],
    [0x0, 0x5f, 0xff, 0xff, 0xff, 0xff, 0xf9, 0x0],
    [0x0, 0xef, 0xff, 0xff, 0xff, 0xfb, 0x0, 0x0],
    [0x0, 0x0, 0x0, 0x0, 0x0, 0x0, 0x0, 0x0],
    [0x0, 0x0, 0x0, 0x0, 0x0, 0x0, 0xa, 0xff],
    [0xff, 0xff, 0xff, 0xfd, 0x0, 0x0, 0xef, 0xff],
    [0xff, 0xff, 0xfb, 0x0, 0x0, 0x0, 0x0, 0x0],
    [0x0, 0x0, 0x0, 0x0, 0x0, 0x0, 0x0, 0x0],
    [0x0, 0x0, 0x0, 0x2, 0xff, 0xff, 0xff, 0xff],
    [0xff, 0x0, 0x0, 0xef, 0xff, 0xff, 0xff, 0xfb],
    [0x0, 0x0, 0x0, 0x0, 0x0, 0x0, 0x0, 0x0],
    [0x0, 0x0, 0x0, 0x0, 0x0, 0x0, 0x0, 0x0],
    [0x0, 0xcf, 0xff, 0xff, 0xff, 0xff, 0x30, 0x0],
    [0xef, 0xff, 0xff, 0xff, 0xfb, 0x0, 0x0, 0x0],
    [0x0, 0x0, 0x0, 0x0, 0x0, 0x0, 0x0, 0x0],
    [0x0, 0x0, 0x0, 0x0, 0x0, 0x0, 0x8f, 0xff],
    [0xff, 0xff, 0xff, 0x40, 0x0, 0xef, 0xff, 0xff],
    [0xff, 0xfb, 0x0, 0x0, 0x0, 0x0, 0x0, 0x0],
    [0x0, 0x0, 0x0, 0x0, 0x0, 0x0, 0x0, 0x0],
    [0x0, 0x0, 0x0, 0x6f, 0xff, 0xff, 0xff, 0xff],
    [0x40, 0x0, 0xef, 0xff, 0xff, 0xff, 0xfb, 0x0],
    [0x0, 0x0, 0x0, 0x0, 0x0, 0x0, 0x0, 0x0],
    [0x0, 0x0, 0x0, 0x0, 0x0, 0x0, 0x0, 0x0],
    [0x4f, 0xff, 0xff, 0xff, 0xff, 0x40, 0x0, 0xef],
    [0xff, 0xff, 0xff, 0xfb, 0x0, 0x0, 0x0, 0x0],
    [0x0, 0x0, 0x0, 0x0, 0x0, 0x0, 0x0, 0x0],
    [0x0, 0x0, 0x0, 0x0, 0x0, 0x5f, 0xff, 0xff],
    [0xff, 0xff, 0x30, 0x0, 0xef, 0xff, 0xff, 0xff],
    [0xfb, 0x0, 0x0, 0x0, 0x0, 0x0, 0x0, 0x0],
    [0x0, 0x0, 0x0, 0x0, 0x0, 0x0, 0x0, 0x0],
    [0x0, 0x0, 0x7f, 0xff, 0xff, 0xff, 0xff, 0x10],
    [0x0, 0xef, 0xff, 0xff, 0xff, 0xfb, 0x0, 0x0],
    [0x0, 0x0, 0x0, 0x0, 0x0, 0x0, 0x0, 0x0],
    [0x0, 0x0, 0x0, 0x0, 0x0, 0x0, 0x0, 0xaf],
    [0xff, 0xff, 0xff, 0xfd, 0x0, 0x0, 0xef, 0xff],
    [0xff, 0xff, 0xfb, 0x0, 0x0, 0x0, 0x0, 0x0],
    [0x0, 0x0, 0x0, 0x0, 0x0, 0x0, 0x0, 0x0],
    [0x0, 0x0, 0x0, 0x0, 0xff, 0xff, 0xff, 0xff],
    [0xfa, 0x0, 0x0, 0xef, 0xff, 0xff, 0xff, 0xfb],
    [0x0, 0x0, 0x0, 0x0, 0x0, 0x0, 0x0, 0x0],
    [0x0, 0x0, 0x0, 0x0, 0x0, 0x0, 0x0, 0x0],
    [0x7, 0xff, 0xff, 0xff, 0xff, 0xf4, 0x0, 0x0],
    [0xef, 0xff, 0xff, 0xff, 0xfb, 0x0, 0x0, 0x0],
    [0x0, 0x0, 0x0, 0x0, 0x0, 0x0, 0x0, 0x0],
    [0x0, 0x0, 0x0, 0x0, 0x0, 0x2f, 0xff, 0xff],
    [0xff, 0xff, 0xe0, 0x0, 0x0, 0xef, 0xff, 0xff],
    [0xff, 0xfb, 0x0, 0x0, 0x0, 0x0, 0x0, 0x0],
    [0x0, 0x0, 0x0, 0x0, 0x0, 0x0, 0x0, 0x0],
    [0x0, 0x2, 0xdf, 0xff, 0xff, 0xff, 0xff, 0x60],
    [0x0, 0x0, 0xef, 0xff, 0xff, 0xff, 0xfb, 0x0],
    [0x0, 0x0, 0x0, 0x0, 0x0, 0x0, 0x0, 0x0],
    [0x0, 0x0, 0x0, 0x0, 0x0, 0x0, 0x4e, 0xff],
    [0xff, 0xff, 0xff, 0xfd, 0x0, 0x0, 0x0, 0xef],
    [0xff, 0xff, 0xff, 0xfb, 0x0, 0x0, 0x0, 0x0],
    [0x0, 0x0, 0x0, 0x0, 0x0, 0x0, 0x0, 0x0],
    [0x0, 0x0, 0x4c, 0xff, 0xff, 0xff, 0xff, 0xff],
    [0xf2, 0x0, 0x0, 0x0, 0xef, 0xff, 0xff, 0xff],
    [0xfb, 0x0, 0x0, 0x0, 0x0, 0x0, 0x0, 0x0],
    [0x0, 0x0, 0x0, 0x0, 0x0, 0x25, 0x9e, 0xff],
    [0xff, 0xff, 0xff, 0xff, 0xff, 0x50, 0x0, 0x0],
    [0x0, 0xef, 0xff, 0xff, 0xff, 0xfe, 0xbb, 0xbb],
    [0xbb, 0xbb, 0xbb, 0xbb, 0xbb, 0xbb, 0xbb, 0xbb],
    [0xcd, 0xdf, 0xff, 0xff, 0xff, 0xff, 0xff, 0xff],
    [0xff, 0xf6, 0x0, 0x0, 0x0, 0x0, 0xef, 0xff],
    [0xff, 0xff, 0xff, 0xff, 0xff, 0xff, 0xff, 0xff],
    [0xff, 0xff, 0xff, 0xff, 0xff, 0xff, 0xff, 0xff],
    [0xff, 0xff, 0xff, 0xff, 0xff, 0xfe, 0x40, 0x0],
    [0x0, 0x0, 0x0, 0xef, 0xff, 0xff, 0xff, 0xff],
    [0xff, 0xff, 0xff, 0xff, 0xff, 0xff, 0xff, 0xff],
    [0xff, 0xff, 0xff, 0xff, 0xff, 0xff, 0xff, 0xff],
    [0xff, 0xff, 0xa1, 0x0, 0x0, 0x0, 0x0, 0x0],
    [0xef, 0xff, 0xff, 0xff, 0xff, 0xff, 0xff, 0xff],
    [0xff, 0xff, 0xff, 0xff, 0xff, 0xff, 0xff, 0xff],
    [0xff, 0xff, 0xff, 0xff, 0xff, 0xff, 0xfc, 0x30],
    [0x0, 0x0, 0x0, 0x0, 0x0, 0xef, 0xff, 0xff],
    [0xff, 0xff, 0xff, 0xff, 0xff, 0xff, 0xff, 0xff],
    [0xff, 0xff, 0xff, 0xff, 0xff, 0xff, 0xff, 0xff],
    [0xff, 0xff, 0xff, 0xff, 0xfe, 0x70, 0x0, 0x0],
    [0x0, 0x0, 0xef, 0xff, 0xff, 0xff, 0xff, 0xff],
    [0xff, 0xff, 0xff, 0xff, 0xff, 0xff, 0xff, 0xff],
    [0xff, 0xff, 0xff, 0xff, 0xff, 0xff, 0xff, 0xff],
    [0xff, 0xff, 0xfe, 0x60, 0x0, 0x0, 0x0, 0xef],
    [0xff, 0xff, 0xff, 0xff, 0xff, 0xff, 0xff, 0xff],
    [0xff, 0xff, 0xff, 0xff, 0xff, 0xff, 0xff, 0xff],
    [0xff, 0xff, 0xff, 0xff, 0xff, 0xff, 0xff, 0xff],
    [0xfa, 0x0, 0x0, 0x0, 0xef, 0xff, 0xff, 0xff],
    [0xff, 0xff, 0xff, 0xff, 0xff, 0xff, 0xff, 0xff],
    [0xff, 0xff, 0xff, 0xff, 0xff, 0xff, 0xff, 0xff],
    [0xff, 0xff, 0xff, 0xff, 0xff, 0xff, 0xd1, 0x0],
    [0x0, 0xef, 0xff, 0xff, 0xff, 0xfb, 0x0, 0x0],
    [0x0, 0x0, 0x0, 0x0, 0x0, 0x0, 0x0, 0x0],
    [0x0, 0x0, 0x12, 0x46, 0x9d, 0xff, 0xff, 0xff],
    [0xff, 0xff, 0xff, 0xfc, 0x0, 0x0, 0xef, 0xff],
    [0xff, 0xff, 0xfb, 0x0, 0x0, 0x0, 0x0, 0x0],
    [0x0, 0x0, 0x0, 0x0, 0x0, 0x0, 0x0, 0x0],
    [0x0, 0x0, 0x27, 0xef, 0xff, 0xff, 0xff, 0xff],
    [0xff, 0xb0, 0x0, 0xef, 0xff, 0xff, 0xff, 0xfb],
    [0x0, 0x0, 0x0, 0x0, 0x0, 0x0, 0x0, 0x0],
    [0x0, 0x0, 0x0, 0x0, 0x0, 0x0, 0x0, 0x0],
    [0x7, 0xff, 0xff, 0xff, 0xff, 0xff, 0xf5, 0x0],
    [0xef, 0xff, 0xff, 0xff, 0xfb, 0x0, 0x0, 0x0],
    [0x0, 0x0, 0x0, 0x0, 0x0, 0x0, 0x0, 0x0],
    [0x0, 0x0, 0x0, 0x0, 0x0, 0x0, 0x2e, 0xff]]"

lemma glyph_U0042_a_length: "length (concat glyph_U0042_a) = 1184"
  by (simp add: glyph_U0042_a_def)

definition glyph_U0042_b :: "u8 list list" where
  "glyph_U0042_b = [
    [0xff, 0xff, 0xff, 0xfe, 0x0, 0xef, 0xff, 0xff],
    [0xff, 0xfb, 0x0, 0x0, 0x0, 0x0, 0x0, 0x0],
    [0x0, 0x0, 0x0, 0x0, 0x0, 0x0, 0x0, 0x0],
    [0x0, 0x0, 0x0, 0x2, 0xef, 0xff, 0xff, 0xff],
    [0xff, 0x60, 0xef, 0xff, 0xff, 0xff, 0xfb, 0x0],
    [0x0, 0x0, 0x0, 0x0, 0x0, 0x0, 0x0, 0x0],
    [0x0, 0x0, 0x0, 0x0, 0x0, 0x0, 0x0, 0x0],
    [0x0, 0x5f, 0xff, 0xff, 0xff, 0xff, 0xd0, 0xef],
    [0xff, 0xff, 0xff, 0xfb, 0x0, 0x0, 0x0, 0x0],
    [0x0, 0x0, 0x0, 0x0, 0x0, 0x0, 0x0, 0x0],
    [0x0, 0x0, 0x0, 0x0, 0x0, 0x0, 0xc, 0xff],
    [0xff, 0xff, 0xff, 0xf2, 0xef, 0xff, 0xff, 0xff],
    [0xfb, 0x0, 0x0, 0x0, 0x0, 0x0, 0x0, 0x0],
    [0x0, 0x0, 0x0, 0x0, 0x0, 0x0, 0x0, 0x0],
    [0x0, 0x0, 0x0, 0x6, 0xff, 0xff, 0xff, 0xff],
    [0xf5, 0xef, 0xff, 0xff, 0xff, 0xfb, 0x0, 0x0],
    [0x0, 0x0, 0x0, 0x0, 0x0, 0x0, 0x0, 0x0],
    [0x0, 0x0, 0x0, 0x0, 0x0, 0x0, 0x0, 0x0],
    [0x1, 0xff, 0xff, 0xff, 0xff, 0xf9, 0xef, 0xff],
    [0xff, 0xff, 0xfb, 0x0, 0x0, 0x0, 0x0, 0x0],
    [0x0, 0x0, 0x0, 0x0, 0x0, 0x0, 0x0, 0x0],
    [0x0, 0x0, 0x0, 0x0, 0x0, 0x0, 0xff, 0xff],
    [0xff, 0xff, 0xfb, 0xef, 0xff, 0xff, 0xff, 0xfb],
    [0x0, 0x0, 0x0, 0x0, 0x0, 0x0, 0x0, 0x0],
    [0x0, 0x0, 0x0, 0x0, 0x0, 0x0, 0x0, 0x0],
    [0x0, 0x0, 0x0, 0xdf, 0xff, 0xff, 0xff, 0xfc],
    [0xef, 0xff, 0xff, 0xff, 0xfb, 0x0, 0x0, 0x0],
    [0x0, 0x0, 0x0, 0x0, 0x0, 0x0, 0x0, 0x0],
    [0x0, 0x0, 0x0, 0x0, 0x0, 0x0, 0x0, 0x0],
    [0xdf, 0xff, 0xff, 0xff, 0xfd, 0xef, 0xff, 0xff],
    [0xff, 0xfb, 0x0, 0x0, 0x0, 0x0, 0x0, 0x0],
    [0x0, 0x0, 0x0, 0x0, 0x0, 0x0, 0x0, 0x0],
    [0x0, 0x0, 0x0, 0x0, 0x0, 0xef, 0xff, 0xff],
    [0xff, 0xfd, 0xef, 0xff, 0xff, 0xff, 0xfb, 0x0],
    [0x0, 0x0, 0x0, 0x0, 0x0, 0x0, 0x0, 0x0],
    [0x0, 0x0, 0x0, 0x0, 0x0, 0x0, 0x0, 0x0],
    [0x0, 0x0, 0xff, 0xff, 0xff, 0xff, 0xfc, 0xef],
    [0xff, 0xff, 0xff, 0xfb, 0x0, 0x0, 0x0, 0x0],
    [0x0, 0x0, 0x0, 0x0, 0x0, 0x0, 0x0, 0x0],
    [0x0, 0x0, 0x0, 0x0, 0x0, 0x0, 0x4, 0xff],
    [0xff, 0xff, 0xff, 0xfb, 0xef, 0xff, 0xff, 0xff],
    [0xfb, 0x0, 0x0, 0x0, 0x0, 0x0, 0x0, 0x0],
    [0x0, 0x0, 0x0, 0x0, 0x0, 0x0, 0x0, 0x0],
    [0x0, 0x0, 0x0, 0x9, 0xff, 0xff, 0xff, 0xff],
    [0xf8, 0xef, 0xff, 0xff, 0xff, 0xfb, 0x0, 0x0],
    [0x0, 0x0, 0x0, 0x0, 0x0, 0x0, 0x0, 0x0],
    [0x0, 0x0, 0x0, 0x0, 0x0, 0x0, 0x0, 0x0],
    [0x1f, 0xff, 0xff, 0xff, 0xff, 0xf5, 0xef, 0xff],
    [0xff, 0xff, 0xfb, 0x0, 0x0, 0x0, 0x0, 0x0],
    [0x0, 0x0, 0x0, 0x0, 0x0, 0x0, 0x0, 0x0],
    [0x0, 0x0, 0x0, 0x0, 0x0, 0xbf, 0xff, 0xff],
    [0xff, 0xff, 0xf1, 0xef, 0xff, 0xff, 0xff, 0xfb],
    [0x0, 0x0, 0x0, 0x0, 0x0, 0x0, 0x0, 0x0],
    [0x0, 0x0, 0x0, 0x0, 0x0, 0x0, 0x0, 0x0],
    [0x0, 0x9, 0xff, 0xff, 0xff, 0xff, 0xff, 0xb0],
    [0xef, 0xff, 0xff, 0xff, 0xfb, 0x0, 0x0, 0x0],
    [0x0, 0x0, 0x0, 0x0, 0x0, 0x0, 0x0, 0x0],
    [0x0, 0x0, 0x0, 0x0, 0x0, 0x2, 0xbf, 0xff],
    [0xff, 0xff, 0xff, 0xff, 0x40, 0xef, 0xff, 0xff],
    [0xff, 0xfb, 0x0, 0x0, 0x0, 0x0, 0x0, 0x0],
    [0x0, 0x0, 0x0, 0x0, 0x0, 0x0, 0x0, 0x0],
    [0x0, 0x2, 0x9f, 0xff, 0xff, 0xff, 0xff, 0xff],
    [0xfb, 0x0, 0xef, 0xff, 0xff, 0xff, 0xfb, 0x0],
    [0x0, 0x0, 0x0, 0x0, 0x0, 0x0, 0x0, 0x0],
    [0x0, 0x0, 0x0, 0x0, 0x2, 0x58, 0xdf, 0xff],
    [0xff, 0xff, 0xff, 0xff, 0xff, 0xf2, 0x0, 0xef],
    [0xff, 0xff, 0xff, 0xfe, 0xbb, 0xbb, 0xbb, 0xbb],
    [0xbb, 0xbb, 0xbb, 0xbb, 0xbb, 0xbb, 0xbb, 0xbc],
    [0xde, 0xff, 0xff, 0xff, 0xff, 0xff, 0xff, 0xff],
    [0xff, 0xff, 0x50, 0x0, 0xef, 0xff, 0xff, 0xff],
    [0xff, 0xff, 0xff, 0xff, 0xff, 0xff, 0xff, 0xff],
    [0xff, 0xff, 0xff, 0xff, 0xff, 0xff, 0xff, 0xff],
    [0xff, 0xff, 0xff, 0xff, 0xff, 0xff, 0xf6, 0x0],
    [0x0, 0xef, 0xff, 0xff, 0xff, 0xff, 0xff, 0xff],
    [0xff, 0xff, 0xff, 0xff, 0xff, 0xff, 0xff, 0xff],
    [0xff, 0xff, 0xff, 0xff, 0xff, 0xff, 0xff, 0xff],
    [0xff, 0xff, 0xff, 0x50, 0x0, 0x0, 0xef, 0xff],
    [0xff, 0xff, 0xff, 0xff, 0xff, 0xff, 0xff, 0xff],
    [0xff, 0xff, 0xff, 0xff, 0xff, 0xff, 0xff, 0xff],
    [0xff, 0xff, 0xff, 0xff, 0xff, 0xff, 0xff, 0xd3],
    [0x0, 0x0, 0x0, 0xef, 0xff, 0xff, 0xff, 0xff],
    [0xff, 0xff, 0xff, 0xff, 0xff, 0xff, 0xff, 0xff],
    [0xff, 0xff, 0xff, 0xff, 0xff, 0xff, 0xff, 0xff],
    [0xff, 0xff, 0xff, 0xe7, 0x0, 0x0, 0x0, 0x0],
    [0xef, 0xff, 0xff, 0xff, 0xff, 0xff, 0xff, 0xff],
    [0xff, 0xff, 0xff, 0xff, 0xff, 0xff, 0xff, 0xff],
    [0xff, 0xff, 0xff, 0xff, 0xff, 0xff, 0xff, 0xc6],
    [0x0, 0x0, 0x0, 0x0, 0x0, 0xef, 0xff, 0xff],
    [0xff, 0xff, 0xff, 0xff, 0xff, 0xff, 0xff, 0xff],
    [0xff, 0xff, 0xff, 0xff, 0xff, 0xff, 0xff, 0xff],
    [0xff, 0xff, 0xfc, 0x72, 0x0, 0x0, 0x0, 0x0],
    [0x0, 0x0, 0xef, 0xff, 0xff, 0xff, 0xff, 0xff],
    [0xff, 0xff, 0xff, 0xff, 0xff, 0xff, 0xff, 0xff],
    [0xff, 0xff, 0xff, 0xfe, 0xdc, 0xa8, 0x63, 0x0],
    [0x0, 0x0, 0x0, 0x0, 0x0, 0x0, 0x0]]"

lemma glyph_U0042_b_length: "length (concat glyph_U0042_b) = 759"
  by (simp add: glyph_U0042_b_def)

definition glyph_U0043_a :: "u8 list list" where
  "glyph_U0043_a = [
    [0x0, 0x0, 0x0, 0x0, 0x0, 0x0, 0x0, 0x0],
    [0x0, 0x0, 0x0, 0x0, 0x0, 0x1, 0x47, 0x9b],
    [0xde, 0xff, 0xff, 0xed, 0xca, 0x85, 0x20, 0x0],
    [0x0, 0x0, 0x0, 0x0, 0x0, 0x0, 0x0, 0x0],
    [0x0, 0x0, 0x0, 0x0, 0x0, 0x0, 0x0, 0x0],
    [0x0, 0x0, 0x0, 0x49, 0xdf, 0xff, 0xff, 0xff],
    [0xff, 0xff, 0xff, 0xff, 0xff, 0xfe, 0xb6, 0x10],
    [0x0, 0x0, 0x0, 0x0, 0x0, 0x0, 0x0, 0x0],
    [0x0, 0x0, 0x0, 0x0, 0x0, 0x0, 0x0, 0x0],
    [0x3, 0x9e, 0xff, 0xff, 0xff, 0xff, 0xff, 0xff],
    [0xff, 0xff, 0xff, 0xff, 0xff, 0xff, 0xfb, 0x60],
    [0x0, 0x0, 0x0, 0x0, 0x0, 0x0, 0x0, 0x0],
    [0x0, 0x0, 0x0, 0x0, 0x0, 0x0, 0x4, 0xcf],
    [0xff, 0xff, 0xff, 0xff, 0xff, 0xff, 0xff, 0xff],
    [0xff, 0xff, 0xff, 0xff, 0xff, 0xff, 0xfe, 0x71],
    [0x0, 0x0, 0x0, 0x0, 0x0, 0x0, 0x0, 0x0],
    [0x0, 0x0, 0x0, 0x0, 0x3, 0xcf, 0xff, 0xff],
    [0xff, 0xff, 0xff, 0xff, 0xff, 0xff, 0xff, 0xff],
    [0xff, 0xff, 0xff, 0xff, 0xff, 0xff, 0xff, 0x60],
    [0x0, 0x0, 0x0, 0x0, 0x0, 0x0, 0x0, 0x0],
    [0x0, 0x0, 0x1, 0x9f, 0xff, 0xff, 0xff, 0xff],
    [0xff, 0xff, 0xff, 0xff, 0xff, 0xff, 0xff, 0xff],
    [0xff, 0xff, 0xff, 0xff, 0xff, 0xff, 0xfc, 0x30],
    [0x0, 0x0, 0x0, 0x0, 0x0, 0x0, 0x0, 0x0],
    [0x0, 0x5e, 0xff, 0xff, 0xff, 0xff, 0xff, 0xff],
    [0xff, 0xff, 0xff, 0xff, 0xff, 0xff, 0xff, 0xff],
    [0xff, 0xff, 0xff, 0xff, 0xff, 0xff, 0xf7, 0x0],
    [0x0, 0x0, 0x0, 0x0, 0x0, 0x0, 0x0, 0x9],
    [0xff, 0xff, 0xff, 0xff, 0xff, 0xff, 0xff, 0xff],
    [0xff, 0xff, 0xff, 0xff, 0xff, 0xff, 0xff, 0xff],
    [0xff, 0xff, 0xff, 0xff, 0xff, 0xff, 0xa0, 0x0],
    [0x0, 0x0, 0x0, 0x0, 0x0, 0x1, 0xbf, 0xff],
    [0xff, 0xff, 0xff, 0xff, 0xff, 0xff, 0xff, 0xff],
    [0xca, 0x98, 0x88, 0x9a, 0xce, 0xff, 0xff, 0xff],
    [0xff, 0xff, 0xff, 0xff, 0xff, 0xfc, 0x0, 0x0],
    [0x0, 0x0, 0x0, 0x0, 0x2d, 0xff, 0xff, 0xff],
    [0xff, 0xff, 0xff, 0xff, 0xfe, 0xa5, 0x20, 0x0],
    [0x0, 0x0, 0x0, 0x0, 0x15, 0x9e, 0xff, 0xff],
    [0xff, 0xff, 0xff, 0xff, 0xff, 0xc0, 0x0, 0x0],
    [0x0, 0x0, 0x1, 0xdf, 0xff, 0xff, 0xff, 0xff],
    [0xff, 0xff, 0xfb, 0x40, 0x0, 0x0, 0x0, 0x0],
    [0x0, 0x0, 0x0, 0x0, 0x0, 0x4b, 0xff, 0xff],
    [0xff, 0xff, 0xff, 0xff, 0xf7, 0x0, 0x0, 0x0],
    [0x0, 0xd, 0xff, 0xff, 0xff, 0xff, 0xff, 0xff],
    [0xfa, 0x20, 0x0, 0x0, 0x0, 0x0, 0x0, 0x0],
    [0x0, 0x0, 0x0, 0x0, 0x0, 0x3b, 0xff, 0xff],
    [0xff, 0xff, 0xff, 0x90, 0x0, 0x0, 0x0, 0x0],
    [0xcf, 0xff, 0xff, 0xff, 0xff, 0xff, 0xfd, 0x30],
    [0x0, 0x0, 0x0, 0x0, 0x0, 0x0, 0x0, 0x0],
    [0x0, 0x0, 0x0, 0x0, 0x0, 0x5e, 0xff, 0xff],
    [0xff, 0xf9, 0x0, 0x0, 0x0, 0x0, 0x9, 0xff],
    [0xff, 0xff, 0xff, 0xff, 0xff, 0x80, 0x0, 0x0],
    [0x0, 0x0, 0x0, 0x0, 0x0, 0x0, 0x0, 0x0],
    [0x0, 0x0, 0x0, 0x0, 0x1, 0xbf, 0xff, 0xff],
    [0x80, 0x0, 0x0, 0x0, 0x0, 0x4f, 0xff, 0xff],
    [0xff, 0xff, 0xff, 0xf4, 0x0, 0x0, 0x0, 0x0],
    [0x0, 0x0, 0x0, 0x0, 0x0, 0x0, 0x0, 0x0],
    [0x0, 0x0, 0x0, 0x0, 0x8, 0xff, 0xf8, 0x0],
    [0x0, 0x0, 0x0, 0x1, 0xef, 0xff, 0xff, 0xff],
    [0xff, 0xfe, 0x30, 0x0, 0x0, 0x0, 0x0, 0x0],
    [0x0, 0x0, 0x0, 0x0, 0x0, 0x0, 0x0, 0x0],
    [0x0, 0x0, 0x0, 0x0, 0x7f, 0x70, 0x0, 0x0],
    [0x0, 0x0, 0xa, 0xff, 0xff, 0xff, 0xff, 0xff],
    [0xe2, 0x0, 0x0, 0x0, 0x0, 0x0, 0x0, 0x0],
    [0x0, 0x0, 0x0, 0x0, 0x0, 0x0, 0x0, 0x0],
    [0x0, 0x0, 0x0, 0x3, 0x0, 0x0, 0x0, 0x0],
    [0x0, 0x3f, 0xff, 0xff, 0xff, 0xff, 0xff, 0x30],
    [0x0, 0x0, 0x0, 0x0, 0x0, 0x0, 0x0, 0x0],
    [0x0, 0x0, 0x0, 0x0, 0x0, 0x0, 0x0, 0x0],
    [0x0, 0x0, 0x0, 0x0, 0x0, 0x0, 0x0, 0x0],
    [0xcf, 0xff, 0xff, 0xff, 0xff, 0xf5, 0x0, 0x0],
    [0x0, 0x0, 0x0, 0x0, 0x0, 0x0, 0x0, 0x0],
    [0x0, 0x0, 0x0, 0x0, 0x0, 0x0, 0x0, 0x0],
    [0x0, 0x0, 0x0, 0x0, 0x0, 0x0, 0x3, 0xff],
    [0xff, 0xff, 0xff, 0xff, 0xa0, 0x0, 0x0, 0x0],
    [0x0, 0x0, 0x0, 0x0, 0x0, 0x0, 0x0, 0x0],
    [0x0, 0x0, 0x0, 0x0, 0x0, 0x0, 0x0, 0x0],
    [0x0, 0x0, 0x0, 0x0, 0x0, 0xb, 0xff, 0xff],
    [0xff, 0xff, 0xfe, 0x10, 0x0, 0x0, 0x0, 0x0],
    [0x0, 0x0, 0x0, 0x0, 0x0, 0x0, 0x0, 0x0],
    [0x0, 0x0, 0x0, 0x0, 0x0, 0x0, 0x0, 0x0],
    [0x0, 0x0, 0x0, 0x0, 0x1f, 0xff, 0xff, 0xff],
    [0xff, 0xf6, 0x0, 0x0, 0x0, 0x0, 0x0, 0x0],
    [0x0, 0x0, 0x0, 0x0, 0x0, 0x0, 0x0, 0x0],
    [0x0, 0x0, 0x0, 0x0, 0x0, 0x0, 0x0, 0x0],
    [0x0, 0x0, 0x0, 0x7f, 0xff, 0xff, 0xff, 0xff],
    [0xe0, 0x0, 0x0, 0x0, 0x0, 0x0, 0x0, 0x0],
    [0x0, 0x0, 0x0, 0x0, 0x0, 0x0, 0x0, 0x0],
    [0x0, 0x0, 0x0, 0x0, 0x0, 0x0, 0x0, 0x0],
    [0x0, 0x0, 0xcf, 0xff, 0xff, 0xff, 0xff, 0x60],
    [0x0, 0x0, 0x0, 0x0, 0x0, 0x0, 0x0, 0x0],
    [0x0, 0x0, 0x0, 0x0, 0x0, 0x0, 0x0, 0x0],
    [0x0, 0x0, 0x0, 0x0, 0x0, 0x0, 0x0, 0x0],
    [0x1, 0xff, 0xff, 0xff, 0xff, 0xff, 0x0, 0x0],
    [0x0, 0x0, 0x0, 0x0, 0x0, 0x0, 0x0, 0x0],
    [0x0, 0x0, 0x0, 0x0, 0x0, 0x0, 0x0, 0x0],
    [0x0, 0x0, 0x0, 0x0, 0x0, 0x0, 0x0, 0x5],
    [0xff, 0xff, 0xff, 0xff, 0xfa, 0x0, 0x0, 0x0],
    [0x0, 0x0, 0x0, 0x0, 0x0, 0x0, 0x0, 0x0],
    [0x0, 0x0, 0x0, 0x0, 0x0, 0x0, 0x0, 0x0],
    [0x0, 0x0, 0x0, 0x0, 0x0, 0x0, 0x9, 0xff],
    [0xff, 0xff, 0xff, 0xf5, 0x0, 0x0, 0x0, 0x0],
    [0x0, 0x0, 0x0, 0x0, 0x0, 0x0, 0x0, 0x0],
    [0x0, 0x0, 0x0, 0x0, 0x0, 0x0, 0x0, 0x0],
    [0x0, 0x0, 0x0, 0x0, 0x0, 0xc, 0xff, 0xff],
    [0xff, 0xff, 0xf0, 0x0, 0x0, 0x0, 0x0, 0x0],
    [0x0, 0x0, 0x0, 0x0, 0x0, 0x0, 0x0, 0x0],
    [0x0, 0x0, 0x0, 0x0, 0x0, 0x0, 0x0, 0x0],
    [0x0, 0x0, 0x0, 0x0, 0xf, 0xff, 0xff, 0xff],
    [0xff, 0xd0, 0x0, 0x0, 0x0, 0x0, 0x0, 0x0],
    [0x0, 0x0, 0x0, 0x0, 0x0, 0x0, 0x0, 0x0],
    [0x0, 0x0, 0x0, 0x0, 0x0, 0x0, 0x0, 0x0],
    [0x0, 0x0, 0x0, 0x1f, 0xff, 0xff, 0xff, 0xff],
    [0xa0, 0x0, 0x0, 0x0, 0x0, 0x0, 0x0, 0x0],
    [0x0, 0x0, 0x0, 0x0, 0x0, 0x0, 0x0, 0x0],
    [0x0, 0x0, 0x0, 0x0, 0x0, 0x0, 0x0, 0x0],
    [0x0, 0x0, 0x3f, 0xff, 0xff, 0xff, 0xff, 0x70],
    [0x0, 0x0, 0x0, 0x0, 0x0, 0x0, 0x0, 0x0],
    [0x0, 0x0, 0x0, 0x0, 0x0, 0x0, 0x0, 0x0],
    [0x0, 0x0, 0x0, 0x0, 0x0, 0x0, 0x0, 0x0],
    [0x0, 0x4f, 0xff, 0xff, 0xff, 0xff, 0x50, 0x0],
    [0x0, 0x0, 0x0, 0x0, 0x0, 0x0, 0x0, 0x0],
    [0x0, 0x0, 0x0, 0x0, 0x0, 0x0, 0x0, 0x0],
    [0x0, 0x0, 0x0, 0x0, 0x0, 0x0, 0x0, 0x0],
    [0x5f, 0xff, 0xff, 0xff, 0xff, 0x40, 0x0, 0x0],
    [0x0, 0x0, 0x0, 0x0, 0x0, 0x0, 0x0, 0x0],
    [0x0, 0x0, 0x0, 0x0, 0x0, 0x0, 0x0, 0x0],
    [0x0, 0x0, 0x0, 0x0, 0x0, 0x0, 0x0, 0x5f],
    [0xff, 0xff, 0xff, 0xff, 0x30, 0x0, 0x0, 0x0],
    [0x0, 0x0, 0x0, 0x0, 0x0, 0x0, 0x0, 0x0],
    [0x0, 0x0, 0x0, 0x0, 0x0, 0x0, 0x0, 0x0],
    [0x0, 0x0, 0x0, 0x0, 0x0, 0x0, 0x6f, 0xff],
    [0xff, 0xff, 0xff, 0x30, 0x0, 0x0, 0x0, 0x0],
    [0x0, 0x0, 0x0, 0x0, 0x0, 0x0, 0x0, 0x0],
    [0x0, 0x0, 0x0, 0x0, 0x0, 0x0, 0x0, 0x0],
    [0x0, 0x0, 0x0, 0x0, 0x0, 0x5f, 0xff, 0xff],
    [0xff, 0xff, 0x40, 0x0, 0x0, 0x0, 0x0, 0x0],
    [0x0, 0x0, 0x0, 0x0, 0x0, 0x0, 0x0, 0x0],
    [0x0, 0x0, 0x0, 0x0, 0x0, 0x0, 0x0, 0x0],
    [0x0, 0x0, 0x0, 0x0, 0x5f, 0xff, 0xff, 0xff],
    [0xff, 0x50, 0x0, 0x0, 0x0, 0x0, 0x0, 0x0],
    [0x0, 0x0, 0x0, 0x0, 0x0, 0x0, 0x0, 0x0],
    [0x0, 0x0, 0x0, 0x0, 0x0, 0x0, 0x0, 0x0],
    [0x0, 0x0, 0x0, 0x3f, 0xff, 0xff, 0xff, 0xff],
    [0x60, 0x0, 0x0, 0x0, 0x0, 0x0, 0x0, 0x0],
    [0x0, 0x0, 0x0, 0x0, 0x0, 0x0, 0x0, 0x0],
    [0x0, 0x0, 0x0, 0x0, 0x0, 0x0, 0x0, 0x0],
    [0x0, 0x0, 0x2f, 0xff, 0xff, 0xff, 0xff, 0x80]]"

lemma glyph_U0043_a_length: "length (concat glyph_U0043_a) = 1184"
  by (simp add: glyph_U0043_a_def)

definition glyph_U0043_b :: "u8 list list" where
  "glyph_U0043_b = [
    [0x0, 0x0, 0x0, 0x0, 0x0, 0x0, 0x0, 0x0],
    [0x0, 0x0, 0x0, 0x0, 0x0, 0x0, 0x0, 0x0],
    [0x0, 0x0, 0x0, 0x0, 0x0, 0x0, 0x0, 0x0],
    [0x0, 0xf, 0xff, 0xff, 0xff, 0xff, 0xb0, 0x0],
    [0x0, 0x0, 0x0, 0x0, 0x0, 0x0, 0x0, 0x0],
    [0x0, 0x0, 0x0, 0x0, 0x0, 0x0, 0x0, 0x0],
    [0x0, 0x0, 0x0, 0x0, 0x0, 0x0, 0x0, 0x0],
    [0xe, 0xff, 0xff, 0xff, 0xff, 0xe0, 0x0, 0x0],
    [0x0, 0x0, 0x0, 0x0, 0x0, 0x0, 0x0, 0x0],
    [0x0, 0x0, 0x0, 0x0, 0x0, 0x0, 0x0, 0x0],
    [0x0, 0x0, 0x0, 0x0, 0x0, 0x0, 0x0, 0xb],
    [0xff, 0xff, 0xff, 0xff, 0xf2, 0x0, 0x0, 0x0],
    [0x0, 0x0, 0x0, 0x0, 0x0, 0x0, 0x0, 0x0],
    [0x0, 0x0, 0x0, 0x0, 0x0, 0x0, 0x0, 0x0],
    [0x0, 0x0, 0x0, 0x0, 0x0, 0x0, 0x7, 0xff],
    [0xff, 0xff, 0xff, 0xf7, 0x0, 0x0, 0x0, 0x0],
    [0x0, 0x0, 0x0, 0x0, 0x0, 0x0, 0x0, 0x0],
    [0x0, 0x0, 0x0, 0x0, 0x0, 0x0, 0x0, 0x0],
    [0x0, 0x0, 0x0, 0x0, 0x0, 0x3, 0xff, 0xff],
    [0xff, 0xff, 0xfd, 0x0, 0x0, 0x0, 0x0, 0x0],
    [0x0, 0x0, 0x0, 0x0, 0x0, 0x0, 0x0, 0x0],
    [0x0, 0x0, 0x0, 0x0, 0x0, 0x0, 0x0, 0x0],
    [0x0, 0x0, 0x0, 0x0, 0x0, 0xef, 0xff, 0xff],
    [0xff, 0xff, 0x20, 0x0, 0x0, 0x0, 0x0, 0x0],
    [0x0, 0x0, 0x0, 0x0, 0x0, 0x0, 0x0, 0x0],
    [0x0, 0x0, 0x0, 0x0, 0x0, 0x0, 0x0, 0x0],
    [0x0, 0x0, 0x0, 0x0, 0xaf, 0xff, 0xff, 0xff],
    [0xff, 0xa0, 0x0, 0x0, 0x0, 0x0, 0x0, 0x0],
    [0x0, 0x0, 0x0, 0x0, 0x0, 0x0, 0x0, 0x0],
    [0x0, 0x0, 0x0, 0x0, 0x0, 0x0, 0x0, 0x0],
    [0x0, 0x0, 0x0, 0x4f, 0xff, 0xff, 0xff, 0xff],
    [0xf2, 0x0, 0x0, 0x0, 0x0, 0x0, 0x0, 0x0],
    [0x0, 0x0, 0x0, 0x0, 0x0, 0x0, 0x0, 0x0],
    [0x0, 0x0, 0x0, 0x0, 0x0, 0x0, 0x0, 0x0],
    [0x0, 0x0, 0xe, 0xff, 0xff, 0xff, 0xff, 0xfa],
    [0x0, 0x0, 0x0, 0x0, 0x0, 0x0, 0x0, 0x0],
    [0x0, 0x0, 0x0, 0x0, 0x0, 0x0, 0x0, 0x0],
    [0x0, 0x0, 0x0, 0x0, 0x0, 0x0, 0x0, 0x0],
    [0x0, 0x7, 0xff, 0xff, 0xff, 0xff, 0xff, 0x50],
    [0x0, 0x0, 0x0, 0x0, 0x0, 0x0, 0x0, 0x0],
    [0x0, 0x0, 0x0, 0x0, 0x0, 0x0, 0x0, 0x0],
    [0x0, 0x0, 0x0, 0x0, 0x0, 0x0, 0x0, 0x0],
    [0x1, 0xff, 0xff, 0xff, 0xff, 0xff, 0xe1, 0x0],
    [0x0, 0x0, 0x0, 0x0, 0x0, 0x0, 0x0, 0x0],
    [0x0, 0x0, 0x0, 0x0, 0x0, 0x0, 0x0, 0x0],
    [0x0, 0x0, 0x0, 0x0, 0x0, 0x0, 0x0, 0x0],
    [0x8f, 0xff, 0xff, 0xff, 0xff, 0xfb, 0x0, 0x0],
    [0x0, 0x0, 0x0, 0x0, 0x0, 0x0, 0x0, 0x0],
    [0x0, 0x0, 0x0, 0x0, 0x0, 0x0, 0x0, 0x0],
    [0x0, 0x0, 0x0, 0x0, 0x0, 0x0, 0x0, 0xe],
    [0xff, 0xff, 0xff, 0xff, 0xff, 0xa0, 0x0, 0x0],
    [0x0, 0x0, 0x0, 0x0, 0x0, 0x0, 0x0, 0x0],
    [0x0, 0x0, 0x0, 0x0, 0x0, 0x0, 0x0, 0x0],
    [0x0, 0x0, 0x0, 0x0, 0x0, 0x0, 0x5, 0xff],
    [0xff, 0xff, 0xff, 0xff, 0xf8, 0x0, 0x0, 0x0],
    [0x0, 0x0, 0x0, 0x0, 0x0, 0x0, 0x0, 0x0],
    [0x0, 0x0, 0x0, 0x0, 0x0, 0x0, 0x0, 0x2c],
    [0x20, 0x0, 0x0, 0x0, 0x0, 0x0, 0xaf, 0xff],
    [0xff, 0xff, 0xff, 0xff, 0x90, 0x0, 0x0, 0x0],
    [0x0, 0x0, 0x0, 0x0, 0x0, 0x0, 0x0, 0x0],
    [0x0, 0x0, 0x0, 0x0, 0x0, 0x2, 0xef, 0xe2],
    [0x0, 0x0, 0x0, 0x0, 0x0, 0xe, 0xff, 0xff],
    [0xff, 0xff, 0xff, 0xfc, 0x10, 0x0, 0x0, 0x0],
    [0x0, 0x0, 0x0, 0x0, 0x0, 0x0, 0x0, 0x0],
    [0x0, 0x0, 0x0, 0x0, 0x5f, 0xff, 0xfe, 0x30],
    [0x0, 0x0, 0x0, 0x0, 0x3, 0xff, 0xff, 0xff],
    [0xff, 0xff, 0xff, 0xe5, 0x0, 0x0, 0x0, 0x0],
    [0x0, 0x0, 0x0, 0x0, 0x0, 0x0, 0x0, 0x0],
    [0x0, 0x0, 0x8, 0xff, 0xff, 0xff, 0xf3, 0x0],
    [0x0, 0x0, 0x0, 0x0, 0x5f, 0xff, 0xff, 0xff],
    [0xff, 0xff, 0xff, 0xb2, 0x0, 0x0, 0x0, 0x0],
    [0x0, 0x0, 0x0, 0x0, 0x0, 0x0, 0x0, 0x0],
    [0x4, 0xdf, 0xff, 0xff, 0xff, 0xff, 0x40, 0x0],
    [0x0, 0x0, 0x0, 0x7, 0xff, 0xff, 0xff, 0xff],
    [0xff, 0xff, 0xff, 0xa3, 0x0, 0x0, 0x0, 0x0],
    [0x0, 0x0, 0x0, 0x0, 0x0, 0x0, 0x4, 0xcf],
    [0xff, 0xff, 0xff, 0xff, 0xff, 0xf4, 0x0, 0x0],
    [0x0, 0x0, 0x0, 0x8f, 0xff, 0xff, 0xff, 0xff],
    [0xff, 0xff, 0xff, 0xc7, 0x20, 0x0, 0x0, 0x0],
    [0x0, 0x0, 0x0, 0x0, 0x17, 0xdf, 0xff, 0xff],
    [0xff, 0xff, 0xff, 0xff, 0xf4, 0x0, 0x0, 0x0],
    [0x0, 0x0, 0x6, 0xff, 0xff, 0xff, 0xff, 0xff],
    [0xff, 0xff, 0xff, 0xfd, 0xa7, 0x42, 0x10, 0x0],
    [0x12, 0x46, 0x9d, 0xff, 0xff, 0xff, 0xff, 0xff],
    [0xff, 0xff, 0xff, 0x40, 0x0, 0x0, 0x0, 0x0],
    [0x0, 0x0, 0x4f, 0xff, 0xff, 0xff, 0xff, 0xff],
    [0xff, 0xff, 0xff, 0xff, 0xff, 0xff, 0xff, 0xff],
    [0xff, 0xff, 0xff, 0xff, 0xff, 0xff, 0xff, 0xff],
    [0xff, 0xe4, 0x0, 0x0, 0x0, 0x0, 0x0, 0x0],
    [0x0, 0x2, 0xdf, 0xff, 0xff, 0xff, 0xff, 0xff],
    [0xff, 0xff, 0xff, 0xff, 0xff, 0xff, 0xff, 0xff],
    [0xff, 0xff, 0xff, 0xff, 0xff, 0xff, 0xff, 0xfd],
    [0x20, 0x0, 0x0, 0x0, 0x0, 0x0, 0x0, 0x0],
    [0x0, 0x8, 0xff, 0xff, 0xff, 0xff, 0xff, 0xff],
    [0xff, 0xff, 0xff, 0xff, 0xff, 0xff, 0xff, 0xff],
    [0xff, 0xff, 0xff, 0xff, 0xff, 0xff, 0x90, 0x0],
    [0x0, 0x0, 0x0, 0x0, 0x0, 0x0, 0x0, 0x0],
    [0x0, 0x2c, 0xff, 0xff, 0xff, 0xff, 0xff, 0xff],
    [0xff, 0xff, 0xff, 0xff, 0xff, 0xff, 0xff, 0xff],
    [0xff, 0xff, 0xff, 0xff, 0xd4, 0x0, 0x0, 0x0],
    [0x0, 0x0, 0x0, 0x0, 0x0, 0x0, 0x0, 0x0],
    [0x0, 0x5d, 0xff, 0xff, 0xff, 0xff, 0xff, 0xff],
    [0xff, 0xff, 0xff, 0xff, 0xff, 0xff, 0xff, 0xff],
    [0xff, 0xff, 0xe7, 0x0, 0x0, 0x0, 0x0, 0x0],
    [0x0, 0x0, 0x0, 0x0, 0x0, 0x0, 0x0, 0x0],
    [0x0, 0x4b, 0xff, 0xff, 0xff, 0xff, 0xff, 0xff],
    [0xff, 0xff, 0xff, 0xff, 0xff, 0xff, 0xff, 0xff],
    [0xd6, 0x0, 0x0, 0x0, 0x0, 0x0, 0x0, 0x0],
    [0x0, 0x0, 0x0, 0x0, 0x0, 0x0, 0x0, 0x0],
    [0x0, 0x27, 0xdf, 0xff, 0xff, 0xff, 0xff, 0xff],
    [0xff, 0xff, 0xff, 0xff, 0xff, 0xfe, 0x83, 0x0],
    [0x0, 0x0, 0x0, 0x0, 0x0, 0x0, 0x0, 0x0],
    [0x0, 0x0, 0x0, 0x0, 0x0, 0x0, 0x0, 0x0],
    [0x0, 0x1, 0x59, 0xcf, 0xff, 0xff, 0xff, 0xff],
    [0xff, 0xff, 0xfd, 0xa6, 0x20, 0x0, 0x0, 0x0],
    [0x0, 0x0, 0x0, 0x0, 0x0, 0x0, 0x0, 0x0],
    [0x0, 0x0, 0x0, 0x0, 0x0, 0x0, 0x0, 0x0],
    [0x0, 0x0, 0x0, 0x13, 0x56, 0x77, 0x77, 0x65],
    [0x42, 0x0, 0x0, 0x0, 0x0, 0x0, 0x0, 0x0],
    [0x0, 0x0, 0x0]]"

lemma glyph_U0043_b_length: "length (concat glyph_U0043_b) = 955"
  by (simp add: glyph_U0043_b_def)

definition glyph_U0044_a :: "u8 list list" where
  "glyph_U0044_a = [
    [0xef, 0xff, 0xff, 0xff, 0xff, 0xff, 0xff, 0xff],
    [0xff, 0xff, 0xff, 0xff, 0xff, 0xff, 0xff, 0xfe],
    [0xdb, 0x97, 0x52, 0x0, 0x0, 0x0, 0x0, 0x0],
    [0x0, 0x0, 0x0, 0x0, 0x0, 0x0, 0x0, 0x0],
    [0xe, 0xff, 0xff, 0xff, 0xff, 0xff, 0xff, 0xff],
    [0xff, 0xff, 0xff, 0xff, 0xff, 0xff, 0xff, 0xff],
    [0xff, 0xff, 0xff, 0xfe, 0xa6, 0x10, 0x0, 0x0],
    [0x0, 0x0, 0x0, 0x0, 0x0, 0x0, 0x0, 0x0],
    [0x0, 0xef, 0xff, 0xff, 0xff, 0xff, 0xff, 0xff],
    [0xff, 0xff, 0xff, 0xff, 0xff, 0xff, 0xff, 0xff],
    [0xff, 0xff, 0xff, 0xff, 0xff, 0xff, 0xc7, 0x10],
    [0x0, 0x0, 0x0, 0x0, 0x0, 0x0, 0x0, 0x0],
    [0x0, 0xe, 0xff, 0xff, 0xff, 0xff, 0xff, 0xff],
    [0xff, 0xff, 0xff, 0xff, 0xff, 0xff, 0xff, 0xff],
    [0xff, 0xff, 0xff, 0xff, 0xff, 0xff, 0xff, 0xff],
    [0xa2, 0x0, 0x0, 0x0, 0x0, 0x0, 0x0, 0x0],
    [0x0, 0x0, 0xef, 0xff, 0xff, 0xff, 0xff, 0xff],
    [0xff, 0xff, 0xff, 0xff, 0xff, 0xff, 0xff, 0xff],
    [0xff, 0xff, 0xff, 0xff, 0xff, 0xff, 0xff, 0xff],
    [0xff, 0xfa, 0x10, 0x0, 0x0, 0x0, 0x0, 0x0],
    [0x0, 0x0, 0xe, 0xff, 0xff, 0xff, 0xff, 0xff],
    [0xff, 0xff, 0xff, 0xff, 0xff, 0xff, 0xff, 0xff],
    [0xff, 0xff, 0xff, 0xff, 0xff, 0xff, 0xff, 0xff],
    [0xff, 0xff, 0xff, 0x70, 0x0, 0x0, 0x0, 0x0],
    [0x0, 0x0, 0x0, 0xef, 0xff, 0xff, 0xff, 0xff],
    [0xff, 0xff, 0xff, 0xff, 0xff, 0xff, 0xff, 0xff],
    [0xff, 0xff, 0xff, 0xff, 0xff, 0xff, 0xff, 0xff],
    [0xff, 0xff, 0xff, 0xff, 0xd3, 0x0, 0x0, 0x0],
    [0x0, 0x0, 0x0, 0xe, 0xff, 0xff, 0xff, 0xff],
    [0xff, 0xff, 0xff, 0xff, 0xff, 0xff, 0xff, 0xff],
    [0xff, 0xff, 0xff, 0xff, 0xff, 0xff, 0xff, 0xff],
    [0xff, 0xff, 0xff, 0xff, 0xff, 0xf6, 0x0, 0x0],
    [0x0, 0x0, 0x0, 0x0, 0xef, 0xff, 0xff, 0xff],
    [0xfc, 0x44, 0x44, 0x44, 0x44, 0x44, 0x44, 0x44],
    [0x44, 0x44, 0x56, 0x67, 0x9c, 0xef, 0xff, 0xff],
    [0xff, 0xff, 0xff, 0xff, 0xff, 0xff, 0xfa, 0x0],
    [0x0, 0x0, 0x0, 0x0, 0xe, 0xff, 0xff, 0xff],
    [0xff, 0xb0, 0x0, 0x0, 0x0, 0x0, 0x0, 0x0],
    [0x0, 0x0, 0x0, 0x0, 0x0, 0x0, 0x16, 0xaf],
    [0xff, 0xff, 0xff, 0xff, 0xff, 0xff, 0xff, 0xfc],
    [0x0, 0x0, 0x0, 0x0, 0x0, 0xef, 0xff, 0xff],
    [0xff, 0xfb, 0x0, 0x0, 0x0, 0x0, 0x0, 0x0],
    [0x0, 0x0, 0x0, 0x0, 0x0, 0x0, 0x0, 0x0],
    [0x5, 0xcf, 0xff, 0xff, 0xff, 0xff, 0xff, 0xff],
    [0xfc, 0x0, 0x0, 0x0, 0x0, 0xe, 0xff, 0xff],
    [0xff, 0xff, 0xb0, 0x0, 0x0, 0x0, 0x0, 0x0],
    [0x0, 0x0, 0x0, 0x0, 0x0, 0x0, 0x0, 0x0],
    [0x0, 0x0, 0x2a, 0xff, 0xff, 0xff, 0xff, 0xff],
    [0xff, 0xfb, 0x0, 0x0, 0x0, 0x0, 0xef, 0xff],
    [0xff, 0xff, 0xfb, 0x0, 0x0, 0x0, 0x0, 0x0],
    [0x0, 0x0, 0x0, 0x0, 0x0, 0x0, 0x0, 0x0],
    [0x0, 0x0, 0x0, 0x4, 0xdf, 0xff, 0xff, 0xff],
    [0xff, 0xff, 0xfa, 0x0, 0x0, 0x0, 0xe, 0xff],
    [0xff, 0xff, 0xff, 0xb0, 0x0, 0x0, 0x0, 0x0],
    [0x0, 0x0, 0x0, 0x0, 0x0, 0x0, 0x0, 0x0],
    [0x0, 0x0, 0x0, 0x0, 0x0, 0x8f, 0xff, 0xff],
    [0xff, 0xff, 0xff, 0xf5, 0x0, 0x0, 0x0, 0xef],
    [0xff, 0xff, 0xff, 0xfb, 0x0, 0x0, 0x0, 0x0],
    [0x0, 0x0, 0x0, 0x0, 0x0, 0x0, 0x0, 0x0],
    [0x0, 0x0, 0x0, 0x0, 0x0, 0x0, 0x5f, 0xff],
    [0xff, 0xff, 0xff, 0xff, 0xe1, 0x0, 0x0, 0xe],
    [0xff, 0xff, 0xff, 0xff, 0xb0, 0x0, 0x0, 0x0],
    [0x0, 0x0, 0x0, 0x0, 0x0, 0x0, 0x0, 0x0],
    [0x0, 0x0, 0x0, 0x0, 0x0, 0x0, 0x0, 0x3e],
    [0xff, 0xff, 0xff, 0xff, 0xff, 0xb0, 0x0, 0x0],
    [0xef, 0xff, 0xff, 0xff, 0xfb, 0x0, 0x0, 0x0],
    [0x0, 0x0, 0x0, 0x0, 0x0, 0x0, 0x0, 0x0],
    [0x0, 0x0, 0x0, 0x0, 0x0, 0x0, 0x0, 0x0],
    [0x3f, 0xff, 0xff, 0xff, 0xff, 0xff, 0x60, 0x0],
    [0xe, 0xff, 0xff, 0xff, 0xff, 0xb0, 0x0, 0x0],
    [0x0, 0x0, 0x0, 0x0, 0x0, 0x0, 0x0, 0x0],
    [0x0, 0x0, 0x0, 0x0, 0x0, 0x0, 0x0, 0x0],
    [0x0, 0x4f, 0xff, 0xff, 0xff, 0xff, 0xfe, 0x0],
    [0x0, 0xef, 0xff, 0xff, 0xff, 0xfb, 0x0, 0x0],
    [0x0, 0x0, 0x0, 0x0, 0x0, 0x0, 0x0, 0x0],
    [0x0, 0x0, 0x0, 0x0, 0x0, 0x0, 0x0, 0x0],
    [0x0, 0x0, 0x8f, 0xff, 0xff, 0xff, 0xff, 0xf6],
    [0x0, 0xe, 0xff, 0xff, 0xff, 0xff, 0xb0, 0x0],
    [0x0, 0x0, 0x0, 0x0, 0x0, 0x0, 0x0, 0x0],
    [0x0, 0x0, 0x0, 0x0, 0x0, 0x0, 0x0, 0x0],
    [0x0, 0x0, 0x0, 0xdf, 0xff, 0xff, 0xff, 0xff],
    [0xe0, 0x0, 0xef, 0xff, 0xff, 0xff, 0xfb, 0x0],
    [0x0, 0x0, 0x0, 0x0, 0x0, 0x0, 0x0, 0x0],
    [0x0, 0x0, 0x0, 0x0, 0x0, 0x0, 0x0, 0x0],
    [0x0, 0x0, 0x0, 0x3, 0xff, 0xff, 0xff, 0xff],
    [0xff, 0x50, 0xe, 0xff, 0xff, 0xff, 0xff, 0xb0],
    [0x0, 0x0, 0x0, 0x0, 0x0, 0x0, 0x0, 0x0],
    [0x0, 0x0, 0x0, 0x0, 0x0, 0x0, 0x0, 0x0],
    [0x0, 0x0, 0x0, 0x0, 0xa, 0xff, 0xff, 0xff],
    [0xff, 0xfb, 0x0, 0xef, 0xff, 0xff, 0xff, 0xfb],
    [0x0, 0x0, 0x0, 0x0, 0x0, 0x0, 0x0, 0x0],
    [0x0, 0x0, 0x0, 0x0, 0x0, 0x0, 0x0, 0x0],
    [0x0, 0x0, 0x0, 0x0, 0x0, 0x3f, 0xff, 0xff],
    [0xff, 0xff, 0xf0, 0xe, 0xff, 0xff, 0xff, 0xff],
    [0xb0, 0x0, 0x0, 0x0, 0x0, 0x0, 0x0, 0x0],
    [0x0, 0x0, 0x0, 0x0, 0x0, 0x0, 0x0, 0x0],
    [0x0, 0x0, 0x0, 0x0, 0x0, 0x0, 0xbf, 0xff],
    [0xff, 0xff, 0xff, 0x50, 0xef, 0xff, 0xff, 0xff],
    [0xfb, 0x0, 0x0, 0x0, 0x0, 0x0, 0x0, 0x0],
    [0x0, 0x0, 0x0, 0x0, 0x0, 0x0, 0x0, 0x0],
    [0x0, 0x0, 0x0, 0x0, 0x0, 0x0, 0x6, 0xff],
    [0xff, 0xff, 0xff, 0xf9, 0xe, 0xff, 0xff, 0xff],
    [0xff, 0xb0, 0x0, 0x0, 0x0, 0x0, 0x0, 0x0],
    [0x0, 0x0, 0x0, 0x0, 0x0, 0x0, 0x0, 0x0],
    [0x0, 0x0, 0x0, 0x0, 0x0, 0x0, 0x0, 0x1f],
    [0xff, 0xff, 0xff, 0xff, 0xd0, 0xef, 0xff, 0xff],
    [0xff, 0xfb, 0x0, 0x0, 0x0, 0x0, 0x0, 0x0],
    [0x0, 0x0, 0x0, 0x0, 0x0, 0x0, 0x0, 0x0],
    [0x0, 0x0, 0x0, 0x0, 0x0, 0x0, 0x0, 0x0],
    [0xcf, 0xff, 0xff, 0xff, 0xff, 0xe, 0xff, 0xff],
    [0xff, 0xff, 0xb0, 0x0, 0x0, 0x0, 0x0, 0x0],
    [0x0, 0x0, 0x0, 0x0, 0x0, 0x0, 0x0, 0x0],
    [0x0, 0x0, 0x0, 0x0, 0x0, 0x0, 0x0, 0x0],
    [0x8, 0xff, 0xff, 0xff, 0xff, 0xf3, 0xef, 0xff],
    [0xff, 0xff, 0xfb, 0x0, 0x0, 0x0, 0x0, 0x0],
    [0x0, 0x0, 0x0, 0x0, 0x0, 0x0, 0x0, 0x0],
    [0x0, 0x0, 0x0, 0x0, 0x0, 0x0, 0x0, 0x0],
    [0x0, 0x6f, 0xff, 0xff, 0xff, 0xff, 0x5e, 0xff],
    [0xff, 0xff, 0xff, 0xb0, 0x0, 0x0, 0x0, 0x0],
    [0x0, 0x0, 0x0, 0x0, 0x0, 0x0, 0x0, 0x0],
    [0x0, 0x0, 0x0, 0x0, 0x0, 0x0, 0x0, 0x0],
    [0x0, 0x3, 0xff, 0xff, 0xff, 0xff, 0xf7, 0xef],
    [0xff, 0xff, 0xff, 0xfb, 0x0, 0x0, 0x0, 0x0],
    [0x0, 0x0, 0x0, 0x0, 0x0, 0x0, 0x0, 0x0],
    [0x0, 0x0, 0x0, 0x0, 0x0, 0x0, 0x0, 0x0],
    [0x0, 0x0, 0x1f, 0xff, 0xff, 0xff, 0xff, 0x8e],
    [0xff, 0xff, 0xff, 0xff, 0xb0, 0x0, 0x0, 0x0],
    [0x0, 0x0, 0x0, 0x0, 0x0, 0x0, 0x0, 0x0],
    [0x0, 0x0, 0x0, 0x0, 0x0, 0x0, 0x0, 0x0],
    [0x0, 0x0, 0x0, 0xff, 0xff, 0xff, 0xff, 0xfa],
    [0xef, 0xff, 0xff, 0xff, 0xfb, 0x0, 0x0, 0x0],
    [0x0, 0x0, 0x0, 0x0, 0x0, 0x0, 0x0, 0x0],
    [0x0, 0x0, 0x0, 0x0, 0x0, 0x0, 0x0, 0x0],
    [0x0, 0x0, 0x0, 0xf, 0xff, 0xff, 0xff, 0xff],
    [0xae, 0xff, 0xff, 0xff, 0xff, 0xb0, 0x0, 0x0],
    [0x0, 0x0, 0x0, 0x0, 0x0, 0x0, 0x0, 0x0],
    [0x0, 0x0, 0x0, 0x0, 0x0, 0x0, 0x0, 0x0],
    [0x0, 0x0, 0x0, 0x0, 0xef, 0xff, 0xff, 0xff],
    [0xfa, 0xef, 0xff, 0xff, 0xff, 0xfb, 0x0, 0x0],
    [0x0, 0x0, 0x0, 0x0, 0x0, 0x0, 0x0, 0x0],
    [0x0, 0x0, 0x0, 0x0, 0x0, 0x0, 0x0, 0x0],
    [0x0, 0x0, 0x0, 0x0, 0xf, 0xff, 0xff, 0xff],
    [0xff, 0xae, 0xff, 0xff, 0xff, 0xff, 0xb0, 0x0],
    [0x0, 0x0, 0x0, 0x0, 0x0, 0x0, 0x0, 0x0],
    [0x0, 0x0, 0x0, 0x0, 0x0, 0x0, 0x0, 0x0],
    [0x0, 0x0, 0x0, 0x0, 0x0, 0xff, 0xff, 0xff],
    [0xff, 0xfa, 0xef, 0xff, 0xff, 0xff, 0xfb, 0x0],
    [0x0, 0x0, 0x0, 0x0, 0x0, 0x0, 0x0, 0x0]]"

lemma glyph_U0044_a_length: "length (concat glyph_U0044_a) = 1184"
  by (simp add: glyph_U0044_a_def)

definition glyph_U0044_b :: "u8 list list" where
  "glyph_U0044_b = [
    [0x0, 0x0, 0x0, 0x0, 0x0, 0x0, 0x0, 0x0],
    [0x0, 0x0, 0x0, 0x0, 0x0, 0x1f, 0xff, 0xff],
    [0xff, 0xff, 0x8e, 0xff, 0xff, 0xff, 0xff, 0xb0],
    [0x0, 0x0, 0x0, 0x0, 0x0, 0x0, 0x0, 0x0],
    [0x0, 0x0, 0x0, 0x0, 0x0, 0x0, 0x0, 0x0],
    [0x0, 0x0, 0x0, 0x0, 0x0, 0x2, 0xff, 0xff],
    [0xff, 0xff, 0xf7, 0xef, 0xff, 0xff, 0xff, 0xfb],
    [0x0, 0x0, 0x0, 0x0, 0x0, 0x0, 0x0, 0x0],
    [0x0, 0x0, 0x0, 0x0, 0x0, 0x0, 0x0, 0x0],
    [0x0, 0x0, 0x0, 0x0, 0x0, 0x0, 0x5f, 0xff],
    [0xff, 0xff, 0xff, 0x5e, 0xff, 0xff, 0xff, 0xff],
    [0xb0, 0x0, 0x0, 0x0, 0x0, 0x0, 0x0, 0x0],
    [0x0, 0x0, 0x0, 0x0, 0x0, 0x0, 0x0, 0x0],
    [0x0, 0x0, 0x0, 0x0, 0x0, 0x0, 0x8, 0xff],
    [0xff, 0xff, 0xff, 0xf3, 0xef, 0xff, 0xff, 0xff],
    [0xfb, 0x0, 0x0, 0x0, 0x0, 0x0, 0x0, 0x0],
    [0x0, 0x0, 0x0, 0x0, 0x0, 0x0, 0x0, 0x0],
    [0x0, 0x0, 0x0, 0x0, 0x0, 0x0, 0x0, 0xcf],
    [0xff, 0xff, 0xff, 0xff, 0xe, 0xff, 0xff, 0xff],
    [0xff, 0xb0, 0x0, 0x0, 0x0, 0x0, 0x0, 0x0],
    [0x0, 0x0, 0x0, 0x0, 0x0, 0x0, 0x0, 0x0],
    [0x0, 0x0, 0x0, 0x0, 0x0, 0x0, 0x0, 0x1f],
    [0xff, 0xff, 0xff, 0xff, 0xd0, 0xef, 0xff, 0xff],
    [0xff, 0xfb, 0x0, 0x0, 0x0, 0x0, 0x0, 0x0],
    [0x0, 0x0, 0x0, 0x0, 0x0, 0x0, 0x0, 0x0],
    [0x0, 0x0, 0x0, 0x0, 0x0, 0x0, 0x0, 0x6],
    [0xff, 0xff, 0xff, 0xff, 0xf9, 0xe, 0xff, 0xff],
    [0xff, 0xff, 0xb0, 0x0, 0x0, 0x0, 0x0, 0x0],
    [0x0, 0x0, 0x0, 0x0, 0x0, 0x0, 0x0, 0x0],
    [0x0, 0x0, 0x0, 0x0, 0x0, 0x0, 0x0, 0x0],
    [0xbf, 0xff, 0xff, 0xff, 0xff, 0x50, 0xef, 0xff],
    [0xff, 0xff, 0xfb, 0x0, 0x0, 0x0, 0x0, 0x0],
    [0x0, 0x0, 0x0, 0x0, 0x0, 0x0, 0x0, 0x0],
    [0x0, 0x0, 0x0, 0x0, 0x0, 0x0, 0x0, 0x0],
    [0x2f, 0xff, 0xff, 0xff, 0xff, 0xf0, 0xe, 0xff],
    [0xff, 0xff, 0xff, 0xb0, 0x0, 0x0, 0x0, 0x0],
    [0x0, 0x0, 0x0, 0x0, 0x0, 0x0, 0x0, 0x0],
    [0x0, 0x0, 0x0, 0x0, 0x0, 0x0, 0x0, 0x0],
    [0xa, 0xff, 0xff, 0xff, 0xff, 0xfb, 0x0, 0xef],
    [0xff, 0xff, 0xff, 0xfb, 0x0, 0x0, 0x0, 0x0],
    [0x0, 0x0, 0x0, 0x0, 0x0, 0x0, 0x0, 0x0],
    [0x0, 0x0, 0x0, 0x0, 0x0, 0x0, 0x0, 0x0],
    [0x3, 0xff, 0xff, 0xff, 0xff, 0xff, 0x50, 0xe],
    [0xff, 0xff, 0xff, 0xff, 0xb0, 0x0, 0x0, 0x0],
    [0x0, 0x0, 0x0, 0x0, 0x0, 0x0, 0x0, 0x0],
    [0x0, 0x0, 0x0, 0x0, 0x0, 0x0, 0x0, 0x0],
    [0x0, 0xcf, 0xff, 0xff, 0xff, 0xff, 0xe0, 0x0],
    [0xef, 0xff, 0xff, 0xff, 0xfb, 0x0, 0x0, 0x0],
    [0x0, 0x0, 0x0, 0x0, 0x0, 0x0, 0x0, 0x0],
    [0x0, 0x0, 0x0, 0x0, 0x0, 0x0, 0x0, 0x0],
    [0x0, 0x8f, 0xff, 0xff, 0xff, 0xff, 0xf6, 0x0],
    [0xe, 0xff, 0xff, 0xff, 0xff, 0xb0, 0x0, 0x0],
    [0x0, 0x0, 0x0, 0x0, 0x0, 0x0, 0x0, 0x0],
    [0x0, 0x0, 0x0, 0x0, 0x0, 0x0, 0x0, 0x0],
    [0x0, 0x4f, 0xff, 0xff, 0xff, 0xff, 0xfe, 0x0],
    [0x0, 0xef, 0xff, 0xff, 0xff, 0xfb, 0x0, 0x0],
    [0x0, 0x0, 0x0, 0x0, 0x0, 0x0, 0x0, 0x0],
    [0x0, 0x0, 0x0, 0x0, 0x0, 0x0, 0x0, 0x0],
    [0x0, 0x3f, 0xff, 0xff, 0xff, 0xff, 0xff, 0x60],
    [0x0, 0xe, 0xff, 0xff, 0xff, 0xff, 0xb0, 0x0],
    [0x0, 0x0, 0x0, 0x0, 0x0, 0x0, 0x0, 0x0],
    [0x0, 0x0, 0x0, 0x0, 0x0, 0x0, 0x0, 0x0],
    [0x0, 0x2e, 0xff, 0xff, 0xff, 0xff, 0xff, 0xb0],
    [0x0, 0x0, 0xef, 0xff, 0xff, 0xff, 0xfb, 0x0],
    [0x0, 0x0, 0x0, 0x0, 0x0, 0x0, 0x0, 0x0],
    [0x0, 0x0, 0x0, 0x0, 0x0, 0x0, 0x0, 0x0],
    [0x0, 0x5f, 0xff, 0xff, 0xff, 0xff, 0xff, 0xf1],
    [0x0, 0x0, 0xe, 0xff, 0xff, 0xff, 0xff, 0xb0],
    [0x0, 0x0, 0x0, 0x0, 0x0, 0x0, 0x0, 0x0],
    [0x0, 0x0, 0x0, 0x0, 0x0, 0x0, 0x0, 0x0],
    [0x0, 0x8f, 0xff, 0xff, 0xff, 0xff, 0xff, 0xf5],
    [0x0, 0x0, 0x0, 0xef, 0xff, 0xff, 0xff, 0xfb],
    [0x0, 0x0, 0x0, 0x0, 0x0, 0x0, 0x0, 0x0],
    [0x0, 0x0, 0x0, 0x0, 0x0, 0x0, 0x0, 0x0],
    [0x3, 0xdf, 0xff, 0xff, 0xff, 0xff, 0xff, 0xfa],
    [0x0, 0x0, 0x0, 0xe, 0xff, 0xff, 0xff, 0xff],
    [0xb0, 0x0, 0x0, 0x0, 0x0, 0x0, 0x0, 0x0],
    [0x0, 0x0, 0x0, 0x0, 0x0, 0x0, 0x0, 0x0],
    [0x2a, 0xff, 0xff, 0xff, 0xff, 0xff, 0xff, 0xfb],
    [0x0, 0x0, 0x0, 0x0, 0xef, 0xff, 0xff, 0xff],
    [0xfb, 0x0, 0x0, 0x0, 0x0, 0x0, 0x0, 0x0],
    [0x0, 0x0, 0x0, 0x0, 0x0, 0x0, 0x0, 0x4],
    [0xbf, 0xff, 0xff, 0xff, 0xff, 0xff, 0xff, 0xfc],
    [0x0, 0x0, 0x0, 0x0, 0xe, 0xff, 0xff, 0xff],
    [0xff, 0xb0, 0x0, 0x0, 0x0, 0x0, 0x0, 0x0],
    [0x0, 0x0, 0x0, 0x0, 0x0, 0x0, 0x15, 0xae],
    [0xff, 0xff, 0xff, 0xff, 0xff, 0xff, 0xff, 0xfc],
    [0x0, 0x0, 0x0, 0x0, 0x0, 0xef, 0xff, 0xff],
    [0xff, 0xfc, 0x44, 0x44, 0x44, 0x44, 0x44, 0x44],
    [0x44, 0x44, 0x44, 0x56, 0x67, 0x9c, 0xef, 0xff],
    [0xff, 0xff, 0xff, 0xff, 0xff, 0xff, 0xff, 0xfa],
    [0x0, 0x0, 0x0, 0x0, 0x0, 0xe, 0xff, 0xff],
    [0xff, 0xff, 0xff, 0xff, 0xff, 0xff, 0xff, 0xff],
    [0xff, 0xff, 0xff, 0xff, 0xff, 0xff, 0xff, 0xff],
    [0xff, 0xff, 0xff, 0xff, 0xff, 0xff, 0xff, 0xf7],
    [0x0, 0x0, 0x0, 0x0, 0x0, 0x0, 0xef, 0xff],
    [0xff, 0xff, 0xff, 0xff, 0xff, 0xff, 0xff, 0xff],
    [0xff, 0xff, 0xff, 0xff, 0xff, 0xff, 0xff, 0xff],
    [0xff, 0xff, 0xff, 0xff, 0xff, 0xff, 0xff, 0xd4],
    [0x0, 0x0, 0x0, 0x0, 0x0, 0x0, 0xe, 0xff],
    [0xff, 0xff, 0xff, 0xff, 0xff, 0xff, 0xff, 0xff],
    [0xff, 0xff, 0xff, 0xff, 0xff, 0xff, 0xff, 0xff],
    [0xff, 0xff, 0xff, 0xff, 0xff, 0xff, 0xff, 0x70],
    [0x0, 0x0, 0x0, 0x0, 0x0, 0x0, 0x0, 0xef],
    [0xff, 0xff, 0xff, 0xff, 0xff, 0xff, 0xff, 0xff],
    [0xff, 0xff, 0xff, 0xff, 0xff, 0xff, 0xff, 0xff],
    [0xff, 0xff, 0xff, 0xff, 0xff, 0xff, 0xfa, 0x20],
    [0x0, 0x0, 0x0, 0x0, 0x0, 0x0, 0x0, 0xe],
    [0xff, 0xff, 0xff, 0xff, 0xff, 0xff, 0xff, 0xff],
    [0xff, 0xff, 0xff, 0xff, 0xff, 0xff, 0xff, 0xff],
    [0xff, 0xff, 0xff, 0xff, 0xff, 0xff, 0xa2, 0x0],
    [0x0, 0x0, 0x0, 0x0, 0x0, 0x0, 0x0, 0x0],
    [0xef, 0xff, 0xff, 0xff, 0xff, 0xff, 0xff, 0xff],
    [0xff, 0xff, 0xff, 0xff, 0xff, 0xff, 0xff, 0xff],
    [0xff, 0xff, 0xff, 0xff, 0xff, 0xc7, 0x10, 0x0],
    [0x0, 0x0, 0x0, 0x0, 0x0, 0x0, 0x0, 0x0],
    [0xe, 0xff, 0xff, 0xff, 0xff, 0xff, 0xff, 0xff],
    [0xff, 0xff, 0xff, 0xff, 0xff, 0xff, 0xff, 0xff],
    [0xff, 0xff, 0xff, 0xfe, 0xb6, 0x20, 0x0, 0x0],
    [0x0, 0x0, 0x0, 0x0, 0x0, 0x0, 0x0, 0x0],
    [0x0, 0xef, 0xff, 0xff, 0xff, 0xff, 0xff, 0xff],
    [0xff, 0xff, 0xff, 0xff, 0xff, 0xff, 0xff, 0xff],
    [0xfe, 0xdb, 0x97, 0x52, 0x0, 0x0, 0x0, 0x0],
    [0x0, 0x0, 0x0, 0x0, 0x0, 0x0, 0x0, 0x0],
    [0x0, 0x0]]"

lemma glyph_U0044_b_length: "length (concat glyph_U0044_b) = 994"
  by (simp add: glyph_U0044_b_def)

text \<open>The bitmaps of these glyphs, in the order of the table.\<close>

definition bitmaps_ad :: "bytes list" where
  "bitmaps_ad = [
    concat glyph_U003B,
    concat glyph_U003C,
    concat glyph_U003D,
    concat glyph_U003E,
    concat glyph_U003F_a @ concat glyph_U003F_b,
    concat glyph_U0040_a @ concat glyph_U0040_b @ concat glyph_U0040_c @ concat glyph_U0040_d,
    concat glyph_U0041_a @ concat glyph_U0041_b @ concat glyph_U0041_c,
    concat glyph_U0042_a @ concat glyph_U0042_b,
    concat glyph_U0043_a @ concat glyph_U0043_b,
    concat glyph_U0044_a @ concat glyph_U0044_b]"

lemma bitmaps_ad_lengths: "map length bitmaps_ad = [455, 946, 660, 946, 1691, 3959, 2412, 1943, 2139, 2178]"
  by (simp add: bitmaps_ad_def
    glyph_U003B_length
    glyph_U003C_length
    glyph_U003D_length
    glyph_U003E_length
    glyph_U003F_a_length glyph_U003F_b_length
    glyph_U0040_a_length glyph_U0040_b_length glyph_U0040_c_length glyph_U0040_d_length
    glyph_U0041_a_length glyph_U0041_b_length glyph_U0041_c_length
    glyph_U0042_a_length glyph_U0042_b_length
    glyph_U0043_a_length glyph_U0043_b_length
    glyph_U0044_a_length glyph_U0044_b_length)

end
