(* ===== verification/Montserrat_EO.thy ===== *)
theory Montserrat_EO
  imports Prelude
begin

text \<open>
  \<open>firmware/housepanel-giga/montserrat_96.c\<close>: the bitmaps of the glyphs U+0045 to U+004F. Each glyph is
  a list with one row per line of the source; a glyph of more than 148 lines is split in parts.
\<close>

definition glyph_U0045_a :: "u8 list list" where
  "glyph_U0045_a = [
    [0xef, 0xff, 0xff, 0xff, 0xff, 0xff, 0xff, 0xff],
    [0xff, 0xff, 0xff, 0xff, 0xff, 0xff, 0xff, 0xff],
    [0xff, 0xff, 0xff, 0xff, 0xff, 0xff, 0xff, 0xf8],
    [0xe, 0xff, 0xff, 0xff, 0xff, 0xff, 0xff, 0xff],
    [0xff, 0xff, 0xff, 0xff, 0xff, 0xff, 0xff, 0xff],
    [0xff, 0xff, 0xff, 0xff, 0xff, 0xff, 0xff, 0xff],
    [0x80, 0xef, 0xff, 0xff, 0xff, 0xff, 0xff, 0xff],
    [0xff, 0xff, 0xff, 0xff, 0xff, 0xff, 0xff, 0xff],
    [0xff, 0xff, 0xff, 0xff, 0xff, 0xff, 0xff, 0xff],
    [0xf8, 0xe, 0xff, 0xff, 0xff, 0xff, 0xff, 0xff],
    [0xff, 0xff, 0xff, 0xff, 0xff, 0xff, 0xff, 0xff],
    [0xff, 0xff, 0xff, 0xff, 0xff, 0xff, 0xff, 0xff],
    [0xff, 0x80, 0xef, 0xff, 0xff, 0xff, 0xff, 0xff],
    [0xff, 0xff, 0xff, 0xff, 0xff, 0xff, 0xff, 0xff],
    [0xff, 0xff, 0xff, 0xff, 0xff, 0xff, 0xff, 0xff],
    [0xff, 0xf8, 0xe, 0xff, 0xff, 0xff, 0xff, 0xff],
    [0xff, 0xff, 0xff, 0xff, 0xff, 0xff, 0xff, 0xff],
    [0xff, 0xff, 0xff, 0xff, 0xff, 0xff, 0xff, 0xff],
    [0xff, 0xff, 0x80, 0xef, 0xff, 0xff, 0xff, 0xff],
    [0xff, 0xff, 0xff, 0xff, 0xff, 0xff, 0xff, 0xff],
    [0xff, 0xff, 0xff, 0xff, 0xff, 0xff, 0xff, 0xff],
    [0xff, 0xff, 0xf8, 0xe, 0xff, 0xff, 0xff, 0xff],
    [0xff, 0xff, 0xff, 0xff, 0xff, 0xff, 0xff, 0xff],
    [0xff, 0xff, 0xff, 0xff, 0xff, 0xff, 0xff, 0xff],
    [0xff, 0xff, 0xff, 0x80, 0xef, 0xff, 0xff, 0xff],
    [0xfc, 0x44, 0x44, 0x44, 0x44, 0x44, 0x44, 0x44],
    [0x44, 0x44, 0x44, 0x44, 0x44, 0x44, 0x44, 0x44],
    [0x44, 0x44, 0x44, 0x42, 0xe, 0xff, 0xff, 0xff],
    [0xff, 0xb0, 0x0, 0x0, 0x0, 0x0, 0x0, 0x0],
    [0x0, 0x0, 0x0, 0x0, 0x0, 0x0, 0x0, 0x0],
    [0x0, 0x0, 0x0, 0x0, 0x0, 0xef, 0xff, 0xff],
    [0xff, 0xfb, 0x0, 0x0, 0x0, 0x0, 0x0, 0x0],
    [0x0, 0x0, 0x0, 0x0, 0x0, 0x0, 0x0, 0x0],
    [0x0, 0x0, 0x0, 0x0, 0x0, 0xe, 0xff, 0xff],
    [0xff, 0xff, 0xb0, 0x0, 0x0, 0x0, 0x0, 0x0],
    [0x0, 0x0, 0x0, 0x0, 0x0, 0x0, 0x0, 0x0],
    [0x0, 0x0, 0x0, 0x0, 0x0, 0x0, 0xef, 0xff],
    [0xff, 0xff, 0xfb, 0x0, 0x0, 0x0, 0x0, 0x0],
    [0x0, 0x0, 0x0, 0x0, 0x0, 0x0, 0x0, 0x0],
    [0x0, 0x0, 0x0, 0x0, 0x0, 0x0, 0xe, 0xff],
    [0xff, 0xff, 0xff, 0xb0, 0x0, 0x0, 0x0, 0x0],
    [0x0, 0x0, 0x0, 0x0, 0x0, 0x0, 0x0, 0x0],
    [0x0, 0x0, 0x0, 0x0, 0x0, 0x0, 0x0, 0xef],
    [0xff, 0xff, 0xff, 0xfb, 0x0, 0x0, 0x0, 0x0],
    [0x0, 0x0, 0x0, 0x0, 0x0, 0x0, 0x0, 0x0],
    [0x0, 0x0, 0x0, 0x0, 0x0, 0x0, 0x0, 0xe],
    [0xff, 0xff, 0xff, 0xff, 0xb0, 0x0, 0x0, 0x0],
    [0x0, 0x0, 0x0, 0x0, 0x0, 0x0, 0x0, 0x0],
    [0x0, 0x0, 0x0, 0x0, 0x0, 0x0, 0x0, 0x0],
    [0xef, 0xff, 0xff, 0xff, 0xfb, 0x0, 0x0, 0x0],
    [0x0, 0x0, 0x0, 0x0, 0x0, 0x0, 0x0, 0x0],
    [0x0, 0x0, 0x0, 0x0, 0x0, 0x0, 0x0, 0x0],
    [0xe, 0xff, 0xff, 0xff, 0xff, 0xb0, 0x0, 0x0],
    [0x0, 0x0, 0x0, 0x0, 0x0, 0x0, 0x0, 0x0],
    [0x0, 0x0, 0x0, 0x0, 0x0, 0x0, 0x0, 0x0],
    [0x0, 0xef, 0xff, 0xff, 0xff, 0xfb, 0x0, 0x0],
    [0x0, 0x0, 0x0, 0x0, 0x0, 0x0, 0x0, 0x0],
    [0x0, 0x0, 0x0, 0x0, 0x0, 0x0, 0x0, 0x0],
    [0x0, 0xe, 0xff, 0xff, 0xff, 0xff, 0xb0, 0x0],
    [0x0, 0x0, 0x0, 0x0, 0x0, 0x0, 0x0, 0x0],
    [0x0, 0x0, 0x0, 0x0, 0x0, 0x0, 0x0, 0x0],
    [0x0, 0x0, 0xef, 0xff, 0xff, 0xff, 0xfb, 0x0],
    [0x0, 0x0, 0x0, 0x0, 0x0, 0x0, 0x0, 0x0],
    [0x0, 0x0, 0x0, 0x0, 0x0, 0x0, 0x0, 0x0],
    [0x0, 0x0, 0xe, 0xff, 0xff, 0xff, 0xff, 0xb0],
    [0x0, 0x0, 0x0, 0x0, 0x0, 0x0, 0x0, 0x0],
    [0x0, 0x0, 0x0, 0x0, 0x0, 0x0, 0x0, 0x0],
    [0x0, 0x0, 0x0, 0xef, 0xff, 0xff, 0xff, 0xfb],
    [0x0, 0x0, 0x0, 0x0, 0x0, 0x0, 0x0, 0x0],
    [0x0, 0x0, 0x0, 0x0, 0x0, 0x0, 0x0, 0x0],
    [0x0, 0x0, 0x0, 0xe, 0xff, 0xff, 0xff, 0xff],
    [0xb0, 0x0, 0x0, 0x0, 0x0, 0x0, 0x0, 0x0],
    [0x0, 0x0, 0x0, 0x0, 0x0, 0x0, 0x0, 0x0],
    [0x0, 0x0, 0x0, 0x0, 0xef, 0xff, 0xff, 0xff],
    [0xfb, 0x0, 0x0, 0x0, 0x0, 0x0, 0x0, 0x0],
    [0x0, 0x0, 0x0, 0x0, 0x0, 0x0, 0x0, 0x0],
    [0x0, 0x0, 0x0, 0x0, 0xe, 0xff, 0xff, 0xff],
    [0xff, 0xb0, 0x0, 0x0, 0x0, 0x0, 0x0, 0x0],
    [0x0, 0x0, 0x0, 0x0, 0x0, 0x0, 0x0, 0x0],
    [0x0, 0x0, 0x0, 0x0, 0x0, 0xef, 0xff, 0xff],
    [0xff, 0xfb, 0x0, 0x0, 0x0, 0x0, 0x0, 0x0],
    [0x0, 0x0, 0x0, 0x0, 0x0, 0x0, 0x0, 0x0],
    [0x0, 0x0, 0x0, 0x0, 0x0, 0xe, 0xff, 0xff],
    [0xff, 0xff, 0xb0, 0x0, 0x0, 0x0, 0x0, 0x0],
    [0x0, 0x0, 0x0, 0x0, 0x0, 0x0, 0x0, 0x0],
    [0x0, 0x0, 0x0, 0x0, 0x0, 0x0, 0xef, 0xff],
    [0xff, 0xff, 0xfb, 0x0, 0x0, 0x0, 0x0, 0x0],
    [0x0, 0x0, 0x0, 0x0, 0x0, 0x0, 0x0, 0x0],
    [0x0, 0x0, 0x0, 0x0, 0x0, 0x0, 0xe, 0xff],
    [0xff, 0xff, 0xff, 0xff, 0xff, 0xff, 0xff, 0xff],
    [0xff, 0xff, 0xff, 0xff, 0xff, 0xff, 0xff, 0xff],
    [0xff, 0xff, 0xff, 0xff, 0x60, 0x0, 0x0, 0xef],
    [0xff, 0xff, 0xff, 0xff, 0xff, 0xff, 0xff, 0xff],
    [0xff, 0xff, 0xff, 0xff, 0xff, 0xff, 0xff, 0xff],
    [0xff, 0xff, 0xff, 0xff, 0xf6, 0x0, 0x0, 0xe],
    [0xff, 0xff, 0xff, 0xff, 0xff, 0xff, 0xff, 0xff],
    [0xff, 0xff, 0xff, 0xff, 0xff, 0xff, 0xff, 0xff],
    [0xff, 0xff, 0xff, 0xff, 0xff, 0x60, 0x0, 0x0],
    [0xef, 0xff, 0xff, 0xff, 0xff, 0xff, 0xff, 0xff],
    [0xff, 0xff, 0xff, 0xff, 0xff, 0xff, 0xff, 0xff],
    [0xff, 0xff, 0xff, 0xff, 0xff, 0xf6, 0x0, 0x0],
    [0xe, 0xff, 0xff, 0xff, 0xff, 0xff, 0xff, 0xff],
    [0xff, 0xff, 0xff, 0xff, 0xff, 0xff, 0xff, 0xff],
    [0xff, 0xff, 0xff, 0xff, 0xff, 0xff, 0x60, 0x0],
    [0x0, 0xef, 0xff, 0xff, 0xff, 0xff, 0xff, 0xff],
    [0xff, 0xff, 0xff, 0xff, 0xff, 0xff, 0xff, 0xff],
    [0xff, 0xff, 0xff, 0xff, 0xff, 0xff, 0xf6, 0x0],
    [0x0, 0xe, 0xff, 0xff, 0xff, 0xff, 0xff, 0xff],
    [0xff, 0xff, 0xff, 0xff, 0xff, 0xff, 0xff, 0xff],
    [0xff, 0xff, 0xff, 0xff, 0xff, 0xff, 0xff, 0x60],
    [0x0, 0x0, 0xef, 0xff, 0xff, 0xff, 0xff, 0xff],
    [0xff, 0xff, 0xff, 0xff, 0xff, 0xff, 0xff, 0xff],
    [0xff, 0xff, 0xff, 0xff, 0xff, 0xff, 0xff, 0xf6],
    [0x0, 0x0, 0xe, 0xff, 0xff, 0xff, 0xff, 0xb1],
    [0x11, 0x11, 0x11, 0x11, 0x11, 0x11, 0x11, 0x11],
    [0x11, 0x11, 0x11, 0x11, 0x11, 0x11, 0x11, 0x11],
    [0x0, 0x0, 0x0, 0xef, 0xff, 0xff, 0xff, 0xfb],
    [0x0, 0x0, 0x0, 0x0, 0x0, 0x0, 0x0, 0x0],
    [0x0, 0x0, 0x0, 0x0, 0x0, 0x0, 0x0, 0x0],
    [0x0, 0x0, 0x0, 0xe, 0xff, 0xff, 0xff, 0xff],
    [0xb0, 0x0, 0x0, 0x0, 0x0, 0x0, 0x0, 0x0],
    [0x0, 0x0, 0x0, 0x0, 0x0, 0x0, 0x0, 0x0],
    [0x0, 0x0, 0x0, 0x0, 0xef, 0xff, 0xff, 0xff],
    [0xfb, 0x0, 0x0, 0x0, 0x0, 0x0, 0x0, 0x0],
    [0x0, 0x0, 0x0, 0x0, 0x0, 0x0, 0x0, 0x0],
    [0x0, 0x0, 0x0, 0x0, 0xe, 0xff, 0xff, 0xff],
    [0xff, 0xb0, 0x0, 0x0, 0x0, 0x0, 0x0, 0x0],
    [0x0, 0x0, 0x0, 0x0, 0x0, 0x0, 0x0, 0x0],
    [0x0, 0x0, 0x0, 0x0, 0x0, 0xef, 0xff, 0xff],
    [0xff, 0xfb, 0x0, 0x0, 0x0, 0x0, 0x0, 0x0],
    [0x0, 0x0, 0x0, 0x0, 0x0, 0x0, 0x0, 0x0],
    [0x0, 0x0, 0x0, 0x0, 0x0, 0xe, 0xff, 0xff],
    [0xff, 0xff, 0xb0, 0x0, 0x0, 0x0, 0x0, 0x0],
    [0x0, 0x0, 0x0, 0x0, 0x0, 0x0, 0x0, 0x0],
    [0x0, 0x0, 0x0, 0x0, 0x0, 0x0, 0xef, 0xff],
    [0xff, 0xff, 0xfb, 0x0, 0x0, 0x0, 0x0, 0x0],
    [0x0, 0x0, 0x0, 0x0, 0x0, 0x0, 0x0, 0x0],
    [0x0, 0x0, 0x0, 0x0, 0x0, 0x0, 0xe, 0xff],
    [0xff, 0xff, 0xff, 0xb0, 0x0, 0x0, 0x0, 0x0],
    [0x0, 0x0, 0x0, 0x0, 0x0, 0x0, 0x0, 0x0],
    [0x0, 0x0, 0x0, 0x0, 0x0, 0x0, 0x0, 0xef],
    [0xff, 0xff, 0xff, 0xfb, 0x0, 0x0, 0x0, 0x0],
    [0x0, 0x0, 0x0, 0x0, 0x0, 0x0, 0x0, 0x0],
    [0x0, 0x0, 0x0, 0x0, 0x0, 0x0, 0x0, 0xe],
    [0xff, 0xff, 0xff, 0xff, 0xb0, 0x0, 0x0, 0x0],
    [0x0, 0x0, 0x0, 0x0, 0x0, 0x0, 0x0, 0x0],
    [0x0, 0x0, 0x0, 0x0, 0x0, 0x0, 0x0, 0x0],
    [0xef, 0xff, 0xff, 0xff, 0xfb, 0x0, 0x0, 0x0]]"

lemma glyph_U0045_a_length: "length (concat glyph_U0045_a) = 1184"
  by (simp add: glyph_U0045_a_def)

definition glyph_U0045_b :: "u8 list list" where
  "glyph_U0045_b = [
    [0x0, 0x0, 0x0, 0x0, 0x0, 0x0, 0x0, 0x0],
    [0x0, 0x0, 0x0, 0x0, 0x0, 0x0, 0x0, 0x0],
    [0xe, 0xff, 0xff, 0xff, 0xff, 0xb0, 0x0, 0x0],
    [0x0, 0x0, 0x0, 0x0, 0x0, 0x0, 0x0, 0x0],
    [0x0, 0x0, 0x0, 0x0, 0x0, 0x0, 0x0, 0x0],
    [0x0, 0xef, 0xff, 0xff, 0xff, 0xfb, 0x0, 0x0],
    [0x0, 0x0, 0x0, 0x0, 0x0, 0x0, 0x0, 0x0],
    [0x0, 0x0, 0x0, 0x0, 0x0, 0x0, 0x0, 0x0],
    [0x0, 0xe, 0xff, 0xff, 0xff, 0xff, 0xb0, 0x0],
    [0x0, 0x0, 0x0, 0x0, 0x0, 0x0, 0x0, 0x0],
    [0x0, 0x0, 0x0, 0x0, 0x0, 0x0, 0x0, 0x0],
    [0x0, 0x0, 0xef, 0xff, 0xff, 0xff, 0xfb, 0x0],
    [0x0, 0x0, 0x0, 0x0, 0x0, 0x0, 0x0, 0x0],
    [0x0, 0x0, 0x0, 0x0, 0x0, 0x0, 0x0, 0x0],
    [0x0, 0x0, 0xe, 0xff, 0xff, 0xff, 0xff, 0xb0],
    [0x0, 0x0, 0x0, 0x0, 0x0, 0x0, 0x0, 0x0],
    [0x0, 0x0, 0x0, 0x0, 0x0, 0x0, 0x0, 0x0],
    [0x0, 0x0, 0x0, 0xef, 0xff, 0xff, 0xff, 0xfb],
    [0x0, 0x0, 0x0, 0x0, 0x0, 0x0, 0x0, 0x0],
    [0x0, 0x0, 0x0, 0x0, 0x0, 0x0, 0x0, 0x0],
    [0x0, 0x0, 0x0, 0xe, 0xff, 0xff, 0xff, 0xff],
    [0xb0, 0x0, 0x0, 0x0, 0x0, 0x0, 0x0, 0x0],
    [0x0, 0x0, 0x0, 0x0, 0x0, 0x0, 0x0, 0x0],
    [0x0, 0x0, 0x0, 0x0, 0xef, 0xff, 0xff, 0xff],
    [0xfb, 0x0, 0x0, 0x0, 0x0, 0x0, 0x0, 0x0],
    [0x0, 0x0, 0x0, 0x0, 0x0, 0x0, 0x0, 0x0],
    [0x0, 0x0, 0x0, 0x0, 0xe, 0xff, 0xff, 0xff],
    [0xff, 0xb0, 0x0, 0x0, 0x0, 0x0, 0x0, 0x0],
    [0x0, 0x0, 0x0, 0x0, 0x0, 0x0, 0x0, 0x0],
    [0x0, 0x0, 0x0, 0x0, 0x0, 0xef, 0xff, 0xff],
    [0xff, 0xfc, 0x44, 0x44, 0x44, 0x44, 0x44, 0x44],
    [0x44, 0x44, 0x44, 0x44, 0x44, 0x44, 0x44, 0x44],
    [0x44, 0x44, 0x44, 0x44, 0x44, 0x4e, 0xff, 0xff],
    [0xff, 0xff, 0xff, 0xff, 0xff, 0xff, 0xff, 0xff],
    [0xff, 0xff, 0xff, 0xff, 0xff, 0xff, 0xff, 0xff],
    [0xff, 0xff, 0xff, 0xff, 0xff, 0xfd, 0xef, 0xff],
    [0xff, 0xff, 0xff, 0xff, 0xff, 0xff, 0xff, 0xff],
    [0xff, 0xff, 0xff, 0xff, 0xff, 0xff, 0xff, 0xff],
    [0xff, 0xff, 0xff, 0xff, 0xff, 0xff, 0xde, 0xff],
    [0xff, 0xff, 0xff, 0xff, 0xff, 0xff, 0xff, 0xff],
    [0xff, 0xff, 0xff, 0xff, 0xff, 0xff, 0xff, 0xff],
    [0xff, 0xff, 0xff, 0xff, 0xff, 0xff, 0xfd, 0xef],
    [0xff, 0xff, 0xff, 0xff, 0xff, 0xff, 0xff, 0xff],
    [0xff, 0xff, 0xff, 0xff, 0xff, 0xff, 0xff, 0xff],
    [0xff, 0xff, 0xff, 0xff, 0xff, 0xff, 0xff, 0xde],
    [0xff, 0xff, 0xff, 0xff, 0xff, 0xff, 0xff, 0xff],
    [0xff, 0xff, 0xff, 0xff, 0xff, 0xff, 0xff, 0xff],
    [0xff, 0xff, 0xff, 0xff, 0xff, 0xff, 0xff, 0xfd],
    [0xef, 0xff, 0xff, 0xff, 0xff, 0xff, 0xff, 0xff],
    [0xff, 0xff, 0xff, 0xff, 0xff, 0xff, 0xff, 0xff],
    [0xff, 0xff, 0xff, 0xff, 0xff, 0xff, 0xff, 0xff],
    [0xde, 0xff, 0xff, 0xff, 0xff, 0xff, 0xff, 0xff],
    [0xff, 0xff, 0xff, 0xff, 0xff, 0xff, 0xff, 0xff],
    [0xff, 0xff, 0xff, 0xff, 0xff, 0xff, 0xff, 0xff],
    [0xfd, 0xef, 0xff, 0xff, 0xff, 0xff, 0xff, 0xff],
    [0xff, 0xff, 0xff, 0xff, 0xff, 0xff, 0xff, 0xff],
    [0xff, 0xff, 0xff, 0xff, 0xff, 0xff, 0xff, 0xff],
    [0xff, 0xd0]]"

lemma glyph_U0045_b_length: "length (concat glyph_U0045_b) = 458"
  by (simp add: glyph_U0045_b_def)

definition glyph_U0046_a :: "u8 list list" where
  "glyph_U0046_a = [
    [0xef, 0xff, 0xff, 0xff, 0xff, 0xff, 0xff, 0xff],
    [0xff, 0xff, 0xff, 0xff, 0xff, 0xff, 0xff, 0xff],
    [0xff, 0xff, 0xff, 0xff, 0xff, 0xff, 0xff, 0xf8],
    [0xef, 0xff, 0xff, 0xff, 0xff, 0xff, 0xff, 0xff],
    [0xff, 0xff, 0xff, 0xff, 0xff, 0xff, 0xff, 0xff],
    [0xff, 0xff, 0xff, 0xff, 0xff, 0xff, 0xff, 0xf8],
    [0xef, 0xff, 0xff, 0xff, 0xff, 0xff, 0xff, 0xff],
    [0xff, 0xff, 0xff, 0xff, 0xff, 0xff, 0xff, 0xff],
    [0xff, 0xff, 0xff, 0xff, 0xff, 0xff, 0xff, 0xf8],
    [0xef, 0xff, 0xff, 0xff, 0xff, 0xff, 0xff, 0xff],
    [0xff, 0xff, 0xff, 0xff, 0xff, 0xff, 0xff, 0xff],
    [0xff, 0xff, 0xff, 0xff, 0xff, 0xff, 0xff, 0xf8],
    [0xef, 0xff, 0xff, 0xff, 0xff, 0xff, 0xff, 0xff],
    [0xff, 0xff, 0xff, 0xff, 0xff, 0xff, 0xff, 0xff],
    [0xff, 0xff, 0xff, 0xff, 0xff, 0xff, 0xff, 0xf8],
    [0xef, 0xff, 0xff, 0xff, 0xff, 0xff, 0xff, 0xff],
    [0xff, 0xff, 0xff, 0xff, 0xff, 0xff, 0xff, 0xff],
    [0xff, 0xff, 0xff, 0xff, 0xff, 0xff, 0xff, 0xf8],
    [0xef, 0xff, 0xff, 0xff, 0xff, 0xff, 0xff, 0xff],
    [0xff, 0xff, 0xff, 0xff, 0xff, 0xff, 0xff, 0xff],
    [0xff, 0xff, 0xff, 0xff, 0xff, 0xff, 0xff, 0xf8],
    [0xef, 0xff, 0xff, 0xff, 0xff, 0xff, 0xff, 0xff],
    [0xff, 0xff, 0xff, 0xff, 0xff, 0xff, 0xff, 0xff],
    [0xff, 0xff, 0xff, 0xff, 0xff, 0xff, 0xff, 0xf8],
    [0xef, 0xff, 0xff, 0xff, 0xfc, 0x44, 0x44, 0x44],
    [0x44, 0x44, 0x44, 0x44, 0x44, 0x44, 0x44, 0x44],
    [0x44, 0x44, 0x44, 0x44, 0x44, 0x44, 0x44, 0x42],
    [0xef, 0xff, 0xff, 0xff, 0xfb, 0x0, 0x0, 0x0],
    [0x0, 0x0, 0x0, 0x0, 0x0, 0x0, 0x0, 0x0],
    [0x0, 0x0, 0x0, 0x0, 0x0, 0x0, 0x0, 0x0],
    [0xef, 0xff, 0xff, 0xff, 0xfb, 0x0, 0x0, 0x0],
    [0x0, 0x0, 0x0, 0x0, 0x0, 0x0, 0x0, 0x0],
    [0x0, 0x0, 0x0, 0x0, 0x0, 0x0, 0x0, 0x0],
    [0xef, 0xff, 0xff, 0xff, 0xfb, 0x0, 0x0, 0x0],
    [0x0, 0x0, 0x0, 0x0, 0x0, 0x0, 0x0, 0x0],
    [0x0, 0x0, 0x0, 0x0, 0x0, 0x0, 0x0, 0x0],
    [0xef, 0xff, 0xff, 0xff, 0xfb, 0x0, 0x0, 0x0],
    [0x0, 0x0, 0x0, 0x0, 0x0, 0x0, 0x0, 0x0],
    [0x0, 0x0, 0x0, 0x0, 0x0, 0x0, 0x0, 0x0],
    [0xef, 0xff, 0xff, 0xff, 0xfb, 0x0, 0x0, 0x0],
    [0x0, 0x0, 0x0, 0x0, 0x0, 0x0, 0x0, 0x0],
    [0x0, 0x0, 0x0, 0x0, 0x0, 0x0, 0x0, 0x0],
    [0xef, 0xff, 0xff, 0xff, 0xfb, 0x0, 0x0, 0x0],
    [0x0, 0x0, 0x0, 0x0, 0x0, 0x0, 0x0, 0x0],
    [0x0, 0x0, 0x0, 0x0, 0x0, 0x0, 0x0, 0x0],
    [0xef, 0xff, 0xff, 0xff, 0xfb, 0x0, 0x0, 0x0],
    [0x0, 0x0, 0x0, 0x0, 0x0, 0x0, 0x0, 0x0],
    [0x0, 0x0, 0x0, 0x0, 0x0, 0x0, 0x0, 0x0],
    [0xef, 0xff, 0xff, 0xff, 0xfb, 0x0, 0x0, 0x0],
    [0x0, 0x0, 0x0, 0x0, 0x0, 0x0, 0x0, 0x0],
    [0x0, 0x0, 0x0, 0x0, 0x0, 0x0, 0x0, 0x0],
    [0xef, 0xff, 0xff, 0xff, 0xfb, 0x0, 0x0, 0x0],
    [0x0, 0x0, 0x0, 0x0, 0x0, 0x0, 0x0, 0x0],
    [0x0, 0x0, 0x0, 0x0, 0x0, 0x0, 0x0, 0x0],
    [0xef, 0xff, 0xff, 0xff, 0xfb, 0x0, 0x0, 0x0],
    [0x0, 0x0, 0x0, 0x0, 0x0, 0x0, 0x0, 0x0],
    [0x0, 0x0, 0x0, 0x0, 0x0, 0x0, 0x0, 0x0],
    [0xef, 0xff, 0xff, 0xff, 0xfb, 0x0, 0x0, 0x0],
    [0x0, 0x0, 0x0, 0x0, 0x0, 0x0, 0x0, 0x0],
    [0x0, 0x0, 0x0, 0x0, 0x0, 0x0, 0x0, 0x0],
    [0xef, 0xff, 0xff, 0xff, 0xfb, 0x0, 0x0, 0x0],
    [0x0, 0x0, 0x0, 0x0, 0x0, 0x0, 0x0, 0x0],
    [0x0, 0x0, 0x0, 0x0, 0x0, 0x0, 0x0, 0x0],
    [0xef, 0xff, 0xff, 0xff, 0xfb, 0x0, 0x0, 0x0],
    [0x0, 0x0, 0x0, 0x0, 0x0, 0x0, 0x0, 0x0],
    [0x0, 0x0, 0x0, 0x0, 0x0, 0x0, 0x0, 0x0],
    [0xef, 0xff, 0xff, 0xff, 0xfb, 0x0, 0x0, 0x0],
    [0x0, 0x0, 0x0, 0x0, 0x0, 0x0, 0x0, 0x0],
    [0x0, 0x0, 0x0, 0x0, 0x0, 0x0, 0x0, 0x0],
    [0xef, 0xff, 0xff, 0xff, 0xfb, 0x0, 0x0, 0x0],
    [0x0, 0x0, 0x0, 0x0, 0x0, 0x0, 0x0, 0x0],
    [0x0, 0x0, 0x0, 0x0, 0x0, 0x0, 0x0, 0x0],
    [0xef, 0xff, 0xff, 0xff, 0xfb, 0x0, 0x0, 0x0],
    [0x0, 0x0, 0x0, 0x0, 0x0, 0x0, 0x0, 0x0],
    [0x0, 0x0, 0x0, 0x0, 0x0, 0x0, 0x0, 0x0],
    [0xef, 0xff, 0xff, 0xff, 0xfb, 0x0, 0x0, 0x0],
    [0x0, 0x0, 0x0, 0x0, 0x0, 0x0, 0x0, 0x0],
    [0x0, 0x0, 0x0, 0x0, 0x0, 0x0, 0x0, 0x0],
    [0xef, 0xff, 0xff, 0xff, 0xfb, 0x0, 0x0, 0x0],
    [0x0, 0x0, 0x0, 0x0, 0x0, 0x0, 0x0, 0x0],
    [0x0, 0x0, 0x0, 0x0, 0x0, 0x0, 0x0, 0x0],
    [0xef, 0xff, 0xff, 0xff, 0xfb, 0x0, 0x0, 0x0],
    [0x0, 0x0, 0x0, 0x0, 0x0, 0x0, 0x0, 0x0],
    [0x0, 0x0, 0x0, 0x0, 0x0, 0x0, 0x0, 0x0],
    [0xef, 0xff, 0xff, 0xff, 0xfb, 0x0, 0x0, 0x0],
    [0x0, 0x0, 0x0, 0x0, 0x0, 0x0, 0x0, 0x0],
    [0x0, 0x0, 0x0, 0x0, 0x0, 0x0, 0x0, 0x0],
    [0xef, 0xff, 0xff, 0xff, 0xfb, 0x0, 0x0, 0x0],
    [0x0, 0x0, 0x0, 0x0, 0x0, 0x0, 0x0, 0x0],
    [0x0, 0x0, 0x0, 0x0, 0x0, 0x0, 0x0, 0x0],
    [0xef, 0xff, 0xff, 0xff, 0xfb, 0x0, 0x0, 0x0],
    [0x0, 0x0, 0x0, 0x0, 0x0, 0x0, 0x0, 0x0],
    [0x0, 0x0, 0x0, 0x0, 0x0, 0x0, 0x0, 0x0],
    [0xef, 0xff, 0xff, 0xff, 0xfb, 0x33, 0x33, 0x33],
    [0x33, 0x33, 0x33, 0x33, 0x33, 0x33, 0x33, 0x33],
    [0x33, 0x33, 0x33, 0x33, 0x33, 0x31, 0x0, 0x0],
    [0xef, 0xff, 0xff, 0xff, 0xff, 0xff, 0xff, 0xff],
    [0xff, 0xff, 0xff, 0xff, 0xff, 0xff, 0xff, 0xff],
    [0xff, 0xff, 0xff, 0xff, 0xff, 0xf6, 0x0, 0x0],
    [0xef, 0xff, 0xff, 0xff, 0xff, 0xff, 0xff, 0xff],
    [0xff, 0xff, 0xff, 0xff, 0xff, 0xff, 0xff, 0xff],
    [0xff, 0xff, 0xff, 0xff, 0xff, 0xf6, 0x0, 0x0],
    [0xef, 0xff, 0xff, 0xff, 0xff, 0xff, 0xff, 0xff],
    [0xff, 0xff, 0xff, 0xff, 0xff, 0xff, 0xff, 0xff],
    [0xff, 0xff, 0xff, 0xff, 0xff, 0xf6, 0x0, 0x0],
    [0xef, 0xff, 0xff, 0xff, 0xff, 0xff, 0xff, 0xff],
    [0xff, 0xff, 0xff, 0xff, 0xff, 0xff, 0xff, 0xff],
    [0xff, 0xff, 0xff, 0xff, 0xff, 0xf6, 0x0, 0x0],
    [0xef, 0xff, 0xff, 0xff, 0xff, 0xff, 0xff, 0xff],
    [0xff, 0xff, 0xff, 0xff, 0xff, 0xff, 0xff, 0xff],
    [0xff, 0xff, 0xff, 0xff, 0xff, 0xf6, 0x0, 0x0],
    [0xef, 0xff, 0xff, 0xff, 0xff, 0xff, 0xff, 0xff],
    [0xff, 0xff, 0xff, 0xff, 0xff, 0xff, 0xff, 0xff],
    [0xff, 0xff, 0xff, 0xff, 0xff, 0xf6, 0x0, 0x0],
    [0xef, 0xff, 0xff, 0xff, 0xff, 0xff, 0xff, 0xff],
    [0xff, 0xff, 0xff, 0xff, 0xff, 0xff, 0xff, 0xff],
    [0xff, 0xff, 0xff, 0xff, 0xff, 0xf6, 0x0, 0x0],
    [0xef, 0xff, 0xff, 0xff, 0xff, 0xff, 0xff, 0xff],
    [0xff, 0xff, 0xff, 0xff, 0xff, 0xff, 0xff, 0xff],
    [0xff, 0xff, 0xff, 0xff, 0xff, 0xf6, 0x0, 0x0],
    [0xef, 0xff, 0xff, 0xff, 0xfb, 0x0, 0x0, 0x0],
    [0x0, 0x0, 0x0, 0x0, 0x0, 0x0, 0x0, 0x0],
    [0x0, 0x0, 0x0, 0x0, 0x0, 0x0, 0x0, 0x0],
    [0xef, 0xff, 0xff, 0xff, 0xfb, 0x0, 0x0, 0x0],
    [0x0, 0x0, 0x0, 0x0, 0x0, 0x0, 0x0, 0x0],
    [0x0, 0x0, 0x0, 0x0, 0x0, 0x0, 0x0, 0x0],
    [0xef, 0xff, 0xff, 0xff, 0xfb, 0x0, 0x0, 0x0],
    [0x0, 0x0, 0x0, 0x0, 0x0, 0x0, 0x0, 0x0],
    [0x0, 0x0, 0x0, 0x0, 0x0, 0x0, 0x0, 0x0],
    [0xef, 0xff, 0xff, 0xff, 0xfb, 0x0, 0x0, 0x0],
    [0x0, 0x0, 0x0, 0x0, 0x0, 0x0, 0x0, 0x0],
    [0x0, 0x0, 0x0, 0x0, 0x0, 0x0, 0x0, 0x0],
    [0xef, 0xff, 0xff, 0xff, 0xfb, 0x0, 0x0, 0x0],
    [0x0, 0x0, 0x0, 0x0, 0x0, 0x0, 0x0, 0x0],
    [0x0, 0x0, 0x0, 0x0, 0x0, 0x0, 0x0, 0x0],
    [0xef, 0xff, 0xff, 0xff, 0xfb, 0x0, 0x0, 0x0],
    [0x0, 0x0, 0x0, 0x0, 0x0, 0x0, 0x0, 0x0],
    [0x0, 0x0, 0x0, 0x0, 0x0, 0x0, 0x0, 0x0],
    [0xef, 0xff, 0xff, 0xff, 0xfb, 0x0, 0x0, 0x0],
    [0x0, 0x0, 0x0, 0x0, 0x0, 0x0, 0x0, 0x0],
    [0x0, 0x0, 0x0, 0x0, 0x0, 0x0, 0x0, 0x0],
    [0xef, 0xff, 0xff, 0xff, 0xfb, 0x0, 0x0, 0x0],
    [0x0, 0x0, 0x0, 0x0, 0x0, 0x0, 0x0, 0x0],
    [0x0, 0x0, 0x0, 0x0, 0x0, 0x0, 0x0, 0x0],
    [0xef, 0xff, 0xff, 0xff, 0xfb, 0x0, 0x0, 0x0],
    [0x0, 0x0, 0x0, 0x0, 0x0, 0x0, 0x0, 0x0],
    [0x0, 0x0, 0x0, 0x0, 0x0, 0x0, 0x0, 0x0],
    [0xef, 0xff, 0xff, 0xff, 0xfb, 0x0, 0x0, 0x0]]"

lemma glyph_U0046_a_length: "length (concat glyph_U0046_a) = 1184"
  by (simp add: glyph_U0046_a_def)

definition glyph_U0046_b :: "u8 list list" where
  "glyph_U0046_b = [
    [0x0, 0x0, 0x0, 0x0, 0x0, 0x0, 0x0, 0x0],
    [0x0, 0x0, 0x0, 0x0, 0x0, 0x0, 0x0, 0x0],
    [0xef, 0xff, 0xff, 0xff, 0xfb, 0x0, 0x0, 0x0],
    [0x0, 0x0, 0x0, 0x0, 0x0, 0x0, 0x0, 0x0],
    [0x0, 0x0, 0x0, 0x0, 0x0, 0x0, 0x0, 0x0],
    [0xef, 0xff, 0xff, 0xff, 0xfb, 0x0, 0x0, 0x0],
    [0x0, 0x0, 0x0, 0x0, 0x0, 0x0, 0x0, 0x0],
    [0x0, 0x0, 0x0, 0x0, 0x0, 0x0, 0x0, 0x0],
    [0xef, 0xff, 0xff, 0xff, 0xfb, 0x0, 0x0, 0x0],
    [0x0, 0x0, 0x0, 0x0, 0x0, 0x0, 0x0, 0x0],
    [0x0, 0x0, 0x0, 0x0, 0x0, 0x0, 0x0, 0x0],
    [0xef, 0xff, 0xff, 0xff, 0xfb, 0x0, 0x0, 0x0],
    [0x0, 0x0, 0x0, 0x0, 0x0, 0x0, 0x0, 0x0],
    [0x0, 0x0, 0x0, 0x0, 0x0, 0x0, 0x0, 0x0],
    [0xef, 0xff, 0xff, 0xff, 0xfb, 0x0, 0x0, 0x0],
    [0x0, 0x0, 0x0, 0x0, 0x0, 0x0, 0x0, 0x0],
    [0x0, 0x0, 0x0, 0x0, 0x0, 0x0, 0x0, 0x0],
    [0xef, 0xff, 0xff, 0xff, 0xfb, 0x0, 0x0, 0x0],
    [0x0, 0x0, 0x0, 0x0, 0x0, 0x0, 0x0, 0x0],
    [0x0, 0x0, 0x0, 0x0, 0x0, 0x0, 0x0, 0x0],
    [0xef, 0xff, 0xff, 0xff, 0xfb, 0x0, 0x0, 0x0],
    [0x0, 0x0, 0x0, 0x0, 0x0, 0x0, 0x0, 0x0],
    [0x0, 0x0, 0x0, 0x0, 0x0, 0x0, 0x0, 0x0],
    [0xef, 0xff, 0xff, 0xff, 0xfb, 0x0, 0x0, 0x0],
    [0x0, 0x0, 0x0, 0x0, 0x0, 0x0, 0x0, 0x0],
    [0x0, 0x0, 0x0, 0x0, 0x0, 0x0, 0x0, 0x0],
    [0xef, 0xff, 0xff, 0xff, 0xfb, 0x0, 0x0, 0x0],
    [0x0, 0x0, 0x0, 0x0, 0x0, 0x0, 0x0, 0x0],
    [0x0, 0x0, 0x0, 0x0, 0x0, 0x0, 0x0, 0x0],
    [0xef, 0xff, 0xff, 0xff, 0xfb, 0x0, 0x0, 0x0],
    [0x0, 0x0, 0x0, 0x0, 0x0, 0x0, 0x0, 0x0],
    [0x0, 0x0, 0x0, 0x0, 0x0, 0x0, 0x0, 0x0],
    [0xef, 0xff, 0xff, 0xff, 0xfb, 0x0, 0x0, 0x0],
    [0x0, 0x0, 0x0, 0x0, 0x0, 0x0, 0x0, 0x0],
    [0x0, 0x0, 0x0, 0x0, 0x0, 0x0, 0x0, 0x0],
    [0xef, 0xff, 0xff, 0xff, 0xfb, 0x0, 0x0, 0x0],
    [0x0, 0x0, 0x0, 0x0, 0x0, 0x0, 0x0, 0x0],
    [0x0, 0x0, 0x0, 0x0, 0x0, 0x0, 0x0, 0x0],
    [0xef, 0xff, 0xff, 0xff, 0xfb, 0x0, 0x0, 0x0],
    [0x0, 0x0, 0x0, 0x0, 0x0, 0x0, 0x0, 0x0],
    [0x0, 0x0, 0x0, 0x0, 0x0, 0x0, 0x0, 0x0],
    [0xef, 0xff, 0xff, 0xff, 0xfb, 0x0, 0x0, 0x0],
    [0x0, 0x0, 0x0, 0x0, 0x0, 0x0, 0x0, 0x0],
    [0x0, 0x0, 0x0, 0x0, 0x0, 0x0, 0x0, 0x0],
    [0xef, 0xff, 0xff, 0xff, 0xfb, 0x0, 0x0, 0x0],
    [0x0, 0x0, 0x0, 0x0, 0x0, 0x0, 0x0, 0x0],
    [0x0, 0x0, 0x0, 0x0, 0x0, 0x0, 0x0, 0x0],
    [0xef, 0xff, 0xff, 0xff, 0xfb, 0x0, 0x0, 0x0],
    [0x0, 0x0, 0x0, 0x0, 0x0, 0x0, 0x0, 0x0],
    [0x0, 0x0, 0x0, 0x0, 0x0, 0x0, 0x0, 0x0],
    [0xef, 0xff, 0xff, 0xff, 0xfb, 0x0, 0x0, 0x0],
    [0x0, 0x0, 0x0, 0x0, 0x0, 0x0, 0x0, 0x0],
    [0x0, 0x0, 0x0, 0x0, 0x0, 0x0, 0x0, 0x0]]"

lemma glyph_U0046_b_length: "length (concat glyph_U0046_b) = 424"
  by (simp add: glyph_U0046_b_def)

definition glyph_U0047_a :: "u8 list list" where
  "glyph_U0047_a = [
    [0x0, 0x0, 0x0, 0x0, 0x0, 0x0, 0x0, 0x0],
    [0x0, 0x0, 0x0, 0x0, 0x0, 0x0, 0x36, 0x9b],
    [0xce, 0xff, 0xff, 0xee, 0xdb, 0x97, 0x41, 0x0],
    [0x0, 0x0, 0x0, 0x0, 0x0, 0x0, 0x0, 0x0],
    [0x0, 0x0, 0x0, 0x0, 0x0, 0x0, 0x0, 0x0],
    [0x0, 0x0, 0x0, 0x3, 0x8c, 0xff, 0xff, 0xff],
    [0xff, 0xff, 0xff, 0xff, 0xff, 0xff, 0xfd, 0x94],
    [0x0, 0x0, 0x0, 0x0, 0x0, 0x0, 0x0, 0x0],
    [0x0, 0x0, 0x0, 0x0, 0x0, 0x0, 0x0, 0x0],
    [0x0, 0x2, 0x8e, 0xff, 0xff, 0xff, 0xff, 0xff],
    [0xff, 0xff, 0xff, 0xff, 0xff, 0xff, 0xff, 0xff],
    [0xa4, 0x0, 0x0, 0x0, 0x0, 0x0, 0x0, 0x0],
    [0x0, 0x0, 0x0, 0x0, 0x0, 0x0, 0x0, 0x0],
    [0x4b, 0xff, 0xff, 0xff, 0xff, 0xff, 0xff, 0xff],
    [0xff, 0xff, 0xff, 0xff, 0xff, 0xff, 0xff, 0xff],
    [0xfc, 0x50, 0x0, 0x0, 0x0, 0x0, 0x0, 0x0],
    [0x0, 0x0, 0x0, 0x0, 0x0, 0x0, 0x3, 0xcf],
    [0xff, 0xff, 0xff, 0xff, 0xff, 0xff, 0xff, 0xff],
    [0xff, 0xff, 0xff, 0xff, 0xff, 0xff, 0xff, 0xff],
    [0xff, 0xd4, 0x0, 0x0, 0x0, 0x0, 0x0, 0x0],
    [0x0, 0x0, 0x0, 0x0, 0x0, 0x9, 0xff, 0xff],
    [0xff, 0xff, 0xff, 0xff, 0xff, 0xff, 0xff, 0xff],
    [0xff, 0xff, 0xff, 0xff, 0xff, 0xff, 0xff, 0xff],
    [0xff, 0xfa, 0x10, 0x0, 0x0, 0x0, 0x0, 0x0],
    [0x0, 0x0, 0x0, 0x0, 0x5e, 0xff, 0xff, 0xff],
    [0xff, 0xff, 0xff, 0xff, 0xff, 0xff, 0xff, 0xff],
    [0xff, 0xff, 0xff, 0xff, 0xff, 0xff, 0xff, 0xff],
    [0xff, 0xfe, 0x40, 0x0, 0x0, 0x0, 0x0, 0x0],
    [0x0, 0x0, 0x0, 0x8f, 0xff, 0xff, 0xff, 0xff],
    [0xff, 0xff, 0xff, 0xff, 0xff, 0xff, 0xff, 0xff],
    [0xff, 0xff, 0xff, 0xff, 0xff, 0xff, 0xff, 0xff],
    [0xff, 0xff, 0x70, 0x0, 0x0, 0x0, 0x0, 0x0],
    [0x0, 0x0, 0xbf, 0xff, 0xff, 0xff, 0xff, 0xff],
    [0xff, 0xff, 0xff, 0xff, 0xda, 0xa9, 0x88, 0x89],
    [0xbd, 0xff, 0xff, 0xff, 0xff, 0xff, 0xff, 0xff],
    [0xff, 0xff, 0x90, 0x0, 0x0, 0x0, 0x0, 0x0],
    [0x2, 0xdf, 0xff, 0xff, 0xff, 0xff, 0xff, 0xff],
    [0xff, 0xfb, 0x62, 0x0, 0x0, 0x0, 0x0, 0x0],
    [0x0, 0x37, 0xbf, 0xff, 0xff, 0xff, 0xff, 0xff],
    [0xff, 0xff, 0x90, 0x0, 0x0, 0x0, 0x0, 0x1],
    [0xdf, 0xff, 0xff, 0xff, 0xff, 0xff, 0xff, 0xfb],
    [0x50, 0x0, 0x0, 0x0, 0x0, 0x0, 0x0, 0x0],
    [0x0, 0x0, 0x16, 0xdf, 0xff, 0xff, 0xff, 0xff],
    [0xff, 0xff, 0x20, 0x0, 0x0, 0x0, 0x0, 0xcf],
    [0xff, 0xff, 0xff, 0xff, 0xff, 0xff, 0xa3, 0x0],
    [0x0, 0x0, 0x0, 0x0, 0x0, 0x0, 0x0, 0x0],
    [0x0, 0x0, 0x0, 0x4d, 0xff, 0xff, 0xff, 0xff],
    [0xff, 0x40, 0x0, 0x0, 0x0, 0x0, 0xbf, 0xff],
    [0xff, 0xff, 0xff, 0xff, 0xfd, 0x40, 0x0, 0x0],
    [0x0, 0x0, 0x0, 0x0, 0x0, 0x0, 0x0, 0x0],
    [0x0, 0x0, 0x0, 0x6, 0xef, 0xff, 0xff, 0xff],
    [0x40, 0x0, 0x0, 0x0, 0x0, 0x9f, 0xff, 0xff],
    [0xff, 0xff, 0xff, 0xf8, 0x0, 0x0, 0x0, 0x0],
    [0x0, 0x0, 0x0, 0x0, 0x0, 0x0, 0x0, 0x0],
    [0x0, 0x0, 0x0, 0x1, 0xbf, 0xff, 0xff, 0x40],
    [0x0, 0x0, 0x0, 0x0, 0x4f, 0xff, 0xff, 0xff],
    [0xff, 0xff, 0xf5, 0x0, 0x0, 0x0, 0x0, 0x0],
    [0x0, 0x0, 0x0, 0x0, 0x0, 0x0, 0x0, 0x0],
    [0x0, 0x0, 0x0, 0x0, 0x8f, 0xff, 0x40, 0x0],
    [0x0, 0x0, 0x0, 0xe, 0xff, 0xff, 0xff, 0xff],
    [0xff, 0xe3, 0x0, 0x0, 0x0, 0x0, 0x0, 0x0],
    [0x0, 0x0, 0x0, 0x0, 0x0, 0x0, 0x0, 0x0],
    [0x0, 0x0, 0x0, 0x0, 0x6f, 0x40, 0x0, 0x0],
    [0x0, 0x0, 0x9, 0xff, 0xff, 0xff, 0xff, 0xff],
    [0xe2, 0x0, 0x0, 0x0, 0x0, 0x0, 0x0, 0x0],
    [0x0, 0x0, 0x0, 0x0, 0x0, 0x0, 0x0, 0x0],
    [0x0, 0x0, 0x0, 0x0, 0x0, 0x0, 0x0, 0x0],
    [0x0, 0x3, 0xff, 0xff, 0xff, 0xff, 0xff, 0xf3],
    [0x0, 0x0, 0x0, 0x0, 0x0, 0x0, 0x0, 0x0],
    [0x0, 0x0, 0x0, 0x0, 0x0, 0x0, 0x0, 0x0],
    [0x0, 0x0, 0x0, 0x0, 0x0, 0x0, 0x0, 0x0],
    [0x0, 0xbf, 0xff, 0xff, 0xff, 0xff, 0xf5, 0x0],
    [0x0, 0x0, 0x0, 0x0, 0x0, 0x0, 0x0, 0x0],
    [0x0, 0x0, 0x0, 0x0, 0x0, 0x0, 0x0, 0x0],
    [0x0, 0x0, 0x0, 0x0, 0x0, 0x0, 0x0, 0x0],
    [0x3f, 0xff, 0xff, 0xff, 0xff, 0xfa, 0x0, 0x0],
    [0x0, 0x0, 0x0, 0x0, 0x0, 0x0, 0x0, 0x0],
    [0x0, 0x0, 0x0, 0x0, 0x0, 0x0, 0x0, 0x0],
    [0x0, 0x0, 0x0, 0x0, 0x0, 0x0, 0x0, 0xa],
    [0xff, 0xff, 0xff, 0xff, 0xfe, 0x10, 0x0, 0x0],
    [0x0, 0x0, 0x0, 0x0, 0x0, 0x0, 0x0, 0x0],
    [0x0, 0x0, 0x0, 0x0, 0x0, 0x0, 0x0, 0x0],
    [0x0, 0x0, 0x0, 0x0, 0x0, 0x0, 0x1, 0xff],
    [0xff, 0xff, 0xff, 0xff, 0x60, 0x0, 0x0, 0x0],
    [0x0, 0x0, 0x0, 0x0, 0x0, 0x0, 0x0, 0x0],
    [0x0, 0x0, 0x0, 0x0, 0x0, 0x0, 0x0, 0x0],
    [0x0, 0x0, 0x0, 0x0, 0x0, 0x0, 0x7f, 0xff],
    [0xff, 0xff, 0xff, 0xe0, 0x0, 0x0, 0x0, 0x0],
    [0x0, 0x0, 0x0, 0x0, 0x0, 0x0, 0x0, 0x0],
    [0x0, 0x0, 0x0, 0x0, 0x0, 0x0, 0x0, 0x0],
    [0x0, 0x0, 0x0, 0x0, 0x0, 0xc, 0xff, 0xff],
    [0xff, 0xff, 0xf6, 0x0, 0x0, 0x0, 0x0, 0x0],
    [0x0, 0x0, 0x0, 0x0, 0x0, 0x0, 0x0, 0x0],
    [0x0, 0x0, 0x0, 0x0, 0x0, 0x0, 0x0, 0x0],
    [0x0, 0x0, 0x0, 0x0, 0x1, 0xff, 0xff, 0xff],
    [0xff, 0xff, 0x0, 0x0, 0x0, 0x0, 0x0, 0x0],
    [0x0, 0x0, 0x0, 0x0, 0x0, 0x0, 0x0, 0x0],
    [0x0, 0x0, 0x0, 0x0, 0x0, 0x0, 0x0, 0x0],
    [0x0, 0x0, 0x0, 0x0, 0x5f, 0xff, 0xff, 0xff],
    [0xff, 0xa0, 0x0, 0x0, 0x0, 0x0, 0x0, 0x0],
    [0x0, 0x0, 0x0, 0x0, 0x0, 0x0, 0x0, 0x0],
    [0x0, 0x0, 0x0, 0x0, 0x0, 0x0, 0x0, 0x0],
    [0x0, 0x0, 0x0, 0x9, 0xff, 0xff, 0xff, 0xff],
    [0xf5, 0x0, 0x0, 0x0, 0x0, 0x0, 0x0, 0x0],
    [0x0, 0x0, 0x0, 0x0, 0x0, 0x0, 0x0, 0x0],
    [0x0, 0x0, 0x0, 0x0, 0x0, 0x0, 0x0, 0x0],
    [0x0, 0x0, 0x0, 0xcf, 0xff, 0xff, 0xff, 0xff],
    [0x0, 0x0, 0x0, 0x0, 0x0, 0x0, 0x0, 0x0],
    [0x0, 0x0, 0x0, 0x0, 0x0, 0x0, 0x0, 0x0],
    [0x0, 0x0, 0x0, 0x0, 0x0, 0x0, 0x0, 0x0],
    [0x0, 0x0, 0xf, 0xff, 0xff, 0xff, 0xff, 0xd0],
    [0x0, 0x0, 0x0, 0x0, 0x0, 0x0, 0x0, 0x0],
    [0x0, 0x0, 0x0, 0x0, 0x0, 0x0, 0x0, 0x0],
    [0x0, 0x0, 0x0, 0x0, 0x0, 0x0, 0x0, 0x0],
    [0x0, 0x1, 0xff, 0xff, 0xff, 0xff, 0xfa, 0x0],
    [0x0, 0x0, 0x0, 0x0, 0x0, 0x0, 0x0, 0x0],
    [0x0, 0x0, 0x0, 0x0, 0x0, 0x0, 0x0, 0x0],
    [0x0, 0x0, 0x0, 0x0, 0x0, 0x0, 0x0, 0x0],
    [0x0, 0x3f, 0xff, 0xff, 0xff, 0xff, 0x70, 0x0],
    [0x0, 0x0, 0x0, 0x0, 0x0, 0x0, 0x0, 0x0],
    [0x0, 0x0, 0x0, 0x0, 0x0, 0x0, 0x0, 0x0],
    [0x0, 0x0, 0x0, 0x0, 0x0, 0x0, 0x0, 0x0],
    [0x4, 0xff, 0xff, 0xff, 0xff, 0xf5, 0x0, 0x0],
    [0x0, 0x0, 0x0, 0x0, 0x0, 0x0, 0x0, 0x0],
    [0x0, 0x0, 0x0, 0x0, 0x0, 0x0, 0x0, 0x0],
    [0x0, 0x0, 0x0, 0x0, 0x0, 0x0, 0x0, 0x0],
    [0x5f, 0xff, 0xff, 0xff, 0xff, 0x40, 0x0, 0x0],
    [0x0, 0x0, 0x0, 0x0, 0x0, 0x0, 0x0, 0x0],
    [0x0, 0x0, 0x0, 0x0, 0x0, 0x0, 0x0, 0x0],
    [0x0, 0x0, 0x0, 0x0, 0x0, 0x0, 0x0, 0x5],
    [0xff, 0xff, 0xff, 0xff, 0xf3, 0x0, 0x0, 0x0],
    [0x0, 0x0, 0x0, 0x0, 0x0, 0x0, 0x0, 0x0],
    [0x0, 0x0, 0x0, 0x0, 0x0, 0x0, 0x0, 0x0],
    [0x0, 0x0, 0x22, 0x22, 0x22, 0x22, 0x10, 0x6f],
    [0xff, 0xff, 0xff, 0xff, 0x30, 0x0, 0x0, 0x0],
    [0x0, 0x0, 0x0, 0x0, 0x0, 0x0, 0x0, 0x0],
    [0x0, 0x0, 0x0, 0x0, 0x0, 0x0, 0x0, 0x0],
    [0x0, 0x5f, 0xff, 0xff, 0xff, 0xfd, 0x5, 0xff],
    [0xff, 0xff, 0xff, 0xf4, 0x0, 0x0, 0x0, 0x0],
    [0x0, 0x0, 0x0, 0x0, 0x0, 0x0, 0x0, 0x0],
    [0x0, 0x0, 0x0, 0x0, 0x0, 0x0, 0x0, 0x0],
    [0x5, 0xff, 0xff, 0xff, 0xff, 0xd0, 0x5f, 0xff],
    [0xff, 0xff, 0xff, 0x50, 0x0, 0x0, 0x0, 0x0],
    [0x0, 0x0, 0x0, 0x0, 0x0, 0x0, 0x0, 0x0],
    [0x0, 0x0, 0x0, 0x0, 0x0, 0x0, 0x0, 0x0],
    [0x5f, 0xff, 0xff, 0xff, 0xfd, 0x3, 0xff, 0xff],
    [0xff, 0xff, 0xf6, 0x0, 0x0, 0x0, 0x0, 0x0],
    [0x0, 0x0, 0x0, 0x0, 0x0, 0x0, 0x0, 0x0]]"

lemma glyph_U0047_a_length: "length (concat glyph_U0047_a) = 1184"
  by (simp add: glyph_U0047_a_def)

definition glyph_U0047_b :: "u8 list list" where
  "glyph_U0047_b = [
    [0x0, 0x0, 0x0, 0x0, 0x0, 0x0, 0x0, 0x5],
    [0xff, 0xff, 0xff, 0xff, 0xd0, 0x2f, 0xff, 0xff],
    [0xff, 0xff, 0x80, 0x0, 0x0, 0x0, 0x0, 0x0],
    [0x0, 0x0, 0x0, 0x0, 0x0, 0x0, 0x0, 0x0],
    [0x0, 0x0, 0x0, 0x0, 0x0, 0x0, 0x0, 0x5f],
    [0xff, 0xff, 0xff, 0xfd, 0x0, 0xff, 0xff, 0xff],
    [0xff, 0xfb, 0x0, 0x0, 0x0, 0x0, 0x0, 0x0],
    [0x0, 0x0, 0x0, 0x0, 0x0, 0x0, 0x0, 0x0],
    [0x0, 0x0, 0x0, 0x0, 0x0, 0x0, 0x5, 0xff],
    [0xff, 0xff, 0xff, 0xd0, 0xd, 0xff, 0xff, 0xff],
    [0xff, 0xe0, 0x0, 0x0, 0x0, 0x0, 0x0, 0x0],
    [0x0, 0x0, 0x0, 0x0, 0x0, 0x0, 0x0, 0x0],
    [0x0, 0x0, 0x0, 0x0, 0x0, 0x0, 0x5f, 0xff],
    [0xff, 0xff, 0xfd, 0x0, 0xbf, 0xff, 0xff, 0xff],
    [0xff, 0x20, 0x0, 0x0, 0x0, 0x0, 0x0, 0x0],
    [0x0, 0x0, 0x0, 0x0, 0x0, 0x0, 0x0, 0x0],
    [0x0, 0x0, 0x0, 0x0, 0x0, 0x5, 0xff, 0xff],
    [0xff, 0xff, 0xd0, 0x7, 0xff, 0xff, 0xff, 0xff],
    [0xf8, 0x0, 0x0, 0x0, 0x0, 0x0, 0x0, 0x0],
    [0x0, 0x0, 0x0, 0x0, 0x0, 0x0, 0x0, 0x0],
    [0x0, 0x0, 0x0, 0x0, 0x0, 0x5f, 0xff, 0xff],
    [0xff, 0xfd, 0x0, 0x3f, 0xff, 0xff, 0xff, 0xff],
    [0xd0, 0x0, 0x0, 0x0, 0x0, 0x0, 0x0, 0x0],
    [0x0, 0x0, 0x0, 0x0, 0x0, 0x0, 0x0, 0x0],
    [0x0, 0x0, 0x0, 0x0, 0x5, 0xff, 0xff, 0xff],
    [0xff, 0xd0, 0x0, 0xef, 0xff, 0xff, 0xff, 0xff],
    [0x30, 0x0, 0x0, 0x0, 0x0, 0x0, 0x0, 0x0],
    [0x0, 0x0, 0x0, 0x0, 0x0, 0x0, 0x0, 0x0],
    [0x0, 0x0, 0x0, 0x0, 0x5f, 0xff, 0xff, 0xff],
    [0xfd, 0x0, 0xa, 0xff, 0xff, 0xff, 0xff, 0xfb],
    [0x0, 0x0, 0x0, 0x0, 0x0, 0x0, 0x0, 0x0],
    [0x0, 0x0, 0x0, 0x0, 0x0, 0x0, 0x0, 0x0],
    [0x0, 0x0, 0x0, 0x5, 0xff, 0xff, 0xff, 0xff],
    [0xd0, 0x0, 0x4f, 0xff, 0xff, 0xff, 0xff, 0xf3],
    [0x0, 0x0, 0x0, 0x0, 0x0, 0x0, 0x0, 0x0],
    [0x0, 0x0, 0x0, 0x0, 0x0, 0x0, 0x0, 0x0],
    [0x0, 0x0, 0x0, 0x5f, 0xff, 0xff, 0xff, 0xfd],
    [0x0, 0x0, 0xef, 0xff, 0xff, 0xff, 0xff, 0xb0],
    [0x0, 0x0, 0x0, 0x0, 0x0, 0x0, 0x0, 0x0],
    [0x0, 0x0, 0x0, 0x0, 0x0, 0x0, 0x0, 0x0],
    [0x0, 0x0, 0x5, 0xff, 0xff, 0xff, 0xff, 0xd0],
    [0x0, 0x7, 0xff, 0xff, 0xff, 0xff, 0xff, 0x60],
    [0x0, 0x0, 0x0, 0x0, 0x0, 0x0, 0x0, 0x0],
    [0x0, 0x0, 0x0, 0x0, 0x0, 0x0, 0x0, 0x0],
    [0x0, 0x0, 0x5f, 0xff, 0xff, 0xff, 0xfd, 0x0],
    [0x0, 0xe, 0xff, 0xff, 0xff, 0xff, 0xff, 0x10],
    [0x0, 0x0, 0x0, 0x0, 0x0, 0x0, 0x0, 0x0],
    [0x0, 0x0, 0x0, 0x0, 0x0, 0x0, 0x0, 0x0],
    [0x0, 0x5, 0xff, 0xff, 0xff, 0xff, 0xd0, 0x0],
    [0x0, 0x7f, 0xff, 0xff, 0xff, 0xff, 0xfc, 0x0],
    [0x0, 0x0, 0x0, 0x0, 0x0, 0x0, 0x0, 0x0],
    [0x0, 0x0, 0x0, 0x0, 0x0, 0x0, 0x0, 0x0],
    [0x0, 0x5f, 0xff, 0xff, 0xff, 0xfd, 0x0, 0x0],
    [0x0, 0xdf, 0xff, 0xff, 0xff, 0xff, 0xfb, 0x0],
    [0x0, 0x0, 0x0, 0x0, 0x0, 0x0, 0x0, 0x0],
    [0x0, 0x0, 0x0, 0x0, 0x0, 0x0, 0x0, 0x0],
    [0x5, 0xff, 0xff, 0xff, 0xff, 0xd0, 0x0, 0x0],
    [0x4, 0xff, 0xff, 0xff, 0xff, 0xff, 0xf9, 0x0],
    [0x0, 0x0, 0x0, 0x0, 0x0, 0x0, 0x0, 0x0],
    [0x0, 0x0, 0x0, 0x0, 0x0, 0x0, 0x0, 0x0],
    [0x5f, 0xff, 0xff, 0xff, 0xfd, 0x0, 0x0, 0x0],
    [0x9, 0xff, 0xff, 0xff, 0xff, 0xff, 0xfb, 0x0],
    [0x0, 0x0, 0x0, 0x0, 0x0, 0x0, 0x0, 0x0],
    [0x0, 0x0, 0x0, 0x0, 0x0, 0x0, 0x0, 0x5],
    [0xff, 0xff, 0xff, 0xff, 0xd0, 0x0, 0x0, 0x0],
    [0xd, 0xff, 0xff, 0xff, 0xff, 0xff, 0xfd, 0x10],
    [0x0, 0x0, 0x0, 0x0, 0x0, 0x0, 0x0, 0x0],
    [0x0, 0x0, 0x0, 0x0, 0x0, 0x0, 0x0, 0x5f],
    [0xff, 0xff, 0xff, 0xfd, 0x0, 0x0, 0x0, 0x0],
    [0x3f, 0xff, 0xff, 0xff, 0xff, 0xff, 0xff, 0x60],
    [0x0, 0x0, 0x0, 0x0, 0x0, 0x0, 0x0, 0x0],
    [0x0, 0x0, 0x0, 0x0, 0x0, 0x0, 0x6, 0xff],
    [0xff, 0xff, 0xff, 0xd0, 0x0, 0x0, 0x0, 0x0],
    [0x4f, 0xff, 0xff, 0xff, 0xff, 0xff, 0xff, 0xc3],
    [0x0, 0x0, 0x0, 0x0, 0x0, 0x0, 0x0, 0x0],
    [0x0, 0x0, 0x0, 0x0, 0x0, 0x19, 0xff, 0xff],
    [0xff, 0xff, 0xfd, 0x0, 0x0, 0x0, 0x0, 0x0],
    [0x5f, 0xff, 0xff, 0xff, 0xff, 0xff, 0xff, 0xfb],
    [0x40, 0x0, 0x0, 0x0, 0x0, 0x0, 0x0, 0x0],
    [0x0, 0x0, 0x0, 0x2, 0x9f, 0xff, 0xff, 0xff],
    [0xff, 0xff, 0xd0, 0x0, 0x0, 0x0, 0x0, 0x0],
    [0x7f, 0xff, 0xff, 0xff, 0xff, 0xff, 0xff, 0xff],
    [0xd8, 0x30, 0x0, 0x0, 0x0, 0x0, 0x0, 0x0],
    [0x0, 0x1, 0x6c, 0xff, 0xff, 0xff, 0xff, 0xff],
    [0xff, 0xfd, 0x0, 0x0, 0x0, 0x0, 0x0, 0x0],
    [0x5f, 0xff, 0xff, 0xff, 0xff, 0xff, 0xff, 0xff],
    [0xff, 0xea, 0x75, 0x21, 0x0, 0x0, 0x12, 0x47],
    [0xad, 0xff, 0xff, 0xff, 0xff, 0xff, 0xff, 0xff],
    [0xff, 0xd0, 0x0, 0x0, 0x0, 0x0, 0x0, 0x0],
    [0x3e, 0xff, 0xff, 0xff, 0xff, 0xff, 0xff, 0xff],
    [0xff, 0xff, 0xff, 0xff, 0xff, 0xff, 0xff, 0xff],
    [0xff, 0xff, 0xff, 0xff, 0xff, 0xff, 0xff, 0xff],
    [0xe4, 0x0, 0x0, 0x0, 0x0, 0x0, 0x0, 0x0],
    [0x1c, 0xff, 0xff, 0xff, 0xff, 0xff, 0xff, 0xff],
    [0xff, 0xff, 0xff, 0xff, 0xff, 0xff, 0xff, 0xff],
    [0xff, 0xff, 0xff, 0xff, 0xff, 0xff, 0xff, 0xc1],
    [0x0, 0x0, 0x0, 0x0, 0x0, 0x0, 0x0, 0x0],
    [0x6, 0xff, 0xff, 0xff, 0xff, 0xff, 0xff, 0xff],
    [0xff, 0xff, 0xff, 0xff, 0xff, 0xff, 0xff, 0xff],
    [0xff, 0xff, 0xff, 0xff, 0xff, 0xfe, 0x60, 0x0],
    [0x0, 0x0, 0x0, 0x0, 0x0, 0x0, 0x0, 0x0],
    [0x1, 0xaf, 0xff, 0xff, 0xff, 0xff, 0xff, 0xff],
    [0xff, 0xff, 0xff, 0xff, 0xff, 0xff, 0xff, 0xff],
    [0xff, 0xff, 0xff, 0xff, 0xf9, 0x10, 0x0, 0x0],
    [0x0, 0x0, 0x0, 0x0, 0x0, 0x0, 0x0, 0x0],
    [0x0, 0x4c, 0xff, 0xff, 0xff, 0xff, 0xff, 0xff],
    [0xff, 0xff, 0xff, 0xff, 0xff, 0xff, 0xff, 0xff],
    [0xff, 0xff, 0xff, 0x91, 0x0, 0x0, 0x0, 0x0],
    [0x0, 0x0, 0x0, 0x0, 0x0, 0x0, 0x0, 0x0],
    [0x0, 0x3, 0xaf, 0xff, 0xff, 0xff, 0xff, 0xff],
    [0xff, 0xff, 0xff, 0xff, 0xff, 0xff, 0xff, 0xff],
    [0xff, 0xd7, 0x10, 0x0, 0x0, 0x0, 0x0, 0x0],
    [0x0, 0x0, 0x0, 0x0, 0x0, 0x0, 0x0, 0x0],
    [0x0, 0x0, 0x16, 0xcf, 0xff, 0xff, 0xff, 0xff],
    [0xff, 0xff, 0xff, 0xff, 0xff, 0xff, 0xff, 0xc8],
    [0x30, 0x0, 0x0, 0x0, 0x0, 0x0, 0x0, 0x0],
    [0x0, 0x0, 0x0, 0x0, 0x0, 0x0, 0x0, 0x0],
    [0x0, 0x0, 0x0, 0x5, 0x8c, 0xff, 0xff, 0xff],
    [0xff, 0xff, 0xff, 0xff, 0xfb, 0x85, 0x10, 0x0],
    [0x0, 0x0, 0x0, 0x0, 0x0, 0x0, 0x0, 0x0],
    [0x0, 0x0, 0x0, 0x0, 0x0, 0x0, 0x0, 0x0],
    [0x0, 0x0, 0x0, 0x0, 0x0, 0x13, 0x56, 0x77],
    [0x77, 0x66, 0x43, 0x10, 0x0, 0x0, 0x0, 0x0],
    [0x0, 0x0, 0x0, 0x0, 0x0, 0x0]]"

lemma glyph_U0047_b_length: "length (concat glyph_U0047_b) = 990"
  by (simp add: glyph_U0047_b_def)

definition glyph_U0048_a :: "u8 list list" where
  "glyph_U0048_a = [
    [0xab, 0xbb, 0xbb, 0xbb, 0xb8, 0x0, 0x0, 0x0],
    [0x0, 0x0, 0x0, 0x0, 0x0, 0x0, 0x0, 0x0],
    [0x0, 0x0, 0x0, 0x0, 0x0, 0x0, 0x0, 0x0],
    [0x8b, 0xbb, 0xbb, 0xbb, 0xba, 0xef, 0xff, 0xff],
    [0xff, 0xfb, 0x0, 0x0, 0x0, 0x0, 0x0, 0x0],
    [0x0, 0x0, 0x0, 0x0, 0x0, 0x0, 0x0, 0x0],
    [0x0, 0x0, 0x0, 0x0, 0x0, 0xbf, 0xff, 0xff],
    [0xff, 0xfe, 0xef, 0xff, 0xff, 0xff, 0xfb, 0x0],
    [0x0, 0x0, 0x0, 0x0, 0x0, 0x0, 0x0, 0x0],
    [0x0, 0x0, 0x0, 0x0, 0x0, 0x0, 0x0, 0x0],
    [0x0, 0x0, 0xbf, 0xff, 0xff, 0xff, 0xfe, 0xef],
    [0xff, 0xff, 0xff, 0xfb, 0x0, 0x0, 0x0, 0x0],
    [0x0, 0x0, 0x0, 0x0, 0x0, 0x0, 0x0, 0x0],
    [0x0, 0x0, 0x0, 0x0, 0x0, 0x0, 0x0, 0xbf],
    [0xff, 0xff, 0xff, 0xfe, 0xef, 0xff, 0xff, 0xff],
    [0xfb, 0x0, 0x0, 0x0, 0x0, 0x0, 0x0, 0x0],
    [0x0, 0x0, 0x0, 0x0, 0x0, 0x0, 0x0, 0x0],
    [0x0, 0x0, 0x0, 0x0, 0xbf, 0xff, 0xff, 0xff],
    [0xfe, 0xef, 0xff, 0xff, 0xff, 0xfb, 0x0, 0x0],
    [0x0, 0x0, 0x0, 0x0, 0x0, 0x0, 0x0, 0x0],
    [0x0, 0x0, 0x0, 0x0, 0x0, 0x0, 0x0, 0x0],
    [0x0, 0xbf, 0xff, 0xff, 0xff, 0xfe, 0xef, 0xff],
    [0xff, 0xff, 0xfb, 0x0, 0x0, 0x0, 0x0, 0x0],
    [0x0, 0x0, 0x0, 0x0, 0x0, 0x0, 0x0, 0x0],
    [0x0, 0x0, 0x0, 0x0, 0x0, 0x0, 0xbf, 0xff],
    [0xff, 0xff, 0xfe, 0xef, 0xff, 0xff, 0xff, 0xfb],
    [0x0, 0x0, 0x0, 0x0, 0x0, 0x0, 0x0, 0x0],
    [0x0, 0x0, 0x0, 0x0, 0x0, 0x0, 0x0, 0x0],
    [0x0, 0x0, 0x0, 0xbf, 0xff, 0xff, 0xff, 0xfe],
    [0xef, 0xff, 0xff, 0xff, 0xfb, 0x0, 0x0, 0x0],
    [0x0, 0x0, 0x0, 0x0, 0x0, 0x0, 0x0, 0x0],
    [0x0, 0x0, 0x0, 0x0, 0x0, 0x0, 0x0, 0x0],
    [0xbf, 0xff, 0xff, 0xff, 0xfe, 0xef, 0xff, 0xff],
    [0xff, 0xfb, 0x0, 0x0, 0x0, 0x0, 0x0, 0x0],
    [0x0, 0x0, 0x0, 0x0, 0x0, 0x0, 0x0, 0x0],
    [0x0, 0x0, 0x0, 0x0, 0x0, 0xbf, 0xff, 0xff],
    [0xff, 0xfe, 0xef, 0xff, 0xff, 0xff, 0xfb, 0x0],
    [0x0, 0x0, 0x0, 0x0, 0x0, 0x0, 0x0, 0x0],
    [0x0, 0x0, 0x0, 0x0, 0x0, 0x0, 0x0, 0x0],
    [0x0, 0x0, 0xbf, 0xff, 0xff, 0xff, 0xfe, 0xef],
    [0xff, 0xff, 0xff, 0xfb, 0x0, 0x0, 0x0, 0x0],
    [0x0, 0x0, 0x0, 0x0, 0x0, 0x0, 0x0, 0x0],
    [0x0, 0x0, 0x0, 0x0, 0x0, 0x0, 0x0, 0xbf],
    [0xff, 0xff, 0xff, 0xfe, 0xef, 0xff, 0xff, 0xff],
    [0xfb, 0x0, 0x0, 0x0, 0x0, 0x0, 0x0, 0x0],
    [0x0, 0x0, 0x0, 0x0, 0x0, 0x0, 0x0, 0x0],
    [0x0, 0x0, 0x0, 0x0, 0xbf, 0xff, 0xff, 0xff],
    [0xfe, 0xef, 0xff, 0xff, 0xff, 0xfb, 0x0, 0x0],
    [0x0, 0x0, 0x0, 0x0, 0x0, 0x0, 0x0, 0x0],
    [0x0, 0x0, 0x0, 0x0, 0x0, 0x0, 0x0, 0x0],
    [0x0, 0xbf, 0xff, 0xff, 0xff, 0xfe, 0xef, 0xff],
    [0xff, 0xff, 0xfb, 0x0, 0x0, 0x0, 0x0, 0x0],
    [0x0, 0x0, 0x0, 0x0, 0x0, 0x0, 0x0, 0x0],
    [0x0, 0x0, 0x0, 0x0, 0x0, 0x0, 0xbf, 0xff],
    [0xff, 0xff, 0xfe, 0xef, 0xff, 0xff, 0xff, 0xfb],
    [0x0, 0x0, 0x0, 0x0, 0x0, 0x0, 0x0, 0x0],
    [0x0, 0x0, 0x0, 0x0, 0x0, 0x0, 0x0, 0x0],
    [0x0, 0x0, 0x0, 0xbf, 0xff, 0xff, 0xff, 0xfe],
    [0xef, 0xff, 0xff, 0xff, 0xfb, 0x0, 0x0, 0x0],
    [0x0, 0x0, 0x0, 0x0, 0x0, 0x0, 0x0, 0x0],
    [0x0, 0x0, 0x0, 0x0, 0x0, 0x0, 0x0, 0x0],
    [0xbf, 0xff, 0xff, 0xff, 0xfe, 0xef, 0xff, 0xff],
    [0xff, 0xfb, 0x0, 0x0, 0x0, 0x0, 0x0, 0x0],
    [0x0, 0x0, 0x0, 0x0, 0x0, 0x0, 0x0, 0x0],
    [0x0, 0x0, 0x0, 0x0, 0x0, 0xbf, 0xff, 0xff],
    [0xff, 0xfe, 0xef, 0xff, 0xff, 0xff, 0xfb, 0x0],
    [0x0, 0x0, 0x0, 0x0, 0x0, 0x0, 0x0, 0x0],
    [0x0, 0x0, 0x0, 0x0, 0x0, 0x0, 0x0, 0x0],
    [0x0, 0x0, 0xbf, 0xff, 0xff, 0xff, 0xfe, 0xef],
    [0xff, 0xff, 0xff, 0xfb, 0x0, 0x0, 0x0, 0x0],
    [0x0, 0x0, 0x0, 0x0, 0x0, 0x0, 0x0, 0x0],
    [0x0, 0x0, 0x0, 0x0, 0x0, 0x0, 0x0, 0xbf],
    [0xff, 0xff, 0xff, 0xfe, 0xef, 0xff, 0xff, 0xff],
    [0xfb, 0x0, 0x0, 0x0, 0x0, 0x0, 0x0, 0x0],
    [0x0, 0x0, 0x0, 0x0, 0x0, 0x0, 0x0, 0x0],
    [0x0, 0x0, 0x0, 0x0, 0xbf, 0xff, 0xff, 0xff],
    [0xfe, 0xef, 0xff, 0xff, 0xff, 0xfb, 0x0, 0x0],
    [0x0, 0x0, 0x0, 0x0, 0x0, 0x0, 0x0, 0x0],
    [0x0, 0x0, 0x0, 0x0, 0x0, 0x0, 0x0, 0x0],
    [0x0, 0xbf, 0xff, 0xff, 0xff, 0xfe, 0xef, 0xff],
    [0xff, 0xff, 0xfb, 0x0, 0x0, 0x0, 0x0, 0x0],
    [0x0, 0x0, 0x0, 0x0, 0x0, 0x0, 0x0, 0x0],
    [0x0, 0x0, 0x0, 0x0, 0x0, 0x0, 0xbf, 0xff],
    [0xff, 0xff, 0xfe, 0xef, 0xff, 0xff, 0xff, 0xfb],
    [0x0, 0x0, 0x0, 0x0, 0x0, 0x0, 0x0, 0x0],
    [0x0, 0x0, 0x0, 0x0, 0x0, 0x0, 0x0, 0x0],
    [0x0, 0x0, 0x0, 0xbf, 0xff, 0xff, 0xff, 0xfe],
    [0xef, 0xff, 0xff, 0xff, 0xfb, 0x0, 0x0, 0x0],
    [0x0, 0x0, 0x0, 0x0, 0x0, 0x0, 0x0, 0x0],
    [0x0, 0x0, 0x0, 0x0, 0x0, 0x0, 0x0, 0x0],
    [0xbf, 0xff, 0xff, 0xff, 0xfe, 0xef, 0xff, 0xff],
    [0xff, 0xfb, 0x0, 0x0, 0x0, 0x0, 0x0, 0x0],
    [0x0, 0x0, 0x0, 0x0, 0x0, 0x0, 0x0, 0x0],
    [0x0, 0x0, 0x0, 0x0, 0x0, 0xbf, 0xff, 0xff],
    [0xff, 0xfe, 0xef, 0xff, 0xff, 0xff, 0xfb, 0x0],
    [0x0, 0x0, 0x0, 0x0, 0x0, 0x0, 0x0, 0x0],
    [0x0, 0x0, 0x0, 0x0, 0x0, 0x0, 0x0, 0x0],
    [0x0, 0x0, 0xbf, 0xff, 0xff, 0xff, 0xfe, 0xef],
    [0xff, 0xff, 0xff, 0xfb, 0x0, 0x0, 0x0, 0x0],
    [0x0, 0x0, 0x0, 0x0, 0x0, 0x0, 0x0, 0x0],
    [0x0, 0x0, 0x0, 0x0, 0x0, 0x0, 0x0, 0xbf],
    [0xff, 0xff, 0xff, 0xfe, 0xef, 0xff, 0xff, 0xff],
    [0xfb, 0x0, 0x0, 0x0, 0x0, 0x0, 0x0, 0x0],
    [0x0, 0x0, 0x0, 0x0, 0x0, 0x0, 0x0, 0x0],
    [0x0, 0x0, 0x0, 0x0, 0xbf, 0xff, 0xff, 0xff],
    [0xfe, 0xef, 0xff, 0xff, 0xff, 0xff, 0xff, 0xff],
    [0xff, 0xff, 0xff, 0xff, 0xff, 0xff, 0xff, 0xff],
    [0xff, 0xff, 0xff, 0xff, 0xff, 0xff, 0xff, 0xff],
    [0xff, 0xff, 0xff, 0xff, 0xff, 0xfe, 0xef, 0xff],
    [0xff, 0xff, 0xff, 0xff, 0xff, 0xff, 0xff, 0xff],
    [0xff, 0xff, 0xff, 0xff, 0xff, 0xff, 0xff, 0xff],
    [0xff, 0xff, 0xff, 0xff, 0xff, 0xff, 0xff, 0xff],
    [0xff, 0xff, 0xfe, 0xef, 0xff, 0xff, 0xff, 0xff],
    [0xff, 0xff, 0xff, 0xff, 0xff, 0xff, 0xff, 0xff],
    [0xff, 0xff, 0xff, 0xff, 0xff, 0xff, 0xff, 0xff],
    [0xff, 0xff, 0xff, 0xff, 0xff, 0xff, 0xff, 0xfe],
    [0xef, 0xff, 0xff, 0xff, 0xff, 0xff, 0xff, 0xff],
    [0xff, 0xff, 0xff, 0xff, 0xff, 0xff, 0xff, 0xff],
    [0xff, 0xff, 0xff, 0xff, 0xff, 0xff, 0xff, 0xff],
    [0xff, 0xff, 0xff, 0xff, 0xfe, 0xef, 0xff, 0xff],
    [0xff, 0xff, 0xff, 0xff, 0xff, 0xff, 0xff, 0xff],
    [0xff, 0xff, 0xff, 0xff, 0xff, 0xff, 0xff, 0xff],
    [0xff, 0xff, 0xff, 0xff, 0xff, 0xff, 0xff, 0xff],
    [0xff, 0xfe, 0xef, 0xff, 0xff, 0xff, 0xff, 0xff],
    [0xff, 0xff, 0xff, 0xff, 0xff, 0xff, 0xff, 0xff],
    [0xff, 0xff, 0xff, 0xff, 0xff, 0xff, 0xff, 0xff],
    [0xff, 0xff, 0xff, 0xff, 0xff, 0xff, 0xfe, 0xef],
    [0xff, 0xff, 0xff, 0xff, 0xff, 0xff, 0xff, 0xff],
    [0xff, 0xff, 0xff, 0xff, 0xff, 0xff, 0xff, 0xff],
    [0xff, 0xff, 0xff, 0xff, 0xff, 0xff, 0xff, 0xff],
    [0xff, 0xff, 0xff, 0xfe, 0xef, 0xff, 0xff, 0xff],
    [0xff, 0xff, 0xff, 0xff, 0xff, 0xff, 0xff, 0xff],
    [0xff, 0xff, 0xff, 0xff, 0xff, 0xff, 0xff, 0xff],
    [0xff, 0xff, 0xff, 0xff, 0xff, 0xff, 0xff, 0xff],
    [0xfe, 0xef, 0xff, 0xff, 0xff, 0xfc, 0x44, 0x44],
    [0x44, 0x44, 0x44, 0x44, 0x44, 0x44, 0x44, 0x44],
    [0x44, 0x44, 0x44, 0x44, 0x44, 0x44, 0x44, 0x44],
    [0x44, 0xcf, 0xff, 0xff, 0xff, 0xfe, 0xef, 0xff],
    [0xff, 0xff, 0xfb, 0x0, 0x0, 0x0, 0x0, 0x0],
    [0x0, 0x0, 0x0, 0x0, 0x0, 0x0, 0x0, 0x0],
    [0x0, 0x0, 0x0, 0x0, 0x0, 0x0, 0xbf, 0xff],
    [0xff, 0xff, 0xfe, 0xef, 0xff, 0xff, 0xff, 0xfb],
    [0x0, 0x0, 0x0, 0x0, 0x0, 0x0, 0x0, 0x0],
    [0x0, 0x0, 0x0, 0x0, 0x0, 0x0, 0x0, 0x0],
    [0x0, 0x0, 0x0, 0xbf, 0xff, 0xff, 0xff, 0xfe],
    [0xef, 0xff, 0xff, 0xff, 0xfb, 0x0, 0x0, 0x0],
    [0x0, 0x0, 0x0, 0x0, 0x0, 0x0, 0x0, 0x0],
    [0x0, 0x0, 0x0, 0x0, 0x0, 0x0, 0x0, 0x0]]"

lemma glyph_U0048_a_length: "length (concat glyph_U0048_a) = 1184"
  by (simp add: glyph_U0048_a_def)

definition glyph_U0048_b :: "u8 list list" where
  "glyph_U0048_b = [
    [0xbf, 0xff, 0xff, 0xff, 0xfe, 0xef, 0xff, 0xff],
    [0xff, 0xfb, 0x0, 0x0, 0x0, 0x0, 0x0, 0x0],
    [0x0, 0x0, 0x0, 0x0, 0x0, 0x0, 0x0, 0x0],
    [0x0, 0x0, 0x0, 0x0, 0x0, 0xbf, 0xff, 0xff],
    [0xff, 0xfe, 0xef, 0xff, 0xff, 0xff, 0xfb, 0x0],
    [0x0, 0x0, 0x0, 0x0, 0x0, 0x0, 0x0, 0x0],
    [0x0, 0x0, 0x0, 0x0, 0x0, 0x0, 0x0, 0x0],
    [0x0, 0x0, 0xbf, 0xff, 0xff, 0xff, 0xfe, 0xef],
    [0xff, 0xff, 0xff, 0xfb, 0x0, 0x0, 0x0, 0x0],
    [0x0, 0x0, 0x0, 0x0, 0x0, 0x0, 0x0, 0x0],
    [0x0, 0x0, 0x0, 0x0, 0x0, 0x0, 0x0, 0xbf],
    [0xff, 0xff, 0xff, 0xfe, 0xef, 0xff, 0xff, 0xff],
    [0xfb, 0x0, 0x0, 0x0, 0x0, 0x0, 0x0, 0x0],
    [0x0, 0x0, 0x0, 0x0, 0x0, 0x0, 0x0, 0x0],
    [0x0, 0x0, 0x0, 0x0, 0xbf, 0xff, 0xff, 0xff],
    [0xfe, 0xef, 0xff, 0xff, 0xff, 0xfb, 0x0, 0x0],
    [0x0, 0x0, 0x0, 0x0, 0x0, 0x0, 0x0, 0x0],
    [0x0, 0x0, 0x0, 0x0, 0x0, 0x0, 0x0, 0x0],
    [0x0, 0xbf, 0xff, 0xff, 0xff, 0xfe, 0xef, 0xff],
    [0xff, 0xff, 0xfb, 0x0, 0x0, 0x0, 0x0, 0x0],
    [0x0, 0x0, 0x0, 0x0, 0x0, 0x0, 0x0, 0x0],
    [0x0, 0x0, 0x0, 0x0, 0x0, 0x0, 0xbf, 0xff],
    [0xff, 0xff, 0xfe, 0xef, 0xff, 0xff, 0xff, 0xfb],
    [0x0, 0x0, 0x0, 0x0, 0x0, 0x0, 0x0, 0x0],
    [0x0, 0x0, 0x0, 0x0, 0x0, 0x0, 0x0, 0x0],
    [0x0, 0x0, 0x0, 0xbf, 0xff, 0xff, 0xff, 0xfe],
    [0xef, 0xff, 0xff, 0xff, 0xfb, 0x0, 0x0, 0x0],
    [0x0, 0x0, 0x0, 0x0, 0x0, 0x0, 0x0, 0x0],
    [0x0, 0x0, 0x0, 0x0, 0x0, 0x0, 0x0, 0x0],
    [0xbf, 0xff, 0xff, 0xff, 0xfe, 0xef, 0xff, 0xff],
    [0xff, 0xfb, 0x0, 0x0, 0x0, 0x0, 0x0, 0x0],
    [0x0, 0x0, 0x0, 0x0, 0x0, 0x0, 0x0, 0x0],
    [0x0, 0x0, 0x0, 0x0, 0x0, 0xbf, 0xff, 0xff],
    [0xff, 0xfe, 0xef, 0xff, 0xff, 0xff, 0xfb, 0x0],
    [0x0, 0x0, 0x0, 0x0, 0x0, 0x0, 0x0, 0x0],
    [0x0, 0x0, 0x0, 0x0, 0x0, 0x0, 0x0, 0x0],
    [0x0, 0x0, 0xbf, 0xff, 0xff, 0xff, 0xfe, 0xef],
    [0xff, 0xff, 0xff, 0xfb, 0x0, 0x0, 0x0, 0x0],
    [0x0, 0x0, 0x0, 0x0, 0x0, 0x0, 0x0, 0x0],
    [0x0, 0x0, 0x0, 0x0, 0x0, 0x0, 0x0, 0xbf],
    [0xff, 0xff, 0xff, 0xfe, 0xef, 0xff, 0xff, 0xff],
    [0xfb, 0x0, 0x0, 0x0, 0x0, 0x0, 0x0, 0x0],
    [0x0, 0x0, 0x0, 0x0, 0x0, 0x0, 0x0, 0x0],
    [0x0, 0x0, 0x0, 0x0, 0xbf, 0xff, 0xff, 0xff],
    [0xfe, 0xef, 0xff, 0xff, 0xff, 0xfb, 0x0, 0x0],
    [0x0, 0x0, 0x0, 0x0, 0x0, 0x0, 0x0, 0x0],
    [0x0, 0x0, 0x0, 0x0, 0x0, 0x0, 0x0, 0x0],
    [0x0, 0xbf, 0xff, 0xff, 0xff, 0xfe, 0xef, 0xff],
    [0xff, 0xff, 0xfb, 0x0, 0x0, 0x0, 0x0, 0x0],
    [0x0, 0x0, 0x0, 0x0, 0x0, 0x0, 0x0, 0x0],
    [0x0, 0x0, 0x0, 0x0, 0x0, 0x0, 0xbf, 0xff],
    [0xff, 0xff, 0xfe, 0xef, 0xff, 0xff, 0xff, 0xfb],
    [0x0, 0x0, 0x0, 0x0, 0x0, 0x0, 0x0, 0x0],
    [0x0, 0x0, 0x0, 0x0, 0x0, 0x0, 0x0, 0x0],
    [0x0, 0x0, 0x0, 0xbf, 0xff, 0xff, 0xff, 0xfe],
    [0xef, 0xff, 0xff, 0xff, 0xfb, 0x0, 0x0, 0x0],
    [0x0, 0x0, 0x0, 0x0, 0x0, 0x0, 0x0, 0x0],
    [0x0, 0x0, 0x0, 0x0, 0x0, 0x0, 0x0, 0x0],
    [0xbf, 0xff, 0xff, 0xff, 0xfe, 0xef, 0xff, 0xff],
    [0xff, 0xfb, 0x0, 0x0, 0x0, 0x0, 0x0, 0x0],
    [0x0, 0x0, 0x0, 0x0, 0x0, 0x0, 0x0, 0x0],
    [0x0, 0x0, 0x0, 0x0, 0x0, 0xbf, 0xff, 0xff],
    [0xff, 0xfe, 0xef, 0xff, 0xff, 0xff, 0xfb, 0x0],
    [0x0, 0x0, 0x0, 0x0, 0x0, 0x0, 0x0, 0x0],
    [0x0, 0x0, 0x0, 0x0, 0x0, 0x0, 0x0, 0x0],
    [0x0, 0x0, 0xbf, 0xff, 0xff, 0xff, 0xfe, 0xef],
    [0xff, 0xff, 0xff, 0xfb, 0x0, 0x0, 0x0, 0x0],
    [0x0, 0x0, 0x0, 0x0, 0x0, 0x0, 0x0, 0x0],
    [0x0, 0x0, 0x0, 0x0, 0x0, 0x0, 0x0, 0xbf],
    [0xff, 0xff, 0xff, 0xfe, 0xef, 0xff, 0xff, 0xff],
    [0xfb, 0x0, 0x0, 0x0, 0x0, 0x0, 0x0, 0x0],
    [0x0, 0x0, 0x0, 0x0, 0x0, 0x0, 0x0, 0x0],
    [0x0, 0x0, 0x0, 0x0, 0xbf, 0xff, 0xff, 0xff],
    [0xfe, 0xef, 0xff, 0xff, 0xff, 0xfb, 0x0, 0x0],
    [0x0, 0x0, 0x0, 0x0, 0x0, 0x0, 0x0, 0x0],
    [0x0, 0x0, 0x0, 0x0, 0x0, 0x0, 0x0, 0x0],
    [0x0, 0xbf, 0xff, 0xff, 0xff, 0xfe, 0xef, 0xff],
    [0xff, 0xff, 0xfb, 0x0, 0x0, 0x0, 0x0, 0x0],
    [0x0, 0x0, 0x0, 0x0, 0x0, 0x0, 0x0, 0x0],
    [0x0, 0x0, 0x0, 0x0, 0x0, 0x0, 0xbf, 0xff],
    [0xff, 0xff, 0xfe, 0xef, 0xff, 0xff, 0xff, 0xfb],
    [0x0, 0x0, 0x0, 0x0, 0x0, 0x0, 0x0, 0x0],
    [0x0, 0x0, 0x0, 0x0, 0x0, 0x0, 0x0, 0x0],
    [0x0, 0x0, 0x0, 0xbf, 0xff, 0xff, 0xff, 0xfe],
    [0xef, 0xff, 0xff, 0xff, 0xfb, 0x0, 0x0, 0x0],
    [0x0, 0x0, 0x0, 0x0, 0x0, 0x0, 0x0, 0x0],
    [0x0, 0x0, 0x0, 0x0, 0x0, 0x0, 0x0, 0x0],
    [0xbf, 0xff, 0xff, 0xff, 0xfe, 0xef, 0xff, 0xff],
    [0xff, 0xfb, 0x0, 0x0, 0x0, 0x0, 0x0, 0x0],
    [0x0, 0x0, 0x0, 0x0, 0x0, 0x0, 0x0, 0x0],
    [0x0, 0x0, 0x0, 0x0, 0x0, 0xbf, 0xff, 0xff],
    [0xff, 0xfe, 0xef, 0xff, 0xff, 0xff, 0xfb, 0x0],
    [0x0, 0x0, 0x0, 0x0, 0x0, 0x0, 0x0, 0x0],
    [0x0, 0x0, 0x0, 0x0, 0x0, 0x0, 0x0, 0x0],
    [0x0, 0x0, 0xbf, 0xff, 0xff, 0xff, 0xfe]]"

lemma glyph_U0048_b_length: "length (concat glyph_U0048_b) = 759"
  by (simp add: glyph_U0048_b_def)

definition glyph_U0049 :: "u8 list list" where
  "glyph_U0049 = [
    [0xab, 0xbb, 0xbb, 0xbb, 0xb8, 0xef, 0xff, 0xff],
    [0xff, 0xfb, 0xef, 0xff, 0xff, 0xff, 0xfb, 0xef],
    [0xff, 0xff, 0xff, 0xfb, 0xef, 0xff, 0xff, 0xff],
    [0xfb, 0xef, 0xff, 0xff, 0xff, 0xfb, 0xef, 0xff],
    [0xff, 0xff, 0xfb, 0xef, 0xff, 0xff, 0xff, 0xfb],
    [0xef, 0xff, 0xff, 0xff, 0xfb, 0xef, 0xff, 0xff],
    [0xff, 0xfb, 0xef, 0xff, 0xff, 0xff, 0xfb, 0xef],
    [0xff, 0xff, 0xff, 0xfb, 0xef, 0xff, 0xff, 0xff],
    [0xfb, 0xef, 0xff, 0xff, 0xff, 0xfb, 0xef, 0xff],
    [0xff, 0xff, 0xfb, 0xef, 0xff, 0xff, 0xff, 0xfb],
    [0xef, 0xff, 0xff, 0xff, 0xfb, 0xef, 0xff, 0xff],
    [0xff, 0xfb, 0xef, 0xff, 0xff, 0xff, 0xfb, 0xef],
    [0xff, 0xff, 0xff, 0xfb, 0xef, 0xff, 0xff, 0xff],
    [0xfb, 0xef, 0xff, 0xff, 0xff, 0xfb, 0xef, 0xff],
    [0xff, 0xff, 0xfb, 0xef, 0xff, 0xff, 0xff, 0xfb],
    [0xef, 0xff, 0xff, 0xff, 0xfb, 0xef, 0xff, 0xff],
    [0xff, 0xfb, 0xef, 0xff, 0xff, 0xff, 0xfb, 0xef],
    [0xff, 0xff, 0xff, 0xfb, 0xef, 0xff, 0xff, 0xff],
    [0xfb, 0xef, 0xff, 0xff, 0xff, 0xfb, 0xef, 0xff],
    [0xff, 0xff, 0xfb, 0xef, 0xff, 0xff, 0xff, 0xfb],
    [0xef, 0xff, 0xff, 0xff, 0xfb, 0xef, 0xff, 0xff],
    [0xff, 0xfb, 0xef, 0xff, 0xff, 0xff, 0xfb, 0xef],
    [0xff, 0xff, 0xff, 0xfb, 0xef, 0xff, 0xff, 0xff],
    [0xfb, 0xef, 0xff, 0xff, 0xff, 0xfb, 0xef, 0xff],
    [0xff, 0xff, 0xfb, 0xef, 0xff, 0xff, 0xff, 0xfb],
    [0xef, 0xff, 0xff, 0xff, 0xfb, 0xef, 0xff, 0xff],
    [0xff, 0xfb, 0xef, 0xff, 0xff, 0xff, 0xfb, 0xef],
    [0xff, 0xff, 0xff, 0xfb, 0xef, 0xff, 0xff, 0xff],
    [0xfb, 0xef, 0xff, 0xff, 0xff, 0xfb, 0xef, 0xff],
    [0xff, 0xff, 0xfb, 0xef, 0xff, 0xff, 0xff, 0xfb],
    [0xef, 0xff, 0xff, 0xff, 0xfb, 0xef, 0xff, 0xff],
    [0xff, 0xfb, 0xef, 0xff, 0xff, 0xff, 0xfb, 0xef],
    [0xff, 0xff, 0xff, 0xfb, 0xef, 0xff, 0xff, 0xff],
    [0xfb, 0xef, 0xff, 0xff, 0xff, 0xfb, 0xef, 0xff],
    [0xff, 0xff, 0xfb, 0xef, 0xff, 0xff, 0xff, 0xfb],
    [0xef, 0xff, 0xff, 0xff, 0xfb, 0xef, 0xff, 0xff],
    [0xff, 0xfb, 0xef, 0xff, 0xff, 0xff, 0xfb, 0xef],
    [0xff, 0xff, 0xff, 0xfb, 0xef, 0xff, 0xff, 0xff],
    [0xfb, 0xef, 0xff, 0xff, 0xff, 0xfb, 0xef, 0xff],
    [0xff, 0xff, 0xfb, 0xef, 0xff, 0xff, 0xff, 0xfb],
    [0xef, 0xff, 0xff, 0xff, 0xfb, 0xef, 0xff, 0xff],
    [0xff, 0xfb, 0xef, 0xff, 0xff, 0xff, 0xfb]]"

lemma glyph_U0049_length: "length (concat glyph_U0049) = 335"
  by (simp add: glyph_U0049_def)

definition glyph_U004A_a :: "u8 list list" where
  "glyph_U004A_a = [
    [0x0, 0x0, 0x0, 0xf, 0xff, 0xff, 0xff, 0xff],
    [0xff, 0xff, 0xff, 0xff, 0xff, 0xff, 0xff, 0xff],
    [0xff, 0xff, 0xff, 0xff, 0xc0, 0x0, 0x0, 0x0],
    [0xff, 0xff, 0xff, 0xff, 0xff, 0xff, 0xff, 0xff],
    [0xff, 0xff, 0xff, 0xff, 0xff, 0xff, 0xff, 0xff],
    [0xfc, 0x0, 0x0, 0x0, 0xf, 0xff, 0xff, 0xff],
    [0xff, 0xff, 0xff, 0xff, 0xff, 0xff, 0xff, 0xff],
    [0xff, 0xff, 0xff, 0xff, 0xff, 0xc0, 0x0, 0x0],
    [0x0, 0xff, 0xff, 0xff, 0xff, 0xff, 0xff, 0xff],
    [0xff, 0xff, 0xff, 0xff, 0xff, 0xff, 0xff, 0xff],
    [0xff, 0xfc, 0x0, 0x0, 0x0, 0xf, 0xff, 0xff],
    [0xff, 0xff, 0xff, 0xff, 0xff, 0xff, 0xff, 0xff],
    [0xff, 0xff, 0xff, 0xff, 0xff, 0xff, 0xc0, 0x0],
    [0x0, 0x0, 0xff, 0xff, 0xff, 0xff, 0xff, 0xff],
    [0xff, 0xff, 0xff, 0xff, 0xff, 0xff, 0xff, 0xff],
    [0xff, 0xff, 0xfc, 0x0, 0x0, 0x0, 0xf, 0xff],
    [0xff, 0xff, 0xff, 0xff, 0xff, 0xff, 0xff, 0xff],
    [0xff, 0xff, 0xff, 0xff, 0xff, 0xff, 0xff, 0xc0],
    [0x0, 0x0, 0x0, 0xff, 0xff, 0xff, 0xff, 0xff],
    [0xff, 0xff, 0xff, 0xff, 0xff, 0xff, 0xff, 0xff],
    [0xff, 0xff, 0xff, 0xfc, 0x0, 0x0, 0x0, 0x4],
    [0x44, 0x44, 0x44, 0x44, 0x44, 0x44, 0x44, 0x44],
    [0x44, 0x44, 0x44, 0x4d, 0xff, 0xff, 0xff, 0xff],
    [0xc0, 0x0, 0x0, 0x0, 0x0, 0x0, 0x0, 0x0],
    [0x0, 0x0, 0x0, 0x0, 0x0, 0x0, 0x0, 0x0],
    [0xcf, 0xff, 0xff, 0xff, 0xfc, 0x0, 0x0, 0x0],
    [0x0, 0x0, 0x0, 0x0, 0x0, 0x0, 0x0, 0x0],
    [0x0, 0x0, 0x0, 0x0, 0xc, 0xff, 0xff, 0xff],
    [0xff, 0xc0, 0x0, 0x0, 0x0, 0x0, 0x0, 0x0],
    [0x0, 0x0, 0x0, 0x0, 0x0, 0x0, 0x0, 0x0],
    [0x0, 0xcf, 0xff, 0xff, 0xff, 0xfc, 0x0, 0x0],
    [0x0, 0x0, 0x0, 0x0, 0x0, 0x0, 0x0, 0x0],
    [0x0, 0x0, 0x0, 0x0, 0x0, 0xc, 0xff, 0xff],
    [0xff, 0xff, 0xc0, 0x0, 0x0, 0x0, 0x0, 0x0],
    [0x0, 0x0, 0x0, 0x0, 0x0, 0x0, 0x0, 0x0],
    [0x0, 0x0, 0xcf, 0xff, 0xff, 0xff, 0xfc, 0x0],
    [0x0, 0x0, 0x0, 0x0, 0x0, 0x0, 0x0, 0x0],
    [0x0, 0x0, 0x0, 0x0, 0x0, 0x0, 0xc, 0xff],
    [0xff, 0xff, 0xff, 0xc0, 0x0, 0x0, 0x0, 0x0],
    [0x0, 0x0, 0x0, 0x0, 0x0, 0x0, 0x0, 0x0],
    [0x0, 0x0, 0x0, 0xcf, 0xff, 0xff, 0xff, 0xfc],
    [0x0, 0x0, 0x0, 0x0, 0x0, 0x0, 0x0, 0x0],
    [0x0, 0x0, 0x0, 0x0, 0x0, 0x0, 0x0, 0xc],
    [0xff, 0xff, 0xff, 0xff, 0xc0, 0x0, 0x0, 0x0],
    [0x0, 0x0, 0x0, 0x0, 0x0, 0x0, 0x0, 0x0],
    [0x0, 0x0, 0x0, 0x0, 0xcf, 0xff, 0xff, 0xff],
    [0xfc, 0x0, 0x0, 0x0, 0x0, 0x0, 0x0, 0x0],
    [0x0, 0x0, 0x0, 0x0, 0x0, 0x0, 0x0, 0x0],
    [0xc, 0xff, 0xff, 0xff, 0xff, 0xc0, 0x0, 0x0],
    [0x0, 0x0, 0x0, 0x0, 0x0, 0x0, 0x0, 0x0],
    [0x0, 0x0, 0x0, 0x0, 0x0, 0xcf, 0xff, 0xff],
    [0xff, 0xfc, 0x0, 0x0, 0x0, 0x0, 0x0, 0x0],
    [0x0, 0x0, 0x0, 0x0, 0x0, 0x0, 0x0, 0x0],
    [0x0, 0xc, 0xff, 0xff, 0xff, 0xff, 0xc0, 0x0],
    [0x0, 0x0, 0x0, 0x0, 0x0, 0x0, 0x0, 0x0],
    [0x0, 0x0, 0x0, 0x0, 0x0, 0x0, 0xcf, 0xff],
    [0xff, 0xff, 0xfc, 0x0, 0x0, 0x0, 0x0, 0x0],
    [0x0, 0x0, 0x0, 0x0, 0x0, 0x0, 0x0, 0x0],
    [0x0, 0x0, 0xc, 0xff, 0xff, 0xff, 0xff, 0xc0],
    [0x0, 0x0, 0x0, 0x0, 0x0, 0x0, 0x0, 0x0],
    [0x0, 0x0, 0x0, 0x0, 0x0, 0x0, 0x0, 0xcf],
    [0xff, 0xff, 0xff, 0xfc, 0x0, 0x0, 0x0, 0x0],
    [0x0, 0x0, 0x0, 0x0, 0x0, 0x0, 0x0, 0x0],
    [0x0, 0x0, 0x0, 0xc, 0xff, 0xff, 0xff, 0xff],
    [0xc0, 0x0, 0x0, 0x0, 0x0, 0x0, 0x0, 0x0],
    [0x0, 0x0, 0x0, 0x0, 0x0, 0x0, 0x0, 0x0],
    [0xcf, 0xff, 0xff, 0xff, 0xfc, 0x0, 0x0, 0x0],
    [0x0, 0x0, 0x0, 0x0, 0x0, 0x0, 0x0, 0x0],
    [0x0, 0x0, 0x0, 0x0, 0xc, 0xff, 0xff, 0xff],
    [0xff, 0xc0, 0x0, 0x0, 0x0, 0x0, 0x0, 0x0],
    [0x0, 0x0, 0x0, 0x0, 0x0, 0x0, 0x0, 0x0],
    [0x0, 0xcf, 0xff, 0xff, 0xff, 0xfc, 0x0, 0x0],
    [0x0, 0x0, 0x0, 0x0, 0x0, 0x0, 0x0, 0x0],
    [0x0, 0x0, 0x0, 0x0, 0x0, 0xc, 0xff, 0xff],
    [0xff, 0xff, 0xc0, 0x0, 0x0, 0x0, 0x0, 0x0],
    [0x0, 0x0, 0x0, 0x0, 0x0, 0x0, 0x0, 0x0],
    [0x0, 0x0, 0xcf, 0xff, 0xff, 0xff, 0xfc, 0x0],
    [0x0, 0x0, 0x0, 0x0, 0x0, 0x0, 0x0, 0x0],
    [0x0, 0x0, 0x0, 0x0, 0x0, 0x0, 0xc, 0xff],
    [0xff, 0xff, 0xff, 0xc0, 0x0, 0x0, 0x0, 0x0],
    [0x0, 0x0, 0x0, 0x0, 0x0, 0x0, 0x0, 0x0],
    [0x0, 0x0, 0x0, 0xcf, 0xff, 0xff, 0xff, 0xfc],
    [0x0, 0x0, 0x0, 0x0, 0x0, 0x0, 0x0, 0x0],
    [0x0, 0x0, 0x0, 0x0, 0x0, 0x0, 0x0, 0xc],
    [0xff, 0xff, 0xff, 0xff, 0xc0, 0x0, 0x0, 0x0],
    [0x0, 0x0, 0x0, 0x0, 0x0, 0x0, 0x0, 0x0],
    [0x0, 0x0, 0x0, 0x0, 0xcf, 0xff, 0xff, 0xff],
    [0xfc, 0x0, 0x0, 0x0, 0x0, 0x0, 0x0, 0x0],
    [0x0, 0x0, 0x0, 0x0, 0x0, 0x0, 0x0, 0x0],
    [0xc, 0xff, 0xff, 0xff, 0xff, 0xc0, 0x0, 0x0],
    [0x0, 0x0, 0x0, 0x0, 0x0, 0x0, 0x0, 0x0],
    [0x0, 0x0, 0x0, 0x0, 0x0, 0xcf, 0xff, 0xff],
    [0xff, 0xfc, 0x0, 0x0, 0x0, 0x0, 0x0, 0x0],
    [0x0, 0x0, 0x0, 0x0, 0x0, 0x0, 0x0, 0x0],
    [0x0, 0xc, 0xff, 0xff, 0xff, 0xff, 0xc0, 0x0],
    [0x0, 0x0, 0x0, 0x0, 0x0, 0x0, 0x0, 0x0],
    [0x0, 0x0, 0x0, 0x0, 0x0, 0x0, 0xcf, 0xff],
    [0xff, 0xff, 0xfc, 0x0, 0x0, 0x0, 0x0, 0x0],
    [0x0, 0x0, 0x0, 0x0, 0x0, 0x0, 0x0, 0x0],
    [0x0, 0x0, 0xc, 0xff, 0xff, 0xff, 0xff, 0xc0],
    [0x0, 0x0, 0x0, 0x0, 0x0, 0x0, 0x0, 0x0],
    [0x0, 0x0, 0x0, 0x0, 0x0, 0x0, 0x0, 0xcf],
    [0xff, 0xff, 0xff, 0xfc, 0x0, 0x0, 0x0, 0x0],
    [0x0, 0x0, 0x0, 0x0, 0x0, 0x0, 0x0, 0x0],
    [0x0, 0x0, 0x0, 0xc, 0xff, 0xff, 0xff, 0xff],
    [0xc0, 0x0, 0x0, 0x0, 0x0, 0x0, 0x0, 0x0],
    [0x0, 0x0, 0x0, 0x0, 0x0, 0x0, 0x0, 0x0],
    [0xcf, 0xff, 0xff, 0xff, 0xfc, 0x0, 0x0, 0x0],
    [0x0, 0x0, 0x0, 0x0, 0x0, 0x0, 0x0, 0x0],
    [0x0, 0x0, 0x0, 0x0, 0xc, 0xff, 0xff, 0xff],
    [0xff, 0xc0, 0x0, 0x0, 0x0, 0x0, 0x0, 0x0],
    [0x0, 0x0, 0x0, 0x0, 0x0, 0x0, 0x0, 0x0],
    [0x0, 0xcf, 0xff, 0xff, 0xff, 0xfc, 0x0, 0x0],
    [0x0, 0x0, 0x0, 0x0, 0x0, 0x0, 0x0, 0x0],
    [0x0, 0x0, 0x0, 0x0, 0x0, 0xc, 0xff, 0xff],
    [0xff, 0xff, 0xc0, 0x0, 0x0, 0x0, 0x0, 0x0],
    [0x0, 0x0, 0x0, 0x0, 0x0, 0x0, 0x0, 0x0],
    [0x0, 0x0, 0xcf, 0xff, 0xff, 0xff, 0xfb, 0x0],
    [0x0, 0x0, 0x0, 0x0, 0x0, 0x0, 0x0, 0x0],
    [0x0, 0x0, 0x0, 0x0, 0x0, 0x0, 0xc, 0xff],
    [0xff, 0xff, 0xff, 0xb0, 0x0, 0x0, 0x0, 0x0],
    [0x0, 0x0, 0x0, 0x0, 0x0, 0x0, 0x0, 0x0],
    [0x0, 0x0, 0x0, 0xdf, 0xff, 0xff, 0xff, 0xfa],
    [0x0, 0x0, 0x0, 0x0, 0x0, 0x0, 0x0, 0x0],
    [0x0, 0x0, 0x0, 0x0, 0x0, 0x0, 0x0, 0xe],
    [0xff, 0xff, 0xff, 0xff, 0x90, 0x0, 0x0, 0x0],
    [0x0, 0x0, 0x0, 0x0, 0x0, 0x0, 0x0, 0x0],
    [0x0, 0x0, 0x0, 0x1, 0xff, 0xff, 0xff, 0xff],
    [0xf8, 0x0, 0x0, 0x0, 0x0, 0x0, 0x0, 0x0],
    [0x0, 0x0, 0x0, 0x0, 0x0, 0x0, 0x0, 0x0],
    [0x4f, 0xff, 0xff, 0xff, 0xff, 0x60, 0x0, 0x0],
    [0x40, 0x0, 0x0, 0x0, 0x0, 0x0, 0x0, 0x0],
    [0x0, 0x0, 0x0, 0x0, 0x7, 0xff, 0xff, 0xff],
    [0xff, 0xf3, 0x0, 0x0, 0x4f, 0x80, 0x0, 0x0],
    [0x0, 0x0, 0x0, 0x0, 0x0, 0x0, 0x0, 0x0],
    [0x0, 0xdf, 0xff, 0xff, 0xff, 0xff, 0x0, 0x0],
    [0x2f, 0xff, 0x60, 0x0, 0x0, 0x0, 0x0, 0x0],
    [0x0, 0x0, 0x0, 0x0, 0x0, 0x3f, 0xff, 0xff],
    [0xff, 0xff, 0xc0, 0x0, 0x1e, 0xff, 0xff, 0x50],
    [0x0, 0x0, 0x0, 0x0, 0x0, 0x0, 0x0, 0x0],
    [0x0, 0xc, 0xff, 0xff, 0xff, 0xff, 0xf8, 0x0],
    [0xc, 0xff, 0xff, 0xff, 0x70, 0x0, 0x0, 0x0],
    [0x0, 0x0, 0x0, 0x0, 0x0, 0x7, 0xff, 0xff],
    [0xff, 0xff, 0xff, 0x30, 0xa, 0xff, 0xff, 0xff],
    [0xff, 0xa1, 0x0, 0x0, 0x0, 0x0, 0x0, 0x0],
    [0x0, 0x6, 0xff, 0xff, 0xff, 0xff, 0xff, 0xd0],
    [0x8, 0xff, 0xff, 0xff, 0xff, 0xff, 0xe6, 0x0],
    [0x0, 0x0, 0x0, 0x0, 0x0, 0x8, 0xff, 0xff]]"

lemma glyph_U004A_a_length: "length (concat glyph_U004A_a) = 1184"
  by (simp add: glyph_U004A_a_def)

definition glyph_U004A_b :: "u8 list list" where
  "glyph_U004A_b = [
    [0xff, 0xff, 0xff, 0xf6, 0x0, 0x5f, 0xff, 0xff],
    [0xff, 0xff, 0xff, 0xfe, 0x94, 0x0, 0x0, 0x0],
    [0x3, 0x8e, 0xff, 0xff, 0xff, 0xff, 0xff, 0xfd],
    [0x0, 0x0, 0x9f, 0xff, 0xff, 0xff, 0xff, 0xff],
    [0xff, 0xff, 0xdc, 0xbc, 0xdf, 0xff, 0xff, 0xff],
    [0xff, 0xff, 0xff, 0xff, 0x40, 0x0, 0x0, 0xaf],
    [0xff, 0xff, 0xff, 0xff, 0xff, 0xff, 0xff, 0xff],
    [0xff, 0xff, 0xff, 0xff, 0xff, 0xff, 0xff, 0xff],
    [0x90, 0x0, 0x0, 0x0, 0x9f, 0xff, 0xff, 0xff],
    [0xff, 0xff, 0xff, 0xff, 0xff, 0xff, 0xff, 0xff],
    [0xff, 0xff, 0xff, 0xff, 0xc0, 0x0, 0x0, 0x0],
    [0x0, 0x7f, 0xff, 0xff, 0xff, 0xff, 0xff, 0xff],
    [0xff, 0xff, 0xff, 0xff, 0xff, 0xff, 0xff, 0xff],
    [0xb0, 0x0, 0x0, 0x0, 0x0, 0x0, 0x3d, 0xff],
    [0xff, 0xff, 0xff, 0xff, 0xff, 0xff, 0xff, 0xff],
    [0xff, 0xff, 0xff, 0xff, 0x90, 0x0, 0x0, 0x0],
    [0x0, 0x0, 0x0, 0x6, 0xef, 0xff, 0xff, 0xff],
    [0xff, 0xff, 0xff, 0xff, 0xff, 0xff, 0xff, 0xfd],
    [0x40, 0x0, 0x0, 0x0, 0x0, 0x0, 0x0, 0x0],
    [0x0, 0x6d, 0xff, 0xff, 0xff, 0xff, 0xff, 0xff],
    [0xff, 0xff, 0xff, 0xd6, 0x0, 0x0, 0x0, 0x0],
    [0x0, 0x0, 0x0, 0x0, 0x0, 0x0, 0x2, 0x7c],
    [0xff, 0xff, 0xff, 0xff, 0xff, 0xff, 0xc8, 0x30],
    [0x0, 0x0, 0x0, 0x0, 0x0, 0x0, 0x0, 0x0],
    [0x0, 0x0, 0x0, 0x0, 0x0, 0x24, 0x67, 0x77],
    [0x76, 0x42, 0x0, 0x0, 0x0, 0x0, 0x0, 0x0],
    [0x0, 0x0]]"

lemma glyph_U004A_b_length: "length (concat glyph_U004A_b) = 210"
  by (simp add: glyph_U004A_b_def)

definition glyph_U004B_a :: "u8 list list" where
  "glyph_U004B_a = [
    [0xab, 0xbb, 0xbb, 0xbb, 0xb8, 0x0, 0x0, 0x0],
    [0x0, 0x0, 0x0, 0x0, 0x0, 0x0, 0x0, 0x0],
    [0x0, 0x0, 0x0, 0x0, 0x0, 0x0, 0x2, 0xbb],
    [0xbb, 0xbb, 0xbb, 0xbb, 0x80, 0xe, 0xff, 0xff],
    [0xff, 0xff, 0xb0, 0x0, 0x0, 0x0, 0x0, 0x0],
    [0x0, 0x0, 0x0, 0x0, 0x0, 0x0, 0x0, 0x0],
    [0x0, 0x0, 0x0, 0x2, 0xef, 0xff, 0xff, 0xff],
    [0xff, 0xd1, 0x0, 0xef, 0xff, 0xff, 0xff, 0xfb],
    [0x0, 0x0, 0x0, 0x0, 0x0, 0x0, 0x0, 0x0],
    [0x0, 0x0, 0x0, 0x0, 0x0, 0x0, 0x0, 0x0],
    [0x2, 0xef, 0xff, 0xff, 0xff, 0xff, 0xd1, 0x0],
    [0xe, 0xff, 0xff, 0xff, 0xff, 0xb0, 0x0, 0x0],
    [0x0, 0x0, 0x0, 0x0, 0x0, 0x0, 0x0, 0x0],
    [0x0, 0x0, 0x0, 0x0, 0x0, 0x2, 0xef, 0xff],
    [0xff, 0xff, 0xff, 0xe2, 0x0, 0x0, 0xef, 0xff],
    [0xff, 0xff, 0xfb, 0x0, 0x0, 0x0, 0x0, 0x0],
    [0x0, 0x0, 0x0, 0x0, 0x0, 0x0, 0x0, 0x0],
    [0x0, 0x0, 0x1, 0xdf, 0xff, 0xff, 0xff, 0xff],
    [0xe2, 0x0, 0x0, 0xe, 0xff, 0xff, 0xff, 0xff],
    [0xb0, 0x0, 0x0, 0x0, 0x0, 0x0, 0x0, 0x0],
    [0x0, 0x0, 0x0, 0x0, 0x0, 0x0, 0x0, 0x1],
    [0xdf, 0xff, 0xff, 0xff, 0xff, 0xe2, 0x0, 0x0],
    [0x0, 0xef, 0xff, 0xff, 0xff, 0xfb, 0x0, 0x0],
    [0x0, 0x0, 0x0, 0x0, 0x0, 0x0, 0x0, 0x0],
    [0x0, 0x0, 0x0, 0x0, 0x1, 0xdf, 0xff, 0xff],
    [0xff, 0xff, 0xf3, 0x0, 0x0, 0x0, 0xe, 0xff],
    [0xff, 0xff, 0xff, 0xb0, 0x0, 0x0, 0x0, 0x0],
    [0x0, 0x0, 0x0, 0x0, 0x0, 0x0, 0x0, 0x0],
    [0x0, 0x1, 0xdf, 0xff, 0xff, 0xff, 0xff, 0xf3],
    [0x0, 0x0, 0x0, 0x0, 0xef, 0xff, 0xff, 0xff],
    [0xfb, 0x0, 0x0, 0x0, 0x0, 0x0, 0x0, 0x0],
    [0x0, 0x0, 0x0, 0x0, 0x0, 0x0, 0x1, 0xdf],
    [0xff, 0xff, 0xff, 0xff, 0xf4, 0x0, 0x0, 0x0],
    [0x0, 0xe, 0xff, 0xff, 0xff, 0xff, 0xb0, 0x0],
    [0x0, 0x0, 0x0, 0x0, 0x0, 0x0, 0x0, 0x0],
    [0x0, 0x0, 0x0, 0x1, 0xcf, 0xff, 0xff, 0xff],
    [0xff, 0xf4, 0x0, 0x0, 0x0, 0x0, 0x0, 0xef],
    [0xff, 0xff, 0xff, 0xfb, 0x0, 0x0, 0x0, 0x0],
    [0x0, 0x0, 0x0, 0x0, 0x0, 0x0, 0x0, 0x0],
    [0x0, 0xcf, 0xff, 0xff, 0xff, 0xff, 0xf5, 0x0],
    [0x0, 0x0, 0x0, 0x0, 0xe, 0xff, 0xff, 0xff],
    [0xff, 0xb0, 0x0, 0x0, 0x0, 0x0, 0x0, 0x0],
    [0x0, 0x0, 0x0, 0x0, 0x0, 0x0, 0xcf, 0xff],
    [0xff, 0xff, 0xff, 0xf6, 0x0, 0x0, 0x0, 0x0],
    [0x0, 0x0, 0xef, 0xff, 0xff, 0xff, 0xfb, 0x0],
    [0x0, 0x0, 0x0, 0x0, 0x0, 0x0, 0x0, 0x0],
    [0x0, 0x0, 0x0, 0xcf, 0xff, 0xff, 0xff, 0xff],
    [0xf6, 0x0, 0x0, 0x0, 0x0, 0x0, 0x0, 0xe],
    [0xff, 0xff, 0xff, 0xff, 0xb0, 0x0, 0x0, 0x0],
    [0x0, 0x0, 0x0, 0x0, 0x0, 0x0, 0x0, 0x0],
    [0xbf, 0xff, 0xff, 0xff, 0xff, 0xf7, 0x0, 0x0],
    [0x0, 0x0, 0x0, 0x0, 0x0, 0xef, 0xff, 0xff],
    [0xff, 0xfb, 0x0, 0x0, 0x0, 0x0, 0x0, 0x0],
    [0x0, 0x0, 0x0, 0x0, 0x0, 0xbf, 0xff, 0xff],
    [0xff, 0xff, 0xf8, 0x0, 0x0, 0x0, 0x0, 0x0],
    [0x0, 0x0, 0xe, 0xff, 0xff, 0xff, 0xff, 0xb0],
    [0x0, 0x0, 0x0, 0x0, 0x0, 0x0, 0x0, 0x0],
    [0x0, 0x0, 0xbf, 0xff, 0xff, 0xff, 0xff, 0xf8],
    [0x0, 0x0, 0x0, 0x0, 0x0, 0x0, 0x0, 0x0],
    [0xef, 0xff, 0xff, 0xff, 0xfb, 0x0, 0x0, 0x0],
    [0x0, 0x0, 0x0, 0x0, 0x0, 0x0, 0x0, 0xbf],
    [0xff, 0xff, 0xff, 0xff, 0xf9, 0x0, 0x0, 0x0],
    [0x0, 0x0, 0x0, 0x0, 0x0, 0xe, 0xff, 0xff],
    [0xff, 0xff, 0xb0, 0x0, 0x0, 0x0, 0x0, 0x0],
    [0x0, 0x0, 0x0, 0x0, 0xaf, 0xff, 0xff, 0xff],
    [0xff, 0xfa, 0x0, 0x0, 0x0, 0x0, 0x0, 0x0],
    [0x0, 0x0, 0x0, 0xef, 0xff, 0xff, 0xff, 0xfb],
    [0x0, 0x0, 0x0, 0x0, 0x0, 0x0, 0x0, 0x0],
    [0x0, 0xaf, 0xff, 0xff, 0xff, 0xff, 0xfa, 0x0],
    [0x0, 0x0, 0x0, 0x0, 0x0, 0x0, 0x0, 0x0],
    [0xe, 0xff, 0xff, 0xff, 0xff, 0xb0, 0x0, 0x0],
    [0x0, 0x0, 0x0, 0x0, 0x0, 0x0, 0xaf, 0xff],
    [0xff, 0xff, 0xff, 0xfb, 0x0, 0x0, 0x0, 0x0],
    [0x0, 0x0, 0x0, 0x0, 0x0, 0x0, 0xef, 0xff],
    [0xff, 0xff, 0xfb, 0x0, 0x0, 0x0, 0x0, 0x0],
    [0x0, 0x0, 0x0, 0xaf, 0xff, 0xff, 0xff, 0xff],
    [0xfb, 0x0, 0x0, 0x0, 0x0, 0x0, 0x0, 0x0],
    [0x0, 0x0, 0x0, 0xe, 0xff, 0xff, 0xff, 0xff],
    [0xb0, 0x0, 0x0, 0x0, 0x0, 0x0, 0x0, 0x0],
    [0x9f, 0xff, 0xff, 0xff, 0xff, 0xfc, 0x0, 0x0],
    [0x0, 0x0, 0x0, 0x0, 0x0, 0x0, 0x0, 0x0],
    [0x0, 0xef, 0xff, 0xff, 0xff, 0xfb, 0x0, 0x0],
    [0x0, 0x0, 0x0, 0x0, 0x0, 0x9f, 0xff, 0xff],
    [0xff, 0xff, 0xfc, 0x0, 0x0, 0x0, 0x0, 0x0],
    [0x0, 0x0, 0x0, 0x0, 0x0, 0x0, 0xe, 0xff],
    [0xff, 0xff, 0xff, 0xb0, 0x0, 0x0, 0x0, 0x0],
    [0x0, 0x0, 0x9f, 0xff, 0xff, 0xff, 0xff, 0xfd],
    [0x10, 0x0, 0x0, 0x0, 0x0, 0x0, 0x0, 0x0],
    [0x0, 0x0, 0x0, 0x0, 0xef, 0xff, 0xff, 0xff],
    [0xfb, 0x0, 0x0, 0x0, 0x0, 0x0, 0x0, 0x8f],
    [0xff, 0xff, 0xff, 0xff, 0xfd, 0x10, 0x0, 0x0],
    [0x0, 0x0, 0x0, 0x0, 0x0, 0x0, 0x0, 0x0],
    [0x0, 0xe, 0xff, 0xff, 0xff, 0xff, 0xb0, 0x0],
    [0x0, 0x0, 0x0, 0x0, 0x8f, 0xff, 0xff, 0xff],
    [0xff, 0xfe, 0x10, 0x0, 0x0, 0x0, 0x0, 0x0],
    [0x0, 0x0, 0x0, 0x0, 0x0, 0x0, 0x0, 0xef],
    [0xff, 0xff, 0xff, 0xfb, 0x0, 0x0, 0x0, 0x0],
    [0x0, 0x8f, 0xff, 0xff, 0xff, 0xff, 0xfe, 0x20],
    [0x0, 0x0, 0x0, 0x0, 0x0, 0x0, 0x0, 0x0],
    [0x0, 0x0, 0x0, 0x0, 0xe, 0xff, 0xff, 0xff],
    [0xff, 0xb0, 0x0, 0x0, 0x0, 0x0, 0x7f, 0xff],
    [0xff, 0xff, 0xff, 0xfe, 0x20, 0x0, 0x0, 0x0],
    [0x0, 0x0, 0x0, 0x0, 0x0, 0x0, 0x0, 0x0],
    [0x0, 0x0, 0xef, 0xff, 0xff, 0xff, 0xfb, 0x0],
    [0x0, 0x0, 0x0, 0x7f, 0xff, 0xff, 0xff, 0xff],
    [0xfe, 0x30, 0x0, 0x0, 0x0, 0x0, 0x0, 0x0],
    [0x0, 0x0, 0x0, 0x0, 0x0, 0x0, 0x0, 0xe],
    [0xff, 0xff, 0xff, 0xff, 0xb0, 0x0, 0x0, 0x0],
    [0x7f, 0xff, 0xff, 0xff, 0xff, 0xff, 0x30, 0x0],
    [0x0, 0x0, 0x0, 0x0, 0x0, 0x0, 0x0, 0x0],
    [0x0, 0x0, 0x0, 0x0, 0x0, 0xef, 0xff, 0xff],
    [0xff, 0xfb, 0x0, 0x0, 0x0, 0x6f, 0xff, 0xff],
    [0xff, 0xff, 0xff, 0xa0, 0x0, 0x0, 0x0, 0x0],
    [0x0, 0x0, 0x0, 0x0, 0x0, 0x0, 0x0, 0x0],
    [0x0, 0x0, 0xe, 0xff, 0xff, 0xff, 0xff, 0xb0],
    [0x0, 0x0, 0x6f, 0xff, 0xff, 0xff, 0xff, 0xff],
    [0xff, 0x60, 0x0, 0x0, 0x0, 0x0, 0x0, 0x0],
    [0x0, 0x0, 0x0, 0x0, 0x0, 0x0, 0x0, 0x0],
    [0xef, 0xff, 0xff, 0xff, 0xfb, 0x0, 0x0, 0x6f],
    [0xff, 0xff, 0xff, 0xff, 0xff, 0xff, 0xff, 0x40],
    [0x0, 0x0, 0x0, 0x0, 0x0, 0x0, 0x0, 0x0],
    [0x0, 0x0, 0x0, 0x0, 0x0, 0xe, 0xff, 0xff],
    [0xff, 0xff, 0xb0, 0x0, 0x5f, 0xff, 0xff, 0xff],
    [0xff, 0xff, 0xff, 0xff, 0xfe, 0x20, 0x0, 0x0],
    [0x0, 0x0, 0x0, 0x0, 0x0, 0x0, 0x0, 0x0],
    [0x0, 0x0, 0x0, 0xef, 0xff, 0xff, 0xff, 0xfb],
    [0x0, 0x5f, 0xff, 0xff, 0xff, 0xff, 0xff, 0xff],
    [0xff, 0xff, 0xfd, 0x0, 0x0, 0x0, 0x0, 0x0],
    [0x0, 0x0, 0x0, 0x0, 0x0, 0x0, 0x0, 0x0],
    [0xe, 0xff, 0xff, 0xff, 0xff, 0xb0, 0x5f, 0xff],
    [0xff, 0xff, 0xff, 0xff, 0xff, 0xff, 0xff, 0xff],
    [0xfb, 0x0, 0x0, 0x0, 0x0, 0x0, 0x0, 0x0],
    [0x0, 0x0, 0x0, 0x0, 0x0, 0x0, 0xef, 0xff],
    [0xff, 0xff, 0xfb, 0x4f, 0xff, 0xff, 0xff, 0xff],
    [0xff, 0xff, 0xff, 0xff, 0xff, 0xff, 0xf8, 0x0],
    [0x0, 0x0, 0x0, 0x0, 0x0, 0x0, 0x0, 0x0],
    [0x0, 0x0, 0x0, 0xe, 0xff, 0xff, 0xff, 0xff],
    [0xef, 0xff, 0xff, 0xff, 0xff, 0xff, 0xcd, 0xff],
    [0xff, 0xff, 0xff, 0xff, 0xf6, 0x0, 0x0, 0x0],
    [0x0, 0x0, 0x0, 0x0, 0x0, 0x0, 0x0, 0x0],
    [0x0, 0xef, 0xff, 0xff, 0xff, 0xff, 0xff, 0xff],
    [0xff, 0xff, 0xff, 0xc0, 0x2e, 0xff, 0xff, 0xff],
    [0xff, 0xff, 0xf3, 0x0, 0x0, 0x0, 0x0, 0x0],
    [0x0, 0x0, 0x0, 0x0, 0x0, 0x0, 0xe, 0xff],
    [0xff, 0xff, 0xff, 0xff, 0xff, 0xff, 0xff, 0xff],
    [0xc0, 0x0, 0x3f, 0xff, 0xff, 0xff, 0xff, 0xff],
    [0xe2, 0x0, 0x0, 0x0, 0x0, 0x0, 0x0, 0x0],
    [0x0, 0x0, 0x0, 0x0, 0xef, 0xff, 0xff, 0xff]]"

lemma glyph_U004B_a_length: "length (concat glyph_U004B_a) = 1184"
  by (simp add: glyph_U004B_a_def)

definition glyph_U004B_b :: "u8 list list" where
  "glyph_U004B_b = [
    [0xff, 0xff, 0xff, 0xff, 0xff, 0xc0, 0x0, 0x0],
    [0x5f, 0xff, 0xff, 0xff, 0xff, 0xff, 0xd0, 0x0],
    [0x0, 0x0, 0x0, 0x0, 0x0, 0x0, 0x0, 0x0],
    [0x0, 0xe, 0xff, 0xff, 0xff, 0xff, 0xff, 0xff],
    [0xff, 0xff, 0xc1, 0x0, 0x0, 0x0, 0x7f, 0xff],
    [0xff, 0xff, 0xff, 0xff, 0xb0, 0x0, 0x0, 0x0],
    [0x0, 0x0, 0x0, 0x0, 0x0, 0x0, 0x0, 0xef],
    [0xff, 0xff, 0xff, 0xff, 0xff, 0xff, 0xff, 0xc1],
    [0x0, 0x0, 0x0, 0x0, 0x9f, 0xff, 0xff, 0xff],
    [0xff, 0xff, 0x80, 0x0, 0x0, 0x0, 0x0, 0x0],
    [0x0, 0x0, 0x0, 0x0, 0xe, 0xff, 0xff, 0xff],
    [0xff, 0xff, 0xff, 0xff, 0xc1, 0x0, 0x0, 0x0],
    [0x0, 0x0, 0xbf, 0xff, 0xff, 0xff, 0xff, 0xff],
    [0x60, 0x0, 0x0, 0x0, 0x0, 0x0, 0x0, 0x0],
    [0x0, 0x0, 0xef, 0xff, 0xff, 0xff, 0xff, 0xff],
    [0xff, 0xd1, 0x0, 0x0, 0x0, 0x0, 0x0, 0x0],
    [0xcf, 0xff, 0xff, 0xff, 0xff, 0xff, 0x30, 0x0],
    [0x0, 0x0, 0x0, 0x0, 0x0, 0x0, 0x0, 0xe],
    [0xff, 0xff, 0xff, 0xff, 0xff, 0xff, 0xd1, 0x0],
    [0x0, 0x0, 0x0, 0x0, 0x0, 0x1, 0xdf, 0xff],
    [0xff, 0xff, 0xff, 0xfe, 0x20, 0x0, 0x0, 0x0],
    [0x0, 0x0, 0x0, 0x0, 0x0, 0xef, 0xff, 0xff],
    [0xff, 0xff, 0xff, 0xd1, 0x0, 0x0, 0x0, 0x0],
    [0x0, 0x0, 0x0, 0x2, 0xef, 0xff, 0xff, 0xff],
    [0xff, 0xfd, 0x0, 0x0, 0x0, 0x0, 0x0, 0x0],
    [0x0, 0x0, 0xe, 0xff, 0xff, 0xff, 0xff, 0xff],
    [0xd1, 0x0, 0x0, 0x0, 0x0, 0x0, 0x0, 0x0],
    [0x0, 0x4, 0xff, 0xff, 0xff, 0xff, 0xff, 0xfb],
    [0x0, 0x0, 0x0, 0x0, 0x0, 0x0, 0x0, 0x0],
    [0xef, 0xff, 0xff, 0xff, 0xff, 0xd1, 0x0, 0x0],
    [0x0, 0x0, 0x0, 0x0, 0x0, 0x0, 0x0, 0x5],
    [0xff, 0xff, 0xff, 0xff, 0xff, 0xf8, 0x0, 0x0],
    [0x0, 0x0, 0x0, 0x0, 0x0, 0xe, 0xff, 0xff],
    [0xff, 0xff, 0xd1, 0x0, 0x0, 0x0, 0x0, 0x0],
    [0x0, 0x0, 0x0, 0x0, 0x0, 0x7, 0xff, 0xff],
    [0xff, 0xff, 0xff, 0xf5, 0x0, 0x0, 0x0, 0x0],
    [0x0, 0x0, 0x0, 0xef, 0xff, 0xff, 0xff, 0xfb],
    [0x0, 0x0, 0x0, 0x0, 0x0, 0x0, 0x0, 0x0],
    [0x0, 0x0, 0x0, 0x9, 0xff, 0xff, 0xff, 0xff],
    [0xff, 0xf3, 0x0, 0x0, 0x0, 0x0, 0x0, 0x0],
    [0xe, 0xff, 0xff, 0xff, 0xff, 0xb0, 0x0, 0x0],
    [0x0, 0x0, 0x0, 0x0, 0x0, 0x0, 0x0, 0x0],
    [0x0, 0xb, 0xff, 0xff, 0xff, 0xff, 0xff, 0xe1],
    [0x0, 0x0, 0x0, 0x0, 0x0, 0x0, 0xef, 0xff],
    [0xff, 0xff, 0xfb, 0x0, 0x0, 0x0, 0x0, 0x0],
    [0x0, 0x0, 0x0, 0x0, 0x0, 0x0, 0x0, 0xd],
    [0xff, 0xff, 0xff, 0xff, 0xff, 0xd0, 0x0, 0x0],
    [0x0, 0x0, 0x0, 0xe, 0xff, 0xff, 0xff, 0xff],
    [0xb0, 0x0, 0x0, 0x0, 0x0, 0x0, 0x0, 0x0],
    [0x0, 0x0, 0x0, 0x0, 0x0, 0x1e, 0xff, 0xff],
    [0xff, 0xff, 0xff, 0xb0, 0x0, 0x0, 0x0, 0x0],
    [0x0, 0xef, 0xff, 0xff, 0xff, 0xfb, 0x0, 0x0],
    [0x0, 0x0, 0x0, 0x0, 0x0, 0x0, 0x0, 0x0],
    [0x0, 0x0, 0x0, 0x3f, 0xff, 0xff, 0xff, 0xff],
    [0xff, 0x80, 0x0, 0x0, 0x0, 0x0, 0xe, 0xff],
    [0xff, 0xff, 0xff, 0xb0, 0x0, 0x0, 0x0, 0x0],
    [0x0, 0x0, 0x0, 0x0, 0x0, 0x0, 0x0, 0x0],
    [0x0, 0x4f, 0xff, 0xff, 0xff, 0xff, 0xff, 0x50],
    [0x0, 0x0, 0x0, 0x0, 0xef, 0xff, 0xff, 0xff],
    [0xfb, 0x0, 0x0, 0x0, 0x0, 0x0, 0x0, 0x0],
    [0x0, 0x0, 0x0, 0x0, 0x0, 0x0, 0x0, 0x6f],
    [0xff, 0xff, 0xff, 0xff, 0xff, 0x30, 0x0, 0x0],
    [0x0, 0xe, 0xff, 0xff, 0xff, 0xff, 0xb0, 0x0],
    [0x0, 0x0, 0x0, 0x0, 0x0, 0x0, 0x0, 0x0],
    [0x0, 0x0, 0x0, 0x0, 0x0, 0x8f, 0xff, 0xff],
    [0xff, 0xff, 0xfe, 0x10, 0x0, 0x0, 0x0, 0xef],
    [0xff, 0xff, 0xff, 0xfb, 0x0, 0x0, 0x0, 0x0],
    [0x0, 0x0, 0x0, 0x0, 0x0, 0x0, 0x0, 0x0],
    [0x0, 0x0, 0x0, 0xaf, 0xff, 0xff, 0xff, 0xff],
    [0xfc, 0x0, 0x0, 0x0, 0xe, 0xff, 0xff, 0xff],
    [0xff, 0xb0, 0x0, 0x0, 0x0, 0x0, 0x0, 0x0],
    [0x0, 0x0, 0x0, 0x0, 0x0, 0x0, 0x0, 0x0],
    [0x0, 0xcf, 0xff, 0xff, 0xff, 0xff, 0xfa, 0x0],
    [0x0, 0x0, 0xef, 0xff, 0xff, 0xff, 0xfb, 0x0],
    [0x0, 0x0, 0x0, 0x0, 0x0, 0x0, 0x0, 0x0],
    [0x0, 0x0, 0x0, 0x0, 0x0, 0x0, 0x1, 0xdf],
    [0xff, 0xff, 0xff, 0xff, 0xf8, 0x0, 0x0, 0xe],
    [0xff, 0xff, 0xff, 0xff, 0xb0, 0x0, 0x0, 0x0],
    [0x0, 0x0, 0x0, 0x0, 0x0, 0x0, 0x0, 0x0],
    [0x0, 0x0, 0x0, 0x0, 0x2, 0xef, 0xff, 0xff],
    [0xff, 0xff, 0xf5, 0x0, 0x0, 0xef, 0xff, 0xff],
    [0xff, 0xfb, 0x0, 0x0, 0x0, 0x0, 0x0, 0x0],
    [0x0, 0x0, 0x0, 0x0, 0x0, 0x0, 0x0, 0x0],
    [0x0, 0x0, 0x3, 0xff, 0xff, 0xff, 0xff, 0xff],
    [0xf3, 0x0, 0xe, 0xff, 0xff, 0xff, 0xff, 0xb0],
    [0x0, 0x0, 0x0, 0x0, 0x0, 0x0, 0x0, 0x0],
    [0x0, 0x0, 0x0, 0x0, 0x0, 0x0, 0x0, 0x0],
    [0x5, 0xff, 0xff, 0xff, 0xff, 0xff, 0xe1, 0x0],
    [0xef, 0xff, 0xff, 0xff, 0xfb, 0x0, 0x0, 0x0],
    [0x0, 0x0, 0x0, 0x0, 0x0, 0x0, 0x0, 0x0],
    [0x0, 0x0, 0x0, 0x0, 0x0, 0x0, 0x7, 0xff],
    [0xff, 0xff, 0xff, 0xff, 0xc0, 0xe, 0xff, 0xff],
    [0xff, 0xff, 0xb0, 0x0, 0x0, 0x0, 0x0, 0x0],
    [0x0, 0x0, 0x0, 0x0, 0x0, 0x0, 0x0, 0x0],
    [0x0, 0x0, 0x0, 0x0, 0x9, 0xff, 0xff, 0xff],
    [0xff, 0xff, 0xa0, 0xef, 0xff, 0xff, 0xff, 0xfb],
    [0x0, 0x0, 0x0, 0x0, 0x0, 0x0, 0x0, 0x0],
    [0x0, 0x0, 0x0, 0x0, 0x0, 0x0, 0x0, 0x0],
    [0x0, 0x0, 0xb, 0xff, 0xff, 0xff, 0xff, 0xff],
    [0x80]]"

lemma glyph_U004B_b_length: "length (concat glyph_U004B_b) = 793"
  by (simp add: glyph_U004B_b_def)

definition glyph_U004C_a :: "u8 list list" where
  "glyph_U004C_a = [
    [0x78, 0x88, 0x88, 0x88, 0x85, 0x0, 0x0, 0x0],
    [0x0, 0x0, 0x0, 0x0, 0x0, 0x0, 0x0, 0x0],
    [0x0, 0x0, 0x0, 0x0, 0x0, 0x0, 0x0, 0xe],
    [0xff, 0xff, 0xff, 0xff, 0xb0, 0x0, 0x0, 0x0],
    [0x0, 0x0, 0x0, 0x0, 0x0, 0x0, 0x0, 0x0],
    [0x0, 0x0, 0x0, 0x0, 0x0, 0x0, 0x0, 0xef],
    [0xff, 0xff, 0xff, 0xfb, 0x0, 0x0, 0x0, 0x0],
    [0x0, 0x0, 0x0, 0x0, 0x0, 0x0, 0x0, 0x0],
    [0x0, 0x0, 0x0, 0x0, 0x0, 0x0, 0xe, 0xff],
    [0xff, 0xff, 0xff, 0xb0, 0x0, 0x0, 0x0, 0x0],
    [0x0, 0x0, 0x0, 0x0, 0x0, 0x0, 0x0, 0x0],
    [0x0, 0x0, 0x0, 0x0, 0x0, 0x0, 0xef, 0xff],
    [0xff, 0xff, 0xfb, 0x0, 0x0, 0x0, 0x0, 0x0],
    [0x0, 0x0, 0x0, 0x0, 0x0, 0x0, 0x0, 0x0],
    [0x0, 0x0, 0x0, 0x0, 0x0, 0xe, 0xff, 0xff],
    [0xff, 0xff, 0xb0, 0x0, 0x0, 0x0, 0x0, 0x0],
    [0x0, 0x0, 0x0, 0x0, 0x0, 0x0, 0x0, 0x0],
    [0x0, 0x0, 0x0, 0x0, 0x0, 0xef, 0xff, 0xff],
    [0xff, 0xfb, 0x0, 0x0, 0x0, 0x0, 0x0, 0x0],
    [0x0, 0x0, 0x0, 0x0, 0x0, 0x0, 0x0, 0x0],
    [0x0, 0x0, 0x0, 0x0, 0xe, 0xff, 0xff, 0xff],
    [0xff, 0xb0, 0x0, 0x0, 0x0, 0x0, 0x0, 0x0],
    [0x0, 0x0, 0x0, 0x0, 0x0, 0x0, 0x0, 0x0],
    [0x0, 0x0, 0x0, 0x0, 0xef, 0xff, 0xff, 0xff],
    [0xfb, 0x0, 0x0, 0x0, 0x0, 0x0, 0x0, 0x0],
    [0x0, 0x0, 0x0, 0x0, 0x0, 0x0, 0x0, 0x0],
    [0x0, 0x0, 0x0, 0xe, 0xff, 0xff, 0xff, 0xff],
    [0xb0, 0x0, 0x0, 0x0, 0x0, 0x0, 0x0, 0x0],
    [0x0, 0x0, 0x0, 0x0, 0x0, 0x0, 0x0, 0x0],
    [0x0, 0x0, 0x0, 0xef, 0xff, 0xff, 0xff, 0xfb],
    [0x0, 0x0, 0x0, 0x0, 0x0, 0x0, 0x0, 0x0],
    [0x0, 0x0, 0x0, 0x0, 0x0, 0x0, 0x0, 0x0],
    [0x0, 0x0, 0xe, 0xff, 0xff, 0xff, 0xff, 0xb0],
    [0x0, 0x0, 0x0, 0x0, 0x0, 0x0, 0x0, 0x0],
    [0x0, 0x0, 0x0, 0x0, 0x0, 0x0, 0x0, 0x0],
    [0x0, 0x0, 0xef, 0xff, 0xff, 0xff, 0xfb, 0x0],
    [0x0, 0x0, 0x0, 0x0, 0x0, 0x0, 0x0, 0x0],
    [0x0, 0x0, 0x0, 0x0, 0x0, 0x0, 0x0, 0x0],
    [0x0, 0xe, 0xff, 0xff, 0xff, 0xff, 0xb0, 0x0],
    [0x0, 0x0, 0x0, 0x0, 0x0, 0x0, 0x0, 0x0],
    [0x0, 0x0, 0x0, 0x0, 0x0, 0x0, 0x0, 0x0],
    [0x0, 0xef, 0xff, 0xff, 0xff, 0xfb, 0x0, 0x0],
    [0x0, 0x0, 0x0, 0x0, 0x0, 0x0, 0x0, 0x0],
    [0x0, 0x0, 0x0, 0x0, 0x0, 0x0, 0x0, 0x0],
    [0xe, 0xff, 0xff, 0xff, 0xff, 0xb0, 0x0, 0x0],
    [0x0, 0x0, 0x0, 0x0, 0x0, 0x0, 0x0, 0x0],
    [0x0, 0x0, 0x0, 0x0, 0x0, 0x0, 0x0, 0x0],
    [0xef, 0xff, 0xff, 0xff, 0xfb, 0x0, 0x0, 0x0],
    [0x0, 0x0, 0x0, 0x0, 0x0, 0x0, 0x0, 0x0],
    [0x0, 0x0, 0x0, 0x0, 0x0, 0x0, 0x0, 0xe],
    [0xff, 0xff, 0xff, 0xff, 0xb0, 0x0, 0x0, 0x0],
    [0x0, 0x0, 0x0, 0x0, 0x0, 0x0, 0x0, 0x0],
    [0x0, 0x0, 0x0, 0x0, 0x0, 0x0, 0x0, 0xef],
    [0xff, 0xff, 0xff, 0xfb, 0x0, 0x0, 0x0, 0x0],
    [0x0, 0x0, 0x0, 0x0, 0x0, 0x0, 0x0, 0x0],
    [0x0, 0x0, 0x0, 0x0, 0x0, 0x0, 0xe, 0xff],
    [0xff, 0xff, 0xff, 0xb0, 0x0, 0x0, 0x0, 0x0],
    [0x0, 0x0, 0x0, 0x0, 0x0, 0x0, 0x0, 0x0],
    [0x0, 0x0, 0x0, 0x0, 0x0, 0x0, 0xef, 0xff],
    [0xff, 0xff, 0xfb, 0x0, 0x0, 0x0, 0x0, 0x0],
    [0x0, 0x0, 0x0, 0x0, 0x0, 0x0, 0x0, 0x0],
    [0x0, 0x0, 0x0, 0x0, 0x0, 0xe, 0xff, 0xff],
    [0xff, 0xff, 0xb0, 0x0, 0x0, 0x0, 0x0, 0x0],
    [0x0, 0x0, 0x0, 0x0, 0x0, 0x0, 0x0, 0x0],
    [0x0, 0x0, 0x0, 0x0, 0x0, 0xef, 0xff, 0xff],
    [0xff, 0xfb, 0x0, 0x0, 0x0, 0x0, 0x0, 0x0],
    [0x0, 0x0, 0x0, 0x0, 0x0, 0x0, 0x0, 0x0],
    [0x0, 0x0, 0x0, 0x0, 0xe, 0xff, 0xff, 0xff],
    [0xff, 0xb0, 0x0, 0x0, 0x0, 0x0, 0x0, 0x0],
    [0x0, 0x0, 0x0, 0x0, 0x0, 0x0, 0x0, 0x0],
    [0x0, 0x0, 0x0, 0x0, 0xef, 0xff, 0xff, 0xff],
    [0xfb, 0x0, 0x0, 0x0, 0x0, 0x0, 0x0, 0x0],
    [0x0, 0x0, 0x0, 0x0, 0x0, 0x0, 0x0, 0x0],
    [0x0, 0x0, 0x0, 0xe, 0xff, 0xff, 0xff, 0xff],
    [0xb0, 0x0, 0x0, 0x0, 0x0, 0x0, 0x0, 0x0],
    [0x0, 0x0, 0x0, 0x0, 0x0, 0x0, 0x0, 0x0],
    [0x0, 0x0, 0x0, 0xef, 0xff, 0xff, 0xff, 0xfb],
    [0x0, 0x0, 0x0, 0x0, 0x0, 0x0, 0x0, 0x0],
    [0x0, 0x0, 0x0, 0x0, 0x0, 0x0, 0x0, 0x0],
    [0x0, 0x0, 0xe, 0xff, 0xff, 0xff, 0xff, 0xb0],
    [0x0, 0x0, 0x0, 0x0, 0x0, 0x0, 0x0, 0x0],
    [0x0, 0x0, 0x0, 0x0, 0x0, 0x0, 0x0, 0x0],
    [0x0, 0x0, 0xef, 0xff, 0xff, 0xff, 0xfb, 0x0],
    [0x0, 0x0, 0x0, 0x0, 0x0, 0x0, 0x0, 0x0],
    [0x0, 0x0, 0x0, 0x0, 0x0, 0x0, 0x0, 0x0],
    [0x0, 0xe, 0xff, 0xff, 0xff, 0xff, 0xb0, 0x0],
    [0x0, 0x0, 0x0, 0x0, 0x0, 0x0, 0x0, 0x0],
    [0x0, 0x0, 0x0, 0x0, 0x0, 0x0, 0x0, 0x0],
    [0x0, 0xef, 0xff, 0xff, 0xff, 0xfb, 0x0, 0x0],
    [0x0, 0x0, 0x0, 0x0, 0x0, 0x0, 0x0, 0x0],
    [0x0, 0x0, 0x0, 0x0, 0x0, 0x0, 0x0, 0x0],
    [0xe, 0xff, 0xff, 0xff, 0xff, 0xb0, 0x0, 0x0],
    [0x0, 0x0, 0x0, 0x0, 0x0, 0x0, 0x0, 0x0],
    [0x0, 0x0, 0x0, 0x0, 0x0, 0x0, 0x0, 0x0],
    [0xef, 0xff, 0xff, 0xff, 0xfb, 0x0, 0x0, 0x0],
    [0x0, 0x0, 0x0, 0x0, 0x0, 0x0, 0x0, 0x0],
    [0x0, 0x0, 0x0, 0x0, 0x0, 0x0, 0x0, 0xe],
    [0xff, 0xff, 0xff, 0xff, 0xb0, 0x0, 0x0, 0x0],
    [0x0, 0x0, 0x0, 0x0, 0x0, 0x0, 0x0, 0x0],
    [0x0, 0x0, 0x0, 0x0, 0x0, 0x0, 0x0, 0xef],
    [0xff, 0xff, 0xff, 0xfb, 0x0, 0x0, 0x0, 0x0],
    [0x0, 0x0, 0x0, 0x0, 0x0, 0x0, 0x0, 0x0],
    [0x0, 0x0, 0x0, 0x0, 0x0, 0x0, 0xe, 0xff],
    [0xff, 0xff, 0xff, 0xb0, 0x0, 0x0, 0x0, 0x0],
    [0x0, 0x0, 0x0, 0x0, 0x0, 0x0, 0x0, 0x0],
    [0x0, 0x0, 0x0, 0x0, 0x0, 0x0, 0xef, 0xff],
    [0xff, 0xff, 0xfb, 0x0, 0x0, 0x0, 0x0, 0x0],
    [0x0, 0x0, 0x0, 0x0, 0x0, 0x0, 0x0, 0x0],
    [0x0, 0x0, 0x0, 0x0, 0x0, 0xe, 0xff, 0xff],
    [0xff, 0xff, 0xb0, 0x0, 0x0, 0x0, 0x0, 0x0],
    [0x0, 0x0, 0x0, 0x0, 0x0, 0x0, 0x0, 0x0],
    [0x0, 0x0, 0x0, 0x0, 0x0, 0xef, 0xff, 0xff],
    [0xff, 0xfb, 0x0, 0x0, 0x0, 0x0, 0x0, 0x0],
    [0x0, 0x0, 0x0, 0x0, 0x0, 0x0, 0x0, 0x0],
    [0x0, 0x0, 0x0, 0x0, 0xe, 0xff, 0xff, 0xff],
    [0xff, 0xb0, 0x0, 0x0, 0x0, 0x0, 0x0, 0x0],
    [0x0, 0x0, 0x0, 0x0, 0x0, 0x0, 0x0, 0x0],
    [0x0, 0x0, 0x0, 0x0, 0xef, 0xff, 0xff, 0xff],
    [0xfb, 0x0, 0x0, 0x0, 0x0, 0x0, 0x0, 0x0],
    [0x0, 0x0, 0x0, 0x0, 0x0, 0x0, 0x0, 0x0],
    [0x0, 0x0, 0x0, 0xe, 0xff, 0xff, 0xff, 0xff],
    [0xb0, 0x0, 0x0, 0x0, 0x0, 0x0, 0x0, 0x0],
    [0x0, 0x0, 0x0, 0x0, 0x0, 0x0, 0x0, 0x0],
    [0x0, 0x0, 0x0, 0xef, 0xff, 0xff, 0xff, 0xfb],
    [0x0, 0x0, 0x0, 0x0, 0x0, 0x0, 0x0, 0x0],
    [0x0, 0x0, 0x0, 0x0, 0x0, 0x0, 0x0, 0x0],
    [0x0, 0x0, 0xe, 0xff, 0xff, 0xff, 0xff, 0xb0],
    [0x0, 0x0, 0x0, 0x0, 0x0, 0x0, 0x0, 0x0],
    [0x0, 0x0, 0x0, 0x0, 0x0, 0x0, 0x0, 0x0],
    [0x0, 0x0, 0xef, 0xff, 0xff, 0xff, 0xfb, 0x0],
    [0x0, 0x0, 0x0, 0x0, 0x0, 0x0, 0x0, 0x0],
    [0x0, 0x0, 0x0, 0x0, 0x0, 0x0, 0x0, 0x0],
    [0x0, 0xe, 0xff, 0xff, 0xff, 0xff, 0xb0, 0x0],
    [0x0, 0x0, 0x0, 0x0, 0x0, 0x0, 0x0, 0x0],
    [0x0, 0x0, 0x0, 0x0, 0x0, 0x0, 0x0, 0x0],
    [0x0, 0xef, 0xff, 0xff, 0xff, 0xfb, 0x0, 0x0],
    [0x0, 0x0, 0x0, 0x0, 0x0, 0x0, 0x0, 0x0],
    [0x0, 0x0, 0x0, 0x0, 0x0, 0x0, 0x0, 0x0],
    [0xe, 0xff, 0xff, 0xff, 0xff, 0xb0, 0x0, 0x0],
    [0x0, 0x0, 0x0, 0x0, 0x0, 0x0, 0x0, 0x0],
    [0x0, 0x0, 0x0, 0x0, 0x0, 0x0, 0x0, 0x0],
    [0xef, 0xff, 0xff, 0xff, 0xfb, 0x0, 0x0, 0x0],
    [0x0, 0x0, 0x0, 0x0, 0x0, 0x0, 0x0, 0x0],
    [0x0, 0x0, 0x0, 0x0, 0x0, 0x0, 0x0, 0xe],
    [0xff, 0xff, 0xff, 0xff, 0xb0, 0x0, 0x0, 0x0],
    [0x0, 0x0, 0x0, 0x0, 0x0, 0x0, 0x0, 0x0],
    [0x0, 0x0, 0x0, 0x0, 0x0, 0x0, 0x0, 0xef],
    [0xff, 0xff, 0xff, 0xfb, 0x0, 0x0, 0x0, 0x0]]"

lemma glyph_U004C_a_length: "length (concat glyph_U004C_a) = 1184"
  by (simp add: glyph_U004C_a_def)

definition glyph_U004C_b :: "u8 list list" where
  "glyph_U004C_b = [
    [0x0, 0x0, 0x0, 0x0, 0x0, 0x0, 0x0, 0x0],
    [0x0, 0x0, 0x0, 0x0, 0x0, 0x0, 0xe, 0xff],
    [0xff, 0xff, 0xff, 0xb0, 0x0, 0x0, 0x0, 0x0],
    [0x0, 0x0, 0x0, 0x0, 0x0, 0x0, 0x0, 0x0],
    [0x0, 0x0, 0x0, 0x0, 0x0, 0x0, 0xef, 0xff],
    [0xff, 0xff, 0xfb, 0x0, 0x0, 0x0, 0x0, 0x0],
    [0x0, 0x0, 0x0, 0x0, 0x0, 0x0, 0x0, 0x0],
    [0x0, 0x0, 0x0, 0x0, 0x0, 0xe, 0xff, 0xff],
    [0xff, 0xff, 0xb0, 0x0, 0x0, 0x0, 0x0, 0x0],
    [0x0, 0x0, 0x0, 0x0, 0x0, 0x0, 0x0, 0x0],
    [0x0, 0x0, 0x0, 0x0, 0x0, 0xef, 0xff, 0xff],
    [0xff, 0xfb, 0x0, 0x0, 0x0, 0x0, 0x0, 0x0],
    [0x0, 0x0, 0x0, 0x0, 0x0, 0x0, 0x0, 0x0],
    [0x0, 0x0, 0x0, 0x0, 0xe, 0xff, 0xff, 0xff],
    [0xff, 0xb0, 0x0, 0x0, 0x0, 0x0, 0x0, 0x0],
    [0x0, 0x0, 0x0, 0x0, 0x0, 0x0, 0x0, 0x0],
    [0x0, 0x0, 0x0, 0x0, 0xef, 0xff, 0xff, 0xff],
    [0xfb, 0x0, 0x0, 0x0, 0x0, 0x0, 0x0, 0x0],
    [0x0, 0x0, 0x0, 0x0, 0x0, 0x0, 0x0, 0x0],
    [0x0, 0x0, 0x0, 0xe, 0xff, 0xff, 0xff, 0xff],
    [0xb0, 0x0, 0x0, 0x0, 0x0, 0x0, 0x0, 0x0],
    [0x0, 0x0, 0x0, 0x0, 0x0, 0x0, 0x0, 0x0],
    [0x0, 0x0, 0x0, 0xef, 0xff, 0xff, 0xff, 0xfc],
    [0x44, 0x44, 0x44, 0x44, 0x44, 0x44, 0x44, 0x44],
    [0x44, 0x44, 0x44, 0x44, 0x44, 0x44, 0x44, 0x44],
    [0x44, 0x44, 0xe, 0xff, 0xff, 0xff, 0xff, 0xff],
    [0xff, 0xff, 0xff, 0xff, 0xff, 0xff, 0xff, 0xff],
    [0xff, 0xff, 0xff, 0xff, 0xff, 0xff, 0xff, 0xff],
    [0xff, 0xf1, 0xef, 0xff, 0xff, 0xff, 0xff, 0xff],
    [0xff, 0xff, 0xff, 0xff, 0xff, 0xff, 0xff, 0xff],
    [0xff, 0xff, 0xff, 0xff, 0xff, 0xff, 0xff, 0xff],
    [0xff, 0x1e, 0xff, 0xff, 0xff, 0xff, 0xff, 0xff],
    [0xff, 0xff, 0xff, 0xff, 0xff, 0xff, 0xff, 0xff],
    [0xff, 0xff, 0xff, 0xff, 0xff, 0xff, 0xff, 0xff],
    [0xf1, 0xef, 0xff, 0xff, 0xff, 0xff, 0xff, 0xff],
    [0xff, 0xff, 0xff, 0xff, 0xff, 0xff, 0xff, 0xff],
    [0xff, 0xff, 0xff, 0xff, 0xff, 0xff, 0xff, 0xff],
    [0x1e, 0xff, 0xff, 0xff, 0xff, 0xff, 0xff, 0xff],
    [0xff, 0xff, 0xff, 0xff, 0xff, 0xff, 0xff, 0xff],
    [0xff, 0xff, 0xff, 0xff, 0xff, 0xff, 0xff, 0xf1],
    [0xef, 0xff, 0xff, 0xff, 0xff, 0xff, 0xff, 0xff],
    [0xff, 0xff, 0xff, 0xff, 0xff, 0xff, 0xff, 0xff],
    [0xff, 0xff, 0xff, 0xff, 0xff, 0xff, 0xff, 0x1e],
    [0xff, 0xff, 0xff, 0xff, 0xff, 0xff, 0xff, 0xff],
    [0xff, 0xff, 0xff, 0xff, 0xff, 0xff, 0xff, 0xff],
    [0xff, 0xff, 0xff, 0xff, 0xff, 0xff, 0xf1, 0xef],
    [0xff, 0xff, 0xff, 0xff, 0xff, 0xff, 0xff, 0xff],
    [0xff, 0xff, 0xff, 0xff, 0xff, 0xff, 0xff, 0xff],
    [0xff, 0xff, 0xff, 0xff, 0xff, 0xff, 0x10]]"

lemma glyph_U004C_b_length: "length (concat glyph_U004C_b) = 391"
  by (simp add: glyph_U004C_b_def)

definition glyph_U004D_a :: "u8 list list" where
  "glyph_U004D_a = [
    [0xab, 0xbb, 0xbb, 0xbb, 0x20, 0x0, 0x0, 0x0],
    [0x0, 0x0, 0x0, 0x0, 0x0, 0x0, 0x0, 0x0],
    [0x0, 0x0, 0x0, 0x0, 0x0, 0x0, 0x0, 0x0],
    [0x0, 0x0, 0x0, 0x0, 0x0, 0x0, 0x0, 0x6],
    [0xbb, 0xbb, 0xbb, 0xb5, 0xef, 0xff, 0xff, 0xff],
    [0xb0, 0x0, 0x0, 0x0, 0x0, 0x0, 0x0, 0x0],
    [0x0, 0x0, 0x0, 0x0, 0x0, 0x0, 0x0, 0x0],
    [0x0, 0x0, 0x0, 0x0, 0x0, 0x0, 0x0, 0x0],
    [0x0, 0x0, 0x0, 0x2f, 0xff, 0xff, 0xff, 0xf8],
    [0xef, 0xff, 0xff, 0xff, 0xf4, 0x0, 0x0, 0x0],
    [0x0, 0x0, 0x0, 0x0, 0x0, 0x0, 0x0, 0x0],
    [0x0, 0x0, 0x0, 0x0, 0x0, 0x0, 0x0, 0x0],
    [0x0, 0x0, 0x0, 0x0, 0x0, 0x0, 0x0, 0xbf],
    [0xff, 0xff, 0xff, 0xf8, 0xef, 0xff, 0xff, 0xff],
    [0xfd, 0x0, 0x0, 0x0, 0x0, 0x0, 0x0, 0x0],
    [0x0, 0x0, 0x0, 0x0, 0x0, 0x0, 0x0, 0x0],
    [0x0, 0x0, 0x0, 0x0, 0x0, 0x0, 0x0, 0x0],
    [0x0, 0x0, 0x4, 0xff, 0xff, 0xff, 0xff, 0xf8],
    [0xef, 0xff, 0xff, 0xff, 0xff, 0x70, 0x0, 0x0],
    [0x0, 0x0, 0x0, 0x0, 0x0, 0x0, 0x0, 0x0],
    [0x0, 0x0, 0x0, 0x0, 0x0, 0x0, 0x0, 0x0],
    [0x0, 0x0, 0x0, 0x0, 0x0, 0x0, 0xd, 0xff],
    [0xff, 0xff, 0xff, 0xf8, 0xef, 0xff, 0xff, 0xff],
    [0xff, 0xf1, 0x0, 0x0, 0x0, 0x0, 0x0, 0x0],
    [0x0, 0x0, 0x0, 0x0, 0x0, 0x0, 0x0, 0x0],
    [0x0, 0x0, 0x0, 0x0, 0x0, 0x0, 0x0, 0x0],
    [0x0, 0x0, 0x7f, 0xff, 0xff, 0xff, 0xff, 0xf8],
    [0xef, 0xff, 0xff, 0xff, 0xff, 0xfa, 0x0, 0x0],
    [0x0, 0x0, 0x0, 0x0, 0x0, 0x0, 0x0, 0x0],
    [0x0, 0x0, 0x0, 0x0, 0x0, 0x0, 0x0, 0x0],
    [0x0, 0x0, 0x0, 0x0, 0x0, 0x1, 0xff, 0xff],
    [0xff, 0xff, 0xff, 0xf8, 0xef, 0xff, 0xff, 0xff],
    [0xff, 0xff, 0x40, 0x0, 0x0, 0x0, 0x0, 0x0],
    [0x0, 0x0, 0x0, 0x0, 0x0, 0x0, 0x0, 0x0],
    [0x0, 0x0, 0x0, 0x0, 0x0, 0x0, 0x0, 0x0],
    [0x0, 0xa, 0xff, 0xff, 0xff, 0xff, 0xff, 0xf8],
    [0xef, 0xff, 0xff, 0xff, 0xff, 0xff, 0xd0, 0x0],
    [0x0, 0x0, 0x0, 0x0, 0x0, 0x0, 0x0, 0x0],
    [0x0, 0x0, 0x0, 0x0, 0x0, 0x0, 0x0, 0x0],
    [0x0, 0x0, 0x0, 0x0, 0x0, 0x3f, 0xff, 0xff],
    [0xff, 0xff, 0xff, 0xf8, 0xef, 0xff, 0xff, 0xff],
    [0xff, 0xff, 0xf7, 0x0, 0x0, 0x0, 0x0, 0x0],
    [0x0, 0x0, 0x0, 0x0, 0x0, 0x0, 0x0, 0x0],
    [0x0, 0x0, 0x0, 0x0, 0x0, 0x0, 0x0, 0x0],
    [0x0, 0xcf, 0xff, 0xff, 0xff, 0xff, 0xff, 0xf8],
    [0xef, 0xff, 0xff, 0xff, 0xff, 0xff, 0xff, 0x10],
    [0x0, 0x0, 0x0, 0x0, 0x0, 0x0, 0x0, 0x0],
    [0x0, 0x0, 0x0, 0x0, 0x0, 0x0, 0x0, 0x0],
    [0x0, 0x0, 0x0, 0x0, 0x6, 0xff, 0xff, 0xff],
    [0xff, 0xff, 0xff, 0xf8, 0xef, 0xff, 0xff, 0xff],
    [0xff, 0xff, 0xff, 0xa0, 0x0, 0x0, 0x0, 0x0],
    [0x0, 0x0, 0x0, 0x0, 0x0, 0x0, 0x0, 0x0],
    [0x0, 0x0, 0x0, 0x0, 0x0, 0x0, 0x0, 0x0],
    [0x1e, 0xff, 0xff, 0xff, 0xff, 0xff, 0xff, 0xf8],
    [0xef, 0xff, 0xff, 0xff, 0xff, 0xff, 0xff, 0xf4],
    [0x0, 0x0, 0x0, 0x0, 0x0, 0x0, 0x0, 0x0],
    [0x0, 0x0, 0x0, 0x0, 0x0, 0x0, 0x0, 0x0],
    [0x0, 0x0, 0x0, 0x0, 0x9f, 0xff, 0xff, 0xff],
    [0xff, 0xff, 0xff, 0xf8, 0xef, 0xff, 0xff, 0xff],
    [0xff, 0xff, 0xff, 0xfd, 0x0, 0x0, 0x0, 0x0],
    [0x0, 0x0, 0x0, 0x0, 0x0, 0x0, 0x0, 0x0],
    [0x0, 0x0, 0x0, 0x0, 0x0, 0x0, 0x0, 0x2],
    [0xff, 0xff, 0xff, 0xff, 0xff, 0xff, 0xff, 0xf8],
    [0xef, 0xff, 0xff, 0xff, 0xff, 0xff, 0xff, 0xff],
    [0x70, 0x0, 0x0, 0x0, 0x0, 0x0, 0x0, 0x0],
    [0x0, 0x0, 0x0, 0x0, 0x0, 0x0, 0x0, 0x0],
    [0x0, 0x0, 0x0, 0xc, 0xff, 0xff, 0xff, 0xff],
    [0xff, 0xff, 0xff, 0xf8, 0xef, 0xff, 0xff, 0xff],
    [0xff, 0xff, 0xff, 0xff, 0xf1, 0x0, 0x0, 0x0],
    [0x0, 0x0, 0x0, 0x0, 0x0, 0x0, 0x0, 0x0],
    [0x0, 0x0, 0x0, 0x0, 0x0, 0x0, 0x0, 0x5f],
    [0xff, 0xff, 0xff, 0xff, 0xff, 0xff, 0xff, 0xf8],
    [0xef, 0xff, 0xff, 0xff, 0xff, 0xff, 0xff, 0xff],
    [0xfa, 0x0, 0x0, 0x0, 0x0, 0x0, 0x0, 0x0],
    [0x0, 0x0, 0x0, 0x0, 0x0, 0x0, 0x0, 0x0],
    [0x0, 0x0, 0x0, 0xef, 0xff, 0xff, 0xff, 0xff],
    [0xff, 0xff, 0xff, 0xf8, 0xef, 0xff, 0xff, 0xff],
    [0xff, 0xff, 0xff, 0xff, 0xff, 0x40, 0x0, 0x0],
    [0x0, 0x0, 0x0, 0x0, 0x0, 0x0, 0x0, 0x0],
    [0x0, 0x0, 0x0, 0x0, 0x0, 0x0, 0x8, 0xff],
    [0xff, 0xff, 0xff, 0xff, 0xff, 0xff, 0xff, 0xf8],
    [0xef, 0xff, 0xff, 0xff, 0xff, 0xff, 0xff, 0xff],
    [0xff, 0xd0, 0x0, 0x0, 0x0, 0x0, 0x0, 0x0],
    [0x0, 0x0, 0x0, 0x0, 0x0, 0x0, 0x0, 0x0],
    [0x0, 0x0, 0x2f, 0xff, 0xff, 0xff, 0xff, 0xef],
    [0xff, 0xff, 0xff, 0xf8, 0xef, 0xff, 0xff, 0xff],
    [0xf8, 0xff, 0xff, 0xff, 0xff, 0xf7, 0x0, 0x0],
    [0x0, 0x0, 0x0, 0x0, 0x0, 0x0, 0x0, 0x0],
    [0x0, 0x0, 0x0, 0x0, 0x0, 0x0, 0xbf, 0xff],
    [0xff, 0xff, 0xf9, 0xbf, 0xff, 0xff, 0xff, 0xf8],
    [0xef, 0xff, 0xff, 0xff, 0xf4, 0x9f, 0xff, 0xff],
    [0xff, 0xff, 0x10, 0x0, 0x0, 0x0, 0x0, 0x0],
    [0x0, 0x0, 0x0, 0x0, 0x0, 0x0, 0x0, 0x0],
    [0x0, 0x4, 0xff, 0xff, 0xff, 0xff, 0xe1, 0xbf],
    [0xff, 0xff, 0xff, 0xf8, 0xef, 0xff, 0xff, 0xff],
    [0xf4, 0x1e, 0xff, 0xff, 0xff, 0xff, 0xa0, 0x0],
    [0x0, 0x0, 0x0, 0x0, 0x0, 0x0, 0x0, 0x0],
    [0x0, 0x0, 0x0, 0x0, 0x0, 0xd, 0xff, 0xff],
    [0xff, 0xff, 0x60, 0xbf, 0xff, 0xff, 0xff, 0xf8],
    [0xef, 0xff, 0xff, 0xff, 0xf4, 0x6, 0xff, 0xff],
    [0xff, 0xff, 0xf3, 0x0, 0x0, 0x0, 0x0, 0x0],
    [0x0, 0x0, 0x0, 0x0, 0x0, 0x0, 0x0, 0x0],
    [0x0, 0x7f, 0xff, 0xff, 0xff, 0xfc, 0x0, 0xbf],
    [0xff, 0xff, 0xff, 0xf8, 0xef, 0xff, 0xff, 0xff],
    [0xf4, 0x0, 0xcf, 0xff, 0xff, 0xff, 0xfd, 0x0],
    [0x0, 0x0, 0x0, 0x0, 0x0, 0x0, 0x0, 0x0],
    [0x0, 0x0, 0x0, 0x0, 0x1, 0xff, 0xff, 0xff],
    [0xff, 0xf3, 0x0, 0xbf, 0xff, 0xff, 0xff, 0xf8],
    [0xef, 0xff, 0xff, 0xff, 0xf4, 0x0, 0x3f, 0xff],
    [0xff, 0xff, 0xff, 0x60, 0x0, 0x0, 0x0, 0x0],
    [0x0, 0x0, 0x0, 0x0, 0x0, 0x0, 0x0, 0x0],
    [0xa, 0xff, 0xff, 0xff, 0xff, 0x90, 0x0, 0xbf],
    [0xff, 0xff, 0xff, 0xf8, 0xef, 0xff, 0xff, 0xff],
    [0xf4, 0x0, 0x9, 0xff, 0xff, 0xff, 0xff, 0xf1],
    [0x0, 0x0, 0x0, 0x0, 0x0, 0x0, 0x0, 0x0],
    [0x0, 0x0, 0x0, 0x0, 0x3f, 0xff, 0xff, 0xff],
    [0xfe, 0x10, 0x0, 0xbf, 0xff, 0xff, 0xff, 0xf8],
    [0xef, 0xff, 0xff, 0xff, 0xf4, 0x0, 0x0, 0xef],
    [0xff, 0xff, 0xff, 0xfa, 0x0, 0x0, 0x0, 0x0],
    [0x0, 0x0, 0x0, 0x0, 0x0, 0x0, 0x0, 0x0],
    [0xdf, 0xff, 0xff, 0xff, 0xf6, 0x0, 0x0, 0xbf],
    [0xff, 0xff, 0xff, 0xf8, 0xef, 0xff, 0xff, 0xff],
    [0xf4, 0x0, 0x0, 0x5f, 0xff, 0xff, 0xff, 0xff],
    [0x30, 0x0, 0x0, 0x0, 0x0, 0x0, 0x0, 0x0],
    [0x0, 0x0, 0x0, 0x6, 0xff, 0xff, 0xff, 0xff],
    [0xc0, 0x0, 0x0, 0xbf, 0xff, 0xff, 0xff, 0xf8],
    [0xef, 0xff, 0xff, 0xff, 0xf4, 0x0, 0x0, 0xc],
    [0xff, 0xff, 0xff, 0xff, 0xc0, 0x0, 0x0, 0x0],
    [0x0, 0x0, 0x0, 0x0, 0x0, 0x0, 0x0, 0x1e],
    [0xff, 0xff, 0xff, 0xff, 0x30, 0x0, 0x0, 0xbf],
    [0xff, 0xff, 0xff, 0xf8, 0xef, 0xff, 0xff, 0xff],
    [0xf4, 0x0, 0x0, 0x2, 0xff, 0xff, 0xff, 0xff],
    [0xf6, 0x0, 0x0, 0x0, 0x0, 0x0, 0x0, 0x0],
    [0x0, 0x0, 0x0, 0x9f, 0xff, 0xff, 0xff, 0xf9],
    [0x0, 0x0, 0x0, 0xbf, 0xff, 0xff, 0xff, 0xf8],
    [0xef, 0xff, 0xff, 0xff, 0xf4, 0x0, 0x0, 0x0],
    [0x8f, 0xff, 0xff, 0xff, 0xfe, 0x10, 0x0, 0x0],
    [0x0, 0x0, 0x0, 0x0, 0x0, 0x0, 0x3, 0xff],
    [0xff, 0xff, 0xff, 0xe1, 0x0, 0x0, 0x0, 0xbf],
    [0xff, 0xff, 0xff, 0xf8, 0xef, 0xff, 0xff, 0xff],
    [0xf4, 0x0, 0x0, 0x0, 0xe, 0xff, 0xff, 0xff],
    [0xff, 0x90, 0x0, 0x0, 0x0, 0x0, 0x0, 0x0],
    [0x0, 0x0, 0xc, 0xff, 0xff, 0xff, 0xff, 0x60],
    [0x0, 0x0, 0x0, 0xbf, 0xff, 0xff, 0xff, 0xf8],
    [0xef, 0xff, 0xff, 0xff, 0xf4, 0x0, 0x0, 0x0],
    [0x5, 0xff, 0xff, 0xff, 0xff, 0xf3, 0x0, 0x0],
    [0x0, 0x0, 0x0, 0x0, 0x0, 0x0, 0x5f, 0xff],
    [0xff, 0xff, 0xfc, 0x0, 0x0, 0x0, 0x0, 0xbf]]"

lemma glyph_U004D_a_length: "length (concat glyph_U004D_a) = 1184"
  by (simp add: glyph_U004D_a_def)

definition glyph_U004D_b :: "u8 list list" where
  "glyph_U004D_b = [
    [0xff, 0xff, 0xff, 0xf8, 0xef, 0xff, 0xff, 0xff],
    [0xf4, 0x0, 0x0, 0x0, 0x0, 0xbf, 0xff, 0xff],
    [0xff, 0xfc, 0x0, 0x0, 0x0, 0x0, 0x0, 0x0],
    [0x0, 0x0, 0xef, 0xff, 0xff, 0xff, 0xf3, 0x0],
    [0x0, 0x0, 0x0, 0xbf, 0xff, 0xff, 0xff, 0xf8],
    [0xef, 0xff, 0xff, 0xff, 0xf4, 0x0, 0x0, 0x0],
    [0x0, 0x2f, 0xff, 0xff, 0xff, 0xff, 0x60, 0x0],
    [0x0, 0x0, 0x0, 0x0, 0x0, 0x8, 0xff, 0xff],
    [0xff, 0xff, 0x90, 0x0, 0x0, 0x0, 0x0, 0xaf],
    [0xff, 0xff, 0xff, 0xf8, 0xef, 0xff, 0xff, 0xff],
    [0xf4, 0x0, 0x0, 0x0, 0x0, 0x8, 0xff, 0xff],
    [0xff, 0xff, 0xe1, 0x0, 0x0, 0x0, 0x0, 0x0],
    [0x0, 0x2f, 0xff, 0xff, 0xff, 0xfe, 0x10, 0x0],
    [0x0, 0x0, 0x0, 0xaf, 0xff, 0xff, 0xff, 0xf8],
    [0xef, 0xff, 0xff, 0xff, 0xf4, 0x0, 0x0, 0x0],
    [0x0, 0x0, 0xef, 0xff, 0xff, 0xff, 0xf9, 0x0],
    [0x0, 0x0, 0x0, 0x0, 0x0, 0xbf, 0xff, 0xff],
    [0xff, 0xf6, 0x0, 0x0, 0x0, 0x0, 0x0, 0xaf],
    [0xff, 0xff, 0xff, 0xf8, 0xef, 0xff, 0xff, 0xff],
    [0xf4, 0x0, 0x0, 0x0, 0x0, 0x0, 0x5f, 0xff],
    [0xff, 0xff, 0xff, 0x30, 0x0, 0x0, 0x0, 0x0],
    [0x5, 0xff, 0xff, 0xff, 0xff, 0xc0, 0x0, 0x0],
    [0x0, 0x0, 0x0, 0xaf, 0xff, 0xff, 0xff, 0xf8],
    [0xef, 0xff, 0xff, 0xff, 0xf4, 0x0, 0x0, 0x0],
    [0x0, 0x0, 0xb, 0xff, 0xff, 0xff, 0xff, 0xc0],
    [0x0, 0x0, 0x0, 0x0, 0xd, 0xff, 0xff, 0xff],
    [0xff, 0x30, 0x0, 0x0, 0x0, 0x0, 0x0, 0xaf],
    [0xff, 0xff, 0xff, 0xf8, 0xef, 0xff, 0xff, 0xff],
    [0xf4, 0x0, 0x0, 0x0, 0x0, 0x0, 0x2, 0xff],
    [0xff, 0xff, 0xff, 0xf6, 0x0, 0x0, 0x0, 0x0],
    [0x7f, 0xff, 0xff, 0xff, 0xf9, 0x0, 0x0, 0x0],
    [0x0, 0x0, 0x0, 0xaf, 0xff, 0xff, 0xff, 0xf8],
    [0xef, 0xff, 0xff, 0xff, 0xf4, 0x0, 0x0, 0x0],
    [0x0, 0x0, 0x0, 0x8f, 0xff, 0xff, 0xff, 0xfe],
    [0x10, 0x0, 0x0, 0x1, 0xff, 0xff, 0xff, 0xff],
    [0xe1, 0x0, 0x0, 0x0, 0x0, 0x0, 0x0, 0xaf],
    [0xff, 0xff, 0xff, 0xf8, 0xef, 0xff, 0xff, 0xff],
    [0xf4, 0x0, 0x0, 0x0, 0x0, 0x0, 0x0, 0xe],
    [0xff, 0xff, 0xff, 0xff, 0x90, 0x0, 0x0, 0xa],
    [0xff, 0xff, 0xff, 0xff, 0x60, 0x0, 0x0, 0x0],
    [0x0, 0x0, 0x0, 0xaf, 0xff, 0xff, 0xff, 0xf8],
    [0xef, 0xff, 0xff, 0xff, 0xf4, 0x0, 0x0, 0x0],
    [0x0, 0x0, 0x0, 0x5, 0xff, 0xff, 0xff, 0xff],
    [0xf3, 0x0, 0x0, 0x4f, 0xff, 0xff, 0xff, 0xfc],
    [0x0, 0x0, 0x0, 0x0, 0x0, 0x0, 0x0, 0xaf],
    [0xff, 0xff, 0xff, 0xf8, 0xef, 0xff, 0xff, 0xff],
    [0xf4, 0x0, 0x0, 0x0, 0x0, 0x0, 0x0, 0x0],
    [0xbf, 0xff, 0xff, 0xff, 0xfc, 0x0, 0x0, 0xdf],
    [0xff, 0xff, 0xff, 0xf3, 0x0, 0x0, 0x0, 0x0],
    [0x0, 0x0, 0x0, 0xaf, 0xff, 0xff, 0xff, 0xf8],
    [0xef, 0xff, 0xff, 0xff, 0xf4, 0x0, 0x0, 0x0],
    [0x0, 0x0, 0x0, 0x0, 0x2f, 0xff, 0xff, 0xff],
    [0xff, 0x60, 0x7, 0xff, 0xff, 0xff, 0xff, 0x90],
    [0x0, 0x0, 0x0, 0x0, 0x0, 0x0, 0x0, 0xaf],
    [0xff, 0xff, 0xff, 0xf8, 0xef, 0xff, 0xff, 0xff],
    [0xf4, 0x0, 0x0, 0x0, 0x0, 0x0, 0x0, 0x0],
    [0x8, 0xff, 0xff, 0xff, 0xff, 0xe1, 0x1f, 0xff],
    [0xff, 0xff, 0xfe, 0x10, 0x0, 0x0, 0x0, 0x0],
    [0x0, 0x0, 0x0, 0xaf, 0xff, 0xff, 0xff, 0xf9],
    [0xef, 0xff, 0xff, 0xff, 0xf4, 0x0, 0x0, 0x0],
    [0x0, 0x0, 0x0, 0x0, 0x0, 0xdf, 0xff, 0xff],
    [0xff, 0xf9, 0x9f, 0xff, 0xff, 0xff, 0xf6, 0x0],
    [0x0, 0x0, 0x0, 0x0, 0x0, 0x0, 0x0, 0xaf],
    [0xff, 0xff, 0xff, 0xf9, 0xef, 0xff, 0xff, 0xff],
    [0xf4, 0x0, 0x0, 0x0, 0x0, 0x0, 0x0, 0x0],
    [0x0, 0x4f, 0xff, 0xff, 0xff, 0xff, 0xff, 0xff],
    [0xff, 0xff, 0xc0, 0x0, 0x0, 0x0, 0x0, 0x0],
    [0x0, 0x0, 0x0, 0xaf, 0xff, 0xff, 0xff, 0xf9],
    [0xef, 0xff, 0xff, 0xff, 0xf4, 0x0, 0x0, 0x0],
    [0x0, 0x0, 0x0, 0x0, 0x0, 0xb, 0xff, 0xff],
    [0xff, 0xff, 0xff, 0xff, 0xff, 0xff, 0x30, 0x0],
    [0x0, 0x0, 0x0, 0x0, 0x0, 0x0, 0x0, 0xaf],
    [0xff, 0xff, 0xff, 0xf9, 0xef, 0xff, 0xff, 0xff],
    [0xf4, 0x0, 0x0, 0x0, 0x0, 0x0, 0x0, 0x0],
    [0x0, 0x2, 0xff, 0xff, 0xff, 0xff, 0xff, 0xff],
    [0xff, 0xfa, 0x0, 0x0, 0x0, 0x0, 0x0, 0x0],
    [0x0, 0x0, 0x0, 0xaf, 0xff, 0xff, 0xff, 0xf9],
    [0xef, 0xff, 0xff, 0xff, 0xf4, 0x0, 0x0, 0x0],
    [0x0, 0x0, 0x0, 0x0, 0x0, 0x0, 0x7f, 0xff],
    [0xff, 0xff, 0xff, 0xff, 0xff, 0xf1, 0x0, 0x0],
    [0x0, 0x0, 0x0, 0x0, 0x0, 0x0, 0x0, 0xaf],
    [0xff, 0xff, 0xff, 0xf9, 0xef, 0xff, 0xff, 0xff],
    [0xf4, 0x0, 0x0, 0x0, 0x0, 0x0, 0x0, 0x0],
    [0x0, 0x0, 0xd, 0xff, 0xff, 0xff, 0xff, 0xff],
    [0xff, 0x60, 0x0, 0x0, 0x0, 0x0, 0x0, 0x0],
    [0x0, 0x0, 0x0, 0xaf, 0xff, 0xff, 0xff, 0xf9],
    [0xef, 0xff, 0xff, 0xff, 0xf4, 0x0, 0x0, 0x0],
    [0x0, 0x0, 0x0, 0x0, 0x0, 0x0, 0x4, 0xff],
    [0xff, 0xff, 0xff, 0xff, 0xfd, 0x0, 0x0, 0x0],
    [0x0, 0x0, 0x0, 0x0, 0x0, 0x0, 0x0, 0xaf],
    [0xff, 0xff, 0xff, 0xf9, 0xef, 0xff, 0xff, 0xff],
    [0xf4, 0x0, 0x0, 0x0, 0x0, 0x0, 0x0, 0x0],
    [0x0, 0x0, 0x0, 0xaf, 0xff, 0xff, 0xff, 0xff],
    [0xf3, 0x0, 0x0, 0x0, 0x0, 0x0, 0x0, 0x0],
    [0x0, 0x0, 0x0, 0xaf, 0xff, 0xff, 0xff, 0xf9],
    [0xef, 0xff, 0xff, 0xff, 0xf4, 0x0, 0x0, 0x0],
    [0x0, 0x0, 0x0, 0x0, 0x0, 0x0, 0x0, 0x1f],
    [0xff, 0xff, 0xff, 0xff, 0xa0, 0x0, 0x0, 0x0],
    [0x0, 0x0, 0x0, 0x0, 0x0, 0x0, 0x0, 0xaf],
    [0xff, 0xff, 0xff, 0xf9, 0xef, 0xff, 0xff, 0xff],
    [0xf4, 0x0, 0x0, 0x0, 0x0, 0x0, 0x0, 0x0],
    [0x0, 0x0, 0x0, 0x7, 0xff, 0xff, 0xff, 0xff],
    [0x10, 0x0, 0x0, 0x0, 0x0, 0x0, 0x0, 0x0],
    [0x0, 0x0, 0x0, 0xaf, 0xff, 0xff, 0xff, 0xf9],
    [0xef, 0xff, 0xff, 0xff, 0xf4, 0x0, 0x0, 0x0],
    [0x0, 0x0, 0x0, 0x0, 0x0, 0x0, 0x0, 0x0],
    [0xdf, 0xff, 0xff, 0xf6, 0x0, 0x0, 0x0, 0x0],
    [0x0, 0x0, 0x0, 0x0, 0x0, 0x0, 0x0, 0xaf],
    [0xff, 0xff, 0xff, 0xf9, 0xef, 0xff, 0xff, 0xff],
    [0xf4, 0x0, 0x0, 0x0, 0x0, 0x0, 0x0, 0x0],
    [0x0, 0x0, 0x0, 0x0, 0x4f, 0xff, 0xff, 0xd0],
    [0x0, 0x0, 0x0, 0x0, 0x0, 0x0, 0x0, 0x0],
    [0x0, 0x0, 0x0, 0xaf, 0xff, 0xff, 0xff, 0xf9],
    [0xef, 0xff, 0xff, 0xff, 0xf4, 0x0, 0x0, 0x0],
    [0x0, 0x0, 0x0, 0x0, 0x0, 0x0, 0x0, 0x0],
    [0x9, 0xee, 0xee, 0x30, 0x0, 0x0, 0x0, 0x0],
    [0x0, 0x0, 0x0, 0x0, 0x0, 0x0, 0x0, 0xaf],
    [0xff, 0xff, 0xff, 0xf9, 0xef, 0xff, 0xff, 0xff],
    [0xf4, 0x0, 0x0, 0x0, 0x0, 0x0, 0x0, 0x0],
    [0x0, 0x0, 0x0, 0x0, 0x0, 0x0, 0x0, 0x0],
    [0x0, 0x0, 0x0, 0x0, 0x0, 0x0, 0x0, 0x0],
    [0x0, 0x0, 0x0, 0xaf, 0xff, 0xff, 0xff, 0xf9],
    [0xef, 0xff, 0xff, 0xff, 0xf4, 0x0, 0x0, 0x0],
    [0x0, 0x0, 0x0, 0x0, 0x0, 0x0, 0x0, 0x0],
    [0x0, 0x0, 0x0, 0x0, 0x0, 0x0, 0x0, 0x0],
    [0x0, 0x0, 0x0, 0x0, 0x0, 0x0, 0x0, 0xaf],
    [0xff, 0xff, 0xff, 0xf9, 0xef, 0xff, 0xff, 0xff],
    [0xf4, 0x0, 0x0, 0x0, 0x0, 0x0, 0x0, 0x0],
    [0x0, 0x0, 0x0, 0x0, 0x0, 0x0, 0x0, 0x0],
    [0x0, 0x0, 0x0, 0x0, 0x0, 0x0, 0x0, 0x0],
    [0x0, 0x0, 0x0, 0x9f, 0xff, 0xff, 0xff, 0xf9],
    [0xef, 0xff, 0xff, 0xff, 0xf4, 0x0, 0x0, 0x0],
    [0x0, 0x0, 0x0, 0x0, 0x0, 0x0, 0x0, 0x0],
    [0x0, 0x0, 0x0, 0x0, 0x0, 0x0, 0x0, 0x0],
    [0x0, 0x0, 0x0, 0x0, 0x0, 0x0, 0x0, 0x9f],
    [0xff, 0xff, 0xff, 0xf9, 0xef, 0xff, 0xff, 0xff],
    [0xf4, 0x0, 0x0, 0x0, 0x0, 0x0, 0x0, 0x0],
    [0x0, 0x0, 0x0, 0x0, 0x0, 0x0, 0x0, 0x0],
    [0x0, 0x0, 0x0, 0x0, 0x0, 0x0, 0x0, 0x0],
    [0x0, 0x0, 0x0, 0x9f, 0xff, 0xff, 0xff, 0xf9],
    [0xef, 0xff, 0xff, 0xff, 0xf4, 0x0, 0x0, 0x0],
    [0x0, 0x0, 0x0, 0x0, 0x0, 0x0, 0x0, 0x0],
    [0x0, 0x0, 0x0, 0x0, 0x0, 0x0, 0x0, 0x0],
    [0x0, 0x0, 0x0, 0x0, 0x0, 0x0, 0x0, 0x9f],
    [0xff, 0xff, 0xff, 0xf9, 0xef, 0xff, 0xff, 0xff],
    [0xf4, 0x0, 0x0, 0x0, 0x0, 0x0, 0x0, 0x0],
    [0x0, 0x0, 0x0, 0x0, 0x0, 0x0, 0x0, 0x0],
    [0x0, 0x0, 0x0, 0x0, 0x0, 0x0, 0x0, 0x0]]"

lemma glyph_U004D_b_length: "length (concat glyph_U004D_b) = 1184"
  by (simp add: glyph_U004D_b_def)

definition glyph_U004D_c :: "u8 list list" where
  "glyph_U004D_c = [
    [0x0, 0x0, 0x0, 0x9f, 0xff, 0xff, 0xff, 0xf9],
    [0xef, 0xff, 0xff, 0xff, 0xf4, 0x0, 0x0, 0x0],
    [0x0, 0x0, 0x0, 0x0, 0x0, 0x0, 0x0, 0x0],
    [0x0, 0x0, 0x0, 0x0, 0x0, 0x0, 0x0, 0x0],
    [0x0, 0x0, 0x0, 0x0, 0x0, 0x0, 0x0, 0x9f],
    [0xff, 0xff, 0xff, 0xf9]]"

lemma glyph_U004D_c_length: "length (concat glyph_U004D_c) = 44"
  by (simp add: glyph_U004D_c_def)

definition glyph_U004E_a :: "u8 list list" where
  "glyph_U004E_a = [
    [0xab, 0xbb, 0xbb, 0xbb, 0x20, 0x0, 0x0, 0x0],
    [0x0, 0x0, 0x0, 0x0, 0x0, 0x0, 0x0, 0x0],
    [0x0, 0x0, 0x0, 0x0, 0x0, 0x0, 0x0, 0x0],
    [0x8b, 0xbb, 0xbb, 0xbb, 0xba, 0xef, 0xff, 0xff],
    [0xff, 0xd1, 0x0, 0x0, 0x0, 0x0, 0x0, 0x0],
    [0x0, 0x0, 0x0, 0x0, 0x0, 0x0, 0x0, 0x0],
    [0x0, 0x0, 0x0, 0x0, 0x0, 0xbf, 0xff, 0xff],
    [0xff, 0xfe, 0xef, 0xff, 0xff, 0xff, 0xfb, 0x0],
    [0x0, 0x0, 0x0, 0x0, 0x0, 0x0, 0x0, 0x0],
    [0x0, 0x0, 0x0, 0x0, 0x0, 0x0, 0x0, 0x0],
    [0x0, 0x0, 0xbf, 0xff, 0xff, 0xff, 0xfe, 0xef],
    [0xff, 0xff, 0xff, 0xff, 0x90, 0x0, 0x0, 0x0],
    [0x0, 0x0, 0x0, 0x0, 0x0, 0x0, 0x0, 0x0],
    [0x0, 0x0, 0x0, 0x0, 0x0, 0x0, 0x0, 0xbf],
    [0xff, 0xff, 0xff, 0xfe, 0xef, 0xff, 0xff, 0xff],
    [0xff, 0xf6, 0x0, 0x0, 0x0, 0x0, 0x0, 0x0],
    [0x0, 0x0, 0x0, 0x0, 0x0, 0x0, 0x0, 0x0],
    [0x0, 0x0, 0x0, 0x0, 0xbf, 0xff, 0xff, 0xff],
    [0xfe, 0xef, 0xff, 0xff, 0xff, 0xff, 0xff, 0x30],
    [0x0, 0x0, 0x0, 0x0, 0x0, 0x0, 0x0, 0x0],
    [0x0, 0x0, 0x0, 0x0, 0x0, 0x0, 0x0, 0x0],
    [0x0, 0xbf, 0xff, 0xff, 0xff, 0xfe, 0xef, 0xff],
    [0xff, 0xff, 0xff, 0xff, 0xe1, 0x0, 0x0, 0x0],
    [0x0, 0x0, 0x0, 0x0, 0x0, 0x0, 0x0, 0x0],
    [0x0, 0x0, 0x0, 0x0, 0x0, 0x0, 0xbf, 0xff],
    [0xff, 0xff, 0xfe, 0xef, 0xff, 0xff, 0xff, 0xff],
    [0xff, 0xfc, 0x0, 0x0, 0x0, 0x0, 0x0, 0x0],
    [0x0, 0x0, 0x0, 0x0, 0x0, 0x0, 0x0, 0x0],
    [0x0, 0x0, 0x0, 0xbf, 0xff, 0xff, 0xff, 0xfe],
    [0xef, 0xff, 0xff, 0xff, 0xff, 0xff, 0xff, 0x90],
    [0x0, 0x0, 0x0, 0x0, 0x0, 0x0, 0x0, 0x0],
    [0x0, 0x0, 0x0, 0x0, 0x0, 0x0, 0x0, 0x0],
    [0xbf, 0xff, 0xff, 0xff, 0xfe, 0xef, 0xff, 0xff],
    [0xff, 0xff, 0xff, 0xff, 0xf6, 0x0, 0x0, 0x0],
    [0x0, 0x0, 0x0, 0x0, 0x0, 0x0, 0x0, 0x0],
    [0x0, 0x0, 0x0, 0x0, 0x0, 0xbf, 0xff, 0xff],
    [0xff, 0xfe, 0xef, 0xff, 0xff, 0xff, 0xff, 0xff],
    [0xff, 0xff, 0x40, 0x0, 0x0, 0x0, 0x0, 0x0],
    [0x0, 0x0, 0x0, 0x0, 0x0, 0x0, 0x0, 0x0],
    [0x0, 0x0, 0xbf, 0xff, 0xff, 0xff, 0xfe, 0xef],
    [0xff, 0xff, 0xff, 0xff, 0xff, 0xff, 0xff, 0xe2],
    [0x0, 0x0, 0x0, 0x0, 0x0, 0x0, 0x0, 0x0],
    [0x0, 0x0, 0x0, 0x0, 0x0, 0x0, 0x0, 0xbf],
    [0xff, 0xff, 0xff, 0xfe, 0xef, 0xff, 0xff, 0xff],
    [0xff, 0xff, 0xff, 0xff, 0xfd, 0x0, 0x0, 0x0],
    [0x0, 0x0, 0x0, 0x0, 0x0, 0x0, 0x0, 0x0],
    [0x0, 0x0, 0x0, 0x0, 0xbf, 0xff, 0xff, 0xff],
    [0xfe, 0xef, 0xff, 0xff, 0xff, 0xff, 0xff, 0xff],
    [0xff, 0xff, 0xa0, 0x0, 0x0, 0x0, 0x0, 0x0],
    [0x0, 0x0, 0x0, 0x0, 0x0, 0x0, 0x0, 0x0],
    [0x0, 0xbf, 0xff, 0xff, 0xff, 0xfe, 0xef, 0xff],
    [0xff, 0xff, 0xff, 0xff, 0xff, 0xff, 0xff, 0xf7],
    [0x0, 0x0, 0x0, 0x0, 0x0, 0x0, 0x0, 0x0],
    [0x0, 0x0, 0x0, 0x0, 0x0, 0x0, 0xbf, 0xff],
    [0xff, 0xff, 0xfe, 0xef, 0xff, 0xff, 0xff, 0xff],
    [0xff, 0xff, 0xff, 0xff, 0xff, 0x40, 0x0, 0x0],
    [0x0, 0x0, 0x0, 0x0, 0x0, 0x0, 0x0, 0x0],
    [0x0, 0x0, 0x0, 0xbf, 0xff, 0xff, 0xff, 0xfe],
    [0xef, 0xff, 0xff, 0xff, 0xff, 0xff, 0xff, 0xff],
    [0xff, 0xff, 0xf2, 0x0, 0x0, 0x0, 0x0, 0x0],
    [0x0, 0x0, 0x0, 0x0, 0x0, 0x0, 0x0, 0x0],
    [0xbf, 0xff, 0xff, 0xff, 0xfe, 0xef, 0xff, 0xff],
    [0xff, 0xfd, 0xff, 0xff, 0xff, 0xff, 0xff, 0xfd],
    [0x0, 0x0, 0x0, 0x0, 0x0, 0x0, 0x0, 0x0],
    [0x0, 0x0, 0x0, 0x0, 0x0, 0xbf, 0xff, 0xff],
    [0xff, 0xfe, 0xef, 0xff, 0xff, 0xff, 0xfb, 0x4f],
    [0xff, 0xff, 0xff, 0xff, 0xff, 0xb0, 0x0, 0x0],
    [0x0, 0x0, 0x0, 0x0, 0x0, 0x0, 0x0, 0x0],
    [0x0, 0x0, 0xbf, 0xff, 0xff, 0xff, 0xfe, 0xef],
    [0xff, 0xff, 0xff, 0xfb, 0x7, 0xff, 0xff, 0xff],
    [0xff, 0xff, 0xf8, 0x0, 0x0, 0x0, 0x0, 0x0],
    [0x0, 0x0, 0x0, 0x0, 0x0, 0x0, 0x0, 0xbf],
    [0xff, 0xff, 0xff, 0xfe, 0xef, 0xff, 0xff, 0xff],
    [0xfb, 0x0, 0xaf, 0xff, 0xff, 0xff, 0xff, 0xff],
    [0x50, 0x0, 0x0, 0x0, 0x0, 0x0, 0x0, 0x0],
    [0x0, 0x0, 0x0, 0x0, 0xbf, 0xff, 0xff, 0xff],
    [0xfe, 0xef, 0xff, 0xff, 0xff, 0xfb, 0x0, 0xd],
    [0xff, 0xff, 0xff, 0xff, 0xff, 0xf3, 0x0, 0x0],
    [0x0, 0x0, 0x0, 0x0, 0x0, 0x0, 0x0, 0x0],
    [0x0, 0xbf, 0xff, 0xff, 0xff, 0xfe, 0xef, 0xff],
    [0xff, 0xff, 0xfb, 0x0, 0x2, 0xef, 0xff, 0xff],
    [0xff, 0xff, 0xfe, 0x10, 0x0, 0x0, 0x0, 0x0],
    [0x0, 0x0, 0x0, 0x0, 0x0, 0x0, 0xbf, 0xff],
    [0xff, 0xff, 0xfe, 0xef, 0xff, 0xff, 0xff, 0xfb],
    [0x0, 0x0, 0x4f, 0xff, 0xff, 0xff, 0xff, 0xff],
    [0xc0, 0x0, 0x0, 0x0, 0x0, 0x0, 0x0, 0x0],
    [0x0, 0x0, 0x0, 0xbf, 0xff, 0xff, 0xff, 0xfe],
    [0xef, 0xff, 0xff, 0xff, 0xfb, 0x0, 0x0, 0x6],
    [0xff, 0xff, 0xff, 0xff, 0xff, 0xf9, 0x0, 0x0],
    [0x0, 0x0, 0x0, 0x0, 0x0, 0x0, 0x0, 0x0],
    [0xbf, 0xff, 0xff, 0xff, 0xfe, 0xef, 0xff, 0xff],
    [0xff, 0xfb, 0x0, 0x0, 0x0, 0x9f, 0xff, 0xff],
    [0xff, 0xff, 0xff, 0x60, 0x0, 0x0, 0x0, 0x0],
    [0x0, 0x0, 0x0, 0x0, 0x0, 0xbf, 0xff, 0xff],
    [0xff, 0xfe, 0xef, 0xff, 0xff, 0xff, 0xfb, 0x0],
    [0x0, 0x0, 0xc, 0xff, 0xff, 0xff, 0xff, 0xff],
    [0xf3, 0x0, 0x0, 0x0, 0x0, 0x0, 0x0, 0x0],
    [0x0, 0x0, 0xbf, 0xff, 0xff, 0xff, 0xfe, 0xef],
    [0xff, 0xff, 0xff, 0xfb, 0x0, 0x0, 0x0, 0x1],
    [0xef, 0xff, 0xff, 0xff, 0xff, 0xfe, 0x10, 0x0],
    [0x0, 0x0, 0x0, 0x0, 0x0, 0x0, 0x0, 0xbf],
    [0xff, 0xff, 0xff, 0xfe, 0xef, 0xff, 0xff, 0xff],
    [0xfb, 0x0, 0x0, 0x0, 0x0, 0x3f, 0xff, 0xff],
    [0xff, 0xff, 0xff, 0xc0, 0x0, 0x0, 0x0, 0x0],
    [0x0, 0x0, 0x0, 0x0, 0xbf, 0xff, 0xff, 0xff],
    [0xfe, 0xef, 0xff, 0xff, 0xff, 0xfb, 0x0, 0x0],
    [0x0, 0x0, 0x6, 0xff, 0xff, 0xff, 0xff, 0xff],
    [0xfa, 0x0, 0x0, 0x0, 0x0, 0x0, 0x0, 0x0],
    [0x0, 0xbf, 0xff, 0xff, 0xff, 0xfe, 0xef, 0xff],
    [0xff, 0xff, 0xfb, 0x0, 0x0, 0x0, 0x0, 0x0],
    [0x9f, 0xff, 0xff, 0xff, 0xff, 0xff, 0x70, 0x0],
    [0x0, 0x0, 0x0, 0x0, 0x0, 0x0, 0xbf, 0xff],
    [0xff, 0xff, 0xfe, 0xef, 0xff, 0xff, 0xff, 0xfb],
    [0x0, 0x0, 0x0, 0x0, 0x0, 0xb, 0xff, 0xff],
    [0xff, 0xff, 0xff, 0xf4, 0x0, 0x0, 0x0, 0x0],
    [0x0, 0x0, 0x0, 0xbf, 0xff, 0xff, 0xff, 0xfe],
    [0xef, 0xff, 0xff, 0xff, 0xfb, 0x0, 0x0, 0x0],
    [0x0, 0x0, 0x1, 0xdf, 0xff, 0xff, 0xff, 0xff],
    [0xfe, 0x20, 0x0, 0x0, 0x0, 0x0, 0x0, 0x0],
    [0xbf, 0xff, 0xff, 0xff, 0xfe, 0xef, 0xff, 0xff],
    [0xff, 0xfb, 0x0, 0x0, 0x0, 0x0, 0x0, 0x0],
    [0x2f, 0xff, 0xff, 0xff, 0xff, 0xff, 0xd0, 0x0],
    [0x0, 0x0, 0x0, 0x0, 0x0, 0xbf, 0xff, 0xff],
    [0xff, 0xfe, 0xef, 0xff, 0xff, 0xff, 0xfb, 0x0],
    [0x0, 0x0, 0x0, 0x0, 0x0, 0x5, 0xff, 0xff],
    [0xff, 0xff, 0xff, 0xfa, 0x0, 0x0, 0x0, 0x0],
    [0x0, 0x0, 0xbf, 0xff, 0xff, 0xff, 0xfe, 0xef],
    [0xff, 0xff, 0xff, 0xfb, 0x0, 0x0, 0x0, 0x0],
    [0x0, 0x0, 0x0, 0x8f, 0xff, 0xff, 0xff, 0xff],
    [0xff, 0x70, 0x0, 0x0, 0x0, 0x0, 0x0, 0xbf],
    [0xff, 0xff, 0xff, 0xfe, 0xef, 0xff, 0xff, 0xff],
    [0xfb, 0x0, 0x0, 0x0, 0x0, 0x0, 0x0, 0x0],
    [0xb, 0xff, 0xff, 0xff, 0xff, 0xff, 0xf4, 0x0],
    [0x0, 0x0, 0x0, 0x0, 0xbf, 0xff, 0xff, 0xff],
    [0xfe, 0xef, 0xff, 0xff, 0xff, 0xfb, 0x0, 0x0],
    [0x0, 0x0, 0x0, 0x0, 0x0, 0x0, 0xdf, 0xff],
    [0xff, 0xff, 0xff, 0xff, 0x20, 0x0, 0x0, 0x0],
    [0x0, 0xbf, 0xff, 0xff, 0xff, 0xfe, 0xef, 0xff],
    [0xff, 0xff, 0xfb, 0x0, 0x0, 0x0, 0x0, 0x0],
    [0x0, 0x0, 0x0, 0x2f, 0xff, 0xff, 0xff, 0xff],
    [0xff, 0xd1, 0x0, 0x0, 0x0, 0x0, 0xbf, 0xff],
    [0xff, 0xff, 0xfe, 0xef, 0xff, 0xff, 0xff, 0xfb],
    [0x0, 0x0, 0x0, 0x0, 0x0, 0x0, 0x0, 0x0],
    [0x4, 0xff, 0xff, 0xff, 0xff, 0xff, 0xfb, 0x0],
    [0x0, 0x0, 0x0, 0xbf, 0xff, 0xff, 0xff, 0xfe],
    [0xef, 0xff, 0xff, 0xff, 0xfb, 0x0, 0x0, 0x0],
    [0x0, 0x0, 0x0, 0x0, 0x0, 0x0, 0x7f, 0xff],
    [0xff, 0xff, 0xff, 0xff, 0x80, 0x0, 0x0, 0x0]]"

lemma glyph_U004E_a_length: "length (concat glyph_U004E_a) = 1184"
  by (simp add: glyph_U004E_a_def)

definition glyph_U004E_b :: "u8 list list" where
  "glyph_U004E_b = [
    [0xbf, 0xff, 0xff, 0xff, 0xfe, 0xef, 0xff, 0xff],
    [0xff, 0xfb, 0x0, 0x0, 0x0, 0x0, 0x0, 0x0],
    [0x0, 0x0, 0x0, 0xa, 0xff, 0xff, 0xff, 0xff],
    [0xff, 0xf5, 0x0, 0x0, 0x0, 0xbf, 0xff, 0xff],
    [0xff, 0xfe, 0xef, 0xff, 0xff, 0xff, 0xfb, 0x0],
    [0x0, 0x0, 0x0, 0x0, 0x0, 0x0, 0x0, 0x0],
    [0x0, 0xcf, 0xff, 0xff, 0xff, 0xff, 0xff, 0x30],
    [0x0, 0x0, 0xbf, 0xff, 0xff, 0xff, 0xfe, 0xef],
    [0xff, 0xff, 0xff, 0xfb, 0x0, 0x0, 0x0, 0x0],
    [0x0, 0x0, 0x0, 0x0, 0x0, 0x0, 0x1e, 0xff],
    [0xff, 0xff, 0xff, 0xff, 0xe1, 0x0, 0x0, 0xbf],
    [0xff, 0xff, 0xff, 0xfe, 0xef, 0xff, 0xff, 0xff],
    [0xfb, 0x0, 0x0, 0x0, 0x0, 0x0, 0x0, 0x0],
    [0x0, 0x0, 0x0, 0x3, 0xff, 0xff, 0xff, 0xff],
    [0xff, 0xfc, 0x0, 0x0, 0xbf, 0xff, 0xff, 0xff],
    [0xfe, 0xef, 0xff, 0xff, 0xff, 0xfb, 0x0, 0x0],
    [0x0, 0x0, 0x0, 0x0, 0x0, 0x0, 0x0, 0x0],
    [0x0, 0x6f, 0xff, 0xff, 0xff, 0xff, 0xff, 0x90],
    [0x0, 0xbf, 0xff, 0xff, 0xff, 0xfe, 0xef, 0xff],
    [0xff, 0xff, 0xfb, 0x0, 0x0, 0x0, 0x0, 0x0],
    [0x0, 0x0, 0x0, 0x0, 0x0, 0x0, 0x9, 0xff],
    [0xff, 0xff, 0xff, 0xff, 0xf6, 0x0, 0xbf, 0xff],
    [0xff, 0xff, 0xfe, 0xef, 0xff, 0xff, 0xff, 0xfb],
    [0x0, 0x0, 0x0, 0x0, 0x0, 0x0, 0x0, 0x0],
    [0x0, 0x0, 0x0, 0x0, 0xcf, 0xff, 0xff, 0xff],
    [0xff, 0xff, 0x30, 0xbf, 0xff, 0xff, 0xff, 0xfe],
    [0xef, 0xff, 0xff, 0xff, 0xfb, 0x0, 0x0, 0x0],
    [0x0, 0x0, 0x0, 0x0, 0x0, 0x0, 0x0, 0x0],
    [0x0, 0x1e, 0xff, 0xff, 0xff, 0xff, 0xff, 0xe1],
    [0xbf, 0xff, 0xff, 0xff, 0xfe, 0xef, 0xff, 0xff],
    [0xff, 0xfb, 0x0, 0x0, 0x0, 0x0, 0x0, 0x0],
    [0x0, 0x0, 0x0, 0x0, 0x0, 0x0, 0x3, 0xff],
    [0xff, 0xff, 0xff, 0xff, 0xfc, 0xcf, 0xff, 0xff],
    [0xff, 0xfe, 0xef, 0xff, 0xff, 0xff, 0xfb, 0x0],
    [0x0, 0x0, 0x0, 0x0, 0x0, 0x0, 0x0, 0x0],
    [0x0, 0x0, 0x0, 0x0, 0x5f, 0xff, 0xff, 0xff],
    [0xff, 0xff, 0xff, 0xff, 0xff, 0xff, 0xfe, 0xef],
    [0xff, 0xff, 0xff, 0xfb, 0x0, 0x0, 0x0, 0x0],
    [0x0, 0x0, 0x0, 0x0, 0x0, 0x0, 0x0, 0x0],
    [0x0, 0x8, 0xff, 0xff, 0xff, 0xff, 0xff, 0xff],
    [0xff, 0xff, 0xff, 0xfe, 0xef, 0xff, 0xff, 0xff],
    [0xfb, 0x0, 0x0, 0x0, 0x0, 0x0, 0x0, 0x0],
    [0x0, 0x0, 0x0, 0x0, 0x0, 0x0, 0x0, 0xbf],
    [0xff, 0xff, 0xff, 0xff, 0xff, 0xff, 0xff, 0xff],
    [0xfe, 0xef, 0xff, 0xff, 0xff, 0xfb, 0x0, 0x0],
    [0x0, 0x0, 0x0, 0x0, 0x0, 0x0, 0x0, 0x0],
    [0x0, 0x0, 0x0, 0x0, 0x1d, 0xff, 0xff, 0xff],
    [0xff, 0xff, 0xff, 0xff, 0xff, 0xfe, 0xef, 0xff],
    [0xff, 0xff, 0xfb, 0x0, 0x0, 0x0, 0x0, 0x0],
    [0x0, 0x0, 0x0, 0x0, 0x0, 0x0, 0x0, 0x0],
    [0x0, 0x2, 0xff, 0xff, 0xff, 0xff, 0xff, 0xff],
    [0xff, 0xff, 0xfe, 0xef, 0xff, 0xff, 0xff, 0xfb],
    [0x0, 0x0, 0x0, 0x0, 0x0, 0x0, 0x0, 0x0],
    [0x0, 0x0, 0x0, 0x0, 0x0, 0x0, 0x0, 0x5f],
    [0xff, 0xff, 0xff, 0xff, 0xff, 0xff, 0xff, 0xfe],
    [0xef, 0xff, 0xff, 0xff, 0xfb, 0x0, 0x0, 0x0],
    [0x0, 0x0, 0x0, 0x0, 0x0, 0x0, 0x0, 0x0],
    [0x0, 0x0, 0x0, 0x0, 0x8, 0xff, 0xff, 0xff],
    [0xff, 0xff, 0xff, 0xff, 0xfe, 0xef, 0xff, 0xff],
    [0xff, 0xfb, 0x0, 0x0, 0x0, 0x0, 0x0, 0x0],
    [0x0, 0x0, 0x0, 0x0, 0x0, 0x0, 0x0, 0x0],
    [0x0, 0x0, 0xbf, 0xff, 0xff, 0xff, 0xff, 0xff],
    [0xff, 0xfe, 0xef, 0xff, 0xff, 0xff, 0xfb, 0x0],
    [0x0, 0x0, 0x0, 0x0, 0x0, 0x0, 0x0, 0x0],
    [0x0, 0x0, 0x0, 0x0, 0x0, 0x0, 0x0, 0xd],
    [0xff, 0xff, 0xff, 0xff, 0xff, 0xff, 0xfe, 0xef],
    [0xff, 0xff, 0xff, 0xfb, 0x0, 0x0, 0x0, 0x0],
    [0x0, 0x0, 0x0, 0x0, 0x0, 0x0, 0x0, 0x0],
    [0x0, 0x0, 0x0, 0x0, 0x2, 0xef, 0xff, 0xff],
    [0xff, 0xff, 0xff, 0xfe, 0xef, 0xff, 0xff, 0xff],
    [0xfb, 0x0, 0x0, 0x0, 0x0, 0x0, 0x0, 0x0],
    [0x0, 0x0, 0x0, 0x0, 0x0, 0x0, 0x0, 0x0],
    [0x0, 0x0, 0x4f, 0xff, 0xff, 0xff, 0xff, 0xff],
    [0xfe, 0xef, 0xff, 0xff, 0xff, 0xfb, 0x0, 0x0],
    [0x0, 0x0, 0x0, 0x0, 0x0, 0x0, 0x0, 0x0],
    [0x0, 0x0, 0x0, 0x0, 0x0, 0x0, 0x0, 0x7],
    [0xff, 0xff, 0xff, 0xff, 0xff, 0xfe, 0xef, 0xff],
    [0xff, 0xff, 0xfb, 0x0, 0x0, 0x0, 0x0, 0x0],
    [0x0, 0x0, 0x0, 0x0, 0x0, 0x0, 0x0, 0x0],
    [0x0, 0x0, 0x0, 0x0, 0x0, 0xaf, 0xff, 0xff],
    [0xff, 0xff, 0xfe, 0xef, 0xff, 0xff, 0xff, 0xfb],
    [0x0, 0x0, 0x0, 0x0, 0x0, 0x0, 0x0, 0x0],
    [0x0, 0x0, 0x0, 0x0, 0x0, 0x0, 0x0, 0x0],
    [0x0, 0x0, 0xc, 0xff, 0xff, 0xff, 0xff, 0xfe],
    [0xef, 0xff, 0xff, 0xff, 0xfb, 0x0, 0x0, 0x0],
    [0x0, 0x0, 0x0, 0x0, 0x0, 0x0, 0x0, 0x0],
    [0x0, 0x0, 0x0, 0x0, 0x0, 0x0, 0x0, 0x1],
    [0xef, 0xff, 0xff, 0xff, 0xfe, 0xef, 0xff, 0xff],
    [0xff, 0xfb, 0x0, 0x0, 0x0, 0x0, 0x0, 0x0],
    [0x0, 0x0, 0x0, 0x0, 0x0, 0x0, 0x0, 0x0],
    [0x0, 0x0, 0x0, 0x0, 0x0, 0x3f, 0xff, 0xff],
    [0xff, 0xfe, 0xef, 0xff, 0xff, 0xff, 0xfb, 0x0],
    [0x0, 0x0, 0x0, 0x0, 0x0, 0x0, 0x0, 0x0],
    [0x0, 0x0, 0x0, 0x0, 0x0, 0x0, 0x0, 0x0],
    [0x0, 0x0, 0x6, 0xff, 0xff, 0xff, 0xfe]]"

lemma glyph_U004E_b_length: "length (concat glyph_U004E_b) = 759"
  by (simp add: glyph_U004E_b_def)

definition glyph_U004F_a :: "u8 list list" where
  "glyph_U004F_a = [
    [0x0, 0x0, 0x0, 0x0, 0x0, 0x0, 0x0, 0x0],
    [0x0, 0x0, 0x0, 0x0, 0x0, 0x0, 0x46, 0x9b],
    [0xce, 0xff, 0xff, 0xfe, 0xcb, 0x86, 0x30, 0x0],
    [0x0, 0x0, 0x0, 0x0, 0x0, 0x0, 0x0, 0x0],
    [0x0, 0x0, 0x0, 0x0, 0x0, 0x0, 0x0, 0x0],
    [0x0, 0x0, 0x0, 0x0, 0x0, 0x0, 0x0, 0x0],
    [0x4, 0x8d, 0xff, 0xff, 0xff, 0xff, 0xff, 0xff],
    [0xff, 0xff, 0xff, 0xfc, 0x72, 0x0, 0x0, 0x0],
    [0x0, 0x0, 0x0, 0x0, 0x0, 0x0, 0x0, 0x0],
    [0x0, 0x0, 0x0, 0x0, 0x0, 0x0, 0x0, 0x0],
    [0x0, 0x0, 0x0, 0x2, 0x9e, 0xff, 0xff, 0xff],
    [0xff, 0xff, 0xff, 0xff, 0xff, 0xff, 0xff, 0xff],
    [0xff, 0xfd, 0x71, 0x0, 0x0, 0x0, 0x0, 0x0],
    [0x0, 0x0, 0x0, 0x0, 0x0, 0x0, 0x0, 0x0],
    [0x0, 0x0, 0x0, 0x0, 0x0, 0x0, 0x0, 0x4b],
    [0xff, 0xff, 0xff, 0xff, 0xff, 0xff, 0xff, 0xff],
    [0xff, 0xff, 0xff, 0xff, 0xff, 0xff, 0xff, 0xf9],
    [0x20, 0x0, 0x0, 0x0, 0x0, 0x0, 0x0, 0x0],
    [0x0, 0x0, 0x0, 0x0, 0x0, 0x0, 0x0, 0x0],
    [0x0, 0x0, 0x3, 0xcf, 0xff, 0xff, 0xff, 0xff],
    [0xff, 0xff, 0xff, 0xff, 0xff, 0xff, 0xff, 0xff],
    [0xff, 0xff, 0xff, 0xff, 0xff, 0x91, 0x0, 0x0],
    [0x0, 0x0, 0x0, 0x0, 0x0, 0x0, 0x0, 0x0],
    [0x0, 0x0, 0x0, 0x0, 0x0, 0x0, 0x8, 0xff],
    [0xff, 0xff, 0xff, 0xff, 0xff, 0xff, 0xff, 0xff],
    [0xff, 0xff, 0xff, 0xff, 0xff, 0xff, 0xff, 0xff],
    [0xff, 0xff, 0xe6, 0x0, 0x0, 0x0, 0x0, 0x0],
    [0x0, 0x0, 0x0, 0x0, 0x0, 0x0, 0x0, 0x0],
    [0x0, 0x0, 0x4d, 0xff, 0xff, 0xff, 0xff, 0xff],
    [0xff, 0xff, 0xff, 0xff, 0xff, 0xff, 0xff, 0xff],
    [0xff, 0xff, 0xff, 0xff, 0xff, 0xff, 0xff, 0xfb],
    [0x20, 0x0, 0x0, 0x0, 0x0, 0x0, 0x0, 0x0],
    [0x0, 0x0, 0x0, 0x0, 0x0, 0x0, 0x8f, 0xff],
    [0xff, 0xff, 0xff, 0xff, 0xff, 0xff, 0xff, 0xff],
    [0xff, 0xff, 0xff, 0xff, 0xff, 0xff, 0xff, 0xff],
    [0xff, 0xff, 0xff, 0xff, 0xff, 0x40, 0x0, 0x0],
    [0x0, 0x0, 0x0, 0x0, 0x0, 0x0, 0x0, 0x0],
    [0x0, 0x0, 0xaf, 0xff, 0xff, 0xff, 0xff, 0xff],
    [0xff, 0xff, 0xff, 0xfe, 0xca, 0x98, 0x88, 0x9a],
    [0xcf, 0xff, 0xff, 0xff, 0xff, 0xff, 0xff, 0xff],
    [0xff, 0xff, 0x70, 0x0, 0x0, 0x0, 0x0, 0x0],
    [0x0, 0x0, 0x0, 0x0, 0x0, 0x1, 0xcf, 0xff],
    [0xff, 0xff, 0xff, 0xff, 0xff, 0xff, 0xe9, 0x51],
    [0x0, 0x0, 0x0, 0x0, 0x0, 0x2, 0x5a, 0xff],
    [0xff, 0xff, 0xff, 0xff, 0xff, 0xff, 0xff, 0x90],
    [0x0, 0x0, 0x0, 0x0, 0x0, 0x0, 0x0, 0x0],
    [0x0, 0x0, 0xdf, 0xff, 0xff, 0xff, 0xff, 0xff],
    [0xff, 0xfa, 0x40, 0x0, 0x0, 0x0, 0x0, 0x0],
    [0x0, 0x0, 0x0, 0x0, 0x5c, 0xff, 0xff, 0xff],
    [0xff, 0xff, 0xff, 0xff, 0x90, 0x0, 0x0, 0x0],
    [0x0, 0x0, 0x0, 0x0, 0x0, 0x0, 0xcf, 0xff],
    [0xff, 0xff, 0xff, 0xff, 0xff, 0x92, 0x0, 0x0],
    [0x0, 0x0, 0x0, 0x0, 0x0, 0x0, 0x0, 0x0],
    [0x0, 0x4, 0xcf, 0xff, 0xff, 0xff, 0xff, 0xff],
    [0xff, 0x80, 0x0, 0x0, 0x0, 0x0, 0x0, 0x0],
    [0x0, 0x0, 0xaf, 0xff, 0xff, 0xff, 0xff, 0xff],
    [0xfd, 0x30, 0x0, 0x0, 0x0, 0x0, 0x0, 0x0],
    [0x0, 0x0, 0x0, 0x0, 0x0, 0x0, 0x0, 0x5e],
    [0xff, 0xff, 0xff, 0xff, 0xff, 0xff, 0x60, 0x0],
    [0x0, 0x0, 0x0, 0x0, 0x0, 0x0, 0x8f, 0xff],
    [0xff, 0xff, 0xff, 0xff, 0xf7, 0x0, 0x0, 0x0],
    [0x0, 0x0, 0x0, 0x0, 0x0, 0x0, 0x0, 0x0],
    [0x0, 0x0, 0x0, 0x0, 0x1b, 0xff, 0xff, 0xff],
    [0xff, 0xff, 0xff, 0x30, 0x0, 0x0, 0x0, 0x0],
    [0x0, 0x0, 0x3f, 0xff, 0xff, 0xff, 0xff, 0xff],
    [0xf4, 0x0, 0x0, 0x0, 0x0, 0x0, 0x0, 0x0],
    [0x0, 0x0, 0x0, 0x0, 0x0, 0x0, 0x0, 0x0],
    [0x0, 0x8, 0xff, 0xff, 0xff, 0xff, 0xff, 0xfd],
    [0x0, 0x0, 0x0, 0x0, 0x0, 0x0, 0xd, 0xff],
    [0xff, 0xff, 0xff, 0xff, 0xe2, 0x0, 0x0, 0x0],
    [0x0, 0x0, 0x0, 0x0, 0x0, 0x0, 0x0, 0x0],
    [0x0, 0x0, 0x0, 0x0, 0x0, 0x0, 0x6, 0xff],
    [0xff, 0xff, 0xff, 0xff, 0xf9, 0x0, 0x0, 0x0],
    [0x0, 0x0, 0x8, 0xff, 0xff, 0xff, 0xff, 0xff],
    [0xe2, 0x0, 0x0, 0x0, 0x0, 0x0, 0x0, 0x0],
    [0x0, 0x0, 0x0, 0x0, 0x0, 0x0, 0x0, 0x0],
    [0x0, 0x0, 0x0, 0x6, 0xff, 0xff, 0xff, 0xff],
    [0xff, 0xf4, 0x0, 0x0, 0x0, 0x0, 0x2, 0xff],
    [0xff, 0xff, 0xff, 0xff, 0xf3, 0x0, 0x0, 0x0],
    [0x0, 0x0, 0x0, 0x0, 0x0, 0x0, 0x0, 0x0],
    [0x0, 0x0, 0x0, 0x0, 0x0, 0x0, 0x0, 0x0],
    [0x8, 0xff, 0xff, 0xff, 0xff, 0xff, 0xd0, 0x0],
    [0x0, 0x0, 0x0, 0xbf, 0xff, 0xff, 0xff, 0xff],
    [0xf5, 0x0, 0x0, 0x0, 0x0, 0x0, 0x0, 0x0],
    [0x0, 0x0, 0x0, 0x0, 0x0, 0x0, 0x0, 0x0],
    [0x0, 0x0, 0x0, 0x0, 0x0, 0xb, 0xff, 0xff],
    [0xff, 0xff, 0xff, 0x60, 0x0, 0x0, 0x0, 0x2f],
    [0xff, 0xff, 0xff, 0xff, 0xfa, 0x0, 0x0, 0x0],
    [0x0, 0x0, 0x0, 0x0, 0x0, 0x0, 0x0, 0x0],
    [0x0, 0x0, 0x0, 0x0, 0x0, 0x0, 0x0, 0x0],
    [0x0, 0x0, 0x1f, 0xff, 0xff, 0xff, 0xff, 0xfd],
    [0x0, 0x0, 0x0, 0xa, 0xff, 0xff, 0xff, 0xff],
    [0xfe, 0x10, 0x0, 0x0, 0x0, 0x0, 0x0, 0x0],
    [0x0, 0x0, 0x0, 0x0, 0x0, 0x0, 0x0, 0x0],
    [0x0, 0x0, 0x0, 0x0, 0x0, 0x0, 0x0, 0x6f],
    [0xff, 0xff, 0xff, 0xff, 0xf5, 0x0, 0x0, 0x1],
    [0xff, 0xff, 0xff, 0xff, 0xff, 0x60, 0x0, 0x0],
    [0x0, 0x0, 0x0, 0x0, 0x0, 0x0, 0x0, 0x0],
    [0x0, 0x0, 0x0, 0x0, 0x0, 0x0, 0x0, 0x0],
    [0x0, 0x0, 0x0, 0x0, 0xcf, 0xff, 0xff, 0xff],
    [0xff, 0xb0, 0x0, 0x0, 0x6f, 0xff, 0xff, 0xff],
    [0xff, 0xe0, 0x0, 0x0, 0x0, 0x0, 0x0, 0x0],
    [0x0, 0x0, 0x0, 0x0, 0x0, 0x0, 0x0, 0x0],
    [0x0, 0x0, 0x0, 0x0, 0x0, 0x0, 0x0, 0x0],
    [0x4, 0xff, 0xff, 0xff, 0xff, 0xff, 0x10, 0x0],
    [0xc, 0xff, 0xff, 0xff, 0xff, 0xf6, 0x0, 0x0],
    [0x0, 0x0, 0x0, 0x0, 0x0, 0x0, 0x0, 0x0],
    [0x0, 0x0, 0x0, 0x0, 0x0, 0x0, 0x0, 0x0],
    [0x0, 0x0, 0x0, 0x0, 0x0, 0xc, 0xff, 0xff],
    [0xff, 0xff, 0xf6, 0x0, 0x1, 0xff, 0xff, 0xff],
    [0xff, 0xff, 0x0, 0x0, 0x0, 0x0, 0x0, 0x0],
    [0x0, 0x0, 0x0, 0x0, 0x0, 0x0, 0x0, 0x0],
    [0x0, 0x0, 0x0, 0x0, 0x0, 0x0, 0x0, 0x0],
    [0x0, 0x0, 0x5f, 0xff, 0xff, 0xff, 0xff, 0xb0],
    [0x0, 0x5f, 0xff, 0xff, 0xff, 0xff, 0xa0, 0x0],
    [0x0, 0x0, 0x0, 0x0, 0x0, 0x0, 0x0, 0x0],
    [0x0, 0x0, 0x0, 0x0, 0x0, 0x0, 0x0, 0x0],
    [0x0, 0x0, 0x0, 0x0, 0x0, 0x0, 0x0, 0xff],
    [0xff, 0xff, 0xff, 0xff, 0x0, 0x9, 0xff, 0xff],
    [0xff, 0xff, 0xf5, 0x0, 0x0, 0x0, 0x0, 0x0],
    [0x0, 0x0, 0x0, 0x0, 0x0, 0x0, 0x0, 0x0],
    [0x0, 0x0, 0x0, 0x0, 0x0, 0x0, 0x0, 0x0],
    [0x0, 0x0, 0x0, 0xb, 0xff, 0xff, 0xff, 0xff],
    [0xf3, 0x0, 0xcf, 0xff, 0xff, 0xff, 0xff, 0x0],
    [0x0, 0x0, 0x0, 0x0, 0x0, 0x0, 0x0, 0x0],
    [0x0, 0x0, 0x0, 0x0, 0x0, 0x0, 0x0, 0x0],
    [0x0, 0x0, 0x0, 0x0, 0x0, 0x0, 0x0, 0x0],
    [0x6f, 0xff, 0xff, 0xff, 0xff, 0x60, 0xe, 0xff],
    [0xff, 0xff, 0xff, 0xd0, 0x0, 0x0, 0x0, 0x0],
    [0x0, 0x0, 0x0, 0x0, 0x0, 0x0, 0x0, 0x0],
    [0x0, 0x0, 0x0, 0x0, 0x0, 0x0, 0x0, 0x0],
    [0x0, 0x0, 0x0, 0x0, 0x3, 0xff, 0xff, 0xff],
    [0xff, 0xf9, 0x1, 0xff, 0xff, 0xff, 0xff, 0xfa],
    [0x0, 0x0, 0x0, 0x0, 0x0, 0x0, 0x0, 0x0],
    [0x0, 0x0, 0x0, 0x0, 0x0, 0x0, 0x0, 0x0],
    [0x0, 0x0, 0x0, 0x0, 0x0, 0x0, 0x0, 0x0],
    [0x0, 0xf, 0xff, 0xff, 0xff, 0xff, 0xb0, 0x3f],
    [0xff, 0xff, 0xff, 0xff, 0x70, 0x0, 0x0, 0x0],
    [0x0, 0x0, 0x0, 0x0, 0x0, 0x0, 0x0, 0x0],
    [0x0, 0x0, 0x0, 0x0, 0x0, 0x0, 0x0, 0x0],
    [0x0, 0x0, 0x0, 0x0, 0x0, 0x0, 0xdf, 0xff],
    [0xff, 0xff, 0xfd, 0x4, 0xff, 0xff, 0xff, 0xff],
    [0xf5, 0x0, 0x0, 0x0, 0x0, 0x0, 0x0, 0x0],
    [0x0, 0x0, 0x0, 0x0, 0x0, 0x0, 0x0, 0x0],
    [0x0, 0x0, 0x0, 0x0, 0x0, 0x0, 0x0, 0x0],
    [0x0, 0x0, 0xb, 0xff, 0xff, 0xff, 0xff, 0xe0],
    [0x5f, 0xff, 0xff, 0xff, 0xff, 0x40, 0x0, 0x0],
    [0x0, 0x0, 0x0, 0x0, 0x0, 0x0, 0x0, 0x0]]"

lemma glyph_U004F_a_length: "length (concat glyph_U004F_a) = 1184"
  by (simp add: glyph_U004F_a_def)

definition glyph_U004F_b :: "u8 list list" where
  "glyph_U004F_b = [
    [0x0, 0x0, 0x0, 0x0, 0x0, 0x0, 0x0, 0x0],
    [0x0, 0x0, 0x0, 0x0, 0x0, 0x0, 0x0, 0xaf],
    [0xff, 0xff, 0xff, 0xff, 0x5, 0xff, 0xff, 0xff],
    [0xff, 0xf3, 0x0, 0x0, 0x0, 0x0, 0x0, 0x0],
    [0x0, 0x0, 0x0, 0x0, 0x0, 0x0, 0x0, 0x0],
    [0x0, 0x0, 0x0, 0x0, 0x0, 0x0, 0x0, 0x0],
    [0x0, 0x0, 0x0, 0x9, 0xff, 0xff, 0xff, 0xff],
    [0xf0, 0x6f, 0xff, 0xff, 0xff, 0xff, 0x30, 0x0],
    [0x0, 0x0, 0x0, 0x0, 0x0, 0x0, 0x0, 0x0],
    [0x0, 0x0, 0x0, 0x0, 0x0, 0x0, 0x0, 0x0],
    [0x0, 0x0, 0x0, 0x0, 0x0, 0x0, 0x0, 0x0],
    [0x9f, 0xff, 0xff, 0xff, 0xff, 0x5, 0xff, 0xff],
    [0xff, 0xff, 0xf4, 0x0, 0x0, 0x0, 0x0, 0x0],
    [0x0, 0x0, 0x0, 0x0, 0x0, 0x0, 0x0, 0x0],
    [0x0, 0x0, 0x0, 0x0, 0x0, 0x0, 0x0, 0x0],
    [0x0, 0x0, 0x0, 0x0, 0xa, 0xff, 0xff, 0xff],
    [0xff, 0xf0, 0x5f, 0xff, 0xff, 0xff, 0xff, 0x50],
    [0x0, 0x0, 0x0, 0x0, 0x0, 0x0, 0x0, 0x0],
    [0x0, 0x0, 0x0, 0x0, 0x0, 0x0, 0x0, 0x0],
    [0x0, 0x0, 0x0, 0x0, 0x0, 0x0, 0x0, 0x0],
    [0x0, 0xbf, 0xff, 0xff, 0xff, 0xff, 0x3, 0xff],
    [0xff, 0xff, 0xff, 0xf6, 0x0, 0x0, 0x0, 0x0],
    [0x0, 0x0, 0x0, 0x0, 0x0, 0x0, 0x0, 0x0],
    [0x0, 0x0, 0x0, 0x0, 0x0, 0x0, 0x0, 0x0],
    [0x0, 0x0, 0x0, 0x0, 0x0, 0xc, 0xff, 0xff],
    [0xff, 0xff, 0xe0, 0x2f, 0xff, 0xff, 0xff, 0xff],
    [0x80, 0x0, 0x0, 0x0, 0x0, 0x0, 0x0, 0x0],
    [0x0, 0x0, 0x0, 0x0, 0x0, 0x0, 0x0, 0x0],
    [0x0, 0x0, 0x0, 0x0, 0x0, 0x0, 0x0, 0x0],
    [0x0, 0x0, 0xef, 0xff, 0xff, 0xff, 0xfc, 0x0],
    [0xff, 0xff, 0xff, 0xff, 0xfb, 0x0, 0x0, 0x0],
    [0x0, 0x0, 0x0, 0x0, 0x0, 0x0, 0x0, 0x0],
    [0x0, 0x0, 0x0, 0x0, 0x0, 0x0, 0x0, 0x0],
    [0x0, 0x0, 0x0, 0x0, 0x0, 0x0, 0x1f, 0xff],
    [0xff, 0xff, 0xff, 0xa0, 0xd, 0xff, 0xff, 0xff],
    [0xff, 0xe0, 0x0, 0x0, 0x0, 0x0, 0x0, 0x0],
    [0x0, 0x0, 0x0, 0x0, 0x0, 0x0, 0x0, 0x0],
    [0x0, 0x0, 0x0, 0x0, 0x0, 0x0, 0x0, 0x0],
    [0x0, 0x0, 0x4, 0xff, 0xff, 0xff, 0xff, 0xf8],
    [0x0, 0xaf, 0xff, 0xff, 0xff, 0xff, 0x20, 0x0],
    [0x0, 0x0, 0x0, 0x0, 0x0, 0x0, 0x0, 0x0],
    [0x0, 0x0, 0x0, 0x0, 0x0, 0x0, 0x0, 0x0],
    [0x0, 0x0, 0x0, 0x0, 0x0, 0x0, 0x0, 0x8f],
    [0xff, 0xff, 0xff, 0xff, 0x50, 0x7, 0xff, 0xff],
    [0xff, 0xff, 0xf7, 0x0, 0x0, 0x0, 0x0, 0x0],
    [0x0, 0x0, 0x0, 0x0, 0x0, 0x0, 0x0, 0x0],
    [0x0, 0x0, 0x0, 0x0, 0x0, 0x0, 0x0, 0x0],
    [0x0, 0x0, 0x0, 0xd, 0xff, 0xff, 0xff, 0xff],
    [0xf1, 0x0, 0x3f, 0xff, 0xff, 0xff, 0xff, 0xd0],
    [0x0, 0x0, 0x0, 0x0, 0x0, 0x0, 0x0, 0x0],
    [0x0, 0x0, 0x0, 0x0, 0x0, 0x0, 0x0, 0x0],
    [0x0, 0x0, 0x0, 0x0, 0x0, 0x0, 0x0, 0x3],
    [0xff, 0xff, 0xff, 0xff, 0xfe, 0x0, 0x0, 0xef],
    [0xff, 0xff, 0xff, 0xff, 0x20, 0x0, 0x0, 0x0],
    [0x0, 0x0, 0x0, 0x0, 0x0, 0x0, 0x0, 0x0],
    [0x0, 0x0, 0x0, 0x0, 0x0, 0x0, 0x0, 0x0],
    [0x0, 0x0, 0x0, 0x0, 0x8f, 0xff, 0xff, 0xff],
    [0xff, 0x90, 0x0, 0x9, 0xff, 0xff, 0xff, 0xff],
    [0xfa, 0x0, 0x0, 0x0, 0x0, 0x0, 0x0, 0x0],
    [0x0, 0x0, 0x0, 0x0, 0x0, 0x0, 0x0, 0x0],
    [0x0, 0x0, 0x0, 0x0, 0x0, 0x0, 0x0, 0x0],
    [0x1f, 0xff, 0xff, 0xff, 0xff, 0xf4, 0x0, 0x0],
    [0x3f, 0xff, 0xff, 0xff, 0xff, 0xf2, 0x0, 0x0],
    [0x0, 0x0, 0x0, 0x0, 0x0, 0x0, 0x0, 0x0],
    [0x0, 0x0, 0x0, 0x0, 0x0, 0x0, 0x0, 0x0],
    [0x0, 0x0, 0x0, 0x0, 0x8, 0xff, 0xff, 0xff],
    [0xff, 0xfe, 0x0, 0x0, 0x0, 0xdf, 0xff, 0xff],
    [0xff, 0xff, 0xa0, 0x0, 0x0, 0x0, 0x0, 0x0],
    [0x0, 0x0, 0x0, 0x0, 0x0, 0x0, 0x0, 0x0],
    [0x0, 0x0, 0x0, 0x0, 0x0, 0x0, 0x0, 0x0],
    [0x1, 0xff, 0xff, 0xff, 0xff, 0xff, 0x80, 0x0],
    [0x0, 0x6, 0xff, 0xff, 0xff, 0xff, 0xff, 0x50],
    [0x0, 0x0, 0x0, 0x0, 0x0, 0x0, 0x0, 0x0],
    [0x0, 0x0, 0x0, 0x0, 0x0, 0x0, 0x0, 0x0],
    [0x0, 0x0, 0x0, 0x0, 0x0, 0xbf, 0xff, 0xff],
    [0xff, 0xff, 0xf2, 0x0, 0x0, 0x0, 0xe, 0xff],
    [0xff, 0xff, 0xff, 0xfe, 0x10, 0x0, 0x0, 0x0],
    [0x0, 0x0, 0x0, 0x0, 0x0, 0x0, 0x0, 0x0],
    [0x0, 0x0, 0x0, 0x0, 0x0, 0x0, 0x0, 0x0],
    [0x0, 0x5f, 0xff, 0xff, 0xff, 0xff, 0xfa, 0x0],
    [0x0, 0x0, 0x0, 0x6f, 0xff, 0xff, 0xff, 0xff],
    [0xfb, 0x0, 0x0, 0x0, 0x0, 0x0, 0x0, 0x0],
    [0x0, 0x0, 0x0, 0x0, 0x0, 0x0, 0x0, 0x0],
    [0x0, 0x0, 0x0, 0x0, 0x0, 0x2f, 0xff, 0xff],
    [0xff, 0xff, 0xff, 0x20, 0x0, 0x0, 0x0, 0x0],
    [0xdf, 0xff, 0xff, 0xff, 0xff, 0xf9, 0x0, 0x0],
    [0x0, 0x0, 0x0, 0x0, 0x0, 0x0, 0x0, 0x0],
    [0x0, 0x0, 0x0, 0x0, 0x0, 0x0, 0x0, 0x0],
    [0x0, 0x1e, 0xff, 0xff, 0xff, 0xff, 0xff, 0x90],
    [0x0, 0x0, 0x0, 0x0, 0x3, 0xff, 0xff, 0xff],
    [0xff, 0xff, 0xf8, 0x0, 0x0, 0x0, 0x0, 0x0],
    [0x0, 0x0, 0x0, 0x0, 0x0, 0x0, 0x0, 0x0],
    [0x0, 0x0, 0x0, 0x0, 0x0, 0x1c, 0xff, 0xff],
    [0xff, 0xff, 0xff, 0xe1, 0x0, 0x0, 0x0, 0x0],
    [0x0, 0x8, 0xff, 0xff, 0xff, 0xff, 0xff, 0xf9],
    [0x0, 0x0, 0x0, 0x0, 0x0, 0x0, 0x0, 0x0],
    [0x0, 0x0, 0x0, 0x0, 0x0, 0x0, 0x0, 0x0],
    [0x0, 0x2d, 0xff, 0xff, 0xff, 0xff, 0xff, 0xf4],
    [0x0, 0x0, 0x0, 0x0, 0x0, 0x0, 0xd, 0xff],
    [0xff, 0xff, 0xff, 0xff, 0xfb, 0x10, 0x0, 0x0],
    [0x0, 0x0, 0x0, 0x0, 0x0, 0x0, 0x0, 0x0],
    [0x0, 0x0, 0x0, 0x0, 0x0, 0x3e, 0xff, 0xff],
    [0xff, 0xff, 0xff, 0xf9, 0x0, 0x0, 0x0, 0x0],
    [0x0, 0x0, 0x0, 0x2f, 0xff, 0xff, 0xff, 0xff],
    [0xff, 0xfe, 0x50, 0x0, 0x0, 0x0, 0x0, 0x0],
    [0x0, 0x0, 0x0, 0x0, 0x0, 0x0, 0x0, 0x0],
    [0x0, 0x8f, 0xff, 0xff, 0xff, 0xff, 0xff, 0xfd],
    [0x0, 0x0, 0x0, 0x0, 0x0, 0x0, 0x0, 0x0],
    [0x4f, 0xff, 0xff, 0xff, 0xff, 0xff, 0xff, 0xa1],
    [0x0, 0x0, 0x0, 0x0, 0x0, 0x0, 0x0, 0x0],
    [0x0, 0x0, 0x0, 0x0, 0x3, 0xdf, 0xff, 0xff],
    [0xff, 0xff, 0xff, 0xfe, 0x10, 0x0, 0x0, 0x0],
    [0x0, 0x0, 0x0, 0x0, 0x0, 0x5f, 0xff, 0xff],
    [0xff, 0xff, 0xff, 0xff, 0xfa, 0x20, 0x0, 0x0],
    [0x0, 0x0, 0x0, 0x0, 0x0, 0x0, 0x0, 0x0],
    [0x4b, 0xff, 0xff, 0xff, 0xff, 0xff, 0xff, 0xfe],
    [0x20, 0x0, 0x0, 0x0, 0x0, 0x0, 0x0, 0x0],
    [0x0, 0x0, 0x6f, 0xff, 0xff, 0xff, 0xff, 0xff],
    [0xff, 0xff, 0xb6, 0x10, 0x0, 0x0, 0x0, 0x0],
    [0x0, 0x0, 0x0, 0x27, 0xdf, 0xff, 0xff, 0xff],
    [0xff, 0xff, 0xff, 0xff, 0x30, 0x0, 0x0, 0x0],
    [0x0, 0x0, 0x0, 0x0, 0x0, 0x0, 0x0, 0x5f],
    [0xff, 0xff, 0xff, 0xff, 0xff, 0xff, 0xff, 0xff],
    [0xc9, 0x64, 0x21, 0x0, 0x1, 0x24, 0x7a, 0xdf],
    [0xff, 0xff, 0xff, 0xff, 0xff, 0xff, 0xff, 0xfd],
    [0x20, 0x0, 0x0, 0x0, 0x0, 0x0, 0x0, 0x0],
    [0x0, 0x0, 0x0, 0x0, 0x3e, 0xff, 0xff, 0xff],
    [0xff, 0xff, 0xff, 0xff, 0xff, 0xff, 0xff, 0xff],
    [0xff, 0xff, 0xff, 0xff, 0xff, 0xff, 0xff, 0xff],
    [0xff, 0xff, 0xff, 0xfc, 0x10, 0x0, 0x0, 0x0],
    [0x0, 0x0, 0x0, 0x0, 0x0, 0x0, 0x0, 0x0],
    [0x0, 0x1c, 0xff, 0xff, 0xff, 0xff, 0xff, 0xff],
    [0xff, 0xff, 0xff, 0xff, 0xff, 0xff, 0xff, 0xff],
    [0xff, 0xff, 0xff, 0xff, 0xff, 0xff, 0xff, 0xf9],
    [0x0, 0x0, 0x0, 0x0, 0x0, 0x0, 0x0, 0x0],
    [0x0, 0x0, 0x0, 0x0, 0x0, 0x0, 0x6, 0xff],
    [0xff, 0xff, 0xff, 0xff, 0xff, 0xff, 0xff, 0xff],
    [0xff, 0xff, 0xff, 0xff, 0xff, 0xff, 0xff, 0xff],
    [0xff, 0xff, 0xff, 0xd4, 0x0, 0x0, 0x0, 0x0],
    [0x0, 0x0, 0x0, 0x0, 0x0, 0x0, 0x0, 0x0],
    [0x0, 0x0, 0x0, 0x1, 0xaf, 0xff, 0xff, 0xff],
    [0xff, 0xff, 0xff, 0xff, 0xff, 0xff, 0xff, 0xff],
    [0xff, 0xff, 0xff, 0xff, 0xff, 0xff, 0xff, 0x80],
    [0x0, 0x0, 0x0, 0x0, 0x0, 0x0, 0x0, 0x0],
    [0x0, 0x0, 0x0, 0x0, 0x0, 0x0, 0x0, 0x0],
    [0x0, 0x4c, 0xff, 0xff, 0xff, 0xff, 0xff, 0xff],
    [0xff, 0xff, 0xff, 0xff, 0xff, 0xff, 0xff, 0xff],
    [0xff, 0xff, 0xfa, 0x20, 0x0, 0x0, 0x0, 0x0]]"

lemma glyph_U004F_b_length: "length (concat glyph_U004F_b) = 1184"
  by (simp add: glyph_U004F_b_def)

definition glyph_U004F_c :: "u8 list list" where
  "glyph_U004F_c = [
    [0x0, 0x0, 0x0, 0x0, 0x0, 0x0, 0x0, 0x0],
    [0x0, 0x0, 0x0, 0x0, 0x0, 0x0, 0x3, 0xaf],
    [0xff, 0xff, 0xff, 0xff, 0xff, 0xff, 0xff, 0xff],
    [0xff, 0xff, 0xff, 0xff, 0xff, 0xfe, 0x82, 0x0],
    [0x0, 0x0, 0x0, 0x0, 0x0, 0x0, 0x0, 0x0],
    [0x0, 0x0, 0x0, 0x0, 0x0, 0x0, 0x0, 0x0],
    [0x0, 0x0, 0x0, 0x0, 0x16, 0xcf, 0xff, 0xff],
    [0xff, 0xff, 0xff, 0xff, 0xff, 0xff, 0xff, 0xff],
    [0xff, 0xa5, 0x0, 0x0, 0x0, 0x0, 0x0, 0x0],
    [0x0, 0x0, 0x0, 0x0, 0x0, 0x0, 0x0, 0x0],
    [0x0, 0x0, 0x0, 0x0, 0x0, 0x0, 0x0, 0x0],
    [0x0, 0x0, 0x5, 0x8c, 0xff, 0xff, 0xff, 0xff],
    [0xff, 0xff, 0xff, 0xeb, 0x84, 0x0, 0x0, 0x0],
    [0x0, 0x0, 0x0, 0x0, 0x0, 0x0, 0x0, 0x0],
    [0x0, 0x0, 0x0, 0x0, 0x0, 0x0, 0x0, 0x0],
    [0x0, 0x0, 0x0, 0x0, 0x0, 0x0, 0x0, 0x0],
    [0x0, 0x13, 0x56, 0x77, 0x77, 0x76, 0x43, 0x0],
    [0x0, 0x0, 0x0, 0x0, 0x0, 0x0, 0x0, 0x0],
    [0x0, 0x0, 0x0, 0x0, 0x0, 0x0, 0x0]]"

lemma glyph_U004F_c_length: "length (concat glyph_U004F_c) = 151"
  by (simp add: glyph_U004F_c_def)

text \<open>The bitmaps of these glyphs, in the order of the table.\<close>

definition bitmaps_eo :: "bytes list" where
  "bitmaps_eo = [
    concat glyph_U0045_a @ concat glyph_U0045_b,
    concat glyph_U0046_a @ concat glyph_U0046_b,
    concat glyph_U0047_a @ concat glyph_U0047_b,
    concat glyph_U0048_a @ concat glyph_U0048_b,
    concat glyph_U0049,
    concat glyph_U004A_a @ concat glyph_U004A_b,
    concat glyph_U004B_a @ concat glyph_U004B_b,
    concat glyph_U004C_a @ concat glyph_U004C_b,
    concat glyph_U004D_a @ concat glyph_U004D_b @ concat glyph_U004D_c,
    concat glyph_U004E_a @ concat glyph_U004E_b,
    concat glyph_U004F_a @ concat glyph_U004F_b @ concat glyph_U004F_c]"

lemma bitmaps_eo_lengths: "map length bitmaps_eo = [1642, 1608, 2174, 1943, 335, 1394, 1977, 1575, 2412, 1943, 2519]"
  by (simp add: bitmaps_eo_def
    glyph_U0045_a_length glyph_U0045_b_length
    glyph_U0046_a_length glyph_U0046_b_length
    glyph_U0047_a_length glyph_U0047_b_length
    glyph_U0048_a_length glyph_U0048_b_length
    glyph_U0049_length
    glyph_U004A_a_length glyph_U004A_b_length
    glyph_U004B_a_length glyph_U004B_b_length
    glyph_U004C_a_length glyph_U004C_b_length
    glyph_U004D_a_length glyph_U004D_b_length glyph_U004D_c_length
    glyph_U004E_a_length glyph_U004E_b_length
    glyph_U004F_a_length glyph_U004F_b_length glyph_U004F_c_length)

end
