(* ===== verification/Montserrat_PY.thy ===== *)
theory Montserrat_PY
  imports Prelude
begin

text \<open>
  \<open>firmware/housepanel-giga/montserrat_96.c\<close>: the bitmaps of the glyphs U+0050 to U+0059. Each glyph is
  a list with one row per line of the source; a glyph of more than 148 lines is split in parts.
\<close>

definition glyph_U0050_a :: "u8 list list" where
  "glyph_U0050_a = [
    [0xef, 0xff, 0xff, 0xff, 0xff, 0xff, 0xff, 0xff],
    [0xff, 0xff, 0xff, 0xff, 0xff, 0xff, 0xee, 0xcb],
    [0x96, 0x41, 0x0, 0x0, 0x0, 0x0, 0x0, 0x0],
    [0x0, 0x0, 0x0, 0xe, 0xff, 0xff, 0xff, 0xff],
    [0xff, 0xff, 0xff, 0xff, 0xff, 0xff, 0xff, 0xff],
    [0xff, 0xff, 0xff, 0xff, 0xff, 0xfc, 0x83, 0x0],
    [0x0, 0x0, 0x0, 0x0, 0x0, 0x0, 0x0, 0xef],
    [0xff, 0xff, 0xff, 0xff, 0xff, 0xff, 0xff, 0xff],
    [0xff, 0xff, 0xff, 0xff, 0xff, 0xff, 0xff, 0xff],
    [0xff, 0xff, 0xfd, 0x81, 0x0, 0x0, 0x0, 0x0],
    [0x0, 0x0, 0xe, 0xff, 0xff, 0xff, 0xff, 0xff],
    [0xff, 0xff, 0xff, 0xff, 0xff, 0xff, 0xff, 0xff],
    [0xff, 0xff, 0xff, 0xff, 0xff, 0xff, 0xff, 0xf9],
    [0x10, 0x0, 0x0, 0x0, 0x0, 0x0, 0xef, 0xff],
    [0xff, 0xff, 0xff, 0xff, 0xff, 0xff, 0xff, 0xff],
    [0xff, 0xff, 0xff, 0xff, 0xff, 0xff, 0xff, 0xff],
    [0xff, 0xff, 0xff, 0xfe, 0x60, 0x0, 0x0, 0x0],
    [0x0, 0xe, 0xff, 0xff, 0xff, 0xff, 0xff, 0xff],
    [0xff, 0xff, 0xff, 0xff, 0xff, 0xff, 0xff, 0xff],
    [0xff, 0xff, 0xff, 0xff, 0xff, 0xff, 0xff, 0xff],
    [0xb1, 0x0, 0x0, 0x0, 0x0, 0xef, 0xff, 0xff],
    [0xff, 0xff, 0xff, 0xff, 0xff, 0xff, 0xff, 0xff],
    [0xff, 0xff, 0xff, 0xff, 0xff, 0xff, 0xff, 0xff],
    [0xff, 0xff, 0xff, 0xff, 0xe2, 0x0, 0x0, 0x0],
    [0xe, 0xff, 0xff, 0xff, 0xff, 0xff, 0xff, 0xff],
    [0xff, 0xff, 0xff, 0xff, 0xff, 0xff, 0xff, 0xff],
    [0xff, 0xff, 0xff, 0xff, 0xff, 0xff, 0xff, 0xff],
    [0xe3, 0x0, 0x0, 0x0, 0xef, 0xff, 0xff, 0xff],
    [0xfc, 0x44, 0x44, 0x44, 0x44, 0x44, 0x44, 0x44],
    [0x44, 0x55, 0x67, 0x9b, 0xef, 0xff, 0xff, 0xff],
    [0xff, 0xff, 0xff, 0xff, 0xe2, 0x0, 0x0, 0xe],
    [0xff, 0xff, 0xff, 0xff, 0xb0, 0x0, 0x0, 0x0],
    [0x0, 0x0, 0x0, 0x0, 0x0, 0x0, 0x0, 0x0],
    [0x26, 0xcf, 0xff, 0xff, 0xff, 0xff, 0xff, 0xff],
    [0xd1, 0x0, 0x0, 0xef, 0xff, 0xff, 0xff, 0xfb],
    [0x0, 0x0, 0x0, 0x0, 0x0, 0x0, 0x0, 0x0],
    [0x0, 0x0, 0x0, 0x0, 0x0, 0x2a, 0xff, 0xff],
    [0xff, 0xff, 0xff, 0xff, 0xa0, 0x0, 0xe, 0xff],
    [0xff, 0xff, 0xff, 0xb0, 0x0, 0x0, 0x0, 0x0],
    [0x0, 0x0, 0x0, 0x0, 0x0, 0x0, 0x0, 0x0],
    [0x0, 0x3, 0xdf, 0xff, 0xff, 0xff, 0xff, 0xff],
    [0x40, 0x0, 0xef, 0xff, 0xff, 0xff, 0xfb, 0x0],
    [0x0, 0x0, 0x0, 0x0, 0x0, 0x0, 0x0, 0x0],
    [0x0, 0x0, 0x0, 0x0, 0x0, 0x0, 0xbf, 0xff],
    [0xff, 0xff, 0xff, 0xfd, 0x0, 0xe, 0xff, 0xff],
    [0xff, 0xff, 0xb0, 0x0, 0x0, 0x0, 0x0, 0x0],
    [0x0, 0x0, 0x0, 0x0, 0x0, 0x0, 0x0, 0x0],
    [0x0, 0x0, 0xbf, 0xff, 0xff, 0xff, 0xff, 0xf5],
    [0x0, 0xef, 0xff, 0xff, 0xff, 0xfb, 0x0, 0x0],
    [0x0, 0x0, 0x0, 0x0, 0x0, 0x0, 0x0, 0x0],
    [0x0, 0x0, 0x0, 0x0, 0x0, 0x0, 0xdf, 0xff],
    [0xff, 0xff, 0xff, 0xb0, 0xe, 0xff, 0xff, 0xff],
    [0xff, 0xb0, 0x0, 0x0, 0x0, 0x0, 0x0, 0x0],
    [0x0, 0x0, 0x0, 0x0, 0x0, 0x0, 0x0, 0x0],
    [0x0, 0x4, 0xff, 0xff, 0xff, 0xff, 0xff, 0x10],
    [0xef, 0xff, 0xff, 0xff, 0xfb, 0x0, 0x0, 0x0],
    [0x0, 0x0, 0x0, 0x0, 0x0, 0x0, 0x0, 0x0],
    [0x0, 0x0, 0x0, 0x0, 0x0, 0xb, 0xff, 0xff],
    [0xff, 0xff, 0xf6, 0xe, 0xff, 0xff, 0xff, 0xff],
    [0xb0, 0x0, 0x0, 0x0, 0x0, 0x0, 0x0, 0x0],
    [0x0, 0x0, 0x0, 0x0, 0x0, 0x0, 0x0, 0x0],
    [0x0, 0x4f, 0xff, 0xff, 0xff, 0xff, 0xa0, 0xef],
    [0xff, 0xff, 0xff, 0xfb, 0x0, 0x0, 0x0, 0x0],
    [0x0, 0x0, 0x0, 0x0, 0x0, 0x0, 0x0, 0x0],
    [0x0, 0x0, 0x0, 0x0, 0x0, 0xff, 0xff, 0xff],
    [0xff, 0xfd, 0xe, 0xff, 0xff, 0xff, 0xff, 0xb0],
    [0x0, 0x0, 0x0, 0x0, 0x0, 0x0, 0x0, 0x0],
    [0x0, 0x0, 0x0, 0x0, 0x0, 0x0, 0x0, 0x0],
    [0xb, 0xff, 0xff, 0xff, 0xff, 0xf0, 0xef, 0xff],
    [0xff, 0xff, 0xfb, 0x0, 0x0, 0x0, 0x0, 0x0],
    [0x0, 0x0, 0x0, 0x0, 0x0, 0x0, 0x0, 0x0],
    [0x0, 0x0, 0x0, 0x0, 0x8f, 0xff, 0xff, 0xff],
    [0xff, 0x2e, 0xff, 0xff, 0xff, 0xff, 0xb0, 0x0],
    [0x0, 0x0, 0x0, 0x0, 0x0, 0x0, 0x0, 0x0],
    [0x0, 0x0, 0x0, 0x0, 0x0, 0x0, 0x0, 0x6],
    [0xff, 0xff, 0xff, 0xff, 0xf3, 0xef, 0xff, 0xff],
    [0xff, 0xfb, 0x0, 0x0, 0x0, 0x0, 0x0, 0x0],
    [0x0, 0x0, 0x0, 0x0, 0x0, 0x0, 0x0, 0x0],
    [0x0, 0x0, 0x0, 0x5f, 0xff, 0xff, 0xff, 0xff],
    [0x4e, 0xff, 0xff, 0xff, 0xff, 0xb0, 0x0, 0x0],
    [0x0, 0x0, 0x0, 0x0, 0x0, 0x0, 0x0, 0x0],
    [0x0, 0x0, 0x0, 0x0, 0x0, 0x0, 0x4, 0xff],
    [0xff, 0xff, 0xff, 0xf4, 0xef, 0xff, 0xff, 0xff],
    [0xfb, 0x0, 0x0, 0x0, 0x0, 0x0, 0x0, 0x0],
    [0x0, 0x0, 0x0, 0x0, 0x0, 0x0, 0x0, 0x0],
    [0x0, 0x0, 0x5f, 0xff, 0xff, 0xff, 0xff, 0x4e],
    [0xff, 0xff, 0xff, 0xff, 0xb0, 0x0, 0x0, 0x0],
    [0x0, 0x0, 0x0, 0x0, 0x0, 0x0, 0x0, 0x0],
    [0x0, 0x0, 0x0, 0x0, 0x0, 0x6, 0xff, 0xff],
    [0xff, 0xff, 0xf3, 0xef, 0xff, 0xff, 0xff, 0xfb],
    [0x0, 0x0, 0x0, 0x0, 0x0, 0x0, 0x0, 0x0],
    [0x0, 0x0, 0x0, 0x0, 0x0, 0x0, 0x0, 0x0],
    [0x0, 0x8f, 0xff, 0xff, 0xff, 0xff, 0x2e, 0xff],
    [0xff, 0xff, 0xff, 0xb0, 0x0, 0x0, 0x0, 0x0],
    [0x0, 0x0, 0x0, 0x0, 0x0, 0x0, 0x0, 0x0],
    [0x0, 0x0, 0x0, 0x0, 0xb, 0xff, 0xff, 0xff],
    [0xff, 0xf0, 0xef, 0xff, 0xff, 0xff, 0xfb, 0x0],
    [0x0, 0x0, 0x0, 0x0, 0x0, 0x0, 0x0, 0x0],
    [0x0, 0x0, 0x0, 0x0, 0x0, 0x0, 0x0, 0x0],
    [0xff, 0xff, 0xff, 0xff, 0xfd, 0xe, 0xff, 0xff],
    [0xff, 0xff, 0xb0, 0x0, 0x0, 0x0, 0x0, 0x0],
    [0x0, 0x0, 0x0, 0x0, 0x0, 0x0, 0x0, 0x0],
    [0x0, 0x0, 0x0, 0x4f, 0xff, 0xff, 0xff, 0xff],
    [0xa0, 0xef, 0xff, 0xff, 0xff, 0xfb, 0x0, 0x0],
    [0x0, 0x0, 0x0, 0x0, 0x0, 0x0, 0x0, 0x0],
    [0x0, 0x0, 0x0, 0x0, 0x0, 0x0, 0xb, 0xff],
    [0xff, 0xff, 0xff, 0xf6, 0xe, 0xff, 0xff, 0xff],
    [0xff, 0xb0, 0x0, 0x0, 0x0, 0x0, 0x0, 0x0],
    [0x0, 0x0, 0x0, 0x0, 0x0, 0x0, 0x0, 0x0],
    [0x0, 0x4, 0xff, 0xff, 0xff, 0xff, 0xff, 0x10],
    [0xef, 0xff, 0xff, 0xff, 0xfb, 0x0, 0x0, 0x0],
    [0x0, 0x0, 0x0, 0x0, 0x0, 0x0, 0x0, 0x0],
    [0x0, 0x0, 0x0, 0x0, 0x0, 0xdf, 0xff, 0xff],
    [0xff, 0xff, 0xb0, 0xe, 0xff, 0xff, 0xff, 0xff],
    [0xb0, 0x0, 0x0, 0x0, 0x0, 0x0, 0x0, 0x0],
    [0x0, 0x0, 0x0, 0x0, 0x0, 0x0, 0x0, 0x0],
    [0xbf, 0xff, 0xff, 0xff, 0xff, 0xf5, 0x0, 0xef],
    [0xff, 0xff, 0xff, 0xfb, 0x0, 0x0, 0x0, 0x0],
    [0x0, 0x0, 0x0, 0x0, 0x0, 0x0, 0x0, 0x0],
    [0x0, 0x0, 0x0, 0xbf, 0xff, 0xff, 0xff, 0xff],
    [0xfd, 0x0, 0xe, 0xff, 0xff, 0xff, 0xff, 0xb0],
    [0x0, 0x0, 0x0, 0x0, 0x0, 0x0, 0x0, 0x0],
    [0x0, 0x0, 0x0, 0x0, 0x0, 0x3, 0xdf, 0xff],
    [0xff, 0xff, 0xff, 0xff, 0x40, 0x0, 0xef, 0xff],
    [0xff, 0xff, 0xfb, 0x0, 0x0, 0x0, 0x0, 0x0],
    [0x0, 0x0, 0x0, 0x0, 0x0, 0x0, 0x0, 0x0],
    [0x2a, 0xff, 0xff, 0xff, 0xff, 0xff, 0xff, 0xa0],
    [0x0, 0xe, 0xff, 0xff, 0xff, 0xff, 0xb0, 0x0],
    [0x0, 0x0, 0x0, 0x0, 0x0, 0x0, 0x0, 0x0],
    [0x0, 0x0, 0x26, 0xcf, 0xff, 0xff, 0xff, 0xff],
    [0xff, 0xff, 0xd1, 0x0, 0x0, 0xef, 0xff, 0xff],
    [0xff, 0xfc, 0x44, 0x44, 0x44, 0x44, 0x44, 0x44],
    [0x44, 0x44, 0x45, 0x67, 0x9b, 0xef, 0xff, 0xff],
    [0xff, 0xff, 0xff, 0xff, 0xff, 0xe2, 0x0, 0x0],
    [0xe, 0xff, 0xff, 0xff, 0xff, 0xff, 0xff, 0xff],
    [0xff, 0xff, 0xff, 0xff, 0xff, 0xff, 0xff, 0xff],
    [0xff, 0xff, 0xff, 0xff, 0xff, 0xff, 0xff, 0xff],
    [0xe3, 0x0, 0x0, 0x0, 0xef, 0xff, 0xff, 0xff],
    [0xff, 0xff, 0xff, 0xff, 0xff, 0xff, 0xff, 0xff],
    [0xff, 0xff, 0xff, 0xff, 0xff, 0xff, 0xff, 0xff],
    [0xff, 0xff, 0xff, 0xe2, 0x0, 0x0, 0x0, 0xe],
    [0xff, 0xff, 0xff, 0xff, 0xff, 0xff, 0xff, 0xff],
    [0xff, 0xff, 0xff, 0xff, 0xff, 0xff, 0xff, 0xff],
    [0xff, 0xff, 0xff, 0xff, 0xff, 0xff, 0xb1, 0x0],
    [0x0, 0x0, 0x0, 0xef, 0xff, 0xff, 0xff, 0xff],
    [0xff, 0xff, 0xff, 0xff, 0xff, 0xff, 0xff, 0xff],
    [0xff, 0xff, 0xff, 0xff, 0xff, 0xff, 0xff, 0xff],
    [0xfe, 0x60, 0x0, 0x0, 0x0, 0x0, 0xe, 0xff]]"

lemma glyph_U0050_a_length: "length (concat glyph_U0050_a) = 1184"
  by (simp add: glyph_U0050_a_def)

definition glyph_U0050_b :: "u8 list list" where
  "glyph_U0050_b = [
    [0xff, 0xff, 0xff, 0xff, 0xff, 0xff, 0xff, 0xff],
    [0xff, 0xff, 0xff, 0xff, 0xff, 0xff, 0xff, 0xff],
    [0xff, 0xff, 0xff, 0xf9, 0x10, 0x0, 0x0, 0x0],
    [0x0, 0x0, 0xef, 0xff, 0xff, 0xff, 0xff, 0xff],
    [0xff, 0xff, 0xff, 0xff, 0xff, 0xff, 0xff, 0xff],
    [0xff, 0xff, 0xff, 0xff, 0xff, 0xfe, 0x81, 0x0],
    [0x0, 0x0, 0x0, 0x0, 0x0, 0xe, 0xff, 0xff],
    [0xff, 0xff, 0xff, 0xff, 0xff, 0xff, 0xff, 0xff],
    [0xff, 0xff, 0xff, 0xff, 0xff, 0xff, 0xff, 0xfc],
    [0x83, 0x0, 0x0, 0x0, 0x0, 0x0, 0x0, 0x0],
    [0x0, 0xef, 0xff, 0xff, 0xff, 0xff, 0xff, 0xff],
    [0xff, 0xff, 0xff, 0xff, 0xff, 0xff, 0xff, 0xee],
    [0xcb, 0x96, 0x41, 0x0, 0x0, 0x0, 0x0, 0x0],
    [0x0, 0x0, 0x0, 0x0, 0xe, 0xff, 0xff, 0xff],
    [0xff, 0xb0, 0x0, 0x0, 0x0, 0x0, 0x0, 0x0],
    [0x0, 0x0, 0x0, 0x0, 0x0, 0x0, 0x0, 0x0],
    [0x0, 0x0, 0x0, 0x0, 0x0, 0x0, 0x0, 0x0],
    [0xef, 0xff, 0xff, 0xff, 0xfb, 0x0, 0x0, 0x0],
    [0x0, 0x0, 0x0, 0x0, 0x0, 0x0, 0x0, 0x0],
    [0x0, 0x0, 0x0, 0x0, 0x0, 0x0, 0x0, 0x0],
    [0x0, 0x0, 0x0, 0xe, 0xff, 0xff, 0xff, 0xff],
    [0xb0, 0x0, 0x0, 0x0, 0x0, 0x0, 0x0, 0x0],
    [0x0, 0x0, 0x0, 0x0, 0x0, 0x0, 0x0, 0x0],
    [0x0, 0x0, 0x0, 0x0, 0x0, 0x0, 0x0, 0xef],
    [0xff, 0xff, 0xff, 0xfb, 0x0, 0x0, 0x0, 0x0],
    [0x0, 0x0, 0x0, 0x0, 0x0, 0x0, 0x0, 0x0],
    [0x0, 0x0, 0x0, 0x0, 0x0, 0x0, 0x0, 0x0],
    [0x0, 0x0, 0xe, 0xff, 0xff, 0xff, 0xff, 0xb0],
    [0x0, 0x0, 0x0, 0x0, 0x0, 0x0, 0x0, 0x0],
    [0x0, 0x0, 0x0, 0x0, 0x0, 0x0, 0x0, 0x0],
    [0x0, 0x0, 0x0, 0x0, 0x0, 0x0, 0xef, 0xff],
    [0xff, 0xff, 0xfb, 0x0, 0x0, 0x0, 0x0, 0x0],
    [0x0, 0x0, 0x0, 0x0, 0x0, 0x0, 0x0, 0x0],
    [0x0, 0x0, 0x0, 0x0, 0x0, 0x0, 0x0, 0x0],
    [0x0, 0xe, 0xff, 0xff, 0xff, 0xff, 0xb0, 0x0],
    [0x0, 0x0, 0x0, 0x0, 0x0, 0x0, 0x0, 0x0],
    [0x0, 0x0, 0x0, 0x0, 0x0, 0x0, 0x0, 0x0],
    [0x0, 0x0, 0x0, 0x0, 0x0, 0xef, 0xff, 0xff],
    [0xff, 0xfb, 0x0, 0x0, 0x0, 0x0, 0x0, 0x0],
    [0x0, 0x0, 0x0, 0x0, 0x0, 0x0, 0x0, 0x0],
    [0x0, 0x0, 0x0, 0x0, 0x0, 0x0, 0x0, 0x0],
    [0xe, 0xff, 0xff, 0xff, 0xff, 0xb0, 0x0, 0x0],
    [0x0, 0x0, 0x0, 0x0, 0x0, 0x0, 0x0, 0x0],
    [0x0, 0x0, 0x0, 0x0, 0x0, 0x0, 0x0, 0x0],
    [0x0, 0x0, 0x0, 0x0, 0xef, 0xff, 0xff, 0xff],
    [0xfb, 0x0, 0x0, 0x0, 0x0, 0x0, 0x0, 0x0],
    [0x0, 0x0, 0x0, 0x0, 0x0, 0x0, 0x0, 0x0],
    [0x0, 0x0, 0x0, 0x0, 0x0, 0x0, 0x0, 0xe],
    [0xff, 0xff, 0xff, 0xff, 0xb0, 0x0, 0x0, 0x0],
    [0x0, 0x0, 0x0, 0x0, 0x0, 0x0, 0x0, 0x0],
    [0x0, 0x0, 0x0, 0x0, 0x0, 0x0, 0x0, 0x0],
    [0x0, 0x0, 0x0, 0xef, 0xff, 0xff, 0xff, 0xfb],
    [0x0, 0x0, 0x0, 0x0, 0x0, 0x0, 0x0, 0x0],
    [0x0, 0x0, 0x0, 0x0, 0x0, 0x0, 0x0, 0x0],
    [0x0, 0x0, 0x0, 0x0, 0x0, 0x0, 0xe, 0xff],
    [0xff, 0xff, 0xff, 0xb0, 0x0, 0x0, 0x0, 0x0],
    [0x0, 0x0, 0x0, 0x0, 0x0, 0x0, 0x0, 0x0],
    [0x0, 0x0, 0x0, 0x0, 0x0, 0x0, 0x0, 0x0],
    [0x0, 0x0, 0xef, 0xff, 0xff, 0xff, 0xfb, 0x0],
    [0x0, 0x0, 0x0, 0x0, 0x0, 0x0, 0x0, 0x0],
    [0x0, 0x0, 0x0, 0x0, 0x0, 0x0, 0x0, 0x0],
    [0x0, 0x0, 0x0, 0x0, 0x0, 0xe, 0xff, 0xff],
    [0xff, 0xff, 0xb0, 0x0, 0x0, 0x0, 0x0, 0x0],
    [0x0, 0x0, 0x0, 0x0, 0x0, 0x0, 0x0, 0x0],
    [0x0, 0x0, 0x0, 0x0, 0x0, 0x0, 0x0, 0x0],
    [0x0, 0xef, 0xff, 0xff, 0xff, 0xfb, 0x0, 0x0],
    [0x0, 0x0, 0x0, 0x0, 0x0, 0x0, 0x0, 0x0],
    [0x0, 0x0, 0x0, 0x0, 0x0, 0x0, 0x0, 0x0],
    [0x0, 0x0, 0x0, 0x0, 0xe, 0xff, 0xff, 0xff],
    [0xff, 0xb0, 0x0, 0x0, 0x0, 0x0, 0x0, 0x0],
    [0x0, 0x0, 0x0, 0x0, 0x0, 0x0, 0x0, 0x0],
    [0x0, 0x0, 0x0, 0x0, 0x0, 0x0, 0x0, 0x0],
    [0xef, 0xff, 0xff, 0xff, 0xfb, 0x0, 0x0, 0x0],
    [0x0, 0x0, 0x0, 0x0, 0x0, 0x0, 0x0, 0x0],
    [0x0, 0x0, 0x0, 0x0, 0x0, 0x0, 0x0, 0x0],
    [0x0, 0x0, 0x0, 0xe, 0xff, 0xff, 0xff, 0xff],
    [0xb0, 0x0, 0x0, 0x0, 0x0, 0x0, 0x0, 0x0],
    [0x0, 0x0, 0x0, 0x0, 0x0, 0x0, 0x0, 0x0],
    [0x0, 0x0, 0x0, 0x0, 0x0, 0x0, 0x0, 0xef],
    [0xff, 0xff, 0xff, 0xfb, 0x0, 0x0, 0x0, 0x0],
    [0x0, 0x0, 0x0, 0x0, 0x0, 0x0, 0x0, 0x0],
    [0x0, 0x0, 0x0, 0x0, 0x0, 0x0, 0x0, 0x0],
    [0x0, 0x0, 0x0]]"

lemma glyph_U0050_b_length: "length (concat glyph_U0050_b) = 659"
  by (simp add: glyph_U0050_b_def)

definition glyph_U0051_a :: "u8 list list" where
  "glyph_U0051_a = [
    [0x0, 0x0, 0x0, 0x0, 0x0, 0x0, 0x0, 0x0],
    [0x0, 0x0, 0x0, 0x0, 0x0, 0x0, 0x0, 0x13],
    [0x46, 0x67, 0x77, 0x65, 0x42, 0x0, 0x0, 0x0],
    [0x0, 0x0, 0x0, 0x0, 0x0, 0x0, 0x0, 0x0],
    [0x0, 0x0, 0x0, 0x0, 0x0, 0x0, 0x0, 0x0],
    [0x0, 0x0, 0x0, 0x0, 0x0, 0x0, 0x0, 0x0],
    [0x0, 0x0, 0x0, 0x48, 0xbe, 0xff, 0xff, 0xff],
    [0xff, 0xff, 0xff, 0xfe, 0xb7, 0x30, 0x0, 0x0],
    [0x0, 0x0, 0x0, 0x0, 0x0, 0x0, 0x0, 0x0],
    [0x0, 0x0, 0x0, 0x0, 0x0, 0x0, 0x0, 0x0],
    [0x0, 0x0, 0x0, 0x0, 0x0, 0x0, 0x0, 0x16],
    [0xbf, 0xff, 0xff, 0xff, 0xff, 0xff, 0xff, 0xff],
    [0xff, 0xff, 0xff, 0xff, 0xa5, 0x0, 0x0, 0x0],
    [0x0, 0x0, 0x0, 0x0, 0x0, 0x0, 0x0, 0x0],
    [0x0, 0x0, 0x0, 0x0, 0x0, 0x0, 0x0, 0x0],
    [0x0, 0x0, 0x0, 0x0, 0x3a, 0xff, 0xff, 0xff],
    [0xff, 0xff, 0xff, 0xff, 0xff, 0xff, 0xff, 0xff],
    [0xff, 0xff, 0xff, 0xe8, 0x20, 0x0, 0x0, 0x0],
    [0x0, 0x0, 0x0, 0x0, 0x0, 0x0, 0x0, 0x0],
    [0x0, 0x0, 0x0, 0x0, 0x0, 0x0, 0x0, 0x0],
    [0x0, 0x3b, 0xff, 0xff, 0xff, 0xff, 0xff, 0xff],
    [0xff, 0xff, 0xff, 0xff, 0xff, 0xff, 0xff, 0xff],
    [0xff, 0xff, 0xfa, 0x20, 0x0, 0x0, 0x0, 0x0],
    [0x0, 0x0, 0x0, 0x0, 0x0, 0x0, 0x0, 0x0],
    [0x0, 0x0, 0x0, 0x0, 0x0, 0x0, 0x1a, 0xff],
    [0xff, 0xff, 0xff, 0xff, 0xff, 0xff, 0xff, 0xff],
    [0xff, 0xff, 0xff, 0xff, 0xff, 0xff, 0xff, 0xff],
    [0xff, 0xf8, 0x0, 0x0, 0x0, 0x0, 0x0, 0x0],
    [0x0, 0x0, 0x0, 0x0, 0x0, 0x0, 0x0, 0x0],
    [0x0, 0x0, 0x0, 0x6, 0xef, 0xff, 0xff, 0xff],
    [0xff, 0xff, 0xff, 0xff, 0xff, 0xff, 0xff, 0xff],
    [0xff, 0xff, 0xff, 0xff, 0xff, 0xff, 0xff, 0xff],
    [0xd4, 0x0, 0x0, 0x0, 0x0, 0x0, 0x0, 0x0],
    [0x0, 0x0, 0x0, 0x0, 0x0, 0x0, 0x0, 0x0],
    [0x1, 0xbf, 0xff, 0xff, 0xff, 0xff, 0xff, 0xff],
    [0xff, 0xff, 0xff, 0xff, 0xff, 0xff, 0xff, 0xff],
    [0xff, 0xff, 0xff, 0xff, 0xff, 0xff, 0xff, 0x90],
    [0x0, 0x0, 0x0, 0x0, 0x0, 0x0, 0x0, 0x0],
    [0x0, 0x0, 0x0, 0x0, 0x0, 0x0, 0x2e, 0xff],
    [0xff, 0xff, 0xff, 0xff, 0xff, 0xff, 0xff, 0xff],
    [0xff, 0xff, 0xff, 0xff, 0xff, 0xff, 0xff, 0xff],
    [0xff, 0xff, 0xff, 0xff, 0xff, 0xfc, 0x10, 0x0],
    [0x0, 0x0, 0x0, 0x0, 0x0, 0x0, 0x0, 0x0],
    [0x0, 0x0, 0x0, 0x4, 0xff, 0xff, 0xff, 0xff],
    [0xff, 0xff, 0xff, 0xff, 0xfd, 0xa7, 0x42, 0x10],
    [0x1, 0x22, 0x47, 0xae, 0xff, 0xff, 0xff, 0xff],
    [0xff, 0xff, 0xff, 0xff, 0xe2, 0x0, 0x0, 0x0],
    [0x0, 0x0, 0x0, 0x0, 0x0, 0x0, 0x0, 0x0],
    [0x0, 0x6f, 0xff, 0xff, 0xff, 0xff, 0xff, 0xff],
    [0xff, 0xc7, 0x10, 0x0, 0x0, 0x0, 0x0, 0x0],
    [0x0, 0x0, 0x38, 0xdf, 0xff, 0xff, 0xff, 0xff],
    [0xff, 0xff, 0xff, 0x30, 0x0, 0x0, 0x0, 0x0],
    [0x0, 0x0, 0x0, 0x0, 0x0, 0x0, 0x5, 0xff],
    [0xff, 0xff, 0xff, 0xff, 0xff, 0xff, 0xa2, 0x0],
    [0x0, 0x0, 0x0, 0x0, 0x0, 0x0, 0x0, 0x0],
    [0x0, 0x5, 0xcf, 0xff, 0xff, 0xff, 0xff, 0xff],
    [0xff, 0xe2, 0x0, 0x0, 0x0, 0x0, 0x0, 0x0],
    [0x0, 0x0, 0x0, 0x0, 0x3f, 0xff, 0xff, 0xff],
    [0xff, 0xff, 0xff, 0xa2, 0x0, 0x0, 0x0, 0x0],
    [0x0, 0x0, 0x0, 0x0, 0x0, 0x0, 0x0, 0x0],
    [0x4, 0xdf, 0xff, 0xff, 0xff, 0xff, 0xff, 0xfe],
    [0x10, 0x0, 0x0, 0x0, 0x0, 0x0, 0x0, 0x0],
    [0x0, 0x2, 0xff, 0xff, 0xff, 0xff, 0xff, 0xff],
    [0xe5, 0x0, 0x0, 0x0, 0x0, 0x0, 0x0, 0x0],
    [0x0, 0x0, 0x0, 0x0, 0x0, 0x0, 0x0, 0x8],
    [0xff, 0xff, 0xff, 0xff, 0xff, 0xff, 0xd0, 0x0],
    [0x0, 0x0, 0x0, 0x0, 0x0, 0x0, 0x0, 0xc],
    [0xff, 0xff, 0xff, 0xff, 0xff, 0xfb, 0x10, 0x0],
    [0x0, 0x0, 0x0, 0x0, 0x0, 0x0, 0x0, 0x0],
    [0x0, 0x0, 0x0, 0x0, 0x0, 0x0, 0x3e, 0xff],
    [0xff, 0xff, 0xff, 0xff, 0xf9, 0x0, 0x0, 0x0],
    [0x0, 0x0, 0x0, 0x0, 0x0, 0x8f, 0xff, 0xff],
    [0xff, 0xff, 0xff, 0x90, 0x0, 0x0, 0x0, 0x0],
    [0x0, 0x0, 0x0, 0x0, 0x0, 0x0, 0x0, 0x0],
    [0x0, 0x0, 0x0, 0x0, 0x2, 0xdf, 0xff, 0xff],
    [0xff, 0xff, 0xff, 0x40, 0x0, 0x0, 0x0, 0x0],
    [0x0, 0x0, 0x3, 0xff, 0xff, 0xff, 0xff, 0xff],
    [0xf8, 0x0, 0x0, 0x0, 0x0, 0x0, 0x0, 0x0],
    [0x0, 0x0, 0x0, 0x0, 0x0, 0x0, 0x0, 0x0],
    [0x0, 0x0, 0x0, 0x1d, 0xff, 0xff, 0xff, 0xff],
    [0xff, 0xe1, 0x0, 0x0, 0x0, 0x0, 0x0, 0x0],
    [0xd, 0xff, 0xff, 0xff, 0xff, 0xff, 0x90, 0x0],
    [0x0, 0x0, 0x0, 0x0, 0x0, 0x0, 0x0, 0x0],
    [0x0, 0x0, 0x0, 0x0, 0x0, 0x0, 0x0, 0x0],
    [0x0, 0x1, 0xef, 0xff, 0xff, 0xff, 0xff, 0xf9],
    [0x0, 0x0, 0x0, 0x0, 0x0, 0x0, 0x6f, 0xff],
    [0xff, 0xff, 0xff, 0xfb, 0x0, 0x0, 0x0, 0x0],
    [0x0, 0x0, 0x0, 0x0, 0x0, 0x0, 0x0, 0x0],
    [0x0, 0x0, 0x0, 0x0, 0x0, 0x0, 0x0, 0x0],
    [0x2e, 0xff, 0xff, 0xff, 0xff, 0xff, 0x20, 0x0],
    [0x0, 0x0, 0x0, 0x0, 0xef, 0xff, 0xff, 0xff],
    [0xff, 0xe1, 0x0, 0x0, 0x0, 0x0, 0x0, 0x0],
    [0x0, 0x0, 0x0, 0x0, 0x0, 0x0, 0x0, 0x0],
    [0x0, 0x0, 0x0, 0x0, 0x0, 0x0, 0x5, 0xff],
    [0xff, 0xff, 0xff, 0xff, 0xa0, 0x0, 0x0, 0x0],
    [0x0, 0x6, 0xff, 0xff, 0xff, 0xff, 0xff, 0x50],
    [0x0, 0x0, 0x0, 0x0, 0x0, 0x0, 0x0, 0x0],
    [0x0, 0x0, 0x0, 0x0, 0x0, 0x0, 0x0, 0x0],
    [0x0, 0x0, 0x0, 0x0, 0x0, 0xbf, 0xff, 0xff],
    [0xff, 0xff, 0xf2, 0x0, 0x0, 0x0, 0x0, 0xd],
    [0xff, 0xff, 0xff, 0xff, 0xfa, 0x0, 0x0, 0x0],
    [0x0, 0x0, 0x0, 0x0, 0x0, 0x0, 0x0, 0x0],
    [0x0, 0x0, 0x0, 0x0, 0x0, 0x0, 0x0, 0x0],
    [0x0, 0x0, 0x0, 0x1f, 0xff, 0xff, 0xff, 0xff],
    [0xf8, 0x0, 0x0, 0x0, 0x0, 0x3f, 0xff, 0xff],
    [0xff, 0xff, 0xf2, 0x0, 0x0, 0x0, 0x0, 0x0],
    [0x0, 0x0, 0x0, 0x0, 0x0, 0x0, 0x0, 0x0],
    [0x0, 0x0, 0x0, 0x0, 0x0, 0x0, 0x0, 0x0],
    [0x0, 0x8, 0xff, 0xff, 0xff, 0xff, 0xfe, 0x0],
    [0x0, 0x0, 0x0, 0x9f, 0xff, 0xff, 0xff, 0xff],
    [0xa0, 0x0, 0x0, 0x0, 0x0, 0x0, 0x0, 0x0],
    [0x0, 0x0, 0x0, 0x0, 0x0, 0x0, 0x0, 0x0],
    [0x0, 0x0, 0x0, 0x0, 0x0, 0x0, 0x0, 0x1],
    [0xff, 0xff, 0xff, 0xff, 0xff, 0x40, 0x0, 0x0],
    [0x0, 0xef, 0xff, 0xff, 0xff, 0xff, 0x20, 0x0],
    [0x0, 0x0, 0x0, 0x0, 0x0, 0x0, 0x0, 0x0],
    [0x0, 0x0, 0x0, 0x0, 0x0, 0x0, 0x0, 0x0],
    [0x0, 0x0, 0x0, 0x0, 0x0, 0x0, 0x8f, 0xff],
    [0xff, 0xff, 0xff, 0x90, 0x0, 0x0, 0x3, 0xff],
    [0xff, 0xff, 0xff, 0xfc, 0x0, 0x0, 0x0, 0x0],
    [0x0, 0x0, 0x0, 0x0, 0x0, 0x0, 0x0, 0x0],
    [0x0, 0x0, 0x0, 0x0, 0x0, 0x0, 0x0, 0x0],
    [0x0, 0x0, 0x0, 0x0, 0x2f, 0xff, 0xff, 0xff],
    [0xff, 0xe0, 0x0, 0x0, 0x7, 0xff, 0xff, 0xff],
    [0xff, 0xf7, 0x0, 0x0, 0x0, 0x0, 0x0, 0x0],
    [0x0, 0x0, 0x0, 0x0, 0x0, 0x0, 0x0, 0x0],
    [0x0, 0x0, 0x0, 0x0, 0x0, 0x0, 0x0, 0x0],
    [0x0, 0x0, 0xd, 0xff, 0xff, 0xff, 0xff, 0xf1],
    [0x0, 0x0, 0xa, 0xff, 0xff, 0xff, 0xff, 0xf2],
    [0x0, 0x0, 0x0, 0x0, 0x0, 0x0, 0x0, 0x0],
    [0x0, 0x0, 0x0, 0x0, 0x0, 0x0, 0x0, 0x0],
    [0x0, 0x0, 0x0, 0x0, 0x0, 0x0, 0x0, 0x0],
    [0x8, 0xff, 0xff, 0xff, 0xff, 0xf5, 0x0, 0x0],
    [0xd, 0xff, 0xff, 0xff, 0xff, 0xe0, 0x0, 0x0],
    [0x0, 0x0, 0x0, 0x0, 0x0, 0x0, 0x0, 0x0],
    [0x0, 0x0, 0x0, 0x0, 0x0, 0x0, 0x0, 0x0],
    [0x0, 0x0, 0x0, 0x0, 0x0, 0x0, 0x4, 0xff],
    [0xff, 0xff, 0xff, 0xf8, 0x0, 0x0, 0xf, 0xff],
    [0xff, 0xff, 0xff, 0xb0, 0x0, 0x0, 0x0, 0x0],
    [0x0, 0x0, 0x0, 0x0, 0x0, 0x0, 0x0, 0x0],
    [0x0, 0x0, 0x0, 0x0, 0x0, 0x0, 0x0, 0x0],
    [0x0, 0x0, 0x0, 0x0, 0x1, 0xff, 0xff, 0xff],
    [0xff, 0xfa, 0x0, 0x0, 0x2f, 0xff, 0xff, 0xff],
    [0xff, 0x80, 0x0, 0x0, 0x0, 0x0, 0x0, 0x0],
    [0x0, 0x0, 0x0, 0x0, 0x0, 0x0, 0x0, 0x0],
    [0x0, 0x0, 0x0, 0x0, 0x0, 0x0, 0x0, 0x0],
    [0x0, 0x0, 0x0, 0xef, 0xff, 0xff, 0xff, 0xfc],
    [0x0, 0x0, 0x3f, 0xff, 0xff, 0xff, 0xff, 0x60]]"

lemma glyph_U0051_a_length: "length (concat glyph_U0051_a) = 1184"
  by (simp add: glyph_U0051_a_def)

definition glyph_U0051_b :: "u8 list list" where
  "glyph_U0051_b = [
    [0x0, 0x0, 0x0, 0x0, 0x0, 0x0, 0x0, 0x0],
    [0x0, 0x0, 0x0, 0x0, 0x0, 0x0, 0x0, 0x0],
    [0x0, 0x0, 0x0, 0x0, 0x0, 0x0, 0x0, 0x0],
    [0x0, 0xcf, 0xff, 0xff, 0xff, 0xfe, 0x0, 0x0],
    [0x5f, 0xff, 0xff, 0xff, 0xff, 0x50, 0x0, 0x0],
    [0x0, 0x0, 0x0, 0x0, 0x0, 0x0, 0x0, 0x0],
    [0x0, 0x0, 0x0, 0x0, 0x0, 0x0, 0x0, 0x0],
    [0x0, 0x0, 0x0, 0x0, 0x0, 0x0, 0x0, 0xbf],
    [0xff, 0xff, 0xff, 0xff, 0x0, 0x0, 0x5f, 0xff],
    [0xff, 0xff, 0xff, 0x40, 0x0, 0x0, 0x0, 0x0],
    [0x0, 0x0, 0x0, 0x0, 0x0, 0x0, 0x0, 0x0],
    [0x0, 0x0, 0x0, 0x0, 0x0, 0x0, 0x0, 0x0],
    [0x0, 0x0, 0x0, 0x0, 0x0, 0xaf, 0xff, 0xff],
    [0xff, 0xff, 0x0, 0x0, 0x6f, 0xff, 0xff, 0xff],
    [0xff, 0x30, 0x0, 0x0, 0x0, 0x0, 0x0, 0x0],
    [0x0, 0x0, 0x0, 0x0, 0x0, 0x0, 0x0, 0x0],
    [0x0, 0x0, 0x0, 0x0, 0x0, 0x0, 0x0, 0x0],
    [0x0, 0x0, 0x0, 0x9f, 0xff, 0xff, 0xff, 0xff],
    [0x0, 0x0, 0x5f, 0xff, 0xff, 0xff, 0xff, 0x40],
    [0x0, 0x0, 0x0, 0x0, 0x0, 0x0, 0x0, 0x0],
    [0x0, 0x0, 0x0, 0x0, 0x0, 0x0, 0x0, 0x0],
    [0x0, 0x0, 0x0, 0x0, 0x0, 0x0, 0x0, 0x0],
    [0x0, 0x9f, 0xff, 0xff, 0xff, 0xff, 0x0, 0x0],
    [0x5f, 0xff, 0xff, 0xff, 0xff, 0x40, 0x0, 0x0],
    [0x0, 0x0, 0x0, 0x0, 0x0, 0x0, 0x0, 0x0],
    [0x0, 0x0, 0x0, 0x0, 0x0, 0x0, 0x0, 0x0],
    [0x0, 0x0, 0x0, 0x0, 0x0, 0x0, 0x0, 0xaf],
    [0xff, 0xff, 0xff, 0xfe, 0x0, 0x0, 0x4f, 0xff],
    [0xff, 0xff, 0xff, 0x50, 0x0, 0x0, 0x0, 0x0],
    [0x0, 0x0, 0x0, 0x0, 0x0, 0x0, 0x0, 0x0],
    [0x0, 0x0, 0x0, 0x0, 0x0, 0x0, 0x0, 0x0],
    [0x0, 0x0, 0x0, 0x0, 0x0, 0xbf, 0xff, 0xff],
    [0xff, 0xfe, 0x0, 0x0, 0x3f, 0xff, 0xff, 0xff],
    [0xff, 0x70, 0x0, 0x0, 0x0, 0x0, 0x0, 0x0],
    [0x0, 0x0, 0x0, 0x0, 0x0, 0x0, 0x0, 0x0],
    [0x0, 0x0, 0x0, 0x0, 0x0, 0x0, 0x0, 0x0],
    [0x0, 0x0, 0x0, 0xdf, 0xff, 0xff, 0xff, 0xfd],
    [0x0, 0x0, 0x1f, 0xff, 0xff, 0xff, 0xff, 0xa0],
    [0x0, 0x0, 0x0, 0x0, 0x0, 0x0, 0x0, 0x0],
    [0x0, 0x0, 0x0, 0x0, 0x0, 0x0, 0x0, 0x0],
    [0x0, 0x0, 0x0, 0x0, 0x0, 0x0, 0x0, 0x0],
    [0x0, 0xff, 0xff, 0xff, 0xff, 0xfb, 0x0, 0x0],
    [0xf, 0xff, 0xff, 0xff, 0xff, 0xd0, 0x0, 0x0],
    [0x0, 0x0, 0x0, 0x0, 0x0, 0x0, 0x0, 0x0],
    [0x0, 0x0, 0x0, 0x0, 0x0, 0x0, 0x0, 0x0],
    [0x0, 0x0, 0x0, 0x0, 0x0, 0x0, 0x3, 0xff],
    [0xff, 0xff, 0xff, 0xf8, 0x0, 0x0, 0xc, 0xff],
    [0xff, 0xff, 0xff, 0xf1, 0x0, 0x0, 0x0, 0x0],
    [0x0, 0x0, 0x0, 0x0, 0x0, 0x0, 0x0, 0x0],
    [0x0, 0x0, 0x0, 0x0, 0x0, 0x0, 0x0, 0x0],
    [0x0, 0x0, 0x0, 0x0, 0x6, 0xff, 0xff, 0xff],
    [0xff, 0xf5, 0x0, 0x0, 0x9, 0xff, 0xff, 0xff],
    [0xff, 0xf5, 0x0, 0x0, 0x0, 0x0, 0x0, 0x0],
    [0x0, 0x0, 0x0, 0x0, 0x0, 0x0, 0x0, 0x0],
    [0x0, 0x0, 0x0, 0x0, 0x0, 0x0, 0x0, 0x0],
    [0x0, 0x0, 0xb, 0xff, 0xff, 0xff, 0xff, 0xf3],
    [0x0, 0x0, 0x5, 0xff, 0xff, 0xff, 0xff, 0xfb],
    [0x0, 0x0, 0x0, 0x0, 0x0, 0x0, 0x0, 0x0],
    [0x0, 0x0, 0x0, 0x0, 0x0, 0x0, 0x0, 0x0],
    [0x0, 0x0, 0x0, 0x0, 0x0, 0x0, 0x0, 0x0],
    [0x1f, 0xff, 0xff, 0xff, 0xff, 0xe0, 0x0, 0x0],
    [0x1, 0xff, 0xff, 0xff, 0xff, 0xff, 0x10, 0x0],
    [0x0, 0x0, 0x0, 0x0, 0x0, 0x0, 0x0, 0x0],
    [0x0, 0x0, 0x0, 0x0, 0x0, 0x0, 0x0, 0x0],
    [0x0, 0x0, 0x0, 0x0, 0x0, 0x0, 0x6f, 0xff],
    [0xff, 0xff, 0xff, 0xa0, 0x0, 0x0, 0x0, 0xcf],
    [0xff, 0xff, 0xff, 0xff, 0x70, 0x0, 0x0, 0x0],
    [0x0, 0x0, 0x0, 0x0, 0x0, 0x0, 0x0, 0x0],
    [0x0, 0x0, 0x0, 0x0, 0x0, 0x0, 0x0, 0x0],
    [0x0, 0x0, 0x0, 0x0, 0xdf, 0xff, 0xff, 0xff],
    [0xff, 0x50, 0x0, 0x0, 0x0, 0x7f, 0xff, 0xff],
    [0xff, 0xff, 0xe0, 0x0, 0x0, 0x0, 0x0, 0x0],
    [0x0, 0x0, 0x0, 0x0, 0x0, 0x0, 0x0, 0x0],
    [0x0, 0x0, 0x0, 0x0, 0x0, 0x0, 0x0, 0x0],
    [0x0, 0x5, 0xff, 0xff, 0xff, 0xff, 0xff, 0x10],
    [0x0, 0x0, 0x0, 0x1f, 0xff, 0xff, 0xff, 0xff],
    [0xf7, 0x0, 0x0, 0x0, 0x0, 0x0, 0x0, 0x0],
    [0x0, 0x0, 0x0, 0x0, 0x0, 0x0, 0x0, 0x0],
    [0x0, 0x0, 0x0, 0x0, 0x0, 0x0, 0x0, 0xd],
    [0xff, 0xff, 0xff, 0xff, 0xfa, 0x0, 0x0, 0x0],
    [0x0, 0xa, 0xff, 0xff, 0xff, 0xff, 0xff, 0x20],
    [0x0, 0x0, 0x0, 0x0, 0x0, 0x0, 0x0, 0x0],
    [0x0, 0x0, 0x0, 0x0, 0x0, 0x0, 0x0, 0x0],
    [0x0, 0x0, 0x0, 0x0, 0x0, 0x7f, 0xff, 0xff],
    [0xff, 0xff, 0xf3, 0x0, 0x0, 0x0, 0x0, 0x3],
    [0xff, 0xff, 0xff, 0xff, 0xff, 0xc0, 0x0, 0x0],
    [0x0, 0x0, 0x0, 0x0, 0x0, 0x0, 0x0, 0x0],
    [0x0, 0x0, 0x0, 0x0, 0x0, 0x0, 0x0, 0x0],
    [0x0, 0x0, 0x2, 0xff, 0xff, 0xff, 0xff, 0xff],
    [0xc0, 0x0, 0x0, 0x0, 0x0, 0x0, 0xcf, 0xff],
    [0xff, 0xff, 0xff, 0xf7, 0x0, 0x0, 0x0, 0x0],
    [0x0, 0x0, 0x0, 0x0, 0x0, 0x0, 0x0, 0x0],
    [0x0, 0x0, 0x0, 0x0, 0x0, 0x0, 0x0, 0x0],
    [0xc, 0xff, 0xff, 0xff, 0xff, 0xff, 0x40, 0x0],
    [0x0, 0x0, 0x0, 0x0, 0x3f, 0xff, 0xff, 0xff],
    [0xff, 0xff, 0x50, 0x0, 0x0, 0x0, 0x0, 0x0],
    [0x0, 0x0, 0x0, 0x0, 0x0, 0x0, 0x0, 0x0],
    [0x0, 0x0, 0x0, 0x0, 0x0, 0x0, 0xbf, 0xff],
    [0xff, 0xff, 0xff, 0xfb, 0x0, 0x0, 0x0, 0x0],
    [0x0, 0x0, 0x9, 0xff, 0xff, 0xff, 0xff, 0xff],
    [0xf4, 0x0, 0x0, 0x0, 0x0, 0x0, 0x0, 0x0],
    [0x0, 0x0, 0x0, 0x0, 0x0, 0x0, 0x0, 0x0],
    [0x0, 0x0, 0x0, 0x9, 0xff, 0xff, 0xff, 0xff],
    [0xff, 0xf2, 0x0, 0x0, 0x0, 0x0, 0x0, 0x0],
    [0x0, 0xef, 0xff, 0xff, 0xff, 0xff, 0xff, 0x40],
    [0x0, 0x0, 0x0, 0x0, 0x0, 0x0, 0x0, 0x0],
    [0x0, 0x0, 0x0, 0x0, 0x0, 0x0, 0x0, 0x0],
    [0x0, 0x9f, 0xff, 0xff, 0xff, 0xff, 0xff, 0x80],
    [0x0, 0x0, 0x0, 0x0, 0x0, 0x0, 0x0, 0x4f],
    [0xff, 0xff, 0xff, 0xff, 0xff, 0xf7, 0x0, 0x0],
    [0x0, 0x0, 0x0, 0x0, 0x0, 0x0, 0x0, 0x0],
    [0x0, 0x0, 0x0, 0x0, 0x0, 0x0, 0xb, 0xff],
    [0xff, 0xff, 0xff, 0xff, 0xfc, 0x0, 0x0, 0x0],
    [0x0, 0x0, 0x0, 0x0, 0x0, 0x9, 0xff, 0xff],
    [0xff, 0xff, 0xff, 0xff, 0xa1, 0x0, 0x0, 0x0],
    [0x0, 0x0, 0x0, 0x0, 0x0, 0x0, 0x0, 0x0],
    [0x0, 0x0, 0x0, 0x3, 0xdf, 0xff, 0xff, 0xff],
    [0xff, 0xff, 0xf2, 0x0, 0x0, 0x0, 0x0, 0x0],
    [0x0, 0x0, 0x0, 0x0, 0xbf, 0xff, 0xff, 0xff],
    [0xff, 0xff, 0xfe, 0x50, 0x0, 0x0, 0x0, 0x0],
    [0x0, 0x0, 0x0, 0x0, 0x0, 0x0, 0x0, 0x0],
    [0x0, 0x9f, 0xff, 0xff, 0xff, 0xff, 0xff, 0xff],
    [0x50, 0x0, 0x0, 0x0, 0x0, 0x0, 0x0, 0x0],
    [0x0, 0x0, 0x1d, 0xff, 0xff, 0xff, 0xff, 0xff],
    [0xff, 0xfc, 0x50, 0x0, 0x0, 0x0, 0x0, 0x0],
    [0x0, 0x0, 0x0, 0x0, 0x0, 0x0, 0x7e, 0xff],
    [0xff, 0xff, 0xff, 0xff, 0xff, 0xf6, 0x0, 0x0],
    [0x0, 0x0, 0x0, 0x0, 0x0, 0x0, 0x0, 0x0],
    [0x2, 0xef, 0xff, 0xff, 0xff, 0xff, 0xff, 0xff],
    [0xfd, 0x72, 0x0, 0x0, 0x0, 0x0, 0x0, 0x0],
    [0x0, 0x0, 0x3, 0x8f, 0xff, 0xff, 0xff, 0xff],
    [0xff, 0xff, 0xff, 0x70, 0x0, 0x0, 0x0, 0x0],
    [0x0, 0x0, 0x0, 0x0, 0x0, 0x0, 0x0, 0x1d],
    [0xff, 0xff, 0xff, 0xff, 0xff, 0xff, 0xff, 0xff],
    [0xd8, 0x52, 0x0, 0x0, 0x0, 0x0, 0x3, 0x59],
    [0xef, 0xff, 0xff, 0xff, 0xff, 0xff, 0xff, 0xff],
    [0xf6, 0x0, 0x0, 0x0, 0x0, 0x0, 0x0, 0x0],
    [0x0, 0x0, 0x0, 0x0, 0x0, 0x1, 0xcf, 0xff],
    [0xff, 0xff, 0xff, 0xff, 0xff, 0xff, 0xff, 0xff],
    [0xfd, 0xcc, 0xbc, 0xde, 0xff, 0xff, 0xff, 0xff],
    [0xff, 0xff, 0xff, 0xff, 0xff, 0xff, 0x40, 0x0],
    [0x0, 0x0, 0x0, 0x0, 0x0, 0x0, 0x0, 0x0],
    [0x0, 0x0, 0x0, 0x0, 0xa, 0xff, 0xff, 0xff],
    [0xff, 0xff, 0xff, 0xff, 0xff, 0xff, 0xff, 0xff],
    [0xff, 0xff, 0xff, 0xff, 0xff, 0xff, 0xff, 0xff],
    [0xff, 0xff, 0xff, 0xd3, 0x0, 0x0, 0x0, 0x0],
    [0x0, 0x0, 0x0, 0x0, 0x0, 0x0, 0x0, 0x0],
    [0x0, 0x0, 0x0, 0x5e, 0xff, 0xff, 0xff, 0xff]]"

lemma glyph_U0051_b_length: "length (concat glyph_U0051_b) = 1184"
  by (simp add: glyph_U0051_b_def)

definition glyph_U0051_c :: "u8 list list" where
  "glyph_U0051_c = [
    [0xff, 0xff, 0xff, 0xff, 0xff, 0xff, 0xff, 0xff],
    [0xff, 0xff, 0xff, 0xff, 0xff, 0xff, 0xff, 0xff],
    [0xf9, 0x0, 0x0, 0x0, 0x0, 0x0, 0x0, 0x0],
    [0x0, 0x0, 0x0, 0x0, 0x0, 0x0, 0x0, 0x0],
    [0x0, 0x1, 0xbf, 0xff, 0xff, 0xff, 0xff, 0xff],
    [0xff, 0xff, 0xff, 0xff, 0xff, 0xff, 0xff, 0xff],
    [0xff, 0xff, 0xff, 0xff, 0xff, 0xfd, 0x40, 0x0],
    [0x0, 0x0, 0x0, 0x0, 0x0, 0x0, 0x0, 0x0],
    [0x0, 0x0, 0x0, 0x0, 0x0, 0x0, 0x0, 0x0],
    [0x4, 0xdf, 0xff, 0xff, 0xff, 0xff, 0xff, 0xff],
    [0xff, 0xff, 0xff, 0xff, 0xff, 0xff, 0xff, 0xff],
    [0xff, 0xff, 0xfe, 0x60, 0x0, 0x0, 0x0, 0x0],
    [0x0, 0x0, 0x0, 0x0, 0x0, 0x0, 0x0, 0x0],
    [0x0, 0x0, 0x0, 0x0, 0x0, 0x0, 0x0, 0x5],
    [0xdf, 0xff, 0xff, 0xff, 0xff, 0xff, 0xff, 0xff],
    [0xff, 0xff, 0xff, 0xff, 0xff, 0xff, 0xff, 0xfc],
    [0x60, 0x0, 0x0, 0x0, 0x0, 0x0, 0x0, 0x0],
    [0x0, 0x0, 0x0, 0x0, 0x0, 0x0, 0x0, 0x0],
    [0x0, 0x0, 0x0, 0x0, 0x0, 0x0, 0x3, 0x9e],
    [0xff, 0xff, 0xff, 0xff, 0xff, 0xff, 0xff, 0xff],
    [0xff, 0xff, 0xff, 0xff, 0xe9, 0x30, 0x0, 0x0],
    [0x0, 0x0, 0x0, 0x0, 0x0, 0x0, 0x0, 0x0],
    [0x0, 0x0, 0x0, 0x0, 0x0, 0x0, 0x0, 0x0],
    [0x0, 0x0, 0x0, 0x0, 0x0, 0x0, 0x37, 0xbe],
    [0xff, 0xff, 0xff, 0xff, 0xff, 0xff, 0xff, 0xff],
    [0xfe, 0x73, 0x0, 0x0, 0x0, 0x0, 0x0, 0x0],
    [0x0, 0x0, 0x0, 0x0, 0x0, 0x0, 0x0, 0x0],
    [0x0, 0x0, 0x0, 0x0, 0x0, 0x0, 0x0, 0x0],
    [0x0, 0x0, 0x0, 0x0, 0x0, 0x0, 0x13, 0x56],
    [0x77, 0xef, 0xff, 0xff, 0xff, 0xff, 0xff, 0x60],
    [0x0, 0x0, 0x0, 0x0, 0x0, 0x0, 0x0, 0x0],
    [0x0, 0x0, 0x0, 0x10, 0x0, 0x0, 0x0, 0x0],
    [0x0, 0x0, 0x0, 0x0, 0x0, 0x0, 0x0, 0x0],
    [0x0, 0x0, 0x0, 0x0, 0x0, 0x0, 0x0, 0x2e],
    [0xff, 0xff, 0xff, 0xff, 0xff, 0xf6, 0x0, 0x0],
    [0x0, 0x0, 0x0, 0x0, 0x0, 0x0, 0x0, 0x0],
    [0x2, 0xe7, 0x0, 0x0, 0x0, 0x0, 0x0, 0x0],
    [0x0, 0x0, 0x0, 0x0, 0x0, 0x0, 0x0, 0x0],
    [0x0, 0x0, 0x0, 0x0, 0x0, 0x2, 0xef, 0xff],
    [0xff, 0xff, 0xff, 0xff, 0x90, 0x0, 0x0, 0x0],
    [0x0, 0x0, 0x0, 0x0, 0x0, 0x0, 0x3e, 0xff],
    [0x40, 0x0, 0x0, 0x0, 0x0, 0x0, 0x0, 0x0],
    [0x0, 0x0, 0x0, 0x0, 0x0, 0x0, 0x0, 0x0],
    [0x0, 0x0, 0x0, 0x0, 0x2e, 0xff, 0xff, 0xff],
    [0xff, 0xff, 0xfc, 0x20, 0x0, 0x0, 0x0, 0x0],
    [0x0, 0x0, 0x0, 0x6, 0xff, 0xff, 0xf2, 0x0],
    [0x0, 0x0, 0x0, 0x0, 0x0, 0x0, 0x0, 0x0],
    [0x0, 0x0, 0x0, 0x0, 0x0, 0x0, 0x0, 0x0],
    [0x0, 0x0, 0x2, 0xdf, 0xff, 0xff, 0xff, 0xff],
    [0xff, 0xf7, 0x0, 0x0, 0x0, 0x0, 0x0, 0x0],
    [0x3, 0xbf, 0xff, 0xff, 0xfd, 0x10, 0x0, 0x0],
    [0x0, 0x0, 0x0, 0x0, 0x0, 0x0, 0x0, 0x0],
    [0x0, 0x0, 0x0, 0x0, 0x0, 0x0, 0x0, 0x0],
    [0x0, 0x1c, 0xff, 0xff, 0xff, 0xff, 0xff, 0xff],
    [0xe8, 0x20, 0x0, 0x0, 0x0, 0x15, 0xbf, 0xff],
    [0xff, 0xff, 0xff, 0xb0, 0x0, 0x0, 0x0, 0x0],
    [0x0, 0x0, 0x0, 0x0, 0x0, 0x0, 0x0, 0x0],
    [0x0, 0x0, 0x0, 0x0, 0x0, 0x0, 0x0, 0x0],
    [0xaf, 0xff, 0xff, 0xff, 0xff, 0xff, 0xff, 0xfe],
    [0xb9, 0x89, 0xad, 0xff, 0xff, 0xff, 0xff, 0xff],
    [0xff, 0xd1, 0x0, 0x0, 0x0, 0x0, 0x0, 0x0],
    [0x0, 0x0, 0x0, 0x0, 0x0, 0x0, 0x0, 0x0],
    [0x0, 0x0, 0x0, 0x0, 0x0, 0x0, 0x7, 0xff],
    [0xff, 0xff, 0xff, 0xff, 0xff, 0xff, 0xff, 0xff],
    [0xff, 0xff, 0xff, 0xff, 0xff, 0xff, 0xfe, 0x20],
    [0x0, 0x0, 0x0, 0x0, 0x0, 0x0, 0x0, 0x0],
    [0x0, 0x0, 0x0, 0x0, 0x0, 0x0, 0x0, 0x0],
    [0x0, 0x0, 0x0, 0x0, 0x0, 0x4e, 0xff, 0xff],
    [0xff, 0xff, 0xff, 0xff, 0xff, 0xff, 0xff, 0xff],
    [0xff, 0xff, 0xff, 0xff, 0xd1, 0x0, 0x0, 0x0],
    [0x0, 0x0, 0x0, 0x0, 0x0, 0x0, 0x0, 0x0],
    [0x0, 0x0, 0x0, 0x0, 0x0, 0x0, 0x0, 0x0],
    [0x0, 0x0, 0x0, 0x1, 0xaf, 0xff, 0xff, 0xff],
    [0xff, 0xff, 0xff, 0xff, 0xff, 0xff, 0xff, 0xff],
    [0xff, 0xfb, 0x0, 0x0, 0x0, 0x0, 0x0, 0x0],
    [0x0, 0x0, 0x0, 0x0, 0x0, 0x0, 0x0, 0x0],
    [0x0, 0x0, 0x0, 0x0, 0x0, 0x0, 0x0, 0x0],
    [0x0, 0x0, 0x5, 0xdf, 0xff, 0xff, 0xff, 0xff],
    [0xff, 0xff, 0xff, 0xff, 0xff, 0xff, 0xff, 0x60],
    [0x0, 0x0, 0x0, 0x0, 0x0, 0x0, 0x0, 0x0],
    [0x0, 0x0, 0x0, 0x0, 0x0, 0x0, 0x0, 0x0],
    [0x0, 0x0, 0x0, 0x0, 0x0, 0x0, 0x0, 0x0],
    [0x0, 0x6, 0xdf, 0xff, 0xff, 0xff, 0xff, 0xff],
    [0xff, 0xff, 0xff, 0xff, 0x91, 0x0, 0x0, 0x0],
    [0x0, 0x0, 0x0, 0x0, 0x0, 0x0, 0x0, 0x0],
    [0x0, 0x0, 0x0, 0x0, 0x0, 0x0, 0x0, 0x0],
    [0x0, 0x0, 0x0, 0x0, 0x0, 0x0, 0x0, 0x0],
    [0x5, 0xaf, 0xff, 0xff, 0xff, 0xff, 0xff, 0xff],
    [0xfd, 0x71, 0x0, 0x0, 0x0, 0x0, 0x0, 0x0],
    [0x0, 0x0, 0x0, 0x0, 0x0, 0x0, 0x0, 0x0],
    [0x0, 0x0, 0x0, 0x0, 0x0, 0x0, 0x0, 0x0],
    [0x0, 0x0, 0x0, 0x0, 0x0, 0x0, 0x0, 0x0],
    [0x47, 0xad, 0xef, 0xff, 0xec, 0x96, 0x20, 0x0],
    [0x0, 0x0, 0x0, 0x0]]"

lemma glyph_U0051_c_length: "length (concat glyph_U0051_c) = 748"
  by (simp add: glyph_U0051_c_def)

definition glyph_U0052_a :: "u8 list list" where
  "glyph_U0052_a = [
    [0xef, 0xff, 0xff, 0xff, 0xff, 0xff, 0xff, 0xff],
    [0xff, 0xff, 0xff, 0xff, 0xff, 0xff, 0xee, 0xcb],
    [0x96, 0x31, 0x0, 0x0, 0x0, 0x0, 0x0, 0x0],
    [0x0, 0x0, 0x0, 0x0, 0xef, 0xff, 0xff, 0xff],
    [0xff, 0xff, 0xff, 0xff, 0xff, 0xff, 0xff, 0xff],
    [0xff, 0xff, 0xff, 0xff, 0xff, 0xff, 0xc8, 0x30],
    [0x0, 0x0, 0x0, 0x0, 0x0, 0x0, 0x0, 0x0],
    [0xef, 0xff, 0xff, 0xff, 0xff, 0xff, 0xff, 0xff],
    [0xff, 0xff, 0xff, 0xff, 0xff, 0xff, 0xff, 0xff],
    [0xff, 0xff, 0xff, 0xfd, 0x71, 0x0, 0x0, 0x0],
    [0x0, 0x0, 0x0, 0x0, 0xef, 0xff, 0xff, 0xff],
    [0xff, 0xff, 0xff, 0xff, 0xff, 0xff, 0xff, 0xff],
    [0xff, 0xff, 0xff, 0xff, 0xff, 0xff, 0xff, 0xff],
    [0xff, 0x91, 0x0, 0x0, 0x0, 0x0, 0x0, 0x0],
    [0xef, 0xff, 0xff, 0xff, 0xff, 0xff, 0xff, 0xff],
    [0xff, 0xff, 0xff, 0xff, 0xff, 0xff, 0xff, 0xff],
    [0xff, 0xff, 0xff, 0xff, 0xff, 0xfe, 0x60, 0x0],
    [0x0, 0x0, 0x0, 0x0, 0xef, 0xff, 0xff, 0xff],
    [0xff, 0xff, 0xff, 0xff, 0xff, 0xff, 0xff, 0xff],
    [0xff, 0xff, 0xff, 0xff, 0xff, 0xff, 0xff, 0xff],
    [0xff, 0xff, 0xfb, 0x10, 0x0, 0x0, 0x0, 0x0],
    [0xef, 0xff, 0xff, 0xff, 0xff, 0xff, 0xff, 0xff],
    [0xff, 0xff, 0xff, 0xff, 0xff, 0xff, 0xff, 0xff],
    [0xff, 0xff, 0xff, 0xff, 0xff, 0xff, 0xff, 0xe2],
    [0x0, 0x0, 0x0, 0x0, 0xef, 0xff, 0xff, 0xff],
    [0xff, 0xff, 0xff, 0xff, 0xff, 0xff, 0xff, 0xff],
    [0xff, 0xff, 0xff, 0xff, 0xff, 0xff, 0xff, 0xff],
    [0xff, 0xff, 0xff, 0xfe, 0x30, 0x0, 0x0, 0x0],
    [0xef, 0xff, 0xff, 0xff, 0xfc, 0x44, 0x44, 0x44],
    [0x44, 0x44, 0x44, 0x44, 0x44, 0x55, 0x67, 0x9b],
    [0xef, 0xff, 0xff, 0xff, 0xff, 0xff, 0xff, 0xff],
    [0xe2, 0x0, 0x0, 0x0, 0xef, 0xff, 0xff, 0xff],
    [0xfb, 0x0, 0x0, 0x0, 0x0, 0x0, 0x0, 0x0],
    [0x0, 0x0, 0x0, 0x0, 0x2, 0x6c, 0xff, 0xff],
    [0xff, 0xff, 0xff, 0xff, 0xfd, 0x10, 0x0, 0x0],
    [0xef, 0xff, 0xff, 0xff, 0xfb, 0x0, 0x0, 0x0],
    [0x0, 0x0, 0x0, 0x0, 0x0, 0x0, 0x0, 0x0],
    [0x0, 0x0, 0x2a, 0xff, 0xff, 0xff, 0xff, 0xff],
    [0xff, 0x90, 0x0, 0x0, 0xef, 0xff, 0xff, 0xff],
    [0xfb, 0x0, 0x0, 0x0, 0x0, 0x0, 0x0, 0x0],
    [0x0, 0x0, 0x0, 0x0, 0x0, 0x0, 0x0, 0x3d],
    [0xff, 0xff, 0xff, 0xff, 0xff, 0xf4, 0x0, 0x0],
    [0xef, 0xff, 0xff, 0xff, 0xfb, 0x0, 0x0, 0x0],
    [0x0, 0x0, 0x0, 0x0, 0x0, 0x0, 0x0, 0x0],
    [0x0, 0x0, 0x0, 0x0, 0xbf, 0xff, 0xff, 0xff],
    [0xff, 0xfc, 0x0, 0x0, 0xef, 0xff, 0xff, 0xff],
    [0xfb, 0x0, 0x0, 0x0, 0x0, 0x0, 0x0, 0x0],
    [0x0, 0x0, 0x0, 0x0, 0x0, 0x0, 0x0, 0x0],
    [0xb, 0xff, 0xff, 0xff, 0xff, 0xff, 0x50, 0x0],
    [0xef, 0xff, 0xff, 0xff, 0xfb, 0x0, 0x0, 0x0],
    [0x0, 0x0, 0x0, 0x0, 0x0, 0x0, 0x0, 0x0],
    [0x0, 0x0, 0x0, 0x0, 0x1, 0xef, 0xff, 0xff],
    [0xff, 0xff, 0xb0, 0x0, 0xef, 0xff, 0xff, 0xff],
    [0xfb, 0x0, 0x0, 0x0, 0x0, 0x0, 0x0, 0x0],
    [0x0, 0x0, 0x0, 0x0, 0x0, 0x0, 0x0, 0x0],
    [0x0, 0x4f, 0xff, 0xff, 0xff, 0xff, 0xf1, 0x0],
    [0xef, 0xff, 0xff, 0xff, 0xfb, 0x0, 0x0, 0x0],
    [0x0, 0x0, 0x0, 0x0, 0x0, 0x0, 0x0, 0x0],
    [0x0, 0x0, 0x0, 0x0, 0x0, 0xb, 0xff, 0xff],
    [0xff, 0xff, 0xf6, 0x0, 0xef, 0xff, 0xff, 0xff],
    [0xfb, 0x0, 0x0, 0x0, 0x0, 0x0, 0x0, 0x0],
    [0x0, 0x0, 0x0, 0x0, 0x0, 0x0, 0x0, 0x0],
    [0x0, 0x5, 0xff, 0xff, 0xff, 0xff, 0xfa, 0x0],
    [0xef, 0xff, 0xff, 0xff, 0xfb, 0x0, 0x0, 0x0],
    [0x0, 0x0, 0x0, 0x0, 0x0, 0x0, 0x0, 0x0],
    [0x0, 0x0, 0x0, 0x0, 0x0, 0x0, 0xff, 0xff],
    [0xff, 0xff, 0xfd, 0x0, 0xef, 0xff, 0xff, 0xff],
    [0xfb, 0x0, 0x0, 0x0, 0x0, 0x0, 0x0, 0x0],
    [0x0, 0x0, 0x0, 0x0, 0x0, 0x0, 0x0, 0x0],
    [0x0, 0x0, 0xbf, 0xff, 0xff, 0xff, 0xff, 0x0],
    [0xef, 0xff, 0xff, 0xff, 0xfb, 0x0, 0x0, 0x0],
    [0x0, 0x0, 0x0, 0x0, 0x0, 0x0, 0x0, 0x0],
    [0x0, 0x0, 0x0, 0x0, 0x0, 0x0, 0x8f, 0xff],
    [0xff, 0xff, 0xff, 0x20, 0xef, 0xff, 0xff, 0xff],
    [0xfb, 0x0, 0x0, 0x0, 0x0, 0x0, 0x0, 0x0],
    [0x0, 0x0, 0x0, 0x0, 0x0, 0x0, 0x0, 0x0],
    [0x0, 0x0, 0x6f, 0xff, 0xff, 0xff, 0xff, 0x30],
    [0xef, 0xff, 0xff, 0xff, 0xfb, 0x0, 0x0, 0x0],
    [0x0, 0x0, 0x0, 0x0, 0x0, 0x0, 0x0, 0x0],
    [0x0, 0x0, 0x0, 0x0, 0x0, 0x0, 0x5f, 0xff],
    [0xff, 0xff, 0xff, 0x40, 0xef, 0xff, 0xff, 0xff],
    [0xfb, 0x0, 0x0, 0x0, 0x0, 0x0, 0x0, 0x0],
    [0x0, 0x0, 0x0, 0x0, 0x0, 0x0, 0x0, 0x0],
    [0x0, 0x0, 0x4f, 0xff, 0xff, 0xff, 0xff, 0x40],
    [0xef, 0xff, 0xff, 0xff, 0xfb, 0x0, 0x0, 0x0],
    [0x0, 0x0, 0x0, 0x0, 0x0, 0x0, 0x0, 0x0],
    [0x0, 0x0, 0x0, 0x0, 0x0, 0x0, 0x5f, 0xff],
    [0xff, 0xff, 0xff, 0x40, 0xef, 0xff, 0xff, 0xff],
    [0xfb, 0x0, 0x0, 0x0, 0x0, 0x0, 0x0, 0x0],
    [0x0, 0x0, 0x0, 0x0, 0x0, 0x0, 0x0, 0x0],
    [0x0, 0x0, 0x6f, 0xff, 0xff, 0xff, 0xff, 0x20],
    [0xef, 0xff, 0xff, 0xff, 0xfb, 0x0, 0x0, 0x0],
    [0x0, 0x0, 0x0, 0x0, 0x0, 0x0, 0x0, 0x0],
    [0x0, 0x0, 0x0, 0x0, 0x0, 0x0, 0x8f, 0xff],
    [0xff, 0xff, 0xff, 0x10, 0xef, 0xff, 0xff, 0xff],
    [0xfb, 0x0, 0x0, 0x0, 0x0, 0x0, 0x0, 0x0],
    [0x0, 0x0, 0x0, 0x0, 0x0, 0x0, 0x0, 0x0],
    [0x0, 0x0, 0xbf, 0xff, 0xff, 0xff, 0xff, 0x0],
    [0xef, 0xff, 0xff, 0xff, 0xfb, 0x0, 0x0, 0x0],
    [0x0, 0x0, 0x0, 0x0, 0x0, 0x0, 0x0, 0x0],
    [0x0, 0x0, 0x0, 0x0, 0x0, 0x0, 0xef, 0xff],
    [0xff, 0xff, 0xfd, 0x0, 0xef, 0xff, 0xff, 0xff],
    [0xfb, 0x0, 0x0, 0x0, 0x0, 0x0, 0x0, 0x0],
    [0x0, 0x0, 0x0, 0x0, 0x0, 0x0, 0x0, 0x0],
    [0x0, 0x4, 0xff, 0xff, 0xff, 0xff, 0xf9, 0x0],
    [0xef, 0xff, 0xff, 0xff, 0xfb, 0x0, 0x0, 0x0],
    [0x0, 0x0, 0x0, 0x0, 0x0, 0x0, 0x0, 0x0],
    [0x0, 0x0, 0x0, 0x0, 0x0, 0xa, 0xff, 0xff],
    [0xff, 0xff, 0xf6, 0x0, 0xef, 0xff, 0xff, 0xff],
    [0xfb, 0x0, 0x0, 0x0, 0x0, 0x0, 0x0, 0x0],
    [0x0, 0x0, 0x0, 0x0, 0x0, 0x0, 0x0, 0x0],
    [0x0, 0x3f, 0xff, 0xff, 0xff, 0xff, 0xf1, 0x0],
    [0xef, 0xff, 0xff, 0xff, 0xfb, 0x0, 0x0, 0x0],
    [0x0, 0x0, 0x0, 0x0, 0x0, 0x0, 0x0, 0x0],
    [0x0, 0x0, 0x0, 0x0, 0x0, 0xdf, 0xff, 0xff],
    [0xff, 0xff, 0xb0, 0x0, 0xef, 0xff, 0xff, 0xff],
    [0xfb, 0x0, 0x0, 0x0, 0x0, 0x0, 0x0, 0x0],
    [0x0, 0x0, 0x0, 0x0, 0x0, 0x0, 0x0, 0x0],
    [0xa, 0xff, 0xff, 0xff, 0xff, 0xff, 0x50, 0x0],
    [0xef, 0xff, 0xff, 0xff, 0xfb, 0x0, 0x0, 0x0],
    [0x0, 0x0, 0x0, 0x0, 0x0, 0x0, 0x0, 0x0],
    [0x0, 0x0, 0x0, 0x0, 0x9f, 0xff, 0xff, 0xff],
    [0xff, 0xfd, 0x0, 0x0, 0xef, 0xff, 0xff, 0xff],
    [0xfb, 0x0, 0x0, 0x0, 0x0, 0x0, 0x0, 0x0],
    [0x0, 0x0, 0x0, 0x0, 0x0, 0x0, 0x0, 0x1c],
    [0xff, 0xff, 0xff, 0xff, 0xff, 0xf4, 0x0, 0x0],
    [0xef, 0xff, 0xff, 0xff, 0xfb, 0x0, 0x0, 0x0],
    [0x0, 0x0, 0x0, 0x0, 0x0, 0x0, 0x0, 0x0],
    [0x0, 0x0, 0x7, 0xff, 0xff, 0xff, 0xff, 0xff],
    [0xff, 0xb0, 0x0, 0x0, 0xef, 0xff, 0xff, 0xff],
    [0xfb, 0x0, 0x0, 0x0, 0x0, 0x0, 0x0, 0x0],
    [0x0, 0x0, 0x0, 0x0, 0x0, 0x39, 0xff, 0xff],
    [0xff, 0xff, 0xff, 0xff, 0xfe, 0x10, 0x0, 0x0],
    [0xef, 0xff, 0xff, 0xff, 0xfb, 0x11, 0x11, 0x11],
    [0x11, 0x11, 0x11, 0x11, 0x11, 0x12, 0x24, 0x68],
    [0xbf, 0xff, 0xff, 0xff, 0xff, 0xff, 0xff, 0xff],
    [0xf3, 0x0, 0x0, 0x0, 0xef, 0xff, 0xff, 0xff],
    [0xff, 0xff, 0xff, 0xff, 0xff, 0xff, 0xff, 0xff],
    [0xff, 0xff, 0xff, 0xff, 0xff, 0xff, 0xff, 0xff],
    [0xff, 0xff, 0xff, 0xff, 0x40, 0x0, 0x0, 0x0],
    [0xef, 0xff, 0xff, 0xff, 0xff, 0xff, 0xff, 0xff],
    [0xff, 0xff, 0xff, 0xff, 0xff, 0xff, 0xff, 0xff],
    [0xff, 0xff, 0xff, 0xff, 0xff, 0xff, 0xff, 0xe3],
    [0x0, 0x0, 0x0, 0x0, 0xef, 0xff, 0xff, 0xff],
    [0xff, 0xff, 0xff, 0xff, 0xff, 0xff, 0xff, 0xff],
    [0xff, 0xff, 0xff, 0xff, 0xff, 0xff, 0xff, 0xff],
    [0xff, 0xff, 0xfd, 0x20, 0x0, 0x0, 0x0, 0x0],
    [0xef, 0xff, 0xff, 0xff, 0xff, 0xff, 0xff, 0xff]]"

lemma glyph_U0052_a_length: "length (concat glyph_U0052_a) = 1184"
  by (simp add: glyph_U0052_a_def)

definition glyph_U0052_b :: "u8 list list" where
  "glyph_U0052_b = [
    [0xff, 0xff, 0xff, 0xff, 0xff, 0xff, 0xff, 0xff],
    [0xff, 0xff, 0xff, 0xff, 0xff, 0xff, 0x70, 0x0],
    [0x0, 0x0, 0x0, 0x0, 0xef, 0xff, 0xff, 0xff],
    [0xff, 0xff, 0xff, 0xff, 0xff, 0xff, 0xff, 0xff],
    [0xff, 0xff, 0xff, 0xff, 0xff, 0xff, 0xff, 0xff],
    [0xff, 0xa2, 0x0, 0x0, 0x0, 0x0, 0x0, 0x0],
    [0xef, 0xff, 0xff, 0xff, 0xff, 0xff, 0xff, 0xff],
    [0xff, 0xff, 0xff, 0xff, 0xff, 0xff, 0xff, 0xff],
    [0xff, 0xff, 0xff, 0xfe, 0x71, 0x0, 0x0, 0x0],
    [0x0, 0x0, 0x0, 0x0, 0xef, 0xff, 0xff, 0xff],
    [0xff, 0xff, 0xff, 0xff, 0xff, 0xff, 0xff, 0xff],
    [0xff, 0xff, 0xff, 0xff, 0xff, 0xff, 0xff, 0xfe],
    [0x10, 0x0, 0x0, 0x0, 0x0, 0x0, 0x0, 0x0],
    [0xef, 0xff, 0xff, 0xff, 0xff, 0xff, 0xff, 0xff],
    [0xff, 0xff, 0xff, 0xff, 0xff, 0xff, 0xee, 0xef],
    [0xff, 0xff, 0xff, 0xff, 0xa0, 0x0, 0x0, 0x0],
    [0x0, 0x0, 0x0, 0x0, 0xef, 0xff, 0xff, 0xff],
    [0xfb, 0x0, 0x0, 0x0, 0x0, 0x0, 0x0, 0x0],
    [0x0, 0x0, 0x0, 0x1e, 0xff, 0xff, 0xff, 0xff],
    [0xf6, 0x0, 0x0, 0x0, 0x0, 0x0, 0x0, 0x0],
    [0xef, 0xff, 0xff, 0xff, 0xfb, 0x0, 0x0, 0x0],
    [0x0, 0x0, 0x0, 0x0, 0x0, 0x0, 0x0, 0x4],
    [0xff, 0xff, 0xff, 0xff, 0xff, 0x20, 0x0, 0x0],
    [0x0, 0x0, 0x0, 0x0, 0xef, 0xff, 0xff, 0xff],
    [0xfb, 0x0, 0x0, 0x0, 0x0, 0x0, 0x0, 0x0],
    [0x0, 0x0, 0x0, 0x0, 0x8f, 0xff, 0xff, 0xff],
    [0xff, 0xd0, 0x0, 0x0, 0x0, 0x0, 0x0, 0x0],
    [0xef, 0xff, 0xff, 0xff, 0xfb, 0x0, 0x0, 0x0],
    [0x0, 0x0, 0x0, 0x0, 0x0, 0x0, 0x0, 0x0],
    [0xc, 0xff, 0xff, 0xff, 0xff, 0xf9, 0x0, 0x0],
    [0x0, 0x0, 0x0, 0x0, 0xef, 0xff, 0xff, 0xff],
    [0xfb, 0x0, 0x0, 0x0, 0x0, 0x0, 0x0, 0x0],
    [0x0, 0x0, 0x0, 0x0, 0x2, 0xff, 0xff, 0xff],
    [0xff, 0xff, 0x40, 0x0, 0x0, 0x0, 0x0, 0x0],
    [0xef, 0xff, 0xff, 0xff, 0xfb, 0x0, 0x0, 0x0],
    [0x0, 0x0, 0x0, 0x0, 0x0, 0x0, 0x0, 0x0],
    [0x0, 0x6f, 0xff, 0xff, 0xff, 0xff, 0xe1, 0x0],
    [0x0, 0x0, 0x0, 0x0, 0xef, 0xff, 0xff, 0xff],
    [0xfb, 0x0, 0x0, 0x0, 0x0, 0x0, 0x0, 0x0],
    [0x0, 0x0, 0x0, 0x0, 0x0, 0xa, 0xff, 0xff],
    [0xff, 0xff, 0xfb, 0x0, 0x0, 0x0, 0x0, 0x0],
    [0xef, 0xff, 0xff, 0xff, 0xfb, 0x0, 0x0, 0x0],
    [0x0, 0x0, 0x0, 0x0, 0x0, 0x0, 0x0, 0x0],
    [0x0, 0x1, 0xef, 0xff, 0xff, 0xff, 0xff, 0x70],
    [0x0, 0x0, 0x0, 0x0, 0xef, 0xff, 0xff, 0xff],
    [0xfb, 0x0, 0x0, 0x0, 0x0, 0x0, 0x0, 0x0],
    [0x0, 0x0, 0x0, 0x0, 0x0, 0x0, 0x4f, 0xff],
    [0xff, 0xff, 0xff, 0xf3, 0x0, 0x0, 0x0, 0x0],
    [0xef, 0xff, 0xff, 0xff, 0xfb, 0x0, 0x0, 0x0],
    [0x0, 0x0, 0x0, 0x0, 0x0, 0x0, 0x0, 0x0],
    [0x0, 0x0, 0x8, 0xff, 0xff, 0xff, 0xff, 0xfd],
    [0x0, 0x0, 0x0, 0x0, 0xef, 0xff, 0xff, 0xff],
    [0xfb, 0x0, 0x0, 0x0, 0x0, 0x0, 0x0, 0x0],
    [0x0, 0x0, 0x0, 0x0, 0x0, 0x0, 0x0, 0xcf],
    [0xff, 0xff, 0xff, 0xff, 0x90, 0x0, 0x0, 0x0],
    [0xef, 0xff, 0xff, 0xff, 0xfb, 0x0, 0x0, 0x0],
    [0x0, 0x0, 0x0, 0x0, 0x0, 0x0, 0x0, 0x0],
    [0x0, 0x0, 0x0, 0x2f, 0xff, 0xff, 0xff, 0xff],
    [0xf5, 0x0, 0x0, 0x0, 0xef, 0xff, 0xff, 0xff],
    [0xfb, 0x0, 0x0, 0x0, 0x0, 0x0, 0x0, 0x0],
    [0x0, 0x0, 0x0, 0x0, 0x0, 0x0, 0x0, 0x6],
    [0xff, 0xff, 0xff, 0xff, 0xfe, 0x10, 0x0, 0x0],
    [0xef, 0xff, 0xff, 0xff, 0xfb, 0x0, 0x0, 0x0],
    [0x0, 0x0, 0x0, 0x0, 0x0, 0x0, 0x0, 0x0],
    [0x0, 0x0, 0x0, 0x0, 0xaf, 0xff, 0xff, 0xff],
    [0xff, 0xc0, 0x0, 0x0, 0xef, 0xff, 0xff, 0xff],
    [0xfb, 0x0, 0x0, 0x0, 0x0, 0x0, 0x0, 0x0],
    [0x0, 0x0, 0x0, 0x0, 0x0, 0x0, 0x0, 0x0],
    [0xe, 0xff, 0xff, 0xff, 0xff, 0xf7, 0x0, 0x0],
    [0xef, 0xff, 0xff, 0xff, 0xfb, 0x0, 0x0, 0x0],
    [0x0, 0x0, 0x0, 0x0, 0x0, 0x0, 0x0, 0x0],
    [0x0, 0x0, 0x0, 0x0, 0x3, 0xff, 0xff, 0xff],
    [0xff, 0xff, 0x30, 0x0, 0xef, 0xff, 0xff, 0xff],
    [0xfb, 0x0, 0x0, 0x0, 0x0, 0x0, 0x0, 0x0],
    [0x0, 0x0, 0x0, 0x0, 0x0, 0x0, 0x0, 0x0],
    [0x0, 0x8f, 0xff, 0xff, 0xff, 0xff, 0xe1, 0x0],
    [0xef, 0xff, 0xff, 0xff, 0xfb, 0x0, 0x0, 0x0],
    [0x0, 0x0, 0x0, 0x0, 0x0, 0x0, 0x0, 0x0],
    [0x0, 0x0, 0x0, 0x0, 0x0, 0xc, 0xff, 0xff],
    [0xff, 0xff, 0xfa, 0x0, 0xef, 0xff, 0xff, 0xff],
    [0xfb, 0x0, 0x0, 0x0, 0x0, 0x0, 0x0, 0x0],
    [0x0, 0x0, 0x0, 0x0, 0x0, 0x0, 0x0, 0x0],
    [0x0, 0x1, 0xff, 0xff, 0xff, 0xff, 0xff, 0x60],
    [0xef, 0xff, 0xff, 0xff, 0xfb, 0x0, 0x0, 0x0],
    [0x0, 0x0, 0x0, 0x0, 0x0, 0x0, 0x0, 0x0],
    [0x0, 0x0, 0x0, 0x0, 0x0, 0x0, 0x5f, 0xff],
    [0xff, 0xff, 0xff, 0xf2]]"

lemma glyph_U0052_b_length: "length (concat glyph_U0052_b) = 692"
  by (simp add: glyph_U0052_b_def)

definition glyph_U0053_a :: "u8 list list" where
  "glyph_U0053_a = [
    [0x0, 0x0, 0x0, 0x0, 0x0, 0x0, 0x0, 0x0],
    [0x0, 0x1, 0x57, 0x9b, 0xde, 0xef, 0xff, 0xee],
    [0xca, 0x96, 0x30, 0x0, 0x0, 0x0, 0x0, 0x0],
    [0x0, 0x0, 0x0, 0x0, 0x0, 0x0, 0x0, 0x0],
    [0x0, 0x0, 0x5, 0xae, 0xff, 0xff, 0xff, 0xff],
    [0xff, 0xff, 0xff, 0xff, 0xff, 0xfd, 0x95, 0x0],
    [0x0, 0x0, 0x0, 0x0, 0x0, 0x0, 0x0, 0x0],
    [0x0, 0x0, 0x0, 0x2, 0x9e, 0xff, 0xff, 0xff],
    [0xff, 0xff, 0xff, 0xff, 0xff, 0xff, 0xff, 0xff],
    [0xff, 0xff, 0xb5, 0x0, 0x0, 0x0, 0x0, 0x0],
    [0x0, 0x0, 0x0, 0x0, 0x0, 0x2a, 0xff, 0xff],
    [0xff, 0xff, 0xff, 0xff, 0xff, 0xff, 0xff, 0xff],
    [0xff, 0xff, 0xff, 0xff, 0xff, 0xfe, 0x81, 0x0],
    [0x0, 0x0, 0x0, 0x0, 0x0, 0x0, 0x0, 0x7f],
    [0xff, 0xff, 0xff, 0xff, 0xff, 0xff, 0xff, 0xff],
    [0xff, 0xff, 0xff, 0xff, 0xff, 0xff, 0xff, 0xff],
    [0xff, 0xf8, 0x0, 0x0, 0x0, 0x0, 0x0, 0x0],
    [0x1, 0xcf, 0xff, 0xff, 0xff, 0xff, 0xff, 0xff],
    [0xff, 0xff, 0xff, 0xff, 0xff, 0xff, 0xff, 0xff],
    [0xff, 0xff, 0xff, 0xff, 0xfe, 0x50, 0x0, 0x0],
    [0x0, 0x0, 0x2, 0xdf, 0xff, 0xff, 0xff, 0xff],
    [0xff, 0xff, 0xff, 0xff, 0xff, 0xff, 0xff, 0xff],
    [0xff, 0xff, 0xff, 0xff, 0xff, 0xff, 0xff, 0xfa],
    [0x0, 0x0, 0x0, 0x0, 0x2, 0xef, 0xff, 0xff],
    [0xff, 0xff, 0xff, 0xff, 0xff, 0xff, 0xff, 0xff],
    [0xff, 0xff, 0xff, 0xff, 0xff, 0xff, 0xff, 0xff],
    [0xff, 0xff, 0x30, 0x0, 0x0, 0x0, 0x0, 0xcf],
    [0xff, 0xff, 0xff, 0xff, 0xff, 0xff, 0xfc, 0x96],
    [0x43, 0x22, 0x12, 0x34, 0x68, 0xbe, 0xff, 0xff],
    [0xff, 0xff, 0xff, 0xff, 0xd0, 0x0, 0x0, 0x0],
    [0x0, 0x9f, 0xff, 0xff, 0xff, 0xff, 0xff, 0xfb],
    [0x50, 0x0, 0x0, 0x0, 0x0, 0x0, 0x0, 0x0],
    [0x3, 0x7c, 0xff, 0xff, 0xff, 0xff, 0xf6, 0x0],
    [0x0, 0x0, 0x0, 0x2f, 0xff, 0xff, 0xff, 0xff],
    [0xff, 0xc3, 0x0, 0x0, 0x0, 0x0, 0x0, 0x0],
    [0x0, 0x0, 0x0, 0x0, 0x1, 0x7d, 0xff, 0xff],
    [0xff, 0x0, 0x0, 0x0, 0x0, 0xb, 0xff, 0xff],
    [0xff, 0xff, 0xff, 0x80, 0x0, 0x0, 0x0, 0x0],
    [0x0, 0x0, 0x0, 0x0, 0x0, 0x0, 0x0, 0x0],
    [0x4, 0xcf, 0xff, 0x90, 0x0, 0x0, 0x0, 0x2],
    [0xff, 0xff, 0xff, 0xff, 0xff, 0x70, 0x0, 0x0],
    [0x0, 0x0, 0x0, 0x0, 0x0, 0x0, 0x0, 0x0],
    [0x0, 0x0, 0x0, 0x0, 0x4d, 0xf2, 0x0, 0x0],
    [0x0, 0x0, 0x8f, 0xff, 0xff, 0xff, 0xff, 0x90],
    [0x0, 0x0, 0x0, 0x0, 0x0, 0x0, 0x0, 0x0],
    [0x0, 0x0, 0x0, 0x0, 0x0, 0x0, 0x0, 0x5],
    [0x0, 0x0, 0x0, 0x0, 0xd, 0xff, 0xff, 0xff],
    [0xff, 0xe0, 0x0, 0x0, 0x0, 0x0, 0x0, 0x0],
    [0x0, 0x0, 0x0, 0x0, 0x0, 0x0, 0x0, 0x0],
    [0x0, 0x0, 0x0, 0x0, 0x0, 0x0, 0x0, 0xff],
    [0xff, 0xff, 0xff, 0xf8, 0x0, 0x0, 0x0, 0x0],
    [0x0, 0x0, 0x0, 0x0, 0x0, 0x0, 0x0, 0x0],
    [0x0, 0x0, 0x0, 0x0, 0x0, 0x0, 0x0, 0x0],
    [0x0, 0x3f, 0xff, 0xff, 0xff, 0xff, 0x30, 0x0],
    [0x0, 0x0, 0x0, 0x0, 0x0, 0x0, 0x0, 0x0],
    [0x0, 0x0, 0x0, 0x0, 0x0, 0x0, 0x0, 0x0],
    [0x0, 0x0, 0x0, 0x5, 0xff, 0xff, 0xff, 0xff],
    [0xf0, 0x0, 0x0, 0x0, 0x0, 0x0, 0x0, 0x0],
    [0x0, 0x0, 0x0, 0x0, 0x0, 0x0, 0x0, 0x0],
    [0x0, 0x0, 0x0, 0x0, 0x0, 0x0, 0x6f, 0xff],
    [0xff, 0xff, 0xff, 0x0, 0x0, 0x0, 0x0, 0x0],
    [0x0, 0x0, 0x0, 0x0, 0x0, 0x0, 0x0, 0x0],
    [0x0, 0x0, 0x0, 0x0, 0x0, 0x0, 0x0, 0x0],
    [0x6, 0xff, 0xff, 0xff, 0xff, 0xf0, 0x0, 0x0],
    [0x0, 0x0, 0x0, 0x0, 0x0, 0x0, 0x0, 0x0],
    [0x0, 0x0, 0x0, 0x0, 0x0, 0x0, 0x0, 0x0],
    [0x0, 0x0, 0x0, 0x5f, 0xff, 0xff, 0xff, 0xff],
    [0x20, 0x0, 0x0, 0x0, 0x0, 0x0, 0x0, 0x0],
    [0x0, 0x0, 0x0, 0x0, 0x0, 0x0, 0x0, 0x0],
    [0x0, 0x0, 0x0, 0x0, 0x0, 0x4, 0xff, 0xff],
    [0xff, 0xff, 0xf7, 0x0, 0x0, 0x0, 0x0, 0x0],
    [0x0, 0x0, 0x0, 0x0, 0x0, 0x0, 0x0, 0x0],
    [0x0, 0x0, 0x0, 0x0, 0x0, 0x0, 0x0, 0x0],
    [0x2f, 0xff, 0xff, 0xff, 0xff, 0xd0, 0x0, 0x0],
    [0x0, 0x0, 0x0, 0x0, 0x0, 0x0, 0x0, 0x0],
    [0x0, 0x0, 0x0, 0x0, 0x0, 0x0, 0x0, 0x0],
    [0x0, 0x0, 0x0, 0xef, 0xff, 0xff, 0xff, 0xff],
    [0x80, 0x0, 0x0, 0x0, 0x0, 0x0, 0x0, 0x0],
    [0x0, 0x0, 0x0, 0x0, 0x0, 0x0, 0x0, 0x0],
    [0x0, 0x0, 0x0, 0x0, 0x0, 0xb, 0xff, 0xff],
    [0xff, 0xff, 0xff, 0x70, 0x0, 0x0, 0x0, 0x0],
    [0x0, 0x0, 0x0, 0x0, 0x0, 0x0, 0x0, 0x0],
    [0x0, 0x0, 0x0, 0x0, 0x0, 0x0, 0x0, 0x0],
    [0x5f, 0xff, 0xff, 0xff, 0xff, 0xff, 0xa1, 0x0],
    [0x0, 0x0, 0x0, 0x0, 0x0, 0x0, 0x0, 0x0],
    [0x0, 0x0, 0x0, 0x0, 0x0, 0x0, 0x0, 0x0],
    [0x0, 0x0, 0x0, 0xef, 0xff, 0xff, 0xff, 0xff],
    [0xff, 0xe6, 0x0, 0x0, 0x0, 0x0, 0x0, 0x0],
    [0x0, 0x0, 0x0, 0x0, 0x0, 0x0, 0x0, 0x0],
    [0x0, 0x0, 0x0, 0x0, 0x0, 0x6, 0xff, 0xff],
    [0xff, 0xff, 0xff, 0xff, 0xfe, 0x82, 0x0, 0x0],
    [0x0, 0x0, 0x0, 0x0, 0x0, 0x0, 0x0, 0x0],
    [0x0, 0x0, 0x0, 0x0, 0x0, 0x0, 0x0, 0x0],
    [0xb, 0xff, 0xff, 0xff, 0xff, 0xff, 0xff, 0xff],
    [0xfd, 0x83, 0x0, 0x0, 0x0, 0x0, 0x0, 0x0],
    [0x0, 0x0, 0x0, 0x0, 0x0, 0x0, 0x0, 0x0],
    [0x0, 0x0, 0x0, 0x1d, 0xff, 0xff, 0xff, 0xff],
    [0xff, 0xff, 0xff, 0xff, 0xff, 0xb7, 0x30, 0x0],
    [0x0, 0x0, 0x0, 0x0, 0x0, 0x0, 0x0, 0x0],
    [0x0, 0x0, 0x0, 0x0, 0x0, 0x0, 0x1d, 0xff],
    [0xff, 0xff, 0xff, 0xff, 0xff, 0xff, 0xff, 0xff],
    [0xff, 0xfb, 0x73, 0x0, 0x0, 0x0, 0x0, 0x0],
    [0x0, 0x0, 0x0, 0x0, 0x0, 0x0, 0x0, 0x0],
    [0x0, 0x1c, 0xff, 0xff, 0xff, 0xff, 0xff, 0xff],
    [0xff, 0xff, 0xff, 0xff, 0xff, 0xff, 0xb6, 0x20],
    [0x0, 0x0, 0x0, 0x0, 0x0, 0x0, 0x0, 0x0],
    [0x0, 0x0, 0x0, 0x0, 0x9, 0xff, 0xff, 0xff],
    [0xff, 0xff, 0xff, 0xff, 0xff, 0xff, 0xff, 0xff],
    [0xff, 0xff, 0xd8, 0x30, 0x0, 0x0, 0x0, 0x0],
    [0x0, 0x0, 0x0, 0x0, 0x0, 0x0, 0x0, 0x3],
    [0xdf, 0xff, 0xff, 0xff, 0xff, 0xff, 0xff, 0xff],
    [0xff, 0xff, 0xff, 0xff, 0xff, 0xff, 0xd7, 0x10],
    [0x0, 0x0, 0x0, 0x0, 0x0, 0x0, 0x0, 0x0],
    [0x0, 0x0, 0x0, 0x5c, 0xff, 0xff, 0xff, 0xff],
    [0xff, 0xff, 0xff, 0xff, 0xff, 0xff, 0xff, 0xff],
    [0xff, 0xff, 0xa3, 0x0, 0x0, 0x0, 0x0, 0x0],
    [0x0, 0x0, 0x0, 0x0, 0x0, 0x0, 0x2, 0x8e],
    [0xff, 0xff, 0xff, 0xff, 0xff, 0xff, 0xff, 0xff],
    [0xff, 0xff, 0xff, 0xff, 0xff, 0xf9, 0x10, 0x0],
    [0x0, 0x0, 0x0, 0x0, 0x0, 0x0, 0x0, 0x0],
    [0x0, 0x0, 0x3, 0x8d, 0xff, 0xff, 0xff, 0xff],
    [0xff, 0xff, 0xff, 0xff, 0xff, 0xff, 0xff, 0xff],
    [0xfe, 0x40, 0x0, 0x0, 0x0, 0x0, 0x0, 0x0],
    [0x0, 0x0, 0x0, 0x0, 0x0, 0x0, 0x1, 0x6a],
    [0xef, 0xff, 0xff, 0xff, 0xff, 0xff, 0xff, 0xff],
    [0xff, 0xff, 0xff, 0xff, 0x60, 0x0, 0x0, 0x0],
    [0x0, 0x0, 0x0, 0x0, 0x0, 0x0, 0x0, 0x0],
    [0x0, 0x0, 0x0, 0x26, 0xae, 0xff, 0xff, 0xff],
    [0xff, 0xff, 0xff, 0xff, 0xff, 0xff, 0xff, 0x70],
    [0x0, 0x0, 0x0, 0x0, 0x0, 0x0, 0x0, 0x0],
    [0x0, 0x0, 0x0, 0x0, 0x0, 0x0, 0x0, 0x2],
    [0x6b, 0xff, 0xff, 0xff, 0xff, 0xff, 0xff, 0xff],
    [0xff, 0xff, 0x60, 0x0, 0x0, 0x0, 0x0, 0x0],
    [0x0, 0x0, 0x0, 0x0, 0x0, 0x0, 0x0, 0x0],
    [0x0, 0x0, 0x0, 0x0, 0x48, 0xdf, 0xff, 0xff],
    [0xff, 0xff, 0xff, 0xff, 0xff, 0x20, 0x0, 0x0],
    [0x0, 0x0, 0x0, 0x0, 0x0, 0x0, 0x0, 0x0],
    [0x0, 0x0, 0x0, 0x0, 0x0, 0x0, 0x0, 0x0],
    [0x39, 0xff, 0xff, 0xff, 0xff, 0xff, 0xff, 0xfd],
    [0x0, 0x0, 0x0, 0x0, 0x0, 0x0, 0x0, 0x0],
    [0x0, 0x0, 0x0, 0x0, 0x0, 0x0, 0x0, 0x0],
    [0x0, 0x0, 0x0, 0x1, 0x9f, 0xff, 0xff, 0xff],
    [0xff, 0xff, 0xf4, 0x0, 0x0, 0x0, 0x0, 0x0],
    [0x0, 0x0, 0x0, 0x0, 0x0, 0x0, 0x0, 0x0],
    [0x0, 0x0, 0x0, 0x0, 0x0, 0x0, 0x0, 0x3e],
    [0xff, 0xff, 0xff, 0xff, 0xff, 0xb0, 0x0, 0x0],
    [0x0, 0x0, 0x0, 0x0, 0x0, 0x0, 0x0, 0x0],
    [0x0, 0x0, 0x0, 0x0, 0x0, 0x0, 0x0, 0x0]]"

lemma glyph_U0053_a_length: "length (concat glyph_U0053_a) = 1184"
  by (simp add: glyph_U0053_a_def)

definition glyph_U0053_b :: "u8 list list" where
  "glyph_U0053_b = [
    [0x0, 0x0, 0x1d, 0xff, 0xff, 0xff, 0xff, 0xff],
    [0x0, 0x0, 0x0, 0x0, 0x0, 0x0, 0x0, 0x0],
    [0x0, 0x0, 0x0, 0x0, 0x0, 0x0, 0x0, 0x0],
    [0x0, 0x0, 0x0, 0x0, 0x0, 0x2f, 0xff, 0xff],
    [0xff, 0xff, 0xf4, 0x0, 0x0, 0x0, 0x0, 0x0],
    [0x0, 0x0, 0x0, 0x0, 0x0, 0x0, 0x0, 0x0],
    [0x0, 0x0, 0x0, 0x0, 0x0, 0x0, 0x0, 0x0],
    [0x8f, 0xff, 0xff, 0xff, 0xff, 0x70, 0x0, 0x0],
    [0x0, 0x0, 0x0, 0x0, 0x0, 0x0, 0x0, 0x0],
    [0x0, 0x0, 0x0, 0x0, 0x0, 0x0, 0x0, 0x0],
    [0x0, 0x0, 0x2, 0xff, 0xff, 0xff, 0xff, 0xf8],
    [0x0, 0x0, 0x0, 0x0, 0x0, 0x0, 0x0, 0x0],
    [0x0, 0x0, 0x0, 0x0, 0x0, 0x0, 0x0, 0x0],
    [0x0, 0x0, 0x0, 0x0, 0x0, 0xe, 0xff, 0xff],
    [0xff, 0xff, 0x90, 0x0, 0x0, 0x0, 0x0, 0x0],
    [0x0, 0x0, 0x0, 0x0, 0x0, 0x0, 0x0, 0x0],
    [0x0, 0x0, 0x0, 0x0, 0x0, 0x0, 0x0, 0x0],
    [0xcf, 0xff, 0xff, 0xff, 0xfa, 0x0, 0x0, 0x0],
    [0x0, 0x0, 0x0, 0x0, 0x0, 0x0, 0x0, 0x0],
    [0x0, 0x0, 0x0, 0x0, 0x0, 0x0, 0x0, 0x0],
    [0x0, 0x0, 0xc, 0xff, 0xff, 0xff, 0xff, 0x90],
    [0x0, 0x0, 0x0, 0x0, 0x0, 0x0, 0x0, 0x0],
    [0x0, 0x0, 0x0, 0x0, 0x0, 0x0, 0x0, 0x0],
    [0x0, 0x0, 0x0, 0x0, 0x0, 0xdf, 0xff, 0xff],
    [0xff, 0xf8, 0x0, 0x0, 0x10, 0x0, 0x0, 0x0],
    [0x0, 0x0, 0x0, 0x0, 0x0, 0x0, 0x0, 0x0],
    [0x0, 0x0, 0x0, 0x0, 0x0, 0x0, 0x0, 0x1f],
    [0xff, 0xff, 0xff, 0xff, 0x60, 0x0, 0xe, 0x80],
    [0x0, 0x0, 0x0, 0x0, 0x0, 0x0, 0x0, 0x0],
    [0x0, 0x0, 0x0, 0x0, 0x0, 0x0, 0x0, 0x0],
    [0x0, 0x6, 0xff, 0xff, 0xff, 0xff, 0xf2, 0x0],
    [0x6, 0xff, 0xb2, 0x0, 0x0, 0x0, 0x0, 0x0],
    [0x0, 0x0, 0x0, 0x0, 0x0, 0x0, 0x0, 0x0],
    [0x0, 0x0, 0x0, 0x0, 0xdf, 0xff, 0xff, 0xff],
    [0xfe, 0x0, 0x0, 0xdf, 0xff, 0xf7, 0x0, 0x0],
    [0x0, 0x0, 0x0, 0x0, 0x0, 0x0, 0x0, 0x0],
    [0x0, 0x0, 0x0, 0x0, 0x0, 0x0, 0x9f, 0xff],
    [0xff, 0xff, 0xff, 0x90, 0x0, 0x5f, 0xff, 0xff],
    [0xfe, 0x60, 0x0, 0x0, 0x0, 0x0, 0x0, 0x0],
    [0x0, 0x0, 0x0, 0x0, 0x0, 0x0, 0x0, 0x0],
    [0x8f, 0xff, 0xff, 0xff, 0xff, 0xf3, 0x0, 0xd],
    [0xff, 0xff, 0xff, 0xff, 0xe7, 0x10, 0x0, 0x0],
    [0x0, 0x0, 0x0, 0x0, 0x0, 0x0, 0x0, 0x0],
    [0x0, 0x1, 0xbf, 0xff, 0xff, 0xff, 0xff, 0xfa],
    [0x0, 0x4, 0xff, 0xff, 0xff, 0xff, 0xff, 0xff],
    [0xb6, 0x10, 0x0, 0x0, 0x0, 0x0, 0x0, 0x0],
    [0x0, 0x0, 0x0, 0x18, 0xff, 0xff, 0xff, 0xff],
    [0xff, 0xff, 0x20, 0x0, 0xcf, 0xff, 0xff, 0xff],
    [0xff, 0xff, 0xff, 0xff, 0xc8, 0x52, 0x0, 0x0],
    [0x0, 0x0, 0x0, 0x0, 0x37, 0xbf, 0xff, 0xff],
    [0xff, 0xff, 0xff, 0xff, 0x70, 0x0, 0x9, 0xff],
    [0xff, 0xff, 0xff, 0xff, 0xff, 0xff, 0xff, 0xff],
    [0xff, 0xdc, 0xba, 0x9a, 0xab, 0xce, 0xff, 0xff],
    [0xff, 0xff, 0xff, 0xff, 0xff, 0xff, 0xa0, 0x0],
    [0x0, 0x5, 0xff, 0xff, 0xff, 0xff, 0xff, 0xff],
    [0xff, 0xff, 0xff, 0xff, 0xff, 0xff, 0xff, 0xff],
    [0xff, 0xff, 0xff, 0xff, 0xff, 0xff, 0xff, 0xff],
    [0xb0, 0x0, 0x0, 0x0, 0x2, 0xbf, 0xff, 0xff],
    [0xff, 0xff, 0xff, 0xff, 0xff, 0xff, 0xff, 0xff],
    [0xff, 0xff, 0xff, 0xff, 0xff, 0xff, 0xff, 0xff],
    [0xff, 0xff, 0xa0, 0x0, 0x0, 0x0, 0x0, 0x0],
    [0x5d, 0xff, 0xff, 0xff, 0xff, 0xff, 0xff, 0xff],
    [0xff, 0xff, 0xff, 0xff, 0xff, 0xff, 0xff, 0xff],
    [0xff, 0xff, 0xff, 0xff, 0x60, 0x0, 0x0, 0x0],
    [0x0, 0x0, 0x0, 0x5, 0xdf, 0xff, 0xff, 0xff],
    [0xff, 0xff, 0xff, 0xff, 0xff, 0xff, 0xff, 0xff],
    [0xff, 0xff, 0xff, 0xff, 0xff, 0xfb, 0x20, 0x0],
    [0x0, 0x0, 0x0, 0x0, 0x0, 0x0, 0x0, 0x39],
    [0xff, 0xff, 0xff, 0xff, 0xff, 0xff, 0xff, 0xff],
    [0xff, 0xff, 0xff, 0xff, 0xff, 0xff, 0xff, 0xb3],
    [0x0, 0x0, 0x0, 0x0, 0x0, 0x0, 0x0, 0x0],
    [0x0, 0x0, 0x0, 0x49, 0xef, 0xff, 0xff, 0xff],
    [0xff, 0xff, 0xff, 0xff, 0xff, 0xff, 0xff, 0xff],
    [0xe8, 0x20, 0x0, 0x0, 0x0, 0x0, 0x0, 0x0],
    [0x0, 0x0, 0x0, 0x0, 0x0, 0x0, 0x0, 0x26],
    [0x9c, 0xff, 0xff, 0xff, 0xff, 0xff, 0xff, 0xff],
    [0xfd, 0xa6, 0x20, 0x0, 0x0, 0x0, 0x0, 0x0],
    [0x0, 0x0, 0x0, 0x0, 0x0, 0x0, 0x0, 0x0],
    [0x0, 0x0, 0x0, 0x0, 0x13, 0x46, 0x67, 0x77],
    [0x66, 0x54, 0x20, 0x0, 0x0, 0x0, 0x0, 0x0],
    [0x0, 0x0, 0x0, 0x0, 0x0]]"

lemma glyph_U0053_b_length: "length (concat glyph_U0053_b) = 645"
  by (simp add: glyph_U0053_b_def)

definition glyph_U0054_a :: "u8 list list" where
  "glyph_U0054_a = [
    [0x9f, 0xff, 0xff, 0xff, 0xff, 0xff, 0xff, 0xff],
    [0xff, 0xff, 0xff, 0xff, 0xff, 0xff, 0xff, 0xff],
    [0xff, 0xff, 0xff, 0xff, 0xff, 0xff, 0xff, 0xff],
    [0xff, 0xff, 0xff, 0xff, 0x9f, 0xff, 0xff, 0xff],
    [0xff, 0xff, 0xff, 0xff, 0xff, 0xff, 0xff, 0xff],
    [0xff, 0xff, 0xff, 0xff, 0xff, 0xff, 0xff, 0xff],
    [0xff, 0xff, 0xff, 0xff, 0xff, 0xff, 0xff, 0xff],
    [0x9f, 0xff, 0xff, 0xff, 0xff, 0xff, 0xff, 0xff],
    [0xff, 0xff, 0xff, 0xff, 0xff, 0xff, 0xff, 0xff],
    [0xff, 0xff, 0xff, 0xff, 0xff, 0xff, 0xff, 0xff],
    [0xff, 0xff, 0xff, 0xff, 0x9f, 0xff, 0xff, 0xff],
    [0xff, 0xff, 0xff, 0xff, 0xff, 0xff, 0xff, 0xff],
    [0xff, 0xff, 0xff, 0xff, 0xff, 0xff, 0xff, 0xff],
    [0xff, 0xff, 0xff, 0xff, 0xff, 0xff, 0xff, 0xff],
    [0x9f, 0xff, 0xff, 0xff, 0xff, 0xff, 0xff, 0xff],
    [0xff, 0xff, 0xff, 0xff, 0xff, 0xff, 0xff, 0xff],
    [0xff, 0xff, 0xff, 0xff, 0xff, 0xff, 0xff, 0xff],
    [0xff, 0xff, 0xff, 0xff, 0x9f, 0xff, 0xff, 0xff],
    [0xff, 0xff, 0xff, 0xff, 0xff, 0xff, 0xff, 0xff],
    [0xff, 0xff, 0xff, 0xff, 0xff, 0xff, 0xff, 0xff],
    [0xff, 0xff, 0xff, 0xff, 0xff, 0xff, 0xff, 0xff],
    [0x9f, 0xff, 0xff, 0xff, 0xff, 0xff, 0xff, 0xff],
    [0xff, 0xff, 0xff, 0xff, 0xff, 0xff, 0xff, 0xff],
    [0xff, 0xff, 0xff, 0xff, 0xff, 0xff, 0xff, 0xff],
    [0xff, 0xff, 0xff, 0xff, 0x9f, 0xff, 0xff, 0xff],
    [0xff, 0xff, 0xff, 0xff, 0xff, 0xff, 0xff, 0xff],
    [0xff, 0xff, 0xff, 0xff, 0xff, 0xff, 0xff, 0xff],
    [0xff, 0xff, 0xff, 0xff, 0xff, 0xff, 0xff, 0xff],
    [0x24, 0x44, 0x44, 0x44, 0x44, 0x44, 0x44, 0x44],
    [0x44, 0x44, 0x44, 0x4b, 0xff, 0xff, 0xff, 0xff],
    [0xf4, 0x44, 0x44, 0x44, 0x44, 0x44, 0x44, 0x44],
    [0x44, 0x44, 0x44, 0x44, 0x0, 0x0, 0x0, 0x0],
    [0x0, 0x0, 0x0, 0x0, 0x0, 0x0, 0x0, 0x9],
    [0xff, 0xff, 0xff, 0xff, 0xe0, 0x0, 0x0, 0x0],
    [0x0, 0x0, 0x0, 0x0, 0x0, 0x0, 0x0, 0x0],
    [0x0, 0x0, 0x0, 0x0, 0x0, 0x0, 0x0, 0x0],
    [0x0, 0x0, 0x0, 0x9, 0xff, 0xff, 0xff, 0xff],
    [0xe0, 0x0, 0x0, 0x0, 0x0, 0x0, 0x0, 0x0],
    [0x0, 0x0, 0x0, 0x0, 0x0, 0x0, 0x0, 0x0],
    [0x0, 0x0, 0x0, 0x0, 0x0, 0x0, 0x0, 0x9],
    [0xff, 0xff, 0xff, 0xff, 0xe0, 0x0, 0x0, 0x0],
    [0x0, 0x0, 0x0, 0x0, 0x0, 0x0, 0x0, 0x0],
    [0x0, 0x0, 0x0, 0x0, 0x0, 0x0, 0x0, 0x0],
    [0x0, 0x0, 0x0, 0x9, 0xff, 0xff, 0xff, 0xff],
    [0xe0, 0x0, 0x0, 0x0, 0x0, 0x0, 0x0, 0x0],
    [0x0, 0x0, 0x0, 0x0, 0x0, 0x0, 0x0, 0x0],
    [0x0, 0x0, 0x0, 0x0, 0x0, 0x0, 0x0, 0x9],
    [0xff, 0xff, 0xff, 0xff, 0xe0, 0x0, 0x0, 0x0],
    [0x0, 0x0, 0x0, 0x0, 0x0, 0x0, 0x0, 0x0],
    [0x0, 0x0, 0x0, 0x0, 0x0, 0x0, 0x0, 0x0],
    [0x0, 0x0, 0x0, 0x9, 0xff, 0xff, 0xff, 0xff],
    [0xe0, 0x0, 0x0, 0x0, 0x0, 0x0, 0x0, 0x0],
    [0x0, 0x0, 0x0, 0x0, 0x0, 0x0, 0x0, 0x0],
    [0x0, 0x0, 0x0, 0x0, 0x0, 0x0, 0x0, 0x9],
    [0xff, 0xff, 0xff, 0xff, 0xe0, 0x0, 0x0, 0x0],
    [0x0, 0x0, 0x0, 0x0, 0x0, 0x0, 0x0, 0x0],
    [0x0, 0x0, 0x0, 0x0, 0x0, 0x0, 0x0, 0x0],
    [0x0, 0x0, 0x0, 0x9, 0xff, 0xff, 0xff, 0xff],
    [0xe0, 0x0, 0x0, 0x0, 0x0, 0x0, 0x0, 0x0],
    [0x0, 0x0, 0x0, 0x0, 0x0, 0x0, 0x0, 0x0],
    [0x0, 0x0, 0x0, 0x0, 0x0, 0x0, 0x0, 0x9],
    [0xff, 0xff, 0xff, 0xff, 0xe0, 0x0, 0x0, 0x0],
    [0x0, 0x0, 0x0, 0x0, 0x0, 0x0, 0x0, 0x0],
    [0x0, 0x0, 0x0, 0x0, 0x0, 0x0, 0x0, 0x0],
    [0x0, 0x0, 0x0, 0x9, 0xff, 0xff, 0xff, 0xff],
    [0xe0, 0x0, 0x0, 0x0, 0x0, 0x0, 0x0, 0x0],
    [0x0, 0x0, 0x0, 0x0, 0x0, 0x0, 0x0, 0x0],
    [0x0, 0x0, 0x0, 0x0, 0x0, 0x0, 0x0, 0x9],
    [0xff, 0xff, 0xff, 0xff, 0xe0, 0x0, 0x0, 0x0],
    [0x0, 0x0, 0x0, 0x0, 0x0, 0x0, 0x0, 0x0],
    [0x0, 0x0, 0x0, 0x0, 0x0, 0x0, 0x0, 0x0],
    [0x0, 0x0, 0x0, 0x9, 0xff, 0xff, 0xff, 0xff],
    [0xe0, 0x0, 0x0, 0x0, 0x0, 0x0, 0x0, 0x0],
    [0x0, 0x0, 0x0, 0x0, 0x0, 0x0, 0x0, 0x0],
    [0x0, 0x0, 0x0, 0x0, 0x0, 0x0, 0x0, 0x9],
    [0xff, 0xff, 0xff, 0xff, 0xe0, 0x0, 0x0, 0x0],
    [0x0, 0x0, 0x0, 0x0, 0x0, 0x0, 0x0, 0x0],
    [0x0, 0x0, 0x0, 0x0, 0x0, 0x0, 0x0, 0x0],
    [0x0, 0x0, 0x0, 0x9, 0xff, 0xff, 0xff, 0xff],
    [0xe0, 0x0, 0x0, 0x0, 0x0, 0x0, 0x0, 0x0],
    [0x0, 0x0, 0x0, 0x0, 0x0, 0x0, 0x0, 0x0],
    [0x0, 0x0, 0x0, 0x0, 0x0, 0x0, 0x0, 0x9],
    [0xff, 0xff, 0xff, 0xff, 0xe0, 0x0, 0x0, 0x0],
    [0x0, 0x0, 0x0, 0x0, 0x0, 0x0, 0x0, 0x0],
    [0x0, 0x0, 0x0, 0x0, 0x0, 0x0, 0x0, 0x0],
    [0x0, 0x0, 0x0, 0x9, 0xff, 0xff, 0xff, 0xff],
    [0xe0, 0x0, 0x0, 0x0, 0x0, 0x0, 0x0, 0x0],
    [0x0, 0x0, 0x0, 0x0, 0x0, 0x0, 0x0, 0x0],
    [0x0, 0x0, 0x0, 0x0, 0x0, 0x0, 0x0, 0x9],
    [0xff, 0xff, 0xff, 0xff, 0xe0, 0x0, 0x0, 0x0],
    [0x0, 0x0, 0x0, 0x0, 0x0, 0x0, 0x0, 0x0],
    [0x0, 0x0, 0x0, 0x0, 0x0, 0x0, 0x0, 0x0],
    [0x0, 0x0, 0x0, 0x9, 0xff, 0xff, 0xff, 0xff],
    [0xe0, 0x0, 0x0, 0x0, 0x0, 0x0, 0x0, 0x0],
    [0x0, 0x0, 0x0, 0x0, 0x0, 0x0, 0x0, 0x0],
    [0x0, 0x0, 0x0, 0x0, 0x0, 0x0, 0x0, 0x9],
    [0xff, 0xff, 0xff, 0xff, 0xe0, 0x0, 0x0, 0x0],
    [0x0, 0x0, 0x0, 0x0, 0x0, 0x0, 0x0, 0x0],
    [0x0, 0x0, 0x0, 0x0, 0x0, 0x0, 0x0, 0x0],
    [0x0, 0x0, 0x0, 0x9, 0xff, 0xff, 0xff, 0xff],
    [0xe0, 0x0, 0x0, 0x0, 0x0, 0x0, 0x0, 0x0],
    [0x0, 0x0, 0x0, 0x0, 0x0, 0x0, 0x0, 0x0],
    [0x0, 0x0, 0x0, 0x0, 0x0, 0x0, 0x0, 0x9],
    [0xff, 0xff, 0xff, 0xff, 0xe0, 0x0, 0x0, 0x0],
    [0x0, 0x0, 0x0, 0x0, 0x0, 0x0, 0x0, 0x0],
    [0x0, 0x0, 0x0, 0x0, 0x0, 0x0, 0x0, 0x0],
    [0x0, 0x0, 0x0, 0x9, 0xff, 0xff, 0xff, 0xff],
    [0xe0, 0x0, 0x0, 0x0, 0x0, 0x0, 0x0, 0x0],
    [0x0, 0x0, 0x0, 0x0, 0x0, 0x0, 0x0, 0x0],
    [0x0, 0x0, 0x0, 0x0, 0x0, 0x0, 0x0, 0x9],
    [0xff, 0xff, 0xff, 0xff, 0xe0, 0x0, 0x0, 0x0],
    [0x0, 0x0, 0x0, 0x0, 0x0, 0x0, 0x0, 0x0],
    [0x0, 0x0, 0x0, 0x0, 0x0, 0x0, 0x0, 0x0],
    [0x0, 0x0, 0x0, 0x9, 0xff, 0xff, 0xff, 0xff],
    [0xe0, 0x0, 0x0, 0x0, 0x0, 0x0, 0x0, 0x0],
    [0x0, 0x0, 0x0, 0x0, 0x0, 0x0, 0x0, 0x0],
    [0x0, 0x0, 0x0, 0x0, 0x0, 0x0, 0x0, 0x9],
    [0xff, 0xff, 0xff, 0xff, 0xe0, 0x0, 0x0, 0x0],
    [0x0, 0x0, 0x0, 0x0, 0x0, 0x0, 0x0, 0x0],
    [0x0, 0x0, 0x0, 0x0, 0x0, 0x0, 0x0, 0x0],
    [0x0, 0x0, 0x0, 0x9, 0xff, 0xff, 0xff, 0xff],
    [0xe0, 0x0, 0x0, 0x0, 0x0, 0x0, 0x0, 0x0],
    [0x0, 0x0, 0x0, 0x0, 0x0, 0x0, 0x0, 0x0],
    [0x0, 0x0, 0x0, 0x0, 0x0, 0x0, 0x0, 0x9],
    [0xff, 0xff, 0xff, 0xff, 0xe0, 0x0, 0x0, 0x0],
    [0x0, 0x0, 0x0, 0x0, 0x0, 0x0, 0x0, 0x0],
    [0x0, 0x0, 0x0, 0x0, 0x0, 0x0, 0x0, 0x0],
    [0x0, 0x0, 0x0, 0x9, 0xff, 0xff, 0xff, 0xff],
    [0xe0, 0x0, 0x0, 0x0, 0x0, 0x0, 0x0, 0x0],
    [0x0, 0x0, 0x0, 0x0, 0x0, 0x0, 0x0, 0x0],
    [0x0, 0x0, 0x0, 0x0, 0x0, 0x0, 0x0, 0x9],
    [0xff, 0xff, 0xff, 0xff, 0xe0, 0x0, 0x0, 0x0],
    [0x0, 0x0, 0x0, 0x0, 0x0, 0x0, 0x0, 0x0],
    [0x0, 0x0, 0x0, 0x0, 0x0, 0x0, 0x0, 0x0],
    [0x0, 0x0, 0x0, 0x9, 0xff, 0xff, 0xff, 0xff],
    [0xe0, 0x0, 0x0, 0x0, 0x0, 0x0, 0x0, 0x0],
    [0x0, 0x0, 0x0, 0x0, 0x0, 0x0, 0x0, 0x0],
    [0x0, 0x0, 0x0, 0x0, 0x0, 0x0, 0x0, 0x9],
    [0xff, 0xff, 0xff, 0xff, 0xe0, 0x0, 0x0, 0x0],
    [0x0, 0x0, 0x0, 0x0, 0x0, 0x0, 0x0, 0x0],
    [0x0, 0x0, 0x0, 0x0, 0x0, 0x0, 0x0, 0x0],
    [0x0, 0x0, 0x0, 0x9, 0xff, 0xff, 0xff, 0xff],
    [0xe0, 0x0, 0x0, 0x0, 0x0, 0x0, 0x0, 0x0],
    [0x0, 0x0, 0x0, 0x0, 0x0, 0x0, 0x0, 0x0],
    [0x0, 0x0, 0x0, 0x0, 0x0, 0x0, 0x0, 0x9],
    [0xff, 0xff, 0xff, 0xff, 0xe0, 0x0, 0x0, 0x0],
    [0x0, 0x0, 0x0, 0x0, 0x0, 0x0, 0x0, 0x0],
    [0x0, 0x0, 0x0, 0x0, 0x0, 0x0, 0x0, 0x0]]"

lemma glyph_U0054_a_length: "length (concat glyph_U0054_a) = 1184"
  by (simp add: glyph_U0054_a_def)

definition glyph_U0054_b :: "u8 list list" where
  "glyph_U0054_b = [
    [0x0, 0x0, 0x0, 0x9, 0xff, 0xff, 0xff, 0xff],
    [0xe0, 0x0, 0x0, 0x0, 0x0, 0x0, 0x0, 0x0],
    [0x0, 0x0, 0x0, 0x0, 0x0, 0x0, 0x0, 0x0],
    [0x0, 0x0, 0x0, 0x0, 0x0, 0x0, 0x0, 0x9],
    [0xff, 0xff, 0xff, 0xff, 0xe0, 0x0, 0x0, 0x0],
    [0x0, 0x0, 0x0, 0x0, 0x0, 0x0, 0x0, 0x0],
    [0x0, 0x0, 0x0, 0x0, 0x0, 0x0, 0x0, 0x0],
    [0x0, 0x0, 0x0, 0x9, 0xff, 0xff, 0xff, 0xff],
    [0xe0, 0x0, 0x0, 0x0, 0x0, 0x0, 0x0, 0x0],
    [0x0, 0x0, 0x0, 0x0, 0x0, 0x0, 0x0, 0x0],
    [0x0, 0x0, 0x0, 0x0, 0x0, 0x0, 0x0, 0x9],
    [0xff, 0xff, 0xff, 0xff, 0xe0, 0x0, 0x0, 0x0],
    [0x0, 0x0, 0x0, 0x0, 0x0, 0x0, 0x0, 0x0],
    [0x0, 0x0, 0x0, 0x0, 0x0, 0x0, 0x0, 0x0],
    [0x0, 0x0, 0x0, 0x9, 0xff, 0xff, 0xff, 0xff],
    [0xe0, 0x0, 0x0, 0x0, 0x0, 0x0, 0x0, 0x0],
    [0x0, 0x0, 0x0, 0x0, 0x0, 0x0, 0x0, 0x0],
    [0x0, 0x0, 0x0, 0x0, 0x0, 0x0, 0x0, 0x9],
    [0xff, 0xff, 0xff, 0xff, 0xe0, 0x0, 0x0, 0x0],
    [0x0, 0x0, 0x0, 0x0, 0x0, 0x0, 0x0, 0x0],
    [0x0, 0x0, 0x0, 0x0, 0x0, 0x0, 0x0, 0x0],
    [0x0, 0x0, 0x0, 0x9, 0xff, 0xff, 0xff, 0xff],
    [0xe0, 0x0, 0x0, 0x0, 0x0, 0x0, 0x0, 0x0],
    [0x0, 0x0, 0x0, 0x0, 0x0, 0x0, 0x0, 0x0],
    [0x0, 0x0, 0x0, 0x0, 0x0, 0x0, 0x0, 0x9],
    [0xff, 0xff, 0xff, 0xff, 0xe0, 0x0, 0x0, 0x0],
    [0x0, 0x0, 0x0, 0x0, 0x0, 0x0, 0x0, 0x0],
    [0x0, 0x0, 0x0, 0x0, 0x0, 0x0, 0x0, 0x0],
    [0x0, 0x0, 0x0, 0x9, 0xff, 0xff, 0xff, 0xff],
    [0xe0, 0x0, 0x0, 0x0, 0x0, 0x0, 0x0, 0x0],
    [0x0, 0x0, 0x0, 0x0, 0x0, 0x0, 0x0, 0x0],
    [0x0, 0x0, 0x0, 0x0, 0x0, 0x0, 0x0, 0x9],
    [0xff, 0xff, 0xff, 0xff, 0xe0, 0x0, 0x0, 0x0],
    [0x0, 0x0, 0x0, 0x0, 0x0, 0x0, 0x0, 0x0],
    [0x0, 0x0, 0x0, 0x0, 0x0, 0x0, 0x0, 0x0],
    [0x0, 0x0, 0x0, 0x9, 0xff, 0xff, 0xff, 0xff],
    [0xe0, 0x0, 0x0, 0x0, 0x0, 0x0, 0x0, 0x0],
    [0x0, 0x0, 0x0, 0x0, 0x0, 0x0, 0x0, 0x0],
    [0x0, 0x0, 0x0, 0x0, 0x0, 0x0, 0x0, 0x9],
    [0xff, 0xff, 0xff, 0xff, 0xe0, 0x0, 0x0, 0x0],
    [0x0, 0x0, 0x0, 0x0, 0x0, 0x0, 0x0, 0x0],
    [0x0, 0x0, 0x0, 0x0, 0x0, 0x0, 0x0, 0x0],
    [0x0, 0x0, 0x0, 0x9, 0xff, 0xff, 0xff, 0xff],
    [0xe0, 0x0, 0x0, 0x0, 0x0, 0x0, 0x0, 0x0],
    [0x0, 0x0, 0x0, 0x0, 0x0, 0x0, 0x0, 0x0],
    [0x0, 0x0, 0x0, 0x0, 0x0, 0x0, 0x0, 0x9],
    [0xff, 0xff, 0xff, 0xff, 0xe0, 0x0, 0x0, 0x0],
    [0x0, 0x0, 0x0, 0x0, 0x0, 0x0, 0x0, 0x0],
    [0x0, 0x0, 0x0, 0x0, 0x0, 0x0, 0x0, 0x0],
    [0x0, 0x0, 0x0, 0x9, 0xff, 0xff, 0xff, 0xff],
    [0xe0, 0x0, 0x0, 0x0, 0x0, 0x0, 0x0, 0x0],
    [0x0, 0x0, 0x0, 0x0, 0x0, 0x0, 0x0, 0x0],
    [0x0, 0x0, 0x0, 0x0, 0x0, 0x0, 0x0, 0x9],
    [0xff, 0xff, 0xff, 0xff, 0xe0, 0x0, 0x0, 0x0],
    [0x0, 0x0, 0x0, 0x0, 0x0, 0x0, 0x0, 0x0],
    [0x0, 0x0, 0x0, 0x0, 0x0, 0x0, 0x0, 0x0],
    [0x0, 0x0, 0x0, 0x9, 0xff, 0xff, 0xff, 0xff],
    [0xe0, 0x0, 0x0, 0x0, 0x0, 0x0, 0x0, 0x0],
    [0x0, 0x0, 0x0, 0x0, 0x0, 0x0, 0x0, 0x0],
    [0x0, 0x0, 0x0, 0x0, 0x0, 0x0, 0x0, 0x9],
    [0xff, 0xff, 0xff, 0xff, 0xe0, 0x0, 0x0, 0x0],
    [0x0, 0x0, 0x0, 0x0, 0x0, 0x0, 0x0, 0x0],
    [0x0, 0x0, 0x0, 0x0, 0x0, 0x0, 0x0, 0x0],
    [0x0, 0x0, 0x0, 0x9, 0xff, 0xff, 0xff, 0xff],
    [0xe0, 0x0, 0x0, 0x0, 0x0, 0x0, 0x0, 0x0],
    [0x0, 0x0, 0x0, 0x0, 0x0, 0x0, 0x0, 0x0],
    [0x0, 0x0, 0x0, 0x0, 0x0, 0x0, 0x0, 0x9],
    [0xff, 0xff, 0xff, 0xff, 0xe0, 0x0, 0x0, 0x0],
    [0x0, 0x0, 0x0, 0x0, 0x0, 0x0, 0x0, 0x0],
    [0x0, 0x0, 0x0, 0x0, 0x0, 0x0, 0x0, 0x0],
    [0x0, 0x0, 0x0, 0x9, 0xff, 0xff, 0xff, 0xff],
    [0xe0, 0x0, 0x0, 0x0, 0x0, 0x0, 0x0, 0x0],
    [0x0, 0x0, 0x0, 0x0, 0x0, 0x0, 0x0, 0x0],
    [0x0, 0x0, 0x0, 0x0, 0x0, 0x0, 0x0, 0x9],
    [0xff, 0xff, 0xff, 0xff, 0xe0, 0x0, 0x0, 0x0],
    [0x0, 0x0, 0x0, 0x0, 0x0, 0x0, 0x0, 0x0],
    [0x0, 0x0, 0x0, 0x0, 0x0, 0x0, 0x0, 0x0],
    [0x0, 0x0, 0x0, 0x9, 0xff, 0xff, 0xff, 0xff],
    [0xe0, 0x0, 0x0, 0x0, 0x0, 0x0, 0x0, 0x0],
    [0x0, 0x0, 0x0, 0x0, 0x0, 0x0, 0x0, 0x0],
    [0x0, 0x0, 0x0, 0x0, 0x0, 0x0, 0x0, 0x9],
    [0xff, 0xff, 0xff, 0xff, 0xe0, 0x0, 0x0, 0x0],
    [0x0, 0x0, 0x0, 0x0, 0x0, 0x0, 0x0, 0x0],
    [0x0, 0x0, 0x0, 0x0, 0x0, 0x0, 0x0, 0x0],
    [0x0, 0x0, 0x0, 0x9, 0xff, 0xff, 0xff, 0xff],
    [0xe0, 0x0, 0x0, 0x0, 0x0, 0x0, 0x0, 0x0],
    [0x0, 0x0, 0x0, 0x0]]"

lemma glyph_U0054_b_length: "length (concat glyph_U0054_b) = 692"
  by (simp add: glyph_U0054_b_def)

definition glyph_U0055_a :: "u8 list list" where
  "glyph_U0055_a = [
    [0x8f, 0xff, 0xff, 0xff, 0xff, 0x10, 0x0, 0x0],
    [0x0, 0x0, 0x0, 0x0, 0x0, 0x0, 0x0, 0x0],
    [0x0, 0x0, 0x0, 0x0, 0x0, 0x0, 0x0, 0x0],
    [0xff, 0xff, 0xff, 0xff, 0xf5, 0x8f, 0xff, 0xff],
    [0xff, 0xff, 0x10, 0x0, 0x0, 0x0, 0x0, 0x0],
    [0x0, 0x0, 0x0, 0x0, 0x0, 0x0, 0x0, 0x0],
    [0x0, 0x0, 0x0, 0x0, 0x0, 0xff, 0xff, 0xff],
    [0xff, 0xf5, 0x8f, 0xff, 0xff, 0xff, 0xff, 0x10],
    [0x0, 0x0, 0x0, 0x0, 0x0, 0x0, 0x0, 0x0],
    [0x0, 0x0, 0x0, 0x0, 0x0, 0x0, 0x0, 0x0],
    [0x0, 0x0, 0xff, 0xff, 0xff, 0xff, 0xf5, 0x8f],
    [0xff, 0xff, 0xff, 0xff, 0x10, 0x0, 0x0, 0x0],
    [0x0, 0x0, 0x0, 0x0, 0x0, 0x0, 0x0, 0x0],
    [0x0, 0x0, 0x0, 0x0, 0x0, 0x0, 0x0, 0xff],
    [0xff, 0xff, 0xff, 0xf5, 0x8f, 0xff, 0xff, 0xff],
    [0xff, 0x10, 0x0, 0x0, 0x0, 0x0, 0x0, 0x0],
    [0x0, 0x0, 0x0, 0x0, 0x0, 0x0, 0x0, 0x0],
    [0x0, 0x0, 0x0, 0x0, 0xff, 0xff, 0xff, 0xff],
    [0xf5, 0x8f, 0xff, 0xff, 0xff, 0xff, 0x10, 0x0],
    [0x0, 0x0, 0x0, 0x0, 0x0, 0x0, 0x0, 0x0],
    [0x0, 0x0, 0x0, 0x0, 0x0, 0x0, 0x0, 0x0],
    [0x0, 0xff, 0xff, 0xff, 0xff, 0xf5, 0x8f, 0xff],
    [0xff, 0xff, 0xff, 0x10, 0x0, 0x0, 0x0, 0x0],
    [0x0, 0x0, 0x0, 0x0, 0x0, 0x0, 0x0, 0x0],
    [0x0, 0x0, 0x0, 0x0, 0x0, 0x0, 0xff, 0xff],
    [0xff, 0xff, 0xf5, 0x8f, 0xff, 0xff, 0xff, 0xff],
    [0x10, 0x0, 0x0, 0x0, 0x0, 0x0, 0x0, 0x0],
    [0x0, 0x0, 0x0, 0x0, 0x0, 0x0, 0x0, 0x0],
    [0x0, 0x0, 0x0, 0xff, 0xff, 0xff, 0xff, 0xf5],
    [0x8f, 0xff, 0xff, 0xff, 0xff, 0x10, 0x0, 0x0],
    [0x0, 0x0, 0x0, 0x0, 0x0, 0x0, 0x0, 0x0],
    [0x0, 0x0, 0x0, 0x0, 0x0, 0x0, 0x0, 0x0],
    [0xff, 0xff, 0xff, 0xff, 0xf5, 0x8f, 0xff, 0xff],
    [0xff, 0xff, 0x10, 0x0, 0x0, 0x0, 0x0, 0x0],
    [0x0, 0x0, 0x0, 0x0, 0x0, 0x0, 0x0, 0x0],
    [0x0, 0x0, 0x0, 0x0, 0x0, 0xff, 0xff, 0xff],
    [0xff, 0xf5, 0x8f, 0xff, 0xff, 0xff, 0xff, 0x10],
    [0x0, 0x0, 0x0, 0x0, 0x0, 0x0, 0x0, 0x0],
    [0x0, 0x0, 0x0, 0x0, 0x0, 0x0, 0x0, 0x0],
    [0x0, 0x0, 0xff, 0xff, 0xff, 0xff, 0xf5, 0x8f],
    [0xff, 0xff, 0xff, 0xff, 0x10, 0x0, 0x0, 0x0],
    [0x0, 0x0, 0x0, 0x0, 0x0, 0x0, 0x0, 0x0],
    [0x0, 0x0, 0x0, 0x0, 0x0, 0x0, 0x0, 0xff],
    [0xff, 0xff, 0xff, 0xf5, 0x8f, 0xff, 0xff, 0xff],
    [0xff, 0x10, 0x0, 0x0, 0x0, 0x0, 0x0, 0x0],
    [0x0, 0x0, 0x0, 0x0, 0x0, 0x0, 0x0, 0x0],
    [0x0, 0x0, 0x0, 0x0, 0xff, 0xff, 0xff, 0xff],
    [0xf5, 0x8f, 0xff, 0xff, 0xff, 0xff, 0x10, 0x0],
    [0x0, 0x0, 0x0, 0x0, 0x0, 0x0, 0x0, 0x0],
    [0x0, 0x0, 0x0, 0x0, 0x0, 0x0, 0x0, 0x0],
    [0x0, 0xff, 0xff, 0xff, 0xff, 0xf5, 0x8f, 0xff],
    [0xff, 0xff, 0xff, 0x10, 0x0, 0x0, 0x0, 0x0],
    [0x0, 0x0, 0x0, 0x0, 0x0, 0x0, 0x0, 0x0],
    [0x0, 0x0, 0x0, 0x0, 0x0, 0x0, 0xff, 0xff],
    [0xff, 0xff, 0xf5, 0x8f, 0xff, 0xff, 0xff, 0xff],
    [0x10, 0x0, 0x0, 0x0, 0x0, 0x0, 0x0, 0x0],
    [0x0, 0x0, 0x0, 0x0, 0x0, 0x0, 0x0, 0x0],
    [0x0, 0x0, 0x0, 0xff, 0xff, 0xff, 0xff, 0xf5],
    [0x8f, 0xff, 0xff, 0xff, 0xff, 0x10, 0x0, 0x0],
    [0x0, 0x0, 0x0, 0x0, 0x0, 0x0, 0x0, 0x0],
    [0x0, 0x0, 0x0, 0x0, 0x0, 0x0, 0x0, 0x0],
    [0xff, 0xff, 0xff, 0xff, 0xf5, 0x8f, 0xff, 0xff],
    [0xff, 0xff, 0x10, 0x0, 0x0, 0x0, 0x0, 0x0],
    [0x0, 0x0, 0x0, 0x0, 0x0, 0x0, 0x0, 0x0],
    [0x0, 0x0, 0x0, 0x0, 0x0, 0xff, 0xff, 0xff],
    [0xff, 0xf5, 0x8f, 0xff, 0xff, 0xff, 0xff, 0x10],
    [0x0, 0x0, 0x0, 0x0, 0x0, 0x0, 0x0, 0x0],
    [0x0, 0x0, 0x0, 0x0, 0x0, 0x0, 0x0, 0x0],
    [0x0, 0x0, 0xff, 0xff, 0xff, 0xff, 0xf5, 0x8f],
    [0xff, 0xff, 0xff, 0xff, 0x10, 0x0, 0x0, 0x0],
    [0x0, 0x0, 0x0, 0x0, 0x0, 0x0, 0x0, 0x0],
    [0x0, 0x0, 0x0, 0x0, 0x0, 0x0, 0x0, 0xff],
    [0xff, 0xff, 0xff, 0xf5, 0x8f, 0xff, 0xff, 0xff],
    [0xff, 0x10, 0x0, 0x0, 0x0, 0x0, 0x0, 0x0],
    [0x0, 0x0, 0x0, 0x0, 0x0, 0x0, 0x0, 0x0],
    [0x0, 0x0, 0x0, 0x0, 0xff, 0xff, 0xff, 0xff],
    [0xf5, 0x8f, 0xff, 0xff, 0xff, 0xff, 0x10, 0x0],
    [0x0, 0x0, 0x0, 0x0, 0x0, 0x0, 0x0, 0x0],
    [0x0, 0x0, 0x0, 0x0, 0x0, 0x0, 0x0, 0x0],
    [0x0, 0xff, 0xff, 0xff, 0xff, 0xf5, 0x8f, 0xff],
    [0xff, 0xff, 0xff, 0x10, 0x0, 0x0, 0x0, 0x0],
    [0x0, 0x0, 0x0, 0x0, 0x0, 0x0, 0x0, 0x0],
    [0x0, 0x0, 0x0, 0x0, 0x0, 0x0, 0xff, 0xff],
    [0xff, 0xff, 0xf5, 0x8f, 0xff, 0xff, 0xff, 0xff],
    [0x10, 0x0, 0x0, 0x0, 0x0, 0x0, 0x0, 0x0],
    [0x0, 0x0, 0x0, 0x0, 0x0, 0x0, 0x0, 0x0],
    [0x0, 0x0, 0x0, 0xff, 0xff, 0xff, 0xff, 0xf5],
    [0x8f, 0xff, 0xff, 0xff, 0xff, 0x10, 0x0, 0x0],
    [0x0, 0x0, 0x0, 0x0, 0x0, 0x0, 0x0, 0x0],
    [0x0, 0x0, 0x0, 0x0, 0x0, 0x0, 0x0, 0x0],
    [0xff, 0xff, 0xff, 0xff, 0xf5, 0x8f, 0xff, 0xff],
    [0xff, 0xff, 0x10, 0x0, 0x0, 0x0, 0x0, 0x0],
    [0x0, 0x0, 0x0, 0x0, 0x0, 0x0, 0x0, 0x0],
    [0x0, 0x0, 0x0, 0x0, 0x0, 0xff, 0xff, 0xff],
    [0xff, 0xf5, 0x8f, 0xff, 0xff, 0xff, 0xff, 0x10],
    [0x0, 0x0, 0x0, 0x0, 0x0, 0x0, 0x0, 0x0],
    [0x0, 0x0, 0x0, 0x0, 0x0, 0x0, 0x0, 0x0],
    [0x0, 0x0, 0xff, 0xff, 0xff, 0xff, 0xf5, 0x8f],
    [0xff, 0xff, 0xff, 0xff, 0x10, 0x0, 0x0, 0x0],
    [0x0, 0x0, 0x0, 0x0, 0x0, 0x0, 0x0, 0x0],
    [0x0, 0x0, 0x0, 0x0, 0x0, 0x0, 0x0, 0xff],
    [0xff, 0xff, 0xff, 0xf5, 0x8f, 0xff, 0xff, 0xff],
    [0xff, 0x10, 0x0, 0x0, 0x0, 0x0, 0x0, 0x0],
    [0x0, 0x0, 0x0, 0x0, 0x0, 0x0, 0x0, 0x0],
    [0x0, 0x0, 0x0, 0x0, 0xff, 0xff, 0xff, 0xff],
    [0xf5, 0x8f, 0xff, 0xff, 0xff, 0xff, 0x10, 0x0],
    [0x0, 0x0, 0x0, 0x0, 0x0, 0x0, 0x0, 0x0],
    [0x0, 0x0, 0x0, 0x0, 0x0, 0x0, 0x0, 0x0],
    [0x0, 0xff, 0xff, 0xff, 0xff, 0xf5, 0x8f, 0xff],
    [0xff, 0xff, 0xff, 0x10, 0x0, 0x0, 0x0, 0x0],
    [0x0, 0x0, 0x0, 0x0, 0x0, 0x0, 0x0, 0x0],
    [0x0, 0x0, 0x0, 0x0, 0x0, 0x0, 0xff, 0xff],
    [0xff, 0xff, 0xf5, 0x8f, 0xff, 0xff, 0xff, 0xff],
    [0x10, 0x0, 0x0, 0x0, 0x0, 0x0, 0x0, 0x0],
    [0x0, 0x0, 0x0, 0x0, 0x0, 0x0, 0x0, 0x0],
    [0x0, 0x0, 0x0, 0xff, 0xff, 0xff, 0xff, 0xf5],
    [0x8f, 0xff, 0xff, 0xff, 0xff, 0x10, 0x0, 0x0],
    [0x0, 0x0, 0x0, 0x0, 0x0, 0x0, 0x0, 0x0],
    [0x0, 0x0, 0x0, 0x0, 0x0, 0x0, 0x0, 0x0],
    [0xff, 0xff, 0xff, 0xff, 0xf5, 0x8f, 0xff, 0xff],
    [0xff, 0xff, 0x10, 0x0, 0x0, 0x0, 0x0, 0x0],
    [0x0, 0x0, 0x0, 0x0, 0x0, 0x0, 0x0, 0x0],
    [0x0, 0x0, 0x0, 0x0, 0x0, 0xff, 0xff, 0xff],
    [0xff, 0xf5, 0x8f, 0xff, 0xff, 0xff, 0xff, 0x10],
    [0x0, 0x0, 0x0, 0x0, 0x0, 0x0, 0x0, 0x0],
    [0x0, 0x0, 0x0, 0x0, 0x0, 0x0, 0x0, 0x0],
    [0x0, 0x0, 0xff, 0xff, 0xff, 0xff, 0xf5, 0x8f],
    [0xff, 0xff, 0xff, 0xff, 0x10, 0x0, 0x0, 0x0],
    [0x0, 0x0, 0x0, 0x0, 0x0, 0x0, 0x0, 0x0],
    [0x0, 0x0, 0x0, 0x0, 0x0, 0x0, 0x0, 0xff],
    [0xff, 0xff, 0xff, 0xf5, 0x8f, 0xff, 0xff, 0xff],
    [0xff, 0x10, 0x0, 0x0, 0x0, 0x0, 0x0, 0x0],
    [0x0, 0x0, 0x0, 0x0, 0x0, 0x0, 0x0, 0x0],
    [0x0, 0x0, 0x0, 0x0, 0xff, 0xff, 0xff, 0xff],
    [0xf5, 0x8f, 0xff, 0xff, 0xff, 0xff, 0x10, 0x0],
    [0x0, 0x0, 0x0, 0x0, 0x0, 0x0, 0x0, 0x0],
    [0x0, 0x0, 0x0, 0x0, 0x0, 0x0, 0x0, 0x0],
    [0x0, 0xff, 0xff, 0xff, 0xff, 0xf5, 0x7f, 0xff],
    [0xff, 0xff, 0xff, 0x20, 0x0, 0x0, 0x0, 0x0],
    [0x0, 0x0, 0x0, 0x0, 0x0, 0x0, 0x0, 0x0],
    [0x0, 0x0, 0x0, 0x0, 0x0, 0x0, 0xff, 0xff],
    [0xff, 0xff, 0xf5, 0x7f, 0xff, 0xff, 0xff, 0xff],
    [0x20, 0x0, 0x0, 0x0, 0x0, 0x0, 0x0, 0x0],
    [0x0, 0x0, 0x0, 0x0, 0x0, 0x0, 0x0, 0x0],
    [0x0, 0x0, 0x0, 0xff, 0xff, 0xff, 0xff, 0xf4],
    [0x6f, 0xff, 0xff, 0xff, 0xff, 0x30, 0x0, 0x0],
    [0x0, 0x0, 0x0, 0x0, 0x0, 0x0, 0x0, 0x0],
    [0x0, 0x0, 0x0, 0x0, 0x0, 0x0, 0x0, 0x1]]"

lemma glyph_U0055_a_length: "length (concat glyph_U0055_a) = 1184"
  by (simp add: glyph_U0055_a_def)

definition glyph_U0055_b :: "u8 list list" where
  "glyph_U0055_b = [
    [0xff, 0xff, 0xff, 0xff, 0xf4, 0x5f, 0xff, 0xff],
    [0xff, 0xff, 0x40, 0x0, 0x0, 0x0, 0x0, 0x0],
    [0x0, 0x0, 0x0, 0x0, 0x0, 0x0, 0x0, 0x0],
    [0x0, 0x0, 0x0, 0x0, 0x2, 0xff, 0xff, 0xff],
    [0xff, 0xf3, 0x4f, 0xff, 0xff, 0xff, 0xff, 0x60],
    [0x0, 0x0, 0x0, 0x0, 0x0, 0x0, 0x0, 0x0],
    [0x0, 0x0, 0x0, 0x0, 0x0, 0x0, 0x0, 0x0],
    [0x0, 0x4, 0xff, 0xff, 0xff, 0xff, 0xf1, 0x2f],
    [0xff, 0xff, 0xff, 0xff, 0x80, 0x0, 0x0, 0x0],
    [0x0, 0x0, 0x0, 0x0, 0x0, 0x0, 0x0, 0x0],
    [0x0, 0x0, 0x0, 0x0, 0x0, 0x0, 0x6, 0xff],
    [0xff, 0xff, 0xff, 0xf0, 0xf, 0xff, 0xff, 0xff],
    [0xff, 0xb0, 0x0, 0x0, 0x0, 0x0, 0x0, 0x0],
    [0x0, 0x0, 0x0, 0x0, 0x0, 0x0, 0x0, 0x0],
    [0x0, 0x0, 0x0, 0x9, 0xff, 0xff, 0xff, 0xff],
    [0xe0, 0xe, 0xff, 0xff, 0xff, 0xff, 0xe0, 0x0],
    [0x0, 0x0, 0x0, 0x0, 0x0, 0x0, 0x0, 0x0],
    [0x0, 0x0, 0x0, 0x0, 0x0, 0x0, 0x0, 0x0],
    [0xc, 0xff, 0xff, 0xff, 0xff, 0xb0, 0xb, 0xff],
    [0xff, 0xff, 0xff, 0xf2, 0x0, 0x0, 0x0, 0x0],
    [0x0, 0x0, 0x0, 0x0, 0x0, 0x0, 0x0, 0x0],
    [0x0, 0x0, 0x0, 0x0, 0x0, 0x1f, 0xff, 0xff],
    [0xff, 0xff, 0x80, 0x7, 0xff, 0xff, 0xff, 0xff],
    [0xf7, 0x0, 0x0, 0x0, 0x0, 0x0, 0x0, 0x0],
    [0x0, 0x0, 0x0, 0x0, 0x0, 0x0, 0x0, 0x0],
    [0x0, 0x0, 0x5f, 0xff, 0xff, 0xff, 0xff, 0x50],
    [0x3, 0xff, 0xff, 0xff, 0xff, 0xfd, 0x0, 0x0],
    [0x0, 0x0, 0x0, 0x0, 0x0, 0x0, 0x0, 0x0],
    [0x0, 0x0, 0x0, 0x0, 0x0, 0x0, 0x0, 0xbf],
    [0xff, 0xff, 0xff, 0xff, 0x10, 0x0, 0xef, 0xff],
    [0xff, 0xff, 0xff, 0x30, 0x0, 0x0, 0x0, 0x0],
    [0x0, 0x0, 0x0, 0x0, 0x0, 0x0, 0x0, 0x0],
    [0x0, 0x0, 0x0, 0x2, 0xff, 0xff, 0xff, 0xff],
    [0xfc, 0x0, 0x0, 0xaf, 0xff, 0xff, 0xff, 0xff],
    [0xb0, 0x0, 0x0, 0x0, 0x0, 0x0, 0x0, 0x0],
    [0x0, 0x0, 0x0, 0x0, 0x0, 0x0, 0x0, 0x0],
    [0x9, 0xff, 0xff, 0xff, 0xff, 0xf7, 0x0, 0x0],
    [0x4f, 0xff, 0xff, 0xff, 0xff, 0xf4, 0x0, 0x0],
    [0x0, 0x0, 0x0, 0x0, 0x0, 0x0, 0x0, 0x0],
    [0x0, 0x0, 0x0, 0x0, 0x0, 0x3f, 0xff, 0xff],
    [0xff, 0xff, 0xf2, 0x0, 0x0, 0xd, 0xff, 0xff],
    [0xff, 0xff, 0xfd, 0x10, 0x0, 0x0, 0x0, 0x0],
    [0x0, 0x0, 0x0, 0x0, 0x0, 0x0, 0x0, 0x0],
    [0x0, 0x0, 0xdf, 0xff, 0xff, 0xff, 0xff, 0xb0],
    [0x0, 0x0, 0x6, 0xff, 0xff, 0xff, 0xff, 0xff],
    [0xb0, 0x0, 0x0, 0x0, 0x0, 0x0, 0x0, 0x0],
    [0x0, 0x0, 0x0, 0x0, 0x0, 0x0, 0xa, 0xff],
    [0xff, 0xff, 0xff, 0xff, 0x40, 0x0, 0x0, 0x0],
    [0xef, 0xff, 0xff, 0xff, 0xff, 0xfa, 0x0, 0x0],
    [0x0, 0x0, 0x0, 0x0, 0x0, 0x0, 0x0, 0x0],
    [0x0, 0x0, 0x0, 0xaf, 0xff, 0xff, 0xff, 0xff],
    [0xfc, 0x0, 0x0, 0x0, 0x0, 0x5f, 0xff, 0xff],
    [0xff, 0xff, 0xff, 0xc1, 0x0, 0x0, 0x0, 0x0],
    [0x0, 0x0, 0x0, 0x0, 0x0, 0x0, 0x0, 0x1c],
    [0xff, 0xff, 0xff, 0xff, 0xff, 0xf3, 0x0, 0x0],
    [0x0, 0x0, 0xb, 0xff, 0xff, 0xff, 0xff, 0xff],
    [0xfe, 0x60, 0x0, 0x0, 0x0, 0x0, 0x0, 0x0],
    [0x0, 0x0, 0x0, 0x6, 0xef, 0xff, 0xff, 0xff],
    [0xff, 0xff, 0x90, 0x0, 0x0, 0x0, 0x0, 0x1],
    [0xef, 0xff, 0xff, 0xff, 0xff, 0xff, 0xfd, 0x61],
    [0x0, 0x0, 0x0, 0x0, 0x0, 0x0, 0x0, 0x17],
    [0xef, 0xff, 0xff, 0xff, 0xff, 0xff, 0xfd, 0x0],
    [0x0, 0x0, 0x0, 0x0, 0x0, 0x3f, 0xff, 0xff],
    [0xff, 0xff, 0xff, 0xff, 0xff, 0xc8, 0x53, 0x10],
    [0x0, 0x1, 0x35, 0x8c, 0xff, 0xff, 0xff, 0xff],
    [0xff, 0xff, 0xff, 0xe2, 0x0, 0x0, 0x0, 0x0],
    [0x0, 0x0, 0x5, 0xff, 0xff, 0xff, 0xff, 0xff],
    [0xff, 0xff, 0xff, 0xff, 0xff, 0xff, 0xff, 0xff],
    [0xff, 0xff, 0xff, 0xff, 0xff, 0xff, 0xff, 0xff],
    [0x30, 0x0, 0x0, 0x0, 0x0, 0x0, 0x0, 0x0],
    [0x5f, 0xff, 0xff, 0xff, 0xff, 0xff, 0xff, 0xff],
    [0xff, 0xff, 0xff, 0xff, 0xff, 0xff, 0xff, 0xff],
    [0xff, 0xff, 0xff, 0xff, 0xf4, 0x0, 0x0, 0x0],
    [0x0, 0x0, 0x0, 0x0, 0x0, 0x4, 0xff, 0xff],
    [0xff, 0xff, 0xff, 0xff, 0xff, 0xff, 0xff, 0xff],
    [0xff, 0xff, 0xff, 0xff, 0xff, 0xff, 0xff, 0xff],
    [0xfe, 0x30, 0x0, 0x0, 0x0, 0x0, 0x0, 0x0],
    [0x0, 0x0, 0x0, 0x1c, 0xff, 0xff, 0xff, 0xff],
    [0xff, 0xff, 0xff, 0xff, 0xff, 0xff, 0xff, 0xff],
    [0xff, 0xff, 0xff, 0xff, 0xff, 0xa1, 0x0, 0x0],
    [0x0, 0x0, 0x0, 0x0, 0x0, 0x0, 0x0, 0x0],
    [0x0, 0x6e, 0xff, 0xff, 0xff, 0xff, 0xff, 0xff],
    [0xff, 0xff, 0xff, 0xff, 0xff, 0xff, 0xff, 0xff],
    [0xff, 0xe5, 0x0, 0x0, 0x0, 0x0, 0x0, 0x0],
    [0x0, 0x0, 0x0, 0x0, 0x0, 0x0, 0x1, 0x8e],
    [0xff, 0xff, 0xff, 0xff, 0xff, 0xff, 0xff, 0xff],
    [0xff, 0xff, 0xff, 0xff, 0xff, 0xe7, 0x0, 0x0],
    [0x0, 0x0, 0x0, 0x0, 0x0, 0x0, 0x0, 0x0],
    [0x0, 0x0, 0x0, 0x0, 0x0, 0x6c, 0xff, 0xff],
    [0xff, 0xff, 0xff, 0xff, 0xff, 0xff, 0xff, 0xff],
    [0xff, 0xb5, 0x0, 0x0, 0x0, 0x0, 0x0, 0x0],
    [0x0, 0x0, 0x0, 0x0, 0x0, 0x0, 0x0, 0x0],
    [0x0, 0x0, 0x0, 0x15, 0x9c, 0xff, 0xff, 0xff],
    [0xff, 0xff, 0xff, 0xff, 0xc9, 0x50, 0x0, 0x0],
    [0x0, 0x0, 0x0, 0x0, 0x0, 0x0, 0x0, 0x0],
    [0x0, 0x0, 0x0, 0x0, 0x0, 0x0, 0x0, 0x0],
    [0x0, 0x0, 0x2, 0x45, 0x67, 0x77, 0x76, 0x53],
    [0x10, 0x0, 0x0, 0x0, 0x0, 0x0, 0x0, 0x0],
    [0x0, 0x0, 0x0, 0x0]]"

lemma glyph_U0055_b_length: "length (concat glyph_U0055_b) = 788"
  by (simp add: glyph_U0055_b_def)

definition glyph_U0056_a :: "u8 list list" where
  "glyph_U0056_a = [
    [0x7, 0x88, 0x88, 0x88, 0x88, 0x83, 0x0, 0x0],
    [0x0, 0x0, 0x0, 0x0, 0x0, 0x0, 0x0, 0x0],
    [0x0, 0x0, 0x0, 0x0, 0x0, 0x0, 0x0, 0x0],
    [0x0, 0x0, 0x0, 0x0, 0x0, 0x2, 0x88, 0x88],
    [0x88, 0x88, 0x82, 0xa, 0xff, 0xff, 0xff, 0xff],
    [0xfb, 0x0, 0x0, 0x0, 0x0, 0x0, 0x0, 0x0],
    [0x0, 0x0, 0x0, 0x0, 0x0, 0x0, 0x0, 0x0],
    [0x0, 0x0, 0x0, 0x0, 0x0, 0x0, 0x0, 0x0],
    [0x9, 0xff, 0xff, 0xff, 0xff, 0xf0, 0x3, 0xff],
    [0xff, 0xff, 0xff, 0xff, 0x20, 0x0, 0x0, 0x0],
    [0x0, 0x0, 0x0, 0x0, 0x0, 0x0, 0x0, 0x0],
    [0x0, 0x0, 0x0, 0x0, 0x0, 0x0, 0x0, 0x0],
    [0x0, 0x0, 0x0, 0x1f, 0xff, 0xff, 0xff, 0xff],
    [0x90, 0x0, 0xcf, 0xff, 0xff, 0xff, 0xff, 0x90],
    [0x0, 0x0, 0x0, 0x0, 0x0, 0x0, 0x0, 0x0],
    [0x0, 0x0, 0x0, 0x0, 0x0, 0x0, 0x0, 0x0],
    [0x0, 0x0, 0x0, 0x0, 0x0, 0x0, 0x7f, 0xff],
    [0xff, 0xff, 0xff, 0x20, 0x0, 0x5f, 0xff, 0xff],
    [0xff, 0xff, 0xf1, 0x0, 0x0, 0x0, 0x0, 0x0],
    [0x0, 0x0, 0x0, 0x0, 0x0, 0x0, 0x0, 0x0],
    [0x0, 0x0, 0x0, 0x0, 0x0, 0x0, 0x0, 0x0],
    [0x0, 0xef, 0xff, 0xff, 0xff, 0xfa, 0x0, 0x0],
    [0xd, 0xff, 0xff, 0xff, 0xff, 0xf7, 0x0, 0x0],
    [0x0, 0x0, 0x0, 0x0, 0x0, 0x0, 0x0, 0x0],
    [0x0, 0x0, 0x0, 0x0, 0x0, 0x0, 0x0, 0x0],
    [0x0, 0x0, 0x0, 0x6, 0xff, 0xff, 0xff, 0xff],
    [0xf3, 0x0, 0x0, 0x6, 0xff, 0xff, 0xff, 0xff],
    [0xfe, 0x0, 0x0, 0x0, 0x0, 0x0, 0x0, 0x0],
    [0x0, 0x0, 0x0, 0x0, 0x0, 0x0, 0x0, 0x0],
    [0x0, 0x0, 0x0, 0x0, 0x0, 0x0, 0xd, 0xff],
    [0xff, 0xff, 0xff, 0xc0, 0x0, 0x0, 0x0, 0xef],
    [0xff, 0xff, 0xff, 0xff, 0x50, 0x0, 0x0, 0x0],
    [0x0, 0x0, 0x0, 0x0, 0x0, 0x0, 0x0, 0x0],
    [0x0, 0x0, 0x0, 0x0, 0x0, 0x0, 0x0, 0x0],
    [0x0, 0x4f, 0xff, 0xff, 0xff, 0xff, 0x50, 0x0],
    [0x0, 0x0, 0x8f, 0xff, 0xff, 0xff, 0xff, 0xc0],
    [0x0, 0x0, 0x0, 0x0, 0x0, 0x0, 0x0, 0x0],
    [0x0, 0x0, 0x0, 0x0, 0x0, 0x0, 0x0, 0x0],
    [0x0, 0x0, 0x0, 0x0, 0xbf, 0xff, 0xff, 0xff],
    [0xfe, 0x0, 0x0, 0x0, 0x0, 0x1f, 0xff, 0xff],
    [0xff, 0xff, 0xf4, 0x0, 0x0, 0x0, 0x0, 0x0],
    [0x0, 0x0, 0x0, 0x0, 0x0, 0x0, 0x0, 0x0],
    [0x0, 0x0, 0x0, 0x0, 0x0, 0x0, 0x2, 0xff],
    [0xff, 0xff, 0xff, 0xf7, 0x0, 0x0, 0x0, 0x0],
    [0xa, 0xff, 0xff, 0xff, 0xff, 0xfb, 0x0, 0x0],
    [0x0, 0x0, 0x0, 0x0, 0x0, 0x0, 0x0, 0x0],
    [0x0, 0x0, 0x0, 0x0, 0x0, 0x0, 0x0, 0x0],
    [0x0, 0x9, 0xff, 0xff, 0xff, 0xff, 0xf1, 0x0],
    [0x0, 0x0, 0x0, 0x3, 0xff, 0xff, 0xff, 0xff],
    [0xff, 0x20, 0x0, 0x0, 0x0, 0x0, 0x0, 0x0],
    [0x0, 0x0, 0x0, 0x0, 0x0, 0x0, 0x0, 0x0],
    [0x0, 0x0, 0x0, 0x0, 0x1f, 0xff, 0xff, 0xff],
    [0xff, 0x90, 0x0, 0x0, 0x0, 0x0, 0x0, 0xcf],
    [0xff, 0xff, 0xff, 0xff, 0x90, 0x0, 0x0, 0x0],
    [0x0, 0x0, 0x0, 0x0, 0x0, 0x0, 0x0, 0x0],
    [0x0, 0x0, 0x0, 0x0, 0x0, 0x0, 0x0, 0x8f],
    [0xff, 0xff, 0xff, 0xff, 0x20, 0x0, 0x0, 0x0],
    [0x0, 0x0, 0x5f, 0xff, 0xff, 0xff, 0xff, 0xf1],
    [0x0, 0x0, 0x0, 0x0, 0x0, 0x0, 0x0, 0x0],
    [0x0, 0x0, 0x0, 0x0, 0x0, 0x0, 0x0, 0x0],
    [0x0, 0x0, 0xef, 0xff, 0xff, 0xff, 0xfb, 0x0],
    [0x0, 0x0, 0x0, 0x0, 0x0, 0xd, 0xff, 0xff],
    [0xff, 0xff, 0xf7, 0x0, 0x0, 0x0, 0x0, 0x0],
    [0x0, 0x0, 0x0, 0x0, 0x0, 0x0, 0x0, 0x0],
    [0x0, 0x0, 0x0, 0x0, 0x6, 0xff, 0xff, 0xff],
    [0xff, 0xf3, 0x0, 0x0, 0x0, 0x0, 0x0, 0x0],
    [0x6, 0xff, 0xff, 0xff, 0xff, 0xfe, 0x0, 0x0],
    [0x0, 0x0, 0x0, 0x0, 0x0, 0x0, 0x0, 0x0],
    [0x0, 0x0, 0x0, 0x0, 0x0, 0x0, 0x0, 0xd],
    [0xff, 0xff, 0xff, 0xff, 0xc0, 0x0, 0x0, 0x0],
    [0x0, 0x0, 0x0, 0x0, 0xef, 0xff, 0xff, 0xff],
    [0xff, 0x50, 0x0, 0x0, 0x0, 0x0, 0x0, 0x0],
    [0x0, 0x0, 0x0, 0x0, 0x0, 0x0, 0x0, 0x0],
    [0x0, 0x0, 0x4f, 0xff, 0xff, 0xff, 0xff, 0x50],
    [0x0, 0x0, 0x0, 0x0, 0x0, 0x0, 0x0, 0x8f],
    [0xff, 0xff, 0xff, 0xff, 0xc0, 0x0, 0x0, 0x0],
    [0x0, 0x0, 0x0, 0x0, 0x0, 0x0, 0x0, 0x0],
    [0x0, 0x0, 0x0, 0x0, 0x0, 0xbf, 0xff, 0xff],
    [0xff, 0xfe, 0x0, 0x0, 0x0, 0x0, 0x0, 0x0],
    [0x0, 0x0, 0x1f, 0xff, 0xff, 0xff, 0xff, 0xf3],
    [0x0, 0x0, 0x0, 0x0, 0x0, 0x0, 0x0, 0x0],
    [0x0, 0x0, 0x0, 0x0, 0x0, 0x0, 0x0, 0x3],
    [0xff, 0xff, 0xff, 0xff, 0xf7, 0x0, 0x0, 0x0],
    [0x0, 0x0, 0x0, 0x0, 0x0, 0xa, 0xff, 0xff],
    [0xff, 0xff, 0xfa, 0x0, 0x0, 0x0, 0x0, 0x0],
    [0x0, 0x0, 0x0, 0x0, 0x0, 0x0, 0x0, 0x0],
    [0x0, 0x0, 0xa, 0xff, 0xff, 0xff, 0xff, 0xf1],
    [0x0, 0x0, 0x0, 0x0, 0x0, 0x0, 0x0, 0x0],
    [0x3, 0xff, 0xff, 0xff, 0xff, 0xff, 0x20, 0x0],
    [0x0, 0x0, 0x0, 0x0, 0x0, 0x0, 0x0, 0x0],
    [0x0, 0x0, 0x0, 0x0, 0x0, 0x1f, 0xff, 0xff],
    [0xff, 0xff, 0x90, 0x0, 0x0, 0x0, 0x0, 0x0],
    [0x0, 0x0, 0x0, 0x0, 0xcf, 0xff, 0xff, 0xff],
    [0xff, 0x90, 0x0, 0x0, 0x0, 0x0, 0x0, 0x0],
    [0x0, 0x0, 0x0, 0x0, 0x0, 0x0, 0x0, 0x0],
    [0x8f, 0xff, 0xff, 0xff, 0xff, 0x20, 0x0, 0x0],
    [0x0, 0x0, 0x0, 0x0, 0x0, 0x0, 0x0, 0x5f],
    [0xff, 0xff, 0xff, 0xff, 0xf0, 0x0, 0x0, 0x0],
    [0x0, 0x0, 0x0, 0x0, 0x0, 0x0, 0x0, 0x0],
    [0x0, 0x0, 0x0, 0xef, 0xff, 0xff, 0xff, 0xfb],
    [0x0, 0x0, 0x0, 0x0, 0x0, 0x0, 0x0, 0x0],
    [0x0, 0x0, 0xd, 0xff, 0xff, 0xff, 0xff, 0xf7],
    [0x0, 0x0, 0x0, 0x0, 0x0, 0x0, 0x0, 0x0],
    [0x0, 0x0, 0x0, 0x0, 0x0, 0x6, 0xff, 0xff],
    [0xff, 0xff, 0xf4, 0x0, 0x0, 0x0, 0x0, 0x0],
    [0x0, 0x0, 0x0, 0x0, 0x0, 0x6, 0xff, 0xff],
    [0xff, 0xff, 0xfe, 0x0, 0x0, 0x0, 0x0, 0x0],
    [0x0, 0x0, 0x0, 0x0, 0x0, 0x0, 0x0, 0x0],
    [0xd, 0xff, 0xff, 0xff, 0xff, 0xc0, 0x0, 0x0],
    [0x0, 0x0, 0x0, 0x0, 0x0, 0x0, 0x0, 0x0],
    [0x0, 0xef, 0xff, 0xff, 0xff, 0xff, 0x50, 0x0],
    [0x0, 0x0, 0x0, 0x0, 0x0, 0x0, 0x0, 0x0],
    [0x0, 0x0, 0x0, 0x5f, 0xff, 0xff, 0xff, 0xff],
    [0x50, 0x0, 0x0, 0x0, 0x0, 0x0, 0x0, 0x0],
    [0x0, 0x0, 0x0, 0x0, 0x8f, 0xff, 0xff, 0xff],
    [0xff, 0xc0, 0x0, 0x0, 0x0, 0x0, 0x0, 0x0],
    [0x0, 0x0, 0x0, 0x0, 0x0, 0x0, 0xcf, 0xff],
    [0xff, 0xff, 0xfe, 0x0, 0x0, 0x0, 0x0, 0x0],
    [0x0, 0x0, 0x0, 0x0, 0x0, 0x0, 0x0, 0x1f],
    [0xff, 0xff, 0xff, 0xff, 0xf3, 0x0, 0x0, 0x0],
    [0x0, 0x0, 0x0, 0x0, 0x0, 0x0, 0x0, 0x0],
    [0x3, 0xff, 0xff, 0xff, 0xff, 0xf7, 0x0, 0x0],
    [0x0, 0x0, 0x0, 0x0, 0x0, 0x0, 0x0, 0x0],
    [0x0, 0x0, 0xa, 0xff, 0xff, 0xff, 0xff, 0xfa],
    [0x0, 0x0, 0x0, 0x0, 0x0, 0x0, 0x0, 0x0],
    [0x0, 0x0, 0x0, 0xa, 0xff, 0xff, 0xff, 0xff],
    [0xf1, 0x0, 0x0, 0x0, 0x0, 0x0, 0x0, 0x0],
    [0x0, 0x0, 0x0, 0x0, 0x0, 0x3, 0xff, 0xff],
    [0xff, 0xff, 0xff, 0x20, 0x0, 0x0, 0x0, 0x0],
    [0x0, 0x0, 0x0, 0x0, 0x0, 0x0, 0x1f, 0xff],
    [0xff, 0xff, 0xff, 0x90, 0x0, 0x0, 0x0, 0x0],
    [0x0, 0x0, 0x0, 0x0, 0x0, 0x0, 0x0, 0x0],
    [0x0, 0xcf, 0xff, 0xff, 0xff, 0xff, 0x80, 0x0],
    [0x0, 0x0, 0x0, 0x0, 0x0, 0x0, 0x0, 0x0],
    [0x0, 0x8f, 0xff, 0xff, 0xff, 0xff, 0x20, 0x0],
    [0x0, 0x0, 0x0, 0x0, 0x0, 0x0, 0x0, 0x0],
    [0x0, 0x0, 0x0, 0x0, 0x5f, 0xff, 0xff, 0xff],
    [0xff, 0xf0, 0x0, 0x0, 0x0, 0x0, 0x0, 0x0],
    [0x0, 0x0, 0x0, 0x0, 0xff, 0xff, 0xff, 0xff],
    [0xfb, 0x0, 0x0, 0x0, 0x0, 0x0, 0x0, 0x0],
    [0x0, 0x0, 0x0, 0x0, 0x0, 0x0, 0x0, 0xd],
    [0xff, 0xff, 0xff, 0xff, 0xf7, 0x0, 0x0, 0x0],
    [0x0, 0x0, 0x0, 0x0, 0x0, 0x0, 0x7, 0xff],
    [0xff, 0xff, 0xff, 0xf4, 0x0, 0x0, 0x0, 0x0],
    [0x0, 0x0, 0x0, 0x0, 0x0, 0x0, 0x0, 0x0],
    [0x0, 0x0, 0x6, 0xff, 0xff, 0xff, 0xff, 0xfd],
    [0x0, 0x0, 0x0, 0x0, 0x0, 0x0, 0x0, 0x0],
    [0x0, 0xd, 0xff, 0xff, 0xff, 0xff, 0xd0, 0x0]]"

lemma glyph_U0056_a_length: "length (concat glyph_U0056_a) = 1184"
  by (simp add: glyph_U0056_a_def)

definition glyph_U0056_b :: "u8 list list" where
  "glyph_U0056_b = [
    [0x0, 0x0, 0x0, 0x0, 0x0, 0x0, 0x0, 0x0],
    [0x0, 0x0, 0x0, 0x0, 0x0, 0x0, 0xef, 0xff],
    [0xff, 0xff, 0xff, 0x50, 0x0, 0x0, 0x0, 0x0],
    [0x0, 0x0, 0x0, 0x0, 0x5f, 0xff, 0xff, 0xff],
    [0xff, 0x60, 0x0, 0x0, 0x0, 0x0, 0x0, 0x0],
    [0x0, 0x0, 0x0, 0x0, 0x0, 0x0, 0x0, 0x0],
    [0x0, 0x8f, 0xff, 0xff, 0xff, 0xff, 0xc0, 0x0],
    [0x0, 0x0, 0x0, 0x0, 0x0, 0x0, 0x0, 0xcf],
    [0xff, 0xff, 0xff, 0xfe, 0x0, 0x0, 0x0, 0x0],
    [0x0, 0x0, 0x0, 0x0, 0x0, 0x0, 0x0, 0x0],
    [0x0, 0x0, 0x0, 0x0, 0x1f, 0xff, 0xff, 0xff],
    [0xff, 0xf3, 0x0, 0x0, 0x0, 0x0, 0x0, 0x0],
    [0x0, 0x3, 0xff, 0xff, 0xff, 0xff, 0xf7, 0x0],
    [0x0, 0x0, 0x0, 0x0, 0x0, 0x0, 0x0, 0x0],
    [0x0, 0x0, 0x0, 0x0, 0x0, 0x0, 0x0, 0xa],
    [0xff, 0xff, 0xff, 0xff, 0xfa, 0x0, 0x0, 0x0],
    [0x0, 0x0, 0x0, 0x0, 0xa, 0xff, 0xff, 0xff],
    [0xff, 0xf1, 0x0, 0x0, 0x0, 0x0, 0x0, 0x0],
    [0x0, 0x0, 0x0, 0x0, 0x0, 0x0, 0x0, 0x0],
    [0x0, 0x0, 0x3, 0xff, 0xff, 0xff, 0xff, 0xff],
    [0x10, 0x0, 0x0, 0x0, 0x0, 0x0, 0x0, 0x2f],
    [0xff, 0xff, 0xff, 0xff, 0x90, 0x0, 0x0, 0x0],
    [0x0, 0x0, 0x0, 0x0, 0x0, 0x0, 0x0, 0x0],
    [0x0, 0x0, 0x0, 0x0, 0x0, 0x0, 0xcf, 0xff],
    [0xff, 0xff, 0xff, 0x80, 0x0, 0x0, 0x0, 0x0],
    [0x0, 0x0, 0x8f, 0xff, 0xff, 0xff, 0xff, 0x20],
    [0x0, 0x0, 0x0, 0x0, 0x0, 0x0, 0x0, 0x0],
    [0x0, 0x0, 0x0, 0x0, 0x0, 0x0, 0x0, 0x0],
    [0x0, 0x5f, 0xff, 0xff, 0xff, 0xff, 0xf0, 0x0],
    [0x0, 0x0, 0x0, 0x0, 0x0, 0xff, 0xff, 0xff],
    [0xff, 0xfb, 0x0, 0x0, 0x0, 0x0, 0x0, 0x0],
    [0x0, 0x0, 0x0, 0x0, 0x0, 0x0, 0x0, 0x0],
    [0x0, 0x0, 0x0, 0x0, 0xd, 0xff, 0xff, 0xff],
    [0xff, 0xf6, 0x0, 0x0, 0x0, 0x0, 0x0, 0x7],
    [0xff, 0xff, 0xff, 0xff, 0xf4, 0x0, 0x0, 0x0],
    [0x0, 0x0, 0x0, 0x0, 0x0, 0x0, 0x0, 0x0],
    [0x0, 0x0, 0x0, 0x0, 0x0, 0x0, 0x0, 0x6],
    [0xff, 0xff, 0xff, 0xff, 0xfd, 0x0, 0x0, 0x0],
    [0x0, 0x0, 0xe, 0xff, 0xff, 0xff, 0xff, 0xd0],
    [0x0, 0x0, 0x0, 0x0, 0x0, 0x0, 0x0, 0x0],
    [0x0, 0x0, 0x0, 0x0, 0x0, 0x0, 0x0, 0x0],
    [0x0, 0x0, 0x0, 0xef, 0xff, 0xff, 0xff, 0xff],
    [0x50, 0x0, 0x0, 0x0, 0x0, 0x5f, 0xff, 0xff],
    [0xff, 0xff, 0x60, 0x0, 0x0, 0x0, 0x0, 0x0],
    [0x0, 0x0, 0x0, 0x0, 0x0, 0x0, 0x0, 0x0],
    [0x0, 0x0, 0x0, 0x0, 0x0, 0x0, 0x8f, 0xff],
    [0xff, 0xff, 0xff, 0xc0, 0x0, 0x0, 0x0, 0x0],
    [0xcf, 0xff, 0xff, 0xff, 0xfe, 0x0, 0x0, 0x0],
    [0x0, 0x0, 0x0, 0x0, 0x0, 0x0, 0x0, 0x0],
    [0x0, 0x0, 0x0, 0x0, 0x0, 0x0, 0x0, 0x0],
    [0x0, 0x1f, 0xff, 0xff, 0xff, 0xff, 0xf3, 0x0],
    [0x0, 0x0, 0x3, 0xff, 0xff, 0xff, 0xff, 0xf8],
    [0x0, 0x0, 0x0, 0x0, 0x0, 0x0, 0x0, 0x0],
    [0x0, 0x0, 0x0, 0x0, 0x0, 0x0, 0x0, 0x0],
    [0x0, 0x0, 0x0, 0x0, 0xa, 0xff, 0xff, 0xff],
    [0xff, 0xfa, 0x0, 0x0, 0x0, 0xa, 0xff, 0xff],
    [0xff, 0xff, 0xf1, 0x0, 0x0, 0x0, 0x0, 0x0],
    [0x0, 0x0, 0x0, 0x0, 0x0, 0x0, 0x0, 0x0],
    [0x0, 0x0, 0x0, 0x0, 0x0, 0x0, 0x0, 0x3],
    [0xff, 0xff, 0xff, 0xff, 0xff, 0x10, 0x0, 0x0],
    [0x2f, 0xff, 0xff, 0xff, 0xff, 0x90, 0x0, 0x0],
    [0x0, 0x0, 0x0, 0x0, 0x0, 0x0, 0x0, 0x0],
    [0x0, 0x0, 0x0, 0x0, 0x0, 0x0, 0x0, 0x0],
    [0x0, 0x0, 0x0, 0xcf, 0xff, 0xff, 0xff, 0xff],
    [0x80, 0x0, 0x0, 0x9f, 0xff, 0xff, 0xff, 0xff],
    [0x20, 0x0, 0x0, 0x0, 0x0, 0x0, 0x0, 0x0],
    [0x0, 0x0, 0x0, 0x0, 0x0, 0x0, 0x0, 0x0],
    [0x0, 0x0, 0x0, 0x0, 0x0, 0x0, 0x5f, 0xff],
    [0xff, 0xff, 0xff, 0xe0, 0x0, 0x1, 0xff, 0xff],
    [0xff, 0xff, 0xfb, 0x0, 0x0, 0x0, 0x0, 0x0],
    [0x0, 0x0, 0x0, 0x0, 0x0, 0x0, 0x0, 0x0],
    [0x0, 0x0, 0x0, 0x0, 0x0, 0x0, 0x0, 0x0],
    [0x0, 0xd, 0xff, 0xff, 0xff, 0xff, 0xf6, 0x0],
    [0x7, 0xff, 0xff, 0xff, 0xff, 0xf4, 0x0, 0x0],
    [0x0, 0x0, 0x0, 0x0, 0x0, 0x0, 0x0, 0x0],
    [0x0, 0x0, 0x0, 0x0, 0x0, 0x0, 0x0, 0x0],
    [0x0, 0x0, 0x0, 0x0, 0x6, 0xff, 0xff, 0xff],
    [0xff, 0xfd, 0x0, 0xe, 0xff, 0xff, 0xff, 0xff],
    [0xd0, 0x0, 0x0, 0x0, 0x0, 0x0, 0x0, 0x0],
    [0x0, 0x0, 0x0, 0x0, 0x0, 0x0, 0x0, 0x0],
    [0x0, 0x0, 0x0, 0x0, 0x0, 0x0, 0x0, 0x0],
    [0xef, 0xff, 0xff, 0xff, 0xff, 0x40, 0x5f, 0xff],
    [0xff, 0xff, 0xff, 0x60, 0x0, 0x0, 0x0, 0x0],
    [0x0, 0x0, 0x0, 0x0, 0x0, 0x0, 0x0, 0x0],
    [0x0, 0x0, 0x0, 0x0, 0x0, 0x0, 0x0, 0x0],
    [0x0, 0x0, 0x0, 0x8f, 0xff, 0xff, 0xff, 0xff],
    [0xb0, 0xcf, 0xff, 0xff, 0xff, 0xfe, 0x0, 0x0],
    [0x0, 0x0, 0x0, 0x0, 0x0, 0x0, 0x0, 0x0],
    [0x0, 0x0, 0x0, 0x0, 0x0, 0x0, 0x0, 0x0],
    [0x0, 0x0, 0x0, 0x0, 0x0, 0x0, 0x1f, 0xff],
    [0xff, 0xff, 0xff, 0xf7, 0xff, 0xff, 0xff, 0xff],
    [0xf8, 0x0, 0x0, 0x0, 0x0, 0x0, 0x0, 0x0],
    [0x0, 0x0, 0x0, 0x0, 0x0, 0x0, 0x0, 0x0],
    [0x0, 0x0, 0x0, 0x0, 0x0, 0x0, 0x0, 0x0],
    [0x0, 0xa, 0xff, 0xff, 0xff, 0xff, 0xff, 0xff],
    [0xff, 0xff, 0xff, 0xf1, 0x0, 0x0, 0x0, 0x0],
    [0x0, 0x0, 0x0, 0x0, 0x0, 0x0, 0x0, 0x0],
    [0x0, 0x0, 0x0, 0x0, 0x0, 0x0, 0x0, 0x0],
    [0x0, 0x0, 0x0, 0x0, 0x3, 0xff, 0xff, 0xff],
    [0xff, 0xff, 0xff, 0xff, 0xff, 0xff, 0x90, 0x0],
    [0x0, 0x0, 0x0, 0x0, 0x0, 0x0, 0x0, 0x0],
    [0x0, 0x0, 0x0, 0x0, 0x0, 0x0, 0x0, 0x0],
    [0x0, 0x0, 0x0, 0x0, 0x0, 0x0, 0x0, 0x0],
    [0xcf, 0xff, 0xff, 0xff, 0xff, 0xff, 0xff, 0xff],
    [0xff, 0x20, 0x0, 0x0, 0x0, 0x0, 0x0, 0x0],
    [0x0, 0x0, 0x0, 0x0, 0x0, 0x0, 0x0, 0x0],
    [0x0, 0x0, 0x0, 0x0, 0x0, 0x0, 0x0, 0x0],
    [0x0, 0x0, 0x0, 0x5f, 0xff, 0xff, 0xff, 0xff],
    [0xff, 0xff, 0xff, 0xfb, 0x0, 0x0, 0x0, 0x0],
    [0x0, 0x0, 0x0, 0x0, 0x0, 0x0, 0x0, 0x0],
    [0x0, 0x0, 0x0, 0x0, 0x0, 0x0, 0x0, 0x0],
    [0x0, 0x0, 0x0, 0x0, 0x0, 0x0, 0xd, 0xff],
    [0xff, 0xff, 0xff, 0xff, 0xff, 0xff, 0xf4, 0x0],
    [0x0, 0x0, 0x0, 0x0, 0x0, 0x0, 0x0, 0x0],
    [0x0, 0x0, 0x0, 0x0, 0x0, 0x0, 0x0, 0x0],
    [0x0, 0x0, 0x0, 0x0, 0x0, 0x0, 0x0, 0x0],
    [0x0, 0x6, 0xff, 0xff, 0xff, 0xff, 0xff, 0xff],
    [0xff, 0xd0, 0x0, 0x0, 0x0, 0x0, 0x0, 0x0],
    [0x0, 0x0, 0x0, 0x0, 0x0, 0x0, 0x0, 0x0],
    [0x0, 0x0, 0x0, 0x0, 0x0, 0x0, 0x0, 0x0],
    [0x0, 0x0, 0x0, 0x0, 0x0, 0xef, 0xff, 0xff],
    [0xff, 0xff, 0xff, 0xff, 0x60, 0x0, 0x0, 0x0],
    [0x0, 0x0, 0x0, 0x0, 0x0, 0x0, 0x0, 0x0],
    [0x0, 0x0, 0x0, 0x0, 0x0, 0x0, 0x0, 0x0],
    [0x0, 0x0, 0x0, 0x0, 0x0, 0x0, 0x0, 0x0],
    [0x8f, 0xff, 0xff, 0xff, 0xff, 0xff, 0xfe, 0x0],
    [0x0, 0x0, 0x0, 0x0, 0x0, 0x0, 0x0, 0x0],
    [0x0, 0x0, 0x0, 0x0, 0x0, 0x0, 0x0, 0x0],
    [0x0, 0x0, 0x0, 0x0, 0x0, 0x0, 0x0, 0x0],
    [0x0, 0x0, 0x0, 0x1f, 0xff, 0xff, 0xff, 0xff],
    [0xff, 0xf8, 0x0, 0x0, 0x0, 0x0, 0x0, 0x0],
    [0x0, 0x0, 0x0, 0x0, 0x0, 0x0, 0x0, 0x0],
    [0x0, 0x0, 0x0, 0x0, 0x0, 0x0, 0x0, 0x0],
    [0x0, 0x0, 0x0, 0x0, 0x0, 0x0, 0xa, 0xff],
    [0xff, 0xff, 0xff, 0xff, 0xf1, 0x0, 0x0, 0x0],
    [0x0, 0x0, 0x0, 0x0, 0x0, 0x0, 0x0, 0x0],
    [0x0, 0x0, 0x0, 0x0, 0x0, 0x0, 0x0, 0x0],
    [0x0, 0x0, 0x0, 0x0, 0x0, 0x0, 0x0, 0x0],
    [0x0, 0x3, 0xff, 0xff, 0xff, 0xff, 0xff, 0xa0],
    [0x0, 0x0, 0x0, 0x0, 0x0, 0x0, 0x0, 0x0],
    [0x0, 0x0, 0x0, 0x0, 0x0, 0x0, 0x0, 0x0],
    [0x0, 0x0, 0x0, 0x0, 0x0, 0x0, 0x0, 0x0],
    [0x0, 0x0, 0x0, 0x0, 0x0, 0xcf, 0xff, 0xff],
    [0xff, 0xff, 0x30, 0x0, 0x0, 0x0, 0x0, 0x0],
    [0x0, 0x0, 0x0, 0x0, 0x0, 0x0, 0x0, 0x0],
    [0x0]]"

lemma glyph_U0056_b_length: "length (concat glyph_U0056_b) = 1161"
  by (simp add: glyph_U0056_b_def)

definition glyph_U0057_a :: "u8 list list" where
  "glyph_U0057_a = [
    [0x68, 0x88, 0x88, 0x88, 0x87, 0x0, 0x0, 0x0],
    [0x0, 0x0, 0x0, 0x0, 0x0, 0x0, 0x0, 0x0],
    [0x0, 0x0, 0x0, 0x0, 0x0, 0x0, 0x0, 0x7],
    [0x88, 0x88, 0x88, 0x87, 0x0, 0x0, 0x0, 0x0],
    [0x0, 0x0, 0x0, 0x0, 0x0, 0x0, 0x0, 0x0],
    [0x0, 0x0, 0x0, 0x0, 0x0, 0x0, 0x18, 0x88],
    [0x88, 0x88, 0x87, 0x9, 0xff, 0xff, 0xff, 0xff],
    [0xf4, 0x0, 0x0, 0x0, 0x0, 0x0, 0x0, 0x0],
    [0x0, 0x0, 0x0, 0x0, 0x0, 0x0, 0x0, 0x0],
    [0x0, 0x0, 0x5, 0xff, 0xff, 0xff, 0xff, 0xf2],
    [0x0, 0x0, 0x0, 0x0, 0x0, 0x0, 0x0, 0x0],
    [0x0, 0x0, 0x0, 0x0, 0x0, 0x0, 0x0, 0x0],
    [0x0, 0x6, 0xff, 0xff, 0xff, 0xff, 0xb0, 0x3f],
    [0xff, 0xff, 0xff, 0xff, 0x90, 0x0, 0x0, 0x0],
    [0x0, 0x0, 0x0, 0x0, 0x0, 0x0, 0x0, 0x0],
    [0x0, 0x0, 0x0, 0x0, 0x0, 0x0, 0xaf, 0xff],
    [0xff, 0xff, 0xff, 0x80, 0x0, 0x0, 0x0, 0x0],
    [0x0, 0x0, 0x0, 0x0, 0x0, 0x0, 0x0, 0x0],
    [0x0, 0x0, 0x0, 0x0, 0x0, 0xcf, 0xff, 0xff],
    [0xff, 0xf5, 0x0, 0xef, 0xff, 0xff, 0xff, 0xfe],
    [0x0, 0x0, 0x0, 0x0, 0x0, 0x0, 0x0, 0x0],
    [0x0, 0x0, 0x0, 0x0, 0x0, 0x0, 0x0, 0x0],
    [0x0, 0x1f, 0xff, 0xff, 0xff, 0xff, 0xfd, 0x0],
    [0x0, 0x0, 0x0, 0x0, 0x0, 0x0, 0x0, 0x0],
    [0x0, 0x0, 0x0, 0x0, 0x0, 0x0, 0x0, 0x0],
    [0x1f, 0xff, 0xff, 0xff, 0xff, 0x0, 0x9, 0xff],
    [0xff, 0xff, 0xff, 0xf4, 0x0, 0x0, 0x0, 0x0],
    [0x0, 0x0, 0x0, 0x0, 0x0, 0x0, 0x0, 0x0],
    [0x0, 0x0, 0x0, 0x0, 0x6, 0xff, 0xff, 0xff],
    [0xff, 0xff, 0xf3, 0x0, 0x0, 0x0, 0x0, 0x0],
    [0x0, 0x0, 0x0, 0x0, 0x0, 0x0, 0x0, 0x0],
    [0x0, 0x0, 0x0, 0x7, 0xff, 0xff, 0xff, 0xff],
    [0xa0, 0x0, 0x3f, 0xff, 0xff, 0xff, 0xff, 0xa0],
    [0x0, 0x0, 0x0, 0x0, 0x0, 0x0, 0x0, 0x0],
    [0x0, 0x0, 0x0, 0x0, 0x0, 0x0, 0x0, 0x0],
    [0xbf, 0xff, 0xff, 0xff, 0xff, 0xff, 0x80, 0x0],
    [0x0, 0x0, 0x0, 0x0, 0x0, 0x0, 0x0, 0x0],
    [0x0, 0x0, 0x0, 0x0, 0x0, 0x0, 0x0, 0xcf],
    [0xff, 0xff, 0xff, 0xf5, 0x0, 0x0, 0xef, 0xff],
    [0xff, 0xff, 0xff, 0x0, 0x0, 0x0, 0x0, 0x0],
    [0x0, 0x0, 0x0, 0x0, 0x0, 0x0, 0x0, 0x0],
    [0x0, 0x0, 0x0, 0x1f, 0xff, 0xff, 0xff, 0xff],
    [0xff, 0xfe, 0x0, 0x0, 0x0, 0x0, 0x0, 0x0],
    [0x0, 0x0, 0x0, 0x0, 0x0, 0x0, 0x0, 0x0],
    [0x0, 0x0, 0x2f, 0xff, 0xff, 0xff, 0xff, 0x0],
    [0x0, 0x8, 0xff, 0xff, 0xff, 0xff, 0xf4, 0x0],
    [0x0, 0x0, 0x0, 0x0, 0x0, 0x0, 0x0, 0x0],
    [0x0, 0x0, 0x0, 0x0, 0x0, 0x0, 0x6, 0xff],
    [0xff, 0xff, 0xff, 0xff, 0xff, 0xf3, 0x0, 0x0],
    [0x0, 0x0, 0x0, 0x0, 0x0, 0x0, 0x0, 0x0],
    [0x0, 0x0, 0x0, 0x0, 0x0, 0x7, 0xff, 0xff],
    [0xff, 0xff, 0xa0, 0x0, 0x0, 0x3f, 0xff, 0xff],
    [0xff, 0xff, 0xa0, 0x0, 0x0, 0x0, 0x0, 0x0],
    [0x0, 0x0, 0x0, 0x0, 0x0, 0x0, 0x0, 0x0],
    [0x0, 0x0, 0xcf, 0xff, 0xff, 0xff, 0xff, 0xff],
    [0xff, 0x90, 0x0, 0x0, 0x0, 0x0, 0x0, 0x0],
    [0x0, 0x0, 0x0, 0x0, 0x0, 0x0, 0x0, 0x0],
    [0x0, 0xdf, 0xff, 0xff, 0xff, 0xf5, 0x0, 0x0],
    [0x0, 0xef, 0xff, 0xff, 0xff, 0xff, 0x0, 0x0],
    [0x0, 0x0, 0x0, 0x0, 0x0, 0x0, 0x0, 0x0],
    [0x0, 0x0, 0x0, 0x0, 0x0, 0x2f, 0xff, 0xff],
    [0xff, 0xff, 0xff, 0xff, 0xfe, 0x0, 0x0, 0x0],
    [0x0, 0x0, 0x0, 0x0, 0x0, 0x0, 0x0, 0x0],
    [0x0, 0x0, 0x0, 0x0, 0x2f, 0xff, 0xff, 0xff],
    [0xff, 0x0, 0x0, 0x0, 0x8, 0xff, 0xff, 0xff],
    [0xff, 0xf4, 0x0, 0x0, 0x0, 0x0, 0x0, 0x0],
    [0x0, 0x0, 0x0, 0x0, 0x0, 0x0, 0x0, 0x0],
    [0x7, 0xff, 0xff, 0xff, 0xff, 0xff, 0xff, 0xff],
    [0xf4, 0x0, 0x0, 0x0, 0x0, 0x0, 0x0, 0x0],
    [0x0, 0x0, 0x0, 0x0, 0x0, 0x0, 0x0, 0x8],
    [0xff, 0xff, 0xff, 0xff, 0xa0, 0x0, 0x0, 0x0],
    [0x3f, 0xff, 0xff, 0xff, 0xff, 0xa0, 0x0, 0x0],
    [0x0, 0x0, 0x0, 0x0, 0x0, 0x0, 0x0, 0x0],
    [0x0, 0x0, 0x0, 0x0, 0xdf, 0xff, 0xff, 0xff],
    [0xff, 0xff, 0xff, 0xff, 0x90, 0x0, 0x0, 0x0],
    [0x0, 0x0, 0x0, 0x0, 0x0, 0x0, 0x0, 0x0],
    [0x0, 0x0, 0x0, 0xdf, 0xff, 0xff, 0xff, 0xf5],
    [0x0, 0x0, 0x0, 0x0, 0xdf, 0xff, 0xff, 0xff],
    [0xff, 0x0, 0x0, 0x0, 0x0, 0x0, 0x0, 0x0],
    [0x0, 0x0, 0x0, 0x0, 0x0, 0x0, 0x0, 0x2f],
    [0xff, 0xff, 0xff, 0xff, 0xff, 0xff, 0xff, 0xfe],
    [0x0, 0x0, 0x0, 0x0, 0x0, 0x0, 0x0, 0x0],
    [0x0, 0x0, 0x0, 0x0, 0x0, 0x0, 0x3f, 0xff],
    [0xff, 0xff, 0xff, 0x0, 0x0, 0x0, 0x0, 0x8],
    [0xff, 0xff, 0xff, 0xff, 0xf5, 0x0, 0x0, 0x0],
    [0x0, 0x0, 0x0, 0x0, 0x0, 0x0, 0x0, 0x0],
    [0x0, 0x0, 0x8, 0xff, 0xff, 0xff, 0xff, 0xff],
    [0xff, 0xff, 0xff, 0xf4, 0x0, 0x0, 0x0, 0x0],
    [0x0, 0x0, 0x0, 0x0, 0x0, 0x0, 0x0, 0x0],
    [0x0, 0x8, 0xff, 0xff, 0xff, 0xff, 0xa0, 0x0],
    [0x0, 0x0, 0x0, 0x3f, 0xff, 0xff, 0xff, 0xff],
    [0xa0, 0x0, 0x0, 0x0, 0x0, 0x0, 0x0, 0x0],
    [0x0, 0x0, 0x0, 0x0, 0x0, 0x0, 0xef, 0xff],
    [0xff, 0xff, 0xea, 0xff, 0xff, 0xff, 0xff, 0x90],
    [0x0, 0x0, 0x0, 0x0, 0x0, 0x0, 0x0, 0x0],
    [0x0, 0x0, 0x0, 0x0, 0x0, 0xdf, 0xff, 0xff],
    [0xff, 0xf4, 0x0, 0x0, 0x0, 0x0, 0x0, 0xdf],
    [0xff, 0xff, 0xff, 0xff, 0x0, 0x0, 0x0, 0x0],
    [0x0, 0x0, 0x0, 0x0, 0x0, 0x0, 0x0, 0x0],
    [0x0, 0x3f, 0xff, 0xff, 0xff, 0xf9, 0x4f, 0xff],
    [0xff, 0xff, 0xfe, 0x0, 0x0, 0x0, 0x0, 0x0],
    [0x0, 0x0, 0x0, 0x0, 0x0, 0x0, 0x0, 0x0],
    [0x3f, 0xff, 0xff, 0xff, 0xfe, 0x0, 0x0, 0x0],
    [0x0, 0x0, 0x8, 0xff, 0xff, 0xff, 0xff, 0xf5],
    [0x0, 0x0, 0x0, 0x0, 0x0, 0x0, 0x0, 0x0],
    [0x0, 0x0, 0x0, 0x0, 0x9, 0xff, 0xff, 0xff],
    [0xff, 0x30, 0xef, 0xff, 0xff, 0xff, 0xf4, 0x0],
    [0x0, 0x0, 0x0, 0x0, 0x0, 0x0, 0x0, 0x0],
    [0x0, 0x0, 0x0, 0x8, 0xff, 0xff, 0xff, 0xff],
    [0x90, 0x0, 0x0, 0x0, 0x0, 0x0, 0x2f, 0xff],
    [0xff, 0xff, 0xff, 0xa0, 0x0, 0x0, 0x0, 0x0],
    [0x0, 0x0, 0x0, 0x0, 0x0, 0x0, 0x0, 0x0],
    [0xef, 0xff, 0xff, 0xff, 0xe0, 0x9, 0xff, 0xff],
    [0xff, 0xff, 0xa0, 0x0, 0x0, 0x0, 0x0, 0x0],
    [0x0, 0x0, 0x0, 0x0, 0x0, 0x0, 0x0, 0xef],
    [0xff, 0xff, 0xff, 0xf4, 0x0, 0x0, 0x0, 0x0],
    [0x0, 0x0, 0xdf, 0xff, 0xff, 0xff, 0xff, 0x0],
    [0x0, 0x0, 0x0, 0x0, 0x0, 0x0, 0x0, 0x0],
    [0x0, 0x0, 0x0, 0x4f, 0xff, 0xff, 0xff, 0xf8],
    [0x0, 0x4f, 0xff, 0xff, 0xff, 0xff, 0x0, 0x0],
    [0x0, 0x0, 0x0, 0x0, 0x0, 0x0, 0x0, 0x0],
    [0x0, 0x0, 0x3f, 0xff, 0xff, 0xff, 0xfe, 0x0],
    [0x0, 0x0, 0x0, 0x0, 0x0, 0x8, 0xff, 0xff],
    [0xff, 0xff, 0xf5, 0x0, 0x0, 0x0, 0x0, 0x0],
    [0x0, 0x0, 0x0, 0x0, 0x0, 0x0, 0xa, 0xff],
    [0xff, 0xff, 0xff, 0x30, 0x0, 0xef, 0xff, 0xff],
    [0xff, 0xf5, 0x0, 0x0, 0x0, 0x0, 0x0, 0x0],
    [0x0, 0x0, 0x0, 0x0, 0x0, 0x9, 0xff, 0xff],
    [0xff, 0xff, 0x90, 0x0, 0x0, 0x0, 0x0, 0x0],
    [0x0, 0x2f, 0xff, 0xff, 0xff, 0xff, 0xa0, 0x0],
    [0x0, 0x0, 0x0, 0x0, 0x0, 0x0, 0x0, 0x0],
    [0x0, 0x0, 0xff, 0xff, 0xff, 0xff, 0xd0, 0x0],
    [0x9, 0xff, 0xff, 0xff, 0xff, 0xa0, 0x0, 0x0],
    [0x0, 0x0, 0x0, 0x0, 0x0, 0x0, 0x0, 0x0],
    [0x0, 0xef, 0xff, 0xff, 0xff, 0xf4, 0x0, 0x0],
    [0x0, 0x0, 0x0, 0x0, 0x0, 0xdf, 0xff, 0xff],
    [0xff, 0xff, 0x0, 0x0, 0x0, 0x0, 0x0, 0x0],
    [0x0, 0x0, 0x0, 0x0, 0x0, 0x5f, 0xff, 0xff],
    [0xff, 0xf8, 0x0, 0x0, 0x3f, 0xff, 0xff, 0xff],
    [0xff, 0x0, 0x0, 0x0, 0x0, 0x0, 0x0, 0x0],
    [0x0, 0x0, 0x0, 0x0, 0x4f, 0xff, 0xff, 0xff],
    [0xfe, 0x0, 0x0, 0x0, 0x0, 0x0, 0x0, 0x0],
    [0x7, 0xff, 0xff, 0xff, 0xff, 0xf5, 0x0, 0x0],
    [0x0, 0x0, 0x0, 0x0, 0x0, 0x0, 0x0, 0x0],
    [0xa, 0xff, 0xff, 0xff, 0xff, 0x20, 0x0, 0x0],
    [0xef, 0xff, 0xff, 0xff, 0xf5, 0x0, 0x0, 0x0],
    [0x0, 0x0, 0x0, 0x0, 0x0, 0x0, 0x0, 0x9],
    [0xff, 0xff, 0xff, 0xff, 0x90, 0x0, 0x0, 0x0]]"

lemma glyph_U0057_a_length: "length (concat glyph_U0057_a) = 1184"
  by (simp add: glyph_U0057_a_def)

definition glyph_U0057_b :: "u8 list list" where
  "glyph_U0057_b = [
    [0x0, 0x0, 0x0, 0x0, 0x2f, 0xff, 0xff, 0xff],
    [0xff, 0xa0, 0x0, 0x0, 0x0, 0x0, 0x0, 0x0],
    [0x0, 0x0, 0x0, 0x0, 0xff, 0xff, 0xff, 0xff],
    [0xd0, 0x0, 0x0, 0x8, 0xff, 0xff, 0xff, 0xff],
    [0xa0, 0x0, 0x0, 0x0, 0x0, 0x0, 0x0, 0x0],
    [0x0, 0x0, 0x0, 0xef, 0xff, 0xff, 0xff, 0xf4],
    [0x0, 0x0, 0x0, 0x0, 0x0, 0x0, 0x0, 0x0],
    [0xdf, 0xff, 0xff, 0xff, 0xff, 0x0, 0x0, 0x0],
    [0x0, 0x0, 0x0, 0x0, 0x0, 0x0, 0x0, 0x6f],
    [0xff, 0xff, 0xff, 0xf7, 0x0, 0x0, 0x0, 0x3f],
    [0xff, 0xff, 0xff, 0xff, 0x0, 0x0, 0x0, 0x0],
    [0x0, 0x0, 0x0, 0x0, 0x0, 0x0, 0x4f, 0xff],
    [0xff, 0xff, 0xfe, 0x0, 0x0, 0x0, 0x0, 0x0],
    [0x0, 0x0, 0x0, 0x7, 0xff, 0xff, 0xff, 0xff],
    [0xf5, 0x0, 0x0, 0x0, 0x0, 0x0, 0x0, 0x0],
    [0x0, 0x0, 0xb, 0xff, 0xff, 0xff, 0xff, 0x20],
    [0x0, 0x0, 0x0, 0xdf, 0xff, 0xff, 0xff, 0xf5],
    [0x0, 0x0, 0x0, 0x0, 0x0, 0x0, 0x0, 0x0],
    [0x0, 0x9, 0xff, 0xff, 0xff, 0xff, 0x90, 0x0],
    [0x0, 0x0, 0x0, 0x0, 0x0, 0x0, 0x0, 0x2f],
    [0xff, 0xff, 0xff, 0xff, 0xa0, 0x0, 0x0, 0x0],
    [0x0, 0x0, 0x0, 0x0, 0x0, 0x1, 0xff, 0xff],
    [0xff, 0xff, 0xc0, 0x0, 0x0, 0x0, 0x8, 0xff],
    [0xff, 0xff, 0xff, 0xb0, 0x0, 0x0, 0x0, 0x0],
    [0x0, 0x0, 0x0, 0x0, 0x0, 0xef, 0xff, 0xff],
    [0xff, 0xf3, 0x0, 0x0, 0x0, 0x0, 0x0, 0x0],
    [0x0, 0x0, 0x0, 0xcf, 0xff, 0xff, 0xff, 0xff],
    [0x0, 0x0, 0x0, 0x0, 0x0, 0x0, 0x0, 0x0],
    [0x0, 0x6f, 0xff, 0xff, 0xff, 0xf7, 0x0, 0x0],
    [0x0, 0x0, 0x2f, 0xff, 0xff, 0xff, 0xff, 0x10],
    [0x0, 0x0, 0x0, 0x0, 0x0, 0x0, 0x0, 0x0],
    [0x4f, 0xff, 0xff, 0xff, 0xfe, 0x0, 0x0, 0x0],
    [0x0, 0x0, 0x0, 0x0, 0x0, 0x0, 0x7, 0xff],
    [0xff, 0xff, 0xff, 0xf5, 0x0, 0x0, 0x0, 0x0],
    [0x0, 0x0, 0x0, 0x0, 0xc, 0xff, 0xff, 0xff],
    [0xff, 0x10, 0x0, 0x0, 0x0, 0x0, 0xdf, 0xff],
    [0xff, 0xff, 0xf6, 0x0, 0x0, 0x0, 0x0, 0x0],
    [0x0, 0x0, 0x0, 0xa, 0xff, 0xff, 0xff, 0xff],
    [0x90, 0x0, 0x0, 0x0, 0x0, 0x0, 0x0, 0x0],
    [0x0, 0x0, 0x2f, 0xff, 0xff, 0xff, 0xff, 0xb0],
    [0x0, 0x0, 0x0, 0x0, 0x0, 0x0, 0x0, 0x2],
    [0xff, 0xff, 0xff, 0xff, 0xc0, 0x0, 0x0, 0x0],
    [0x0, 0x7, 0xff, 0xff, 0xff, 0xff, 0xb0, 0x0],
    [0x0, 0x0, 0x0, 0x0, 0x0, 0x0, 0x0, 0xff],
    [0xff, 0xff, 0xff, 0xf3, 0x0, 0x0, 0x0, 0x0],
    [0x0, 0x0, 0x0, 0x0, 0x0, 0x0, 0xcf, 0xff],
    [0xff, 0xff, 0xff, 0x0, 0x0, 0x0, 0x0, 0x0],
    [0x0, 0x0, 0x0, 0x7f, 0xff, 0xff, 0xff, 0xf6],
    [0x0, 0x0, 0x0, 0x0, 0x0, 0x2f, 0xff, 0xff],
    [0xff, 0xff, 0x10, 0x0, 0x0, 0x0, 0x0, 0x0],
    [0x0, 0x0, 0x5f, 0xff, 0xff, 0xff, 0xfe, 0x0],
    [0x0, 0x0, 0x0, 0x0, 0x0, 0x0, 0x0, 0x0],
    [0x0, 0x7, 0xff, 0xff, 0xff, 0xff, 0xf5, 0x0],
    [0x0, 0x0, 0x0, 0x0, 0x0, 0x0, 0xd, 0xff],
    [0xff, 0xff, 0xff, 0x10, 0x0, 0x0, 0x0, 0x0],
    [0x0, 0xcf, 0xff, 0xff, 0xff, 0xf6, 0x0, 0x0],
    [0x0, 0x0, 0x0, 0x0, 0x0, 0xa, 0xff, 0xff],
    [0xff, 0xff, 0x80, 0x0, 0x0, 0x0, 0x0, 0x0],
    [0x0, 0x0, 0x0, 0x0, 0x0, 0x1f, 0xff, 0xff],
    [0xff, 0xff, 0xb0, 0x0, 0x0, 0x0, 0x0, 0x0],
    [0x0, 0x2, 0xff, 0xff, 0xff, 0xff, 0xb0, 0x0],
    [0x0, 0x0, 0x0, 0x0, 0x6, 0xff, 0xff, 0xff],
    [0xff, 0xc0, 0x0, 0x0, 0x0, 0x0, 0x0, 0x0],
    [0x0, 0xff, 0xff, 0xff, 0xff, 0xf3, 0x0, 0x0],
    [0x0, 0x0, 0x0, 0x0, 0x0, 0x0, 0x0, 0x0],
    [0x0, 0xcf, 0xff, 0xff, 0xff, 0xff, 0x0, 0x0],
    [0x0, 0x0, 0x0, 0x0, 0x0, 0x8f, 0xff, 0xff],
    [0xff, 0xf5, 0x0, 0x0, 0x0, 0x0, 0x0, 0x0],
    [0x1f, 0xff, 0xff, 0xff, 0xff, 0x10, 0x0, 0x0],
    [0x0, 0x0, 0x0, 0x0, 0x5f, 0xff, 0xff, 0xff],
    [0xfe, 0x0, 0x0, 0x0, 0x0, 0x0, 0x0, 0x0],
    [0x0, 0x0, 0x0, 0x0, 0x7, 0xff, 0xff, 0xff],
    [0xff, 0xf5, 0x0, 0x0, 0x0, 0x0, 0x0, 0x0],
    [0xd, 0xff, 0xff, 0xff, 0xff, 0x0, 0x0, 0x0],
    [0x0, 0x0, 0x0, 0x0, 0xbf, 0xff, 0xff, 0xff],
    [0xf6, 0x0, 0x0, 0x0, 0x0, 0x0, 0x0, 0xb],
    [0xff, 0xff, 0xff, 0xff, 0x80, 0x0, 0x0, 0x0],
    [0x0, 0x0, 0x0, 0x0, 0x0, 0x0, 0x0, 0x0],
    [0x1f, 0xff, 0xff, 0xff, 0xff, 0xb0, 0x0, 0x0],
    [0x0, 0x0, 0x0, 0x3, 0xff, 0xff, 0xff, 0xff],
    [0xa0, 0x0, 0x0, 0x0, 0x0, 0x0, 0x0, 0x6],
    [0xff, 0xff, 0xff, 0xff, 0xc0, 0x0, 0x0, 0x0],
    [0x0, 0x0, 0x0, 0xff, 0xff, 0xff, 0xff, 0xf3],
    [0x0, 0x0, 0x0, 0x0, 0x0, 0x0, 0x0, 0x0],
    [0x0, 0x0, 0x0, 0x0, 0xcf, 0xff, 0xff, 0xff],
    [0xff, 0x10, 0x0, 0x0, 0x0, 0x0, 0x0, 0x9f],
    [0xff, 0xff, 0xff, 0xf5, 0x0, 0x0, 0x0, 0x0],
    [0x0, 0x0, 0x0, 0x1f, 0xff, 0xff, 0xff, 0xff],
    [0x10, 0x0, 0x0, 0x0, 0x0, 0x0, 0x5f, 0xff],
    [0xff, 0xff, 0xfd, 0x0, 0x0, 0x0, 0x0, 0x0],
    [0x0, 0x0, 0x0, 0x0, 0x0, 0x0, 0x0, 0x6],
    [0xff, 0xff, 0xff, 0xff, 0xf6, 0x0, 0x0, 0x0],
    [0x0, 0x0, 0xe, 0xff, 0xff, 0xff, 0xff, 0x0],
    [0x0, 0x0, 0x0, 0x0, 0x0, 0x0, 0x0, 0xbf],
    [0xff, 0xff, 0xff, 0xf7, 0x0, 0x0, 0x0, 0x0],
    [0x0, 0xb, 0xff, 0xff, 0xff, 0xff, 0x80, 0x0],
    [0x0, 0x0, 0x0, 0x0, 0x0, 0x0, 0x0, 0x0],
    [0x0, 0x0, 0x0, 0x1f, 0xff, 0xff, 0xff, 0xff],
    [0xb0, 0x0, 0x0, 0x0, 0x0, 0x4, 0xff, 0xff],
    [0xff, 0xff, 0xa0, 0x0, 0x0, 0x0, 0x0, 0x0],
    [0x0, 0x0, 0x5, 0xff, 0xff, 0xff, 0xff, 0xc0],
    [0x0, 0x0, 0x0, 0x0, 0x1, 0xff, 0xff, 0xff],
    [0xff, 0xf3, 0x0, 0x0, 0x0, 0x0, 0x0, 0x0],
    [0x0, 0x0, 0x0, 0x0, 0x0, 0x0, 0x0, 0xcf],
    [0xff, 0xff, 0xff, 0xff, 0x10, 0x0, 0x0, 0x0],
    [0x0, 0xaf, 0xff, 0xff, 0xff, 0xf4, 0x0, 0x0],
    [0x0, 0x0, 0x0, 0x0, 0x0, 0x0, 0xf, 0xff],
    [0xff, 0xff, 0xff, 0x20, 0x0, 0x0, 0x0, 0x0],
    [0x6f, 0xff, 0xff, 0xff, 0xfd, 0x0, 0x0, 0x0],
    [0x0, 0x0, 0x0, 0x0, 0x0, 0x0, 0x0, 0x0],
    [0x0, 0x0, 0x6, 0xff, 0xff, 0xff, 0xff, 0xf6],
    [0x0, 0x0, 0x0, 0x0, 0xf, 0xff, 0xff, 0xff],
    [0xfe, 0x0, 0x0, 0x0, 0x0, 0x0, 0x0, 0x0],
    [0x0, 0x0, 0xaf, 0xff, 0xff, 0xff, 0xf7, 0x0],
    [0x0, 0x0, 0x0, 0xb, 0xff, 0xff, 0xff, 0xff],
    [0x80, 0x0, 0x0, 0x0, 0x0, 0x0, 0x0, 0x0],
    [0x0, 0x0, 0x0, 0x0, 0x0, 0x0, 0x1f, 0xff],
    [0xff, 0xff, 0xff, 0xb0, 0x0, 0x0, 0x0, 0x5],
    [0xff, 0xff, 0xff, 0xff, 0x90, 0x0, 0x0, 0x0],
    [0x0, 0x0, 0x0, 0x0, 0x0, 0x5, 0xff, 0xff],
    [0xff, 0xff, 0xd0, 0x0, 0x0, 0x0, 0x1, 0xff],
    [0xff, 0xff, 0xff, 0xf2, 0x0, 0x0, 0x0, 0x0],
    [0x0, 0x0, 0x0, 0x0, 0x0, 0x0, 0x0, 0x0],
    [0x0, 0x0, 0xbf, 0xff, 0xff, 0xff, 0xff, 0x10],
    [0x0, 0x0, 0x0, 0xaf, 0xff, 0xff, 0xff, 0xf4],
    [0x0, 0x0, 0x0, 0x0, 0x0, 0x0, 0x0, 0x0],
    [0x0, 0xf, 0xff, 0xff, 0xff, 0xff, 0x20, 0x0],
    [0x0, 0x0, 0x6f, 0xff, 0xff, 0xff, 0xfd, 0x0],
    [0x0, 0x0, 0x0, 0x0, 0x0, 0x0, 0x0, 0x0],
    [0x0, 0x0, 0x0, 0x0, 0x0, 0x6, 0xff, 0xff],
    [0xff, 0xff, 0xf6, 0x0, 0x0, 0x0, 0xf, 0xff],
    [0xff, 0xff, 0xfe, 0x0, 0x0, 0x0, 0x0, 0x0],
    [0x0, 0x0, 0x0, 0x0, 0x0, 0xaf, 0xff, 0xff],
    [0xff, 0xf8, 0x0, 0x0, 0x0, 0xc, 0xff, 0xff],
    [0xff, 0xff, 0x80, 0x0, 0x0, 0x0, 0x0, 0x0],
    [0x0, 0x0, 0x0, 0x0, 0x0, 0x0, 0x0, 0x0],
    [0x0, 0x1f, 0xff, 0xff, 0xff, 0xff, 0xb0, 0x0],
    [0x0, 0x5, 0xff, 0xff, 0xff, 0xff, 0x90, 0x0],
    [0x0, 0x0, 0x0, 0x0, 0x0, 0x0, 0x0, 0x0],
    [0x4, 0xff, 0xff, 0xff, 0xff, 0xd0, 0x0, 0x0],
    [0x1, 0xff, 0xff, 0xff, 0xff, 0xf2, 0x0, 0x0],
    [0x0, 0x0, 0x0, 0x0, 0x0, 0x0, 0x0, 0x0],
    [0x0, 0x0, 0x0, 0x0, 0x0, 0xbf, 0xff, 0xff],
    [0xff, 0xff, 0x10, 0x0, 0x0, 0xbf, 0xff, 0xff],
    [0xff, 0xf3, 0x0, 0x0, 0x0, 0x0, 0x0, 0x0],
    [0x0, 0x0, 0x0, 0x0, 0xe, 0xff, 0xff, 0xff],
    [0xff, 0x20, 0x0, 0x0, 0x7f, 0xff, 0xff, 0xff],
    [0xfd, 0x0, 0x0, 0x0, 0x0, 0x0, 0x0, 0x0]]"

lemma glyph_U0057_b_length: "length (concat glyph_U0057_b) = 1184"
  by (simp add: glyph_U0057_b_def)

definition glyph_U0057_c :: "u8 list list" where
  "glyph_U0057_c = [
    [0x0, 0x0, 0x0, 0x0, 0x0, 0x0, 0x0, 0x0],
    [0x6, 0xff, 0xff, 0xff, 0xff, 0xf6, 0x0, 0x0],
    [0x1f, 0xff, 0xff, 0xff, 0xfe, 0x0, 0x0, 0x0],
    [0x0, 0x0, 0x0, 0x0, 0x0, 0x0, 0x0, 0x0],
    [0x9f, 0xff, 0xff, 0xff, 0xf8, 0x0, 0x0, 0xc],
    [0xff, 0xff, 0xff, 0xff, 0x70, 0x0, 0x0, 0x0],
    [0x0, 0x0, 0x0, 0x0, 0x0, 0x0, 0x0, 0x0],
    [0x0, 0x0, 0x0, 0x0, 0x1f, 0xff, 0xff, 0xff],
    [0xff, 0xb0, 0x0, 0x6, 0xff, 0xff, 0xff, 0xff],
    [0x80, 0x0, 0x0, 0x0, 0x0, 0x0, 0x0, 0x0],
    [0x0, 0x0, 0x0, 0x4, 0xff, 0xff, 0xff, 0xff],
    [0xd0, 0x0, 0x1, 0xff, 0xff, 0xff, 0xff, 0xf2],
    [0x0, 0x0, 0x0, 0x0, 0x0, 0x0, 0x0, 0x0],
    [0x0, 0x0, 0x0, 0x0, 0x0, 0x0, 0x0, 0x0],
    [0xbf, 0xff, 0xff, 0xff, 0xff, 0x10, 0x0, 0xcf],
    [0xff, 0xff, 0xff, 0xf3, 0x0, 0x0, 0x0, 0x0],
    [0x0, 0x0, 0x0, 0x0, 0x0, 0x0, 0x0, 0xe],
    [0xff, 0xff, 0xff, 0xff, 0x30, 0x0, 0x7f, 0xff],
    [0xff, 0xff, 0xfc, 0x0, 0x0, 0x0, 0x0, 0x0],
    [0x0, 0x0, 0x0, 0x0, 0x0, 0x0, 0x0, 0x0],
    [0x0, 0x0, 0x0, 0x6, 0xff, 0xff, 0xff, 0xff],
    [0xf6, 0x0, 0x1f, 0xff, 0xff, 0xff, 0xfd, 0x0],
    [0x0, 0x0, 0x0, 0x0, 0x0, 0x0, 0x0, 0x0],
    [0x0, 0x0, 0x0, 0x9f, 0xff, 0xff, 0xff, 0xf8],
    [0x0, 0xc, 0xff, 0xff, 0xff, 0xff, 0x70, 0x0],
    [0x0, 0x0, 0x0, 0x0, 0x0, 0x0, 0x0, 0x0],
    [0x0, 0x0, 0x0, 0x0, 0x0, 0x0, 0x0, 0x1f],
    [0xff, 0xff, 0xff, 0xff, 0xb0, 0x7, 0xff, 0xff],
    [0xff, 0xff, 0x80, 0x0, 0x0, 0x0, 0x0, 0x0],
    [0x0, 0x0, 0x0, 0x0, 0x0, 0x0, 0x3, 0xff],
    [0xff, 0xff, 0xff, 0xe0, 0x2, 0xff, 0xff, 0xff],
    [0xff, 0xf2, 0x0, 0x0, 0x0, 0x0, 0x0, 0x0],
    [0x0, 0x0, 0x0, 0x0, 0x0, 0x0, 0x0, 0x0],
    [0x0, 0x0, 0x0, 0xbf, 0xff, 0xff, 0xff, 0xff],
    [0x10, 0xdf, 0xff, 0xff, 0xff, 0xf2, 0x0, 0x0],
    [0x0, 0x0, 0x0, 0x0, 0x0, 0x0, 0x0, 0x0],
    [0x0, 0x0, 0xd, 0xff, 0xff, 0xff, 0xff, 0x30],
    [0x7f, 0xff, 0xff, 0xff, 0xfc, 0x0, 0x0, 0x0],
    [0x0, 0x0, 0x0, 0x0, 0x0, 0x0, 0x0, 0x0],
    [0x0, 0x0, 0x0, 0x0, 0x0, 0x0, 0x5, 0xff],
    [0xff, 0xff, 0xff, 0xf6, 0x2f, 0xff, 0xff, 0xff],
    [0xfd, 0x0, 0x0, 0x0, 0x0, 0x0, 0x0, 0x0],
    [0x0, 0x0, 0x0, 0x0, 0x0, 0x0, 0x8f, 0xff],
    [0xff, 0xff, 0xf9, 0xd, 0xff, 0xff, 0xff, 0xff],
    [0x70, 0x0, 0x0, 0x0, 0x0, 0x0, 0x0, 0x0],
    [0x0, 0x0, 0x0, 0x0, 0x0, 0x0, 0x0, 0x0],
    [0x0, 0x0, 0xf, 0xff, 0xff, 0xff, 0xff, 0xc8],
    [0xff, 0xff, 0xff, 0xff, 0x70, 0x0, 0x0, 0x0],
    [0x0, 0x0, 0x0, 0x0, 0x0, 0x0, 0x0, 0x0],
    [0x0, 0x2, 0xff, 0xff, 0xff, 0xff, 0xe2, 0xff],
    [0xff, 0xff, 0xff, 0xf2, 0x0, 0x0, 0x0, 0x0],
    [0x0, 0x0, 0x0, 0x0, 0x0, 0x0, 0x0, 0x0],
    [0x0, 0x0, 0x0, 0x0, 0x0, 0x0, 0xbf, 0xff],
    [0xff, 0xff, 0xff, 0xef, 0xff, 0xff, 0xff, 0xf2],
    [0x0, 0x0, 0x0, 0x0, 0x0, 0x0, 0x0, 0x0],
    [0x0, 0x0, 0x0, 0x0, 0x0, 0xd, 0xff, 0xff],
    [0xff, 0xff, 0xcf, 0xff, 0xff, 0xff, 0xfc, 0x0],
    [0x0, 0x0, 0x0, 0x0, 0x0, 0x0, 0x0, 0x0],
    [0x0, 0x0, 0x0, 0x0, 0x0, 0x0, 0x0, 0x0],
    [0x0, 0x5, 0xff, 0xff, 0xff, 0xff, 0xff, 0xff],
    [0xff, 0xff, 0xfc, 0x0, 0x0, 0x0, 0x0, 0x0],
    [0x0, 0x0, 0x0, 0x0, 0x0, 0x0, 0x0, 0x0],
    [0x0, 0x7f, 0xff, 0xff, 0xff, 0xff, 0xff, 0xff],
    [0xff, 0xff, 0x70, 0x0, 0x0, 0x0, 0x0, 0x0],
    [0x0, 0x0, 0x0, 0x0, 0x0, 0x0, 0x0, 0x0],
    [0x0, 0x0, 0x0, 0x0, 0x0, 0xf, 0xff, 0xff],
    [0xff, 0xff, 0xff, 0xff, 0xff, 0xff, 0x60, 0x0],
    [0x0, 0x0, 0x0, 0x0, 0x0, 0x0, 0x0, 0x0],
    [0x0, 0x0, 0x0, 0x0, 0x2, 0xff, 0xff, 0xff],
    [0xff, 0xff, 0xff, 0xff, 0xff, 0xf1, 0x0, 0x0],
    [0x0, 0x0, 0x0, 0x0, 0x0, 0x0, 0x0, 0x0],
    [0x0, 0x0, 0x0, 0x0, 0x0, 0x0, 0x0, 0x0],
    [0x0, 0xaf, 0xff, 0xff, 0xff, 0xff, 0xff, 0xff],
    [0xff, 0xf1, 0x0, 0x0, 0x0, 0x0, 0x0, 0x0],
    [0x0, 0x0, 0x0, 0x0, 0x0, 0x0, 0x0, 0x0],
    [0xc, 0xff, 0xff, 0xff, 0xff, 0xff, 0xff, 0xff],
    [0xfc, 0x0, 0x0, 0x0, 0x0, 0x0, 0x0, 0x0],
    [0x0, 0x0, 0x0, 0x0, 0x0, 0x0, 0x0, 0x0],
    [0x0, 0x0, 0x0, 0x0, 0x5, 0xff, 0xff, 0xff],
    [0xff, 0xff, 0xff, 0xff, 0xfb, 0x0, 0x0, 0x0],
    [0x0, 0x0, 0x0, 0x0, 0x0, 0x0, 0x0, 0x0],
    [0x0, 0x0, 0x0, 0x0, 0x7f, 0xff, 0xff, 0xff],
    [0xff, 0xff, 0xff, 0xff, 0x60, 0x0, 0x0, 0x0],
    [0x0, 0x0, 0x0, 0x0, 0x0, 0x0, 0x0, 0x0],
    [0x0, 0x0, 0x0, 0x0, 0x0, 0x0, 0x0, 0x0],
    [0xf, 0xff, 0xff, 0xff, 0xff, 0xff, 0xff, 0xff],
    [0x60, 0x0, 0x0, 0x0, 0x0, 0x0, 0x0, 0x0],
    [0x0, 0x0, 0x0, 0x0, 0x0, 0x0, 0x0, 0x1],
    [0xff, 0xff, 0xff, 0xff, 0xff, 0xff, 0xff, 0xf1],
    [0x0, 0x0, 0x0, 0x0, 0x0, 0x0, 0x0, 0x0],
    [0x0, 0x0, 0x0, 0x0, 0x0, 0x0, 0x0, 0x0],
    [0x0, 0x0, 0x0, 0x0, 0xaf, 0xff, 0xff, 0xff],
    [0xff, 0xff, 0xff, 0xf1, 0x0, 0x0, 0x0, 0x0],
    [0x0, 0x0, 0x0, 0x0, 0x0, 0x0, 0x0, 0x0],
    [0x0, 0x0, 0x0, 0xc, 0xff, 0xff, 0xff, 0xff],
    [0xff, 0xff, 0xfc, 0x0, 0x0, 0x0, 0x0, 0x0],
    [0x0, 0x0, 0x0, 0x0, 0x0, 0x0, 0x0, 0x0],
    [0x0, 0x0, 0x0, 0x0, 0x0, 0x0, 0x0, 0x5],
    [0xff, 0xff, 0xff, 0xff, 0xff, 0xff, 0xfb, 0x0],
    [0x0, 0x0, 0x0, 0x0, 0x0, 0x0, 0x0, 0x0],
    [0x0, 0x0, 0x0, 0x0, 0x0, 0x0, 0x0, 0x6f],
    [0xff, 0xff, 0xff, 0xff, 0xff, 0xff, 0x60, 0x0],
    [0x0, 0x0, 0x0, 0x0, 0x0, 0x0, 0x0, 0x0],
    [0x0, 0x0, 0x0, 0x0, 0x0, 0x0, 0x0, 0x0],
    [0x0, 0x0, 0x0, 0xf, 0xff, 0xff, 0xff, 0xff],
    [0xff, 0xff, 0x50, 0x0, 0x0, 0x0, 0x0, 0x0],
    [0x0, 0x0, 0x0, 0x0, 0x0, 0x0, 0x0, 0x0],
    [0x0, 0x0, 0x1, 0xff, 0xff, 0xff, 0xff, 0xff],
    [0xff, 0xf1, 0x0, 0x0, 0x0, 0x0, 0x0, 0x0],
    [0x0, 0x0, 0x0, 0x0, 0x0, 0x0, 0x0, 0x0],
    [0x0, 0x0, 0x0, 0x0, 0x0, 0x0, 0x0, 0xaf],
    [0xff, 0xff, 0xff, 0xff, 0xff, 0xf0, 0x0, 0x0],
    [0x0, 0x0, 0x0, 0x0, 0x0, 0x0, 0x0, 0x0],
    [0x0, 0x0, 0x0, 0x0, 0x0, 0x0, 0xb, 0xff],
    [0xff, 0xff, 0xff, 0xff, 0xfb, 0x0, 0x0, 0x0],
    [0x0, 0x0, 0x0, 0x0, 0x0, 0x0, 0x0, 0x0],
    [0x0, 0x0, 0x0, 0x0, 0x0, 0x0, 0x0, 0x0],
    [0x0, 0x0, 0x5, 0xff, 0xff, 0xff, 0xff, 0xff],
    [0xfa, 0x0, 0x0, 0x0, 0x0, 0x0, 0x0, 0x0],
    [0x0, 0x0, 0x0, 0x0, 0x0, 0x0, 0x0, 0x0],
    [0x0, 0x0, 0x6f, 0xff, 0xff, 0xff, 0xff, 0xff],
    [0x60, 0x0, 0x0, 0x0, 0x0, 0x0, 0x0, 0x0],
    [0x0, 0x0, 0x0, 0x0, 0x0, 0x0, 0x0, 0x0],
    [0x0, 0x0, 0x0, 0x0, 0x0, 0x0, 0xf, 0xff],
    [0xff, 0xff, 0xff, 0xff, 0x50, 0x0, 0x0, 0x0],
    [0x0, 0x0, 0x0, 0x0, 0x0, 0x0, 0x0, 0x0],
    [0x0, 0x0, 0x0, 0x0, 0x0, 0x0, 0xff, 0xff],
    [0xff, 0xff, 0xff, 0xf1, 0x0, 0x0, 0x0, 0x0],
    [0x0, 0x0, 0x0, 0x0, 0x0, 0x0, 0x0, 0x0],
    [0x0, 0x0, 0x0, 0x0, 0x0, 0x0, 0x0, 0x0],
    [0x0, 0x0, 0xaf, 0xff, 0xff, 0xff, 0xff, 0xf0],
    [0x0, 0x0, 0x0, 0x0, 0x0, 0x0, 0x0, 0x0],
    [0x0, 0x0, 0x0, 0x0, 0x0, 0x0, 0x0, 0x0],
    [0x0, 0xb, 0xff, 0xff, 0xff, 0xff, 0xfb, 0x0],
    [0x0, 0x0, 0x0, 0x0, 0x0, 0x0, 0x0, 0x0],
    [0x0, 0x0, 0x0]]"

lemma glyph_U0057_c_length: "length (concat glyph_U0057_c) = 1083"
  by (simp add: glyph_U0057_c_def)

definition glyph_U0058_a :: "u8 list list" where
  "glyph_U0058_a = [
    [0x0, 0xab, 0xbb, 0xbb, 0xbb, 0xbb, 0xa0, 0x0],
    [0x0, 0x0, 0x0, 0x0, 0x0, 0x0, 0x0, 0x0],
    [0x0, 0x0, 0x0, 0x0, 0x0, 0x0, 0x0, 0x0],
    [0x1, 0xbb, 0xbb, 0xbb, 0xbb, 0xbb, 0x40, 0x0],
    [0x5, 0xff, 0xff, 0xff, 0xff, 0xff, 0xa0, 0x0],
    [0x0, 0x0, 0x0, 0x0, 0x0, 0x0, 0x0, 0x0],
    [0x0, 0x0, 0x0, 0x0, 0x0, 0x0, 0x0, 0x0],
    [0xbf, 0xff, 0xff, 0xff, 0xff, 0xb0, 0x0, 0x0],
    [0x9, 0xff, 0xff, 0xff, 0xff, 0xff, 0x50, 0x0],
    [0x0, 0x0, 0x0, 0x0, 0x0, 0x0, 0x0, 0x0],
    [0x0, 0x0, 0x0, 0x0, 0x0, 0x0, 0x0, 0x7f],
    [0xff, 0xff, 0xff, 0xff, 0xe1, 0x0, 0x0, 0x0],
    [0xd, 0xff, 0xff, 0xff, 0xff, 0xff, 0x20, 0x0],
    [0x0, 0x0, 0x0, 0x0, 0x0, 0x0, 0x0, 0x0],
    [0x0, 0x0, 0x0, 0x0, 0x0, 0x0, 0x3f, 0xff],
    [0xff, 0xff, 0xff, 0xf4, 0x0, 0x0, 0x0, 0x0],
    [0x2f, 0xff, 0xff, 0xff, 0xff, 0xfc, 0x0, 0x0],
    [0x0, 0x0, 0x0, 0x0, 0x0, 0x0, 0x0, 0x0],
    [0x0, 0x0, 0x0, 0x0, 0x0, 0xd, 0xff, 0xff],
    [0xff, 0xff, 0xf8, 0x0, 0x0, 0x0, 0x0, 0x0],
    [0x6f, 0xff, 0xff, 0xff, 0xff, 0xf9, 0x0, 0x0],
    [0x0, 0x0, 0x0, 0x0, 0x0, 0x0, 0x0, 0x0],
    [0x0, 0x0, 0x0, 0x0, 0xa, 0xff, 0xff, 0xff],
    [0xff, 0xfc, 0x0, 0x0, 0x0, 0x0, 0x0, 0x0],
    [0xaf, 0xff, 0xff, 0xff, 0xff, 0xf4, 0x0, 0x0],
    [0x0, 0x0, 0x0, 0x0, 0x0, 0x0, 0x0, 0x0],
    [0x0, 0x0, 0x0, 0x5, 0xff, 0xff, 0xff, 0xff],
    [0xfe, 0x10, 0x0, 0x0, 0x0, 0x0, 0x0, 0x1],
    [0xef, 0xff, 0xff, 0xff, 0xff, 0xe1, 0x0, 0x0],
    [0x0, 0x0, 0x0, 0x0, 0x0, 0x0, 0x0, 0x0],
    [0x0, 0x0, 0x2, 0xff, 0xff, 0xff, 0xff, 0xff],
    [0x40, 0x0, 0x0, 0x0, 0x0, 0x0, 0x0, 0x3],
    [0xff, 0xff, 0xff, 0xff, 0xff, 0xc0, 0x0, 0x0],
    [0x0, 0x0, 0x0, 0x0, 0x0, 0x0, 0x0, 0x0],
    [0x0, 0x0, 0xcf, 0xff, 0xff, 0xff, 0xff, 0x90],
    [0x0, 0x0, 0x0, 0x0, 0x0, 0x0, 0x0, 0x7],
    [0xff, 0xff, 0xff, 0xff, 0xff, 0x80, 0x0, 0x0],
    [0x0, 0x0, 0x0, 0x0, 0x0, 0x0, 0x0, 0x0],
    [0x0, 0x8f, 0xff, 0xff, 0xff, 0xff, 0xc0, 0x0],
    [0x0, 0x0, 0x0, 0x0, 0x0, 0x0, 0x0, 0xb],
    [0xff, 0xff, 0xff, 0xff, 0xff, 0x40, 0x0, 0x0],
    [0x0, 0x0, 0x0, 0x0, 0x0, 0x0, 0x0, 0x0],
    [0x4f, 0xff, 0xff, 0xff, 0xff, 0xf2, 0x0, 0x0],
    [0x0, 0x0, 0x0, 0x0, 0x0, 0x0, 0x0, 0x1e],
    [0xff, 0xff, 0xff, 0xff, 0xfe, 0x10, 0x0, 0x0],
    [0x0, 0x0, 0x0, 0x0, 0x0, 0x0, 0x0, 0x1e],
    [0xff, 0xff, 0xff, 0xff, 0xf5, 0x0, 0x0, 0x0],
    [0x0, 0x0, 0x0, 0x0, 0x0, 0x0, 0x0, 0x4f],
    [0xff, 0xff, 0xff, 0xff, 0xfb, 0x0, 0x0, 0x0],
    [0x0, 0x0, 0x0, 0x0, 0x0, 0x0, 0xb, 0xff],
    [0xff, 0xff, 0xff, 0xf9, 0x0, 0x0, 0x0, 0x0],
    [0x0, 0x0, 0x0, 0x0, 0x0, 0x0, 0x0, 0x9f],
    [0xff, 0xff, 0xff, 0xff, 0xf7, 0x0, 0x0, 0x0],
    [0x0, 0x0, 0x0, 0x0, 0x0, 0x7, 0xff, 0xff],
    [0xff, 0xff, 0xfd, 0x0, 0x0, 0x0, 0x0, 0x0],
    [0x0, 0x0, 0x0, 0x0, 0x0, 0x0, 0x0, 0xcf],
    [0xff, 0xff, 0xff, 0xff, 0xf3, 0x0, 0x0, 0x0],
    [0x0, 0x0, 0x0, 0x0, 0x3, 0xff, 0xff, 0xff],
    [0xff, 0xff, 0x20, 0x0, 0x0, 0x0, 0x0, 0x0],
    [0x0, 0x0, 0x0, 0x0, 0x0, 0x0, 0x2, 0xff],
    [0xff, 0xff, 0xff, 0xff, 0xd0, 0x0, 0x0, 0x0],
    [0x0, 0x0, 0x0, 0x0, 0xdf, 0xff, 0xff, 0xff],
    [0xff, 0x60, 0x0, 0x0, 0x0, 0x0, 0x0, 0x0],
    [0x0, 0x0, 0x0, 0x0, 0x0, 0x0, 0x6, 0xff],
    [0xff, 0xff, 0xff, 0xff, 0xa0, 0x0, 0x0, 0x0],
    [0x0, 0x0, 0x0, 0x9f, 0xff, 0xff, 0xff, 0xff],
    [0xa0, 0x0, 0x0, 0x0, 0x0, 0x0, 0x0, 0x0],
    [0x0, 0x0, 0x0, 0x0, 0x0, 0x0, 0xa, 0xff],
    [0xff, 0xff, 0xff, 0xff, 0x60, 0x0, 0x0, 0x0],
    [0x0, 0x0, 0x5f, 0xff, 0xff, 0xff, 0xff, 0xe1],
    [0x0, 0x0, 0x0, 0x0, 0x0, 0x0, 0x0, 0x0],
    [0x0, 0x0, 0x0, 0x0, 0x0, 0x0, 0xd, 0xff],
    [0xff, 0xff, 0xff, 0xff, 0x20, 0x0, 0x0, 0x0],
    [0x0, 0x2f, 0xff, 0xff, 0xff, 0xff, 0xf3, 0x0],
    [0x0, 0x0, 0x0, 0x0, 0x0, 0x0, 0x0, 0x0],
    [0x0, 0x0, 0x0, 0x0, 0x0, 0x0, 0x3f, 0xff],
    [0xff, 0xff, 0xff, 0xfd, 0x0, 0x0, 0x0, 0x0],
    [0xc, 0xff, 0xff, 0xff, 0xff, 0xf7, 0x0, 0x0],
    [0x0, 0x0, 0x0, 0x0, 0x0, 0x0, 0x0, 0x0],
    [0x0, 0x0, 0x0, 0x0, 0x0, 0x0, 0x7f, 0xff],
    [0xff, 0xff, 0xff, 0xf9, 0x0, 0x0, 0x0, 0x8],
    [0xff, 0xff, 0xff, 0xff, 0xfb, 0x0, 0x0, 0x0],
    [0x0, 0x0, 0x0, 0x0, 0x0, 0x0, 0x0, 0x0],
    [0x0, 0x0, 0x0, 0x0, 0x0, 0x0, 0xbf, 0xff],
    [0xff, 0xff, 0xff, 0xf5, 0x0, 0x0, 0x4, 0xff],
    [0xff, 0xff, 0xff, 0xfe, 0x10, 0x0, 0x0, 0x0],
    [0x0, 0x0, 0x0, 0x0, 0x0, 0x0, 0x0, 0x0],
    [0x0, 0x0, 0x0, 0x0, 0x0, 0x1, 0xef, 0xff],
    [0xff, 0xff, 0xff, 0xe1, 0x0, 0x1, 0xef, 0xff],
    [0xff, 0xff, 0xff, 0x40, 0x0, 0x0, 0x0, 0x0],
    [0x0, 0x0, 0x0, 0x0, 0x0, 0x0, 0x0, 0x0],
    [0x0, 0x0, 0x0, 0x0, 0x0, 0x4, 0xff, 0xff],
    [0xff, 0xff, 0xff, 0xc0, 0x0, 0xbf, 0xff, 0xff],
    [0xff, 0xff, 0x80, 0x0, 0x0, 0x0, 0x0, 0x0],
    [0x0, 0x0, 0x0, 0x0, 0x0, 0x0, 0x0, 0x0],
    [0x0, 0x0, 0x0, 0x0, 0x0, 0x8, 0xff, 0xff],
    [0xff, 0xff, 0xff, 0x80, 0x6f, 0xff, 0xff, 0xff],
    [0xff, 0xc0, 0x0, 0x0, 0x0, 0x0, 0x0, 0x0],
    [0x0, 0x0, 0x0, 0x0, 0x0, 0x0, 0x0, 0x0],
    [0x0, 0x0, 0x0, 0x0, 0x0, 0xc, 0xff, 0xff],
    [0xff, 0xff, 0xff, 0x6f, 0xff, 0xff, 0xff, 0xff],
    [0xe1, 0x0, 0x0, 0x0, 0x0, 0x0, 0x0, 0x0],
    [0x0, 0x0, 0x0, 0x0, 0x0, 0x0, 0x0, 0x0],
    [0x0, 0x0, 0x0, 0x0, 0x0, 0x2f, 0xff, 0xff],
    [0xff, 0xff, 0xff, 0xff, 0xff, 0xff, 0xff, 0xf5],
    [0x0, 0x0, 0x0, 0x0, 0x0, 0x0, 0x0, 0x0],
    [0x0, 0x0, 0x0, 0x0, 0x0, 0x0, 0x0, 0x0],
    [0x0, 0x0, 0x0, 0x0, 0x0, 0x5f, 0xff, 0xff],
    [0xff, 0xff, 0xff, 0xff, 0xff, 0xff, 0xf9, 0x0],
    [0x0, 0x0, 0x0, 0x0, 0x0, 0x0, 0x0, 0x0],
    [0x0, 0x0, 0x0, 0x0, 0x0, 0x0, 0x0, 0x0],
    [0x0, 0x0, 0x0, 0x0, 0x0, 0xaf, 0xff, 0xff],
    [0xff, 0xff, 0xff, 0xff, 0xff, 0xfd, 0x0, 0x0],
    [0x0, 0x0, 0x0, 0x0, 0x0, 0x0, 0x0, 0x0],
    [0x0, 0x0, 0x0, 0x0, 0x0, 0x0, 0x0, 0x0],
    [0x0, 0x0, 0x0, 0x0, 0x0, 0xdf, 0xff, 0xff],
    [0xff, 0xff, 0xff, 0xff, 0xff, 0x20, 0x0, 0x0],
    [0x0, 0x0, 0x0, 0x0, 0x0, 0x0, 0x0, 0x0],
    [0x0, 0x0, 0x0, 0x0, 0x0, 0x0, 0x0, 0x0],
    [0x0, 0x0, 0x0, 0x0, 0x3, 0xff, 0xff, 0xff],
    [0xff, 0xff, 0xff, 0xff, 0x60, 0x0, 0x0, 0x0],
    [0x0, 0x0, 0x0, 0x0, 0x0, 0x0, 0x0, 0x0],
    [0x0, 0x0, 0x0, 0x0, 0x0, 0x0, 0x0, 0x0],
    [0x0, 0x0, 0x0, 0x0, 0x6, 0xff, 0xff, 0xff],
    [0xff, 0xff, 0xff, 0xa0, 0x0, 0x0, 0x0, 0x0],
    [0x0, 0x0, 0x0, 0x0, 0x0, 0x0, 0x0, 0x0],
    [0x0, 0x0, 0x0, 0x0, 0x0, 0x0, 0x0, 0x0],
    [0x0, 0x0, 0x0, 0x0, 0xb, 0xff, 0xff, 0xff],
    [0xff, 0xff, 0xf1, 0x0, 0x0, 0x0, 0x0, 0x0],
    [0x0, 0x0, 0x0, 0x0, 0x0, 0x0, 0x0, 0x0],
    [0x0, 0x0, 0x0, 0x0, 0x0, 0x0, 0x0, 0x0],
    [0x0, 0x0, 0x0, 0x1, 0xef, 0xff, 0xff, 0xff],
    [0xff, 0xff, 0xa0, 0x0, 0x0, 0x0, 0x0, 0x0],
    [0x0, 0x0, 0x0, 0x0, 0x0, 0x0, 0x0, 0x0],
    [0x0, 0x0, 0x0, 0x0, 0x0, 0x0, 0x0, 0x0],
    [0x0, 0x0, 0x0, 0xcf, 0xff, 0xff, 0xff, 0xff],
    [0xff, 0xff, 0x60, 0x0, 0x0, 0x0, 0x0, 0x0],
    [0x0, 0x0, 0x0, 0x0, 0x0, 0x0, 0x0, 0x0],
    [0x0, 0x0, 0x0, 0x0, 0x0, 0x0, 0x0, 0x0],
    [0x0, 0x0, 0x8f, 0xff, 0xff, 0xff, 0xff, 0xff],
    [0xff, 0xff, 0x20, 0x0, 0x0, 0x0, 0x0, 0x0],
    [0x0, 0x0, 0x0, 0x0, 0x0, 0x0, 0x0, 0x0],
    [0x0, 0x0, 0x0, 0x0, 0x0, 0x0, 0x0, 0x0],
    [0x0, 0x4f, 0xff, 0xff, 0xff, 0xff, 0xff, 0xff],
    [0xff, 0xfd, 0x0, 0x0, 0x0, 0x0, 0x0, 0x0],
    [0x0, 0x0, 0x0, 0x0, 0x0, 0x0, 0x0, 0x0],
    [0x0, 0x0, 0x0, 0x0, 0x0, 0x0, 0x0, 0x0],
    [0x1e, 0xff, 0xff, 0xff, 0xff, 0xff, 0xff, 0xff]]"

lemma glyph_U0058_a_length: "length (concat glyph_U0058_a) = 1184"
  by (simp add: glyph_U0058_a_def)

definition glyph_U0058_b :: "u8 list list" where
  "glyph_U0058_b = [
    [0xff, 0xf9, 0x0, 0x0, 0x0, 0x0, 0x0, 0x0],
    [0x0, 0x0, 0x0, 0x0, 0x0, 0x0, 0x0, 0x0],
    [0x0, 0x0, 0x0, 0x0, 0x0, 0x0, 0x0, 0xb],
    [0xff, 0xff, 0xff, 0xff, 0xff, 0xff, 0xff, 0xff],
    [0xff, 0xf5, 0x0, 0x0, 0x0, 0x0, 0x0, 0x0],
    [0x0, 0x0, 0x0, 0x0, 0x0, 0x0, 0x0, 0x0],
    [0x0, 0x0, 0x0, 0x0, 0x0, 0x0, 0x7, 0xff],
    [0xff, 0xff, 0xff, 0xff, 0xdf, 0xff, 0xff, 0xff],
    [0xff, 0xf2, 0x0, 0x0, 0x0, 0x0, 0x0, 0x0],
    [0x0, 0x0, 0x0, 0x0, 0x0, 0x0, 0x0, 0x0],
    [0x0, 0x0, 0x0, 0x0, 0x0, 0x3, 0xff, 0xff],
    [0xff, 0xff, 0xff, 0x62, 0xff, 0xff, 0xff, 0xff],
    [0xff, 0xc0, 0x0, 0x0, 0x0, 0x0, 0x0, 0x0],
    [0x0, 0x0, 0x0, 0x0, 0x0, 0x0, 0x0, 0x0],
    [0x0, 0x0, 0x0, 0x0, 0x0, 0xdf, 0xff, 0xff],
    [0xff, 0xff, 0xa0, 0x5, 0xff, 0xff, 0xff, 0xff],
    [0xff, 0x90, 0x0, 0x0, 0x0, 0x0, 0x0, 0x0],
    [0x0, 0x0, 0x0, 0x0, 0x0, 0x0, 0x0, 0x0],
    [0x0, 0x0, 0x0, 0x0, 0xaf, 0xff, 0xff, 0xff],
    [0xff, 0xe1, 0x0, 0x9, 0xff, 0xff, 0xff, 0xff],
    [0xff, 0x40, 0x0, 0x0, 0x0, 0x0, 0x0, 0x0],
    [0x0, 0x0, 0x0, 0x0, 0x0, 0x0, 0x0, 0x0],
    [0x0, 0x0, 0x0, 0x6f, 0xff, 0xff, 0xff, 0xff],
    [0xf3, 0x0, 0x0, 0xd, 0xff, 0xff, 0xff, 0xff],
    [0xfe, 0x10, 0x0, 0x0, 0x0, 0x0, 0x0, 0x0],
    [0x0, 0x0, 0x0, 0x0, 0x0, 0x0, 0x0, 0x0],
    [0x0, 0x0, 0x2f, 0xff, 0xff, 0xff, 0xff, 0xf8],
    [0x0, 0x0, 0x0, 0x2f, 0xff, 0xff, 0xff, 0xff],
    [0xfc, 0x0, 0x0, 0x0, 0x0, 0x0, 0x0, 0x0],
    [0x0, 0x0, 0x0, 0x0, 0x0, 0x0, 0x0, 0x0],
    [0x0, 0xd, 0xff, 0xff, 0xff, 0xff, 0xfc, 0x0],
    [0x0, 0x0, 0x0, 0x6f, 0xff, 0xff, 0xff, 0xff],
    [0xf8, 0x0, 0x0, 0x0, 0x0, 0x0, 0x0, 0x0],
    [0x0, 0x0, 0x0, 0x0, 0x0, 0x0, 0x0, 0x0],
    [0xa, 0xff, 0xff, 0xff, 0xff, 0xff, 0x20, 0x0],
    [0x0, 0x0, 0x0, 0xaf, 0xff, 0xff, 0xff, 0xff],
    [0xf4, 0x0, 0x0, 0x0, 0x0, 0x0, 0x0, 0x0],
    [0x0, 0x0, 0x0, 0x0, 0x0, 0x0, 0x0, 0x5],
    [0xff, 0xff, 0xff, 0xff, 0xff, 0x50, 0x0, 0x0],
    [0x0, 0x0, 0x1, 0xef, 0xff, 0xff, 0xff, 0xff],
    [0xe1, 0x0, 0x0, 0x0, 0x0, 0x0, 0x0, 0x0],
    [0x0, 0x0, 0x0, 0x0, 0x0, 0x0, 0x2, 0xff],
    [0xff, 0xff, 0xff, 0xff, 0xa0, 0x0, 0x0, 0x0],
    [0x0, 0x0, 0x3, 0xff, 0xff, 0xff, 0xff, 0xff],
    [0xb0, 0x0, 0x0, 0x0, 0x0, 0x0, 0x0, 0x0],
    [0x0, 0x0, 0x0, 0x0, 0x0, 0x0, 0xcf, 0xff],
    [0xff, 0xff, 0xff, 0xd0, 0x0, 0x0, 0x0, 0x0],
    [0x0, 0x0, 0x7, 0xff, 0xff, 0xff, 0xff, 0xff],
    [0x70, 0x0, 0x0, 0x0, 0x0, 0x0, 0x0, 0x0],
    [0x0, 0x0, 0x0, 0x0, 0x0, 0x9f, 0xff, 0xff],
    [0xff, 0xff, 0xf3, 0x0, 0x0, 0x0, 0x0, 0x0],
    [0x0, 0x0, 0xc, 0xff, 0xff, 0xff, 0xff, 0xff],
    [0x30, 0x0, 0x0, 0x0, 0x0, 0x0, 0x0, 0x0],
    [0x0, 0x0, 0x0, 0x0, 0x5f, 0xff, 0xff, 0xff],
    [0xff, 0xf7, 0x0, 0x0, 0x0, 0x0, 0x0, 0x0],
    [0x0, 0x0, 0x1e, 0xff, 0xff, 0xff, 0xff, 0xfd],
    [0x0, 0x0, 0x0, 0x0, 0x0, 0x0, 0x0, 0x0],
    [0x0, 0x0, 0x0, 0x1e, 0xff, 0xff, 0xff, 0xff],
    [0xfb, 0x0, 0x0, 0x0, 0x0, 0x0, 0x0, 0x0],
    [0x0, 0x0, 0x4f, 0xff, 0xff, 0xff, 0xff, 0xfa],
    [0x0, 0x0, 0x0, 0x0, 0x0, 0x0, 0x0, 0x0],
    [0x0, 0x0, 0xc, 0xff, 0xff, 0xff, 0xff, 0xfe],
    [0x10, 0x0, 0x0, 0x0, 0x0, 0x0, 0x0, 0x0],
    [0x0, 0x0, 0x9f, 0xff, 0xff, 0xff, 0xff, 0xf6],
    [0x0, 0x0, 0x0, 0x0, 0x0, 0x0, 0x0, 0x0],
    [0x0, 0x8, 0xff, 0xff, 0xff, 0xff, 0xff, 0x40],
    [0x0, 0x0, 0x0, 0x0, 0x0, 0x0, 0x0, 0x0],
    [0x0, 0x0, 0xcf, 0xff, 0xff, 0xff, 0xff, 0xf2],
    [0x0, 0x0, 0x0, 0x0, 0x0, 0x0, 0x0, 0x0],
    [0x4, 0xff, 0xff, 0xff, 0xff, 0xff, 0x90, 0x0],
    [0x0, 0x0, 0x0, 0x0, 0x0, 0x0, 0x0, 0x0],
    [0x0, 0x2, 0xff, 0xff, 0xff, 0xff, 0xff, 0xd0],
    [0x0, 0x0, 0x0, 0x0, 0x0, 0x0, 0x0, 0x1],
    [0xef, 0xff, 0xff, 0xff, 0xff, 0xd0, 0x0, 0x0],
    [0x0, 0x0, 0x0, 0x0, 0x0, 0x0, 0x0, 0x0],
    [0x0, 0x5, 0xff, 0xff, 0xff, 0xff, 0xff, 0x90],
    [0x0, 0x0, 0x0, 0x0, 0x0, 0x0, 0x0, 0xbf],
    [0xff, 0xff, 0xff, 0xff, 0xf2, 0x0, 0x0, 0x0],
    [0x0, 0x0, 0x0, 0x0, 0x0, 0x0, 0x0, 0x0],
    [0x0, 0xa, 0xff, 0xff, 0xff, 0xff, 0xff, 0x50],
    [0x0, 0x0, 0x0, 0x0, 0x0, 0x0, 0x7f, 0xff],
    [0xff, 0xff, 0xff, 0xf6, 0x0, 0x0, 0x0, 0x0],
    [0x0, 0x0, 0x0, 0x0, 0x0, 0x0, 0x0, 0x0],
    [0x0, 0xd, 0xff, 0xff, 0xff, 0xff, 0xff, 0x20],
    [0x0, 0x0, 0x0, 0x0, 0x0, 0x3f, 0xff, 0xff],
    [0xff, 0xff, 0xfb, 0x0, 0x0, 0x0, 0x0, 0x0],
    [0x0, 0x0, 0x0, 0x0, 0x0, 0x0, 0x0, 0x0],
    [0x0, 0x3f, 0xff, 0xff, 0xff, 0xff, 0xfc, 0x0],
    [0x0, 0x0, 0x0, 0x0, 0x1e, 0xff, 0xff, 0xff],
    [0xff, 0xfe, 0x10, 0x0, 0x0, 0x0, 0x0, 0x0],
    [0x0, 0x0, 0x0, 0x0, 0x0, 0x0, 0x0, 0x0],
    [0x0, 0x7f, 0xff, 0xff, 0xff, 0xff, 0xf9, 0x0],
    [0x0, 0x0, 0x0, 0xb, 0xff, 0xff, 0xff, 0xff],
    [0xff, 0x40, 0x0, 0x0, 0x0, 0x0, 0x0, 0x0],
    [0x0, 0x0, 0x0, 0x0, 0x0, 0x0, 0x0, 0x0],
    [0x0, 0xbf, 0xff, 0xff, 0xff, 0xff, 0xf4, 0x0],
    [0x0, 0x0, 0x6, 0xff, 0xff, 0xff, 0xff, 0xff],
    [0x80, 0x0, 0x0, 0x0, 0x0, 0x0, 0x0, 0x0],
    [0x0, 0x0, 0x0, 0x0, 0x0, 0x0, 0x0, 0x0],
    [0x1, 0xef, 0xff, 0xff, 0xff, 0xff, 0xe1, 0x0],
    [0x0, 0x3, 0xff, 0xff, 0xff, 0xff, 0xff, 0xc0],
    [0x0, 0x0, 0x0, 0x0, 0x0, 0x0, 0x0, 0x0],
    [0x0, 0x0, 0x0, 0x0, 0x0, 0x0, 0x0, 0x0],
    [0x4, 0xff, 0xff, 0xff, 0xff, 0xff, 0xc0, 0x0],
    [0x0, 0xdf, 0xff, 0xff, 0xff, 0xff, 0xf2, 0x0],
    [0x0, 0x0, 0x0, 0x0, 0x0, 0x0, 0x0, 0x0],
    [0x0, 0x0, 0x0, 0x0, 0x0, 0x0, 0x0, 0x0],
    [0x8, 0xff, 0xff, 0xff, 0xff, 0xff, 0x80, 0x0],
    [0xaf, 0xff, 0xff, 0xff, 0xff, 0xf5, 0x0, 0x0],
    [0x0, 0x0, 0x0, 0x0, 0x0, 0x0, 0x0, 0x0],
    [0x0, 0x0, 0x0, 0x0, 0x0, 0x0, 0x0, 0x0],
    [0xc, 0xff, 0xff, 0xff, 0xff, 0xff, 0x40, 0x6f],
    [0xff, 0xff, 0xff, 0xff, 0xfa, 0x0, 0x0, 0x0],
    [0x0, 0x0, 0x0, 0x0, 0x0, 0x0, 0x0, 0x0],
    [0x0, 0x0, 0x0, 0x0, 0x0, 0x0, 0x0, 0x0],
    [0x1e, 0xff, 0xff, 0xff, 0xff, 0xfe, 0x10]]"

lemma glyph_U0058_b_length: "length (concat glyph_U0058_b) = 927"
  by (simp add: glyph_U0058_b_def)

definition glyph_U0059_a :: "u8 list list" where
  "glyph_U0059_a = [
    [0x18, 0x88, 0x88, 0x88, 0x88, 0x70, 0x0, 0x0],
    [0x0, 0x0, 0x0, 0x0, 0x0, 0x0, 0x0, 0x0],
    [0x0, 0x0, 0x0, 0x0, 0x0, 0x0, 0x0, 0x0],
    [0x0, 0x0, 0x1, 0x88, 0x88, 0x88, 0x88, 0x82],
    [0xc, 0xff, 0xff, 0xff, 0xff, 0xf8, 0x0, 0x0],
    [0x0, 0x0, 0x0, 0x0, 0x0, 0x0, 0x0, 0x0],
    [0x0, 0x0, 0x0, 0x0, 0x0, 0x0, 0x0, 0x0],
    [0x0, 0x0, 0xa, 0xff, 0xff, 0xff, 0xff, 0xd0],
    [0x2, 0xff, 0xff, 0xff, 0xff, 0xff, 0x20, 0x0],
    [0x0, 0x0, 0x0, 0x0, 0x0, 0x0, 0x0, 0x0],
    [0x0, 0x0, 0x0, 0x0, 0x0, 0x0, 0x0, 0x0],
    [0x0, 0x0, 0x4f, 0xff, 0xff, 0xff, 0xff, 0x40],
    [0x0, 0x8f, 0xff, 0xff, 0xff, 0xff, 0xb0, 0x0],
    [0x0, 0x0, 0x0, 0x0, 0x0, 0x0, 0x0, 0x0],
    [0x0, 0x0, 0x0, 0x0, 0x0, 0x0, 0x0, 0x0],
    [0x0, 0x0, 0xdf, 0xff, 0xff, 0xff, 0xfa, 0x0],
    [0x0, 0xe, 0xff, 0xff, 0xff, 0xff, 0xf5, 0x0],
    [0x0, 0x0, 0x0, 0x0, 0x0, 0x0, 0x0, 0x0],
    [0x0, 0x0, 0x0, 0x0, 0x0, 0x0, 0x0, 0x0],
    [0x0, 0x7, 0xff, 0xff, 0xff, 0xff, 0xf1, 0x0],
    [0x0, 0x5, 0xff, 0xff, 0xff, 0xff, 0xfe, 0x0],
    [0x0, 0x0, 0x0, 0x0, 0x0, 0x0, 0x0, 0x0],
    [0x0, 0x0, 0x0, 0x0, 0x0, 0x0, 0x0, 0x0],
    [0x0, 0x2f, 0xff, 0xff, 0xff, 0xff, 0x60, 0x0],
    [0x0, 0x0, 0xbf, 0xff, 0xff, 0xff, 0xff, 0x90],
    [0x0, 0x0, 0x0, 0x0, 0x0, 0x0, 0x0, 0x0],
    [0x0, 0x0, 0x0, 0x0, 0x0, 0x0, 0x0, 0x0],
    [0x0, 0xbf, 0xff, 0xff, 0xff, 0xfc, 0x0, 0x0],
    [0x0, 0x0, 0x1f, 0xff, 0xff, 0xff, 0xff, 0xf3],
    [0x0, 0x0, 0x0, 0x0, 0x0, 0x0, 0x0, 0x0],
    [0x0, 0x0, 0x0, 0x0, 0x0, 0x0, 0x0, 0x0],
    [0x5, 0xff, 0xff, 0xff, 0xff, 0xf3, 0x0, 0x0],
    [0x0, 0x0, 0x7, 0xff, 0xff, 0xff, 0xff, 0xfc],
    [0x0, 0x0, 0x0, 0x0, 0x0, 0x0, 0x0, 0x0],
    [0x0, 0x0, 0x0, 0x0, 0x0, 0x0, 0x0, 0x0],
    [0xe, 0xff, 0xff, 0xff, 0xff, 0x90, 0x0, 0x0],
    [0x0, 0x0, 0x0, 0xdf, 0xff, 0xff, 0xff, 0xff],
    [0x60, 0x0, 0x0, 0x0, 0x0, 0x0, 0x0, 0x0],
    [0x0, 0x0, 0x0, 0x0, 0x0, 0x0, 0x0, 0x0],
    [0x8f, 0xff, 0xff, 0xff, 0xfe, 0x10, 0x0, 0x0],
    [0x0, 0x0, 0x0, 0x3f, 0xff, 0xff, 0xff, 0xff],
    [0xe1, 0x0, 0x0, 0x0, 0x0, 0x0, 0x0, 0x0],
    [0x0, 0x0, 0x0, 0x0, 0x0, 0x0, 0x0, 0x3],
    [0xff, 0xff, 0xff, 0xff, 0xf5, 0x0, 0x0, 0x0],
    [0x0, 0x0, 0x0, 0x9, 0xff, 0xff, 0xff, 0xff],
    [0xfa, 0x0, 0x0, 0x0, 0x0, 0x0, 0x0, 0x0],
    [0x0, 0x0, 0x0, 0x0, 0x0, 0x0, 0x0, 0xc],
    [0xff, 0xff, 0xff, 0xff, 0xc0, 0x0, 0x0, 0x0],
    [0x0, 0x0, 0x0, 0x1, 0xef, 0xff, 0xff, 0xff],
    [0xff, 0x40, 0x0, 0x0, 0x0, 0x0, 0x0, 0x0],
    [0x0, 0x0, 0x0, 0x0, 0x0, 0x0, 0x0, 0x6f],
    [0xff, 0xff, 0xff, 0xff, 0x20, 0x0, 0x0, 0x0],
    [0x0, 0x0, 0x0, 0x0, 0x6f, 0xff, 0xff, 0xff],
    [0xff, 0xd0, 0x0, 0x0, 0x0, 0x0, 0x0, 0x0],
    [0x0, 0x0, 0x0, 0x0, 0x0, 0x0, 0x1, 0xef],
    [0xff, 0xff, 0xff, 0xf8, 0x0, 0x0, 0x0, 0x0],
    [0x0, 0x0, 0x0, 0x0, 0xc, 0xff, 0xff, 0xff],
    [0xff, 0xf7, 0x0, 0x0, 0x0, 0x0, 0x0, 0x0],
    [0x0, 0x0, 0x0, 0x0, 0x0, 0x0, 0xa, 0xff],
    [0xff, 0xff, 0xff, 0xd0, 0x0, 0x0, 0x0, 0x0],
    [0x0, 0x0, 0x0, 0x0, 0x2, 0xff, 0xff, 0xff],
    [0xff, 0xff, 0x20, 0x0, 0x0, 0x0, 0x0, 0x0],
    [0x0, 0x0, 0x0, 0x0, 0x0, 0x0, 0x4f, 0xff],
    [0xff, 0xff, 0xff, 0x40, 0x0, 0x0, 0x0, 0x0],
    [0x0, 0x0, 0x0, 0x0, 0x0, 0x8f, 0xff, 0xff],
    [0xff, 0xff, 0xb0, 0x0, 0x0, 0x0, 0x0, 0x0],
    [0x0, 0x0, 0x0, 0x0, 0x0, 0x0, 0xdf, 0xff],
    [0xff, 0xff, 0xfa, 0x0, 0x0, 0x0, 0x0, 0x0],
    [0x0, 0x0, 0x0, 0x0, 0x0, 0xe, 0xff, 0xff],
    [0xff, 0xff, 0xf5, 0x0, 0x0, 0x0, 0x0, 0x0],
    [0x0, 0x0, 0x0, 0x0, 0x0, 0x7, 0xff, 0xff],
    [0xff, 0xff, 0xf1, 0x0, 0x0, 0x0, 0x0, 0x0],
    [0x0, 0x0, 0x0, 0x0, 0x0, 0x4, 0xff, 0xff],
    [0xff, 0xff, 0xfe, 0x0, 0x0, 0x0, 0x0, 0x0],
    [0x0, 0x0, 0x0, 0x0, 0x0, 0x2f, 0xff, 0xff],
    [0xff, 0xff, 0x70, 0x0, 0x0, 0x0, 0x0, 0x0],
    [0x0, 0x0, 0x0, 0x0, 0x0, 0x0, 0xaf, 0xff],
    [0xff, 0xff, 0xff, 0x80, 0x0, 0x0, 0x0, 0x0],
    [0x0, 0x0, 0x0, 0x0, 0x0, 0xbf, 0xff, 0xff],
    [0xff, 0xfd, 0x0, 0x0, 0x0, 0x0, 0x0, 0x0],
    [0x0, 0x0, 0x0, 0x0, 0x0, 0x0, 0x1f, 0xff],
    [0xff, 0xff, 0xff, 0xf2, 0x0, 0x0, 0x0, 0x0],
    [0x0, 0x0, 0x0, 0x0, 0x5, 0xff, 0xff, 0xff],
    [0xff, 0xf3, 0x0, 0x0, 0x0, 0x0, 0x0, 0x0],
    [0x0, 0x0, 0x0, 0x0, 0x0, 0x0, 0x7, 0xff],
    [0xff, 0xff, 0xff, 0xfc, 0x0, 0x0, 0x0, 0x0],
    [0x0, 0x0, 0x0, 0x0, 0xe, 0xff, 0xff, 0xff],
    [0xff, 0x90, 0x0, 0x0, 0x0, 0x0, 0x0, 0x0],
    [0x0, 0x0, 0x0, 0x0, 0x0, 0x0, 0x0, 0xdf],
    [0xff, 0xff, 0xff, 0xff, 0x60, 0x0, 0x0, 0x0],
    [0x0, 0x0, 0x0, 0x0, 0x9f, 0xff, 0xff, 0xff],
    [0xfe, 0x10, 0x0, 0x0, 0x0, 0x0, 0x0, 0x0],
    [0x0, 0x0, 0x0, 0x0, 0x0, 0x0, 0x0, 0x3f],
    [0xff, 0xff, 0xff, 0xff, 0xe1, 0x0, 0x0, 0x0],
    [0x0, 0x0, 0x0, 0x3, 0xff, 0xff, 0xff, 0xff],
    [0xf6, 0x0, 0x0, 0x0, 0x0, 0x0, 0x0, 0x0],
    [0x0, 0x0, 0x0, 0x0, 0x0, 0x0, 0x0, 0x9],
    [0xff, 0xff, 0xff, 0xff, 0xf9, 0x0, 0x0, 0x0],
    [0x0, 0x0, 0x0, 0xc, 0xff, 0xff, 0xff, 0xff],
    [0xc0, 0x0, 0x0, 0x0, 0x0, 0x0, 0x0, 0x0],
    [0x0, 0x0, 0x0, 0x0, 0x0, 0x0, 0x0, 0x1],
    [0xef, 0xff, 0xff, 0xff, 0xff, 0x30, 0x0, 0x0],
    [0x0, 0x0, 0x0, 0x6f, 0xff, 0xff, 0xff, 0xff],
    [0x20, 0x0, 0x0, 0x0, 0x0, 0x0, 0x0, 0x0],
    [0x0, 0x0, 0x0, 0x0, 0x0, 0x0, 0x0, 0x0],
    [0x5f, 0xff, 0xff, 0xff, 0xff, 0xd0, 0x0, 0x0],
    [0x0, 0x0, 0x1, 0xef, 0xff, 0xff, 0xff, 0xf8],
    [0x0, 0x0, 0x0, 0x0, 0x0, 0x0, 0x0, 0x0],
    [0x0, 0x0, 0x0, 0x0, 0x0, 0x0, 0x0, 0x0],
    [0xc, 0xff, 0xff, 0xff, 0xff, 0xf7, 0x0, 0x0],
    [0x0, 0x0, 0xa, 0xff, 0xff, 0xff, 0xff, 0xe0],
    [0x0, 0x0, 0x0, 0x0, 0x0, 0x0, 0x0, 0x0],
    [0x0, 0x0, 0x0, 0x0, 0x0, 0x0, 0x0, 0x0],
    [0x2, 0xff, 0xff, 0xff, 0xff, 0xff, 0x10, 0x0],
    [0x0, 0x0, 0x4f, 0xff, 0xff, 0xff, 0xff, 0x50],
    [0x0, 0x0, 0x0, 0x0, 0x0, 0x0, 0x0, 0x0],
    [0x0, 0x0, 0x0, 0x0, 0x0, 0x0, 0x0, 0x0],
    [0x0, 0x8f, 0xff, 0xff, 0xff, 0xff, 0xa0, 0x0],
    [0x0, 0x0, 0xdf, 0xff, 0xff, 0xff, 0xfb, 0x0],
    [0x0, 0x0, 0x0, 0x0, 0x0, 0x0, 0x0, 0x0],
    [0x0, 0x0, 0x0, 0x0, 0x0, 0x0, 0x0, 0x0],
    [0x0, 0xd, 0xff, 0xff, 0xff, 0xff, 0xf4, 0x0],
    [0x0, 0x7, 0xff, 0xff, 0xff, 0xff, 0xf2, 0x0],
    [0x0, 0x0, 0x0, 0x0, 0x0, 0x0, 0x0, 0x0],
    [0x0, 0x0, 0x0, 0x0, 0x0, 0x0, 0x0, 0x0],
    [0x0, 0x4, 0xff, 0xff, 0xff, 0xff, 0xfd, 0x0],
    [0x0, 0x2f, 0xff, 0xff, 0xff, 0xff, 0x70, 0x0],
    [0x0, 0x0, 0x0, 0x0, 0x0, 0x0, 0x0, 0x0],
    [0x0, 0x0, 0x0, 0x0, 0x0, 0x0, 0x0, 0x0],
    [0x0, 0x0, 0xaf, 0xff, 0xff, 0xff, 0xff, 0x80],
    [0x0, 0xbf, 0xff, 0xff, 0xff, 0xfd, 0x0, 0x0],
    [0x0, 0x0, 0x0, 0x0, 0x0, 0x0, 0x0, 0x0],
    [0x0, 0x0, 0x0, 0x0, 0x0, 0x0, 0x0, 0x0],
    [0x0, 0x0, 0x1f, 0xff, 0xff, 0xff, 0xff, 0xf2],
    [0x5, 0xff, 0xff, 0xff, 0xff, 0xf4, 0x0, 0x0],
    [0x0, 0x0, 0x0, 0x0, 0x0, 0x0, 0x0, 0x0],
    [0x0, 0x0, 0x0, 0x0, 0x0, 0x0, 0x0, 0x0],
    [0x0, 0x0, 0x7, 0xff, 0xff, 0xff, 0xff, 0xfb],
    [0xe, 0xff, 0xff, 0xff, 0xff, 0xa0, 0x0, 0x0],
    [0x0, 0x0, 0x0, 0x0, 0x0, 0x0, 0x0, 0x0],
    [0x0, 0x0, 0x0, 0x0, 0x0, 0x0, 0x0, 0x0],
    [0x0, 0x0, 0x0, 0xcf, 0xff, 0xff, 0xff, 0xff],
    [0xcf, 0xff, 0xff, 0xff, 0xff, 0x10, 0x0, 0x0],
    [0x0, 0x0, 0x0, 0x0, 0x0, 0x0, 0x0, 0x0],
    [0x0, 0x0, 0x0, 0x0, 0x0, 0x0, 0x0, 0x0],
    [0x0, 0x0, 0x0, 0x3f, 0xff, 0xff, 0xff, 0xff],
    [0xff, 0xff, 0xff, 0xff, 0xf6, 0x0, 0x0, 0x0],
    [0x0, 0x0, 0x0, 0x0, 0x0, 0x0, 0x0, 0x0]]"

lemma glyph_U0059_a_length: "length (concat glyph_U0059_a) = 1184"
  by (simp add: glyph_U0059_a_def)

definition glyph_U0059_b :: "u8 list list" where
  "glyph_U0059_b = [
    [0x0, 0x0, 0x0, 0x0, 0x0, 0x0, 0x0, 0x0],
    [0x0, 0x0, 0x0, 0x9, 0xff, 0xff, 0xff, 0xff],
    [0xff, 0xff, 0xff, 0xff, 0xc0, 0x0, 0x0, 0x0],
    [0x0, 0x0, 0x0, 0x0, 0x0, 0x0, 0x0, 0x0],
    [0x0, 0x0, 0x0, 0x0, 0x0, 0x0, 0x0, 0x0],
    [0x0, 0x0, 0x0, 0x1, 0xef, 0xff, 0xff, 0xff],
    [0xff, 0xff, 0xff, 0xff, 0x30, 0x0, 0x0, 0x0],
    [0x0, 0x0, 0x0, 0x0, 0x0, 0x0, 0x0, 0x0],
    [0x0, 0x0, 0x0, 0x0, 0x0, 0x0, 0x0, 0x0],
    [0x0, 0x0, 0x0, 0x0, 0x5f, 0xff, 0xff, 0xff],
    [0xff, 0xff, 0xff, 0xf9, 0x0, 0x0, 0x0, 0x0],
    [0x0, 0x0, 0x0, 0x0, 0x0, 0x0, 0x0, 0x0],
    [0x0, 0x0, 0x0, 0x0, 0x0, 0x0, 0x0, 0x0],
    [0x0, 0x0, 0x0, 0x0, 0xb, 0xff, 0xff, 0xff],
    [0xff, 0xff, 0xff, 0xe0, 0x0, 0x0, 0x0, 0x0],
    [0x0, 0x0, 0x0, 0x0, 0x0, 0x0, 0x0, 0x0],
    [0x0, 0x0, 0x0, 0x0, 0x0, 0x0, 0x0, 0x0],
    [0x0, 0x0, 0x0, 0x0, 0x2, 0xff, 0xff, 0xff],
    [0xff, 0xff, 0xff, 0x50, 0x0, 0x0, 0x0, 0x0],
    [0x0, 0x0, 0x0, 0x0, 0x0, 0x0, 0x0, 0x0],
    [0x0, 0x0, 0x0, 0x0, 0x0, 0x0, 0x0, 0x0],
    [0x0, 0x0, 0x0, 0x0, 0x0, 0x8f, 0xff, 0xff],
    [0xff, 0xff, 0xfb, 0x0, 0x0, 0x0, 0x0, 0x0],
    [0x0, 0x0, 0x0, 0x0, 0x0, 0x0, 0x0, 0x0],
    [0x0, 0x0, 0x0, 0x0, 0x0, 0x0, 0x0, 0x0],
    [0x0, 0x0, 0x0, 0x0, 0x0, 0xd, 0xff, 0xff],
    [0xff, 0xff, 0xf2, 0x0, 0x0, 0x0, 0x0, 0x0],
    [0x0, 0x0, 0x0, 0x0, 0x0, 0x0, 0x0, 0x0],
    [0x0, 0x0, 0x0, 0x0, 0x0, 0x0, 0x0, 0x0],
    [0x0, 0x0, 0x0, 0x0, 0x0, 0xb, 0xff, 0xff],
    [0xff, 0xff, 0xd0, 0x0, 0x0, 0x0, 0x0, 0x0],
    [0x0, 0x0, 0x0, 0x0, 0x0, 0x0, 0x0, 0x0],
    [0x0, 0x0, 0x0, 0x0, 0x0, 0x0, 0x0, 0x0],
    [0x0, 0x0, 0x0, 0x0, 0x0, 0xb, 0xff, 0xff],
    [0xff, 0xff, 0xd0, 0x0, 0x0, 0x0, 0x0, 0x0],
    [0x0, 0x0, 0x0, 0x0, 0x0, 0x0, 0x0, 0x0],
    [0x0, 0x0, 0x0, 0x0, 0x0, 0x0, 0x0, 0x0],
    [0x0, 0x0, 0x0, 0x0, 0x0, 0xb, 0xff, 0xff],
    [0xff, 0xff, 0xd0, 0x0, 0x0, 0x0, 0x0, 0x0],
    [0x0, 0x0, 0x0, 0x0, 0x0, 0x0, 0x0, 0x0],
    [0x0, 0x0, 0x0, 0x0, 0x0, 0x0, 0x0, 0x0],
    [0x0, 0x0, 0x0, 0x0, 0x0, 0xb, 0xff, 0xff],
    [0xff, 0xff, 0xd0, 0x0, 0x0, 0x0, 0x0, 0x0],
    [0x0, 0x0, 0x0, 0x0, 0x0, 0x0, 0x0, 0x0],
    [0x0, 0x0, 0x0, 0x0, 0x0, 0x0, 0x0, 0x0],
    [0x0, 0x0, 0x0, 0x0, 0x0, 0xb, 0xff, 0xff],
    [0xff, 0xff, 0xd0, 0x0, 0x0, 0x0, 0x0, 0x0],
    [0x0, 0x0, 0x0, 0x0, 0x0, 0x0, 0x0, 0x0],
    [0x0, 0x0, 0x0, 0x0, 0x0, 0x0, 0x0, 0x0],
    [0x0, 0x0, 0x0, 0x0, 0x0, 0xb, 0xff, 0xff],
    [0xff, 0xff, 0xd0, 0x0, 0x0, 0x0, 0x0, 0x0],
    [0x0, 0x0, 0x0, 0x0, 0x0, 0x0, 0x0, 0x0],
    [0x0, 0x0, 0x0, 0x0, 0x0, 0x0, 0x0, 0x0],
    [0x0, 0x0, 0x0, 0x0, 0x0, 0xb, 0xff, 0xff],
    [0xff, 0xff, 0xd0, 0x0, 0x0, 0x0, 0x0, 0x0],
    [0x0, 0x0, 0x0, 0x0, 0x0, 0x0, 0x0, 0x0],
    [0x0, 0x0, 0x0, 0x0, 0x0, 0x0, 0x0, 0x0],
    [0x0, 0x0, 0x0, 0x0, 0x0, 0xb, 0xff, 0xff],
    [0xff, 0xff, 0xd0, 0x0, 0x0, 0x0, 0x0, 0x0],
    [0x0, 0x0, 0x0, 0x0, 0x0, 0x0, 0x0, 0x0],
    [0x0, 0x0, 0x0, 0x0, 0x0, 0x0, 0x0, 0x0],
    [0x0, 0x0, 0x0, 0x0, 0x0, 0xb, 0xff, 0xff],
    [0xff, 0xff, 0xd0, 0x0, 0x0, 0x0, 0x0, 0x0],
    [0x0, 0x0, 0x0, 0x0, 0x0, 0x0, 0x0, 0x0],
    [0x0, 0x0, 0x0, 0x0, 0x0, 0x0, 0x0, 0x0],
    [0x0, 0x0, 0x0, 0x0, 0x0, 0xb, 0xff, 0xff],
    [0xff, 0xff, 0xd0, 0x0, 0x0, 0x0, 0x0, 0x0],
    [0x0, 0x0, 0x0, 0x0, 0x0, 0x0, 0x0, 0x0],
    [0x0, 0x0, 0x0, 0x0, 0x0, 0x0, 0x0, 0x0],
    [0x0, 0x0, 0x0, 0x0, 0x0, 0xb, 0xff, 0xff],
    [0xff, 0xff, 0xd0, 0x0, 0x0, 0x0, 0x0, 0x0],
    [0x0, 0x0, 0x0, 0x0, 0x0, 0x0, 0x0, 0x0],
    [0x0, 0x0, 0x0, 0x0, 0x0, 0x0, 0x0, 0x0],
    [0x0, 0x0, 0x0, 0x0, 0x0, 0xb, 0xff, 0xff],
    [0xff, 0xff, 0xd0, 0x0, 0x0, 0x0, 0x0, 0x0],
    [0x0, 0x0, 0x0, 0x0, 0x0, 0x0, 0x0, 0x0],
    [0x0, 0x0, 0x0, 0x0, 0x0, 0x0, 0x0, 0x0],
    [0x0, 0x0, 0x0, 0x0, 0x0, 0xb, 0xff, 0xff],
    [0xff, 0xff, 0xd0, 0x0, 0x0, 0x0, 0x0, 0x0],
    [0x0, 0x0, 0x0, 0x0, 0x0, 0x0, 0x0, 0x0],
    [0x0, 0x0, 0x0, 0x0, 0x0, 0x0, 0x0, 0x0],
    [0x0, 0x0, 0x0, 0x0, 0x0, 0xb, 0xff, 0xff],
    [0xff, 0xff, 0xd0, 0x0, 0x0, 0x0, 0x0, 0x0],
    [0x0, 0x0, 0x0, 0x0, 0x0, 0x0, 0x0, 0x0],
    [0x0, 0x0, 0x0, 0x0, 0x0, 0x0, 0x0, 0x0],
    [0x0, 0x0, 0x0, 0x0, 0x0, 0xb, 0xff, 0xff],
    [0xff, 0xff, 0xd0, 0x0, 0x0, 0x0, 0x0, 0x0],
    [0x0, 0x0, 0x0, 0x0, 0x0, 0x0, 0x0, 0x0],
    [0x0, 0x0, 0x0, 0x0, 0x0, 0x0, 0x0, 0x0],
    [0x0, 0x0, 0x0, 0x0, 0x0, 0xb, 0xff, 0xff],
    [0xff, 0xff, 0xd0, 0x0, 0x0, 0x0, 0x0, 0x0],
    [0x0, 0x0, 0x0, 0x0, 0x0, 0x0, 0x0, 0x0],
    [0x0, 0x0, 0x0, 0x0, 0x0, 0x0, 0x0, 0x0],
    [0x0, 0x0, 0x0, 0x0, 0x0, 0xb, 0xff, 0xff],
    [0xff, 0xff, 0xd0, 0x0, 0x0, 0x0, 0x0, 0x0],
    [0x0, 0x0, 0x0, 0x0, 0x0, 0x0, 0x0, 0x0],
    [0x0, 0x0, 0x0, 0x0, 0x0, 0x0, 0x0, 0x0],
    [0x0, 0x0, 0x0, 0x0, 0x0, 0xb, 0xff, 0xff],
    [0xff, 0xff, 0xd0, 0x0, 0x0, 0x0, 0x0, 0x0],
    [0x0, 0x0, 0x0, 0x0, 0x0, 0x0, 0x0, 0x0],
    [0x0, 0x0, 0x0, 0x0, 0x0, 0x0, 0x0, 0x0],
    [0x0, 0x0, 0x0, 0x0, 0x0, 0xb, 0xff, 0xff],
    [0xff, 0xff, 0xd0, 0x0, 0x0, 0x0, 0x0, 0x0],
    [0x0, 0x0, 0x0, 0x0, 0x0, 0x0, 0x0, 0x0],
    [0x0, 0x0, 0x0, 0x0, 0x0, 0x0, 0x0, 0x0],
    [0x0, 0x0, 0x0, 0x0, 0x0, 0xb, 0xff, 0xff],
    [0xff, 0xff, 0xd0, 0x0, 0x0, 0x0, 0x0, 0x0],
    [0x0, 0x0, 0x0, 0x0, 0x0, 0x0, 0x0, 0x0],
    [0x0, 0x0, 0x0, 0x0, 0x0, 0x0, 0x0, 0x0],
    [0x0, 0x0, 0x0, 0x0, 0x0, 0xb, 0xff, 0xff],
    [0xff, 0xff, 0xd0, 0x0, 0x0, 0x0, 0x0, 0x0],
    [0x0, 0x0, 0x0, 0x0, 0x0, 0x0, 0x0, 0x0],
    [0x0, 0x0, 0x0, 0x0, 0x0, 0x0, 0x0, 0x0],
    [0x0, 0x0, 0x0, 0x0, 0x0, 0xb, 0xff, 0xff],
    [0xff, 0xff, 0xd0, 0x0, 0x0, 0x0, 0x0, 0x0],
    [0x0, 0x0, 0x0, 0x0, 0x0, 0x0, 0x0, 0x0],
    [0x0, 0x0, 0x0, 0x0, 0x0, 0x0, 0x0, 0x0],
    [0x0, 0x0, 0x0, 0x0, 0x0, 0xb, 0xff, 0xff],
    [0xff, 0xff, 0xd0, 0x0, 0x0, 0x0, 0x0, 0x0],
    [0x0, 0x0, 0x0, 0x0, 0x0, 0x0, 0x0, 0x0]]"

lemma glyph_U0059_b_length: "length (concat glyph_U0059_b) = 960"
  by (simp add: glyph_U0059_b_def)

text \<open>The bitmaps of these glyphs, in the order of the table.\<close>

definition bitmaps_py :: "bytes list" where
  "bitmaps_py = [
    concat glyph_U0050_a @ concat glyph_U0050_b,
    concat glyph_U0051_a @ concat glyph_U0051_b @ concat glyph_U0051_c,
    concat glyph_U0052_a @ concat glyph_U0052_b,
    concat glyph_U0053_a @ concat glyph_U0053_b,
    concat glyph_U0054_a @ concat glyph_U0054_b,
    concat glyph_U0055_a @ concat glyph_U0055_b,
    concat glyph_U0056_a @ concat glyph_U0056_b,
    concat glyph_U0057_a @ concat glyph_U0057_b @ concat glyph_U0057_c,
    concat glyph_U0058_a @ concat glyph_U0058_b,
    concat glyph_U0059_a @ concat glyph_U0059_b]"

lemma bitmaps_py_lengths: "map length bitmaps_py = [1843, 3116, 1876, 1829, 1876, 1972, 2345, 3451, 2111, 2144]"
  by (simp add: bitmaps_py_def
    glyph_U0050_a_length glyph_U0050_b_length
    glyph_U0051_a_length glyph_U0051_b_length glyph_U0051_c_length
    glyph_U0052_a_length glyph_U0052_b_length
    glyph_U0053_a_length glyph_U0053_b_length
    glyph_U0054_a_length glyph_U0054_b_length
    glyph_U0055_a_length glyph_U0055_b_length
    glyph_U0056_a_length glyph_U0056_b_length
    glyph_U0057_a_length glyph_U0057_b_length glyph_U0057_c_length
    glyph_U0058_a_length glyph_U0058_b_length
    glyph_U0059_a_length glyph_U0059_b_length)

end
