(* ===== verification/Montserrat_Tables.thy ===== *)
theory Montserrat_Tables
  imports Montserrat_Signs Montserrat_Digits Montserrat_AD Montserrat_EO Montserrat_PY Montserrat_ZF Montserrat_GQ Montserrat_RZ
begin

text \<open>
  \<open>firmware/housepanel-giga/montserrat_96.c\<close> from the glyph descriptions to the public font:
  the font of the panel's clock, as its initialisers have it. The records are the LVGL
  structures, with the fields that the file sets. The bitmaps are in the \<open>Montserrat_\<close>
  theories, by ranges of characters.
\<close>

section \<open>Glyph descriptions and the character map\<close>

record lv_glyph_dsc =
  bitmap_index :: nat
  adv_w :: nat
  box_w :: nat
  box_h :: nat
  ofs_x :: int
  ofs_y :: int

definition glyph_dsc :: "lv_glyph_dsc list" where
  "glyph_dsc = map (\<lambda>(index, adv, w, h, x, y).
      \<lparr>bitmap_index = index, adv_w = adv, box_w = w, box_h = h, ofs_x = x, ofs_y = y\<rparr>) [
    (0, 0, 0, 0, 0, 0),
    (0, 413, 0, 0, 0, 0),
    (0, 412, 14, 68, 6, -1),
    (476, 601, 26, 26, 6, 41),
    (814, 1080, 63, 67, 2, 0),
    (2925, 954, 53, 90, 3, -12),
    (5310, 1295, 75, 69, 3, -1),
    (7898, 1054, 61, 69, 4, -1),
    (10003, 323, 9, 26, 6, 41),
    (10120, 518, 21, 89, 9, -18),
    (11055, 519, 21, 89, 3, -18),
    (11990, 614, 36, 36, 1, 35),
    (12638, 894, 44, 42, 6, 12),
    (13562, 349, 14, 27, 4, -14),
    (13751, 588, 27, 8, 5, 22),
    (13859, 349, 14, 14, 4, -1),
    (13957, 541, 41, 90, -3, -10),
    (15802, 1025, 56, 69, 4, -1),
    (17734, 568, 26, 67, 0, 0),
    (18605, 882, 51, 68, 1, 0),
    (20339, 879, 51, 68, 0, -1),
    (22073, 1028, 61, 67, 3, 0),
    (24117, 882, 51, 68, 1, -1),
    (25851, 948, 53, 69, 4, -1),
    (27680, 919, 52, 67, 2, 0),
    (29422, 989, 54, 69, 4, -1),
    (31285, 948, 53, 69, 2, -1),
    (33114, 349, 14, 52, 4, -1),
    (33478, 349, 14, 65, 4, -14),
    (33933, 894, 44, 43, 6, 12),
    (34879, 894, 44, 30, 6, 18),
    (35539, 894, 44, 43, 6, 12),
    (36485, 880, 49, 69, 0, -1),
    (38176, 1588, 91, 87, 4, -19),
    (42135, 1124, 72, 67, -1, 0),
    (44547, 1163, 58, 67, 10, 0),
    (46490, 1111, 62, 69, 4, -1),
    (48629, 1269, 65, 67, 10, 0),
    (50807, 1029, 49, 67, 10, 0),
    (52449, 975, 48, 67, 10, 0),
    (54057, 1186, 63, 69, 4, -1),
    (56231, 1247, 58, 67, 10, 0),
    (58174, 476, 10, 67, 10, 0),
    (58509, 788, 41, 68, -1, -1),
    (59903, 1104, 59, 67, 10, 0),
    (61880, 912, 47, 67, 10, 0),
    (63455, 1467, 72, 67, 10, 0),
    (65867, 1247, 58, 67, 10, 0),
    (67810, 1290, 73, 69, 4, -1),
    (70329, 1109, 55, 67, 10, 0),
    (72172, 1290, 76, 82, 4, -14),
    (75288, 1117, 56, 67, 10, 0),
    (77164, 954, 53, 69, 3, -1),
    (78993, 902, 56, 67, 0, 0),
    (80869, 1215, 58, 68, 9, -1),
    (82841, 1094, 70, 67, -1, 0),
    (85186, 1730, 103, 67, 3, 0),
    (88637, 1034, 63, 67, 1, 0),
    (90748, 994, 64, 67, -1, 0),
    (92892, 1009, 57, 67, 4, 0),
    (94802, 511, 21, 89, 10, -18),
    (95737, 541, 41, 90, -4, -10),
    (97582, 511, 21, 89, 1, -18),
    (98517, 895, 42, 40, 7, 14),
    (99357, 768, 48, 6, 0, -6),
    (99501, 922, 25, 13, 11, 58),
    (99664, 919, 46, 52, 4, -1),
    (100860, 1048, 54, 72, 8, -1),
    (102804, 877, 48, 52, 4, -1),
    (104052, 1048, 53, 72, 4, -1),
    (105960, 940, 51, 52, 4, -1),
    (107286, 542, 37, 72, 1, 0),
    (108618, 1060, 54, 70, 4, -19),
    (110508, 1046, 50, 71, 8, 0),
    (112283, 429, 13, 72, 7, 0),
    (112751, 436, 30, 92, -9, -19),
    (114131, 946, 51, 71, 8, 0),
    (115942, 429, 10, 71, 8, 0),
    (116297, 1624, 86, 51, 8, 0),
    (118490, 1046, 50, 51, 8, 0),
    (119765, 975, 53, 52, 4, -1),
    (121143, 1048, 54, 69, 8, -18),
    (123006, 1048, 53, 69, 4, -18),
    (124835, 630, 29, 51, 8, 0),
    (125575, 770, 44, 52, 2, -1),
    (126719, 636, 37, 63, 1, -1),
    (127885, 1040, 49, 52, 8, -1),
    (129159, 859, 55, 51, -1, 0),
    (130562, 1381, 86, 51, 0, 0),
    (132755, 848, 51, 51, 1, 0),
    (134056, 859, 57, 70, -3, -19),
    (136051, 800, 44, 51, 3, 0),
    (137173, 539, 27, 89, 5, -18),
    (138375, 459, 9, 89, 10, -18),
    (138776, 539, 28, 89, 1, -18),
    (140022, 894, 46, 17, 5, 25)]"

datatype cmap_type = LV_FONT_FMT_TXT_CMAP_FORMAT0_TINY

record lv_cmap =
  range_start :: nat
  range_length :: nat
  glyph_id_start :: nat
  unicode_list :: "nat list option"
  glyph_id_ofs_list :: "nat list option"
  list_length :: nat
  cm_type :: cmap_type

definition cmaps :: "lv_cmap list" where
  "cmaps = [\<lparr>range_start = 32, range_length = 95, glyph_id_start = 1, unicode_list = None,
     glyph_id_ofs_list = None, list_length = 0, cm_type = LV_FONT_FMT_TXT_CMAP_FORMAT0_TINY\<rparr>]"

section \<open>Kerning\<close>

definition kern_left_class_mapping :: "nat list" where
  "kern_left_class_mapping = concat [
    [0, 0, 1, 2, 0, 3, 4, 5],
    [2, 6, 7, 8, 9, 10, 9, 10],
    [11, 12, 0, 13, 14, 15, 16, 17],
    [18, 19, 12, 20, 20, 0, 0, 0],
    [21, 22, 23, 24, 25, 22, 26, 27],
    [28, 29, 29, 30, 31, 32, 29, 29],
    [22, 33, 34, 35, 3, 36, 30, 37],
    [37, 38, 39, 40, 41, 42, 43, 0],
    [44, 0, 45, 46, 47, 48, 49, 50],
    [51, 45, 52, 52, 53, 48, 45, 45],
    [46, 46, 54, 55, 56, 57, 51, 58],
    [58, 59, 58, 60, 41, 0, 0, 9]]"

definition kern_right_class_mapping :: "nat list" where
  "kern_right_class_mapping = concat [
    [0, 0, 1, 2, 0, 3, 4, 5],
    [2, 6, 7, 8, 9, 10, 9, 10],
    [11, 12, 13, 14, 15, 16, 17, 12],
    [18, 19, 20, 21, 21, 0, 0, 0],
    [22, 23, 24, 25, 23, 25, 25, 25],
    [23, 25, 25, 26, 25, 25, 25, 25],
    [23, 25, 23, 25, 3, 27, 28, 29],
    [29, 30, 31, 32, 33, 34, 35, 0],
    [36, 0, 37, 38, 39, 39, 39, 0],
    [39, 38, 40, 41, 38, 38, 42, 42],
    [39, 42, 39, 42, 43, 44, 45, 46],
    [46, 47, 46, 48, 0, 0, 35, 9]]"

definition kern_values_a :: "int list list" where
  "kern_values_a = [
    [0, 3, 0, 0, 0, 0, 0, 0],
    [0, 3, 0, 0, 8, 0, 0, 0],
    [0, 6, 0, 0, 0, 0, 0, 0],
    [0, 0, 0, 0, 0, 0, 0, 0],
    [0, 0, 3, 0, 0, 0, 0, 0],
    [0, 0, 0, 0, 0, 0, 0, 0],
    [3, 38, 0, 23, -19, 0, 0, 0],
    [0, -47, -51, 6, 40, 19, 14, -34],
    [6, 42, 3, 36, 8, 27, 0, 0],
    [0, 0, 0, 0, 0, 0, 0, 0],
    [0, 51, 7, -6, 0, 0, 0, 0],
    [0, 0, 0, 0, 0, 0, 0, 0],
    [0, -25, 0, 0, 0, 0, 0, -17],
    [14, 17, 0, 0, -8, 0, -6, 8],
    [0, -8, 0, -8, -4, -17, 0, 0],
    [0, 0, -8, 0, 0, -11, -13, 0],
    [0, -8, 0, -17, 0, 0, 0, 0],
    [0, 0, 0, 0, 0, -8, -8, 0],
    [0, -23, 0, -103, 0, 0, -17, 0],
    [17, 25, 1, 0, -17, 8, 8, 28],
    [17, -14, 17, 0, 0, -48, 0, 0],
    [0, 0, 0, 0, 0, 0, 0, 0],
    [0, -31, 0, 0, 0, 0, 0, 0],
    [0, 0, 0, 0, 0, 0, 0, 0],
    [-10, -42, 0, -34, -6, 0, 0, 0],
    [0, 2, 33, 0, -25, -7, -3, 3],
    [0, -14, 0, 0, -6, -63, 0, 0],
    [0, 0, 0, 0, 0, 0, 0, 0],
    [0, -68, -7, 32, 0, 0, 0, 0],
    [0, 0, 0, 0, 0, 0, 0, 0],
    [0, 0, 0, 0, 0, 0, 0, 0],
    [0, 0, 28, 0, 8, 0, 0, -17],
    [0, 0, 0, 0, 0, 0, 0, 0],
    [0, 0, 0, 0, 0, 0, 0, 0],
    [0, 32, 7, 3, 0, 0, 0, 0],
    [0, 0, 0, 0, 0, 0, 0, 0],
    [0, 0, 0, 0, 0, 0, 0, 0],
    [0, 0, 0, 0, 0, 0, 0, 0],
    [0, 0, 0, 0, 0, 0, 0, 0],
    [0, 0, -31, 0, 0, 0, 0, 0],
    [0, 0, 0, 0, 0, 0, 0, 0],
    [0, 0, 0, 0, 0, 0, 0, 0],
    [6, 17, 8, 25, -8, 0, 0, 17],
    [-8, -28, -116, 6, 23, 17, 2, -11],
    [0, 31, 0, 27, 0, 27, 0, -79],
    [0, -10, 25, 0, 28, -8, 17, 8],
    [0, 0, 3, -8, 0, 0, -14, 68],
    [0, 68, 0, 25, 0, 36, 11, 14],
    [0, 0, 0, -31, 0, 0, 0, 0],
    [3, -6, 0, 6, -15, -11, -17, 6],
    [0, -8, 0, 0, 0, -34, 0, 0],
    [0, 0, 0, 0, 0, 0, 0, 0],
    [0, -55, 0, 0, 0, 0, 0, 0],
    [0, 0, 0, 0, 0, 0, 0, 0],
    [3, -47, 0, -53, 0, 0, 0, 0],
    [-6, 0, 84, -10, -11, 8, 8, -8],
    [0, -11, 8, 0, 0, -45, 0, 0],
    [0, 0, 0, 0, 0, 0, 0, 0],
    [0, -82, 0, 8, 0, 0, 0, 0],
    [0, 0, 0, 0, 0, 0, 0, 0],
    [0, 51, 0, 0, -31, 0, 28, 0],
    [-58, -82, -58, -17, 25, 0, 0, -57],
    [0, 10, -19, 0, -13, 0, 0, 0],
    [0, 0, 0, 0, 0, 0, 0, 0],
    [0, 22, 25, -103, 0, 0, 0, 0],
    [0, 0, 0, 0, 0, 0, 0, 0],
    [0, 6, 0, 0, 0, 0, 0, 6],
    [6, -10, -17, 0, -3, -3, -8, 0],
    [0, -6, 0, 0, 0, -17, 0, -7],
    [0, -19, -17, 0, -21, -28, -28, -16],
    [0, -17, 0, -17, 0, 0, 0, 0],
    [-7, 0, 0, 8, 0, 6, -8, 0],
    [0, 0, 0, 8, -6, 0, 0, 0],
    [-6, 8, 8, -3, 0, 0, 0, -16],
    [0, -3, 0, 0, 0, 0, 0, 3],
    [0, 11, -6, 0, -10, 0, -14, 0],
    [0, -6, 0, 25, 0, 0, -8, 0],
    [0, 0, 0, 0, -3, 3, -6, -6],
    [0, -8, 0, -8, 0, 0, 0, 0],
    [0, 0, 0, 0, 0, -4, -4, 0],
    [-8, -10, 0, 0, 0, 0, 0, 3],
    [0, 0, -6, 0, -8, -8, -8, 0],
    [0, 0, 0, 0, 0, 0, 0, 0],
    [-5, 0, 0, 0, 0, -6, -11, 0],
    [0, -25, -6, -25, 17, 0, 0, -17],
    [8, 17, 23, 0, -21, -3, -10, 0],
    [-3, -40, 8, -6, 6, -45, 8, 0],
    [0, 3, -44, 0, -45, -7, -74, -6],
    [0, -42, 0, 17, 24, 0, 11, 0],
    [0, 0, 0, 2, 0, -15, -11, 0],
    [0, 0, 0, -8, 0, 0, 0, -8],
    [0, 0, 0, 0, 0, -4, -4, 0],
    [-4, -11, 0, 0, 0, 0, 0, 0],
    [0, -8, -8, 0, -6, -10, -7, 0],
    [0, -8, 0, 0, 0, 0, 0, 0],
    [0, 0, 0, 0, 0, -7, -7, 0],
    [0, -6, 0, -17, 8, 0, 0, -10],
    [4, 8, 8, 0, 0, 0, 0, 0],
    [0, -6, 0, 0, 0, 0, 0, 6],
    [0, 0, -8, 0, -8, -6, -10, 0],
    [0, 0, 0, 0, 0, 0, 7, 0],
    [-7, 0, 0, 0, 0, -9, -13, 0],
    [0, 25, -6, 3, -27, 0, 0, 23],
    [-42, -44, -36, -17, 8, 0, -7, -55],
    [-15, 0, -15, 0, -17, 13, -15, -54],
    [0, -23, 0, 0, 4, -3, 7, -6],
    [0, 8, 1, -25, -32, 0, -42, -20],
    [-18, -20, -25, -10, -23, -2, -16, -23],
    [0, 3, 0, -8, 0, 0, 0, 6],
    [0, 8, 0, 0, 0, 0, 0, 0],
    [0, 0, 0, 0, 0, -8, 0, -4],
    [0, -3, -8, 0, -14, -19, -19, -3],
    [0, -25, 0, 0, 0, 0, 0, 0],
    [-7, 0, 0, 0, 0, 3, -5, 0],
    [0, 8, 0, 0, 0, 0, 0, 0],
    [0, 0, 41, 0, 0, 0, 0, 0],
    [0, 6, 0, 0, 0, -8, 0, 0],
    [0, 0, 0, 0, 0, 0, 0, 0],
    [0, -15, 0, 8, 0, 0, 0, 0],
    [0, 0, 0, 0, 0, 0, 0, 0],
    [-6, 0, 0, 0, -16, 0, 0, 0],
    [0, -42, -25, 0, 0, 0, -13, -42],
    [0, 0, -8, 8, 0, -23, 0, 0],
    [0, 0, 0, 0, 0, 0, 0, 0],
    [-14, 0, 0, -16, 0, 0, 0, 0],
    [0, 0, 0, 0, 0, 0, 0, 0],
    [0, -15, 0, 0, 0, 0, 10, 0],
    [6, -17, -17, 0, -8, -8, -10, 0],
    [0, 0, 0, 0, 0, -25, 0, -8],
    [0, -13, -8, 0, -19, -21, -25, -7],
    [0, -17, 0, -25, 0, 0, 0, 0],
    [68, 0, 0, 4, 0, 0, -11, 0],
    [0, -36, 0, 0, 0, 0, 0, -79],
    [-15, 28, 25, -7, -36, 0, 8, -13],
    [0, -42, -4, -11, 8, -59, -8, 11],
    [0, 13, -30, -13, -31, -28, -36, 0],
    [0, -51, 0, 48, 0, 0, -4, 0],
    [0, 0, -4, -4, -8, -23, -28, -2],
    [0, 0, 0, 0, 0, 0, 0, 0],
    [0, 3, 0, 0, 0, 0, 0, 0],
    [0, 0, 0, 0, 0, 0, 0, 0],
    [0, 0, -8, 0, -4, -8, -13, 0],
    [0, -17, 0, -8, 0, 0, 0, 0],
    [0, 0, 0, 0, 0, 0, 0, 0],
    [0, 0, -3, 0, -17, 0, 0, 17],
    [-3, 11, 0, -19, 8, -6, -3, -22],
    [-8, 0, -11, -8, -6, 0, -13, -14],
    [0, 0, -7, -3, -6, -14, -10, 0]]"

lemma kern_values_a_length: "length (concat kern_values_a) = 1184"
  by (simp add: kern_values_a_def)

definition kern_values_b :: "int list list" where
  "kern_values_b = [
    [0, -8, 0, 8, -6, 0, -19, 0],
    [0, 0, -17, 0, -14, 0, -14, -14],
    [0, 0, 0, 0, 0, 0, 0, 0],
    [-17, 8, 0, -12, 0, -6, -10, -26],
    [-6, -6, -6, -3, -6, -10, -3, 0],
    [0, 0, 0, 0, -8, -7, -7, 0],
    [0, 0, 0, 10, -6, 0, -6, 0],
    [0, 0, -6, -10, -6, -8, -10, -8],
    [7, 34, -3, 0, -23, 0, -6, 17],
    [0, -8, -36, -11, 13, 1, 0, -40],
    [-14, 8, -14, 6, 0, -6, -7, -27],
    [0, -13, 4, 0, 0, -14, 0, 0],
    [0, 8, 8, -17, -16, 0, -14, -8],
    [-13, -8, -8, 0, -14, 4, -16, -14],
    [0, 0, 0, 0, 0, 0, 0, 0],
    [0, 8, 0, 0, 0, 0, 0, 0],
    [0, 0, 0, 0, 0, 0, 0, 0],
    [0, 0, 0, 0, 0, 0, 0, 0],
    [0, -14, 0, 0, 0, 0, 0, 0],
    [0, 0, 0, 0, 0, 0, 0, 0],
    [0, 0, 0, 0, 0, 0, 0, 0],
    [0, 0, 0, 0, 0, 0, 0, 0],
    [0, 0, 0, 0, 0, 0, 0, 0],
    [0, 0, 0, 0, -6, 0, 0, 0],
    [0, 0, 0, 0, 0, 0, 0, 0],
    [0, 0, 0, 0, 0, 0, 0, 0],
    [0, 0, 0, 0, 0, 0, 0, 0],
    [0, -7, -8, 0, 0, 0, 0, 0],
    [0, 0, 0, 0, 0, 0, 0, -13],
    [0, 0, -11, 0, 0, -8, -8, 0],
    [0, 0, 0, -8, 0, 0, 0, 0],
    [-4, 0, 0, 0, 0, 0, -6, 0],
    [0, 0, -13, 0, -17, 0, 0, 0],
    [-28, 0, 6, -19, 17, 2, -6, -40],
    [0, 0, -19, -8, 0, -34, -21, -24],
    [0, 0, -36, -8, -34, -32, -41, 0],
    [-22, 0, 7, 57, -11, 0, -19, -8],
    [-3, -8, -14, -23, -15, -31, -35, -19],
    [0, 0, -6, 0, 3, 0, 0, -59],
    [-8, 25, 19, -19, -31, 0, 3, -26],
    [0, -42, -6, -8, 17, -78, -11, 3],
    [0, 0, -55, -10, -44, -8, -62, 0],
    [0, -59, 0, 50, 3, 0, -6, 0],
    [0, 0, 0, -4, -6, -32, -6, 0],
    [0, 0, 0, 0, -27, 0, -8, 0],
    [-3, -24, -40, 0, 0, -4, -13, -25],
    [-8, 0, -6, 0, 0, 0, 0, -38],
    [-8, -28, -27, -7, -14, -21, -8, -14],
    [0, -17, -8, -28, -13, 0, -10, -16],
    [-8, -16, 0, 4, 0, -6, -28, 0],
    [0, -15, 0, 0, 0, 0, 10, 0],
    [6, -17, 35, 0, -8, -8, -10, 0],
    [0, 0, 0, 0, 0, -25, 0, -8],
    [0, -13, -8, 0, -19, -21, -25, -7],
    [0, -17, 7, 34, 0, 0, 0, 0],
    [68, 0, 0, 4, 0, 0, -11, 0],
    [0, 0, 0, 0, 0, 0, 0, 0],
    [-2, 0, 0, 0, 0, 0, -6, -17],
    [0, 0, 0, 0, 0, -4, 0, 0],
    [0, -8, -8, 0, 0, -17, -8, 0],
    [0, -17, 0, 14, -4, 0, 0, 0],
    [0, 0, 0, 4, 0, 0, 0, 0],
    [17, 7, -8, 0, -27, -14, 0, 25],
    [-28, -27, -17, -17, 34, 15, 8, -74],
    [-6, 17, -8, 0, -8, 9, -8, -30],
    [0, -8, 8, -11, -7, -25, -7, 0],
    [0, 25, 17, 0, -24, 0, -47, -11],
    [25, -11, -32, 3, -11, -28, -28, -8],
    [8, 0, -13, 0, -23, 0, 7, 28],
    [-19, -31, -34, -21, 25, 0, 3, -62],
    [-7, 8, -14, -6, -19, 0, -19, -31],
    [-13, -13, -7, 0, 0, -19, -18, -8],
    [0, 25, 19, -8, -47, 0, -47, -12],
    [0, -30, -49, -3, -27, -14, -28, -24],
    [0, 0, -11, 0, -17, -8, 0, -8],
    [-15, 0, 14, -28, 8, 0, 0, -45],
    [0, -8, -19, -14, -6, -25, -21, -28],
    [-19, 0, -25, -8, -19, -16, -25, -8],
    [0, 0, 3, 40, -14, 0, -25, -8],
    [0, -8, -17, -19, -23, -24, -32, -11],
    [17, 0, -13, 0, -42, -10, 5, 17],
    [-27, -31, -17, -28, 28, -8, 4, -79],
    [-15, 17, -19, -14, -31, 0, -25, -36],
    [-10, -8, -7, -8, -18, -25, -3, 0],
    [0, 25, 24, -6, -55, 0, -51, -19],
    [20, -32, -58, -17, -30, -36, -42, -28],
    [0, 0, 0, 0, -10, 0, 0, 8],
    [-10, 17, 6, -16, 17, 0, 0, -26],
    [-3, 0, -3, 0, 3, 3, -7, 0],
    [0, 0, 0, 0, 0, -8, 0, 0],
    [0, 0, 7, 25, 2, 0, -10, 0],
    [0, 0, 0, -6, -6, -10, 0, 0],
    [3, 7, 0, 0, 0, 0, 7, 0],
    [-7, 0, 32, 0, 15, 3, 3, -11],
    [0, 17, 0, 0, 0, 7, 0, 0],
    [0, 0, 0, 0, 0, 0, 0, 0],
    [0, 25, 0, 24, 0, 0, 0, 0],
    [0, 0, 0, 0, 0, 0, 0, 0],
    [0, -51, 0, -8, 14, 0, 25, 0],
    [0, 84, 10, -17, -17, 8, 8, -6],
    [3, -42, 0, 0, 41, -51, 0, 0],
    [0, 0, 0, 0, 0, 0, 0, 0],
    [0, -58, 32, 119, 0, 0, 0, 0],
    [0, 0, 0, 0, 0, 0, 0, 0],
    [0, 0, 0, 0, 0, 0, 0, 0],
    [0, 0, 0, 0, 0, 0, 0, 0],
    [0, 0, 0, 0, 0, 0, 0, 0],
    [0, 0, -14, 0, 0, -16, -8, 0],
    [0, 0, 0, 0, 0, 0, 0, 0],
    [0, 0, 0, 0, 0, 0, 0, 0],
    [0, -6, 0, -23, 0, 0, 3, 0],
    [0, 8, 109, -17, -7, 27, 23, -23],
    [8, 0, 0, 8, 8, -11, 0, 0],
    [0, 0, 0, 0, 0, 0, 0, 0],
    [0, -110, 24, 0, 0, 0, 0, 0],
    [0, 0, 0, 0, 0, 0, 0, 0],
    [0, 0, 0, -24, 0, 0, 0, -23],
    [0, 0, 0, 0, -19, -4, 0, 0],
    [0, -19, 0, -10, 0, -40, 0, 0],
    [0, 0, 0, 0, 0, 0, 0, 0],
    [0, -57, 0, 0, 0, 0, 3, 0],
    [0, 0, 0, 0, 0, -8, 0, 0],
    [0, -13, 0, -23, 0, 0, 0, -14],
    [8, -10, 0, 0, -23, -8, -19, 0],
    [0, -23, 0, -8, 0, -40, 0, -9],
    [0, 0, -69, -16, -34, -9, -31, 0],
    [0, -57, 0, -23, -4, 0, 0, 0],
    [0, 0, 0, 0, 0, -13, -15, -7],
    [0, 0, 0, 0, -19, 0, -19, 11],
    [-9, 17, 0, -6, -19, -6, -14, -16],
    [0, -10, -4, -6, 6, -23, -3, 0],
    [0, 0, -75, -7, -12, 0, -19, 0],
    [-6, -40, -8, 0, 0, -6, -7, 0],
    [0, 0, 0, 6, 0, -6, -14, -6],
    [0, 0, 0, 0, 0, 0, 0, 0],
    [0, 0, 0, 0, 0, 0, 0, 0],
    [0, 0, 0, 0, 0, 0, 0, 0],
    [0, 0, 0, 0, 0, 0, 0, 0],
    [0, 0, 0, 0, 0, 0, 0, 0],
    [0, 0, 0, 11, 0, 0, 0, 0],
    [0, -19, 0, -6, 0, 0, 0, -17],
    [8, 0, 0, 0, -23, -8, -17, 0],
    [0, -24, 0, -8, 0, -40, 0, 0],
    [0, 0, -82, 0, -17, -31, -42, 0],
    [0, -57, 0, -6, -13, 0, 0, 0],
    [0, 0, 0, 0, 0, -8, -13, -4],
    [3, 0, 0, 14, -11, 0, 26, 42],
    [-8, -8, -25, 10, 42, 14, 19, -23]]"

lemma kern_values_b_length: "length (concat kern_values_b) = 1184"
  by (simp add: kern_values_b_def)

definition kern_values_c :: "int list list" where
  "kern_values_c = [
    [10, 36, 10, 25, 19, 23, 0, 0],
    [0, 0, 0, 0, 0, 0, 0, 0],
    [0, 53, 40, -15, -8, 0, -7, 68],
    [36, 68, 0, 0, 0, 8, 0, 0],
    [0, 0, -14, 0, 0, 0, 0, 0],
    [0, 0, 0, 0, -6, 0, 0, 0],
    [0, 0, 0, 0, 0, 12, 0, 0],
    [0, 0, -71, -10, -7, -35, -42, 0],
    [0, -57, 0, 0, 0, 0, 0, 0],
    [0, 0, 0, 0, 0, 0, 0, 0],
    [0, 0, -14, 0, 0, 0, 0, 0],
    [0, 0, 0, 0, -6, 0, 0, 0],
    [0, 0, 0, 0, 0, 12, 0, 0],
    [0, 0, -71, -10, -7, -35, -42, 0],
    [0, -34, 0, 0, 0, 0, 0, 0],
    [0, 0, 0, 0, 0, 0, 0, 0],
    [0, 0, 0, 0, -7, 0, 0, 0],
    [-19, 8, 0, -8, 7, 15, 8, -25],
    [0, -2, -7, 8, 0, 7, 0, 0],
    [0, 0, -21, 0, -8, -6, -17, 0],
    [-8, -34, 0, 53, -8, 0, -19, -6],
    [0, -6, -14, 0, -8, -24, -17, -10],
    [0, 0, -14, 0, 0, 0, 0, 0],
    [0, 0, 0, 0, -6, 0, 0, 0],
    [0, 0, 0, 0, 0, 12, 0, 0],
    [0, 0, -71, -10, -7, -35, -42, 0],
    [0, -57, 0, 0, 0, 0, 0, 0],
    [42, 0, 0, 0, 0, 0, 0, 0],
    [0, 0, -14, 0, -27, -10, -8, 25],
    [-8, -8, -34, 3, -5, 3, -6, -23],
    [2, 19, 2, 7, 3, 7, -20, -34],
    [-10, 0, -32, -16, -23, -36, -33, 0],
    [-14, -17, -10, -11, -7, -6, -10, -6],
    [0, -6, -3, 13, 0, 13, -6, 0],
    [0, 0, 0, 0, 0, 0, 0, 0],
    [0, 0, 0, 0, -6, -8, -8, 0],
    [0, -23, 0, -4, 0, -14, 0, 0],
    [0, 0, 0, 0, 0, 0, 0, 0],
    [0, -51, 0, 0, 0, 0, 0, 0],
    [0, 0, 0, 0, 0, -8, -8, 0],
    [0, 0, 0, 0, -7, 0, 0, -14],
    [-8, 8, 0, -14, -16, -6, 0, -25],
    [-6, -19, -6, -10, 0, -14, 0, 0],
    [0, 0, 0, 0, 0, 0, 0, 0],
    [0, -57, 0, 27, 0, 0, -15, 0],
    [0, 0, 0, -11, 0, -8, 0, 0],
    [0, 0, -6, 0, -19, 0, 0, 36],
    [-11, -28, -26, 6, 9, 9, -2, -24],
    [6, 13, 6, 25, 6, 28, -6, -23],
    [0, 0, -34, 0, 0, -25, -23, 0],
    [0, -17, 0, -11, -14, 0, -13, 0],
    [-13, 0, -6, 13, 0, -7, -25, -8],
    [0, 0, -8, 0, -17, 0, 0, 11],
    [-19, 0, 8, -8, 7, 1, 0, -28],
    [0, -6, -3, 0, -8, 9, -7, 0],
    [0, 0, -35, -10, -19, 0, -25, 0],
    [0, -40, 0, 31, -8, 0, -15, 0],
    [5, 0, -8, 0, -8, -25, 0, -8],
    [0, 0, 0, 0, -6, 0, 0, 8],
    [-11, 3, 0, 0, -10, -6, 0, -10],
    [0, 0, 0, 0, 0, 0, 0, 0],
    [0, 0, 0, 0, 0, 0, 0, 0],
    [0, -53, 0, 19, 0, 0, -7, 0],
    [0, 0, 0, 2, 0, -8, -8, 0]]"

lemma kern_values_c_length: "length (concat kern_values_c) = 512"
  by (simp add: kern_values_c_def)

definition kern_class_values :: "int list" where
  "kern_class_values = concat kern_values_a @ concat kern_values_b @ concat kern_values_c"

record lv_kern_classes =
  class_pair_values :: "int list"
  left_class_mapping :: "nat list"
  right_class_mapping :: "nat list"
  left_class_cnt :: nat
  right_class_cnt :: nat

definition kern_classes :: lv_kern_classes where
  "kern_classes = \<lparr>class_pair_values = kern_class_values,
     left_class_mapping = kern_left_class_mapping, right_class_mapping = kern_right_class_mapping,
     left_class_cnt = 60, right_class_cnt = 48\<rparr>"

section \<open>The font\<close>

text \<open>The array \<open>glyph_bitmap\<close>, glyph by glyph and flat.\<close>

definition glyph_bitmaps :: "bytes list" where
  "glyph_bitmaps = bitmaps_signs @ bitmaps_digits @ bitmaps_ad @ bitmaps_eo @ bitmaps_py @ bitmaps_zf @
     bitmaps_gq @ bitmaps_rz"

definition glyph_bitmap_data :: bytes where
  "glyph_bitmap_data = concat glyph_bitmaps"

record lv_font_dsc =
  fd_glyph_bitmap :: bytes
  fd_glyph_dsc :: "lv_glyph_dsc list"
  fd_cmaps :: "lv_cmap list"
  kern_dsc :: lv_kern_classes
  kern_scale :: nat
  cmap_num :: nat
  bpp :: nat
  has_kern_classes :: bool
  bitmap_format :: nat

definition font_dsc :: lv_font_dsc where
  "font_dsc = \<lparr>fd_glyph_bitmap = glyph_bitmap_data, fd_glyph_dsc = glyph_dsc, fd_cmaps = cmaps,
     kern_dsc = kern_classes, kern_scale = 29, cmap_num = 1, bpp = 4, has_kern_classes = True,
     bitmap_format = 0\<rparr>"

record lv_font =
  line_height :: int
  base_line :: int
  underline_position :: int
  underline_thickness :: int
  fo_dsc :: lv_font_dsc

definition montserrat_96 :: lv_font where
  "montserrat_96 = \<lparr>line_height = 99, base_line = 19, underline_position = -7,
     underline_thickness = 5, fo_dsc = font_dsc\<rparr>"

end
