(* ===== verification/Font_Properties.thy ===== *)
theory Font_Properties
  imports Smooth_Text Lato_Clock Lato_Value Lato_Small Montserrat_Tables
begin

text \<open>
  The fonts of the two displays: what the renderer of \<open>giga-filament\<close> draws with the four
  generated fonts, and that the tables of the clock font of \<open>housepanel-giga\<close> fit together.
\<close>

section \<open>The generated fonts of giga-filament\<close>

definition smooth_fonts :: "smooth_font list" where
  "smooth_fonts = [clockFont, valueFont, labelFont, statusFont]"

lemma smooth_fonts_ok: "font \<in> set smooth_fonts \<Longrightarrow> font_ok font"
  using clockFont_tiled valueFont_tiled labelFont_tiled statusFont_tiled
  by (auto simp: smooth_fonts_def intro: font_tiled_ok)

text \<open>
  (C25) Drawing a text with any of the four fonts, at any place and in any color, reads only inside
  the font's pixel array and sets exactly the covered pixels of the text's glyphs that are on
  the 800 by 480 screen, with channel values that fit a byte.
\<close>

theorem drawText_exact:
  assumes "font \<in> {clockFont, valueFont, labelFont, statusFont}"
  shows "\<exists>calls. drawText font chars center y color = Some calls \<and>
    set calls = (\<Union>placed \<in> set (layout font (center - text_width font chars div 2) chars).
                    glyph_pixels font color y placed) \<and>
    (\<forall>(px, py, r, g, b) \<in> set calls. 0 \<le> px \<and> px < 800 \<and> 0 \<le> py \<and> py < 480 \<and>
       r \<le> 255 \<and> g \<le> 255 \<and> b \<le> 255)"
proof -
  have "font_ok font" by (rule smooth_fonts_ok) (use assms in \<open>simp add: smooth_fonts_def\<close>)
  from draw_from_exact [OF this, of color "center - text_width font chars div 2" y chars]
  obtain calls where calls: "drawText font chars center y color = Some calls" and
    all: "set calls = (\<Union>placed \<in> set (layout font (center - text_width font chars div 2) chars).
                    glyph_pixels font color y placed)"
    by (auto simp: drawText_def)
  have "\<forall>(px, py, r, g, b) \<in> set calls. 0 \<le> px \<and> px < 800 \<and> 0 \<le> py \<and> py < 480 \<and>
       r \<le> 255 \<and> g \<le> 255 \<and> b \<le> 255"
    unfolding all by (clarsimp dest!: glyph_pixels_bounds simp: on_screen_def)
  with calls all show ?thesis by blast
qed

theorem drawText_exact_witness:
  "\<exists>calls. drawText clockFont (bytes_of ''12:34:56'') 400 35 0xF5F7FA = Some calls \<and>
    set calls = (\<Union>placed \<in> set (layout clockFont (400 - text_width clockFont (bytes_of ''12:34:56'') div 2)
                    (bytes_of ''12:34:56'')). glyph_pixels clockFont 0xF5F7FA 35 placed) \<and>
    (\<forall>(px, py, r, g, b) \<in> set calls. 0 \<le> px \<and> px < 800 \<and> 0 \<le> py \<and> py < 480 \<and>
       r \<le> 255 \<and> g \<le> 255 \<and> b \<le> 255)"
  by (rule drawText_exact) simp

text \<open>
  (C32) The generated tables are exact: in each font the glyphs' pixel data follow one another
  from the first byte of the array to the last, without gap or overlap, the glyph count is the
  length of the glyph table, and no character is listed twice.
\<close>

theorem smooth_fonts_tiled:
  "font_tiled clockFont \<and> font_tiled valueFont \<and> font_tiled labelFont \<and> font_tiled statusFont"
  by (simp add: clockFont_tiled valueFont_tiled labelFont_tiled statusFont_tiled)

section \<open>The clock font of housepanel-giga\<close>

lemma glyph_dsc_length: "length glyph_dsc = 96"
  by (simp add: glyph_dsc_def)

lemma glyph_bitmaps_lengths: "map length glyph_bitmaps =
    [0, 476, 338, 2111, 2385, 2588, 2105, 117, 935, 935, 648, 924, 189, 108, 98, 1845] @
    [1932, 871, 1734, 1734, 2044, 1734, 1829, 1742, 1863, 1829, 364] @
    [455, 946, 660, 946, 1691, 3959, 2412, 1943, 2139, 2178] @
    [1642, 1608, 2174, 1943, 335, 1394, 1977, 1575, 2412, 1943, 2519] @
    [1843, 3116, 1876, 1829, 1876, 1972, 2345, 3451, 2111, 2144] @
    [1910, 935, 1845, 935, 840, 144, 163, 1196, 1944, 1248, 1908, 1326, 1332] @
    [1890, 1775, 468, 1380, 1811, 355, 2193, 1275, 1378, 1863, 1829] @
    [740, 1144, 1166, 1274, 1403, 2193, 1301, 1995, 1122, 1202, 401, 1246, 391]"
  by (simp only: glyph_bitmaps_def map_append bitmaps_signs_lengths bitmaps_digits_lengths bitmaps_ad_lengths bitmaps_eo_lengths bitmaps_py_lengths bitmaps_zf_lengths bitmaps_gq_lengths bitmaps_rz_lengths)

text \<open>The size in bytes that a description asks for, at the font's bits per pixel.\<close>

definition glyph_bytes :: "lv_glyph_dsc \<Rightarrow> nat" where
  "glyph_bytes d = (box_w d * box_h d * bpp font_dsc + 7) div 8"

fun dsc_tiles :: "nat \<Rightarrow> lv_glyph_dsc list \<Rightarrow> bool" where
  "dsc_tiles k [] = True"
| "dsc_tiles k (d # ds) = (bitmap_index d = k \<and> dsc_tiles (k + glyph_bytes d) ds)"

lemma tiles_slices:
  assumes "dsc_tiles (length pre) ds" and "map length bs = map glyph_bytes ds"
  shows "map (\<lambda>d. slice (bitmap_index d) (glyph_bytes d) (pre @ concat bs)) ds = bs"
  using assms
proof (induction ds arbitrary: pre bs)
  case (Cons d ds)
  then obtain b bs' where bs: "bs = b # bs'" "length b = glyph_bytes d" "map length bs' = map glyph_bytes ds"
    by auto
  then have "map (\<lambda>d. slice (bitmap_index d) (glyph_bytes d) ((pre @ b) @ concat bs')) ds = bs'"
    using Cons.prems(1) by (intro Cons.IH) simp_all
  then show ?case using bs Cons.prems(1) by (simp add: slice_def)
qed simp

text \<open>
  (C33) The clock font's tables agree: the descriptions of all 95 glyphs are laid out one after the
  other over \<open>glyph_bitmap\<close>, the bitmap of each glyph is exactly as long as its description says, and
  reading the array where a description points gives that glyph's bitmap.
\<close>

theorem montserrat_bitmaps_match:
  "dsc_tiles 0 (tl glyph_dsc) \<and> map length glyph_bitmaps = map glyph_bytes (tl glyph_dsc) \<and>
   map (\<lambda>d. slice (bitmap_index d) (glyph_bytes d) (fd_glyph_bitmap font_dsc)) (tl glyph_dsc) = glyph_bitmaps"
proof -
  have tiles: "dsc_tiles 0 (tl glyph_dsc)"
    by (simp add: glyph_dsc_def glyph_bytes_def font_dsc_def)
  have lengths: "map length glyph_bitmaps = map glyph_bytes (tl glyph_dsc)"
    by (simp add: glyph_bitmaps_lengths) (simp add: glyph_dsc_def glyph_bytes_def font_dsc_def)
  have "fd_glyph_bitmap font_dsc = [] @ concat glyph_bitmaps"
    by (simp add: font_dsc_def glyph_bitmap_data_def)
  then show ?thesis
    using tiles lengths tiles_slices [of "[]" "tl glyph_dsc" glyph_bitmaps] by simp
qed

lemma kern_class_values_length: "length kern_class_values = 2880"
  by (simp add: kern_class_values_def kern_values_a_length kern_values_b_length kern_values_c_length)

text \<open>
  (C34) The clock font's kerning and character map stay in their tables: each of the 96 glyphs has
  a left and a right class, a pair of non-zero classes is a valid index of the value matrix, the
  map's last character is the last glyph, and every glyph box lies between the top of the line and
  its bottom.
\<close>

theorem montserrat_tables_bounded:
  "length (left_class_mapping kern_classes) = length glyph_dsc \<and>
   length (right_class_mapping kern_classes) = length glyph_dsc \<and>
   (\<forall>l \<in> set (left_class_mapping kern_classes). \<forall>r \<in> set (right_class_mapping kern_classes).
      l \<noteq> 0 \<and> r \<noteq> 0 \<longrightarrow>
      (l - 1) * right_class_cnt kern_classes + (r - 1) < length (class_pair_values kern_classes)) \<and>
   (\<forall>m \<in> set cmaps. glyph_id_start m + range_length m = length glyph_dsc) \<and>
   (\<forall>d \<in> set glyph_dsc. - base_line montserrat_96 \<le> ofs_y d \<and>
      ofs_y d + int (box_h d) \<le> line_height montserrat_96 - base_line montserrat_96)"
proof (intro conjI)
  have left: "\<forall>l \<in> set kern_left_class_mapping. l \<le> 60" and right: "\<forall>r \<in> set kern_right_class_mapping. r \<le> 48"
    by (simp_all add: kern_left_class_mapping_def kern_right_class_mapping_def)
  show "\<forall>l \<in> set (left_class_mapping kern_classes). \<forall>r \<in> set (right_class_mapping kern_classes).
      l \<noteq> 0 \<and> r \<noteq> 0 \<longrightarrow>
      (l - 1) * right_class_cnt kern_classes + (r - 1) < length (class_pair_values kern_classes)"
  proof (intro ballI impI)
    fix l r
    assume "l \<in> set (left_class_mapping kern_classes)" "r \<in> set (right_class_mapping kern_classes)" "l \<noteq> 0 \<and> r \<noteq> 0"
    then have "l - 1 \<le> 59" and "r - 1 < 48"
      using left right by (auto simp: kern_classes_def)
    then have "(l - 1) * 48 + (r - 1) < 2880" by linarith
    then show "(l - 1) * right_class_cnt kern_classes + (r - 1) < length (class_pair_values kern_classes)"
      by (simp add: kern_classes_def kern_class_values_length)
  qed
qed (simp_all add: kern_classes_def glyph_dsc_def kern_left_class_mapping_def kern_right_class_mapping_def
    cmaps_def montserrat_96_def)

theorem montserrat_tables_bounded_witness:
  "(60 - 1) * right_class_cnt kern_classes + (48 - 1) < length (class_pair_values kern_classes)"
  using montserrat_tables_bounded
  by (auto simp: kern_classes_def kern_left_class_mapping_def kern_right_class_mapping_def kern_class_values_length)

end
