(* ===== verification/C_Text.thy ===== *)
theory C_Text
  imports Prelude
begin

text \<open>
  The C and C++ library facilities that the two sketches use: bounded string copies and
  \<open>snprintf\<close>, decimal numbers, single-precision arithmetic with its decimal output, calendar
  dates, and the documents of ArduinoJson as a parameter.
\<close>

section \<open>Bounded strings\<close>

text \<open>
  The string that \<open>strncpy(dst, s, n - 1); dst[n - 1] = 0\<close> or a formatted print leaves in a
  buffer of \<open>n\<close> characters.
\<close>

definition fit :: "nat \<Rightarrow> bytes \<Rightarrow> bytes" where
  "fit n s = take (n - 1) s"

text \<open>The C string that a character array or a pointer holds: what precedes the terminator.\<close>

definition c_string :: "bytes \<Rightarrow> bytes" where
  "c_string b = takeWhile (\<lambda>c. c \<noteq> 0) b"

lemma c_string_no_nul: "0 \<notin> set (c_string b)"
  by (auto simp: c_string_def dest: set_takeWhileD)

lemma c_string_id: "0 \<notin> set b \<Longrightarrow> c_string b = b"
  by (auto simp: c_string_def takeWhile_eq_all_conv)

lemma fit_bound: "0 < n \<Longrightarrow> length (fit n s) < n"
  by (simp add: fit_def)

lemma fit_id: "length s < n \<Longrightarrow> fit n s = s"
  by (simp add: fit_def)

lemma set_fit: "set (fit n s) \<subseteq> set s"
  by (simp add: fit_def set_take_subset)

section \<open>Decimal numbers\<close>

definition digit :: "nat \<Rightarrow> u8" where
  "digit n = 48 + of_nat n"

fun dec :: "nat \<Rightarrow> bytes" where
  "dec n = (if n < 10 then [digit n] else dec (n div 10) @ [digit (n mod 10)])"

declare dec.simps [simp del]

definition dec_int :: "int \<Rightarrow> bytes" where
  "dec_int i = (if i < 0 then 45 # dec (nat (- i)) else dec (nat i))"

text \<open>\<open>%02d\<close> of a number that is not negative.\<close>

definition dec2 :: "nat \<Rightarrow> bytes" where
  "dec2 n = (if n < 10 then 48 # dec n else dec n)"

definition digits :: "u8 set" where
  "digits = set [48, 49, 50, 51, 52, 53, 54, 55, 56, 57]"

lemma digit_digits: "n < 10 \<Longrightarrow> digit n \<in> digits"
proof -
  assume "n < 10"
  then have "n \<in> set [0..<10]" by simp
  moreover have "\<forall>k \<in> set [0..<10]. digit k \<in> digits"
    by (simp add: upt_rec [of _ 10] digit_def digits_def)
  ultimately show ?thesis by blast
qed

lemma set_dec: "set (dec n) \<subseteq> digits"
proof (induction n rule: dec.induct)
  case (1 n)
  then show ?case by (subst dec.simps) (auto simp: digit_digits)
qed

lemma length_dec: "n < 10 ^ Suc k \<Longrightarrow> length (dec n) \<le> Suc k"
proof (induction k arbitrary: n)
  case 0
  then show ?case by (simp add: dec.simps)
next
  case (Suc k)
  show ?case
  proof (cases "n < 10")
    case True
    then show ?thesis by (simp add: dec.simps)
  next
    case False
    have "n div 10 < 10 ^ Suc k" using Suc.prems by (simp add: less_mult_imp_div_less mult.commute)
    from Suc.IH [OF this] False show ?thesis by (subst dec.simps) simp
  qed
qed

lemma dec_nonempty: "dec n \<noteq> []"
  by (subst dec.simps) simp

text \<open>Reading a decimal number back.\<close>

definition dec_value :: "bytes \<Rightarrow> nat" where
  "dec_value s = foldl (\<lambda>v c. 10 * v + (unat c - 48)) 0 s"

lemma unat_digit: "n < 10 \<Longrightarrow> unat (digit n) = 48 + n"
  by (simp add: digit_def unat_word_ariths unat_of_nat)

lemma dec_value_dec: "dec_value (dec n) = n"
proof (induction n rule: dec.induct)
  case (1 n)
  then show ?case by (subst dec.simps) (simp add: dec_value_def unat_digit)
qed

section \<open>Single-precision numbers\<close>

text \<open>
  IEEE binary32: \<open>F_num s m e\<close> is \<open>(-1)^s * m * 2^e\<close>; the operations compute exactly and
  round to 24 bits, to the even neighbour in a tie, with gradual underflow.
\<close>

datatype f32 = F_nan | F_inf bool | F_num bool nat int

fun bitlen_nat :: "nat \<Rightarrow> nat" where
  "bitlen_nat n = (if n = 0 then 0 else Suc (bitlen_nat (n div 2)))"

declare bitlen_nat.simps [simp del]

definition half_even :: "nat \<Rightarrow> nat \<Rightarrow> nat" where
  "half_even m d = (let q = m div d; r = m mod d in
     if d < 2 * r \<or> 2 * r = d \<and> odd q then q + 1 else q)"

definition round_f32 :: "bool \<Rightarrow> nat \<Rightarrow> int \<Rightarrow> f32" where
  "round_f32 s m e =
    (let extra = max (int (bitlen_nat m) - 24) (- 149 - e);
         (m1, e1) = (if extra \<le> 0 then (m, e) else (half_even m (2 ^ nat extra), e + extra)) in
     if m1 \<noteq> 0 \<and> int (bitlen_nat m1) + e1 > 128 then F_inf s else F_num s m1 e1)"

fun f32_neg :: "f32 \<Rightarrow> bool" where
  "f32_neg F_nan = False"
| "f32_neg (F_inf s) = s"
| "f32_neg (F_num s _ _) = s"

fun f32_finite :: "f32 \<Rightarrow> bool" where
  "f32_finite (F_num _ _ _) = True"
| "f32_finite _ = False"

fun f32_mul :: "f32 \<Rightarrow> f32 \<Rightarrow> f32" where
  "f32_mul (F_num s m e) (F_num s' m' e') = round_f32 (s \<noteq> s') (m * m') (e + e')"
| "f32_mul F_nan _ = F_nan"
| "f32_mul _ F_nan = F_nan"
| "f32_mul (F_inf s) (F_num s' m' e') = (if m' = 0 then F_nan else F_inf (s \<noteq> s'))"
| "f32_mul (F_num s m e) (F_inf s') = (if m = 0 then F_nan else F_inf (s \<noteq> s'))"
| "f32_mul (F_inf s) (F_inf s') = F_inf (s \<noteq> s')"

text \<open>The signed numerator of a number over \<open>2 ^ k\<close> for an exponent \<open>k\<close> not above its own.\<close>

definition scaled :: "int \<Rightarrow> bool \<Rightarrow> nat \<Rightarrow> int \<Rightarrow> int" where
  "scaled k s m e = (if s then - 1 else 1) * int m * 2 ^ nat (e - k)"

fun f32_add :: "f32 \<Rightarrow> f32 \<Rightarrow> f32" where
  "f32_add (F_num s m e) (F_num s' m' e') =
    (let k = min e e'; v = scaled k s m e + scaled k s' m' e' in
     if v = 0 then F_num (s \<and> s') 0 k else round_f32 (v < 0) (nat \<bar>v\<bar>) k)"
| "f32_add F_nan _ = F_nan"
| "f32_add _ F_nan = F_nan"
| "f32_add (F_inf s) (F_num _ _ _) = F_inf s"
| "f32_add (F_num _ _ _) (F_inf s') = F_inf s'"
| "f32_add (F_inf s) (F_inf s') = (if s = s' then F_inf s else F_nan)"

text \<open>Division by a number that is not zero, infinite or NaN, as the sketches use it.\<close>

fun f32_div :: "f32 \<Rightarrow> f32 \<Rightarrow> f32" where
  "f32_div (F_num s m e) (F_num s' m' e') =
    (let n = m * 2 ^ 60; q = n div m' in
     round_f32 (s \<noteq> s') (2 * q + (if n mod m' \<noteq> 0 then 1 else 0)) (e - e' - 61))"
| "f32_div (F_inf s) (F_num s' m' e') = F_inf (s \<noteq> s')"
| "f32_div _ _ = F_nan"

fun f32_le :: "f32 \<Rightarrow> f32 \<Rightarrow> bool" where
  "f32_le (F_num s m e) (F_num s' m' e') = (let k = min e e' in scaled k s m e \<le> scaled k s' m' e')"
| "f32_le F_nan _ = False"
| "f32_le _ F_nan = False"
| "f32_le (F_inf s) y = (s \<or> y = F_inf False)"
| "f32_le x (F_inf s') = (\<not> s')"

text \<open>The comparisons of C: a NaN compares with nothing.\<close>

instantiation f32 :: ord
begin

definition less_eq_f32 :: "f32 \<Rightarrow> f32 \<Rightarrow> bool" where
  "less_eq_f32 x y = f32_le x y"

definition less_f32 :: "f32 \<Rightarrow> f32 \<Rightarrow> bool" where
  "less_f32 x y \<longleftrightarrow> f32_le x y \<and> \<not> f32_le y x"

instance ..

end

declare less_eq_f32_def [simp] less_f32_def [simp]

definition f32_nat :: "nat \<Rightarrow> f32" where
  "f32_nat n = F_num False n 0"

text \<open>\<open>%.kf\<close>: the number rounded to \<open>k\<close> decimals, half to even.\<close>

definition f32_scaled :: "nat \<Rightarrow> nat \<Rightarrow> int \<Rightarrow> nat" where
  "f32_scaled k m e = (if 0 \<le> e then m * 10 ^ k * 2 ^ nat e else half_even (m * 10 ^ k) (2 ^ nat (- e)))"

fun print_f32 :: "nat \<Rightarrow> f32 \<Rightarrow> bytes" where
  "print_f32 k F_nan = bytes_of ''nan''"
| "print_f32 k (F_inf s) = (if s then [45] else []) @ bytes_of ''inf''"
| "print_f32 k (F_num s m e) =
    (let n = f32_scaled k m e in
     (if s then [45] else []) @ dec (n div 10 ^ k) @
     (if k = 0 then [] else 46 # map (\<lambda>i. digit (n div 10 ^ (k - 1 - i) mod 10)) [0..<k]))"

lemma set_print_f32:
  "f32_finite x \<Longrightarrow> set (print_f32 k x) \<subseteq> digits \<union> {45, 46}"
  using set_dec by (cases x) (auto simp: Let_def digit_digits split: if_splits)

text \<open>What is printed is the nearest decimal: the error is at most half a unit of the last place.\<close>

lemma half_even_error: "0 < d \<Longrightarrow> 2 * \<bar>int (half_even m d) * int d - int m\<bar> \<le> int d"
proof -
  assume "0 < d"
  have m: "int m = int (m div d) * int d + int (m mod d)"
    by (metis div_mult_mod_eq of_nat_add of_nat_mult)
  have r: "int (m mod d) < int d" using \<open>0 < d\<close> by simp
  show ?thesis
  proof (cases "d < 2 * (m mod d) \<or> 2 * (m mod d) = d \<and> odd (m div d)")
    case True
    then have "int d \<le> 2 * int (m mod d)" by auto
    moreover have "half_even m d = m div d + 1" using True by (simp add: half_even_def Let_def)
    ultimately show ?thesis using m r by (simp add: distrib_right)
  next
    case False
    then have "2 * int (m mod d) \<le> int d" by auto
    moreover have "half_even m d = m div d" using False by (auto simp: half_even_def Let_def)
    ultimately show ?thesis using m r by simp
  qed
qed

section \<open>Dates\<close>

text \<open>\<open>gmtime\<close>: seconds of the day, and the proleptic Gregorian date of a day number.\<close>

definition civil_date :: "int \<Rightarrow> int \<times> int \<times> int" where
  "civil_date days =
    (let z = days + 719468; era = z div 146097; doe = z mod 146097;
         yoe = (doe - doe div 1460 + doe div 36524 - doe div 146096) div 365;
         doy = doe - (365 * yoe + yoe div 4 - yoe div 100); mp = (5 * doy + 2) div 153;
         d = doy - (153 * mp + 2) div 5 + 1; m = (if mp < 10 then mp + 3 else mp - 9) in
     (yoe + era * 400 + (if m \<le> 2 then 1 else 0), m, d))"

definition clock_fields :: "int \<Rightarrow> nat \<times> nat \<times> nat" where
  "clock_fields t = (let s = t mod 86400 in (nat (s div 3600), nat (s div 60 mod 60), nat (s mod 60)))"

lemma clock_fields_bounds:
  assumes "clock_fields t = (h, mi, s)"
  shows "h < 24 \<and> mi < 60 \<and> s < 60"
proof -
  define r where "r = t mod 86400"
  have r: "0 \<le> r" "r < 86400" by (simp_all add: r_def)
  have "0 \<le> r div 3600" "0 \<le> r div 60 mod 60" "0 \<le> r mod 60" using r(1) by (simp_all add: pos_imp_zdiv_nonneg_iff)
  moreover have "r div 3600 < 24" using r(2) by linarith
  ultimately have "nat (r div 3600) < 24" "nat (r div 60 mod 60) < 60" "nat (r mod 60) < 60"
    by (simp_all only: nat_less_iff of_nat_numeral pos_mod_bound zero_less_numeral)
  moreover have "h = nat (r div 3600)" "mi = nat (r div 60 mod 60)" "s = nat (r mod 60)"
    using assms by (simp_all add: clock_fields_def r_def Let_def)
  ultimately show ?thesis by simp
qed

section \<open>ArduinoJson\<close>

text \<open>
  \<open>deserializeJson\<close> and the typed reads of a document: \<open>None\<close> when the value is missing or has
  another type, so that \<open>doc[k] | v\<close> is \<open>case_option v id\<close>. A text is the C string that the
  pointer designates, up to its terminator.
\<close>

record 'd json =
  js_parse :: "bytes \<Rightarrow> 'd option"
  js_text :: "'d \<Rightarrow> string \<Rightarrow> bytes option"
  js_int :: "'d \<Rightarrow> string \<Rightarrow> int option"
  js_ulong :: "'d \<Rightarrow> string \<Rightarrow> u32 option"
  js_bool :: "'d \<Rightarrow> string \<Rightarrow> bool option"
  js_float :: "'d \<Rightarrow> string \<Rightarrow> f32 option"

definition or_default :: "'a option \<Rightarrow> 'a \<Rightarrow> 'a" where
  "or_default x v = (case x of None \<Rightarrow> v | Some y \<Rightarrow> y)"

end
