(* ===== verification/Filament_Panel.thy ===== *)
theory Filament_Panel
  imports C_Text Smooth_Text Lato_Clock Lato_Value Lato_Small
begin

text \<open>
  The simplified display, \<open>firmware/giga-filament\<close>: \<open>TemperatureUnits\<close> and the touch
  coordinates (\<open>temperature_units.h\<close>), the freshness rule (\<open>sensor_freshness.h\<close>), and of
  \<open>giga-filament.ino\<close> the received frames, the touch polling, the screen and the main loop. The
  record \<open>filament\<close> has the sketch's global variables; what the hardware and the network answer
  during a call, and the readings of \<open>millis\<close> and \<open>time\<close> at its call sites, are arguments.
  Float operations are rounded one by one.
\<close>

section \<open>Units and touch\<close>

record units =
  un_fahrenheit :: bool
  un_pressed :: bool

text \<open>The literal \<open>1.8f\<close>: the nearest single-precision number.\<close>

definition f32_1_8 :: f32 where
  "f32_1_8 = F_num False 15099494 (- 23)"

definition units_value :: "units \<Rightarrow> f32 \<Rightarrow> f32" where
  "units_value u celsius =
    (if un_fahrenheit u then f32_add (f32_mul celsius f32_1_8) (f32_nat 32) else celsius)"

definition units_symbol :: "units \<Rightarrow> u8" where
  "units_symbol u = (if un_fahrenheit u then 70 else 67)"

definition units_report :: "bool \<Rightarrow> int \<Rightarrow> int \<Rightarrow> units \<Rightarrow> bool \<times> units" where
  "units_report contact x y u =
    (if \<not> contact then (False, u\<lparr>un_pressed := False\<rparr>)
     else if un_pressed u then (False, u)
     else let u1 = u\<lparr>un_pressed := True\<rparr> in
       if x < 0 \<or> x \<ge> 800 \<or> y < 175 \<or> y \<ge> 425 then (False, u1)
       else (True, u1\<lparr>un_fahrenheit := \<not> un_fahrenheit u1\<rparr>))"

definition touch_landscape :: "u16 \<Rightarrow> u16 \<Rightarrow> bool \<Rightarrow> int \<times> int" where
  "touch_landscape raw_x raw_y portrait =
    (if portrait then uint raw_y else uint raw_x,
     if portrait then 479 - uint raw_x else uint raw_y)"

section \<open>Freshness\<close>

definition sensor_is_fresh :: "bool \<Rightarrow> u64 \<Rightarrow> u64 \<Rightarrow> u64 \<Rightarrow> bool" where
  "sensor_is_fresh clock_ready now measured_at max_age \<longleftrightarrow>
     clock_ready \<and> measured_at > 0 \<and> measured_at \<le> now \<and> now - measured_at < max_age"

section \<open>State\<close>

record filament =
  fi_units :: units
  fi_touch_ready :: bool
  fi_portrait :: bool
  fi_last_touch_poll :: u32
  fi_clock_ready :: bool
  fi_sensor_ready :: bool
  fi_outdoor_ready :: bool
  fi_offset_minutes :: int
  fi_temperature :: f32
  fi_humidity :: f32
  fi_outdoor_temperature :: f32
  fi_outdoor_humidity :: f32
  fi_outdoor_measured_at :: u32
  fi_outdoor_received_at :: u32
  fi_sensor_measured_at :: u32
  fi_last_frame :: u32
  fi_last_draw :: u32
  fi_last_report :: u32
  fi_last_wifi_try :: u32
  fi_last_socket_try :: u32
  fi_wifi_tried :: bool
  fi_socket_tried :: bool

definition filament_boot :: filament where
  "filament_boot = \<lparr>fi_units = \<lparr>un_fahrenheit = False, un_pressed = False\<rparr>, fi_touch_ready = False,
     fi_portrait = False, fi_last_touch_poll = 0, fi_clock_ready = False, fi_sensor_ready = False,
     fi_outdoor_ready = False, fi_offset_minutes = 0, fi_temperature = f32_nat 0, fi_humidity = f32_nat 0,
     fi_outdoor_temperature = f32_nat 0, fi_outdoor_humidity = f32_nat 0, fi_outdoor_measured_at = 0,
     fi_outdoor_received_at = 0, fi_sensor_measured_at = 0, fi_last_frame = 0, fi_last_draw = 0,
     fi_last_report = 0, fi_last_wifi_try = 0, fi_last_socket_try = 0, fi_wifi_tried = False,
     fi_socket_tried = False\<rparr>"

text \<open>\<open>setup\<close>: whether the touch controller answered, and the four bytes of its dimensions.\<close>

definition filament_setup :: "bool \<Rightarrow> bytes option \<Rightarrow> filament \<Rightarrow> filament" where
  "filament_setup touch_begun dimensions s =
    (case dimensions of None \<Rightarrow> s\<lparr>fi_touch_ready := False\<rparr>
     | Some d \<Rightarrow>
       if \<not> touch_begun then s\<lparr>fi_touch_ready := False\<rparr>
       else
         let width = (ucast (d ! 0) :: u16) OR push_bit 8 (ucast (d ! 1));
             height = (ucast (d ! 2) :: u16) OR push_bit 8 (ucast (d ! 3));
             portrait = (width = 480 \<and> height = 800) in
         s\<lparr>fi_portrait := portrait, fi_touch_ready := (portrait \<or> width = 800 \<and> height = 480)\<rparr>)"

section \<open>Frames from the server\<close>

text \<open>What a call does outside: the socket, the clock, the WiFi, the screen.\<close>

datatype fil_event = Socket_stop | Clock_set u32 | Wifi_begin | Socket_begin | Redraw

definition sysmon_temp_cmd :: bytes where "sysmon_temp_cmd = bytes_of ''SYSMON_TEMP''"
definition outdoor_temp_cmd :: bytes where "outdoor_temp_cmd = bytes_of ''OUTDOOR_TEMP''"
definition time_cmd :: bytes where "time_cmd = bytes_of ''TIME''"

text \<open>\<open>isfinite(t) && isfinite(h) && h >= 0 && h <= 100\<close>\<close>

definition reading_valid :: "f32 \<Rightarrow> f32 \<Rightarrow> bool" where
  "reading_valid t h \<longleftrightarrow> f32_finite t \<and> f32_finite h \<and> f32_nat 0 \<le> h \<and> h \<le> f32_nat 100"

definition handle_time :: "'d json \<Rightarrow> 'd \<Rightarrow> filament \<Rightarrow> fil_event list \<times> filament" where
  "handle_time J d s =
    (let epoch = or_default (js_ulong J d ''epoch'') 0; offset = or_default (js_int J d ''utc_offset_min'') 0 in
     if epoch \<ge> 1700000000 \<and> offset \<ge> - 840 \<and> offset \<le> 840
     then ([Clock_set epoch], s\<lparr>fi_offset_minutes := offset, fi_clock_ready := True\<rparr>)
     else ([], s))"

definition handle_reading :: "'d json \<Rightarrow> 'd \<Rightarrow> bytes \<Rightarrow> u32 \<Rightarrow> filament \<Rightarrow> filament" where
  "handle_reading J d cmd received s =
    (let t = or_default (js_float J d ''t'') (f32_nat 0); h = or_default (js_float J d ''h'') (f32_nat 0) in
     if \<not> reading_valid t h then s
     else let measured = or_default (js_ulong J d ''measured_at'') 0 in
       if cmd = outdoor_temp_cmd
       then s\<lparr>fi_outdoor_temperature := t, fi_outdoor_humidity := h, fi_outdoor_measured_at := measured,
              fi_outdoor_received_at := received, fi_outdoor_ready := True\<rparr>
       else s\<lparr>fi_temperature := t, fi_humidity := h, fi_sensor_measured_at := measured,
              fi_sensor_ready := True\<rparr>)"

definition handle_message :: "'d json \<Rightarrow> 'd \<Rightarrow> u32 \<Rightarrow> filament \<Rightarrow> fil_event list \<times> filament" where
  "handle_message J d received s =
    (let cmd = or_default (js_text J d ''cmd'') [] in
     if cmd = time_cmd \<and> js_ulong J d ''epoch'' \<noteq> None \<and> js_int J d ''utc_offset_min'' \<noteq> None
     then handle_time J d s
     else if cmd = outdoor_temp_cmd \<and> js_bool J d ''available'' = Some False
     then ([], s\<lparr>fi_outdoor_ready := False\<rparr>)
     else if (cmd = sysmon_temp_cmd \<or> cmd = outdoor_temp_cmd) \<and> js_float J d ''t'' \<noteq> None \<and> js_float J d ''h'' \<noteq> None
     then ([], handle_reading J d cmd received s)
     else ([], s))"

text \<open>
  The read loop: one pair of \<open>millis\<close> and \<open>read\<close> results per iteration; the list ends when the
  deadline has passed.
\<close>

fun read_payload :: "nat \<Rightarrow> u32 \<Rightarrow> (u32 \<times> int) list \<Rightarrow> bytes \<Rightarrow> bytes" where
  "read_payload n started [] payload = payload"
| "read_payload n started ((now, ch) # rest) payload =
    (if length payload < n \<and> now - started < 1000
     then read_payload n started rest (if ch \<ge> 0 then payload @ [word_of_int ch] else payload)
     else payload)"

record frame_env =
  fr_length :: int
  fr_started :: u32
  fr_reads :: "(u32 \<times> int) list"
  fr_done :: u32
  fr_received :: u32

definition receive_frame :: "'d json \<Rightarrow> frame_env \<Rightarrow> filament \<Rightarrow> fil_event list \<times> filament" where
  "receive_frame J fr s =
    (if fr_length fr \<le> 0 then ([], s)
     else if fr_length fr \<ge> 1024 then ([Socket_stop], s)
     else
       let payload = read_payload (nat (fr_length fr)) (fr_started fr) (fr_reads fr) [] in
       if int (length payload) \<noteq> fr_length fr then ([Socket_stop], s)
       else let s1 = s\<lparr>fi_last_frame := fr_done fr\<rparr> in
         case js_parse J payload of None \<Rightarrow> ([], s1)
         | Some d \<Rightarrow> handle_message J d (fr_received fr) s1)"

section \<open>Touch\<close>

record touch_env =
  te_now :: u32
  te_status :: "u8 option"
  te_contacts :: u8
  te_x :: u16
  te_y :: u16

text \<open>\<open>pollTouch\<close>: whether the screen is redrawn, and the state.\<close>

definition poll_touch :: "touch_env \<Rightarrow> filament \<Rightarrow> bool \<times> filament" where
  "poll_touch te s =
    (if \<not> fi_touch_ready s \<or> te_now te - fi_last_touch_poll s < 20 then (False, s)
     else let s1 = s\<lparr>fi_last_touch_poll := te_now te\<rparr> in
       case te_status te of None \<Rightarrow> (False, s1)
       | Some status \<Rightarrow>
         if status AND 0x80 = 0 \<or> status AND 0x0F > 5 \<or> te_contacts te \<noteq> status AND 0x0F then (False, s1)
         else
           let (x, y) = (if te_contacts te \<noteq> 0 then touch_landscape (te_x te) (te_y te) (fi_portrait s1) else (- 1, - 1));
               (changed, u) = units_report (te_contacts te \<noteq> 0) x y (fi_units s1);
               s2 = s1\<lparr>fi_units := u\<rparr> in
           if changed then (True, s2\<lparr>fi_last_draw := te_now te\<rparr>) else (False, s2))"

section \<open>The screen\<close>

record screen =
  sc_date :: bytes
  sc_clock :: bytes
  sc_outdoor_temp :: bytes
  sc_temp :: bytes
  sc_outdoor_rh :: bytes
  sc_rh :: bytes
  sc_status :: bytes

text \<open>The three readings of \<open>time\<close>, one of \<open>millis\<close>, and the state of the socket.\<close>

record draw_env =
  dr_time_clock :: int
  dr_time_sensor :: int
  dr_time_outdoor :: int
  dr_millis :: u32
  dr_connected :: bool

definition no_temp :: "units \<Rightarrow> bytes" where
  "no_temp u = bytes_of ''--.- '' @ [0xB0, units_symbol u]"

definition no_rh :: bytes where
  "no_rh = bytes_of ''--.- %''"

definition temp_text :: "units \<Rightarrow> f32 \<Rightarrow> bytes" where
  "temp_text u celsius = fit 32 (print_f32 1 (units_value u celsius) @ [32, 0xB0, units_symbol u])"

definition rh_text :: "f32 \<Rightarrow> bytes" where
  "rh_text h = fit 32 (print_f32 1 h @ [32, 37])"

definition clock_text :: "int \<Rightarrow> bytes" where
  "clock_text local = (case clock_fields local of (h, m, s) \<Rightarrow> dec2 h @ [58] @ dec2 m @ [58] @ dec2 s)"

definition date_text :: "int \<Rightarrow> bytes" where
  "date_text local = (case civil_date (local div 86400) of (y, m, d) \<Rightarrow>
     dec_int y @ [45] @ dec2 (nat m) @ [45] @ dec2 (nat d))"

definition sensor_fresh :: "draw_env \<Rightarrow> filament \<Rightarrow> bool" where
  "sensor_fresh de s \<longleftrightarrow> fi_sensor_ready s \<and>
     sensor_is_fresh (fi_clock_ready s) (word_of_int (dr_time_sensor de)) (ucast (fi_sensor_measured_at s)) 300"

definition outdoor_fresh :: "draw_env \<Rightarrow> filament \<Rightarrow> bool" where
  "outdoor_fresh de s \<longleftrightarrow> fi_outdoor_ready s \<and> dr_millis de - fi_outdoor_received_at s < 180000 \<and>
     sensor_is_fresh (fi_clock_ready s) (word_of_int (dr_time_outdoor de)) (ucast (fi_outdoor_measured_at s)) 3600"

definition status_live :: bytes where "status_live = bytes_of ''Live''"

definition screen_of :: "draw_env \<Rightarrow> filament \<Rightarrow> screen" where
  "screen_of de s =
    (let local = dr_time_clock de + fi_offset_minutes s * 60; u = fi_units s in
     \<lparr>sc_date = (if fi_clock_ready s then date_text local else bytes_of ''---- -- --''),
      sc_clock = (if fi_clock_ready s then clock_text local else bytes_of ''--:--:--''),
      sc_outdoor_temp = (if outdoor_fresh de s then temp_text u (fi_outdoor_temperature s) else no_temp u),
      sc_temp = (if sensor_fresh de s then temp_text u (fi_temperature s) else no_temp u),
      sc_outdoor_rh = (if outdoor_fresh de s then rh_text (fi_outdoor_humidity s) else no_rh),
      sc_rh = (if sensor_fresh de s then rh_text (fi_humidity s) else no_rh),
      sc_status = (if \<not> dr_connected de then bytes_of ''Connecting...''
        else if \<not> (sensor_fresh de s \<and> outdoor_fresh de s) then bytes_of ''Waiting for fresh sensor data''
        else status_live)\<rparr>)"

text \<open>The calls of \<open>drawText\<close>: text, center, top, font and color.\<close>

definition screen_texts :: "screen \<Rightarrow> (bytes \<times> int \<times> int \<times> smooth_font \<times> u32) list" where
  "screen_texts sc =
    [(sc_date sc, 776 - (text_width labelFont (sc_date sc) + 1) div 2, 12, labelFont, 0x9096A0),
     (sc_clock sc, 400, 35, clockFont, 0xF5F7FA),
     (bytes_of ''OUTDOOR'', 210, 185, labelFont, 0x00FF80),
     (bytes_of ''FILAMENT'', 590, 185, labelFont, 0x00FF80),
     (sc_outdoor_temp sc, 210, 228, valueFont, 0xF5F7FA),
     (sc_temp sc, 590, 228, valueFont, 0xF5F7FA),
     (sc_outdoor_rh sc, 210, 330, valueFont, 0xF5F7FA),
     (sc_rh sc, 590, 330, valueFont, 0xF5F7FA),
     (sc_status sc, 400, 440, statusFont, 0x9096A0)]"

definition drawScreen :: "draw_env \<Rightarrow> filament \<Rightarrow> set_call list option" where
  "drawScreen de s = in_sequence (map (\<lambda>(chars, center, y, font, color). drawText font chars center y color)
     (screen_texts (screen_of de s)))"

section \<open>The main loop\<close>

record fil_env =
  fe_touch :: touch_env
  fe_now :: u32
  fe_wifi :: bool
  fe_connected :: bool
  fe_begin_ok :: bool
  fe_hello_ok :: bool
  fe_hello_at :: u32
  fe_frame :: frame_env
  fe_after :: u32
  fe_later :: u32

text \<open>\<open>connectSocket\<close>: whether the handshake and the greeting succeeded decides if it stays open.\<close>

definition connect_socket :: "fil_env \<Rightarrow> filament \<Rightarrow> fil_event list \<times> filament" where
  "connect_socket fe s =
    (if \<not> fe_begin_ok fe \<or> \<not> fe_hello_ok fe then ([Socket_stop, Socket_begin, Socket_stop], s)
     else ([Socket_stop, Socket_begin], s\<lparr>fi_last_frame := fe_hello_at fe\<rparr>))"

definition network_step :: "'d json \<Rightarrow> fil_env \<Rightarrow> filament \<Rightarrow> fil_event list \<times> filament" where
  "network_step J fe s =
    (let now = fe_now fe in
     if \<not> fe_wifi fe then
       (if \<not> fi_wifi_tried s \<or> now - fi_last_wifi_try s \<ge> 15000
        then ([Socket_stop, Wifi_begin], s\<lparr>fi_wifi_tried := True, fi_last_wifi_try := now\<rparr>) else ([], s))
     else if \<not> fe_connected fe then
       (if \<not> fi_socket_tried s \<or> now - fi_last_socket_try s \<ge> 5000
        then connect_socket fe (s\<lparr>fi_socket_tried := True, fi_last_socket_try := now\<rparr>) else ([], s))
     else (case receive_frame J (fe_frame fe) s of (evs, s1) \<Rightarrow>
       if fe_after fe - fi_last_frame s1 > 90000 then (evs @ [Socket_stop], s1) else (evs, s1)))"

definition filament_loop :: "'d json \<Rightarrow> fil_env \<Rightarrow> filament \<Rightarrow> fil_event list \<times> filament" where
  "filament_loop J fe s =
    (case poll_touch (fe_touch fe) s of (changed, s1) \<Rightarrow>
     case network_step J fe s1 of (evs, s2) \<Rightarrow>
     let now = fe_later fe;
         draw = now - fi_last_draw s2 \<ge> 1000;
         s3 = (if draw then s2\<lparr>fi_last_draw := now\<rparr> else s2);
         s4 = (if now - fi_last_report s3 \<ge> 5000 then s3\<lparr>fi_last_report := now\<rparr> else s3) in
     ((if changed then [Redraw] else []) @ evs @ (if draw then [Redraw] else []), s4))"

text \<open>The states of a panel, from \<open>setup\<close> on.\<close>

inductive filament_reachable :: "'d json \<Rightarrow> filament \<Rightarrow> bool" for J where
  set_up: "filament_reachable J (filament_setup touch_begun dimensions filament_boot)"
| looped: "filament_reachable J s \<Longrightarrow> filament_loop J fe s = (evs, s1) \<Longrightarrow> filament_reachable J s1"

end
