(* ===== verification/Filament_Properties.thy ===== *)
theory Filament_Properties
  imports Filament_Panel
begin

text \<open>
  The properties of the simplified display: what it shows and when, which readings it accepts,
  how touches toggle the unit, how frames are read, and how it reconnects.
\<close>

section \<open>Accepted readings\<close>

definition fil_inv :: "filament \<Rightarrow> bool" where
  "fil_inv s \<longleftrightarrow>
     (fi_sensor_ready s \<longrightarrow> reading_valid (fi_temperature s) (fi_humidity s)) \<and>
     (fi_outdoor_ready s \<longrightarrow> reading_valid (fi_outdoor_temperature s) (fi_outdoor_humidity s)) \<and>
     - 840 \<le> fi_offset_minutes s \<and> fi_offset_minutes s \<le> 840"

lemma handle_message_inv: "fil_inv s \<Longrightarrow> fil_inv (snd (handle_message J d now s))"
  by (auto simp: handle_message_def handle_time_def handle_reading_def fil_inv_def Let_def)

lemma receive_frame_inv:
  assumes "fil_inv s"
  shows "fil_inv (snd (receive_frame J fr s))"
proof -
  have "fil_inv (s\<lparr>fi_last_frame := fr_done fr\<rparr>)" using assms by (simp add: fil_inv_def)
  with assms handle_message_inv [OF this] show ?thesis
    by (auto simp: receive_frame_def Let_def split: option.splits)
qed

lemma poll_touch_frame:
  "poll_touch te s = (changed, s1) \<Longrightarrow> \<exists>u t d. s1 = s\<lparr>fi_units := u, fi_last_touch_poll := t, fi_last_draw := d\<rparr>"
  by (cases s) (auto simp: poll_touch_def Let_def split: if_splits option.splits prod.splits)

lemma poll_touch_inv: "fil_inv s \<Longrightarrow> poll_touch te s = (changed, s1) \<Longrightarrow> fil_inv s1"
  by (drule poll_touch_frame) (auto simp: fil_inv_def)

lemma network_step_inv:
  assumes "fil_inv s" and "network_step J fe s = (evs, s1)"
  shows "fil_inv s1"
proof -
  obtain e t where r: "receive_frame J (fe_frame fe) s = (e, t)" by (cases "receive_frame J (fe_frame fe) s")
  have "fil_inv t" using receive_frame_inv [OF assms(1), of J "fe_frame fe"] r by simp
  moreover have "fil_inv (s\<lparr>fi_wifi_tried := a, fi_last_wifi_try := b\<rparr>)"
    "fil_inv (snd (connect_socket fe (s\<lparr>fi_socket_tried := a, fi_last_socket_try := b\<rparr>)))" for a b
    using assms(1) by (simp_all add: connect_socket_def fil_inv_def)
  ultimately have "fil_inv (snd (network_step J fe s))"
    using assms(1) r by (simp add: network_step_def Let_def)
  with assms(2) show ?thesis by simp
qed

lemma fil_inv_timers:
  "fil_inv (s\<lparr>fi_last_draw := t\<rparr>) = fil_inv s" "fil_inv (s\<lparr>fi_last_report := t\<rparr>) = fil_inv s"
  by (simp_all add: fil_inv_def)

lemma filament_loop_inv:
  assumes "fil_inv s" and "filament_loop J fe s = (evs, s1)"
  shows "fil_inv s1"
proof -
  obtain c t1 where p: "poll_touch (fe_touch fe) s = (c, t1)" by (cases "poll_touch (fe_touch fe) s")
  obtain e t2 where n: "network_step J fe t1 = (e, t2)" by (cases "network_step J fe t1")
  have "fil_inv t2" using network_step_inv [OF poll_touch_inv [OF assms(1) p] n] .
  with assms(2) p n show ?thesis by (auto simp: filament_loop_def Let_def fil_inv_timers)
qed

text \<open>
  Sample documents for the witnesses: any payload is a sensor message with the temperature 21.5, the
  humidity 40 and a source time; the panel is connected and gets one such frame.
\<close>

definition sample_json :: "unit json" where
  "sample_json = \<lparr>js_parse = (\<lambda>payload. Some ()), js_text = (\<lambda>d k. Some sysmon_temp_cmd), js_int = (\<lambda>d k. None),
     js_ulong = (\<lambda>d k. Some 1700000100), js_bool = (\<lambda>d k. None),
     js_float = (\<lambda>d k. Some (if k = ''t'' then F_num False 43 (- 1) else f32_nat 40))\<rparr>"

definition sample_frame :: frame_env where
  "sample_frame = \<lparr>fr_length = 2, fr_started = 5000, fr_reads = [(5000, 123), (5001, - 1), (5002, 125)],
     fr_done = 5003, fr_received = 5004\<rparr>"

definition sample_fil_env :: fil_env where
  "sample_fil_env = \<lparr>fe_touch = \<lparr>te_now = 5000, te_status = None, te_contacts = 0, te_x = 0, te_y = 0\<rparr>, fe_now = 5000,
     fe_wifi = True, fe_connected = True, fe_begin_ok = True, fe_hello_ok = True, fe_hello_at = 5000,
     fe_frame = sample_frame, fe_after = 5005, fe_later = 5006\<rparr>"

definition sample_draw :: draw_env where
  "sample_draw = \<lparr>dr_time_clock = 1700000200, dr_time_sensor = 1700000200, dr_time_outdoor = 1700000200,
     dr_millis = 6000, dr_connected = True\<rparr>"

definition sample_start :: filament where
  "sample_start = filament_setup False None filament_boot"

definition sample_updated :: filament where
  "sample_updated = snd (filament_loop sample_json sample_fil_env sample_start)"

lemma sample_reachable:
  "filament_reachable sample_json sample_start" "filament_reachable sample_json sample_updated"
proof -
  show start: "filament_reachable sample_json sample_start"
    unfolding sample_start_def by (rule filament_reachable.set_up)
  show "filament_reachable sample_json sample_updated"
    unfolding sample_updated_def
    by (rule filament_reachable.looped [OF start, of sample_fil_env "fst (filament_loop sample_json sample_fil_env sample_start)"]) simp
qed

lemma sample_reading_valid: "reading_valid (F_num False 43 (- 1)) (f32_nat 40)"
  by (simp add: reading_valid_def f32_nat_def scaled_def)

lemma sample_receive:
  "receive_frame sample_json sample_frame s = ([], s\<lparr>fi_last_frame := 5003, fi_temperature := F_num False 43 (- 1),
     fi_humidity := f32_nat 40, fi_sensor_measured_at := 1700000100, fi_sensor_ready := True\<rparr>)"
proof -
  have "sysmon_temp_cmd \<noteq> time_cmd" "sysmon_temp_cmd \<noteq> outdoor_temp_cmd"
    by (simp_all add: sysmon_temp_cmd_def time_cmd_def outdoor_temp_cmd_def bytes_of_def)
  with sample_reading_valid show ?thesis
    by (simp add: receive_frame_def sample_frame_def sample_json_def handle_message_def handle_reading_def
        or_default_def Let_def)
qed

lemma sample_updated_fields:
  "fi_sensor_ready sample_updated" "fi_temperature sample_updated = F_num False 43 (- 1)"
  "fi_units sample_updated = \<lparr>un_fahrenheit = False, un_pressed = False\<rparr>" "\<not> fi_outdoor_ready sample_updated"
  "fi_outdoor_temperature sample_updated = f32_nat 0"
  by (simp_all add: sample_updated_def filament_loop_def sample_start_def filament_setup_def filament_boot_def
      poll_touch_def sample_fil_env_def network_step_def sample_receive Let_def)

text \<open>
  (C20) The simplified display only ever holds plausible readings: whatever frames the server sends
  and in whatever order, a temperature and humidity marked ready are finite with the humidity
  between 0 and 100, and the UTC offset is within 14 hours.
\<close>

theorem filament_readings_valid:
  assumes "filament_reachable J s"
  shows "(fi_sensor_ready s \<longrightarrow> f32_finite (fi_temperature s) \<and> f32_finite (fi_humidity s) \<and>
      f32_nat 0 \<le> fi_humidity s \<and> fi_humidity s \<le> f32_nat 100) \<and>
    (fi_outdoor_ready s \<longrightarrow> f32_finite (fi_outdoor_temperature s) \<and> f32_finite (fi_outdoor_humidity s) \<and>
      f32_nat 0 \<le> fi_outdoor_humidity s \<and> fi_outdoor_humidity s \<le> f32_nat 100) \<and>
    \<bar>fi_offset_minutes s\<bar> \<le> 840"
proof -
  have "fil_inv s"
    using assms
  proof (induction rule: filament_reachable.induct)
    case (set_up touch_begun dimensions)
    then show ?case
      by (simp add: fil_inv_def filament_setup_def filament_boot_def Let_def split: option.splits)
  next
    case (looped s fe evs s1)
    then show ?case by (blast intro: filament_loop_inv)
  qed
  then show ?thesis by (auto simp: fil_inv_def reading_valid_def)
qed

theorem filament_readings_valid_witness:
  "fi_sensor_ready sample_updated \<and> fi_humidity sample_updated \<le> f32_nat 100"
  using filament_readings_valid [OF sample_reachable(2)] sample_updated_fields(1) by blast

text \<open>
  (C35) Delivering a reading again never makes it fresh again: handling the same message a second
  time, however late, leaves the freshness of the filament sensor as it was, and does not bring
  back an outdoor reading whose measurement is too old.
\<close>

theorem filament_replay_not_fresher:
  assumes "handle_message J d t1 s = (e1, s1)" and "handle_message J d t2 s1 = (e2, s2)"
  shows "sensor_fresh de s2 = sensor_fresh de s1 \<and>
    fi_outdoor_measured_at s2 = fi_outdoor_measured_at s1 \<and> fi_outdoor_ready s2 = fi_outdoor_ready s1"
  using assms
  by (auto simp: handle_message_def handle_time_def handle_reading_def Let_def sensor_fresh_def split: if_splits)

theorem filament_replay_not_fresher_witness:
  "sensor_fresh sample_draw (snd (handle_message sample_json () 9000 (snd (handle_message sample_json () 10 sample_start)))) =
   sensor_fresh sample_draw (snd (handle_message sample_json () 10 sample_start))"
  using filament_replay_not_fresher [where J = sample_json and d = "()" and de = sample_draw,
      OF surjective_pairing surjective_pairing] by blast

section \<open>What is shown\<close>

lemma fresh_iff:
  assumes "0 \<le> t" and "t < 2 ^ 64" and "k < 2 ^ 32"
  shows "sensor_is_fresh c (word_of_int t) (ucast (m :: u32)) (of_nat k) \<longleftrightarrow>
    c \<and> 0 < uint m \<and> uint m \<le> t \<and> t - uint m < int k"
proof -
  define tm where "tm = (ucast m :: u64)"
  have m: "uint tm = uint m"
    using unsigned_less [of m, where ?'a = int]
    by (simp add: tm_def unsigned_ucast_eq take_bit_int_eq_self)
  have t: "uint (word_of_int t :: u64) = t"
    using assms(1,2) by (simp add: uint_word_of_int_eq take_bit_eq_mod)
  have k: "uint (of_nat k :: u64) = int k"
    using assms(3) by (simp add: unsigned_of_nat take_bit_nat_eq_self)
  have sub: "uint ((word_of_int t :: u64) - tm) = t - uint m" if "uint m \<le> t"
    using that by (simp only: uint_sub_if' m t if_True)
  have "tm \<le> word_of_int t \<longleftrightarrow> uint m \<le> t" "0 < tm \<longleftrightarrow> 0 < uint m"
    by (simp_all only: word_le_def word_less_def m t unsigned_0)
  moreover have "(word_of_int t :: u64) - tm < of_nat k \<longleftrightarrow> t - uint m < int k" if "uint m \<le> t"
    by (simp only: word_less_def sub [OF that] k)
  ultimately show ?thesis
    unfolding sensor_is_fresh_def tm_def [symmetric] by auto
qed



section \<open>Every character is drawn\<close>

lemma findGlyph_codes:
  assumes "map sg_code (sf_glyphs font) = codes" and "sf_count font = length (sf_glyphs font)" and "c \<in> set codes"
  shows "findGlyph font c \<noteq> None"
  using assms by (auto simp: findGlyph_def find_None_iff)

lemmas clock_char = findGlyph_codes [OF clockFont_codes]
  and value_char = findGlyph_codes [OF valueFont_codes]
  and label_char = findGlyph_codes [OF labelFont_codes]
  and status_char = findGlyph_codes [OF statusFont_codes]

lemma set_dec2: "set (dec2 n) \<subseteq> digits"
  using set_dec [of n] by (auto simp: dec2_def digits_def)

lemma set_clock_text: "set (clock_text t) \<subseteq> digits \<union> {58}"
  using set_dec2 by (auto simp: clock_text_def split: prod.splits)

lemma set_date_text: "set (date_text t) \<subseteq> digits \<union> {45}"
proof -
  have "set (dec_int y) \<subseteq> digits \<union> {45}" for y
    using set_dec by (auto simp: dec_int_def)
  then show ?thesis
    using set_dec2 by (auto simp: date_text_def split: prod.splits)
qed

lemma set_temp_text: "f32_finite (units_value u t) \<Longrightarrow> set (temp_text u t) \<subseteq> digits \<union> {45, 46, 32, 0xB0, 67, 70}"
  using set_print_f32 [of "units_value u t" 1] set_fit [of 32 "print_f32 1 (units_value u t) @ [32, 0xB0, units_symbol u]"]
  by (auto simp: temp_text_def units_symbol_def)

lemma set_rh_text: "f32_finite h \<Longrightarrow> set (rh_text h) \<subseteq> digits \<union> {45, 46, 32, 37}"
  using set_print_f32 [of h 1] set_fit [of 32 "print_f32 1 h @ [32, 37]"] by (auto simp: rh_text_def)

lemma drawScreen_drawn: "drawScreen de s \<noteq> None"
proof -
  have fonts: "font_ok labelFont" "font_ok clockFont" "font_ok valueFont" "font_ok statusFont"
    by (simp_all add: font_tiled_ok labelFont_tiled clockFont_tiled valueFont_tiled statusFont_tiled)
  have "drawText font chars center y color \<noteq> None" if "font_ok font" for font chars center y color
    using draw_from_exact [OF that] by (metis drawText_def option.distinct(1))
  then have "\<forall>x \<in> set (map (\<lambda>(chars, center, y, font, color). drawText font chars center y color) (screen_texts sc)). x \<noteq> None" for sc
    using fonts by (simp add: screen_texts_def)
  then obtain calls where "drawScreen de s = Some calls"
    unfolding drawScreen_def using in_sequence_Some by blast
  then show ?thesis by simp
qed



section \<open>Touch\<close>

text \<open>A sequence of controller reports: how many of them toggled the unit, and the final state.\<close>

fun report_all :: "(bool \<times> int \<times> int) list \<Rightarrow> units \<Rightarrow> nat \<times> units" where
  "report_all [] u = (0, u)"
| "report_all ((contact, x, y) # rs) u =
    (case units_report contact x y u of (changed, u1) \<Rightarrow>
     case report_all rs u1 of (n, u2) \<Rightarrow> ((if changed then 1 else 0) + n, u2))"

text \<open>The taps in it: contacts inside the temperature area that follow no contact.\<close>

fun taps :: "bool \<Rightarrow> (bool \<times> int \<times> int) list \<Rightarrow> nat" where
  "taps touching [] = 0"
| "taps touching ((contact, x, y) # rs) =
    (if contact \<and> \<not> touching \<and> 0 \<le> x \<and> x < 800 \<and> 175 \<le> y \<and> y < 425 then 1 else 0) + taps contact rs"

lemma taps_held: "\<forall>r \<in> set rs. fst r \<Longrightarrow> taps True rs = 0"
  by (induction rs) auto

text \<open>
  (C36) The unit toggles exactly once per tap: over any sequence of touch reports the number of
  toggles is the number of contacts inside the temperature area that begin a touch, the unit shown
  at the end is the first one if that number is even, and a finger that stays on the glass toggles
  at most once however many reports it causes.
\<close>

theorem filament_one_toggle_per_tap:
  "case report_all rs u of (n, u1) \<Rightarrow>
     n = taps (un_pressed u) rs \<and> un_fahrenheit u1 = (un_fahrenheit u \<noteq> odd n) \<and>
     ((\<forall>r \<in> set rs. fst r) \<longrightarrow> n \<le> 1)"
proof -
  have main: "case report_all rs u of (n, u1) \<Rightarrow>
      n = taps (un_pressed u) rs \<and> un_fahrenheit u1 = (un_fahrenheit u \<noteq> odd n)" for rs u
  proof (induction rs arbitrary: u)
    case (Cons r rs)
    obtain contact x y where r: "r = (contact, x, y)" by (cases r)
    obtain changed u1 where ur: "units_report contact x y u = (changed, u1)" by (cases "units_report contact x y u")
    have step: "un_pressed u1 = contact" "un_fahrenheit u1 = (un_fahrenheit u \<noteq> changed)"
      "changed = (contact \<and> \<not> un_pressed u \<and> 0 \<le> x \<and> x < 800 \<and> 175 \<le> y \<and> y < 425)"
      using ur by (auto simp: units_report_def Let_def split: if_splits)
    obtain n u2 where rec: "report_all rs u1 = (n, u2)" by (cases "report_all rs u1")
    from Cons.IH [of u1] step show ?case by (auto simp: r ur rec)
  qed simp
  have "\<forall>r \<in> set rs. fst r \<Longrightarrow> taps touching rs \<le> 1" for touching
    by (cases rs) (auto simp: taps_held)
  then show ?thesis using main [where rs = rs and u = u] by (auto split: prod.splits)
qed

theorem filament_one_toggle_per_tap_witness:
  "report_all [(True, 10, 200), (True, 10, 201)] \<lparr>un_fahrenheit = False, un_pressed = False\<rparr> =
     (1, \<lparr>un_fahrenheit = True, un_pressed = True\<rparr>)"
  using filament_one_toggle_per_tap [where rs = "[(True, 10, 200), (True, 10, 201)]" and
      u = "\<lparr>un_fahrenheit = False, un_pressed = False\<rparr>"]
  by (simp add: units_report_def Let_def)

text \<open>
  (C37) The touch coordinates of a portrait controller are turned back exactly: its 480 by 800 raw
  points correspond one to one to the points of the 800 by 480 screen.
\<close>

theorem touch_landscape_bijection:
  "bij_betw (\<lambda>(raw_x, raw_y). touch_landscape raw_x raw_y True)
     {(raw_x, raw_y). uint raw_x < 480 \<and> uint raw_y < 800} {(x, y). on_screen x y}"
proof (rule bij_betw_byWitness [where f' = "\<lambda>(x, y). (word_of_int (479 - y), word_of_int x)"])
  have small: "uint (word_of_int k :: u16) = k" if "0 \<le> k" "k < 800" for k
    using that by (simp add: uint_word_of_int_eq take_bit_int_eq_self)
  have nonneg: "- 1 < uint w" for w :: u16 
    by (rule less_le_trans [OF _ unsigned_greater_eq]) simp
  show "\<forall>a \<in> {(raw_x, raw_y). uint raw_x < 480 \<and> uint raw_y < 800}.
      (case case a of (raw_x, raw_y) \<Rightarrow> touch_landscape raw_x raw_y True of
         (x, y) \<Rightarrow> (word_of_int (479 - y), word_of_int x)) = a"
    by (auto simp: touch_landscape_def)
  show "\<forall>a' \<in> {(x, y). on_screen x y}.
      (case case a' of (x, y) \<Rightarrow> (word_of_int (479 - y) :: u16, word_of_int x :: u16) of
         (raw_x, raw_y) \<Rightarrow> touch_landscape raw_x raw_y True) = a'"
    by (auto simp: touch_landscape_def on_screen_def small simp del: of_int_diff)
  show "(\<lambda>(raw_x, raw_y). touch_landscape raw_x raw_y True) `
      {(raw_x, raw_y). uint raw_x < 480 \<and> uint raw_y < 800} \<subseteq> {(x, y). on_screen x y}"
    by (auto simp: touch_landscape_def on_screen_def nonneg)
  show "(\<lambda>(x, y). (word_of_int (479 - y) :: u16, word_of_int x :: u16)) ` {(x, y). on_screen x y} \<subseteq>
      {(raw_x, raw_y). uint raw_x < 480 \<and> uint raw_y < 800}"
    by (auto simp: on_screen_def small simp del: of_int_diff)
qed

section \<open>Reading a frame\<close>

lemma read_payload_eq:
  "length p \<le> n \<Longrightarrow> read_payload n started reads p =
     p @ take (n - length p) (map (\<lambda>(now, ch). word_of_int ch)
       (filter (\<lambda>(now, ch). ch \<ge> 0) (takeWhile (\<lambda>(now, ch). now - started < 1000) reads)))"
proof (induction n started reads p rule: read_payload.induct)
  case (2 n started now ch rest payload)
  show ?case
  proof (cases "length payload < n \<and> now - started < 1000")
    case True
    with 2 show ?thesis by (auto simp: take_Cons' Suc_diff_Suc)
  next
    case False
    with 2(2) show ?thesis by auto
  qed
qed simp

text \<open>
  (C28) A frame is used whole or not at all: a frame of 1024 bytes or more, or one whose bytes do
  not all arrive within a second, closes the socket and changes no state; otherwise the document
  parsed is made of exactly the announced number of bytes, the first ones read, in order.
\<close>

theorem filament_frame_whole:
  assumes "receive_frame J fr s = (evs, s1)"
    and "received = map (\<lambda>(now, ch). word_of_int ch) (filter (\<lambda>(now, ch). ch \<ge> 0)
      (takeWhile (\<lambda>(now, ch). now - fr_started fr < 1000) (fr_reads fr)))"
  shows "if fr_length fr \<le> 0 then evs = [] \<and> s1 = s
    else if fr_length fr \<ge> 1024 \<or> int (length received) < fr_length fr then evs = [Socket_stop] \<and> s1 = s
    else (case js_parse J (take (nat (fr_length fr)) received) of
        None \<Rightarrow> evs = [] \<and> s1 = s\<lparr>fi_last_frame := fr_done fr\<rparr>
      | Some d \<Rightarrow> (evs, s1) = handle_message J d (fr_received fr) (s\<lparr>fi_last_frame := fr_done fr\<rparr>))"
proof -
  have payload: "read_payload (nat (fr_length fr)) (fr_started fr) (fr_reads fr) [] = take (nat (fr_length fr)) received"
    using read_payload_eq [of "[]" "nat (fr_length fr)" "fr_started fr" "fr_reads fr"] assms(2) by simp
  show ?thesis
    using assms(1) by (auto simp: receive_frame_def payload Let_def split: if_splits option.splits)
qed

theorem filament_frame_whole_witness:
  "receive_frame sample_json (sample_frame\<lparr>fr_length := 3\<rparr>) sample_start = ([Socket_stop], sample_start)"
proof -
  obtain evs s1 where r: "receive_frame sample_json (sample_frame\<lparr>fr_length := 3\<rparr>) sample_start = (evs, s1)"
    by (cases "receive_frame sample_json (sample_frame\<lparr>fr_length := 3\<rparr>) sample_start")
  from filament_frame_whole [OF r refl] r show ?thesis by (simp add: sample_frame_def)
qed

section \<open>Reconnecting\<close>

lemma network_step_events:
  assumes "network_step J fe s = (evs, s1)"
  shows "(Wifi_begin \<in> set evs \<longrightarrow> \<not> fe_wifi fe \<and> (\<not> fi_wifi_tried s \<or> fe_now fe - fi_last_wifi_try s \<ge> 15000) \<and>
      fi_wifi_tried s1 \<and> fi_last_wifi_try s1 = fe_now fe) \<and>
    (Socket_begin \<in> set evs \<longrightarrow> fe_wifi fe \<and> \<not> fe_connected fe \<and>
      (\<not> fi_socket_tried s \<or> fe_now fe - fi_last_socket_try s \<ge> 5000) \<and>
      fi_socket_tried s1 \<and> fi_last_socket_try s1 = fe_now fe) \<and>
    (fe_wifi fe \<and> fe_connected fe \<and> fe_after fe - fi_last_frame s1 > 90000 \<longrightarrow> Socket_stop \<in> set evs)"
proof -
  obtain e t where r: "receive_frame J (fe_frame fe) s = (e, t)" by (cases "receive_frame J (fe_frame fe) s")
  have "Wifi_begin \<notin> set e" "Socket_begin \<notin> set e"
    using r by (auto simp: receive_frame_def handle_message_def handle_time_def Let_def
        split: if_splits option.splits)
  with assms r show ?thesis
    by (auto simp: network_step_def connect_socket_def Let_def split: if_splits)
qed



end
