(* ===== verification/Filament_Sketch.thy ===== *)
theory Filament_Sketch
  imports Filament_Properties Ota_Server_Properties
begin

text \<open>
  The whole sketch \<open>giga-filament.ino\<close>: its panel together with the update server, which it initialises
  at the end of \<open>setup\<close> and calls first in \<open>loop\<close>.
\<close>

datatype sketch_event = Sk_ota ota_event | Sk_panel fil_event

text \<open>\<open>setup\<close>, with the code that \<open>display.begin\<close> returns: it does not return when it is not zero.\<close>

definition sketch_setup ::
  "('a, 'h) mbedtls \<Rightarrow> ota_config \<Rightarrow> int \<Rightarrow> bool \<Rightarrow> bytes option \<Rightarrow> boot_env \<Rightarrow> file_sink \<Rightarrow>
     (('a, 'h) server \<times> filament) option" where
  "sketch_setup M cf begin_rc touch_begun dimensions be fs =
    (if begin_rc \<noteq> 0 then None
     else let s = filament_setup touch_begun dimensions filament_boot in
       Some (ota_init M cf be (server_boot M fs), s))"

definition sketch_loop ::
  "('a, 'h) mbedtls \<Rightarrow> ota_config \<Rightarrow> 'd json \<Rightarrow> loop_env \<times> fil_env \<Rightarrow> ('a, 'h) server \<times> filament \<Rightarrow>
     (sketch_event list \<times> ('a, 'h) server \<times> filament) option" where
  "sketch_loop M cf J e st =
    (case e of (en, fe) \<Rightarrow> case st of (srv, s) \<Rightarrow>
     case ota_loop M cf en srv of None \<Rightarrow> None
     | Some (ota, srv1) \<Rightarrow>
       (case filament_loop J fe s of (evs, s1) \<Rightarrow> Some (map Sk_ota ota @ map Sk_panel evs, srv1, s1)))"

fun sketch_run ::
  "('a, 'h) mbedtls \<Rightarrow> ota_config \<Rightarrow> 'd json \<Rightarrow> (loop_env \<times> fil_env) list \<Rightarrow> ('a, 'h) server \<times> filament \<Rightarrow>
     (sketch_event list \<times> ('a, 'h) server \<times> filament) option" where
  "sketch_run M cf J [] st = Some ([], st)"
| "sketch_run M cf J (e # es) st =
    (case sketch_loop M cf J e st of None \<Rightarrow> None
     | Some (evs, st1) \<Rightarrow> map_option (\<lambda>(evs', st2). (evs @ evs', st2)) (sketch_run M cf J es st1))"

text \<open>The two parts run side by side.\<close>

lemma sketch_run_parts:
  assumes "server_run M cf (map fst es) srv = Some (ota, srv1)" and "filament_reachable J s"
  shows "\<exists>evs s1. sketch_run M cf J es (srv, s) = Some (evs, srv1, s1) \<and> filament_reachable J s1 \<and>
    (\<forall>b. Sk_ota (Updated b) \<in> set evs \<longleftrightarrow> Updated b \<in> set ota)"
  using assms
proof (induction es arbitrary: srv ota s)
  case Nil
  then show ?case by simp
next
  case (Cons e es)
  obtain en fe where e: "e = (en, fe)" by (cases e)
  from Cons.prems(1) e obtain ota1 srv2 ota2 where
    o: "ota_loop M cf en srv = Some (ota1, srv2)" "server_run M cf (map fst es) srv2 = Some (ota2, srv1)" "ota = ota1 @ ota2"
    by (auto split: option.splits)
  obtain evs1 s2 where f: "filament_loop J fe s = (evs1, s2)" by (cases "filament_loop J fe s")
  from Cons.IH [OF o(2) filament_reachable.looped [OF Cons.prems(2) f]] obtain evs2 s1 where
    r: "sketch_run M cf J es (srv2, s2) = Some (evs2, srv1, s1)" "filament_reachable J s1"
      "\<forall>b. Sk_ota (Updated b) \<in> set evs2 \<longleftrightarrow> Updated b \<in> set ota2" by blast
  have "sketch_run M cf J (e # es) (srv, s) = Some ((map Sk_ota ota1 @ map Sk_panel evs1) @ evs2, srv1, s1)"
    using o(1) f r(1) by (simp add: sketch_loop_def e)
  moreover have "\<forall>b. Sk_ota (Updated b) \<in> set ((map Sk_ota ota1 @ map Sk_panel evs1) @ evs2) \<longleftrightarrow> Updated b \<in> set ota"
    using r(3) o(3) by auto
  ultimately show ?case using r(2) by blast
qed

text \<open>
  (C12) The simplified display runs on and installs only verified images: from a start-up that
  completes, in any number of calls of \<open>loop\<close> with any network, clock, generator, touch and file
  behaviour, every call returns and none stores outside the header buffer; the panel stays in its
  reachable states; and the updater is called only while \<open>UPDATE.BIN\<close> holds an image verified for this
  panel under the provisioned key.
\<close>

theorem sketch_runs_safely:
  assumes "sketch_setup M cf begin_rc touch_begun dimensions be fs = Some st0" and "cstring (ota_identity cf)"
    and "sha_streams M H" and "mbedtls_sizes M"
  shows "\<exists>evs srv s. sketch_run M cf J es st0 = Some (evs, srv, s) \<and> filament_reachable J s \<and>
    (\<forall>b. Sk_ota (Updated b) \<in> set evs \<longrightarrow> (\<exists>key header wire p. hex_pairs (cf_key_hex cf) = Some key \<and>
       verified_image M H key (panel_number (cf_panel_id cf)) (ota_identity cf) header wire p \<and> b = Some p))"
proof -
  obtain srv0 s0 where st0: "st0 = (srv0, s0)" "srv0 = ota_init M cf be (server_boot M fs)"
    "s0 = filament_setup touch_begun dimensions filament_boot"
    using assms(1) by (cases st0) (auto simp: sketch_setup_def Let_def split: if_splits)
  have "filament_reachable J s0" unfolding st0(3) by (rule filament_reachable.set_up)
  moreover obtain ota srv1 where "server_run M cf (map fst es) srv0 = Some (ota, srv1)"
    "\<forall>b. Updated b \<in> set ota \<longrightarrow> (\<exists>key header wire p. hex_pairs (cf_key_hex cf) = Some key \<and>
       verified_image M H key (panel_number (cf_panel_id cf)) (ota_identity cf) header wire p \<and> b = Some p)"
    using ota_update_only_verified [OF assms(2-4), of "map fst es" be fs] unfolding st0(2) by blast
  ultimately show ?thesis using sketch_run_parts [of M cf es srv0 ota srv1 J s0] by (auto simp: st0(1))
qed

theorem sketch_runs_safely_witness:
  "\<exists>st0 evs srv s. sketch_setup sample_mbedtls sample_config 0 True None sample_boot sample_file = Some st0 \<and>
     sketch_run sample_mbedtls sample_config sample_json [(sample_env, sample_fil_env), (sample_env, sample_fil_env)] st0 =
       Some (evs, srv, s) \<and> filament_reachable sample_json s"
proof -
  obtain st0 where "sketch_setup sample_mbedtls sample_config 0 True None sample_boot sample_file = Some st0"
    by (simp add: sketch_setup_def Let_def)
  moreover have "cstring (ota_identity sample_config)" by (simp add: sample_config_identity sample_identity_facts)
  ultimately show ?thesis
    using sketch_runs_safely [OF _ _ sample_streams sample_sizes] by blast
qed

end
