(* ===== verification/Panel_Config.thy ===== *)
theory Panel_Config
  imports Prelude
begin

text \<open>
  \<open>firmware/housepanel-giga/config.h\<close>: the defaults of the panel's identity, which \<open>secrets.h\<close> can
  override, the WebSocket path and the version of the firmware.
\<close>

definition HOUSEPANEL_PANEL_ID :: "bytes option \<Rightarrow> bytes" where
  "HOUSEPANEL_PANEL_ID secrets = (case secrets of Some v \<Rightarrow> v | None \<Rightarrow> bytes_of ''primary'')"

definition HOUSEPANEL_HOSTNAME :: "bytes option \<Rightarrow> bytes" where
  "HOUSEPANEL_HOSTNAME secrets = (case secrets of Some v \<Rightarrow> v | None \<Rightarrow> bytes_of ''housepanel'')"

definition TRANSPORT_ADAPTER_WS_PATH :: "bytes \<Rightarrow> bytes" where
  "TRANSPORT_ADAPTER_WS_PATH panel_id = bytes_of ''/ws/panels/'' @ panel_id"

definition FIRMWARE_VERSION :: bytes where
  "FIRMWARE_VERSION = bytes_of ''0.5.3''"

end
