(* ===== verification/Panel_Display.thy ===== *)
theory Panel_Display
  imports C_Text Panel_Config
begin

text \<open>
  \<open>firmware/housepanel-giga/display.cpp\<close> and \<open>display.h\<close>: the screens of the panel. LVGL is outside:
  what a function does to it is the list of its calls, kept in \<open>ds_lv\<close> with the last call first, and
  \<open>shown_text\<close>, \<open>is_hidden\<close> and the like read off that list what was set last. The other fields are
  the static variables of the file. A pointer to an object is not null when the object was created.
  Float operations are rounded one by one.
\<close>

section \<open>Objects and calls of LVGL\<close>

datatype indicator = Ind_wifi | Ind_ws | Ind_data

text \<open>The objects, named after the variables that hold them.\<close>

datatype panel_obj =
    Layer_top | Scr_daily | Scr_doorbell | Lbl_doorbell
  | Weather_row | Wx_card nat | Wx_day nat | Wx_icon nat | Wx_cur | Wx_high nat | Wx_low nat | Wx_cond nat | Wx_tap
  | Clock_box | Lbl_clock | Cal_box | Lbl_calendar
  | Sysmon_box | Temp_half | Lbl_sysmon_temp | Sdiv | Humidity_half | Lbl_sysmon_humidity
  | Stat_panel | Ind_lbl indicator | Ind_dot indicator
  | Popup | Ptitle | Pdiv | Popup_content | Pdiv2 | Pbtn | Pbtn_lbl

datatype lv_typeface = Montserrat_14 | Montserrat_18 | Montserrat_20 | Montserrat_28 | Montserrat_96
datatype lv_align = Align_center | Align_right
datatype lv_flag = Flag_scrollable | Flag_clickable | Flag_hidden
datatype lv_callback = Unit_toggle | Status_click | Popup_close

datatype lv_call =
    Obj_create panel_obj "panel_obj option"
  | Label_create panel_obj panel_obj
  | Set_size panel_obj int int
  | Set_pos panel_obj int int
  | Pad_all panel_obj int
  | Pad_top panel_obj int
  | Bg_color panel_obj u32
  | Bg_transparent panel_obj
  | Border_width panel_obj int
  | Border_color panel_obj u32
  | Radius panel_obj int
  | Text_align panel_obj lv_align
  | Text_color panel_obj u32
  | Text_font panel_obj lv_typeface
  | Add_flag panel_obj lv_flag
  | Remove_flag panel_obj lv_flag
  | Scrollbar_off panel_obj
  | Long_clip panel_obj
  | Set_text panel_obj bytes
  | Center panel_obj
  | Add_event panel_obj lv_callback
  | Move_foreground panel_obj
  | Scr_load panel_obj
  | Indev_create
  | Indev_pointer
  | Indev_read

text \<open>The value set last, in a list of calls with the last one first.\<close>

primrec latest :: "('c \<Rightarrow> 'v option) \<Rightarrow> 'c list \<Rightarrow> 'v option" where
  "latest f [] = None"
| "latest f (c # cs) = (case f c of None \<Rightarrow> latest f cs | Some v \<Rightarrow> Some v)"

lemma latest_append: "latest f (cs @ ds) = (case latest f cs of None \<Rightarrow> latest f ds | Some v \<Rightarrow> Some v)"
  by (induction cs) (auto split: option.splits)

definition created_by :: "panel_obj \<Rightarrow> lv_call \<Rightarrow> unit option" where
  "created_by w c = (case c of Obj_create w' p \<Rightarrow> if w' = w then Some () else None
     | Label_create w' p \<Rightarrow> if w' = w then Some () else None | _ \<Rightarrow> None)"

definition text_by :: "panel_obj \<Rightarrow> lv_call \<Rightarrow> bytes option" where
  "text_by w c = (case c of Set_text w' t \<Rightarrow> if w' = w then Some t else None | _ \<Rightarrow> None)"

definition bg_by :: "panel_obj \<Rightarrow> lv_call \<Rightarrow> u32 option" where
  "bg_by w c = (case c of Bg_color w' v \<Rightarrow> if w' = w then Some v else None | _ \<Rightarrow> None)"

definition border_by :: "panel_obj \<Rightarrow> lv_call \<Rightarrow> u32 option" where
  "border_by w c = (case c of Border_color w' v \<Rightarrow> if w' = w then Some v else None | _ \<Rightarrow> None)"

definition hidden_by :: "panel_obj \<Rightarrow> lv_call \<Rightarrow> bool option" where
  "hidden_by w c = (case c of Add_flag w' f \<Rightarrow> if w' = w \<and> f = Flag_hidden then Some True else None
     | Remove_flag w' f \<Rightarrow> if w' = w \<and> f = Flag_hidden then Some False else None | _ \<Rightarrow> None)"

definition loaded_by :: "lv_call \<Rightarrow> panel_obj option" where
  "loaded_by c = (case c of Scr_load w \<Rightarrow> Some w | _ \<Rightarrow> None)"

definition made :: "panel_obj \<Rightarrow> lv_call list \<Rightarrow> bool" where
  "made w lv \<longleftrightarrow> latest (created_by w) lv \<noteq> None"

definition shown_text :: "panel_obj \<Rightarrow> lv_call list \<Rightarrow> bytes option" where
  "shown_text w lv = latest (text_by w) lv"

definition is_hidden :: "panel_obj \<Rightarrow> lv_call list \<Rightarrow> bool" where
  "is_hidden w lv \<longleftrightarrow> latest (hidden_by w) lv = Some True"

definition loaded_screen :: "lv_call list \<Rightarrow> panel_obj option" where
  "loaded_screen lv = latest loaded_by lv"

section \<open>State\<close>

datatype display_state = Daily_view | Doorbell_interrupt

record today_wx =
  tw_temp :: f32
  tw_high :: f32
  tw_low :: f32
  tw_cond :: bytes
  tw_valid :: bool

record forecast_wx =
  fw_high :: f32
  fw_low :: f32
  fw_label :: bytes
  fw_cond :: bytes
  fw_valid :: bool

record display =
  ds_lv :: "lv_call list"
  ds_state :: display_state
  ds_wifi_ok :: bool
  ds_ws_ok :: bool
  ds_data_ok :: bool
  ds_ip :: bytes
  ds_data_age :: u32
  ds_fahrenheit :: bool
  ds_today :: today_wx
  ds_forecast :: "forecast_wx list"
  ds_unit_ms :: u32
  ds_close_ms :: u32
  ds_status_ms :: u32
  ds_last_point :: "int \<times> int"

definition display_boot :: display where
  "display_boot = \<lparr>ds_lv = [], ds_state = Daily_view, ds_wifi_ok = False, ds_ws_ok = False, ds_data_ok = False,
     ds_ip = [], ds_data_age = 0, ds_fahrenheit = False,
     ds_today = \<lparr>tw_temp = f32_nat 0, tw_high = f32_nat 0, tw_low = f32_nat 0, tw_cond = [], tw_valid = False\<rparr>,
     ds_forecast = replicate 4 \<lparr>fw_high = f32_nat 0, fw_low = f32_nat 0, fw_label = [], fw_cond = [], fw_valid = False\<rparr>,
     ds_unit_ms = 0, ds_close_ms = 0, ds_status_ms = 0, ds_last_point = (0, 0)\<rparr>"

definition do_calls :: "lv_call list \<Rightarrow> display \<Rightarrow> display" where
  "do_calls cs s = s\<lparr>ds_lv := rev cs @ ds_lv s\<rparr>"

text \<open>\<open>if (object) call(object, ...)\<close>\<close>

definition when_made :: "display \<Rightarrow> panel_obj \<Rightarrow> lv_call \<Rightarrow> lv_call list" where
  "when_made s w c = (if made w (ds_lv s) then [c] else [])"

section \<open>Weather\<close>

definition strstr :: "bytes \<Rightarrow> bytes \<Rightarrow> bool" where
  "strstr hay needle \<longleftrightarrow> list_ex (\<lambda>k. take (length needle) (drop k hay) = needle) [0..<Suc (length hay)]"

definition says :: "bytes \<Rightarrow> string list \<Rightarrow> bool" where
  "says cond names \<longleftrightarrow> list_ex (\<lambda>w. strstr cond (bytes_of w)) names"

definition conditions_color :: "bytes \<Rightarrow> u32" where
  "conditions_color cond =
    (if cond = [] then 0xFF8C00
     else if says cond [''clear'', ''sunny''] then 0xFFD700
     else if says cond [''few cloud'', ''scatter''] then 0x87CEEB
     else if says cond [''cloud'', ''overcast''] then 0x888888
     else if says cond [''rain'', ''drizzle'', ''shower''] then 0x4169E1
     else if says cond [''thunder'', ''storm''] then 0x9400D3
     else if says cond [''snow'', ''sleet'', ''ice''] then 0xCCEEFF
     else if says cond [''mist'', ''fog'', ''haze''] then 0xA9A9A9
     else 0xFF8C00)"

definition to_disp :: "bool \<Rightarrow> f32 \<Rightarrow> f32" where
  "to_disp fahrenheit c =
    (if fahrenheit then f32_add (f32_div (f32_mul c (f32_nat 9)) (f32_nat 5)) (f32_nat 32) else c)"

definition unit_str :: "bool \<Rightarrow> bytes" where
  "unit_str fahrenheit = (if fahrenheit then [0xC2, 0xB0, 70] else [0xC2, 0xB0])"

definition wx_text :: "string \<Rightarrow> bool \<Rightarrow> f32 \<Rightarrow> bytes" where
  "wx_text prefix fahrenheit c =
     fit 48 (bytes_of prefix @ print_f32 0 (to_disp fahrenheit c) @ unit_str fahrenheit)"

definition render_today :: "display \<Rightarrow> display" where
  "render_today s =
    (let wx = ds_today s; f = ds_fahrenheit s in
     if \<not> tw_valid wx then s
     else let col = conditions_color (tw_cond wx) in
       do_calls
         (when_made s (Wx_card 0) (Border_color (Wx_card 0) col) @
          when_made s (Wx_icon 0) (Bg_color (Wx_icon 0) col) @
          when_made s Wx_cur (Set_text Wx_cur (wx_text '''' f (tw_temp wx))) @
          when_made s (Wx_high 0) (Set_text (Wx_high 0) (wx_text ''H: '' f (tw_high wx))) @
          when_made s (Wx_low 0) (Set_text (Wx_low 0) (wx_text ''L: '' f (tw_low wx)))) s)"

definition render_forecast :: "int \<Rightarrow> display \<Rightarrow> display" where
  "render_forecast c s =
    (let wx = ds_forecast s ! nat (c - 1); f = ds_fahrenheit s; k = nat c in
     if c < 1 \<or> c > 2 \<or> \<not> fw_valid wx then s
     else let col = conditions_color (fw_cond wx) in
       do_calls
         (when_made s (Wx_card k) (Border_color (Wx_card k) col) @
          when_made s (Wx_icon k) (Bg_color (Wx_icon k) col) @
          when_made s (Wx_day k) (Set_text (Wx_day k) (if fw_label wx \<noteq> [] then fw_label wx else bytes_of ''---'')) @
          when_made s (Wx_high k) (Set_text (Wx_high k) (wx_text ''H: '' f (fw_high wx))) @
          when_made s (Wx_low k) (Set_text (Wx_low k) (wx_text ''L: '' f (fw_low wx))) @
          when_made s (Wx_cond k) (Set_text (Wx_cond k) (fw_cond wx))) s)"

text \<open>A null pointer is \<open>None\<close>: \<open>p ? p : q\<close>.\<close>

definition render_weather_today :: "f32 \<Rightarrow> bytes option \<Rightarrow> f32 \<Rightarrow> f32 \<Rightarrow> display \<Rightarrow> display" where
  "render_weather_today temp conditions high low s =
     render_today (s\<lparr>ds_today := \<lparr>tw_temp = temp, tw_high = high, tw_low = low,
       tw_cond = fit 32 (or_default conditions []), tw_valid = True\<rparr>\<rparr>)"

definition render_weather_day :: "int \<Rightarrow> bytes option \<Rightarrow> f32 \<Rightarrow> f32 \<Rightarrow> bytes option \<Rightarrow> display \<Rightarrow> display" where
  "render_weather_day idx label high low conditions s =
    (if idx < 0 \<or> idx > 1 then s
     else render_forecast (idx + 1) (s\<lparr>ds_forecast := (ds_forecast s)[nat idx :=
       \<lparr>fw_high = high, fw_low = low, fw_label = fit 4 (or_default label []),
        fw_cond = fit 26 (or_default conditions []), fw_valid = True\<rparr>]\<rparr>))"

section \<open>Callbacks\<close>

definition unit_toggle_cb :: "u32 \<Rightarrow> display \<Rightarrow> display" where
  "unit_toggle_cb now s =
    (if now - ds_unit_ms s < 300 then s
     else fold render_forecast [1, 2]
       (render_today (s\<lparr>ds_unit_ms := now, ds_fahrenheit := \<not> ds_fahrenheit s\<rparr>)))"

definition data_str :: "u32 \<Rightarrow> bytes" where
  "data_str age = fit 24
    (if age = 0 then bytes_of ''No data yet''
     else if age < 60 then dec (unat age) @ bytes_of ''s ago''
     else dec (unat (age div 60)) @ bytes_of ''m ago'')"

definition popup_text :: "display \<Rightarrow> bytes" where
  "popup_text s = fit 220
    (bytes_of ''WiFi:   '' @ (if ds_wifi_ok s then bytes_of ''Connected'' else bytes_of ''Down'') @ [10] @
     bytes_of ''IP:     '' @ (if ds_ip s \<noteq> [] then ds_ip s else bytes_of ''--'') @ [10] @
     bytes_of ''Server: '' @ (if ds_ws_ok s then bytes_of ''Connected'' else bytes_of ''Down'') @ [10] @
     bytes_of ''Data:   '' @ data_str (ds_data_age s) @ [10] @
     bytes_of ''FW:     '' @ FIRMWARE_VERSION)"

definition refresh_popup_content :: "display \<Rightarrow> display" where
  "refresh_popup_content s = do_calls (when_made s Popup_content (Set_text Popup_content (popup_text s))) s"

definition popup_close_cb :: "u32 \<Rightarrow> display \<Rightarrow> display" where
  "popup_close_cb now s =
    (if now - ds_close_ms s < 300 then s
     else let s1 = s\<lparr>ds_close_ms := now\<rparr> in do_calls (when_made s1 Popup (Add_flag Popup Flag_hidden)) s1)"

definition status_click_cb :: "u32 \<Rightarrow> display \<Rightarrow> display" where
  "status_click_cb now s =
    (if now - ds_status_ms s < 300 then s
     else let s1 = s\<lparr>ds_status_ms := now\<rparr> in
       if \<not> made Popup (ds_lv s1) then s1
       else do_calls [Remove_flag Popup Flag_hidden, Move_foreground Popup] (refresh_popup_content s1))"

text \<open>
  \<open>touch_read_cb\<close>: \<open>getTouchPoints\<close> writes every contact it reports into \<open>points\<close>, which has room
  for one; \<open>None\<close> is a store outside it. The result is the pressed state and the point reported.
\<close>

definition touch_read_cb :: "(int \<times> int) list \<Rightarrow> display \<Rightarrow> ((bool \<times> int \<times> int) \<times> display) option" where
  "touch_read_cb contacts s =
    (if length contacts > 1 then None
     else let s1 = (if length contacts > 0 then s\<lparr>ds_last_point := hd contacts\<rparr> else s) in
       Some ((length contacts > 0, ds_last_point s1), s1))"

text \<open>The clicks that LVGL reports from \<open>lv_timer_handler\<close>, each with the reading of \<open>millis\<close>.\<close>

datatype click = Click_weather u32 | Click_status u32 | Click_close u32

fun handle_click :: "click \<Rightarrow> display \<Rightarrow> display" where
  "handle_click (Click_weather now) s = unit_toggle_cb now s"
| "handle_click (Click_status now) s = status_click_cb now s"
| "handle_click (Click_close now) s = popup_close_cb now s"

definition display_service :: "click list \<Rightarrow> display \<Rightarrow> display" where
  "display_service clicks s = fold handle_click clicks s"

section \<open>Updates\<close>

definition render_daily_view :: "display \<Rightarrow> display" where
  "render_daily_view s = do_calls [Scr_load Scr_daily] (s\<lparr>ds_state := Daily_view\<rparr>)"

definition render_calendar_section :: "bytes option \<Rightarrow> display \<Rightarrow> display" where
  "render_calendar_section events s =
     do_calls (when_made s Lbl_calendar (Set_text Lbl_calendar (or_default events (bytes_of ''No events'')))) s"

definition display_update_sysmon :: "f32 \<Rightarrow> f32 \<Rightarrow> display \<Rightarrow> display" where
  "display_update_sysmon temp humidity s =
     do_calls (when_made s Lbl_sysmon_temp (Set_text Lbl_sysmon_temp (fit 16 (print_f32 0 temp @ [0xC2, 0xB0, 67]))) @
       when_made s Lbl_sysmon_humidity (Set_text Lbl_sysmon_humidity (fit 16 (print_f32 0 humidity @ [37])))) s"

definition doorbell_text :: "int \<Rightarrow> bytes" where
  "doorbell_text seconds = fit 64 (bytes_of ''DOORBELL'' @ [10] @ dec_int seconds @ bytes_of ''s'')"

definition render_doorbell_interrupt :: "int \<Rightarrow> display \<Rightarrow> display" where
  "render_doorbell_interrupt timeout_seconds s =
     do_calls (when_made s Popup (Add_flag Popup Flag_hidden) @
       when_made s Lbl_doorbell (Set_text Lbl_doorbell (doorbell_text timeout_seconds)) @
       [Scr_load Scr_doorbell]) (s\<lparr>ds_state := Doorbell_interrupt\<rparr>)"

definition dismiss_doorbell :: "display \<Rightarrow> display" where
  "dismiss_doorbell s = do_calls [Scr_load Scr_daily] (s\<lparr>ds_state := Daily_view\<rparr>)"

definition display_update_indicators :: "bool \<Rightarrow> bool \<Rightarrow> bool \<Rightarrow> display \<Rightarrow> display" where
  "display_update_indicators wifi_ok ws_ok data_ok s =
     do_calls
       (when_made s (Ind_dot Ind_wifi) (Bg_color (Ind_dot Ind_wifi) (if wifi_ok then 0x00CC44 else 0xFF3333)) @
        when_made s (Ind_dot Ind_ws) (Bg_color (Ind_dot Ind_ws) (if ws_ok then 0x00CC44 else 0xFF3333)) @
        when_made s (Ind_dot Ind_data) (Bg_color (Ind_dot Ind_data) (if data_ok then 0x00CC44 else 0xFFAA00))) s"

definition display_update_status_detail :: "bool \<Rightarrow> bytes option \<Rightarrow> bool \<Rightarrow> bool \<Rightarrow> u32 \<Rightarrow> display \<Rightarrow> display" where
  "display_update_status_detail wifi_ok ip ws_ok data_ok data_age s =
    (let s1 = s\<lparr>ds_wifi_ok := wifi_ok, ds_ws_ok := ws_ok, ds_data_ok := data_ok, ds_data_age := data_age,
                ds_ip := fit 20 (or_default ip [])\<rparr> in
     if made Popup (ds_lv s1) \<and> \<not> is_hidden Popup (ds_lv s1) then refresh_popup_content s1 else s1)"

text \<open>\<open>%02d:%02d\<close> in an array of six characters, for an hour and a minute that are not negative.\<close>

definition display_update_clock :: "nat \<Rightarrow> nat \<Rightarrow> display \<Rightarrow> display" where
  "display_update_clock h m s =
     do_calls (when_made s Lbl_clock (Set_text Lbl_clock (fit 6 (dec2 h @ [58] @ dec2 m)))) s"

end
