(* ===== verification/Panel_Init.thy ===== *)
theory Panel_Init
  imports Panel_Display
begin

text \<open>
  \<open>display_init\<close> and \<open>make_weather_card\<close> of \<open>display.cpp\<close>: the widgets of the panel, as the calls
  the code makes, one group per part of the screen.
\<close>

definition degree :: bytes where
  "degree = [0xC2, 0xB0]"

definition card_label :: "panel_obj \<Rightarrow> panel_obj \<Rightarrow> int \<Rightarrow> int \<Rightarrow> int \<Rightarrow> int \<Rightarrow> lv_call list" where
  "card_label w box x y width height =
     [Label_create w box, Set_size w width height, Set_pos w x y, Text_align w Align_center]"

definition make_weather_card :: "panel_obj \<Rightarrow> int \<Rightarrow> nat \<Rightarrow> int \<Rightarrow> lv_call list" where
  "make_weather_card row x_pos card_idx card_width =
    (let box = Wx_card card_idx; day = Wx_day card_idx; icon = Wx_icon card_idx;
         high = Wx_high card_idx; low = Wx_low card_idx; cond = Wx_cond card_idx;
         icon_size = (if card_idx = 0 then 36 else 32) in
     [Obj_create box (Some row), Set_size box card_width 180, Set_pos box x_pos 0, Pad_all box 0,
      Bg_color box 0x000000, Border_width box 0, Radius box 0,
      Remove_flag box Flag_scrollable, Scrollbar_off box] @
     card_label day box 2 6 (card_width - 4) 20 @
     [Text_color day 0xAAAAAA, Set_text day (if card_idx = 0 then bytes_of ''TODAY'' else bytes_of ''---'')] @
     [Obj_create icon (Some box), Set_size icon icon_size icon_size,
      Set_pos icon ((card_width - icon_size) div 2) 30, Radius icon (icon_size div 2),
      Bg_color icon 0x444444, Border_width icon 0, Pad_all icon 0,
      Remove_flag icon Flag_scrollable, Scrollbar_off icon] @
     (if card_idx = 0 then
        card_label Wx_cur box 2 74 (card_width - 4) 36 @
        [Text_color Wx_cur 0xFFFFFF, Text_font Wx_cur Montserrat_28, Set_text Wx_cur (bytes_of ''--'' @ degree)] @
        card_label high box 2 116 (card_width - 4) 26 @
        [Text_color high 0xFF8C00, Text_font high Montserrat_20, Set_text high (bytes_of ''H: --'' @ degree)] @
        card_label low box 2 144 (card_width - 4) 26 @
        [Text_color low 0x66AAFF, Text_font low Montserrat_20, Set_text low (bytes_of ''L: --'' @ degree)]
      else
        card_label high box 2 72 (card_width - 4) 26 @
        [Text_color high 0xFF8C00, Text_font high Montserrat_20, Set_text high (bytes_of ''H: --'' @ degree)] @
        card_label low box 2 100 (card_width - 4) 26 @
        [Text_color low 0x66AAFF, Text_font low Montserrat_20, Set_text low (bytes_of ''L: --'' @ degree)] @
        card_label cond box 3 134 (card_width - 6) 20 @
        [Text_color cond 0x888888, Long_clip cond, Set_text cond []]))"

text \<open>The loop over the cards: the widths and the running \<open>wx_x\<close>.\<close>

fun weather_cards :: "nat \<Rightarrow> int \<Rightarrow> int list \<Rightarrow> lv_call list" where
  "weather_cards i wx_x [] = []"
| "weather_cards i wx_x (w # ws) = make_weather_card Weather_row wx_x i w @ weather_cards (Suc i) (wx_x + w) ws"

definition init_weather :: "lv_call list" where
  "init_weather =
     [Obj_create Scr_daily None, Bg_color Scr_daily 0x000000, Pad_all Scr_daily 0, Scrollbar_off Scr_daily,
      Obj_create Weather_row (Some Scr_daily), Set_size Weather_row 800 180, Set_pos Weather_row 0 0,
      Bg_color Weather_row 0x000000, Border_width Weather_row 0, Pad_all Weather_row 0,
      Remove_flag Weather_row Flag_scrollable, Scrollbar_off Weather_row] @
     weather_cards 0 0 [280, 260, 260] @
     [Obj_create Wx_tap (Some Weather_row), Set_size Wx_tap 800 180, Set_pos Wx_tap 0 0, Bg_transparent Wx_tap,
      Border_width Wx_tap 0, Pad_all Wx_tap 0, Remove_flag Wx_tap Flag_scrollable, Scrollbar_off Wx_tap,
      Add_event Wx_tap Unit_toggle]"

definition init_middle :: "lv_call list" where
  "init_middle =
     [Obj_create Clock_box (Some Scr_daily), Set_size Clock_box 400 220, Set_pos Clock_box 0 180,
      Bg_color Clock_box 0x000000, Border_width Clock_box 0, Radius Clock_box 0, Pad_all Clock_box 0,
      Remove_flag Clock_box Flag_scrollable, Scrollbar_off Clock_box,
      Label_create Lbl_clock Clock_box, Set_size Lbl_clock 396 220, Set_pos Lbl_clock 2 0,
      Text_align Lbl_clock Align_center, Text_color Lbl_clock 0xFFFFFF, Text_font Lbl_clock Montserrat_96,
      Pad_top Lbl_clock 62, Set_text Lbl_clock (bytes_of ''--:--''),
      Obj_create Cal_box (Some Scr_daily), Set_size Cal_box 400 220, Set_pos Cal_box 400 180,
      Bg_color Cal_box 0x000000, Border_width Cal_box 0, Radius Cal_box 0, Pad_all Cal_box 0,
      Remove_flag Cal_box Flag_scrollable, Scrollbar_off Cal_box,
      Label_create Lbl_calendar Cal_box, Set_size Lbl_calendar 388 208, Set_pos Lbl_calendar 6 6,
      Long_clip Lbl_calendar, Set_text Lbl_calendar (bytes_of ''loading...''),
      Text_color Lbl_calendar 0xDDDDDD, Text_font Lbl_calendar Montserrat_18]"

definition init_sysmon :: "lv_call list" where
  "init_sysmon =
     [Obj_create Sysmon_box (Some Scr_daily), Set_size Sysmon_box 706 80, Set_pos Sysmon_box 0 400,
      Bg_color Sysmon_box 0x000000, Border_width Sysmon_box 0, Radius Sysmon_box 0, Pad_all Sysmon_box 0,
      Remove_flag Sysmon_box Flag_scrollable, Scrollbar_off Sysmon_box,
      Obj_create Temp_half (Some Sysmon_box), Set_size Temp_half 353 80, Set_pos Temp_half 0 0,
      Bg_transparent Temp_half, Border_width Temp_half 0, Pad_all Temp_half 0,
      Remove_flag Temp_half Flag_scrollable, Scrollbar_off Temp_half,
      Label_create Lbl_sysmon_temp Temp_half, Text_color Lbl_sysmon_temp 0xFFFFFF,
      Text_font Lbl_sysmon_temp Montserrat_28, Set_text Lbl_sysmon_temp (bytes_of ''--'' @ degree @ bytes_of ''C''),
      Center Lbl_sysmon_temp,
      Obj_create Sdiv (Some Sysmon_box), Set_size Sdiv 1 64, Set_pos Sdiv 353 8, Bg_color Sdiv 0x444444,
      Border_width Sdiv 0, Pad_all Sdiv 0,
      Obj_create Humidity_half (Some Sysmon_box), Set_size Humidity_half 353 80, Set_pos Humidity_half 353 0,
      Bg_transparent Humidity_half, Border_width Humidity_half 0, Pad_all Humidity_half 0,
      Remove_flag Humidity_half Flag_scrollable, Scrollbar_off Humidity_half,
      Label_create Lbl_sysmon_humidity Humidity_half, Text_color Lbl_sysmon_humidity 0xFFFFFF,
      Text_font Lbl_sysmon_humidity Montserrat_28, Set_text Lbl_sysmon_humidity (bytes_of ''--%''),
      Center Lbl_sysmon_humidity]"

definition make_indicator :: "panel_obj \<Rightarrow> int \<Rightarrow> string \<Rightarrow> indicator \<Rightarrow> lv_call list" where
  "make_indicator box row_y label_text ind =
    (let lbl = Ind_lbl ind; dot = Ind_dot ind in
     [Label_create lbl box, Set_size lbl 60 16, Set_pos lbl 2 (row_y + 5), Text_font lbl Montserrat_14,
      Text_color lbl 0x888888, Text_align lbl Align_right, Set_text lbl (bytes_of label_text),
      Obj_create dot (Some box), Set_size dot 12 12, Set_pos dot 76 (row_y + 7), Radius dot 6,
      Border_width dot 0, Pad_all dot 0, Bg_color dot 0x444444, Remove_flag dot Flag_scrollable, Scrollbar_off dot])"

definition init_status :: "lv_call list" where
  "init_status =
     [Obj_create Stat_panel (Some Scr_daily), Set_size Stat_panel 94 80, Set_pos Stat_panel 706 400,
      Bg_transparent Stat_panel, Border_width Stat_panel 0, Pad_all Stat_panel 0,
      Remove_flag Stat_panel Flag_scrollable, Scrollbar_off Stat_panel,
      Add_flag Stat_panel Flag_clickable, Add_event Stat_panel Status_click] @
     make_indicator Stat_panel 1 ''WiFi'' Ind_wifi @ make_indicator Stat_panel 27 ''WS'' Ind_ws @
     make_indicator Stat_panel 53 ''Data'' Ind_data"

definition init_doorbell :: "lv_call list" where
  "init_doorbell =
     [Obj_create Scr_doorbell None, Bg_color Scr_doorbell 0xCC0000, Pad_all Scr_doorbell 0, Scrollbar_off Scr_doorbell,
      Label_create Lbl_doorbell Scr_doorbell, Text_font Lbl_doorbell Montserrat_28,
      Set_text Lbl_doorbell (bytes_of ''DOORBELL''), Text_color Lbl_doorbell 0xFFFFFF, Center Lbl_doorbell]"

definition init_popup :: "lv_call list" where
  "init_popup =
     [Obj_create Popup (Some Layer_top), Set_size Popup 380 290, Bg_color Popup 0x0D1117, Border_color Popup 0x3A7BD5,
      Border_width Popup 2, Radius Popup 8, Pad_all Popup 0, Remove_flag Popup Flag_scrollable, Scrollbar_off Popup,
      Add_flag Popup Flag_hidden, Center Popup,
      Label_create Ptitle Popup, Set_pos Ptitle 14 12, Text_font Ptitle Montserrat_28, Text_color Ptitle 0xFFFFFF,
      Set_text Ptitle (bytes_of ''System Status''),
      Obj_create Pdiv (Some Popup), Set_size Pdiv 352 1, Set_pos Pdiv 14 54, Bg_color Pdiv 0x333355,
      Border_width Pdiv 0, Pad_all Pdiv 0,
      Label_create Popup_content Popup, Set_pos Popup_content 14 64, Set_size Popup_content 352 148,
      Text_font Popup_content Montserrat_20, Text_color Popup_content 0xCCCCCC, Long_clip Popup_content,
      Set_text Popup_content (bytes_of ''Loading...''),
      Obj_create Pdiv2 (Some Popup), Set_size Pdiv2 352 1, Set_pos Pdiv2 14 220, Bg_color Pdiv2 0x333355,
      Border_width Pdiv2 0, Pad_all Pdiv2 0,
      Obj_create Pbtn (Some Popup), Set_size Pbtn 352 48, Set_pos Pbtn 14 228, Bg_color Pbtn 0x1E3A6E,
      Border_width Pbtn 0, Radius Pbtn 6, Pad_all Pbtn 0, Remove_flag Pbtn Flag_scrollable,
      Add_flag Pbtn Flag_clickable, Add_event Pbtn Popup_close,
      Label_create Pbtn_lbl Pbtn, Set_size Pbtn_lbl 352 48, Set_pos Pbtn_lbl 0 0, Text_font Pbtn_lbl Montserrat_28,
      Text_color Pbtn_lbl 0xFFFFFF, Text_align Pbtn_lbl Align_center, Set_text Pbtn_lbl (bytes_of ''CLOSE'')]"

definition init_calls :: "bool \<Rightarrow> lv_call list" where
  "init_calls touch_ok =
     init_weather @ init_middle @ init_sysmon @ init_status @ init_doorbell @ init_popup @
     (if touch_ok then [Indev_create, Indev_pointer, Indev_read] else []) @ [Scr_load Scr_daily]"

text \<open>With the code that \<open>Display.begin\<close> returns: the function never returns when it is not zero.\<close>

definition display_init :: "int \<Rightarrow> bool \<Rightarrow> display \<Rightarrow> display option" where
  "display_init begin_rc touch_ok s =
    (if begin_rc \<noteq> 0 then None else Some ((do_calls (init_calls touch_ok) s)\<lparr>ds_state := Daily_view\<rparr>))"

section \<open>The layout\<close>

text \<open>
  The place that a list of calls gives each object: parent, position in the parent, size and width of
  its border. The table has the object created last first.
\<close>

record place =
  pl_parent :: "panel_obj option"
  pl_pos :: "(int \<times> int) option"
  pl_size :: "(int \<times> int) option"
  pl_border :: int

fun set_place :: "panel_obj \<Rightarrow> (place \<Rightarrow> place) \<Rightarrow> (panel_obj \<times> place) list \<Rightarrow> (panel_obj \<times> place) list" where
  "set_place w f [] = []"
| "set_place w f ((v, p) # t) = (if v = w then (v, f p) # t else (v, p) # set_place w f t)"

fun place_call :: "lv_call \<Rightarrow> (panel_obj \<times> place) list \<Rightarrow> (panel_obj \<times> place) list" where
  "place_call (Obj_create w p) t = (w, \<lparr>pl_parent = p, pl_pos = None, pl_size = None, pl_border = 0\<rparr>) # t"
| "place_call (Label_create w p) t = (w, \<lparr>pl_parent = Some p, pl_pos = None, pl_size = None, pl_border = 0\<rparr>) # t"
| "place_call (Set_pos w x y) t = set_place w (pl_pos_update (\<lambda>_. Some (x, y))) t"
| "place_call (Set_size w a b) t = set_place w (pl_size_update (\<lambda>_. Some (a, b))) t"
| "place_call (Border_width w n) t = set_place w (pl_border_update (\<lambda>_. n)) t"
| "place_call _ t = t"

definition places :: "lv_call list \<Rightarrow> (panel_obj \<times> place) list" where
  "places cs = fold place_call cs []"

text \<open>A placed child of a sized parent lies in the parent's box, inside its border.\<close>

definition inside_parent :: "(panel_obj \<times> place) list \<Rightarrow> place \<Rightarrow> bool" where
  "inside_parent t p =
    (case (pl_parent p, pl_pos p, pl_size p) of
       (Some w, Some (x, y), Some (a, b)) \<Rightarrow>
         (case map_of t w of None \<Rightarrow> True
          | Some q \<Rightarrow> (case pl_size q of None \<Rightarrow> True
             | Some (c, d) \<Rightarrow> 0 \<le> x \<and> 0 \<le> y \<and> 0 < a \<and> 0 < b \<and>
                 x + a \<le> c - 2 * pl_border q \<and> y + b \<le> d - 2 * pl_border q))
     | _ \<Rightarrow> True)"

definition covers :: "place \<Rightarrow> int \<Rightarrow> int \<Rightarrow> bool" where
  "covers p px py =
    (case (pl_pos p, pl_size p) of
       (Some (x, y), Some (a, b)) \<Rightarrow> x \<le> px \<and> px < x + a \<and> y \<le> py \<and> py < y + b
     | _ \<Rightarrow> False)"

text \<open>The object that a call is about.\<close>

fun object_of :: "lv_call \<Rightarrow> panel_obj option" where
  "object_of (Obj_create w _) = Some w" | "object_of (Label_create w _) = Some w"
| "object_of (Set_size w _ _) = Some w" | "object_of (Set_pos w _ _) = Some w"
| "object_of (Pad_all w _) = Some w" | "object_of (Pad_top w _) = Some w"
| "object_of (Bg_color w _) = Some w" | "object_of (Bg_transparent w) = Some w"
| "object_of (Border_width w _) = Some w" | "object_of (Border_color w _) = Some w"
| "object_of (Radius w _) = Some w" | "object_of (Text_align w _) = Some w"
| "object_of (Text_color w _) = Some w" | "object_of (Text_font w _) = Some w"
| "object_of (Add_flag w _) = Some w" | "object_of (Remove_flag w _) = Some w"
| "object_of (Scrollbar_off w) = Some w" | "object_of (Long_clip w) = Some w"
| "object_of (Set_text w _) = Some w" | "object_of (Center w) = Some w"
| "object_of (Add_event w _) = Some w" | "object_of (Move_foreground w) = Some w"
| "object_of (Scr_load w) = Some w"
| "object_of _ = None"

text \<open>No object is used before it is created, and none is created twice.\<close>

fun call_in_order :: "lv_call \<Rightarrow> panel_obj list \<Rightarrow> bool" where
  "call_in_order (Obj_create w None) seen = (w \<notin> set seen)"
| "call_in_order (Obj_create w (Some p)) seen = (w \<notin> set seen \<and> p \<in> set seen)"
| "call_in_order (Label_create w p) seen = (w \<notin> set seen \<and> p \<in> set seen)"
| "call_in_order c seen = (case object_of c of None \<Rightarrow> True | Some w \<Rightarrow> w \<in> set seen)"

fun calls_in_order :: "panel_obj list \<Rightarrow> lv_call list \<Rightarrow> bool" where
  "calls_in_order seen [] = True"
| "calls_in_order seen (c # cs) \<longleftrightarrow> call_in_order c seen \<and>
    calls_in_order (case c of Obj_create w p \<Rightarrow> w # seen | Label_create w p \<Rightarrow> w # seen | _ \<Rightarrow> seen) cs"

end
