(* ===== verification/Command_Parser.thy ===== *)
theory Command_Parser
  imports C_Text
begin

text \<open>
  \<open>firmware/housepanel-giga/command_parser.h\<close> and \<open>command_parser.cpp\<close>: the command frames of the
  panel. The tagged union \<open>CommandFrame\<close> is a datatype; \<open>parse_command_frame\<close> returns \<open>None\<close>
  where the code returns false.
\<close>

datatype command =
    Doorbell int
  | Ticker_append bytes
  | Weather f32 bytes f32 f32
  | Weather_day int bytes f32 f32 bytes
  | Cal_event int bytes bytes bool
  | Time_sync u32 u16
  | Sysmon_temp f32 f32
  | Ota_pause
  | Ota_resume

definition field_text :: "'d json \<Rightarrow> 'd \<Rightarrow> string \<Rightarrow> nat \<Rightarrow> bytes" where
  "field_text J d key n = fit n (c_string (or_default (js_text J d key) []))"

definition parse_doorbell :: "'d json \<Rightarrow> 'd \<Rightarrow> command" where
  "parse_doorbell J d = Doorbell (or_default (js_int J d ''timeout_seconds'') 30)"

definition parse_ticker :: "'d json \<Rightarrow> 'd \<Rightarrow> command" where
  "parse_ticker J d = Ticker_append (field_text J d ''text'' 128)"

definition parse_weather :: "'d json \<Rightarrow> 'd \<Rightarrow> command" where
  "parse_weather J d =
    (let t = or_default (js_float J d ''t'') (f32_nat 0) in
     Weather t (field_text J d ''co'' 32) (or_default (js_float J d ''h'') t) (or_default (js_float J d ''l'') t))"

definition parse_weather_day :: "'d json \<Rightarrow> 'd \<Rightarrow> command" where
  "parse_weather_day J d =
     Weather_day (or_default (js_int J d ''i'') 0) (field_text J d ''l'' 4)
       (or_default (js_float J d ''h'') (f32_nat 0)) (or_default (js_float J d ''lo'') (f32_nat 0))
       (field_text J d ''c'' 26)"

definition parse_cal_event :: "'d json \<Rightarrow> 'd \<Rightarrow> command" where
  "parse_cal_event J d =
     Cal_event (or_default (js_int J d ''i'') 0) (field_text J d ''s'' 52) (field_text J d ''t'' 18)
       (or_default (js_bool J d ''a'') False)"

text \<open>The casts to \<open>uint32_t\<close> and \<open>int16_t\<close> keep the low bits.\<close>

definition parse_time :: "'d json \<Rightarrow> 'd \<Rightarrow> command" where
  "parse_time J d =
     Time_sync (word_of_int (or_default (js_int J d ''epoch'') 0))
       (word_of_int (or_default (js_int J d ''utc_offset_min'') (- 480)))"

definition parse_sysmon :: "'d json \<Rightarrow> 'd \<Rightarrow> command" where
  "parse_sysmon J d =
     Sysmon_temp (or_default (js_float J d ''t'') (f32_nat 0)) (or_default (js_float J d ''h'') (f32_nat 0))"

text \<open>The comparisons with the command names, in the order of the code.\<close>

definition parsers :: "'d json \<Rightarrow> (bytes \<times> ('d \<Rightarrow> command)) list" where
  "parsers J =
    [(bytes_of ''DOORBELL'', parse_doorbell J), (bytes_of ''TICKER-APPEND'', parse_ticker J),
     (bytes_of ''WEATHER'', parse_weather J), (bytes_of ''WEATHER_DAY'', parse_weather_day J),
     (bytes_of ''CAL_EVENT'', parse_cal_event J), (bytes_of ''TIME'', parse_time J),
     (bytes_of ''SYSMON_TEMP'', parse_sysmon J), (bytes_of ''OTA-PAUSE'', \<lambda>d. Ota_pause),
     (bytes_of ''OTA-RESUME'', \<lambda>d. Ota_resume)]"

definition parse_command_frame :: "'d json \<Rightarrow> bytes \<Rightarrow> command option" where
  "parse_command_frame J raw =
    (case js_parse J raw of None \<Rightarrow> None
     | Some d \<Rightarrow>
       let cmd = or_default (js_text J d ''cmd'') [] in
       if cmd = [] then None else map_option (\<lambda>parser. parser d) (map_of (parsers J) cmd))"

section \<open>What a frame is\<close>

text \<open>Every text of a frame is a C string that fits its array, with the terminator.\<close>

definition text_ok :: "nat \<Rightarrow> bytes \<Rightarrow> bool" where
  "text_ok n t \<longleftrightarrow> length t < n \<and> 0 \<notin> set t"


fun command_ok :: "command \<Rightarrow> bool" where
  "command_ok (Ticker_append t) = text_ok 128 t"
| "command_ok (Weather _ c _ _) = text_ok 32 c"
| "command_ok (Weather_day _ l _ _ c) = (text_ok 4 l \<and> text_ok 26 c)"
| "command_ok (Cal_event _ s t _) = (text_ok 52 s \<and> text_ok 18 t)"
| "command_ok _ = True"

lemma field_text_ok: "0 < n \<Longrightarrow> text_ok n (field_text J d key n)"
  using set_fit [of n] c_string_no_nul by (auto simp: text_ok_def field_text_def fit_bound)

lemma parsers_ok: "(name, parser) \<in> set (parsers J) \<Longrightarrow> command_ok (parser d)"
  by (auto simp: parsers_def parse_doorbell_def parse_ticker_def parse_weather_def parse_weather_day_def
      parse_cal_event_def parse_time_def parse_sysmon_def Let_def field_text_ok)

lemma parse_command_ok: "parse_command_frame J raw = Some c \<Longrightarrow> command_ok c"
  by (auto simp: parse_command_frame_def Let_def split: option.splits if_splits
      dest!: map_of_SomeD intro: parsers_ok)

definition command_names :: "bytes list" where
  "command_names = map bytes_of [''DOORBELL'', ''TICKER-APPEND'', ''WEATHER'', ''WEATHER_DAY'', ''CAL_EVENT'',
     ''TIME'', ''SYSMON_TEMP'', ''OTA-PAUSE'', ''OTA-RESUME'']"

lemma dom_parsers: "fst ` set (parsers J) = set command_names"
  by (simp add: parsers_def command_names_def)

text \<open>
  (C26) Parsing is total and safe: a frame is accepted exactly when it is a JSON document whose
  \<open>cmd\<close> is one of the nine commands, and every text of an accepted frame fits its character
  array with the terminator and has none inside, however long the text sent was.
\<close>

theorem parse_command_total:
  "((\<exists>c. parse_command_frame J raw = Some c) \<longleftrightarrow>
     (\<exists>d cmd. js_parse J raw = Some d \<and> js_text J d ''cmd'' = Some cmd \<and> cmd \<in> set command_names)) \<and>
   (case parse_command_frame J raw of None \<Rightarrow> True | Some c \<Rightarrow> command_ok c)"
proof -
  have "[] \<notin> set command_names" by (simp add: command_names_def bytes_of_def)
  moreover have "(\<exists>parser. map_of (parsers J) cmd = Some parser) \<longleftrightarrow> cmd \<in> set command_names" for cmd
    using dom_parsers [of J] dom_map_of_conv_image_fst [of "parsers J"] by blast
  ultimately have "(\<exists>c. parse_command_frame J raw = Some c) \<longleftrightarrow>
     (\<exists>d cmd. js_parse J raw = Some d \<and> js_text J d ''cmd'' = Some cmd \<and> cmd \<in> set command_names)"
    by (auto simp: parse_command_frame_def or_default_def Let_def split: option.splits)
  then show ?thesis by (auto intro: parse_command_ok split: option.splits)
qed

section \<open>Sample documents\<close>

text \<open>Any payload is a document of the same command.\<close>

definition command_json :: "string \<Rightarrow> unit json" where
  "command_json name = \<lparr>js_parse = (\<lambda>payload. Some ()),
     js_text = (\<lambda>d k. Some (bytes_of (if k = ''cmd'' then name else if k = ''t'' then ''12:30'' else ''Lunch''))),
     js_int = (\<lambda>d k. Some (if k = ''i'' then 0 else 30)), js_ulong = (\<lambda>d k. None), js_bool = (\<lambda>d k. Some False),
     js_float = (\<lambda>d k. None)\<rparr>"

lemma parse_bell_sample: "parse_command_frame (command_json ''DOORBELL'') raw = Some (Doorbell 30)"
  by (simp add: parse_command_frame_def command_json_def parsers_def parse_doorbell_def or_default_def bytes_of_def)

end
