(* ===== verification/Memory_Telemetry.thy ===== *)
theory Memory_Telemetry
  imports C_Text
begin

text \<open>
  \<open>memory_format.cpp\<close> and \<open>memory_telemetry.cpp\<close> of \<open>firmware/housepanel-giga\<close>: the memory
  report of the panel. The statistics of Mbed OS, the RTOS threads and LVGL's allocator are inputs
  of \<open>memory_collect\<close>.
\<close>

section \<open>Format and cadence\<close>

definition MEMORY_FRAME_CAPACITY :: nat where
  "MEMORY_FRAME_CAPACITY = 768"

record memory_sample =
  uptime_ms :: u64
  heap_current :: u32
  heap_peak :: u32
  heap_reserved :: u32
  alloc_count :: u32
  alloc_failures :: u32
  stack_high_water :: u32
  stack_reserved :: u32
  stack_count :: u32
  stack_min_free :: u32
  gui_used :: u32
  gui_peak :: u32
  gui_total :: u32
  gui_largest_free :: u32
  stack_complete :: bool

definition memory_due :: "u64 \<Rightarrow> u64 \<Rightarrow> bool \<Rightarrow> bool" where
  "memory_due now last_sent is_first \<longleftrightarrow> is_first \<or> now - last_sent \<ge> 60000"

text \<open>\<open>,"name":\<close> and a number.\<close>

definition json_key :: "string \<Rightarrow> bytes" where
  "json_key name = [34] @ bytes_of name @ [34, 58]"

definition json_number :: "string \<Rightarrow> nat \<Rightarrow> bytes" where
  "json_number name n = [44] @ json_key name @ dec n"

definition memory_text :: "bytes \<Rightarrow> memory_sample \<Rightarrow> bytes" where
  "memory_text boot_id s =
     [123] @ json_key ''cmd'' @ [34] @ bytes_of ''MEMORY'' @ [34] @ [44] @ json_key ''version'' @ bytes_of ''1'' @
     [44] @ json_key ''boot_id'' @ [34] @ boot_id @ [34] @ json_number ''uptime_ms'' (unat (uptime_ms s)) @
     json_number ''heap_current'' (unat (heap_current s)) @ json_number ''heap_peak'' (unat (heap_peak s)) @
     json_number ''heap_reserved'' (unat (heap_reserved s)) @ json_number ''alloc_count'' (unat (alloc_count s)) @
     json_number ''alloc_failures'' (unat (alloc_failures s)) @
     json_number ''stack_high_water'' (unat (stack_high_water s)) @
     json_number ''stack_reserved'' (unat (stack_reserved s)) @ json_number ''stack_count'' (unat (stack_count s)) @
     json_number ''stack_min_free'' (unat (stack_min_free s)) @ json_number ''gui_used'' (unat (gui_used s)) @
     json_number ''gui_peak'' (unat (gui_peak s)) @ json_number ''gui_total'' (unat (gui_total s)) @
     json_number ''gui_largest_free'' (unat (gui_largest_free s)) @ [44] @ json_key ''stack_complete'' @
     (if stack_complete s then bytes_of ''true'' else bytes_of ''false'') @ [125]"

text \<open>The returned length and the string left in the buffer.\<close>

definition memory_format :: "nat \<Rightarrow> bytes \<Rightarrow> memory_sample \<Rightarrow> nat \<times> bytes" where
  "memory_format capacity boot_id s =
    (let report = memory_text boot_id s in
     (if length report \<ge> capacity then 0 else length report, fit capacity report))"

section \<open>Collection\<close>

text \<open>\<open>memory_init\<close>: the boot id is 16 hexadecimal digits of two random words.\<close>

definition hex_char :: "nat \<Rightarrow> u8" where
  "hex_char n = (if n < 10 then 48 + of_nat n else 87 + of_nat n)"

definition hex8 :: "u32 \<Rightarrow> bytes" where
  "hex8 w = map (\<lambda>k. hex_char (unat w div 16 ^ k mod 16)) [7, 6, 5, 4, 3, 2, 1, 0]"

text \<open>The generator's return value, the number of bytes it produced, and the two words.\<close>

definition memory_init :: "int \<Rightarrow> nat \<Rightarrow> u32 \<Rightarrow> u32 \<Rightarrow> bytes option" where
  "memory_init result produced w0 w1 = (if result = 0 \<and> produced = 8 then Some (hex8 w0 @ hex8 w1) else None)"

record memory_env =
  me_uptime :: u64
  me_heap_current :: u32
  me_heap_max :: u32
  me_heap_reserved :: u32
  me_alloc_count :: u32
  me_alloc_fail :: u32
  me_lock :: int
  me_thread_count :: u32
  me_threads :: "(u32 \<times> u32) list"
  me_gui_total :: u32
  me_gui_free :: u32
  me_gui_max_used :: u32
  me_gui_free_biggest :: u32
  me_lv_mem_size :: u32

text \<open>
  The loop over the enumerated threads: reserved bytes, high-water bytes and the least free space.
  Each thread is its stack size and its free space.
\<close>

fun stack_loop :: "(u32 \<times> u32) list \<Rightarrow> u32 \<times> u32 \<times> u32 \<Rightarrow> u32 \<times> u32 \<times> u32" where
  "stack_loop [] acc = acc"
| "stack_loop ((reserved, free) # ts) (all_of, high, lowest) =
    stack_loop ts (all_of + reserved, high + (reserved - free), if free < lowest then free else lowest)"

definition memory_sample_of :: "memory_env \<Rightarrow> memory_sample" where
  "memory_sample_of me =
    (let threads = take 32 (me_threads me);
         (all_of, high, lowest) = stack_loop threads (0, 0, - 1) in
     \<lparr>uptime_ms = me_uptime me, heap_current = me_heap_current me, heap_peak = me_heap_max me,
      heap_reserved = me_heap_reserved me, alloc_count = me_alloc_count me, alloc_failures = me_alloc_fail me,
      stack_high_water = high, stack_reserved = all_of, stack_count = of_nat (length threads),
      stack_min_free = (if length threads = 0 then 0 else lowest),
      gui_used = me_gui_total me - me_gui_free me, gui_peak = me_gui_max_used me,
      gui_total = me_lv_mem_size me, gui_largest_free = me_gui_free_biggest me,
      stack_complete = (me_thread_count me \<le> 32 \<and> of_nat (length threads) = me_thread_count me)\<rparr>)"

definition memory_collect :: "nat \<Rightarrow> bytes option \<Rightarrow> memory_env \<Rightarrow> nat \<times> bytes" where
  "memory_collect capacity boot_id me =
    (case boot_id of None \<Rightarrow> (0, [])
     | Some b \<Rightarrow> if me_lock me < 0 then (0, []) else memory_format capacity b (memory_sample_of me))"

section \<open>The report fits its buffer\<close>

lemma length_json_number: "n < 10 ^ Suc k \<Longrightarrow> length (json_number name n) \<le> length name + Suc k + 4"
  using length_dec [of n k] by (simp add: json_number_def json_key_def)

lemma length_json_u32: "length (json_number name (unat (w :: u32))) \<le> length name + 14"
proof -
  have "unat w < 10 ^ Suc 9" by (rule less_le_trans [OF unsigned_less]) simp
  from length_json_number [OF this, of name] show ?thesis by simp
qed

lemma length_json_u64: "length (json_number name (unat (w :: u64))) \<le> length name + 24"
proof -
  have "unat w < 10 ^ Suc 19" using unsigned_less [of w, where ?'a = nat] by simp
  from length_json_number [OF this, of name] show ?thesis by simp
qed

lemma length_hex8 [simp]: "length (hex8 w) = 8"
  by (simp add: hex8_def)

lemma length_memory_text: "length (memory_text boot_id s) \<le> length boot_id + 500"
  using length_json_u64 [of "''uptime_ms''" "uptime_ms s"]
    length_json_u32 [of "''heap_current''" "heap_current s"] length_json_u32 [of "''heap_peak''" "heap_peak s"]
    length_json_u32 [of "''heap_reserved''" "heap_reserved s"] length_json_u32 [of "''alloc_count''" "alloc_count s"]
    length_json_u32 [of "''alloc_failures''" "alloc_failures s"]
    length_json_u32 [of "''stack_high_water''" "stack_high_water s"]
    length_json_u32 [of "''stack_reserved''" "stack_reserved s"] length_json_u32 [of "''stack_count''" "stack_count s"]
    length_json_u32 [of "''stack_min_free''" "stack_min_free s"] length_json_u32 [of "''gui_used''" "gui_used s"]
    length_json_u32 [of "''gui_peak''" "gui_peak s"] length_json_u32 [of "''gui_total''" "gui_total s"]
    length_json_u32 [of "''gui_largest_free''" "gui_largest_free s"]
  by (simp add: memory_text_def json_key_def)

text \<open>
  (C39) The memory report is never cut: with a boot id made by \<open>memory_init\<close>, whatever the
  statistics, the formatted report is shorter than the 768-byte frame, so \<open>memory_format\<close>
  returns its length and the buffer holds all of it.
\<close>

theorem memory_report_fits:
  assumes "memory_init result produced w0 w1 = Some boot_id"
  shows "memory_format MEMORY_FRAME_CAPACITY boot_id s = (length (memory_text boot_id s), memory_text boot_id s) \<and>
    0 < length (memory_text boot_id s) \<and> length (memory_text boot_id s) < 768"
proof -
  have "length boot_id = 16" using assms by (auto simp: memory_init_def split: if_splits)
  then have "length (memory_text boot_id s) < 768" using length_memory_text [of boot_id s] by simp
  moreover have "0 < length (memory_text boot_id s)" by (simp add: memory_text_def)
  ultimately show ?thesis by (simp add: memory_format_def MEMORY_FRAME_CAPACITY_def fit_id Let_def)
qed

definition sample_statistics :: memory_env where
  "sample_statistics = \<lparr>me_uptime = 61000, me_heap_current = 1000, me_heap_max = 2000, me_heap_reserved = 4000,
     me_alloc_count = 7, me_alloc_fail = 0, me_lock = 0, me_thread_count = 2,
     me_threads = [(4096, 1000), (1024, 300)], me_gui_total = 64000, me_gui_free = 60000,
     me_gui_max_used = 5000, me_gui_free_biggest = 59000, me_lv_mem_size = 65536\<rparr>"

theorem memory_report_fits_witness:
  "length (memory_text (hex8 1 @ hex8 2) (memory_sample_of sample_statistics)) < 768"
  using memory_report_fits [of 0 8 1 2 "hex8 1 @ hex8 2" "memory_sample_of sample_statistics"]
  by (simp add: memory_init_def)

section \<open>The stack figures\<close>

lemma stack_loop_eq:
  "stack_loop ts (all_of, high, lowest) =
    (all_of + sum_list (map fst ts), high + sum_list (map (\<lambda>(reserved, free). reserved - free) ts),
     foldl (\<lambda>m (reserved, free). if free < m then free else m) lowest ts)"
  by (induction ts "(all_of, high, lowest)" arbitrary: all_of high lowest rule: stack_loop.induct) (auto simp: algebra_simps)

lemma foldl_least:
  fixes m :: "'a::linorder"
  shows "foldl (\<lambda>m (r :: 'b, f). if f < m then f else m) m ts = Min (insert m (snd ` set ts))"
proof (induction ts arbitrary: m)
  case (Cons t ts)
  obtain r f where t: "t = (r, f)" by (cases t)
  have least: "(if f < m then f else m) = min m f" by (auto simp: min_def)
  have "Min (insert (min m f) (snd ` set ts)) = Min (insert m (insert f (snd ` set ts)))"
    by (cases "set ts = {}") (simp_all add: min.assoc)
  then show ?case
    by (simp only: t foldl_Cons prod.case least Cons.IH list.set image_insert snd_conv)
qed simp

lemma unat_sum_list:
  "sum_list (map unat ws) < 2 ^ 32 \<Longrightarrow> unat (sum_list ws) = sum_list (map unat (ws :: u32 list))"
proof (induction ws)
  case (Cons w ws)
  then have "unat (sum_list ws) = sum_list (map unat ws)" by simp
  with Cons.prems show ?case by (simp add: unat_word_ariths)
qed simp

text \<open>
  The stack figures are those of the threads enumerated: the reserved bytes are the sum of their
  stack sizes (as long as it fits 32 bits), the least free space is the minimum of theirs, and the
  sample is marked complete only when every thread the kernel counted was enumerated.
\<close>

theorem memory_stack_figures:
  assumes "length (me_threads me) \<le> 32" and "me_threads me \<noteq> []"
    and "sum_list (map (\<lambda>(reserved, free). unat reserved) (me_threads me)) < 2 ^ 32"
  shows "unat (stack_reserved (memory_sample_of me)) = sum_list (map (\<lambda>(reserved, free). unat reserved) (me_threads me)) \<and>
    stack_min_free (memory_sample_of me) = Min (snd ` set (me_threads me)) \<and>
    (stack_complete (memory_sample_of me) \<longleftrightarrow> unat (me_thread_count me) = length (me_threads me))"
proof -
  let ?ts = "me_threads me"
  have all: "take 32 ?ts = ?ts" using assms(1) by simp
  have sums: "map unat (map fst ?ts) = map (\<lambda>(reserved, free). unat reserved) ?ts" by auto
  have reserved: "unat (sum_list (map fst ?ts)) = sum_list (map (\<lambda>(reserved, free). unat reserved) ?ts)"
    using unat_sum_list [of "map fst ?ts"] assms(3) unfolding sums by simp
  have fin: "finite (snd ` set ?ts)" "snd ` set ?ts \<noteq> {}" using assms(2) by simp_all
  have "Min (insert (- 1) (snd ` set ?ts)) = min (- 1) (Min (snd ` set ?ts))"
    by (rule Min_insert [OF fin])
  also have "\<dots> = Min (snd ` set ?ts)"
    by (simp add: min_def) (metis word_order.extremum_uniqueI)
  finally have least: "Min (insert (- 1) (snd ` set ?ts)) = Min (snd ` set ?ts)" .
  have count: "(of_nat (length ?ts) :: u32) = me_thread_count me \<longleftrightarrow> unat (me_thread_count me) = length ?ts"
  proof -
    have "unat (of_nat (length ?ts) :: u32) = length ?ts"
      using assms(1) by (simp add: unat_of_nat take_bit_nat_eq_self)
    then show ?thesis by (metis word_unat_eq_iff)
  qed
  have "me_thread_count me \<le> 32 \<longleftrightarrow> unat (me_thread_count me) \<le> 32"
    by (simp add: word_le_nat_alt)
  with assms(1,2) reserved least count show ?thesis
    by (auto simp: memory_sample_of_def all stack_loop_eq foldl_least Let_def)
qed

theorem memory_stack_figures_witness:
  "stack_min_free (memory_sample_of sample_statistics) = 300 \<and> stack_complete (memory_sample_of sample_statistics)"
  using memory_stack_figures [of sample_statistics] by (simp add: sample_statistics_def)

end
