(* ===== verification/Ws_Client.thy ===== *)
theory Ws_Client
  imports Command_Parser Memory_Telemetry Panel_Config "HOL-Library.Sublist"
begin

text \<open>
  \<open>ws_client.cpp\<close>, \<open>ws_client.h\<close> and \<open>checked_wifi_client.h\<close> of
  \<open>firmware/housepanel-giga\<close>: the WebSocket connection of the panel. The WebSocket library is an
  input: what its calls return, and the writes it makes on the network client underneath.
\<close>

section \<open>Checked writes\<close>

text \<open>
  \<open>CheckedWiFiClient::write\<close>: a write is the number of bytes asked and the number accepted; the
  flag \<open>write_error_\<close> is kept.
\<close>

definition checked_write :: "nat \<times> nat \<Rightarrow> bool \<Rightarrow> bool" where
  "checked_write w err = (case w of (asked, accepted) \<Rightarrow> err \<or> accepted \<noteq> asked)"

definition checked_writes :: "(nat \<times> nat) list \<Rightarrow> bool \<Rightarrow> bool" where
  "checked_writes ws err = fold checked_write ws err"

lemma checked_writes_iff: "checked_writes ws err \<longleftrightarrow> err \<or> (\<exists>w \<in> set ws. snd w \<noteq> fst w)"
  by (induction ws arbitrary: err) (auto simp: checked_writes_def checked_write_def)

section \<open>Sending\<close>

datatype ws_event = Begin_text | Ws_write bytes | End_text | Ws_stop | Ws_renew | Ws_timeout nat | Ws_begin bytes

text \<open>The answers of the library during one message, and the writes of each of its calls.\<close>

record ws_tx =
  tx_connected :: bool
  tx_begin :: int
  tx_begin_writes :: "(nat \<times> nat) list"
  tx_count :: nat
  tx_count_writes :: "(nat \<times> nat) list"
  tx_end :: int
  tx_end_writes :: "(nat \<times> nat) list"

text \<open>
  \<open>ws_send_text\<close>, with \<open>cap\<close> the build's \<open>WS_TX_BUFFER_SIZE\<close>: the result, the error flag left in
  the network client, and the calls made.
\<close>

definition ws_send_text :: "nat \<Rightarrow> ws_tx \<Rightarrow> bytes \<Rightarrow> bool \<Rightarrow> bool \<times> bool \<times> ws_event list" where
  "ws_send_text cap tx buffer err =
    (if length buffer = 0 \<or> length buffer > cap \<or> \<not> tx_connected tx then (False, err, [])
     else
       let err1 = checked_writes (tx_begin_writes tx) False in
       if tx_begin tx \<noteq> 0 then (False, err1, [Begin_text, Ws_stop])
       else let err2 = checked_writes (tx_count_writes tx) err1 in
         if tx_count tx \<noteq> length buffer then (False, err2, [Begin_text, Ws_write buffer, Ws_stop])
         else let err3 = checked_writes (tx_end_writes tx) err2 in
           if tx_end tx \<noteq> 0 \<or> err3 then (False, err3, [Begin_text, Ws_write buffer, End_text, Ws_stop])
           else (True, err3, [Begin_text, Ws_write buffer, End_text]))"

section \<open>The client\<close>

record ws_client =
  ws_first :: bool
  ws_last :: u64
  ws_frame :: command
  ws_ready :: bool
  ws_boot_id :: "bytes option"
  ws_error :: bool

definition ws_boot :: ws_client where
  "ws_boot = \<lparr>ws_first = True, ws_last = 0, ws_frame = Doorbell 0, ws_ready = False, ws_boot_id = None, ws_error = False\<rparr>"

definition ws_init :: "bytes option \<Rightarrow> ws_client \<Rightarrow> ws_client" where
  "ws_init boot_id s = s\<lparr>ws_boot_id := boot_id\<rparr>"

text \<open>\<open>ws_connect\<close>: the code that \<open>begin\<close> returns decides.\<close>

definition ws_connect :: "bytes \<Rightarrow> int \<Rightarrow> bool \<times> ws_event list" where
  "ws_connect panel_id rc = (rc = 0, [Ws_stop, Ws_renew, Ws_timeout 3000, Ws_begin (TRANSPORT_ADAPTER_WS_PATH panel_id)])"

definition ws_force_reconnect :: "ws_event list" where
  "ws_force_reconnect = [Ws_stop]"

definition json_string :: "string \<Rightarrow> bytes \<Rightarrow> bytes" where
  "json_string name v = json_key name @ [34] @ v @ [34]"

definition hello_text :: "bytes \<Rightarrow> bytes \<Rightarrow> bool \<Rightarrow> bytes" where
  "hello_text panel_id hostname post_ota =
     [123] @ json_string ''cmd'' (bytes_of ''HELLO'') @ [44] @
     json_string ''firmware_version'' FIRMWARE_VERSION @ [44] @ json_key ''post_ota'' @
     (if post_ota then bytes_of ''true'' else bytes_of ''false'') @ [44] @
     json_string ''panel_id'' panel_id @ [44] @ json_string ''hostname'' hostname @ [125]"

definition ws_send_hello ::
  "nat \<Rightarrow> bytes \<Rightarrow> bytes \<Rightarrow> bool \<Rightarrow> ws_tx \<Rightarrow> ws_client \<Rightarrow> ws_event list \<times> ws_client" where
  "ws_send_hello cap panel_id hostname post_ota tx s =
    (let s1 = s\<lparr>ws_first := True\<rparr>; hello = hello_text panel_id hostname post_ota in
     if length hello > 0 \<and> length hello < 256
     then (case ws_send_text cap tx (fit 256 hello) (ws_error s1) of (ok, err, evs) \<Rightarrow> (evs, s1\<lparr>ws_error := err\<rparr>))
     else ([], s1))"

definition ws_send_memory ::
  "nat \<Rightarrow> u64 \<Rightarrow> bool \<Rightarrow> memory_env \<Rightarrow> ws_tx \<Rightarrow> ws_client \<Rightarrow> ws_event list \<times> ws_client" where
  "ws_send_memory cap now connected me tx s =
    (if \<not> connected \<or> \<not> memory_due now (ws_last s) (ws_first s) then ([], s)
     else
       let s1 = s\<lparr>ws_last := now, ws_first := False\<rparr> in
       case memory_collect MEMORY_FRAME_CAPACITY (ws_boot_id s1) me of (n, buffer) \<Rightarrow>
       if n = 0 then ([], s1)
       else case ws_send_text cap tx (take n buffer) (ws_error s1) of (ok, err, evs) \<Rightarrow> (evs, s1\<lparr>ws_error := err\<rparr>))"

section \<open>Receiving\<close>

text \<open>
  The read loop: per iteration what \<open>read\<close> returns and, when it is negative, the reading of
  \<open>millis\<close>; the list ends when the deadline has passed.
\<close>

fun ws_read :: "nat \<Rightarrow> u32 \<Rightarrow> (int \<times> u32) list \<Rightarrow> bytes \<Rightarrow> bytes" where
  "ws_read cap t0 [] payload = payload"
| "ws_read cap t0 ((b, now) # rest) payload =
    (if length payload < cap then
       if b \<ge> 0 then ws_read cap t0 rest (payload @ [word_of_int b])
       else if now - t0 > 2000 then payload
       else ws_read cap t0 rest payload
     else payload)"

record ws_rx =
  wr_size :: int
  wr_started :: u32
  wr_reads :: "(int \<times> u32) list"

definition WS_BUF_SIZE :: int where
  "WS_BUF_SIZE = 256"

definition ws_loop :: "'d json \<Rightarrow> ws_rx \<Rightarrow> ws_client \<Rightarrow> ws_client" where
  "ws_loop J rx s =
    (if wr_size rx \<le> 0 then s
     else
       let cap = min (wr_size rx) (WS_BUF_SIZE - 1);
           payload = ws_read (nat cap) (wr_started rx) (wr_reads rx) [] in
       case parse_command_frame J (c_string payload) of
         Some frame \<Rightarrow> s\<lparr>ws_frame := frame, ws_ready := True\<rparr>
       | None \<Rightarrow> s)"

section \<open>A message is sent whole or the socket is dropped\<close>

definition sample_tx :: ws_tx where
  "sample_tx = \<lparr>tx_connected = True, tx_begin = 0, tx_begin_writes = [], tx_count = 3, tx_count_writes = [],
     tx_end = 0, tx_end_writes = [(1, 1), (1, 1), (4, 4), (3, 2)]\<rparr>"

text \<open>
  (C19) No truncated message stays on a connection: \<open>ws_send_text\<close> reports success only for a message
  that fits the transmit buffer, when every call of the library succeeded and every write underneath
  was accepted in full; and when it has begun a message and fails, its last call drops the socket.
\<close>

theorem ws_send_whole_or_stop:
  assumes "ws_send_text cap tx buffer err = (ok, err1, evs)"
  shows "(ok \<longrightarrow> evs = [Begin_text, Ws_write buffer, End_text] \<and> 0 < length buffer \<and> length buffer \<le> cap \<and>
      tx_count tx = length buffer \<and> tx_begin tx = 0 \<and> tx_end tx = 0 \<and>
      (\<forall>(asked, accepted) \<in> set (tx_begin_writes tx @ tx_count_writes tx @ tx_end_writes tx). accepted = asked)) \<and>
    (\<not> ok \<longrightarrow> (if evs = [] then length buffer = 0 \<or> cap < length buffer \<or> \<not> tx_connected tx
      else hd evs = Begin_text \<and> last evs = Ws_stop))"
  using assms by (auto simp: ws_send_text_def Let_def checked_writes_iff split: if_splits)

theorem ws_send_whole_or_stop_witness:
  "ws_send_text 768 sample_tx [1, 2, 3] False =
     (False, True, [Begin_text, Ws_write [1, 2, 3], End_text, Ws_stop]) \<and>
   last [Begin_text, Ws_write [1, 2, 3], End_text, Ws_stop] = Ws_stop"
proof -
  have "ws_send_text 768 sample_tx [1, 2, 3] False =
     (False, True, [Begin_text, Ws_write [1, 2, 3], End_text, Ws_stop])"
    by (simp add: ws_send_text_def sample_tx_def checked_writes_def checked_write_def)
  with ws_send_whole_or_stop [OF this] show ?thesis by simp
qed

section \<open>What is sent fits\<close>

lemma length_hello_text: "length (hello_text panel_id hostname post_ota) \<le> length panel_id + length hostname + 90"
  by (simp add: hello_text_def json_string_def json_key_def FIRMWARE_VERSION_def)



section \<open>Received frames\<close>

text \<open>The bytes delivered by a list of reads.\<close>

definition delivered :: "(int \<times> u32) list \<Rightarrow> bytes" where
  "delivered reads = map word_of_int (filter (\<lambda>b. 0 \<le> b) (map fst reads))"

lemma ws_read_prefix:
  "length payload \<le> cap \<Longrightarrow>
   \<exists>got. ws_read cap t0 reads payload = payload @ got \<and> prefix got (delivered reads) \<and> length payload + length got \<le> cap"
proof (induction cap t0 reads payload rule: ws_read.induct)
  case (1 cap t0 payload)
  then show ?case by (simp add: delivered_def)
next
  case (2 cap t0 b now rest payload)
  then show ?case
    by (cases "length payload < cap"; cases "0 \<le> b"; cases "2000 < now - t0") (auto simp: delivered_def)
qed

lemma ws_read_timely:
  "\<forall>(b, now) \<in> set reads. \<not> 2000 < now - t0 \<Longrightarrow>
   ws_read cap t0 reads payload = payload @ take (cap - length payload) (delivered reads)"
proof (induction cap t0 reads payload rule: ws_read.induct)
  case (1 cap t0 payload)
  then show ?case by (simp add: delivered_def)
next
  case (2 cap t0 b now rest payload)
  show ?case
  proof (cases "length payload < cap \<and> 0 \<le> b")
    case True
    then have "cap - length payload = Suc (cap - Suc (length payload))" by arith
    with True 2 show ?thesis by (simp add: delivered_def)
  next
    case False
    with 2 show ?thesis by (auto simp: delivered_def)
  qed
qed

text \<open>
  (C22) A frame is announced only for what was received: it is the parse of a C string of at most 255
  bytes which are the first ones delivered by the connection, its texts fit their arrays, and when
  the connection delivers a JSON command of at most 255 bytes in time it is announced.
\<close>

theorem ws_loop_frames:
  "(ws_ready (ws_loop J rx s) \<longrightarrow> ws_ready s \<or>
     (\<exists>payload. prefix payload (delivered (wr_reads rx)) \<and> length payload \<le> 255 \<and>
        parse_command_frame J (c_string payload) = Some (ws_frame (ws_loop J rx s)) \<and>
        command_ok (ws_frame (ws_loop J rx s)))) \<and>
   (0 < wr_size rx \<and> wr_size rx \<le> 255 \<and> length (delivered (wr_reads rx)) = nat (wr_size rx) \<and>
     (\<forall>(b, now) \<in> set (wr_reads rx). \<not> 2000 < now - wr_started rx) \<and>
     parse_command_frame J (c_string (delivered (wr_reads rx))) = Some c \<longrightarrow>
     ws_ready (ws_loop J rx s) \<and> ws_frame (ws_loop J rx s) = c)"
proof -
  let ?got = "ws_read (nat (min (wr_size rx) 255)) (wr_started rx) (wr_reads rx) []"
  obtain got where "?got = got" "prefix got (delivered (wr_reads rx))" "length got \<le> nat (min (wr_size rx) 255)"
    using ws_read_prefix [of "[]" "nat (min (wr_size rx) 255)" "wr_started rx" "wr_reads rx"] by auto
  then have first: "prefix ?got (delivered (wr_reads rx))" "length ?got \<le> 255" by auto
  have timely: "?got = delivered (wr_reads rx)"
    if "wr_size rx \<le> 255" "length (delivered (wr_reads rx)) = nat (wr_size rx)"
      "\<forall>(b, now) \<in> set (wr_reads rx). \<not> 2000 < now - wr_started rx"
    using ws_read_timely [OF that(3), of "nat (min (wr_size rx) 255)" "[]"] that(1,2) by simp
  show ?thesis
  proof (intro conjI impI)
    assume ready: "ws_ready (ws_loop J rx s)"
    show "ws_ready s \<or> (\<exists>payload. prefix payload (delivered (wr_reads rx)) \<and> length payload \<le> 255 \<and>
        parse_command_frame J (c_string payload) = Some (ws_frame (ws_loop J rx s)) \<and>
        command_ok (ws_frame (ws_loop J rx s)))"
      using ready first parse_command_ok [of J "c_string ?got"]
      by (auto simp: ws_loop_def WS_BUF_SIZE_def Let_def split: option.splits if_splits)
  qed (use timely in \<open>auto simp: ws_loop_def WS_BUF_SIZE_def Let_def\<close>)
qed

definition sample_rx :: ws_rx where
  "sample_rx = \<lparr>wr_size = 2, wr_started = 7, wr_reads = [(123, 7), (- 1, 8), (125, 9)]\<rparr>"

theorem ws_loop_frames_witness:
  "ws_ready (ws_loop (command_json ''DOORBELL'') sample_rx ws_boot) \<and>
   ws_frame (ws_loop (command_json ''DOORBELL'') sample_rx ws_boot) = Doorbell 30"
  using ws_loop_frames [of "command_json ''DOORBELL''" sample_rx ws_boot "Doorbell 30"]
  by (simp add: sample_rx_def delivered_def parse_bell_sample)

end
