(* ===== verification/Wifi_Manager.thy ===== *)
theory Wifi_Manager
  imports Prelude
begin

text \<open>
  \<open>firmware/housepanel-giga/wifi_manager.cpp\<close>. \<open>wifi_connect\<close> waits for as long as it takes: it is a
  \<open>partial_function\<close>, whose value is \<open>None\<close> when the call never returns. The answers of
  \<open>WiFi.status\<close> are a stream; \<open>pump\<close> is the callback, with the numbers of the iteration and of the
  call in it.
\<close>

datatype wifi_event = Wifi_hostname | Wifi_start | Watchdog_kick | Wait_ms nat

type_synonym 's waiting = "wifi_event list \<times> 's"

text \<open>The inner \<open>for\<close> loop: \<open>pump(); delay(10);\<close>\<close>

fun pump_loop :: "(nat \<Rightarrow> 's \<Rightarrow> 's) \<Rightarrow> nat list \<Rightarrow> 's waiting \<Rightarrow> 's waiting" where
  "pump_loop pump [] w = w"
| "pump_loop pump (i # is) (evs, s) = pump_loop pump is (evs @ [Wait_ms 10], pump i s)"

definition wifi_round :: "(nat \<Rightarrow> nat \<Rightarrow> 's \<Rightarrow> 's) option \<Rightarrow> nat \<Rightarrow> 's waiting \<Rightarrow> 's waiting" where
  "wifi_round pump n w = (case w of (evs, s) \<Rightarrow>
     let kicked = (evs @ [Watchdog_kick], s) in
     case pump of Some f \<Rightarrow> pump_loop (f n) [0..<50] kicked
     | None \<Rightarrow> (evs @ [Watchdog_kick, Wait_ms 500], s))"

partial_function (option) wifi_wait ::
  "(nat \<Rightarrow> bool) \<Rightarrow> (nat \<Rightarrow> nat \<Rightarrow> 's \<Rightarrow> 's) option \<Rightarrow> nat \<Rightarrow> 's waiting \<Rightarrow> 's waiting option" where
  "wifi_wait connected pump n w =
    (if connected n then Some w else wifi_wait connected pump (Suc n) (wifi_round pump n w))"

definition wifi_connect ::
  "(nat \<Rightarrow> bool) \<Rightarrow> (nat \<Rightarrow> nat \<Rightarrow> 's \<Rightarrow> 's) option \<Rightarrow> 's \<Rightarrow> 's waiting option" where
  "wifi_connect connected pump s = wifi_wait connected pump 0 ([Wifi_hostname, Wifi_start], s)"

section \<open>When it returns\<close>

text \<open>The first \<open>n\<close> iterations from iteration \<open>k\<close> on.\<close>

fun wifi_rounds :: "(nat \<Rightarrow> nat \<Rightarrow> 's \<Rightarrow> 's) option \<Rightarrow> nat \<Rightarrow> nat \<Rightarrow> 's waiting \<Rightarrow> 's waiting" where
  "wifi_rounds pump k 0 w = w"
| "wifi_rounds pump k (Suc n) w = wifi_rounds pump (Suc k) n (wifi_round pump k w)"

lemma wifi_wait_step: "\<not> connected n \<Longrightarrow> wifi_wait connected pump n w = wifi_wait connected pump (Suc n) (wifi_round pump n w)"
  by (subst wifi_wait.simps) simp

lemma wifi_wait_done: "connected n \<Longrightarrow> wifi_wait connected pump n w = Some w"
  by (subst wifi_wait.simps) simp

lemma wifi_wait_returns:
  assumes "connected (k + n)" and "\<And>i. i < n \<Longrightarrow> \<not> connected (k + i)"
  shows "wifi_wait connected pump k w = Some (wifi_rounds pump k n w)"
  using assms
proof (induction n arbitrary: k w)
  case 0
  then show ?case by (simp add: wifi_wait_done)
next
  case (Suc n)
  have "\<not> connected k" using Suc.prems(2) [of 0] by simp
  moreover have "wifi_wait connected pump (Suc k) (wifi_round pump k w) = Some (wifi_rounds pump (Suc k) n (wifi_round pump k w))"
    using Suc.prems(1) Suc.prems(2) [of "Suc i" for i] by (intro Suc.IH) simp_all
  ultimately show ?case by (simp add: wifi_wait_step)
qed

lemma wifi_wait_never:
  assumes "wifi_wait connected pump k w = Some r"
  shows "\<exists>n. connected n"
  by (rule wifi_wait.raw_induct [where P = "\<lambda>connected pump k w r. \<exists>n. connected n", OF _ assms])
    (auto split: if_splits)

section \<open>The waiting between two watchdog kicks\<close>

text \<open>The time spent waiting since the last kick, and the longest such time.\<close>

fun unkicked :: "wifi_event list \<Rightarrow> nat \<times> nat \<Rightarrow> nat \<times> nat" where
  "unkicked [] m = m"
| "unkicked (Watchdog_kick # es) (cur, longest) = unkicked es (0, longest)"
| "unkicked (Wait_ms t # es) (cur, longest) = unkicked es (cur + t, max longest (cur + t))"
| "unkicked (e # es) m = unkicked es m"

definition waited :: "wifi_event list \<Rightarrow> nat" where
  "waited evs = sum_list (map (\<lambda>e. case e of Wait_ms t \<Rightarrow> t | _ \<Rightarrow> 0) evs)"

lemma unkicked_append: "unkicked (es @ fs) m = unkicked fs (unkicked es m)"
  by (induction es m rule: unkicked.induct) simp_all

lemma pump_loop_events: "fst (pump_loop pump is (evs, s)) = evs @ replicate (length is) (Wait_ms 10)"
  by (induction "is" arbitrary: evs s) (simp_all add: replicate_app_Cons_same)

lemma unkicked_waits:
  "unkicked (replicate k (Wait_ms t)) (cur, longest) = (cur + k * t, if k = 0 then longest else max longest (cur + k * t))"
  by (induction k arbitrary: cur longest) (auto simp: max_def)

lemma waits_facts:
  "waited (replicate k (Wait_ms t)) = k * t" "count_list (replicate k (Wait_ms t)) Watchdog_kick = 0"
  by (induction k) (simp_all add: waited_def)

lemma wifi_round_events:
  "\<exists>waits. fst (wifi_round pump n (evs, s)) = evs @ Watchdog_kick # waits \<and> waited waits = 500 \<and>
     count_list waits Watchdog_kick = 0 \<and> (\<forall>m. snd (unkicked (Watchdog_kick # waits) m) = max (snd m) 500)"
proof (cases pump)
  case None
  then have "fst (wifi_round pump n (evs, s)) = evs @ Watchdog_kick # [Wait_ms 500]"
    by (simp add: wifi_round_def)
  moreover have "snd (unkicked [Watchdog_kick, Wait_ms 500] m) = max (snd m) 500" for m
    by (cases m) simp
  moreover have "waited [Wait_ms 500] = 500" "count_list [Wait_ms 500] Watchdog_kick = 0"
    by (simp_all add: waited_def)
  ultimately show ?thesis by blast
next
  case (Some f)
  let ?waits = "replicate 50 (Wait_ms 10)"
  have "fst (wifi_round pump n (evs, s)) = evs @ Watchdog_kick # ?waits"
    by (simp only: wifi_round_def Some Let_def prod.case option.case pump_loop_events) simp
  moreover have "snd (unkicked (Watchdog_kick # ?waits) m) = max (snd m) 500" for m
    by (cases m) (simp only: unkicked.simps unkicked_waits, simp)
  moreover have "waited ?waits = 500" "count_list ?waits Watchdog_kick = 0"
    by (simp_all only: waits_facts)
  ultimately show ?thesis by blast
qed

lemma wifi_rounds_events:
  "\<exists>more_evs. fst (wifi_rounds pump k n (evs, s)) = evs @ more_evs \<and> waited more_evs = 500 * n \<and>
     count_list more_evs Watchdog_kick = n \<and> (\<forall>m. snd (unkicked more_evs m) \<le> max (snd m) 500)"
proof (induction n arbitrary: k evs s)
  case 0
  then show ?case by (simp add: waited_def)
next
  case (Suc n)
  obtain evs1 s1 where round: "wifi_round pump k (evs, s) = (evs1, s1)" by (cases "wifi_round pump k (evs, s)")
  obtain waits where waits: "evs1 = evs @ Watchdog_kick # waits" "waited waits = 500" "count_list waits Watchdog_kick = 0"
    "\<forall>m. snd (unkicked (Watchdog_kick # waits) m) = max (snd m) 500"
    using wifi_round_events [of pump k evs s, unfolded round fst_conv] by blast
  obtain rest where rest: "fst (wifi_rounds pump (Suc k) n (evs1, s1)) = evs1 @ rest" "waited rest = 500 * n"
    "count_list rest Watchdog_kick = n" "\<forall>m. snd (unkicked rest m) \<le> max (snd m) 500"
    using Suc.IH [of "Suc k" evs1 s1] by blast
  have "snd (unkicked ((Watchdog_kick # waits) @ rest) m) \<le> max (snd m) 500" for m
    unfolding unkicked_append
    using rest(4) [rule_format, of "unkicked (Watchdog_kick # waits) m"] waits(4) [rule_format, of m]
    by (simp only: max.assoc max.idem)
  moreover have "waited ((Watchdog_kick # waits) @ rest) = 500 * Suc n"
    using waits(2) rest(2) by (simp add: waited_def)
  ultimately show ?case using waits(1,3) rest(1,3) round
    by (intro exI [of _ "(Watchdog_kick # waits) @ rest"]) simp
qed

section \<open>The contract of the pump\<close>

text \<open>A pump that keeps an invariant of its state; the waiting then keeps it.\<close>

locale pump_contract =
  fixes pump :: "nat \<Rightarrow> nat \<Rightarrow> 's \<Rightarrow> 's" and keeps :: "'s \<Rightarrow> bool"
  assumes pump_keeps: "keeps s \<Longrightarrow> keeps (pump n i s)"
begin

lemma pump_loop_keeps: "keeps s \<Longrightarrow> keeps (snd (pump_loop (pump n) is (evs, s)))"
  by (induction "is" arbitrary: evs s) (simp_all add: pump_keeps)

lemma wifi_rounds_keeps: "keeps s \<Longrightarrow> keeps (snd (wifi_rounds (Some pump) k n (evs, s)))"
proof (induction n arbitrary: k evs s)
  case 0
  then show ?case by simp
next
  case (Suc n)
  have "keeps (snd (wifi_round (Some pump) k (evs, s)))"
    using Suc.prems by (simp add: wifi_round_def pump_loop_keeps)
  then show ?case
    using Suc.IH [of "snd (wifi_round (Some pump) k (evs, s))" "Suc k" "fst (wifi_round (Some pump) k (evs, s))"] by simp
qed

lemma wifi_connect_keeps:
  assumes "connected m" and "keeps s"
  shows "\<exists>evs s1. wifi_connect connected (Some pump) s = Some (evs, s1) \<and> keeps s1"
proof -
  define n where "n = (LEAST n. connected n)"
  have "connected n" "\<And>k. k < n \<Longrightarrow> \<not> connected k"
    using assms(1) by (auto simp: n_def intro: LeastI dest: not_less_Least)
  then have "wifi_connect connected (Some pump) s =
      Some (wifi_rounds (Some pump) 0 n ([Wifi_hostname, Wifi_start], s))"
    unfolding wifi_connect_def by (intro wifi_wait_returns) simp_all
  with wifi_rounds_keeps [OF assms(2), of 0 n "[Wifi_hostname, Wifi_start]"] show ?thesis
    by (metis prod.collapse)
qed

end

section \<open>Returning\<close>

text \<open>
  (C21) \<open>wifi_connect\<close> returns exactly when the WiFi ever reports to be connected. Then it has
  waited 500 ms for every answer before that one, has kicked the watchdog once for each, and never
  waited more than 500 ms without a kick, with or without a pump; otherwise it never returns.
\<close>

theorem wifi_connect_returns:
  "case wifi_connect connected pump s of None \<Rightarrow> (\<forall>n. \<not> connected n)
   | Some (evs, s1) \<Rightarrow> (\<exists>n. connected n \<and> (\<forall>k < n. \<not> connected k) \<and> waited evs = 500 * n \<and>
       count_list evs Watchdog_kick = n \<and> snd (unkicked evs (0, 0)) \<le> 500)"
proof (cases "\<exists>n. connected n")
  case True
  define n where "n = (LEAST n. connected n)"
  have n: "connected n" "\<And>k. k < n \<Longrightarrow> \<not> connected k"
    using True by (auto simp: n_def intro: LeastI_ex dest: not_less_Least)
  let ?start = "[Wifi_hostname, Wifi_start]"
  have returns: "wifi_connect connected pump s = Some (wifi_rounds pump 0 n (?start, s))"
    unfolding wifi_connect_def using n by (intro wifi_wait_returns) simp_all
  obtain evs where evs: "fst (wifi_rounds pump 0 n (?start, s)) = ?start @ evs" "waited evs = 500 * n"
    "count_list evs Watchdog_kick = n" "\<forall>m. snd (unkicked evs m) \<le> max (snd m) 500"
    using wifi_rounds_events [of pump 0 n ?start s] by blast
  obtain s1 where result: "wifi_connect connected pump s = Some (?start @ evs, s1)"
    using evs(1) by (cases "wifi_rounds pump 0 n (?start, s)") (simp add: returns)
  have "snd (unkicked (?start @ evs) (0, 0)) \<le> 500" using evs(4) [rule_format, of "(0, 0)"] by simp
  moreover have "waited (?start @ evs) = 500 * n" "count_list (?start @ evs) Watchdog_kick = n"
    using evs(2,3) by (simp_all add: waited_def)
  ultimately show ?thesis using n by (simp only: result option.case prod.case) blast
next
  case False
  then have "wifi_connect connected pump s = None"
    using wifi_wait_never [of connected pump 0 "([Wifi_hostname, Wifi_start], s)"]
    by (cases "wifi_connect connected pump s") (auto simp: wifi_connect_def)
  with False show ?thesis by simp
qed

text \<open>A network that answers at the third time; the pump counts its calls.\<close>

theorem wifi_connect_returns_witness:
  "\<exists>evs calls. wifi_connect (\<lambda>k. k = 2) (Some (\<lambda>n i c. Suc c)) (0 :: nat) = Some (evs, calls) \<and>
     waited evs = 1000 \<and> count_list evs Watchdog_kick = 2"
  using wifi_connect_returns [of "\<lambda>k. k = 2" "Some (\<lambda>n i c. Suc c)" "0 :: nat"]
  by (simp split: option.splits) auto

end
