(* ===== verification/Panel_Loop.thy ===== *)
theory Panel_Loop
  imports Panel_Init Ws_Client Wifi_Manager Ota_Server
begin

text \<open>
  \<open>housepanel-giga.ino\<close>: the main program of the panel, over its display, its WebSocket client, the
  WiFi connection and the update server. The record \<open>panel\<close> has the sketch's static variables; the
  answers of the hardware and of the network, and the readings of \<open>millis\<close> and \<open>time\<close> at their call
  sites, are the fields of \<open>panel_env\<close>, in the order of the code. The serial diagnostics are left out.
  \<open>None\<close> means that the call does not return or stores outside an array.
\<close>

section \<open>State and environment\<close>

datatype panel_event = Net wifi_event | Sock ws_event | Rtc_set u32 | Watchdog_start nat | Ota ota_event

record panel =
  pn_display :: display
  pn_ws :: ws_client
  pn_rtc_synced :: bool
  pn_offset :: i16
  pn_hhmm :: int
  pn_bell_start :: u32
  pn_bell_timeout :: u32
  pn_data_rx :: u32
  pn_indicator :: u32
  pn_ws_attempt :: u32
  pn_cal :: bytes
  pn_cal_len :: int

definition DATA_STALE_TIMEOUT_MS :: u32 where
  "DATA_STALE_TIMEOUT_MS = 90000"

definition panel_boot :: panel where
  "panel_boot = \<lparr>pn_display = display_boot, pn_ws = ws_boot, pn_rtc_synced = False, pn_offset = - 480, pn_hhmm = - 1,
     pn_bell_start = 0, pn_bell_timeout = 0, pn_data_rx = 0, pn_indicator = 0, pn_ws_attempt = 0,
     pn_cal = replicate 512 0, pn_cal_len = 0\<rparr>"

record panel_config =
  pc_panel_id :: bytes
  pc_hostname :: bytes
  pc_tx_buffer :: nat

record panel_env =
  pe_ota :: loop_env
  pe_wifi_ok :: bool
  pe_wifi_answers :: "nat \<Rightarrow> bool"
  pe_wifi_clicks :: "nat \<Rightarrow> nat \<Rightarrow> click list"
  pe_conn_stale :: bool
  pe_t_stale :: u32
  pe_conn_retry :: bool
  pe_t_retry :: u32
  pe_t_attempt :: u32
  pe_begin :: int
  pe_hello :: ws_tx
  pe_t_hello :: u32
  pe_rx :: ws_rx
  pe_uptime :: u64
  pe_conn_report :: bool
  pe_stats :: memory_env
  pe_report :: ws_tx
  pe_t_frame :: u32
  pe_t_bell :: u32
  pe_t_ind :: u32
  pe_t_ind_set :: u32
  pe_wifi_ind :: bool
  pe_conn_ind :: bool
  pe_t_data_ok :: u32
  pe_t_data_age :: u32
  pe_ip :: "u8 \<times> u8 \<times> u8 \<times> u8"
  pe_time :: int
  pe_clicks :: "click list"

section \<open>Commands\<close>

text \<open>The line of a calendar event.\<close>

definition cal_date :: "bytes \<Rightarrow> bytes" where
  "cal_date d = (if length d \<ge> 10 then fit 6 (take 2 (drop 5 d) @ [47] @ take 2 (drop 8 d)) else [63])"

definition cal_line :: "bytes \<Rightarrow> bytes \<Rightarrow> bool \<Rightarrow> bytes" where
  "cal_line summary time_str all_day =
     fit 128 ((if all_day then cal_date time_str else time_str) @ [32, 32] @ summary @ [10])"

text \<open>\<open>strncat(buf + off, line, n)\<close>: it appends to the string that starts at \<open>off\<close>.\<close>

definition strncat_at :: "bytes \<Rightarrow> nat \<Rightarrow> bytes \<Rightarrow> nat \<Rightarrow> bytes option" where
  "strncat_at buf off line n =
    (let e = off + length (takeWhile (\<lambda>c. c \<noteq> 0) (drop off buf)); w = take n line @ [0] in
     if e + length w \<le> length buf then Some (take e buf @ w @ drop (e + length w) buf) else None)"

definition cal_append :: "bytes \<Rightarrow> panel \<Rightarrow> panel option" where
  "cal_append line s =
    (let rem = 512 - pn_cal_len s - 1 in
     if rem > 0 then
       (case strncat_at (pn_cal s) (nat (pn_cal_len s)) line (nat rem) of None \<Rightarrow> None
        | Some buf \<Rightarrow> Some (s\<lparr>pn_cal := buf, pn_cal_len := pn_cal_len s + int (length line)\<rparr>))
     else Some s)"

definition cal_event :: "int \<Rightarrow> bytes \<Rightarrow> bytes \<Rightarrow> bool \<Rightarrow> panel \<Rightarrow> panel option" where
  "cal_event idx summary time_str all_day s =
    (let s1 = (if idx = 0 then s\<lparr>pn_cal_len := 0, pn_cal := replicate 512 0\<rparr> else s) in
     map_option (\<lambda>s2. s2\<lparr>pn_display := render_calendar_section (Some (c_string (pn_cal s2))) (pn_display s2)\<rparr>)
       (cal_append (cal_line summary time_str all_day) s1))"

text \<open>The \<open>switch\<close> over the frame, with the reading of \<open>millis\<close> in the branch.\<close>

fun handle_command :: "command \<Rightarrow> u32 \<Rightarrow> panel \<Rightarrow> (panel_event list \<times> panel) option" where
  "handle_command (Doorbell seconds) now s =
     Some ([], s\<lparr>pn_display := render_doorbell_interrupt seconds (pn_display s), pn_bell_start := now,
       pn_bell_timeout := word_of_int seconds * 1000\<rparr>)"
| "handle_command (Ticker_append t) now s = Some ([], s)"
| "handle_command (Sysmon_temp temp humidity) now s =
     Some ([], s\<lparr>pn_display := display_update_sysmon temp humidity (pn_display s), pn_data_rx := now\<rparr>)"
| "handle_command (Weather temp conditions high low) now s =
     Some ([], s\<lparr>pn_display := render_weather_today temp (Some conditions) high low (pn_display s), pn_data_rx := now\<rparr>)"
| "handle_command (Weather_day idx label high low conditions) now s =
     Some ([], s\<lparr>pn_display := render_weather_day idx (Some label) high low (Some conditions) (pn_display s),
       pn_data_rx := now\<rparr>)"
| "handle_command (Cal_event idx summary time_str all_day) now s =
     map_option (\<lambda>s1. ([], s1\<lparr>pn_data_rx := now\<rparr>)) (cal_event idx summary time_str all_day s)"
| "handle_command (Time_sync epoch offset) now s =
     Some (if epoch > 0 then ([Rtc_set epoch], s\<lparr>pn_offset := offset, pn_rtc_synced := True, pn_data_rx := now\<rparr>)
       else ([], s))"
| "handle_command Ota_pause now s = Some ([], s)"
| "handle_command Ota_resume now s = Some ([], s)"

section \<open>The parts of the main loop\<close>

definition lift_display :: "(display \<Rightarrow> display) \<Rightarrow> panel \<Rightarrow> panel" where
  "lift_display f s = s\<lparr>pn_display := f (pn_display s)\<rparr>"

definition wifi_step :: "panel_env \<Rightarrow> panel \<Rightarrow> (panel_event list \<times> panel) option" where
  "wifi_step e s =
    (if pe_wifi_ok e then Some ([], s)
     else map_option (\<lambda>(evs, d). (map Net evs, s\<lparr>pn_display := d\<rparr>))
       (wifi_connect (pe_wifi_answers e) (Some (\<lambda>n i. display_service (pe_wifi_clicks e n i))) (pn_display s)))"

definition stale_step :: "panel_env \<Rightarrow> panel \<Rightarrow> panel_event list" where
  "stale_step e s =
    (if pe_conn_stale e \<and> pn_data_rx s > 0 \<and> pe_t_stale e - pn_data_rx s > DATA_STALE_TIMEOUT_MS
     then map Sock ws_force_reconnect else [])"

definition retry_step :: "panel_config \<Rightarrow> panel_env \<Rightarrow> panel \<Rightarrow> panel_event list \<times> panel" where
  "retry_step pc e s =
    (if \<not> pe_conn_retry e \<and> pe_t_retry e - pn_ws_attempt s \<ge> 5000 then
       let s1 = s\<lparr>pn_ws_attempt := pe_t_attempt e\<rparr> in
       (case ws_connect (pc_panel_id pc) (pe_begin e) of (ok, evs) \<Rightarrow>
          if ok then
            (case ws_send_hello (pc_tx_buffer pc) (pc_panel_id pc) (pc_hostname pc) False (pe_hello e) (pn_ws s1) of
               (hello, w) \<Rightarrow> (Net Watchdog_kick # map Sock (evs @ hello), s1\<lparr>pn_ws := w, pn_data_rx := pe_t_hello e\<rparr>))
          else (Net Watchdog_kick # map Sock evs, s1))
     else ([], s))"

definition receive_step :: "'d json \<Rightarrow> panel_config \<Rightarrow> panel_env \<Rightarrow> panel \<Rightarrow> (panel_event list \<times> panel) option" where
  "receive_step J pc e s =
    (case ws_send_memory (pc_tx_buffer pc) (pe_uptime e) (pe_conn_report e) (pe_stats e) (pe_report e)
        (ws_loop J (pe_rx e) (pn_ws s)) of (sent, w) \<Rightarrow>
     let s1 = s\<lparr>pn_ws := w\<rparr> in
     if \<not> ws_ready w then Some (map Sock sent, s1)
     else map_option (\<lambda>(evs, s2). (map Sock sent @ evs, s2))
       (handle_command (ws_frame w) (pe_t_frame e) (s1\<lparr>pn_ws := w\<lparr>ws_ready := False\<rparr>\<rparr>)))"

definition bell_step :: "panel_env \<Rightarrow> panel \<Rightarrow> panel" where
  "bell_step e s =
    (if ds_state (pn_display s) = Doorbell_interrupt \<and> pn_bell_timeout s > 0 \<and>
        pe_t_bell e - pn_bell_start s \<ge> pn_bell_timeout s
     then (lift_display dismiss_doorbell s)\<lparr>pn_bell_timeout := 0\<rparr> else s)"

definition ip_text :: "u8 \<times> u8 \<times> u8 \<times> u8 \<Rightarrow> bytes" where
  "ip_text ip = (case ip of (a, b, c, d) \<Rightarrow>
     fit 20 (dec (unat a) @ [46] @ dec (unat b) @ [46] @ dec (unat c) @ [46] @ dec (unat d)))"

definition clock_step :: "panel_env \<Rightarrow> panel \<Rightarrow> panel" where
  "clock_step e s =
    (if \<not> pn_rtc_synced s then s
     else case clock_fields (pe_time e + sint (pn_offset s) * 60) of (h, m, sec) \<Rightarrow>
       let hhmm = int h * 100 + int m in
       if hhmm \<noteq> pn_hhmm s then lift_display (display_update_clock h m) (s\<lparr>pn_hhmm := hhmm\<rparr>) else s)"

definition indicator_step :: "panel_env \<Rightarrow> panel \<Rightarrow> panel" where
  "indicator_step e s =
    (if pe_t_ind e - pn_indicator s < 1000 then s
     else
       let s1 = s\<lparr>pn_indicator := pe_t_ind_set e\<rparr>;
           data_ok = (pn_data_rx s1 > 0 \<and> pe_t_data_ok e - pn_data_rx s1 < DATA_STALE_TIMEOUT_MS);
           age = (if pn_data_rx s1 > 0 then (pe_t_data_age e - pn_data_rx s1) div 1000 else 0);
           s2 = lift_display (display_update_indicators (pe_wifi_ind e) (pe_conn_ind e) data_ok) s1;
           s3 = lift_display (display_update_status_detail (pe_wifi_ind e) (Some (ip_text (pe_ip e)))
             (pe_conn_ind e) data_ok age) s2 in
       clock_step e s3)"

section \<open>Main loop and start-up\<close>

definition panel_loop ::
  "('a, 'h) mbedtls \<Rightarrow> ota_config \<Rightarrow> 'd json \<Rightarrow> panel_config \<Rightarrow> panel_env \<Rightarrow> ('a, 'h) server \<times> panel \<Rightarrow>
     (panel_event list \<times> ('a, 'h) server \<times> panel) option" where
  "panel_loop M cf J pc e st =
    (case st of (srv, s) \<Rightarrow>
     case ota_loop M cf (pe_ota e) srv of None \<Rightarrow> None
     | Some (ota, srv1) \<Rightarrow>
       (case wifi_step e s of None \<Rightarrow> None
        | Some (net, s1) \<Rightarrow>
          (case retry_step pc e s1 of (sock, s2) \<Rightarrow>
           case receive_step J pc e s2 of None \<Rightarrow> None
           | Some (frame, s3) \<Rightarrow>
             Some (Net Watchdog_kick # map Ota ota @ net @ stale_step e s1 @ sock @ frame, srv1,
               lift_display (display_service (pe_clicks e)) (indicator_step e (bell_step e s3))))))"

record setup_env =
  se_display_rc :: int
  se_touch_ok :: bool
  se_wifi_answers :: "nat \<Rightarrow> bool"
  se_wifi_clicks :: "nat \<Rightarrow> nat \<Rightarrow> click list"
  se_trng :: "int \<times> nat \<times> u32 \<times> u32"
  se_begin :: int
  se_hello :: ws_tx
  se_t_hello :: u32
  se_t_attempt :: u32
  se_ota :: boot_env

definition setup_socket :: "panel_config \<Rightarrow> setup_env \<Rightarrow> panel \<Rightarrow> panel_event list \<times> panel" where
  "setup_socket pc b s =
    (case ws_connect (pc_panel_id pc) (se_begin b) of (ok, evs) \<Rightarrow>
     if ok then
       (case ws_send_hello (pc_tx_buffer pc) (pc_panel_id pc) (pc_hostname pc) False (se_hello b) (pn_ws s) of
          (hello, w) \<Rightarrow> (map Sock (evs @ hello), s\<lparr>pn_ws := w, pn_data_rx := se_t_hello b\<rparr>))
     else (map Sock evs, s))"

definition panel_setup ::
  "('a, 'h) mbedtls \<Rightarrow> ota_config \<Rightarrow> panel_config \<Rightarrow> setup_env \<Rightarrow> file_sink \<Rightarrow>
     (panel_event list \<times> ('a, 'h) server \<times> panel) option" where
  "panel_setup M cf pc b fs =
    (case display_init (se_display_rc b) (se_touch_ok b) display_boot of None \<Rightarrow> None
     | Some d \<Rightarrow>
       (case wifi_connect (se_wifi_answers b) (Some (\<lambda>n i. display_service (se_wifi_clicks b n i))) d of None \<Rightarrow> None
        | Some (net, d1) \<Rightarrow>
          let s1 = panel_boot\<lparr>pn_display := d1, pn_ws := ws_init (case se_trng b of (result, produced, w0, w1) \<Rightarrow>
                memory_init result produced w0 w1) ws_boot\<rparr> in
          (case setup_socket pc b s1 of (sock, s2) \<Rightarrow>
             Some (map Net net @ sock @ [Watchdog_start 10000], ota_init M cf (se_ota b) (server_boot M fs),
               s2\<lparr>pn_ws_attempt := se_t_attempt b\<rparr>))))"

text \<open>Successive calls of \<open>loop\<close>.\<close>

fun panel_run ::
  "('a, 'h) mbedtls \<Rightarrow> ota_config \<Rightarrow> 'd json \<Rightarrow> panel_config \<Rightarrow> panel_env list \<Rightarrow> ('a, 'h) server \<times> panel \<Rightarrow>
     (panel_event list \<times> ('a, 'h) server \<times> panel) option" where
  "panel_run M cf J pc [] st = Some ([], st)"
| "panel_run M cf J pc (e # es) st =
    (case panel_loop M cf J pc e st of None \<Rightarrow> None
     | Some (evs, st1) \<Rightarrow> map_option (\<lambda>(evs', st2). (evs @ evs', st2)) (panel_run M cf J pc es st1))"

end
