(* ===== verification/Panel_Layout.thy ===== *)
theory Panel_Layout
  imports Panel_Init
begin

text \<open>The layout that \<open>display_init\<close> gives the screens, evaluated over its calls.\<close>

lemmas init_defs = init_calls_def init_weather_def init_middle_def init_sysmon_def init_status_def
  init_doorbell_def init_popup_def make_weather_card_def card_label_def make_indicator_def Let_def

definition daily_boxes :: "lv_call list \<Rightarrow> (panel_obj \<times> place) list" where
  "daily_boxes cs = filter (\<lambda>(w, p). pl_parent p = Some Scr_daily) (places cs)"

lemma init_ordered: "calls_in_order [Layer_top] (init_calls touch_ok)"
  by (simp add: init_defs)

lemma init_inside: "list_all (\<lambda>(w, p). inside_parent (places (init_calls touch_ok)) p) (places (init_calls touch_ok))"
  by (simp add: places_def init_defs inside_parent_def)

lemma init_boxes:
  "daily_boxes (init_calls touch_ok) = map (\<lambda>(w, x, y, a, b).
      (w, \<lparr>pl_parent = Some Scr_daily, pl_pos = Some (x, y), pl_size = Some (a, b), pl_border = 0\<rparr>))
    [(Stat_panel, 706, 400, 94, 80), (Sysmon_box, 0, 400, 706, 80), (Cal_box, 400, 180, 400, 220),
     (Clock_box, 0, 180, 400, 220), (Weather_row, 0, 0, 800, 180)]"
  by (simp add: daily_boxes_def places_def init_defs)

text \<open>
  (C27) The widget tree is well built: no object is used before it is created or created twice, every
  placed object lies within the box of its parent, inside its border, and the boxes of the daily
  screen tile it: every one of its 800 x 480 points is in exactly one of them.
\<close>

theorem panel_layout:
  assumes "0 \<le> x" and "x < 800" and "0 \<le> y" and "y < 480"
  shows "calls_in_order [Layer_top] (init_calls touch_ok) \<and>
    list_all (\<lambda>(w, p). inside_parent (places (init_calls touch_ok)) p) (places (init_calls touch_ok)) \<and>
    length (filter (\<lambda>(w, p). covers p x y) (daily_boxes (init_calls touch_ok))) = 1"
  using assms init_ordered init_inside by (auto simp: init_boxes covers_def)

theorem panel_layout_witness:
  "length (filter (\<lambda>(w, p). covers p 400 300) (daily_boxes (init_calls True))) = 1"
  using panel_layout [of 400 300 True] by simp

end
