(* ===== verification/Display_Properties.thy ===== *)
theory Display_Properties
  imports Panel_Layout
begin

text \<open>
  The states that the functions of \<open>display.cpp\<close> can reach, and what the screens show in them: the
  screen loaded is the one the state names, and the weather labels always show the cached values in
  the chosen unit.
\<close>

section \<open>Steps\<close>

inductive display_step :: "display \<Rightarrow> display \<Rightarrow> bool" where
  service: "display_step s (display_service clicks s)"
| daily: "display_step s (render_daily_view s)"
| today: "display_step s (render_weather_today temp conditions high low s)"
| day: "display_step s (render_weather_day idx label high low conditions s)"
| calendar: "display_step s (render_calendar_section events s)"
| sysmon: "display_step s (display_update_sysmon temp humidity s)"
| doorbell: "display_step s (render_doorbell_interrupt timeout_seconds s)"
| dismiss: "display_step s (dismiss_doorbell s)"
| indicators: "display_step s (display_update_indicators wifi_ok ws_ok data_ok s)"
| detail: "display_step s (display_update_status_detail wifi_ok ip ws_ok data_ok data_age s)"
| clock: "display_step s (display_update_clock h m s)"
| touched: "touch_read_cb contacts s = Some (point, s1) \<Longrightarrow> display_step s s1"

inductive display_reachable :: "display \<Rightarrow> bool" where
  started: "display_init begin_rc touch_ok display_boot = Some s \<Longrightarrow> display_reachable s"
| stepped: "display_reachable s \<Longrightarrow> display_step s s1 \<Longrightarrow> display_reachable s1"

inductive_cases display_stepE [consumes 1, case_names service daily today day calendar sysmon doorbell dismiss indicators
    detail clock touched]: "display_step s s1"

section \<open>Reading the calls\<close>

lemma latest_calls:
  "latest f (rev cs @ lv) = fold (\<lambda>c v. case f c of None \<Rightarrow> v | Some x \<Rightarrow> Some x) cs (latest f lv)"
  by (induction cs arbitrary: lv) (simp_all split: option.split)

lemma hidden_calls:
  "is_hidden w (rev cs) \<longleftrightarrow> fold (\<lambda>c v. case hidden_by w c of None \<Rightarrow> v | Some x \<Rightarrow> Some x) cs None = Some True"
  using latest_calls [of "hidden_by w" cs "[]"] by (simp add: is_hidden_def)

lemma made_append: "made w lv \<Longrightarrow> made w (cs @ lv)"
  by (auto simp: made_def latest_append split: option.splits)

lemma made_Cons: "made w lv \<Longrightarrow> made w (c # lv)"
  using made_append [of w lv "[c]"] by simp

lemma made_Cons_iff: "made w (c # lv) \<longleftrightarrow> created_by w c \<noteq> None \<or> made w lv"
  by (auto simp: made_def split: option.splits)

lemma fst_set_place [simp]: "fst ` set (set_place w f t) = fst ` set t"
  by (induction w f t rule: set_place.induct) auto

lemma fst_place_call: "w \<in> fst ` set (place_call c t) \<longleftrightarrow> created_by w c \<noteq> None \<or> w \<in> fst ` set t"
  by (cases c) (auto simp: created_by_def)

lemma made_places: "made w (rev cs) \<longleftrightarrow> w \<in> fst ` set (places cs)"
proof (induction cs rule: rev_induct)
  case Nil
  then show ?case by (simp add: made_def places_def)
next
  case (snoc c cs)
  then show ?case by (simp add: places_def fst_place_call made_Cons_iff)
qed

text \<open>What the newest call sets, for each reader of the list.\<close>

lemma readers [simp]:
  "shown_text w (c # lv) = (case text_by w c of None \<Rightarrow> shown_text w lv | Some t \<Rightarrow> Some t)"
  "loaded_screen (c # lv) = (case loaded_by c of None \<Rightarrow> loaded_screen lv | Some v \<Rightarrow> Some v)"
  "is_hidden w (c # lv) = (case hidden_by w c of None \<Rightarrow> is_hidden w lv | Some b \<Rightarrow> b)"
  by (auto simp: shown_text_def loaded_screen_def is_hidden_def split: option.splits)

lemmas call_defs [simp] = text_by_def bg_by_def border_by_def hidden_by_def loaded_by_def

lemma do_calls_fields [simp]:
  "ds_lv (do_calls cs s) = rev cs @ ds_lv s" "ds_state (do_calls cs s) = ds_state s"
  "ds_today (do_calls cs s) = ds_today s" "ds_forecast (do_calls cs s) = ds_forecast s"
  "ds_fahrenheit (do_calls cs s) = ds_fahrenheit s" "ds_ip (do_calls cs s) = ds_ip s"
  "ds_data_age (do_calls cs s) = ds_data_age s" "ds_wifi_ok (do_calls cs s) = ds_wifi_ok s"
  "ds_ws_ok (do_calls cs s) = ds_ws_ok s" "ds_unit_ms (do_calls cs s) = ds_unit_ms s"
  by (simp_all add: do_calls_def)

section \<open>The weather part of the invariant\<close>

definition stored :: "panel_obj list" where
  "stored = [Lbl_calendar, Lbl_clock, Wx_card 0, Wx_card 1, Wx_card 2, Wx_icon 0, Wx_icon 1, Wx_icon 2,
     Wx_day 0, Wx_day 1, Wx_day 2, Wx_cur, Wx_high 0, Wx_high 1, Wx_high 2, Wx_low 0, Wx_low 1, Wx_low 2,
     Wx_cond 1, Wx_cond 2, Ind_dot Ind_wifi, Ind_dot Ind_ws, Ind_dot Ind_data, Popup, Popup_content,
     Lbl_doorbell, Lbl_sysmon_temp, Lbl_sysmon_humidity]"

definition screen_inv :: "display \<Rightarrow> bool" where
  "screen_inv s \<longleftrightarrow> list_all (\<lambda>w. made w (ds_lv s)) stored \<and> length (ds_forecast s) = 4 \<and>
     loaded_screen (ds_lv s) = Some (case ds_state s of Daily_view \<Rightarrow> Scr_daily | Doorbell_interrupt \<Rightarrow> Scr_doorbell)"

definition today_shown :: "display \<Rightarrow> bool" where
  "today_shown s \<longleftrightarrow> (let wx = ds_today s; f = ds_fahrenheit s; lv = ds_lv s in
     tw_valid wx \<longrightarrow>
       shown_text Wx_cur lv = Some (wx_text '''' f (tw_temp wx)) \<and>
       shown_text (Wx_high 0) lv = Some (wx_text ''H: '' f (tw_high wx)) \<and>
       shown_text (Wx_low 0) lv = Some (wx_text ''L: '' f (tw_low wx)) \<and>
       latest (bg_by (Wx_icon 0)) lv = Some (conditions_color (tw_cond wx)) \<and>
       latest (border_by (Wx_card 0)) lv = Some (conditions_color (tw_cond wx)))"

text \<open>Forecast \<open>i\<close>, on card \<open>i + 1\<close>.\<close>

definition forecast_shown :: "nat \<Rightarrow> display \<Rightarrow> bool" where
  "forecast_shown i s \<longleftrightarrow> (let wx = ds_forecast s ! i; f = ds_fahrenheit s; lv = ds_lv s; k = Suc i in
     fw_valid wx \<longrightarrow>
       shown_text (Wx_high k) lv = Some (wx_text ''H: '' f (fw_high wx)) \<and>
       shown_text (Wx_low k) lv = Some (wx_text ''L: '' f (fw_low wx)) \<and>
       shown_text (Wx_day k) lv = Some (if fw_label wx \<noteq> [] then fw_label wx else bytes_of ''---'') \<and>
       shown_text (Wx_cond k) lv = Some (fw_cond wx) \<and>
       latest (bg_by (Wx_icon k)) lv = Some (conditions_color (fw_cond wx)) \<and>
       latest (border_by (Wx_card k)) lv = Some (conditions_color (fw_cond wx)))"

definition weather_inv :: "display \<Rightarrow> bool" where
  "weather_inv s \<longleftrightarrow> screen_inv s \<and> today_shown s \<and> forecast_shown 0 s \<and> forecast_shown 1 s"

lemmas shown_defs = today_shown_def forecast_shown_def Let_def

lemma stored_made: "screen_inv s \<Longrightarrow> w \<in> set stored \<Longrightarrow> made w (ds_lv s)"
  by (auto simp: screen_inv_def list_all_iff)

lemma when_stored: "screen_inv s \<Longrightarrow> w \<in> set stored \<Longrightarrow> when_made s w c = [c]"
  by (simp add: when_made_def stored_made)

text \<open>Calls that touch neither the weather labels nor the loaded screen keep the invariant.\<close>

definition weather_objs :: "panel_obj list" where
  "weather_objs = [Wx_card 0, Wx_card 1, Wx_card 2, Wx_icon 0, Wx_icon 1, Wx_icon 2, Wx_cur, Wx_high 0, Wx_high 1,
     Wx_high 2, Wx_low 0, Wx_low 1, Wx_low 2, Wx_day 1, Wx_day 2, Wx_cond 1, Wx_cond 2]"

fun plain_call :: "lv_call \<Rightarrow> bool" where
  "plain_call (Scr_load w) = False"
| "plain_call c = (case object_of c of None \<Rightarrow> True | Some w \<Rightarrow> w \<notin> set weather_objs)"

lemma plain_call_inv: "weather_inv s \<Longrightarrow> plain_call c \<Longrightarrow> weather_inv (do_calls [c] s)"
  by (cases c) (auto simp: weather_inv_def screen_inv_def shown_defs weather_objs_def list_all_iff made_Cons)

lemma do_calls_Cons: "do_calls (c # cs) s = do_calls cs (do_calls [c] s)"
  by (simp add: do_calls_def)

lemma plain_calls_inv: "weather_inv s \<Longrightarrow> list_all plain_call cs \<Longrightarrow> weather_inv (do_calls cs s)"
proof (induction cs arbitrary: s)
  case Nil
  then show ?case by (simp add: do_calls_def)
next
  case (Cons c cs)
  from Cons.IH [of "do_calls [c] s"] Cons.prems show ?case
    by (simp add: plain_call_inv do_calls_Cons [of c cs])
qed

section \<open>Rendering the weather\<close>

text \<open>Only the screen part of the invariant is needed to render.\<close>

lemma render_today_shown:
  assumes "screen_inv s"
  shows "screen_inv (render_today s) \<and> today_shown (render_today s) \<and>
    (forecast_shown i s \<longrightarrow> forecast_shown i (render_today s)) \<and> ds_forecast (render_today s) = ds_forecast s"
proof (cases "tw_valid (ds_today s)")
  case False
  with assms show ?thesis by (simp add: render_today_def today_shown_def Let_def)
next
  case True
  have "when_made s w c = [c]" if "w \<in> set stored" for w c
    using when_stored [OF assms that] .
  then have "render_today s = do_calls
      [Border_color (Wx_card 0) (conditions_color (tw_cond (ds_today s))),
       Bg_color (Wx_icon 0) (conditions_color (tw_cond (ds_today s))),
       Set_text Wx_cur (wx_text '''' (ds_fahrenheit s) (tw_temp (ds_today s))),
       Set_text (Wx_high 0) (wx_text ''H: '' (ds_fahrenheit s) (tw_high (ds_today s))),
       Set_text (Wx_low 0) (wx_text ''L: '' (ds_fahrenheit s) (tw_low (ds_today s)))] s"
    using True by (simp add: render_today_def Let_def stored_def)
  with assms show ?thesis
    by (simp add: screen_inv_def shown_defs list_all_iff made_Cons)
qed

lemma render_forecast_shown:
  assumes "screen_inv s" and "k < 2"
  shows "screen_inv (render_forecast (int k + 1) s) \<and> forecast_shown k (render_forecast (int k + 1) s) \<and>
    (today_shown s \<longrightarrow> today_shown (render_forecast (int k + 1) s)) \<and>
    (i \<noteq> k \<longrightarrow> forecast_shown i s \<longrightarrow> forecast_shown i (render_forecast (int k + 1) s))"
proof (cases "fw_valid (ds_forecast s ! k)")
  case False
  with assms show ?thesis by (simp add: render_forecast_def forecast_shown_def Let_def)
next
  case True
  let ?wx = "ds_forecast s ! k"
  have "when_made s w c = [c]" if "w \<in> set stored" for w c
    using when_stored [OF assms(1) that] .
  moreover have "set [Wx_card (Suc k), Wx_icon (Suc k), Wx_day (Suc k), Wx_high (Suc k), Wx_low (Suc k), Wx_cond (Suc k)]
      \<subseteq> set stored"
    using assms(2) by (auto simp: stored_def less_2_cases_iff)
  ultimately have "render_forecast (int k + 1) s = do_calls
      [Border_color (Wx_card (Suc k)) (conditions_color (fw_cond ?wx)),
       Bg_color (Wx_icon (Suc k)) (conditions_color (fw_cond ?wx)),
       Set_text (Wx_day (Suc k)) (if fw_label ?wx \<noteq> [] then fw_label ?wx else bytes_of ''---''),
       Set_text (Wx_high (Suc k)) (wx_text ''H: '' (ds_fahrenheit s) (fw_high ?wx)),
       Set_text (Wx_low (Suc k)) (wx_text ''L: '' (ds_fahrenheit s) (fw_low ?wx)),
       Set_text (Wx_cond (Suc k)) (fw_cond ?wx)] s"
    using True assms(2) by (simp add: render_forecast_def Let_def nat_add_distrib)
  with assms show ?thesis
    by (simp add: screen_inv_def shown_defs list_all_iff made_Cons)
qed

section \<open>Every step keeps the weather part\<close>

lemma screen_inv_fields:
  "screen_inv (s\<lparr>ds_unit_ms := t, ds_fahrenheit := f\<rparr>) = screen_inv s"
  "screen_inv (s\<lparr>ds_today := wx\<rparr>) = screen_inv s"
  "screen_inv (s\<lparr>ds_forecast := (ds_forecast s)[i := fx]\<rparr>) = screen_inv s"
  by (simp_all add: screen_inv_def)

lemma weather_inv_fields:
  "weather_inv (s\<lparr>ds_close_ms := t\<rparr>) = weather_inv s" "weather_inv (s\<lparr>ds_status_ms := t\<rparr>) = weather_inv s"
  "weather_inv (s\<lparr>ds_last_point := q\<rparr>) = weather_inv s"
  "weather_inv (s\<lparr>ds_wifi_ok := a, ds_ws_ok := b, ds_data_ok := c, ds_data_age := d, ds_ip := e\<rparr>) = weather_inv s"
  by (simp_all add: weather_inv_def screen_inv_def shown_defs)

lemma render_both_forecasts:
  assumes "screen_inv s" and "today_shown s"
  shows "weather_inv (fold render_forecast [1, 2] s)"
proof -
  have 1: "screen_inv (render_forecast 1 s)" "forecast_shown 0 (render_forecast 1 s)" "today_shown (render_forecast 1 s)"
    using render_forecast_shown [OF assms(1), of 0] assms(2) by simp_all
  have "screen_inv (render_forecast 2 (render_forecast 1 s)) \<and> forecast_shown 1 (render_forecast 2 (render_forecast 1 s)) \<and>
      forecast_shown 0 (render_forecast 2 (render_forecast 1 s)) \<and> today_shown (render_forecast 2 (render_forecast 1 s))"
    using render_forecast_shown [OF 1(1), of 1 0] 1(2,3) by simp
  then show ?thesis by (simp add: weather_inv_def)
qed

lemma unit_toggle_inv:
  assumes "weather_inv s"
  shows "weather_inv (unit_toggle_cb now s)"
proof -
  let ?s = "s\<lparr>ds_unit_ms := now, ds_fahrenheit := \<not> ds_fahrenheit s\<rparr>"
  have "screen_inv ?s" using assms by (simp add: weather_inv_def screen_inv_fields)
  then have "weather_inv (fold render_forecast [1, 2] (render_today ?s))"
    using render_today_shown [of ?s 0] by (intro render_both_forecasts) simp_all
  with assms show ?thesis by (simp add: unit_toggle_cb_def)
qed

lemma weather_today_inv: "weather_inv s \<Longrightarrow> weather_inv (render_weather_today temp conditions high low s)"
proof -
  assume inv: "weather_inv s"
  let ?s = "s\<lparr>ds_today := \<lparr>tw_temp = temp, tw_high = high, tw_low = low,
       tw_cond = fit 32 (or_default conditions []), tw_valid = True\<rparr>\<rparr>"
  have "screen_inv ?s" "forecast_shown 0 ?s" "forecast_shown 1 ?s"
    using inv by (simp_all add: weather_inv_def screen_inv_fields shown_defs)
  with render_today_shown [of ?s 0] render_today_shown [of ?s 1] show ?thesis
    by (simp add: render_weather_today_def weather_inv_def)
qed

lemma weather_day_inv: "weather_inv s \<Longrightarrow> weather_inv (render_weather_day idx label high low conditions s)"
proof (cases "idx < 0 \<or> idx > 1")
  case True
  assume "weather_inv s"
  with True show ?thesis by (simp add: render_weather_day_def)
next
  case False
  assume inv: "weather_inv s"
  define k where "k = nat idx"
  have k: "k < 2" "idx = int k" using False by (auto simp: k_def)
  let ?s = "s\<lparr>ds_forecast := (ds_forecast s)[k := \<lparr>fw_high = high, fw_low = low, fw_label = fit 4 (or_default label []),
        fw_cond = fit 26 (or_default conditions []), fw_valid = True\<rparr>]\<rparr>"
  have s: "screen_inv ?s" "today_shown ?s" "\<And>i. i \<noteq> k \<Longrightarrow> i < 2 \<Longrightarrow> forecast_shown i ?s"
    using inv by (auto simp: weather_inv_def screen_inv_fields shown_defs less_2_cases_iff)
  have "forecast_shown i (render_forecast (int k + 1) ?s)" if "i < 2" for i
    using render_forecast_shown [OF s(1) k(1), of i] s(3) [of i] that by (cases "i = k") simp_all
  then have "forecast_shown 0 (render_forecast (int k + 1) ?s)" "forecast_shown 1 (render_forecast (int k + 1) ?s)"
    by simp_all
  with render_forecast_shown [OF s(1) k(1), of 0] s(2) have "weather_inv (render_forecast (int k + 1) ?s)"
    by (simp add: weather_inv_def)
  with k show ?thesis by (auto simp: render_weather_day_def)
qed

lemma refresh_popup_inv: "weather_inv s \<Longrightarrow> weather_inv (refresh_popup_content s)"
  by (auto simp: refresh_popup_content_def when_made_def weather_objs_def intro!: plain_calls_inv)

lemma status_click_inv: "weather_inv s \<Longrightarrow> weather_inv (status_click_cb now s)"
  by (auto simp: status_click_cb_def Let_def weather_inv_fields weather_objs_def intro!: plain_calls_inv refresh_popup_inv)

lemma popup_close_inv: "weather_inv s \<Longrightarrow> weather_inv (popup_close_cb now s)"
  by (auto simp: popup_close_cb_def when_made_def Let_def weather_inv_fields weather_objs_def intro!: plain_calls_inv)

lemma service_weather: "weather_inv s \<Longrightarrow> weather_inv (display_service clicks s)"
proof -
  have "weather_inv s \<Longrightarrow> weather_inv (handle_click c s)" for c s
    by (cases c) (simp_all add: unit_toggle_inv status_click_inv popup_close_inv)
  then show "weather_inv s \<Longrightarrow> weather_inv (display_service clicks s)"
    by (induction clicks arbitrary: s) (simp_all add: display_service_def)
qed

lemma screen_change_inv:
  assumes "weather_inv s" and "list_all plain_call cs"
    and "scr = (case st of Daily_view \<Rightarrow> Scr_daily | Doorbell_interrupt \<Rightarrow> Scr_doorbell)"
  shows "weather_inv (do_calls (cs @ [Scr_load scr]) (s\<lparr>ds_state := st\<rparr>))"
proof -
  have "weather_inv (do_calls cs s)" using assms by (simp add: plain_calls_inv)
  moreover have "do_calls (cs @ [Scr_load scr]) (s\<lparr>ds_state := st\<rparr>) = do_calls [Scr_load scr] ((do_calls cs s)\<lparr>ds_state := st\<rparr>)"
    by (simp add: do_calls_def)
  ultimately show ?thesis
    using assms(3) by (simp add: weather_inv_def screen_inv_def shown_defs list_all_iff made_Cons)
qed

lemma init_stored: "list_all (\<lambda>w. w \<in> set (map fst (places (init_calls touch_ok)))) stored"
  by (simp add: places_def init_defs stored_def del: set_map)

lemma init_weather: "display_init begin_rc touch_ok display_boot = Some s \<Longrightarrow> weather_inv s"
proof -
  assume init: "display_init begin_rc touch_ok display_boot = Some s"
  have "list_all (\<lambda>w. made w (rev (init_calls touch_ok))) stored"
    using init_stored [of touch_ok] by (simp add: made_places list_all_iff)
  moreover have "loaded_screen (rev (init_calls touch_ok)) = Some Scr_daily"
    by (simp add: init_calls_def)
  moreover have "s = (do_calls (init_calls touch_ok) display_boot)\<lparr>ds_state := Daily_view\<rparr>"
    using init by (simp add: display_init_def split: if_splits)
  ultimately show ?thesis
    by (simp add: weather_inv_def screen_inv_def shown_defs display_boot_def)
qed

lemma step_weather: "display_step s s1 \<Longrightarrow> weather_inv s \<Longrightarrow> weather_inv s1"
proof (induction rule: display_step.induct)
  case (service s clicks)
  then show ?case by (rule service_weather)
next
  case (daily s)
  from screen_change_inv [OF daily, of "[]" Scr_daily Daily_view] show ?case by (simp add: render_daily_view_def)
next
  case (today s temp conditions high low)
  then show ?case by (rule weather_today_inv)
next
  case (day s idx label high low conditions)
  then show ?case by (rule weather_day_inv)
next
  case (calendar s events)
  then show ?case
    by (auto simp: render_calendar_section_def when_made_def weather_objs_def intro!: plain_calls_inv)
next
  case (sysmon s temp humidity)
  then show ?case
    by (auto simp: display_update_sysmon_def when_made_def weather_objs_def intro!: plain_calls_inv)
next
  case (doorbell s timeout_seconds)
  have "list_all plain_call (when_made s Popup (Add_flag Popup Flag_hidden) @
      when_made s Lbl_doorbell (Set_text Lbl_doorbell (doorbell_text timeout_seconds)))"
    by (simp add: when_made_def weather_objs_def)
  from screen_change_inv [OF doorbell this, of Scr_doorbell Doorbell_interrupt] show ?case
    by (simp add: render_doorbell_interrupt_def)
next
  case (dismiss s)
  from screen_change_inv [OF dismiss, of "[]" Scr_daily Daily_view] show ?case by (simp add: dismiss_doorbell_def)
next
  case (indicators s wifi_ok ws_ok data_ok)
  then show ?case
    by (auto simp: display_update_indicators_def when_made_def weather_objs_def intro!: plain_calls_inv)
next
  case (detail s wifi_ok ip ws_ok data_ok data_age)
  then show ?case
    by (simp add: display_update_status_detail_def Let_def refresh_popup_inv weather_inv_fields)
next
  case (clock s h m)
  then show ?case
    by (auto simp: display_update_clock_def when_made_def weather_objs_def intro!: plain_calls_inv)
next
  case (touched contacts s point s1)
  then show ?case by (auto simp: touch_read_cb_def weather_inv_fields Let_def split: if_splits)
qed

section \<open>The popup\<close>

text \<open>While the status popup is visible it shows the status stored last.\<close>

definition popup_shown :: "display \<Rightarrow> bool" where
  "popup_shown s \<longleftrightarrow> length (ds_ip s) \<le> 19 \<and>
     (is_hidden Popup (ds_lv s) \<or> shown_text Popup_content (ds_lv s) = Some (popup_text s))"

definition quiet_call :: "lv_call \<Rightarrow> bool" where
  "quiet_call c \<longleftrightarrow> text_by Popup_content c = None \<and> hidden_by Popup c = None"

lemma popup_text_cong:
  "ds_wifi_ok s1 = ds_wifi_ok s \<Longrightarrow> ds_ip s1 = ds_ip s \<Longrightarrow> ds_ws_ok s1 = ds_ws_ok s \<Longrightarrow> ds_data_age s1 = ds_data_age s \<Longrightarrow>
   popup_text s1 = popup_text s"
  by (simp add: popup_text_def)

lemma popup_text_calls [simp]: "popup_text (do_calls cs s) = popup_text s"
  by (rule popup_text_cong) simp_all

lemma quiet_calls: "list_all quiet_call cs \<Longrightarrow> popup_shown (do_calls cs s) = popup_shown s"
proof -
  have "list_all quiet_call cs \<Longrightarrow> shown_text Popup_content (rev cs @ lv) = shown_text Popup_content lv \<and>
      is_hidden Popup (rev cs @ lv) = is_hidden Popup lv" for lv
    by (induction cs arbitrary: lv) (simp_all add: quiet_call_def del: call_defs)
  then show "list_all quiet_call cs \<Longrightarrow> popup_shown (do_calls cs s) = popup_shown s"
    by (simp add: popup_shown_def)
qed

lemma when_made_other: "list_all P (when_made s w c) \<longleftrightarrow> \<not> made w (ds_lv s) \<or> P c"
  by (simp add: when_made_def)

lemma popup_fields [simp]:
  "popup_shown (s\<lparr>ds_state := a\<rparr>) = popup_shown s" "popup_shown (s\<lparr>ds_today := b\<rparr>) = popup_shown s"
  "popup_shown (s\<lparr>ds_forecast := c\<rparr>) = popup_shown s" "popup_shown (s\<lparr>ds_last_point := q\<rparr>) = popup_shown s"
  "popup_shown (s\<lparr>ds_unit_ms := d, ds_fahrenheit := e\<rparr>) = popup_shown s"
  "popup_shown (s\<lparr>ds_status_ms := d\<rparr>) = popup_shown s" "popup_shown (s\<lparr>ds_close_ms := d\<rparr>) = popup_shown s"
  by (simp_all add: popup_shown_def popup_text_def)

lemma popup_render [simp]:
  "popup_shown (render_today s) = popup_shown s" "popup_shown (render_forecast k s) = popup_shown s"
  by (simp_all add: render_today_def render_forecast_def Let_def when_made_other quiet_calls quiet_call_def)

lemma popup_keeps [simp]:
  "popup_shown (render_daily_view s) = popup_shown s"
  "popup_shown (render_weather_today t c hi lo s) = popup_shown s"
  "popup_shown (render_weather_day idx l hi lo c s) = popup_shown s"
  "popup_shown (render_calendar_section ev s) = popup_shown s"
  "popup_shown (display_update_sysmon t hum s) = popup_shown s"
  "popup_shown (dismiss_doorbell s) = popup_shown s"
  "popup_shown (display_update_indicators x y z s) = popup_shown s"
  "popup_shown (display_update_clock h m s) = popup_shown s"
  by (simp_all add: render_daily_view_def render_weather_today_def render_weather_day_def render_calendar_section_def
      display_update_sysmon_def dismiss_doorbell_def display_update_indicators_def display_update_clock_def
      when_made_other quiet_calls quiet_call_def)

lemma popup_refresh:
  assumes "weather_inv s" and "length (ds_ip s) \<le> 19"
  shows "popup_shown (do_calls cs (refresh_popup_content s)) \<longleftrightarrow>
    popup_shown (do_calls (Set_text Popup_content (popup_text s) # cs) s)"
  using assms by (simp add: refresh_popup_content_def when_stored weather_inv_def stored_def do_calls_def)

lemma popup_click: "weather_inv s \<Longrightarrow> popup_shown s \<Longrightarrow> popup_shown (handle_click c s)"
proof (cases c)
  case (Click_status now)
  assume inv: "weather_inv s" "popup_shown s"
  let ?s = "s\<lparr>ds_status_ms := now\<rparr>"
  have "weather_inv ?s" using inv(1) by (simp add: weather_inv_fields)
  moreover have ip: "length (ds_ip ?s) \<le> 19" using inv(2) by (simp add: popup_shown_def)
  moreover have "popup_shown (do_calls (Set_text Popup_content (popup_text ?s) # cs) ?s)"
    if "cs = [] \<or> cs = [Remove_flag Popup Flag_hidden, Move_foreground Popup]" for cs
    using ip that by (auto simp: popup_shown_def)
  ultimately show ?thesis
    using inv(2) Click_status by (simp add: status_click_cb_def popup_refresh Let_def)
next
  case (Click_close now)
  assume inv: "weather_inv s" "popup_shown s"
  let ?s = "s\<lparr>ds_close_ms := now\<rparr>"
  have "weather_inv ?s" using inv(1) by (simp add: weather_inv_fields)
  then have "when_made ?s Popup (Add_flag Popup Flag_hidden) = [Add_flag Popup Flag_hidden]"
    by (simp add: when_stored weather_inv_def stored_def)
  then show ?thesis using inv(2) Click_close by (simp add: popup_close_cb_def popup_shown_def Let_def)
qed (simp add: unit_toggle_cb_def)

definition display_inv :: "display \<Rightarrow> bool" where
  "display_inv s \<longleftrightarrow> weather_inv s \<and> popup_shown s"

lemma display_inv_screen: "display_inv s \<Longrightarrow> screen_inv s"
  by (simp add: display_inv_def weather_inv_def)

lemma display_service_inv: "display_inv s \<Longrightarrow> display_inv (display_service clicks s)"
proof -
  have "display_inv (handle_click c s)" if "display_inv s" for c s
    using that service_weather [of s "[c]"] by (simp add: display_inv_def popup_click display_service_def)
  then show "display_inv s \<Longrightarrow> display_inv (display_service clicks s)"
    by (induction clicks arbitrary: s) (simp_all add: display_service_def)
qed

lemma popup_detail:
  assumes "weather_inv s"
  shows "popup_shown (display_update_status_detail wifi_ok ip ws_ok data_ok data_age s)"
proof -
  define s1 where "s1 = s\<lparr>ds_wifi_ok := wifi_ok, ds_ws_ok := ws_ok, ds_data_ok := data_ok, ds_data_age := data_age,
      ds_ip := fit 20 (or_default ip [])\<rparr>"
  have s1: "weather_inv s1" "length (ds_ip s1) \<le> 19"
    using assms by (simp_all add: s1_def weather_inv_fields fit_def)
  then have "made Popup (ds_lv s1)" "when_made s1 Popup_content c = [c]" for c
    by (simp_all add: weather_inv_def stored_made when_stored stored_def)
  then show ?thesis
    using s1(2) unfolding display_update_status_detail_def s1_def [symmetric] Let_def
    by (simp add: refresh_popup_content_def popup_shown_def)
qed

lemma popup_step:
  assumes "display_step s s1" and "display_inv s"
  shows "popup_shown s1"
  using assms(1)
proof (cases rule: display_stepE)
  case (doorbell n)
  with display_inv_screen [OF assms(2)] assms(2) show ?thesis
    by (simp add: render_doorbell_interrupt_def when_stored stored_def display_inv_def popup_shown_def)
next
  case (service clicks)
  with display_service_inv [OF assms(2)] show ?thesis by (simp add: display_inv_def)
next
  case (detail wifi_ok ip ws_ok data_ok data_age)
  with assms(2) show ?thesis by (simp add: display_inv_def popup_detail)
next
  case (touched contacts point)
  with assms(2) show ?thesis by (auto simp: display_inv_def touch_read_cb_def Let_def split: if_splits)
qed (use assms(2) in \<open>simp_all add: display_inv_def\<close>)

lemma display_step_inv: "display_step s s1 \<Longrightarrow> display_inv s \<Longrightarrow> display_inv s1"
  using popup_step step_weather by (auto simp: display_inv_def)

lemma display_init_inv: "display_init begin_rc touch_ok display_boot = Some s \<Longrightarrow> display_inv s"
proof -
  assume init: "display_init begin_rc touch_ok display_boot = Some s"
  then have "s = (do_calls (init_calls touch_ok) display_boot)\<lparr>ds_state := Daily_view\<rparr>"
    by (simp add: display_init_def split: if_splits)
  moreover have "is_hidden Popup (rev (init_calls touch_ok))"
    by (simp only: hidden_calls) (simp add: init_defs)
  ultimately have "popup_shown s" by (simp add: popup_shown_def display_boot_def)
  with init_weather [OF init] show ?thesis by (simp add: display_inv_def)
qed

lemma display_reachable_inv: "display_reachable s \<Longrightarrow> display_inv s"
  by (induction rule: display_reachable.induct) (auto intro: display_init_inv display_step_inv)

section \<open>What is on the screen\<close>

text \<open>
  (C6) In every state the display can reach, whatever the order of commands, clicks and updates: the
  screen loaded is the daily view or the doorbell screen as the state says; and once a weather report
  or a forecast was rendered, its labels show the cached values in the unit chosen last, its icon and
  its card have the color of the cached conditions, and the forecast shows its day and conditions.
\<close>

theorem display_shows_weather:
  assumes "display_reachable s"
  shows "loaded_screen (ds_lv s) = Some (case ds_state s of Daily_view \<Rightarrow> Scr_daily | Doorbell_interrupt \<Rightarrow> Scr_doorbell) \<and>
    today_shown s \<and> forecast_shown 0 s \<and> forecast_shown 1 s"
  using display_reachable_inv [OF assms] by (simp add: display_inv_def weather_inv_def screen_inv_def)

definition sample_display :: display where
  "sample_display = unit_toggle_cb 1000 (render_weather_today (f32_nat 20) (Some (bytes_of ''sunny'')) (f32_nat 25)
     (f32_nat 10) ((do_calls (init_calls True) display_boot)\<lparr>ds_state := Daily_view\<rparr>))"

theorem display_shows_weather_witness:
  "shown_text Wx_cur (ds_lv sample_display) = Some (wx_text '''' True (f32_nat 20))"
proof -
  let ?s0 = "(do_calls (init_calls True) display_boot)\<lparr>ds_state := Daily_view\<rparr>"
  let ?s1 = "render_weather_today (f32_nat 20) (Some (bytes_of ''sunny'')) (f32_nat 25) (f32_nat 10) ?s0"
  have "display_reachable ?s0" by (rule started [of 0 True]) (simp add: display_init_def)
  then have "display_reachable ?s1" by (rule stepped) (rule display_step.today)
  moreover have "display_service [Click_weather 1000] ?s1 = sample_display"
    by (simp add: display_service_def sample_display_def)
  ultimately have reach: "display_reachable sample_display"
    by (metis display_reachable.stepped display_step.service)
  have "tw_valid (ds_today sample_display) \<and> tw_temp (ds_today sample_display) = f32_nat 20 \<and> ds_fahrenheit sample_display"
    by (simp add: sample_display_def unit_toggle_cb_def render_weather_today_def render_today_def render_forecast_def
        display_boot_def Let_def)
  with display_shows_weather [OF reach] show ?thesis by (simp add: today_shown_def Let_def)
qed

section \<open>The status popup\<close>

text \<open>The whole text of the popup, before it is cut to its buffer.\<close>

definition status_lines :: "display \<Rightarrow> bytes" where
  "status_lines s =
     bytes_of ''WiFi:   '' @ (if ds_wifi_ok s then bytes_of ''Connected'' else bytes_of ''Down'') @ [10] @
     bytes_of ''IP:     '' @ (if ds_ip s \<noteq> [] then ds_ip s else bytes_of ''--'') @ [10] @
     bytes_of ''Server: '' @ (if ds_ws_ok s then bytes_of ''Connected'' else bytes_of ''Down'') @ [10] @
     bytes_of ''Data:   '' @ (if ds_data_age s = 0 then bytes_of ''No data yet''
       else if ds_data_age s < 60 then dec (unat (ds_data_age s)) @ bytes_of ''s ago''
       else dec (unat (ds_data_age s div 60)) @ bytes_of ''m ago'') @ [10] @
     bytes_of ''FW:     '' @ FIRMWARE_VERSION"

lemma fit_short: "length t < n \<Longrightarrow> fit n t = t"
  by (simp add: fit_def)

lemma length_dec_u32: "length (dec (unat (w :: u32))) \<le> 10"
proof -
  have "unat w < 2 ^ 32" by (rule order_less_le_trans [OF unsigned_less]) simp
  also have "(2 :: nat) ^ 32 < 10 ^ Suc 9" by simp
  finally have "unat w < 10 ^ Suc 9" .
  from length_dec [OF this] show ?thesis by simp
qed

lemma popup_text_whole: "length (ds_ip s) \<le> 19 \<Longrightarrow> popup_text s = status_lines s"
proof -
  assume ip: "length (ds_ip s) \<le> 19"
  let ?age = "if ds_data_age s = 0 then bytes_of ''No data yet''
    else if ds_data_age s < 60 then dec (unat (ds_data_age s)) @ bytes_of ''s ago''
    else dec (unat (ds_data_age s div 60)) @ bytes_of ''m ago''"
  have age: "length ?age \<le> 16"
    using length_dec_u32 [of "ds_data_age s"] length_dec_u32 [of "ds_data_age s div 60"] by (simp add: bytes_of_def)
  then have str: "data_str (ds_data_age s) = ?age" unfolding data_str_def by (intro fit_short) simp
  have word: "length (if b then bytes_of ''Connected'' else bytes_of ''Down'') \<le> 9" for b
    by (simp add: bytes_of_def)
  have "length (if ds_ip s \<noteq> [] then ds_ip s else bytes_of ''--'') \<le> 19"
    using ip by (simp add: bytes_of_def)
  with age word [of "ds_wifi_ok s"] word [of "ds_ws_ok s"] have "length (status_lines s) < 220"
    unfolding status_lines_def FIRMWARE_VERSION_def length_append bytes_of_def length_map by (simp only: list.size)
  then show ?thesis
    using fit_short [of "status_lines s" 220] by (simp add: popup_text_def str status_lines_def)
qed


lemma status_click_opens:
  "display_inv s \<Longrightarrow> 300 \<le> now - ds_status_ms s \<Longrightarrow> \<not> is_hidden Popup (ds_lv (status_click_cb now s))"
proof -
  assume s: "display_inv s" "300 \<le> now - ds_status_ms s"
  have "weather_inv (s\<lparr>ds_status_ms := now\<rparr>)" using s(1) by (simp add: display_inv_def weather_inv_fields)
  then have "screen_inv (s\<lparr>ds_status_ms := now\<rparr>)" by (simp add: weather_inv_def)
  from stored_made [OF this, of Popup] have "made Popup (ds_lv (s\<lparr>ds_status_ms := now\<rparr>))" by (simp add: stored_def)
  with leD [OF s(2)] show ?thesis by (simp add: status_click_cb_def Let_def)
qed


end
