(* ===== verification/Panel_Safety.thy ===== *)
theory Panel_Safety
  imports Panel_Loop Display_Properties Ota_Server_Properties
begin

text \<open>
  The invariant of the panel's main program: the display's invariant, the calendar buffer and its
  length, and no announced frame between two calls of \<open>loop\<close>; every call keeps it and returns.
\<close>

section \<open>The display under the main loop\<close>

lemma ds_state_fold: "(\<And>c s. ds_state (f c s) = ds_state s) \<Longrightarrow> ds_state (fold f cs s) = ds_state s"
  by (induction cs arbitrary: s) simp_all

lemma ds_state_render [simp]:
  "ds_state (render_today s) = ds_state s" "ds_state (render_forecast c s) = ds_state s"
  "ds_state (refresh_popup_content s) = ds_state s"
  by (simp_all add: render_today_def render_forecast_def refresh_popup_content_def Let_def)

lemma ds_state_click: "ds_state (handle_click c s) = ds_state s"
  by (cases c) (simp_all add: unit_toggle_cb_def status_click_cb_def popup_close_cb_def Let_def)

lemma ds_state_keeps [simp]:
  "ds_state (display_service clicks s) = ds_state s"
  "ds_state (render_weather_today t c hi lo s) = ds_state s"
  "ds_state (render_weather_day idx l hi lo c s) = ds_state s"
  "ds_state (render_calendar_section ev s) = ds_state s"
  "ds_state (display_update_sysmon t hum s) = ds_state s"
  "ds_state (display_update_indicators a b d s) = ds_state s"
  "ds_state (display_update_status_detail a ip b d age s) = ds_state s"
  "ds_state (display_update_clock h m s) = ds_state s"
  by (simp_all add: display_service_def ds_state_fold ds_state_click render_weather_today_def render_weather_day_def
      render_calendar_section_def display_update_sysmon_def display_update_indicators_def
      display_update_status_detail_def display_update_clock_def Let_def)

lemma ds_state_screens [simp]:
  "ds_state (render_doorbell_interrupt n s) = Doorbell_interrupt" "ds_state (dismiss_doorbell s) = Daily_view"
  by (simp_all add: render_doorbell_interrupt_def dismiss_doorbell_def)

lemmas step_inv = display_step.intros [THEN display_step_inv]

text \<open>The texts of the calendar and of the clock, which one function each changes.\<close>

definition label_text :: "panel_obj \<Rightarrow> display \<Rightarrow> bytes option" where
  "label_text w d = shown_text w (ds_lv d)"

abbreviation cal_label :: "display \<Rightarrow> bytes option" where
  "cal_label \<equiv> label_text Lbl_calendar"

abbreviation clock_label :: "display \<Rightarrow> bytes option" where
  "clock_label \<equiv> label_text Lbl_clock"

definition apart :: "panel_obj \<Rightarrow> bool" where
  "apart w \<longleftrightarrow> w = Lbl_calendar \<or> w = Lbl_clock"

lemma apart_labels [simp]: "apart Lbl_calendar" "apart Lbl_clock"
  by (simp_all add: apart_def)

lemma label_calls [simp]:
  "list_all (\<lambda>c. text_by w c = None) cs \<Longrightarrow> label_text w (do_calls cs s) = label_text w s"
proof -
  have "list_all (\<lambda>c. text_by w c = None) cs \<Longrightarrow> shown_text w (rev cs @ lv) = shown_text w lv"
    for lv by (induction cs arbitrary: lv) (simp_all del: call_defs)
  then show "list_all (\<lambda>c. text_by w c = None) cs \<Longrightarrow> label_text w (do_calls cs s) = label_text w s"
    by (simp add: label_text_def del: call_defs)
qed

lemma label_fields [simp]:
  "label_text w (s\<lparr>ds_state := a\<rparr>) = label_text w s" "label_text w (s\<lparr>ds_today := b\<rparr>) = label_text w s"
  "label_text w (s\<lparr>ds_forecast := c\<rparr>) = label_text w s" "label_text w (s\<lparr>ds_unit_ms := d\<rparr>) = label_text w s"
  "label_text w (s\<lparr>ds_fahrenheit := e\<rparr>) = label_text w s" "label_text w (s\<lparr>ds_status_ms := d\<rparr>) = label_text w s"
  "label_text w (s\<lparr>ds_close_ms := d\<rparr>) = label_text w s" "label_text w (s\<lparr>ds_ip := f\<rparr>) = label_text w s"
  "label_text w (s\<lparr>ds_data_age := d\<rparr>) = label_text w s" "label_text w (s\<lparr>ds_data_ok := e\<rparr>) = label_text w s"
  "label_text w (s\<lparr>ds_ws_ok := e\<rparr>) = label_text w s" "label_text w (s\<lparr>ds_wifi_ok := e\<rparr>) = label_text w s"
  by (simp_all add: label_text_def)

lemma label_render [simp]:
  assumes "apart w"
  shows "label_text w (render_today s) = label_text w s" "label_text w (render_forecast k s) = label_text w s"
    "label_text w (refresh_popup_content s) = label_text w s"
  using assms
  by (auto simp: apart_def render_today_def render_forecast_def refresh_popup_content_def Let_def when_made_other)

lemma label_click: "apart w \<Longrightarrow> label_text w (handle_click c s) = label_text w s"
  by (cases c) (simp_all add: unit_toggle_cb_def status_click_cb_def popup_close_cb_def Let_def when_made_other)

lemma label_service [simp]: "apart w \<Longrightarrow> label_text w (display_service clicks s) = label_text w s"
  unfolding display_service_def by (induction clicks arbitrary: s) (simp_all add: label_click)

lemma label_keeps [simp]:
  assumes "apart w"
  shows "label_text w (render_weather_today t c hi lo s) = label_text w s"
    "label_text w (render_weather_day idx l hi lo c s) = label_text w s"
    "label_text w (display_update_sysmon t hum s) = label_text w s"
    "label_text w (render_doorbell_interrupt n s) = label_text w s"
    "label_text w (dismiss_doorbell s) = label_text w s"
    "label_text w (display_update_indicators x y z s) = label_text w s"
    "label_text w (display_update_status_detail x ip y z age s) = label_text w s"
  using assms
  by (auto simp: apart_def render_weather_today_def render_weather_day_def display_update_sysmon_def
      render_doorbell_interrupt_def dismiss_doorbell_def display_update_indicators_def
      display_update_status_detail_def Let_def when_made_other)

lemma label_of_the_other [simp]:
  "cal_label (display_update_clock h m s) = cal_label s" "clock_label (render_calendar_section ev s) = clock_label s"
  by (simp_all add: display_update_clock_def render_calendar_section_def when_made_other)

lemma cal_label_calendar: "display_inv s \<Longrightarrow> cal_label (render_calendar_section (Some t) s) = Some t"
  by (simp add: render_calendar_section_def label_text_def when_stored display_inv_screen stored_def or_default_def)

definition clock_face :: "nat \<Rightarrow> nat \<Rightarrow> bytes" where
  "clock_face h m = dec2 h @ [58] @ dec2 m"

lemma length_dec2: "n < 100 \<Longrightarrow> length (dec2 n) = 2"
proof -
  assume "n < 100"
  then have "n div 10 < 10" by (simp add: less_mult_imp_div_less)
  then show "length (dec2 n) = 2" by (simp add: dec2_def dec.simps)
qed

lemma clock_label_clock:
  "display_inv s \<Longrightarrow> h < 24 \<Longrightarrow> m < 60 \<Longrightarrow> clock_label (display_update_clock h m s) = Some (clock_face h m)"
  by (simp add: display_update_clock_def label_text_def when_stored display_inv_screen stored_def fit_def
      clock_face_def length_dec2)

text \<open>The display, serviced while the panel waits for the WiFi, meets the contract of the pump.\<close>

interpretation serviced: pump_contract "\<lambda>n i. display_service (clicks n i)"
  "\<lambda>d. display_inv d \<and> ds_state d = st \<and> cal_label d = label \<and> clock_label d = face"
  for clicks st label face
  by unfold_locales (simp add: display_service_inv)

section \<open>The calendar buffer\<close>

definition cal_holds :: "bytes \<Rightarrow> panel \<Rightarrow> bool" where
  "cal_holds t s \<longleftrightarrow> pn_cal s = t @ replicate (512 - length t) 0 \<and> 0 \<notin> set t \<and> length t \<le> 511 \<and>
     (if length t < 511 then pn_cal_len s = int (length t) else 511 \<le> pn_cal_len s)"

lemma cal_holds_fields [simp]:
  "cal_holds t (s\<lparr>pn_display := a0\<rparr>) = cal_holds t s"
  "cal_holds t (s\<lparr>pn_ws := a1\<rparr>) = cal_holds t s"
  "cal_holds t (s\<lparr>pn_bell_start := a2\<rparr>) = cal_holds t s"
  "cal_holds t (s\<lparr>pn_bell_timeout := a3\<rparr>) = cal_holds t s"
  "cal_holds t (s\<lparr>pn_data_rx := a4\<rparr>) = cal_holds t s"
  "cal_holds t (s\<lparr>pn_offset := a5\<rparr>) = cal_holds t s"
  "cal_holds t (s\<lparr>pn_rtc_synced := a6\<rparr>) = cal_holds t s"
  "cal_holds t (s\<lparr>pn_hhmm := a7\<rparr>) = cal_holds t s"
  "cal_holds t (s\<lparr>pn_indicator := a8\<rparr>) = cal_holds t s"
  "cal_holds t (s\<lparr>pn_ws_attempt := a9\<rparr>) = cal_holds t s"
  by (simp_all add: cal_holds_def)

lemma c_string_padded: "0 \<notin> set t \<Longrightarrow> length t < n \<Longrightarrow> c_string (t @ replicate (n - length t) 0) = t"
proof -
  assume t: "0 \<notin> set t" "length t < n"
  then obtain k where "n - length t = Suc k" using less_imp_Suc_add by (metis Suc_diff_Suc)
  moreover have "\<forall>x \<in> set t. x \<noteq> 0" using t(1) by auto
  ultimately show ?thesis by (simp add: c_string_def)
qed

lemma strncat_end:
  assumes "0 \<notin> set t" and "length t < 512" and "length (take n line) < 512 - length t"
  shows "strncat_at (t @ replicate (512 - length t) 0) (length t) line n =
    Some ((t @ take n line) @ replicate (512 - length (t @ take n line)) 0)"
proof -
  have none: "takeWhile (\<lambda>c. c \<noteq> 0) (replicate k (0 :: u8)) = []" for k by (cases k) simp_all
  have "[0 :: u8] @ replicate k 0 = replicate (Suc k) 0" for k by simp
  moreover have "512 - length (t @ take n line) = Suc (512 - (length t + length (take n line @ [0])))"
    using assms(2,3) by simp
  ultimately show ?thesis
    using assms(3) by (simp add: strncat_at_def none Let_def)
qed

lemma cal_append_holds:
  assumes "cal_holds t s" and "0 \<notin> set line"
  shows "\<exists>buf len. cal_append line s = Some (s\<lparr>pn_cal := buf, pn_cal_len := len\<rparr>) \<and>
    cal_holds (take 511 (t @ line)) (s\<lparr>pn_cal := buf, pn_cal_len := len\<rparr>)"
proof (cases "length t < 511")
  case False
  with assms have "pn_cal_len s \<ge> 511" "length t = 511" by (simp_all add: cal_holds_def)
  then have "cal_append line s = Some (s\<lparr>pn_cal := pn_cal s, pn_cal_len := pn_cal_len s\<rparr>)"
    by (simp add: cal_append_def)
  moreover have "take 511 (t @ line) = t" using \<open>length t = 511\<close> by simp
  ultimately show ?thesis
    using assms(1) by (intro exI [of _ "pn_cal s"] exI [of _ "pn_cal_len s"]) simp
next
  case True
  let ?n = "511 - length t"
  have s: "pn_cal s = t @ replicate (512 - length t) 0" "pn_cal_len s = int (length t)" "0 \<notin> set t"
    using assms(1) True by (simp_all add: cal_holds_def)
  have rem: "nat (511 - int (length t)) = ?n" using True by linarith
  have "strncat_at (pn_cal s) (length t) line ?n =
      Some ((t @ take ?n line) @ replicate (512 - length (t @ take ?n line)) 0)"
    unfolding s(1) using s(3) True by (intro strncat_end) simp_all
  then have "cal_append line s = Some (s\<lparr>pn_cal := (t @ take ?n line) @ replicate (512 - length (t @ take ?n line)) 0,
      pn_cal_len := int (length t) + int (length line)\<rparr>)"
    using True by (simp add: cal_append_def s(2) rem Let_def)
  moreover have cut: "take 511 (t @ line) = t @ take ?n line" using True by simp
  have "0 \<notin> set (t @ take ?n line)" using s(3) assms(2) by (auto dest: in_set_takeD)
  then have "cal_holds (take 511 (t @ line)) (s\<lparr>pn_cal := (t @ take ?n line) @ replicate (512 - length (t @ take ?n line)) 0,
      pn_cal_len := int (length t) + int (length line)\<rparr>)"
    using True unfolding cut by (auto simp: cal_holds_def)
  ultimately show ?thesis by blast
qed

lemma cal_line_no_nul: "0 \<notin> set summary \<Longrightarrow> 0 \<notin> set time_str \<Longrightarrow> 0 \<notin> set (cal_line summary time_str all_day)"
  by (auto simp: cal_line_def cal_date_def fit_def dest!: in_set_takeD in_set_dropD)

lemma cal_event_holds:
  assumes "cal_holds t s" and "0 \<notin> set summary" and "0 \<notin> set time_str"
  shows "\<exists>buf len. let t1 = take 511 ((if idx = 0 then [] else t) @ cal_line summary time_str all_day);
      s1 = s\<lparr>pn_cal := buf, pn_cal_len := len, pn_display := render_calendar_section (Some t1) (pn_display s)\<rparr> in
    cal_event idx summary time_str all_day s = Some s1 \<and> cal_holds t1 s1"
proof -
  define line where "line = cal_line summary time_str all_day"
  define t0 where "t0 = (if idx = 0 then [] else t)"
  define s0 where "s0 = (if idx = 0 then s\<lparr>pn_cal_len := 0, pn_cal := replicate 512 0\<rparr> else s)"
  have "cal_holds t0 s0" using assms(1) by (simp add: t0_def s0_def cal_holds_def)
  define t1 where "t1 = take 511 (t0 @ line)"
  obtain buf len where r: "cal_append line s0 = Some (s0\<lparr>pn_cal := buf, pn_cal_len := len\<rparr>)"
    and h: "cal_holds t1 (s0\<lparr>pn_cal := buf, pn_cal_len := len\<rparr>)"
    using cal_append_holds [OF \<open>cal_holds t0 s0\<close>, of line] cal_line_no_nul [OF assms(2,3), of all_day]
    by (auto simp: line_def t1_def)
  then have "c_string buf = t1" using c_string_padded [of t1 512] by (simp add: cal_holds_def)
  moreover have "s0\<lparr>pn_cal := buf, pn_cal_len := len\<rparr> = s\<lparr>pn_cal := buf, pn_cal_len := len\<rparr>"
    by (simp add: s0_def)
  ultimately show ?thesis
    using r h unfolding t0_def [symmetric] line_def [symmetric] t1_def [symmetric] Let_def
    by (intro exI [of _ buf] exI [of _ len])
      (simp only: cal_holds_fields, simp add: cal_event_def line_def [symmetric] s0_def [symmetric] Let_def)
qed

section \<open>The invariant\<close>

text \<open>The clock's label shows the hour and the minute that \<open>_last_clock_hhmm\<close> encodes.\<close>

definition clock_ok :: "int \<Rightarrow> bytes option \<Rightarrow> bool" where
  "clock_ok hhmm label \<longleftrightarrow> (if hhmm = - 1 then label = Some (bytes_of ''--:--'')
     else \<exists>h m. h < 24 \<and> m < 60 \<and> hhmm = int h * 100 + int m \<and> label = Some (clock_face h m))"

lemma clock_ok_shows:
  "clock_ok hhmm label \<Longrightarrow> h < 24 \<Longrightarrow> m < 60 \<Longrightarrow> hhmm = int h * 100 + int m \<Longrightarrow> label = Some (clock_face h m)"
proof -
  assume a: "clock_ok hhmm label" "h < 24" "m < 60" "hhmm = int h * 100 + int m"
  then obtain h' m' where b: "h' < 24" "m' < 60" "hhmm = int h' * 100 + int m'" "label = Some (clock_face h' m')"
    by (auto simp: clock_ok_def split: if_splits)
  then have same: "100 * int h' + int m' = 100 * int h + int m" using a(4) by simp
  then have "(100 * int h' + int m') mod 100 = (100 * int h + int m) mod 100" by simp
  then have "m' = m" using a(3) b(2) by simp
  with same b(4) show ?thesis by simp
qed

definition panel_inv :: "panel \<Rightarrow> bool" where
  "panel_inv s \<longleftrightarrow> display_inv (pn_display s) \<and> (\<exists>t. cal_holds t s) \<and> \<not> ws_ready (pn_ws s) \<and>
     clock_ok (pn_hhmm s) (clock_label (pn_display s))"

text \<open>Only these fields matter to the invariant.\<close>

lemma panel_inv_cong:
  "panel_inv s \<Longrightarrow> display_inv (pn_display s1) \<Longrightarrow> \<not> ws_ready (pn_ws s1) \<Longrightarrow>
   pn_cal s1 = pn_cal s \<Longrightarrow> pn_cal_len s1 = pn_cal_len s \<Longrightarrow> pn_hhmm s1 = pn_hhmm s \<Longrightarrow>
   clock_label (pn_display s1) = clock_label (pn_display s) \<Longrightarrow> panel_inv s1"
  by (auto simp: panel_inv_def cal_holds_def)

section \<open>Frames\<close>

text \<open>The command that a call of \<open>ws_loop\<close> hears, whatever the state.\<close>

definition heard :: "'d json \<Rightarrow> ws_rx \<Rightarrow> command option" where
  "heard J rx =
    (if wr_size rx \<le> 0 then None
     else parse_command_frame J (c_string
       (ws_read (nat (min (wr_size rx) (WS_BUF_SIZE - 1))) (wr_started rx) (wr_reads rx) [])))"

lemma ws_loop_heard:
  "ws_loop J rx w = (case heard J rx of None \<Rightarrow> w | Some c \<Rightarrow> w\<lparr>ws_frame := c, ws_ready := True\<rparr>)"
  by (auto simp: ws_loop_def heard_def Let_def split: option.splits)

lemma heard_ok: "heard J rx = Some c \<Longrightarrow> command_ok c"
  by (auto simp: heard_def intro: parse_command_ok split: if_splits)

lemma ws_send_memory_frame:
  assumes "ws_send_memory cap now conn me tx w = (evs, w1)"
  shows "ws_frame w1 = ws_frame w" and "ws_ready w1 = ws_ready w"
  using assms by (auto simp: ws_send_memory_def Let_def split: if_splits prod.splits)

lemma ws_send_hello_frame:
  assumes "ws_send_hello cap panel_id hostname post_ota tx w = (evs, w1)"
  shows "ws_frame w1 = ws_frame w" and "ws_ready w1 = ws_ready w"
  using assms by (auto simp: ws_send_hello_def Let_def split: if_splits prod.splits)

lemma handle_command_inv:
  assumes "panel_inv s" and "command_ok c"
  shows "\<exists>evs s1. handle_command c now s = Some (evs, s1) \<and> panel_inv s1"
proof (cases c)
  case (Cal_event idx summary time_str all_day)
  obtain t where t: "cal_holds t s" using assms(1) by (auto simp: panel_inv_def)
  have "0 \<notin> set summary" "0 \<notin> set time_str" using assms(2) Cal_event by (simp_all add: text_ok_def)
  from cal_event_holds [OF t this, of idx all_day] obtain buf len t1 where
    r: "cal_event idx summary time_str all_day s =
        Some (s\<lparr>pn_cal := buf, pn_cal_len := len, pn_display := render_calendar_section (Some t1) (pn_display s)\<rparr>)" and
    h: "cal_holds t1 (s\<lparr>pn_cal := buf, pn_cal_len := len, pn_display := render_calendar_section (Some t1) (pn_display s)\<rparr>)"
    by (auto simp: Let_def)
  with Cal_event assms(1) show ?thesis
    by (auto simp: panel_inv_def intro: step_inv(5) simp del: cal_holds_fields(1) intro!: exI [of _ t1])
qed (use assms(1) in \<open>auto intro!: panel_inv_cong [OF assms(1)] simp: panel_inv_def step_inv\<close>)

section \<open>The steps of the main loop\<close>

lemma wifi_step_inv:
  assumes "panel_inv s" and "pe_wifi_ok e \<or> (\<exists>n. pe_wifi_answers e n)"
  shows "\<exists>evs d. wifi_step e s = Some (evs, s\<lparr>pn_display := d\<rparr>) \<and> display_inv d \<and>
    ds_state d = ds_state (pn_display s) \<and> cal_label d = cal_label (pn_display s) \<and>
    clock_label d = clock_label (pn_display s) \<and> (\<forall>b. Ota (Updated b) \<notin> set evs)"
proof (cases "pe_wifi_ok e")
  case True
  with assms(1) show ?thesis
    by (intro exI [of _ "[]"] exI [of _ "pn_display s"]) (simp add: wifi_step_def panel_inv_def)
next
  case False
  then obtain n where n: "pe_wifi_answers e n" using assms(2) by blast
  have d: "display_inv (pn_display s) \<and> ds_state (pn_display s) = ds_state (pn_display s) \<and>
      cal_label (pn_display s) = cal_label (pn_display s) \<and> clock_label (pn_display s) = clock_label (pn_display s)"
    using assms(1) by (simp add: panel_inv_def)
  from serviced.wifi_connect_keeps [of "pe_wifi_answers e", OF n d, of "pe_wifi_clicks e"] False show ?thesis
    by (auto simp: wifi_step_def)
qed

lemma retry_step_cases:
  assumes "retry_step pc e s = (evs, s1)"
  shows "\<exists>w a b. s1 = s\<lparr>pn_ws := w, pn_ws_attempt := a, pn_data_rx := b\<rparr> \<and> ws_ready w = ws_ready (pn_ws s) \<and>
    (\<forall>b. Ota (Updated b) \<notin> set evs)"
proof (cases "\<not> pe_conn_retry e \<and> pe_t_retry e - pn_ws_attempt s \<ge> 5000")
  case False
  with assms show ?thesis
    by (intro exI [of _ "pn_ws s"] exI [of _ "pn_ws_attempt s"] exI [of _ "pn_data_rx s"]) (auto simp: retry_step_def)
next
  case True
  obtain hello w where h: "ws_send_hello (pc_tx_buffer pc) (pc_panel_id pc) (pc_hostname pc) False (pe_hello e) (pn_ws s) = (hello, w)"
    by (cases "ws_send_hello (pc_tx_buffer pc) (pc_panel_id pc) (pc_hostname pc) False (pe_hello e) (pn_ws s)")
  show ?thesis
  proof (cases "pe_begin e = 0")
    case started: True
    with True assms h ws_send_hello_frame [OF h] show ?thesis
      by (intro exI [of _ w] exI [of _ "pe_t_attempt e"] exI [of _ "pe_t_hello e"])
        (auto simp: retry_step_def ws_connect_def Let_def)
  next
    case failed: False
    with True assms show ?thesis
      by (intro exI [of _ "pn_ws s"] exI [of _ "pe_t_attempt e"] exI [of _ "pn_data_rx s"])
        (auto simp: retry_step_def ws_connect_def Let_def)
  qed
qed

text \<open>The frame step: what it hears decides, and no other field of the state.\<close>

lemma receive_step_cases:
  assumes "\<not> ws_ready (pn_ws s)"
  shows "\<exists>sent w. receive_step J pc e s =
    (case heard J (pe_rx e) of None \<Rightarrow> Some (map Sock sent, s\<lparr>pn_ws := w\<rparr>)
     | Some c \<Rightarrow> map_option (\<lambda>(evs, s2). (map Sock sent @ evs, s2)) (handle_command c (pe_t_frame e) (s\<lparr>pn_ws := w\<rparr>))) \<and>
    \<not> ws_ready w"
proof -
  obtain sent w where m: "ws_send_memory (pc_tx_buffer pc) (pe_uptime e) (pe_conn_report e) (pe_stats e) (pe_report e)
      (ws_loop J (pe_rx e) (pn_ws s)) = (sent, w)"
    by (cases "ws_send_memory (pc_tx_buffer pc) (pe_uptime e) (pe_conn_report e) (pe_stats e) (pe_report e)
      (ws_loop J (pe_rx e) (pn_ws s))")
  show ?thesis
  proof (cases "heard J (pe_rx e)")
    case None
    with m ws_send_memory_frame [OF m] assms show ?thesis
      by (intro exI [of _ sent] exI [of _ w]) (simp add: receive_step_def ws_loop_heard Let_def)
  next
    case (Some c)
    with m ws_send_memory_frame [OF m] show ?thesis
      by (intro exI [of _ sent] exI [of _ "w\<lparr>ws_ready := False\<rparr>"]) (simp add: receive_step_def ws_loop_heard Let_def)
  qed
qed

lemma handle_command_ota:
  "handle_command c now s = Some (evs, s1) \<Longrightarrow> Ota (Updated b) \<notin> set evs"
  by (cases c) (auto split: if_splits)

lemma receive_step_inv:
  assumes "panel_inv s"
  shows "\<exists>evs s1. receive_step J pc e s = Some (evs, s1) \<and> panel_inv s1 \<and> (\<forall>b. Ota (Updated b) \<notin> set evs)"
proof -
  have "\<not> ws_ready (pn_ws s)" using assms by (simp add: panel_inv_def)
  from receive_step_cases [OF this, of J pc e] obtain sent w where r: "receive_step J pc e s =
    (case heard J (pe_rx e) of None \<Rightarrow> Some (map Sock sent, s\<lparr>pn_ws := w\<rparr>)
     | Some c \<Rightarrow> map_option (\<lambda>(evs, s2). (map Sock sent @ evs, s2)) (handle_command c (pe_t_frame e) (s\<lparr>pn_ws := w\<rparr>)))"
    and w: "\<not> ws_ready w" by blast
  have inv: "panel_inv (s\<lparr>pn_ws := w\<rparr>)" using assms w by (intro panel_inv_cong [OF assms]) (simp_all add: panel_inv_def)
  show ?thesis
  proof (cases "heard J (pe_rx e)")
    case None
    with r inv show ?thesis by auto
  next
    case (Some c)
    from handle_command_inv [OF inv heard_ok [OF Some], of "pe_t_frame e"] obtain evs s1 where
      h: "handle_command c (pe_t_frame e) (s\<lparr>pn_ws := w\<rparr>) = Some (evs, s1)" "panel_inv s1" by blast
    with handle_command_ota [OF h(1)] r Some show ?thesis by auto
  qed
qed

lemma lift_inv:
  "(\<And>d. display_inv d \<Longrightarrow> display_inv (f d)) \<Longrightarrow> (\<And>d. clock_label (f d) = clock_label d) \<Longrightarrow> panel_inv s \<Longrightarrow>
   panel_inv (lift_display f s)"
  by (auto simp: lift_display_def panel_inv_def)

lemma panel_inv_fields:
  "panel_inv (s\<lparr>pn_bell_timeout := a\<rparr>) = panel_inv s" "panel_inv (s\<lparr>pn_indicator := c\<rparr>) = panel_inv s"
  by (simp_all add: panel_inv_def)

lemma bell_step_inv: "panel_inv s \<Longrightarrow> panel_inv (bell_step e s)"
  by (simp add: bell_step_def panel_inv_fields lift_inv step_inv)

text \<open>The clock step: afterwards the label is the time it read.\<close>

lemma clock_step_inv:
  assumes "panel_inv s"
  shows "panel_inv (clock_step e s) \<and> (pn_rtc_synced s \<longrightarrow>
    (case clock_fields (pe_time e + sint (pn_offset s) * 60) of (h, m, sec) \<Rightarrow>
       clock_label (pn_display (clock_step e s)) = Some (clock_face h m)))"
proof (cases "pn_rtc_synced s")
  case True
  obtain h m sec where f: "clock_fields (pe_time e + sint (pn_offset s) * 60) = (h, m, sec)"
    by (cases "clock_fields (pe_time e + sint (pn_offset s) * 60)")
  then have hm: "h < 24" "m < 60" using clock_fields_bounds by blast+
  have d: "display_inv (pn_display s)" "clock_ok (pn_hhmm s) (clock_label (pn_display s))"
    using assms by (simp_all add: panel_inv_def)
  show ?thesis
  proof (cases "int h * 100 + int m = pn_hhmm s")
    case same: True
    then have "clock_step e s = s" by (simp add: clock_step_def f True Let_def)
    with assms f clock_ok_shows [OF d(2) hm same [symmetric]] show ?thesis by simp
  next
    case False
    then have c: "clock_step e s =
        s\<lparr>pn_hhmm := int h * 100 + int m, pn_display := display_update_clock h m (pn_display s)\<rparr>"
      by (simp add: clock_step_def f True lift_display_def Let_def)
    have label: "clock_label (display_update_clock h m (pn_display s)) = Some (clock_face h m)"
      by (rule clock_label_clock [OF d(1) hm])
    have "clock_ok (int h * 100 + int m) (Some (clock_face h m))" using hm by (auto simp: clock_ok_def)
    with assms c f label show ?thesis by (auto simp: panel_inv_def step_inv)
  qed
qed (use assms in \<open>simp add: clock_step_def\<close>)

lemma clock_step_bell [simp]:
  "ds_state (pn_display (clock_step e s)) = ds_state (pn_display s)"
  "pn_bell_timeout (clock_step e s) = pn_bell_timeout s" "pn_bell_start (clock_step e s) = pn_bell_start s"
  by (simp_all add: clock_step_def lift_display_def Let_def split: prod.split)

lemma indicator_step_inv:
  assumes "panel_inv s"
  shows "panel_inv (indicator_step e s) \<and> (pn_rtc_synced s \<and> 1000 \<le> pe_t_ind e - pn_indicator s \<longrightarrow>
    (case clock_fields (pe_time e + sint (pn_offset s) * 60) of (h, m, sec) \<Rightarrow>
       clock_label (pn_display (indicator_step e s)) = Some (clock_face h m)))"
proof (cases "pe_t_ind e - pn_indicator s < 1000")
  case True
  with assms show ?thesis by (simp add: indicator_step_def not_less [symmetric])
next
  case False
  then obtain ok age where i: "indicator_step e s = clock_step e
      (lift_display (display_update_status_detail (pe_wifi_ind e) (Some (ip_text (pe_ip e))) (pe_conn_ind e) ok age)
        (lift_display (display_update_indicators (pe_wifi_ind e) (pe_conn_ind e) ok) (s\<lparr>pn_indicator := pe_t_ind_set e\<rparr>)))"
    unfolding indicator_step_def Let_def if_not_P [OF False] by blast
  define s3 where "s3 = lift_display (display_update_status_detail (pe_wifi_ind e) (Some (ip_text (pe_ip e))) (pe_conn_ind e) ok age)
    (lift_display (display_update_indicators (pe_wifi_ind e) (pe_conn_ind e) ok) (s\<lparr>pn_indicator := pe_t_ind_set e\<rparr>))"
  have s3: "indicator_step e s = clock_step e s3" "panel_inv s3"
    unfolding i s3_def using assms by (simp_all add: panel_inv_fields lift_inv step_inv)
  moreover have "pn_rtc_synced s3 = pn_rtc_synced s" "pn_offset s3 = pn_offset s"
    by (simp_all add: s3_def lift_display_def)
  ultimately show ?thesis using clock_step_inv [OF s3(2), of e] by simp
qed

lemma indicator_step_bell [simp]:
  "ds_state (pn_display (indicator_step e s)) = ds_state (pn_display s)"
  "pn_bell_timeout (indicator_step e s) = pn_bell_timeout s" "pn_bell_start (indicator_step e s) = pn_bell_start s"
  by (simp_all add: indicator_step_def lift_display_def Let_def)

end
