(* ===== verification/Panel_Properties.thy ===== *)
theory Panel_Properties
  imports Panel_Safety
begin

text \<open>
  The properties of the panel's main program: every call of \<open>loop\<close> returns and installs only
  verified images, the doorbell screen stays for the time asked, and the calendar shows what was sent.
\<close>

section \<open>One call of the main loop\<close>

definition server_ok :: "('a, 'h) mbedtls \<Rightarrow> (bytes \<Rightarrow> bytes) \<Rightarrow> ota_config \<Rightarrow> ('a, 'h) server \<Rightarrow> bool" where
  "server_ok M H cf srv \<longleftrightarrow> \<not> sv_ready srv \<or> (\<exists>key. hex_pairs (cf_key_hex cf) = Some key \<and>
     server_inv M H (key, panel_number (cf_panel_id cf), ota_identity cf) srv)"

definition update_ok :: "('a, 'h) mbedtls \<Rightarrow> (bytes \<Rightarrow> bytes) \<Rightarrow> ota_config \<Rightarrow> bytes option \<Rightarrow> bool" where
  "update_ok M H cf b \<longleftrightarrow> (\<exists>key header wire p. hex_pairs (cf_key_hex cf) = Some key \<and>
     verified_image M H key (panel_number (cf_panel_id cf)) (ota_identity cf) header wire p \<and> b = Some p)"

lemma ota_loop_ok:
  assumes "server_ok M H cf srv" and "sha_streams M H" and "mbedtls_sizes M"
  shows "\<exists>evs srv1. ota_loop M cf en srv = Some (evs, srv1) \<and> server_ok M H cf srv1 \<and>
    (\<forall>b. Updated b \<in> set evs \<longrightarrow> update_ok M H cf b)"
proof (cases "sv_ready srv")
  case False
  then show ?thesis by (simp add: ota_loop_def server_ok_def)
next
  case True
  then obtain key where key: "hex_pairs (cf_key_hex cf) = Some key"
    "server_inv M H (key, panel_number (cf_panel_id cf), ota_identity cf) srv"
    using assms(1) by (auto simp: server_ok_def)
  from ota_loop_inv [OF key(2) assms(2,3), of cf en] key(1) show ?thesis
    by (fastforce simp: server_ok_def update_ok_def holds_verified_def)
qed

text \<open>The doorbell part of the state: the screen, the time asked and the start.\<close>

definition bell :: "panel \<Rightarrow> display_state \<times> u32 \<times> u32" where
  "bell s = (ds_state (pn_display s), pn_bell_timeout s, pn_bell_start s)"

definition rung :: "command option \<Rightarrow> u32 \<Rightarrow> display_state \<times> u32 \<times> u32 \<Rightarrow> display_state \<times> u32 \<times> u32" where
  "rung c now b = (case c of Some (Doorbell n) \<Rightarrow> (Doorbell_interrupt, word_of_int n * 1000, now) | _ \<Rightarrow> b)"

definition expired :: "u32 \<Rightarrow> display_state \<times> u32 \<times> u32 \<Rightarrow> display_state \<times> u32 \<times> u32" where
  "expired now b = (case b of (st, t, start) \<Rightarrow>
     if st = Doorbell_interrupt \<and> t > 0 \<and> now - start \<ge> t then (Daily_view, 0, start) else b)"

text \<open>What one call of \<open>loop\<close> makes of it.\<close>

definition loop_bell :: "'d json \<Rightarrow> panel_env \<Rightarrow> display_state \<times> u32 \<times> u32 \<Rightarrow> display_state \<times> u32 \<times> u32" where
  "loop_bell J e b = expired (pe_t_bell e) (rung (heard J (pe_rx e)) (pe_t_frame e) b)"

lemma cal_event_bell: "cal_event idx summary time_str all_day s = Some s1 \<Longrightarrow> bell s1 = bell s"
  by (auto simp: cal_event_def cal_append_def bell_def Let_def split: if_splits option.splits)

lemma handle_command_bell: "handle_command c now s = Some (evs, s1) \<Longrightarrow> bell s1 = rung (Some c) now (bell s)"
  by (cases c) (auto simp: rung_def bell_def dest: cal_event_bell split: if_splits)

lemma receive_step_bell:
  assumes "panel_inv s" and "receive_step J pc e s = Some (evs, s1)"
  shows "bell s1 = rung (heard J (pe_rx e)) (pe_t_frame e) (bell s)"
proof -
  have "\<not> ws_ready (pn_ws s)" using assms(1) by (simp add: panel_inv_def)
  from receive_step_cases [OF this, of J pc e] obtain sent w where "receive_step J pc e s =
    (case heard J (pe_rx e) of None \<Rightarrow> Some (map Sock sent, s\<lparr>pn_ws := w\<rparr>)
     | Some c \<Rightarrow> map_option (\<lambda>(evs, s2). (map Sock sent @ evs, s2)) (handle_command c (pe_t_frame e) (s\<lparr>pn_ws := w\<rparr>)))"
    by blast
  with assms(2) show ?thesis
    by (cases "heard J (pe_rx e)") (auto simp: rung_def bell_def dest!: handle_command_bell)
qed

lemma bell_step_bell: "bell (bell_step e s) = expired (pe_t_bell e) (bell s)"
  by (simp add: bell_step_def lift_display_def expired_def bell_def)

text \<open>The calendar part of the state: the text of the buffer and the label.\<close>

definition cal_shows :: "bytes \<times> bytes option \<Rightarrow> panel \<Rightarrow> bool" where
  "cal_shows p s \<longleftrightarrow> cal_holds (fst p) s \<and> cal_label (pn_display s) = snd p"

definition cal_next :: "command option \<Rightarrow> bytes \<times> bytes option \<Rightarrow> bytes \<times> bytes option" where
  "cal_next c p = (case c of Some (Cal_event idx summary time_str all_day) \<Rightarrow>
       let t = take 511 ((if idx = 0 then [] else fst p) @ cal_line summary time_str all_day) in (t, Some t)
     | _ \<Rightarrow> p)"

lemma handle_command_cal:
  assumes "panel_inv s" and "command_ok c" and "cal_shows p s" and "handle_command c now s = Some (evs, s1)"
  shows "cal_shows (cal_next (Some c) p) s1"
proof (cases c)
  case (Cal_event idx summary time_str all_day)
  have "0 \<notin> set summary" "0 \<notin> set time_str" using assms(2) Cal_event by (simp_all add: text_ok_def)
  moreover define t1 where "t1 = take 511 ((if idx = 0 then [] else fst p) @ cal_line summary time_str all_day)"
  ultimately obtain buf len where
    "cal_event idx summary time_str all_day s =
        Some (s\<lparr>pn_cal := buf, pn_cal_len := len, pn_display := render_calendar_section (Some t1) (pn_display s)\<rparr>)" and
    h: "cal_holds t1 (s\<lparr>pn_cal := buf, pn_cal_len := len, pn_display := render_calendar_section (Some t1) (pn_display s)\<rparr>)"
    using cal_event_holds [of "fst p" s summary time_str idx all_day] assms(3)
    by (auto simp: Let_def cal_shows_def t1_def [symmetric])
  then have "s1 = s\<lparr>pn_cal := buf, pn_cal_len := len,
      pn_display := render_calendar_section (Some t1) (pn_display s), pn_data_rx := now\<rparr>"
    using assms(4) Cal_event by simp
  moreover have "display_inv (pn_display s)" using assms(1) by (simp add: panel_inv_def)
  moreover have "cal_next (Some c) p = (t1, Some t1)"
    by (simp only: cal_next_def Cal_event option.case command.case Let_def t1_def)
  ultimately show ?thesis
    using h by (simp add: cal_shows_def cal_label_calendar)
qed (use assms(3,4) in \<open>auto simp: cal_shows_def cal_next_def split: if_splits\<close>)

lemma receive_step_cal:
  assumes "panel_inv s" and "cal_shows p s" and "receive_step J pc e s = Some (evs, s1)"
  shows "cal_shows (cal_next (heard J (pe_rx e)) p) s1"
proof -
  have "\<not> ws_ready (pn_ws s)" using assms(1) by (simp add: panel_inv_def)
  from receive_step_cases [OF this, of J pc e] obtain sent w where r: "receive_step J pc e s =
    (case heard J (pe_rx e) of None \<Rightarrow> Some (map Sock sent, s\<lparr>pn_ws := w\<rparr>)
     | Some c \<Rightarrow> map_option (\<lambda>(evs, s2). (map Sock sent @ evs, s2)) (handle_command c (pe_t_frame e) (s\<lparr>pn_ws := w\<rparr>)))"
    "\<not> ws_ready w" by blast
  have inv: "panel_inv (s\<lparr>pn_ws := w\<rparr>)" using assms(1) r(2) by (auto simp: panel_inv_def)
  have shows_w: "cal_shows p (s\<lparr>pn_ws := w\<rparr>)" using assms(2) by (simp add: cal_shows_def)
  show ?thesis
  proof (cases "heard J (pe_rx e)")
    case None
    with r(1) assms(3) shows_w show ?thesis by (simp add: cal_next_def)
  next
    case (Some c)
    then have "map_option (\<lambda>(evs, s2). (map Sock sent @ evs, s2)) (handle_command c (pe_t_frame e) (s\<lparr>pn_ws := w\<rparr>)) =
        Some (evs, s1)" using r(1) assms(3) by simp
    then obtain evs1 where "handle_command c (pe_t_frame e) (s\<lparr>pn_ws := w\<rparr>) = Some (evs1, s1)" by auto
    from handle_command_cal [OF inv heard_ok [OF Some] shows_w this] Some show ?thesis by simp
  qed
qed

lemma cal_shows_steps:
  "cal_shows p (bell_step e s) = cal_shows p s" "cal_shows p (indicator_step e s) = cal_shows p s"
  "cal_shows p (lift_display (display_service clicks) s) = cal_shows p s"
  by (simp_all add: bell_step_def indicator_step_def clock_step_def lift_display_def cal_shows_def Let_def
      split: prod.split)

lemma cal_event_indicator: "cal_event idx summary time_str all_day s = Some s1 \<Longrightarrow> pn_indicator s1 = pn_indicator s"
  by (auto simp: cal_event_def cal_append_def Let_def split: if_splits option.splits)

lemma handle_command_indicator: "handle_command c now s = Some (evs, s1) \<Longrightarrow> pn_indicator s1 = pn_indicator s"
  by (cases c) (auto dest: cal_event_indicator split: if_splits)

lemma receive_step_indicator:
  "receive_step J pc e s = Some (evs, s1) \<Longrightarrow> pn_indicator s1 = pn_indicator s"
  by (auto simp: receive_step_def Let_def dest!: handle_command_indicator split: prod.splits if_splits)

text \<open>The parts of a call of \<open>loop\<close>.\<close>

lemma panel_loop_parts:
  assumes "panel_inv s" and "pe_wifi_ok e \<or> (\<exists>n. pe_wifi_answers e n)"
    and "panel_loop M cf J pc e (srv, s) = Some (evs, srv1, s1)"
  shows "\<exists>ota net d sock s2 frame s3. retry_step pc e (s\<lparr>pn_display := d\<rparr>) = (sock, s2) \<and>
    receive_step J pc e s2 = Some (frame, s3) \<and> panel_inv s2 \<and> panel_inv s3 \<and>
    evs = Net Watchdog_kick # map Ota ota @ map Net net @ stale_step e s @ sock @ frame \<and>
    s1 = lift_display (display_service (pe_clicks e)) (indicator_step e (bell_step e s3))"
proof -
  obtain net d where net: "wifi_step e s = Some (net, s\<lparr>pn_display := d\<rparr>)" "display_inv d"
    "clock_label d = clock_label (pn_display s)"
    using wifi_step_inv [OF assms(1,2)] by blast
  then obtain ns where ns: "net = map Net ns" by (auto simp: wifi_step_def split: if_splits)
  have inv1: "panel_inv (s\<lparr>pn_display := d\<rparr>)"
    using net(2,3) by (intro panel_inv_cong [OF assms(1)]) (use assms(1) in \<open>simp_all add: panel_inv_def\<close>)
  obtain sock s2 where r: "retry_step pc e (s\<lparr>pn_display := d\<rparr>) = (sock, s2)"
    by (cases "retry_step pc e (s\<lparr>pn_display := d\<rparr>)")
  then obtain w a t where s2: "s2 = s\<lparr>pn_display := d, pn_ws := w, pn_ws_attempt := a, pn_data_rx := t\<rparr>"
    "ws_ready w = ws_ready (pn_ws s)"
    using retry_step_cases [OF r] by auto
  have inv2: "panel_inv s2"
    using inv1 s2 by (intro panel_inv_cong [OF inv1]) (simp_all add: panel_inv_def)
  obtain frame s3 where f: "receive_step J pc e s2 = Some (frame, s3)" "panel_inv s3"
    using receive_step_inv [OF inv2] by blast
  obtain ota where "evs = Net Watchdog_kick # map Ota ota @ map Net ns @ stale_step e s @ sock @ frame"
    "s1 = lift_display (display_service (pe_clicks e)) (indicator_step e (bell_step e s3))"
    using assms(3) net(1) r f(1) by (auto simp: panel_loop_def ns stale_step_def split: option.splits)
  with r f inv2 show ?thesis by blast
qed

lemma panel_loop_step:
  assumes "panel_inv s" and "server_ok M H cf srv" and "sha_streams M H" and "mbedtls_sizes M"
    and "pe_wifi_ok e \<or> (\<exists>n. pe_wifi_answers e n)" and "cal_shows p s"
  shows "\<exists>evs srv1 s1. panel_loop M cf J pc e (srv, s) = Some (evs, srv1, s1) \<and> panel_inv s1 \<and> server_ok M H cf srv1 \<and>
    (\<forall>b. Ota (Updated b) \<in> set evs \<longrightarrow> update_ok M H cf b) \<and>
    bell s1 = loop_bell J e (bell s) \<and>
    cal_shows (cal_next (heard J (pe_rx e)) p) s1"
proof -
  obtain ota srv1 where ota: "ota_loop M cf (pe_ota e) srv = Some (ota, srv1)" "server_ok M H cf srv1"
    "\<forall>b. Updated b \<in> set ota \<longrightarrow> update_ok M H cf b"
    using ota_loop_ok [OF assms(2-4), of "pe_ota e"] by blast
  obtain net d where net: "wifi_step e s = Some (net, s\<lparr>pn_display := d\<rparr>)" "display_inv d"
    "ds_state d = ds_state (pn_display s)" "cal_label d = cal_label (pn_display s)"
    "clock_label d = clock_label (pn_display s)" "\<forall>b. Ota (Updated b) \<notin> set net"
    using wifi_step_inv [OF assms(1,5)] by blast
  define s1 where "s1 = s\<lparr>pn_display := d\<rparr>"
  have s1: "panel_inv s1" "bell s1 = bell s" "cal_shows p s1"
    using assms(1,6) net(2-5) by (auto simp: s1_def bell_def panel_inv_def cal_shows_def)
  obtain sock s2 where r: "retry_step pc e s1 = (sock, s2)" by (cases "retry_step pc e s1")
  then obtain w a t where s2: "s2 = s1\<lparr>pn_ws := w, pn_ws_attempt := a, pn_data_rx := t\<rparr>"
    "ws_ready w = ws_ready (pn_ws s1)" "\<forall>b. Ota (Updated b) \<notin> set sock"
    using retry_step_cases by blast
  have inv2: "panel_inv s2" "bell s2 = bell s1" "cal_shows p s2"
    using s1(1,3) s2(1,2) by (auto simp: panel_inv_def bell_def cal_shows_def)
  obtain frame s3 where f: "receive_step J pc e s2 = Some (frame, s3)" "panel_inv s3" "\<forall>b. Ota (Updated b) \<notin> set frame"
    using receive_step_inv [OF inv2(1)] by blast
  let ?final = "lift_display (display_service (pe_clicks e)) (indicator_step e (bell_step e s3))"
  have result: "panel_loop M cf J pc e (srv, s) =
      Some (Net Watchdog_kick # map Ota ota @ net @ stale_step e s1 @ sock @ frame, srv1, ?final)"
    using ota(1) net(1) r f(1) by (simp add: panel_loop_def s1_def)
  have "panel_inv ?final"
    using indicator_step_inv [OF bell_step_inv [OF f(2)], of e] by (intro lift_inv display_service_inv) simp_all
  moreover have "bell ?final = expired (pe_t_bell e) (bell s3)"
    unfolding bell_step_bell [symmetric] by (simp add: bell_def lift_display_def)
  moreover have "bell s3 = rung (heard J (pe_rx e)) (pe_t_frame e) (bell s)"
    using receive_step_bell [OF inv2(1) f(1)] inv2(2) s1(2) by simp
  moreover have "cal_shows (cal_next (heard J (pe_rx e)) p) ?final"
    using receive_step_cal [OF inv2(1,3) f(1)] by (simp add: cal_shows_steps)
  moreover have "Ota (Updated b) \<notin> set (stale_step e s1)" for b
    by (auto simp: stale_step_def)
  ultimately show ?thesis
    using result ota(2,3) net(6) s2(3) f(3) by (auto simp: loop_bell_def)
qed

lemma panel_run_step:
  assumes "panel_inv s" and "server_ok M H cf srv" and "sha_streams M H" and "mbedtls_sizes M"
    and "\<forall>e \<in> set es. pe_wifi_ok e \<or> (\<exists>n. pe_wifi_answers e n)" and "cal_shows p s"
  shows "\<exists>evs srv1 s1. panel_run M cf J pc es (srv, s) = Some (evs, srv1, s1) \<and> panel_inv s1 \<and> server_ok M H cf srv1 \<and>
    (\<forall>b. Ota (Updated b) \<in> set evs \<longrightarrow> update_ok M H cf b) \<and>
    bell s1 = fold (loop_bell J) es (bell s) \<and>
    cal_shows (fold cal_next (map (\<lambda>e. heard J (pe_rx e)) es) p) s1"
  using assms(1,2,5,6)
proof (induction es arbitrary: s srv p)
  case Nil
  then show ?case by simp
next
  case (Cons e es)
  from Cons.prems(3) have "pe_wifi_ok e \<or> (\<exists>n. pe_wifi_answers e n)" by simp
  from panel_loop_step [OF Cons.prems(1,2) assms(3,4) this Cons.prems(4), of J pc] obtain evs srv1 s1 where
    one: "panel_loop M cf J pc e (srv, s) = Some (evs, srv1, s1)" "panel_inv s1" "server_ok M H cf srv1"
    "\<forall>b. Ota (Updated b) \<in> set evs \<longrightarrow> update_ok M H cf b"
    "bell s1 = loop_bell J e (bell s)"
    "cal_shows (cal_next (heard J (pe_rx e)) p) s1" by blast
  from Cons.prems(3) have "\<forall>e \<in> set es. pe_wifi_ok e \<or> (\<exists>n. pe_wifi_answers e n)" by simp
  from Cons.IH [OF one(2,3) this one(6)] one show ?case by fastforce
qed

section \<open>Start-up\<close>

lemma boot_label:
  "label_text w (do_calls cs display_boot) = fold (\<lambda>c v. case text_by w c of None \<Rightarrow> v | Some x \<Rightarrow> Some x) cs None"
  using latest_calls [of "text_by w" cs "[]"] by (simp add: label_text_def shown_text_def display_boot_def del: call_defs)

lemma init_labels:
  "cal_label (do_calls (init_calls touch_ok) display_boot) = Some (bytes_of ''loading...'')"
  "clock_label (do_calls (init_calls touch_ok) display_boot) = Some (bytes_of ''--:--'')"
  by (simp_all only: boot_label) (simp_all add: init_defs)

lemma panel_setup_ok:
  assumes "panel_setup M cf pc b fs = Some (evs, srv, s)" and "cstring (ota_identity cf)"
  shows "panel_inv s \<and> server_ok M H cf srv \<and> bell s = (Daily_view, 0, 0) \<and>
    cal_shows ([], Some (bytes_of ''loading...'')) s"
proof -
  obtain d where d: "display_init (se_display_rc b) (se_touch_ok b) display_boot = Some d"
    using assms(1) by (auto simp: panel_setup_def split: option.splits)
  then have "d = (do_calls (init_calls (se_touch_ok b)) display_boot)\<lparr>ds_state := Daily_view\<rparr>"
    by (simp add: display_init_def split: if_splits)
  then have d_ok: "display_inv d \<and> ds_state d = Daily_view \<and> cal_label d = Some (bytes_of ''loading...'') \<and>
      clock_label d = Some (bytes_of ''--:--'')"
    using display_init_inv [OF d] by (simp add: init_labels)
  let ?pump = "Some (\<lambda>n i. display_service (se_wifi_clicks b n i))"
  obtain net d1 where w: "wifi_connect (se_wifi_answers b) ?pump d = Some (net, d1)"
    using assms(1) d by (auto simp: panel_setup_def split: option.splits)
  then obtain n where "se_wifi_answers b n" using wifi_wait_never by (metis wifi_connect_def)
  from serviced.wifi_connect_keeps [of "se_wifi_answers b", OF this d_ok, of "se_wifi_clicks b"] w
  have d1: "display_inv d1" "ds_state d1 = Daily_view" "cal_label d1 = Some (bytes_of ''loading...'')"
    "clock_label d1 = Some (bytes_of ''--:--'')" by auto
  define s1 where "s1 = panel_boot\<lparr>pn_display := d1, pn_ws := ws_init (case se_trng b of (result, produced, w0, w1) \<Rightarrow>
                memory_init result produced w0 w1) ws_boot\<rparr>"
  obtain sock s2 where ss: "setup_socket pc b s1 = (sock, s2)" by (cases "setup_socket pc b s1")
  have res: "srv = ota_init M cf (se_ota b) (server_boot M fs)" "s = s2\<lparr>pn_ws_attempt := se_t_attempt b\<rparr>"
    using assms(1) d w ss by (simp_all add: panel_setup_def s1_def Let_def)
  have "\<exists>w t. s2 = s1\<lparr>pn_ws := w, pn_data_rx := t\<rparr> \<and> ws_ready w = ws_ready (pn_ws s1)"
  proof (cases "se_begin b = 0")
    case True
    obtain hello w where h: "ws_send_hello (pc_tx_buffer pc) (pc_panel_id pc) (pc_hostname pc) False (se_hello b) (pn_ws s1) = (hello, w)"
      by (cases "ws_send_hello (pc_tx_buffer pc) (pc_panel_id pc) (pc_hostname pc) False (se_hello b) (pn_ws s1)")
    with True ss ws_send_hello_frame(2) [OF h] show ?thesis by (auto simp: setup_socket_def ws_connect_def)
  next
    case False
    with ss show ?thesis by (intro exI [of _ "pn_ws s1"] exI [of _ "pn_data_rx s1"]) (simp add: setup_socket_def ws_connect_def)
  qed
  then obtain w t where s2: "s2 = s1\<lparr>pn_ws := w, pn_data_rx := t\<rparr>" "ws_ready w = ws_ready (pn_ws s1)" by blast
  have boot: "cal_holds [] s1" "\<not> ws_ready (pn_ws s1)" "pn_hhmm s1 = - 1" "pn_display s1 = d1"
    by (simp_all add: s1_def cal_holds_def panel_boot_def ws_init_def ws_boot_def)
  have "panel_inv s" using s2 boot d1(1,4) by (auto simp: res(2) panel_inv_def clock_ok_def)
  moreover have "server_ok M H cf srv"
    using ota_init_cases [OF assms(2) refl, of M "se_ota b" fs H] by (simp add: res(1) server_ok_def)
  moreover have "bell s = (Daily_view, 0, 0)"
    by (simp add: res(2) s2(1) bell_def s1_def panel_boot_def d1(2))
  moreover have "cal_shows ([], Some (bytes_of ''loading...'')) s"
    using boot(1) d1(3) by (simp add: res(2) s2(1) cal_shows_def) (simp add: s1_def)
  ultimately show ?thesis by simp
qed

text \<open>Runs from start-up.\<close>

lemma panel_from_setup:
  assumes "panel_setup M cf pc b fs = Some (evs0, st0)" and "cstring (ota_identity cf)"
    and "sha_streams M H" and "mbedtls_sizes M"
    and "\<forall>e \<in> set es. pe_wifi_ok e \<or> (\<exists>n. pe_wifi_answers e n)"
  shows "\<exists>evs srv s. panel_run M cf J pc es st0 = Some (evs, srv, s) \<and> panel_inv s \<and>
    (\<forall>bin. Ota (Updated bin) \<in> set evs \<longrightarrow> update_ok M H cf bin) \<and>
    bell s = fold (loop_bell J) es (Daily_view, 0, 0) \<and>
    cal_shows (fold cal_next (map (\<lambda>e. heard J (pe_rx e)) es) ([], Some (bytes_of ''loading...''))) s"
proof -
  obtain srv0 s0 where st0: "st0 = (srv0, s0)" by (cases st0)
  have ok: "panel_inv s0" "server_ok M H cf srv0" "bell s0 = (Daily_view, 0, 0)"
    "cal_shows ([], Some (bytes_of ''loading...'')) s0"
    using panel_setup_ok [of M cf pc b fs evs0 srv0 s0 H] assms(1,2) by (auto simp: st0)
  from panel_run_step [OF ok(1,2) assms(3,4,5) ok(4), of J pc] ok(3) show ?thesis
    unfolding st0 by fastforce
qed

section \<open>Samples\<close>

text \<open>
  A panel that starts with a working network, and a call of \<open>loop\<close> in which one short frame arrives.
\<close>

definition sample_panel_config :: panel_config where
  "sample_panel_config = \<lparr>pc_panel_id = bytes_of ''primary'', pc_hostname = bytes_of ''housepanel'', pc_tx_buffer = 768\<rparr>"

definition sample_setup :: setup_env where
  "sample_setup = \<lparr>se_display_rc = 0, se_touch_ok = True, se_wifi_answers = (\<lambda>n. True), se_wifi_clicks = (\<lambda>n i. []),
     se_trng = (0, 8, 1, 2), se_begin = 0, se_hello = sample_tx, se_t_hello = 2000, se_t_attempt = 2000,
     se_ota = sample_boot\<rparr>"

definition sample_loop :: "int \<Rightarrow> u32 \<Rightarrow> panel_env" where
  "sample_loop len now = \<lparr>pe_ota = sample_env, pe_wifi_ok = True, pe_wifi_answers = (\<lambda>n. True), pe_wifi_clicks = (\<lambda>n i. []),
     pe_conn_stale = True, pe_t_stale = now, pe_conn_retry = True, pe_t_retry = now, pe_t_attempt = now, pe_begin = 0,
     pe_hello = sample_tx, pe_t_hello = now,
     pe_rx = \<lparr>wr_size = len, wr_started = now, wr_reads = [(123, now), (125, now)]\<rparr>,
     pe_uptime = 5, pe_conn_report = False, pe_stats = sample_statistics, pe_report = sample_tx, pe_t_frame = now,
     pe_t_bell = now, pe_t_ind = now, pe_t_ind_set = now, pe_wifi_ind = True, pe_conn_ind = True, pe_t_data_ok = now,
     pe_t_data_age = now, pe_ip = (192, 168, 1, 20), pe_time = 1700000000, pe_clicks = []\<rparr>"

lemma sample_setup_returns:
  "\<exists>evs st. panel_setup sample_mbedtls sample_config sample_panel_config sample_setup sample_file = Some (evs, st)"
  by (simp add: panel_setup_def sample_setup_def display_init_def wifi_connect_def wifi_wait_done Let_def split: prod.split)

lemma heard_sample:
  "heard J (pe_rx (sample_loop len now)) = (if len \<le> 0 then None
     else parse_command_frame J (c_string (ws_read (nat (min len 255)) now [(123, now), (125, now)] [])))"
  by (simp add: heard_def sample_loop_def WS_BUF_SIZE_def)

section \<open>The program runs on and installs only verified images\<close>



section \<open>The doorbell screen\<close>

lemma fold_daily:
  assumes "\<forall>e \<in> set es. \<forall>m. heard J (pe_rx e) \<noteq> Some (Doorbell m)"
  shows "fold (loop_bell J) es (Daily_view, 0, start) = (Daily_view, 0, start)"
  using assms by (induction es) (auto simp: loop_bell_def rung_def expired_def split: option.split command.split)

lemma fold_rings:
  assumes "\<forall>e \<in> set es. \<forall>m. heard J (pe_rx e) \<noteq> Some (Doorbell m)" and "t > 0"
  shows "fold (loop_bell J) es (Doorbell_interrupt, t, start) =
      (if \<exists>e \<in> set es. t \<le> pe_t_bell e - start then (Daily_view, 0, start) else (Doorbell_interrupt, t, start))"
  using assms(1)
proof (induction es)
  case Nil
  then show ?case by simp
next
  case (Cons e es)
  have "rung (heard J (pe_rx e)) (pe_t_frame e) b = b" for b
    using Cons.prems by (auto simp: rung_def split: option.split command.split)
  then have "loop_bell J e (Doorbell_interrupt, t, start) =
      (if t \<le> pe_t_bell e - start then (Daily_view, 0, start) else (Doorbell_interrupt, t, start))"
    using assms(2) by (simp add: loop_bell_def expired_def)
  with Cons fold_daily [of es J start] show ?case by simp
qed

lemma bell_seconds: "1 \<le> n \<Longrightarrow> n \<le> 4294967 \<Longrightarrow> uint (word_of_int n * 1000 :: u32) = n * 1000"
  by (simp add: uint_word_ariths uint_word_of_int)

text \<open>
  (C7) The doorbell screen stays exactly as long as asked: after a doorbell command of \<open>n\<close> seconds,
  1 to 4294967, and no other one since, the panel shows the doorbell screen until the first call of
  \<open>loop\<close> whose clock is \<open>n\<close> seconds past the command, and the daily view from then on, whatever else
  is received or tapped.
\<close>

theorem panel_doorbell_timed:
  assumes "panel_setup M cf pc b fs = Some (evs0, st0)" and "cstring (ota_identity cf)"
    and "sha_streams M H" and "mbedtls_sizes M"
    and "\<forall>e \<in> set (before @ ring # es). pe_wifi_ok e \<or> (\<exists>n. pe_wifi_answers e n)"
    and "heard J (pe_rx ring) = Some (Doorbell n)" and "1 \<le> n" and "n \<le> 4294967"
    and "\<forall>e \<in> set es. \<forall>m. heard J (pe_rx e) \<noteq> Some (Doorbell m)"
  shows "\<exists>evs srv s. panel_run M cf J pc (before @ ring # es) st0 = Some (evs, srv, s) \<and>
    loaded_screen (ds_lv (pn_display s)) =
      Some (if \<exists>e \<in> set (ring # es). n * 1000 \<le> uint (pe_t_bell e - pe_t_frame ring) then Scr_daily else Scr_doorbell)"
proof -
  obtain evs srv s where r: "panel_run M cf J pc (before @ ring # es) st0 = Some (evs, srv, s)" "panel_inv s"
    "bell s = fold (loop_bell J)
      (before @ ring # es) (Daily_view, 0, 0)"
    using panel_from_setup [OF assms(1-5), of J] by blast
  let ?t = "word_of_int n * 1000 :: u32" and ?start = "pe_t_frame ring"
  have t: "uint ?t = n * 1000" using bell_seconds [OF assms(7,8)] .
  then have "?t > 0" using assms(7) by (simp add: word_less_def)
  have le: "?t \<le> w \<longleftrightarrow> n * 1000 \<le> uint w" for w using t by (simp add: word_le_def)
  have "loop_bell J ring b =
      (if ?t \<le> pe_t_bell ring - ?start then (Daily_view, 0, ?start) else (Doorbell_interrupt, ?t, ?start))" for b
    using assms(6) \<open>?t > 0\<close> by (simp add: loop_bell_def rung_def expired_def)
  then have "bell s = (if \<exists>e \<in> set (ring # es). ?t \<le> pe_t_bell e - ?start then (Daily_view, 0, ?start)
      else (Doorbell_interrupt, ?t, ?start))"
    using r(3) fold_rings [OF assms(9) \<open>?t > 0\<close>, of ?start] fold_daily [OF assms(9), of ?start] by simp
  then have "ds_state (pn_display s) = (if \<exists>e \<in> set (ring # es). n * 1000 \<le> uint (pe_t_bell e - ?start) then Daily_view
      else Doorbell_interrupt)"
    unfolding le by (auto simp: bell_def split: if_splits)
  moreover have "loaded_screen (ds_lv (pn_display s)) =
      Some (case ds_state (pn_display s) of Daily_view \<Rightarrow> Scr_daily | Doorbell_interrupt \<Rightarrow> Scr_doorbell)"
    using r(2) using display_inv_screen [of "pn_display s"] by (simp add: panel_inv_def screen_inv_def)
  ultimately show ?thesis using r(1) by (intro exI [of _ evs] exI [of _ srv] exI [of _ s] conjI) (simp_all split: if_split)
qed

theorem panel_doorbell_timed_witness:
  "\<exists>evs0 st0 evs srv s. panel_setup sample_mbedtls sample_config sample_panel_config sample_setup sample_file = Some (evs0, st0) \<and>
     panel_run sample_mbedtls sample_config (command_json ''DOORBELL'') sample_panel_config
       [sample_loop 2 3000, sample_loop 0 33000] st0 = Some (evs, srv, s) \<and>
     loaded_screen (ds_lv (pn_display s)) = Some Scr_daily"
proof -
  obtain evs0 st0 where start: "panel_setup sample_mbedtls sample_config sample_panel_config sample_setup sample_file = Some (evs0, st0)"
    using sample_setup_returns by blast
  have "cstring (ota_identity sample_config)" by (simp add: sample_config_identity sample_identity_facts)
  moreover have "\<forall>e \<in> set ([] @ sample_loop 2 3000 # [sample_loop 0 33000]). pe_wifi_ok e \<or> (\<exists>n. pe_wifi_answers e n)"
    by (simp add: sample_loop_def)
  moreover have "heard (command_json ''DOORBELL'') (pe_rx (sample_loop 2 3000)) = Some (Doorbell 30)"
    by (simp add: heard_sample parse_bell_sample)
  moreover have "\<forall>e \<in> set [sample_loop 0 33000]. \<forall>m. heard (command_json ''DOORBELL'') (pe_rx e) \<noteq> Some (Doorbell m)"
    by (simp add: heard_sample)
  ultimately have "\<exists>evs srv s. panel_run sample_mbedtls sample_config (command_json ''DOORBELL'') sample_panel_config
      ([] @ sample_loop 2 3000 # [sample_loop 0 33000]) st0 = Some (evs, srv, s) \<and>
    loaded_screen (ds_lv (pn_display s)) = Some (if \<exists>e \<in> set (sample_loop 2 3000 # [sample_loop 0 33000]).
      30 * 1000 \<le> uint (pe_t_bell e - pe_t_frame (sample_loop 2 3000)) then Scr_daily else Scr_doorbell)"
    by (intro panel_doorbell_timed [OF start _ sample_streams sample_sizes]) simp_all
  with start show ?thesis by (simp add: sample_loop_def)
qed

section \<open>The calendar\<close>

text \<open>The calendar lines since the last event with index 0, over the commands heard.\<close>

definition add_line :: "bytes list \<Rightarrow> command option \<Rightarrow> bytes list" where
  "add_line ls c = (case c of Some (Cal_event idx summary time_str all_day) \<Rightarrow>
     (if idx = 0 then [] else ls) @ [cal_line summary time_str all_day] | _ \<Rightarrow> ls)"

definition is_cal :: "command option \<Rightarrow> bool" where
  "is_cal c = (case c of Some (Cal_event idx summary time_str all_day) \<Rightarrow> True | _ \<Rightarrow> False)"

definition calendar_text :: "command option list \<Rightarrow> bytes" where
  "calendar_text cs = (if list_ex is_cal cs then take 511 (concat (foldl add_line [] cs)) else bytes_of ''loading...'')"

lemma no_cal_lines: "\<not> list_ex is_cal cs \<Longrightarrow> foldl add_line ls cs = ls"
  by (induction cs) (auto simp: is_cal_def add_line_def split: option.splits command.splits)

lemma fold_cal_next:
  "fold cal_next cs (take 511 (concat ls), label) =
    (let t = take 511 (concat (foldl add_line ls cs)) in (t, if list_ex is_cal cs then Some t else label))"
proof (induction cs arbitrary: ls label)
  case Nil
  then show ?case by simp
next
  case (Cons c cs)
  have cut: "take 511 (take 511 xs @ ys) = take 511 (xs @ ys)" for xs ys :: bytes
    by (cases "length xs < 511") (simp_all add: min_def)
  show ?case
  proof (cases "is_cal c")
    case True
    then obtain idx summary time_str all_day where c: "c = Some (Cal_event idx summary time_str all_day)"
      by (auto simp: is_cal_def split: option.splits command.splits)
    have "cal_next c (take 511 (concat ls), label) =
        (take 511 (concat (add_line ls c)), Some (take 511 (concat (add_line ls c))))"
      by (cases "idx = 0") (simp_all add: c cal_next_def add_line_def Let_def cut del: take_append)
    with Cons.IH [of "add_line ls c" "Some (take 511 (concat (add_line ls c)))"] True show ?thesis
      by (simp add: Let_def no_cal_lines)
  next
    case False
    then have "cal_next c q = q" "add_line ls c = ls" for q
      by (auto simp: is_cal_def cal_next_def add_line_def split: option.splits command.splits)
    with False Cons.IH [of ls label] show ?thesis by (simp add: Let_def)
  qed
qed

text \<open>
  (C8) The calendar panel shows what was sent: after any run from start-up its label has the lines of
  the events received since the last event with index 0, in order and cut at 511 characters, and
  before the first event the placeholder; nothing else the program does changes it.
\<close>

theorem panel_calendar_exact:
  assumes "panel_setup M cf pc b fs = Some (evs0, st0)" and "cstring (ota_identity cf)"
    and "sha_streams M H" and "mbedtls_sizes M"
    and "\<forall>e \<in> set es. pe_wifi_ok e \<or> (\<exists>n. pe_wifi_answers e n)"
  shows "\<exists>evs srv s. panel_run M cf J pc es st0 = Some (evs, srv, s) \<and>
    shown_text Lbl_calendar (ds_lv (pn_display s)) = Some (calendar_text (map (\<lambda>e. heard J (pe_rx e)) es))"
proof -
  obtain evs srv s where r: "panel_run M cf J pc es st0 = Some (evs, srv, s)"
    "cal_shows (fold cal_next (map (\<lambda>e. heard J (pe_rx e)) es) ([], Some (bytes_of ''loading...''))) s"
    using panel_from_setup [OF assms, of J] by blast
  from r(2) fold_cal_next [of "map (\<lambda>e. heard J (pe_rx e)) es" "[]" "Some (bytes_of ''loading...'')"]
  have "cal_label (pn_display s) = Some (calendar_text (map (\<lambda>e. heard J (pe_rx e)) es))"
    by (auto simp: cal_shows_def calendar_text_def Let_def)
  with r(1) show ?thesis by (auto simp: label_text_def)
qed

lemma parse_calendar_sample:
  "parse_command_frame (command_json ''CAL_EVENT'') raw = Some (Cal_event 0 (bytes_of ''Lunch'') (bytes_of ''12:30'') False)"
  by (simp add: parse_command_frame_def command_json_def parsers_def parse_cal_event_def field_text_def or_default_def
      bytes_of_def c_string_def fit_def)

theorem panel_calendar_exact_witness:
  "\<exists>evs0 st0 evs srv s. panel_setup sample_mbedtls sample_config sample_panel_config sample_setup sample_file = Some (evs0, st0) \<and>
     panel_run sample_mbedtls sample_config (command_json ''CAL_EVENT'') sample_panel_config
       [sample_loop 2 3000, sample_loop 0 4000] st0 = Some (evs, srv, s) \<and>
     shown_text Lbl_calendar (ds_lv (pn_display s)) = Some (bytes_of ''12:30  Lunch'' @ [10])"
proof -
  obtain evs0 st0 where start: "panel_setup sample_mbedtls sample_config sample_panel_config sample_setup sample_file = Some (evs0, st0)"
    using sample_setup_returns by blast
  have "cstring (ota_identity sample_config)" by (simp add: sample_config_identity sample_identity_facts)
  moreover have "\<forall>e \<in> set [sample_loop 2 3000, sample_loop 0 4000]. pe_wifi_ok e \<or> (\<exists>n. pe_wifi_answers e n)"
    by (simp add: sample_loop_def)
  ultimately have "\<exists>evs srv s. panel_run sample_mbedtls sample_config (command_json ''CAL_EVENT'') sample_panel_config
      [sample_loop 2 3000, sample_loop 0 4000] st0 = Some (evs, srv, s) \<and>
    shown_text Lbl_calendar (ds_lv (pn_display s)) =
      Some (calendar_text (map (\<lambda>e. heard (command_json ''CAL_EVENT'') (pe_rx e)) [sample_loop 2 3000, sample_loop 0 4000]))"
    by (rule panel_calendar_exact [OF start _ sample_streams sample_sizes])
  moreover have "calendar_text (map (\<lambda>e. heard (command_json ''CAL_EVENT'') (pe_rx e)) [sample_loop 2 3000, sample_loop 0 4000]) =
      bytes_of ''12:30  Lunch'' @ [10]"
    by (simp add: heard_sample parse_calendar_sample calendar_text_def is_cal_def add_line_def cal_line_def fit_def bytes_of_def)
  ultimately show ?thesis using start by auto
qed

end
