(* ===== verification/Panel_Labels.thy ===== *)
theory Panel_Labels
  imports Panel_Properties Font_Properties
begin

text \<open>
  The clock of the panel over whole runs: its label shows the local time of the last update, in
  characters that the clock font has.
\<close>

section \<open>The state before the clock step\<close>

lemma indicator_step_time [simp]:
  "pn_rtc_synced (indicator_step e s) = pn_rtc_synced s" "pn_offset (indicator_step e s) = pn_offset s"
  by (simp_all add: indicator_step_def clock_step_def lift_display_def Let_def split: prod.split)

lemma bell_step_time [simp]:
  "pn_rtc_synced (bell_step e s) = pn_rtc_synced s" "pn_offset (bell_step e s) = pn_offset s"
  "pn_indicator (bell_step e s) = pn_indicator s"
  by (simp_all add: bell_step_def lift_display_def)

text \<open>A call of \<open>loop\<close> ends with the doorbell, the indicators and the clicks.\<close>

lemma panel_loop_ends:
  assumes "panel_inv s" and "pe_wifi_ok e \<or> (\<exists>n. pe_wifi_answers e n)"
    and "panel_loop M cf J pc e (srv, s) = Some (evs, srv1, s1)"
  shows "\<exists>s2 frame s3. panel_inv s2 \<and> receive_step J pc e s2 = Some (frame, s3) \<and>
    panel_inv s3 \<and> pn_indicator s3 = pn_indicator s \<and>
    s1 = lift_display (display_service (pe_clicks e)) (indicator_step e (bell_step e s3))"
proof -
  from panel_loop_parts [OF assms] obtain d sock s2 frame s3 where
    r: "retry_step pc e (s\<lparr>pn_display := d\<rparr>) = (sock, s2)" "receive_step J pc e s2 = Some (frame, s3)"
      "panel_inv s2" "panel_inv s3"
    and s1: "s1 = lift_display (display_service (pe_clicks e)) (indicator_step e (bell_step e s3))" by blast
  from retry_step_cases [OF r(1)] have "pn_indicator s2 = pn_indicator s" by auto
  with receive_step_indicator [OF r(2)] r(2-4) s1 show ?thesis by auto
qed

section \<open>The characters of the clock\<close>

text \<open>The bitmap that the table holds for a character of the map.\<close>

definition clock_bitmap :: "u8 \<Rightarrow> bytes" where
  "clock_bitmap c = glyph_bitmaps ! (unat c - range_start (hd cmaps))"

lemma face_chars: "set (clock_face h m) \<subseteq> insert 58 digits"
  using set_dec by (auto simp: clock_face_def dec2_def digits_def)

lemma face_bitmaps: "\<forall>c \<in> insert 58 digits. clock_bitmap c \<noteq> []"
proof -
  have len: "length (clock_bitmap c) = map length glyph_bitmaps ! (unat c - 32)" if "unat c < 127" for c
  proof -
    have "length glyph_bitmaps = 95" using arg_cong [OF glyph_bitmaps_lengths, of length] by simp
    with that show ?thesis by (simp add: clock_bitmap_def cmaps_def)
  qed
  have "length (clock_bitmap c) \<noteq> 0" if "c \<in> insert 58 digits" for c
    using that len [of c] by (auto simp: digits_def glyph_bitmaps_lengths)
  then show ?thesis by auto
qed

section \<open>The clock is right\<close>

text \<open>
  (C9) The panel's clock is right: after any run from start-up, a call of \<open>loop\<close> that refreshes the
  indicators, at least a second after the last refresh, with the time synchronised leaves the clock
  label at the hour and the minute of the time read, shifted by the offset of the last time command;
  every character of it has a bitmap in the clock font.
\<close>

theorem panel_clock_right:
  assumes "panel_setup M cf pc b fs = Some (evs0, st0)" and "cstring (ota_identity cf)"
    and "sha_streams M H" and "mbedtls_sizes M"
    and "\<forall>e \<in> set (es @ [e]). pe_wifi_ok e \<or> (\<exists>n. pe_wifi_answers e n)"
    and "panel_run M cf J pc es st0 = Some (evs, srv, s)"
    and "panel_loop M cf J pc e (srv, s) = Some (evs1, srv1, s1)"
    and "1000 \<le> pe_t_ind e - pn_indicator s" and "pn_rtc_synced s1"
    and "clock_fields (pe_time e + sint (pn_offset s1) * 60) = (h, m, sec)"
  shows "shown_text Lbl_clock (ds_lv (pn_display s1)) = Some (clock_face h m) \<and>
    (\<forall>c \<in> set (clock_face h m). clock_bitmap c \<noteq> [])"
proof -
  have "\<forall>e \<in> set es. pe_wifi_ok e \<or> (\<exists>n. pe_wifi_answers e n)" using assms(5) by simp
  from panel_from_setup [OF assms(1-4) this, of J] assms(6) have inv: "panel_inv s" by auto
  have "pe_wifi_ok e \<or> (\<exists>n. pe_wifi_answers e n)" using assms(5) by simp
  from panel_loop_ends [OF inv this assms(7)] obtain s3 where s3: "panel_inv s3" "pn_indicator s3 = pn_indicator s"
    and s1: "s1 = lift_display (display_service (pe_clicks e)) (indicator_step e (bell_step e s3))" by blast
  have "clock_label (pn_display (indicator_step e (bell_step e s3))) = Some (clock_face h m)"
    using indicator_step_inv [OF bell_step_inv [OF s3(1)], of e e] assms(8-10) s3(2) by (simp add: s1 lift_display_def)
  then have "shown_text Lbl_clock (ds_lv (pn_display s1)) = Some (clock_face h m)"
    using label_service [of Lbl_clock "pe_clicks e"] by (simp add: s1 lift_display_def label_text_def)
  then show ?thesis using face_chars face_bitmaps by blast
qed

text \<open>A sample: a time command half an hour ahead of UTC, and the clock in the same call.\<close>

lemma setup_indicator: "panel_setup M cf pc b fs = Some (evs, srv, s) \<Longrightarrow> pn_indicator s = 0"
  by (auto simp: panel_setup_def setup_socket_def panel_boot_def Let_def split: option.splits prod.splits if_splits)

lemma panel_loop_synced:
  assumes "panel_inv s" and "pe_wifi_ok e \<or> (\<exists>n. pe_wifi_answers e n)"
    and "panel_loop M cf J pc e (srv, s) = Some (evs, srv1, s1)"
    and "heard J (pe_rx e) = Some (Time_sync epoch offset)" and "epoch > 0"
  shows "pn_rtc_synced s1 \<and> pn_offset s1 = offset"
proof -
  from panel_loop_ends [OF assms(1-3)] obtain s2 frame s3 where s2: "panel_inv s2"
    and f: "receive_step J pc e s2 = Some (frame, s3)"
    and s1: "s1 = lift_display (display_service (pe_clicks e)) (indicator_step e (bell_step e s3))" by blast
  have "\<not> ws_ready (pn_ws s2)" using s2 by (simp add: panel_inv_def)
  from receive_step_cases [OF this, of J pc e] assms(4,5) f have "pn_rtc_synced s3 \<and> pn_offset s3 = offset" by auto
  with s1 show ?thesis by (simp add: lift_display_def)
qed

lemma parse_time_sample: "parse_command_frame (command_json ''TIME'') raw = Some (Time_sync 30 30)"
  by (simp add: parse_command_frame_def command_json_def parsers_def parse_time_def or_default_def bytes_of_def)

theorem panel_clock_right_witness:
  "\<exists>evs0 srv s evs1 srv1 s1.
     panel_setup sample_mbedtls sample_config sample_panel_config sample_setup sample_file = Some (evs0, srv, s) \<and>
     panel_loop sample_mbedtls sample_config (command_json ''TIME'') sample_panel_config (sample_loop 2 3000) (srv, s) =
       Some (evs1, srv1, s1) \<and>
     shown_text Lbl_clock (ds_lv (pn_display s1)) = Some (clock_face 22 43)"
proof -
  obtain evs0 srv s where start:
    "panel_setup sample_mbedtls sample_config sample_panel_config sample_setup sample_file = Some (evs0, srv, s)"
    using sample_setup_returns by (metis prod.collapse)
  let ?J = "command_json ''TIME''" and ?e = "sample_loop 2 3000"
  have ident: "cstring (ota_identity sample_config)" by (simp add: sample_config_identity sample_identity_facts)
  have wifi: "pe_wifi_ok ?e \<or> (\<exists>n. pe_wifi_answers ?e n)" by (simp add: sample_loop_def)
  have inv: "panel_inv s" "server_ok sample_mbedtls sample_digest sample_config srv"
    "cal_shows ([], Some (bytes_of ''loading...'')) s"
    using panel_setup_ok [OF start ident, of sample_digest] by simp_all
  obtain evs1 srv1 s1 where loop:
    "panel_loop sample_mbedtls sample_config ?J sample_panel_config ?e (srv, s) = Some (evs1, srv1, s1)"
    using panel_loop_step [OF inv(1,2) sample_streams sample_sizes wifi inv(3), of ?J sample_panel_config] by blast
  have "heard ?J (pe_rx ?e) = Some (Time_sync 30 30)" by (simp add: heard_sample parse_time_sample)
  from panel_loop_synced [OF inv(1) wifi loop this] have synced: "pn_rtc_synced s1" "pn_offset s1 = 30" by simp_all
  have due: "1000 \<le> pe_t_ind ?e - pn_indicator s" using setup_indicator [OF start] by (simp add: sample_loop_def)
  have fields: "clock_fields (pe_time ?e + sint (pn_offset s1) * 60) = (22, 43, 20)"
    by (simp add: synced(2) sample_loop_def clock_fields_def)
  have answers: "\<forall>e \<in> set ([] @ [?e]). pe_wifi_ok e \<or> (\<exists>n. pe_wifi_answers e n)" using wifi by simp
  have run: "panel_run sample_mbedtls sample_config ?J sample_panel_config [] (srv, s) = Some ([], srv, s)" by simp
  from panel_clock_right [OF start ident sample_streams sample_sizes answers run loop due synced(1) fields] start loop
  show ?thesis by blast
qed

end
