(* ===== verification/Panel_Link.thy ===== *)
theory Panel_Link
  imports Panel_Properties
begin

text \<open>
  The connection of the panel to its server over whole runs: when it is dialled, when it is dropped as
  stale, and what the data dot shows.
\<close>

section \<open>The times that matter\<close>

text \<open>The last attempt to connect, and the last arrival of data.\<close>

definition link :: "panel \<Rightarrow> u32 \<times> u32" where
  "link s = (pn_ws_attempt s, pn_data_rx s)"

definition dial_due :: "panel_env \<Rightarrow> u32 \<times> u32 \<Rightarrow> bool" where
  "dial_due e l \<longleftrightarrow> \<not> pe_conn_retry e \<and> 5000 \<le> pe_t_retry e - fst l"

definition fresh :: "u32 \<Rightarrow> u32 \<Rightarrow> bool" where
  "fresh now data \<longleftrightarrow> 0 < data \<and> now - data < 90000"

definition data_heard :: "command option \<Rightarrow> u32 \<Rightarrow> u32 \<Rightarrow> u32" where
  "data_heard c now data = (case c of
     Some (Sysmon_temp t hum) \<Rightarrow> now | Some (Weather t co hi lo) \<Rightarrow> now
   | Some (Weather_day idx l hi lo co) \<Rightarrow> now | Some (Cal_event idx summary time_str all_day) \<Rightarrow> now
   | Some (Time_sync epoch offset) \<Rightarrow> if 0 < epoch then now else data | _ \<Rightarrow> data)"

text \<open>What one call of \<open>loop\<close> makes of them.\<close>

definition loop_link :: "'d json \<Rightarrow> panel_env \<Rightarrow> u32 \<times> u32 \<Rightarrow> u32 \<times> u32" where
  "loop_link J e l =
    (if dial_due e l then pe_t_attempt e else fst l,
     data_heard (heard J (pe_rx e)) (pe_t_frame e) (if dial_due e l \<and> pe_begin e = 0 then pe_t_hello e else snd l))"

definition dials :: "panel_event list \<Rightarrow> bool" where
  "dials evs \<longleftrightarrow> list_ex (\<lambda>ev. case ev of Sock (Ws_begin path) \<Rightarrow> True | _ \<Rightarrow> False) evs"

lemma dials_simps [simp]:
  "dials [] = False" "dials (evs @ evs') = (dials evs \<or> dials evs')" "dials (Sock (Ws_begin path) # evs) = True"
  "dials (Net n # evs) = dials evs" "dials (Rtc_set w # evs) = dials evs" "dials (map Net ns) = False" "dials (map Ota os) = False"
  by (auto simp: dials_def list_ex_iff)

section \<open>The steps\<close>

lemma cal_event_link: "cal_event idx summary time_str all_day s = Some s1 \<Longrightarrow> link s1 = link s"
  by (auto simp: cal_event_def cal_append_def link_def Let_def split: if_splits option.splits)

lemma handle_command_link:
  "handle_command c now s = Some (evs, s1) \<Longrightarrow>
   link s1 = (fst (link s), data_heard (Some c) now (snd (link s))) \<and> \<not> dials evs"
  by (cases c) (auto simp: data_heard_def link_def dest!: cal_event_link split: if_splits)

lemma send_text_dials: "ws_send_text cap tx payload err = (ok, err1, evs) \<Longrightarrow> \<not> dials (map Sock evs)"
  by (auto simp: ws_send_text_def dials_def Let_def list_ex_iff split: if_splits)

lemma send_memory_dials: "ws_send_memory cap now conn me tx w = (evs, w1) \<Longrightarrow> \<not> dials (map Sock evs)"
  by (auto simp: ws_send_memory_def Let_def dest: send_text_dials split: if_splits prod.splits)

lemma retry_step_link:
  assumes "retry_step pc e s = (evs, s1)"
  shows "dials evs = dial_due e (link s) \<and> pn_ws_attempt s1 = (if dial_due e (link s) then pe_t_attempt e else pn_ws_attempt s) \<and>
    pn_data_rx s1 = (if dial_due e (link s) \<and> pe_begin e = 0 then pe_t_hello e else pn_data_rx s)"
  using assms by (auto simp: retry_step_def dial_due_def link_def ws_connect_def Let_def dials_def split: if_splits prod.splits)

lemma receive_step_link:
  assumes "\<not> ws_ready (pn_ws s)" and "receive_step J pc e s = Some (evs, s1)"
  shows "link s1 = (fst (link s), data_heard (heard J (pe_rx e)) (pe_t_frame e) (snd (link s))) \<and> \<not> dials evs"
proof -
  obtain sent w where m: "ws_send_memory (pc_tx_buffer pc) (pe_uptime e) (pe_conn_report e) (pe_stats e) (pe_report e)
      (ws_loop J (pe_rx e) (pn_ws s)) = (sent, w)"
    by (cases "ws_send_memory (pc_tx_buffer pc) (pe_uptime e) (pe_conn_report e) (pe_stats e) (pe_report e)
      (ws_loop J (pe_rx e) (pn_ws s))")
  note quiet = send_memory_dials [OF m] and frame = ws_send_memory_frame [OF m]
  show ?thesis
  proof (cases "heard J (pe_rx e)")
    case None
    with m frame assms quiet show ?thesis
      by (auto simp: receive_step_def ws_loop_heard Let_def data_heard_def link_def)
  next
    case (Some c)
    with m frame assms(2) obtain evs1 where h: "handle_command c (pe_t_frame e) (s\<lparr>pn_ws := w\<lparr>ws_ready := False\<rparr>\<rparr>) = Some (evs1, s1)"
      "evs = map Sock sent @ evs1"
      by (auto simp: receive_step_def ws_loop_heard Let_def)
    from handle_command_link [OF h(1)] h(2) quiet Some show ?thesis by (simp add: link_def)
  qed
qed

lemma link_ends [simp]:
  "link (bell_step e s) = link s" "link (indicator_step e s) = link s" "link (lift_display f s) = link s"
  by (simp_all add: bell_step_def indicator_step_def clock_step_def lift_display_def link_def Let_def split: prod.split)

section \<open>The data dot\<close>

definition dot :: "display \<Rightarrow> u32 option" where
  "dot d = latest (bg_by (Ind_dot Ind_data)) (ds_lv d)"

lemma dot_calls [simp]:
  "list_all (\<lambda>c. bg_by (Ind_dot Ind_data) c = None) cs \<Longrightarrow> dot (do_calls cs s) = dot s"
proof -
  have "list_all (\<lambda>c. bg_by (Ind_dot Ind_data) c = None) cs \<Longrightarrow>
      latest (bg_by (Ind_dot Ind_data)) (rev cs @ lv) = latest (bg_by (Ind_dot Ind_data)) lv" for lv
    by (induction cs arbitrary: lv) (simp_all del: call_defs)
  then show "list_all (\<lambda>c. bg_by (Ind_dot Ind_data) c = None) cs \<Longrightarrow> dot (do_calls cs s) = dot s"
    by (simp add: dot_def del: call_defs)
qed

lemma dot_fields [simp]:
  "dot (s\<lparr>ds_unit_ms := d\<rparr>) = dot s" "dot (s\<lparr>ds_fahrenheit := e\<rparr>) = dot s" "dot (s\<lparr>ds_status_ms := d\<rparr>) = dot s"
  "dot (s\<lparr>ds_close_ms := d\<rparr>) = dot s" "dot (s\<lparr>ds_ip := f\<rparr>) = dot s" "dot (s\<lparr>ds_data_age := d\<rparr>) = dot s"
  "dot (s\<lparr>ds_data_ok := e\<rparr>) = dot s" "dot (s\<lparr>ds_ws_ok := e\<rparr>) = dot s" "dot (s\<lparr>ds_wifi_ok := e\<rparr>) = dot s"
  by (simp_all add: dot_def)

lemma dot_render [simp]:
  "dot (render_today s) = dot s" "dot (render_forecast k s) = dot s" "dot (refresh_popup_content s) = dot s"
  by (simp_all add: render_today_def render_forecast_def refresh_popup_content_def Let_def when_made_other)

lemma dot_click: "dot (handle_click c s) = dot s"
  by (cases c) (simp_all add: unit_toggle_cb_def status_click_cb_def popup_close_cb_def Let_def when_made_other)

lemma dot_keeps [simp]:
  "dot (display_service clicks s) = dot s" "dot (display_update_status_detail x ip y z age s) = dot s"
  "dot (display_update_clock h m s) = dot s"
proof -
  show "dot (display_service clicks s) = dot s"
    unfolding display_service_def by (induction clicks arbitrary: s) (simp_all add: dot_click)
qed (simp_all add: display_update_status_detail_def display_update_clock_def Let_def when_made_other)

lemma dot_indicators: "display_inv s \<Longrightarrow>
  dot (display_update_indicators wifi_ok ws_ok data_ok s) = Some (if data_ok then 0x00CC44 else 0xFFAA00)"
  by (simp add: display_update_indicators_def dot_def when_stored display_inv_screen stored_def)

lemma indicator_dot:
  assumes "panel_inv s" and "1000 \<le> pe_t_ind e - pn_indicator s"
  shows "dot (pn_display (indicator_step e s)) = Some (if fresh (pe_t_data_ok e) (snd (link s)) then 0x00CC44 else 0xFFAA00)"
proof -
  have "display_inv (pn_display s)" using assms(1) by (simp add: panel_inv_def)
  moreover have "dot (pn_display (clock_step e s')) = dot (pn_display s')" for s'
    by (simp add: clock_step_def lift_display_def Let_def split: prod.split)
  moreover have "\<not> pe_t_ind e - pn_indicator s < 1000" using assms(2) by (rule leD)
  ultimately show ?thesis
    by (simp add: indicator_step_def lift_display_def dot_indicators fresh_def link_def DATA_STALE_TIMEOUT_MS_def Let_def)
qed

section \<open>Calls and runs\<close>

lemma panel_loop_link:
  assumes "panel_inv s" and "pe_wifi_ok e \<or> (\<exists>n. pe_wifi_answers e n)"
    and "panel_loop M cf J pc e (srv, s) = Some (evs, srv1, s1)"
  shows "link s1 = loop_link J e (link s) \<and> dials evs = dial_due e (link s) \<and>
    (pe_conn_stale e \<and> 0 < snd (link s) \<and> 90000 < pe_t_stale e - snd (link s) \<longrightarrow> Sock Ws_stop \<in> set evs) \<and>
    (1000 \<le> pe_t_ind e - pn_indicator s \<longrightarrow>
       dot (pn_display s1) = Some (if fresh (pe_t_data_ok e) (snd (link s1)) then 0x00CC44 else 0xFFAA00))"
proof -
  from panel_loop_parts [OF assms] obtain ota net d sock s2 frame s3 where
    r: "retry_step pc e (s\<lparr>pn_display := d\<rparr>) = (sock, s2)" "receive_step J pc e s2 = Some (frame, s3)"
      "panel_inv s2" "panel_inv s3"
    and evs: "evs = Net Watchdog_kick # map Ota ota @ map Net net @ stale_step e s @ sock @ frame"
    and s1: "s1 = lift_display (display_service (pe_clicks e)) (indicator_step e (bell_step e s3))" by blast
  have link_d: "link (s\<lparr>pn_display := d\<rparr>) = link s" by (simp add: link_def)
  have ready: "\<not> ws_ready (pn_ws s2)" using r(3) by (simp add: panel_inv_def)
  note retry = retry_step_link [OF r(1), unfolded link_d] and receive = receive_step_link [OF ready r(2)]
  have "link s3 = loop_link J e (link s)"
    using retry receive by (simp add: loop_link_def) (simp add: link_def)
  then have link: "link s1 = loop_link J e (link s)" "link s3 = link s1" by (simp_all add: s1)
  moreover have "dials (stale_step e s) = False" by (simp add: stale_step_def ws_force_reconnect_def dials_def)
  then have "dials evs = dial_due e (link s)" using retry receive by (simp add: evs)
  moreover have "pe_conn_stale e \<and> 0 < snd (link s) \<and> 90000 < pe_t_stale e - snd (link s) \<longrightarrow> Sock Ws_stop \<in> set evs"
    by (auto simp: evs stale_step_def ws_force_reconnect_def link_def DATA_STALE_TIMEOUT_MS_def)
  moreover have "1000 \<le> pe_t_ind e - pn_indicator s \<longrightarrow>
      dot (pn_display s1) = Some (if fresh (pe_t_data_ok e) (snd (link s1)) then 0x00CC44 else 0xFFAA00)"
  proof
    assume due: "1000 \<le> pe_t_ind e - pn_indicator s"
    have "pn_indicator s2 = pn_indicator s" using retry_step_cases [OF r(1)] by auto
    then have same: "pn_indicator (bell_step e s3) = pn_indicator s"
      using receive_step_indicator [OF r(2)] by (simp add: bell_step_def lift_display_def)
    have "dot (pn_display s1) = dot (pn_display (indicator_step e (bell_step e s3)))" by (simp add: s1 lift_display_def)
    also have "\<dots> = Some (if fresh (pe_t_data_ok e) (snd (link s3)) then 0x00CC44 else 0xFFAA00)"
      using indicator_dot [OF bell_step_inv [OF r(4)], of e e] due same by simp
    finally show "dot (pn_display s1) = Some (if fresh (pe_t_data_ok e) (snd (link s1)) then 0x00CC44 else 0xFFAA00)"
      by (simp only: link(2))
  qed
  ultimately show ?thesis by blast
qed

lemma panel_run_link:
  assumes "panel_inv s" and "server_ok M H cf srv" and "sha_streams M H" and "mbedtls_sizes M"
    and "\<forall>e \<in> set es. pe_wifi_ok e \<or> (\<exists>n. pe_wifi_answers e n)"
    and "panel_run M cf J pc es (srv, s) = Some (evs, srv1, s1)"
  shows "panel_inv s1 \<and> link s1 = fold (loop_link J) es (link s)"
  using assms(1,2,5,6)
proof (induction es arbitrary: s srv evs)
  case (Cons e es)
  have wifi: "pe_wifi_ok e \<or> (\<exists>n. pe_wifi_answers e n)" using Cons.prems(3) by simp
  obtain t where "cal_holds t s" using Cons.prems(1) by (auto simp: panel_inv_def)
  then have "cal_shows (t, cal_label (pn_display s)) s" by (simp add: cal_shows_def)
  from panel_loop_step [OF Cons.prems(1,2) assms(3,4) wifi this, of J pc] obtain evs1 srv2 s2 where
    one: "panel_loop M cf J pc e (srv, s) = Some (evs1, srv2, s2)" "panel_inv s2" "server_ok M H cf srv2" by blast
  from one(1) Cons.prems(4) obtain evs2 where "panel_run M cf J pc es (srv2, s2) = Some (evs2, srv1, s1)" by auto
  with Cons.IH [OF one(2,3)] Cons.prems(3) panel_loop_link [OF Cons.prems(1) wifi one(1)] show ?case by simp
qed simp

lemma panel_setup_link:
  "panel_setup M cf pc b fs = Some (evs, srv, s) \<Longrightarrow>
   link s = (se_t_attempt b, if se_begin b = 0 then se_t_hello b else 0)"
  by (auto simp: panel_setup_def setup_socket_def panel_boot_def ws_connect_def link_def Let_def
      split: option.splits prod.splits if_splits)

section \<open>The connection is kept up and watched\<close>

text \<open>
  (C10) The connection to the server is watched and its attempts are paced. With \<open>l\<close> the times of the
  last attempt to connect and of the last data, kept over any run from start-up, a call of \<open>loop\<close> dials
  exactly when the connection is down and at least 5 seconds passed since the last attempt; it drops
  a connection on which nothing came for more than 90 seconds; and when it refreshes the indicators
  the data dot is green exactly when data came within the last 90 seconds, this call included.
\<close>

theorem panel_link_watched:
  assumes "panel_setup M cf pc b fs = Some (evs0, st0)" and "cstring (ota_identity cf)"
    and "sha_streams M H" and "mbedtls_sizes M"
    and "\<forall>e \<in> set (es @ [e]). pe_wifi_ok e \<or> (\<exists>n. pe_wifi_answers e n)"
    and "panel_run M cf J pc es st0 = Some (evs, srv, s)"
    and "panel_loop M cf J pc e (srv, s) = Some (evs1, srv1, s1)"
    and l: "l = fold (loop_link J) es (se_t_attempt b, if se_begin b = 0 then se_t_hello b else 0)"
  shows "dials evs1 = dial_due e l \<and>
    (pe_conn_stale e \<and> 0 < snd l \<and> 90000 < pe_t_stale e - snd l \<longrightarrow> Sock Ws_stop \<in> set evs1) \<and>
    (1000 \<le> pe_t_ind e - pn_indicator s \<longrightarrow> latest (bg_by (Ind_dot Ind_data)) (ds_lv (pn_display s1)) =
       Some (if fresh (pe_t_data_ok e) (snd (loop_link J e l)) then 0x00CC44 else 0xFFAA00))"
proof -
  obtain srv0 s0 where st0: "st0 = (srv0, s0)" by (cases st0)
  have ok: "panel_inv s0" "server_ok M H cf srv0"
    using panel_setup_ok [of M cf pc b fs evs0 srv0 s0 H] assms(1,2) by (auto simp: st0)
  have wifi: "\<forall>e \<in> set es. pe_wifi_ok e \<or> (\<exists>n. pe_wifi_answers e n)" "pe_wifi_ok e \<or> (\<exists>n. pe_wifi_answers e n)"
    using assms(5) by simp_all
  from panel_run_link [OF ok assms(3,4) wifi(1) assms(6) [unfolded st0]]
  have s: "panel_inv s" "link s = l"
    using panel_setup_link [OF assms(1) [unfolded st0]] l by simp_all
  from panel_loop_link [OF s(1) wifi(2) assms(7), unfolded s(2)] show ?thesis by (simp add: dot_def)
qed

theorem panel_link_watched_witness:
  "\<exists>evs0 srv s evs1 srv1 s1.
     panel_setup sample_mbedtls sample_config sample_panel_config sample_setup sample_file = Some (evs0, srv, s) \<and>
     panel_loop sample_mbedtls sample_config (command_json ''TIME'') sample_panel_config (sample_loop 0 100000) (srv, s) =
       Some (evs1, srv1, s1) \<and> Sock Ws_stop \<in> set evs1"
proof -
  obtain evs0 srv s where start:
    "panel_setup sample_mbedtls sample_config sample_panel_config sample_setup sample_file = Some (evs0, srv, s)"
    using sample_setup_returns by (metis prod.collapse)
  let ?J = "command_json ''TIME''" and ?e = "sample_loop 0 100000"
  have ident: "cstring (ota_identity sample_config)" by (simp add: sample_config_identity sample_identity_facts)
  have wifi: "pe_wifi_ok ?e \<or> (\<exists>n. pe_wifi_answers ?e n)" by (simp add: sample_loop_def)
  have inv: "panel_inv s" "server_ok sample_mbedtls sample_digest sample_config srv"
    "cal_shows ([], Some (bytes_of ''loading...'')) s"
    using panel_setup_ok [OF start ident, of sample_digest] by simp_all
  obtain evs1 srv1 s1 where loop:
    "panel_loop sample_mbedtls sample_config ?J sample_panel_config ?e (srv, s) = Some (evs1, srv1, s1)"
    using panel_loop_step [OF inv(1,2) sample_streams sample_sizes wifi inv(3), of ?J sample_panel_config] by blast
  have answers: "\<forall>e \<in> set ([] @ [?e]). pe_wifi_ok e \<or> (\<exists>n. pe_wifi_answers e n)" using wifi by simp
  have run: "panel_run sample_mbedtls sample_config ?J sample_panel_config [] (srv, s) = Some ([], srv, s)" by simp
  have "Sock Ws_stop \<in> set evs1"
    using panel_link_watched [OF start ident sample_streams sample_sizes answers run loop refl]
    by (simp add: sample_loop_def sample_setup_def)
  with start loop show ?thesis by blast
qed

end
