(* ===== verification/Spec2Isabelle.thy ===== *)
theory Spec2Isabelle
  imports Ota_Guarantees Ota_Server_Liveness Font_Properties Filament_Sketch Panel_Labels Panel_Link
begin

text \<open>
  The firmware of HousePanel: two programs for the Arduino GIGA board with its 800 x 480 display.
  \<open>src/firmware/housepanel-giga\<close> is the wall panel (weather, calendar, clock, doorbell, a status
  popup, drawn with LVGL); \<open>src/firmware/giga-filament\<close> is the simplified display of two sensors,
  which draws its texts itself. Both talk to a server over a WebSocket and both contain the
  update server of \<open>ota_update.cpp\<close> with the receiver of \<open>ota_protocol.cpp\<close>.

  \<^bold>\<open>How the parts interact.\<close> \<open>loop\<close> of \<open>housepanel-giga.ino\<close> first runs \<open>ota_loop\<close>, then keeps WiFi
  (\<open>wifi_connect\<close>) and the socket (\<open>ws_connect\<close>) up, receives at most one frame (\<open>ws_loop\<close>, which
  parses it with \<open>parse_command_frame\<close>), sends a memory report when one is due (\<open>ws_send_memory\<close>,
  \<open>memory_collect\<close>), hands the command to the display, and once a second updates the indicators
  and the clock. \<open>loop\<close> of \<open>giga-filament.ino\<close> does the same with its own frames, touch and screen.
  \<open>ota_loop\<close> feeds the bytes of its one peer to \<open>OtaReceiver\<close>, which stages the image through the
  interface \<open>OtaSink\<close>, implemented by \<open>FileSink\<close>.

  \<^bold>\<open>Conventions.\<close> State is passed explicitly: one record per class, or per file with static
  variables, with a field for each variable. What is outside the repository is an argument: the
  cipher, digest and MAC (\<open>mbedtls\<close>), the documents of ArduinoJson (\<open>json\<close>), the answers of the
  sockets, of WiFi, of the random generator, of the file system and of the touch controller, and the
  readings of \<open>millis\<close> and \<open>time\<close>, each at its own call site (the records \<open>loop_env\<close>, \<open>fil_env\<close>,
  \<open>panel_env\<close> and their parts), so that time may pass between any two of them. What a call does
  outside is its list of events, or of LVGL calls. Integers keep their width as words; the
  differences of clock readings wrap around. An error of the code is a branch of the model; the
  value \<open>None\<close> of a handler means a store outside an array or a call that does not return, and it is
  proved when it does not occur.

  \<^bold>\<open>Theories.\<close>
  \<^item> \<open>Prelude\<close>: word and byte types, C array idioms, wrapping clock differences. \<open>C_Text\<close>: bounded
    strings, decimal output, IEEE single precision with \<open>printf\<close>'s rounding, \<open>gmtime\<close>, the interface
    of ArduinoJson.
  \<^item> Update receiver (\<open>ota_protocol.h\<close>, \<open>ota_protocol.cpp\<close>): \<open>Ota_Primitives\<close> (comparison, hexadecimal,
    counter), \<open>Ota_Receiver\<close> (every method), \<open>Ota_Stream\<close> (decryption, vectors and identity over any
    chunks), \<open>Ota_Session\<close> (verified images, the invariant of a transfer), \<open>Ota_Sink\<close> (the locale
    \<open>ota_sink\<close> for \<open>OtaSink\<close>, and safety proved from its laws), \<open>Ota_Liveness\<close> (\<open>reliable_sink\<close>: a
    valid package is accepted), \<open>File_Sink\<close> (\<open>FileSink\<close>, and the interpretations of both locales on
    it), \<open>Ota_Properties\<close> and \<open>Ota_Guarantees\<close>.
  \<^item> Update server (\<open>ota_update.cpp\<close>): \<open>Ota_Server\<close> (\<open>ota_init\<close>, \<open>ota_loop\<close> and its parts),
    \<open>Ota_Server_Safety\<close> (the invariant), \<open>Ota_Server_Properties\<close>, \<open>Ota_Server_Guarantees\<close>,
    \<open>Ota_Server_Phases\<close> and \<open>Ota_Server_Liveness\<close> (a whole session over the socket, from the status
    query to the installed image, in any pieces).
  \<^item> Fonts: \<open>Smooth_Text\<close> (\<open>findGlyph\<close> and \<open>drawText\<close>), \<open>Lato_Clock\<close>, \<open>Lato_Value\<close>, \<open>Lato_Small\<close> (the data of
    \<open>smooth_font.h\<close>), \<open>Montserrat_Signs\<close>, \<open>Montserrat_Digits\<close> and six more by
    ranges of characters, \<open>Montserrat_Tables\<close> (the data of
    \<open>montserrat_96.c\<close>), \<open>Font_Properties\<close>.
  \<^item> Simplified display (\<open>giga-filament.ino\<close>, \<open>temperature_units.h\<close>, \<open>sensor_freshness.h\<close>):
    \<open>Filament_Panel\<close>, \<open>Filament_Properties\<close> and \<open>Filament_Sketch\<close> (the panel with the update server).
  \<^item> Panel: \<open>Panel_Config\<close> (\<open>config.h\<close>), \<open>Command_Parser\<close>, \<open>Memory_Telemetry\<close>, \<open>Ws_Client\<close>,
    \<open>Wifi_Manager\<close> (with the locale \<open>pump_contract\<close> for the callback of \<open>wifi_connect\<close>),
    \<open>Panel_Display\<close> (the functions of \<open>display.cpp\<close>), \<open>Panel_Init\<close> (\<open>display_init\<close>) with \<open>Panel_Layout\<close>,
    \<open>Display_Properties\<close> (steps and reachable states of the display), \<open>Panel_Loop\<close> (\<open>setup\<close> and \<open>loop\<close>
    of \<open>housepanel-giga.ino\<close>), \<open>Panel_Safety\<close> (its invariant, and the interpretation of
    \<open>pump_contract\<close> on the serviced display), \<open>Panel_Properties\<close>, \<open>Panel_Labels\<close> (the clock)
    and \<open>Panel_Link\<close> (the connection to the server).

  \<^bold>\<open>What the lemmas show.\<close> Updates: only an image that is authentic, fresh, decrypted in counter
  mode, of the right size, vectors and digests, and carrying the panel's identity replaces
  \<open>UPDATE.BIN\<close>, over any sequence of calls; a valid package is installed, and a whole
  session over the socket, in any pieces, ends with the installation; the challenge works once;
  deadlines hold; and the whole panel program keeps that. Fonts: drawing stays inside the arrays and
  covers exactly the glyphs; the tables are consistent. Simplified display: only valid and fresh
  readings are shown, every character drawn has a glyph, frames are whole, taps toggle once,
  reconnections are paced. Panel: commands are parsed totally and within their arrays, messages are
  sent whole or the socket is dropped, reports fit, WiFi waiting returns exactly when it can and
  feeds the watchdog, the widgets tile the screen, labels show the cached values in the chosen unit,
  the popup the whole current status, the doorbell screen is timed, the calendar label is the text
  that was sent, the clock is right, the connection is dialled, dropped and reported by its times, and
  every call of \<open>loop\<close> returns.

  \<^bold>\<open>Bounds.\<close> No model has a fuel argument. Loops over received bytes end with the list of reads, whose end
  stands for the passed deadline of the loop. \<open>wifi_connect\<close> is a \<open>partial_function\<close>; that it returns
  is proved from the answer that ends it. The 60 s, 90 s, 180 s and the other limits are the constants
  of the code.

  \<^bold>\<open>Hypotheses.\<close> \<open>mbedtls_sizes\<close> and \<open>sha_streams\<close> state the documented sizes and the streaming of the
  digest functions; \<open>mbedtls_total\<close> and \<open>file_healthy\<close> (used for the liveness of updates only) say that
  calls succeed. Each has a concrete instance in the witnesses.

  \<^bold>\<open>Not modelled.\<close> LVGL, ArduinoGraphics, Mbed TLS, Mbed OS, the WebSocket, WiFi and JSON libraries are
  not part of the repository; left out are the diagnostics on the serial line, the preprocessor
  selections of \<open>housepanel_lv_conf.h\<close>, the Python services and tools, the deployment files and the
  test stubs. \<open>lv_obj_has_flag\<close> is read off the calls made so far, as its documentation says.
\<close>

end
